(* ===== verification/Prelude.thy ===== *)
theory Prelude
  imports Main "HOL-Library.Word"
begin

text \<open>
  Shared vocabulary of the development: the machine types of the C++ code, the result type of
  code that throws, checked access to byte vectors, and the generic lemmas on lists and words
  the components use. Facts every component proof needs are declared \<open>[simp]\<close>; the facts about
  results of fallible code are collected in \<open>result_simps\<close>.
\<close>

unbundle bit_operations_syntax

named_theorems result_simps \<open>equations that take a successful fallible computation apart\<close>

type_synonym u8 = "8 word"
type_synonym u16 = "16 word"
type_synonym u32 = "32 word"
type_synonym u64 = "64 word"
type_synonym bytes = "u8 list"

subsection \<open>Code that throws\<close>

text \<open>
  A thrown \<open>std::runtime_error\<close> is \<open>Inl (Throw message)\<close>. \<open>OutOfBounds\<close> is no exception of the
  code: it marks an unchecked \<open>operator[]\<close> outside its vector, which is undefined behaviour in
  C++. The safety theorems show that it never comes out.
\<close>

datatype fault = Throw string | OutOfBounds

definition bindE :: "'e + 'a \<Rightarrow> ('a \<Rightarrow> 'e + 'b) \<Rightarrow> 'e + 'b" where
  "bindE m f = (case m of Inl e \<Rightarrow> Inl e | Inr x \<Rightarrow> f x)"

lemma bindE_simps [simp]:
  "bindE (Inl e) f = Inl e"
  "bindE (Inr x) f = f x"
  by (simp_all add: bindE_def)

lemma bindE_eq_Inr [result_simps]: "bindE m f = Inr y \<longleftrightarrow> (\<exists>x. m = Inr x \<and> f x = Inr y)"
  by (cases m) simp_all

lemma bindE_eq_Inl: "bindE m f = Inl e \<longleftrightarrow> m = Inl e \<or> (\<exists>x. m = Inr x \<and> f x = Inl e)"
  by (cases m) simp_all

lemma if_Inl_eq_Inr [result_simps]:
  "(if b then Inl e else r) = Inr y \<longleftrightarrow> \<not> b \<and> r = Inr y"
  by simp

lemma bindE_cong [fundef_cong]:
  "m = m' \<Longrightarrow> (\<And>x. m' = Inr x \<Longrightarrow> f x = f' x) \<Longrightarrow> bindE m f = bindE m' f'"
  by (cases m') simp_all

fun mapE :: "('a \<Rightarrow> 'e + 'b) \<Rightarrow> 'a list \<Rightarrow> 'e + 'b list" where
  "mapE f [] = Inr []"
| "mapE f (x # xs) = bindE (f x) (\<lambda>y. bindE (mapE f xs) (\<lambda>ys. Inr (y # ys)))"

lemma mapE_eq_Inr: "mapE f xs = Inr ys \<longleftrightarrow> list_all2 (\<lambda>x y. f x = Inr y) xs ys"
  by (induction xs arbitrary: ys) (auto simp: result_simps list_all2_Cons1)

lemma mapE_eq_InlD: "mapE f xs = Inl e \<Longrightarrow> \<exists>x \<in> set xs. f x = Inl e"
  by (induction xs) (auto simp: bindE_eq_Inl)

subsection \<open>Checked element access\<close>

definition at :: "'a list \<Rightarrow> nat \<Rightarrow> fault + 'a" where
  "at xs i = (if i < length xs then Inr (xs ! i) else Inl OutOfBounds)"

lemma at_eq_Inr [result_simps]: "at xs i = Inr x \<longleftrightarrow> i < length xs \<and> x = xs ! i"
  by (auto simp: at_def)

lemma at_eq_Inl [simp]: "at xs i = Inl e \<longleftrightarrow> \<not> i < length xs \<and> e = OutOfBounds"
  by (auto simp: at_def)

subsection \<open>Words read as numbers\<close>

lemma unat_u8_less [simp]: "unat (b :: u8) < 256"
  using unsigned_less [of b, where ?'a = nat] by simp

lemma unat_u16_less [simp]: "unat (b :: u16) < 65536"
  using unsigned_less [of b, where ?'a = nat] by simp

lemma unat_u32_less [simp]: "unat (b :: u32) < 4294967296"
  using unsigned_less [of b, where ?'a = nat] by simp

lemma unat_u8_div16 [simp]: "unat (b :: u8) div 16 < 16"
  using unat_u8_less [of b] by linarith

end
