(* ===== verification/Bytes.thy ===== *)
theory Bytes
  imports Prelude
begin

text \<open>
  Byte-level helpers of \<open>src/src/pe_sidecar.cpp\<close>: the bounds-checked little-endian readers \<open>u16\<close>
  and \<open>u32\<close>, the writers \<open>append_u32\<close> and \<open>set_u32\<close>, the LEB128 writers and \<open>align_up\<close>, with
  the round trips between writers and readers.
\<close>

subsection \<open>Little-endian readers\<close>

definition u16 :: "bytes \<Rightarrow> nat \<Rightarrow> fault + u16" where
  "u16 data offset =
     (if offset > length data \<or> length data - offset < 2
      then Inl (Throw ''truncated 16-bit field'')
      else Inr (ucast (data ! offset) OR push_bit 8 (ucast (data ! (offset + 1)))))"

definition u32 :: "bytes \<Rightarrow> nat \<Rightarrow> fault + u32" where
  "u32 data offset =
     (if offset > length data \<or> length data - offset < 4
      then Inl (Throw ''truncated 32-bit field'')
      else Inr (ucast (data ! offset) OR
                push_bit 8 (ucast (data ! (offset + 1))) OR
                push_bit 16 (ucast (data ! (offset + 2))) OR
                push_bit 24 (ucast (data ! (offset + 3)))))"

text \<open>The value of a field widened to a number, as the 64-bit arithmetic of the code uses it.\<close>

definition rd16 :: "bytes \<Rightarrow> nat \<Rightarrow> fault + nat" where
  "rd16 data offset = bindE (u16 data offset) (\<lambda>w. Inr (unat w))"

definition rd32 :: "bytes \<Rightarrow> nat \<Rightarrow> fault + nat" where
  "rd32 data offset = bindE (u32 data offset) (\<lambda>w. Inr (unat w))"

lemma rd16_eq_InrD: "rd16 data off = Inr n \<Longrightarrow> n < 65536 \<and> off + 2 \<le> length data"
  by (auto simp: rd16_def u16_def result_simps)

lemma rd32_eq_InrD: "rd32 data off = Inr n \<Longrightarrow> n < 4294967296 \<and> off + 4 \<le> length data"
  by (auto simp: rd32_def u32_def result_simps)

lemma rd_not_OutOfBounds [simp]:
  "u16 data off \<noteq> Inl OutOfBounds"
  "u32 data off \<noteq> Inl OutOfBounds"
  "rd16 data off \<noteq> Inl OutOfBounds"
  "rd32 data off \<noteq> Inl OutOfBounds"
  by (simp_all add: rd16_def rd32_def u16_def u32_def bindE_eq_Inl)

lemma rd16_total: "off + 2 \<le> length data \<Longrightarrow> \<exists>n. rd16 data off = Inr n"
  by (simp add: rd16_def u16_def)

lemma rd32_total: "off + 4 \<le> length data \<Longrightarrow> \<exists>n. rd32 data off = Inr n"
  by (simp add: rd32_def u32_def)

subsection \<open>Little-endian writers\<close>

definition le_bytes :: "u32 \<Rightarrow> bytes" where
  "le_bytes value =
     [ucast (value AND 0xff), ucast (drop_bit 8 value AND 0xff),
      ucast (drop_bit 16 value AND 0xff), ucast (drop_bit 24 value AND 0xff)]"

definition append_u32 :: "bytes \<Rightarrow> u32 \<Rightarrow> bytes" where
  "append_u32 out value = out @ le_bytes value"

text \<open>\<open>set_u32\<close> overwrites four bytes through \<open>operator[]\<close>.\<close>

definition set_u32 :: "bytes \<Rightarrow> nat \<Rightarrow> u32 \<Rightarrow> fault + bytes" where
  "set_u32 out offset value =
     (if offset + 4 \<le> length out
      then Inr (take offset out @ le_bytes value @ drop (offset + 4) out)
      else Inl OutOfBounds)"

lemma length_le_bytes [simp]: "length (le_bytes v) = 4"
  by (simp add: le_bytes_def)

lemma length_append_u32 [simp]: "length (append_u32 out v) = length out + 4"
  by (simp add: append_u32_def)

lemma nth_middle:
  "k < length ys \<Longrightarrow> (xs @ ys @ zs) ! (length xs + k) = ys ! k"
  by (simp add: nth_append)

lemma u32_at_append:
  "u32 (pre @ [a, b, c, d] @ rest) (length pre) =
     Inr (ucast a OR push_bit 8 (ucast b) OR push_bit 16 (ucast c) OR push_bit 24 (ucast d))"
  using nth_middle [of 0 "[a, b, c, d]" pre rest] nth_middle [of 1 "[a, b, c, d]" pre rest]
    nth_middle [of 2 "[a, b, c, d]" pre rest] nth_middle [of 3 "[a, b, c, d]" pre rest]
  by (simp add: u32_def)

lemma and_255_eq_take_bit: "v AND 255 = take_bit 8 (v :: 'a::len word)"
proof -
  have "(255 :: 'a word) = mask 8"
    by (simp add: mask_eq_exp_minus_1)
  then show ?thesis
    by (simp add: take_bit_eq_mask)
qed

lemma le_bytes_join:
  "(ucast (ucast (v AND 0xff) :: u8) :: u32) OR
     push_bit 8 (ucast (ucast (drop_bit 8 v AND 0xff) :: u8)) OR
     push_bit 16 (ucast (ucast (drop_bit 16 v AND 0xff) :: u8)) OR
     push_bit 24 (ucast (ucast (drop_bit 24 v AND 0xff) :: u8)) = (v :: u32)"
proof (rule bit_word_eqI)
  fix n assume "n < LENGTH(32)"
  then consider "n < 8" | "8 \<le> n \<and> n < 16" | "16 \<le> n \<and> n < 24" | "24 \<le> n \<and> n < 32"
    by force
  then show "bit ((ucast (ucast (v AND 0xff) :: u8) :: u32) OR
     push_bit 8 (ucast (ucast (drop_bit 8 v AND 0xff) :: u8)) OR
     push_bit 16 (ucast (ucast (drop_bit 16 v AND 0xff) :: u8)) OR
     push_bit 24 (ucast (ucast (drop_bit 24 v AND 0xff) :: u8))) n = bit v n"
    unfolding and_255_eq_take_bit
    by cases (auto simp: bit_simps)
qed

lemma u32_le_bytes [simp]: "u32 (pre @ le_bytes v @ rest) (length pre) = Inr v"
  unfolding le_bytes_def
  by (subst u32_at_append) (simp only: le_bytes_join)

theorem u32_append_u32: "u32 (append_u32 out v @ rest) (length out) = Inr v"
  by (simp add: append_u32_def)

lemma set_u32_eq_InrD:
  "set_u32 out off v = Inr out' \<Longrightarrow> length out' = length out \<and> u32 out' off = Inr v"
  using u32_le_bytes [of "take off out" v "drop (off + 4) out"]
  by (auto simp: set_u32_def split: if_splits)

subsection \<open>LEB128\<close>

text \<open>
  \<open>append_uleb\<close> and \<open>append_sleb\<close> are do-while loops over a value that is shifted right by seven
  bits; the signed one shifts arithmetically.
\<close>

function append_uleb :: "bytes \<Rightarrow> u64 \<Rightarrow> bytes" where
  "append_uleb out v =
     (let byte = (ucast (v AND 0x7f) :: u8); v' = drop_bit 7 v in
      if v' \<noteq> 0 then append_uleb (out @ [byte OR 0x80]) v' else out @ [byte])"
  by pat_completeness auto
termination
proof (relation "measure (\<lambda>(out, v). unat v)")
  fix out :: bytes and v :: u64 and byte :: u8 and v' :: u64
  assume v': "v' = drop_bit 7 v" and nz: "v' \<noteq> 0"
  have "unat v' = unat v div 128"
    by (simp only: v' unat_drop_bit_eq) (simp add: drop_bit_eq_div)
  moreover have "unat v' \<noteq> 0"
    using nz by (simp add: unat_eq_0)
  ultimately have "unat v' < unat v"
    by simp
  then show "((out @ [byte OR 0x80], v'), (out, v)) \<in> measure (\<lambda>(out, v). unat v)"
    by simp
qed auto

declare append_uleb.simps [simp del]

text \<open>What the loops look at, in arithmetic terms.\<close>

lemma and_127_eq_take_bit: "v AND 127 = take_bit 7 (v :: 'a::len word)"
proof -
  have "(127 :: 'a word) = mask 7"
    by (simp add: mask_eq_exp_minus_1)
  then show ?thesis
    by (simp add: take_bit_eq_mask)
qed

lemma unat_low7: "unat (ucast (v AND 0x7f) :: u8) = unat (v :: u64) mod 128"
proof -
  have "unat (ucast (take_bit 7 v) :: u8) = take_bit 8 (take_bit 7 (unat v))"
    by (simp only: unsigned_ucast_eq unsigned_take_bit_eq) simp
  also have "\<dots> = unat v mod 128"
    by (simp add: take_bit_eq_mod)
  finally show ?thesis
    by (simp only: and_127_eq_take_bit)
qed

lemma low7_less: "unat (ucast (v AND 0x7f) :: u8) < 128" for v :: u64
  by (simp add: unat_low7)

lemma unat_or_128: "unat (b :: u8) < 128 \<Longrightarrow> unat (b OR 0x80) = unat b + 128"
proof -
  assume less: "unat b < 128"
  then have "even (unat b div 2 ^ 7)"
    by simp
  then have "\<not> bit (unat b) 7"
    by (simp only: bit_iff_odd not_not)
  then have "b AND 2 ^ 7 = 0"
    by (simp only: and_exp_eq_0_iff_not_bit) (simp add: bit_unsigned_iff)
  then have "b + 128 = b OR 128"
    by (intro disjunctive_add_eq_or) simp
  moreover have "unat (b + 128) = unat b + 128"
    using less by (simp add: unat_word_ariths)
  ultimately show ?thesis
    by simp
qed

lemma mod_128_less_64: "x mod 128 < 64 \<longleftrightarrow> even (x div 64)" for x :: int
proof -
  have eq: "x mod 128 = 64 * (x div 64 mod 2) + x mod 64"
    using zmod_zmult2_eq [of 2 x 64] by simp
  have bounds: "0 \<le> x mod 64" "x mod 64 < 64"
    by simp_all
  show ?thesis
  proof (cases "even (x div 64)")
    case True
    then have "x div 64 mod 2 = 0"
      by (rule dvd_imp_mod_0)
    with eq bounds True show ?thesis
      by linarith
  next
    case False
    then have "x div 64 mod 2 = 1"
      by (rule odd_iff_mod_2_eq_one [THEN iffD1])
    with eq bounds False show ?thesis
      by linarith
  qed
qed

lemma low7_bit6: "(ucast (v AND 0x7f) :: u8) AND 0x40 = 0 \<longleftrightarrow> sint (v :: u64) mod 128 < 64"
proof -
  have "(ucast (v AND 0x7f) :: u8) AND 0x40 = 0 \<longleftrightarrow> \<not> bit (ucast (take_bit 7 v) :: u8) 6"
    using and_exp_eq_0_iff_not_bit [of "ucast (take_bit 7 v) :: u8" 6]
    by (simp add: and_127_eq_take_bit)
  also have "\<dots> \<longleftrightarrow> \<not> bit (sint v) 6"
    by (simp add: bit_simps bit_sint_iff)
  also have "\<dots> \<longleftrightarrow> even (sint v div 64)"
    by (simp add: bit_iff_odd)
  finally show ?thesis
    by (simp only: mod_128_less_64)
qed

lemma sint_shift7: "sint (signed_drop_bit 7 v) = sint (v :: u64) div 128"
  by (simp only: sint_signed_drop_bit_eq) (simp add: drop_bit_eq_div)

lemma shift7_eq_0: "signed_drop_bit 7 (v :: u64) = 0 \<longleftrightarrow> sint v div 128 = 0"
  by (metis sint_shift7 sint_0 signed_word_eqI)

lemma shift7_eq_minus1: "signed_drop_bit 7 (v :: u64) = - 1 \<longleftrightarrow> sint v div 128 = - 1"
  by (metis sint_shift7 sint_n1 signed_word_eqI)

text \<open>The signed loop stops exactly at the values that one signed byte of seven bits holds.\<close>

definition sleb_stop :: "int \<Rightarrow> bool" where
  "sleb_stop x \<longleftrightarrow> - 64 \<le> x \<and> x < 64"

lemma sleb_stop_iff:
  "sleb_stop x \<longleftrightarrow> x div 128 = 0 \<and> x mod 128 < 64 \<or> x div 128 = - 1 \<and> \<not> x mod 128 < 64"
proof -
  have "x = 128 * (x div 128) + x mod 128" and "0 \<le> x mod 128" and "x mod 128 < 128"
    by simp_all
  then show ?thesis
    unfolding sleb_stop_def by linarith
qed

function append_sleb :: "bytes \<Rightarrow> u64 \<Rightarrow> bytes" where
  "append_sleb out v =
     (let byte = (ucast (v AND 0x7f) :: u8); v' = signed_drop_bit 7 v;
          more = (\<not> ((v' = 0 \<and> byte AND 0x40 = 0) \<or> (v' = - 1 \<and> byte AND 0x40 \<noteq> 0))) in
      if more then append_sleb (out @ [byte OR 0x80]) v' else out @ [byte])"
  by pat_completeness auto
termination
proof (relation "measure (\<lambda>(out, v). nat (if 0 \<le> sint v then sint v else - sint v - 1))")
  fix out :: bytes and v v' :: u64 and byte :: u8 and more :: bool
  assume byte: "byte = ucast (v AND 0x7f)" and v': "v' = signed_drop_bit 7 v"
    and more: "more = (\<not> (v' = 0 \<and> byte AND 0x40 = 0 \<or> v' = - 1 \<and> byte AND 0x40 \<noteq> 0))" "more"
  have "\<not> sleb_stop (sint v)"
    using more by (simp add: sleb_stop_iff byte v' low7_bit6 shift7_eq_0 shift7_eq_minus1)
  then have "sint v < - 64 \<or> 64 \<le> sint v"
    by (auto simp: sleb_stop_def)
  then show "((out @ [byte OR 0x80], v'), (out, v))
      \<in> measure (\<lambda>(out, v). nat (if 0 \<le> sint v then sint v else - sint v - 1))"
    by (simp add: v' sint_shift7 del: ) linarith
qed auto

declare append_sleb.simps [simp del]

subsection \<open>Reading LEB128\<close>

text \<open>
  The readers every DWARF consumer has: seven bits per byte, least significant group first, the
  high bit set on all bytes but the last, the sign in bit 6 of the last byte.
\<close>

fun read_uleb :: "bytes \<Rightarrow> (nat \<times> bytes) option" where
  "read_uleb [] = None"
| "read_uleb (b # bs) =
     (if unat b < 128 then Some (unat b, bs)
      else case read_uleb bs of
             None \<Rightarrow> None
           | Some (n, rest) \<Rightarrow> Some (unat b - 128 + 128 * n, rest))"

fun read_sleb :: "bytes \<Rightarrow> (int \<times> bytes) option" where
  "read_sleb [] = None"
| "read_sleb (b # bs) =
     (if unat b < 128 then Some (if unat b < 64 then int (unat b) else int (unat b) - 128, bs)
      else case read_sleb bs of
             None \<Rightarrow> None
           | Some (n, rest) \<Rightarrow> Some (int (unat b) - 128 + 128 * n, rest))"

text \<open>The writers append: what they add does not depend on what is there.\<close>

abbreviation uleb :: "u64 \<Rightarrow> bytes" where
  "uleb v \<equiv> append_uleb [] v"

abbreviation sleb :: "u64 \<Rightarrow> bytes" where
  "sleb v \<equiv> append_sleb [] v"

lemma append_uleb_append: "append_uleb (xs @ ys) v = xs @ append_uleb ys v"
proof (induction ys v rule: append_uleb.induct)
  case (1 out v)
  show ?case
    using 1 by (simp add: append_uleb.simps [of "xs @ out" v] append_uleb.simps [of out v] Let_def)
qed

lemma append_sleb_append: "append_sleb (xs @ ys) v = xs @ append_sleb ys v"
proof (induction ys v rule: append_sleb.induct)
  case (1 out v)
  show ?case
    using 1 by (simp add: append_sleb.simps [of "xs @ out" v] append_sleb.simps [of out v] Let_def)
qed

lemma append_uleb_eq: "append_uleb out v = out @ uleb v"
  using append_uleb_append [of out "[]" v] by simp

lemma append_sleb_eq: "append_sleb out v = out @ sleb v"
  using append_sleb_append [of out "[]" v] by simp

lemma uleb_rec:
  "uleb v = (let byte = (ucast (v AND 0x7f) :: u8); v' = drop_bit 7 v in
     if v' \<noteq> 0 then (byte OR 0x80) # uleb v' else [byte])"
  by (simp add: append_uleb.simps [of "[]" v] append_uleb_eq [of "[_]"] Let_def)

lemma sleb_more_iff:
  "(\<not> ((signed_drop_bit 7 v = 0 \<and> (ucast (v AND 0x7f) :: u8) AND 0x40 = 0) \<or>
      (signed_drop_bit 7 v = - 1 \<and> (ucast (v AND 0x7f) :: u8) AND 0x40 \<noteq> 0)))
   \<longleftrightarrow> \<not> sleb_stop (sint (v :: u64))"
  by (simp only: sleb_stop_iff low7_bit6 shift7_eq_0 shift7_eq_minus1)

lemma sleb_rec:
  "sleb v = (let byte = (ucast (v AND 0x7f) :: u8); v' = signed_drop_bit 7 v in
     if sleb_stop (sint v) then [byte] else (byte OR 0x80) # sleb v')"
  by (subst append_sleb.simps) (simp only: Let_def sleb_more_iff append_Nil append_sleb_eq [of "[_]"] append_Cons if_not_P if_P split: if_split, simp)

lemma uint_low7: "int (unat (ucast (v AND 0x7f) :: u8)) = sint v mod 128" for v :: u64
proof -
  have "sint v mod 128 = take_bit 7 (sint v)"
    by (simp add: take_bit_eq_mod)
  also have "\<dots> = take_bit 7 (uint v)"
    by (rule bit_eqI) (auto simp: bit_simps bit_sint_iff)
  also have "\<dots> = int (unat v mod 128)"
    by (simp add: take_bit_eq_mod zmod_int)
  finally show ?thesis
    by (simp only: unat_low7)
qed

lemma read_uleb_uleb: "read_uleb (uleb v @ rest) = Some (unat v, rest)"
proof (induction "unat v" arbitrary: v rule: less_induct)
  case less
  let ?b = "ucast (v AND 0x7f) :: u8" and ?v' = "drop_bit 7 v"
  have v': "unat ?v' = unat v div 128"
    by (simp only: unat_drop_bit_eq) (simp add: drop_bit_eq_div)
  show ?case
  proof (cases "?v' = 0")
    case True
    then have "unat v div 128 = 0"
      using v' by simp
    then have "unat ?b = unat v"
      by (simp only: unat_low7) simp
    with True show ?thesis
      using low7_less [of v] by (simp add: uleb_rec [of v])
  next
    case False
    then have "unat ?v' < unat v"
      using v' by (metis One_nat_def div_less_dividend numeral_less_iff one_less_numeral_iff
          semiring_norm(76) unat_eq_0 zero_less_iff_neq_zero div_0 gr0I)
    then have IH: "read_uleb (uleb ?v' @ rest) = Some (unat ?v', rest)"
      by (rule less.hyps)
    have "unat v = unat v mod 128 + 128 * unat ?v'"
      using v' by simp
    with False IH show ?thesis
      by (simp add: uleb_rec [of v] unat_or_128 low7_less unat_low7)
  qed
qed

lemma sleb_stop_value:
  "x = 128 * q + r \<Longrightarrow> (q = 0 \<and> r < 64 \<or> q = - 1 \<and> \<not> r < 64) \<Longrightarrow>
     x = (if r < 64 then r else r - 128)" for x :: int
  by auto

lemma read_sleb_sleb: "read_sleb (sleb v @ rest) = Some (sint v, rest)"
proof (induction "nat (if 0 \<le> sint v then sint v else - sint v - 1)" arbitrary: v rule: less_induct)
  case less
  let ?b = "ucast (v AND 0x7f) :: u8" and ?v' = "signed_drop_bit 7 v"
  have v': "sint ?v' = sint v div 128"
    by (rule sint_shift7)
  have split: "sint v = 128 * (sint v div 128) + sint v mod 128" "0 \<le> sint v mod 128" "sint v mod 128 < 128"
    by simp_all
  have b: "int (unat ?b) = sint v mod 128"
    by (rule uint_low7)
  show ?case
  proof (cases "sleb_stop (sint v)")
    case True
    with split(1) have "sint v = (if sint v mod 128 < 64 then sint v mod 128 else sint v mod 128 - 128)"
      unfolding sleb_stop_iff by (rule sleb_stop_value)
    then have "sint v = (if unat ?b < 64 then int (unat ?b) else int (unat ?b) - 128)"
      unfolding b [symmetric] by (simp only: of_nat_less_numeral_iff)
    with True show ?thesis
      by (simp add: sleb_rec [of v] low7_less)
  next
    case False
    then have "sint v < - 64 \<or> 64 \<le> sint v"
      by (auto simp: sleb_stop_def)
    then have "nat (if 0 \<le> sint ?v' then sint ?v' else - sint ?v' - 1)
        < nat (if 0 \<le> sint v then sint v else - sint v - 1)"
      unfolding v' by auto
    then have IH: "read_sleb (sleb ?v' @ rest) = Some (sint ?v', rest)"
      by (rule less.hyps)
    have "sint v = int (unat ?b) + 128 * sint ?v'"
      using split b v' by linarith
    with False IH show ?thesis
      by (simp add: sleb_rec [of v] unat_or_128 low7_less)
  qed
qed

subsection \<open>Self-delimiting codes\<close>

text \<open>
  The interface the encoders of the sidecar share: what a writer emits is read back whatever
  follows it. A sequence of such codes is then read back item by item.
\<close>

locale codec =
  fixes enc :: "'a \<Rightarrow> bytes"
    and dec :: "bytes \<Rightarrow> ('a \<times> bytes) option"
    and valid :: "'a \<Rightarrow> bool"
  assumes dec_enc: "valid x \<Longrightarrow> dec (enc x @ rest) = Some (x, rest)"
begin

lemma enc_inject: "valid x \<Longrightarrow> valid y \<Longrightarrow> enc x @ r = enc y @ s \<Longrightarrow> x = y \<and> r = s"
  by (metis dec_enc option.inject prod.inject)

lemma concat_enc_inject:
  assumes "list_all valid xs" and "list_all valid ys" and "length xs = length ys"
    and "concat (map enc xs) @ r = concat (map enc ys) @ s"
  shows "xs = ys \<and> r = s"
  using assms(3,1,2,4)
proof (induction xs ys rule: list_induct2)
  case (Cons x xs y ys)
  have "enc x @ concat (map enc xs) @ r = enc y @ concat (map enc ys) @ s"
    using Cons.prems(3) by (simp only: list.map concat.simps append_assoc)
  then have "x = y \<and> concat (map enc xs) @ r = concat (map enc ys) @ s"
    using Cons.prems(1,2) by (intro enc_inject) simp_all
  moreover from this have "xs = ys \<and> r = s"
    using Cons.prems(1,2) by (intro Cons.IH) simp_all
  ultimately show ?case
    by simp
qed simp

end

fun read_many :: "(bytes \<Rightarrow> ('a \<times> bytes) option) \<Rightarrow> nat \<Rightarrow> bytes \<Rightarrow> ('a list \<times> bytes) option" where
  "read_many dec 0 bs = Some ([], bs)"
| "read_many dec (Suc n) bs =
     (case dec bs of
        None \<Rightarrow> None
      | Some (x, rest) \<Rightarrow>
          (case read_many dec n rest of
             None \<Rightarrow> None
           | Some (xs, rest') \<Rightarrow> Some (x # xs, rest')))"

context codec
begin

lemma read_many_enc:
  "list_all valid xs \<Longrightarrow> read_many dec (length xs) (concat (map enc xs) @ rest) = Some (xs, rest)"
  by (induction xs) (simp_all add: dec_enc)

end

definition read_u64 :: "bytes \<Rightarrow> (u64 \<times> bytes) option" where
  "read_u64 bs = map_option (\<lambda>(n, rest). (word_of_nat n, rest)) (read_uleb bs)"

definition read_s64 :: "bytes \<Rightarrow> (u64 \<times> bytes) option" where
  "read_s64 bs = map_option (\<lambda>(n, rest). (word_of_int n, rest)) (read_sleb bs)"

definition read_u32 :: "bytes \<Rightarrow> (u32 \<times> bytes) option" where
  "read_u32 bs = (case u32 bs 0 of Inl _ \<Rightarrow> None | Inr v \<Rightarrow> Some (v, drop 4 bs))"

interpretation uleb_code: codec uleb read_u64 "\<lambda>_. True"
  by unfold_locales (simp add: read_u64_def read_uleb_uleb)

interpretation sleb_code: codec sleb read_s64 "\<lambda>_. True"
  by unfold_locales (simp add: read_s64_def read_sleb_sleb)

interpretation u32_code: codec le_bytes read_u32 "\<lambda>_. True"
  using u32_le_bytes [of "[]"] by unfold_locales (simp add: read_u32_def)

subsection \<open>Alignment\<close>

definition align_up :: "u64 \<Rightarrow> u64 \<Rightarrow> fault + u64" where
  "align_up v alignment =
     (if v > - 1 - (alignment - 1) then Inl (Throw ''ELF layout overflow'')
      else Inr ((v + alignment - 1) AND NOT (alignment - 1)))"

lemma and_not_mask: "x AND NOT (mask k) = x - take_bit k x" for x :: "'a::len word"
proof -
  have "x = (x AND NOT (mask k)) OR (x AND mask k)"
    by (rule bit_eqI) (auto simp: bit_simps)
  also have "\<dots> = (x AND NOT (mask k)) + (x AND mask k)"
    by (rule disjunctive_add_eq_or [symmetric]) (rule bit_eqI, auto simp: bit_simps)
  finally show ?thesis
    by (simp add: take_bit_eq_mask algebra_simps)
qed

lemma unat_and_not_mask: "unat (x AND NOT (mask k)) = unat x - unat x mod 2 ^ k" for x :: "'a::len word"
proof -
  have "unat (take_bit k x) = unat x mod 2 ^ k"
    by (simp only: unsigned_take_bit_eq) (simp add: take_bit_eq_mod)
  moreover from this have "take_bit k x \<le> x"
    by (simp add: word_le_nat_alt)
  ultimately show ?thesis
    by (simp add: and_not_mask unat_sub)
qed

end
