(* ===== verification/Sidecar_Pe.thy ===== *)
theory Sidecar_Pe
  imports Bytes
begin

text \<open>
  The PE reader of \<open>src/src/pe_sidecar.cpp\<close> up to the unwind data: the checks of \<open>parse_pe\<close> on
  headers, sections and data directories, the virtual image it lays out, the exception directory,
  the export directory and the source fingerprint. Values of type \<open>uint32_t\<close> that the code widens
  to \<open>uint64_t\<close> before it adds are numbers here: all sums stay far below \<open>2 ^ 64\<close>. The text of a
  thrown message is kept without the numbers the code appends to it.
\<close>

subsection \<open>Data\<close>

definition kPageSize :: nat where "kPageSize = 4096"
definition kMaxImageSize :: nat where "kMaxImageSize = 0x80000000"

definition ascii :: "string \<Rightarrow> bytes" where
  "ascii = map of_char"

record range =
  r_begin :: nat
  r_end :: nat
  r_name :: bytes

record pe_section =
  s_rva :: nat
  s_extent :: nat
  s_raw_offset :: nat
  s_raw_size :: nat
  s_flags :: nat
  s_name :: bytes

record runtime_function =
  f_begin :: nat
  f_end :: nat
  f_unwind :: nat

record pe_export =
  x_name :: bytes
  x_rva :: nat

record pe_header =
  h_optional :: nat
  h_section_table :: nat
  h_section_count :: nat
  h_image_size :: nat
  h_headers_size :: nat
  h_directories :: nat

subsection \<open>Range checks\<close>

definition contained :: "nat \<Rightarrow> nat \<Rightarrow> range list \<Rightarrow> bool" where
  "contained rva len ranges = list_ex (\<lambda>r. rva \<ge> r_begin r \<and> rva + len \<le> r_end r) ranges"

definition require_range :: "nat \<Rightarrow> nat \<Rightarrow> nat \<Rightarrow> range list \<Rightarrow> string \<Rightarrow> fault + unit" where
  "require_range rva len image_size ranges description =
     (if rva > image_size \<or> len > image_size - rva
      then Inl (Throw (description @ '' is outside SizeOfImage''))
      else if len \<noteq> 0 \<and> \<not> contained rva len ranges
      then Inl (Throw (description @ '' is outside mapped PE data''))
      else Inr ())"

lemma require_range_eq_Inr [result_simps]:
  "require_range rva len n rs d = Inr u \<longleftrightarrow>
     rva + len \<le> n \<and> (len = 0 \<or> contained rva len rs)"
  by (auto simp: require_range_def)

lemma require_range_not_OutOfBounds [simp]: "require_range rva len n rs d \<noteq> Inl OutOfBounds"
  by (simp add: require_range_def)

lemma contained_iff:
  "contained rva len rs \<longleftrightarrow> (\<exists>r \<in> set rs. r_begin r \<le> rva \<and> rva + len \<le> r_end r)"
  by (auto simp: contained_def list_ex_iff)

subsection \<open>Headers\<close>

definition parse_headers :: "bytes \<Rightarrow> fault + pe_header" where
  "parse_headers data =
     (if length data < 0x40 \<or> data ! 0 \<noteq> of_char (CHR ''M'') \<or> data ! 1 \<noteq> of_char (CHR ''Z'')
      then Inl (Throw ''missing or truncated DOS header'')
      else bindE (rd32 data 0x3c) (\<lambda>pe.
        if pe > length data \<or> length data - pe < 24
        then Inl (Throw ''missing or truncated PE signature'')
        else bindE (rd32 data pe) (\<lambda>signature.
        if signature \<noteq> 0x00004550 then Inl (Throw ''missing or truncated PE signature'')
        else let coff = pe + 4 in
        bindE (rd16 data coff) (\<lambda>machine.
        if machine \<noteq> 0x8664 then Inl (Throw ''PE machine is not x86-64'')
        else bindE (rd16 data (coff + 2)) (\<lambda>section_count.
        bindE (rd16 data (coff + 16)) (\<lambda>optional_size.
        let optional = coff + 20 in
        if section_count = 0 \<or> section_count > 96 then Inl (Throw ''invalid section count'')
        else if optional_size < 112 \<or> optional > length data \<or> length data - optional < optional_size
        then Inl (Throw ''truncated PE optional header'')
        else bindE (rd16 data optional) (\<lambda>magic.
        if magic \<noteq> 0x20b then Inl (Throw ''optional header is not PE32+'')
        else bindE (rd32 data (optional + 56)) (\<lambda>image_size.
        bindE (rd32 data (optional + 60)) (\<lambda>headers_size.
        if image_size = 0 \<or> image_size > kMaxImageSize then Inl (Throw ''invalid SizeOfImage'')
        else if headers_size = 0 \<or> headers_size > length data \<or> headers_size > image_size
        then Inl (Throw ''invalid SizeOfHeaders'')
        else bindE (rd32 data (optional + 108)) (\<lambda>directory_count.
        let present_directories = min directory_count 16 in
        if 112 + present_directories * 8 > optional_size
        then Inl (Throw ''data directories exceed the optional header'')
        else let section_table = optional + optional_size in
        if section_table > length data \<or> section_count * 40 > length data - section_table
        then Inl (Throw ''truncated section table'')
        else Inr \<lparr>h_optional = optional, h_section_table = section_table,
                  h_section_count = section_count, h_image_size = image_size,
                  h_headers_size = headers_size, h_directories = present_directories\<rparr>))))))))))"

subsection \<open>Sections\<close>

function section_name_length :: "bytes \<Rightarrow> nat \<Rightarrow> nat \<Rightarrow> fault + nat" where
  "section_name_length data offset n =
     (if n < 8
      then bindE (at data (offset + n)) (\<lambda>b.
             if b \<noteq> 0 then section_name_length data offset (n + 1) else Inr n)
      else Inr n)"
  by pat_completeness auto
termination
  by (relation "measure (\<lambda>(data, offset, n). 8 - n)") auto

declare section_name_length.simps [simp del]

definition parse_section :: "bytes \<Rightarrow> pe_header \<Rightarrow> nat \<Rightarrow> fault + pe_section" where
  "parse_section data h index =
     (let offset = h_section_table h + index * 40 in
      bindE (section_name_length data offset 0) (\<lambda>name_length.
      bindE (rd32 data (offset + 8)) (\<lambda>virtual_size.
      bindE (rd32 data (offset + 12)) (\<lambda>rva.
      bindE (rd32 data (offset + 16)) (\<lambda>raw_size.
      bindE (rd32 data (offset + 20)) (\<lambda>raw_offset.
      let name = take name_length (drop offset data);
          extent = max virtual_size raw_size in
      if raw_size \<noteq> 0 \<and> (raw_offset < h_headers_size h \<or> raw_offset > length data \<or>
                            raw_size > length data - raw_offset)
      then Inl (Throw ''section has out-of-file raw data'')
      else if extent \<noteq> 0 \<and> (rva < h_headers_size h \<or> rva > h_image_size h \<or>
                              extent > h_image_size h - rva)
      then Inl (Throw ''section exceeds SizeOfImage'')
      else bindE (rd32 data (offset + 36)) (\<lambda>flags.
      Inr \<lparr>s_rva = rva, s_extent = extent, s_raw_offset = raw_offset, s_raw_size = raw_size,
           s_flags = flags, s_name = name\<rparr>)))))))"

definition section_range :: "pe_section \<Rightarrow> range" where
  "section_range s = \<lparr>r_begin = s_rva s, r_end = s_rva s + s_extent s, r_name = s_name s\<rparr>"

definition occupied_ranges :: "pe_section list \<Rightarrow> range list" where
  "occupied_ranges sections = map section_range (filter (\<lambda>s. s_extent s \<noteq> 0) sections)"

text \<open>The adjacent comparison after \<open>std::sort\<close> by start address. Ranges with equal starts overlap
  in any order, so the order \<open>std::sort\<close> leaves them in does not matter.\<close>

fun adjacent_overlap :: "('r \<Rightarrow> nat) \<Rightarrow> ('r \<Rightarrow> nat) \<Rightarrow> 'r list \<Rightarrow> bool" where
  "adjacent_overlap b e (x # y # rs) = (b y < e x \<or> adjacent_overlap b e (y # rs))"
| "adjacent_overlap b e rs = False"

definition parse_sections :: "bytes \<Rightarrow> pe_header \<Rightarrow> fault + pe_section list" where
  "parse_sections data h =
     bindE (mapE (parse_section data h) [0..<h_section_count h]) (\<lambda>sections.
     if adjacent_overlap r_begin r_end (sort_key r_begin (occupied_ranges sections))
     then Inl (Throw ''overlapping sections'')
     else Inr sections)"

text \<open>\<open>std::copy_n\<close> between vectors; both ends must be in range.\<close>

definition copy_n :: "bytes \<Rightarrow> nat \<Rightarrow> nat \<Rightarrow> bytes \<Rightarrow> nat \<Rightarrow> fault + bytes" where
  "copy_n src off n dst pos =
     (if off + n \<le> length src \<and> pos + n \<le> length dst
      then Inr (take pos dst @ take n (drop off src) @ drop (pos + n) dst)
      else Inl OutOfBounds)"

fun copy_sections :: "bytes \<Rightarrow> pe_section list \<Rightarrow> bytes \<Rightarrow> fault + bytes" where
  "copy_sections data [] img = Inr img"
| "copy_sections data (s # ss) img =
     bindE (if s_raw_size s \<noteq> 0 then copy_n data (s_raw_offset s) (s_raw_size s) img (s_rva s)
            else Inr img)
       (copy_sections data ss)"

definition layout_image :: "bytes \<Rightarrow> pe_header \<Rightarrow> pe_section list \<Rightarrow> fault + bytes" where
  "layout_image data h sections =
     bindE (copy_n data 0 (h_headers_size h) (replicate (h_image_size h) 0) 0)
       (copy_sections data sections)"

definition mapped_ranges :: "pe_header \<Rightarrow> pe_section list \<Rightarrow> range list" where
  "mapped_ranges h sections =
     \<lparr>r_begin = 0, r_end = h_headers_size h, r_name = ascii ''headers''\<rparr> # occupied_ranges sections"

definition executable_ranges :: "pe_section list \<Rightarrow> range list" where
  "executable_ranges sections =
     map section_range
       (filter (\<lambda>s. s_extent s \<noteq> 0 \<and> s_flags s AND 0x20000000 \<noteq> 0) sections)"

definition directory :: "bytes \<Rightarrow> pe_header \<Rightarrow> nat \<Rightarrow> fault + nat \<times> nat" where
  "directory data h index =
     (if index \<ge> h_directories h then Inr (0, 0)
      else let offset = h_optional h + 112 + index * 8 in
        bindE (rd32 data offset) (\<lambda>rva. bindE (rd32 data (offset + 4)) (\<lambda>len. Inr (rva, len))))"

subsection \<open>Exception directory\<close>

definition parse_function ::
    "bytes \<Rightarrow> nat \<Rightarrow> range list \<Rightarrow> range list \<Rightarrow> nat \<Rightarrow> fault + runtime_function" where
  "parse_function img image_size mapped executable offset =
     bindE (rd32 img offset) (\<lambda>b.
     bindE (rd32 img (offset + 4)) (\<lambda>e.
     bindE (rd32 img (offset + 8)) (\<lambda>unwind.
     if b = 0 \<or> b \<ge> e then Inl (Throw ''invalid RUNTIME_FUNCTION range'')
     else bindE (require_range b (e - b) image_size executable ''RUNTIME_FUNCTION'') (\<lambda>_.
     if unwind AND 3 \<noteq> 0 then Inl (Throw ''unaligned UNWIND_INFO RVA'')
     else bindE (require_range unwind 4 image_size mapped ''UNWIND_INFO'') (\<lambda>_.
     Inr \<lparr>f_begin = b, f_end = e, f_unwind = unwind\<rparr>)))))"

definition parse_functions ::
    "bytes \<Rightarrow> nat \<Rightarrow> range list \<Rightarrow> range list \<Rightarrow> nat \<times> nat \<Rightarrow> fault + runtime_function list" where
  "parse_functions img image_size mapped executable dir =
     (if (fst dir \<noteq> 0) \<noteq> (snd dir \<noteq> 0)
      then Inl (Throw ''exception directory has only one of RVA and size'')
      else if snd dir mod 12 \<noteq> 0
      then Inl (Throw ''exception directory size is not a multiple of 12'')
      else bindE (if snd dir \<noteq> 0
                  then require_range (fst dir) (snd dir) image_size mapped ''exception directory''
                  else Inr ()) (\<lambda>_.
        bindE (mapE (parse_function img image_size mapped executable)
                 (map (\<lambda>i. fst dir + 12 * i) [0..<snd dir div 12])) (\<lambda>fs.
        let sorted_fs = sort_key f_begin fs in
        if adjacent_overlap f_begin f_end sorted_fs
        then Inl (Throw ''overlapping RUNTIME_FUNCTION ranges'')
        else Inr sorted_fs)))"

subsection \<open>Export directory\<close>

definition containing_end :: "nat \<Rightarrow> range list \<Rightarrow> nat" where
  "containing_end rva ranges =
     (case find (\<lambda>r. rva \<ge> r_begin r \<and> rva < r_end r) ranges of None \<Rightarrow> 0 | Some r \<Rightarrow> r_end r)"

function find_terminator :: "bytes \<Rightarrow> nat \<Rightarrow> nat \<Rightarrow> fault + nat" where
  "find_terminator img limit t =
     (if t < limit
      then bindE (at img t) (\<lambda>b. if b \<noteq> 0 then find_terminator img limit (t + 1) else Inr t)
      else Inr t)"
  by pat_completeness auto
termination
  by (relation "measure (\<lambda>(img, limit, t). limit - t)") auto

declare find_terminator.simps [simp del]

definition plain_name_byte :: "u8 \<Rightarrow> bool" where
  "plain_name_byte b \<longleftrightarrow> b \<ge> 0x20 \<and> b < 0x7f \<and> b \<noteq> of_char (CHR ''@'')"

definition name_slice :: "bytes \<Rightarrow> nat \<Rightarrow> nat \<Rightarrow> bytes" where
  "name_slice img rva terminator = take (terminator - rva) (drop rva img)"

record export_tables =
  t_dir :: "nat \<times> nat"
  t_function_count :: nat
  t_functions :: nat
  t_names :: nat
  t_ordinals :: nat

definition parse_export ::
    "bytes \<Rightarrow> nat \<Rightarrow> range list \<Rightarrow> range list \<Rightarrow> export_tables \<Rightarrow> nat \<Rightarrow> fault + pe_export option" where
  "parse_export img image_size mapped executable t index =
     bindE (rd32 img (t_names t + index * 4)) (\<lambda>name_rva.
     bindE (require_range name_rva 1 image_size mapped ''export name'') (\<lambda>_.
     let limit = containing_end name_rva mapped in
     bindE (find_terminator img limit name_rva) (\<lambda>terminator.
     if terminator = limit then Inl (Throw ''unterminated export name'')
     else let name = name_slice img name_rva terminator;
              plain = (terminator > name_rva \<and> list_all plain_name_byte name) in
     bindE (rd16 img (t_ordinals t + index * 2)) (\<lambda>ordinal.
     if ordinal \<ge> t_function_count t then Inl (Throw ''export ordinal exceeds address table'')
     else bindE (rd32 img (t_functions t + ordinal * 4)) (\<lambda>target.
     if target = 0 then Inr None
     else if target \<ge> fst (t_dir t) \<and> target < fst (t_dir t) + snd (t_dir t)
     then bindE (require_range target 1 image_size mapped ''export forwarder'') (\<lambda>_. Inr None)
     else if target \<ge> image_size then Inl (Throw ''export points outside SizeOfImage'')
     else if plain \<and> contained target 1 executable
     then Inr (Some \<lparr>x_name = name, x_rva = target\<rparr>)
     else Inr None)))))"

definition parse_exports ::
    "bytes \<Rightarrow> nat \<Rightarrow> range list \<Rightarrow> range list \<Rightarrow> nat \<times> nat \<Rightarrow> fault + pe_export list" where
  "parse_exports img image_size mapped executable dir =
     (if (fst dir \<noteq> 0) \<noteq> (snd dir \<noteq> 0)
      then Inl (Throw ''export directory has only one of RVA and size'')
      else if snd dir = 0 then Inr []
      else
        bindE (require_range (fst dir) (snd dir) image_size mapped ''export directory'') (\<lambda>_.
        bindE (require_range (fst dir) 40 image_size mapped ''export directory header'') (\<lambda>_.
        bindE (rd32 img (fst dir + 20)) (\<lambda>function_count.
        bindE (rd32 img (fst dir + 24)) (\<lambda>name_count.
        bindE (rd32 img (fst dir + 28)) (\<lambda>functions_rva.
        bindE (rd32 img (fst dir + 32)) (\<lambda>names_rva.
        bindE (rd32 img (fst dir + 36)) (\<lambda>ordinals_rva.
        bindE (require_range functions_rva (function_count * 4) image_size mapped ''export address table'') (\<lambda>_.
        bindE (require_range names_rva (name_count * 4) image_size mapped ''export name table'') (\<lambda>_.
        bindE (require_range ordinals_rva (name_count * 2) image_size mapped ''export ordinal table'') (\<lambda>_.
        bindE (mapE (parse_export img image_size mapped executable
                       \<lparr>t_dir = dir, t_function_count = function_count, t_functions = functions_rva,
                        t_names = names_rva, t_ordinals = ordinals_rva\<rparr>) [0..<name_count]) (\<lambda>exports.
        Inr (List.map_filter (\<lambda>x. x) exports)))))))))))))"

subsection \<open>Source fingerprint\<close>

definition fingerprint :: "bytes \<Rightarrow> u64" where
  "fingerprint source =
     fold (\<lambda>byte h. (h XOR ucast byte) * 0x100000001b3) source 0xcbf29ce484222325"

section \<open>Correctness\<close>

subsection \<open>Disjoint ranges\<close>

definition apart :: "('r \<Rightarrow> nat) \<Rightarrow> ('r \<Rightarrow> nat) \<Rightarrow> 'r \<Rightarrow> 'r \<Rightarrow> bool" where
  "apart b e x y \<longleftrightarrow> e x \<le> b y \<or> e y \<le> b x"

lemma apart_sym: "apart b e x y \<longleftrightarrow> apart b e y x"
  by (auto simp: apart_def)

lemma sorted_wrt_insort_sym:
  "(\<And>x y. R x y = R y x) \<Longrightarrow>
     sorted_wrt R (insort_key k x xs) \<longleftrightarrow> (\<forall>y \<in> set xs. R x y) \<and> sorted_wrt R xs"
  by (induction xs) (auto simp: set_insort_key)

lemma sorted_wrt_sort_key_sym:
  "(\<And>x y. R x y = R y x) \<Longrightarrow> sorted_wrt R (sort_key k xs) \<longleftrightarrow> sorted_wrt R xs"
  by (induction xs) (simp_all add: sorted_wrt_insort_sym)

lemma no_adjacent_overlap:
  assumes "\<not> adjacent_overlap b e xs" and "list_all (\<lambda>x. b x \<le> e x) xs"
  shows "sorted_wrt (\<lambda>x y. e x \<le> b y) xs"
  using assms
proof (induction b e xs rule: adjacent_overlap.induct)
  case (1 b e x y rs)
  then have IH: "sorted_wrt (\<lambda>x y. e x \<le> b y) (y # rs)" and xy: "e x \<le> b y" and y: "b y \<le> e y"
    by simp_all
  then have "\<forall>z \<in> set rs. e x \<le> b z"
    by auto
  with IH xy show ?case
    by simp
qed simp_all

lemma no_adjacent_overlap_apart:
  assumes "\<not> adjacent_overlap b e (sort_key k xs)" and "list_all (\<lambda>x. b x \<le> e x) xs"
  shows "sorted_wrt (apart b e) xs"
proof -
  have "list_all (\<lambda>x. b x \<le> e x) (sort_key k xs)"
    using assms(2) by (simp add: list_all_iff)
  then have "sorted_wrt (\<lambda>x y. e x \<le> b y) (sort_key k xs)"
    by (rule no_adjacent_overlap [OF assms(1)])
  then have "sorted_wrt (apart b e) (sort_key k xs)"
    by (rule sorted_wrt_mono_rel [rotated]) (simp add: apart_def)
  then show ?thesis
    by (simp add: sorted_wrt_sort_key_sym apart_sym)
qed

subsection \<open>Headers and sections\<close>

definition header_ok :: "bytes \<Rightarrow> pe_header \<Rightarrow> bool" where
  "header_ok data h \<longleftrightarrow>
     0 < h_image_size h \<and> h_image_size h \<le> kMaxImageSize \<and>
     0 < h_headers_size h \<and> h_headers_size h \<le> h_image_size h \<and> h_headers_size h \<le> length data \<and>
     h_section_table h + h_section_count h * 40 \<le> length data \<and>
     h_directories h \<le> 16 \<and> h_optional h + 112 + h_directories h * 8 \<le> length data"

definition section_ok :: "bytes \<Rightarrow> pe_header \<Rightarrow> pe_section \<Rightarrow> bool" where
  "section_ok data h s \<longleftrightarrow>
     s_raw_size s \<le> s_extent s \<and>
     (s_raw_size s \<noteq> 0 \<longrightarrow> s_raw_offset s + s_raw_size s \<le> length data) \<and>
     (s_extent s \<noteq> 0 \<longrightarrow> h_headers_size h \<le> s_rva s \<and> s_rva s + s_extent s \<le> h_image_size h)"

lemma parse_headers_ok: "parse_headers data = Inr h \<Longrightarrow> header_ok data h"
  unfolding parse_headers_def header_ok_def
  by (clarsimp simp: result_simps Let_def) linarith

lemma parse_headers_no_oob: "parse_headers data \<noteq> Inl OutOfBounds"
  unfolding parse_headers_def
  by (simp add: bindE_eq_Inl Let_def)

lemma section_name_length_total:
  "off + 8 \<le> length data \<Longrightarrow> n \<le> 8 \<Longrightarrow> \<exists>m. section_name_length data off n = Inr m \<and> m \<le> 8"
proof (induction data off n rule: section_name_length.induct)
  case (1 data off n)
  show ?case
    using 1 by (subst section_name_length.simps) (auto simp: at_def)
qed

lemma parse_section_ok:
  assumes "parse_section data h i = Inr s"
  shows "section_ok data h s"
  using assms unfolding parse_section_def section_ok_def
  by (clarsimp simp: result_simps Let_def) linarith

lemma parse_section_no_oob:
  assumes "header_ok data h" and "i < h_section_count h"
  shows "parse_section data h i \<noteq> Inl OutOfBounds"
proof -
  have "i * 40 + 40 \<le> h_section_count h * 40"
    using assms(2) by simp
  then have "h_section_table h + i * 40 + 8 \<le> length data"
    using assms(1) unfolding header_ok_def by linarith
  then obtain m where "section_name_length data (h_section_table h + i * 40) 0 = Inr m"
    using section_name_length_total by blast
  then show ?thesis
    by (simp add: parse_section_def bindE_eq_Inl Let_def)
qed

definition sections_ok :: "bytes \<Rightarrow> pe_header \<Rightarrow> pe_section list \<Rightarrow> bool" where
  "sections_ok data h ss \<longleftrightarrow>
     list_all (section_ok data h) ss \<and> sorted_wrt (apart r_begin r_end) (occupied_ranges ss)"

lemma range_le: "list_all (\<lambda>r. r_begin r \<le> r_end r) (map section_range ss)"
  by (simp add: list_all_iff section_range_def)

lemma occupied_range_le: "list_all (\<lambda>r. r_begin r \<le> r_end r) (occupied_ranges ss)"
  by (simp add: occupied_ranges_def range_le)

lemma parse_sections_ok:
  assumes "parse_sections data h = Inr ss"
  shows "sections_ok data h ss"
proof -
  have "list_all2 (\<lambda>i s. parse_section data h i = Inr s) [0..<h_section_count h] ss"
    and no: "\<not> adjacent_overlap r_begin r_end (sort_key r_begin (occupied_ranges ss))"
    using assms by (auto simp: parse_sections_def result_simps mapE_eq_Inr)
  then have "list_all (section_ok data h) ss"
    by (auto simp: list_all_length list_all2_conv_all_nth intro: parse_section_ok)
  with no_adjacent_overlap_apart [OF no occupied_range_le] show ?thesis
    by (simp add: sections_ok_def)
qed

lemma parse_sections_no_oob:
  "header_ok data h \<Longrightarrow> parse_sections data h \<noteq> Inl OutOfBounds"
  by (auto simp: parse_sections_def bindE_eq_Inl dest!: mapE_eq_InlD parse_section_no_oob)

subsection \<open>The virtual image\<close>

lemma copy_n_length: "copy_n src off n dst pos = Inr out \<Longrightarrow> length out = length dst"
  by (auto simp: copy_n_def split: if_splits)

lemma copy_n_nth:
  "copy_n src off n dst pos = Inr out \<Longrightarrow> i < length dst \<Longrightarrow>
     out ! i = (if pos \<le> i \<and> i < pos + n then src ! (off + (i - pos)) else dst ! i)"
  by (auto simp: copy_n_def nth_append split: if_splits)

lemma copy_section_total:
  "section_ok data h s \<Longrightarrow> length img = h_image_size h \<Longrightarrow> s_raw_size s \<noteq> 0 \<Longrightarrow>
     \<exists>out. copy_n data (s_raw_offset s) (s_raw_size s) img (s_rva s) = Inr out"
  by (auto simp: copy_n_def section_ok_def)

lemma copy_sections_total:
  "list_all (section_ok data h) ss \<Longrightarrow> length img = h_image_size h \<Longrightarrow>
     \<exists>out. copy_sections data ss img = Inr out \<and> length out = h_image_size h"
proof (induction ss arbitrary: img)
  case (Cons s ss)
  show ?case
  proof (cases "s_raw_size s = 0")
    case False
    then obtain out where "copy_n data (s_raw_offset s) (s_raw_size s) img (s_rva s) = Inr out"
      using copy_section_total Cons.prems by (metis list.pred_inject(2))
    moreover from this have "length out = h_image_size h"
      using Cons.prems(2) by (simp add: copy_n_length)
    ultimately show ?thesis
      using False Cons by simp
  qed (use Cons in simp)
qed simp

lemma layout_image_total:
  assumes "header_ok data h" and "list_all (section_ok data h) ss"
  shows "\<exists>img. layout_image data h ss = Inr img \<and> length img = h_image_size h"
  using assms copy_sections_total [OF assms(2), of "take (h_headers_size h) data @ replicate (h_image_size h - h_headers_size h) 0"]
  by (simp add: layout_image_def copy_n_def header_ok_def)

lemma copy_sections_frame:
  assumes "copy_sections data ss img = Inr out" and "i < length img"
    and "list_all (\<lambda>s. s_raw_size s \<noteq> 0 \<longrightarrow> i < s_rva s \<or> s_rva s + s_raw_size s \<le> i) ss"
  shows "out ! i = img ! i"
  using assms
proof (induction ss arbitrary: img)
  case (Cons s ss)
  show ?case
  proof (cases "s_raw_size s = 0")
    case True
    then show ?thesis
      using Cons by simp
  next
    case False
    then obtain mid where mid: "copy_n data (s_raw_offset s) (s_raw_size s) img (s_rva s) = Inr mid"
      and rest: "copy_sections data ss mid = Inr out"
      using Cons.prems(1) by (auto simp: result_simps)
    then have "out ! i = mid ! i"
      using Cons by (simp add: copy_n_length)
    also have "\<dots> = img ! i"
      using copy_n_nth [OF mid Cons.prems(2)] Cons.prems(3) False by auto
    finally show ?thesis .
  qed
qed simp

lemma occupied_ranges_Cons:
  "occupied_ranges (s # ss) =
     (if s_extent s \<noteq> 0 then section_range s # occupied_ranges ss else occupied_ranges ss)"
  by (simp add: occupied_ranges_def)

lemma apart_section_frame:
  assumes "sorted_wrt (apart r_begin r_end) (occupied_ranges (s # ss))"
    and "list_all (section_ok data h) (s # ss)" and "s_rva s \<le> i" and "i < s_rva s + s_raw_size s"
  shows "list_all (\<lambda>s. s_raw_size s \<noteq> 0 \<longrightarrow> i < s_rva s \<or> s_rva s + s_raw_size s \<le> i) ss"
proof -
  have "s_extent s \<noteq> 0" and "s_raw_size s \<le> s_extent s"
    using assms(2-) by (auto simp: section_ok_def)
  then have "\<forall>r \<in> set (occupied_ranges ss). apart r_begin r_end (section_range s) r"
    using assms(1) by (simp add: occupied_ranges_Cons)
  then show ?thesis
    using assms(2-) \<open>s_raw_size s \<le> s_extent s\<close>
    by (fastforce simp: list_all_iff occupied_ranges_def apart_def section_range_def section_ok_def)
qed

lemma copy_sections_contents:
  assumes "copy_sections data ss img = Inr out" and "length img = h_image_size h"
    and "list_all (section_ok data h) ss" and "sorted_wrt (apart r_begin r_end) (occupied_ranges ss)"
    and "s \<in> set ss" and "j < s_raw_size s"
  shows "out ! (s_rva s + j) = data ! (s_raw_offset s + j)"
  using assms
proof (induction ss arbitrary: img)
  case (Cons t ss)
  have sorted: "sorted_wrt (apart r_begin r_end) (occupied_ranges ss)"
    using Cons.prems(4) by (simp add: occupied_ranges_Cons split: if_splits)
  show ?case
  proof (cases "s_raw_size t = 0")
    case True
    then show ?thesis
      using Cons sorted by auto
  next
    case False
    then obtain mid where mid: "copy_n data (s_raw_offset t) (s_raw_size t) img (s_rva t) = Inr mid"
      and rest: "copy_sections data ss mid = Inr out"
      using Cons.prems(1) by (auto simp: result_simps)
    have len: "length mid = h_image_size h"
      using copy_n_length [OF mid] Cons.prems(2) by simp
    show ?thesis
    proof (cases "s \<in> set ss")
      case True
      then show ?thesis
        using Cons.IH [OF rest len _ sorted] Cons.prems by simp
    next
      case False
      then have st: "s = t"
        using Cons.prems(5) by simp
      have "section_ok data h t"
        using Cons.prems(3) by simp
      then have inside: "s_rva t + j < h_image_size h"
        using Cons.prems(6) st unfolding section_ok_def by auto
      have "list_all (\<lambda>s. s_raw_size s \<noteq> 0 \<longrightarrow> s_rva t + j < s_rva s \<or> s_rva s + s_raw_size s \<le> s_rva t + j) ss"
        using Cons.prems(6) st by (intro apart_section_frame [OF Cons.prems(4,3)]) simp_all
      then have "out ! (s_rva t + j) = mid ! (s_rva t + j)"
        using copy_sections_frame [OF rest] inside len by simp
      then show ?thesis
        using copy_n_nth [OF mid, of "s_rva t + j"] inside Cons.prems(2,6) st by simp
    qed
  qed
qed simp

lemma layout_image_headers:
  assumes "layout_image data h ss = Inr img" and "header_ok data h"
    and "list_all (section_ok data h) ss" and "i < h_headers_size h"
  shows "img ! i = data ! i"
proof -
  obtain base where base: "copy_n data 0 (h_headers_size h) (replicate (h_image_size h) 0) 0 = Inr base"
    and rest: "copy_sections data ss base = Inr img"
    using assms(1) by (auto simp: layout_image_def result_simps)
  have "list_all (\<lambda>s. s_raw_size s \<noteq> 0 \<longrightarrow> i < s_rva s \<or> s_rva s + s_raw_size s \<le> i) ss"
    using assms(3,4) by (fastforce simp: list_all_iff section_ok_def)
  then have "img ! i = base ! i"
    using copy_sections_frame [OF rest] copy_n_length [OF base] assms(2,4)
    by (simp add: header_ok_def)
  then show ?thesis
    using copy_n_nth [OF base, of i] assms(2,4) by (simp add: header_ok_def)
qed

lemma layout_image_sections:
  assumes "layout_image data h ss = Inr img" and "sections_ok data h ss"
    and "s \<in> set ss" and "j < s_raw_size s"
  shows "img ! (s_rva s + j) = data ! (s_raw_offset s + j)"
proof -
  obtain base where base: "copy_n data 0 (h_headers_size h) (replicate (h_image_size h) 0) 0 = Inr base"
    and rest: "copy_sections data ss base = Inr img"
    using assms(1) by (auto simp: layout_image_def result_simps)
  show ?thesis
    using copy_sections_contents [OF rest _ _ _ assms(3,4)] copy_n_length [OF base] assms(2)
    by (simp add: sections_ok_def)
qed

subsection \<open>Range tables\<close>

definition ranges_within :: "nat \<Rightarrow> range list \<Rightarrow> bool" where
  "ranges_within n rs \<longleftrightarrow> list_all (\<lambda>r. r_begin r \<le> r_end r \<and> r_end r \<le> n) rs"

lemma occupied_within: "sections_ok data h ss \<Longrightarrow> ranges_within (h_image_size h) (occupied_ranges ss)"
  by (auto simp: ranges_within_def occupied_ranges_def sections_ok_def list_all_iff section_range_def
      section_ok_def)

lemma mapped_within:
  "header_ok data h \<Longrightarrow> sections_ok data h ss \<Longrightarrow> ranges_within (h_image_size h) (mapped_ranges h ss)"
  using occupied_within [of data h ss]
  by (simp add: mapped_ranges_def ranges_within_def header_ok_def)

lemma executable_eq:
  "executable_ranges ss = map section_range
     (filter (\<lambda>s. s_flags s AND 0x20000000 \<noteq> 0) (filter (\<lambda>s. s_extent s \<noteq> 0) ss))"
  by (simp add: executable_ranges_def conj_commute)

lemma executable_within:
  "sections_ok data h ss \<Longrightarrow> ranges_within (h_image_size h) (executable_ranges ss)"
  using occupied_within [of data h ss]
  by (auto simp: ranges_within_def executable_ranges_def occupied_ranges_def list_all_iff)

lemma executable_apart:
  assumes "sections_ok data h ss"
  shows "sorted_wrt (apart r_begin r_end) (executable_ranges ss)"
proof -
  have "sorted_wrt (\<lambda>s t. apart r_begin r_end (section_range s) (section_range t))
      (filter (\<lambda>s. s_extent s \<noteq> 0) ss)"
    using assms by (simp add: sections_ok_def occupied_ranges_def sorted_wrt_map)
  then show ?thesis
    unfolding executable_eq sorted_wrt_map by (rule sorted_wrt_filter)
qed

lemma executable_nonempty:
  "sections_ok data h ss \<Longrightarrow> r \<in> set (executable_ranges ss) \<Longrightarrow> r_begin r < r_end r"
  by (auto simp: executable_ranges_def section_range_def)

lemma executable_subset: "set (executable_ranges ss) \<subseteq> set (mapped_ranges h ss)"
  by (auto simp: executable_ranges_def mapped_ranges_def occupied_ranges_def)

lemma contained_within:
  "contained rva len rs \<Longrightarrow> ranges_within n rs \<Longrightarrow> rva + len \<le> n"
  by (auto simp: contained_iff ranges_within_def list_all_iff)

subsection \<open>The exception directory\<close>

definition function_ok :: "range list \<Rightarrow> range list \<Rightarrow> runtime_function \<Rightarrow> bool" where
  "function_ok mapped executable f \<longleftrightarrow>
     0 < f_begin f \<and> f_begin f < f_end f \<and>
     contained (f_begin f) (f_end f - f_begin f) executable \<and>
     f_unwind f AND 3 = 0 \<and> contained (f_unwind f) 4 mapped"

lemma parse_function_ok:
  "parse_function img n mapped executable off = Inr f \<Longrightarrow> function_ok mapped executable f"
  unfolding parse_function_def function_ok_def
  by (clarsimp simp: result_simps)

lemma parse_function_no_oob: "parse_function img n mapped executable off \<noteq> Inl OutOfBounds"
  unfolding parse_function_def by (simp add: bindE_eq_Inl)

lemma parse_functions_no_oob: "parse_functions img n mapped executable dir \<noteq> Inl OutOfBounds"
  unfolding parse_functions_def
  by (auto simp: bindE_eq_Inl Let_def parse_function_no_oob dest!: mapE_eq_InlD)

lemma parse_functions_ok:
  assumes "parse_functions img n mapped executable dir = Inr fs"
  shows "list_all (function_ok mapped executable) fs \<and> sorted_wrt (\<lambda>f g. f_end f \<le> f_begin g) fs"
proof -
  obtain gs where gs: "list_all2 (\<lambda>off f. parse_function img n mapped executable off = Inr f)
        (map (\<lambda>i. fst dir + 12 * i) [0..<snd dir div 12]) gs"
    and fs: "fs = sort_key f_begin gs" and no: "\<not> adjacent_overlap f_begin f_end fs"
    using assms by (auto simp: parse_functions_def result_simps mapE_eq_Inr Let_def)
  have "list_all (function_ok mapped executable) gs"
    using gs by (auto simp: list_all_length list_all2_conv_all_nth intro: parse_function_ok)
  then have ok: "list_all (function_ok mapped executable) fs"
    by (simp add: fs list_all_iff)
  then have "list_all (\<lambda>f. f_begin f \<le> f_end f) fs"
    by (auto simp: list_all_iff function_ok_def)
  with no ok show ?thesis
    by (simp add: no_adjacent_overlap)
qed

subsection \<open>The export directory\<close>

definition export_ok :: "range list \<Rightarrow> pe_export \<Rightarrow> bool" where
  "export_ok executable x \<longleftrightarrow>
     x_name x \<noteq> [] \<and> list_all plain_name_byte (x_name x) \<and> contained (x_rva x) 1 executable"

lemma find_terminator_total:
  "limit \<le> length img \<Longrightarrow> t \<le> limit \<Longrightarrow>
     \<exists>e. find_terminator img limit t = Inr e \<and> t \<le> e \<and> e \<le> limit"
proof (induction img limit t rule: find_terminator.induct)
  case (1 img limit t)
  show ?case
  proof (cases "t < limit \<and> img ! t \<noteq> 0")
    case True
    then have "at img t = Inr (img ! t)"
      using 1 by (simp add: at_def)
    then show ?thesis
      using 1 True by (subst find_terminator.simps) (force)
  next
    case False
    then show ?thesis
      using 1 by (subst find_terminator.simps) (auto simp: at_def)
  qed
qed

lemma containing_end_le:
  "ranges_within n rs \<Longrightarrow> contained rva 1 rs \<Longrightarrow>
     rva < containing_end rva rs \<and> containing_end rva rs \<le> n"
  by (fastforce simp: containing_end_def contained_iff ranges_within_def list_all_iff
      find_None_iff find_Some_iff split: option.splits)

lemma parse_export_no_oob:
  assumes "ranges_within n mapped" and "n = length img"
  shows "parse_export img n mapped executable t i \<noteq> Inl OutOfBounds"
proof -
  have "find_terminator img (containing_end rva mapped) rva \<noteq> Inl OutOfBounds"
    if "contained rva 1 mapped" for rva
    using find_terminator_total [of "containing_end rva mapped" img rva]
      containing_end_le [OF assms(1) that] assms(2) by force
  then show ?thesis
    unfolding parse_export_def by (auto simp: bindE_eq_Inl Let_def result_simps)
qed

lemma parse_export_ok:
  "n = length img \<Longrightarrow> parse_export img n mapped executable t i = Inr (Some x) \<Longrightarrow>
     export_ok executable x"
  unfolding parse_export_def export_ok_def
  by (auto simp: result_simps Let_def name_slice_def list_all_iff split: if_splits)

lemma parse_exports_no_oob:
  "ranges_within n mapped \<Longrightarrow> n = length img \<Longrightarrow>
     parse_exports img n mapped executable dir \<noteq> Inl OutOfBounds"
  unfolding parse_exports_def
  by (auto simp: bindE_eq_Inl parse_export_no_oob dest!: mapE_eq_InlD)

lemma parse_exports_ok:
  assumes "parse_exports img n mapped executable dir = Inr xs" and n: "n = length img"
  shows "list_all (export_ok executable) xs"
proof (cases "snd dir = 0")
  case False
  then obtain t m os where os: "list_all2 (\<lambda>i x. parse_export img n mapped executable t i = Inr x) [0..<m] os"
    and xs: "xs = List.map_filter (\<lambda>x. x) os"
    using assms by (auto simp: parse_exports_def result_simps mapE_eq_Inr)
  have "export_ok executable x" if "Some x \<in> set os" for x
    using os that by (fastforce simp: in_set_conv_nth list_all2_conv_all_nth intro: parse_export_ok [OF n])
  then show ?thesis
    by (auto simp: xs list_all_iff List.map_filter_def)
qed (use assms(1) in \<open>auto simp: parse_exports_def result_simps\<close>)

end
