(* ===== verification/Sidecar_Unwind.thy ===== *)
theory Sidecar_Unwind
  imports Sidecar_Pe
begin

text \<open>
  The Windows x64 unwind data of \<open>src/src/pe_sidecar.cpp\<close>: decoding of the \<open>UNWIND_CODE\<close> array
  and resolution of chained \<open>UNWIND_INFO\<close> blocks, with the cycle check, the depth limit and the
  cache of the lambda \<open>resolve_unwind\<close> in \<open>parse_pe\<close>.
\<close>

subsection \<open>Operations\<close>

definition kMaxChainDepth :: nat where "kMaxChainDepth = 32"

datatype op_kind = Push | Alloc | Frame | Save | Machine

record operation =
  o_offset :: nat
  o_kind :: op_kind
  o_first :: nat
  o_second :: nat

record unwind_info =
  w_inherited :: "operation list"
  w_operations :: "operation list"
  w_all :: "operation list"
  w_prolog :: nat

record function_cfi =
  c_begin :: nat
  c_end :: nat
  c_inherited :: "operation list"
  c_operations :: "operation list"

definition register_map :: "nat list" where
  "register_map = [0, 2, 1, 3, 7, 6, 4, 5, 8, 9, 10, 11, 12, 13, 14, 15]"

definition nonvolatile :: "nat \<Rightarrow> bool" where
  "nonvolatile reg \<longleftrightarrow> reg = 3 \<or> reg = 5 \<or> reg = 6 \<or> reg = 7 \<or> reg \<ge> 12"

subsection \<open>Decoding one UNWIND_INFO block\<close>

record pe_view =
  v_image :: bytes
  v_size :: nat
  v_mapped :: "range list"
  v_executable :: "range list"

record unwind_header =
  u_rva :: nat
  u_flags :: nat
  u_prolog :: nat
  u_count :: nat
  u_frame_register :: nat
  u_frame_offset :: nat

definition padded_count :: "nat \<Rightarrow> nat" where
  "padded_count count = (count + 1) - (count + 1) mod 2"

definition read_unwind_header :: "pe_view \<Rightarrow> nat \<Rightarrow> fault + unwind_header" where
  "read_unwind_header v rva =
     bindE (require_range rva 4 (v_size v) (v_mapped v) ''UNWIND_INFO'') (\<lambda>_.
     bindE (at (v_image v) rva) (\<lambda>b0.
     bindE (at (v_image v) (rva + 1)) (\<lambda>b1.
     bindE (at (v_image v) (rva + 2)) (\<lambda>b2.
     bindE (at (v_image v) (rva + 3)) (\<lambda>b3.
     let version_flags = unat b0; prolog_size = unat b1; code_count = unat b2; frame = unat b3;
         version = version_flags AND 7; flags = drop_bit 3 version_flags;
         frame_register = frame AND 15; frame_offset = drop_bit 4 frame * 16 in
     if version \<noteq> 1 then Inl (Throw ''unsupported UNWIND_INFO version'')
     else if drop_bit 3 flags \<noteq> 0 \<or> (flags AND 4 \<noteq> 0 \<and> flags AND 3 \<noteq> 0)
     then Inl (Throw ''invalid UNWIND_INFO flags'')
     else if frame_register = 0 \<and> frame_offset \<noteq> 0
     then Inl (Throw ''frame offset without frame register'')
     else if frame_register \<noteq> 0 \<and> \<not> nonvolatile frame_register
     then Inl (Throw ''invalid frame register'')
     else bindE (require_range rva (4 + padded_count code_count * 2) (v_size v) (v_mapped v)
                   ''UNWIND_INFO codes'') (\<lambda>_.
     Inr \<lparr>u_rva = rva, u_flags = flags, u_prolog = prolog_size, u_count = code_count,
          u_frame_register = frame_register, u_frame_offset = frame_offset\<rparr>))))))"

text \<open>
  One iteration of the loop over the code slots, the opcodes with operand slots apart: the
  operation and its number of operand slots.
\<close>

abbreviation op_at :: "nat \<Rightarrow> op_kind \<Rightarrow> nat \<Rightarrow> nat \<Rightarrow> operation" where
  "op_at code_offset kind fst_arg snd_arg \<equiv>
     \<lparr>o_offset = code_offset, o_kind = kind, o_first = fst_arg, o_second = snd_arg\<rparr>"

definition decode_alloc_large ::
    "bytes \<Rightarrow> unwind_header \<Rightarrow> nat \<Rightarrow> nat \<Rightarrow> nat \<Rightarrow> fault + operation \<times> nat" where
  "decode_alloc_large img u slot code_offset info =
     (let operand = u_rva u + 6 + slot * 2 in
      if info = 0 then
        (if slot + 1 \<ge> u_count u then Inl (Throw ''truncated ALLOC_LARGE'')
         else bindE (rd16 img operand) (\<lambda>w.
           if w * 8 = 0 \<or> w * 8 AND 7 \<noteq> 0 then Inl (Throw ''invalid ALLOC_LARGE size'')
           else Inr (op_at code_offset Alloc (w * 8) 0, 1)))
      else if info = 1 then
        (if slot + 2 \<ge> u_count u then Inl (Throw ''truncated ALLOC_LARGE'')
         else bindE (rd32 img operand) (\<lambda>w.
           if w = 0 \<or> w AND 7 \<noteq> 0 then Inl (Throw ''invalid ALLOC_LARGE size'')
           else Inr (op_at code_offset Alloc w 0, 2)))
      else Inl (Throw ''invalid ALLOC_LARGE form''))"

definition decode_save ::
    "bytes \<Rightarrow> unwind_header \<Rightarrow> nat \<Rightarrow> nat \<Rightarrow> nat \<Rightarrow> nat \<Rightarrow> fault + operation \<times> nat" where
  "decode_save img u slot code_offset opcode info =
     (if \<not> nonvolatile info then Inl (Throw ''SAVE_NONVOL uses volatile register'')
      else let operands = (if opcode = 4 then 1 else 2); operand = u_rva u + 6 + slot * 2 in
        if slot + operands \<ge> u_count u then Inl (Throw ''truncated SAVE_NONVOL'')
        else bindE (if opcode = 4 then bindE (rd16 img operand) (\<lambda>w. Inr (w * 8))
                    else rd32 img operand) (\<lambda>saved.
          Inr (op_at code_offset Save (register_map ! info) saved, operands)))"

definition decode_save_xmm ::
    "bytes \<Rightarrow> unwind_header \<Rightarrow> nat \<Rightarrow> nat \<Rightarrow> nat \<Rightarrow> nat \<Rightarrow> fault + operation \<times> nat" where
  "decode_save_xmm img u slot code_offset opcode info =
     (if info < 6 then Inl (Throw ''SAVE_XMM128 uses volatile register'')
      else let operands = (if opcode = 8 then 1 else 2); operand = u_rva u + 6 + slot * 2 in
        if slot + operands \<ge> u_count u then Inl (Throw ''truncated SAVE_XMM128'')
        else bindE (if opcode = 8 then bindE (rd16 img operand) (\<lambda>w. Inr (w * 16))
                    else rd32 img operand) (\<lambda>saved.
          Inr (op_at code_offset Save (17 + info) saved, operands)))"

definition decode_opcode ::
    "bytes \<Rightarrow> unwind_header \<Rightarrow> nat \<Rightarrow> nat \<Rightarrow> nat \<Rightarrow> nat \<Rightarrow> fault + operation \<times> nat" where
  "decode_opcode img u slot code_offset opcode info =
     (if opcode = 0 then
        (if \<not> nonvolatile info then Inl (Throw ''PUSH_NONVOL uses volatile register'')
         else Inr (op_at code_offset Push (register_map ! info) 0, 0))
      else if opcode = 1 then decode_alloc_large img u slot code_offset info
      else if opcode = 2 then Inr (op_at code_offset Alloc (info * 8 + 8) 0, 0)
      else if opcode = 3 then
        (if u_frame_register u = 0 then Inl (Throw ''invalid SET_FPREG'')
         else Inr (op_at code_offset Frame (register_map ! u_frame_register u) (u_frame_offset u), 0))
      else if opcode = 4 \<or> opcode = 5 then decode_save img u slot code_offset opcode info
      else if opcode = 8 \<or> opcode = 9 then decode_save_xmm img u slot code_offset opcode info
      else if opcode = 10 then
        (if info > 1 then Inl (Throw ''invalid PUSH_MACHFRAME form'')
         else Inr (op_at code_offset Machine (40 + info * 8) 0, 0))
      else Inl (Throw ''unsupported unwind opcode''))"

definition decode_operation :: "bytes \<Rightarrow> unwind_header \<Rightarrow> nat \<Rightarrow> fault + operation \<times> nat" where
  "decode_operation img u slot =
     bindE (at img (u_rva u + 4 + slot * 2)) (\<lambda>b0.
     bindE (at img (u_rva u + 5 + slot * 2)) (\<lambda>b1.
     let code_offset = unat b0; encoded = unat b1 in
     if code_offset > u_prolog u \<or> (code_offset = 0 \<and> u_flags u AND 4 = 0)
     then Inl (Throw ''invalid unwind code offset'')
     else decode_opcode img u slot code_offset (encoded AND 15) (drop_bit 4 encoded)))"

function decode_operations :: "bytes \<Rightarrow> unwind_header \<Rightarrow> nat \<Rightarrow> fault + operation list" where
  "decode_operations img u slot =
     (if slot < u_count u
      then bindE (decode_operation img u slot) (\<lambda>(operation, operands).
           bindE (decode_operations img u (slot + operands + 1)) (\<lambda>rest.
           Inr (operation # rest)))
      else Inr [])"
  by pat_completeness auto
termination
  by (relation "measure (\<lambda>(img, u, slot). u_count u - slot)") auto

declare decode_operations.simps [simp del]

fun not_descending :: "nat list \<Rightarrow> bool" where
  "not_descending (x # y # xs) = (x < y \<or> not_descending (y # xs))"
| "not_descending xs = False"

definition read_operations :: "bytes \<Rightarrow> unwind_header \<Rightarrow> fault + operation list" where
  "read_operations img u =
     bindE (decode_operations img u 0) (\<lambda>operations.
     if not_descending (map o_offset operations)
     then Inl (Throw ''UNWIND_CODE entries are not descending'')
     else Inr (rev operations))"

subsection \<open>Chained blocks\<close>

definition read_chain :: "pe_view \<Rightarrow> nat \<Rightarrow> fault + nat" where
  "read_chain v trailer =
     bindE (require_range trailer 12 (v_size v) (v_mapped v) ''chained RUNTIME_FUNCTION'') (\<lambda>_.
     bindE (rd32 (v_image v) trailer) (\<lambda>chain_begin.
     bindE (rd32 (v_image v) (trailer + 4)) (\<lambda>chain_end.
     bindE (rd32 (v_image v) (trailer + 8)) (\<lambda>chain_unwind.
     if chain_begin = 0 \<or> chain_begin \<ge> chain_end then Inl (Throw ''invalid chained RUNTIME_FUNCTION'')
     else bindE (require_range chain_begin (chain_end - chain_begin) (v_size v) (v_executable v)
                   ''chained RUNTIME_FUNCTION'') (\<lambda>_.
     if chain_unwind AND 3 \<noteq> 0 then Inl (Throw ''unaligned chained UNWIND_INFO RVA'')
     else bindE (require_range chain_unwind 4 (v_size v) (v_mapped v) ''chained UNWIND_INFO'') (\<lambda>_.
     Inr chain_unwind))))))"

definition check_handler :: "pe_view \<Rightarrow> nat \<Rightarrow> fault + unit" where
  "check_handler v trailer =
     bindE (require_range trailer 4 (v_size v) (v_mapped v) ''exception-handler trailer'') (\<lambda>_.
     bindE (rd32 (v_image v) trailer) (\<lambda>handler.
     require_range handler 1 (v_size v) (v_executable v) ''exception handler''))"

type_synonym unwind_cache = "nat \<rightharpoonup> unwind_info"

definition resolved :: "operation list \<Rightarrow> operation list \<Rightarrow> nat \<Rightarrow> unwind_info" where
  "resolved inherited operations prolog =
     \<lparr>w_inherited = inherited, w_operations = operations, w_all = inherited @ operations,
      w_prolog = prolog\<rparr>"

definition cache_emplace :: "unwind_cache \<Rightarrow> nat \<Rightarrow> unwind_info \<Rightarrow> unwind_cache" where
  "cache_emplace cache rva info = (if cache rva = None then cache(rva \<mapsto> info) else cache)"

function resolve_unwind ::
    "pe_view \<Rightarrow> nat list \<Rightarrow> unwind_cache \<Rightarrow> nat \<Rightarrow> fault + unwind_info \<times> unwind_cache" where
  "resolve_unwind v stack cache rva =
     (if rva \<in> set stack then Inl (Throw ''chained UNWIND_INFO cycle'')
      else if length stack \<ge> kMaxChainDepth then Inl (Throw ''chained UNWIND_INFO depth exceeds 32'')
      else case cache rva of
        Some info \<Rightarrow> Inr (info, cache)
      | None \<Rightarrow>
        bindE (read_unwind_header v rva) (\<lambda>u.
        bindE (read_operations (v_image v) u) (\<lambda>operations.
        let trailer = rva + 4 + padded_count (u_count u) * 2 in
        bindE (if u_flags u AND 4 \<noteq> 0
               then bindE (read_chain v trailer) (\<lambda>chain.
                    bindE (resolve_unwind v (stack @ [rva]) cache chain) (\<lambda>(parent, cache').
                    Inr (w_all parent, cache')))
               else bindE (if u_flags u AND 3 \<noteq> 0 then check_handler v trailer else Inr ()) (\<lambda>_.
                    Inr ([], cache))) (\<lambda>(inherited, cache').
        let info = resolved inherited operations (u_prolog u) in
        Inr (info, cache_emplace cache' rva info)))))"
  by pat_completeness auto
termination
  by (relation "measure (\<lambda>(v, stack, cache, rva). kMaxChainDepth - length stack)") auto

declare resolve_unwind.simps [simp del]

fun resolve_functions ::
    "pe_view \<Rightarrow> unwind_cache \<Rightarrow> runtime_function list \<Rightarrow> fault + function_cfi list" where
  "resolve_functions v cache [] = Inr []"
| "resolve_functions v cache (f # fs) =
     bindE (resolve_unwind v [] cache (f_unwind f)) (\<lambda>(info, cache').
     if w_prolog info > f_end f - f_begin f then Inl (Throw ''prolog exceeds function'')
     else bindE (resolve_functions v cache' fs) (\<lambda>rest.
     Inr (\<lparr>c_begin = f_begin f, c_end = f_end f, c_inherited = w_inherited info,
           c_operations = w_operations info\<rparr> # rest)))"

section \<open>Correctness\<close>

subsection \<open>What a decoded operation looks like\<close>

text \<open>DWARF numbers of the registers Windows treats as nonvolatile; 23 to 32 are xmm6 to xmm15.\<close>

definition dwarf_nonvolatile :: "nat \<Rightarrow> bool" where
  "dwarf_nonvolatile r \<longleftrightarrow> r \<in> {3, 4, 5, 6, 12, 13, 14, 15}"

definition op_ok :: "operation \<Rightarrow> bool" where
  "op_ok op \<longleftrightarrow> o_offset op < 256 \<and>
     (case o_kind op of
        Push \<Rightarrow> dwarf_nonvolatile (o_first op)
      | Alloc \<Rightarrow> 0 < o_first op \<and> 8 dvd o_first op \<and> o_first op < 4294967296
      | Frame \<Rightarrow> dwarf_nonvolatile (o_first op) \<and> 16 dvd o_second op \<and> o_second op \<le> 240
      | Save \<Rightarrow> (dwarf_nonvolatile (o_first op) \<or> 23 \<le> o_first op \<and> o_first op \<le> 32) \<and>
                o_second op < 4294967296
      | Machine \<Rightarrow> o_first op = 40 \<or> o_first op = 48)"

definition view_ok :: "pe_view \<Rightarrow> bool" where
  "view_ok v \<longleftrightarrow> v_size v = length (v_image v) \<and> ranges_within (v_size v) (v_mapped v) \<and>
     ranges_within (v_size v) (v_executable v)"

definition unwind_header_ok :: "pe_view \<Rightarrow> unwind_header \<Rightarrow> bool" where
  "unwind_header_ok v u \<longleftrightarrow> u_prolog u < 256 \<and> u_count u < 256 \<and>
     u_rva u + 4 + padded_count (u_count u) * 2 \<le> v_size v \<and>
     (u_frame_register u = 0 \<or> u_frame_register u < 16 \<and> nonvolatile (u_frame_register u)) \<and>
     16 dvd u_frame_offset u \<and> u_frame_offset u \<le> 240"

lemma nonvolatile_dwarf: "nonvolatile r \<Longrightarrow> r < 16 \<Longrightarrow> dwarf_nonvolatile (register_map ! r)"
proof -
  assume "nonvolatile r" and "r < 16"
  then have "r \<in> {3, 5, 6, 7, 12, 13, 14, 15}"
    by (auto simp: nonvolatile_def)
  then show ?thesis
    by (auto simp: register_map_def dwarf_nonvolatile_def)
qed

lemma padded_count_bounds: "count \<le> padded_count count" "even (padded_count count)"
  by (auto simp: padded_count_def)

lemma and_15_eq: "n AND 15 = n mod 16" for n :: nat
  using take_bit_eq_mask [of 4 n] by (simp add: mask_eq_exp_minus_1 take_bit_eq_mod)

lemma and_7_eq: "n AND 7 = n mod 8" for n :: nat
  using take_bit_eq_mask [of 3 n] by (simp add: mask_eq_exp_minus_1 take_bit_eq_mod)

lemma drop_bit_4_eq: "drop_bit 4 n = n div 16" for n :: nat
  by (simp add: drop_bit_eq_div)

lemma read_unwind_header_ok:
  assumes "read_unwind_header v rva = Inr u"
  shows "unwind_header_ok v u \<and> u_rva u = rva"
proof -
  have "drop_bit 4 (unat (b :: u8)) * 16 \<le> 240" for b
    using unat_u8_div16 [of b] unfolding drop_bit_4_eq by linarith
  then show ?thesis
    using assms unfolding read_unwind_header_def unwind_header_ok_def
    by (auto simp: result_simps Let_def and_15_eq split: if_splits)
qed

lemma read_unwind_header_no_oob:
  "view_ok v \<Longrightarrow> read_unwind_header v rva \<noteq> Inl OutOfBounds"
  unfolding read_unwind_header_def view_ok_def
  by (auto simp: bindE_eq_Inl Let_def require_range_eq_Inr split: if_splits)

lemma decode_alloc_large_ok:
  "decode_alloc_large img u slot c info = Inr (op, k) \<Longrightarrow> c < 256 \<Longrightarrow> op_ok op \<and> o_offset op = c"
  unfolding decode_alloc_large_def op_ok_def
  by (auto simp: result_simps Let_def and_7_eq dest!: rd16_eq_InrD rd32_eq_InrD split: if_splits)

lemma decode_save_ok:
  "decode_save img u slot c opcode info = Inr (op, k) \<Longrightarrow> c < 256 \<Longrightarrow> info < 16 \<Longrightarrow>
     op_ok op \<and> o_offset op = c"
  unfolding decode_save_def op_ok_def
  by (auto simp: result_simps Let_def nonvolatile_dwarf dest!: rd16_eq_InrD rd32_eq_InrD split: if_splits)

lemma decode_save_xmm_ok:
  "decode_save_xmm img u slot c opcode info = Inr (op, k) \<Longrightarrow> c < 256 \<Longrightarrow> info < 16 \<Longrightarrow>
     op_ok op \<and> o_offset op = c"
  unfolding decode_save_xmm_def op_ok_def
  by (auto simp: result_simps Let_def dest!: rd16_eq_InrD rd32_eq_InrD split: if_splits)

lemma decode_opcode_ok:
  assumes "decode_opcode img u slot c opcode info = Inr (op, k)" and "c < 256" and "info < 16"
    and "unwind_header_ok v u"
  shows "op_ok op \<and> o_offset op = c"
proof -
  consider "opcode = 1" | "opcode = 4 \<or> opcode = 5" | "opcode = 8 \<or> opcode = 9"
    | "opcode \<notin> {1, 4, 5, 8, 9}"
    by auto
  then show ?thesis
  proof cases
    case 4
    then show ?thesis
      using assms unfolding decode_opcode_def unwind_header_ok_def op_ok_def
      by (auto simp: result_simps nonvolatile_dwarf split: if_splits)
  qed (use assms decode_alloc_large_ok decode_save_ok decode_save_xmm_ok
        in \<open>fastforce simp: decode_opcode_def\<close>)+
qed

lemma info_less: "drop_bit 4 (unat (b :: u8)) < 16"
  using unat_u8_div16 [of b] by (simp only: drop_bit_4_eq)

lemma decode_operation_ok:
  assumes "decode_operation img u slot = Inr (op, k)" and "unwind_header_ok v u"
  shows "op_ok op \<and> o_offset op \<le> u_prolog u"
proof -
  let ?c = "img ! (u_rva u + 4 + slot * 2)" and ?b = "img ! (u_rva u + 5 + slot * 2)"
  have "unat ?c \<le> u_prolog u"
    and "decode_opcode img u slot (unat ?c) (unat ?b AND 15) (drop_bit 4 (unat ?b)) = Inr (op, k)"
    using assms(1) unfolding decode_operation_def by (auto simp: result_simps Let_def)
  then show ?thesis
    using decode_opcode_ok [OF _ unat_u8_less info_less assms(2)] by fastforce
qed

lemma decode_alloc_large_no_oob [simp]: "decode_alloc_large img u slot c info \<noteq> Inl OutOfBounds"
  by (simp add: decode_alloc_large_def bindE_eq_Inl Let_def)

lemma decode_save_no_oob [simp]: "decode_save img u slot c opcode info \<noteq> Inl OutOfBounds"
  by (simp add: decode_save_def bindE_eq_Inl Let_def)

lemma decode_save_xmm_no_oob [simp]: "decode_save_xmm img u slot c opcode info \<noteq> Inl OutOfBounds"
  by (simp add: decode_save_xmm_def bindE_eq_Inl Let_def)

lemma decode_opcode_no_oob: "decode_opcode img u slot c opcode info \<noteq> Inl OutOfBounds"
  by (simp add: decode_opcode_def)

lemma decode_operation_no_oob:
  assumes "view_ok v" and "unwind_header_ok v u" and "slot < u_count u"
  shows "decode_operation (v_image v) u slot \<noteq> Inl OutOfBounds"
proof -
  have "slot < padded_count (u_count u)"
    using assms(3) padded_count_bounds(1) by (rule order_less_le_trans)
  then have "u_rva u + 5 + slot * 2 < length (v_image v)"
    using assms(1,2) unfolding view_ok_def unwind_header_ok_def by linarith
  then have "at (v_image v) (u_rva u + 4 + slot * 2) = Inr (v_image v ! (u_rva u + 4 + slot * 2))"
    and "at (v_image v) (u_rva u + 5 + slot * 2) = Inr (v_image v ! (u_rva u + 5 + slot * 2))"
    by (simp_all add: at_def)
  then show ?thesis
    by (simp add: decode_operation_def Let_def decode_opcode_no_oob)
qed

lemma decode_operations_ok:
  assumes "decode_operations img u slot = Inr ops" and "unwind_header_ok v u"
  shows "list_all op_ok ops \<and> list_all (\<lambda>op. o_offset op \<le> u_prolog u) ops
    \<and> length ops \<le> u_count u - slot"
  using assms
proof (induction img u slot arbitrary: ops rule: decode_operations.induct)
  case (1 img u slot)
  show ?case
  proof (cases "slot < u_count u")
    case True
    then obtain op k rest where op: "decode_operation img u slot = Inr (op, k)"
      and rest: "decode_operations img u (slot + k + 1) = Inr rest" and ops: "ops = op # rest"
      using "1.prems"(1) by (subst (asm) decode_operations.simps) (auto simp: result_simps)
    then show ?thesis
      using "1.IH" [OF True op _ rest] decode_operation_ok [OF op "1.prems"(2)] "1.prems"(2) True
      by force
  next
    case False
    then show ?thesis
      using "1.prems"(1) by (subst (asm) decode_operations.simps) auto
  qed
qed

lemma decode_operations_no_oob:
  assumes "view_ok v" and "unwind_header_ok v u"
  shows "decode_operations (v_image v) u slot \<noteq> Inl OutOfBounds"
  using assms
proof (induction "v_image v" u slot rule: decode_operations.induct)
  case (1 u slot)
  have "decode_operation (v_image v) u slot \<noteq> Inl OutOfBounds" if "slot < u_count u"
    using decode_operation_no_oob [OF "1.prems" that] .
  with 1 show ?case
    by (subst decode_operations.simps) (auto simp: bindE_eq_Inl split: if_splits)
qed

lemma not_descending_rev: "\<not> not_descending xs \<Longrightarrow> sorted (rev xs)"
proof (induction xs rule: not_descending.induct)
  case (1 x y xs)
  then show ?case
    by (force simp: sorted_append)
qed simp_all

text \<open>The operations of a block, in the order the prologue executes them.\<close>

definition block_ok :: "nat \<Rightarrow> operation list \<Rightarrow> bool" where
  "block_ok prolog ops \<longleftrightarrow> list_all op_ok ops \<and> sorted (map o_offset ops) \<and>
     list_all (\<lambda>op. o_offset op \<le> prolog) ops"

lemma read_operations_ok:
  "read_operations img u = Inr ops \<Longrightarrow> unwind_header_ok v u \<Longrightarrow> block_ok (u_prolog u) ops"
  using not_descending_rev [of "map o_offset (rev ops)"]
  by (auto simp: read_operations_def block_ok_def result_simps rev_map dest: decode_operations_ok)

lemma read_operations_no_oob:
  "view_ok v \<Longrightarrow> unwind_header_ok v u \<Longrightarrow> read_operations (v_image v) u \<noteq> Inl OutOfBounds"
  by (auto simp: read_operations_def bindE_eq_Inl decode_operations_no_oob)

subsection \<open>Chain resolution\<close>

definition unwind_info_ok :: "unwind_info \<Rightarrow> bool" where
  "unwind_info_ok w \<longleftrightarrow> w_all w = w_inherited w @ w_operations w \<and>
     list_all op_ok (w_inherited w) \<and> block_ok (w_prolog w) (w_operations w)"

definition cache_ok :: "unwind_cache \<Rightarrow> bool" where
  "cache_ok cache \<longleftrightarrow> (\<forall>w \<in> ran cache. unwind_info_ok w)"

lemma cache_ok_emplace: "cache_ok cache \<Longrightarrow> unwind_info_ok w \<Longrightarrow> cache_ok (cache_emplace cache rva w)"
  by (auto simp: cache_ok_def cache_emplace_def ran_def)

lemma read_chain_no_oob [simp]: "read_chain v t \<noteq> Inl OutOfBounds"
  by (simp add: read_chain_def bindE_eq_Inl)

lemma check_handler_no_oob [simp]: "check_handler v t \<noteq> Inl OutOfBounds"
  by (simp add: check_handler_def bindE_eq_Inl)

lemma resolve_unwind_ok:
  "resolve_unwind v stack cache rva = Inr (w, cache') \<Longrightarrow> cache_ok cache \<Longrightarrow>
     unwind_info_ok w \<and> cache_ok cache'"
proof (induction v stack cache rva arbitrary: w cache' rule: resolve_unwind.induct)
  case (1 v stack cache rva)
  have fresh: "rva \<notin> set stack" and shallow: "\<not> kMaxChainDepth \<le> length stack"
    using "1.prems"(1) by (auto simp: resolve_unwind.simps [of v stack cache rva] split: if_splits)
  show ?case
  proof (cases "cache rva")
    case (Some w')
    then show ?thesis
      using 1 fresh shallow by (auto simp: resolve_unwind.simps [of v stack] cache_ok_def ran_def)
  next
    case None
    obtain u ops where u: "read_unwind_header v rva = Inr u"
      and ops: "read_operations (v_image v) u = Inr ops"
      using "1.prems"(1) fresh shallow None
      by (auto simp: resolve_unwind.simps [of v stack] result_simps)
    then have block: "block_ok (u_prolog u) ops"
      using read_unwind_header_ok read_operations_ok by blast
    let ?trailer = "rva + 4 + padded_count (u_count u) * 2"
    obtain inherited mid where inherited: "list_all op_ok inherited" and mid: "cache_ok mid"
      and w: "w = resolved inherited ops (u_prolog u)" "cache' = cache_emplace mid rva w"
    proof (cases "u_flags u AND 4 = 0")
      case True
      then show ?thesis
        using "1.prems" fresh shallow None u ops
        by (intro that [of "[]" cache]) (auto simp: resolve_unwind.simps [of v stack cache rva] result_simps Let_def)
    next
      case False
      then obtain chain parent mid where chain: "read_chain v ?trailer = Inr chain"
        and rec: "resolve_unwind v (stack @ [rva]) cache chain = Inr (parent, mid)"
        and w: "w = resolved (w_all parent) ops (u_prolog u)" "cache' = cache_emplace mid rva w"
        using "1.prems"(1) fresh shallow None u ops
        by (auto simp: resolve_unwind.simps [of v stack cache rva] result_simps Let_def)
      have "unwind_info_ok parent \<and> cache_ok mid"
        using "1.IH" [OF fresh shallow None u ops refl False chain rec "1.prems"(2)] .
      then show ?thesis
        using w by (intro that [of "w_all parent" mid]) (auto simp: unwind_info_ok_def block_ok_def)
    qed
    then have "unwind_info_ok w"
      using block by (simp add: unwind_info_ok_def resolved_def)
    with mid w show ?thesis
      by (simp add: cache_ok_emplace)
  qed
qed

lemma resolve_unwind_no_oob:
  "view_ok v \<Longrightarrow> resolve_unwind v stack cache rva \<noteq> Inl OutOfBounds"
proof (induction v stack cache rva rule: resolve_unwind.induct)
  case (1 v stack cache rva)
  show ?case
  proof
    assume oob: "resolve_unwind v stack cache rva = Inl OutOfBounds"
    have fresh: "rva \<notin> set stack" and shallow: "\<not> kMaxChainDepth \<le> length stack"
      and None: "cache rva = None"
      using oob by (auto simp: resolve_unwind.simps [of v stack cache rva] split: if_splits option.splits)
    obtain u where u: "read_unwind_header v rva = Inr u"
      using oob fresh shallow None read_unwind_header_no_oob [OF "1.prems"]
      by (auto simp: resolve_unwind.simps [of v stack] bindE_eq_Inl)
    obtain ops where ops: "read_operations (v_image v) u = Inr ops"
      using oob fresh shallow None u read_operations_no_oob [OF "1.prems"] read_unwind_header_ok [OF u]
      by (auto simp: resolve_unwind.simps [of v stack] bindE_eq_Inl)
    show False
      using oob "1.IH" [OF fresh shallow None u ops refl _ _ "1.prems"]
      by (auto simp: resolve_unwind.simps [of v stack cache rva] fresh shallow None u ops
          bindE_eq_Inl Let_def split: if_splits)
  qed
qed

definition cfi_ok :: "function_cfi \<Rightarrow> bool" where
  "cfi_ok c \<longleftrightarrow> list_all op_ok (c_inherited c) \<and> block_ok (c_end c - c_begin c) (c_operations c)"

lemma block_ok_mono: "block_ok p ops \<Longrightarrow> p \<le> q \<Longrightarrow> block_ok q ops"
  by (auto simp: block_ok_def list_all_iff)

lemma resolve_functions_ok:
  "resolve_functions v cache fs = Inr cs \<Longrightarrow> cache_ok cache \<Longrightarrow>
     list_all cfi_ok cs \<and> map (\<lambda>c. (c_begin c, c_end c)) cs = map (\<lambda>f. (f_begin f, f_end f)) fs"
proof (induction v cache fs arbitrary: cs rule: resolve_functions.induct)
  case (2 v cache f fs)
  obtain w cache' rest where w: "resolve_unwind v [] cache (f_unwind f) = Inr (w, cache')"
    and small: "\<not> w_prolog w > f_end f - f_begin f"
    and rest: "resolve_functions v cache' fs = Inr rest"
    and cs: "cs = \<lparr>c_begin = f_begin f, c_end = f_end f, c_inherited = w_inherited w,
           c_operations = w_operations w\<rparr> # rest"
    using "2.prems"(1) by (auto simp: result_simps split: if_splits)
  have w_ok: "unwind_info_ok w \<and> cache_ok cache'"
    using resolve_unwind_ok [OF w "2.prems"(2)] .
  then have "block_ok (f_end f - f_begin f) (w_operations w)"
    using small by (auto simp: unwind_info_ok_def intro: block_ok_mono)
  then show ?case
    using "2.IH" [OF w refl small rest] w_ok by (auto simp: cs cfi_ok_def unwind_info_ok_def)
qed simp

lemma resolve_functions_no_oob:
  "view_ok v \<Longrightarrow> resolve_functions v cache fs \<noteq> Inl OutOfBounds"
  by (induction v cache fs rule: resolve_functions.induct)
    (auto simp: bindE_eq_Inl resolve_unwind_no_oob split: if_splits)

section \<open>The whole of parse_pe\<close>

record parsed_pe =
  p_source :: bytes
  p_image :: bytes
  p_functions :: "runtime_function list"
  p_cfi :: "function_cfi list"
  p_exports :: "pe_export list"
  p_executable :: "range list"
  p_fingerprint :: u64

definition parse_pe :: "bytes \<Rightarrow> fault + parsed_pe" where
  "parse_pe data =
     bindE (parse_headers data) (\<lambda>h.
     bindE (parse_sections data h) (\<lambda>sections.
     bindE (layout_image data h sections) (\<lambda>img.
     let mapped = mapped_ranges h sections; executable = executable_ranges sections;
         v = \<lparr>v_image = img, v_size = h_image_size h, v_mapped = mapped, v_executable = executable\<rparr> in
     bindE (directory data h 3) (\<lambda>exception_directory.
     bindE (parse_functions img (h_image_size h) mapped executable exception_directory) (\<lambda>functions.
     bindE (resolve_functions v (\<lambda>_. None) functions) (\<lambda>cfi.
     bindE (directory data h 0) (\<lambda>export_directory.
     bindE (parse_exports img (h_image_size h) mapped executable export_directory) (\<lambda>exports.
     Inr \<lparr>p_source = data, p_image = img, p_functions = functions, p_cfi = cfi,
          p_exports = exports, p_executable = executable, p_fingerprint = fingerprint data\<rparr>))))))))"


definition parsed_ok :: "bytes \<Rightarrow> parsed_pe \<Rightarrow> bool" where
  "parsed_ok data pe \<longleftrightarrow>
     p_source pe = data \<and> 0 < length (p_image pe) \<and> length (p_image pe) \<le> kMaxImageSize \<and>
     ranges_within (length (p_image pe)) (p_executable pe) \<and>
     sorted_wrt (apart r_begin r_end) (p_executable pe) \<and>
     (\<forall>r \<in> set (p_executable pe). r_begin r < r_end r) \<and>
     (\<forall>f \<in> set (p_functions pe). 0 < f_begin f \<and> f_begin f < f_end f \<and>
        contained (f_begin f) (f_end f - f_begin f) (p_executable pe)) \<and>
     sorted_wrt (\<lambda>f g. f_end f \<le> f_begin g) (p_functions pe) \<and>
     map (\<lambda>c. (c_begin c, c_end c)) (p_cfi pe) = map (\<lambda>f. (f_begin f, f_end f)) (p_functions pe) \<and>
     list_all cfi_ok (p_cfi pe) \<and>
     list_all (export_ok (p_executable pe)) (p_exports pe)"

lemma parse_pe_view_ok:
  "header_ok data h \<Longrightarrow> sections_ok data h ss \<Longrightarrow> length img = h_image_size h \<Longrightarrow>
     view_ok \<lparr>v_image = img, v_size = h_image_size h, v_mapped = mapped_ranges h ss,
       v_executable = executable_ranges ss\<rparr>"
  by (simp add: view_ok_def mapped_within executable_within)

lemma directory_no_oob [simp]: "directory data h i \<noteq> Inl OutOfBounds"
  by (simp add: directory_def bindE_eq_Inl Let_def)

lemma parse_pe_stages:
  assumes "parse_pe data = Inr pe"
  obtains h ss dir dir' where "header_ok data h" and "sections_ok data h ss"
    and "layout_image data h ss = Inr (p_image pe)" and "length (p_image pe) = h_image_size h"
    and "p_executable pe = executable_ranges ss" and "p_source pe = data"
    and "parse_functions (p_image pe) (h_image_size h) (mapped_ranges h ss) (p_executable pe) dir
      = Inr (p_functions pe)"
    and "resolve_functions \<lparr>v_image = p_image pe, v_size = h_image_size h, v_mapped = mapped_ranges h ss,
       v_executable = p_executable pe\<rparr> (\<lambda>_. None) (p_functions pe) = Inr (p_cfi pe)"
    and "parse_exports (p_image pe) (h_image_size h) (mapped_ranges h ss) (p_executable pe) dir'
      = Inr (p_exports pe)"
proof -
  obtain h ss img dir fs cfi dir' xs where h: "parse_headers data = Inr h"
    and ss: "parse_sections data h = Inr ss" and img: "layout_image data h ss = Inr img"
    and fs: "parse_functions img (h_image_size h) (mapped_ranges h ss) (executable_ranges ss) dir = Inr fs"
    and cfi: "resolve_functions \<lparr>v_image = img, v_size = h_image_size h, v_mapped = mapped_ranges h ss,
       v_executable = executable_ranges ss\<rparr> (\<lambda>_. None) fs = Inr cfi"
    and xs: "parse_exports img (h_image_size h) (mapped_ranges h ss) (executable_ranges ss) dir' = Inr xs"
    and pe: "pe = \<lparr>p_source = data, p_image = img, p_functions = fs, p_cfi = cfi,
          p_exports = xs, p_executable = executable_ranges ss, p_fingerprint = fingerprint data\<rparr>"
    using assms unfolding parse_pe_def bindE_eq_Inr Let_def by blast
  have ok: "header_ok data h" "sections_ok data h ss"
    using h ss by (auto intro: parse_headers_ok parse_sections_ok)
  then have "length img = h_image_size h"
    using layout_image_total [of data h ss] img by (auto simp: sections_ok_def)
  with ok img fs cfi xs show thesis
    by (intro that) (simp_all add: pe)
qed

lemma parse_pe_parsed_ok:
  assumes "parse_pe data = Inr pe"
  shows "parsed_ok data pe"
  using assms
proof (rule parse_pe_stages)
  fix h ss dir dir'
  let ?v = "\<lparr>v_image = p_image pe, v_size = h_image_size h, v_mapped = mapped_ranges h ss,
       v_executable = p_executable pe\<rparr>"
  assume ok: "header_ok data h" "sections_ok data h ss" and len: "length (p_image pe) = h_image_size h"
    and exec: "p_executable pe = executable_ranges ss" and src: "p_source pe = data"
    and fs: "parse_functions (p_image pe) (h_image_size h) (mapped_ranges h ss) (p_executable pe) dir
      = Inr (p_functions pe)"
    and cfi: "resolve_functions ?v (\<lambda>_. None) (p_functions pe) = Inr (p_cfi pe)"
    and xs: "parse_exports (p_image pe) (h_image_size h) (mapped_ranges h ss) (p_executable pe) dir'
      = Inr (p_exports pe)"
  have size: "0 < length (p_image pe) \<and> length (p_image pe) \<le> kMaxImageSize"
    using ok(1) len by (simp add: header_ok_def)
  have ranges: "ranges_within (length (p_image pe)) (p_executable pe)"
    "sorted_wrt (apart r_begin r_end) (p_executable pe)"
    "\<forall>r \<in> set (p_executable pe). r_begin r < r_end r"
    using executable_within [OF ok(2)] executable_apart [OF ok(2)] executable_nonempty [OF ok(2)]
    by (simp_all add: exec len)
  have funs: "\<forall>f \<in> set (p_functions pe). 0 < f_begin f \<and> f_begin f < f_end f \<and>
        contained (f_begin f) (f_end f - f_begin f) (p_executable pe)"
    "sorted_wrt (\<lambda>f g. f_end f \<le> f_begin g) (p_functions pe)"
    using parse_functions_ok [OF fs] by (auto simp: function_ok_def list_all_iff)
  have "cache_ok (\<lambda>_. None)"
    by (simp add: cache_ok_def)
  with resolve_functions_ok [OF cfi] parse_exports_ok [OF xs len [symmetric]] size ranges funs src
  show ?thesis
    unfolding parsed_ok_def by (simp only: len) 
qed

lemma parse_pe_never_oob: "parse_pe data \<noteq> Inl OutOfBounds"
proof (cases "parse_headers data")
  case (Inl e)
  then show ?thesis
    using parse_headers_no_oob [of data] by (simp add: parse_pe_def)
next
  case (Inr h)
  then have h: "header_ok data h"
    by (rule parse_headers_ok)
  show ?thesis
  proof (cases "parse_sections data h")
    case (Inl e)
    then show ?thesis
      using Inr parse_sections_no_oob [OF h] by (simp add: parse_pe_def)
  next
    case ss: (Inr ss)
    then have sections: "sections_ok data h ss"
      by (rule parse_sections_ok)
    then obtain img where img: "layout_image data h ss = Inr img" and len: "length img = h_image_size h"
      using layout_image_total [OF h] by (auto simp: sections_ok_def)
    show ?thesis
      using parse_pe_view_ok [OF h sections len] mapped_within [OF h sections]
      by (auto simp: parse_pe_def Inr ss img Let_def bindE_eq_Inl parse_functions_no_oob
          resolve_functions_no_oob parse_exports_no_oob len)
  qed
qed

end
