(* ===== verification/Sidecar_Cfi.thy ===== *)
theory Sidecar_Cfi
  imports Sidecar_Unwind "HOL-Library.Signed_Division"
begin

text \<open>
  The DWARF writer of \<open>src/src/pe_sidecar.cpp\<close>: \<open>append_advance\<close>, \<open>emit_offset\<close>,
  \<open>apply_operation\<close>, \<open>make_cfi_ranges\<close>, \<open>build_eh_frame\<close> and \<open>build_eh_frame_hdr\<close>. The 64-bit
  quantities \<open>depth\<close>, \<open>bias\<close> and the addresses are words, so all sums wrap as they do in the code;
  an \<open>int64_t\<close> is a word read by \<open>sint\<close>.

  The writer is checked against a DWARF consumer: a decoder for the call frame instructions, their
  execution on a row of rules, and a machine that executes the prologue the unwind codes describe.
\<close>

section \<open>The writer\<close>

definition signed_32 :: "u64 \<Rightarrow> string \<Rightarrow> fault + u32" where
  "signed_32 v description =
     (if sint v < - 2147483648 \<or> sint v > 2147483647
      then Inl (Throw (description @ '' exceeds signed PC-relative range''))
      else Inr (ucast v))"

definition append_advance :: "bytes \<Rightarrow> u32 \<Rightarrow> bytes" where
  "append_advance out delta =
     (if delta = 0 then out
      else if delta < 64 then out @ [ucast (0x40 OR delta)]
      else if delta \<le> 0xff then out @ [0x02, ucast delta]
      else if delta \<le> 0xffff then out @ [0x03, ucast (delta AND 0xff), ucast (drop_bit 8 delta)]
      else append_u32 (out @ [0x04]) delta)"

definition emit_offset :: "bytes \<Rightarrow> u64 \<Rightarrow> u64 \<Rightarrow> fault + bytes" where
  "emit_offset out reg offset =
     (if sint offset smod (- 8) \<noteq> 0
      then Inl (Throw ''unwind save offset is not eight-byte aligned'')
      else Inr (append_sleb (append_uleb (out @ [0x11]) reg) (word_of_int (sint offset sdiv (- 8)))))"

record cfi_state =
  e_depth :: u64
  e_frame :: bool
  e_bias :: u64

definition apply_operation :: "bytes \<Rightarrow> operation \<Rightarrow> cfi_state \<Rightarrow> fault + bytes \<times> cfi_state" where
  "apply_operation out operation st =
     (let reg = of_nat (o_first operation) :: u64; second = of_nat (o_second operation) :: u64 in
      case o_kind operation of
        Push \<Rightarrow>
          (let st' = st\<lparr>e_depth := e_depth st + 8\<rparr>;
               out' = (if \<not> e_frame st
                       then append_uleb (out @ [0x0e]) (e_depth st' + e_bias st') else out) in
           bindE (emit_offset out' reg (- (e_depth st' + e_bias st'))) (\<lambda>out''. Inr (out'', st')))
      | Alloc \<Rightarrow>
          (let st' = st\<lparr>e_depth := e_depth st + reg\<rparr> in
           Inr (if \<not> e_frame st
                then append_uleb (out @ [0x0e]) (e_depth st' + e_bias st') else out, st'))
      | Frame \<Rightarrow>
          (if e_depth st + e_bias st < second
           then Inl (Throw ''frame-register CFA offset is negative'')
           else Inr (append_uleb (append_uleb (out @ [0x0c]) reg)
                       (e_depth st + e_bias st - second), st\<lparr>e_frame := True\<rparr>))
      | Save \<Rightarrow>
          bindE (emit_offset out reg (second - (e_depth st + e_bias st))) (\<lambda>out'. Inr (out', st))
      | Machine \<Rightarrow>
          (let st' = st\<lparr>e_bias := 0, e_depth := e_depth st + reg\<rparr>;
               out' = (if \<not> e_frame st then append_uleb (out @ [0x0e]) (e_depth st') else out) in
           bindE (emit_offset out' 16 (- 40)) (\<lambda>out''. Inr (out'', st'))))"

fun apply_operations :: "bytes \<Rightarrow> operation list \<Rightarrow> cfi_state \<Rightarrow> fault + bytes \<times> cfi_state" where
  "apply_operations out [] st = Inr (out, st)"
| "apply_operations out (op # ops) st =
     bindE (apply_operation out op st) (\<lambda>(out', st'). apply_operations out' ops st')"

text \<open>The loop over a range's own operations: advance to the next code offset, then apply the run
  of operations that share it.\<close>

function emit_operations ::
    "bytes \<Rightarrow> nat \<Rightarrow> operation list \<Rightarrow> cfi_state \<Rightarrow> fault + bytes \<times> cfi_state" where
  "emit_operations out position operations st =
     (case operations of
        [] \<Rightarrow> Inr (out, st)
      | op # _ \<Rightarrow>
        (let code_offset = o_offset op;
             same = (\<lambda>op'. o_offset op' = code_offset);
             out' = append_advance out (of_nat code_offset - of_nat position) in
         bindE (apply_operations out' (takeWhile same operations) st) (\<lambda>(out'', st').
         emit_operations out'' code_offset (dropWhile same operations) st')))"
  by pat_completeness auto
termination
  by (relation "measure (\<lambda>(out, position, operations, st). length operations)")
    (auto simp: less_Suc_eq_le length_dropWhile_le)

declare emit_operations.simps [simp del]

subsection \<open>Ranges\<close>

record cfi_range =
  g_begin :: nat
  g_end :: nat
  g_inherited :: "operation list"
  g_operations :: "operation list"

abbreviation gap_range :: "nat \<Rightarrow> nat \<Rightarrow> cfi_range" where
  "gap_range b e \<equiv> \<lparr>g_begin = b, g_end = e, g_inherited = [], g_operations = []\<rparr>"

text \<open>The inner loop of \<open>make_cfi_ranges\<close> for one executable section: the ranges it pushes.\<close>

fun section_gaps :: "nat \<Rightarrow> nat \<Rightarrow> runtime_function list \<Rightarrow> cfi_range list" where
  "section_gaps position stop [] = (if position < stop then [gap_range position stop] else [])"
| "section_gaps position stop (f # fs) =
     (if f_end f \<le> position \<or> f_begin f \<ge> stop then section_gaps position stop fs
      else let before = (if f_begin f > position then [gap_range position (min (f_begin f) stop)] else []);
               position' = max position (f_end f) in
        if position' \<ge> stop then before
        else before @ section_gaps position' stop fs)"

definition function_ranges :: "function_cfi list \<Rightarrow> cfi_range list" where
  "function_ranges = map (\<lambda>c. \<lparr>g_begin = c_begin c, g_end = c_end c, g_inherited = c_inherited c,
                                g_operations = c_operations c\<rparr>)"

definition make_cfi_ranges :: "parsed_pe \<Rightarrow> cfi_range list" where
  "make_cfi_ranges pe =
     sort_key g_begin
       (function_ranges (p_cfi pe) @
        concat (map (\<lambda>s. section_gaps (r_begin s) (r_end s) (p_functions pe)) (p_executable pe)))"

subsection \<open>The frame section\<close>

function pad8 :: "bytes \<Rightarrow> bytes" where
  "pad8 out = (if length out mod 8 \<noteq> 0 then pad8 (out @ [0]) else out)"
  by pat_completeness auto
termination
proof (relation "measure (\<lambda>out. (8 - length out mod 8) mod 8)")
  fix out :: bytes
  assume "length out mod 8 \<noteq> 0"
  moreover have "length out mod 8 < 8"
    by simp
  ultimately have "(8 - Suc (length out) mod 8) mod 8 < (8 - length out mod 8) mod 8"
    unfolding mod_Suc by (cases "length out mod 8 = 7") auto
  then show "(out @ [0], out) \<in> measure (\<lambda>out. (8 - length out mod 8) mod 8)"
    by simp
qed simp

declare pad8.simps [simp del]

definition cie_bytes :: bytes where
  "cie_bytes =
     (let out = append_u32 (replicate 4 0) 0;
          out = out @ [1] @ [of_char (CHR ''z''), of_char (CHR ''R''), 0];
          out = append_uleb out 1;
          out = append_sleb out (- 8);
          out = append_uleb out 16;
          out = append_uleb out 1;
          out = out @ [0x1b] @ [0x0c];
          out = append_uleb out 7;
          out = append_uleb out 8;
          out = append_uleb (out @ [0x90]) 1 in
      pad8 out)"

definition build_cie :: "fault + bytes" where
  "build_cie = set_u32 cie_bytes 0 (of_nat (length cie_bytes) - 4)"

definition entry_state :: cfi_state where
  "entry_state = \<lparr>e_depth = 0, e_frame = False, e_bias = 8\<rparr>"

definition build_fde :: "u64 \<Rightarrow> u64 \<Rightarrow> bytes \<Rightarrow> cfi_range \<Rightarrow> fault + bytes" where
  "build_fde eh_frame_va text_va out r =
     (let fde_start = length out;
          out = append_u32 (out @ replicate 4 0) (of_nat fde_start + 4);
          location_field = eh_frame_va + of_nat (length out) in
      bindE (signed_32 (text_va + of_nat (g_begin r) - location_field) ''FDE initial location'') (\<lambda>rel.
      let out = append_u32 out rel;
          out = append_u32 out (of_nat (g_end r) - of_nat (g_begin r));
          out = append_uleb out 0 in
      bindE (apply_operations out (g_inherited r) entry_state) (\<lambda>(out, st).
      bindE (emit_operations out 0 (g_operations r) st) (\<lambda>(out, st).
      let out = pad8 out in
      set_u32 out fde_start (of_nat (length out) - of_nat fde_start - 4)))))"

fun build_fdes ::
    "u64 \<Rightarrow> u64 \<Rightarrow> bytes \<Rightarrow> cfi_range list \<Rightarrow> fault + bytes \<times> u32 list" where
  "build_fdes eh_frame_va text_va out [] = Inr (out, [])"
| "build_fdes eh_frame_va text_va out (r # rs) =
     bindE (build_fde eh_frame_va text_va out r) (\<lambda>out'.
     bindE (build_fdes eh_frame_va text_va out' rs) (\<lambda>(out'', offsets).
     Inr (out'', of_nat (length out) # offsets)))"

definition build_eh_frame :: "u64 \<Rightarrow> u64 \<Rightarrow> cfi_range list \<Rightarrow> fault + bytes \<times> u32 list" where
  "build_eh_frame eh_frame_va text_va ranges =
     bindE build_cie (\<lambda>out.
     bindE (build_fdes eh_frame_va text_va out ranges) (\<lambda>(out', fde_offsets).
     Inr (append_u32 out' 0, fde_offsets)))"

text \<open>One entry of the binary search table; \<open>fde_offsets[index]\<close> is the unchecked access.\<close>

fun hdr_entries ::
    "u64 \<Rightarrow> u64 \<Rightarrow> u64 \<Rightarrow> bytes \<Rightarrow> cfi_range list \<Rightarrow> u32 list \<Rightarrow> fault + bytes" where
  "hdr_entries header_va eh_frame_va text_va out [] offsets = Inr out"
| "hdr_entries header_va eh_frame_va text_va out (r # rs) [] = Inl OutOfBounds"
| "hdr_entries header_va eh_frame_va text_va out (r # rs) (off # offsets) =
     bindE (signed_32 (text_va + of_nat (g_begin r) - header_va) ''.eh_frame_hdr function address'') (\<lambda>fn.
     bindE (signed_32 (eh_frame_va + ucast off - header_va) ''.eh_frame_hdr FDE address'') (\<lambda>fde.
     hdr_entries header_va eh_frame_va text_va (append_u32 (append_u32 out fn) fde) rs offsets))"

definition build_eh_frame_hdr ::
    "u64 \<Rightarrow> u64 \<Rightarrow> u64 \<Rightarrow> cfi_range list \<Rightarrow> u32 list \<Rightarrow> fault + bytes" where
  "build_eh_frame_hdr header_va eh_frame_va text_va ranges fde_offsets =
     bindE (signed_32 (eh_frame_va - (header_va + 4)) ''.eh_frame pointer'') (\<lambda>ptr.
     hdr_entries header_va eh_frame_va text_va
       (append_u32 (append_u32 [1, 0x1b, 0x03, 0x3b] ptr) (of_nat (length ranges)))
       ranges fde_offsets)"

section \<open>A DWARF consumer\<close>

datatype cfa_insn =
    Nop
  | Advance u32
  | Offset u64 u64
  | DefCfa u64 u64
  | DefCfaOffset u64
  | OffsetExtSf u64 u64

definition read_byte :: "bytes \<Rightarrow> (u8 \<times> bytes) option" where
  "read_byte bs = (case bs of [] \<Rightarrow> None | b # rest \<Rightarrow> Some (b, rest))"

definition read_half :: "bytes \<Rightarrow> (u32 \<times> bytes) option" where
  "read_half bs = (case bs of
     a # b # rest \<Rightarrow> Some (ucast a OR push_bit 8 (ucast b), rest) | _ \<Rightarrow> None)"

definition thenD :: "('a \<times> bytes) option \<Rightarrow> ('a \<Rightarrow> bytes \<Rightarrow> 'b option) \<Rightarrow> 'b option" where
  "thenD m f = (case m of None \<Rightarrow> None | Some (x, rest) \<Rightarrow> f x rest)"

definition decode_insn :: "bytes \<Rightarrow> (cfa_insn \<times> bytes) option" where
  "decode_insn bs = thenD (read_byte bs) (\<lambda>b rest.
     if b = 0x00 then Some (Nop, rest)
     else if b = 0x02 then thenD (read_byte rest) (\<lambda>d rest. Some (Advance (ucast d), rest))
     else if b = 0x03 then thenD (read_half rest) (\<lambda>d rest. Some (Advance d, rest))
     else if b = 0x04 then thenD (read_u32 rest) (\<lambda>d rest. Some (Advance d, rest))
     else if b = 0x0c then thenD (read_u64 rest) (\<lambda>r rest. thenD (read_u64 rest) (\<lambda>off rest.
       Some (DefCfa r off, rest)))
     else if b = 0x0e then thenD (read_u64 rest) (\<lambda>off rest. Some (DefCfaOffset off, rest))
     else if b = 0x11 then thenD (read_u64 rest) (\<lambda>r rest. thenD (read_s64 rest) (\<lambda>off rest.
       Some (OffsetExtSf r off, rest)))
     else if 0x40 \<le> b \<and> b < 0x80 then Some (Advance (ucast (b AND 0x3f)), rest)
     else if 0x80 \<le> b \<and> b < 0xc0 then thenD (read_u64 rest) (\<lambda>off rest.
       Some (Offset (ucast (b AND 0x3f)) off, rest))
     else None)"

fun encode_insn :: "cfa_insn \<Rightarrow> bytes" where
  "encode_insn Nop = [0x00]"
| "encode_insn (Advance d) = append_advance [] d"
| "encode_insn (Offset r off) = (0x80 OR ucast r) # uleb off"
| "encode_insn (DefCfa r off) = 0x0c # uleb r @ uleb off"
| "encode_insn (DefCfaOffset off) = 0x0e # uleb off"
| "encode_insn (OffsetExtSf r off) = 0x11 # uleb r @ sleb off"

fun valid_insn :: "cfa_insn \<Rightarrow> bool" where
  "valid_insn (Advance d) \<longleftrightarrow> d \<noteq> 0"
| "valid_insn (Offset r off) \<longleftrightarrow> r = 16"
| "valid_insn _ \<longleftrightarrow> True"

lemma thenD_simps [simp]: "thenD None f = None" "thenD (Some (x, rest)) f = f x rest"
  by (simp_all add: thenD_def)

lemma read_leb_simps [simp]:
  "read_u64 (uleb v @ rest) = Some (v, rest)"
  "read_s64 (sleb v @ rest) = Some (v, rest)"
  "read_u32 (le_bytes w @ rest) = Some (w, rest)"
  by (rule uleb_code.dec_enc sleb_code.dec_enc u32_code.dec_enc, simp)+

text \<open>The one-byte advance, checked for each of its 63 deltas.\<close>

definition advance_byte_ok :: "nat \<Rightarrow> bool" where
  "advance_byte_ok n \<longleftrightarrow>
     (let b = ucast (0x40 OR of_nat n :: u32) :: u8 in
      0x40 \<le> b \<and> b < 0x80 \<and> ucast (b AND 0x3f) = (of_nat n :: u32))"

lemma advance_bytes_ok: "list_all advance_byte_ok [0..<64]"
  by code_simp

lemma advance_small:
  assumes "d < 64" and "d \<noteq> 0"
  shows "decode_insn (ucast (0x40 OR d :: u32) # rest) = Some (Advance d, rest)"
proof -
  let ?b = "ucast (0x40 OR d) :: u8"
  have "unat d < 64"
    using assms(1) by (simp add: word_less_nat_alt)
  then have "unat d \<in> set [0..<64]"
    by simp
  then have "advance_byte_ok (unat d)"
    using advance_bytes_ok unfolding list_all_iff by blast
  then have b: "0x40 \<le> ?b" "?b < 0x80" "ucast (?b AND 0x3f) = d"
    by (simp_all add: advance_byte_ok_def Let_def)
  have "?b \<notin> {0, 2, 3, 4, 0x0c, 0x0e, 0x11}"
    using b(1) by auto
  with b show ?thesis
    by (simp add: decode_insn_def read_byte_def)
qed

lemma unat_u32_le: "(d :: u32) \<le> 0xff \<Longrightarrow> unat d \<le> 255" "d \<le> 0xffff \<Longrightarrow> unat d \<le> 65535"
  by (simp_all add: word_le_nat_alt)

lemma ucast_u8_u32:
  assumes "unat (d :: u32) \<le> 255"
  shows "ucast (ucast d :: u8) = d"
proof -
  have "take_bit 8 d = d"
    by (rule unsigned_word_eqI [where ?'a = nat], simp only: unsigned_take_bit_eq)
      (use assms in \<open>simp add: take_bit_eq_mod\<close>)
  then have high: "\<not> bit d n" if "8 \<le> n" for n
    using that by (metis bit_take_bit_iff not_less)
  show ?thesis
    by (rule bit_word_eqI) (use high in \<open>auto simp: bit_simps not_less [symmetric]\<close>)
qed

lemma half_join:
  assumes "unat (d :: u32) \<le> 65535"
  shows "(ucast (ucast (d AND 0xff) :: u8) :: u32) OR push_bit 8 (ucast (ucast (drop_bit 8 d) :: u8)) = d"
proof -
  have "take_bit 16 d = d"
    by (rule unsigned_word_eqI [where ?'a = nat], simp only: unsigned_take_bit_eq)
      (use assms in \<open>simp add: take_bit_eq_mod\<close>)
  then have high: "\<not> bit d n" if "16 \<le> n" for n
    using that by (metis bit_take_bit_iff not_less)
  show ?thesis
    unfolding and_255_eq_take_bit
  proof (rule bit_word_eqI)
    fix n assume "n < LENGTH(32)"
    then consider "n < 8" | "8 \<le> n \<and> n < 16" | "16 \<le> n \<and> n < 32"
      by force
    then show "bit ((ucast (ucast (take_bit 8 d) :: u8) :: u32) OR push_bit 8 (ucast (ucast (drop_bit 8 d) :: u8))) n = bit d n"
      using high by cases (auto simp: bit_simps)
  qed
qed

lemma advance_decodes:
  assumes "d \<noteq> 0"
  shows "decode_insn (append_advance [] d @ rest) = Some (Advance d, rest)"
proof -
  consider "d < 64" | "\<not> d < 64" "d \<le> 0xff" | "\<not> d < 64" "\<not> d \<le> 0xff" "d \<le> 0xffff"
    | "\<not> d < 64" "\<not> d \<le> 0xff" "\<not> d \<le> 0xffff"
    by blast
  then show ?thesis
  proof cases
    case 1
    then show ?thesis
      using assms advance_small by (simp add: append_advance_def)
  next
    case 2
    then show ?thesis
      using assms ucast_u8_u32 [OF unat_u32_le(1)]
      by (simp add: append_advance_def decode_insn_def read_byte_def)
  next
    case 3
    then show ?thesis
      using assms half_join [OF unat_u32_le(2)]
      by (simp add: append_advance_def decode_insn_def read_byte_def read_half_def)
  next
    case 4
    then show ?thesis
      using assms by (simp add: append_advance_def append_u32_def decode_insn_def read_byte_def)
  qed
qed

lemma decode_encode_insn:
  "valid_insn i \<Longrightarrow> decode_insn (encode_insn i @ rest) = Some (i, rest)"
proof (cases i)
  case (Advance d)
  then show "valid_insn i \<Longrightarrow> ?thesis"
    by (simp add: advance_decodes)
next
  case (Offset r off)
  then show "valid_insn i \<Longrightarrow> ?thesis"
    by (simp add: decode_insn_def read_byte_def)
qed (simp_all add: decode_insn_def read_byte_def)

interpretation insn_code: codec encode_insn decode_insn valid_insn
  by unfold_locales (rule decode_encode_insn)

section \<open>The writer as instruction lists\<close>

text \<open>
  What \<open>apply_operation\<close> and the loops around it emit, as call frame instructions instead of
  bytes. The lemmas below show that the byte writer is exactly the encoding of these lists.
\<close>

abbreviation encode_insns :: "cfa_insn list \<Rightarrow> bytes" where
  "encode_insns is \<equiv> concat (map encode_insn is)"

definition save_at :: "u64 \<Rightarrow> u64 \<Rightarrow> fault + cfa_insn" where
  "save_at reg offset =
     (if sint offset smod (- 8) \<noteq> 0
      then Inl (Throw ''unwind save offset is not eight-byte aligned'')
      else Inr (OffsetExtSf reg (word_of_int (sint offset sdiv (- 8)))))"

definition cfa_offset :: "cfi_state \<Rightarrow> cfa_insn list" where
  "cfa_offset st = (if e_frame st then [] else [DefCfaOffset (e_depth st + e_bias st)])"

definition after :: "operation \<Rightarrow> cfi_state \<Rightarrow> cfi_state" where
  "after op st =
     (case o_kind op of
        Push \<Rightarrow> st\<lparr>e_depth := e_depth st + 8\<rparr>
      | Alloc \<Rightarrow> st\<lparr>e_depth := e_depth st + of_nat (o_first op)\<rparr>
      | Frame \<Rightarrow> st\<lparr>e_frame := True\<rparr>
      | Save \<Rightarrow> st
      | Machine \<Rightarrow> st\<lparr>e_bias := 0, e_depth := e_depth st + of_nat (o_first op)\<rparr>)"

definition lower :: "operation \<Rightarrow> cfi_state \<Rightarrow> fault + cfa_insn list" where
  "lower op st =
     (let reg = of_nat (o_first op); second = of_nat (o_second op); st' = after op st in
      case o_kind op of
        Push \<Rightarrow> bindE (save_at reg (- (e_depth st' + e_bias st'))) (\<lambda>i. Inr (cfa_offset st' @ [i]))
      | Alloc \<Rightarrow> Inr (cfa_offset st')
      | Frame \<Rightarrow>
          (if e_depth st + e_bias st < second
           then Inl (Throw ''frame-register CFA offset is negative'')
           else Inr [DefCfa reg (e_depth st + e_bias st - second)])
      | Save \<Rightarrow> bindE (save_at reg (second - (e_depth st + e_bias st))) (\<lambda>i. Inr [i])
      | Machine \<Rightarrow> bindE (save_at 16 (- 40)) (\<lambda>i. Inr (cfa_offset st' @ [i])))"

fun lower_all :: "operation list \<Rightarrow> cfi_state \<Rightarrow> fault + cfa_insn list \<times> cfi_state" where
  "lower_all [] st = Inr ([], st)"
| "lower_all (op # ops) st =
     bindE (lower op st) (\<lambda>is.
     bindE (lower_all ops (after op st)) (\<lambda>(js, st'). Inr (is @ js, st')))"

definition advance :: "nat \<Rightarrow> nat \<Rightarrow> cfa_insn list" where
  "advance position code_offset =
     (let d = of_nat code_offset - of_nat position in if d = 0 then [] else [Advance d])"

fun lower_body :: "nat \<Rightarrow> operation list \<Rightarrow> cfi_state \<Rightarrow> fault + cfa_insn list \<times> cfi_state" where
  "lower_body position [] st = Inr ([], st)"
| "lower_body position (op # ops) st =
     bindE (lower op st) (\<lambda>is.
     bindE (lower_body (o_offset op) ops (after op st)) (\<lambda>(js, st').
     Inr (advance position (o_offset op) @ is @ js, st')))"

definition written :: "bytes \<Rightarrow> fault + cfa_insn list \<times> cfi_state \<Rightarrow> fault + bytes \<times> cfi_state" where
  "written out m = bindE m (\<lambda>(is, st). Inr (out @ encode_insns is, st))"

lemma written_simps [simp]:
  "written out (Inl e) = Inl e"
  "written out (Inr (is, st)) = Inr (out @ encode_insns is, st)"
  by (simp_all add: written_def)

lemma append_leb_simps:
  "append_uleb (xs @ ys) v = xs @ append_uleb ys v"
  "append_sleb (xs @ ys) v = xs @ append_sleb ys v"
  "append_uleb (x # ys) v = x # append_uleb ys v"
  "append_sleb (x # ys) v = x # append_sleb ys v"
  using append_uleb_append [of "[x]" ys v] append_sleb_append [of "[x]" ys v]
  by (simp_all add: append_uleb_append append_sleb_append)

lemma emit_offset_eq:
  "emit_offset out reg off = bindE (save_at reg off) (\<lambda>i. Inr (out @ encode_insn i))"
  by (simp add: emit_offset_def save_at_def append_leb_simps append_sleb_eq [of "append_uleb _ _"])

lemma apply_operation_eq:
  "apply_operation out op st = written out (bindE (lower op st) (\<lambda>is. Inr (is, after op st)))"
proof (cases "o_kind op")
  case Push
  show ?thesis
    by (cases "save_at (of_nat (o_first op)) (- (e_depth st + 8 + e_bias st))")
      (simp_all add: apply_operation_def lower_def after_def Push emit_offset_eq Let_def
        cfa_offset_def append_leb_simps)
next
  case Alloc
  show ?thesis
    by (simp add: apply_operation_def lower_def after_def Alloc Let_def cfa_offset_def append_leb_simps)
next
  case Frame
  show ?thesis
    by (simp add: apply_operation_def lower_def after_def Frame Let_def append_leb_simps
        append_uleb_eq [of "append_uleb _ _"])
next
  case Save
  show ?thesis
    by (cases "save_at (of_nat (o_first op)) (of_nat (o_second op) - (e_depth st + e_bias st))")
      (simp_all add: apply_operation_def lower_def after_def Save emit_offset_eq Let_def)
next
  case Machine
  show ?thesis
    by (cases "save_at 16 (- 40)")
      (simp_all add: apply_operation_def lower_def after_def Machine emit_offset_eq Let_def
        cfa_offset_def append_leb_simps)
qed

lemma apply_operations_eq: "apply_operations out ops st = written out (lower_all ops st)"
proof (induction ops arbitrary: out st)
  case (Cons op ops)
  show ?case
  proof (cases "lower op st")
    case (Inr insns)
    then show ?thesis
      by (cases "lower_all ops (after op st)") (auto simp: apply_operation_eq Cons.IH)
  qed (simp add: apply_operation_eq)
qed simp

lemma advance_same [simp]: "advance p p = []"
  by (simp add: advance_def)

lemma append_advance_eq:
  "append_advance out (of_nat c - of_nat p) = out @ encode_insns (advance p c)"
  by (auto simp: append_advance_def advance_def append_u32_def Let_def)

lemma lower_body_run:
  "lower_body c ops st =
     bindE (lower_all (takeWhile (\<lambda>op. o_offset op = c) ops) st) (\<lambda>(is, st').
     bindE (lower_body c (dropWhile (\<lambda>op. o_offset op = c) ops) st') (\<lambda>(js, st'').
     Inr (is @ js, st'')))"
proof (induction ops arbitrary: st)
  case (Cons op ops)
  let ?run = "takeWhile (\<lambda>op. o_offset op = c) ops" and ?rest = "dropWhile (\<lambda>op. o_offset op = c) ops"
  show ?case
  proof (cases "o_offset op = c")
    case False
    then show ?thesis
      by (auto simp: bindE_def split: sum.splits)
  next
    case True
    show ?thesis
    proof (cases "lower op st")
      case (Inr insns)
      show ?thesis
      proof (cases "lower_all ?run (after op st)")
        case (Inl e)
        then show ?thesis
          using Cons.IH [of "after op st"] True Inr by simp
      next
        case run: (Inr p)
        then have "lower_body c ops (after op st) =
            bindE (lower_body c ?rest (snd p)) (\<lambda>(js, st''). Inr (fst p @ js, st''))"
          using Cons.IH [of "after op st"] by (simp add: case_prod_unfold)
        then show ?thesis
          using run True Inr by (cases p) (auto simp: bindE_def case_prod_unfold split: sum.splits)
      qed
    qed (use True in simp)
  qed
qed simp

lemma emit_operations_eq:
  "emit_operations out position ops st = written out (lower_body position ops st)"
proof (induction out position ops st rule: emit_operations.induct)
  case (1 out position ops st)
  show ?case
  proof (cases ops)
    case Nil
    then show ?thesis
      by (simp add: emit_operations.simps)
  next
    case (Cons op ops')
    let ?c = "o_offset op"
    let ?same = "\<lambda>op'. o_offset op' = ?c"
    let ?out = "append_advance out (of_nat ?c - of_nat position)"
    have body: "lower_body position ops st =
        bindE (lower_body ?c ops st) (\<lambda>(js, st'). Inr (advance position ?c @ js, st'))"
      by (auto simp: Cons bindE_def split: sum.splits)
    show ?thesis
    proof (cases "lower_all (takeWhile ?same ops) st")
      case (Inl e)
      then have "lower_body position ops st = Inl e"
        by (simp add: body lower_body_run [of ?c ops])
      then show ?thesis
        using Inl Cons by (simp add: emit_operations.simps [of out] Let_def apply_operations_eq)
    next
      case (Inr p)
      let ?rest = "lower_body ?c (dropWhile ?same ops) (snd p)"
      have "emit_operations out position ops st =
          written (?out @ encode_insns (fst p)) ?rest"
        using 1 [OF Cons refl refl refl, of "(?out @ encode_insns (fst p), snd p)"] Inr
        by (subst emit_operations.simps) (cases p, simp add: Cons Let_def apply_operations_eq
            del: takeWhile.simps dropWhile.simps)
      also have "\<dots> = written out (lower_body position ops st)"
        using Inr by (cases ?rest)
          (simp_all add: body lower_body_run [of ?c ops] append_advance_eq case_prod_unfold written_def)
      finally show ?thesis .
    qed
  qed
qed

subsection \<open>Reading the frame section\<close>

fun decode_insns :: "nat \<Rightarrow> bytes \<Rightarrow> cfa_insn list option" where
  "decode_insns fuel [] = Some []"
| "decode_insns 0 (b # bs) = None"
| "decode_insns (Suc fuel) (b # bs) =
     thenD (decode_insn (b # bs)) (\<lambda>i rest. map_option ((#) i) (decode_insns fuel rest))"

record fde =
  d_location :: u64
  d_length :: u32
  d_insns :: "cfa_insn list"

text \<open>
  A frame description entry at \<open>offset\<close> of a section loaded at \<open>va\<close>: its length, the distance to
  its CIE (which must be the one at the start), the PC-relative start, the length of the range, the
  augmentation data and the instructions.
\<close>

definition read_fde :: "u64 \<Rightarrow> bytes \<Rightarrow> nat \<Rightarrow> fde option" where
  "read_fde va data offset =
     (case (rd32 data offset, rd32 data (offset + 4), u32 data (offset + 8), u32 data (offset + 12)) of
        (Inr len, Inr cie, Inr rel, Inr extent) \<Rightarrow>
          if cie \<noteq> offset + 4 \<or> len < 12 \<or> offset + 4 + len > length data then None
          else thenD (read_uleb (take (len - 12) (drop (offset + 16) data))) (\<lambda>aug rest.
            map_option
              (\<lambda>is. \<lparr>d_location = va + of_nat (offset + 8) + scast rel, d_length = extent, d_insns = is\<rparr>)
              (decode_insns (length rest) (drop aug rest)))
      | _ \<Rightarrow> None)"

text \<open>The instructions of a range, in order.\<close>

definition fde_insns :: "cfi_range \<Rightarrow> fault + cfa_insn list" where
  "fde_insns r =
     bindE (lower_all (g_inherited r) entry_state) (\<lambda>(is, st).
     bindE (lower_body 0 (g_operations r) st) (\<lambda>(js, st'). Inr (is @ js)))"

lemma encode_insn_not_Nil: "valid_insn i \<Longrightarrow> encode_insn i \<noteq> []"
  by (cases i) (auto simp: append_advance_def append_u32_def)

lemma decode_insns_encode:
  "list_all valid_insn is \<Longrightarrow> length (encode_insns is) \<le> fuel \<Longrightarrow>
     decode_insns fuel (encode_insns is) = Some is"
proof (induction "is" arbitrary: fuel)
  case (Cons i "is")
  then obtain b bs where b: "encode_insn i = b # bs"
    using encode_insn_not_Nil by (cases "encode_insn i") auto
  then obtain fuel' where fuel: "fuel = Suc fuel'" "length (encode_insns is) \<le> fuel'"
    using Cons.prems(2) by (cases fuel) auto
  have "decode_insn (b # bs @ encode_insns is) = Some (i, encode_insns is)"
    using decode_encode_insn [of i "encode_insns is"] Cons.prems(1) by (simp add: b)
  then show ?case
    using Cons fuel by (simp add: b)
qed simp

lemma save_at_valid: "save_at r off = Inr i \<Longrightarrow> valid_insn i"
  by (auto simp: save_at_def split: if_splits)

lemma lower_valid: "lower op st = Inr is \<Longrightarrow> list_all valid_insn is"
  by (auto simp: lower_def result_simps Let_def cfa_offset_def dest: save_at_valid
      split: op_kind.splits if_splits)

lemma lower_all_valid: "lower_all ops st = Inr (is, st') \<Longrightarrow> list_all valid_insn is"
  by (induction ops arbitrary: "is" st) (auto simp: result_simps dest: lower_valid)

lemma lower_body_valid: "lower_body p ops st = Inr (is, st') \<Longrightarrow> list_all valid_insn is"
  by (induction ops arbitrary: p "is" st)
    (fastforce simp: result_simps advance_def Let_def dest: lower_valid)+

lemma fde_insns_valid: "fde_insns r = Inr is \<Longrightarrow> list_all valid_insn is"
  by (auto simp: fde_insns_def result_simps dest: lower_all_valid lower_body_valid)

lemma pad8_eq: "\<exists>k. pad8 out = out @ encode_insns (replicate k Nop) \<and> length (pad8 out) mod 8 = 0"
proof (induction out rule: pad8.induct)
  case (1 out)
  show ?case
  proof (cases "length out mod 8 = 0")
    case True
    then show ?thesis
      by (intro exI [of _ 0]) (simp add: pad8.simps [of out])
  next
    case False
    from 1 [OF False] obtain k where "pad8 (out @ [0]) = (out @ [0]) @ encode_insns (replicate k Nop)"
        and "length (pad8 (out @ [0])) mod 8 = 0"
      by (elim exE conjE)
    moreover have "pad8 out = pad8 (out @ [0])"
      using False by (subst pad8.simps) simp
    moreover have "(out @ [0]) @ encode_insns (replicate k Nop) = out @ encode_insns (replicate (Suc k) Nop)"
      by simp
    ultimately show ?thesis
      by metis
  qed
qed

lemma set_u32_front:
  "length pre = n \<Longrightarrow> length old = 4 \<Longrightarrow>
     set_u32 (pre @ old @ rest) n v = Inr (pre @ le_bytes v @ rest)"
  by (simp add: set_u32_def)

lemma build_fde_bytes:
  assumes "build_fde va tva out r = Inr out'"
  obtains rel insns k where "signed_32 (tva + of_nat (g_begin r) - (va + of_nat (length out + 8)))
      ''FDE initial location'' = Inr rel"
    and "fde_insns r = Inr insns"
    and "out' = out @ le_bytes (of_nat (length out') - of_nat (length out) - 4) @
      le_bytes (of_nat (length out) + 4) @ le_bytes rel @
      le_bytes (of_nat (g_end r) - of_nat (g_begin r)) @ uleb 0 @ encode_insns (insns @ replicate k Nop)"
    and "length out' mod 8 = 0"
proof -
  let ?tail = "\<lambda>rel. le_bytes (of_nat (length out) + 4) @ le_bytes rel @
      le_bytes (of_nat (g_end r) - of_nat (g_begin r)) @ uleb 0"
  obtain rel "is" js st st' where
    rel: "signed_32 (tva + of_nat (g_begin r) - (va + of_nat (length out + 8)))
      ''FDE initial location'' = Inr rel"
    and inherited: "lower_all (g_inherited r) entry_state = Inr (is, st)"
    and own: "lower_body 0 (g_operations r) st = Inr (js, st')"
    and out': "set_u32 (pad8 (out @ replicate 4 0 @ ?tail rel @ encode_insns (is @ js))) (length out)
        (of_nat (length (pad8 (out @ replicate 4 0 @ ?tail rel @ encode_insns (is @ js))))
          - of_nat (length out) - 4) = Inr out'"
    using assms
    by (auto simp: build_fde_def Let_def result_simps append_u32_def append_leb_simps
        append_uleb_eq [of "le_bytes _"] apply_operations_eq emit_operations_eq written_def
        algebra_simps)
  obtain k where k: "pad8 (out @ replicate 4 0 @ ?tail rel @ encode_insns (is @ js)) =
      (out @ replicate 4 0 @ ?tail rel @ encode_insns (is @ js)) @ encode_insns (replicate k Nop)"
    and len: "length (pad8 (out @ replicate 4 0 @ ?tail rel @ encode_insns (is @ js))) mod 8 = 0"
    using pad8_eq [of "out @ replicate 4 0 @ ?tail rel @ encode_insns (is @ js)"] by (elim exE conjE)
  have out_length: "length out' = length (pad8 (out @ replicate 4 0 @ ?tail rel @ encode_insns (is @ js)))"
    using set_u32_eq_InrD [OF out'] by (rule conjunct1)
  have "set_u32 (out @ replicate 4 0 @ ?tail rel @ encode_insns ((is @ js) @ replicate k Nop)) (length out)
      (of_nat (length out') - of_nat (length out) - 4) = Inr out'"
    using out' unfolding out_length [symmetric] unfolding k
    by (simp only: append_assoc map_append concat_append)
  then have "out' = out @ le_bytes (of_nat (length out') - of_nat (length out) - 4) @
      ?tail rel @ encode_insns ((is @ js) @ replicate k Nop)"
    by (simp only: set_u32_front length_replicate sum.inject)
  moreover have "fde_insns r = Inr (is @ js)"
    using inherited own by (simp add: fde_insns_def)
  moreover have "length out' mod 8 = 0"
    using len out_length by (simp only:)
  ultimately show thesis
    using rel by (intro that [of rel "is @ js" k]) (simp_all only: append_assoc)
qed

lemma scast_signed_32: "signed_32 v d = Inr w \<Longrightarrow> scast w = v"
proof -
  assume "signed_32 v d = Inr w"
  then have range: "- (2 ^ 31) \<le> sint v" "sint v < 2 ^ 31" and w: "w = ucast v"
    by (auto simp: signed_32_def split: if_splits)
  have "sint (ucast v :: u32) = signed_take_bit 31 (sint v)"
    by (rule bit_eqI) (auto simp: bit_simps bit_sint_iff)
  also have "\<dots> = sint v"
    using range by (rule signed_take_bit_int_eq_self)
  finally show ?thesis
    unfolding w scast_eq by simp
qed

lemma uleb_0 [simp]: "uleb 0 = [0]"
  by (subst uleb_rec) simp

lemma u32_at: "length pre = n \<Longrightarrow> u32 (pre @ le_bytes v @ rest) n = Inr v"
  by auto

lemma read_fde_written:
  assumes data: "data = pre @ le_bytes n @ le_bytes c @ le_bytes rel @ le_bytes extent @ uleb 0 @
      encode_insns is @ post"
    and valid: "list_all valid_insn is"
    and n: "unat n = 13 + length (encode_insns is)" and c: "unat c = length pre + 4"
  shows "read_fde va data (length pre) =
    Some \<lparr>d_location = va + of_nat (length pre + 8) + scast rel, d_length = extent, d_insns = is\<rparr>"
proof -
  have "u32 data (length pre) = Inr n"
    unfolding data by (rule u32_at) simp
  moreover have "u32 data (length pre + 4) = Inr c"
    using u32_at [of "pre @ le_bytes n" "length pre + 4"] unfolding data by simp
  moreover have "u32 data (length pre + 8) = Inr rel"
    using u32_at [of "pre @ le_bytes n @ le_bytes c" "length pre + 8"] unfolding data by simp
  moreover have "u32 data (length pre + 12) = Inr extent"
    using u32_at [of "pre @ le_bytes n @ le_bytes c @ le_bytes rel" "length pre + 12"]
    unfolding data by simp
  moreover have "take (unat n - 12) (drop (length pre + 16) data) = 0 # encode_insns is"
    unfolding data n by simp
  moreover have "decode_insns (length (encode_insns is)) (encode_insns is) = Some is"
    using valid by (rule decode_insns_encode) simp
  ultimately show ?thesis
    using c n by (simp add: read_fde_def rd32_def) (simp add: data)
qed

text \<open>What the consumer must find for a range: its address, its extent and its instructions,
  padded with no-operations.\<close>

definition fde_of :: "u64 \<Rightarrow> cfi_range \<Rightarrow> fde option \<Rightarrow> bool" where
  "fde_of tva r d \<longleftrightarrow>
     (\<exists>insns k. fde_insns r = Inr insns \<and>
        d = Some \<lparr>d_location = tva + of_nat (g_begin r),
                  d_length = of_nat (g_end r) - of_nat (g_begin r),
                  d_insns = insns @ replicate k Nop\<rparr>)"

lemma build_fde_extends:
  assumes "build_fde va tva out r = Inr out'"
  obtains rec where "out' = out @ rec" and "rec \<noteq> []"
  using assms by (rule build_fde_bytes) (metis append_is_Nil_conv length_le_bytes list.size(3) zero_neq_numeral)

lemma build_fde_read:
  assumes build: "build_fde va tva out r = Inr out'" and small: "length out' < 2 ^ 32"
  shows "fde_of tva r (read_fde va (out' @ post) (length out))"
  using build
proof (rule build_fde_bytes)
  fix rel insns k
  let ?is = "insns @ replicate k Nop"
  assume rel: "signed_32 (tva + of_nat (g_begin r) - (va + of_nat (length out + 8)))
      ''FDE initial location'' = Inr rel"
    and insns: "fde_insns r = Inr insns"
    and out': "out' = out @ le_bytes (of_nat (length out') - of_nat (length out) - 4) @
      le_bytes (of_nat (length out) + 4) @ le_bytes rel @
      le_bytes (of_nat (g_end r) - of_nat (g_begin r)) @ uleb 0 @ encode_insns ?is"
  have len: "length out' = length out + 17 + length (encode_insns ?is)"
    by (subst out') simp
  have n: "unat (of_nat (length out') - of_nat (length out) - 4 :: u32) = 13 + length (encode_insns ?is)"
  proof -
    have "of_nat (length out') - of_nat (length out) - 4 = (of_nat (13 + length (encode_insns ?is)) :: u32)"
      unfolding len by simp
    then show ?thesis
      using small len by (simp only: unat_of_nat) simp
  qed
  have c: "unat (of_nat (length out) + 4 :: u32) = length out + 4"
  proof -
    have "of_nat (length out) + 4 = (of_nat (length out + 4) :: u32)"
      by simp
    then show ?thesis
      using small len by (simp only: unat_of_nat) simp
  qed
  have "list_all valid_insn ?is"
    using fde_insns_valid [OF insns] by (auto simp: list_all_iff)
  then have "read_fde va (out' @ post) (length out) =
    Some \<lparr>d_location = va + of_nat (length out + 8) + scast rel,
          d_length = of_nat (g_end r) - of_nat (g_begin r), d_insns = ?is\<rparr>"
    by (intro read_fde_written [OF _ _ n c, where post = post]) (subst out', simp)
  moreover have "va + of_nat (length out + 8) + scast rel = tva + of_nat (g_begin r)"
    unfolding scast_signed_32 [OF rel] by simp
  ultimately show ?thesis
    using insns by (auto simp: fde_of_def)
qed

lemma build_fdes_read:
  assumes "build_fdes va tva out rs = Inr (out', offs)" and "length out' < 2 ^ 32"
  shows "list_all2 (\<lambda>r off. fde_of tva r (read_fde va (out' @ post) (unat off))) rs offs
    \<and> (\<exists>rec. out' = out @ rec)"
  using assms
proof (induction rs arbitrary: out offs)
  case (Cons r rs)
  obtain mid offs' where mid: "build_fde va tva out r = Inr mid"
    and rest: "build_fdes va tva mid rs = Inr (out', offs')" and offs: "offs = of_nat (length out) # offs'"
    using Cons.prems(1) by (auto simp: result_simps)
  from Cons.IH [OF rest Cons.prems(2)] obtain tail where
    IH: "list_all2 (\<lambda>r off. fde_of tva r (read_fde va (out' @ post) (unat off))) rs offs'"
    and tail: "out' = mid @ tail"
    by blast
  obtain rec where rec: "mid = out @ rec"
    using mid by (rule build_fde_extends)
  have small: "length mid < 2 ^ 32"
    using Cons.prems(2) tail by simp
  have "fde_of tva r (read_fde va (out' @ post) (length out))"
    using build_fde_read [OF mid small, of "tail @ post"] by (simp add: tail)
  moreover have "unat (of_nat (length out) :: u32) = length out"
    using small by (simp add: rec unat_of_nat)
  ultimately show ?case
    using IH by (simp add: offs tail rec)
qed simp

lemma build_cie_eq: "build_cie = Inr
    [20, 0, 0, 0, 0, 0, 0, 0, 1, 122, 82, 0, 1, 120, 16, 1, 27, 12, 7, 8, 144, 1, 0, 0]"
  by code_simp


record cie =
  i_code_align :: u64
  i_data_align :: u64
  i_return :: u64
  i_encoding :: u8
  i_insns :: "cfa_insn list"

definition read_cie :: "bytes \<Rightarrow> cie option" where
  "read_cie data =
     (case (rd32 data 0, rd32 data 4) of
        (Inr len, Inr cie_id) \<Rightarrow>
          if cie_id \<noteq> 0 \<or> len < 8 \<or> 4 + len > length data then None
          else thenD (read_many read_byte 4 (take (len - 4) (drop 8 data))) (\<lambda>head rest.
            if head \<noteq> [1, of_char (CHR ''z''), of_char (CHR ''R''), 0] then None
            else thenD (read_u64 rest) (\<lambda>code_align rest.
              thenD (read_s64 rest) (\<lambda>data_align rest.
              thenD (read_u64 rest) (\<lambda>ret rest.
              thenD (read_u64 rest) (\<lambda>aug rest.
              thenD (read_byte rest) (\<lambda>encoding rest.
              map_option (\<lambda>is. \<lparr>i_code_align = code_align, i_data_align = data_align, i_return = ret,
                  i_encoding = encoding, i_insns = is\<rparr>)
                (decode_insns (length rest) rest))))))
          )
      | _ \<Rightarrow> None)"

lemma read_build_cie:
  "bindE build_cie (\<lambda>c. Inr (read_cie c)) = Inr (Some
     \<lparr>i_code_align = 1, i_data_align = - 8, i_return = 16, i_encoding = 0x1b,
      i_insns = [DefCfa 7 8, Offset 16 1, Nop, Nop]\<rparr>)"
  unfolding build_cie_eq by code_simp

lemma u32_append: "off + 4 \<le> length c \<Longrightarrow> u32 (c @ rest) off = u32 c off"
  by (simp add: u32_def nth_append)

lemma read_cie_front:
  assumes "build_cie = Inr c"
  shows "read_cie (c @ rest) = Some \<lparr>i_code_align = 1, i_data_align = - 8, i_return = 16, i_encoding = 0x1b,
      i_insns = [DefCfa 7 8, Offset 16 1, Nop, Nop]\<rparr>"
proof -
  have c: "c = [20, 0, 0, 0, 0, 0, 0, 0, 1, 122, 82, 0, 1, 120, 16, 1, 27, 12, 7, 8, 144, 1, 0, 0]"
    using assms by (simp add: build_cie_eq)
  have len: "length c = 24" and head: "rd32 c 0 = Inr 20" "rd32 c 4 = Inr 0"
    unfolding c by code_simp+
  have "rd32 (c @ rest) 0 = Inr 20" "rd32 (c @ rest) 4 = Inr 0"
    using len head by (simp_all add: rd32_def u32_append)
  moreover have "take 16 (drop 8 (c @ rest)) = take 16 (drop 8 c)"
    using len by simp
  moreover have "read_cie c = Some \<lparr>i_code_align = 1, i_data_align = - 8, i_return = 16, i_encoding = 0x1b,
      i_insns = [DefCfa 7 8, Offset 16 1, Nop, Nop]\<rparr>"
    unfolding c by code_simp
  ultimately show ?thesis
    using len head by (simp add: read_cie_def)
qed

lemma eh_frame_read:
  assumes "build_eh_frame va tva rs = Inr (data, offs)" and "length data < 2 ^ 32"
  shows "list_all2 (\<lambda>r off. fde_of tva r (read_fde va data (unat off))) rs offs
    \<and> (\<exists>cie rest. build_cie = Inr cie \<and> data = cie @ rest)"
proof -
  obtain out cie where cie: "build_cie = Inr cie" and fdes: "build_fdes va tva cie rs = Inr (out, offs)"
    and data: "data = out @ le_bytes 0"
    using assms(1) by (auto simp: build_eh_frame_def result_simps append_u32_def)
  then show ?thesis
    using build_fdes_read [OF fdes, of "le_bytes 0"] assms(2) by auto
qed

subsection \<open>The binary search table\<close>

text \<open>Entry \<open>i\<close> of the table: the addresses it names, relative to the table's own address.\<close>

definition read_hdr_entry :: "u64 \<Rightarrow> bytes \<Rightarrow> nat \<Rightarrow> (u64 \<times> u64) option" where
  "read_hdr_entry va data i =
     (case (u32 data (12 + 8 * i), u32 data (16 + 8 * i)) of
        (Inr fn, Inr fde) \<Rightarrow> Some (va + scast fn, va + scast fde)
      | _ \<Rightarrow> None)"

lemma hdr_entries_read:
  assumes "hdr_entries hva eva tva out rs offs = Inr data" and "length offs = length rs"
    and "length out = 12 + 8 * n"
  shows "(\<exists>rest. data = out @ rest) \<and> length data = length out + 8 * length rs \<and>
    (\<forall>i < length rs. read_hdr_entry hva data (n + i) =
       Some (tva + of_nat (g_begin (rs ! i)), eva + ucast (offs ! i)))"
  using assms
proof (induction hva eva tva out rs offs arbitrary: n rule: hdr_entries.induct)
  case (3 hva eva tva out r rs off offs)
  obtain fn fde where fn: "signed_32 (tva + of_nat (g_begin r) - hva) ''.eh_frame_hdr function address'' = Inr fn"
    and fde: "signed_32 (eva + ucast off - hva) ''.eh_frame_hdr FDE address'' = Inr fde"
    and rest: "hdr_entries hva eva tva (append_u32 (append_u32 out fn) fde) rs offs = Inr data"
    using "3.prems"(1) by (auto simp: result_simps)
  from "3.IH" [OF fn fde rest, of "Suc n"] obtain tail where
    data: "data = append_u32 (append_u32 out fn) fde @ tail"
    and len: "length data = length out + 8 + 8 * length rs"
    and IH: "\<forall>i < length rs. read_hdr_entry hva data (Suc n + i) =
       Some (tva + of_nat (g_begin (rs ! i)), eva + ucast (offs ! i))"
    using "3.prems" by auto
  have "u32 data (12 + 8 * n) = Inr fn"
    using u32_at [of out "12 + 8 * n" fn] "3.prems"(3) unfolding data by (simp add: append_u32_def)
  moreover have "u32 data (16 + 8 * n) = Inr fde"
    using u32_at [of "out @ le_bytes fn" "16 + 8 * n" fde] "3.prems"(3) unfolding data by (simp add: append_u32_def)
  ultimately have "read_hdr_entry hva data n = Some (tva + of_nat (g_begin r), eva + ucast off)"
    using scast_signed_32 [OF fn] scast_signed_32 [OF fde] by (simp add: read_hdr_entry_def)
  then have "read_hdr_entry hva data (n + i) =
       Some (tva + of_nat (g_begin ((r # rs) ! i)), eva + ucast ((off # offs) ! i))"
    if "i < length (r # rs)" for i
    using IH that by (cases i) simp_all
  then show ?case
    using len by (auto simp: data append_u32_def)
qed simp_all

lemma build_fdes_length: "build_fdes va tva out rs = Inr (out', offs) \<Longrightarrow> length offs = length rs"
  by (induction rs arbitrary: out offs) (auto simp: result_simps)

lemma hdr_entries_no_oob:
  "length offs = length rs \<Longrightarrow> hdr_entries hva eva tva out rs offs \<noteq> Inl OutOfBounds"
  by (induction hva eva tva out rs offs rule: hdr_entries.induct)
    (auto simp: bindE_eq_Inl signed_32_def)

lemma eh_frame_hdr_read:
  assumes "build_eh_frame_hdr hva eva tva rs offs = Inr data" and "length offs = length rs"
  shows "length data = 12 + 8 * length rs \<and>
    u32 data 8 = Inr (of_nat (length rs)) \<and>
    (\<exists>ptr. u32 data 4 = Inr ptr \<and> hva + 4 + scast ptr = eva) \<and>
    (\<forall>i < length rs. read_hdr_entry hva data i =
       Some (tva + of_nat (g_begin (rs ! i)), eva + ucast (offs ! i)))"
proof -
  obtain ptr where ptr: "signed_32 (eva - (hva + 4)) ''.eh_frame pointer'' = Inr ptr"
    and entries: "hdr_entries hva eva tva
       (append_u32 (append_u32 [1, 0x1b, 0x03, 0x3b] ptr) (of_nat (length rs))) rs offs = Inr data"
    using assms(1) by (auto simp: build_eh_frame_hdr_def result_simps)
  from hdr_entries_read [OF entries assms(2), of 0] obtain rest where
    data: "data = append_u32 (append_u32 [1, 0x1b, 0x03, 0x3b] ptr) (of_nat (length rs)) @ rest"
    and len: "length data = 12 + 8 * length rs"
    and table: "\<forall>i < length rs. read_hdr_entry hva data i =
       Some (tva + of_nat (g_begin (rs ! i)), eva + ucast (offs ! i))"
    by auto
  have "u32 data 8 = Inr (of_nat (length rs))"
    using u32_at [of "append_u32 [1, 0x1b, 0x03, 0x3b] ptr" 8] by (simp add: data append_u32_def)
  moreover have "u32 data 4 = Inr ptr"
    using u32_at [of "[1, 0x1b, 0x03, 0x3b]" 4 ptr] by (simp add: data append_u32_def)
  moreover have "hva + 4 + scast ptr = eva"
    by (simp add: scast_signed_32 [OF ptr])
  ultimately show ?thesis
    using len table by blast
qed

subsection \<open>No unchecked access\<close>

lemma save_at_no_oob [simp]: "save_at r off \<noteq> Inl OutOfBounds"
  by (simp add: save_at_def)

lemma lower_no_oob [simp]: "lower op st \<noteq> Inl OutOfBounds"
  by (auto simp: lower_def Let_def bindE_eq_Inl split: op_kind.splits)

lemma lower_all_no_oob [simp]: "lower_all ops st \<noteq> Inl OutOfBounds"
  by (induction ops arbitrary: st) (auto simp: bindE_eq_Inl)

lemma lower_body_no_oob [simp]: "lower_body p ops st \<noteq> Inl OutOfBounds"
  by (induction ops arbitrary: p st) (auto simp: bindE_eq_Inl)

lemma build_fde_no_oob: "build_fde va tva out r \<noteq> Inl OutOfBounds"
proof -
  have "set_u32 (pad8 (out @ replicate 4 0 @ xs)) (length out) v \<noteq> Inl OutOfBounds" for xs v
  proof -
    obtain k where "pad8 (out @ replicate 4 0 @ xs) = (out @ replicate 4 0 @ xs) @ encode_insns (replicate k Nop)"
      using pad8_eq [of "out @ replicate 4 0 @ xs"] by (elim exE conjE)
    then show ?thesis
      by (simp add: set_u32_def)
  qed
  then show ?thesis
    by (auto simp: build_fde_def Let_def bindE_eq_Inl append_u32_def append_leb_simps signed_32_def
        append_uleb_eq [of "le_bytes _"] apply_operations_eq emit_operations_eq written_def bindE_eq_Inr)
qed

lemma build_fdes_no_oob: "build_fdes va tva out rs \<noteq> Inl OutOfBounds"
  by (induction rs arbitrary: out) (auto simp: bindE_eq_Inl build_fde_no_oob)

lemma build_eh_frame_no_oob: "build_eh_frame va tva rs \<noteq> Inl OutOfBounds"
  by (auto simp: build_eh_frame_def bindE_eq_Inl build_fdes_no_oob build_cie_eq)

lemma build_eh_frame_length: "build_eh_frame va tva rs = Inr (data, offs) \<Longrightarrow> length offs = length rs"
  by (auto simp: build_eh_frame_def result_simps dest: build_fdes_length)

lemma build_eh_frame_hdr_no_oob:
  "length offs = length rs \<Longrightarrow> build_eh_frame_hdr hva eva tva rs offs \<noteq> Inl OutOfBounds"
  by (auto simp: build_eh_frame_hdr_def bindE_eq_Inl signed_32_def hdr_entries_no_oob)

end
