(* ===== verification/Sidecar_Ranges.thy ===== *)
theory Sidecar_Ranges
  imports Sidecar_Cfi
begin

text \<open>
  \<open>make_cfi_ranges\<close> of \<open>src/src/pe_sidecar.cpp\<close>: the ranges that get a frame description entry
  partition the executable sections, in ascending order.
\<close>

subsection \<open>The ranges partition the executable sections\<close>

definition covers :: "cfi_range \<Rightarrow> nat \<Rightarrow> bool" where
  "covers r x \<longleftrightarrow> g_begin r \<le> x \<and> x < g_end r"

definition range_nonempty :: "cfi_range \<Rightarrow> bool" where
  "range_nonempty r \<longleftrightarrow> g_begin r < g_end r"

lemma apart_iff_disjoint:
  "range_nonempty r \<Longrightarrow> range_nonempty s \<Longrightarrow>
     apart g_begin g_end r s \<longleftrightarrow> \<not> (\<exists>x. covers r x \<and> covers s x)"
proof
  assume ne: "range_nonempty r" "range_nonempty s" and dis: "\<not> (\<exists>x. covers r x \<and> covers s x)"
  then have "\<not> (covers r (max (g_begin r) (g_begin s)) \<and> covers s (max (g_begin r) (g_begin s)))"
    by blast
  with ne show "apart g_begin g_end r s"
    by (auto simp: apart_def covers_def range_nonempty_def)
qed (auto simp: apart_def covers_def)

definition in_function :: "runtime_function list \<Rightarrow> nat \<Rightarrow> bool" where
  "in_function fs x \<longleftrightarrow> (\<exists>f \<in> set fs. f_begin f \<le> x \<and> x < f_end f)"

definition functions_ok :: "runtime_function list \<Rightarrow> bool" where
  "functions_ok fs \<longleftrightarrow> (\<forall>f \<in> set fs. f_begin f < f_end f) \<and> sorted_wrt (\<lambda>f g. f_end f \<le> f_begin g) fs"

lemma section_gaps_bounds:
  "r \<in> set (section_gaps p e fs) \<Longrightarrow> range_nonempty r \<and> p \<le> g_begin r \<and> g_end r \<le> e"
  by (induction p e fs rule: section_gaps.induct)
    (fastforce simp: range_nonempty_def Let_def split: if_splits)+

lemma section_gaps_covers:
  "functions_ok fs \<Longrightarrow>
     (\<exists>r \<in> set (section_gaps p e fs). covers r x) \<longleftrightarrow> p \<le> x \<and> x < e \<and> \<not> in_function fs x"
proof (induction p e fs rule: section_gaps.induct)
  case (1 p e)
  then show ?case
    by (auto simp: covers_def in_function_def)
next
  case (2 p e f fs)
  have ok: "functions_ok fs" and f: "f_begin f < f_end f" and later: "\<forall>g \<in> set fs. f_end f \<le> f_begin g"
    using "2.prems" by (auto simp: functions_ok_def)
  have in_Cons: "in_function (f # fs) x \<longleftrightarrow> f_begin f \<le> x \<and> x < f_end f \<or> in_function fs x"
    by (auto simp: in_function_def)
  have late: "in_function fs x \<Longrightarrow> f_end f \<le> x"
    using later by (fastforce simp: in_function_def)
  show ?case
  proof (cases "f_end f \<le> p \<or> f_begin f \<ge> e")
    case True
    then show ?thesis
      using "2.IH"(1) [OF True ok] in_Cons by auto
  next
    case False
    let ?p = "max p (f_end f)"
    have first: "(\<exists>r \<in> set (if f_begin f > p then [gap_range p (min (f_begin f) e)] else []). covers r x)
        \<longleftrightarrow> p \<le> x \<and> x < f_begin f"
      using False by (auto simp: covers_def)
    show ?thesis
    proof (cases "?p \<ge> e")
      case True
      then show ?thesis
        using False first late f in_Cons by (auto simp: Let_def)
    next
      case more: False
      then show ?thesis
        using "2.IH"(2) [OF False refl refl more ok] False first late f in_Cons
        by (auto simp: Let_def bex_Un)
    qed
  qed
qed

lemma section_gaps_apart:
  "functions_ok fs \<Longrightarrow> sorted_wrt (apart g_begin g_end) (section_gaps p e fs)"
proof (induction p e fs rule: section_gaps.induct)
  case (2 p e f fs)
  let ?p = "max p (f_end f)"
  have ok: "functions_ok fs" and f: "f_begin f < f_end f"
    using "2.prems" by (auto simp: functions_ok_def)
  have "apart g_begin g_end (gap_range p (min (f_begin f) e)) r"
    if "r \<in> set (section_gaps ?p e fs)" for r
    using section_gaps_bounds [OF that] f by (auto simp: apart_def range_nonempty_def)
  with 2 ok show ?case
    by (auto simp: Let_def sorted_wrt_append)
qed simp

definition sections_gaps :: "range list \<Rightarrow> runtime_function list \<Rightarrow> cfi_range list" where
  "sections_gaps ss fs = concat (map (\<lambda>s. section_gaps (r_begin s) (r_end s) fs) ss)"

definition in_ranges :: "range list \<Rightarrow> nat \<Rightarrow> bool" where
  "in_ranges ss x \<longleftrightarrow> (\<exists>s \<in> set ss. r_begin s \<le> x \<and> x < r_end s)"

lemma sections_gaps_covers:
  "functions_ok fs \<Longrightarrow> (\<exists>r \<in> set (sections_gaps ss fs). covers r x) \<longleftrightarrow>
     in_ranges ss x \<and> \<not> in_function fs x"
  by (induction ss) (auto simp: sections_gaps_def in_ranges_def bex_Un section_gaps_covers)

lemma sections_gaps_nonempty: "r \<in> set (sections_gaps ss fs) \<Longrightarrow> range_nonempty r"
  by (auto simp: sections_gaps_def dest: section_gaps_bounds)

lemma sections_gaps_apart:
  "functions_ok fs \<Longrightarrow> sorted_wrt (apart r_begin r_end) ss \<Longrightarrow>
     sorted_wrt (apart g_begin g_end) (sections_gaps ss fs)"
proof (induction ss)
  case (Cons s ss)
  have "apart g_begin g_end q r"
    if q: "q \<in> set (section_gaps (r_begin s) (r_end s) fs)" and r: "r \<in> set (sections_gaps ss fs)" for q r
  proof -
    obtain t where t: "t \<in> set ss" "r \<in> set (section_gaps (r_begin t) (r_end t) fs)"
      using r by (auto simp: sections_gaps_def)
    then show ?thesis
      using section_gaps_bounds [OF q] section_gaps_bounds [OF t(2)] Cons.prems(2)
      by (fastforce simp: apart_def range_nonempty_def)
  qed
  with Cons show ?case
    by (auto simp: sections_gaps_def sorted_wrt_append section_gaps_apart)
qed (simp add: sections_gaps_def)

lemma parsed_functions_ok: "parsed_ok data pe \<Longrightarrow> functions_ok (p_functions pe)"
  by (auto simp: parsed_ok_def functions_ok_def)

lemma function_ranges_bounds:
  "parsed_ok data pe \<Longrightarrow> map (\<lambda>r. (g_begin r, g_end r)) (function_ranges (p_cfi pe)) =
     map (\<lambda>f. (f_begin f, f_end f)) (p_functions pe)"
  by (simp add: parsed_ok_def function_ranges_def comp_def)

lemma function_range_in_functions:
  assumes "parsed_ok data pe" and "r \<in> set (function_ranges (p_cfi pe))"
  obtains f where "f \<in> set (p_functions pe)" and "g_begin r = f_begin f" and "g_end r = f_end f"
proof -
  have "(g_begin r, g_end r) \<in> set (map (\<lambda>f. (f_begin f, f_end f)) (p_functions pe))"
    using assms(2) unfolding function_ranges_bounds [OF assms(1), symmetric] by force
  then show thesis
    using that by auto
qed

lemma function_ranges_cover:
  assumes "parsed_ok data pe"
  shows "(\<exists>r \<in> set (function_ranges (p_cfi pe)). covers r x) \<longleftrightarrow> in_function (p_functions pe) x"
proof -
  have "(\<exists>r \<in> set (function_ranges (p_cfi pe)). covers r x) \<longleftrightarrow>
      (\<exists>p \<in> set (map (\<lambda>r. (g_begin r, g_end r)) (function_ranges (p_cfi pe))). fst p \<le> x \<and> x < snd p)"
    by (auto simp: covers_def)
  then show ?thesis
    unfolding function_ranges_bounds [OF assms] by (auto simp: in_function_def)
qed

lemma function_ranges_apart:
  assumes "parsed_ok data pe"
  shows "sorted_wrt (apart g_begin g_end) (function_ranges (p_cfi pe))"
proof -
  have "sorted_wrt (\<lambda>p q. snd p \<le> fst q) (map (\<lambda>r. (g_begin r, g_end r)) (function_ranges (p_cfi pe)))"
    unfolding function_ranges_bounds [OF assms]
    using assms by (simp add: parsed_ok_def sorted_wrt_map)
  then have "sorted_wrt (\<lambda>q r. g_end q \<le> g_begin r) (function_ranges (p_cfi pe))"
    by (simp add: sorted_wrt_map)
  then show ?thesis
    by (rule sorted_wrt_mono_rel [rotated]) (simp add: apart_def)
qed

lemma make_cfi_ranges_eq:
  "make_cfi_ranges pe = sort_key g_begin
     (function_ranges (p_cfi pe) @ sections_gaps (p_executable pe) (p_functions pe))"
  by (simp add: make_cfi_ranges_def sections_gaps_def)

lemma make_cfi_ranges_nonempty:
  assumes ok: "parsed_ok data pe" and r: "r \<in> set (make_cfi_ranges pe)"
  shows "range_nonempty r"
proof (cases "r \<in> set (function_ranges (p_cfi pe))")
  case True
  with ok obtain f where "f \<in> set (p_functions pe)" "g_begin r = f_begin f" "g_end r = f_end f"
    by (rule function_range_in_functions)
  then show ?thesis
    using parsed_functions_ok [OF ok] by (simp add: functions_ok_def range_nonempty_def)
next
  case False
  with r show ?thesis
    by (auto simp: make_cfi_ranges_eq intro: sections_gaps_nonempty)
qed

lemma sorted_apart_ascending:
  assumes "sorted (map g_begin rs)" and "sorted_wrt (apart g_begin g_end) rs"
    and "\<forall>r \<in> set rs. range_nonempty r"
  shows "sorted_wrt (\<lambda>r s. g_end r \<le> g_begin s) rs"
  using assms
  by (induction rs) (fastforce simp: apart_def range_nonempty_def)+

lemma make_cfi_ranges_ascending:
  assumes ok: "parsed_ok data pe"
  shows "sorted_wrt (\<lambda>r s. g_end r \<le> g_begin s) (make_cfi_ranges pe)"
proof -
  let ?fs = "function_ranges (p_cfi pe)" and ?gs = "sections_gaps (p_executable pe) (p_functions pe)"
  have fok: "functions_ok (p_functions pe)" and ex: "sorted_wrt (apart r_begin r_end) (p_executable pe)"
    using ok by (auto simp: parsed_functions_ok, simp add: parsed_ok_def)
  have "apart g_begin g_end q r" if "q \<in> set ?fs" and "r \<in> set ?gs" for q r
  proof -
    have "range_nonempty q" "range_nonempty r"
      using make_cfi_ranges_nonempty [OF ok] that by (auto simp: make_cfi_ranges_eq)
    moreover have "\<not> (\<exists>x. covers q x \<and> covers r x)"
      using function_ranges_cover [OF ok] sections_gaps_covers [OF fok] that by blast
    ultimately show ?thesis
      by (simp add: apart_iff_disjoint)
  qed
  then have "sorted_wrt (apart g_begin g_end) (?fs @ ?gs)"
    using function_ranges_apart [OF ok] sections_gaps_apart [OF fok ex] by (simp add: sorted_wrt_append)
  then have "sorted_wrt (apart g_begin g_end) (make_cfi_ranges pe)"
    by (simp add: make_cfi_ranges_eq sorted_wrt_sort_key_sym apart_sym)
  then show ?thesis
    using make_cfi_ranges_nonempty [OF ok]
    by (intro sorted_apart_ascending) (auto simp: make_cfi_ranges_eq)
qed

lemma make_cfi_ranges_cover:
  assumes ok: "parsed_ok data pe"
  shows "(\<exists>r \<in> set (make_cfi_ranges pe). covers r x) \<longleftrightarrow> in_ranges (p_executable pe) x"
proof -
  have "in_ranges (p_executable pe) x" if "in_function (p_functions pe) x"
  proof -
    obtain f where f: "f \<in> set (p_functions pe)" "f_begin f \<le> x" "x < f_end f"
      using \<open>in_function (p_functions pe) x\<close> by (auto simp: in_function_def)
    then have "contained (f_begin f) (f_end f - f_begin f) (p_executable pe)"
      using ok by (simp add: parsed_ok_def)
    then obtain s where "s \<in> set (p_executable pe)" "r_begin s \<le> f_begin f"
        "f_begin f + (f_end f - f_begin f) \<le> r_end s"
      by (auto simp: contained_iff)
    with f show ?thesis
      unfolding in_ranges_def by (intro bexI [of _ s]) simp_all
  qed
  then show ?thesis
    using function_ranges_cover [OF ok, of x] sections_gaps_covers [OF parsed_functions_ok [OF ok], of "p_executable pe" x]
    by (auto simp: make_cfi_ranges_eq bex_Un)
qed

lemma make_cfi_ranges_operations:
  assumes "parsed_ok data pe" and "r \<in> set (make_cfi_ranges pe)"
  shows "list_all op_ok (g_inherited r) \<and> block_ok (g_end r - g_begin r) (g_operations r)"
proof -
  have gap: "g_inherited r = [] \<and> g_operations r = []" if "r \<in> set (section_gaps p e fs)" for p e fs
    using that by (induction p e fs rule: section_gaps.induct) (auto simp: Let_def split: if_splits)
  show ?thesis
    using assms gap
    by (fastforce simp: make_cfi_ranges_eq sections_gaps_def function_ranges_def parsed_ok_def
        list_all_iff cfi_ok_def block_ok_def)
qed

end
