(* ===== verification/Sidecar_Prologue.thy ===== *)
theory Sidecar_Prologue
  imports Sidecar_Cfi
begin

text \<open>
  The meaning of the frame section \<open>src/src/pe_sidecar.cpp\<close> writes: a machine that executes the
  prologue described by the unwind codes, the execution of call frame instructions by a DWARF
  consumer, and the simulation that makes the consumer recover the caller's stack pointer and every
  save slot at each point of the prologue.
\<close>

section \<open>Unwinding undoes the prologue\<close>

subsection \<open>Execution of call frame instructions\<close>

text \<open>A row: where the canonical frame address comes from, and for each saved register its
  offset from it. The data alignment factor of the CIE is -8.\<close>

record row =
  w_cfa_register :: u64
  w_cfa_offset :: u64
  w_rules :: "u64 \<rightharpoonup> u64"

fun exec_insn :: "cfa_insn \<Rightarrow> row \<Rightarrow> row" where
  "exec_insn Nop w = w"
| "exec_insn (Advance d) w = w"
| "exec_insn (Offset r f) w = w\<lparr>w_rules := (w_rules w)(r \<mapsto> f * (- 8))\<rparr>"
| "exec_insn (DefCfa r off) w = w\<lparr>w_cfa_register := r, w_cfa_offset := off\<rparr>"
| "exec_insn (DefCfaOffset off) w = w\<lparr>w_cfa_offset := off\<rparr>"
| "exec_insn (OffsetExtSf r f) w = w\<lparr>w_rules := (w_rules w)(r \<mapsto> f * (- 8))\<rparr>"

definition initial_row :: row where
  "initial_row = fold exec_insn [DefCfa 7 8, Offset 16 1]
     \<lparr>w_cfa_register = 0, w_cfa_offset = 0, w_rules = (\<lambda>_. None)\<rparr>"

text \<open>The row that holds \<open>pc\<close> bytes into the range: execution stops at the first advance past it.\<close>

fun row_at :: "nat \<Rightarrow> nat \<Rightarrow> cfa_insn list \<Rightarrow> row \<Rightarrow> row" where
  "row_at pc location [] w = w"
| "row_at pc location (i # is) w =
     (case i of
        Advance d \<Rightarrow> (if location + unat d > pc then w else row_at pc (location + unat d) is w)
      | _ \<Rightarrow> row_at pc location is (exec_insn i w))"

subsection \<open>The prologue the unwind codes describe\<close>

record prologue =
  m_rsp :: u64
  m_regs :: "u64 \<Rightarrow> u64"
  m_saved :: "u64 \<rightharpoonup> u64"

text \<open>
  The machine the unwind codes speak of: a push, an allocation, the frame register set up from
  \<open>rsp\<close>, a store relative to \<open>rsp\<close>, and the frame the hardware pushes for an interrupt, whose
  return address is 40 bytes below its top. \<open>m_saved\<close> records where each register was stored.
\<close>

definition exec_op :: "operation \<Rightarrow> prologue \<Rightarrow> prologue" where
  "exec_op op m =
     (let reg = of_nat (o_first op) in
      case o_kind op of
        Push \<Rightarrow> m\<lparr>m_rsp := m_rsp m - 8, m_saved := (m_saved m)(reg \<mapsto> m_rsp m - 8)\<rparr>
      | Alloc \<Rightarrow> m\<lparr>m_rsp := m_rsp m - reg\<rparr>
      | Frame \<Rightarrow> m\<lparr>m_regs := (m_regs m)(reg := m_rsp m + of_nat (o_second op))\<rparr>
      | Save \<Rightarrow> m\<lparr>m_saved := (m_saved m)(reg \<mapsto> m_rsp m + of_nat (o_second op))\<rparr>
      | Machine \<Rightarrow> m\<lparr>m_rsp := m_rsp m - reg, m_saved := (m_saved m)(16 \<mapsto> m_rsp m - 40)\<rparr>)"

text \<open>At the first instruction of a function the return address (register 16) is at \<open>rsp\<close>.\<close>

definition at_entry :: "u64 \<Rightarrow> (u64 \<Rightarrow> u64) \<Rightarrow> prologue" where
  "at_entry rsp regs = \<lparr>m_rsp = rsp, m_regs = regs, m_saved = [16 \<mapsto> rsp]\<rparr>"

definition register_value :: "prologue \<Rightarrow> u64 \<Rightarrow> u64" where
  "register_value m r = (if r = 7 then m_rsp m else m_regs m r)"

definition frame_address :: "row \<Rightarrow> prologue \<Rightarrow> u64" where
  "frame_address w m = register_value m (w_cfa_register w) + w_cfa_offset w"

definition entry_cfa :: "operation list \<Rightarrow> u64 \<Rightarrow> u64" where
  "entry_cfa ops rsp = (if ops \<noteq> [] \<and> o_kind (hd ops) = Machine then rsp else rsp + 8)"

definition machine_first :: "operation list \<Rightarrow> bool" where
  "machine_first ops \<longleftrightarrow> list_all (\<lambda>op. o_kind op \<noteq> Machine) (tl ops)"

text \<open>What a consumer restores: the caller's stack pointer and every save slot.\<close>

definition restores :: "u64 \<Rightarrow> row \<Rightarrow> prologue \<Rightarrow> bool" where
  "restores cfa w m \<longleftrightarrow>
     frame_address w m = cfa \<and> (\<forall>r. map_option ((+) cfa) (w_rules w r) = m_saved m r)"

subsection \<open>Simulation\<close>

definition simulates :: "u64 \<Rightarrow> cfi_state \<Rightarrow> prologue \<Rightarrow> row \<Rightarrow> bool" where
  "simulates cfa st m w \<longleftrightarrow>
     m_rsp m + (e_depth st + e_bias st) = cfa \<and> restores cfa w m \<and>
     (if e_frame st then w_cfa_register w \<noteq> 7
      else w_cfa_register w = 7 \<and> w_cfa_offset w = e_depth st + e_bias st)"

lemma save_at_exact:
  assumes "save_at r off = Inr i"
  obtains f where "i = OffsetExtSf r f" and "f * (- 8) = off"
proof -
  have i: "i = OffsetExtSf r (word_of_int (sint off sdiv (- 8)))" and "sint off smod (- 8) = 0"
    using assms by (auto simp: save_at_def split: if_splits)
  then have "(sint off sdiv (- 8)) * (- 8) = sint off"
    using sdiv_mult_smod_eq [of "sint off" "- 8"] by simp
  then have "word_of_int ((sint off sdiv (- 8)) * (- 8)) = off"
    by simp
  then have "word_of_int (sint off sdiv (- 8)) * (- 8) = off"
    by simp
  with i show thesis
    by (rule that)
qed

lemma dwarf_register_not_rsp:
  "dwarf_nonvolatile r \<Longrightarrow> (of_nat r :: u64) \<noteq> 7"
  by (auto simp: dwarf_nonvolatile_def)

lemma simulates_step:
  assumes sim: "simulates cfa st m w" and op: "op_ok op" and low: "lower op st = Inr is"
    and kind: "o_kind op \<noteq> Machine"
  shows "simulates cfa (after op st) (exec_op op m) (fold exec_insn is w)"
proof (cases "o_kind op")
  case Push
  let ?d = "e_depth st + 8 + e_bias st"
  obtain i where i: "save_at (of_nat (o_first op)) (- ?d) = Inr i"
    and "is": "is = cfa_offset (after op st) @ [i]"
    using low by (auto simp: lower_def Push after_def result_simps Let_def)
  obtain f where f: "i = OffsetExtSf (of_nat (o_first op)) f" "f * (- 8) = - ?d"
    using i by (rule save_at_exact)
  have rsp: "m_rsp m - 8 = cfa - ?d"
    using sim by (auto simp: simulates_def)
  show ?thesis
    using sim f rsp
    by (auto simp: simulates_def restores_def frame_address_def register_value_def "is" Push after_def
        exec_op_def Let_def cfa_offset_def)
next
  case Alloc
  then show ?thesis
    using sim low
    by (cases "e_frame st") (auto simp: simulates_def restores_def frame_address_def
        register_value_def after_def lower_def exec_op_def Let_def cfa_offset_def)
next
  case Frame
  then have "(of_nat (o_first op) :: u64) \<noteq> 7"
    using op by (simp add: op_ok_def dwarf_register_not_rsp)
  then show ?thesis
    using sim low Frame
    by (auto simp: simulates_def restores_def frame_address_def register_value_def after_def lower_def
        exec_op_def Let_def algebra_simps split: if_splits)
next
  case Save
  obtain i where i: "save_at (of_nat (o_first op)) (of_nat (o_second op) - (e_depth st + e_bias st)) = Inr i"
    and "is": "is = [i]"
    using low by (auto simp: lower_def Save result_simps Let_def)
  obtain f where f: "i = OffsetExtSf (of_nat (o_first op)) f"
      "f * (- 8) = of_nat (o_second op) - (e_depth st + e_bias st)"
    using i by (rule save_at_exact)
  show ?thesis
    using sim f
    by (auto simp: simulates_def restores_def frame_address_def register_value_def "is" Save after_def
        exec_op_def Let_def)
qed (use kind in simp)

lemma simulates_all:
  "simulates cfa st m w \<Longrightarrow> list_all op_ok ops \<Longrightarrow> list_all (\<lambda>op. o_kind op \<noteq> Machine) ops \<Longrightarrow>
     lower_all ops st = Inr (is, st') \<Longrightarrow>
     simulates cfa st' (fold exec_op ops m) (fold exec_insn is w)"
proof (induction ops arbitrary: st m w "is")
  case (Cons op ops)
  then show ?case
    using simulates_step [OF Cons.prems(1)] by (fastforce simp: result_simps)
qed simp

lemma simulates_entry: "simulates (rsp + 8) entry_state (at_entry rsp regs) initial_row"
  by (auto simp: simulates_def restores_def frame_address_def register_value_def entry_state_def
      at_entry_def initial_row_def)

lemma simulates_machine:
  assumes "o_kind op = Machine" and "lower op entry_state = Inr is"
  shows "simulates rsp (after op entry_state) (exec_op op (at_entry rsp regs)) (fold exec_insn is initial_row)"
proof -
  obtain i where i: "save_at 16 (- 40) = Inr i" and "is": "is = cfa_offset (after op entry_state) @ [i]"
    using assms by (auto simp: lower_def result_simps Let_def)
  obtain f where "i = OffsetExtSf 16 f" "f * (- 8) = - 40"
    using i by (rule save_at_exact)
  then show ?thesis
    by (auto simp: simulates_def restores_def frame_address_def register_value_def "is" after_def assms(1)
        exec_op_def Let_def cfa_offset_def entry_state_def at_entry_def initial_row_def)
qed

lemma lower_all_restores:
  assumes low: "lower_all ops entry_state = Inr (is, st)" and ok: "list_all op_ok ops"
    and first: "machine_first ops"
  shows "restores (entry_cfa ops rsp) (fold exec_insn is initial_row)
           (fold exec_op ops (at_entry rsp regs))"
proof (cases "ops \<noteq> [] \<and> o_kind (hd ops) = Machine")
  case True
  then obtain op ops' where ops: "ops = op # ops'" and op: "o_kind op = Machine"
    by (cases ops) auto
  obtain js ks where js: "lower op entry_state = Inr js"
    and ks: "lower_all ops' (after op entry_state) = Inr (ks, st)" and "is": "is = js @ ks"
    using low by (auto simp: ops result_simps)
  have "simulates rsp st (fold exec_op ops (at_entry rsp regs)) (fold exec_insn is initial_row)"
    using simulates_all [OF simulates_machine [OF op js] _ _ ks] ok first
    by (simp add: ops machine_first_def "is")
  then show ?thesis
    using True by (simp add: entry_cfa_def simulates_def)
next
  case False
  then have "list_all (\<lambda>op. o_kind op \<noteq> Machine) ops"
    using first by (cases ops) (auto simp: machine_first_def)
  then have "simulates (rsp + 8) st (fold exec_op ops (at_entry rsp regs)) (fold exec_insn is initial_row)"
    using low by (rule simulates_all [OF simulates_entry ok])
  then show ?thesis
    using False by (auto simp: entry_cfa_def simulates_def)
qed

subsection \<open>The row at a program counter\<close>

definition is_advance :: "cfa_insn \<Rightarrow> bool" where
  "is_advance i \<longleftrightarrow> (\<exists>d. i = Advance d)"

lemma row_at_no_advance:
  "list_all (\<lambda>i. \<not> is_advance i) is \<Longrightarrow>
     row_at pc loc (is @ js) w = row_at pc loc js (fold exec_insn is w)"
  by (induction "is" arbitrary: w) (auto simp: is_advance_def split: cfa_insn.splits)

lemma lower_no_advance: "lower op st = Inr is \<Longrightarrow> list_all (\<lambda>i. \<not> is_advance i) is"
  by (auto simp: lower_def result_simps Let_def cfa_offset_def is_advance_def save_at_def
      split: op_kind.splits if_splits)

lemma lower_all_no_advance: "lower_all ops st = Inr (is, st') \<Longrightarrow> list_all (\<lambda>i. \<not> is_advance i) is"
  by (induction ops arbitrary: st "is") (auto simp: result_simps dest: lower_no_advance)

lemma row_at_nops: "row_at pc loc (replicate k Nop) w = w"
  by (induction k) simp_all

lemma row_at_advance:
  assumes "p \<le> c" and "c < 2 ^ 32"
  shows "row_at pc p (advance p c @ is) w = (if c > pc \<and> p < c then w else row_at pc c is w)"
proof (cases "c = p")
  case False
  have eq: "of_nat c - of_nat p = (of_nat (c - p) :: u32)"
    using assms(1) by (simp add: of_nat_diff)
  have d: "unat (of_nat c - of_nat p :: u32) = c - p"
    unfolding eq using assms by (simp only: unat_of_nat) simp
  then have "of_nat c - of_nat p \<noteq> (0 :: u32)"
    using False assms(1) by (metis diff_is_0_eq le_antisym unsigned_0)
  with d show ?thesis
    using False assms(1) by (simp add: advance_def Let_def)
qed simp

lemma row_at_lower_body:
  assumes "lower_body p ops st = Inr (js, st')" and "sorted (map o_offset ops)"
    and "list_all (\<lambda>op. p \<le> o_offset op \<and> o_offset op < 2 ^ 32) ops" and "p \<le> pc"
  shows "\<exists>is st''. lower_all (takeWhile (\<lambda>op. o_offset op \<le> pc) ops) st = Inr (is, st'') \<and>
    row_at pc p (js @ replicate k Nop) w = fold exec_insn is w"
  using assms
proof (induction ops arbitrary: p st js w)
  case Nil
  then show ?case
    by (simp add: row_at_nops)
next
  case (Cons op ops)
  obtain "is" ks where "is": "lower op st = Inr is"
    and ks: "lower_body (o_offset op) ops (after op st) = Inr (ks, st')"
    and js: "js = advance p (o_offset op) @ is @ ks"
    using Cons.prems(1) by (auto simp: result_simps)
  have range: "p \<le> o_offset op" "o_offset op < 2 ^ 32"
    using Cons.prems(3) by simp_all
  show ?case
  proof (cases "o_offset op \<le> pc")
    case False
    then show ?thesis
      using range Cons.prems(4) by (simp add: js row_at_advance)
  next
    case True
    have "\<exists>is' st''. lower_all (takeWhile (\<lambda>op. o_offset op \<le> pc) ops) (after op st) = Inr (is', st'') \<and>
        row_at pc (o_offset op) (ks @ replicate k Nop) (fold exec_insn is w) =
          fold exec_insn is' (fold exec_insn is w)"
      using Cons.prems(2,3) True by (intro Cons.IH [OF ks]) (auto simp: list_all_iff)
    then show ?thesis
      using True range by (auto simp: js row_at_advance "is" row_at_no_advance [OF lower_no_advance [OF "is"]])
  qed
qed

lemma lower_all_append:
  "lower_all ops st = Inr (is, st') \<Longrightarrow> lower_all ops' st' = Inr (js, st'') \<Longrightarrow>
     lower_all (ops @ ops') st = Inr (is @ js, st'')"
  by (induction ops arbitrary: st "is") (auto simp: result_simps)

definition executed :: "cfi_range \<Rightarrow> nat \<Rightarrow> operation list" where
  "executed r pc = g_inherited r @ takeWhile (\<lambda>op. o_offset op \<le> pc) (g_operations r)"

lemma machine_first_executed:
  "machine_first (g_inherited r @ g_operations r) \<Longrightarrow> machine_first (executed r pc)"
proof -
  have "takeWhile P (g_operations r) = takeWhile P (g_operations r) \<and>
     set (tl (takeWhile P (g_operations r))) \<subseteq> set (tl (g_operations r))" for P
    by (cases "g_operations r") (auto dest: set_takeWhileD)
  moreover have "set (takeWhile P (g_operations r)) \<subseteq> set (g_operations r)" for P
    by (auto dest: set_takeWhileD)
  ultimately show "machine_first (g_inherited r @ g_operations r) \<Longrightarrow> ?thesis"
    unfolding machine_first_def executed_def list_all_iff
    by (cases "g_inherited r") (auto, blast+)
qed

theorem fde_restores:
  assumes insns: "fde_insns r = Inr insns" and inherited: "list_all op_ok (g_inherited r)"
    and own: "block_ok n (g_operations r)" and first: "machine_first (g_inherited r @ g_operations r)"
  shows "restores (entry_cfa (executed r pc) rsp)
           (row_at pc 0 (insns @ replicate k Nop) initial_row)
           (fold exec_op (executed r pc) (at_entry rsp regs))"
proof -
  obtain "is" js st st' where "is": "lower_all (g_inherited r) entry_state = Inr (is, st)"
    and js: "lower_body 0 (g_operations r) st = Inr (js, st')" and eq: "insns = is @ js"
    using insns by (auto simp: fde_insns_def result_simps)
  have small: "list_all (\<lambda>op. 0 \<le> o_offset op \<and> o_offset op < 2 ^ 32) (g_operations r)"
    using own by (auto simp: block_ok_def list_all_iff op_ok_def) 
  have "sorted (map o_offset (g_operations r))"
    using own by (simp add: block_ok_def)
  from row_at_lower_body [OF js this small, of pc k "fold exec_insn is initial_row"]
  obtain ks st'' where ks: "lower_all (takeWhile (\<lambda>op. o_offset op \<le> pc) (g_operations r)) st = Inr (ks, st'')"
    and row: "row_at pc 0 (js @ replicate k Nop) (fold exec_insn is initial_row) =
      fold exec_insn ks (fold exec_insn is initial_row)"
    by auto
  have "lower_all (executed r pc) entry_state = Inr (is @ ks, st'')"
    unfolding executed_def by (rule lower_all_append [OF "is" ks])
  moreover have "list_all op_ok (executed r pc)"
    using inherited own by (auto simp: executed_def block_ok_def list_all_iff dest: set_takeWhileD)
  ultimately have "restores (entry_cfa (executed r pc) rsp) (fold exec_insn (is @ ks) initial_row)
           (fold exec_op (executed r pc) (at_entry rsp regs))"
    using machine_first_executed [OF first] by (rule lower_all_restores)
  then show ?thesis
    by (simp add: eq row row_at_no_advance [OF lower_all_no_advance [OF "is"]])
qed

subsection \<open>Unwinding from the bytes of the section\<close>

text \<open>
  What a consumer computes from the section itself: the CIE's rules are executed first, then the
  entry's, up to the offset. Offsets are factored by the CIE's data alignment, code offsets by its code
  alignment, which must be the -8 and 1 of the row semantics above.
\<close>

definition section_row :: "bytes \<Rightarrow> u64 \<Rightarrow> nat \<Rightarrow> nat \<Rightarrow> row option" where
  "section_row data va offset pc =
     (case (read_cie data, read_fde va data offset) of
        (Some c, Some d) \<Rightarrow>
          if i_code_align c = 1 \<and> i_data_align c = - 8
          then Some (row_at pc 0 (i_insns c @ d_insns d)
                 \<lparr>w_cfa_register = 0, w_cfa_offset = 0, w_rules = (\<lambda>_. None)\<rparr>)
          else None
      | _ \<Rightarrow> None)"

lemma section_row_restores:
  assumes "build_eh_frame va tva rs = Inr (data, offs)" and "length data < 2 ^ 32" and "i < length rs"
    and "list_all op_ok (g_inherited (rs ! i))" and "block_ok n (g_operations (rs ! i))"
    and "machine_first (g_inherited (rs ! i) @ g_operations (rs ! i))"
  shows "\<exists>w. section_row data va (unat (offs ! i)) pc = Some w \<and>
    restores (entry_cfa (executed (rs ! i) pc) rsp) w (fold exec_op (executed (rs ! i) pc) (at_entry rsp regs))"
proof -
  have "fde_of tva (rs ! i) (read_fde va data (unat (offs ! i)))"
    using eh_frame_read [OF assms(1,2)] assms(3) by (auto simp: list_all2_conv_all_nth)
  then obtain insns k d where insns: "fde_insns (rs ! i) = Inr insns"
    and d: "read_fde va data (unat (offs ! i)) = Some d" "d_insns d = insns @ replicate k Nop"
    by (auto simp: fde_of_def)
  obtain c rest where c: "build_cie = Inr c" "data = c @ rest"
    using eh_frame_read [OF assms(1,2)] by blast
  have "read_cie data = Some \<lparr>i_code_align = 1, i_data_align = - 8, i_return = 16, i_encoding = 0x1b,
      i_insns = [DefCfa 7 8, Offset 16 1, Nop, Nop]\<rparr>"
    unfolding c(2) using c(1) by (rule read_cie_front)
  then have "section_row data va (unat (offs ! i)) pc = Some (row_at pc 0 (insns @ replicate k Nop) initial_row)"
    by (simp add: section_row_def d initial_row_def)
  then show ?thesis
    using fde_restores [OF insns assms(4,5,6)] by blast
qed
end
