(* ===== verification/Sidecar_Elf.thy ===== *)
theory Sidecar_Elf
  imports Sidecar_Ranges Sidecar_Prologue
begin

text \<open>
  \<open>build_elf\<close> of \<open>src/src/pe_sidecar.cpp\<close>: the symbol table, the \<open>DT_HASH\<close> table, the file layout
  and the writes that produce the output. Offsets and sizes are numbers: vectors are shorter than
  \<open>2 ^ 63\<close>, and the sums that \<open>align_up\<close> checks keep their check (\<open>align_offset\<close>).
\<close>

section \<open>Symbols\<close>

record symbol =
  y_name :: bytes
  y_value :: nat
  y_size :: nat
  y_info :: nat
  y_section :: nat
  y_lookup :: bool

definition STB_GLOBAL_OBJECT :: nat where "STB_GLOBAL_OBJECT = 0x11"
definition STB_GLOBAL_FUNC :: nat where "STB_GLOBAL_FUNC = 0x12"

text \<open>Section indices, as the enumeration \<open>SectionIndex\<close> numbers them.\<close>

datatype section_index =
  Null | Text | Tail | Note | Dynsym | Dynstr | Hash | Rodata | EhFrameHdr | EhFrame | Dynamic | Shstrtab

fun section_number :: "section_index \<Rightarrow> nat" where
  "section_number Null = 0"
| "section_number Text = 1"
| "section_number Tail = 2"
| "section_number Note = 3"
| "section_number Dynsym = 4"
| "section_number Dynstr = 5"
| "section_number Hash = 6"
| "section_number Rodata = 7"
| "section_number EhFrameHdr = 8"
| "section_number EhFrame = 9"
| "section_number Dynamic = 10"
| "section_number Shstrtab = 11"

definition section_count :: nat where "section_count = 12"

definition name_char_ok :: "u8 \<Rightarrow> bool" where
  "name_char_ok c \<longleftrightarrow>
     (of_char (CHR ''A'') \<le> c \<and> c \<le> of_char (CHR ''Z'')) \<or>
     (of_char (CHR ''a'') \<le> c \<and> c \<le> of_char (CHR ''z'')) \<or>
     (of_char (CHR ''0'') \<le> c \<and> c \<le> of_char (CHR ''9'')) \<or>
     c = of_char (CHR ''_'') \<or> c = of_char (CHR ''.'') \<or> c = of_char (CHR ''-'')"

text \<open>The file name after the last slash, other characters replaced; \<open>pe\<close> when nothing is left.\<close>

definition dll_name :: "bytes \<Rightarrow> bytes" where
  "dll_name path =
     (let base = rev (takeWhile (\<lambda>c. c \<noteq> of_char (CHR ''/'')) (rev path));
          clean = map (\<lambda>c. if name_char_ok c then c else of_char (CHR ''_'')) base in
      if clean = [] then ascii ''pe'' else clean)"

definition hex_digit :: "nat \<Rightarrow> u8" where
  "hex_digit d = (if d < 10 then 48 + of_nat d else 87 + of_nat d)"

fun hex_digits :: "nat \<Rightarrow> bytes" where
  "hex_digits n = (if n < 16 then [hex_digit n] else hex_digits (n div 16) @ [hex_digit (n mod 16)])"

declare hex_digits.simps [simp del]

definition function_size :: "runtime_function list \<Rightarrow> nat \<Rightarrow> nat" where
  "function_size fs rva =
     (case find (\<lambda>f. f_begin f = rva) (rev fs) of None \<Rightarrow> 0 | Some f \<Rightarrow> f_end f - f_begin f)"

definition marker_symbols :: "nat \<Rightarrow> symbol list" where
  "marker_symbols image_size =
     [\<lparr>y_name = ascii ''__lnw_pe_image_start'', y_value = 0, y_size = image_size,
       y_info = STB_GLOBAL_OBJECT, y_section = section_number Text, y_lookup = True\<rparr>,
      \<lparr>y_name = ascii ''__lnw_pe_image_end'', y_value = image_size, y_size = 0,
       y_info = STB_GLOBAL_OBJECT, y_section = section_number Text, y_lookup = True\<rparr>,
      \<lparr>y_name = ascii ''__lnw_pe_source_size'', y_value = 0, y_size = 8,
       y_info = STB_GLOBAL_OBJECT, y_section = section_number Rodata, y_lookup = True\<rparr>,
      \<lparr>y_name = ascii ''__lnw_pe_source_fingerprint'', y_value = 0, y_size = 8,
       y_info = STB_GLOBAL_OBJECT, y_section = section_number Rodata, y_lookup = True\<rparr>,
      \<lparr>y_name = ascii ''__lnw_sidecar_version'', y_value = 0, y_size = 8,
       y_info = STB_GLOBAL_OBJECT, y_section = section_number Rodata, y_lookup = True\<rparr>]"

definition reserved_names :: "bytes list" where
  "reserved_names =
     [ascii ''__lnw_pe_image_start'', ascii ''__lnw_pe_image_end'', ascii ''__lnw_pe_source_size'',
      ascii ''__lnw_pe_source_fingerprint'', ascii ''__lnw_sidecar_version'']"

definition export_symbol :: "parsed_pe \<Rightarrow> pe_export \<Rightarrow> symbol" where
  "export_symbol pe x =
     \<lparr>y_name = x_name x, y_value = x_rva x, y_size = function_size (p_functions pe) (x_rva x),
      y_info = STB_GLOBAL_FUNC, y_section = section_number Text, y_lookup = False\<rparr>"

definition function_symbol :: "bytes \<Rightarrow> runtime_function \<Rightarrow> symbol" where
  "function_symbol dll f =
     \<lparr>y_name = dll @ ascii ''!sub_'' @ hex_digits (f_begin f), y_value = f_begin f,
      y_size = f_end f - f_begin f, y_info = STB_GLOBAL_FUNC, y_section = section_number Text,
      y_lookup = True\<rparr>"

text \<open>\<open>used.insert(name).second\<close>: a symbol is pushed when its name is new.\<close>

fun add_symbols :: "bytes list \<Rightarrow> symbol list \<Rightarrow> bytes list \<times> symbol list" where
  "add_symbols used [] = (used, [])"
| "add_symbols used (y # ys) =
     (if y_name y \<in> set used then add_symbols used ys
      else let (used', ys') = add_symbols (y_name y # used) ys in (used', y # ys'))"

definition build_symbols :: "parsed_pe \<Rightarrow> bytes \<Rightarrow> symbol list" where
  "build_symbols pe path =
     (let (used, exported) = add_symbols reserved_names (map (export_symbol pe) (p_exports pe));
          (used', functions) = add_symbols used (map (function_symbol (dll_name path)) (p_functions pe)) in
      marker_symbols (length (p_image pe)) @ exported @ functions)"

text \<open>\<open>dynstr\<close> and \<open>name_offsets\<close>.\<close>

definition dynstr_of :: "symbol list \<Rightarrow> bytes" where
  "dynstr_of symbols = 0 # concat (map (\<lambda>y. y_name y @ [0]) symbols)"

definition name_offset :: "symbol list \<Rightarrow> nat \<Rightarrow> nat" where
  "name_offset symbols index = length (dynstr_of (take index symbols))"

section \<open>The hash table\<close>

definition elf_hash :: "bytes \<Rightarrow> u32" where
  "elf_hash name =
     fold (\<lambda>byte hash.
         let hash = push_bit 4 hash + ucast byte;
             high = hash AND 0xf0000000;
             hash = (if high \<noteq> 0 then hash XOR drop_bit 24 high else hash) in
         hash AND NOT high) name 0"

text \<open>\<open>while (links[current]) current = links[current];\<close> with fuel; \<open>insert_symbol_ok\<close> shows that
  the length of the table is enough.\<close>

fun chain_end :: "nat \<Rightarrow> nat list \<Rightarrow> nat \<Rightarrow> (fault + nat) option" where
  "chain_end 0 links current = None"
| "chain_end (Suc fuel) links current =
     (case at links current of
        Inl e \<Rightarrow> Some (Inl e)
      | Inr next_index \<Rightarrow> if next_index \<noteq> 0 then chain_end fuel links next_index else Some (Inr current))"

type_synonym hash_table = "nat list \<times> nat list"

definition hash_insert :: "nat \<Rightarrow> symbol \<Rightarrow> hash_table \<Rightarrow> (fault + hash_table) option" where
  "hash_insert index y table =
     (let (buckets, links) = table in
      if \<not> y_lookup y then Some (Inr (buckets, links))
      else let bucket = unat (elf_hash (y_name y)) mod length buckets in
        if buckets ! bucket = 0 then Some (Inr (buckets[bucket := index], links))
        else map_option (\<lambda>r. bindE r (\<lambda>current. Inr (buckets, links[current := index])))
               (chain_end (length links) links (buckets ! bucket)))"

fun hash_insert_all :: "nat \<Rightarrow> symbol list \<Rightarrow> hash_table \<Rightarrow> (fault + hash_table) option" where
  "hash_insert_all index [] table = Some (Inr table)"
| "hash_insert_all index (y # ys) table =
     (case hash_insert index y table of
        None \<Rightarrow> None
      | Some (Inl e) \<Rightarrow> Some (Inl e)
      | Some (Inr table') \<Rightarrow> hash_insert_all (index + 1) ys table')"

definition bucket_count :: "nat \<Rightarrow> nat" where
  "bucket_count chain_count = max 1 (chain_count div 4)"

definition build_hash :: "symbol list \<Rightarrow> (fault + hash_table) option" where
  "build_hash symbols =
     (let chain_count = length symbols + 1 in
      hash_insert_all 1 symbols (replicate (bucket_count chain_count) 0, replicate chain_count 0))"

definition hash_bytes :: "hash_table \<Rightarrow> bytes" where
  "hash_bytes table =
     (let (buckets, links) = table in
      append_u32 (append_u32 [] (of_nat (length buckets))) (of_nat (length links)) @
        concat (map (\<lambda>v. le_bytes (of_nat v)) (buckets @ links)))"

subsection \<open>Lookup by a dynamic linker\<close>

text \<open>The algorithm of the System V ABI: the chain of the name's bucket, names compared.\<close>

fun chase :: "nat \<Rightarrow> symbol list \<Rightarrow> nat list \<Rightarrow> bytes \<Rightarrow> nat \<Rightarrow> nat option option" where
  "chase 0 symbols links name index = None"
| "chase (Suc fuel) symbols links name index =
     (if index = 0 \<or> index > length symbols then Some None
      else if y_name (symbols ! (index - 1)) = name then Some (Some index)
      else chase fuel symbols links name (links ! index))"

definition elf_lookup :: "symbol list \<Rightarrow> hash_table \<Rightarrow> bytes \<Rightarrow> nat option option" where
  "elf_lookup symbols table name =
     (let (buckets, links) = table in
      chase (length links) symbols links name (buckets ! (unat (elf_hash name) mod length buckets)))"

subsection \<open>Chains\<close>

fun is_chain :: "nat list \<Rightarrow> nat \<Rightarrow> nat list \<Rightarrow> bool" where
  "is_chain links y [] \<longleftrightarrow> y = 0"
| "is_chain links y (i # is) \<longleftrightarrow> y = i \<and> i \<noteq> 0 \<and> i < length links \<and> is_chain links (links ! i) is"

lemma is_chain_frame: "k \<notin> set is \<Longrightarrow> is_chain (links[k := v]) y is \<longleftrightarrow> is_chain links y is"
  by (induction "is" arbitrary: y) auto

lemma chain_end_last:
  "is_chain links y is \<Longrightarrow> is \<noteq> [] \<Longrightarrow> length is \<le> fuel \<Longrightarrow> chain_end fuel links y = Some (Inr (last is))"
proof (induction "is" arbitrary: y fuel)
  case (Cons i "is")
  then obtain fuel' where "fuel = Suc fuel'" "length is \<le> fuel'"
    by (cases fuel) auto
  with Cons show ?case
    by (cases "is") (auto simp: at_def)
qed simp

lemma is_chain_append:
  "is_chain links y is \<Longrightarrow> is \<noteq> [] \<Longrightarrow> distinct is \<Longrightarrow> k \<notin> set is \<Longrightarrow> k \<noteq> 0 \<Longrightarrow> k < length links \<Longrightarrow>
     links ! k = 0 \<Longrightarrow> is_chain (links[last is := k]) y (is @ [k])"
proof (induction "is" arbitrary: y)
  case (Cons i "is")
  show ?case
  proof (cases "is = []")
    case False
    then have "last is \<noteq> i"
      using Cons.prems(3) by auto
    then show ?thesis
      using Cons False by auto
  qed (use Cons in auto)
qed simp

lemma chase_find:
  "is_chain links y is \<Longrightarrow> length is < fuel \<Longrightarrow> \<forall>i \<in> set is. i \<le> length symbols \<Longrightarrow>
     chase fuel symbols links name y = Some (find (\<lambda>i. y_name (symbols ! (i - 1)) = name) is)"
proof (induction "is" arbitrary: y fuel)
  case (Cons i "is")
  then obtain fuel' where "fuel = Suc fuel'" "length is < fuel'"
    by (cases fuel) auto
  with Cons show ?case
    by auto
next
  case Nil
  then show ?case
    by (cases fuel) auto
qed

text \<open>The members of a bucket after the first symbols have been inserted.\<close>

definition bucket_of :: "symbol list \<Rightarrow> nat \<Rightarrow> nat \<Rightarrow> nat" where
  "bucket_of symbols n i = unat (elf_hash (y_name (symbols ! (i - 1)))) mod n"

definition members :: "symbol list \<Rightarrow> nat \<Rightarrow> nat \<Rightarrow> nat \<Rightarrow> nat list" where
  "members symbols n k b = filter (\<lambda>i. y_lookup (symbols ! (i - 1)) \<and> bucket_of symbols n i = b) [1..<k]"

definition table_ok :: "symbol list \<Rightarrow> nat \<Rightarrow> hash_table \<Rightarrow> bool" where
  "table_ok symbols k table \<longleftrightarrow>
     (let (buckets, links) = table in
      0 < length buckets \<and> length links = length symbols + 1 \<and>
      (\<forall>i. k \<le> i \<longrightarrow> i < length links \<longrightarrow> links ! i = 0) \<and>
      (\<forall>b < length buckets. is_chain links (buckets ! b) (members symbols (length buckets) k b)))"

lemma members_Suc:
  "0 < k \<Longrightarrow> members symbols n (Suc k) b = members symbols n k b @
     (if y_lookup (symbols ! (k - 1)) \<and> bucket_of symbols n k = b then [k] else [])"
  by (simp add: members_def)

lemma members_less: "i \<in> set (members symbols n k b) \<Longrightarrow> 0 < i \<and> i < k"
  by (auto simp: members_def)

lemma members_distinct: "distinct (members symbols n k b)"
  by (simp add: members_def)

lemma members_bucket: "i \<in> set (members symbols n k b) \<Longrightarrow> bucket_of symbols n i = b"
  by (auto simp: members_def)

lemma members_length: "length (members symbols n k b) \<le> k - 1"
  using length_filter_le [of _ "[1..<k]"] by (simp add: members_def)

lemma hash_insert_ok:
  assumes ok: "table_ok symbols k table" and k: "0 < k" "k \<le> length symbols"
  shows "\<exists>table'. hash_insert k (symbols ! (k - 1)) table = Some (Inr table') \<and>
    table_ok symbols (Suc k) table' \<and> length (fst table') = length (fst table)"
proof -
  obtain buckets links where table: "table = (buckets, links)"
    by (cases table)
  let ?n = "length buckets" and ?y = "symbols ! (k - 1)"
  let ?b = "bucket_of symbols ?n k"
  have n: "0 < ?n" and links: "length links = length symbols + 1"
    and zero: "\<And>i. k \<le> i \<Longrightarrow> i < length links \<Longrightarrow> links ! i = 0"
    and chain: "\<And>b. b < ?n \<Longrightarrow> is_chain links (buckets ! b) (members symbols ?n k b)"
    using ok by (auto simp: table_ok_def table)
  have b: "?b < ?n"
    using n by (simp add: bucket_of_def)
  let ?ms = "members symbols ?n k ?b"
  consider "\<not> y_lookup ?y" | "y_lookup ?y" "?ms = []" | "y_lookup ?y" "?ms \<noteq> []"
    by blast
  then show ?thesis
  proof cases
    case 1
    then show ?thesis
      using ok k by (auto simp: hash_insert_def table table_ok_def members_Suc)
  next
    case 2
    then have "buckets ! ?b = 0"
      using chain [OF b] by simp
    moreover have "is_chain links (buckets[?b := k] ! c) (members symbols ?n (Suc k) c)" if "c < ?n" for c
      using 2 chain [OF that] k links zero [of k] b that
      by (cases "c = ?b") (auto simp: members_Suc)
    ultimately show ?thesis
      using 2 k n links zero by (auto simp: hash_insert_def table table_ok_def bucket_of_def)
  next
    case 3
    let ?tail = "last ?ms"
    have "?tail \<in> set ?ms"
      using 3 by simp
    then have e: "0 < ?tail" "?tail < k" and e_bucket: "bucket_of symbols ?n ?tail = ?b"
      by (auto dest: members_less members_bucket)
    have nz: "buckets ! ?b \<noteq> 0"
      using 3 chain [OF b] by (cases ?ms) auto
    have "length ?ms \<le> length links"
      using members_length [of symbols ?n k ?b] k links by linarith
    then have end_eq: "chain_end (length links) links (buckets ! ?b) = Some (Inr ?tail)"
      using 3 chain [OF b] by (intro chain_end_last) simp_all
    have "is_chain (links[?tail := k]) (buckets ! c) (members symbols ?n (Suc k) c)" if c: "c < ?n" for c
    proof (cases "c = ?b")
      case True
      have "k \<notin> set ?ms"
        by (auto dest: members_less)
      then show ?thesis
        using 3 True k links zero [of k] is_chain_append [OF chain [OF b] _ members_distinct]
        by (simp add: members_Suc)
    next
      case False
      then have "?tail \<notin> set (members symbols ?n k c)"
        using e_bucket by (auto dest: members_bucket)
      then show ?thesis
        using False k chain [OF c] by (simp add: members_Suc is_chain_frame)
    qed
    then show ?thesis
      using 3 nz end_eq k n links zero e
      by (auto simp: hash_insert_def table table_ok_def bucket_of_def nth_list_update)
  qed
qed

lemma hash_insert_all_ok:
  assumes "table_ok symbols k table" and "0 < k" and "k + length ys = length symbols + 1"
    and "ys = drop (k - 1) symbols"
  shows "\<exists>table'. hash_insert_all k ys table = Some (Inr table') \<and>
    table_ok symbols (length symbols + 1) table' \<and> length (fst table') = length (fst table)"
  using assms
proof (induction ys arbitrary: k table)
  case (Cons y ys)
  have k: "0 < k" "k \<le> length symbols"
    using Cons.prems(2,3) by simp_all
  then have y: "symbols ! (k - 1) = y" and ys: "ys = drop k symbols"
    using Cons.prems(4) by (metis Suc_diff_1 Suc_le_eq Cons_nth_drop_Suc list.inject)+
  obtain table' where t: "hash_insert k y table = Some (Inr table')"
      "table_ok symbols (Suc k) table'" "length (fst table') = length (fst table)"
    using hash_insert_ok [OF Cons.prems(1) k] y by auto
  then show ?case
    using Cons.IH [OF t(2)] Cons.prems(3) ys by simp
qed simp

lemma build_hash_ok:
  "\<exists>table. build_hash symbols = Some (Inr table) \<and> table_ok symbols (length symbols + 1) table \<and>
     length (fst table) = bucket_count (length symbols + 1)"
proof -
  let ?t = "(replicate (bucket_count (length symbols + 1)) 0, replicate (length symbols + 1) 0)"
  have "table_ok symbols 1 ?t"
    by (simp add: table_ok_def members_def bucket_count_def)
  then show ?thesis
    using hash_insert_all_ok [of symbols 1 ?t symbols] by (simp add: build_hash_def Let_def)
qed

lemma elf_lookup_find:
  assumes "table_ok symbols (length symbols + 1) table"
  shows "\<exists>is. elf_lookup symbols table name = Some (find (\<lambda>i. y_name (symbols ! (i - 1)) = name) is) \<and>
    (\<forall>i. i \<in> set is \<longleftrightarrow> 0 < i \<and> i \<le> length symbols \<and> y_lookup (symbols ! (i - 1)) \<and>
       bucket_of symbols (length (fst table)) i = unat (elf_hash name) mod length (fst table))"
proof -
  obtain buckets links where table: "table = (buckets, links)"
    by (cases table)
  let ?b = "unat (elf_hash name) mod length buckets"
  let ?is = "members symbols (length buckets) (length symbols + 1) ?b"
  have chain: "is_chain links (buckets ! ?b) ?is" and links: "length links = length symbols + 1"
    using assms by (auto simp: table_ok_def table)
  have "length ?is < length links"
    using members_length [of symbols "length buckets" "length symbols + 1" ?b] links by linarith
  then have "chase (length links) symbols links name (buckets ! ?b) =
      Some (find (\<lambda>i. y_name (symbols ! (i - 1)) = name) ?is)"
    using chain by (intro chase_find) (auto simp: members_def)
  then show ?thesis
    by (intro exI [of _ ?is]) (auto simp: elf_lookup_def table members_def)
qed


subsection \<open>Names\<close>

definition names :: "symbol list \<Rightarrow> bytes list" where
  "names = map y_name"

lemma add_symbols_spec:
  "add_symbols used ys = (used', ys') \<Longrightarrow>
     set used' = set used \<union> y_name ` set ys \<and> distinct (names ys') \<and>
     set (names ys') \<inter> set used = {} \<and> set used \<union> set (names ys') = set used' \<and> set ys' \<subseteq> set ys"
proof (induction ys arbitrary: used used' ys')
  case (Cons y ys)
  show ?case
  proof (cases "y_name y \<in> set used")
    case True
    then show ?thesis
      using Cons.IH [of used used' ys'] Cons.prems by auto
  next
    case False
    then obtain zs where "add_symbols (y_name y # used) ys = (used', zs)" and ys': "ys' = y # zs"
      using Cons.prems by (auto split: prod.splits)
    then show ?thesis
      using Cons.IH [of "y_name y # used" used' zs] False by (auto simp: names_def)
  qed
qed (simp add: names_def)

lemma names_markers: "names (marker_symbols n) = reserved_names"
  by (simp add: names_def marker_symbols_def reserved_names_def)

lemma reserved_distinct: "distinct reserved_names"
  by code_simp

lemma build_symbols_parts:
  obtains used used' exported funs where
    "add_symbols reserved_names (map (export_symbol pe) (p_exports pe)) = (used, exported)"
    and "add_symbols used (map (function_symbol (dll_name path)) (p_functions pe)) = (used', funs)"
    and "build_symbols pe path = marker_symbols (length (p_image pe)) @ exported @ funs"
proof -
  let ?a = "add_symbols reserved_names (map (export_symbol pe) (p_exports pe))"
  let ?b = "add_symbols (fst ?a) (map (function_symbol (dll_name path)) (p_functions pe))"
  show thesis
    by (rule that [of "fst ?a" "snd ?a" "fst ?b" "snd ?b"])
      (simp_all add: build_symbols_def Let_def case_prod_unfold)
qed

lemma build_symbols_distinct: "distinct (names (build_symbols pe path))"
proof (rule build_symbols_parts)
  fix used used' exported funs
  assume a: "add_symbols reserved_names (map (export_symbol pe) (p_exports pe)) = (used, exported)"
    and b: "add_symbols used (map (function_symbol (dll_name path)) (p_functions pe)) = (used', funs)"
    and eq: "build_symbols pe path = marker_symbols (length (p_image pe)) @ exported @ funs"
  have "names (build_symbols pe path) = reserved_names @ names exported @ names funs"
    unfolding eq names_markers [symmetric, of "length (p_image pe)"] by (simp add: names_def)
  moreover have "set (names exported) \<inter> set reserved_names = {}" "distinct (names exported)"
    "set used = set reserved_names \<union> set (names exported)"
    using add_symbols_spec [OF a] by blast+
  moreover have "set (names funs) \<inter> set used = {}" "distinct (names funs)"
    using add_symbols_spec [OF b] by blast+
  ultimately show ?thesis
    using reserved_distinct by (simp only: distinct_append set_append) blast
qed

lemma find_unique:
  assumes "x \<in> set xs" and "P x" and only: "\<And>y. y \<in> set xs \<Longrightarrow> P y \<Longrightarrow> y = x"
  shows "find P xs = Some x"
proof (cases "find P xs")
  case None
  then show ?thesis
    using assms(1,2) by (simp add: find_None_iff)
next
  case (Some y)
  then have "y \<in> set xs" "P y"
    by (auto simp: find_Some_iff)
  with only Some show ?thesis
    by simp
qed

text \<open>With distinct names the table resolves exactly the names of the symbols in it.\<close>

lemma elf_lookup_resolves:
  assumes ok: "table_ok symbols (length symbols + 1) table" and dist: "distinct (names symbols)"
    and i: "i < length symbols" and y: "y_lookup (symbols ! i)"
  shows "elf_lookup symbols table (y_name (symbols ! i)) = Some (Some (i + 1))"
proof -
  let ?name = "y_name (symbols ! i)"
  obtain "is" where look: "elf_lookup symbols table ?name =
      Some (find (\<lambda>j. y_name (symbols ! (j - 1)) = ?name) is)"
    and mem: "\<And>j. j \<in> set is \<longleftrightarrow> 0 < j \<and> j \<le> length symbols \<and> y_lookup (symbols ! (j - 1)) \<and>
       bucket_of symbols (length (fst table)) j = unat (elf_hash ?name) mod length (fst table)"
    using elf_lookup_find [OF ok] by blast
  have here: "i + 1 \<in> set is"
    using i y unfolding mem by (simp add: bucket_of_def)
  have only: "j = i + 1" if "j \<in> set is" and name: "y_name (symbols ! (j - 1)) = ?name" for j
  proof -
    have j: "0 < j" "j \<le> length symbols"
      using that(1) unfolding mem by simp_all
    then have "names symbols ! (j - 1) = names symbols ! i"
      using name i by (simp add: names_def)
    then have "j - 1 = i"
      using dist i j by (subst (asm) nth_eq_iff_index_eq) (simp_all add: names_def)
    with j show ?thesis
      by simp
  qed
  have "find (\<lambda>j. y_name (symbols ! (j - 1)) = ?name) is = Some (i + 1)"
    by (rule find_unique [OF here]) (simp, rule only)
  then show ?thesis
    unfolding look by (rule arg_cong)
qed

lemma elf_lookup_unresolved:
  assumes ok: "table_ok symbols (length symbols + 1) table"
    and none: "\<And>i. i < length symbols \<Longrightarrow> y_lookup (symbols ! i) \<Longrightarrow> y_name (symbols ! i) \<noteq> name"
  shows "elf_lookup symbols table name = Some None"
proof -
  obtain "is" where look: "elf_lookup symbols table name =
      Some (find (\<lambda>j. y_name (symbols ! (j - 1)) = name) is)"
    and mem: "\<And>j. j \<in> set is \<longleftrightarrow> 0 < j \<and> j \<le> length symbols \<and> y_lookup (symbols ! (j - 1)) \<and>
       bucket_of symbols (length (fst table)) j = unat (elf_hash name) mod length (fst table)"
    using elf_lookup_find [OF ok] by blast
  have "y_name (symbols ! (j - 1)) \<noteq> name" if "j \<in> set is" for j
  proof -
    have "j - 1 < length symbols" "y_lookup (symbols ! (j - 1))"
      using that unfolding mem by auto
    then show ?thesis
      by (rule none)
  qed
  then show ?thesis
    unfolding look by (simp add: find_None_iff)
qed

lemma export_not_resolved:
  assumes x: "x \<in> set (p_exports pe)" and free: "x_name x \<notin> set reserved_names"
    and i: "i < length (build_symbols pe path)" and y: "y_lookup (build_symbols pe path ! i)"
  shows "y_name (build_symbols pe path ! i) \<noteq> x_name x"
proof (rule build_symbols_parts)
  fix used used' exported funs
  assume a: "add_symbols reserved_names (map (export_symbol pe) (p_exports pe)) = (used, exported)"
    and b: "add_symbols used (map (function_symbol (dll_name path)) (p_functions pe)) = (used', funs)"
    and eq: "build_symbols pe path = marker_symbols (length (p_image pe)) @ exported @ funs"
  let ?y = "build_symbols pe path ! i"
  have "?y \<in> set (marker_symbols (length (p_image pe)) @ exported @ funs)"
    using i unfolding eq by (rule nth_mem)
  then consider "?y \<in> set (marker_symbols (length (p_image pe)))" | "?y \<in> set exported" | "?y \<in> set funs"
    by auto
  then show ?thesis
  proof cases
    case 1
    then have "y_name ?y \<in> set reserved_names"
      unfolding names_markers [symmetric, of "length (p_image pe)"] by (simp add: names_def)
    with free show ?thesis
      by auto
  next
    case 2
    then have "?y \<in> set (map (export_symbol pe) (p_exports pe))"
      using add_symbols_spec [OF a] by (blast dest: subsetD)
    with y show ?thesis
      by (auto simp: export_symbol_def)
  next
    case 3
    then have "y_name ?y \<in> set (names funs)"
      by (simp add: names_def)
    moreover have "x_name x \<in> set used"
    proof -
      have "x_name x = y_name (export_symbol pe x)"
        by (simp add: export_symbol_def)
      then show ?thesis
        using x add_symbols_spec [OF a] by (simp only: list.set_map) blast
    qed
    moreover have "set (names funs) \<inter> set used = {}"
      using add_symbols_spec [OF b] by blast
    ultimately show ?thesis
      by (metis IntI emptyE)
  qed
qed

section \<open>File layout\<close>

definition align_offset :: "nat \<Rightarrow> nat \<Rightarrow> fault + nat" where
  "align_offset v alignment =
     (if v > 2 ^ 64 - 1 - (alignment - 1) then Inl (Throw ''ELF layout overflow'')
      else Inr ((v + alignment - 1) div alignment * alignment))"

lemma align_offset_word:
  assumes v: "v < 2 ^ 64" and k: "k < 64"
  shows "align_up (of_nat v) (2 ^ k) = bindE (align_offset v (2 ^ k)) (\<lambda>w. Inr (of_nat w))"
proof -
  have m: "2 ^ k - 1 = (mask k :: u64)"
    by (simp add: mask_eq_exp_minus_1)
  have pow: "(2 :: nat) ^ k < 2 ^ 64"
    using k by (intro power_strict_increasing) simp_all
  have umask: "unat (mask k :: u64) = 2 ^ k - 1"
  proof -
    have "(mask k :: u64) = of_nat (2 ^ k - 1)"
      by (simp add: mask_eq_exp_minus_1 of_nat_diff)
    then show ?thesis
      using pow by (simp only: unat_of_nat) simp
  qed
  have limit: "unat (- 1 - mask k :: u64) = 2 ^ 64 - 1 - (2 ^ k - 1)"
  proof -
    have "mask k \<le> (- 1 :: u64)"
      by simp
    moreover have "unat (- 1 :: u64) = 2 ^ 64 - 1"
      by (simp add: unsigned_minus_1_eq_mask mask_eq_exp_minus_1)
    ultimately show ?thesis
      using umask by (simp only: unat_sub)
  qed
  have cmp: "(of_nat v :: u64) > - 1 - mask k \<longleftrightarrow> v > 2 ^ 64 - 1 - (2 ^ k - 1)"
    using v unfolding word_less_nat_alt limit by (simp add: unat_of_nat)
  show ?thesis
  proof (cases "v > 2 ^ 64 - 1 - (2 ^ k - 1)")
    case True
    then show ?thesis
      using cmp by (simp add: align_up_def align_offset_def m)
  next
    case False
    have sum: "of_nat v + 2 ^ k - 1 = (of_nat (v + 2 ^ k - 1) :: u64)"
    proof -
      have "1 \<le> v + 2 ^ k"
        by (simp add: trans_le_add2)
      then show ?thesis
        by (subst of_nat_diff) simp_all
    qed
    have small: "v + 2 ^ k - 1 < 2 ^ 64"
      using False pow by linarith
    have "unat ((of_nat v + 2 ^ k - 1 :: u64) AND NOT (mask k)) = (v + 2 ^ k - 1) - (v + 2 ^ k - 1) mod 2 ^ k"
      unfolding unat_and_not_mask sum using small by (simp add: unat_of_nat)
    also have "\<dots> = (v + 2 ^ k - 1) div 2 ^ k * 2 ^ k"
      by (simp add: minus_mod_eq_div_mult)
    finally have "(of_nat v + 2 ^ k - 1 :: u64) AND NOT (mask k) = of_nat ((v + 2 ^ k - 1) div 2 ^ k * 2 ^ k)"
      by (metis of_nat_unat id_apply ucast_id unsigned_of_nat)
    then show ?thesis
      using False cmp by (simp add: align_up_def align_offset_def m)
  qed
qed

lemma align_offset_bounds:
  assumes "align_offset v a = Inr w" and "0 < a"
  shows "v \<le> w" and "w < v + a" and "a dvd w"
proof -
  have w: "w = (v + a - 1) div a * a" and lim: "v \<le> 2 ^ 64 - 1 - (a - 1)"
    using assms(1) by (auto simp: align_offset_def split: if_splits)
  have eq: "v + a - 1 = w + (v + a - 1) mod a" and r: "(v + a - 1) mod a < a"
    using assms(2) by (simp_all add: w)
  show "v \<le> w" "w < v + a"
    using eq r by linarith+
  show "a dvd w"
    by (simp add: w)
qed


end
