(* ===== verification/Sidecar_Layout.thy ===== *)
theory Sidecar_Layout
  imports Sidecar_Elf
begin

text \<open>
  The second half of \<open>build_elf\<close> of \<open>src/src/pe_sidecar.cpp\<close>: offsets of the tables, program and
  section headers, and the writes into the output. An \<open>Elf64_*\<close> object is the little-endian bytes
  of its fields.
\<close>

section \<open>Layout\<close>

record elf_layout =
  l_text_end :: nat
  l_metadata :: nat
  l_header_va :: nat
  l_dynsym :: nat
  l_dynsym_size :: nat
  l_dynstr :: nat
  l_hash :: nat
  l_rodata :: nat
  l_eh_frame_hdr :: nat
  l_eh_frame :: nat

definition text_offset :: nat where "text_offset = kPageSize"
definition text_va :: nat where "text_va = 0"
definition phnum :: nat where "phnum = 10"

definition hash_size :: "nat \<Rightarrow> nat" where
  "hash_size chain_count = (2 + bucket_count chain_count + chain_count) * 4"

definition layout_tables :: "nat \<Rightarrow> nat \<Rightarrow> nat \<Rightarrow> nat \<Rightarrow> fault + elf_layout" where
  "layout_tables image_size symbol_count dynstr_size range_count =
     (let text_end = text_offset + image_size in
      bindE (align_offset text_end kPageSize) (\<lambda>a.
      let metadata_start = a + kPageSize; header_va = metadata_start - kPageSize in
      bindE (align_offset metadata_start 8) (\<lambda>dynsym_offset.
      let dynsym_size = (symbol_count + 1) * 24; dynstr_offset = dynsym_offset + dynsym_size in
      bindE (align_offset (dynstr_offset + dynstr_size) 4) (\<lambda>hash_offset.
      bindE (align_offset (hash_offset + hash_size (symbol_count + 1)) 8) (\<lambda>rodata_offset.
      bindE (align_offset (rodata_offset + 24) 4) (\<lambda>eh_frame_hdr_offset.
      bindE (align_offset (eh_frame_hdr_offset + (12 + range_count * 8)) 8) (\<lambda>eh_frame_offset.
      Inr \<lparr>l_text_end = text_end, l_metadata = metadata_start, l_header_va = header_va,
           l_dynsym = dynsym_offset, l_dynsym_size = dynsym_size, l_dynstr = dynstr_offset,
           l_hash = hash_offset, l_rodata = rodata_offset, l_eh_frame_hdr = eh_frame_hdr_offset,
           l_eh_frame = eh_frame_offset\<rparr>)))))))"

record elf_tail =
  t_metadata_end :: nat
  t_dynamic :: nat
  t_dynamic_size :: nat
  t_shstr :: nat
  t_section_headers :: nat
  t_file_size :: nat

definition section_names :: "string list" where
  "section_names = ['''', ''.text'', ''.data'', ''.note.gnu.build-id'', ''.dynsym'', ''.dynstr'',
     ''.hash'', ''.rodata'', ''.eh_frame_hdr'', ''.eh_frame'', ''.dynamic'', ''.shstrtab'']"

definition shstr :: bytes where
  "shstr = 0 # concat (map (\<lambda>s. ascii s @ [0]) (tl section_names))"

definition shname :: "section_index \<Rightarrow> nat" where
  "shname s = (if s = Null then 0
     else 1 + length (concat (map (\<lambda>n. ascii n @ [0]) (take (section_number s - 1) (tl section_names)))))"

definition layout_tail :: "elf_layout \<Rightarrow> nat \<Rightarrow> fault + elf_tail" where
  "layout_tail l eh_frame_size =
     (let metadata_end = l_eh_frame l + eh_frame_size in
      bindE (align_offset metadata_end kPageSize) (\<lambda>dynamic_offset.
      let dynamic_size = 6 * 16; shstr_offset = dynamic_offset + dynamic_size in
      bindE (align_offset (shstr_offset + length shstr) 8) (\<lambda>section_header_offset.
      let file_size = section_header_offset + section_count * 64 in
      if file_size > 2 ^ 64 - 1 then Inl (Throw ''ELF output is too large'')
      else Inr \<lparr>t_metadata_end = metadata_end, t_dynamic = dynamic_offset,
                t_dynamic_size = dynamic_size, t_shstr = shstr_offset,
                t_section_headers = section_header_offset, t_file_size = file_size\<rparr>)))"

section \<open>Objects\<close>

definition le_field :: "nat \<Rightarrow> nat \<Rightarrow> bytes" where
  "le_field k v = map (\<lambda>i. of_nat (v div 256 ^ i)) [0..<k]"

lemma length_le_field [simp]: "length (le_field k v) = k"
  by (simp add: le_field_def)

definition note_offset :: "fault + nat" where
  "note_offset = align_offset (64 + phnum * 56) 4"

definition build_note :: "parsed_pe \<Rightarrow> bytes" where
  "build_note pe =
     append_u32 (append_u32 (append_u32 [] 4) 20) 3 @ ascii ''GNU'' @ [0] @
     le_field 8 (unat (p_fingerprint pe)) @ le_field 8 (length (p_source pe)) @ le_field 4 3"

record phdr =
  ph_type :: nat
  ph_flags :: nat
  ph_offset :: nat
  ph_vaddr :: nat
  ph_filesz :: nat
  ph_memsz :: nat
  ph_align :: nat

definition PT_LOAD :: nat where "PT_LOAD = 1"
definition PT_DYNAMIC :: nat where "PT_DYNAMIC = 2"
definition PT_NOTE :: nat where "PT_NOTE = 4"
definition PT_PHDR :: nat where "PT_PHDR = 6"
definition PT_GNU_EH_FRAME :: nat where "PT_GNU_EH_FRAME = 0x6474e550"
definition PT_GNU_STACK :: nat where "PT_GNU_STACK = 0x6474e551"
definition PF_X :: nat where "PF_X = 1"
definition PF_W :: nat where "PF_W = 2"
definition PF_R :: nat where "PF_R = 4"

text \<open>\<open>p_paddr\<close> always repeats \<open>p_vaddr\<close>.\<close>

definition phdr_bytes :: "phdr \<Rightarrow> bytes" where
  "phdr_bytes p = le_field 4 (ph_type p) @ le_field 4 (ph_flags p) @ le_field 8 (ph_offset p) @
     le_field 8 (ph_vaddr p) @ le_field 8 (ph_vaddr p) @ le_field 8 (ph_filesz p) @
     le_field 8 (ph_memsz p) @ le_field 8 (ph_align p)"

abbreviation segment :: "nat \<Rightarrow> nat \<Rightarrow> nat \<Rightarrow> nat \<Rightarrow> nat \<Rightarrow> nat \<Rightarrow> phdr" where
  "segment ty flags offset vaddr extent alignment \<equiv>
     \<lparr>ph_type = ty, ph_flags = flags, ph_offset = offset, ph_vaddr = vaddr, ph_filesz = extent,
      ph_memsz = extent, ph_align = alignment\<rparr>"

definition build_phdrs ::
    "elf_layout \<Rightarrow> elf_tail \<Rightarrow> nat \<Rightarrow> nat \<Rightarrow> nat \<Rightarrow> nat \<Rightarrow> nat \<Rightarrow> phdr list" where
  "build_phdrs l t image_size note_off note_size hdr_size tail_offset =
     [segment PT_PHDR PF_R 64 (l_header_va l + 64) (phnum * 56) 8,
      segment PT_LOAD (PF_R + PF_X) text_offset text_va image_size kPageSize,
      segment PT_LOAD (PF_R + PF_W) tail_offset (l_header_va l - kPageSize) kPageSize kPageSize,
      segment PT_LOAD PF_R 0 (l_header_va l) text_offset kPageSize,
      segment PT_LOAD PF_R (l_metadata l) (l_metadata l) (t_metadata_end t - l_metadata l) kPageSize,
      segment PT_LOAD (PF_R + PF_W) (t_dynamic t) (t_dynamic t) (t_dynamic_size t) kPageSize,
      segment PT_DYNAMIC (PF_R + PF_W) (t_dynamic t) (t_dynamic t) (t_dynamic_size t) 8,
      segment PT_NOTE PF_R note_off (l_header_va l + note_off) note_size 4,
      segment PT_GNU_EH_FRAME PF_R (l_eh_frame_hdr l) (l_eh_frame_hdr l) hdr_size 4,
      segment PT_GNU_STACK (PF_R + PF_W) 0 0 0 16]"

definition ehdr_bytes :: "elf_tail \<Rightarrow> bytes" where
  "ehdr_bytes t =
     [0x7f, of_char (CHR ''E''), of_char (CHR ''L''), of_char (CHR ''F''), 2, 1, 1, 0] @
     replicate 8 0 @
     le_field 2 3 @ le_field 2 62 @ le_field 4 1 @ le_field 8 0 @ le_field 8 64 @
     le_field 8 (t_section_headers t) @ le_field 4 0 @ le_field 2 64 @ le_field 2 56 @
     le_field 2 phnum @ le_field 2 64 @ le_field 2 section_count @
     le_field 2 (section_number Shstrtab)"

definition sym_bytes :: "nat \<Rightarrow> symbol \<Rightarrow> bytes" where
  "sym_bytes name y = le_field 4 name @ le_field 1 (y_info y) @ le_field 1 0 @
     le_field 2 (y_section y) @ le_field 8 (y_value y) @ le_field 8 (y_size y)"

definition dynamic_bytes :: "elf_layout \<Rightarrow> nat \<Rightarrow> bytes" where
  "dynamic_bytes l dynstr_size =
     concat (map (\<lambda>(tag, v). le_field 8 tag @ le_field 8 v)
       [(4, l_hash l), (5, l_dynstr l), (6, l_dynsym l), (10, dynstr_size), (11, 24), (0, 0)])"

record shdr =
  sh_index :: section_index
  sh_type :: nat
  sh_flags :: nat
  sh_addr :: nat
  sh_offset :: nat
  sh_size :: nat
  sh_link :: section_index
  sh_info :: nat
  sh_align :: nat
  sh_entsize :: nat

definition shdr_bytes :: "shdr \<Rightarrow> bytes" where
  "shdr_bytes s = le_field 4 (shname (sh_index s)) @ le_field 4 (sh_type s) @ le_field 8 (sh_flags s) @
     le_field 8 (sh_addr s) @ le_field 8 (sh_offset s) @ le_field 8 (sh_size s) @
     le_field 4 (section_number (sh_link s)) @ le_field 4 (sh_info s) @ le_field 8 (sh_align s) @
     le_field 8 (sh_entsize s)"

abbreviation section_header ::
    "section_index \<Rightarrow> nat \<Rightarrow> nat \<Rightarrow> nat \<Rightarrow> nat \<Rightarrow> nat \<Rightarrow> section_index \<Rightarrow> nat \<Rightarrow> nat \<Rightarrow> nat \<Rightarrow> shdr" where
  "section_header i ty flags addr offset extent link info alignment entsize \<equiv>
     \<lparr>sh_index = i, sh_type = ty, sh_flags = flags, sh_addr = addr, sh_offset = offset,
      sh_size = extent, sh_link = link, sh_info = info, sh_align = alignment, sh_entsize = entsize\<rparr>"

definition build_shdrs ::
    "elf_layout \<Rightarrow> elf_tail \<Rightarrow> nat \<Rightarrow> nat \<Rightarrow> nat \<Rightarrow> nat \<Rightarrow> nat \<Rightarrow> nat \<Rightarrow> nat \<Rightarrow> nat \<Rightarrow> shdr list" where
  "build_shdrs l t image_size note_off note_size dynstr_size hash_len hdr_size eh_size tail_offset =
     [section_header Null 0 0 0 0 0 Null 0 0 0,
      section_header Text 1 6 text_va text_offset image_size Null 0 kPageSize 0,
      section_header Tail 1 3 (l_header_va l - kPageSize) tail_offset kPageSize Null 0 kPageSize 0,
      section_header Note 7 2 (l_header_va l + note_off) note_off note_size Null 0 4 0,
      section_header Dynsym 11 2 (l_dynsym l) (l_dynsym l) (l_dynsym_size l) Dynstr 1 8 24,
      section_header Dynstr 3 2 (l_dynstr l) (l_dynstr l) dynstr_size Null 0 1 0,
      section_header Hash 5 2 (l_hash l) (l_hash l) hash_len Dynsym 0 4 4,
      section_header Rodata 1 2 (l_rodata l) (l_rodata l) 24 Null 0 8 0,
      section_header EhFrameHdr 1 2 (l_eh_frame_hdr l) (l_eh_frame_hdr l) hdr_size Null 0 4 0,
      section_header EhFrame 1 2 (l_eh_frame l) (l_eh_frame l) eh_size Null 0 8 0,
      section_header Dynamic 6 3 (t_dynamic t) (t_dynamic t) (t_dynamic_size t) Dynstr 0 8 16,
      section_header Shstrtab 3 0 0 (t_shstr t) (length shstr) Null 0 1 0]"

section \<open>Writes\<close>

text \<open>
  \<open>copy_object\<close> and \<open>copy_bytes\<close> check the range and throw; a \<open>memcpy\<close> into the output does not.
\<close>

datatype elf_write = Copy nat bytes | Memcpy nat bytes

fun w_offset :: "elf_write \<Rightarrow> nat" where
  "w_offset (Copy off bs) = off"
| "w_offset (Memcpy off bs) = off"

fun w_bytes :: "elf_write \<Rightarrow> bytes" where
  "w_bytes (Copy off bs) = bs"
| "w_bytes (Memcpy off bs) = bs"

definition overwrite :: "bytes \<Rightarrow> nat \<Rightarrow> bytes \<Rightarrow> bytes" where
  "overwrite out off bs = take off out @ bs @ drop (off + length bs) out"

fun perform :: "elf_write \<Rightarrow> bytes \<Rightarrow> fault + bytes" where
  "perform (Copy off bs) out =
     (if off > length out \<or> length bs > length out - off
      then Inl (Throw ''internal ELF layout error'') else Inr (overwrite out off bs))"
| "perform (Memcpy off bs) out =
     (if off + length bs \<le> length out then Inr (overwrite out off bs) else Inl OutOfBounds)"

fun perform_all :: "elf_write list \<Rightarrow> bytes \<Rightarrow> fault + bytes" where
  "perform_all [] out = Inr out"
| "perform_all (w # ws) out = bindE (perform w out) (perform_all ws)"

definition header_writes :: "elf_tail \<Rightarrow> phdr list \<Rightarrow> nat \<Rightarrow> bytes \<Rightarrow> elf_write list" where
  "header_writes t phdrs note_off note =
     Copy 0 (ehdr_bytes t) #
     map (\<lambda>i. Copy (64 + i * 56) (phdr_bytes (phdrs ! i))) [0..<length phdrs] @
     [Copy note_off note]"

definition symbol_writes :: "elf_layout \<Rightarrow> symbol list \<Rightarrow> elf_write list" where
  "symbol_writes l symbols =
     Copy (l_dynsym l) (replicate 24 0) #
     map (\<lambda>i. Copy (l_dynsym l + (i + 1) * 24) (sym_bytes (name_offset symbols i) (symbols ! i)))
       [0..<length symbols]"

definition table_writes ::
    "elf_layout \<Rightarrow> elf_tail \<Rightarrow> parsed_pe \<Rightarrow> nat \<Rightarrow> bytes \<Rightarrow> bytes \<Rightarrow> bytes \<Rightarrow> shdr list \<Rightarrow> elf_write list" where
  "table_writes l t pe dynstr_size hash_data eh_frame_hdr eh_frame shdrs =
     [Copy (l_hash l) hash_data,
      Memcpy (l_rodata l) (le_field 8 (length (p_source pe))),
      Memcpy (l_rodata l + 8) (le_field 8 (unat (p_fingerprint pe))),
      Memcpy (l_rodata l + 16) (le_field 8 3),
      Copy (l_eh_frame_hdr l) eh_frame_hdr,
      Copy (l_eh_frame l) eh_frame,
      Memcpy (t_dynamic t) (dynamic_bytes l dynstr_size),
      Copy (t_shstr t) shstr,
      Memcpy (t_section_headers t) (concat (map shdr_bytes shdrs))]"

text \<open>Everything \<open>build_elf\<close> computes before it writes.\<close>

record elf_plan =
  e_symbols :: "symbol list"
  e_ranges :: "cfi_range list"
  e_layout :: elf_layout
  e_eh_frame :: bytes
  e_offsets :: "u32 list"
  e_eh_frame_hdr :: bytes
  e_tail :: elf_tail
  e_phdrs :: "phdr list"
  e_writes :: "elf_write list"

definition place_markers :: "nat \<Rightarrow> symbol list \<Rightarrow> symbol list" where
  "place_markers rodata symbols =
     symbols[2 := (symbols ! 2)\<lparr>y_value := rodata\<rparr>,
             3 := (symbols ! 3)\<lparr>y_value := rodata + 8\<rparr>,
             4 := (symbols ! 4)\<lparr>y_value := rodata + 16\<rparr>]"

definition plan_elf :: "parsed_pe \<Rightarrow> bytes \<Rightarrow> (fault + elf_plan) option" where
  "plan_elf pe path =
     (let unplaced = build_symbols pe path; ranges = make_cfi_ranges pe;
          dynstr = dynstr_of unplaced; image_size = length (p_image pe) in
      map_option (\<lambda>table.
        bindE (layout_tables image_size (length unplaced) (length dynstr) (length ranges)) (\<lambda>l.
        let symbols = place_markers (l_rodata l) unplaced in
        bindE (build_eh_frame (of_nat (l_eh_frame l)) (of_nat text_va) ranges) (\<lambda>(eh_frame, offsets).
        bindE (build_eh_frame_hdr (of_nat (l_eh_frame_hdr l)) (of_nat (l_eh_frame l)) (of_nat text_va)
                 ranges offsets) (\<lambda>eh_frame_hdr.
        bindE (layout_tail l (length eh_frame)) (\<lambda>t.
        bindE note_offset (\<lambda>note_off.
        let note = build_note pe in
        if note_off + length note > text_offset then Inl (Throw ''ELF headers exceed first page'')
        else bindE (align_offset (l_text_end l) kPageSize) (\<lambda>tail_offset.
        let phdrs = build_phdrs l t image_size note_off (length note) (length eh_frame_hdr) tail_offset in
        bindE table (\<lambda>table.
        let shdrs = build_shdrs l t image_size note_off (length note) (length dynstr)
                      (length (hash_bytes table)) (length eh_frame_hdr) (length eh_frame) tail_offset in
        Inr \<lparr>e_symbols = symbols, e_ranges = ranges, e_layout = l, e_eh_frame = eh_frame,
             e_offsets = offsets, e_eh_frame_hdr = eh_frame_hdr, e_tail = t, e_phdrs = phdrs,
             e_writes = header_writes t phdrs note_off note @
               [Copy text_offset (p_image pe), Copy (l_dynstr l) dynstr] @
               symbol_writes l symbols @
               table_writes l t pe (length dynstr) (hash_bytes table) eh_frame_hdr eh_frame shdrs\<rparr>)))))))
      ) (build_hash unplaced))"

definition build_elf :: "parsed_pe \<Rightarrow> bytes \<Rightarrow> (fault + bytes) option" where
  "build_elf pe path =
     map_option (\<lambda>r. bindE r (\<lambda>plan.
       perform_all (e_writes plan) (replicate (t_file_size (e_tail plan)) 0))) (plan_elf pe path)"

section \<open>Correctness\<close>

subsection \<open>Writes to disjoint ranges\<close>

definition w_end :: "elf_write \<Rightarrow> nat" where
  "w_end w = w_offset w + length (w_bytes w)"

definition apart_writes :: "elf_write \<Rightarrow> elf_write \<Rightarrow> bool" where
  "apart_writes = apart w_offset w_end"

definition slice_at :: "bytes \<Rightarrow> nat \<Rightarrow> nat \<Rightarrow> bytes" where
  "slice_at out off n = take n (drop off out)"

lemma perform_in_range:
  "w_end w \<le> length out \<Longrightarrow> perform w out = Inr (overwrite out (w_offset w) (w_bytes w))"
  by (cases w) (auto simp: w_end_def)

lemma length_overwrite: "off + length bs \<le> length out \<Longrightarrow> length (overwrite out off bs) = length out"
  by (simp add: overwrite_def)

lemma overwrite_nth:
  "off + length bs \<le> length out \<Longrightarrow> i < length out \<Longrightarrow>
     overwrite out off bs ! i = (if off \<le> i \<and> i < off + length bs then bs ! (i - off) else out ! i)"
  by (auto simp: overwrite_def nth_append)

lemma slice_at_eqI:
  "off + length bs \<le> length out \<Longrightarrow> (\<And>j. j < length bs \<Longrightarrow> out ! (off + j) = bs ! j) \<Longrightarrow>
     slice_at out off (length bs) = bs"
  by (rule nth_equalityI) (auto simp: slice_at_def)

lemma slice_at_nth: "slice_at out off n = bs \<Longrightarrow> j < n \<Longrightarrow> off + n \<le> length out \<Longrightarrow> out ! (off + j) = bs ! j"
  by (auto simp: slice_at_def)

lemma perform_all_ok:
  assumes "\<forall>w \<in> set ws. w_end w \<le> length out" and "sorted_wrt apart_writes ws"
  shows "\<exists>out'. perform_all ws out = Inr out' \<and> length out' = length out \<and>
    (\<forall>w \<in> set ws. slice_at out' (w_offset w) (length (w_bytes w)) = w_bytes w) \<and>
    (\<forall>i < length out. (\<forall>w \<in> set ws. i < w_offset w \<or> w_end w \<le> i) \<longrightarrow> out' ! i = out ! i)"
  using assms
proof (induction ws arbitrary: out)
  case (Cons w ws)
  let ?mid = "overwrite out (w_offset w) (w_bytes w)"
  have w: "w_offset w + length (w_bytes w) \<le> length out"
    using Cons.prems(1) by (simp add: w_end_def)
  then have len: "length ?mid = length out"
    by (rule length_overwrite)
  from Cons.IH [of ?mid] Cons.prems len obtain out' where
    out': "perform_all ws ?mid = Inr out'" "length out' = length out"
    and slices: "\<forall>v \<in> set ws. slice_at out' (w_offset v) (length (w_bytes v)) = w_bytes v"
    and frame: "\<And>i. i < length out \<Longrightarrow> (\<forall>v \<in> set ws. i < w_offset v \<or> w_end v \<le> i) \<Longrightarrow> out' ! i = ?mid ! i"
    by auto
  have "slice_at out' (w_offset w) (length (w_bytes w)) = w_bytes w"
  proof (rule slice_at_eqI)
    fix j assume j: "j < length (w_bytes w)"
    then have "\<forall>v \<in> set ws. w_offset w + j < w_offset v \<or> w_end v \<le> w_offset w + j"
      using Cons.prems(2) by (fastforce simp: apart_writes_def apart_def w_end_def)
    then have "out' ! (w_offset w + j) = ?mid ! (w_offset w + j)"
      using j w by (intro frame) simp_all
    then show "out' ! (w_offset w + j) = w_bytes w ! j"
      using j w by (simp add: overwrite_nth)
  qed (use w out' in simp)
  moreover have "perform w out = Inr ?mid"
    using w by (simp add: perform_in_range w_end_def)
  moreover have "out' ! i = out ! i"
    if "i < length out" and "\<forall>v \<in> set (w # ws). i < w_offset v \<or> w_end v \<le> i" for i
    using that frame [of i] w by (auto simp: overwrite_nth w_end_def)
  ultimately show ?case
    using out' slices by auto
qed simp

fun ascending :: "nat \<Rightarrow> elf_write list \<Rightarrow> nat \<Rightarrow> bool" where
  "ascending lo [] hi \<longleftrightarrow> lo \<le> hi"
| "ascending lo (w # ws) hi \<longleftrightarrow> lo \<le> w_offset w \<and> ascending (w_end w) ws hi"

lemma ascending_append: "ascending lo xs m \<Longrightarrow> ascending m ys hi \<Longrightarrow> ascending lo (xs @ ys) hi"
proof (induction xs arbitrary: lo)
  case Nil
  then show ?case
    by (cases ys) auto
qed simp

lemma ascending_le: "ascending lo ws hi \<Longrightarrow> lo \<le> hi"
proof (induction ws arbitrary: lo)
  case (Cons w ws)
  then have "lo \<le> w_offset w" and "w_end w \<le> hi"
    by auto
  then show ?case
    by (simp add: w_end_def)
qed simp

lemma ascending_bounds: "ascending lo ws hi \<Longrightarrow> w \<in> set ws \<Longrightarrow> lo \<le> w_offset w \<and> w_end w \<le> hi"
proof (induction ws arbitrary: lo)
  case (Cons v ws)
  then have "lo \<le> w_offset v" "ascending (w_end v) ws hi"
    by auto
  moreover from this have "w_end v \<le> hi"
    by (blast dest: ascending_le)
  ultimately show ?case
    using Cons.IH [of "w_end v"] Cons.prems(2) by (force simp: w_end_def)
qed simp

lemma ascending_apart: "ascending lo ws hi \<Longrightarrow> sorted_wrt apart_writes ws"
proof (induction ws arbitrary: lo)
  case (Cons w ws)
  then show ?case
    by (auto simp: apart_writes_def apart_def dest: ascending_bounds)
qed simp

lemma ascending_array:
  assumes "\<And>i. i < n \<Longrightarrow> length (bs i) = s" and "k \<le> n"
  shows "ascending (base + k * s) (map (\<lambda>i. Copy (base + i * s) (bs i)) [k..<n]) (base + n * s)"
  using assms(2)
proof (induction "n - k" arbitrary: k)
  case (Suc d)
  then have k: "k < n" "d = n - Suc k"
    by simp_all
  then have "[k..<n] = k # [Suc k..<n]"
    by (simp add: upt_conv_Cons)
  then show ?case
    using Suc.hyps(1) [OF k(2)] k(1) assms(1) [OF k(1)] by (simp add: w_end_def algebra_simps)
qed simp

subsection \<open>The layout\<close>

definition layout_ok :: "elf_layout \<Rightarrow> nat \<Rightarrow> nat \<Rightarrow> nat \<Rightarrow> nat \<Rightarrow> bool" where
  "layout_ok l image_size symbol_count dynstr_size range_count \<longleftrightarrow>
     l_text_end l = text_offset + image_size \<and>
     align_offset (l_text_end l) kPageSize = Inr (l_header_va l) \<and>
     l_text_end l \<le> l_header_va l \<and> l_header_va l < l_text_end l + kPageSize \<and>
     kPageSize dvd l_header_va l \<and> l_metadata l = l_header_va l + kPageSize \<and>
     l_metadata l \<le> l_dynsym l \<and>
     l_dynsym_size l = (symbol_count + 1) * 24 \<and>
     l_dynstr l = l_dynsym l + l_dynsym_size l \<and>
     l_dynstr l + dynstr_size \<le> l_hash l \<and>
     l_hash l + hash_size (symbol_count + 1) \<le> l_rodata l \<and>
     l_rodata l + 24 \<le> l_eh_frame_hdr l \<and>
     l_eh_frame_hdr l + (12 + range_count * 8) \<le> l_eh_frame l \<and> 8 dvd l_eh_frame l"

lemma kPageSize_pos [simp]: "0 < kPageSize"
  by (simp add: kPageSize_def)

lemma layout_tables_ok:
  assumes "layout_tables m n d r = Inr l"
  shows "layout_ok l m n d r"
proof -
  obtain a b c e f g where
    a: "align_offset (text_offset + m) kPageSize = Inr a"
    and b: "align_offset (a + kPageSize) 8 = Inr b"
    and c: "align_offset (b + (n + 1) * 24 + d) 4 = Inr c"
    and e: "align_offset (c + hash_size (n + 1)) 8 = Inr e"
    and f: "align_offset (e + 24) 4 = Inr f"
    and g: "align_offset (f + (12 + r * 8)) 8 = Inr g"
    and l: "l = \<lparr>l_text_end = text_offset + m, l_metadata = a + kPageSize,
           l_header_va = a + kPageSize - kPageSize,
           l_dynsym = b, l_dynsym_size = (n + 1) * 24, l_dynstr = b + (n + 1) * 24,
           l_hash = c, l_rodata = e, l_eh_frame_hdr = f, l_eh_frame = g\<rparr>"
    using assms unfolding layout_tables_def bindE_eq_Inr Let_def by blast
  show ?thesis
    unfolding layout_ok_def l
    using a align_offset_bounds [OF a] align_offset_bounds [OF b] align_offset_bounds [OF c]
      align_offset_bounds [OF e] align_offset_bounds [OF f] align_offset_bounds [OF g]
    by simp
qed

definition tail_ok :: "elf_layout \<Rightarrow> nat \<Rightarrow> elf_tail \<Rightarrow> bool" where
  "tail_ok l eh_size t \<longleftrightarrow>
     t_metadata_end t = l_eh_frame l + eh_size \<and> t_metadata_end t \<le> t_dynamic t \<and>
     kPageSize dvd t_dynamic t \<and> t_dynamic_size t = 96 \<and> t_shstr t = t_dynamic t + 96 \<and>
     t_shstr t + length shstr \<le> t_section_headers t \<and>
     t_file_size t = t_section_headers t + section_count * 64 \<and> t_file_size t < 2 ^ 64"

lemma layout_tail_ok:
  assumes "layout_tail l n = Inr t"
  shows "tail_ok l n t"
proof -
  obtain a b where a: "align_offset (l_eh_frame l + n) kPageSize = Inr a"
    and b: "align_offset (a + 6 * 16 + length shstr) 8 = Inr b"
    and size: "\<not> b + section_count * 64 > 2 ^ 64 - 1"
    and t: "t = \<lparr>t_metadata_end = l_eh_frame l + n, t_dynamic = a,
                t_dynamic_size = 6 * 16, t_shstr = a + 6 * 16,
                t_section_headers = b, t_file_size = b + section_count * 64\<rparr>"
    using assms unfolding layout_tail_def bindE_eq_Inr Let_def if_Inl_eq_Inr by blast
  show ?thesis
    unfolding tail_ok_def t
    using size align_offset_bounds [OF a] align_offset_bounds [OF b]
    by simp
qed

subsection \<open>The plan\<close>

definition plan_ok :: "parsed_pe \<Rightarrow> bytes \<Rightarrow> elf_plan \<Rightarrow> bool" where
  "plan_ok pe path p \<longleftrightarrow>
     (let l = e_layout p; t = e_tail p; symbols = e_symbols p; dynstr = dynstr_of (build_symbols pe path) in
      layout_ok l (length (p_image pe)) (length symbols) (length dynstr) (length (e_ranges p)) \<and>
      tail_ok l (length (e_eh_frame p)) t \<and>
      e_ranges p = make_cfi_ranges pe \<and>
      symbols = place_markers (l_rodata l) (build_symbols pe path) \<and>
      build_eh_frame (of_nat (l_eh_frame l)) 0 (e_ranges p) = Inr (e_eh_frame p, e_offsets p) \<and>
      build_eh_frame_hdr (of_nat (l_eh_frame_hdr l)) (of_nat (l_eh_frame l)) 0 (e_ranges p) (e_offsets p)
        = Inr (e_eh_frame_hdr p) \<and>
      e_phdrs p = build_phdrs l t (length (p_image pe)) 624 36 (length (e_eh_frame_hdr p)) (l_header_va l) \<and>
      (\<exists>table shdrs. build_hash (build_symbols pe path) = Some (Inr table) \<and> length shdrs = 12 \<and>
         e_writes p = header_writes t (e_phdrs p) 624 (build_note pe) @
               [Copy text_offset (p_image pe), Copy (l_dynstr l) dynstr] @
               symbol_writes l symbols @
               table_writes l t pe (length dynstr) (hash_bytes table) (e_eh_frame_hdr p) (e_eh_frame p) shdrs))"

lemma length_note [simp]: "length (build_note pe) = 36"
  by (simp add: build_note_def ascii_def)

lemma note_offset_eq: "note_offset = Inr 624"
  by (simp add: note_offset_def align_offset_def phnum_def)

lemma length_place_markers [simp]: "length (place_markers r ys) = length ys"
  by (simp add: place_markers_def)

lemma length_build_shdrs: "length (build_shdrs l t i no ns ds hl hs es off) = 12"
  by (simp add: build_shdrs_def)

lemma plan_elf_ok:
  assumes "plan_elf pe path = Some (Inr p)"
  shows "plan_ok pe path p"
proof -
  let ?ys = "build_symbols pe path" and ?rs = "make_cfi_ranges pe"
  let ?image_size = "length (p_image pe)" and ?dynstr = "dynstr_of ?ys"
  obtain table where table: "build_hash ?ys = Some (Inr table)"
    using build_hash_ok [of ?ys] by auto
  obtain l eh offs hdr t tail where
    l: "layout_tables ?image_size (length ?ys) (length ?dynstr) (length ?rs) = Inr l"
    and eh: "build_eh_frame (of_nat (l_eh_frame l)) (of_nat text_va) ?rs = Inr (eh, offs)"
    and hdr: "build_eh_frame_hdr (of_nat (l_eh_frame_hdr l)) (of_nat (l_eh_frame l)) (of_nat text_va) ?rs offs
      = Inr hdr"
    and t: "layout_tail l (length eh) = Inr t"
    and tail: "align_offset (l_text_end l) kPageSize = Inr tail"
    and p: "p = \<lparr>e_symbols = place_markers (l_rodata l) ?ys, e_ranges = ?rs, e_layout = l, e_eh_frame = eh,
             e_offsets = offs, e_eh_frame_hdr = hdr, e_tail = t,
             e_phdrs = build_phdrs l t ?image_size 624 36 (length hdr) tail,
             e_writes = header_writes t (build_phdrs l t ?image_size 624 36 (length hdr) tail)
                 624 (build_note pe) @
               [Copy text_offset (p_image pe), Copy (l_dynstr l) ?dynstr] @
               symbol_writes l (place_markers (l_rodata l) ?ys) @
               table_writes l t pe (length ?dynstr) (hash_bytes table) hdr eh
                 (build_shdrs l t ?image_size 624 36 (length ?dynstr)
                      (length (hash_bytes table)) (length hdr) (length eh) tail)\<rparr>"
    using assms unfolding plan_elf_def table Let_def option.map(2) option.inject note_offset_eq bindE_simps
      bindE_eq_Inr if_Inl_eq_Inr length_note case_prod_unfold
    by (auto simp del: bindE_simps)
  have lok: "layout_ok l ?image_size (length ?ys) (length ?dynstr) (length ?rs)"
    using l by (rule layout_tables_ok)
  then have "tail = l_header_va l"
    using tail by (simp add: layout_ok_def)
  then show ?thesis
    using lok layout_tail_ok [OF t] table eh hdr length_build_shdrs
    unfolding plan_ok_def Let_def p text_va_def
    by (simp, blast)
qed


subsection \<open>All writes are apart and inside the file\<close>

lemma object_lengths [simp]:
  "length (ehdr_bytes t) = 64" "length (phdr_bytes p) = 56" "length (sym_bytes n y) = 24"
  "length (dynamic_bytes l d) = 96" "length (shdr_bytes s) = 64"
  by (simp_all add: ehdr_bytes_def phdr_bytes_def sym_bytes_def dynamic_bytes_def shdr_bytes_def)

lemma length_concat_const: "(\<And>x. x \<in> set xs \<Longrightarrow> length (f x) = n) \<Longrightarrow> length (concat (map f xs)) = length xs * n"
  by (induction xs) simp_all

lemma length_hash_bytes:
  assumes "build_hash symbols = Some (Inr table)"
  shows "length (hash_bytes table) = hash_size (length symbols + 1)"
proof -
  have "table_ok symbols (length symbols + 1) table"
    and "length (fst table) = bucket_count (length symbols + 1)"
    using build_hash_ok [of symbols] assms by auto
  then show ?thesis
    by (auto simp: hash_bytes_def hash_size_def table_ok_def length_concat_const case_prod_unfold)
qed

lemma length_eh_frame_hdr:
  "build_eh_frame va tva rs = Inr (data, offs) \<Longrightarrow> build_eh_frame_hdr hva va' tva rs offs = Inr hdr \<Longrightarrow>
     length hdr = 12 + length rs * 8"
  using eh_frame_hdr_read build_eh_frame_length by fastforce

lemma header_writes_ascending:
  assumes "length phdrs = 10" and "length note = 36"
  shows "ascending 0 (header_writes t phdrs 624 note) text_offset"
proof -
  have "ascending (64 + 0 * 56) (map (\<lambda>i. Copy (64 + i * 56) (phdr_bytes (phdrs ! i))) [0..<10]) (64 + 10 * 56)"
    by (rule ascending_array) simp_all
  then have "ascending 64 (map (\<lambda>i. Copy (64 + i * 56) (phdr_bytes (phdrs ! i))) [0..<length phdrs] @ [Copy 624 note]) text_offset"
    using assms by (intro ascending_append [where m = 624]) (simp_all add: w_end_def text_offset_def kPageSize_def)
  then show ?thesis
    by (simp add: header_writes_def w_end_def)
qed

lemma symbol_writes_ascending:
  "ascending (l_dynsym l) (symbol_writes l symbols) (l_dynsym l + (length symbols + 1) * 24)"
proof -
  let ?f = "\<lambda>i. Copy (l_dynsym l + 24 + i * 24) (sym_bytes (name_offset symbols i) (symbols ! i))"
  have "ascending (l_dynsym l + 24 + 0 * 24) (map ?f [0..<length symbols])
      (l_dynsym l + 24 + length symbols * 24)"
    by (rule ascending_array) simp_all
  then show ?thesis
    by (simp add: symbol_writes_def w_end_def algebra_simps)
qed

definition sorted_writes :: "parsed_pe \<Rightarrow> bytes \<Rightarrow> elf_plan \<Rightarrow> hash_table \<Rightarrow> shdr list \<Rightarrow> elf_write list" where
  "sorted_writes pe path p table shdrs =
     header_writes (e_tail p) (e_phdrs p) 624 (build_note pe) @ [Copy text_offset (p_image pe)] @
     symbol_writes (e_layout p) (e_symbols p) @ [Copy (l_dynstr (e_layout p)) (dynstr_of (build_symbols pe path))] @
     table_writes (e_layout p) (e_tail p) pe (length (dynstr_of (build_symbols pe path))) (hash_bytes table)
       (e_eh_frame_hdr p) (e_eh_frame p) shdrs"

lemma sorted_writes_ascending:
  assumes ok: "plan_ok pe path p" and table: "build_hash (build_symbols pe path) = Some (Inr table)"
    and shdrs: "length shdrs = 12"
  shows "ascending 0 (sorted_writes pe path p table shdrs) (t_file_size (e_tail p))"
proof -
  let ?l = "e_layout p" and ?t = "e_tail p" and ?dynstr = "dynstr_of (build_symbols pe path)"
  have l: "layout_ok ?l (length (p_image pe)) (length (e_symbols p)) (length ?dynstr) (length (e_ranges p))"
    and t: "tail_ok ?l (length (e_eh_frame p)) ?t"
    and phdrs: "length (e_phdrs p) = 10"
    and symbols: "length (e_symbols p) = length (build_symbols pe path)"
    using ok by (auto simp: plan_ok_def Let_def build_phdrs_def)
  have hash: "length (hash_bytes table) = hash_size (length (e_symbols p) + 1)"
    using length_hash_bytes [OF table] symbols by simp
  have hdr: "length (e_eh_frame_hdr p) = 12 + length (e_ranges p) * 8"
    using ok length_eh_frame_hdr by (auto simp: plan_ok_def Let_def)
  have sh: "length (concat (map shdr_bytes shdrs)) = 768"
    using shdrs by (simp add: length_concat_const)
  have tables: "ascending (l_dynstr ?l + length ?dynstr)
      (table_writes ?l ?t pe (length ?dynstr) (hash_bytes table) (e_eh_frame_hdr p) (e_eh_frame p) shdrs)
      (t_file_size ?t)"
    using l t hash hdr sh
    by (simp add: table_writes_def w_end_def layout_ok_def tail_ok_def section_count_def)
  show ?thesis
    unfolding sorted_writes_def
  proof (intro ascending_append)
    show "ascending 0 (header_writes ?t (e_phdrs p) 624 (build_note pe)) text_offset"
      using phdrs by (simp add: header_writes_ascending)
    show "ascending text_offset [Copy text_offset (p_image pe)] (l_dynsym ?l)"
      using l by (simp add: w_end_def layout_ok_def)
    show "ascending (l_dynsym ?l) (symbol_writes ?l (e_symbols p)) (l_dynstr ?l)"
      using symbol_writes_ascending [of ?l "e_symbols p"] l by (simp add: layout_ok_def)
    show "ascending (l_dynstr ?l) [Copy (l_dynstr ?l) ?dynstr] (l_dynstr ?l + length ?dynstr)"
      by (simp add: w_end_def)
  qed (rule tables)
qed

lemma apart_writes_sym: "apart_writes x y \<longleftrightarrow> apart_writes y x"
  by (simp add: apart_writes_def apart_sym)

text \<open>What the plan guarantees of its writes, whatever their order.\<close>

lemma plan_writes:
  assumes ok: "plan_ok pe path p"
  shows "\<forall>w \<in> set (e_writes p). w_end w \<le> t_file_size (e_tail p)"
    and "sorted_wrt apart_writes (e_writes p)"
proof -
  obtain table shdrs where table: "build_hash (build_symbols pe path) = Some (Inr table)"
    and shdrs: "length shdrs = 12"
    and ws: "e_writes p = header_writes (e_tail p) (e_phdrs p) 624 (build_note pe) @
               [Copy text_offset (p_image pe), Copy (l_dynstr (e_layout p)) (dynstr_of (build_symbols pe path))] @
               symbol_writes (e_layout p) (e_symbols p) @
               table_writes (e_layout p) (e_tail p) pe (length (dynstr_of (build_symbols pe path)))
                 (hash_bytes table) (e_eh_frame_hdr p) (e_eh_frame p) shdrs"
    using ok unfolding plan_ok_def Let_def by blast
  have asc: "ascending 0 (sorted_writes pe path p table shdrs) (t_file_size (e_tail p))"
    using ok table shdrs by (rule sorted_writes_ascending)
  have set_eq: "set (e_writes p) = set (sorted_writes pe path p table shdrs)"
    by (auto simp: ws sorted_writes_def)
  then show "\<forall>w \<in> set (e_writes p). w_end w \<le> t_file_size (e_tail p)"
    using ascending_bounds [OF asc] by blast
  show "sorted_wrt apart_writes (e_writes p)"
    using ascending_apart [OF asc]
    by (auto simp: ws sorted_writes_def sorted_wrt_append apart_writes_sym)
qed

lemma build_elf_writes:
  assumes "plan_elf pe path = Some (Inr p)"
  shows "\<exists>out. build_elf pe path = Some (Inr out) \<and> length out = t_file_size (e_tail p) \<and>
    (\<forall>w \<in> set (e_writes p). slice_at out (w_offset w) (length (w_bytes w)) = w_bytes w)"
proof -
  have ok: "plan_ok pe path p"
    using assms by (rule plan_elf_ok)
  have "\<exists>out. perform_all (e_writes p) (replicate (t_file_size (e_tail p)) 0) = Inr out \<and>
      length out = t_file_size (e_tail p) \<and>
      (\<forall>w \<in> set (e_writes p). slice_at out (w_offset w) (length (w_bytes w)) = w_bytes w)"
    using perform_all_ok [of "e_writes p" "replicate (t_file_size (e_tail p)) 0"] plan_writes [OF ok]
    by auto
  then show ?thesis
    using assms by (auto simp: build_elf_def)
qed

lemma align_offset_no_oob [simp]: "align_offset v a \<noteq> Inl OutOfBounds"
  by (simp add: align_offset_def)

lemma plan_elf_total: "plan_elf pe path \<noteq> None \<and> plan_elf pe path \<noteq> Some (Inl OutOfBounds)"
proof -
  obtain table where table: "build_hash (build_symbols pe path) = Some (Inr table)"
    using build_hash_ok [of "build_symbols pe path"] by auto
  have tables: "layout_tables m n d r \<noteq> Inl OutOfBounds" and tail: "layout_tail l k \<noteq> Inl OutOfBounds"
    for m n d r l k
    by (simp_all add: layout_tables_def layout_tail_def bindE_eq_Inl Let_def)
  show ?thesis
    by (auto simp: plan_elf_def table Let_def bindE_eq_Inl tables tail note_offset_eq build_eh_frame_no_oob
        build_eh_frame_hdr_no_oob dest: build_eh_frame_length)
qed

lemma build_elf_total: "\<exists>r. build_elf pe path = Some r \<and> r \<noteq> Inl OutOfBounds"
proof (cases "plan_elf pe path")
  case (Some r)
  then show ?thesis
    using build_elf_writes plan_elf_total by (cases r) (fastforce simp: build_elf_def)+
qed (use plan_elf_total in simp)

section \<open>What a loader sees\<close>

text \<open>
  \<open>PT_LOAD\<close> segments as a dynamic linker maps them (base address 0): the byte at a virtual address
  comes from the first segment that contains it.
\<close>

definition load_segments :: "phdr list \<Rightarrow> phdr list" where
  "load_segments = filter (\<lambda>p. ph_type p = PT_LOAD)"

definition mapped_byte :: "phdr list \<Rightarrow> bytes \<Rightarrow> nat \<Rightarrow> u8 option" where
  "mapped_byte phdrs out va =
     (case find (\<lambda>p. ph_vaddr p \<le> va \<and> va < ph_vaddr p + ph_filesz p) (load_segments phdrs) of
        None \<Rightarrow> None
      | Some p \<Rightarrow> Some (out ! (ph_offset p + (va - ph_vaddr p))))"

text \<open>
  Segments as the kernel requires them: file offset and address congruent modulo the page size, and
  the pages of a segment below those of the next.
\<close>

definition pages_below :: "phdr \<Rightarrow> phdr \<Rightarrow> bool" where
  "pages_below p q \<longleftrightarrow>
     (ph_vaddr p + ph_memsz p + (kPageSize - 1)) div kPageSize * kPageSize \<le> ph_vaddr q div kPageSize * kPageSize"

definition loadable :: "phdr list \<Rightarrow> nat \<Rightarrow> bool" where
  "loadable phdrs file_size \<longleftrightarrow>
     (\<forall>p \<in> set (load_segments phdrs). ph_offset p mod kPageSize = ph_vaddr p mod kPageSize \<and>
        ph_offset p + ph_filesz p \<le> file_size \<and> ph_filesz p \<le> ph_memsz p) \<and>
     sorted_wrt pages_below (load_segments phdrs)"

lemma load_segments_plan:
  "load_segments (build_phdrs l t n no ns hs off) =
     [segment PT_LOAD (PF_R + PF_X) text_offset text_va n kPageSize,
      segment PT_LOAD (PF_R + PF_W) off (l_header_va l - kPageSize) kPageSize kPageSize,
      segment PT_LOAD PF_R 0 (l_header_va l) text_offset kPageSize,
      segment PT_LOAD PF_R (l_metadata l) (l_metadata l) (t_metadata_end t - l_metadata l) kPageSize,
      segment PT_LOAD (PF_R + PF_W) (t_dynamic t) (t_dynamic t) (t_dynamic_size t) kPageSize]"
  by (simp add: load_segments_def build_phdrs_def PT_LOAD_def PT_PHDR_def PT_DYNAMIC_def PT_NOTE_def
      PT_GNU_EH_FRAME_def PT_GNU_STACK_def)

lemma round_up_le: "v \<le> k * p \<Longrightarrow> 0 < p \<Longrightarrow> (v + (p - 1)) div p * p \<le> k * p" for v p k :: nat
proof -
  assume "v \<le> k * p" and "0 < p"
  then have "v + (p - 1) < (k + 1) * p"
    by (simp add: algebra_simps)
  then have "(v + (p - 1)) div p < k + 1"
    by (rule less_mult_imp_div_less)
  then have "(v + (p - 1)) div p \<le> k"
    by linarith
  then show ?thesis
    by (rule mult_le_mono1)
qed

lemma pages_belowI:
  assumes "ph_vaddr p + ph_memsz p \<le> ph_vaddr q" and "kPageSize dvd ph_vaddr q"
  shows "pages_below p q"
proof -
  obtain k where q: "ph_vaddr q = k * kPageSize"
    using assms(2) by (metis dvd_div_mult_self)
  then have "(ph_vaddr p + ph_memsz p + (kPageSize - 1)) div kPageSize * kPageSize \<le> k * kPageSize"
    using assms(1) by (intro round_up_le) simp_all
  then show ?thesis
    using q by (simp add: pages_below_def)
qed

lemma header_va_bounds:
  assumes "layout_ok l n m d r"
  shows "n \<le> l_header_va l - kPageSize" and "kPageSize \<le> l_header_va l"
  using assms unfolding layout_ok_def text_offset_def by linarith+

lemma plan_okD:
  assumes "plan_ok pe path p"
  shows "layout_ok (e_layout p) (length (p_image pe)) (length (e_symbols p))
      (length (dynstr_of (build_symbols pe path))) (length (e_ranges p))"
    and "tail_ok (e_layout p) (length (e_eh_frame p)) (e_tail p)"
    and "e_phdrs p = build_phdrs (e_layout p) (e_tail p) (length (p_image pe)) 624 36
      (length (e_eh_frame_hdr p)) (l_header_va (e_layout p))"
    and "e_ranges p = make_cfi_ranges pe"
    and "build_eh_frame (of_nat (l_eh_frame (e_layout p))) 0 (e_ranges p) = Inr (e_eh_frame p, e_offsets p)"
    and "build_eh_frame_hdr (of_nat (l_eh_frame_hdr (e_layout p))) (of_nat (l_eh_frame (e_layout p))) 0
      (e_ranges p) (e_offsets p) = Inr (e_eh_frame_hdr p)"
  using assms unfolding plan_ok_def Let_def by blast+

lemma plan_loadable:
  assumes ok: "plan_ok pe path p"
  shows "loadable (e_phdrs p) (t_file_size (e_tail p))"
proof -
  let ?l = "e_layout p" and ?t = "e_tail p" and ?n = "length (p_image pe)"
  have l: "layout_ok ?l ?n (length (e_symbols p)) (length (dynstr_of (build_symbols pe path)))
      (length (e_ranges p))"
    and t: "tail_ok ?l (length (e_eh_frame p)) ?t"
    and ph: "e_phdrs p = build_phdrs ?l ?t ?n 624 36 (length (e_eh_frame_hdr p)) (l_header_va ?l)"
    using ok by (rule plan_okD)+
  have h: "?n \<le> l_header_va ?l - kPageSize" "kPageSize \<le> l_header_va ?l"
    using header_va_bounds [OF l] by simp_all
  have d: "kPageSize dvd l_header_va ?l" "kPageSize dvd t_dynamic ?t"
    using l t by (simp_all add: layout_ok_def tail_ok_def)
  have meta: "l_metadata ?l = l_header_va ?l + kPageSize"
    using l by (simp add: layout_ok_def)
  have me: "l_metadata ?l \<le> t_metadata_end ?t" "t_metadata_end ?t \<le> t_dynamic ?t"
    using l t by (simp_all add: layout_ok_def tail_ok_def)
  have bound: "t_dynamic ?t + t_dynamic_size ?t \<le> t_file_size ?t"
    using t by (simp add: tail_ok_def)
  have "sorted_wrt pages_below (load_segments (e_phdrs p))"
    unfolding ph load_segments_plan
    using h d meta me
    by (auto intro!: pages_belowI simp: text_va_def text_offset_def)
  moreover have "\<forall>q \<in> set (load_segments (e_phdrs p)). ph_offset q mod kPageSize = ph_vaddr q mod kPageSize"
    unfolding ph load_segments_plan
    using h d meta by (auto simp: text_va_def text_offset_def dvd_imp_mod_0 le_imp_diff_is_add mod_eq_0_iff_dvd
        dvd_diff_nat)
  moreover have "\<forall>q \<in> set (load_segments (e_phdrs p)). ph_offset q + ph_filesz q \<le> t_file_size ?t \<and>
      ph_filesz q \<le> ph_memsz q"
    unfolding ph load_segments_plan
    using h meta me bound by (auto simp: text_offset_def)
  ultimately show ?thesis
    by (simp add: loadable_def)
qed

lemma mapped_text:
  assumes ok: "plan_ok pe path p" and image: "slice_at out text_offset (length (p_image pe)) = p_image pe"
    and len: "length out = t_file_size (e_tail p)" and i: "i < length (p_image pe)"
  shows "mapped_byte (e_phdrs p) out i = Some (p_image pe ! i)"
proof -
  have ph: "e_phdrs p = build_phdrs (e_layout p) (e_tail p) (length (p_image pe)) 624 36
      (length (e_eh_frame_hdr p)) (l_header_va (e_layout p))"
    using ok by (rule plan_okD)
  have "segment PT_LOAD (PF_R + PF_X) text_offset text_va (length (p_image pe)) kPageSize \<in> set (load_segments (e_phdrs p))"
    by (simp add: ph load_segments_plan)
  then have "text_offset + length (p_image pe) \<le> length out"
    using plan_loadable [OF ok] len unfolding loadable_def by fastforce
  then have "out ! (text_offset + i) = p_image pe ! i"
    by (intro slice_at_nth [OF image i])
  then show ?thesis
    using i by (simp add: mapped_byte_def ph load_segments_plan text_va_def)
qed

end
