(* ===== verification/Sidecar_Io.thy ===== *)
theory Sidecar_Io
  imports Sidecar_Layout
begin

text \<open>
  Files and system calls of \<open>src/src/pe_sidecar.cpp\<close>: \<open>read_file\<close>, \<open>write_output\<close> and
  \<open>generate_pe_sidecar\<close>. Names lead to inodes, inodes hold bytes, a descriptor is an inode. Every
  call that can fail takes the next of a list of answers; when the list is used up calls succeed in
  full. So the answers range over all patterns of failures, interrupts and short counts.
\<close>

section \<open>The system\<close>

datatype answer = Ok | Part nat | Interrupted | Failed

record os =
  os_name :: "string \<Rightarrow> nat option"
  os_data :: "nat \<Rightarrow> bytes"
  os_next :: nat
  os_answers :: "answer list"

fun next_answer :: "answer list \<Rightarrow> answer \<times> answer list" where
  "next_answer [] = (Ok, [])"
| "next_answer (a # as) = (a, as)"

definition ask :: "os \<Rightarrow> answer \<times> os" where
  "ask s = (let (a, as) = next_answer (os_answers s) in (a, s\<lparr>os_answers := as\<rparr>))"

text \<open>
  A call without a count succeeds or fails; a short count is at least one byte (0 is the end of the
  file).
\<close>

fun succeeds :: "answer \<Rightarrow> bool" where
  "succeeds Ok = True"
| "succeeds (Part n) = True"
| "succeeds _ = False"

fun short :: "answer \<Rightarrow> bytes \<Rightarrow> bytes" where
  "short (Part n) bs = take (Suc n) bs"
| "short _ bs = bs"

lemma next_answer_length: "next_answer as = (a, as') \<Longrightarrow> a \<noteq> Ok \<Longrightarrow> length as' < length as"
  by (cases as) auto

lemma next_answer_le: "next_answer as = (a, as') \<Longrightarrow> length as' \<le> length as"
  by (cases as) auto

section \<open>Reading\<close>

text \<open>
  The loop of \<open>read_file\<close>: \<open>extent\<close> is the size \<open>fstat\<close> reported, \<open>acc\<close> what is read so far.
\<close>

function read_loop :: "bytes \<Rightarrow> nat \<Rightarrow> bytes \<Rightarrow> answer list \<Rightarrow> (fault + bytes) \<times> answer list" where
  "read_loop content extent acc as =
     (if length acc < extent
      then (case next_answer as of (a, as') \<Rightarrow>
        if a = Interrupted then read_loop content extent acc as'
        else if a = Failed then (Inl (Throw ''cannot read''), as')
        else let got = short a (take (extent - length acc) (drop (length acc) content)) in
          if got = [] then (Inl (Throw ''cannot read''), as')
          else read_loop content extent (acc @ got) as')
      else (Inr acc, as))"
  by pat_completeness auto
termination
proof (relation "measure (\<lambda>(content, extent, acc, as). (extent - length acc) + length as)", goal_cases)
  case 1
  show ?case
    by simp
next
  case (2 content extent acc as a as')
  then show ?case
    using next_answer_length [of as a as'] by simp
next
  case (3 content extent acc as a as' got)
  have "0 < length got" and "length got \<le> extent - length acc"
    using 3 by (cases a; simp)+
  moreover have "length as' \<le> length as"
    using next_answer_le 3 by metis
  ultimately show ?case
    using 3(1) by (simp only: in_measure prod.case length_append)
qed

declare read_loop.simps [simp del]

definition read_file :: "string \<Rightarrow> os \<Rightarrow> (fault + bytes) \<times> os" where
  "read_file path s =
     (case ask s of (a, s) \<Rightarrow>
      case os_name s path of
        None \<Rightarrow> (Inl (Throw ''cannot open''), s)
      | Some fd \<Rightarrow>
        if \<not> succeeds a then (Inl (Throw ''cannot open''), s)
        else case ask s of (a, s) \<Rightarrow>
          if \<not> succeeds a then (Inl (Throw ''cannot stat''), s)
          else let extent = length (os_data s fd) in
            if extent > 2 ^ 64 - 1 then (Inl (Throw ''input file is too large''), s)
            else case read_loop (os_data s fd) extent [] (os_answers s) of (r, as) \<Rightarrow>
              let s = s\<lparr>os_answers := as\<rparr> in
              case r of
                Inl e \<Rightarrow> (Inl e, s)
              | Inr data \<Rightarrow>
                  (case ask s of (a, s) \<Rightarrow>
                   if \<not> succeeds a then (Inl (Throw ''cannot close''), s) else (Inr data, s)))"

section \<open>Writing\<close>

text \<open>The loop of \<open>write_output\<close>: \<open>sent\<close> is the file so far.\<close>

function write_loop :: "bytes \<Rightarrow> bytes \<Rightarrow> answer list \<Rightarrow> (fault + unit) \<times> bytes \<times> answer list" where
  "write_loop out sent as =
     (if length sent < length out
      then (case next_answer as of (a, as') \<Rightarrow>
        if a = Interrupted then write_loop out sent as'
        else if a = Failed then (Inl (Throw ''cannot write output''), sent, as')
        else let put = short a (drop (length sent) out) in
          if put = [] then (Inl (Throw ''cannot write output''), sent, as')
          else write_loop out (sent @ put) as')
      else (Inr (), sent, as))"
  by pat_completeness auto
termination
proof (relation "measure (\<lambda>(out, sent, as). (length out - length sent) + length as)", goal_cases)
  case 1
  show ?case
    by simp
next
  case (2 out sent as a as')
  then show ?case
    using next_answer_length [of as a as'] by simp
next
  case (3 out sent as a as' put)
  have "0 < length put" and "length put \<le> length out - length sent"
    using 3 by (cases a; simp)+
  moreover have "length as' \<le> length as"
    using next_answer_le 3 by metis
  ultimately show ?case
    using 3(1) by (simp only: in_measure prod.case length_append)
qed

declare write_loop.simps [simp del]

definition set_data :: "nat \<Rightarrow> bytes \<Rightarrow> os \<Rightarrow> os" where
  "set_data fd bs s = s\<lparr>os_data := (os_data s)(fd := bs)\<rparr>"

definition write_output :: "nat \<Rightarrow> bytes \<Rightarrow> os \<Rightarrow> (fault + unit) \<times> os" where
  "write_output fd out s =
     (case ask s of (a, s) \<Rightarrow>
      if \<not> succeeds a then (Inl (Throw ''cannot truncate output''), s)
      else let s = set_data fd [] s in
        case ask s of (a, s) \<Rightarrow>
        if \<not> succeeds a then (Inl (Throw ''cannot seek output''), s)
        else case write_loop out [] (os_answers s) of (r, sent, as) \<Rightarrow>
          (r, set_data fd sent (s\<lparr>os_answers := as\<rparr>)))"

section \<open>The generator\<close>

text \<open>\<open>build_elf\<close> always ends (\<open>build_elf_total\<close>), so the first branch is not reached.\<close>

definition elf_of :: "parsed_pe \<Rightarrow> string \<Rightarrow> fault + bytes" where
  "elf_of pe path = (case build_elf pe (ascii path) of None \<Rightarrow> Inl OutOfBounds | Some r \<Rightarrow> r)"

definition generate_pe_sidecar :: "string option \<Rightarrow> nat option \<Rightarrow> os \<Rightarrow> (fault + unit) \<times> os" where
  "generate_pe_sidecar pe_path output_fd s =
     (case pe_path of
        None \<Rightarrow> (Inl (Throw ''PE path is empty''), s)
      | Some path \<Rightarrow>
        if path = '''' then (Inl (Throw ''PE path is empty''), s)
        else case output_fd of
          None \<Rightarrow> (Inl (Throw ''output file descriptor is invalid''), s)
        | Some fd \<Rightarrow>
          (case ask s of (a, s) \<Rightarrow>
           if \<not> succeeds a \<or> os_name s path = None then (Inl (Throw ''cannot stat input''), s)
           else case ask s of (a, s) \<Rightarrow>
             if \<not> succeeds a then (Inl (Throw ''cannot stat output''), s)
             else if os_name s path = Some fd
             then (Inl (Throw ''input and output must be different files''), s)
             else case read_file path s of (r, s) \<Rightarrow>
               case bindE r (\<lambda>data. bindE (parse_pe data) (\<lambda>pe. elf_of pe path)) of
                 Inl e \<Rightarrow> (Inl e, s)
               | Inr out \<Rightarrow> write_output fd out s))"

section \<open>Correctness\<close>

definition is_prefix :: "bytes \<Rightarrow> bytes \<Rightarrow> bool" where
  "is_prefix xs ys \<longleftrightarrow> take (length xs) ys = xs"

lemma is_prefix_extend:
  "is_prefix xs ys \<Longrightarrow> is_prefix (xs @ take n (drop (length xs) ys)) ys"
  by (auto simp: is_prefix_def take_add min_def)

lemma is_prefix_full: "is_prefix xs ys \<Longrightarrow> length ys \<le> length xs \<Longrightarrow> xs = ys"
  by (simp add: is_prefix_def)

lemma short_Nil [simp]: "short a bs = [] \<longleftrightarrow> bs = []"
  by (cases a) simp_all

lemma short_eq_take: "\<exists>n. short a bs = take n bs"
proof (cases a)
  case (Part k)
  then show ?thesis
    by auto
qed (auto intro: exI [of _ "length bs"])

text \<open>A read of the whole file gives the whole file, however it was cut into pieces.\<close>

lemma read_loop_content:
  assumes "read_loop content extent acc as = (Inr data, as')" and "is_prefix acc content" and "extent = length content"
  shows "data = content"
  using assms
proof (induction content extent acc as rule: read_loop.induct)
  case (1 content extent acc as)
  obtain a as1 where nx: "next_answer as = (a, as1)"
    by (cases "next_answer as")
  note run = 1(3) [unfolded read_loop.simps [of content _ acc as]]
  show ?case
  proof (cases "length acc < extent")
    case True
    show ?thesis
    proof (cases "a = Interrupted")
      case int: True
      then have "read_loop content extent acc as1 = (Inr data, as')"
        using run True nx by simp
      then show ?thesis
        using "1.IH"(1) [OF True nx [symmetric] int] 1(4,5) by simp
    next
      case False
      let ?got = "short a (take (extent - length acc) (drop (length acc) content))"
      have a: "a \<noteq> Failed" and got: "?got \<noteq> []"
        and rest: "read_loop content extent (acc @ ?got) as1 = (Inr data, as')"
        using run True False nx by (auto simp: Let_def split: if_splits)
      obtain n where "?got = take n (take (extent - length acc) (drop (length acc) content))"
        using short_eq_take by blast
      then have "?got = take (min n (extent - length acc)) (drop (length acc) content)"
        by (simp add: take_take)
      then have "is_prefix (acc @ ?got) content"
        using is_prefix_extend [OF 1(4)] by metis
      then show ?thesis
        using "1.IH"(2) [OF True nx [symmetric] False a refl got] rest 1(5) by blast
    qed
  next
    case False
    then show ?thesis
      using run 1(4,5) is_prefix_full by simp
  qed
qed

lemma write_loop_content:
  assumes "write_loop out sent as = (r, sent', as')" and "is_prefix sent out"
  shows "is_prefix sent' out \<and> (r = Inr () \<longrightarrow> sent' = out)"
  using assms
proof (induction out sent as rule: write_loop.induct)
  case (1 out sent as)
  obtain a as1 where nx: "next_answer as = (a, as1)"
    by (cases "next_answer as")
  note run = 1(3) [unfolded write_loop.simps [of out sent as]]
  show ?case
  proof (cases "length sent < length out")
    case True
    show ?thesis
    proof (cases "a = Interrupted")
      case int: True
      then have "write_loop out sent as1 = (r, sent', as')"
        using run True nx by simp
      then show ?thesis
        using "1.IH"(1) [OF True nx [symmetric] int] 1(4) by simp
    next
      case False
      let ?put = "short a (drop (length sent) out)"
      have pre: "is_prefix (sent @ ?put) out"
        using short_eq_take [of a "drop (length sent) out"] is_prefix_extend [OF 1(4)] by metis
      show ?thesis
      proof (cases "a = Failed \<or> ?put = []")
        case True
        then show ?thesis
          using run \<open>length sent < length out\<close> False nx 1(4) by (auto simp: Let_def split: if_splits)
      next
        case ok: False
        then have "write_loop out (sent @ ?put) as1 = (r, sent', as')"
          using run True False nx by (simp add: Let_def)
        then show ?thesis
          using "1.IH"(2) [OF True nx [symmetric] False _ refl] ok pre by simp
      qed
    qed
  next
    case False
    then show ?thesis
      using run 1(4) is_prefix_full by auto
  qed
qed

text \<open>Calls keep names, contents and the inode counter.\<close>

definition same_files :: "os \<Rightarrow> os \<Rightarrow> bool" where
  "same_files s s' \<longleftrightarrow> os_name s' = os_name s \<and> os_data s' = os_data s \<and> os_next s' = os_next s"

lemma same_files_refl [simp]: "same_files s s"
  by (simp add: same_files_def)

lemma same_files_answers [simp]: "same_files s (s'\<lparr>os_answers := as\<rparr>) = same_files s s'"
  by (simp add: same_files_def)

lemma same_files_trans: "same_files s s' \<Longrightarrow> same_files s' s'' \<Longrightarrow> same_files s s''"
  by (simp add: same_files_def)

lemma ask_same: "ask s = (a, s') \<Longrightarrow> same_files s s'"
  by (auto simp: ask_def Let_def same_files_def split: prod.splits)

lemma read_file_spec:
  assumes "read_file path s = (r, s')"
  shows "same_files s s'" and "r = Inr data \<Longrightarrow> \<exists>fd. os_name s path = Some fd \<and> data = os_data s fd"
proof -
  obtain a1 s1 where 1: "ask s = (a1, s1)" by (cases "ask s")
  obtain a2 s2 where 2: "ask s1 = (a2, s2)" by (cases "ask s1")
  have s1: "same_files s s1" and s2: "same_files s s2"
    using ask_same [OF 1] ask_same [OF 2] same_files_trans by blast+
  have "same_files s s' \<and> (\<forall>data. r = Inr data \<longrightarrow> (\<exists>fd. os_name s path = Some fd \<and> data = os_data s fd))"
  proof (cases "os_name s path")
    case None
    then show ?thesis
      using assms s1 by (auto simp: read_file_def 1 same_files_def)
  next
    case (Some fd)
    obtain r3 as3 where 3: "read_loop (os_data s fd) (length (os_data s fd)) [] (os_answers s2) = (r3, as3)"
      by (cases "read_loop (os_data s fd) (length (os_data s fd)) [] (os_answers s2)")
    obtain a4 s4 where 4: "ask (s2\<lparr>os_answers := as3\<rparr>) = (a4, s4)"
      by (cases "ask (s2\<lparr>os_answers := as3\<rparr>)")
    have s4: "same_files s s4"
      using s2 ask_same [OF 4] same_files_trans same_files_answers by blast
    have data: "data = os_data s fd" if "r3 = Inr data" for data
      using read_loop_content 3 that by (auto simp: is_prefix_def)
    have names: "os_name s1 path = Some fd" "os_data s2 = os_data s"
      using s1 s2 Some by (simp_all add: same_files_def)
    show ?thesis
      using assms s1 s2 s4 data Some
      by (auto simp: read_file_def 1 2 3 4 names Let_def split: if_splits sum.splits)
  qed
  then show "same_files s s'" and "r = Inr data \<Longrightarrow> \<exists>fd. os_name s path = Some fd \<and> data = os_data s fd"
    by blast+
qed

text \<open>Only the data of \<open>fd\<close> may differ.\<close>

definition same_but :: "nat \<Rightarrow> os \<Rightarrow> os \<Rightarrow> bool" where
  "same_but fd s s' \<longleftrightarrow> os_name s' = os_name s \<and> os_next s' = os_next s \<and>
     (\<forall>i. i \<noteq> fd \<longrightarrow> os_data s' i = os_data s i)"

lemma same_but_same: "same_files s s' \<Longrightarrow> same_but fd s s'"
  by (simp add: same_files_def same_but_def)

lemma same_but_trans: "same_but fd s s' \<Longrightarrow> same_but fd s' s'' \<Longrightarrow> same_but fd s s''"
  by (simp add: same_but_def)

lemma same_but_set [simp]: "same_but fd s (set_data fd bs s') = same_but fd s s'"
  by (auto simp: same_but_def set_data_def)

lemma write_output_spec:
  assumes "write_output fd out s = (r, s')"
  shows "same_but fd s s'" and "r = Inr () \<Longrightarrow> os_data s' fd = out"
proof -
  obtain a1 s1 where 1: "ask s = (a1, s1)" by (cases "ask s")
  obtain a2 s2 where 2: "ask (set_data fd [] s1) = (a2, s2)" by (cases "ask (set_data fd [] s1)")
  obtain r3 sent as3 where 3: "write_loop out [] (os_answers s2) = (r3, sent, as3)"
    by (cases "write_loop out [] (os_answers s2)")
  have s1: "same_but fd s s1"
    using ask_same [OF 1] by (rule same_but_same)
  then have s2: "same_but fd s s2"
    using ask_same [OF 2] same_but_same same_but_trans same_but_set by blast
  have sent: "r3 = Inr () \<longrightarrow> sent = out"
    using write_loop_content [OF 3] by (simp add: is_prefix_def)
  let ?s3 = "set_data fd sent (s2\<lparr>os_answers := as3\<rparr>)"
  have "r = Inl (Throw ''cannot truncate output'') \<and> s' = s1 \<or>
      r = Inl (Throw ''cannot seek output'') \<and> s' = s2 \<or> r = r3 \<and> s' = ?s3"
    using assms by (auto simp: write_output_def 1 2 3 Let_def split: if_splits)
  moreover have "same_but fd s ?s3" "os_data ?s3 fd = sent"
    using s2 by (auto simp: set_data_def same_but_def)
  ultimately have "same_but fd s s' \<and> (r = Inr () \<longrightarrow> os_data s' fd = out)"
    using s1 s2 sent by auto
  then show "same_but fd s s'" and "r = Inr () \<Longrightarrow> os_data s' fd = out"
    by blast+
qed

text \<open>What a sidecar of a PE is, and that a successful run writes exactly it.\<close>

definition sidecar_of :: "string \<Rightarrow> bytes \<Rightarrow> bytes \<Rightarrow> bool" where
  "sidecar_of path data out \<longleftrightarrow> (\<exists>pe. parse_pe data = Inr pe \<and> build_elf pe (ascii path) = Some (Inr out))"

lemma elf_of_Inr: "elf_of pe path = Inr out \<longleftrightarrow> build_elf pe (ascii path) = Some (Inr out)"
  by (auto simp: elf_of_def split: option.splits)

lemma generate_pe_sidecar_spec:
  assumes run: "generate_pe_sidecar (Some path) (Some fd) s = (r, s')"
  shows "same_but fd s s'"
    and "r = Inr () \<Longrightarrow> \<exists>i. os_name s path = Some i \<and> i \<noteq> fd \<and> sidecar_of path (os_data s i) (os_data s' fd)"
proof -
  obtain a1 s1 where 1: "ask s = (a1, s1)" by (cases "ask s")
  obtain a2 s2 where 2: "ask s1 = (a2, s2)" by (cases "ask s1")
  obtain r3 s3 where 3: "read_file path s2 = (r3, s3)" by (cases "read_file path s2")
  have s: "same_files s s1" "same_files s s2" "same_files s s3"
    using ask_same [OF 1] ask_same [OF 2] read_file_spec(1) [OF 3] same_files_trans by blast+
  note names = s [unfolded same_files_def]
  let ?r = "bindE r3 (\<lambda>data. bindE (parse_pe data) (\<lambda>pe. elf_of pe path))"
  have "same_but fd s s' \<and>
      (r = Inr () \<longrightarrow> (\<exists>i. os_name s path = Some i \<and> i \<noteq> fd \<and> sidecar_of path (os_data s i) (os_data s' fd)))"
  proof (cases "path = '''' \<or> \<not> succeeds a1 \<or> os_name s path = None \<or> \<not> succeeds a2 \<or> os_name s path = Some fd")
    case True
    then show ?thesis
      using run s names by (auto simp: generate_pe_sidecar_def 1 2 intro!: same_but_same split: if_splits)
  next
    case ok: False
    show ?thesis
    proof (cases ?r)
      case (Inl e)
      then show ?thesis
        using run ok s names by (auto simp: generate_pe_sidecar_def 1 2 3 intro!: same_but_same)
    next
      case (Inr out)
      then obtain data pe where data: "r3 = Inr data" and pe: "parse_pe data = Inr pe"
        and out: "build_elf pe (ascii path) = Some (Inr out)"
        by (auto simp: result_simps elf_of_Inr)
      obtain i where i: "os_name s path = Some i" and i_data: "data = os_data s i"
        using read_file_spec(2) [OF 3 data] names by auto
      have w: "write_output fd out s3 = (r, s')"
        using run ok Inr names by (auto simp: generate_pe_sidecar_def 1 2 3)
      have "same_but fd s s'"
        using same_but_same [OF s(3)] write_output_spec(1) [OF w] by (rule same_but_trans)
      moreover have "r = Inr () \<longrightarrow> sidecar_of path (os_data s i) (os_data s' fd)"
        using write_output_spec(2) [OF w] pe out i_data by (auto simp: sidecar_of_def)
      ultimately show ?thesis
        using i ok by auto
    qed
  qed
  then show "same_but fd s s'"
    and "r = Inr () \<Longrightarrow> \<exists>i. os_name s path = Some i \<and> i \<noteq> fd \<and> sidecar_of path (os_data s i) (os_data s' fd)"
    by blast+
qed

text \<open>Interrupts and short counts alone never make the loops fail.\<close>

definition benign :: "answer \<Rightarrow> bool" where
  "benign a \<longleftrightarrow> a \<noteq> Failed"

lemma next_answer_benign:
  "next_answer as = (a, as') \<Longrightarrow> list_all benign as \<Longrightarrow> benign a \<and> list_all benign as'"
  by (cases as) (auto simp: benign_def)


lemma read_loop_benign:
  assumes "list_all benign as" and "is_prefix acc content" and "extent = length content"
  shows "fst (read_loop content extent acc as) = Inr content"
  using assms
proof (induction content extent acc as rule: read_loop.induct)
  case (1 content extent acc as)
  obtain a as1 where nx: "next_answer as = (a, as1)"
    by (cases "next_answer as")
  note b = next_answer_benign [OF nx 1(3)]
  show ?case
  proof (cases "length acc < extent")
    case True
    show ?thesis
    proof (cases "a = Interrupted")
      case int: True
      then show ?thesis
        using "1.IH"(1) [OF True nx [symmetric] int] b True 1(4,5) nx
        by (simp add: read_loop.simps [of content _ acc as])
    next
      case False
      let ?got = "short a (take (extent - length acc) (drop (length acc) content))"
      have got: "?got \<noteq> []" and a: "a \<noteq> Failed"
        using b True 1(5) by (auto simp: benign_def)
      obtain n where "?got = take n (take (extent - length acc) (drop (length acc) content))"
        using short_eq_take by blast
      then have "?got = take (min n (extent - length acc)) (drop (length acc) content)"
        by (simp add: take_take)
      then have "is_prefix (acc @ ?got) content"
        using is_prefix_extend [OF 1(4)] by metis
      then have "fst (read_loop content extent (acc @ ?got) as1) = Inr content"
        using "1.IH"(2) [OF True nx [symmetric] False a refl got] b 1(5) by blast
      then show ?thesis
        using True False a got nx by (simp add: read_loop.simps [of content _ acc as] Let_def)
    qed
  next
    case False
    then show ?thesis
      using 1(4,5) is_prefix_full by (simp add: read_loop.simps [of content _ acc as])
  qed
qed

lemma write_loop_benign:
  assumes "list_all benign as" and "is_prefix sent out"
  shows "fst (write_loop out sent as) = Inr ()"
  using assms
proof (induction out sent as rule: write_loop.induct)
  case (1 out sent as)
  obtain a as1 where nx: "next_answer as = (a, as1)"
    by (cases "next_answer as")
  note b = next_answer_benign [OF nx 1(3)]
  show ?case
  proof (cases "length sent < length out")
    case True
    show ?thesis
    proof (cases "a = Interrupted")
      case int: True
      then show ?thesis
        using "1.IH"(1) [OF True nx [symmetric] int] b True 1(4) nx
        by (simp add: write_loop.simps [of out sent as])
    next
      case False
      let ?put = "short a (drop (length sent) out)"
      have put: "?put \<noteq> []" and a: "a \<noteq> Failed"
        using b True by (auto simp: benign_def)
      have "is_prefix (sent @ ?put) out"
        using short_eq_take [of a "drop (length sent) out"] is_prefix_extend [OF 1(4)] by metis
      then have "fst (write_loop out (sent @ ?put) as1) = Inr ()"
        using "1.IH"(2) [OF True nx [symmetric] False a refl put] b by blast
      then show ?thesis
        using True False a put nx by (simp add: write_loop.simps [of out sent as] Let_def)
    qed
  next
    case False
    then show ?thesis
      by (simp add: write_loop.simps [of out sent as])
  qed
qed

end
