(* ===== verification/Loader_Exports.thy ===== *)
theory Loader_Exports
  imports Prelude
begin

text \<open>
  The export table of \<open>src/src/pe_loader.cpp\<close>: \<open>register_function\<close>, \<open>get_export\<close>,
  \<open>pe_discard_image_exports\<close>, ordinal imports and the module tests of the import loader. The C
  array with its counter is a list of at most \<open>MAX_EXPORTS\<close> entries, oldest first; a null module
  name is \<open>None\<close>. Addresses are 64-bit words, images are numbered.
\<close>

section \<open>Names\<close>

definition lower_char :: "char \<Rightarrow> char" where
  "lower_char c = (let n = of_char c :: nat in if 65 \<le> n \<and> n \<le> 90 then char_of (n + 32) else c)"

definition same_name :: "string \<Rightarrow> string \<Rightarrow> bool" where
  "same_name a b \<longleftrightarrow> map lower_char a = map lower_char b"

definition has_prefix :: "string \<Rightarrow> string \<Rightarrow> bool" where
  "has_prefix p s \<longleftrightarrow> length p \<le> length s \<and> same_name (take (length p) s) p"

lemma same_name_equivp [simp, intro]: "same_name a a"
  by (simp add: same_name_def)

lemma same_name_sym: "same_name a b \<longleftrightarrow> same_name b a"
  by (auto simp: same_name_def)

lemma same_name_trans: "same_name a b \<Longrightarrow> same_name b c \<Longrightarrow> same_name a c"
  by (simp add: same_name_def)

section \<open>The table\<close>

type_synonym image_id = nat

record export =
  t_dll :: "string option"
  t_name :: string
  t_addr :: u64
  t_owner :: "image_id option"

definition MAX_EXPORTS :: nat where "MAX_EXPORTS = 4096"

type_synonym export_table = "export list"

definition register_function ::
    "string option \<Rightarrow> string \<Rightarrow> u64 \<Rightarrow> image_id option \<Rightarrow> export_table \<Rightarrow> export_table" where
  "register_function dll name addr owner table =
     (if length table \<ge> MAX_EXPORTS then table
      else table @ [\<lparr>t_dll = dll, t_name = name, t_addr = addr, t_owner = owner\<rparr>])"

definition from_dll :: "string \<Rightarrow> export \<Rightarrow> bool" where
  "from_dll dll x \<longleftrightarrow> (case t_dll x of None \<Rightarrow> False | Some d \<Rightarrow> same_name d dll)"

text \<open>A null result is address 0.\<close>

definition get_export :: "string \<Rightarrow> string option \<Rightarrow> export_table \<Rightarrow> u64" where
  "get_export name dll table =
     (let preferred = (case dll of None \<Rightarrow> None
            | Some d \<Rightarrow> find (\<lambda>x. from_dll d x \<and> t_name x = name) (rev table)) in
      case preferred of
        Some x \<Rightarrow> t_addr x
      | None \<Rightarrow> (case find (\<lambda>x. t_name x = name) (rev table) of Some x \<Rightarrow> t_addr x | None \<Rightarrow> 0))"

definition pe_discard_image_exports :: "image_id \<Rightarrow> export_table \<Rightarrow> export_table" where
  "pe_discard_image_exports img table = filter (\<lambda>x. t_owner x \<noteq> Some img) table"

definition module_registered :: "string \<Rightarrow> export_table \<Rightarrow> bool" where
  "module_registered dll table \<longleftrightarrow> list_ex (from_dll dll) table"

section \<open>Ordinals and modules\<close>

definition ws2_32_ordinals :: "(nat \<times> string) list" where
  "ws2_32_ordinals =
     [(1, ''accept''), (2, ''bind''), (3, ''closesocket''), (4, ''connect''), (6, ''getsockname''),
      (9, ''htons''), (10, ''ioctlsocket''), (13, ''listen''), (15, ''ntohs''), (16, ''recv''),
      (18, ''select''), (19, ''send''), (21, ''setsockopt''), (57, ''gethostname''),
      (111, ''WSAGetLastError''), (115, ''WSAStartup''), (151, ''__WSAFDIsSet'')]"

definition resolve_ws2_32_ordinal :: "nat \<Rightarrow> string option" where
  "resolve_ws2_32_ordinal ordinal = map_of ws2_32_ordinals ordinal"

definition resolve_ordinal_import :: "string \<Rightarrow> nat \<Rightarrow> export_table \<Rightarrow> u64" where
  "resolve_ordinal_import dll ordinal table =
     (if same_name dll ''WS2_32.dll''
      then (case resolve_ws2_32_ordinal ordinal of Some name \<Rightarrow> get_export name None table | None \<Rightarrow> 0)
      else 0)"

definition is_runtime_module :: "string \<Rightarrow> bool" where
  "is_runtime_module dll \<longleftrightarrow>
     list_ex (\<lambda>p. has_prefix p dll)
       [''api-ms-win-'', ''vcruntime'', ''msvcp'', ''msvcr'', ''ucrtbase'', ''concrt'']"

text \<open>The part after the last slash, and the path of a file next to another.\<close>

definition module_basename :: "string \<Rightarrow> string" where
  "module_basename path = rev (takeWhile (\<lambda>c. c \<noteq> CHR ''/'') (rev path))"

definition sibling_path :: "string \<Rightarrow> string \<Rightarrow> string" where
  "sibling_path path name = rev (dropWhile (\<lambda>c. c \<noteq> CHR ''/'') (rev path)) @ name"

text \<open>
  \<open>load_sibling_import\<close>: \<open>readable\<close> is \<open>access(path, R_OK) == 0\<close> and \<open>load\<close> is \<open>load_dll\<close> on the
  sibling's path and sidecar path, which recursively links the child.
\<close>

record 's loader =
  k_table :: export_table
  k_attempted :: "string list"
  k_more :: 's

definition load_sibling_import ::
    "(string \<Rightarrow> bool) \<Rightarrow> (string \<Rightarrow> string option \<Rightarrow> 's loader \<Rightarrow> bool \<times> 's loader) \<Rightarrow>
     string \<Rightarrow> string option \<Rightarrow> string \<Rightarrow> 's loader \<Rightarrow> bool \<times> 's loader" where
  "load_sibling_import readable load importer_name importer_sidecar dll k =
     (if is_runtime_module dll \<or> module_registered dll (k_table k) then (True, k)
      else if list_ex (\<lambda>name. same_name name dll) (k_attempted k) then (True, k)
      else let k' = k\<lparr>k_attempted := k_attempted k @ [dll]\<rparr>;
               path = sibling_path importer_name dll in
        if \<not> readable path then (True, k')
        else let sidecar = (case importer_sidecar of
                   Some s \<Rightarrow> if s \<noteq> '''' then Some (sibling_path s dll) else None
                 | None \<Rightarrow> None) in
          load path sidecar k')"

section \<open>Correctness\<close>

text \<open>What \<open>get_export\<close> promises its callers, as an interface over the three operations.\<close>

locale export_registry =
  fixes add :: "string option \<Rightarrow> string \<Rightarrow> u64 \<Rightarrow> image_id option \<Rightarrow> 't \<Rightarrow> 't"
    and lookup :: "string \<Rightarrow> string option \<Rightarrow> 't \<Rightarrow> u64"
    and discard :: "image_id \<Rightarrow> 't \<Rightarrow> 't"
    and room :: "'t \<Rightarrow> bool"
    and owned :: "image_id \<Rightarrow> 't \<Rightarrow> bool"
  assumes lookup_add_same: "room t \<Longrightarrow> lookup name (Some dll) (add (Some dll) name addr owner t) = addr"
    and lookup_add_flat: "room t \<Longrightarrow> lookup name None (add m name addr owner t) = addr"
    and lookup_add_other: "room t \<Longrightarrow> name' \<noteq> name \<Longrightarrow> lookup name' m' (add m name addr owner t) = lookup name' m' t"
    and add_full: "\<not> room t \<Longrightarrow> add m name addr owner t = t"
    and discard_not_owned: "\<not> owned i t \<Longrightarrow> discard i t = t"
    and not_owned_discard: "\<not> owned i (discard i t)"
    and discard_add: "room t \<Longrightarrow> discard i (add m name addr (Some i) t) = discard i t"
begin

text \<open>Loading an image and giving it up again leaves every lookup as it was.\<close>

definition add_all :: "image_id \<Rightarrow> (string \<times> string \<times> u64) list \<Rightarrow> 't \<Rightarrow> 't" where
  "add_all i xs t = foldl (\<lambda>t (dll, name, addr). add (Some dll) name addr (Some i) t) t xs"

lemma discard_add_any: "discard i (add m name addr (Some i) t) = discard i t"
  by (cases "room t") (simp_all add: discard_add add_full)

lemma discard_add_all: "discard i (add_all i xs t) = discard i t"
proof (induction xs arbitrary: t)
  case Nil
  then show ?case
    by (simp add: add_all_def)
next
  case (Cons x xs)
  obtain dll name addr where x: "x = (dll, name, addr)"
    by (cases x)
  have "add_all i (x # xs) t = add_all i xs (add (Some dll) name addr (Some i) t)"
    by (simp add: add_all_def x)
  then show ?case
    by (simp add: Cons.IH discard_add_any)
qed

lemma discard_undoes_load: "\<not> owned i t \<Longrightarrow> discard i (add_all i xs t) = t"
  by (simp add: discard_add_all discard_not_owned)

end

definition has_room :: "export_table \<Rightarrow> bool" where
  "has_room table \<longleftrightarrow> length table < MAX_EXPORTS"

definition owns_exports :: "image_id \<Rightarrow> export_table \<Rightarrow> bool" where
  "owns_exports img table \<longleftrightarrow> list_ex (\<lambda>x. t_owner x = Some img) table"

interpretation exports: export_registry register_function get_export pe_discard_image_exports has_room owns_exports
proof unfold_locales
  fix t :: export_table and name dll :: string and addr owner
  assume "has_room t"
  then show "get_export name (Some dll) (register_function (Some dll) name addr owner t) = addr"
    by (simp add: has_room_def register_function_def get_export_def from_dll_def)
next
  fix t :: export_table and name dll addr owner
  assume "has_room t"
  then show "get_export name None (register_function dll name addr owner t) = addr"
    by (simp add: has_room_def register_function_def get_export_def)
next
  fix t :: export_table and name name' dll dll' addr owner
  assume "has_room t" and "name' \<noteq> (name :: string)"
  then show "get_export name' dll' (register_function dll name addr owner t) = get_export name' dll' t"
    by (simp add: has_room_def register_function_def get_export_def split: option.split)
next
  fix t :: export_table and name dll addr owner
  assume "\<not> has_room t"
  then show "register_function dll name addr owner t = t"
    by (simp add: has_room_def register_function_def)
next
  fix i and t :: export_table
  assume "\<not> owns_exports i t"
  then show "pe_discard_image_exports i t = t"
    by (auto simp: owns_exports_def list_ex_iff pe_discard_image_exports_def filter_id_conv)
next
  fix i and t :: export_table
  show "\<not> owns_exports i (pe_discard_image_exports i t)"
    by (simp add: owns_exports_def list_ex_iff pe_discard_image_exports_def)
next
  fix i and t :: export_table and dll name addr
  assume "has_room t"
  then show "pe_discard_image_exports i (register_function dll name addr (Some i) t) = pe_discard_image_exports i t"
    by (simp add: pe_discard_image_exports_def register_function_def)
qed

lemma register_function_length:
  "length table \<le> MAX_EXPORTS \<Longrightarrow> length (register_function dll name addr owner table) \<le> MAX_EXPORTS"
  by (simp add: register_function_def)

text \<open>Where an answer comes from: the latest entry of the requested module, else the latest of any.\<close>

lemma find_rev_last:
  "find P (rev xs) = Some x \<longleftrightarrow> (\<exists>ys zs. xs = ys @ x # zs \<and> P x \<and> list_all (\<lambda>z. \<not> P z) zs)"
proof (induction xs rule: rev_induct)
  case (snoc z xs)
  show ?case
  proof (cases "P z")
    case True
    show ?thesis
    proof
      assume "find P (rev (xs @ [z])) = Some x"
      with True show "\<exists>ys zs. xs @ [z] = ys @ x # zs \<and> P x \<and> list_all (\<lambda>z. \<not> P z) zs"
        by (intro exI [of _ xs] exI [of _ "[]"]) simp
    next
      assume "\<exists>ys zs. xs @ [z] = ys @ x # zs \<and> P x \<and> list_all (\<lambda>z. \<not> P z) zs"
      then obtain ys zs where *: "xs @ [z] = ys @ x # zs" "list_all (\<lambda>z. \<not> P z) zs"
        by blast
      then show "find P (rev (xs @ [z])) = Some x"
        using True by (cases zs rule: rev_cases) auto
    qed
  next
    case False
    then have "find P (rev (xs @ [z])) = find P (rev xs)"
      by simp
    moreover have "(\<exists>ys zs. xs @ [z] = ys @ x # zs \<and> P x \<and> list_all (\<lambda>z. \<not> P z) zs) \<longleftrightarrow>
        (\<exists>ys zs. xs = ys @ x # zs \<and> P x \<and> list_all (\<lambda>z. \<not> P z) zs)"
    proof
      assume "\<exists>ys zs. xs @ [z] = ys @ x # zs \<and> P x \<and> list_all (\<lambda>z. \<not> P z) zs"
      then obtain ys zs where *: "xs @ [z] = ys @ x # zs" "P x" "list_all (\<lambda>z. \<not> P z) zs"
        by blast
      with False obtain us where "zs = us @ [z]"
        by (cases zs rule: rev_cases) auto
      with * show "\<exists>ys zs. xs = ys @ x # zs \<and> P x \<and> list_all (\<lambda>z. \<not> P z) zs"
        by auto
    next
      assume "\<exists>ys zs. xs = ys @ x # zs \<and> P x \<and> list_all (\<lambda>z. \<not> P z) zs"
      then obtain ys zs where "xs = ys @ x # zs" "P x" "list_all (\<lambda>z. \<not> P z) zs"
        by blast
      with False show "\<exists>ys zs. xs @ [z] = ys @ x # zs \<and> P x \<and> list_all (\<lambda>z. \<not> P z) zs"
        by (intro exI [of _ ys] exI [of _ "zs @ [z]"]) simp
    qed
    ultimately show ?thesis
      using snoc by simp
  qed
qed simp

lemma takeWhile_dropWhile_Nil: "takeWhile P (dropWhile P xs) = []"
  by (induction xs) simp_all

lemma sibling_basename: "CHR ''/'' \<notin> set name \<Longrightarrow> module_basename (sibling_path path name) = name"
proof -
  assume no: "CHR ''/'' \<notin> set name"
  let ?r = "dropWhile (\<lambda>c. c \<noteq> CHR ''/'') (rev path)"
  have "takeWhile (\<lambda>c. c \<noteq> CHR ''/'') (rev name @ ?r) = rev name @ takeWhile (\<lambda>c. c \<noteq> CHR ''/'') ?r"
    using no by (intro takeWhile_append2) auto
  also have "takeWhile (\<lambda>c. c \<noteq> CHR ''/'') ?r = []"
    by (rule takeWhile_dropWhile_Nil)
  finally have "takeWhile (\<lambda>c. c \<noteq> CHR ''/'') (rev name @ ?r) = rev name"
    by simp
  then show ?thesis
    by (simp add: module_basename_def sibling_path_def)
qed

text \<open>
  A module is tried at most once: whatever the loads do, as long as they only extend the list of
  attempts, a second import of the same name (in any case) returns at once.
\<close>

lemma load_sibling_once:
  assumes "list_ex (\<lambda>name. same_name name dll) (k_attempted k)"
  shows "load_sibling_import readable load n s dll k = (True, k)"
  using assms by (simp add: load_sibling_import_def)

lemma load_sibling_attempted:
  assumes load: "\<And>p s k. set (k_attempted k) \<subseteq> set (k_attempted (snd (load p s k)))"
    and run: "load_sibling_import readable load n s dll k = (ok, k')"
    and "\<not> is_runtime_module dll" and "\<not> module_registered dll (k_table k)"
  shows "list_ex (\<lambda>name. same_name name dll) (k_attempted k')"
proof (cases "list_ex (\<lambda>name. same_name name dll) (k_attempted k)")
  case False
  let ?k = "k\<lparr>k_attempted := k_attempted k @ [dll]\<rparr>"
  have "dll \<in> set (k_attempted k')"
  proof (cases "readable (sibling_path n dll)")
    case True
    then obtain sc where "load (sibling_path n dll) sc ?k = (ok, k')"
      using run assms(3,4) False by (auto simp: load_sibling_import_def Let_def)
    then show ?thesis
      using load [of ?k "sibling_path n dll" sc] by auto
  qed (use run assms(3,4) False in \<open>auto simp: load_sibling_import_def Let_def\<close>)
  then show ?thesis
    by (auto simp: list_ex_iff)
qed (use run in \<open>auto simp: load_sibling_once\<close>)

end
