(* ===== verification/Loader_Threads.thy ===== *)
theory Loader_Threads
  imports Loader_Exports
begin

text \<open>
  Loaded images and threads of \<open>src/src/pe_loader.cpp\<close>: the per-thread context with its TLS slots
  and attached images, process attach, thread attach and detach, the generation check of the fast
  path, and the cleanup of a thread. The state is explicit; what the loader calls (TLS callbacks,
  DLL entry points, the FLS drain, \<open>arch_prctl\<close>) is recorded in a trace. \<open>calloc\<close> takes its
  outcomes from the state: a list of answers, success when the list is used up. The functions run
  under the loader mutex, so each is one step.
\<close>

section \<open>State\<close>

datatype reason = PROCESS_DETACH | PROCESS_ATTACH | THREAD_ATTACH | THREAD_DETACH

record tls_directory =
  d_callbacks :: nat
  d_template :: bytes
  d_zero_fill :: nat

record loaded_image =
  i_tls :: "tls_directory option"
  i_index :: nat
  i_entry :: bool
  i_quiet :: bool
  i_registered :: bool

record thread_context =
  c_attached :: "image_id list"
  c_slots :: "nat \<Rightarrow> bytes option"
  c_cleaning :: bool

record thread_local =
  h_context :: "thread_context option"
  h_generation :: nat
  h_attaching :: "image_id option"

datatype loader_event =
    TlsCallback image_id nat reason
  | EntryCall image_id reason
  | FlsCleanup
  | SetGs

type_synonym thread_id = nat

record images =
  m_image :: "image_id \<Rightarrow> loaded_image"
  m_loaded :: "image_id list"
  m_pending :: nat
  m_generation :: nat
  m_thread :: "thread_id \<Rightarrow> thread_local"
  m_calloc :: "bool list"
  m_trace :: "loader_event list"

definition MAX_LOADED_IMAGES :: nat where "MAX_LOADED_IMAGES = 32"
definition MAX_TLS_SLOTS :: nat where "MAX_TLS_SLOTS = 1024"

definition fresh_context :: thread_context where
  "fresh_context = \<lparr>c_attached = [], c_slots = (\<lambda>_. None), c_cleaning = False\<rparr>"

definition emit :: "loader_event list \<Rightarrow> images \<Rightarrow> images" where
  "emit es m = m\<lparr>m_trace := m_trace m @ es\<rparr>"

definition calloc :: "images \<Rightarrow> bool \<times> images" where
  "calloc m = (case m_calloc m of [] \<Rightarrow> (True, m) | ok # rest \<Rightarrow> (ok, m\<lparr>m_calloc := rest\<rparr>))"

definition set_context :: "thread_id \<Rightarrow> thread_context option \<Rightarrow> images \<Rightarrow> images" where
  "set_context t c m = m\<lparr>m_thread := (m_thread m)(t := (m_thread m t)\<lparr>h_context := c\<rparr>)\<rparr>"

definition context_of :: "thread_id \<Rightarrow> images \<Rightarrow> thread_context option" where
  "context_of t m = h_context (m_thread m t)"

definition get_nt_thread_context :: "thread_id \<Rightarrow> images \<Rightarrow> thread_context option \<times> images" where
  "get_nt_thread_context t m =
     (case context_of t m of
        Some c \<Rightarrow> (Some c, m)
      | None \<Rightarrow> (let (ok, m') = calloc m in
          if ok then (Some fresh_context, set_context t (Some fresh_context) m') else (None, m')))"

section \<open>TLS\<close>

definition tls_callbacks :: "image_id \<Rightarrow> reason \<Rightarrow> images \<Rightarrow> loader_event list" where
  "tls_callbacks img r m =
     (case i_tls (m_image m img) of
        None \<Rightarrow> []
      | Some d \<Rightarrow> map (\<lambda>k. TlsCallback img k r) [0..<d_callbacks d])"

definition run_tls_callbacks :: "image_id \<Rightarrow> reason \<Rightarrow> images \<Rightarrow> images" where
  "run_tls_callbacks img r m = emit (tls_callbacks img r m) m"

definition call_entry :: "image_id \<Rightarrow> reason \<Rightarrow> images \<Rightarrow> images" where
  "call_entry img r m = (if i_entry (m_image m img) then emit [EntryCall img r] m else m)"

definition thread_has_image :: "thread_context \<Rightarrow> image_id \<Rightarrow> bool" where
  "thread_has_image c img \<longleftrightarrow> img \<in> set (c_attached c)"

definition attach_image :: "thread_context \<Rightarrow> image_id \<Rightarrow> thread_context option" where
  "attach_image c img =
     (if thread_has_image c img then None
      else if length (c_attached c) = MAX_LOADED_IMAGES then None
      else Some (c\<lparr>c_attached := c_attached c @ [img]\<rparr>))"

definition detach_image :: "thread_context \<Rightarrow> image_id \<Rightarrow> thread_context" where
  "detach_image c img = c\<lparr>c_attached := remove1 img (c_attached c)\<rparr>"

definition needs_attachment :: "reason \<Rightarrow> bool" where
  "needs_attachment r \<longleftrightarrow> r = PROCESS_ATTACH \<or> r = THREAD_ATTACH"

definition free_slot :: "loaded_image \<Rightarrow> thread_context \<Rightarrow> thread_context" where
  "free_slot im c =
     (if i_tls im \<noteq> None \<and> i_index im < MAX_TLS_SLOTS
      then c\<lparr>c_slots := (c_slots c)(i_index im := None)\<rparr> else c)"

definition pe_initialize_tls_for_current_thread ::
    "thread_id \<Rightarrow> image_id \<Rightarrow> reason \<Rightarrow> images \<Rightarrow> bool \<times> images" where
  "pe_initialize_tls_for_current_thread t img r m =
     (case get_nt_thread_context t m of
        (None, m1) \<Rightarrow> (False, m1)
      | (Some c, m1) \<Rightarrow>
        (let already = thread_has_image c img; im = m_image m1 img in
         case i_tls im of
           None \<Rightarrow>
             (if \<not> needs_attachment r \<or> already then (True, m1)
              else case attach_image c img of
                Some c' \<Rightarrow> (True, set_context t (Some c') m1)
              | None \<Rightarrow> (False, m1))
         | Some d \<Rightarrow>
             (if i_index im \<ge> MAX_TLS_SLOTS then (False, m1)
              else let fresh = (c_slots c (i_index im) = None);
                       (ok, m2) = (if fresh then calloc m1 else (True, m1)) in
                if \<not> ok then (False, m2)
                else let c' = (if fresh
                       then c\<lparr>c_slots := (c_slots c)(i_index im \<mapsto> d_template d @ replicate (d_zero_fill d) 0)\<rparr>
                       else c) in
                  if needs_attachment r \<and> \<not> already
                  then (case attach_image c' img of
                          None \<Rightarrow> (False, set_context t (Some c) m2)
                        | Some c'' \<Rightarrow>
                          (True, (if fresh then run_tls_callbacks img r else id) (set_context t (Some c'') m2)))
                  else (True, (if fresh \<and> needs_attachment r then run_tls_callbacks img r else id)
                                (set_context t (Some c') m2)))))"

section \<open>Thread notifications\<close>

text \<open>One iteration of the loop in \<open>pe_notify_loaded_images\<close>; \<open>quiet\<close> is the snapshot's flag.\<close>

definition attach_one :: "thread_id \<Rightarrow> image_id \<Rightarrow> bool \<Rightarrow> images \<Rightarrow> images" where
  "attach_one t img quiet m =
     (case context_of t m of
        None \<Rightarrow> m
      | Some c \<Rightarrow>
        if thread_has_image c img \<or> quiet then m
        else let (ok, m') = pe_initialize_tls_for_current_thread t img THREAD_ATTACH m in
          if ok then call_entry img THREAD_ATTACH m' else m')"

definition detach_one :: "thread_id \<Rightarrow> image_id \<Rightarrow> bool \<Rightarrow> images \<Rightarrow> images" where
  "detach_one t img quiet m =
     (case context_of t m of
        None \<Rightarrow> m
      | Some c \<Rightarrow>
        if \<not> thread_has_image c img then m
        else let m' = (if quiet then m else call_entry img THREAD_DETACH (run_tls_callbacks img THREAD_DETACH m)) in
          set_context t (Some (detach_image (free_slot (m_image m img) c) img)) m')"

definition snapshot :: "images \<Rightarrow> (image_id \<times> bool) list" where
  "snapshot m = map (\<lambda>img. (img, i_quiet (m_image m img))) (m_loaded m)"

definition pe_notify_loaded_images :: "thread_id \<Rightarrow> reason \<Rightarrow> images \<Rightarrow> images" where
  "pe_notify_loaded_images t r m =
     (case get_nt_thread_context t m of
        (None, m1) \<Rightarrow> m1
      | (Some _, m1) \<Rightarrow>
        (if r = THREAD_DETACH then fold (\<lambda>(img, quiet). detach_one t img quiet) (rev (snapshot m1)) m1
         else if r = THREAD_ATTACH then fold (\<lambda>(img, quiet). attach_one t img quiet) (snapshot m1) m1
         else fold (\<lambda>(img, quiet). call_entry img r) (snapshot m1) m1))"

definition set_thread_generation :: "thread_id \<Rightarrow> nat \<Rightarrow> images \<Rightarrow> images" where
  "set_thread_generation t g m = m\<lparr>m_thread := (m_thread m)(t := (m_thread m t)\<lparr>h_generation := g\<rparr>)\<rparr>"

definition pe_ensure_tls_for_loaded_images :: "thread_id \<Rightarrow> images \<Rightarrow> images" where
  "pe_ensure_tls_for_loaded_images t m =
     (let generation = m_generation m in
      if h_generation (m_thread m t) = generation then m
      else set_thread_generation t generation (pe_notify_loaded_images t THREAD_ATTACH m))"

definition pe_cleanup_current_thread :: "thread_id \<Rightarrow> images \<Rightarrow> images" where
  "pe_cleanup_current_thread t m =
     (case context_of t m of
        None \<Rightarrow> m
      | Some c \<Rightarrow>
        if c_cleaning c then m
        else let m1 = emit [SetGs] (set_context t (Some (c\<lparr>c_cleaning := True\<rparr>)) m);
                 m2 = pe_notify_loaded_images t THREAD_DETACH m1;
                 m3 = emit [FlsCleanup] m2 in
          set_context t None (set_thread_generation t 0 m3))"

section \<open>Process attach\<close>

definition set_attaching :: "thread_id \<Rightarrow> image_id option \<Rightarrow> images \<Rightarrow> images" where
  "set_attaching t i m = m\<lparr>m_thread := (m_thread m)(t := (m_thread m t)\<lparr>h_attaching := i\<rparr>)\<rparr>"

definition set_image :: "image_id \<Rightarrow> loaded_image \<Rightarrow> images \<Rightarrow> images" where
  "set_image img im m = m\<lparr>m_image := (m_image m)(img := im)\<rparr>"

text \<open>The module handle is the base address of the image: images are compared directly.\<close>

definition pe_disable_thread_library_calls :: "thread_id \<Rightarrow> image_id \<Rightarrow> images \<Rightarrow> bool \<times> images" where
  "pe_disable_thread_library_calls t img m =
     (if h_attaching (m_thread m t) = Some img \<or> img \<in> set (m_loaded m)
      then (if i_tls (m_image m img) \<noteq> None then (False, m)
            else (True, set_image img ((m_image m img)\<lparr>i_quiet := True\<rparr>) m))
      else (False, m))"

definition pe_begin_process_attach :: "thread_id \<Rightarrow> image_id \<Rightarrow> images \<Rightarrow> bool \<times> images" where
  "pe_begin_process_attach t img m =
     (if h_attaching (m_thread m t) \<noteq> None then (False, m)
      else if length (m_loaded m) + m_pending m = MAX_LOADED_IMAGES then (False, m)
      else (True, set_attaching t (Some img) (m\<lparr>m_pending := m_pending m + 1\<rparr>)))"

definition undo_attach :: "thread_id \<Rightarrow> image_id \<Rightarrow> bool \<Rightarrow> images \<Rightarrow> images" where
  "undo_attach t img entry_called m =
     (let im = m_image m img;
          entry = (if entry_called then call_entry img PROCESS_DETACH else id) in
      case context_of t m of
        Some c \<Rightarrow>
          (if thread_has_image c img
           then let has_slot = (i_tls im \<noteq> None \<and> i_index im < MAX_TLS_SLOTS \<and>
                                c_slots c (i_index im) \<noteq> None) in
             set_context t (Some (detach_image (free_slot im c) img))
               (entry ((if has_slot then run_tls_callbacks img PROCESS_DETACH else id) m))
           else entry m)
      | None \<Rightarrow> entry m)"

definition pe_finish_process_attach ::
    "thread_id \<Rightarrow> image_id \<Rightarrow> bool \<Rightarrow> bool \<Rightarrow> images \<Rightarrow> bool \<times> images" where
  "pe_finish_process_attach t img attached entry_called m =
     (if h_attaching (m_thread m t) \<noteq> Some img then (False, m)
      else let m1 = m\<lparr>m_pending := m_pending m - 1\<rparr>;
               m2 = (if attached
                     then set_image img ((m_image m1 img)\<lparr>i_registered := True\<rparr>)
                            (m1\<lparr>m_loaded := m_loaded m1 @ [img], m_generation := m_generation m1 + 1\<rparr>)
                     else undo_attach t img entry_called m1) in
        (True, set_attaching t None m2))"

section \<open>Invariant\<close>

definition context_ok :: "thread_context \<Rightarrow> bool" where
  "context_ok c \<longleftrightarrow> distinct (c_attached c) \<and> length (c_attached c) \<le> MAX_LOADED_IMAGES"

definition contexts_ok :: "images \<Rightarrow> bool" where
  "contexts_ok m \<longleftrightarrow> (\<forall>t c. context_of t m = Some c \<longrightarrow> context_ok c)"

definition attaching :: "images \<Rightarrow> thread_id set" where
  "attaching m = {t. h_attaching (m_thread m t) \<noteq> None}"

definition images_ok :: "images \<Rightarrow> bool" where
  "images_ok m \<longleftrightarrow> contexts_ok m \<and> finite (attaching m) \<and> m_pending m = card (attaching m) \<and>
     length (m_loaded m) + m_pending m \<le> MAX_LOADED_IMAGES"

text \<open>What the thread operations leave alone.\<close>

definition same_images :: "images \<Rightarrow> images \<Rightarrow> bool" where
  "same_images m m' \<longleftrightarrow> m_loaded m' = m_loaded m \<and> m_pending m' = m_pending m \<and>
     m_generation m' = m_generation m \<and> m_image m' = m_image m \<and>
     (\<forall>t. h_attaching (m_thread m' t) = h_attaching (m_thread m t))"

definition keeps :: "(images \<Rightarrow> images) \<Rightarrow> bool" where
  "keeps f \<longleftrightarrow> (\<forall>m. contexts_ok m \<longrightarrow> contexts_ok (f m) \<and> same_images m (f m))"

lemma same_images_refl [simp]: "same_images m m"
  by (simp add: same_images_def)

lemma same_images_trans: "same_images m m' \<Longrightarrow> same_images m' m'' \<Longrightarrow> same_images m m''"
  by (simp add: same_images_def)

lemma context_of_simps [simp]:
  "context_of t (emit es m) = context_of t m"
  "context_of t (set_context t' c m) = (if t = t' then c else context_of t m)"
  "context_of t (set_thread_generation t' g m) = context_of t m"
  "context_of t (set_attaching t' i m) = context_of t m"
  "context_of t (set_image img im m) = context_of t m"
  by (simp_all add: context_of_def emit_def set_context_def set_thread_generation_def set_attaching_def
      set_image_def)

lemma same_images_simps [simp]:
  "same_images m (emit es m') \<longleftrightarrow> same_images m m'"
  "same_images m (set_context t c m') \<longleftrightarrow> same_images m m'"
  "same_images m (set_thread_generation t g m') \<longleftrightarrow> same_images m m'"
  by (auto simp: same_images_def emit_def set_context_def set_thread_generation_def)

lemma contexts_ok_set_context:
  "contexts_ok m \<Longrightarrow> (\<And>c. co = Some c \<Longrightarrow> context_ok c) \<Longrightarrow> contexts_ok (set_context t co m)"
  by (simp add: contexts_ok_def)

lemma contexts_ok_simps [simp]:
  "contexts_ok (emit es m) = contexts_ok m"
  "contexts_ok (set_thread_generation t g m) = contexts_ok m"
  by (simp_all add: contexts_ok_def)

lemma keeps_comp: "keeps f \<Longrightarrow> keeps g \<Longrightarrow> keeps (\<lambda>m. g (f m))"
  unfolding keeps_def by (blast intro: same_images_trans)

lemma keeps_id [simp]: "keeps (\<lambda>m. m)"
  by (simp add: keeps_def)

lemma keeps_fold: "(\<And>x. keeps (f x)) \<Longrightarrow> keeps (fold f xs)"
proof (induction xs)
  case Nil
  then show ?case
    by (simp add: keeps_def)
next
  case (Cons x xs)
  then show ?case
    using keeps_comp [of "f x" "fold f xs"] by (simp add: comp_def)
qed

lemma calloc_simps [simp]:
  "context_of t (snd (calloc m)) = context_of t m"
  "same_images m' (snd (calloc m)) \<longleftrightarrow> same_images m' m"
  "contexts_ok (snd (calloc m)) \<longleftrightarrow> contexts_ok m"
  by (auto simp: calloc_def context_of_def same_images_def contexts_ok_def split: list.splits)

lemma fresh_context_ok [simp]: "context_ok fresh_context"
  by (simp add: context_ok_def fresh_context_def)

lemma attach_image_ok: "attach_image c img = Some c' \<Longrightarrow> context_ok c \<Longrightarrow> context_ok c'"
  by (auto simp: attach_image_def context_ok_def thread_has_image_def split: if_splits)

lemma detach_image_ok: "context_ok c \<Longrightarrow> context_ok (detach_image c img)"
  by (auto simp: detach_image_def context_ok_def length_remove1)

lemma context_ok_slots [simp]: "context_ok (c\<lparr>c_slots := s\<rparr>) = context_ok c"
  by (simp add: context_ok_def)

lemma context_ok_cleaning [simp]: "context_ok (c\<lparr>c_cleaning := b\<rparr>) = context_ok c"
  by (simp add: context_ok_def)

lemma free_slot_ok [simp]: "context_ok (free_slot i c) = context_ok c"
  by (simp add: free_slot_def)

lemma get_context_keeps:
  assumes "contexts_ok m" and "get_nt_thread_context t m = (co, m')"
  shows "contexts_ok m' \<and> same_images m m' \<and> context_of t m' = co \<and> (\<forall>c. co = Some c \<longrightarrow> context_ok c)"
proof (cases "context_of t m")
  case None
  obtain ok m1 where c: "calloc m = (ok, m1)"
    by (cases "calloc m")
  then have m1: "contexts_ok m1" "same_images m m1" "context_of t m1 = None"
    using assms(1) None calloc_simps [where m = m] same_images_refl [of m] by (metis snd_conv)+
  then show ?thesis
    using assms(2) None c
    by (auto simp: get_nt_thread_context_def intro!: contexts_ok_set_context split: if_splits)
next
  case (Some c)
  then show ?thesis
    using assms by (auto simp: get_nt_thread_context_def contexts_ok_def)
qed

lemma run_tls_callbacks_simps [simp]:
  "context_of t (run_tls_callbacks img r m) = context_of t m"
  "same_images m' (run_tls_callbacks img r m) \<longleftrightarrow> same_images m' m"
  "contexts_ok (run_tls_callbacks img r m) \<longleftrightarrow> contexts_ok m"
  by (simp_all add: run_tls_callbacks_def)

lemma call_entry_simps [simp]:
  "context_of t (call_entry img r m) = context_of t m"
  "same_images m' (call_entry img r m) \<longleftrightarrow> same_images m' m"
  "contexts_ok (call_entry img r m) \<longleftrightarrow> contexts_ok m"
  by (simp_all add: call_entry_def)

lemma initialize_tls_keeps: "keeps (\<lambda>m. snd (pe_initialize_tls_for_current_thread t img r m))"
  unfolding keeps_def
proof (intro allI impI)
  fix m assume ok: "contexts_ok m"
  obtain co m1 where g: "get_nt_thread_context t m = (co, m1)"
    by (cases "get_nt_thread_context t m")
  note g_ok = get_context_keeps [OF ok g]
  obtain okc m2 where c: "calloc m1 = (okc, m2)"
    by (cases "calloc m1")
  then have m2: "contexts_ok m2" "same_images m m2"
    using g_ok calloc_simps [where m = m1] by (metis snd_conv)+
  show "contexts_ok (snd (pe_initialize_tls_for_current_thread t img r m)) \<and>
      same_images m (snd (pe_initialize_tls_for_current_thread t img r m))"
    using g_ok m2
    by (auto simp: pe_initialize_tls_for_current_thread_def g c Let_def
        intro!: contexts_ok_set_context dest: attach_image_ok split: option.splits)
qed

lemma attach_one_keeps: "keeps (attach_one t img quiet)"
  using initialize_tls_keeps [of t img THREAD_ATTACH]
  unfolding keeps_def attach_one_def
  by (auto simp: Let_def case_prod_unfold split: option.splits)

lemma detach_one_keeps: "keeps (detach_one t img quiet)"
  unfolding keeps_def detach_one_def
  by (auto simp: Let_def intro!: contexts_ok_set_context detach_image_ok split: option.splits)
    (auto simp: contexts_ok_def)

lemma call_entry_keeps: "keeps (call_entry img r)"
  by (simp add: keeps_def)

lemma notify_keeps: "keeps (pe_notify_loaded_images t r)"
  unfolding keeps_def
proof (intro allI impI)
  fix m assume ok: "contexts_ok m"
  obtain co m1 where g: "get_nt_thread_context t m = (co, m1)"
    by (cases "get_nt_thread_context t m")
  note g_ok = get_context_keeps [OF ok g]
  have folds: "keeps (fold (\<lambda>(img, quiet). detach_one t img quiet) xs)"
    "keeps (fold (\<lambda>(img, quiet). attach_one t img quiet) xs)"
    "keeps (fold (\<lambda>(img, quiet). call_entry img r) xs)" for xs
    by (rule keeps_fold, simp add: case_prod_unfold detach_one_keeps attach_one_keeps call_entry_keeps)+
  show "contexts_ok (pe_notify_loaded_images t r m) \<and> same_images m (pe_notify_loaded_images t r m)"
    using g_ok folds unfolding keeps_def
    by (auto simp: pe_notify_loaded_images_def g split: option.splits intro: same_images_trans)
qed

lemma ensure_keeps: "keeps (pe_ensure_tls_for_loaded_images t)"
  using notify_keeps [of t THREAD_ATTACH]
  by (auto simp: keeps_def pe_ensure_tls_for_loaded_images_def Let_def)

lemma cleanup_keeps: "keeps (pe_cleanup_current_thread t)"
  unfolding keeps_def
proof (intro allI impI)
  fix m assume ok: "contexts_ok m"
  show "contexts_ok (pe_cleanup_current_thread t m) \<and> same_images m (pe_cleanup_current_thread t m)"
  proof (cases "context_of t m")
    case (Some c)
    let ?m1 = "emit [SetGs] (set_context t (Some (c\<lparr>c_cleaning := True\<rparr>)) m)"
    have "context_ok c"
      using ok Some by (auto simp: contexts_ok_def)
    then have "contexts_ok ?m1" "same_images m ?m1"
      using ok by (auto intro: contexts_ok_set_context)
    then have "contexts_ok (pe_notify_loaded_images t THREAD_DETACH ?m1) \<and>
        same_images m (pe_notify_loaded_images t THREAD_DETACH ?m1)"
      using notify_keeps [of t THREAD_DETACH] unfolding keeps_def by (blast intro: same_images_trans)
    then show ?thesis
      using ok Some by (auto simp: pe_cleanup_current_thread_def Let_def intro: contexts_ok_set_context)
  qed (use ok in \<open>simp add: pe_cleanup_current_thread_def\<close>)
qed

lemma images_ok_keeps: "keeps f \<Longrightarrow> images_ok m \<Longrightarrow> images_ok (f m)"
  by (auto simp: keeps_def images_ok_def same_images_def attaching_def)

lemma begin_attach_ok:
  assumes "images_ok m" and "pe_begin_process_attach t img m = (b, m')"
  shows "images_ok m'"
proof (cases b)
  case True
  then have free: "h_attaching (m_thread m t) = None" and room: "length (m_loaded m) + m_pending m < MAX_LOADED_IMAGES"
    and m': "m' = set_attaching t (Some img) (m\<lparr>m_pending := m_pending m + 1\<rparr>)"
    using assms by (auto simp: pe_begin_process_attach_def images_ok_def split: if_splits)
  have "attaching m' = insert t (attaching m)"
    by (auto simp: attaching_def m' set_attaching_def)
  moreover have "t \<notin> attaching m"
    using free by (simp add: attaching_def)
  moreover have "contexts_ok m'"
    using assms(1) by (simp add: images_ok_def contexts_ok_def m' context_of_def set_attaching_def)
  ultimately show ?thesis
    using assms(1) room by (simp add: images_ok_def m' set_attaching_def)
next
  case False
  then show ?thesis
    using assms by (auto simp: pe_begin_process_attach_def split: if_splits)
qed

lemma undo_attach_keeps: "keeps (undo_attach t img e)"
  unfolding keeps_def undo_attach_def
  by (auto simp: Let_def intro!: contexts_ok_set_context detach_image_ok split: option.splits)
    (auto simp: contexts_ok_def)

lemma finish_attach_ok:
  assumes ok: "images_ok m" and run: "pe_finish_process_attach t img a e m = (b, m')"
  shows "images_ok m'"
proof (cases "h_attaching (m_thread m t) = Some img")
  case True
  then have t: "t \<in> attaching m"
    by (simp add: attaching_def)
  then have pos: "0 < m_pending m" and card: "card (attaching m - {t}) = m_pending m - 1"
    using ok by (auto simp: images_ok_def card_gt_0_iff)
  let ?m1 = "m\<lparr>m_pending := m_pending m - 1\<rparr>"
  have m1: "contexts_ok ?m1"
    using ok by (simp add: images_ok_def contexts_ok_def context_of_def)
  have att: "attaching (set_attaching t None n) = attaching n - {t}" for n
    by (auto simp: attaching_def set_attaching_def)
  show ?thesis
  proof (cases a)
    case True
    then show ?thesis
      using run \<open>h_attaching (m_thread m t) = Some img\<close> ok card pos
      by (auto simp: pe_finish_process_attach_def images_ok_def att contexts_ok_def)
        (auto simp: attaching_def set_image_def set_attaching_def context_of_def)
  next
    case False
    let ?m2 = "undo_attach t img e ?m1"
    have "contexts_ok ?m2" "same_images ?m1 ?m2"
      using undo_attach_keeps [of t img e] m1 unfolding keeps_def by blast+
    moreover from this have "attaching ?m2 = attaching m"
      by (simp add: same_images_def attaching_def)
    moreover have "m' = set_attaching t None ?m2"
      using run False \<open>h_attaching (m_thread m t) = Some img\<close>
      by (simp add: pe_finish_process_attach_def Let_def)
    ultimately show ?thesis
      using ok card pos
      by (auto simp: images_ok_def att contexts_ok_def same_images_def) (auto simp: set_attaching_def)
  qed
next
  case False
  then show ?thesis
    using assms by (auto simp: pe_finish_process_attach_def)
qed

section \<open>Steps of the loader\<close>

inductive loader_step :: "images \<Rightarrow> images \<Rightarrow> bool" where
  step_initialize: "loader_step m (snd (pe_initialize_tls_for_current_thread t img r m))"
| step_notify: "loader_step m (pe_notify_loaded_images t r m)"
| step_ensure: "loader_step m (pe_ensure_tls_for_loaded_images t m)"
| step_cleanup: "loader_step m (pe_cleanup_current_thread t m)"
| step_disable: "loader_step m (snd (pe_disable_thread_library_calls t img m))"
| step_begin: "loader_step m (snd (pe_begin_process_attach t img m))"
| step_finish: "loader_step m (snd (pe_finish_process_attach t img attached entry_called m))"

definition initial_images :: "(image_id \<Rightarrow> loaded_image) \<Rightarrow> bool list \<Rightarrow> images" where
  "initial_images im answers =
     \<lparr>m_image = im, m_loaded = [], m_pending = 0, m_generation = 1,
      m_thread = (\<lambda>_. \<lparr>h_context = None, h_generation = 0, h_attaching = None\<rparr>),
      m_calloc = answers, m_trace = []\<rparr>"

lemma disable_ok: "images_ok m \<Longrightarrow> images_ok (snd (pe_disable_thread_library_calls t img m))"
  by (auto simp: pe_disable_thread_library_calls_def images_ok_def contexts_ok_def attaching_def)
    (auto simp: set_image_def)

lemma loader_step_ok: "loader_step m m' \<Longrightarrow> images_ok m \<Longrightarrow> images_ok m'"
proof (induction rule: loader_step.induct)
  case (step_begin m t img)
  then show ?case
    using begin_attach_ok by (metis prod.collapse)
next
  case (step_finish m t img a e)
  then show ?case
    using finish_attach_ok by (metis prod.collapse)
qed (use images_ok_keeps initialize_tls_keeps notify_keeps ensure_keeps cleanup_keeps disable_ok in \<open>blast+\<close>)

lemma initial_images_ok: "images_ok (initial_images im answers)"
  by (simp add: images_ok_def initial_images_def contexts_ok_def context_of_def attaching_def)

lemma loader_reachable_ok: "loader_step\<^sup>*\<^sup>* (initial_images im answers) m \<Longrightarrow> images_ok m"
  by (induction rule: rtranclp_induct) (auto simp: initial_images_ok loader_step_ok)

section \<open>Order of the notifications\<close>

definition entry_event :: "image_id \<Rightarrow> reason \<Rightarrow> images \<Rightarrow> loader_event list" where
  "entry_event img r m = (if i_entry (m_image m img) then [EntryCall img r] else [])"

definition detach_events :: "images \<Rightarrow> image_id \<times> bool \<Rightarrow> loader_event list" where
  "detach_events m x = (if snd x then [] else tls_callbacks (fst x) THREAD_DETACH m @ entry_event (fst x) THREAD_DETACH m)"

lemma call_entry_emit: "call_entry img r m = emit (entry_event img r m) m"
  by (simp add: call_entry_def entry_event_def emit_def)

lemma emit_emit [simp]: "emit es (emit ds m) = emit (ds @ es) m"
  by (simp add: emit_def)

lemma trace_simps [simp]:
  "m_trace (emit es m) = m_trace m @ es"
  "m_trace (set_context t c m) = m_trace m"
  "m_trace (set_thread_generation t g m) = m_trace m"
  "m_image (emit es m) = m_image m"
  "m_image (set_context t c m) = m_image m"
  "m_loaded (emit es m) = m_loaded m"
  "m_loaded (set_context t c m) = m_loaded m"
  "m_calloc (emit es m) = m_calloc m"
  "m_calloc (set_context t c m) = m_calloc m"
  by (simp_all add: emit_def set_context_def set_thread_generation_def)

lemma tls_callbacks_cong: "m_image m = m_image m' \<Longrightarrow> tls_callbacks img r m = tls_callbacks img r m'"
  by (simp add: tls_callbacks_def)

lemma entry_event_cong: "m_image m = m_image m' \<Longrightarrow> entry_event img r m = entry_event img r m'"
  by (simp add: entry_event_def)

lemma attached_detach [simp]: "c_attached (detach_image (free_slot i c) img) = remove1 img (c_attached c)"
  by (simp add: detach_image_def free_slot_def)

lemma detach_one_spec:
  assumes "context_of t m = Some c"
  shows "\<exists>c'. context_of t (detach_one t img quiet m) = Some c' \<and>
    m_image (detach_one t img quiet m) = m_image m \<and>
    (\<forall>j. j \<noteq> img \<longrightarrow> thread_has_image c' j = thread_has_image c j) \<and>
    m_trace (detach_one t img quiet m) = m_trace m @
      (if thread_has_image c img then detach_events m (img, quiet) else [])"
proof (cases "thread_has_image c img")
  case True
  then show ?thesis
    using assms
    by (simp add: detach_one_def Let_def detach_events_def call_entry_emit run_tls_callbacks_def
        thread_has_image_def entry_event_def)
next
  case False
  then show ?thesis
    using assms by (simp add: detach_one_def)
qed

lemma detach_all_spec:
  assumes "context_of t m = Some c" and "distinct (map fst xs)"
  shows "\<exists>c'. context_of t (fold (\<lambda>(img, quiet). detach_one t img quiet) xs m) = Some c' \<and>
    m_trace (fold (\<lambda>(img, quiet). detach_one t img quiet) xs m) = m_trace m @
      concat (map (\<lambda>x. if thread_has_image c (fst x) then detach_events m x else []) xs)"
  using assms
proof (induction xs arbitrary: m c)
  case (Cons x xs)
  obtain img quiet where x: "x = (img, quiet)"
    by (cases x)
  let ?m = "detach_one t img quiet m"
  obtain c1 where c1: "context_of t ?m = Some c1" and im: "m_image ?m = m_image m"
    and others: "\<forall>j. j \<noteq> img \<longrightarrow> thread_has_image c1 j = thread_has_image c j"
    and trace: "m_trace ?m = m_trace m @ (if thread_has_image c img then detach_events m (img, quiet) else [])"
    using detach_one_spec [OF Cons.prems(1)] by blast
  have "distinct (map fst xs)" and new: "img \<notin> set (map fst xs)"
    using Cons.prems(2) by (simp_all add: x)
  have same: "map (\<lambda>x. if thread_has_image c1 (fst x) then detach_events ?m x else []) xs =
      map (\<lambda>x. if thread_has_image c (fst x) then detach_events m x else []) xs"
    using others new
    by (intro map_cong) (auto simp: detach_events_def tls_callbacks_cong [OF im] entry_event_cong [OF im])
  show ?case
    using Cons.IH [OF c1 \<open>distinct (map fst xs)\<close>] unfolding same by (auto simp: x trace)
qed simp

text \<open>
  The cleanup of a thread: GS is pointed at its TEB, every image it is attached to is told in reverse
  load order, TLS callbacks before the entry point, then FLS is drained and the context is gone.
\<close>

lemma cleanup_spec:
  assumes c: "context_of t m = Some c" and "\<not> c_cleaning c" and dist: "distinct (m_loaded m)"
  shows "context_of t (pe_cleanup_current_thread t m) = None"
    and "m_trace (pe_cleanup_current_thread t m) = m_trace m @ [SetGs] @
      concat (map (\<lambda>img. if img \<in> set (c_attached c) then detach_events m (img, i_quiet (m_image m img)) else [])
        (rev (m_loaded m))) @ [FlsCleanup]"
proof -
  let ?c = "c\<lparr>c_cleaning := True\<rparr>"
  let ?m1 = "emit [SetGs] (set_context t (Some ?c) m)"
  let ?xs = "rev (snapshot ?m1)"
  have c1: "context_of t ?m1 = Some ?c"
    by simp
  have xs: "?xs = map (\<lambda>img. (img, i_quiet (m_image m img))) (rev (m_loaded m))"
    by (simp add: snapshot_def rev_map)
  then have "map fst ?xs = rev (m_loaded m)"
    by (simp add: comp_def)
  with dist have "distinct (map fst ?xs)"
    by simp
  from detach_all_spec [OF c1 this] have trace:
    "m_trace (pe_notify_loaded_images t THREAD_DETACH ?m1) = m_trace m @ [SetGs] @
      concat (map (\<lambda>x. if thread_has_image ?c (fst x) then detach_events ?m1 x else []) ?xs)"
    using c1 by (auto simp: pe_notify_loaded_images_def get_nt_thread_context_def)
  have "concat (map (\<lambda>x. if thread_has_image ?c (fst x) then detach_events ?m1 x else []) ?xs) =
      concat (map (\<lambda>img. if img \<in> set (c_attached c) then detach_events m (img, i_quiet (m_image m img)) else [])
        (rev (m_loaded m)))"
    unfolding xs map_map comp_def
    by (intro arg_cong [of _ _ concat] map_cong)
      (auto simp: thread_has_image_def detach_events_def tls_callbacks_def entry_event_def)
  with trace show "m_trace (pe_cleanup_current_thread t m) = m_trace m @ [SetGs] @
      concat (map (\<lambda>img. if img \<in> set (c_attached c) then detach_events m (img, i_quiet (m_image m img)) else [])
        (rev (m_loaded m))) @ [FlsCleanup]"
    using assms(1,2) by (simp add: pe_cleanup_current_thread_def Let_def)
  show "context_of t (pe_cleanup_current_thread t m) = None"
    using assms(1,2) by (simp add: pe_cleanup_current_thread_def Let_def)
qed

text \<open>The fast path: once a thread has seen an image list, the next calls change nothing.\<close>

lemma ensure_generation:
  assumes "contexts_ok m"
  shows "h_generation (m_thread (pe_ensure_tls_for_loaded_images t m) t) =
    m_generation (pe_ensure_tls_for_loaded_images t m)"
  using notify_keeps [of t THREAD_ATTACH] assms
  by (auto simp: keeps_def same_images_def pe_ensure_tls_for_loaded_images_def set_thread_generation_def Let_def)

lemma ensure_idempotent:
  "contexts_ok m \<Longrightarrow> pe_ensure_tls_for_loaded_images t (pe_ensure_tls_for_loaded_images t m) =
     pe_ensure_tls_for_loaded_images t m"
  using ensure_generation [of m t]
  by (subst (1) pe_ensure_tls_for_loaded_images_def) (simp add: Let_def)

subsection \<open>What a thread is attached to\<close>

definition can_attach :: "images \<Rightarrow> image_id \<Rightarrow> bool" where
  "can_attach m img \<longleftrightarrow> i_tls (m_image m img) = None \<or> i_index (m_image m img) < MAX_TLS_SLOTS"

lemma attach_one_spec:
  assumes "context_of t m = Some c" and "m_calloc m = []" and "can_attach m img"
    and "length (c_attached c) < MAX_LOADED_IMAGES"
  shows "\<exists>c'. context_of t (attach_one t img quiet m) = Some c' \<and> m_calloc (attach_one t img quiet m) = [] \<and>
    m_image (attach_one t img quiet m) = m_image m \<and>
    c_attached c' = c_attached c @ (if thread_has_image c img \<or> quiet then [] else [img])"
proof (cases "thread_has_image c img \<or> quiet")
  case True
  then show ?thesis
    using assms by (auto simp: attach_one_def)
next
  case False
  have "calloc m = (True, m)"
    using assms(2) by (simp add: calloc_def)
  moreover have "get_nt_thread_context t m = (Some c, m)"
    using assms(1) by (simp add: get_nt_thread_context_def)
  ultimately show ?thesis
    using assms False
    by (auto simp: attach_one_def pe_initialize_tls_for_current_thread_def needs_attachment_def Let_def
        attach_image_def thread_has_image_def can_attach_def call_entry_emit run_tls_callbacks_def
        split: option.splits)
qed

definition wanted :: "image_id list \<Rightarrow> (image_id \<times> bool) list \<Rightarrow> image_id list" where
  "wanted have_already xs = map fst (filter (\<lambda>x. fst x \<notin> set have_already \<and> \<not> snd x) xs)"

lemma attach_all_spec:
  assumes "context_of t m = Some c" and "m_calloc m = []" and "\<forall>x \<in> set xs. can_attach m (fst x)"
    and "distinct (map fst xs)" and "length (c_attached c) + length xs \<le> MAX_LOADED_IMAGES"
  shows "\<exists>c'. context_of t (fold (\<lambda>(img, quiet). attach_one t img quiet) xs m) = Some c' \<and>
    c_attached c' = c_attached c @ wanted (c_attached c) xs"
  using assms
proof (induction xs arbitrary: m c)
  case (Cons x xs)
  obtain img quiet where x: "x = (img, quiet)"
    by (cases x)
  let ?m = "attach_one t img quiet m"
  obtain c1 where c1: "context_of t ?m = Some c1" "m_calloc ?m = []" and im: "m_image ?m = m_image m"
    and att: "c_attached c1 = c_attached c @ (if thread_has_image c img \<or> quiet then [] else [img])"
    using attach_one_spec [OF Cons.prems(1,2), of img quiet] Cons.prems(3,5) by (auto simp: x)
  have "\<exists>c'. context_of t (fold (\<lambda>(img, quiet). attach_one t img quiet) xs ?m) = Some c' \<and>
      c_attached c' = c_attached c1 @ wanted (c_attached c1) xs"
    using Cons.prems(3-5) im att by (intro Cons.IH [OF c1]) (auto simp: x can_attach_def)
  moreover have "c_attached c1 @ wanted (c_attached c1) xs = c_attached c @ wanted (c_attached c) (x # xs)"
  proof -
    have "wanted (c_attached c1) xs = wanted (c_attached c) xs"
      unfolding wanted_def using Cons.prems(4) by (intro arg_cong [of _ _ "map fst"] filter_cong) (auto simp: x att)
    then show ?thesis
      using att by (auto simp: wanted_def x thread_has_image_def)
  qed
  ultimately show ?case
    by (simp add: x)
qed (simp add: wanted_def)

end
