(* ===== verification/Loader_Sidecar.thy ===== *)
theory Loader_Sidecar
  imports Sidecar_Io Loader_Threads
begin

text \<open>
  How \<open>src/src/pe_loader.cpp\<close> gets an image into memory: \<open>setup_nt_threadinfo\<close>, the check, the
  generation and the loading of a sidecar, the raw mapping and \<open>pe_load_library\<close>. The dynamic linker
  is a parameter \<open>dlopen\<close> from the bytes of a file to what \<open>dlsym\<close> and \<open>dlinfo\<close> say about it.
  Open handles and raw mappings are counted.
\<close>

section \<open>Thread environment\<close>

record teb =
  b_address :: u64
  b_peb :: bool
  b_stack_base :: u64
  b_stack_limit :: u64
  b_handler :: "nat option"

record cpu =
  u_mxcsr :: u32
  u_gs :: u64

text \<open>
  What the platform answers: \<open>SE_PE_FTZ\<close>, the FSGSBASE bit, the bounds \<open>pthread_attr_getstack\<close> gives
  (\<open>None\<close> when it fails), whether \<open>pthread_getattr_np\<close> succeeds, and the address of a local.
\<close>

record platform =
  q_ftz :: bool
  q_fsgsbase :: bool
  q_attr :: bool
  q_stack :: "(u64 \<times> u64) option"
  q_marker :: u64

definition FtzDaz :: u32 where "FtzDaz = 0x8040"

definition apply_windows_fpu_state :: "platform \<Rightarrow> cpu \<Rightarrow> cpu" where
  "apply_windows_fpu_state q u =
     (if \<not> q_ftz q then u
      else if u_mxcsr u AND FtzDaz \<noteq> FtzDaz then u\<lparr>u_mxcsr := u_mxcsr u OR FtzDaz\<rparr> else u)"

definition set_stack_bounds :: "platform \<Rightarrow> teb \<Rightarrow> teb" where
  "set_stack_bounds q b =
     (if b_stack_base b = 0 \<or> b_stack_limit b = 0
      then (if q_attr q
            then (case q_stack q of
                    Some (addr, extent) \<Rightarrow> b\<lparr>b_stack_limit := addr, b_stack_base := addr + extent\<rparr>
                  | None \<Rightarrow> b)
            else b\<lparr>b_stack_base := q_marker q + push_bit 20 8, b_stack_limit := q_marker q - push_bit 20 8\<rparr>)
      else b)"

section \<open>Processes\<close>

record sidecar_view =
  k_version :: "nat option"
  k_size :: "nat option"
  k_fingerprint :: "nat option"
  k_end :: "u64 option"
  k_base :: "u64 option"
  k_memory :: bytes

record pe_file =
  g_memory :: "bytes option"
  g_size :: nat
  g_base :: u64
  g_handle :: bool
  g_sidecar_path :: "string option"

text \<open>\<open>s_mapped\<close> counts the pages that are mapped for each image by \<open>mmap\<close>.\<close>

record process =
  s_os :: os
  s_images :: images
  s_teb :: "thread_id \<Rightarrow> teb"
  s_cpu :: "thread_id \<Rightarrow> cpu"
  s_file :: "image_id \<Rightarrow> pe_file"
  s_handles :: nat
  s_mapped :: "image_id \<Rightarrow> nat"

definition host_page :: nat where "host_page = 4096"

definition mapped_pages :: "nat \<Rightarrow> nat" where
  "mapped_pages n = (n + (host_page - 1)) div host_page"

definition map_pages :: "image_id \<Rightarrow> nat \<Rightarrow> process \<Rightarrow> process" where
  "map_pages img n s = s\<lparr>s_mapped := (s_mapped s)(img := s_mapped s img + mapped_pages n)\<rparr>"

definition unmap_pages :: "image_id \<Rightarrow> nat \<Rightarrow> process \<Rightarrow> process" where
  "unmap_pages img n s = s\<lparr>s_mapped := (s_mapped s)(img := s_mapped s img - mapped_pages n)\<rparr>"

lemma map_pages_simps [simp]:
  "s_os (map_pages img n s) = s_os s" "s_images (map_pages img n s) = s_images s" "s_teb (map_pages img n s) = s_teb s"
  "s_cpu (map_pages img n s) = s_cpu s" "s_file (map_pages img n s) = s_file s" "s_handles (map_pages img n s) = s_handles s"
  "s_mapped (map_pages img n s) = (s_mapped s)(img := s_mapped s img + mapped_pages n)"
  "s_os (unmap_pages img n s) = s_os s" "s_images (unmap_pages img n s) = s_images s" "s_teb (unmap_pages img n s) = s_teb s"
  "s_cpu (unmap_pages img n s) = s_cpu s" "s_file (unmap_pages img n s) = s_file s" "s_handles (unmap_pages img n s) = s_handles s"
  "s_mapped (unmap_pages img n s) = (s_mapped s)(img := s_mapped s img - mapped_pages n)"
  by (simp_all add: map_pages_def unmap_pages_def)

type_synonym dynamic_linker = "bytes \<Rightarrow> sidecar_view option"

definition ask_os :: "process \<Rightarrow> answer \<times> process" where
  "ask_os s = (case ask (s_os s) of (a, os') \<Rightarrow> (a, s\<lparr>s_os := os'\<rparr>))"

text \<open>A new context has a zeroed TEB at its own address.\<close>

definition fresh_teb :: "u64 \<Rightarrow> teb" where
  "fresh_teb address = \<lparr>b_address = address, b_peb = False, b_stack_base = 0, b_stack_limit = 0, b_handler = None\<rparr>"

definition get_context :: "thread_id \<Rightarrow> process \<Rightarrow> bool \<times> process" where
  "get_context t s =
     (let had = context_of t (s_images s) \<noteq> None;
          (co, m) = get_nt_thread_context t (s_images s);
          s' = s\<lparr>s_images := m\<rparr> in
      (co \<noteq> None, if had \<or> co = None then s'
        else s'\<lparr>s_teb := (s_teb s')(t := fresh_teb (b_address (s_teb s' t)))\<rparr>))"

definition fill_teb :: "platform \<Rightarrow> nat option \<Rightarrow> teb \<Rightarrow> teb" where
  "fill_teb q handler b =
     (let b = set_stack_bounds q (b\<lparr>b_peb := True\<rparr>) in
      if handler \<noteq> None then b\<lparr>b_handler := handler\<rparr> else b)"

definition setup_nt_threadinfo :: "platform \<Rightarrow> thread_id \<Rightarrow> nat option \<Rightarrow> process \<Rightarrow> bool \<times> process" where
  "setup_nt_threadinfo q t handler s =
     (let s = s\<lparr>s_cpu := (s_cpu s)(t := apply_windows_fpu_state q (s_cpu s t))\<rparr> in
      case get_context t s of (ok, s) \<Rightarrow>
      if \<not> ok then (False, s)
      else let b = fill_teb q handler (s_teb s t);
               s = s\<lparr>s_teb := (s_teb s)(t := b)\<rparr> in
        if q_fsgsbase q \<and> u_gs (s_cpu s t) = b_address b then (True, s)
        else case ask_os s of (a, s) \<Rightarrow>
          if \<not> succeeds a then (False, s)
          else (True, s\<lparr>s_cpu := (s_cpu s)(t := (s_cpu s t)\<lparr>u_gs := b_address b\<rparr>)\<rparr>))"

text \<open>\<open>setup_kuser_shared_data\<close> maps a page at a fixed address over itself.\<close>

definition setup_kuser_shared_data :: "process \<Rightarrow> bool \<times> process" where
  "setup_kuser_shared_data s = (case ask_os s of (a, s) \<Rightarrow> (succeeds a, s))"

definition setup_thread :: "platform \<Rightarrow> thread_id \<Rightarrow> process \<Rightarrow> bool \<times> process" where
  "setup_thread q t s =
     (case setup_nt_threadinfo q t None s of (ok, s) \<Rightarrow>
      if ok then setup_kuser_shared_data s else (False, s))"

section \<open>Sidecars\<close>

text \<open>
  The chunked loop: \<open>count\<close> of the last \<open>read\<close> (\<open>None\<close> for \<open>-1\<close>) and the fingerprint.
\<close>

definition chunk_size :: nat where "chunk_size = 65536"

function fingerprint_loop :: "bytes \<Rightarrow> u64 \<Rightarrow> answer list \<Rightarrow> (bool \<times> u64) \<times> answer list" where
  "fingerprint_loop rest fp as =
     (case next_answer as of (a, as') \<Rightarrow>
      if \<not> succeeds a then ((False, fp), as')
      else let buffer = short a (take chunk_size rest) in
        if buffer = [] then ((True, fp), as')
        else fingerprint_loop (drop (length buffer) rest)
               (fold (\<lambda>byte h. (h XOR ucast byte) * 0x100000001b3) buffer fp) as')"
  by pat_completeness auto
termination
proof (relation "measure (\<lambda>(rest, fp, as). length rest)", goal_cases)
  case (2 rest fp as a as' buffer)
  have "0 < length buffer" and "rest \<noteq> []"
    using 2 by (cases a; cases rest; simp)+
  then show ?case
    by simp
qed simp

declare fingerprint_loop.simps [simp del]

definition sidecar_matches_pe :: "sidecar_view \<Rightarrow> string \<Rightarrow> os \<Rightarrow> bool \<times> os" where
  "sidecar_matches_pe k filename s =
     (if k_version k \<noteq> Some 3 \<or> k_size k = None \<or> k_fingerprint k = None then (False, s)
      else case ask s of (a, s) \<Rightarrow>
        case os_name s filename of
          None \<Rightarrow> (False, s)
        | Some fd \<Rightarrow>
          if \<not> succeeds a then (False, s)
          else case ask s of (a, s) \<Rightarrow>
            if \<not> succeeds a \<or> k_size k \<noteq> Some (length (os_data s fd)) then (False, s)
            else case fingerprint_loop (os_data s fd) 0xcbf29ce484222325 (os_answers s) of ((eof, fp), as) \<Rightarrow>
              (eof \<and> k_fingerprint k = Some (unat fp), s\<lparr>os_answers := as\<rparr>))"

text \<open>
  \<open>generate_sidecar\<close>; \<open>suffix\<close> are the characters \<open>mkstemp\<close> picked for a name that is not taken.
\<close>

definition temporary_name :: "string \<Rightarrow> string \<Rightarrow> string" where
  "temporary_name sidecar suffix = sidecar @ ''.tmp.'' @ suffix"

definition mkstemp :: "string \<Rightarrow> os \<Rightarrow> nat option \<times> os" where
  "mkstemp name s =
     (case ask s of (a, s) \<Rightarrow>
      if \<not> succeeds a \<or> os_name s name \<noteq> None then (None, s)
      else (Some (os_next s),
            s\<lparr>os_name := (os_name s)(name \<mapsto> os_next s), os_data := (os_data s)(os_next s := []),
              os_next := os_next s + 1\<rparr>))"

definition unlink :: "string \<Rightarrow> os \<Rightarrow> os" where
  "unlink name s = (case ask s of (a, s) \<Rightarrow>
     if succeeds a then s\<lparr>os_name := (os_name s)(name := None)\<rparr> else s)"

definition rename :: "string \<Rightarrow> string \<Rightarrow> os \<Rightarrow> bool \<times> os" where
  "rename old new s = (case ask s of (a, s) \<Rightarrow>
     if succeeds a then (True, s\<lparr>os_name := (os_name s)(new := os_name s old, old := None)\<rparr>) else (False, s))"

definition generate_sidecar :: "string \<Rightarrow> string \<Rightarrow> string \<Rightarrow> os \<Rightarrow> bool \<times> os" where
  "generate_sidecar suffix filename sidecar s =
     (let path = temporary_name sidecar suffix in
      case mkstemp path s of
        (None, s) \<Rightarrow> (False, s)
      | (Some fd, s) \<Rightarrow>
        (case ask s of (a, s) \<Rightarrow>
         let (r, s) = (if succeeds a then generate_pe_sidecar (Some filename) (Some fd) s
                       else (Inl (Throw ''cannot set sidecar permissions''), s));
             generated = (r = Inr ());
             (a, s) = (if generated then ask s else (Ok, s));
             generated = (generated \<and> succeeds a);
             (a, s) = ask s;
             generated = (generated \<and> succeeds a);
             (renamed, s) = (if generated then rename path sidecar s else (False, s)) in
         if renamed then (True, s) else (False, unlink path s)))"

definition load_sidecar ::
    "dynamic_linker \<Rightarrow> platform \<Rightarrow> thread_id \<Rightarrow> string \<Rightarrow> string \<Rightarrow> image_id \<Rightarrow> process \<Rightarrow> bool \<times> process" where
  "load_sidecar dlopen q t path filename img s =
     (case (case os_name (s_os s) path of None \<Rightarrow> None | Some i \<Rightarrow> dlopen (os_data (s_os s) i)) of
        None \<Rightarrow> (False, s)
      | Some k \<Rightarrow>
        let s = s\<lparr>s_handles := s_handles s + 1\<rparr>; closed = (\<lambda>s. s\<lparr>s_handles := s_handles s - 1\<rparr>) in
        case sidecar_matches_pe k filename (s_os s) of (ok, os') \<Rightarrow>
        let s = s\<lparr>s_os := os'\<rparr> in
        if \<not> ok then (False, closed s)
        else case (k_base k, k_end k) of
          (Some start, Some stop) \<Rightarrow>
            (if stop \<le> start then (False, closed s)
             else case ask_os s of (a, s) \<Rightarrow>
               if \<not> succeeds a then (False, closed s)
               else let pf = (s_file s img)\<lparr>g_memory := Some (take (unat (stop - start)) (k_memory k)),
                                  g_size := unat (stop - start), g_base := start, g_handle := True\<rparr>;
                        s = s\<lparr>s_file := (s_file s)(img := pf)\<rparr> in
                 case setup_thread q t s of (ok, s) \<Rightarrow>
                   if ok then (True, s)
                   else (False, closed s\<lparr>s_file := (s_file s)(img := pf\<lparr>g_memory := None, g_size := 0, g_handle := False\<rparr>)\<rparr>))
        | _ \<Rightarrow> (False, closed s))"

definition load_raw_pe ::
    "platform \<Rightarrow> u64 \<Rightarrow> thread_id \<Rightarrow> string \<Rightarrow> image_id \<Rightarrow> process \<Rightarrow> bool \<times> process" where
  "load_raw_pe q base t filename img s =
     (case ask_os s of (a, s) \<Rightarrow>
      case os_name (s_os s) filename of
        None \<Rightarrow> (False, s)
      | Some fd \<Rightarrow>
        if \<not> succeeds a then (False, s)
        else case ask_os s of (a, s) \<Rightarrow>
          if \<not> succeeds a then (False, s)
          else case ask_os s of (a, s) \<Rightarrow>
            let data = os_data (s_os s) fd; size = length data in
            if \<not> succeeds a then (False, s\<lparr>s_file := (s_file s)(img := (s_file s img)\<lparr>g_memory := None, g_size := size\<rparr>)\<rparr>)
            else let pf = (s_file s img)\<lparr>g_memory := Some data, g_size := size, g_base := base\<rparr>;
                     s = map_pages img size (s\<lparr>s_file := (s_file s)(img := pf)\<rparr>) in
              case setup_thread q t s of (ok, s) \<Rightarrow>
                if ok then (True, s)
                else (False, (unmap_pages img size s)\<lparr>s_file := (s_file s)(img := pf\<lparr>g_memory := None, g_size := 0\<rparr>)\<rparr>))"

definition reset_image :: "image_id \<Rightarrow> string option \<Rightarrow> process \<Rightarrow> process" where
  "reset_image img sidecar s =
     s\<lparr>s_file := (s_file s)(img := \<lparr>g_memory = None, g_size = 0, g_base = 0, g_handle = False, g_sidecar_path = sidecar\<rparr>),
       s_images := set_image img ((m_image (s_images s) img)\<lparr>i_registered := False, i_quiet := False\<rparr>) (s_images s)\<rparr>"

definition pe_load_library ::
    "dynamic_linker \<Rightarrow> platform \<Rightarrow> u64 \<Rightarrow> string \<Rightarrow> thread_id \<Rightarrow> string \<Rightarrow> string option \<Rightarrow> image_id \<Rightarrow>
     process \<Rightarrow> bool \<times> process" where
  "pe_load_library dlopen q base suffix t filename sidecar_path img s =
     (let sidecar = (if sidecar_path = Some '''' then None else sidecar_path);
          s = reset_image img sidecar s in
      case sidecar of
        None \<Rightarrow> load_raw_pe q base t filename img s
      | Some path \<Rightarrow>
        (case ask_os s of (a, s) \<Rightarrow>
         case (if succeeds a \<and> os_name (s_os s) path \<noteq> None
               then load_sidecar dlopen q t path filename img s else (False, s)) of
           (True, s) \<Rightarrow> (True, s)
         | (False, s) \<Rightarrow>
           (case generate_sidecar suffix filename path (s_os s) of (generated, os') \<Rightarrow>
            let s = s\<lparr>s_os := os'\<rparr> in
            case (if generated then load_sidecar dlopen q t path filename img s else (False, s)) of
              (True, s) \<Rightarrow> (True, s)
            | (False, s) \<Rightarrow> load_raw_pe q base t filename img s)))"

section \<open>Correctness\<close>

subsection \<open>Thread environment\<close>

lemma fpu_state: "q_ftz q \<Longrightarrow> u_mxcsr (apply_windows_fpu_state q u) = u_mxcsr u OR FtzDaz"
proof (cases "u_mxcsr u AND FtzDaz = FtzDaz")
  case True
  have "u_mxcsr u OR (u_mxcsr u AND FtzDaz) = u_mxcsr u"
    by (rule bit_eqI) (auto simp: bit_simps)
  then show ?thesis
    using True by (simp add: apply_windows_fpu_state_def)
qed (simp add: apply_windows_fpu_state_def)

lemma fpu_state_off: "\<not> q_ftz q \<Longrightarrow> apply_windows_fpu_state q u = u"
  by (simp add: apply_windows_fpu_state_def)

lemma fpu_gs [simp]: "u_gs (apply_windows_fpu_state q u) = u_gs u"
  by (simp add: apply_windows_fpu_state_def)

lemma ask_os_frame:
  assumes "ask_os s = (a, s')"
  shows "s_images s' = s_images s" and "s_teb s' = s_teb s" and "s_cpu s' = s_cpu s"
    and "s_file s' = s_file s" and "s_handles s' = s_handles s" and "s_mapped s' = s_mapped s"
    and "same_files (s_os s) (s_os s')"
  using assms by (auto simp: ask_os_def dest: ask_same split: prod.splits)

lemma get_context_frame:
  assumes "get_context t s = (ok, s')"
  shows "s_os s' = s_os s" and "s_cpu s' = s_cpu s" and "s_file s' = s_file s"
    and "s_handles s' = s_handles s" and "s_mapped s' = s_mapped s"
    and "b_address (s_teb s' t) = b_address (s_teb s t)"
    and "\<And>u. u \<noteq> t \<Longrightarrow> s_teb s' u = s_teb s u"
    and "context_of t (s_images s) \<noteq> None \<Longrightarrow> ok \<and> s' = s"
    and "ok \<longleftrightarrow> context_of t (s_images s') \<noteq> None"
  using assms
  by (auto simp: get_context_def get_nt_thread_context_def Let_def fresh_teb_def calloc_def context_of_def
      set_context_def split: option.splits prod.splits if_splits list.splits)

lemma set_stack_bounds_frame [simp]:
  "b_address (set_stack_bounds q b) = b_address b"
  "b_peb (set_stack_bounds q b) = b_peb b"
  "b_handler (set_stack_bounds q b) = b_handler b"
  by (simp_all add: set_stack_bounds_def split: option.split)

text \<open>After a successful call GS points at the thread's TEB and the FPU is in the Windows state.\<close>

definition thread_ready :: "platform \<Rightarrow> thread_id \<Rightarrow> process \<Rightarrow> bool" where
  "thread_ready q t s \<longleftrightarrow> u_gs (s_cpu s t) = b_address (s_teb s t) \<and> b_peb (s_teb s t) \<and>
     context_of t (s_images s) \<noteq> None \<and> (q_ftz q \<longrightarrow> u_mxcsr (s_cpu s t) AND FtzDaz = FtzDaz)"

lemma and_or_absorb: "(x OR y) AND y = (y :: 'a::len word)"
  by (rule bit_eqI) (auto simp: bit_simps)

lemma setup_nt_threadinfo_ready:
  assumes "setup_nt_threadinfo q t handler s = (True, s')"
  shows "thread_ready q t s'"
    and "handler \<noteq> None \<Longrightarrow> b_handler (s_teb s' t) = handler"
    and "u_mxcsr (s_cpu s' t) = (if q_ftz q then u_mxcsr (s_cpu s t) OR FtzDaz else u_mxcsr (s_cpu s t))"
proof -
  let ?s0 = "s\<lparr>s_cpu := (s_cpu s)(t := apply_windows_fpu_state q (s_cpu s t))\<rparr>"
  obtain ok s1 where 1: "get_context t ?s0 = (ok, s1)"
    by (cases "get_context t ?s0")
  note f = get_context_frame [OF 1]
  define b where "b = fill_teb q handler (s_teb s1 t)"
  have b: "b_address b = b_address (s_teb s1 t)" "b_peb b" "handler \<noteq> None \<Longrightarrow> b_handler b = handler"
    by (simp_all add: b_def fill_teb_def Let_def)
  let ?s2 = "s1\<lparr>s_teb := (s_teb s1)(t := b)\<rparr>"
  obtain a s3 where 3: "ask_os ?s2 = (a, s3)"
    by (cases "ask_os ?s2")
  note g = ask_os_frame [OF 3]
  have ok: "ok"
    using assms by (auto simp: setup_nt_threadinfo_def 1 Let_def split: if_splits)
  have s': "s' = ?s2 \<and> u_gs (s_cpu s1 t) = b_address b \<or>
      s' = s3\<lparr>s_cpu := (s_cpu s3)(t := (s_cpu s3 t)\<lparr>u_gs := b_address b\<rparr>)\<rparr>"
    using assms ok by (auto simp: setup_nt_threadinfo_def 1 3 b_def [symmetric] Let_def split: if_splits)
  have m: "u_mxcsr (s_cpu s1 t) = (if q_ftz q then u_mxcsr (s_cpu s t) OR FtzDaz else u_mxcsr (s_cpu s t))"
    using f(2) by (simp add: fpu_state fpu_state_off)
  show "thread_ready q t s'"
    using s' g f(9) ok b m by (auto simp: thread_ready_def and_or_absorb)
  show "handler \<noteq> None \<Longrightarrow> b_handler (s_teb s' t) = handler"
    using s' g b by auto
  show "u_mxcsr (s_cpu s' t) = (if q_ftz q then u_mxcsr (s_cpu s t) OR FtzDaz else u_mxcsr (s_cpu s t))"
    using s' g m by auto
qed

text \<open>With FSGSBASE a ready thread with its bounds set makes no system call and changes nothing.\<close>

lemma setup_nt_threadinfo_again:
  assumes "thread_ready q t s" and "q_fsgsbase q" and "b_stack_base (s_teb s t) \<noteq> 0" and "b_stack_limit (s_teb s t) \<noteq> 0"
  shows "setup_nt_threadinfo q t None s = (True, s)"
proof -
  have cpu: "apply_windows_fpu_state q (s_cpu s t) = s_cpu s t"
    using assms(1) by (simp add: apply_windows_fpu_state_def thread_ready_def)
  have "get_context t s = (True, s)"
    using assms(1) get_context_frame(8) [of t s] by (cases "get_context t s") (auto simp: thread_ready_def)
  moreover have "fill_teb q None (s_teb s t) = s_teb s t"
    using assms(1,3,4) by (cases "s_teb s t") (simp add: fill_teb_def set_stack_bounds_def thread_ready_def)
  ultimately show ?thesis
    using assms(1,2) cpu by (simp add: setup_nt_threadinfo_def thread_ready_def Let_def)
qed

lemma setup_thread_frame:
  assumes "setup_thread q t s = (ok, s')"
  shows "s_file s' = s_file s" and "s_handles s' = s_handles s" and "s_mapped s' = s_mapped s"
    and "same_files (s_os s) (s_os s')" and "ok \<Longrightarrow> thread_ready q t s'"
proof -
  obtain r s1 where 1: "setup_nt_threadinfo q t None s = (r, s1)"
    by (cases "setup_nt_threadinfo q t None s")
  let ?s0 = "s\<lparr>s_cpu := (s_cpu s)(t := apply_windows_fpu_state q (s_cpu s t))\<rparr>"
  obtain okc x where x: "get_context t ?s0 = (okc, x)"
    by (cases "get_context t ?s0")
  let ?y = "x\<lparr>s_teb := (s_teb x)(t := fill_teb q None (s_teb x t))\<rparr>"
  obtain a y where y: "ask_os ?y = (a, y)"
    by (cases "ask_os ?y")
  have f: "s_file s1 = s_file s \<and> s_handles s1 = s_handles s \<and> s_mapped s1 = s_mapped s \<and>
      same_files (s_os s) (s_os s1)"
    using 1 get_context_frame(1-5) [OF x] ask_os_frame(4-7) [OF y]
    by (auto simp: setup_nt_threadinfo_def x y Let_def split: if_splits)
  obtain a s2 where 2: "ask_os s1 = (a, s2)"
    by (cases "ask_os s1")
  note g = ask_os_frame [OF 2]
  have run: "s' = (if r then s2 else s1)" "ok = (r \<and> succeeds a)"
    using assms by (auto simp: setup_thread_def setup_kuser_shared_data_def 1 2 split: if_splits)
  show "s_file s' = s_file s" and "s_handles s' = s_handles s" and "s_mapped s' = s_mapped s"
    and "same_files (s_os s) (s_os s')"
    using f g run same_files_trans by (auto split: if_splits)
  show "thread_ready q t s'" if ok
  proof -
    have "thread_ready q t s1"
      using setup_nt_threadinfo_ready(1) 1 that run by auto
    then show ?thesis
      using that run g by (simp add: thread_ready_def)
  qed
qed

subsection \<open>Matching\<close>

abbreviation fp_step :: "u8 \<Rightarrow> u64 \<Rightarrow> u64" where
  "fp_step byte h \<equiv> (h XOR ucast byte) * 0x100000001b3"

lemma short_split: "short a (take n bs) = take (length (short a (take n bs))) bs"
proof -
  obtain m where "short a (take n bs) = take m (take n bs)"
    using short_eq_take by blast
  then show ?thesis
    by (simp add: min_def)
qed

lemma fold_chunk: "xs = take (length xs) bs \<Longrightarrow> fold f (drop (length xs) bs) (fold f xs x) = fold f bs x"
  by (metis append_take_drop_id comp_apply fold_append)

lemma fingerprint_loop_eof:
  "fingerprint_loop rest fp as = ((True, x), as') \<Longrightarrow> x = fold fp_step rest fp"
proof (induction rest fp as rule: fingerprint_loop.induct)
  case (1 rest fp as)
  obtain a as1 where nx: "next_answer as = (a, as1)"
    by (cases "next_answer as")
  note run = "1.prems" [unfolded fingerprint_loop.simps [of rest fp as]]
  let ?buffer = "short a (take chunk_size rest)"
  have a: "succeeds a"
    using run nx by (auto split: if_splits)
  show ?case
  proof (cases "?buffer = []")
    case True
    then have "rest = []"
      by (simp add: chunk_size_def)
    then show ?thesis
      using run nx a by (simp add: Let_def)
  next
    case False
    then have "fingerprint_loop (drop (length ?buffer) rest) (fold fp_step ?buffer fp) as1 = ((True, x), as')"
      using run nx a by (simp add: Let_def)
    then have "x = fold fp_step (drop (length ?buffer) rest) (fold fp_step ?buffer fp)"
      using "1.IH" [OF nx [symmetric] _ refl False] a by simp
    then show ?thesis
      using fold_chunk [OF short_split] by simp
  qed
qed

lemma fingerprint_loop_complete:
  "list_all succeeds as \<Longrightarrow> fst (fst (fingerprint_loop rest fp as))"
proof (induction rest fp as rule: fingerprint_loop.induct)
  case (1 rest fp as)
  obtain a as1 where nx: "next_answer as = (a, as1)"
    by (cases "next_answer as")
  then have b: "succeeds a" "list_all succeeds as1"
    using "1.prems" by (cases as; auto)+
  show ?case
  proof (cases "short a (take chunk_size rest) = []")
    case True
    then show ?thesis
      using nx b by (simp add: fingerprint_loop.simps [of rest fp as])
  next
    case False
    then show ?thesis
      using "1.IH" [OF nx [symmetric] _ refl False] nx b
      by (simp add: fingerprint_loop.simps [of rest fp as] Let_def)
  qed
qed

lemma fingerprint_fold: "fingerprint source = fold fp_step source 0xcbf29ce484222325"
  by (simp add: fingerprint_def)

text \<open>What a match means, and that without failing calls every match is found.\<close>

definition describes :: "sidecar_view \<Rightarrow> bytes \<Rightarrow> bool" where
  "describes k data \<longleftrightarrow> k_version k = Some 3 \<and> k_size k = Some (length data) \<and>
     k_fingerprint k = Some (unat (fingerprint data))"

lemma sidecar_matches_same: "sidecar_matches_pe k filename s = (ok, s') \<Longrightarrow> same_files s s'"
  by (auto simp: sidecar_matches_pe_def same_files_def dest!: ask_same split: if_splits prod.splits option.splits)

lemma sidecar_matches_sound:
  assumes "sidecar_matches_pe k filename s = (True, s')"
  shows "\<exists>fd. os_name s filename = Some fd \<and> describes k (os_data s fd)"
proof -
  obtain a1 s1 where 1: "ask s = (a1, s1)" by (cases "ask s")
  obtain a2 s2 where 2: "ask s1 = (a2, s2)" by (cases "ask s1")
  note same = ask_same [OF 1, unfolded same_files_def] ask_same [OF 2, unfolded same_files_def]
  obtain fd where fd: "os_name s filename = Some fd"
    using assms same by (auto simp: sidecar_matches_pe_def 1 split: if_splits option.splits)
  obtain eof fp as where loop: "fingerprint_loop (os_data s fd) 0xcbf29ce484222325 (os_answers s2) = ((eof, fp), as)"
    by (metis prod.collapse)
  have "k_version k = Some 3 \<and> k_size k = Some (length (os_data s fd)) \<and> eof \<and> k_fingerprint k = Some (unat fp)"
    using assms same fd loop by (auto simp: sidecar_matches_pe_def 1 2 split: if_splits)
  then show ?thesis
    using fingerprint_loop_eof [of "os_data s fd"] loop fd by (auto simp: describes_def fingerprint_fold)
qed

lemma succeeds_tl: "ask s = (a, s') \<Longrightarrow> list_all succeeds (os_answers s) \<Longrightarrow> succeeds a \<and> list_all succeeds (os_answers s')"
  by (cases "os_answers s") (auto simp: ask_def)

lemma sidecar_matches_complete:
  assumes "os_name s filename = Some fd" and "describes k (os_data s fd)" and "list_all succeeds (os_answers s)"
  shows "fst (sidecar_matches_pe k filename s)"
proof -
  obtain a1 s1 where 1: "ask s = (a1, s1)" by (cases "ask s")
  obtain a2 s2 where 2: "ask s1 = (a2, s2)" by (cases "ask s1")
  note same = ask_same [OF 1, unfolded same_files_def] ask_same [OF 2, unfolded same_files_def]
  note ok = succeeds_tl [OF 1 assms(3)]
  have ok2: "succeeds a2 \<and> list_all succeeds (os_answers s2)"
    using succeeds_tl [OF 2] ok by simp
  obtain eof fp as where loop: "fingerprint_loop (os_data s fd) 0xcbf29ce484222325 (os_answers s2) = ((eof, fp), as)"
    by (metis prod.collapse)
  have eof
    using fingerprint_loop_complete [of "os_answers s2" "os_data s fd"] ok2 loop by (metis fst_conv)
  moreover from this have "fp = fingerprint (os_data s fd)"
    using fingerprint_loop_eof loop by (simp add: fingerprint_fold)
  ultimately show ?thesis
    using assms same ok ok2 loop by (simp add: sidecar_matches_pe_def 1 2 describes_def)
qed

subsection \<open>Publishing a sidecar\<close>

definition inodes_ok :: "os \<Rightarrow> bool" where
  "inodes_ok s \<longleftrightarrow> (\<forall>n i. os_name s n = Some i \<longrightarrow> i < os_next s)"

lemma mkstemp_spec:
  assumes "mkstemp name s = (r, s')"
  shows "case r of None \<Rightarrow> same_files s s'
    | Some fd \<Rightarrow> fd = os_next s \<and> os_name s name = None \<and> os_name s' = (os_name s)(name \<mapsto> fd) \<and>
        os_data s' = (os_data s)(fd := [])"
proof -
  obtain a s1 where 1: "ask s = (a, s1)"
    by (cases "ask s")
  show ?thesis
    using assms ask_same [OF 1] by (auto simp: mkstemp_def 1 same_files_def split: if_splits)
qed

lemma unlink_spec: "os_data (unlink name s) = os_data s \<and> (\<forall>n. n \<noteq> name \<longrightarrow> os_name (unlink name s) n = os_name s n)"
proof -
  obtain a s1 where 1: "ask s = (a, s1)"
    by (cases "ask s")
  show ?thesis
    using ask_same [OF 1] by (auto simp: unlink_def 1 same_files_def)
qed

lemma rename_spec:
  assumes "rename old new s = (ok, s')"
  shows "os_data s' = os_data s \<and> (if ok then os_name s' = (os_name s)(new := os_name s old, old := None)
    else os_name s' = os_name s)"
proof -
  obtain a s1 where 1: "ask s = (a, s1)"
    by (cases "ask s")
  show ?thesis
    using ask_same [OF 1] assms by (auto simp: rename_def 1 same_files_def split: if_splits)
qed

lemma temporary_name_neq [simp]: "temporary_name sidecar suffix \<noteq> sidecar"
  by (simp add: temporary_name_def)

text \<open>The middle part: after it only the new file differs.\<close>

lemma generate_sidecar_run:
  assumes "generate_sidecar suffix filename sidecar s = (ok, s')" and "inodes_ok s"
  shows "same_files s s' \<and> \<not> ok \<or>
    (\<exists>fd m. fd = os_next s \<and> os_name m = (os_name s)(temporary_name sidecar suffix \<mapsto> fd) \<and>
      os_name s (temporary_name sidecar suffix) = None \<and>
      (\<forall>i. i \<noteq> fd \<longrightarrow> os_data m i = os_data s i) \<and>
      (if ok
       then rename (temporary_name sidecar suffix) sidecar m = (True, s') \<and>
         (\<exists>i. os_name s filename = Some i \<and> i \<noteq> fd \<and> sidecar_of filename (os_data s i) (os_data m fd))
       else s' = unlink (temporary_name sidecar suffix) m))"
proof -
  let ?path = "temporary_name sidecar suffix"
  obtain r1 s1 where 1: "mkstemp ?path s = (r1, s1)" by (cases "mkstemp ?path s")
  show ?thesis
  proof (cases r1)
    case None
    then show ?thesis
      using mkstemp_spec [OF 1] assms by (simp add: generate_sidecar_def 1)
  next
    case (Some fd)
    note m = mkstemp_spec [OF 1, unfolded Some option.case]
    obtain a2 s2 where 2: "ask s1 = (a2, s2)" by (cases "ask s1")
    obtain r3 s3 where 3: "(if succeeds a2 then generate_pe_sidecar (Some filename) (Some fd) s2
        else (Inl (Throw ''cannot set sidecar permissions''), s2)) = (r3, s3)"
      by (metis prod.collapse)
    obtain a4 s4 where 4: "(if r3 = Inr () then ask s3 else (Ok, s3)) = (a4, s4)"
      by (metis prod.collapse)
    obtain a5 s5 where 5: "ask s4 = (a5, s5)" by (cases "ask s4")
    let ?gen = "r3 = Inr () \<and> succeeds a4 \<and> succeeds a5"
    obtain r6 s6 where 6: "(if ?gen then rename ?path sidecar s5 else (False, s5)) = (r6, s6)"
      by (metis prod.collapse)
    have run: "ok = r6" "s' = (if r6 then s6 else unlink ?path s6)"
      using assms(1) 6 by (auto simp: generate_sidecar_def 1 2 3 4 5 Some Let_def split: if_splits)
    have s2: "same_files s1 s2"
      using 2 by (rule ask_same)
    have s3: "same_but fd s2 s3"
      using 3 generate_pe_sidecar_spec(1) by (auto simp: same_but_def split: if_splits)
    have s4: "same_files s3 s4"
      using 4 ask_same by (auto split: if_splits)
    have s5: "same_files s4 s5"
      using 5 by (rule ask_same)
    have names: "os_name s5 = (os_name s)(?path \<mapsto> fd)" "\<And>i. i \<noteq> fd \<Longrightarrow> os_data s5 i = os_data s i"
      "os_data s5 fd = os_data s3 fd"
      using m s2 s3 s4 s5 by (simp_all add: same_files_def same_but_def)
    have src: "\<exists>i. os_name s filename = Some i \<and> i \<noteq> fd \<and> sidecar_of filename (os_data s i) (os_data s5 fd)" if "r3 = Inr ()"
    proof -
      have "generate_pe_sidecar (Some filename) (Some fd) s2 = (r3, s3)"
        using 3 that by (auto split: if_splits)
      from generate_pe_sidecar_spec(2) [OF this that] obtain i where
        "os_name s2 filename = Some i" "i \<noteq> fd" "sidecar_of filename (os_data s2 i) (os_data s3 fd)"
        by (elim exE conjE)
      then show ?thesis
        using m s2 names by (auto simp: same_files_def split: if_splits)
    qed
    show ?thesis
    proof (cases r6)
      case True
      then have "r3 = Inr ()" "rename ?path sidecar s5 = (True, s6)"
        using 6 by (auto split: if_splits)
      then show ?thesis
        using run True m names src
        by (intro disjI2 exI [of _ fd] exI [of _ s5]) simp
    next
      case False
      have "os_name s6 = os_name s5" "os_data s6 = os_data s5"
        using 6 False rename_spec [of ?path sidecar s5 r6 s6] by (auto split: if_splits)
      then show ?thesis
        using run False m names by (intro disjI2 exI [of _ fd] exI [of _ s6]) simp
    qed
  qed
qed

lemma generate_sidecar_atomic:
  assumes "generate_sidecar suffix filename sidecar s = (ok, s')" and "inodes_ok s"
  shows "\<And>n. n \<noteq> sidecar \<Longrightarrow> n \<noteq> temporary_name sidecar suffix \<Longrightarrow> os_name s' n = os_name s n"
    and "\<And>i. i < os_next s \<Longrightarrow> os_data s' i = os_data s i"
    and "\<not> ok \<Longrightarrow> os_name s' sidecar = os_name s sidecar"
    and "ok \<Longrightarrow> \<exists>i fd. os_name s filename = Some i \<and> os_name s' sidecar = Some fd \<and>
      sidecar_of filename (os_data s i) (os_data s' fd) \<and> os_name s' (temporary_name sidecar suffix) = None"
proof -
  let ?path = "temporary_name sidecar suffix"
  have "(\<forall>n. n \<noteq> sidecar \<longrightarrow> n \<noteq> ?path \<longrightarrow> os_name s' n = os_name s n) \<and>
    (\<forall>i < os_next s. os_data s' i = os_data s i) \<and> (\<not> ok \<longrightarrow> os_name s' sidecar = os_name s sidecar) \<and>
    (ok \<longrightarrow> (\<exists>i fd. os_name s filename = Some i \<and> os_name s' sidecar = Some fd \<and>
      sidecar_of filename (os_data s i) (os_data s' fd) \<and> os_name s' ?path = None))"
  proof (cases "same_files s s' \<and> \<not> ok")
    case True
    then show ?thesis
      by (simp add: same_files_def)
  next
    case False
    then obtain m where m: "os_name m = (os_name s)(?path \<mapsto> os_next s)"
      "\<forall>i. i \<noteq> os_next s \<longrightarrow> os_data m i = os_data s i"
      "if ok then rename ?path sidecar m = (True, s') \<and>
         (\<exists>i. os_name s filename = Some i \<and> i \<noteq> os_next s \<and> sidecar_of filename (os_data s i) (os_data m (os_next s)))
       else s' = unlink ?path m"
      using generate_sidecar_run [OF assms] by auto
    show ?thesis
    proof (cases ok)
      case True
      then have r: "rename ?path sidecar m = (True, s')"
        and src: "\<exists>i. os_name s filename = Some i \<and> sidecar_of filename (os_data s i) (os_data m (os_next s))"
        using m(3) by auto
      have "os_data s' = os_data m" "os_name s' = (os_name m)(sidecar := Some (os_next s), ?path := None)"
        using rename_spec [OF r] m(1) by simp_all
      moreover have "os_name s' sidecar = Some (os_next s)"
        using calculation temporary_name_neq [of sidecar suffix] by (metis fun_upd_def)
      ultimately show ?thesis
        using m(1,2) src True by auto
    next
      case False
      then show ?thesis
        using m unlink_spec [of ?path m] temporary_name_neq [of sidecar suffix, symmetric] by (auto simp: fun_upd_def)
    qed
  qed
  then show "\<And>n. n \<noteq> sidecar \<Longrightarrow> n \<noteq> ?path \<Longrightarrow> os_name s' n = os_name s n"
    and "\<And>i. i < os_next s \<Longrightarrow> os_data s' i = os_data s i"
    and "\<not> ok \<Longrightarrow> os_name s' sidecar = os_name s sidecar"
    and "ok \<Longrightarrow> \<exists>i fd. os_name s filename = Some i \<and> os_name s' sidecar = Some fd \<and>
      sidecar_of filename (os_data s i) (os_data s' fd) \<and> os_name s' ?path = None"
    by blast+
qed

subsection \<open>Loading\<close>

text \<open>Nothing of the image is held.\<close>

definition unloaded :: "image_id \<Rightarrow> process \<Rightarrow> process \<Rightarrow> bool" where
  "unloaded img s s' \<longleftrightarrow> g_memory (s_file s' img) = None \<and> \<not> g_handle (s_file s' img) \<and>
     s_handles s' = s_handles s \<and> s_mapped s' = s_mapped s"

definition loaded_from_sidecar :: "dynamic_linker \<Rightarrow> string \<Rightarrow> bytes \<Rightarrow> image_id \<Rightarrow> process \<Rightarrow> process \<Rightarrow> bool" where
  "loaded_from_sidecar dlopen path data img s s' \<longleftrightarrow>
     (\<exists>i k start stop. os_name (s_os s') path = Some i \<and> dlopen (os_data (s_os s') i) = Some k \<and> describes k data \<and>
        k_base k = Some start \<and> k_end k = Some stop \<and> start < stop \<and>
        g_memory (s_file s' img) = Some (take (unat (stop - start)) (k_memory k)) \<and>
        g_base (s_file s' img) = start) \<and>
     g_handle (s_file s' img) \<and> s_handles s' = s_handles s + 1 \<and> s_mapped s' = s_mapped s"

definition loaded_raw :: "u64 \<Rightarrow> bytes \<Rightarrow> image_id \<Rightarrow> process \<Rightarrow> process \<Rightarrow> bool" where
  "loaded_raw base data img s s' \<longleftrightarrow>
     g_memory (s_file s' img) = Some data \<and> g_size (s_file s' img) = length data \<and> g_base (s_file s' img) = base \<and>
     \<not> g_handle (s_file s' img) \<and> s_handles s' = s_handles s \<and>
     s_mapped s' = (s_mapped s)(img := s_mapped s img + mapped_pages (length data))"

lemma load_sidecar_spec:
  assumes run: "load_sidecar dlopen q t path filename img s = (ok, s')"
    and init: "g_memory (s_file s img) = None" "\<not> g_handle (s_file s img)"
  shows "same_files (s_os s) (s_os s') \<and> (\<not> ok \<longrightarrow> unloaded img s s') \<and>
    (ok \<longrightarrow> thread_ready q t s' \<and> (\<exists>fd. os_name (s_os s) filename = Some fd \<and>
       loaded_from_sidecar dlopen path (os_data (s_os s) fd) img s s'))"
proof (cases "case os_name (s_os s) path of None \<Rightarrow> None | Some i \<Rightarrow> dlopen (os_data (s_os s) i)")
  case None
  then show ?thesis
    using run init by (auto simp: load_sidecar_def unloaded_def)
next
  case (Some k)
  then obtain i where i: "os_name (s_os s) path = Some i" "dlopen (os_data (s_os s) i) = Some k"
    by (auto split: option.splits)
  obtain r os1 where 1: "sidecar_matches_pe k filename (s_os s) = (r, os1)"
    by (cases "sidecar_matches_pe k filename (s_os s)")
  let ?s1 = "s\<lparr>s_handles := Suc (s_handles s), s_os := os1\<rparr>"
  have same1: "same_files (s_os s) os1"
    using 1 by (rule sidecar_matches_same)
  obtain a s2 where 2: "ask_os ?s1 = (a, s2)"
    by (cases "ask_os ?s1")
  note f2 = ask_os_frame [OF 2]
  have same2: "same_files (s_os s) (s_os s2)"
    using same1 f2(7) same_files_trans by simp
  show ?thesis
  proof (cases "\<exists>start stop. r \<and> k_base k = Some start \<and> k_end k = Some stop \<and> start < stop \<and> succeeds a")
    case False
    then have "\<not> ok \<and> (s' = ?s1\<lparr>s_handles := s_handles s\<rparr> \<or> s' = s2\<lparr>s_handles := s_handles s\<rparr>)"
      using run f2(5) by (auto simp: load_sidecar_def Some 1 2 Let_def not_less split: option.splits if_splits)
    then show ?thesis
      using init f2 same1 same2 by (auto simp: unloaded_def)
  next
    case True
    then obtain start stop where k: "r" "k_base k = Some start" "k_end k = Some stop" "start < stop" "succeeds a"
      by blast
    define pf where "pf = (s_file s2 img)\<lparr>g_memory := Some (take (unat (stop - start)) (k_memory k)),
                                  g_size := unat (stop - start), g_base := start, g_handle := True\<rparr>"
    let ?s3 = "s2\<lparr>s_file := (s_file s2)(img := pf)\<rparr>"
    obtain r4 s4 where 4: "setup_thread q t ?s3 = (r4, s4)"
      by (cases "setup_thread q t ?s3")
    note f4 = setup_thread_frame [OF 4]
    have same4: "same_files (s_os s) (s_os s4)"
      using same2 f4(4) same_files_trans by simp
    have res: "ok = r4" "s' = (if r4 then s4 else
        s4\<lparr>s_handles := s_handles s4 - 1, s_file := (s_file s4)(img := pf\<lparr>g_memory := None, g_size := 0, g_handle := False\<rparr>)\<rparr>)"
      using run k 4 by (auto simp: load_sidecar_def Some 1 2 pf_def Let_def not_less split: if_splits)
    have "sidecar_matches_pe k filename (s_os s) = (True, os1)"
      using 1 k(1) by simp
    from sidecar_matches_sound [OF this] obtain fd where
      fd: "os_name (s_os s) filename = Some fd" "describes k (os_data (s_os s) fd)"
      by (elim exE conjE)
    show ?thesis
    proof (cases r4)
      case True
      have "loaded_from_sidecar dlopen path (os_data (s_os s) fd) img s s'"
        using i k fd f2 f4 res True same4
        by (simp add: loaded_from_sidecar_def same_files_def pf_def)
      then show ?thesis
        using res True fd f4(5) same4 by simp
    next
      case False
      then show ?thesis
        using res f2 f4 same4 by (simp add: unloaded_def)
    qed
  qed
qed

lemma load_raw_pe_spec:
  assumes run: "load_raw_pe q base t filename img s = (ok, s')"
    and init: "g_memory (s_file s img) = None" "\<not> g_handle (s_file s img)"
  shows "same_files (s_os s) (s_os s') \<and> (\<not> ok \<longrightarrow> unloaded img s s') \<and>
    (ok \<longrightarrow> thread_ready q t s' \<and> (\<exists>fd. os_name (s_os s) filename = Some fd \<and> loaded_raw base (os_data (s_os s) fd) img s s'))"
proof -
  obtain a1 s1 where 1: "ask_os s = (a1, s1)" by (cases "ask_os s")
  obtain a2 s2 where 2: "ask_os s1 = (a2, s2)" by (cases "ask_os s1")
  obtain a3 s3 where 3: "ask_os s2 = (a3, s3)" by (cases "ask_os s2")
  note f1 = ask_os_frame [OF 1] and f2 = ask_os_frame [OF 2] and f3 = ask_os_frame [OF 3]
  have same: "same_files (s_os s) (s_os s1)" "same_files (s_os s) (s_os s2)" "same_files (s_os s) (s_os s3)"
    using f1(7) f2(7) f3(7) same_files_trans by blast+
  show ?thesis
  proof (cases "os_name (s_os s) filename = None \<or> \<not> succeeds a1 \<or> \<not> succeeds a2 \<or> \<not> succeeds a3")
    case True
    then have "\<not> ok \<and> (s' = s1 \<or> s' = s2 \<or> (\<exists>n. s' = s3\<lparr>s_file := (s_file s3)(img := (s_file s3 img)\<lparr>g_memory := None, g_size := n\<rparr>)\<rparr>))"
      using run same(1) by (auto simp: load_raw_pe_def Let_def 1 2 3 same_files_def split: option.splits if_splits)
    then show ?thesis
      using f1 f2 f3 init same by (auto simp: unloaded_def)
  next
    case False
    then obtain fd where fd: "os_name (s_os s) filename = Some fd" and ok: "succeeds a1" "succeeds a2" "succeeds a3"
      by auto
    let ?n = "length (os_data (s_os s3) fd)"
    define pf where "pf = (s_file s3 img)\<lparr>g_memory := Some (os_data (s_os s3) fd), g_size := ?n, g_base := base\<rparr>"
    let ?s4 = "map_pages img ?n (s3\<lparr>s_file := (s_file s3)(img := pf)\<rparr>)"
    obtain r5 s5 where 5: "setup_thread q t ?s4 = (r5, s5)"
      by (cases "setup_thread q t ?s4")
    note f5 = setup_thread_frame [OF 5]
    have same5: "same_files (s_os s) (s_os s5)"
      using same(3) f5(4) same_files_trans by simp
    have res: "ok = r5" "s' = (if r5 then s5 else
        (unmap_pages img ?n s5)\<lparr>s_file := (s_file s5)(img := pf\<lparr>g_memory := None, g_size := 0\<rparr>)\<rparr>)"
      using run ok 5 fd same(1) by (auto simp: load_raw_pe_def Let_def 1 2 3 pf_def same_files_def split: if_splits)
    show ?thesis
      using res fd f1 f2 f3 f5 init same(3) same5
      by (cases r5) (simp_all add: unloaded_def loaded_raw_def pf_def same_files_def)
  qed
qed

lemma pe_load_library_spec:
  assumes run: "pe_load_library dlopen q base suffix t filename sidecar_path img s = (ok, s')"
    and inodes: "inodes_ok (s_os s)"
    and apart: "\<And>p. sidecar_path = Some p \<Longrightarrow> filename \<noteq> p \<and> filename \<noteq> temporary_name p suffix"
  shows "\<not> ok \<Longrightarrow> unloaded img s s'"
    and "ok \<Longrightarrow> thread_ready q t s' \<and> (\<exists>fd. os_name (s_os s) filename = Some fd \<and>
      (loaded_raw base (os_data (s_os s) fd) img s s' \<or>
       (\<exists>path. sidecar_path = Some path \<and> loaded_from_sidecar dlopen path (os_data (s_os s) fd) img s s')))"
proof -
  define sidecar where "sidecar = (if sidecar_path = Some '''' then None else sidecar_path)"
  define s0 where "s0 = reset_image img sidecar s"
  have s0: "s_os s0 = s_os s" "s_handles s0 = s_handles s" "s_mapped s0 = s_mapped s"
    "g_memory (s_file s0 img) = None" "\<not> g_handle (s_file s0 img)"
    by (simp_all add: s0_def reset_image_def)
  have "(\<not> ok \<longrightarrow> unloaded img s s') \<and> (ok \<longrightarrow> thread_ready q t s' \<and> (\<exists>fd. os_name (s_os s) filename = Some fd \<and>
      (loaded_raw base (os_data (s_os s) fd) img s s' \<or>
       (\<exists>path. sidecar_path = Some path \<and> loaded_from_sidecar dlopen path (os_data (s_os s) fd) img s s'))))"
  proof (cases sidecar)
    case None
    then have "load_raw_pe q base t filename img s0 = (ok, s')"
      using run unfolding pe_load_library_def Let_def sidecar_def [symmetric] s0_def [symmetric] by simp
    from load_raw_pe_spec [OF this s0(4,5)] show ?thesis
      using s0 by (auto simp: unloaded_def loaded_raw_def)
  next
    case (Some path)
    then have path: "sidecar_path = Some path" "filename \<noteq> path" "filename \<noteq> temporary_name path suffix"
      using apart by (auto simp: sidecar_def split: if_splits)
    obtain a1 s1 where 1: "ask_os s0 = (a1, s1)" by (cases "ask_os s0")
    note f1 = ask_os_frame [OF 1]
    obtain r2 s2 where 2: "(if succeeds a1 \<and> os_name (s_os s1) path \<noteq> None
        then load_sidecar dlopen q t path filename img s1 else (False, s1)) = (r2, s2)"
      by (metis prod.collapse)
    obtain r3 os3 where 3: "generate_sidecar suffix filename path (s_os s2) = (r3, os3)"
      by (cases "generate_sidecar suffix filename path (s_os s2)")
    let ?s3 = "s2\<lparr>s_os := os3\<rparr>"
    obtain r4 s4 where 4: "(if r3 then load_sidecar dlopen q t path filename img ?s3 else (False, ?s3)) = (r4, s4)"
      by (metis prod.collapse)
    have res: "if r2 then ok \<and> s' = s2 else if r4 then ok \<and> s' = s4
        else load_raw_pe q base t filename img s4 = (ok, s')"
      using run unfolding pe_load_library_def Let_def sidecar_def [symmetric] s0_def [symmetric]
      unfolding Some option.case 1 prod.case 2 3 4 by (auto split: if_splits bool.splits)
    have init1: "g_memory (s_file s1 img) = None" "\<not> g_handle (s_file s1 img)"
      using f1 s0 by simp_all
    have same1: "same_files (s_os s) (s_os s1)"
      using f1 s0 by simp
    have spec2: "same_files (s_os s1) (s_os s2) \<and> (\<not> r2 \<longrightarrow> unloaded img s1 s2) \<and>
        (r2 \<longrightarrow> thread_ready q t s2 \<and> (\<exists>fd. os_name (s_os s1) filename = Some fd \<and>
         loaded_from_sidecar dlopen path (os_data (s_os s1) fd) img s1 s2))"
      using load_sidecar_spec [OF _ init1] 2 init1 by (auto simp: unloaded_def split: if_splits)
    show ?thesis
    proof (cases r2)
      case True
      then show ?thesis
        using res spec2 same1 s0 f1 path by (auto simp: same_files_def loaded_from_sidecar_def)
    next
      case False
      have un2: "unloaded img s s2"
        using spec2 False s0 f1 by (auto simp: unloaded_def)
      have same2: "same_files (s_os s) (s_os s2)"
        using spec2 same1 same_files_trans by blast
      then have "inodes_ok (s_os s2)"
        using inodes by (simp add: inodes_ok_def same_files_def)
      note at = generate_sidecar_atomic [OF 3 this]
      have name3: "os_name os3 filename = os_name (s_os s) filename"
        using at(1) path same2 by (simp add: same_files_def)
      have data3: "os_data os3 fd = os_data (s_os s) fd" if "os_name (s_os s) filename = Some fd" for fd
        using at(2) [of fd] that inodes same2 by (simp add: inodes_ok_def same_files_def)
      have init3: "g_memory (s_file ?s3 img) = None" "\<not> g_handle (s_file ?s3 img)"
        using un2 by (simp_all add: unloaded_def)
      have spec4: "same_files os3 (s_os s4) \<and> (\<not> r4 \<longrightarrow> unloaded img ?s3 s4) \<and>
        (r4 \<longrightarrow> thread_ready q t s4 \<and> (\<exists>fd. os_name os3 filename = Some fd \<and>
         loaded_from_sidecar dlopen path (os_data os3 fd) img ?s3 s4))"
        using load_sidecar_spec [OF _ init3] 4 init3 by (auto simp: unloaded_def split: if_splits)
      show ?thesis
      proof (cases r4)
        case True
        then show ?thesis
          using res \<open>\<not> r2\<close> spec4 name3 data3 un2 path by (auto simp: loaded_from_sidecar_def unloaded_def)
      next
        case False
        have run5: "load_raw_pe q base t filename img s4 = (ok, s')"
          using res \<open>\<not> r2\<close> False by simp
        have un4: "unloaded img s s4"
          using spec4 False un2 by (auto simp: unloaded_def)
        then have init4: "g_memory (s_file s4 img) = None" "\<not> g_handle (s_file s4 img)"
          by (simp_all add: unloaded_def)
        show ?thesis
          using load_raw_pe_spec [OF run5 init4] un4 spec4 name3 data3
          by (auto simp: unloaded_def loaded_raw_def same_files_def)
      qed
    qed
  qed
  then show "\<not> ok \<Longrightarrow> unloaded img s s'"
    and "ok \<Longrightarrow> thread_ready q t s' \<and> (\<exists>fd. os_name (s_os s) filename = Some fd \<and>
      (loaded_raw base (os_data (s_os s) fd) img s s' \<or>
       (\<exists>path. sidecar_path = Some path \<and> loaded_from_sidecar dlopen path (os_data (s_os s) fd) img s s')))"
    by blast+
qed

end
