(* ===== verification/Loader_Image.thy ===== *)
theory Loader_Image
  imports Loader_Exports
begin

text \<open>
  The linker of \<open>src/src/pe_loader.cpp\<close>: header checks, expansion of a raw file to its virtual
  layout, export registration, base relocations and imports. Memory of the image is a byte list; the
  code reads and writes it through casted pointers without bounds, so every access outside the
  mapping is \<open>OutOfBounds\<close>. \<open>Throw\<close> does not occur; error returns are negative numbers.
\<close>

section \<open>Memory\<close>

fun le_nat :: "bytes \<Rightarrow> nat" where
  "le_nat [] = 0"
| "le_nat (b # bs) = unat b + 256 * le_nat bs"

fun le_list :: "nat \<Rightarrow> nat \<Rightarrow> bytes" where
  "le_list 0 v = []"
| "le_list (Suc k) v = of_nat v # le_list k (v div 256)"

definition peek :: "nat \<Rightarrow> bytes \<Rightarrow> nat \<Rightarrow> fault + nat" where
  "peek k img off = (if off + k \<le> length img then Inr (le_nat (take k (drop off img))) else Inl OutOfBounds)"

definition poke :: "nat \<Rightarrow> bytes \<Rightarrow> nat \<Rightarrow> nat \<Rightarrow> fault + bytes" where
  "poke k img off v =
     (if off + k \<le> length img then Inr (take off img @ le_list k v @ drop (off + k) img)
      else Inl OutOfBounds)"

definition memcpy :: "bytes \<Rightarrow> nat \<Rightarrow> bytes \<Rightarrow> nat \<Rightarrow> nat \<Rightarrow> fault + bytes" where
  "memcpy dst pos src off n =
     (if pos + n \<le> length dst \<and> off + n \<le> length src
      then Inr (take pos dst @ take n (drop off src) @ drop (pos + n) dst)
      else Inl OutOfBounds)"

text \<open>A C string in the image.\<close>

function read_cstring :: "bytes \<Rightarrow> nat \<Rightarrow> fault + string" where
  "read_cstring img off =
     (if off < length img
      then (if img ! off = 0 then Inr []
            else bindE (read_cstring img (off + 1)) (\<lambda>s. Inr (char_of (unat (img ! off)) # s)))
      else Inl OutOfBounds)"
  by pat_completeness auto
termination
  by (relation "measure (\<lambda>(img, off). length img - off)") auto

declare read_cstring.simps [simp del]

section \<open>Headers\<close>

record nt_headers =
  n_signature :: nat
  n_machine :: nat
  n_sections :: nat
  n_optional_size :: nat
  n_characteristics :: nat
  n_magic :: nat
  n_entry :: nat
  n_image_base :: nat
  n_section_alignment :: nat
  n_file_alignment :: nat
  n_image_size :: nat
  n_directories :: nat

definition read_nt_headers :: "bytes \<Rightarrow> nat \<Rightarrow> fault + nt_headers" where
  "read_nt_headers img p =
     bindE (peek 4 img p) (\<lambda>signature.
     bindE (peek 2 img (p + 4)) (\<lambda>machine.
     bindE (peek 2 img (p + 6)) (\<lambda>sections.
     bindE (peek 2 img (p + 20)) (\<lambda>optional_size.
     bindE (peek 2 img (p + 22)) (\<lambda>characteristics.
     bindE (peek 2 img (p + 24)) (\<lambda>magic.
     bindE (peek 4 img (p + 40)) (\<lambda>entry.
     bindE (peek 8 img (p + 48)) (\<lambda>image_base.
     bindE (peek 4 img (p + 56)) (\<lambda>section_alignment.
     bindE (peek 4 img (p + 60)) (\<lambda>file_alignment.
     bindE (peek 4 img (p + 80)) (\<lambda>image_size.
     bindE (peek 4 img (p + 132)) (\<lambda>directories.
     Inr \<lparr>n_signature = signature, n_machine = machine, n_sections = sections,
          n_optional_size = optional_size, n_characteristics = characteristics, n_magic = magic,
          n_entry = entry, n_image_base = image_base, n_section_alignment = section_alignment,
          n_file_alignment = file_alignment, n_image_size = image_size,
          n_directories = directories\<rparr>))))))))))))"

definition data_directory :: "bytes \<Rightarrow> nat \<Rightarrow> nat \<Rightarrow> fault + nat \<times> nat" where
  "data_directory img p index =
     bindE (peek 4 img (p + 136 + 8 * index)) (\<lambda>rva.
     bindE (peek 4 img (p + 140 + 8 * index)) (\<lambda>len. Inr (rva, len)))"

definition EINVAL :: int where "EINVAL = 22"
definition ENOENT :: int where "ENOENT = 2"
definition ENOMEM :: int where "ENOMEM = 12"
definition EOPNOTSUPP :: int where "EOPNOTSUPP = 95"
definition IMAGE_FILE_RELOCS_STRIPPED :: nat where "IMAGE_FILE_RELOCS_STRIPPED = 1"
definition IMAGE_FILE_EXECUTABLE_IMAGE :: nat where "IMAGE_FILE_EXECUTABLE_IMAGE = 2"
definition IMAGE_FILE_DLL :: nat where "IMAGE_FILE_DLL = 0x2000"

definition check_nt_hdr :: "nt_headers \<Rightarrow> int" where
  "check_nt_hdr h =
     (if n_signature h \<noteq> 0x4550 then - EINVAL
      else if n_magic h \<noteq> 0x10b \<and> n_magic h \<noteq> 0x20b then - EINVAL
      else if n_machine h \<noteq> 0x14c \<and> n_machine h \<noteq> 0x8664 then - EINVAL
      else if n_characteristics h AND IMAGE_FILE_EXECUTABLE_IMAGE = 0 then - EINVAL
      else if n_characteristics h AND IMAGE_FILE_RELOCS_STRIPPED \<noteq> 0 then - EINVAL
      else if n_sections h = 0 then - EINVAL
      else if n_section_alignment h < n_file_alignment h then - EINVAL
      else if n_characteristics h AND IMAGE_FILE_EXECUTABLE_IMAGE \<noteq> 0
      then int IMAGE_FILE_EXECUTABLE_IMAGE
      else if n_characteristics h AND IMAGE_FILE_DLL \<noteq> 0 then int IMAGE_FILE_DLL
      else - EINVAL)"

section \<open>Expansion\<close>

text \<open>
  \<open>fix_pe_image\<close> on a raw mapping; \<open>mapped\<close> tells whether \<open>mmap\<close> gave the zeroed new mapping. The section
  check adds two \<open>DWORD\<close>s, so the sum wraps at \<open>2 ^ 32\<close>, and so does the length of the new mapping, the image
  and a page: then it has no bytes and \<open>mmap\<close> fails, or fewer than \<open>memset\<close> clears.
\<close>

definition copy_section :: "bytes \<Rightarrow> nat \<Rightarrow> nat \<Rightarrow> bytes \<Rightarrow> fault + (int + bytes)" where
  "copy_section raw image_size sect out =
     bindE (peek 4 raw (sect + 12)) (\<lambda>va.
     bindE (peek 4 raw (sect + 16)) (\<lambda>raw_size.
     bindE (peek 4 raw (sect + 20)) (\<lambda>raw_ptr.
     if (va + raw_size) mod 2 ^ 32 > image_size then Inr (Inl (- EINVAL))
     else bindE (memcpy out va raw raw_ptr raw_size) (\<lambda>out'. Inr (Inr out')))))"

fun copy_raw_sections :: "bytes \<Rightarrow> nat \<Rightarrow> nat \<Rightarrow> nat \<Rightarrow> bytes \<Rightarrow> fault + (int + bytes)" where
  "copy_raw_sections raw image_size sect 0 out = Inr (Inr out)"
| "copy_raw_sections raw image_size sect (Suc n) out =
     bindE (copy_section raw image_size sect out) (\<lambda>r. case r of
        Inl e \<Rightarrow> Inr (Inl e)
      | Inr out' \<Rightarrow> copy_raw_sections raw image_size (sect + 40) n out')"

definition fix_pe_image :: "bool \<Rightarrow> bool \<Rightarrow> bytes \<Rightarrow> nat \<Rightarrow> nt_headers \<Rightarrow> fault + (int + bytes)" where
  "fix_pe_image from_sidecar mapped raw p h =
     (if from_sidecar then Inr (Inr raw)
      else if length raw = n_image_size h then Inr (Inr raw)
      else if \<not> mapped \<or> n_image_size h + 4096 = 2 ^ 32 then Inr (Inl (- ENOMEM))
      else if n_image_size h + 4096 > 2 ^ 32 then Inl OutOfBounds
      else let sect = p + 24 + n_optional_size h in
        bindE (peek 4 raw (sect + 20)) (\<lambda>first.
        bindE (memcpy (replicate (n_image_size h) 0) 0 raw 0 first) (\<lambda>out.
        copy_raw_sections raw (n_image_size h) sect (n_sections h) out)))"

section \<open>Relocations\<close>

datatype reloc_kind = Absolute | HighLow | Dir64 | Unknown nat

definition reloc_kind_of :: "nat \<Rightarrow> reloc_kind" where
  "reloc_kind_of n = (if n = 0 then Absolute else if n = 3 then HighLow else if n = 10 then Dir64 else Unknown n)"

text \<open>One fixup at \<open>loc\<close>; \<open>base\<close> is the preferred base and \<open>actual\<close> the address of the mapping.\<close>

definition apply_fixup :: "u64 \<Rightarrow> u64 \<Rightarrow> reloc_kind \<Rightarrow> nat \<Rightarrow> bytes \<Rightarrow> fault + (int + bytes)" where
  "apply_fixup base actual kind loc img =
     (case kind of
        Absolute \<Rightarrow> Inr (Inr img)
      | HighLow \<Rightarrow>
          bindE (peek 4 img loc) (\<lambda>v.
          bindE (poke 4 img loc (unat (actual + (of_nat v - base)) mod 2 ^ 32)) (\<lambda>img'. Inr (Inr img')))
      | Dir64 \<Rightarrow>
          bindE (peek 8 img loc) (\<lambda>v.
          bindE (poke 8 img loc (unat (actual + (of_nat v - base)))) (\<lambda>img'. Inr (Inr img')))
      | Unknown n \<Rightarrow> Inr (Inl (- EOPNOTSUPP)))"

text \<open>The entries of a block: \<open>n\<close> of them are left, the next one is at \<open>pos\<close>.\<close>

fun apply_entries :: "u64 \<Rightarrow> u64 \<Rightarrow> nat \<Rightarrow> nat \<Rightarrow> nat \<Rightarrow> bytes \<Rightarrow> fault + (int + bytes)" where
  "apply_entries base actual va pos 0 img = Inr (Inr img)"
| "apply_entries base actual va pos (Suc n) img =
     bindE (peek 2 img pos) (\<lambda>fixup.
     bindE (apply_fixup base actual (reloc_kind_of (fixup div 4096)) ((va + fixup mod 4096) mod 2 ^ 32) img) (\<lambda>r.
     case r of
       Inl e \<Rightarrow> Inr (Inl e)
     | Inr img' \<Rightarrow> apply_entries base actual va (pos + 2) n img'))"

text \<open>\<open>SizeOfBlock - sizeof(IMAGE_BASE_RELOCATION)\<close> is unsigned and its half is cut to 32 bits.\<close>

definition entry_count :: "nat \<Rightarrow> nat" where
  "entry_count block_size = unat (ucast ((of_nat block_size - 8 :: u64) div 2) :: u32)"

function apply_blocks :: "u64 \<Rightarrow> u64 \<Rightarrow> nat \<Rightarrow> nat \<Rightarrow> bytes \<Rightarrow> fault + (int + bytes)" where
  "apply_blocks base actual limit pos img =
     (if limit < pos + 8 then Inl OutOfBounds
      else bindE (peek 4 img (pos + 4)) (\<lambda>block_size.
        if block_size = 0 then Inr (Inr img)
        else bindE (peek 4 img pos) (\<lambda>va.
        bindE (apply_entries base actual va (pos + 8) (entry_count block_size) img) (\<lambda>r.
        case r of
          Inl e \<Rightarrow> Inr (Inl e)
        | Inr img' \<Rightarrow> apply_blocks base actual limit (pos + block_size) img'))))"
  by pat_completeness auto
termination
  by (relation "measure (\<lambda>(base, actual, limit, pos, img). limit - pos)") auto

declare apply_blocks.simps [simp del]

definition fixup_reloc :: "u64 \<Rightarrow> nat \<Rightarrow> nt_headers \<Rightarrow> bytes \<Rightarrow> fault + (int + bytes)" where
  "fixup_reloc actual p h img =
     bindE (data_directory img p 5) (\<lambda>(rva, len).
     if len = 0 then Inr (Inr img)
     else apply_blocks (of_nat (n_image_base h)) actual (length img) rva img)"

section \<open>Exports and imports\<close>

text \<open>The loop of \<open>read_exports\<close> from index \<open>i\<close>, \<open>n\<close> names left; a full table ends it.\<close>

fun read_export_names ::
    "image_id \<Rightarrow> string \<Rightarrow> u64 \<Rightarrow> bytes \<Rightarrow> nat \<times> nat \<times> nat \<Rightarrow> nat \<Rightarrow> nat \<Rightarrow> export_table \<Rightarrow> fault + export_table" where
  "read_export_names owner module actual img tables i 0 table = Inr table"
| "read_export_names owner module actual img tables i (Suc n) table =
     (let (functions, names, ordinals) = tables in
      bindE (peek 2 img (ordinals + 2 * i)) (\<lambda>ordinal.
      bindE (peek 4 img (functions + 4 * ordinal)) (\<lambda>address.
      if length table \<ge> MAX_EXPORTS then Inr table
      else bindE (peek 4 img (names + 4 * i)) (\<lambda>name_rva.
      bindE (read_cstring img name_rva) (\<lambda>name.
      read_export_names owner module actual img tables (i + 1) n
        (register_function (Some module) name (actual + of_nat address) (Some owner) table))))))"

definition read_exports ::
    "image_id \<Rightarrow> string \<Rightarrow> u64 \<Rightarrow> nat \<Rightarrow> bytes \<Rightarrow> export_table \<Rightarrow> fault + export_table" where
  "read_exports owner name actual p img table =
     bindE (data_directory img p 0) (\<lambda>(rva, len).
     if len = 0 then Inr table
     else bindE (peek 4 img (rva + 24)) (\<lambda>count.
       bindE (peek 4 img (rva + 28)) (\<lambda>functions.
       bindE (peek 4 img (rva + 32)) (\<lambda>names.
       bindE (peek 4 img (rva + 36)) (\<lambda>ordinals.
       read_export_names owner (module_basename name) actual img (functions, names, ordinals) 0 count table)))))"

text \<open>What an import slot is given: an export, or the stub that traps.\<close>

record stubs =
  z_ordinal :: u64
  z_unknown :: u64

definition ordinal_flag :: nat where "ordinal_flag = 2 ^ 63"

definition import_address :: "stubs \<Rightarrow> string \<Rightarrow> bytes \<Rightarrow> export_table \<Rightarrow> nat \<Rightarrow> fault + u64" where
  "import_address z dll img table entry =
     (if entry \<ge> ordinal_flag
      then let adr = resolve_ordinal_import dll (entry mod 2 ^ 16) table in
        Inr (if adr = 0 then z_ordinal z else adr)
      else bindE (read_cstring img (entry + 2)) (\<lambda>symname.
        let adr = get_export symname (Some dll) table in
        Inr (if adr = 0 then z_unknown z else adr)))"

function process_imports ::
    "stubs \<Rightarrow> string \<Rightarrow> export_table \<Rightarrow> nat \<Rightarrow> nat \<Rightarrow> nat \<Rightarrow> nat \<Rightarrow> bytes \<Rightarrow> fault + bytes" where
  "process_imports z dll table limit lookup_pos address_pos i img =
     (if limit < lookup_pos + 8 * i + 8 then Inl OutOfBounds
      else bindE (peek 8 img (lookup_pos + 8 * i)) (\<lambda>entry.
        if entry = 0 then Inr img
        else bindE (import_address z dll img table entry) (\<lambda>adr.
          bindE (poke 8 img (address_pos + 8 * i) (unat adr)) (\<lambda>img'.
          process_imports z dll table limit lookup_pos address_pos (i + 1) img'))))"
  by pat_completeness auto
termination
  by (relation "measure (\<lambda>(z, dll, table, limit, l, a, i, img). limit - (l + 8 * i))") auto

declare process_imports.simps [simp del]

definition process_import_descriptor ::
    "stubs \<Rightarrow> string \<Rightarrow> export_table \<Rightarrow> nat \<Rightarrow> bytes \<Rightarrow> fault + bytes" where
  "process_import_descriptor z dll table dirent img =
     bindE (peek 4 img dirent) (\<lambda>lookup_rva.
     bindE (peek 4 img (dirent + 16)) (\<lambda>address_rva.
     process_imports z dll table (length img) lookup_rva address_rva 0 img))"

section \<open>Correctness\<close>

lemma case_error_eq_Inr [result_simps]:
  "(case r of Inl e \<Rightarrow> Inr (Inl e) | Inr x \<Rightarrow> f x) = Inr (Inr y) \<longleftrightarrow> (\<exists>x. r = Inr x \<and> f x = Inr (Inr y))"
  by (cases r) simp_all

subsection \<open>Memory\<close>

lemma length_le_list [simp]: "length (le_list k v) = k"
  by (induction k arbitrary: v) simp_all

lemma le_list_le_nat: "le_list (length bs) (le_nat bs) = bs"
proof (induction bs)
  case (Cons b bs)
  have "(unat b + 256 * le_nat bs) div 256 = le_nat bs"
    by simp
  moreover have "(of_nat (unat b + 256 * le_nat bs) :: u8) = b"
    by (rule unsigned_word_eqI [where ?'a = nat], simp only: unat_of_nat) simp
  ultimately show ?case
    using Cons.IH by simp
qed simp

lemma le_nat_le_list: "le_nat (le_list k v) = v mod 256 ^ k"
proof (induction k arbitrary: v)
  case (Suc k)
  have "unat (of_nat v :: u8) = v mod 256"
    by (simp add: unat_of_nat)
  then show ?case
    by (simp add: Suc.IH mod_mult2_eq)
qed simp

lemma le_nat_less: "le_nat bs < 256 ^ length bs"
proof (induction bs)
  case (Cons b bs)
  have step: "x < 256 \<Longrightarrow> y < p \<Longrightarrow> x + 256 * y < 256 * p" for x y p :: nat
    by linarith
  show ?case
    using step [OF unat_u8_less Cons.IH] by simp
qed simp

lemma peek_less: "peek k img off = Inr v \<Longrightarrow> v < 256 ^ k"
  using le_nat_less [of "take k (drop off img)"] by (auto simp: peek_def split: if_splits)

lemma poke_length: "poke k img off v = Inr img' \<Longrightarrow> length img' = length img"
  by (auto simp: poke_def split: if_splits)

lemma poke_peek_same:
  assumes "peek k img off = Inr v"
  shows "poke k img off v = Inr img"
proof -
  have range: "off + k \<le> length img" and v: "v = le_nat (take k (drop off img))"
    using assms by (auto simp: peek_def split: if_splits)
  have "length (take k (drop off img)) = k"
    using range by simp
  then have "le_list k v = take k (drop off img)"
    using le_list_le_nat [of "take k (drop off img)"] by (simp only: v)
  moreover have "take off img @ take k (drop off img) @ drop (off + k) img = img"
    by (metis append.assoc append_take_drop_id take_add)
  ultimately show ?thesis
    using range by (simp add: poke_def)
qed

lemma peek_poke_same: "poke k img off v = Inr img' \<Longrightarrow> peek k img' off = Inr (v mod 256 ^ k)"
  by (auto simp: poke_def peek_def le_nat_le_list split: if_splits)

lemma poke_nth:
  "poke k img off v = Inr img' \<Longrightarrow> i < off \<or> off + k \<le> i \<Longrightarrow> i < length img \<Longrightarrow> img' ! i = img ! i"
  by (auto simp: poke_def nth_append split: if_splits)

lemma peek_cong:
  assumes "length img' = length img" and "\<And>i. off \<le> i \<Longrightarrow> i < off + k \<Longrightarrow> i < length img \<Longrightarrow> img' ! i = img ! i"
  shows "peek k img' off = peek k img off"
proof (cases "off + k \<le> length img")
  case True
  then have "take k (drop off img') = take k (drop off img)"
    using assms by (intro nth_equalityI) simp_all
  then show ?thesis
    using assms(1) by (simp add: peek_def)
qed (simp add: peek_def assms(1))

lemma peek_poke_other:
  assumes "poke k img off v = Inr img'" and "off' + k' \<le> off \<or> off + k \<le> off'"
  shows "peek k' img' off' = peek k' img off'"
  using assms by (intro peek_cong) (auto simp: poke_length intro!: poke_nth)

subsection \<open>Headers\<close>

lemma check_nt_hdr_cases: "check_nt_hdr h = - EINVAL \<or> check_nt_hdr h = int IMAGE_FILE_EXECUTABLE_IMAGE"
  by (simp add: check_nt_hdr_def)

subsection \<open>Relocation at the preferred base\<close>

lemma apply_fixup_same: "apply_fixup base base kind loc img = Inr (Inr img') \<Longrightarrow> img' = img"
proof (cases kind)
  case HighLow
  assume run: "apply_fixup base base kind loc img = Inr (Inr img')"
  then obtain v where v: "peek 4 img loc = Inr v"
    and img': "poke 4 img loc (unat (base + (of_nat v - base)) mod 2 ^ 32) = Inr img'"
    by (auto simp: apply_fixup_def HighLow result_simps)
  have "v < 2 ^ 32"
    using peek_less [OF v] by simp
  then have "unat (base + (of_nat v - base)) mod 2 ^ 32 = v"
    by (simp add: unat_of_nat)
  then show ?thesis
    using img' poke_peek_same [OF v] by simp
next
  case Dir64
  assume run: "apply_fixup base base kind loc img = Inr (Inr img')"
  then obtain v where v: "peek 8 img loc = Inr v"
    and img': "poke 8 img loc (unat (base + (of_nat v - base))) = Inr img'"
    by (auto simp: apply_fixup_def Dir64 result_simps)
  have "v < 2 ^ 64"
    using peek_less [OF v] by simp
  then have "unat (base + (of_nat v - base)) = v"
    by (simp add: unat_of_nat)
  then show ?thesis
    using img' poke_peek_same [OF v] by simp
qed (auto simp: apply_fixup_def)

lemma apply_entries_SucD:
  assumes "apply_entries base actual va pos (Suc n) img = Inr (Inr img')"
  obtains fixup mid where "peek 2 img pos = Inr fixup"
    and "apply_fixup base actual (reloc_kind_of (fixup div 4096)) ((va + fixup mod 4096) mod 2 ^ 32) img = Inr (Inr mid)"
    and "apply_entries base actual va (pos + 2) n mid = Inr (Inr img')"
  using assms by (auto simp: result_simps)

lemma apply_entries_same: "apply_entries base base va pos n img = Inr (Inr img') \<Longrightarrow> img' = img"
proof (induction n arbitrary: pos img)
  case (Suc n)
  then show ?case
    by (elim apply_entries_SucD) (metis apply_fixup_same)
qed simp

lemma apply_blocks_InrD:
  assumes "apply_blocks base actual limit pos img = Inr (Inr img')"
  obtains "peek 4 img (pos + 4) = Inr 0" "img' = img"
  | block_size va mid where "pos + 8 \<le> limit" "peek 4 img (pos + 4) = Inr block_size" "block_size \<noteq> 0"
      "peek 4 img pos = Inr va"
      "apply_entries base actual va (pos + 8) (entry_count block_size) img = Inr (Inr mid)"
      "apply_blocks base actual limit (pos + block_size) mid = Inr (Inr img')"
  using assms by (subst (asm) apply_blocks.simps) (auto simp: result_simps split: if_splits)

lemma apply_blocks_same: "apply_blocks base base limit pos img = Inr (Inr img') \<Longrightarrow> img' = img"
proof (induction "limit - pos" arbitrary: pos img rule: less_induct)
  case less
  show ?case
  proof (rule apply_blocks_InrD [OF less.prems])
    fix block_size va mid
    assume in_range: "pos + 8 \<le> limit" and nz: "block_size \<noteq> 0"
      and mid: "apply_entries base base va (pos + 8) (entry_count block_size) img = Inr (Inr mid)"
      and rest: "apply_blocks base base limit (pos + block_size) mid = Inr (Inr img')"
    have "limit - (pos + block_size) < limit - pos"
      using in_range nz by simp
    then have "img' = mid"
      using rest by (rule less.hyps)
    then show "img' = img"
      using apply_entries_same [OF mid] by simp
  qed
qed

lemma fixup_reloc_same:
  "fixup_reloc (of_nat (n_image_base h)) p h img = Inr (Inr img') \<Longrightarrow> img' = img"
  by (auto simp: fixup_reloc_def result_simps dest: apply_blocks_same split: if_splits)

subsection \<open>Relocation elsewhere\<close>

text \<open>
  The sites a relocation table names, read without writing. The table is taken to lie in the image
  below \<open>hi\<close>; \<open>None\<close> when a block runs over that bound.
\<close>

type_synonym site = "reloc_kind \<times> nat"

fun entry_sites :: "nat \<Rightarrow> nat \<Rightarrow> nat \<Rightarrow> bytes \<Rightarrow> site list" where
  "entry_sites va pos 0 img = []"
| "entry_sites va pos (Suc n) img =
     (let fixup = le_nat (take 2 (drop pos img)) in
      (reloc_kind_of (fixup div 4096), (va + fixup mod 4096) mod 2 ^ 32) # entry_sites va (pos + 2) n img)"

function block_sites :: "nat \<Rightarrow> nat \<Rightarrow> bytes \<Rightarrow> site list option" where
  "block_sites hi pos img =
     (if hi < pos + 8 then None
      else let block_size = le_nat (take 4 (drop (pos + 4) img)); va = le_nat (take 4 (drop pos img)) in
        if block_size = 0 then Some []
        else if hi < pos + 8 + 2 * entry_count block_size then None
        else map_option (\<lambda>rest. entry_sites va (pos + 8) (entry_count block_size) img @ rest)
               (block_sites hi (pos + block_size) img))"
  by pat_completeness auto
termination
  by (relation "measure (\<lambda>(hi, pos, img). hi - pos)") auto

declare block_sites.simps [simp del]

fun site_width :: "reloc_kind \<Rightarrow> nat" where
  "site_width HighLow = 4"
| "site_width Dir64 = 8"
| "site_width _ = 0"

definition sites_apart :: "site \<Rightarrow> site \<Rightarrow> bool" where
  "sites_apart x y \<longleftrightarrow> snd x + site_width (fst x) \<le> snd y \<or> snd y + site_width (fst y) \<le> snd x"

definition relocated :: "u64 \<Rightarrow> u64 \<Rightarrow> reloc_kind \<Rightarrow> nat \<Rightarrow> nat" where
  "relocated base actual kind v = unat (of_nat v + (actual - base)) mod 256 ^ site_width kind"

lemma apply_fixup_site:
  assumes "apply_fixup base actual kind loc img = Inr (Inr img')"
  shows "length img' = length img \<and>
    (\<forall>i < length img. i < loc \<or> loc + site_width kind \<le> i \<longrightarrow> img' ! i = img ! i) \<and>
    (site_width kind \<noteq> 0 \<longrightarrow> (\<exists>v. peek (site_width kind) img loc = Inr v \<and>
       peek (site_width kind) img' loc = Inr (relocated base actual kind v)))"
proof (cases kind)
  case HighLow
  then obtain v where v: "peek 4 img loc = Inr v"
    and img': "poke 4 img loc (unat (actual + (of_nat v - base)) mod 2 ^ 32) = Inr img'"
    using assms by (auto simp: apply_fixup_def result_simps)
  have "actual + (of_nat v - base) = of_nat v + (actual - base)"
    by simp
  with img' have img': "poke 4 img loc (unat (of_nat v + (actual - base)) mod 2 ^ 32) = Inr img'"
    by simp
  then show ?thesis
    using v poke_length [OF img'] poke_nth [OF img'] peek_poke_same [OF img'] HighLow
    by (simp add: relocated_def)
next
  case Dir64
  then obtain v where v: "peek 8 img loc = Inr v"
    and img': "poke 8 img loc (unat (actual + (of_nat v - base))) = Inr img'"
    using assms by (auto simp: apply_fixup_def result_simps)
  have "actual + (of_nat v - base) = of_nat v + (actual - base)"
    by simp
  with img' have img': "poke 8 img loc (unat (of_nat v + (actual - base))) = Inr img'"
    by simp
  then show ?thesis
    using v poke_length [OF img'] poke_nth [OF img'] peek_poke_same [OF img'] Dir64
    by (simp add: relocated_def)
qed (use assms in \<open>auto simp: apply_fixup_def\<close>)

text \<open>The fixups of the sites in order.\<close>

fun apply_sites :: "u64 \<Rightarrow> u64 \<Rightarrow> site list \<Rightarrow> bytes \<Rightarrow> fault + (int + bytes)" where
  "apply_sites base actual [] img = Inr (Inr img)"
| "apply_sites base actual ((kind, loc) # sites) img =
     bindE (apply_fixup base actual kind loc img) (\<lambda>r. case r of
       Inl e \<Rightarrow> Inr (Inl e)
     | Inr img' \<Rightarrow> apply_sites base actual sites img')"

definition outside :: "nat \<Rightarrow> nat \<Rightarrow> site \<Rightarrow> bool" where
  "outside lo hi x \<longleftrightarrow> snd x + site_width (fst x) \<le> lo \<or> hi \<le> snd x"

definition agree :: "nat \<Rightarrow> nat \<Rightarrow> bytes \<Rightarrow> bytes \<Rightarrow> bool" where
  "agree lo hi img img' \<longleftrightarrow> length img' = length img \<and> (\<forall>i < length img. lo \<le> i \<and> i < hi \<longrightarrow> img' ! i = img ! i)"

lemma agree_refl [simp]: "agree lo hi img img"
  by (simp add: agree_def)

lemma agree_trans: "agree lo hi a b \<Longrightarrow> agree lo hi b c \<Longrightarrow> agree lo hi a c"
  by (simp add: agree_def)

lemma agree_mono: "agree lo hi a b \<Longrightarrow> lo \<le> lo' \<Longrightarrow> hi' \<le> hi \<Longrightarrow> agree lo' hi' a b"
  by (auto simp: agree_def)

lemma agree_take:
  assumes "agree lo hi img img'" and "lo \<le> off" and "off + k \<le> hi"
  shows "take k (drop off img') = take k (drop off img)"
  using assms by (intro nth_equalityI) (auto simp: agree_def)

lemma agree_fixup:
  "apply_fixup base actual kind loc img = Inr (Inr img') \<Longrightarrow> outside lo hi (kind, loc) \<Longrightarrow> agree lo hi img img'"
  using apply_fixup_site by (fastforce simp: agree_def outside_def)

lemma agree_sites:
  "apply_sites base actual sites img = Inr (Inr img') \<Longrightarrow> list_all (outside lo hi) sites \<Longrightarrow> agree lo hi img img'"
proof (induction sites arbitrary: img)
  case (Cons site sites)
  obtain kind loc where site: "site = (kind, loc)"
    by (cases site)
  from Cons.prems obtain mid where mid: "apply_fixup base actual kind loc img = Inr (Inr mid)"
    and rest: "apply_sites base actual sites mid = Inr (Inr img')"
    by (auto simp: site result_simps)
  have "agree lo hi img mid"
    using agree_fixup [OF mid] Cons.prems(2) by (simp add: site)
  moreover have "agree lo hi mid img'"
    using rest Cons.prems(2) by (intro Cons.IH) simp_all
  ultimately show ?case
    by (rule agree_trans)
qed simp

lemma apply_sites_append:
  "apply_sites base actual (xs @ ys) img = Inr (Inr img') \<longleftrightarrow>
     (\<exists>mid. apply_sites base actual xs img = Inr (Inr mid) \<and> apply_sites base actual ys mid = Inr (Inr img'))"
  by (induction base actual xs img rule: apply_sites.induct) (auto simp: result_simps)

lemma entry_sites_agree:
  "agree lo hi img img' \<Longrightarrow> lo \<le> pos \<Longrightarrow> pos + 2 * n \<le> hi \<Longrightarrow> entry_sites va pos n img' = entry_sites va pos n img"
proof (induction n arbitrary: pos)
  case (Suc n)
  then have "take 2 (drop pos img') = take 2 (drop pos img)"
    by (intro agree_take) auto
  then show ?case
    using Suc by simp
qed simp

lemma block_sites_agree:
  "agree lo hi img img' \<Longrightarrow> lo \<le> pos \<Longrightarrow> block_sites hi pos img' = block_sites hi pos img"
proof (induction hi pos img rule: block_sites.induct)
  case (1 hi pos img)
  show ?case
  proof (cases "hi < pos + 8")
    case True
    then show ?thesis
      by (simp add: block_sites.simps)
  next
    case False
    define size where "size = le_nat (take 4 (drop (pos + 4) img))"
    have eqs: "take 4 (drop (pos + 4) img') = take 4 (drop (pos + 4) img)"
      "take 4 (drop pos img') = take 4 (drop pos img)"
      using 1(2,3) False by (auto intro!: agree_take)
    show ?thesis
    proof (cases "size = 0 \<or> hi < pos + 8 + 2 * entry_count size")
      case True
      then show ?thesis
        using False eqs by (auto simp: block_sites.simps [of hi pos] Let_def size_def)
    next
      case ok: False
      have "entry_sites va (pos + 8) (entry_count size) img' = entry_sites va (pos + 8) (entry_count size) img" for va
        using 1(2,3) ok by (intro entry_sites_agree) auto
      moreover have "block_sites hi (pos + size) img' = block_sites hi (pos + size) img"
        using 1(1) [OF False refl refl] 1(2,3) ok by (simp add: size_def)
      ultimately show ?thesis
        using False eqs ok by (simp add: block_sites.simps [of hi pos] Let_def size_def)
    qed
  qed
qed

lemma apply_entries_sites:
  assumes "apply_entries base actual va pos n img = Inr (Inr img')"
    and "list_all (outside lo hi) (entry_sites va pos n img)" and "lo \<le> pos" and "pos + 2 * n \<le> hi"
  shows "apply_sites base actual (entry_sites va pos n img) img = Inr (Inr img')"
  using assms
proof (induction n arbitrary: pos img)
  case (Suc n)
  from Suc.prems(1) obtain fixup mid where fixup: "peek 2 img pos = Inr fixup"
    and mid: "apply_fixup base actual (reloc_kind_of (fixup div 4096)) ((va + fixup mod 4096) mod 2 ^ 32) img = Inr (Inr mid)"
    and rest: "apply_entries base actual va (pos + 2) n mid = Inr (Inr img')"
    by (rule apply_entries_SucD)
  have read: "fixup = le_nat (take 2 (drop pos img))"
    using fixup by (auto simp: peek_def split: if_splits)
  have agree: "agree lo hi img mid"
    using agree_fixup [OF mid] Suc.prems(2) by (simp add: read Let_def)
  have same: "entry_sites va (pos + 2) n mid = entry_sites va (pos + 2) n img"
    using agree Suc.prems(3,4) by (intro entry_sites_agree) auto
  have "apply_sites base actual (entry_sites va (pos + 2) n mid) mid = Inr (Inr img')"
    using rest Suc.prems(2-4) same by (intro Suc.IH) (auto simp: Let_def)
  then show ?case
    using mid same by (simp add: read Let_def)
qed simp

lemma apply_blocks_sites:
  assumes "apply_blocks base actual limit pos img = Inr (Inr img')"
    and "block_sites hi pos img = Some sites" and "list_all (outside lo hi) sites" and "lo \<le> pos"
  shows "apply_sites base actual sites img = Inr (Inr img')"
  using assms
proof (induction "limit - pos" arbitrary: pos img sites rule: less_induct)
  case less
  note bs = less.prems(2) [unfolded block_sites.simps [of hi pos] Let_def]
  show ?case
  proof (rule apply_blocks_InrD [OF less.prems(1)])
    assume "peek 4 img (pos + 4) = Inr 0" and "img' = img"
    then show ?thesis
      using bs by (auto simp: peek_def split: if_splits)
  next
    fix size va mid
    assume range: "pos + 8 \<le> limit" and size: "peek 4 img (pos + 4) = Inr size" and nz: "size \<noteq> 0"
      and va: "peek 4 img pos = Inr va"
      and mid: "apply_entries base actual va (pos + 8) (entry_count size) img = Inr (Inr mid)"
      and rest: "apply_blocks base actual limit (pos + size) mid = Inr (Inr img')"
    have fields: "le_nat (take 4 (drop (pos + 4) img)) = size" "le_nat (take 4 (drop pos img)) = va"
      using size va by (auto simp: peek_def split: if_splits)
    then obtain rest_sites where fits: "pos + 8 + 2 * entry_count size \<le> hi"
      and rest_sites: "block_sites hi (pos + size) img = Some rest_sites"
      and sites: "sites = entry_sites va (pos + 8) (entry_count size) img @ rest_sites"
      using bs nz by (auto split: if_splits)
    have first: "apply_sites base actual (entry_sites va (pos + 8) (entry_count size) img) img = Inr (Inr mid)"
      using mid less.prems(3,4) fits by (intro apply_entries_sites) (auto simp: sites)
    then have "agree lo hi img mid"
      using less.prems(3) by (auto simp: sites intro: agree_sites)
    then have "block_sites hi (pos + size) mid = Some rest_sites"
      using less.prems(4) rest_sites by (simp add: block_sites_agree)
    then have "apply_sites base actual rest_sites mid = Inr (Inr img')"
      using less.prems(3,4) range nz by (intro less.hyps [OF _ rest]) (auto simp: sites)
    then show ?thesis
      using first by (auto simp: sites apply_sites_append)
  qed
qed

text \<open>What the sites of a table hold afterwards, when no two of them overlap.\<close>

lemma peek_agree: "agree off (off + k) img img' \<Longrightarrow> peek k img' off = peek k img off"
  by (intro peek_cong) (auto simp: agree_def)

lemma site_outside: "sites_apart x y \<Longrightarrow> outside (snd y) (snd y + site_width (fst y)) x"
  by (auto simp: sites_apart_def outside_def)

definition relocated_site :: "u64 \<Rightarrow> u64 \<Rightarrow> bytes \<Rightarrow> bytes \<Rightarrow> site \<Rightarrow> bool" where
  "relocated_site base actual img img' x \<longleftrightarrow> (\<exists>v. peek (site_width (fst x)) img (snd x) = Inr v \<and>
     peek (site_width (fst x)) img' (snd x) = Inr (relocated base actual (fst x) v))"

lemma apply_sites_relocated:
  assumes "apply_sites base actual sites img = Inr (Inr img')" and "sorted_wrt sites_apart sites"
    and "x \<in> set sites" and "site_width (fst x) \<noteq> 0"
  shows "relocated_site base actual img img' x"
  using assms
proof (induction sites arbitrary: img)
  case (Cons site sites)
  obtain kind loc where site: "site = (kind, loc)"
    by (cases site)
  from Cons.prems obtain mid where mid: "apply_fixup base actual kind loc img = Inr (Inr mid)"
    and rest: "apply_sites base actual sites mid = Inr (Inr img')"
    by (auto simp: site result_simps)
  show ?case
  proof (cases "x = site")
    case True
    have "list_all (outside loc (loc + site_width kind)) sites"
      using Cons.prems(2) by (auto simp: site list_all_iff sites_apart_def outside_def)
    then have "agree loc (loc + site_width kind) mid img'"
      by (rule agree_sites [OF rest])
    then have "peek (site_width kind) img' loc = peek (site_width kind) mid loc"
      by (rule peek_agree)
    then show ?thesis
      using apply_fixup_site [OF mid] Cons.prems(4) by (auto simp: relocated_site_def True site)
  next
    case False
    then have x: "x \<in> set sites"
      using Cons.prems(3) by simp
    then have "outside (snd x) (snd x + site_width (fst x)) (kind, loc)"
      using Cons.prems(2) by (auto simp: site intro: site_outside)
    then have "agree (snd x) (snd x + site_width (fst x)) img mid"
      by (rule agree_fixup [OF mid])
    then have "peek (site_width (fst x)) mid (snd x) = peek (site_width (fst x)) img (snd x)"
      by (rule peek_agree)
    moreover have "relocated_site base actual mid img' x"
      using rest Cons.prems(2,4) x by (intro Cons.IH) (simp_all add: site)
    ultimately show ?thesis
      by (simp add: relocated_site_def)
  qed
qed simp

text \<open>The whole table: the sites are moved by the distance of the bases and nothing else changes.\<close>

lemma fixup_reloc_sites:
  assumes "fixup_reloc actual p h img = Inr (Inr img')"
    and "data_directory img p 5 = Inr (rva, len)" and "len \<noteq> 0"
    and "block_sites hi rva img = Some sites" and "list_all (outside rva hi) sites"
  shows "apply_sites (of_nat (n_image_base h)) actual sites img = Inr (Inr img')"
  using assms by (auto simp: fixup_reloc_def intro: apply_blocks_sites)

lemma fixup_reloc_relocates:
  assumes "fixup_reloc actual p h img = Inr (Inr img')"
    and "data_directory img p 5 = Inr (rva, len)" and "len \<noteq> 0"
    and "block_sites hi rva img = Some sites" and "list_all (outside rva hi) sites"
    and "sorted_wrt sites_apart sites"
  shows "list_all (\<lambda>x. site_width (fst x) \<noteq> 0 \<longrightarrow> relocated_site (of_nat (n_image_base h)) actual img img' x) sites"
    and "list_all (outside lo up) sites \<Longrightarrow> agree lo up img img'"
  using fixup_reloc_sites [OF assms(1-5)] assms(6)
  by (auto simp: list_all_iff intro: apply_sites_relocated agree_sites)

end
