(* ===== verification/Sidecar_Meta.thy ===== *)
theory Sidecar_Meta
  imports Loader_Sidecar Loader_Image
begin

text \<open>
  Where the generator of \<open>src/src/pe_sidecar.cpp\<close> and the checks of \<open>src/src/pe_loader.cpp\<close> meet: what
  a dynamic linker that follows \<open>DT_HASH\<close> and the load segments finds under the marker names of a
  generated sidecar.
\<close>

section \<open>What a linker sees\<close>

definition symbol_value :: "parsed_pe \<Rightarrow> bytes \<Rightarrow> elf_plan \<Rightarrow> string \<Rightarrow> nat option" where
  "symbol_value pe path p name =
     (case build_hash (build_symbols pe path) of
        Some (Inr table) \<Rightarrow>
          (case elf_lookup (build_symbols pe path) table (ascii name) of
             Some (Some i) \<Rightarrow> Some (y_value (e_symbols p ! (i - 1)))
           | _ \<Rightarrow> None)
      | _ \<Rightarrow> None)"

definition mapped_bytes :: "phdr list \<Rightarrow> bytes \<Rightarrow> nat \<Rightarrow> nat \<Rightarrow> bytes option" where
  "mapped_bytes phdrs out va k = those (map (mapped_byte phdrs out) [va..<va + k])"

definition marker_word :: "parsed_pe \<Rightarrow> bytes \<Rightarrow> elf_plan \<Rightarrow> bytes \<Rightarrow> string \<Rightarrow> nat option" where
  "marker_word pe path p out name =
     (case symbol_value pe path p name of
        None \<Rightarrow> None
      | Some va \<Rightarrow> map_option le_nat (mapped_bytes (e_phdrs p) out va 8))"

definition built_view :: "u64 \<Rightarrow> parsed_pe \<Rightarrow> bytes \<Rightarrow> elf_plan \<Rightarrow> bytes \<Rightarrow> sidecar_view" where
  "built_view base pe path p out =
     \<lparr>k_version = marker_word pe path p out ''__lnw_sidecar_version'',
      k_size = marker_word pe path p out ''__lnw_pe_source_size'',
      k_fingerprint = marker_word pe path p out ''__lnw_pe_source_fingerprint'',
      k_end = map_option (\<lambda>v. base + of_nat v) (symbol_value pe path p ''__lnw_pe_image_end''),
      k_base = Some base,
      k_memory = (case mapped_bytes (e_phdrs p) out 0 (length (p_image pe)) of None \<Rightarrow> [] | Some bs \<Rightarrow> bs)\<rparr>"

section \<open>Correctness\<close>

lemma those_map_Some: "(\<And>x. x \<in> set xs \<Longrightarrow> f x = Some (g x)) \<Longrightarrow> those (map f xs) = Some (map g xs)"
  by (induction xs) simp_all

lemma le_field_eq_le_list: "le_field k v = le_list k v"
proof (induction k arbitrary: v)
  case (Suc k)
  have "le_field (Suc k) v = of_nat v # le_field k (v div 256)"
    unfolding le_field_def map_upt_Suc by (simp add: div_mult2_eq)
  then show ?case
    by (simp add: Suc.IH)
qed (simp add: le_field_def)

lemma symbol_value_marker:
  assumes "plan_elf pe path = Some (Inr p)" and "i < 5"
    and "y_name (marker_symbols (length (p_image pe)) ! i) = ascii name"
  shows "symbol_value pe path p name = Some (y_value (e_symbols p ! i))"
proof -
  let ?ys = "build_symbols pe path"
  obtain table where table: "build_hash ?ys = Some (Inr table)" and ok: "table_ok ?ys (length ?ys + 1) table"
    using build_hash_ok by blast
  obtain zs where ys: "?ys = marker_symbols (length (p_image pe)) @ zs"
    by (rule build_symbols_parts [of pe path]) blast
  have len: "length (marker_symbols (length (p_image pe))) = 5"
    by (simp add: marker_symbols_def)
  then have nth: "?ys ! i = marker_symbols (length (p_image pe)) ! i" and i: "i < length ?ys"
    using assms(2) by (simp_all add: ys nth_append)
  have "y_lookup (marker_symbols (length (p_image pe)) ! i)"
  proof -
    have "i = 0 \<or> i = 1 \<or> i = 2 \<or> i = 3 \<or> i = 4"
      using assms(2) by linarith
    then show ?thesis
      by (elim disjE) (simp_all add: marker_symbols_def)
  qed
  then have "elf_lookup ?ys table (ascii name) = Some (Some (i + 1))"
    using elf_lookup_resolves [OF ok build_symbols_distinct i] nth assms(3) by simp
  then show ?thesis
    by (simp add: symbol_value_def table)
qed

lemma marker_values:
  assumes "plan_elf pe path = Some (Inr p)"
  shows "y_value (e_symbols p ! 1) = length (p_image pe)"
    and "y_value (e_symbols p ! 2) = l_rodata (e_layout p)"
    and "y_value (e_symbols p ! 3) = l_rodata (e_layout p) + 8"
    and "y_value (e_symbols p ! 4) = l_rodata (e_layout p) + 16"
proof -
  obtain zs where ys: "build_symbols pe path = marker_symbols (length (p_image pe)) @ zs"
    by (rule build_symbols_parts [of pe path]) blast
  have "e_symbols p = place_markers (l_rodata (e_layout p)) (build_symbols pe path)"
    using plan_elf_ok [OF assms] by (simp add: plan_ok_def Let_def)
  then have e: "e_symbols p = place_markers (l_rodata (e_layout p)) (marker_symbols (length (p_image pe)) @ zs)"
    by (simp only: ys)
  show "y_value (e_symbols p ! 1) = length (p_image pe)"
    and "y_value (e_symbols p ! 2) = l_rodata (e_layout p)"
    and "y_value (e_symbols p ! 3) = l_rodata (e_layout p) + 8"
    and "y_value (e_symbols p ! 4) = l_rodata (e_layout p) + 16"
    unfolding e by (simp_all add: place_markers_def marker_symbols_def)
qed

lemma mapped_metadata:
  assumes "plan_elf pe path = Some (Inr p)" and "l_metadata (e_layout p) \<le> va" and "va < t_metadata_end (e_tail p)"
  shows "mapped_byte (e_phdrs p) out va = Some (out ! va)"
proof -
  note d = plan_okD [OF plan_elf_ok [OF assms(1)]]
  have h: "length (p_image pe) \<le> l_header_va (e_layout p) - kPageSize" "kPageSize \<le> l_header_va (e_layout p)"
    using header_va_bounds [OF d(1)] by blast+
  have m: "l_metadata (e_layout p) = l_header_va (e_layout p) + kPageSize"
    using d(1) by (simp add: layout_ok_def)
  have "\<not> va < length (p_image pe)"
    using assms(2) h m by linarith
  then show ?thesis
    using assms(2,3) h m by (simp add: mapped_byte_def d(3) load_segments_plan text_va_def text_offset_def)
qed

lemma marker_word_rodata:
  assumes plan: "plan_elf pe path = Some (Inr p)" and out: "build_elf pe path = Some (Inr out)"
    and sym: "symbol_value pe path p name = Some (l_rodata (e_layout p) + off)"
    and wr: "Memcpy (l_rodata (e_layout p) + off) (le_field 8 v) \<in> set (e_writes p)" and "off + 8 \<le> 24"
    and "v < 2 ^ 64"
  shows "marker_word pe path p out name = Some v"
proof -
  let ?va = "l_rodata (e_layout p) + off"
  note d = plan_okD [OF plan_elf_ok [OF plan]]
  obtain out' where "build_elf pe path = Some (Inr out')" "length out' = t_file_size (e_tail p)"
    "\<forall>w \<in> set (e_writes p). slice_at out' (w_offset w) (length (w_bytes w)) = w_bytes w"
    using build_elf_writes [OF plan] by blast
  then have len: "length out = t_file_size (e_tail p)"
    and slices: "\<forall>w \<in> set (e_writes p). slice_at out (w_offset w) (length (w_bytes w)) = w_bytes w"
    using out by simp_all
  have slice: "slice_at out ?va 8 = le_field 8 v"
    using bspec [OF slices wr] by simp
  have bounds: "l_metadata (e_layout p) \<le> ?va" "?va + 8 \<le> t_metadata_end (e_tail p)"
    using d(1,2) assms(5) unfolding layout_ok_def tail_ok_def by linarith+
  have "t_metadata_end (e_tail p) \<le> length out"
    using d(2) unfolding len tail_ok_def by linarith
  then have "out ! (?va + j) = le_field 8 v ! j" if "j < 8" for j
    using slice_at_nth [OF slice that] bounds(2) by linarith
  then have "map (\<lambda>i. out ! i) [?va..<?va + 8] = le_field 8 v"
    by (intro nth_equalityI) simp_all
  moreover have "those (map (mapped_byte (e_phdrs p) out) [?va..<?va + 8]) = Some (map (\<lambda>i. out ! i) [?va..<?va + 8])"
    using bounds by (intro those_map_Some mapped_metadata [OF plan]) auto
  ultimately have "mapped_bytes (e_phdrs p) out ?va 8 = Some (le_field 8 v)"
    by (simp add: mapped_bytes_def)
  then show ?thesis
    using assms(6) by (simp add: marker_word_def sym le_field_eq_le_list le_nat_le_list)
qed

lemma rodata_writes:
  assumes "plan_elf pe path = Some (Inr p)"
  shows "{Memcpy (l_rodata (e_layout p)) (le_field 8 (length (p_source pe))),
      Memcpy (l_rodata (e_layout p) + 8) (le_field 8 (unat (p_fingerprint pe))),
      Memcpy (l_rodata (e_layout p) + 16) (le_field 8 3)} \<subseteq> set (e_writes p)"
  using plan_elf_ok [OF assms] unfolding plan_ok_def Let_def by (auto simp: table_writes_def)

text \<open>The loader's check on a generated sidecar accepts exactly the file it was generated from.\<close>

lemma built_view_describes:
  assumes pe: "parse_pe data = Inr pe" and plan: "plan_elf pe path = Some (Inr p)"
    and out: "build_elf pe path = Some (Inr out)" and size: "length data < 2 ^ 64"
  shows "k_version (built_view base pe path p out) = Some 3"
    and "k_size (built_view base pe path p out) = Some (length data)"
    and "k_fingerprint (built_view base pe path p out) = Some (unat (fingerprint data))"
    and "k_end (built_view base pe path p out) = Some (base + of_nat (length (p_image pe)))"
    and "k_memory (built_view base pe path p out) = p_image pe"
proof -
  note mv = marker_values [OF plan] and rw = rodata_writes [OF plan]
  have src: "p_source pe = data" "p_fingerprint pe = fingerprint data"
    using pe by (auto simp: parse_pe_def result_simps Let_def)
  have "symbol_value pe path p ''__lnw_pe_source_size'' = Some (l_rodata (e_layout p) + 0)"
    using symbol_value_marker [OF plan, of 2] mv by (simp add: marker_symbols_def)
  from marker_word_rodata [OF plan out this] rw size
  show "k_size (built_view base pe path p out) = Some (length data)"
    by (simp add: built_view_def src)
  have "symbol_value pe path p ''__lnw_pe_source_fingerprint'' = Some (l_rodata (e_layout p) + 8)"
    using symbol_value_marker [OF plan, of 3] mv by (simp add: marker_symbols_def)
  from marker_word_rodata [OF plan out this] rw unsigned_less [of "fingerprint data", where ?'a = nat]
  show "k_fingerprint (built_view base pe path p out) = Some (unat (fingerprint data))"
    by (simp add: built_view_def src)
  have "symbol_value pe path p ''__lnw_sidecar_version'' = Some (l_rodata (e_layout p) + 16)"
    using symbol_value_marker [OF plan, of 4] mv by (simp add: marker_symbols_def)
  from marker_word_rodata [OF plan out this] rw
  show "k_version (built_view base pe path p out) = Some 3"
    by (simp add: built_view_def)
  have "symbol_value pe path p ''__lnw_pe_image_end'' = Some (length (p_image pe))"
    using symbol_value_marker [OF plan, of 1] mv by (simp add: marker_symbols_def)
  then show "k_end (built_view base pe path p out) = Some (base + of_nat (length (p_image pe)))"
    by (simp add: built_view_def)
  have "mapped_byte (e_phdrs p) out i = Some (p_image pe ! i)" if "i < length (p_image pe)" for i
  proof -
    obtain out' where o: "build_elf pe path = Some (Inr out')" "length out' = t_file_size (e_tail p)"
      "\<forall>w \<in> set (e_writes p). slice_at out' (w_offset w) (length (w_bytes w)) = w_bytes w"
      using build_elf_writes [OF plan] by blast
    have "Copy text_offset (p_image pe) \<in> set (e_writes p)"
      using plan_elf_ok [OF plan] unfolding plan_ok_def Let_def by auto
    then have "slice_at out text_offset (length (p_image pe)) = p_image pe"
      using o out by fastforce
    then show ?thesis
      using mapped_text [OF plan_elf_ok [OF plan] _ _ that] o out by simp
  qed
  then have "mapped_bytes (e_phdrs p) out 0 (length (p_image pe)) = Some (map (\<lambda>i. p_image pe ! i) [0..<length (p_image pe)])"
    unfolding mapped_bytes_def add_0 by (intro those_map_Some) simp
  then show "k_memory (built_view base pe path p out) = p_image pe"
    by (simp add: built_view_def map_nth)
qed

end
