(* ===== verification/Sample.thy ===== *)
theory Sample
  imports Sidecar_Layout
begin

text \<open>
  A small PE32+ image with one executable section: a function with a push and a stack allocation
  in its prologue, its \<open>UNWIND_INFO\<close>, and an export \<open>f\<close>. It shows that the hypotheses of the
  sidecar theorems can hold.
\<close>

definition sample_pe :: bytes where
  "sample_pe =
     [77, 90] @
     replicate 58 0 @ [64, 0, 0, 0, 80, 69, 0, 0, 100, 134, 1] @
     replicate 13 0 @ [144, 0, 34, 0, 11, 2] @
     replicate 54 0 @ [104, 1, 0, 0, 16, 1] @
     replicate 46 0 @ [4, 0, 0, 0, 52, 1, 0, 0, 40] @
     replicate 19 0 @ [40, 1, 0, 0, 12, 0, 0, 0, 46, 116, 101, 120, 116, 0, 0, 0, 88, 0, 0, 0, 16, 1, 0, 0, 88, 0, 0, 0, 16, 1] @
     replicate 14 0 @ [32, 0, 0, 96] @
     replicate 16 144 @ [1, 5, 2, 0, 5, 50, 1, 48, 16, 1, 0, 0, 32, 1, 0, 0, 32, 1] @
     replicate 22 0 @ [1, 0, 0, 0, 1, 0, 0, 0, 92, 1, 0, 0, 96, 1, 0, 0, 100, 1, 0, 0, 16, 1, 0, 0, 102, 1, 0, 0, 0, 0, 102, 0]"

definition sample_parsed :: parsed_pe where
  "sample_parsed =
     \<lparr>p_source = sample_pe, p_image = sample_pe,
      p_functions = [\<lparr>f_begin = 272, f_end = 288, f_unwind = 288\<rparr>],
      p_cfi = [\<lparr>c_begin = 272, c_end = 288, c_inherited = [],
        c_operations = [op_at 1 Push 3 0, op_at 5 Alloc 32 0]\<rparr>],
      p_exports = [\<lparr>x_name = ascii ''f'', x_rva = 272\<rparr>],
      p_executable = [\<lparr>r_begin = 272, r_end = 360, r_name = ascii ''.text''\<rparr>],
      p_fingerprint = fingerprint sample_pe\<rparr>"

lemma sample_length [simp]: "length sample_pe = 360"
  by (simp add: sample_pe_def)

lemma at_sample [simp]:
  "at sample_pe 0 = Inr 77"
  "at sample_pe 1 = Inr 90"
  "at sample_pe 232 = Inr 46"
  "at sample_pe 233 = Inr 116"
  "at sample_pe 234 = Inr 101"
  "at sample_pe 235 = Inr 120"
  "at sample_pe 236 = Inr 116"
  "at sample_pe 237 = Inr 0"
  "at sample_pe 288 = Inr 1"
  "at sample_pe 289 = Inr 5"
  "at sample_pe 290 = Inr 2"
  "at sample_pe 291 = Inr 0"
  "at sample_pe 292 = Inr 5"
  "at sample_pe 293 = Inr 50"
  "at sample_pe 294 = Inr 1"
  "at sample_pe 295 = Inr 48"
  "at sample_pe 358 = Inr 102"
  "at sample_pe 359 = Inr 0"
  by (simp_all add: at_def) (simp_all add: sample_pe_def nth_append)

lemma sample_nth [simp]:
  "sample_pe ! 0 = 77" "sample_pe ! Suc 0 = 90"
  by (simp_all add: sample_pe_def)

lemma rd_sample [simp]:
  "rd32 sample_pe 60 = Inr 64"
  "rd32 sample_pe 64 = Inr 17744"
  "rd32 sample_pe 144 = Inr 360"
  "rd32 sample_pe 148 = Inr 272"
  "rd32 sample_pe 196 = Inr 4"
  "rd32 sample_pe 240 = Inr 88"
  "rd32 sample_pe 244 = Inr 272"
  "rd32 sample_pe 248 = Inr 88"
  "rd32 sample_pe 252 = Inr 272"
  "rd32 sample_pe 268 = Inr 1610612768"
  "rd32 sample_pe 224 = Inr 296"
  "rd32 sample_pe 228 = Inr 12"
  "rd32 sample_pe 200 = Inr 308"
  "rd32 sample_pe 204 = Inr 40"
  "rd32 sample_pe 296 = Inr 272"
  "rd32 sample_pe 300 = Inr 288"
  "rd32 sample_pe 304 = Inr 288"
  "rd32 sample_pe 328 = Inr 1"
  "rd32 sample_pe 332 = Inr 1"
  "rd32 sample_pe 336 = Inr 348"
  "rd32 sample_pe 340 = Inr 352"
  "rd32 sample_pe 344 = Inr 356"
  "rd32 sample_pe 352 = Inr 358"
  "rd32 sample_pe 348 = Inr 272"
  "rd16 sample_pe 68 = Inr 34404"
  "rd16 sample_pe 70 = Inr 1"
  "rd16 sample_pe 84 = Inr 144"
  "rd16 sample_pe 88 = Inr 523"
  "rd16 sample_pe 356 = Inr 0"
  by (simp_all add: rd32_def rd16_def u32_def u16_def) (simp_all add: sample_pe_def nth_append)

definition sample_header :: pe_header where
  "sample_header = \<lparr>h_optional = 88, h_section_table = 232, h_section_count = 1, h_image_size = 360,
     h_headers_size = 272, h_directories = 4\<rparr>"

definition sample_section :: pe_section where
  "sample_section = \<lparr>s_rva = 272, s_extent = 88, s_raw_offset = 272, s_raw_size = 88,
     s_flags = 0x60000020, s_name = ascii ''.text''\<rparr>"

lemma sample_headers: "parse_headers sample_pe = Inr sample_header"
  by (simp add: parse_headers_def sample_header_def Let_def kMaxImageSize_def)

lemma sample_name: "take 5 (drop 232 sample_pe) = ascii ''.text''"
  by (simp add: sample_pe_def ascii_def)

lemma sample_name_length: "section_name_length sample_pe 232 0 = Inr 5"
  by (simp add: section_name_length.simps)

lemma sample_sections: "parse_sections sample_pe sample_header = Inr [sample_section]"
  by (simp add: parse_sections_def parse_section_def sample_header_def sample_section_def Let_def
      sample_name sample_name_length occupied_ranges_def)

lemma sample_layout: "layout_image sample_pe sample_header [sample_section] = Inr sample_pe"
proof -
  have "take 272 (take 272 sample_pe @ replicate 88 0) @ take 88 (drop 272 sample_pe) = sample_pe"
    by simp
  then show ?thesis
    by (simp add: layout_image_def copy_n_def sample_header_def sample_section_def)
qed

lemma sample_functions:
  "parse_functions sample_pe 360 (mapped_ranges sample_header [sample_section])
     (executable_ranges [sample_section]) (296, 12) = Inr (p_functions sample_parsed)"
  by (simp add: parse_functions_def parse_function_def require_range_def contained_def mapped_ranges_def
      occupied_ranges_def executable_ranges_def section_range_def sample_header_def sample_section_def
      sample_parsed_def)

definition sample_view :: pe_view where
  "sample_view = \<lparr>v_image = sample_pe, v_size = 360, v_mapped = mapped_ranges sample_header [sample_section],
     v_executable = executable_ranges [sample_section]\<rparr>"

lemma sample_ranges:
  "mapped_ranges sample_header [sample_section] =
     [\<lparr>r_begin = 0, r_end = 272, r_name = ascii ''headers''\<rparr>, \<lparr>r_begin = 272, r_end = 360, r_name = ascii ''.text''\<rparr>]"
  "executable_ranges [sample_section] = [\<lparr>r_begin = 272, r_end = 360, r_name = ascii ''.text''\<rparr>]"
  by (simp_all add: mapped_ranges_def occupied_ranges_def executable_ranges_def section_range_def
      sample_header_def sample_section_def)

lemma sample_operations:
  "resolve_functions sample_view (\<lambda>_. None) (p_functions sample_parsed) = Inr (p_cfi sample_parsed)"
  by (simp add: sample_parsed_def resolve_unwind.simps kMaxChainDepth_def sample_view_def sample_ranges
      read_unwind_header_def require_range_def contained_def padded_count_def Let_def
      read_operations_def decode_operations.simps decode_operation_def decode_opcode_def
      nonvolatile_def register_map_def resolved_def)

lemma sample_exports:
  "parse_exports sample_pe 360 (mapped_ranges sample_header [sample_section])
     (executable_ranges [sample_section]) (308, 40) = Inr (p_exports sample_parsed)"
proof -
  have "name_slice sample_pe 358 359 = ascii ''f''"
    by (simp add: name_slice_def sample_pe_def ascii_def)
  then show ?thesis
    by (simp add: sample_ranges parse_exports_def parse_export_def require_range_def contained_def
        containing_end_def find_terminator.simps sample_parsed_def plain_name_byte_def ascii_def
        List.map_filter_def)
qed

lemma parse_sample: "parse_pe sample_pe = Inr sample_parsed"
proof -
  have "directory sample_pe sample_header 3 = Inr (296, 12)" "directory sample_pe sample_header 0 = Inr (308, 40)"
    by (simp_all add: directory_def sample_header_def)
  moreover have "h_image_size sample_header = 360"
    by (simp add: sample_header_def)
  ultimately show ?thesis
    using sample_operations unfolding sample_view_def
    by (simp add: parse_pe_def sample_headers sample_sections sample_layout sample_functions
        sample_exports Let_def) (simp add: sample_parsed_def sample_ranges)
qed

definition sample_ranges2 :: "cfi_range list" where
  "sample_ranges2 = [\<lparr>g_begin = 272, g_end = 288, g_inherited = [],
        g_operations = [op_at 1 Push 3 0, op_at 5 Alloc 32 0]\<rparr>, gap_range 288 360]"

lemma sample_cfi_ranges: "make_cfi_ranges sample_parsed = sample_ranges2"
  by (simp add: make_cfi_ranges_def sample_parsed_def sample_ranges2_def function_ranges_def)

definition sample_path :: bytes where
  "sample_path = ascii ''f.dll''"

lemma sample_dll_name: "dll_name sample_path = ascii ''f.dll''"
  by code_simp

lemma sample_hex: "hex_digits 272 = ascii ''110''"
  by (simp add: hex_digits.simps hex_digit_def ascii_def)

lemma sample_symbols:
  "map y_name (build_symbols sample_parsed sample_path) =
     reserved_names @ [ascii ''f'', ascii ''f.dll!sub_110'']"
  by (simp add: build_symbols_def sample_dll_name sample_parsed_def reserved_names_def export_symbol_def
      function_symbol_def sample_hex marker_symbols_def ascii_def)

lemma dynstr_names: "dynstr_of ys = 0 # concat (map (\<lambda>n. n @ [0]) (map y_name ys))"
  by (simp add: dynstr_of_def comp_def)

lemma sample_lengths:
  "length (build_symbols sample_parsed sample_path) = 7"
  "length (dynstr_of (build_symbols sample_parsed sample_path)) = 128"
proof -
  have "length (map y_name (build_symbols sample_parsed sample_path)) = 7"
    by (simp add: sample_symbols reserved_names_def)
  then show "length (build_symbols sample_parsed sample_path) = 7"
    by simp
  show "length (dynstr_of (build_symbols sample_parsed sample_path)) = 128"
    by (simp add: dynstr_names sample_symbols reserved_names_def ascii_def)
qed

lemma sample_tables:
  "\<exists>l. layout_tables 360 7 128 2 = Inr l \<and> l_text_end l = 4456 \<and> l_eh_frame_hdr l = 12680 \<and> l_eh_frame l = 12712"
  by (simp add: layout_tables_def align_offset_def text_offset_def kPageSize_def hash_size_def
      bucket_count_def)

lemma sample_eh_frame:
  "build_eh_frame 12712 0 sample_ranges2 = Inr
   (cie_bytes[0 := 20] @
      [28, 0, 0, 0, 28, 0, 0, 0, 72, 207, 255, 255, 16, 0, 0,
       0, 0, 65, 14, 16, 17, 3, 2, 68, 14, 48, 0, 0, 0, 0, 0, 0, 20, 0, 0,
       0, 60, 0, 0, 0, 56, 207, 255, 255, 72, 0, 0, 0, 0, 0, 0, 0, 0, 0, 0,
       0, 0, 0, 0, 0],
      [24, 56])"
  by code_simp

lemma sample_eh_frame_hdr:
  "\<exists>hdr. build_eh_frame_hdr 12680 12712 0 sample_ranges2 [24, 56] = Inr hdr"
  by (simp add: build_eh_frame_hdr_def sample_ranges2_def signed_32_def)

lemma sample_plan:
  "\<exists>p. plan_elf sample_parsed sample_path = Some (Inr p) \<and> length (e_eh_frame p) < 2 ^ 32"
proof -
  let ?ys = "build_symbols sample_parsed sample_path"
  obtain table where table: "build_hash ?ys = Some (Inr table)"
    using build_hash_ok [of ?ys] by auto
  obtain l where l: "layout_tables 360 7 128 2 = Inr l" "l_text_end l = 4456"
      "l_eh_frame_hdr l = 12680" "l_eh_frame l = 12712"
    using sample_tables by blast
  obtain hdr where hdr: "build_eh_frame_hdr 12680 12712 0 sample_ranges2 [24, 56] = Inr hdr"
    using sample_eh_frame_hdr by blast
  have image: "length (p_image sample_parsed) = 360"
    by (simp add: sample_parsed_def)
  have ranges: "length sample_ranges2 = 2"
    by (simp add: sample_ranges2_def)
  have cie: "length cie_bytes = 24"
    by code_simp
  show ?thesis
    by (simp add: plan_elf_def table sample_lengths sample_cfi_ranges image ranges l text_va_def
        sample_eh_frame hdr layout_tail_def align_offset_def kPageSize_def note_offset_eq
        text_offset_def section_count_def shstr_def section_names_def ascii_def cie Let_def)
qed

end
