(* ===== verification/Loader_Properties.thy ===== *)
theory Loader_Properties
  imports Sidecar_Meta Loader_Threads Sample
begin

text \<open>
  The properties of the loader (\<open>src/src/pe_loader.cpp\<close>) and of the file side of the sidecar
  generator, with the inputs that show their hypotheses can hold.
\<close>

section \<open>Exports\<close>

lemma discard_register:
  "pe_discard_image_exports i (register_function m name addr (Some i) t) = pe_discard_image_exports i t"
  by (rule exports.discard_add_any)

lemma discard_read_names:
  "read_export_names owner module actual img tables i n table = Inr table' \<Longrightarrow>
   pe_discard_image_exports owner table' = pe_discard_image_exports owner table"
proof (induction n arbitrary: i table)
  case (Suc n)
  then show ?case
    by (cases tables) (auto simp: result_simps Let_def discard_register split: if_splits)
qed simp

text \<open>
  C9: \<open>read_exports\<close> of an image and \<open>pe_discard_image_exports\<close> of the same image cancel: a load that
  fails after its exports were registered leaves the export table, and so every later import, exactly
  as before, also when the table was or became full.
\<close>
theorem discard_undoes_read_exports:
  assumes "read_exports owner name actual p img table = Inr table'" and "\<not> owns_exports owner table"
  shows "pe_discard_image_exports owner table' = table"
proof -
  have "pe_discard_image_exports owner table' = pe_discard_image_exports owner table"
    using assms(1) discard_read_names by (auto simp: read_exports_def result_simps split: if_splits)
  with assms(2) show ?thesis
    by (simp add: exports.discard_not_owned)
qed

definition sample_export_image :: bytes where
  "sample_export_image =
     replicate 136 0 @ [144, 0, 0, 0, 40, 0, 0, 0] @ replicate 24 0 @
     [1, 0, 0, 0, 184, 0, 0, 0, 188, 0, 0, 0, 192, 0, 0, 0, 0x40, 0, 0, 0, 194, 0, 0, 0, 0, 0, 0x46, 0]"

lemma sample_export_name: "read_cstring sample_export_image 194 = Inr ''F''"
proof -
  have "sample_export_image ! 194 = 70" and "sample_export_image ! 195 = 0" and "length sample_export_image = 196"
    by (simp_all add: sample_export_image_def nth_append)
  moreover have "char_of (70 :: nat) = CHR ''F''"
    by code_simp
  ultimately show ?thesis
    by (simp add: read_cstring.simps)
qed

lemma read_sample_exports:
  "read_exports 7 ''/x/a.dll'' 0x1000 0 sample_export_image [] =
     Inr [\<lparr>t_dll = Some ''a.dll'', t_name = ''F'', t_addr = 0x1040, t_owner = Some 7\<rparr>]"
  using sample_export_name
  by (simp add: read_exports_def data_directory_def peek_def sample_export_image_def module_basename_def
      MAX_EXPORTS_def register_function_def)

theorem discard_undoes_read_exports_witness:
  "pe_discard_image_exports 7 [\<lparr>t_dll = Some ''a.dll'', t_name = ''F'', t_addr = 0x1040, t_owner = Some 7\<rparr>] = []"
  by (rule discard_undoes_read_exports [OF read_sample_exports]) (simp add: owns_exports_def)

section \<open>Relocations\<close>

text \<open>
  C10: A successful \<open>fixup_reloc\<close> at another base adds the distance of the bases to every site of the
  table (32 or 64 bits wide) and changes no other byte. The table is one whose blocks end below
  \<open>hi\<close>, whose sites do not overlap each other and do not lie in the table.
\<close>
theorem relocation_moves_sites:
  assumes "fixup_reloc actual p h img = Inr (Inr img')"
    and "data_directory img p 5 = Inr (rva, len)" and "len \<noteq> 0"
    and "block_sites hi rva img = Some sites" and "list_all (outside rva hi) sites"
    and "sorted_wrt sites_apart sites"
  shows "list_all (\<lambda>x. site_width (fst x) = 0 \<or> relocated_site (of_nat (n_image_base h)) actual img img' x) sites \<and>
    (\<forall>lo up. list_all (outside lo up) sites \<longrightarrow> agree lo up img img')"
  using fixup_reloc_relocates [OF assms] by (auto simp: list_all_iff)

definition sample_reloc_image :: bytes where
  "sample_reloc_image =
     replicate 176 0 @ [184, 0, 0, 0, 20, 0, 0, 0] @
     [208, 0, 0, 0, 12, 0, 0, 0, 0, 0xA0, 0, 0] @ replicate 12 0 @ [0x20, 0, 0x10, 0, 0, 0, 0, 0]"

definition sample_headers :: nt_headers where
  "sample_headers = \<lparr>n_signature = 0x4550, n_machine = 0x8664, n_sections = 1, n_optional_size = 0xF0,
     n_characteristics = 2, n_magic = 0x20B, n_entry = 0, n_image_base = 0x100000, n_section_alignment = 0x1000,
     n_file_alignment = 0x200, n_image_size = 216, n_directories = 16\<rparr>"

definition sample_relocated_image :: bytes where
  "sample_relocated_image = take 208 sample_reloc_image @ [0x20, 0, 0x20, 0, 0, 0, 0, 0]"

lemma le_nat_zeros [simp]: "le_nat (replicate k 0) = 0"
  by (induction k) simp_all

lemma le_list_numeral [simp]: "le_list (numeral k) v = of_nat v # le_list (pred_numeral k) (v div 256)"
  by (metis le_list.simps(2) numeral_eq_Suc)

lemma entry_count_12: "entry_count 12 = Suc (Suc 0)"
  by (simp add: entry_count_def)

lemma sample_blocks: "block_sites 208 184 sample_reloc_image = Some [(Dir64, 208), (Absolute, 208)]"
  by (subst block_sites.simps, subst block_sites.simps)
    (simp add: sample_reloc_image_def entry_count_12 reloc_kind_of_def)

lemma sample_directory: "data_directory sample_reloc_image 0 5 = Inr (184, 20)"
  by (simp add: data_directory_def peek_def sample_reloc_image_def)

lemma sample_entries:
  "apply_entries 0x100000 0x200000 208 192 (Suc (Suc 0)) sample_reloc_image = Inr (Inr sample_relocated_image)"
  by (simp add: peek_def poke_def sample_reloc_image_def sample_relocated_image_def
      apply_fixup_def reloc_kind_of_def)

lemma sample_relocation:
  "fixup_reloc 0x200000 0 sample_headers sample_reloc_image = Inr (Inr sample_relocated_image)"
proof -
  have words: "peek 4 sample_reloc_image 188 = Inr 12" "peek 4 sample_reloc_image 184 = Inr 208"
    "peek 4 sample_relocated_image 200 = Inr 0" "length sample_reloc_image = 216"
    by (simp_all add: peek_def sample_reloc_image_def sample_relocated_image_def)
  have "apply_blocks 0x100000 0x200000 216 196 sample_relocated_image = Inr (Inr sample_relocated_image)"
    by (subst apply_blocks.simps) (simp add: words)
  then have "apply_blocks 0x100000 0x200000 216 184 sample_reloc_image = Inr (Inr sample_relocated_image)"
    by (subst apply_blocks.simps) (simp add: words sample_entries entry_count_12 del: apply_entries.simps)
  then show ?thesis
    by (simp add: fixup_reloc_def sample_directory sample_headers_def words)
qed

theorem relocation_moves_sites_witness:
  "relocated_site 0x100000 0x200000 sample_reloc_image sample_relocated_image (Dir64, 208) \<and>
   agree 0 208 sample_reloc_image sample_relocated_image"
proof -
  have "list_all (outside 184 208) [(Dir64, 208), (Absolute, 208)]" "sorted_wrt sites_apart [(Dir64, 208), (Absolute, 208)]"
    "list_all (outside 0 208) [(Dir64, 208), (Absolute, 208)]"
    by (simp_all add: outside_def sites_apart_def)
  then show ?thesis
    using relocation_moves_sites [OF sample_relocation sample_directory _ sample_blocks]
    by (auto simp: sample_headers_def)
qed

text \<open>
  At its preferred base an image comes out of \<open>fixup_reloc\<close> as it went in, whatever its relocation
  table says.
\<close>
theorem relocation_at_base:
  "fixup_reloc (of_nat (n_image_base h)) p h img = Inr (Inr img') \<Longrightarrow> img' = img"
  by (rule fixup_reloc_same)

lemma sample_relocation_at_base: "fixup_reloc 0x100000 0 sample_headers sample_reloc_image = Inr (Inr sample_reloc_image)"
proof -
  have words: "peek 4 sample_reloc_image 188 = Inr 12" "peek 4 sample_reloc_image 184 = Inr 208"
    "peek 4 sample_reloc_image 200 = Inr 0" "length sample_reloc_image = 216"
    by (simp_all add: peek_def sample_reloc_image_def)
  have same: "apply_entries 0x100000 0x100000 208 192 (Suc (Suc 0)) sample_reloc_image = Inr (Inr sample_reloc_image)"
    by (simp add: peek_def poke_def sample_reloc_image_def apply_fixup_def reloc_kind_of_def)
  have "apply_blocks 0x100000 0x100000 216 196 sample_reloc_image = Inr (Inr sample_reloc_image)"
    by (subst apply_blocks.simps) (simp add: words)
  then have "apply_blocks 0x100000 0x100000 216 184 sample_reloc_image = Inr (Inr sample_reloc_image)"
    by (subst apply_blocks.simps) (simp add: words same entry_count_12 del: apply_entries.simps)
  then show ?thesis
    by (simp add: fixup_reloc_def sample_directory sample_headers_def words)
qed

theorem relocation_at_base_witness: "\<exists>img. fixup_reloc 0x100000 0 sample_headers sample_reloc_image = Inr (Inr img) \<and> img = sample_reloc_image"
proof -
  have "fixup_reloc (of_nat (n_image_base sample_headers)) 0 sample_headers sample_reloc_image = Inr (Inr sample_reloc_image)"
    using sample_relocation_at_base by (simp add: sample_headers_def)
  from relocation_at_base [OF this] sample_relocation_at_base show ?thesis
    by blast
qed

section \<open>Threads\<close>

text \<open>
  C11: In every state that the operations of the loader reach, in any order and on any threads, no thread
  is attached twice to an image or to more than 32, \<open>g_pending_image_count\<close> is the number of threads
  inside a process attach, and loaded and pending images together fit \<open>g_loaded_images\<close>: the append in
  \<open>pe_finish_process_attach\<close>, which checks nothing, stays in the array.
\<close>
theorem loader_reachable:
  assumes "loader_step\<^sup>*\<^sup>* (initial_images im answers) m"
  shows "(\<forall>t c. context_of t m = Some c \<longrightarrow> distinct (c_attached c) \<and> length (c_attached c) \<le> 32) \<and>
    finite (attaching m) \<and> m_pending m = card (attaching m) \<and> length (m_loaded m) + m_pending m \<le> 32"
  using loader_reachable_ok [OF assms]
  by (auto simp: images_ok_def contexts_ok_def context_ok_def MAX_LOADED_IMAGES_def)

definition plain_image :: loaded_image where
  "plain_image = \<lparr>i_tls = None, i_index = 0, i_entry = True, i_quiet = False, i_registered = False\<rparr>"

definition sample_begun :: images where
  "sample_begun = snd (pe_begin_process_attach 1 5 (initial_images (\<lambda>_. plain_image) []))"

theorem loader_reachable_witness: "m_pending sample_begun = card (attaching sample_begun) \<and> m_pending sample_begun = 1"
proof -
  have "loader_step\<^sup>*\<^sup>* (initial_images (\<lambda>_. plain_image) []) sample_begun"
    unfolding sample_begun_def by (rule r_into_rtranclp, rule step_begin)
  from loader_reachable [OF this] show ?thesis
    by (simp add: sample_begun_def pe_begin_process_attach_def initial_images_def set_attaching_def MAX_LOADED_IMAGES_def)
qed

text \<open>
  What a thread is told when it ends: \<open>pe_cleanup_current_thread\<close> points GS at the thread's TEB,
  then tells every loaded image the thread is attached to, in reverse load order and TLS callbacks before
  the entry point, leaving out those that disabled notifications, and drains FLS last; the thread's context
  is gone afterwards.
\<close>
theorem thread_end_notifications:
  assumes "context_of t m = Some c" and "\<not> c_cleaning c" and "distinct (m_loaded m)"
  shows "m_trace (pe_cleanup_current_thread t m) = m_trace m @ [SetGs] @
      concat (map (\<lambda>img. if img \<in> set (c_attached c) then detach_events m (img, i_quiet (m_image m img)) else [])
        (rev (m_loaded m))) @ [FlsCleanup] \<and>
    context_of t (pe_cleanup_current_thread t m) = None"
  using cleanup_spec [OF assms] by simp

definition sample_images :: images where
  "sample_images = \<lparr>m_image = (\<lambda>i. if i = 2 then plain_image\<lparr>i_tls := Some \<lparr>d_callbacks = 1, d_template = [1], d_zero_fill = 1\<rparr>\<rparr> else plain_image),
     m_loaded = [1, 2, 3], m_pending = 0, m_generation = 4,
     m_thread = (\<lambda>_. \<lparr>h_context = Some \<lparr>c_attached = [1, 2], c_slots = (\<lambda>_. None), c_cleaning = False\<rparr>, h_generation = 0, h_attaching = None\<rparr>),
     m_calloc = [], m_trace = []\<rparr>"

theorem thread_end_notifications_witness:
  "m_trace (pe_cleanup_current_thread 0 sample_images) =
     [SetGs, TlsCallback 2 0 THREAD_DETACH, EntryCall 2 THREAD_DETACH, EntryCall 1 THREAD_DETACH, FlsCleanup]"
proof -
  have "context_of 0 sample_images = Some \<lparr>c_attached = [1, 2], c_slots = (\<lambda>_. None), c_cleaning = False\<rparr>"
    by (simp add: sample_images_def context_of_def)
  from thread_end_notifications [OF this] show ?thesis
    by (simp add: sample_images_def plain_image_def detach_events_def tls_callbacks_def entry_event_def)
qed

text \<open>
  C12: The fast path of \<open>pe_ensure_tls_for_loaded_images\<close>: after a call every further call changes nothing until
  an image is added. When memory is there and every image fits a TLS slot, the first call attached the
  thread to exactly the loaded images that want notifications, in load order.
\<close>
theorem ensure_attaches_once:
  assumes "contexts_ok m" and c: "context_of t m = Some c" "m_calloc m = []" and fit: "list_all (can_attach m) (m_loaded m)"
    and dist: "distinct (m_loaded m)" and room: "length (c_attached c) + length (m_loaded m) \<le> 32"
    and stale: "h_generation (m_thread m t) \<noteq> m_generation m"
  shows "pe_ensure_tls_for_loaded_images t (pe_ensure_tls_for_loaded_images t m) = pe_ensure_tls_for_loaded_images t m \<and>
    (\<exists>c'. context_of t (pe_ensure_tls_for_loaded_images t m) = Some c' \<and>
       c_attached c' = c_attached c @ filter (\<lambda>i. i \<notin> set (c_attached c) \<and> \<not> i_quiet (m_image m i)) (m_loaded m))"
proof
  show "pe_ensure_tls_for_loaded_images t (pe_ensure_tls_for_loaded_images t m) = pe_ensure_tls_for_loaded_images t m"
    using assms(1) by (rule ensure_idempotent)
next
  have fst: "map fst (snapshot m) = m_loaded m"
    by (simp add: snapshot_def comp_def)
  have "\<forall>x \<in> set (snapshot m). can_attach m (fst x)"
    using fit by (auto simp: snapshot_def list_all_iff)
  from attach_all_spec [OF c this] dist room obtain c' where
    "context_of t (pe_notify_loaded_images t THREAD_ATTACH m) = Some c'"
    "c_attached c' = c_attached c @ wanted (c_attached c) (snapshot m)"
    using c(1) by (auto simp: fst pe_notify_loaded_images_def get_nt_thread_context_def MAX_LOADED_IMAGES_def
        snapshot_def comp_def)
  moreover have "wanted (c_attached c) (snapshot m) =
      filter (\<lambda>i. i \<notin> set (c_attached c) \<and> \<not> i_quiet (m_image m i)) (m_loaded m)"
    by (simp add: wanted_def snapshot_def filter_map comp_def)
  ultimately show "\<exists>c'. context_of t (pe_ensure_tls_for_loaded_images t m) = Some c' \<and>
      c_attached c' = c_attached c @ filter (\<lambda>i. i \<notin> set (c_attached c) \<and> \<not> i_quiet (m_image m i)) (m_loaded m)"
    using stale by (simp add: pe_ensure_tls_for_loaded_images_def Let_def set_thread_generation_def context_of_def)
qed

theorem ensure_attaches_once_witness:
  "\<exists>c'. context_of 0 (pe_ensure_tls_for_loaded_images 0 sample_images) = Some c' \<and> c_attached c' = [1, 2, 3]"
proof -
  have c: "context_of 0 sample_images = Some \<lparr>c_attached = [1, 2], c_slots = (\<lambda>_. None), c_cleaning = False\<rparr>"
    by (simp add: sample_images_def context_of_def)
  have "contexts_ok sample_images"
    by (simp add: sample_images_def contexts_ok_def context_of_def context_ok_def MAX_LOADED_IMAGES_def)
  from ensure_attaches_once [OF this c] show ?thesis
    by (simp add: sample_images_def can_attach_def plain_image_def MAX_TLS_SLOTS_def)
qed

section \<open>Files\<close>

text \<open>
  Reading the input and writing the output end, and with interrupted and short calls, as long as none
  fails, they succeed: the loop of \<open>read_file\<close> returns the whole file and the loop of \<open>write_output\<close> sends
  every byte. Whatever the calls do, what was read or sent is a prefix.
\<close>
theorem io_loops_complete:
  "list_all benign answers \<Longrightarrow> read_loop content (length content) [] answers = (Inr content, snd (read_loop content (length content) [] answers)) \<and>
     fst (snd (write_loop out [] answers)) = out \<and> fst (write_loop out [] answers) = Inr ()"
proof -
  assume ok: "list_all benign answers"
  have "is_prefix [] content" "is_prefix [] out"
    by (simp_all add: is_prefix_def)
  then have "fst (read_loop content (length content) [] answers) = Inr content" "fst (write_loop out [] answers) = Inr ()"
    using read_loop_benign [OF ok] write_loop_benign [OF ok] by simp_all
  moreover obtain r sent rest where w: "write_loop out [] answers = (r, sent, rest)"
    by (cases "write_loop out [] answers")
  ultimately show ?thesis
    using write_loop_content [OF w] by (simp add: is_prefix_def prod_eq_iff)
qed

theorem io_loops_complete_witness:
  "read_loop [1, 2, 3] 3 [] [Interrupted, Part 0, Interrupted] = (Inr [1, 2, 3], snd (read_loop [1, 2, 3] 3 [] [Interrupted, Part 0, Interrupted]))"
  using io_loops_complete [of "[Interrupted, Part 0, Interrupted]" "[1, 2, 3]"] by (simp add: benign_def numeral_3_eq_3)

text \<open>
  C13: \<open>generate_sidecar\<close> publishes atomically. Existing files keep their contents; every other name keeps its
  file, the temporary one excepted; when it fails, the sidecar's name refers to what it did before; when
  it succeeds, that name refers to a complete ELF that \<open>build_elf\<close> made of the PE, and the temporary name is
  gone.
\<close>
theorem sidecar_published_atomically:
  assumes "generate_sidecar suffix filename sidecar s = (ok, s')" and "inodes_ok s"
  shows "(\<forall>n. n \<notin> {sidecar, temporary_name sidecar suffix} \<longrightarrow> os_name s' n = os_name s n) \<and>
    (\<forall>i < os_next s. os_data s' i = os_data s i) \<and>
    (if ok then \<exists>i fd. os_name s filename = Some i \<and> os_name s' sidecar = Some fd \<and>
       sidecar_of filename (os_data s i) (os_data s' fd) \<and> os_name s' (temporary_name sidecar suffix) = None
     else os_name s' sidecar = os_name s sidecar)"
  using generate_sidecar_atomic [OF assms] by simp

definition sample_os :: "answer list \<Rightarrow> os" where
  "sample_os answers = \<lparr>os_name = [''/f.dll'' \<mapsto> 0], os_data = (\<lambda>_. sample_pe), os_next = 1, os_answers = answers\<rparr>"

lemma sample_inodes: "inodes_ok (sample_os answers)"
  by (simp add: inodes_ok_def sample_os_def)

theorem sidecar_published_atomically_witness:
  "os_name (snd (generate_sidecar ''abcdef'' ''/f.dll'' ''/c/f.dll'' (sample_os [Ok, Failed]))) ''/c/f.dll'' = None"
proof -
  let ?run = "generate_sidecar ''abcdef'' ''/f.dll'' ''/c/f.dll'' (sample_os [Ok, Failed])"
  have no: "\<not> fst ?run"
    by (simp add: generate_sidecar_def mkstemp_def ask_def sample_os_def temporary_name_def Let_def)
  from sidecar_published_atomically [OF prod.collapse [of ?run, symmetric] sample_inodes] no show ?thesis
    by (simp add: sample_os_def)
qed

text \<open>
  C14: The generator and the loader agree: a dynamic linker that resolves the markers of a generated sidecar
  through its hash table finds the PE image below the end marker, and, when no system call fails,
  \<open>sidecar_matches_pe\<close> accepts the sidecar for a file if and only if the file has the size and the 64-bit FNV
  fingerprint of the input. So the input itself is accepted, and a file of another size or fingerprint is
  not; a different file of the same size whose fingerprint collides is accepted too.
\<close>
theorem generated_sidecar_accepted:
  assumes "parse_pe data = Inr pe" and "plan_elf pe path = Some (Inr p)" and "build_elf pe path = Some (Inr out)"
    and "length data < 2 ^ 64" and "os_name s filename = Some fd" and "list_all succeeds (os_answers s)"
  shows "k_memory (built_view base pe path p out) = p_image pe \<and>
    fst (sidecar_matches_pe (built_view base pe path p out) filename s) =
      (length (os_data s fd) = length data \<and> fingerprint (os_data s fd) = fingerprint data)"
proof -
  note view = built_view_describes [OF assms(1-4)]
  let ?k = "built_view base pe path p out"
  have "fst (sidecar_matches_pe ?k filename s) = describes ?k (os_data s fd)"
  proof
    assume "fst (sidecar_matches_pe ?k filename s)"
    then have "sidecar_matches_pe ?k filename s = (True, snd (sidecar_matches_pe ?k filename s))"
      by (simp add: prod_eq_iff)
    from sidecar_matches_sound [OF this] assms(5) show "describes ?k (os_data s fd)"
      by simp
  qed (use sidecar_matches_complete assms(5,6) in blast)
  then show ?thesis
    using view by (auto simp: describes_def simp flip: word_unat_eq_iff)
qed

theorem generated_sidecar_accepted_witness:
  "\<exists>p out. build_elf sample_parsed sample_path = Some (Inr out) \<and>
     fst (sidecar_matches_pe (built_view 0x1000 sample_parsed sample_path p out) ''/f.dll'' (sample_os [Part 3]))"
proof -
  obtain p where p: "plan_elf sample_parsed sample_path = Some (Inr p)"
    using sample_plan by blast
  then obtain out where out: "build_elf sample_parsed sample_path = Some (Inr out)"
    using build_elf_writes by blast
  have "os_name (sample_os [Part 3]) ''/f.dll'' = Some 0" "list_all succeeds (os_answers (sample_os [Part 3]))"
    "os_data (sample_os [Part 3]) 0 = sample_pe"
    by (simp_all add: sample_os_def)
  with generated_sidecar_accepted [OF parse_sample p out _ this(1,2)] out show ?thesis
    by auto
qed

section \<open>Loading\<close>

text \<open>
  \<open>pe_load_library\<close>, whatever calls fail: either it returns true, the thread's GS base and FPU state are set,
  and the image is the raw file or a verified sidecar's memory with exactly one handle or mapping
  held; or it returns false and holds nothing.
\<close>
theorem load_library_outcome:
  assumes "pe_load_library dlopen q base suffix t filename sidecar_path img s = (ok, s')" and "inodes_ok (s_os s)"
    and "\<And>p. sidecar_path = Some p \<Longrightarrow> filename \<noteq> p \<and> filename \<noteq> temporary_name p suffix"
  shows "if ok then thread_ready q t s' \<and> (\<exists>fd. os_name (s_os s) filename = Some fd \<and>
      (loaded_raw base (os_data (s_os s) fd) img s s' \<or>
       (\<exists>path. sidecar_path = Some path \<and> loaded_from_sidecar dlopen path (os_data (s_os s) fd) img s s')))
    else unloaded img s s'"
  using pe_load_library_spec [OF assms(1,2)] assms(3) by (cases ok) auto

definition sample_platform :: platform where
  "sample_platform = \<lparr>q_ftz = True, q_fsgsbase = True, q_attr = True, q_stack = Some (0x7000, 0x1000), q_marker = 0\<rparr>"

definition sample_process :: "answer list \<Rightarrow> process" where
  "sample_process answers = \<lparr>s_os = sample_os answers, s_images = initial_images (\<lambda>_. plain_image) [],
     s_teb = (\<lambda>t. fresh_teb (0x4000 + of_nat t)), s_cpu = (\<lambda>_. \<lparr>u_mxcsr = 0x1F80, u_gs = 0\<rparr>),
     s_file = (\<lambda>_. \<lparr>g_memory = None, g_size = 0, g_base = 0, g_handle = False, g_sidecar_path = None\<rparr>),
     s_handles = 0, s_mapped = (\<lambda>_. 0)\<rparr>"

theorem load_library_outcome_witness:
  "unloaded 5 (sample_process [Failed])
     (snd (pe_load_library (\<lambda>_. None) sample_platform 0x1000 ''abcdef'' 1 ''/f.dll'' None 5 (sample_process [Failed])))"
proof -
  let ?run = "pe_load_library (\<lambda>_. None) sample_platform 0x1000 ''abcdef'' 1 ''/f.dll'' None 5 (sample_process [Failed])"
  have no: "\<not> fst ?run"
    by (simp add: pe_load_library_def load_raw_pe_def ask_os_def ask_def sample_process_def sample_os_def
        reset_image_def Let_def split: prod.splits)
  have "inodes_ok (s_os (sample_process [Failed]))"
    by (simp add: sample_process_def sample_inodes)
  from load_library_outcome [OF prod.collapse [of ?run, symmetric] this] no show ?thesis
    by simp
qed

text \<open>
  \<open>setup_nt_threadinfo\<close>: a successful call leaves GS at the thread's TEB and FTZ and DAZ set with all
  other MXCSR bits as they were; with FSGSBASE and the stack bounds known a second call changes nothing and
  makes no system call.
\<close>
theorem thread_setup:
  assumes "setup_nt_threadinfo q t handler s = (True, s')"
  shows "u_gs (s_cpu s' t) = b_address (s_teb s' t) \<and>
    u_mxcsr (s_cpu s' t) = (if q_ftz q then u_mxcsr (s_cpu s t) OR FtzDaz else u_mxcsr (s_cpu s t)) \<and>
    (\<not> q_fsgsbase q \<or> b_stack_base (s_teb s' t) = 0 \<or> b_stack_limit (s_teb s' t) = 0 \<or>
     setup_nt_threadinfo q t None s' = (True, s'))"
  using setup_nt_threadinfo_ready [OF assms] setup_nt_threadinfo_again [of q t s']
  by (auto simp: thread_ready_def)

definition sample_cpu :: "bool \<times> process" where
  "sample_cpu = setup_nt_threadinfo sample_platform 1 None (sample_process [])"

theorem thread_setup_witness:
  "fst sample_cpu \<and> u_mxcsr (s_cpu (snd sample_cpu) 1) = 0x9FC0"
proof -
  have ok: "fst sample_cpu"
    by (simp add: sample_cpu_def setup_nt_threadinfo_def get_context_def get_nt_thread_context_def sample_process_def
        context_of_def initial_images_def calloc_def sample_os_def ask_os_def ask_def fill_teb_def Let_def)
  then have "setup_nt_threadinfo sample_platform 1 None (sample_process []) = (True, snd sample_cpu)"
    by (simp add: sample_cpu_def prod_eq_iff)
  from thread_setup [OF this] ok show ?thesis
    by (simp add: sample_platform_def sample_process_def FtzDaz_def)
qed

end
