(* ===== verification/Transition.thy ===== *)
theory Transition
  imports Prelude
begin

text \<open>
  The two contracts the state machines of the development share: a step relation with an invariant, and a
  step relation that implements a specification under an abstraction.
\<close>

locale invariant_system =
  fixes step :: "'s \<Rightarrow> 's \<Rightarrow> bool" and start inv :: "'s \<Rightarrow> bool"
  assumes start_inv: "start s \<Longrightarrow> inv s"
    and step_inv: "step s s' \<Longrightarrow> inv s \<Longrightarrow> inv s'"
begin

lemma reachable_inv:
  assumes "step\<^sup>*\<^sup>* s0 s" and "start s0"
  shows "inv s"
  using assms by (induction rule: rtranclp_induct) (auto intro: start_inv step_inv)

end

text \<open>Every step of the code from a state of the invariant is invisible or one step of the specification.\<close>

locale refinement = invariant_system step start inv
  for step :: "'s \<Rightarrow> 's \<Rightarrow> bool" and start inv :: "'s \<Rightarrow> bool" +
  fixes spec :: "'a \<Rightarrow> 'a \<Rightarrow> bool" and abs_state :: "'s \<Rightarrow> 'a"
  assumes simulates: "step s s' \<Longrightarrow> inv s \<Longrightarrow> abs_state s' = abs_state s \<or> spec (abs_state s) (abs_state s')"
begin

lemma runs_implement:
  assumes "step\<^sup>*\<^sup>* s0 s" and "start s0"
  shows "spec\<^sup>*\<^sup>* (abs_state s0) (abs_state s)"
  using assms
proof (induction rule: rtranclp_induct)
  case (step s s')
  then show ?case
    using simulates [OF step(2) reachable_inv [OF step(1)]] by (auto intro: rtranclp.rtrancl_into_rtrancl)
qed simp

end

end
