(* ===== verification/Win_Slots.thy ===== *)
theory Win_Slots
  imports Transition
begin

text \<open>
  Thread-local and fiber-local slots of \<open>src/src/winlibs.cpp\<close>: \<open>TlsAlloc\<close>, \<open>TlsFree\<close>,
  \<open>TlsSetValue\<close>, \<open>TlsGetValue\<close> over pthread keys, and \<open>FlsAlloc\<close>, \<open>FlsFree\<close>, \<open>FlsSetValue\<close>,
  \<open>FlsGetValue\<close> and the drain at thread exit over an array of slots. Values are 64-bit words, 0 the
  null pointer. The TLS functions, \<open>FlsAlloc\<close>, the locked part of \<open>FlsFree\<close> and each pass of the drain run
  under their mutex and are one step. \<open>FlsSetValue\<close> and \<open>FlsGetValue\<close> take no lock: they check the slot
  and then access the value, two steps between which other threads run; the section on interleavings says
  what holds of them. Calls that can fail (\<open>pthread_key_create\<close>, \<open>pthread_setspecific\<close>, \<open>new\<close>) take an
  answer from a list, success when it is used up.
\<close>

type_synonym thread = nat

section \<open>The contract\<close>

datatype 'i slot_op = Alloc | Free 'i | Set thread 'i u64

fun touches :: "thread \<Rightarrow> 'i \<Rightarrow> 'i slot_op \<Rightarrow> bool" where
  "touches t i Alloc = False"
| "touches t i (Free j) = (j = i)"
| "touches t i (Set u j v) = (u = t \<and> j = i)"

text \<open>What code that keeps a value per thread in a slot relies on.\<close>
locale thread_slots =
  fixes alloc :: "'s \<Rightarrow> 'i option \<times> 's"
    and free :: "'i \<Rightarrow> 's \<Rightarrow> bool \<times> 's"
    and set_slot :: "thread \<Rightarrow> 'i \<Rightarrow> u64 \<Rightarrow> 's \<Rightarrow> bool \<times> 's"
    and get_slot :: "thread \<Rightarrow> 'i \<Rightarrow> 's \<Rightarrow> u64"
    and live :: "'i \<Rightarrow> 's \<Rightarrow> bool"
    and ok :: "'s \<Rightarrow> bool"
  assumes alloc_ok: "ok s \<Longrightarrow> alloc s = (r, s') \<Longrightarrow> ok s'"
    and free_ok: "ok s \<Longrightarrow> free i s = (b, s') \<Longrightarrow> ok s'"
    and set_ok: "ok s \<Longrightarrow> set_slot t i v s = (b, s') \<Longrightarrow> ok s'"
    and alloc_fresh: "ok s \<Longrightarrow> alloc s = (Some i, s') \<Longrightarrow> \<not> live i s \<and> live i s' \<and> get_slot t i s' = 0"
    and alloc_other: "ok s \<Longrightarrow> alloc s = (r, s') \<Longrightarrow> live j s \<Longrightarrow> live j s' \<and> get_slot t j s' = get_slot t j s"
    and free_dead: "ok s \<Longrightarrow> free i s = (b, s') \<Longrightarrow> b = live i s \<and> \<not> live i s'"
    and free_other: "ok s \<Longrightarrow> free i s = (b, s') \<Longrightarrow> j \<noteq> i \<Longrightarrow> live j s' = live j s \<and> get_slot t j s' = get_slot t j s"
    and dead_null: "ok s \<Longrightarrow> \<not> live i s \<Longrightarrow> get_slot t i s = 0"
    and set_dead: "ok s \<Longrightarrow> \<not> live i s \<Longrightarrow> fst (set_slot t i v s) = False"
    and set_live: "ok s \<Longrightarrow> set_slot t i v s = (b, s') \<Longrightarrow> live j s' = live j s"
    and get_set: "ok s \<Longrightarrow> set_slot t i v s = (True, s') \<Longrightarrow> get_slot t i s' = v"
    and get_set_other: "ok s \<Longrightarrow> set_slot t i v s = (b, s') \<Longrightarrow> t' \<noteq> t \<or> j \<noteq> i \<Longrightarrow> get_slot t' j s' = get_slot t' j s"
    and get_set_failed: "ok s \<Longrightarrow> set_slot t i v s = (False, s') \<Longrightarrow> get_slot t i s' = get_slot t i s"
begin

text \<open>A slot that is freed and handed out again never shows an old value.\<close>

lemma reused_slot_null:
  assumes "ok s" and "free i s = (b, s1)" and "alloc s1 = (Some j, s2)"
  shows "get_slot t j s2 = 0"
  using assms alloc_fresh free_ok by blast

text \<open>Slots of one user are not disturbed by the allocations, frees and sets of others.\<close>

fun slot_step :: "'i slot_op \<Rightarrow> 's \<Rightarrow> 's" where
  "slot_step Alloc s = snd (alloc s)"
| "slot_step (Free i) s = snd (free i s)"
| "slot_step (Set t i v) s = snd (set_slot t i v s)"

lemma slot_step_ok: "ok s \<Longrightarrow> ok (slot_step x s)"
  by (cases x) (auto intro: alloc_ok free_ok set_ok prod.collapse [symmetric])

lemma slot_step_keeps:
  assumes "ok s" and "live i s" and "\<not> touches t i x"
  shows "live i (slot_step x s) \<and> get_slot t i (slot_step x s) = get_slot t i s"
proof (cases x)
  case Alloc
  then show ?thesis
    using alloc_other [OF assms(1) prod.collapse [symmetric] assms(2)] by simp
next
  case (Free j)
  then show ?thesis
    using free_other [OF assms(1) prod.collapse [symmetric], where j = i and t = t] assms by auto
next
  case (Set u j v)
  have "live i (slot_step x s)"
    using set_live [OF assms(1) prod.collapse [symmetric]] assms(2) Set by simp
  moreover have "get_slot t i (slot_step x s) = get_slot t i s"
    using get_set_other [OF assms(1) prod.collapse [symmetric], where t' = t and j = i] assms(3) Set by auto
  ultimately show ?thesis
    by simp
qed

lemma slot_steps_keep:
  assumes "ok s" and "live i s" and "list_all (\<lambda>x. \<not> touches t i x) xs"
  shows "live i (fold slot_step xs s) \<and> get_slot t i (fold slot_step xs s) = get_slot t i s"
  using assms
proof (induction xs arbitrary: s)
  case (Cons x xs)
  have "live i (slot_step x s) \<and> get_slot t i (slot_step x s) = get_slot t i s"
    using Cons.prems by (intro slot_step_keeps) simp_all
  then show ?case
    using Cons.IH [of "slot_step x s"] Cons.prems slot_step_ok by simp
qed simp

end

section \<open>Thread-local slots\<close>

text \<open>
  A pthread key is a number, new ones are unused; \<open>pthread_getspecific\<close> of a new key is null in every
  thread. \<open>g_next_tls_index\<close> counts up and is never reset: indices are not reused. It is a \<open>DWORD\<close>; the
  model covers the first \<open>2 ^ 32 - 1\<close> allocations, before it wraps.
\<close>

record tls_state =
  x_next :: nat
  x_keys :: "nat \<Rightarrow> nat option"
  x_next_key :: nat
  x_specific :: "nat \<Rightarrow> thread \<Rightarrow> u64"
  x_answers :: "bool list"

definition initial_tls :: "bool list \<Rightarrow> tls_state" where
  "initial_tls answers = \<lparr>x_next = 1, x_keys = (\<lambda>_. None), x_next_key = 0, x_specific = (\<lambda>_ _. 0), x_answers = answers\<rparr>"

definition tls_ask :: "tls_state \<Rightarrow> bool \<times> tls_state" where
  "tls_ask s = (case x_answers s of [] \<Rightarrow> (True, s) | b # bs \<Rightarrow> (b, s\<lparr>x_answers := bs\<rparr>))"

definition TlsAlloc :: "tls_state \<Rightarrow> nat option \<times> tls_state" where
  "TlsAlloc s =
     (case tls_ask s of (created, s) \<Rightarrow>
      if \<not> created then (None, s)
      else (Some (x_next s), s\<lparr>x_next := x_next s + 1, x_keys := (x_keys s)(x_next s \<mapsto> x_next_key s),
             x_next_key := x_next_key s + 1\<rparr>))"

definition TlsFree :: "nat \<Rightarrow> tls_state \<Rightarrow> bool \<times> tls_state" where
  "TlsFree index s =
     (case x_keys s index of None \<Rightarrow> (False, s) | Some key \<Rightarrow> (True, s\<lparr>x_keys := (x_keys s)(index := None)\<rparr>))"

definition TlsGetValue :: "thread \<Rightarrow> nat \<Rightarrow> tls_state \<Rightarrow> u64" where
  "TlsGetValue t index s = (case x_keys s index of None \<Rightarrow> 0 | Some key \<Rightarrow> x_specific s key t)"

definition TlsSetValue :: "thread \<Rightarrow> nat \<Rightarrow> u64 \<Rightarrow> tls_state \<Rightarrow> bool \<times> tls_state" where
  "TlsSetValue t index v s =
     (case x_keys s index of
        None \<Rightarrow> (False, s)
      | Some key \<Rightarrow>
        (case tls_ask s of (stored, s) \<Rightarrow>
         if stored then (True, s\<lparr>x_specific := (x_specific s)(key := (x_specific s key)(t := v))\<rparr>) else (False, s)))"

definition tls_ok :: "tls_state \<Rightarrow> bool" where
  "tls_ok s \<longleftrightarrow> (\<forall>i k. x_keys s i = Some k \<longrightarrow> i < x_next s \<and> k < x_next_key s) \<and>
     (\<forall>i j k. x_keys s i = Some k \<longrightarrow> x_keys s j = Some k \<longrightarrow> i = j) \<and>
     (\<forall>k t. x_next_key s \<le> k \<longrightarrow> x_specific s k t = 0)"

definition tls_live :: "nat \<Rightarrow> tls_state \<Rightarrow> bool" where
  "tls_live i s \<longleftrightarrow> x_keys s i \<noteq> None"

lemma tls_ask_frame:
  assumes "tls_ask s = (b, s')"
  shows "x_next s' = x_next s" "x_keys s' = x_keys s" "x_next_key s' = x_next_key s" "x_specific s' = x_specific s"
  using assms by (auto simp: tls_ask_def split: list.splits)

lemmas tls_defs = TlsAlloc_def TlsFree_def TlsSetValue_def TlsGetValue_def tls_live_def

lemma tls_ok_next: "tls_ok s \<Longrightarrow> x_keys s (x_next s) = None"
  by (cases "x_keys s (x_next s)") (auto simp: tls_ok_def)

lemma tls_ok_ask: "tls_ask s = (b, s') \<Longrightarrow> tls_ok s' = tls_ok s"
  by (simp add: tls_ok_def tls_ask_frame)

interpretation tls: thread_slots TlsAlloc TlsFree TlsSetValue TlsGetValue tls_live tls_ok
proof unfold_locales
  fix s r s' assume ok: "tls_ok s" and run: "TlsAlloc s = (r, s')"
  obtain b s1 where a: "tls_ask s = (b, s1)" by (cases "tls_ask s")
  have "tls_ok s1" using ok a tls_ok_ask by simp
  then show "tls_ok s'"
    using run by (fastforce simp: TlsAlloc_def a tls_ok_def less_Suc_eq split: if_splits)
next
  fix s i b s' assume "tls_ok s" and "TlsFree i s = (b, s')"
  then show "tls_ok s'"
    by (auto simp: TlsFree_def tls_ok_def split: option.splits if_splits)
next
  fix s t i v b s' assume ok: "tls_ok s" and run: "TlsSetValue t i v s = (b, s')"
  obtain c s1 where a: "tls_ask s = (c, s1)" by (cases "tls_ask s")
  have "tls_ok s1" "x_keys s1 = x_keys s" using ok a tls_ok_ask tls_ask_frame by simp_all
  then show "tls_ok s'"
    using run ok by (fastforce simp: TlsSetValue_def a tls_ok_def split: option.splits if_splits dest: leD)
next
  fix s i s' t assume ok: "tls_ok s" and run: "TlsAlloc s = (Some i, s')"
  obtain b s1 where a: "tls_ask s = (b, s1)" by (cases "tls_ask s")
  show "\<not> tls_live i s \<and> tls_live i s' \<and> TlsGetValue t i s' = 0"
    using run ok tls_ok_next [OF ok] tls_ask_frame [OF a] by (auto simp: tls_defs a tls_ok_def split: if_splits)
next
  fix s r s' j t assume ok: "tls_ok s" and run: "TlsAlloc s = (r, s')" and "tls_live j s"
  moreover obtain b s1 where a: "tls_ask s = (b, s1)" by (cases "tls_ask s")
  ultimately show "tls_live j s' \<and> TlsGetValue t j s' = TlsGetValue t j s"
    using tls_ask_frame [OF a] tls_ok_next [OF ok] by (auto simp: tls_defs a split: if_splits)
next
  fix s i b s' assume "tls_ok s" and "TlsFree i s = (b, s')"
  then show "b = tls_live i s \<and> \<not> tls_live i s'"
    by (auto simp: tls_defs split: option.splits)
next
  fix s i b s' j t assume "tls_ok s" and "TlsFree i s = (b, s')" and "j \<noteq> i"
  then show "tls_live j s' = tls_live j s \<and> TlsGetValue t j s' = TlsGetValue t j s"
    by (auto simp: tls_defs split: option.splits)
next
  fix s i t assume "\<not> tls_live i s"
  then show "TlsGetValue t i s = 0"
    by (simp add: tls_defs)
next
  fix s i t v assume "\<not> tls_live i s"
  then show "fst (TlsSetValue t i v s) = False"
    by (simp add: tls_defs)
next
  fix s t i v b s' j assume "TlsSetValue t i v s = (b, s')"
  moreover obtain c s1 where a: "tls_ask s = (c, s1)" by (cases "tls_ask s")
  ultimately show "tls_live j s' = tls_live j s"
    using tls_ask_frame [OF a] by (auto simp: tls_defs a split: option.splits if_splits)
next
  fix s t i v s' assume "TlsSetValue t i v s = (True, s')"
  moreover obtain c s1 where a: "tls_ask s = (c, s1)" by (cases "tls_ask s")
  ultimately show "TlsGetValue t i s' = v"
    using tls_ask_frame [OF a] by (auto simp: tls_defs a split: option.splits if_splits)
next
  fix s t i v b s' t' j assume ok: "tls_ok s" and "TlsSetValue t i v s = (b, s')" and "t' \<noteq> t \<or> j \<noteq> i"
  moreover obtain c s1 where a: "tls_ask s = (c, s1)" by (cases "tls_ask s")
  ultimately show "TlsGetValue t' j s' = TlsGetValue t' j s"
    using tls_ask_frame [OF a] by (auto simp: tls_defs a tls_ok_def split: option.splits if_splits)
next
  fix s t i v s' assume "TlsSetValue t i v s = (False, s')"
  moreover obtain c s1 where a: "tls_ask s = (c, s1)" by (cases "tls_ask s")
  ultimately show "TlsGetValue t i s' = TlsGetValue t i s"
    using tls_ask_frame [OF a] by (auto simp: tls_defs a split: option.splits if_splits)
qed

section \<open>Fiber-local slots\<close>

text \<open>
  A slot is free (\<open>None\<close>) or allocated with an optional callback. \<open>f_values\<close> is the state of the
  threads that have one, \<open>f_threads\<close> their registration order. The callbacks are PE code: a function
  from callback, value and state to the state after the call.
\<close>

record fls =
  f_slot :: "nat \<Rightarrow> nat option option"
  f_values :: "thread \<Rightarrow> (nat \<Rightarrow> u64) option"
  f_threads :: "thread list"
  f_answers :: "bool list"

definition MAX_FLS_SLOTS :: nat where "MAX_FLS_SLOTS = 1024"
definition PTHREAD_DESTRUCTOR_ITERATIONS :: nat where "PTHREAD_DESTRUCTOR_ITERATIONS = 4"

definition initial_fls :: "bool list \<Rightarrow> fls" where
  "initial_fls answers = \<lparr>f_slot = (\<lambda>_. None), f_values = (\<lambda>_. None), f_threads = [], f_answers = answers\<rparr>"

definition fls_ask :: "fls \<Rightarrow> bool \<times> fls" where
  "fls_ask s = (case f_answers s of [] \<Rightarrow> (True, s) | b # bs \<Rightarrow> (b, s\<lparr>f_answers := bs\<rparr>))"

text \<open>\<open>new\<close> and \<open>pthread_setspecific\<close> both have to succeed.\<close>

definition get_fls_state :: "thread \<Rightarrow> fls \<Rightarrow> bool \<times> fls" where
  "get_fls_state t s =
     (if f_values s t \<noteq> None then (True, s)
      else case fls_ask s of (made, s) \<Rightarrow>
        if \<not> made then (False, s)
        else case fls_ask s of (stored, s) \<Rightarrow>
          if \<not> stored then (False, s)
          else (True, s\<lparr>f_values := (f_values s)(t \<mapsto> (\<lambda>_. 0)), f_threads := f_threads s @ [t]\<rparr>))"

definition FlsAlloc :: "nat option \<Rightarrow> fls \<Rightarrow> nat option \<times> fls" where
  "FlsAlloc callback s =
     (case find (\<lambda>i. f_slot s i = None) [0..<MAX_FLS_SLOTS] of
        None \<Rightarrow> (None, s)
      | Some i \<Rightarrow> (Some i, s\<lparr>f_slot := (f_slot s)(i \<mapsto> callback)\<rparr>))"

definition slot_value :: "fls \<Rightarrow> thread \<Rightarrow> nat \<Rightarrow> u64" where
  "slot_value s t i = (case f_values s t of None \<Rightarrow> 0 | Some vs \<Rightarrow> vs i)"

text \<open>The calls \<open>FlsFree\<close> makes, in registration order, and the state before them.\<close>

definition fls_free_calls :: "nat \<Rightarrow> fls \<Rightarrow> (nat \<times> u64) list" where
  "fls_free_calls index s =
     (case f_slot s index of
        Some (Some callback) \<Rightarrow>
          map (\<lambda>t. (callback, slot_value s t index)) (filter (\<lambda>t. slot_value s t index \<noteq> 0) (f_threads s))
      | _ \<Rightarrow> [])"

definition fls_clear :: "nat \<Rightarrow> fls \<Rightarrow> fls" where
  "fls_clear index s =
     s\<lparr>f_slot := (f_slot s)(index := None),
       f_values := (\<lambda>t. if t \<in> set (f_threads s) then map_option (\<lambda>vs. vs(index := 0)) (f_values s t) else f_values s t)\<rparr>"

text \<open>The part of \<open>FlsFree\<close> under the lock, with the calls it leaves to make; then the calls.\<close>

definition FlsFree_locked :: "nat \<Rightarrow> fls \<Rightarrow> (nat \<times> u64) list option \<times> fls" where
  "FlsFree_locked index s =
     (if index \<ge> MAX_FLS_SLOTS then (None, s)
      else if f_slot s index = None then (None, s)
      else (Some (fls_free_calls index s), fls_clear index s))"

definition FlsFree :: "(nat \<Rightarrow> u64 \<Rightarrow> fls \<Rightarrow> fls) \<Rightarrow> nat \<Rightarrow> fls \<Rightarrow> bool \<times> fls" where
  "FlsFree run index s =
     (case FlsFree_locked index s of
        (None, s) \<Rightarrow> (False, s)
      | (Some calls, s) \<Rightarrow> (True, fold (\<lambda>(callback, v). run callback v) calls s))"

text \<open>
  The two halves of the functions without a lock: \<open>FlsSetValue\<close> and \<open>FlsGetValue\<close> begin alike, with the
  thread's state and the check of the slot, and end with the access. The functions run alone are the
  halves in a row.
\<close>

definition fls_check :: "thread \<Rightarrow> nat \<Rightarrow> fls \<Rightarrow> bool \<times> fls" where
  "fls_check t index s =
     (if index \<ge> MAX_FLS_SLOTS then (False, s)
      else case get_fls_state t s of (made, s) \<Rightarrow>
        if \<not> made then (False, s) else (f_slot s index \<noteq> None, s))"

definition fls_store :: "thread \<Rightarrow> nat \<Rightarrow> u64 \<Rightarrow> fls \<Rightarrow> fls" where
  "fls_store t index v s = s\<lparr>f_values := (f_values s)(t := map_option (\<lambda>vs. vs(index := v)) (f_values s t))\<rparr>"

definition FlsSetValue :: "thread \<Rightarrow> nat \<Rightarrow> u64 \<Rightarrow> fls \<Rightarrow> bool \<times> fls" where
  "FlsSetValue t index v s =
     (case fls_check t index s of (go, s) \<Rightarrow> if go then (True, fls_store t index v s) else (False, s))"

definition FlsGetValue :: "thread \<Rightarrow> nat \<Rightarrow> fls \<Rightarrow> u64 \<times> fls" where
  "FlsGetValue t index s =
     (case fls_check t index s of (go, s) \<Rightarrow> if go then (slot_value s t index, s) else (0, s))"

text \<open>One pass of the drain takes the values of the allocated slots out and keeps the calls.\<close>

definition fls_pending :: "thread \<Rightarrow> fls \<Rightarrow> nat list" where
  "fls_pending t s = filter (\<lambda>i. slot_value s t i \<noteq> 0 \<and> f_slot s i \<noteq> None) [0..<MAX_FLS_SLOTS]"

definition fls_calls :: "thread \<Rightarrow> fls \<Rightarrow> (nat \<times> u64) list" where
  "fls_calls t s =
     List.map_filter (\<lambda>i. case f_slot s i of Some (Some callback) \<Rightarrow> Some (callback, slot_value s t i) | _ \<Rightarrow> None)
       (fls_pending t s)"

definition fls_take :: "thread \<Rightarrow> fls \<Rightarrow> fls" where
  "fls_take t s =
     s\<lparr>f_values := (f_values s)(t := map_option (\<lambda>vs i. if i \<in> set (fls_pending t s) then 0 else vs i) (f_values s t))\<rparr>"

fun fls_drain :: "(nat \<Rightarrow> u64 \<Rightarrow> fls \<Rightarrow> fls) \<Rightarrow> thread \<Rightarrow> nat \<Rightarrow> fls \<Rightarrow> fls" where
  "fls_drain run t 0 s = s"
| "fls_drain run t (Suc n) s =
     (let calls = fls_calls t s; s' = fls_take t s in
      if calls = [] then s' else fls_drain run t n (fold (\<lambda>(callback, v). run callback v) calls s'))"

text \<open>The end of the cleanup: the thread leaves the list and its state is deleted.\<close>

definition fls_unregister :: "thread \<Rightarrow> fls \<Rightarrow> fls" where
  "fls_unregister t s =
     s\<lparr>f_threads := filter (\<lambda>u. u \<noteq> t) (f_threads s), f_values := (f_values s)(t := None)\<rparr>"

definition winlibs_cleanup_fls_for_current_thread :: "(nat \<Rightarrow> u64 \<Rightarrow> fls \<Rightarrow> fls) \<Rightarrow> thread \<Rightarrow> fls \<Rightarrow> fls" where
  "winlibs_cleanup_fls_for_current_thread run t s =
     (if f_values s t = None then s
      else fls_unregister t (fls_drain run t PTHREAD_DESTRUCTOR_ITERATIONS s))"

subsection \<open>Correctness\<close>

definition fls_ok :: "fls \<Rightarrow> bool" where
  "fls_ok s \<longleftrightarrow> distinct (f_threads s) \<and> dom (f_values s) = set (f_threads s) \<and>
     (\<forall>i. MAX_FLS_SLOTS \<le> i \<longrightarrow> f_slot s i = None) \<and>
     (\<forall>i t. f_slot s i = None \<longrightarrow> slot_value s t i = 0)"

definition fls_live :: "nat \<Rightarrow> fls \<Rightarrow> bool" where
  "fls_live i s \<longleftrightarrow> f_slot s i \<noteq> None"

lemma dom_map_entry [simp]: "dom (m(t := map_option f (m t))) = dom m"
  by (auto split: if_splits)

lemma initial_fls_ok: "fls_ok (initial_fls answers)"
  by (simp add: fls_ok_def initial_fls_def slot_value_def)

lemma fls_ask_frame:
  assumes "fls_ask s = (b, s')"
  shows "f_slot s' = f_slot s" "f_values s' = f_values s" "f_threads s' = f_threads s"
  using assms by (auto simp: fls_ask_def split: list.splits)

lemma get_fls_state_spec:
  assumes "get_fls_state t s = (b, s')" and "fls_ok s"
  shows "fls_ok s'" and "f_slot s' = f_slot s" and "\<And>u i. slot_value s' u i = slot_value s u i"
    and "b = (f_values s' t \<noteq> None)"
proof -
  obtain b1 s1 where 1: "fls_ask s = (b1, s1)" by (cases "fls_ask s")
  obtain b2 s2 where 2: "fls_ask s1 = (b2, s2)" by (cases "fls_ask s1")
  note f = fls_ask_frame [OF 1] fls_ask_frame [OF 2]
  have sv: "slot_value s1 = slot_value s" "slot_value s2 = slot_value s"
    using f by (auto simp: slot_value_def fun_eq_iff)
  let ?new = "s2\<lparr>f_values := (f_values s2)(t \<mapsto> (\<lambda>_. 0)), f_threads := f_threads s2 @ [t]\<rparr>"
  have new: "slot_value ?new u i = slot_value s u i" if "f_values s t = None" for u i
    using f that by (simp add: slot_value_def)
  have cases: "s' = s \<and> b \<and> f_values s t \<noteq> None \<or> (s' = s1 \<or> s' = s2) \<and> \<not> b \<and> f_values s t = None \<or> s' = ?new \<and> b \<and> f_values s t = None"
    using assms(1) by (auto simp: get_fls_state_def 1 2 split: if_splits)
  then show "f_slot s' = f_slot s" and "\<And>u i. slot_value s' u i = slot_value s u i" and "b = (f_values s' t \<noteq> None)"
    using f new sv by auto
  then have slots: "\<forall>i u. f_slot s' i = None \<longrightarrow> slot_value s' u i = 0" "\<forall>i. MAX_FLS_SLOTS \<le> i \<longrightarrow> f_slot s' i = None"
    using assms(2) by (simp_all add: fls_ok_def)
  have "distinct (f_threads s) \<and> dom (f_values s) = set (f_threads s)" "f_values s t = None \<Longrightarrow> t \<notin> set (f_threads s)"
    using assms(2) by (auto simp: fls_ok_def simp del: dom_map_entry)
  then have "distinct (f_threads s') \<and> dom (f_values s') = set (f_threads s')"
    using cases f by (elim disjE conjE) simp_all
  then show "fls_ok s'"
    using slots by (simp add: fls_ok_def)
qed

lemma slot_value_clear: "fls_ok s \<Longrightarrow> slot_value (fls_clear index s) t i = (if i = index then 0 else slot_value s t i)"
  by (auto simp: slot_value_def fls_clear_def fls_ok_def split: option.splits)

lemma fls_clear_ok: "fls_ok s \<Longrightarrow> fls_ok (fls_clear index s)"
  using slot_value_clear [of s index] by (auto simp: fls_ok_def) (auto simp: fls_clear_def split: if_splits)

lemma slot_value_store:
  "slot_value (fls_store t index v s) u i =
     (if u = t \<and> i = index \<and> f_values s t \<noteq> None then v else slot_value s u i)"
  by (auto simp: slot_value_def fls_store_def split: option.splits)

lemma fls_store_slot [simp]: "f_slot (fls_store t index v s) = f_slot s"
  by (simp add: fls_store_def)

lemma fls_store_ok:
  assumes "fls_ok s" and "f_slot s index \<noteq> None"
  shows "fls_ok (fls_store t index v s)"
proof -
  have "dom (f_values (fls_store t index v s)) = dom (f_values s)"
    unfolding fls_store_def using dom_map_entry [of "f_values s" t] by (simp del: fun_upd_apply dom_map_entry)
  moreover have "f_threads (fls_store t index v s) = f_threads s"
    by (simp add: fls_store_def)
  ultimately show ?thesis
    using assms by (auto simp: fls_ok_def slot_value_store)
qed

text \<open>The check succeeds for an allocated slot of a thread that has a state, and changes nothing a thread can read.\<close>

lemma fls_check_spec:
  assumes "fls_check t index s = (go, s')" and "fls_ok s"
  shows "fls_ok s'" and "f_slot s' = f_slot s" and "\<And>u i. slot_value s' u i = slot_value s u i"
    and "go \<Longrightarrow> f_slot s index \<noteq> None \<and> f_values s' t \<noteq> None"
    and "\<not> go \<Longrightarrow> slot_value s t index = 0"
proof -
  obtain made s1 where g: "get_fls_state t s = (made, s1)" by (cases "get_fls_state t s")
  note f = get_fls_state_spec [OF g assms(2)]
  have cases: "\<not> go \<and> s' = s \<and> MAX_FLS_SLOTS \<le> index \<or> s' = s1 \<and> go = (made \<and> f_slot s index \<noteq> None)"
    using assms(1) f(2) by (auto simp: fls_check_def g split: if_splits)
  then show "fls_ok s'" and "f_slot s' = f_slot s" and "\<And>u i. slot_value s' u i = slot_value s u i"
    and "go \<Longrightarrow> f_slot s index \<noteq> None \<and> f_values s' t \<noteq> None"
    using f assms(2) by (elim disjE conjE; simp)+
  show "slot_value s t index = 0" if stop: "\<not> go"
  proof -
    consider "MAX_FLS_SLOTS \<le> index" | "f_values s1 t = None" | "f_slot s index = None"
      using cases stop f(4) by auto
    then show ?thesis
      using f(3) [of t index] assms(2) by cases (auto simp: slot_value_def fls_ok_def split: option.splits)
  qed
qed

lemma FlsSetValue_spec:
  assumes "FlsSetValue t index v s = (b, s')" and "fls_ok s"
  shows "fls_ok s'" and "f_slot s' = f_slot s"
    and "\<And>u i. slot_value s' u i = (if b \<and> u = t \<and> i = index then v else slot_value s u i)"
    and "f_slot s index = None \<Longrightarrow> \<not> b"
proof -
  obtain go s1 where c: "fls_check t index s = (go, s1)" by (cases "fls_check t index s")
  note f = fls_check_spec [OF c assms(2)]
  have "b = go" "s' = (if go then fls_store t index v s1 else s1)"
    using assms(1) by (auto simp: FlsSetValue_def c split: if_splits)
  then show "fls_ok s'" and "f_slot s' = f_slot s"
    and "\<And>u i. slot_value s' u i = (if b \<and> u = t \<and> i = index then v else slot_value s u i)"
    and "f_slot s index = None \<Longrightarrow> \<not> b"
    using f fls_store_ok [of s1 index t v] by (auto simp: slot_value_store)
qed

lemma find_free_slot:
  "find (\<lambda>i. f_slot s i = None) [0..<MAX_FLS_SLOTS] = Some i \<Longrightarrow> i < MAX_FLS_SLOTS \<and> f_slot s i = None"
  by (auto simp: find_Some_iff)

lemma FlsAlloc_spec:
  assumes "FlsAlloc callback s = (r, s')" and "fls_ok s"
  shows "fls_ok s'" and "slot_value s' = slot_value s"
    and "r = Some i \<Longrightarrow> f_slot s i = None \<and> f_slot s' i = Some callback"
    and "f_slot s j \<noteq> None \<Longrightarrow> f_slot s' j = f_slot s j"
proof -
  have cases: "r = None \<and> s' = s \<or>
      (\<exists>k. k < MAX_FLS_SLOTS \<and> f_slot s k = None \<and> r = Some k \<and> s' = s\<lparr>f_slot := (f_slot s)(k \<mapsto> callback)\<rparr>)"
    using assms(1) find_free_slot [of s] by (auto simp: FlsAlloc_def split: option.splits)
  then show sv: "slot_value s' = slot_value s" and "r = Some i \<Longrightarrow> f_slot s i = None \<and> f_slot s' i = Some callback"
    and "f_slot s j \<noteq> None \<Longrightarrow> f_slot s' j = f_slot s j"
    by (auto simp: slot_value_def fun_eq_iff)
  show "fls_ok s'"
    using cases assms(2) sv unfolding fls_ok_def by (elim disjE conjE exE) (simp_all add: not_less [symmetric])
qed

text \<open>\<open>FlsGetValue\<close> reads the value, also when it has to make the thread's state or fails to.\<close>

lemma FlsGetValue_spec:
  assumes "FlsGetValue t index s = (v, s')" and "fls_ok s"
  shows "fls_ok s'" and "f_slot s' = f_slot s" and "\<And>u i. slot_value s' u i = slot_value s u i"
    and "v = slot_value s t index"
proof -
  obtain go s1 where c: "fls_check t index s = (go, s1)" by (cases "fls_check t index s")
  show "fls_ok s'" and "f_slot s' = f_slot s" and "\<And>u i. slot_value s' u i = slot_value s u i"
    and "v = slot_value s t index"
    using assms(1) fls_check_spec [OF c assms(2)] by (auto simp: FlsGetValue_def c split: if_splits)
qed

corollary fst_FlsGetValue: "fls_ok s \<Longrightarrow> fst (FlsGetValue t i s) = slot_value s t i"
  using FlsGetValue_spec(4) [OF prod.collapse [symmetric]] .

text \<open>Without callbacks the free only clears.\<close>

abbreviation no_call :: "nat \<Rightarrow> u64 \<Rightarrow> fls \<Rightarrow> fls" where
  "no_call \<equiv> \<lambda>_ _ s. s"

lemma fold_no_call [simp]: "fold (\<lambda>(callback, v) s. s) xs s = s"
  by (induction xs) auto

lemma FlsFree_no_call:
  "fls_ok s \<Longrightarrow> FlsFree no_call index s = (if f_slot s index \<noteq> None then (True, fls_clear index s) else (False, s))"
  by (auto simp: FlsFree_def FlsFree_locked_def fls_ok_def)

lemma fls_clear_slot [simp]: "f_slot (fls_clear index s) = (f_slot s)(index := None)"
  by (simp add: fls_clear_def)

interpretation fls: thread_slots "FlsAlloc None" "FlsFree no_call" FlsSetValue "\<lambda>t i s. fst (FlsGetValue t i s)" fls_live fls_ok
proof unfold_locales
  fix s r s' assume "fls_ok s" and "FlsAlloc None s = (r, s')"
  then show "fls_ok s'" by (rule FlsAlloc_spec(1) [rotated])
next
  fix s i b s' assume "fls_ok s" and "FlsFree no_call i s = (b, s')"
  then show "fls_ok s'" using fls_clear_ok by (auto simp: FlsFree_no_call split: if_splits)
next
  fix s t i v b s' assume "fls_ok s" and "FlsSetValue t i v s = (b, s')"
  then show "fls_ok s'" by (rule FlsSetValue_spec(1) [rotated])
next
  fix s i s' t assume ok: "fls_ok s" and run: "FlsAlloc None s = (Some i, s')"
  note a = FlsAlloc_spec [OF run ok]
  have "slot_value s t i = 0" using a(3) ok by (auto simp: fls_ok_def)
  then show "\<not> fls_live i s \<and> fls_live i s' \<and> fst (FlsGetValue t i s') = 0"
    using a(2) a(3) fst_FlsGetValue [OF a(1)] by (simp add: fls_live_def)
next
  fix s r s' j t assume ok: "fls_ok s" and run: "FlsAlloc None s = (r, s')" and live: "fls_live j s"
  note a = FlsAlloc_spec [OF run ok]
  show "fls_live j s' \<and> fst (FlsGetValue t j s') = fst (FlsGetValue t j s)"
    using a(2) a(4) [of j] live fst_FlsGetValue [OF a(1)] fst_FlsGetValue [OF ok] by (simp add: fls_live_def)
next
  fix s i b s' assume "fls_ok s" and "FlsFree no_call i s = (b, s')"
  then show "b = fls_live i s \<and> \<not> fls_live i s'"
    by (auto simp: FlsFree_no_call fls_live_def split: if_splits)
next
  fix s i b s' j t assume ok: "fls_ok s" and run: "FlsFree no_call i s = (b, s')" and "j \<noteq> i"
  then show "fls_live j s' = fls_live j s \<and> fst (FlsGetValue t j s') = fst (FlsGetValue t j s)"
    using fst_FlsGetValue [OF fls_clear_ok [OF ok]]
    by (auto simp: FlsFree_no_call fst_FlsGetValue slot_value_clear fls_live_def split: if_splits)
next
  fix s i t assume "fls_ok s" and "\<not> fls_live i s"
  then show "fst (FlsGetValue t i s) = 0"
    by (simp add: fst_FlsGetValue fls_live_def) (simp add: fls_ok_def)
next
  fix s i t v assume ok: "fls_ok s" and "\<not> fls_live i s"
  then show "fst (FlsSetValue t i v s) = False"
    using FlsSetValue_spec(4) [OF prod.collapse [symmetric] ok] by (simp add: fls_live_def)
next
  fix s t i v b s' j assume ok: "fls_ok s" and run: "FlsSetValue t i v s = (b, s')"
  then show "fls_live j s' = fls_live j s"
    using FlsSetValue_spec(2) [OF run ok] by (simp add: fls_live_def)
next
  fix s t i v s' assume ok: "fls_ok s" and run: "FlsSetValue t i v s = (True, s')"
  note a = FlsSetValue_spec [OF run ok]
  show "fst (FlsGetValue t i s') = v" by (simp add: fst_FlsGetValue a(1) a(3))
next
  fix s t i v b s' t' j assume ok: "fls_ok s" and run: "FlsSetValue t i v s = (b, s')" and "t' \<noteq> t \<or> j \<noteq> i"
  then show "fst (FlsGetValue t' j s') = fst (FlsGetValue t' j s)"
    using FlsSetValue_spec(1,3) [OF run ok] by (auto simp: fst_FlsGetValue)
next
  fix s t i v s' assume ok: "fls_ok s" and run: "FlsSetValue t i v s = (False, s')"
  then show "fst (FlsGetValue t i s') = fst (FlsGetValue t i s)"
    using FlsSetValue_spec(1,3) [OF run ok] by (auto simp: fst_FlsGetValue)
qed

subsection \<open>The drain at thread exit\<close>

abbreviation run_calls :: "(nat \<Rightarrow> u64 \<Rightarrow> fls \<Rightarrow> fls) \<Rightarrow> (nat \<times> u64) list \<Rightarrow> fls \<Rightarrow> fls" where
  "run_calls run \<equiv> fold (\<lambda>(callback, v). run callback v)"

lemma slot_value_take:
  "slot_value (fls_take t s) u i = (if u = t \<and> i \<in> set (fls_pending t s) then 0 else slot_value s u i)"
  by (auto simp: slot_value_def fls_take_def split: option.splits)

lemma fls_take_ok:
  assumes "fls_ok s"
  shows "fls_ok (fls_take t s)"
proof -
  have "dom (f_values (fls_take t s)) = dom (f_values s)"
    unfolding fls_take_def using dom_map_entry [of "f_values s" t] by (simp del: fun_upd_apply dom_map_entry)
  moreover have "f_threads (fls_take t s) = f_threads s" "f_slot (fls_take t s) = f_slot s"
    by (simp_all add: fls_take_def)
  ultimately show ?thesis
    using assms by (auto simp: fls_ok_def slot_value_take)
qed

text \<open>The values are null before the first callback runs, so a callback that drains again finds nothing.\<close>

lemma fls_take_pending: "fls_pending t (fls_take t s) = []"
  by (auto simp: fls_pending_def [of t "fls_take t s"] slot_value_take filter_empty_conv)
    (auto simp: fls_pending_def fls_take_def)

lemma fls_take_nothing: "fls_pending t s = [] \<Longrightarrow> fls_take t s = s"
  by (simp add: fls_take_def map_option.id [unfolded id_def])

lemma fls_calls_nothing: "fls_pending t s = [] \<Longrightarrow> fls_calls t s = []"
  by (simp add: fls_calls_def map_filter_simps)

lemma fls_drain_done: "fls_pending t s = [] \<Longrightarrow> fls_drain run t n s = s"
  by (cases n) (simp_all add: fls_calls_nothing fls_take_nothing)

lemma run_calls_invariant:
  "(\<And>c v s. Q s \<Longrightarrow> Q (run c v s)) \<Longrightarrow> Q s \<Longrightarrow> Q (run_calls run calls s)"
  by (induction calls arbitrary: s) auto

lemma fls_drain_invariant:
  assumes run: "\<And>c v s. Q s \<Longrightarrow> Q (run c v s)" and take: "\<And>s. Q s \<Longrightarrow> Q (fls_take t s)" and "Q s"
  shows "Q (fls_drain run t n s)"
  using \<open>Q s\<close>
proof (induction n arbitrary: s)
  case (Suc n)
  have "Q (run_calls run (fls_calls t s) (fls_take t s))"
    using run take [OF Suc.prems] by (rule run_calls_invariant [where Q = Q])
  then show ?case
    using Suc take by (simp add: Let_def)
qed simp

text \<open>Callbacks that store no new value for the thread all run once, in slot order, in the first pass.\<close>

lemma fls_drain_once:
  assumes "\<And>c v s. fls_pending t s = [] \<Longrightarrow> fls_pending t (run c v s) = []"
  shows "fls_drain run t (Suc n) s = run_calls run (fls_calls t s) (fls_take t s)"
proof -
  have "fls_pending t (run_calls run (fls_calls t s) (fls_take t s)) = []"
    using assms fls_take_pending by (rule run_calls_invariant)
  then show ?thesis
    by (simp add: Let_def fls_drain_done)
qed

lemma fls_ok_bound: "fls_ok s \<Longrightarrow> f_slot s i = Some x \<Longrightarrow> i < MAX_FLS_SLOTS"
  by (rule ccontr) (simp add: fls_ok_def)

lemma fls_calls_iff:
  assumes "fls_ok s"
  shows "(c, v) \<in> set (fls_calls t s) \<longleftrightarrow> (\<exists>i. f_slot s i = Some (Some c) \<and> slot_value s t i = v \<and> v \<noteq> 0)"
  using fls_ok_bound [OF assms]
  by (auto simp: fls_calls_def fls_pending_def map_filter_def split: option.splits) force

lemma fls_unregister_ok:
  assumes "fls_ok s"
  shows "fls_ok (fls_unregister t s)"
proof -
  have sv: "slot_value (fls_unregister t s) u i = (if u = t then 0 else slot_value s u i)" for u i
    by (simp add: slot_value_def fls_unregister_def)
  have "dom (f_values (fls_unregister t s)) = dom (f_values s) - {t}"
    and "set (f_threads (fls_unregister t s)) = set (f_threads s) - {t}"
    and "f_slot (fls_unregister t s) = f_slot s"
    by (auto simp: fls_unregister_def)
  moreover have "distinct (f_threads (fls_unregister t s))"
    using assms by (simp add: fls_unregister_def fls_ok_def)
  ultimately show ?thesis
    using assms by (simp add: fls_ok_def sv)
qed

text \<open>Whatever the callbacks do, the thread is unregistered and its state gone at the end.\<close>

lemma cleanup_unregisters:
  assumes "fls_ok s" and "\<And>c v s. fls_ok s \<Longrightarrow> fls_ok (run c v s)"
  shows "fls_ok (winlibs_cleanup_fls_for_current_thread run t s)"
    and "f_values (winlibs_cleanup_fls_for_current_thread run t s) t = None"
    and "t \<notin> set (f_threads (winlibs_cleanup_fls_for_current_thread run t s))"
proof -
  let ?d = "fls_drain run t PTHREAD_DESTRUCTOR_ITERATIONS s"
  have d: "fls_ok ?d"
    using assms(2) fls_take_ok assms(1) by (rule fls_drain_invariant)
  have "t \<notin> set (f_threads s)" if "f_values s t = None"
    using assms(1) that by (auto simp: fls_ok_def simp del: dom_map_entry)
  then show "fls_ok (winlibs_cleanup_fls_for_current_thread run t s)"
    and "f_values (winlibs_cleanup_fls_for_current_thread run t s) t = None"
    and "t \<notin> set (f_threads (winlibs_cleanup_fls_for_current_thread run t s))"
    using fls_unregister_ok [OF d] assms(1)
    by (simp_all add: winlibs_cleanup_fls_for_current_thread_def) (simp_all add: fls_unregister_def)
qed

section \<open>Interleavings of the fiber-local functions\<close>

text \<open>
  The functions in the steps the code takes them: a get or a set has checked its slot and has not made
  its access yet (\<open>r_flight\<close>), and other threads run meanwhile. A callback that \<open>FlsFree\<close> or the drain of
  a thread calls is PE code; it can call the functions again, so its effects are further steps of the
  thread. \<open>r_calls\<close> are the calls made so far, \<open>r_read\<close> what a thread's last get returned.
\<close>

datatype fls_access = Storing nat u64 | Loading nat

record fls_world =
  r_fls :: fls
  r_flight :: "thread \<Rightarrow> fls_access option"
  r_calls :: "(nat \<times> u64) list"
  r_read :: "thread \<Rightarrow> u64"

definition fls_start :: "bool list \<Rightarrow> fls_world" where
  "fls_start answers = \<lparr>r_fls = initial_fls answers, r_flight = (\<lambda>_. None), r_calls = [], r_read = (\<lambda>_. 0)\<rparr>"

text \<open>The contract the comment in \<open>FlsSetValue\<close> states: no \<open>FlsFree\<close> of a slot while a set of it is under way.\<close>

definition no_set_in_flight :: "nat \<Rightarrow> fls_world \<Rightarrow> bool" where
  "no_set_in_flight i w \<longleftrightarrow> (\<forall>t v. r_flight w t \<noteq> Some (Storing i v))"

inductive fls_step :: "fls_world \<Rightarrow> fls_world \<Rightarrow> bool" where
  fls_alloc: "fls_step w (w\<lparr>r_fls := snd (FlsAlloc callback (r_fls w))\<rparr>)"
| fls_free: "no_set_in_flight i w \<Longrightarrow> FlsFree_locked i (r_fls w) = (calls, s) \<Longrightarrow>
    fls_step w (w\<lparr>r_fls := s, r_calls := r_calls w @ (case calls of None \<Rightarrow> [] | Some cs \<Rightarrow> cs)\<rparr>)"
| fls_set_check: "r_flight w t = None \<Longrightarrow> fls_check t i (r_fls w) = (go, s) \<Longrightarrow>
    fls_step w (w\<lparr>r_fls := s, r_flight := (r_flight w)(t := if go then Some (Storing i v) else None)\<rparr>)"
| fls_set_store: "r_flight w t = Some (Storing i v) \<Longrightarrow>
    fls_step w (w\<lparr>r_fls := fls_store t i v (r_fls w), r_flight := (r_flight w)(t := None)\<rparr>)"
| fls_get_check: "r_flight w t = None \<Longrightarrow> fls_check t i (r_fls w) = (go, s) \<Longrightarrow>
    fls_step w (w\<lparr>r_fls := s, r_flight := (r_flight w)(t := if go then Some (Loading i) else None),
      r_read := (if go then r_read w else (r_read w)(t := 0))\<rparr>)"
| fls_get_load: "r_flight w t = Some (Loading i) \<Longrightarrow>
    fls_step w (w\<lparr>r_flight := (r_flight w)(t := None), r_read := (r_read w)(t := slot_value (r_fls w) t i)\<rparr>)"
| fls_pass: "r_flight w t = None \<Longrightarrow>
    fls_step w (w\<lparr>r_fls := fls_take t (r_fls w), r_calls := r_calls w @ fls_calls t (r_fls w)\<rparr>)"
| fls_leave: "r_flight w t = None \<Longrightarrow> fls_step w (w\<lparr>r_fls := fls_unregister t (r_fls w)\<rparr>)"

text \<open>The invariant: a slot that is free is null everywhere, and a set under way has its slot and state.\<close>

definition fls_world_ok :: "fls_world \<Rightarrow> bool" where
  "fls_world_ok w \<longleftrightarrow> fls_ok (r_fls w) \<and>
     (\<forall>t i v. r_flight w t = Some (Storing i v) \<longrightarrow> f_slot (r_fls w) i \<noteq> None)"

lemma fls_world_okD:
  assumes "fls_world_ok w"
  shows "fls_ok (r_fls w)" and "r_flight w t = Some (Storing i v) \<Longrightarrow> f_slot (r_fls w) i \<noteq> None"
  using assms by (auto simp: fls_world_ok_def)

lemma FlsFree_locked_spec:
  assumes "FlsFree_locked i s = (calls, s')" and "fls_ok s"
  shows "fls_ok s'" and "calls \<noteq> None \<longleftrightarrow> f_slot s i \<noteq> None" and "f_slot s' = (f_slot s)(i := None)"
    and "\<And>t j. slot_value s' t j = (if j = i then 0 else slot_value s t j)"
proof -
  have cases: "calls = None \<and> s' = s \<and> f_slot s i = None \<or> calls \<noteq> None \<and> s' = fls_clear i s \<and> f_slot s i \<noteq> None"
    using assms by (auto simp: FlsFree_locked_def fls_ok_def split: if_splits)
  then show "fls_ok s'" and "calls \<noteq> None \<longleftrightarrow> f_slot s i \<noteq> None" and "f_slot s' = (f_slot s)(i := None)"
    using fls_clear_ok assms(2) by auto
  show "\<And>t j. slot_value s' t j = (if j = i then 0 else slot_value s t j)"
    using cases slot_value_clear [OF assms(2)] assms(2) by (auto simp: fls_ok_def)
qed

lemma fls_step_ok:
  assumes "fls_step w w'" and ok: "fls_world_ok w"
  shows "fls_world_ok w'"
  using assms(1)
proof cases
  case (fls_alloc callback)
  note a = FlsAlloc_spec [OF prod.collapse [symmetric] fls_world_okD(1) [OF ok], where callback = callback]
  show ?thesis
    using a(1,4) fls_world_okD(2) [OF ok] by (auto simp: fls_alloc fls_world_ok_def)
next
  case (fls_free i calls s)
  note f = FlsFree_locked_spec [OF fls_free(3) fls_world_okD(1) [OF ok]]
  show ?thesis
    using f(1,3) fls_free(2) fls_world_okD(2) [OF ok] by (auto simp: fls_free(1) fls_world_ok_def no_set_in_flight_def)
next
  case (fls_set_check t i go s v)
  note c = fls_check_spec [OF fls_set_check(3) fls_world_okD(1) [OF ok]]
  show ?thesis
    using c(1,2,4) fls_world_okD(2) [OF ok] by (auto simp: fls_set_check(1) fls_world_ok_def)
next
  case (fls_set_store t i v)
  then show ?thesis
    using fls_store_ok [OF fls_world_okD(1) [OF ok] fls_world_okD(2) [OF ok fls_set_store(2)]] fls_world_okD(2) [OF ok]
    by (auto simp: fls_world_ok_def)
next
  case (fls_get_check t i go s)
  note c = fls_check_spec [OF fls_get_check(3) fls_world_okD(1) [OF ok]]
  show ?thesis
    using c(1,2) fls_world_okD(2) [OF ok] by (auto simp: fls_get_check(1) fls_world_ok_def)
next
  case (fls_get_load t i)
  then show ?thesis
    using ok by (auto simp: fls_world_ok_def)
next
  case (fls_pass t)
  then show ?thesis
    using fls_take_ok [OF fls_world_okD(1) [OF ok]] fls_world_okD(2) [OF ok] by (auto simp: fls_world_ok_def fls_take_def)
next
  case (fls_leave t)
  then show ?thesis
    using fls_unregister_ok [OF fls_world_okD(1) [OF ok]] fls_world_okD(2) [OF ok]
    by (auto simp: fls_world_ok_def fls_unregister_def)
qed

interpretation fls_runs: invariant_system fls_step "\<lambda>w. \<exists>answers. w = fls_start answers" fls_world_ok
proof unfold_locales
  fix w assume "\<exists>answers. w = fls_start answers"
  then show "fls_world_ok w"
    by (auto simp: fls_start_def fls_world_ok_def initial_fls_ok)
qed (rule fls_step_ok)

text \<open>Whatever the other threads do, a null slot of a thread stays null until the thread itself stores in it.\<close>

definition stores :: "thread \<Rightarrow> nat \<Rightarrow> fls_world \<Rightarrow> fls_world \<Rightarrow> bool" where
  "stores t i w w' \<longleftrightarrow> (\<exists>v. r_flight w t = Some (Storing i v)) \<and> r_flight w' t = None"

lemma fls_step_null:
  assumes "fls_step w w'" and ok: "fls_world_ok w" and "\<not> stores t i w w'" and null: "slot_value (r_fls w) t i = 0"
  shows "slot_value (r_fls w') t i = 0"
  using assms(1)
proof cases
  case (fls_alloc callback)
  then show ?thesis
    using FlsAlloc_spec(2) [OF prod.collapse [symmetric] fls_world_okD(1) [OF ok]] null by simp
next
  case (fls_free j calls s)
  then show ?thesis
    using FlsFree_locked_spec(4) [OF fls_free(3) fls_world_okD(1) [OF ok]] null by simp
next
  case (fls_set_check u j go s v)
  then show ?thesis
    using fls_check_spec(3) [OF fls_set_check(3) fls_world_okD(1) [OF ok]] null by simp
next
  case (fls_set_store u j v)
  then show ?thesis
    using assms(3) null by (auto simp: stores_def slot_value_store)
next
  case (fls_get_check u j go s)
  then show ?thesis
    using fls_check_spec(3) [OF fls_get_check(3) fls_world_okD(1) [OF ok]] null by simp
next
  case (fls_pass u)
  then show ?thesis
    using null by (simp add: slot_value_take)
next
  case (fls_leave u)
  then show ?thesis
    using null by (simp add: fls_unregister_def slot_value_def)
qed (use null in simp)

lemma fls_steps_null:
  assumes "(\<lambda>w w'. fls_step w w' \<and> \<not> stores t i w w')\<^sup>*\<^sup>* w w'" and "fls_world_ok w" and "slot_value (r_fls w) t i = 0"
  shows "fls_world_ok w' \<and> slot_value (r_fls w') t i = 0"
  using assms by (induction rule: rtranclp_induct) (auto intro: fls_step_ok fls_step_null)

end
