(* ===== verification/Win_Memory.thy ===== *)
theory Win_Memory
  imports Bytes
begin

text \<open>
  \<open>VirtualAlloc\<close> and \<open>VirtualFree\<close> of \<open>src/src/winlibs.cpp\<close> over the pages of the process, and the heap
  functions over a registry of live blocks. Addresses and sizes are natural numbers below \<open>2 ^ 64\<close>;
  every addition the code checks is checked here, so none wraps. A null result is 0. The kernel
  answers from a list; an answer no kernel gives (a mapping over mapped pages) counts as a refusal.
\<close>

section \<open>Sizes and protections\<close>

definition page_size :: nat where "page_size = 4096"
definition granularity :: nat where "granularity = 65536"
definition size_max :: nat where "size_max = 2 ^ 64 - 1"

definition ERROR_NOT_ENOUGH_MEMORY :: nat where "ERROR_NOT_ENOUGH_MEMORY = 8"
definition ERROR_INVALID_PARAMETER :: nat where "ERROR_INVALID_PARAMETER = 87"
definition ERROR_INVALID_ADDRESS :: nat where "ERROR_INVALID_ADDRESS = 487"
definition MEM_COMMIT :: u32 where "MEM_COMMIT = 0x1000"
definition MEM_RESERVE :: u32 where "MEM_RESERVE = 0x2000"
definition MEM_DECOMMIT :: u32 where "MEM_DECOMMIT = 0x4000"
definition MEM_RELEASE :: u32 where "MEM_RELEASE = 0x8000"
definition MEM_TOP_DOWN :: u32 where "MEM_TOP_DOWN = 0x100000"

definition checked_add :: "nat \<Rightarrow> nat \<Rightarrow> nat option" where
  "checked_add left right = (if right > size_max - left then None else Some (left + right))"

text \<open>\<open>adjusted & ~(alignment - 1)\<close> for a power of two is the multiple below (\<open>round_down_word\<close>).\<close>

definition round_down :: "nat \<Rightarrow> nat \<Rightarrow> nat" where
  "round_down v alignment = v div alignment * alignment"

definition round_up :: "nat \<Rightarrow> nat \<Rightarrow> nat option" where
  "round_up v alignment =
     (case checked_add v (alignment - 1) of None \<Rightarrow> None | Some adjusted \<Rightarrow> Some (round_down adjusted alignment))"

text \<open>\<open>PROT_READ\<close> is 1, \<open>PROT_WRITE\<close> 2, \<open>PROT_EXEC\<close> 4.\<close>

definition windows_protection :: "u32 \<Rightarrow> nat option" where
  "windows_protection protection =
     (if protection = 0x01 then Some 0
      else if protection = 0x02 then Some 1
      else if protection = 0x04 then Some 3
      else if protection = 0x10 then Some 4
      else if protection = 0x20 then Some 5
      else if protection = 0x40 then Some 7
      else None)"

section \<open>The kernel\<close>

datatype reply = Done | Refused | Elsewhere nat

datatype mapping = Mapped nat | Exists | NoMemory

text \<open>\<open>v_page\<close> is the protection of a mapped page; \<open>v_unmaps\<close> answers the calls of \<open>munmap\<close>.\<close>

record vm =
  v_page :: "nat \<Rightarrow> nat option"
  v_reservations :: "(nat \<times> nat) list"
  v_error :: nat
  v_replies :: "reply list"
  v_unmaps :: "bool list"

definition vm_ask :: "vm \<Rightarrow> reply \<times> vm" where
  "vm_ask s = (case v_replies s of [] \<Rightarrow> (Done, s) | r # rs \<Rightarrow> (r, s\<lparr>v_replies := rs\<rparr>))"

definition page_range :: "nat \<Rightarrow> nat \<Rightarrow> nat list" where
  "page_range a n = [a div page_size..<(a + n + page_size - 1) div page_size]"

definition range_free :: "nat \<Rightarrow> nat \<Rightarrow> vm \<Rightarrow> bool" where
  "range_free a n s \<longleftrightarrow> list_all (\<lambda>p. v_page s p = None) (page_range a n)"

definition range_mapped :: "nat \<Rightarrow> nat \<Rightarrow> vm \<Rightarrow> bool" where
  "range_mapped a n s \<longleftrightarrow> list_all (\<lambda>p. v_page s p \<noteq> None) (page_range a n)"

definition set_pages :: "nat \<Rightarrow> nat \<Rightarrow> nat option \<Rightarrow> vm \<Rightarrow> vm" where
  "set_pages a n x s = s\<lparr>v_page := (\<lambda>p. if p \<in> set (page_range a n) then x else v_page s p)\<rparr>"

text \<open>\<open>mmap\<close> with \<open>PROT_NONE\<close>: at an address without replacing, anywhere, and over what is there.\<close>

definition mappable :: "nat \<Rightarrow> nat \<Rightarrow> vm \<Rightarrow> bool" where
  "mappable b n s \<longleftrightarrow> b \<noteq> 0 \<and> page_size dvd b \<and> b + n \<le> 2 ^ 64 \<and> range_free b n s"

definition mmap_noreplace :: "nat \<Rightarrow> nat \<Rightarrow> vm \<Rightarrow> mapping \<times> vm" where
  "mmap_noreplace a n s =
     (case vm_ask s of (r, s) \<Rightarrow>
      case r of
        Refused \<Rightarrow> (NoMemory, s)
      | Done \<Rightarrow> (if range_free a n s then (Mapped a, set_pages a n (Some 0) s) else (Exists, s))
      | Elsewhere b \<Rightarrow> (if mappable b n s then (Mapped b, set_pages b n (Some 0) s) else (NoMemory, s)))"

definition mmap_anywhere :: "nat \<Rightarrow> vm \<Rightarrow> mapping \<times> vm" where
  "mmap_anywhere n s =
     (case vm_ask s of (r, s) \<Rightarrow>
      case r of
        Elsewhere b \<Rightarrow> (if mappable b n s then (Mapped b, set_pages b n (Some 0) s) else (NoMemory, s))
      | _ \<Rightarrow> (NoMemory, s))"

definition mmap_fixed :: "nat \<Rightarrow> nat \<Rightarrow> vm \<Rightarrow> bool \<times> vm" where
  "mmap_fixed a n s =
     (case vm_ask s of (r, s) \<Rightarrow> if r = Refused then (False, s) else (True, set_pages a n (Some 0) s))"

definition mprotect :: "nat \<Rightarrow> nat \<Rightarrow> nat \<Rightarrow> vm \<Rightarrow> bool \<times> vm" where
  "mprotect a n prot s =
     (case vm_ask s of (r, s) \<Rightarrow>
      if r = Refused \<or> \<not> range_mapped a n s then (False, s) else (True, set_pages a n (Some prot) s))"

definition munmap :: "nat \<Rightarrow> nat \<Rightarrow> vm \<Rightarrow> bool \<times> vm" where
  "munmap a n s =
     (case v_unmaps s of
        [] \<Rightarrow> (True, set_pages a n None s)
      | ok # rest \<Rightarrow> (let s = s\<lparr>v_unmaps := rest\<rparr> in if ok then (True, set_pages a n None s) else (False, s)))"

section \<open>VirtualAlloc and VirtualFree\<close>

text \<open>\<open>std::map\<close> is the list in ascending order; \<open>upper_bound\<close> and \<open>--it\<close> give the last entry not above.\<close>

definition find_reservation :: "nat \<Rightarrow> nat \<Rightarrow> vm \<Rightarrow> (nat \<times> nat) option" where
  "find_reservation start stop s =
     (let below = filter (\<lambda>x. fst x \<le> start) (v_reservations s) in
      if below = [] then None
      else let (b, n) = last below in
        case checked_add b n of
          None \<Rightarrow> None
        | Some reservation_end \<Rightarrow> if start \<ge> b \<and> stop \<le> reservation_end then Some (b, n) else None)"

definition failed :: "nat \<Rightarrow> vm \<Rightarrow> nat \<times> vm" where
  "failed e s = (0, s\<lparr>v_error := e\<rparr>)"

definition commit_reserved :: "nat \<Rightarrow> nat \<Rightarrow> nat \<Rightarrow> vm \<Rightarrow> nat \<times> vm" where
  "commit_reserved requested requested_end prot s =
     (let start = round_down requested page_size in
      case round_up requested_end page_size of
        None \<Rightarrow> failed ERROR_INVALID_ADDRESS s
      | Some stop \<Rightarrow>
        if find_reservation start stop s = None then failed ERROR_INVALID_ADDRESS s
        else case mprotect start (stop - start) prot s of (ok, s) \<Rightarrow>
          if ok then (start, s) else failed ERROR_NOT_ENOUGH_MEMORY s)"

text \<open>The two ways to get a mapping; \<open>Inl\<close> is the error for \<open>g_last_error\<close>.\<close>

definition reserve_at :: "nat \<Rightarrow> nat \<Rightarrow> vm \<Rightarrow> (nat + nat \<times> nat) \<times> vm" where
  "reserve_at requested requested_end s =
     (let base = round_down requested granularity in
      if base = 0 then (Inl ERROR_INVALID_PARAMETER, s)
      else case round_up requested_end page_size of
        None \<Rightarrow> (Inl ERROR_NOT_ENOUGH_MEMORY, s)
      | Some commit_end \<Rightarrow>
        let n = commit_end - base in
        case mmap_noreplace base n s of
          (NoMemory, s) \<Rightarrow> (Inl ERROR_NOT_ENOUGH_MEMORY, s)
        | (Exists, s) \<Rightarrow> (Inl ERROR_INVALID_ADDRESS, s)
        | (Mapped m, s) \<Rightarrow>
          if m \<noteq> base then (Inl ERROR_INVALID_ADDRESS, snd (munmap m n s))
          else (Inr (base, n), s))"

definition trim :: "nat \<Rightarrow> nat \<Rightarrow> nat \<Rightarrow> nat \<Rightarrow> vm \<Rightarrow> bool \<times> vm" where
  "trim m mapping_size base n s =
     (let prefix = base - m; suffix = mapping_size - prefix - n in
      case (if prefix \<noteq> 0 then munmap m prefix s else (True, s)) of (ok, s) \<Rightarrow>
      if \<not> ok then (False, s)
      else if suffix \<noteq> 0 then munmap (base + n) suffix s else (True, s))"

definition reserve_anywhere :: "nat \<Rightarrow> vm \<Rightarrow> (nat + nat \<times> nat) \<times> vm" where
  "reserve_anywhere size_wanted s =
     (case round_up size_wanted page_size of
        None \<Rightarrow> (Inl ERROR_NOT_ENOUGH_MEMORY, s)
      | Some n \<Rightarrow>
        case checked_add n granularity of
          None \<Rightarrow> (Inl ERROR_NOT_ENOUGH_MEMORY, s)
        | Some mapping_size \<Rightarrow>
          case mmap_anywhere mapping_size s of
            (Mapped m, s) \<Rightarrow>
              (case round_up m granularity of
                 None \<Rightarrow> (Inl ERROR_NOT_ENOUGH_MEMORY, snd (munmap m mapping_size s))
               | Some base \<Rightarrow>
                 case trim m mapping_size base n s of (ok, s) \<Rightarrow>
                 if ok then (Inr (base, n), s)
                 else (Inl ERROR_NOT_ENOUGH_MEMORY, snd (munmap m mapping_size s)))
          | (_, s) \<Rightarrow> (Inl ERROR_NOT_ENOUGH_MEMORY, s))"

text \<open>Committing the new mapping and entering it; the allocation of the entry can fail.\<close>

definition enter :: "bool \<Rightarrow> nat \<Rightarrow> nat \<Rightarrow> nat \<Rightarrow> vm \<Rightarrow> nat \<times> vm" where
  "enter commit prot base n s =
     (case (if commit then mprotect base n prot s else (True, s)) of (ok, s) \<Rightarrow>
      if \<not> ok then failed ERROR_NOT_ENOUGH_MEMORY (snd (munmap base n s))
      else case vm_ask s of (r, s) \<Rightarrow>
        if r = Refused then failed ERROR_NOT_ENOUGH_MEMORY (snd (munmap base n s))
        else if base \<in> fst ` set (v_reservations s) then failed ERROR_INVALID_ADDRESS (snd (munmap base n s))
        else (base, s\<lparr>v_reservations := insort_key fst (base, n) (v_reservations s)\<rparr>))"

definition VirtualAlloc :: "nat \<Rightarrow> nat \<Rightarrow> u32 \<Rightarrow> u32 \<Rightarrow> vm \<Rightarrow> nat \<times> vm" where
  "VirtualAlloc lpAddress dwSize allocation_type flProtect s =
     (let kind = allocation_type AND NOT MEM_TOP_DOWN in
      if dwSize = 0 \<or> kind \<notin> {MEM_RESERVE, MEM_COMMIT, MEM_RESERVE OR MEM_COMMIT}
      then failed ERROR_INVALID_PARAMETER s
      else case windows_protection flProtect of
        None \<Rightarrow> failed ERROR_INVALID_PARAMETER s
      | Some prot \<Rightarrow>
        case checked_add lpAddress dwSize of
          None \<Rightarrow> failed ERROR_NOT_ENOUGH_MEMORY s
        | Some requested_end \<Rightarrow>
          if kind = MEM_COMMIT \<and> lpAddress \<noteq> 0 then commit_reserved lpAddress requested_end prot s
          else case (if lpAddress \<noteq> 0 then reserve_at lpAddress requested_end s else reserve_anywhere dwSize s) of
              (Inl e, s) \<Rightarrow> failed e s
            | (Inr (base, n), s) \<Rightarrow> enter (kind AND MEM_COMMIT \<noteq> 0) prot base n s)"

text \<open>The range a decommit names: all of a reservation, or pages inside one.\<close>

definition decommit_range :: "nat \<Rightarrow> nat \<Rightarrow> vm \<Rightarrow> (nat \<times> nat) option" where
  "decommit_range lpAddress dwSize s =
     (if dwSize = 0
      then map_option (\<lambda>n. (lpAddress, lpAddress + n)) (map_of (v_reservations s) lpAddress)
      else (let start = round_down lpAddress page_size in
        case checked_add lpAddress dwSize of
          None \<Rightarrow> None
        | Some requested_end \<Rightarrow>
          (case round_up requested_end page_size of
             None \<Rightarrow> None
           | Some stop \<Rightarrow> if find_reservation start stop s = None then None else Some (start, stop))))"

definition VirtualFree :: "nat \<Rightarrow> nat \<Rightarrow> u32 \<Rightarrow> vm \<Rightarrow> bool \<times> vm" where
  "VirtualFree lpAddress dwSize dwFreeType s =
     (let fail = (\<lambda>e s. (False, s\<lparr>v_error := e\<rparr>)) in
      if lpAddress = 0 \<or> dwFreeType \<notin> {MEM_DECOMMIT, MEM_RELEASE} then fail ERROR_INVALID_PARAMETER s
      else if dwFreeType = MEM_RELEASE then
        (case map_of (v_reservations s) lpAddress of
           None \<Rightarrow> fail (if dwSize \<noteq> 0 then ERROR_INVALID_PARAMETER else ERROR_INVALID_ADDRESS) s
         | Some n \<Rightarrow>
           if dwSize \<noteq> 0 then fail ERROR_INVALID_PARAMETER s
           else case munmap lpAddress n s of (ok, s) \<Rightarrow>
             if \<not> ok then fail ERROR_INVALID_ADDRESS s
             else (True, s\<lparr>v_reservations := filter (\<lambda>x. fst x \<noteq> lpAddress) (v_reservations s)\<rparr>))
      else
        case decommit_range lpAddress dwSize s of
          None \<Rightarrow> fail ERROR_INVALID_ADDRESS s
        | Some (start, stop) \<Rightarrow>
          case mmap_fixed start (stop - start) s of (ok, s) \<Rightarrow>
          if ok then (True, s) else fail ERROR_NOT_ENOUGH_MEMORY s)"

section \<open>Correctness\<close>

lemma round_down_word: "unat (x AND NOT (mask k)) = round_down (unat x) (2 ^ k)" for x :: u64
  by (simp add: unat_and_not_mask round_down_def minus_mod_eq_div_mult)

lemma sizes: "page_size dvd granularity" "0 < page_size" "0 < granularity"
  by (simp_all add: page_size_def granularity_def)

lemma checked_add_Some: "checked_add a b = Some c \<longleftrightarrow> c = a + b \<and> b \<le> size_max - a"
  by (auto simp: checked_add_def)

lemma round_down_bounds:
  assumes "0 < k"
  shows "round_down v k \<le> v" and "v < round_down v k + k" and "k dvd round_down v k"
proof -
  have "v = round_down v k + v mod k" and "v mod k < k"
    using assms by (simp_all add: round_down_def)
  then show "round_down v k \<le> v" and "v < round_down v k + k"
    by linarith+
qed (simp add: round_down_def)

lemma round_up_bounds:
  assumes "round_up v k = Some w" and "0 < k" and "v < 2 ^ 64"
  shows "v \<le> w" and "w < v + k" and "k dvd w" and "w < 2 ^ 64"
proof -
  have w: "w = round_down (v + (k - 1)) k" and "k - 1 \<le> 2 ^ 64 - 1 - v"
    using assms(1) by (auto simp: round_up_def checked_add_Some size_max_def split: option.splits)
  then show "v \<le> w" and "w < v + k" and "k dvd w" and "w < 2 ^ 64"
    using round_down_bounds [OF assms(2), of "v + (k - 1)"] assms(2,3) unfolding w by linarith+
qed

subsection \<open>Page ranges\<close>

lemma in_page_range:
  assumes "page_size dvd a" and "page_size dvd n"
  shows "p \<in> set (page_range a n) \<longleftrightarrow> a \<le> p * page_size \<and> p * page_size < a + n"
proof -
  obtain i j where a: "a = page_size * i" and n: "n = page_size * j"
    using assms by (elim dvdE)
  have "(a + n + page_size - 1) div page_size = (page_size * (i + j) + (page_size - 1)) div page_size"
    using sizes by (simp add: a n algebra_simps)
  also have "\<dots> = i + j"
    by (subst div_mult_self4) (simp_all add: page_size_def)
  finally have "(a + n + page_size - 1) div page_size = i + j" .
  moreover have "page_size * i \<le> p * page_size \<longleftrightarrow> i \<le> p"
    and "p * page_size < page_size * i + page_size * j \<longleftrightarrow> p < i + j"
    using sizes(2) by (simp_all add: mult.commute [of p] flip: add_mult_distrib2)
  ultimately show ?thesis
    using sizes(2) by (simp add: page_range_def a n)
qed

definition before :: "nat \<times> nat \<Rightarrow> nat \<times> nat \<Rightarrow> bool" where
  "before x y \<longleftrightarrow> fst x + snd x \<le> fst y"

definition aligned :: "nat \<times> nat \<Rightarrow> bool" where
  "aligned x \<longleftrightarrow> granularity dvd fst x \<and> fst x \<noteq> 0 \<and> page_size dvd snd x \<and> snd x \<noteq> 0 \<and> fst x + snd x < 2 ^ 64"

abbreviation pages_of :: "nat \<times> nat \<Rightarrow> nat list" where
  "pages_of x \<equiv> page_range (fst x) (snd x)"

lemma aligned_page: "aligned x \<Longrightarrow> page_size dvd fst x \<and> page_size dvd snd x"
  using sizes(1) dvd_trans by (auto simp: aligned_def)

lemma disjoint_pages:
  assumes "aligned x" and "aligned y" and "set (pages_of x) \<inter> set (pages_of y) = {}"
  shows "before x y \<or> before y x"
proof (rule ccontr)
  assume no: "\<not> (before x y \<or> before y x)"
  define a where "a = max (fst x) (fst y)"
  have "page_size dvd a"
    using assms(1,2) aligned_page by (simp add: a_def max_def)
  then have "a div page_size * page_size = a"
    by simp
  moreover have "a < fst x + snd x" "a < fst y + snd y"
    using no assms(1,2) by (auto simp: a_def before_def aligned_def)
  ultimately have "a div page_size \<in> set (pages_of x) \<inter> set (pages_of y)"
    using in_page_range aligned_page assms(1,2) by (simp add: a_def)
  with assms(3) show False
    by blast
qed

lemma before_disjoint:
  assumes "aligned x" and "aligned y" and "before x y"
  shows "set (pages_of x) \<inter> set (pages_of y) = {}"
proof -
  have "p * page_size < fst x + snd x \<and> fst y \<le> p * page_size" if "p \<in> set (pages_of x)" "p \<in> set (pages_of y)" for p
    using that in_page_range [of "fst x" "snd x"] in_page_range [of "fst y" "snd y"] aligned_page [OF assms(1)] aligned_page [OF assms(2)] by blast
  then show ?thesis
    using assms(3) by (force simp: before_def)
qed

subsection \<open>Invariant\<close>

definition vm_ok :: "vm \<Rightarrow> bool" where
  "vm_ok s \<longleftrightarrow> list_all aligned (v_reservations s) \<and> sorted_wrt before (v_reservations s) \<and>
     list_all (\<lambda>x. range_mapped (fst x) (snd x) s) (v_reservations s)"

lemma vm_okD:
  assumes "vm_ok s" and "x \<in> set (v_reservations s)"
  shows "aligned x" and "p \<in> set (pages_of x) \<Longrightarrow> v_page s p \<noteq> None"
  using assms by (auto simp: vm_ok_def list_all_iff range_mapped_def)

lemma sorted_before_distinct:
  assumes "sorted_wrt before xs" and "list_all aligned xs"
  shows "distinct (map fst xs)" and "sorted (map fst xs)"
proof -
  have "distinct (map fst xs) \<and> sorted (map fst xs)"
    using assms
  proof (induction xs)
    case (Cons x xs)
    have lt: "fst x < fst y" if "y \<in> set xs" for y
      using Cons.prems that by (auto simp: before_def aligned_def)
    then have "\<forall>b \<in> fst ` set xs. fst x < b"
      by blast
    then show ?case
      using Cons by (auto simp: less_imp_le)
  qed simp
  then show "distinct (map fst xs)" and "sorted (map fst xs)"
    by blast+
qed

lemma sorted_before_insort:
  assumes "sorted_wrt before xs" and "list_all aligned xs" and "aligned y"
    and "\<And>x. x \<in> set xs \<Longrightarrow> before x y \<or> before y x"
  shows "sorted_wrt before (insort_key fst y xs)"
  using assms
proof (induction xs)
  case (Cons x xs)
  have ne: "snd x \<noteq> 0" "snd y \<noteq> 0" and step: "before x y \<or> before y x"
    using Cons.prems by (simp_all add: aligned_def)
  show ?case
  proof (cases "fst y \<le> fst x")
    case True
    then have "before y x"
      using step ne by (auto simp: before_def)
    moreover from this have "before y z" if "z \<in> set xs" for z
      using Cons.prems(1) that by (auto simp: before_def)
    ultimately show ?thesis
      using Cons.prems(1) True by simp
  next
    case False
    then have "before x y"
      using step ne by (auto simp: before_def)
    then show ?thesis
      using Cons.prems Cons.IH False by (auto simp: set_insort_key)
  qed
qed simp

subsection \<open>Frames of the kernel calls\<close>

lemma vm_ask_frame:
  assumes "vm_ask s = (r, s')"
  shows "v_page s' = v_page s" "v_reservations s' = v_reservations s" "v_error s' = v_error s" "v_unmaps s' = v_unmaps s"
  using assms by (auto simp: vm_ask_def split: list.splits)

lemma set_pages_simps [simp]:
  "v_reservations (set_pages a n x s) = v_reservations s"
  "v_error (set_pages a n x s) = v_error s"
  "v_unmaps (set_pages a n x s) = v_unmaps s"
  "v_page (set_pages a n x s) p = (if p \<in> set (page_range a n) then x else v_page s p)"
  by (simp_all add: set_pages_def)

lemma range_free_iff: "range_free a n s \<longleftrightarrow> (\<forall>p \<in> set (page_range a n). v_page s p = None)"
  by (simp add: range_free_def list_all_iff)

text \<open>A successful mapping fills a free range with inaccessible pages.\<close>

definition mapped_at :: "nat \<Rightarrow> nat \<Rightarrow> vm \<Rightarrow> vm \<Rightarrow> bool" where
  "mapped_at a n s s' \<longleftrightarrow> range_free a n s \<and> v_reservations s' = v_reservations s \<and> v_unmaps s' = v_unmaps s \<and>
     (\<forall>p. v_page s' p = (if p \<in> set (page_range a n) then Some 0 else v_page s p))"

definition untouched :: "vm \<Rightarrow> vm \<Rightarrow> bool" where
  "untouched s s' \<longleftrightarrow> v_page s' = v_page s \<and> v_reservations s' = v_reservations s \<and> v_unmaps s' = v_unmaps s"

lemma untouched_refl [simp]: "untouched s s"
  by (simp add: untouched_def)

lemma mapped_at_set: "untouched s s1 \<Longrightarrow> range_free a n s1 \<Longrightarrow> mapped_at a n s (set_pages a n (Some 0) s1)"
  by (simp add: mapped_at_def untouched_def range_free_iff)

lemma mmap_noreplace_spec:
  assumes "mmap_noreplace a n s = (r, s')"
  shows "case r of Mapped m \<Rightarrow> mapped_at m n s s' | _ \<Rightarrow> untouched s s'"
proof -
  obtain q s1 where 1: "vm_ask s = (q, s1)" by (cases "vm_ask s")
  have "untouched s s1"
    using vm_ask_frame [OF 1] by (simp add: untouched_def)
  then show ?thesis
    using assms mapped_at_set [of s s1] by (auto simp: mmap_noreplace_def 1 mappable_def split: reply.splits if_splits)
qed

lemma mmap_anywhere_spec:
  assumes "mmap_anywhere n s = (r, s')"
  shows "case r of Mapped m \<Rightarrow> mapped_at m n s s' \<and> m \<noteq> 0 \<and> page_size dvd m \<and> m + n \<le> 2 ^ 64 | _ \<Rightarrow> untouched s s'"
proof -
  obtain q s1 where 1: "vm_ask s = (q, s1)" by (cases "vm_ask s")
  have "untouched s s1"
    using vm_ask_frame [OF 1] by (simp add: untouched_def)
  then show ?thesis
    using assms mapped_at_set [of s s1] by (auto simp: mmap_anywhere_def 1 mappable_def split: reply.splits if_splits)
qed

lemma munmap_frame:
  assumes "munmap a n s = (ok, s')"
  shows "v_reservations s' = v_reservations s" and "v_unmaps s = [] \<Longrightarrow> ok \<and> v_unmaps s' = []"
    and "v_page s' p = (if ok \<and> p \<in> set (page_range a n) then None else v_page s p)"
  using assms by (auto simp: munmap_def Let_def split: list.splits if_splits)

subsection \<open>Reserving\<close>

text \<open>
  Giving up leaves every page that was mapped and the reservations alone, and when \<open>munmap\<close> works it
  leaves nothing behind.
\<close>

definition gave_up :: "vm \<Rightarrow> vm \<Rightarrow> bool" where
  "gave_up s s' \<longleftrightarrow> v_reservations s' = v_reservations s \<and> (\<forall>p. v_page s p \<noteq> None \<longrightarrow> v_page s' p = v_page s p) \<and>
     (v_unmaps s = [] \<longrightarrow> v_page s' = v_page s \<and> v_unmaps s' = [])"

definition new_range :: "nat \<Rightarrow> nat \<Rightarrow> vm \<Rightarrow> vm \<Rightarrow> bool" where
  "new_range b n s s' \<longleftrightarrow> aligned (b, n) \<and> range_free b n s \<and> v_reservations s' = v_reservations s \<and>
     (\<forall>p. v_page s' p = (if p \<in> set (page_range b n) then Some 0 else v_page s p)) \<and>
     (v_unmaps s = [] \<longrightarrow> v_unmaps s' = [])"

lemma untouched_gave_up: "untouched s s' \<Longrightarrow> gave_up s s'"
  by (simp add: untouched_def gave_up_def)

lemma gave_up_error [simp]: "gave_up s (s'\<lparr>v_error := e\<rparr>) = gave_up s s'"
  by (simp add: gave_up_def)

text \<open>Unmapping a range that was free before.\<close>

lemma unmap_gave_up:
  assumes "range_free a n s" and "v_reservations s1 = v_reservations s"
    and "\<And>p. p \<notin> set (page_range a n) \<Longrightarrow> v_page s1 p = v_page s p" and "v_unmaps s = [] \<longrightarrow> v_unmaps s1 = []"
  shows "gave_up s (snd (munmap a n s1))"
proof -
  obtain ok s2 where 2: "munmap a n s1 = (ok, s2)" by (cases "munmap a n s1")
  note f = munmap_frame [OF 2]
  have "v_page s2 p = v_page s p" if "ok \<or> v_page s p \<noteq> None" for p
    using f(3) [of p] assms(1,3) that by (cases "p \<in> set (page_range a n)") (auto simp: range_free_iff)
  then show ?thesis
    using f(1,2) assms(2,4) by (auto simp: gave_up_def 2 fun_eq_iff)
qed

lemma mapped_unmap: "mapped_at a n s s1 \<Longrightarrow> gave_up s (snd (munmap a n s1))"
  by (rule unmap_gave_up) (auto simp: mapped_at_def)

lemma reserve_at_spec:
  assumes run: "reserve_at requested requested_end s = (r, s')" and "requested < requested_end" and "requested_end < 2 ^ 64"
  shows "case r of Inl e \<Rightarrow> gave_up s s' | Inr (b, n) \<Rightarrow> new_range b n s s' \<and> b \<le> requested \<and> requested_end \<le> b + n"
proof -
  let ?base = "round_down requested granularity"
  note base = round_down_bounds [OF sizes(3), of requested]
  have pages: "page_size dvd ?base"
    using base(3) sizes(1) dvd_trans by blast
  consider (zero) "?base = 0" | (none) "?base \<noteq> 0" "round_up requested_end page_size = None"
    | (go) stop where "?base \<noteq> 0" "round_up requested_end page_size = Some stop"
    by (cases "round_up requested_end page_size") auto
  then show ?thesis
  proof cases
    case zero
    then show ?thesis using run by (auto simp: reserve_at_def untouched_gave_up)
  next
    case none
    then show ?thesis using run by (auto simp: reserve_at_def untouched_gave_up)
  next
    case (go stop)
    note stop = round_up_bounds [OF go(2) sizes(2) assms(3)]
    obtain m s1 where 1: "mmap_noreplace ?base (stop - ?base) s = (m, s1)"
      by (cases "mmap_noreplace ?base (stop - ?base) s")
    note spec = mmap_noreplace_spec [OF 1]
    have lt: "?base < stop"
      using base(1) stop(1) assms(2) by linarith
    then have al: "aligned (?base, stop - ?base)"
      using base(3) go(1) stop(3,4) pages by (simp add: aligned_def)
    show ?thesis
    proof (cases "m = Mapped ?base")
      case True
      then have "r = Inr (?base, stop - ?base)" "s' = s1"
        using run go 1 by (simp_all add: reserve_at_def Let_def)
      then show ?thesis
        using spec True al lt base(1) stop(1) by (simp add: new_range_def mapped_at_def)
    next
      case False
      then have "(\<exists>e. r = Inl e) \<and> (case m of Mapped b \<Rightarrow> s' = snd (munmap b (stop - ?base) s1) | _ \<Rightarrow> s' = s1)"
        using run go 1 by (auto simp: reserve_at_def Let_def split: mapping.splits)
      then show ?thesis
        using spec by (cases m) (auto intro: mapped_unmap untouched_gave_up)
    qed
  qed
qed

text \<open>The page-aligned parts of a mapping are ranges of their own.\<close>

lemma page_range_part:
  assumes "page_size dvd a" "page_size dvd n" "page_size dvd m" "page_size dvd k" "m \<le> a" "a + n \<le> m + k"
  shows "set (page_range a n) \<subseteq> set (page_range m k)"
  using assms by (auto simp: in_page_range)

lemma page_range_empty: "page_size dvd a \<Longrightarrow> set (page_range a 0) = {}"
  by (rule equals0I) (auto simp: in_page_range)
lemma trim_spec:
  assumes run: "trim m k base n s1 = (ok, s')" and map: "mapped_at m k s s1"
    and al: "page_size dvd m" "page_size dvd k" "page_size dvd base" "page_size dvd n"
    and fit: "m \<le> base" "base + n \<le> m + k"
  shows "v_reservations s' = v_reservations s" and "\<And>p. p \<notin> set (page_range m k) \<Longrightarrow> v_page s' p = v_page s p"
    and "v_unmaps s = [] \<longrightarrow> v_unmaps s' = []"
    and "ok \<Longrightarrow> v_page s' p = (if p \<in> set (page_range base n) then Some 0 else v_page s p)"
proof -
  define pre where "pre = base - m"
  define suf where "suf = k - pre - n"
  have dvd: "page_size dvd pre" "page_size dvd suf" "page_size dvd base + n"
    using al by (simp_all add: pre_def suf_def)
  obtain ok2 s2 where 2: "(if pre \<noteq> 0 then munmap m pre s1 else (True, s1)) = (ok2, s2)"
    by (metis prod.collapse)
  obtain ok3 s3 where 3: "(if ok2 \<and> suf \<noteq> 0 then munmap (base + n) suf s2 else (ok2, s2)) = (ok3, s3)"
    by (metis prod.collapse)
  have res: "ok = ok3" "s' = s3"
    using run 2 3 unfolding trim_def Let_def pre_def [symmetric] suf_def [symmetric] by (auto split: if_splits)
  have pages2: "v_page s2 p = (if ok2 \<and> p \<in> set (page_range m pre) then None else v_page s1 p)" for p
  proof (cases "pre = 0")
    case True
    then show ?thesis using 2 page_range_empty [OF al(1)] by simp
  qed (use 2 munmap_frame(3) in simp)
  have pages3: "v_page s3 p = (if ok3 \<and> p \<in> set (page_range (base + n) suf) then None else v_page s2 p)" for p
  proof (cases "suf = 0")
    case True
    then show ?thesis using 3 page_range_empty [OF dvd(3)] by simp
  next
    case False
    then show ?thesis using 3 munmap_frame(3) [of "base + n" suf s2 ok3 s3 p] by (cases ok2) simp_all
  qed
  have "ok3 \<Longrightarrow> ok2"
    using 3 by (simp split: if_splits)
  note in_part = in_page_range [OF al(1,2)] in_page_range [OF al(1) dvd(1)] in_page_range [OF dvd(3,2)] in_page_range [OF al(3,4)]
  have free: "v_page s p = None" if "p \<in> set (page_range m k)" for p
    using map that by (simp add: mapped_at_def range_free_iff)
  have page1: "v_page s1 p = (if p \<in> set (page_range m k) then Some 0 else v_page s p)" for p
    using map by (simp add: mapped_at_def)
  have sum: "m + pre = base" "base + n + suf = m + k"
    using fit by (simp_all add: pre_def suf_def)
  show "v_page s' p = (if p \<in> set (page_range base n) then Some 0 else v_page s p)" if ok
  proof -
    have "ok2" "ok3"
      using that res \<open>ok3 \<Longrightarrow> ok2\<close> by simp_all
    then have p3: "v_page s3 p = (if p \<in> set (page_range (base + n) suf) \<or> p \<in> set (page_range m pre) then None else v_page s1 p)"
      using pages2 pages3 by simp
    show ?thesis
    proof (cases "p \<in> set (page_range m k)")
      case True
      then have "p \<in> set (page_range base n) \<longleftrightarrow> \<not> (p \<in> set (page_range (base + n) suf) \<or> p \<in> set (page_range m pre))"
        unfolding in_part using sum by linarith
      then show ?thesis
        using True free page1 p3 res by simp
    next
      case False
      then have "p \<notin> set (page_range base n)" "p \<notin> set (page_range (base + n) suf)" "p \<notin> set (page_range m pre)"
        unfolding in_part using sum fit by linarith+
      then show ?thesis
        using False page1 p3 res by simp
    qed
  qed
  show "v_page s' p = v_page s p" if "p \<notin> set (page_range m k)" for p
  proof -
    have "p \<notin> set (page_range (base + n) suf)" "p \<notin> set (page_range m pre)"
      using that unfolding in_part using sum fit by linarith+
    then show ?thesis
      using that page1 pages2 pages3 res by simp
  qed
  show "v_reservations s' = v_reservations s" and "v_unmaps s = [] \<longrightarrow> v_unmaps s' = []"
    using 2 3 res map munmap_frame(1,2) by (auto simp: mapped_at_def split: if_splits)
qed

lemma reserve_anywhere_spec:
  assumes run: "reserve_anywhere wanted s = (r, s')" and "wanted \<noteq> 0" and "wanted < 2 ^ 64"
  shows "case r of Inl e \<Rightarrow> gave_up s s' | Inr (b, n) \<Rightarrow> new_range b n s s' \<and> wanted \<le> n"
proof (cases "round_up wanted page_size")
  case None
  then show ?thesis using run by (auto simp: reserve_anywhere_def untouched_gave_up)
next
  case (Some n)
  note n = round_up_bounds [OF Some sizes(2) assms(3)]
  show ?thesis
  proof (cases "checked_add n granularity")
    case None
    then show ?thesis using run Some by (auto simp: reserve_anywhere_def untouched_gave_up)
  next
    case (Some k)
    then have k: "k = n + granularity"
      by (simp add: checked_add_Some)
    obtain q s1 where 1: "mmap_anywhere k s = (q, s1)" by (cases "mmap_anywhere k s")
    note spec = mmap_anywhere_spec [OF 1]
    show ?thesis
    proof (cases q)
      case (Mapped m)
      with spec have map: "mapped_at m k s s1" and m: "m \<noteq> 0" "page_size dvd m" "m + k \<le> 2 ^ 64"
        by simp_all
      have "m < 2 ^ 64"
        using m k sizes(3) by linarith
      show ?thesis
      proof (cases "round_up m granularity")
        case None
        then show ?thesis
          using run \<open>round_up wanted page_size = Some n\<close> Some 1 Mapped mapped_unmap [OF map]
          by (auto simp: reserve_anywhere_def)
      next
        case base: (Some b)
        note b = round_up_bounds [OF base sizes(3) \<open>m < 2 ^ 64\<close>]
        obtain ok s2 where 2: "trim m k b n s1 = (ok, s2)" by (cases "trim m k b n s1")
        have "page_size dvd b"
          using b(3) sizes(1) dvd_trans by blast
        moreover have "page_size dvd k"
          using n(3) sizes(1) by (simp add: k)
        moreover have "b + n \<le> m + k"
          using b(2) k by linarith
        moreover note n(3) m(2) b(1)
        ultimately have al: "page_size dvd b" "page_size dvd k" "b + n \<le> m + k" "page_size dvd n" "page_size dvd m" "m \<le> b"
          by simp_all
        note t = trim_spec [OF 2 map al(5,2,1,4,6,3)]
        have sub: "set (page_range b n) \<subseteq> set (page_range m k)"
          by (rule page_range_part [OF al(1,4,5,2,6,3)])
        have res: "if ok then r = Inr (b, n) \<and> s' = s2 else (\<exists>e. r = Inl e) \<and> s' = snd (munmap m k s2)"
          using run \<open>round_up wanted page_size = Some n\<close> Some 1 Mapped base 2 by (auto simp: reserve_anywhere_def)
        show ?thesis
        proof (cases ok)
          case True
          have "b + n < 2 ^ 64" "b \<noteq> 0" "n \<noteq> 0"
            using b(1,2) k m n(1) assms(2) by linarith+
          then have "aligned (b, n)"
            using b(3) n(3) by (simp add: aligned_def)
          moreover have "range_free b n s"
            using map sub by (auto simp: mapped_at_def range_free_iff)
          ultimately show ?thesis
            using res True t n(1) by (simp add: new_range_def)
        next
          case False
          have "range_free m k s"
            using map by (simp add: mapped_at_def)
          then have "gave_up s (snd (munmap m k s2))"
            using t(1-3) by (rule unmap_gave_up)
          with res False show ?thesis
            by auto
        qed
      qed
    qed (use run \<open>round_up wanted page_size = Some n\<close> Some 1 spec in \<open>auto simp: reserve_anywhere_def untouched_gave_up\<close>)
  qed
qed

subsection \<open>Entering a reservation\<close>

lemma mprotect_spec:
  assumes "mprotect a n prot s = (ok, s')"
  shows "v_reservations s' = v_reservations s" and "v_unmaps s' = v_unmaps s"
    and "v_page s' p = (if ok \<and> p \<in> set (page_range a n) then Some prot else v_page s p)"
    and "ok \<Longrightarrow> range_mapped a n s"
proof -
  obtain q s1 where 1: "vm_ask s = (q, s1)" by (cases "vm_ask s")
  note f = vm_ask_frame [OF 1]
  show "v_reservations s' = v_reservations s" and "v_unmaps s' = v_unmaps s"
    and "v_page s' p = (if ok \<and> p \<in> set (page_range a n) then Some prot else v_page s p)"
    and "ok \<Longrightarrow> range_mapped a n s"
    using assms f by (auto simp: mprotect_def 1 range_mapped_def split: if_splits)
qed

text \<open>A new reservation: the list has it in order, its pages have the protection, others are as before.\<close>

definition entered :: "nat \<Rightarrow> nat \<Rightarrow> nat \<Rightarrow> vm \<Rightarrow> vm \<Rightarrow> bool" where
  "entered b n prot s s' \<longleftrightarrow> aligned (b, n) \<and> range_free b n s \<and>
     v_reservations s' = insort_key fst (b, n) (v_reservations s) \<and>
     (\<forall>p. v_page s' p = (if p \<in> set (page_range b n) then Some prot else v_page s p)) \<and>
     (v_unmaps s = [] \<longrightarrow> v_unmaps s' = [])"

lemma enter_spec:
  assumes run: "enter commit prot b n s1 = (r, s')" and new: "new_range b n s s1"
  shows "r = 0 \<and> gave_up s s' \<or> r = b \<and> r \<noteq> 0 \<and> entered b n (if commit then prot else 0) s s'"
proof -
  obtain ok s2 where 2: "(if commit then mprotect b n prot s1 else (True, s1)) = (ok, s2)"
    by (metis prod.collapse)
  obtain q s3 where 3: "vm_ask s2 = (q, s3)" by (cases "vm_ask s2")
  note f = vm_ask_frame [OF 3]
  have f2: "v_reservations s2 = v_reservations s1" "v_unmaps s2 = v_unmaps s1"
    and p2: "v_page s2 p = (if commit \<and> ok \<and> p \<in> set (page_range b n) then Some prot else v_page s1 p)" for p
    using 2 mprotect_spec [of b n prot s1 ok s2] by (auto split: if_splits)
  have free: "range_free b n s" and res1: "v_reservations s1 = v_reservations s" and al: "aligned (b, n)"
    and p1: "v_page s1 p = (if p \<in> set (page_range b n) then Some 0 else v_page s p)"
    and um: "v_unmaps s = [] \<longrightarrow> v_unmaps s1 = []" for p
    using new by (simp_all add: new_range_def)
  have undo: "gave_up s (snd (munmap b n t))" if "t = s2 \<or> t = s3" for t
    using that f f2 p2 p1 res1 um by (intro unmap_gave_up [OF free]) auto
  consider (bad) "r = 0" "s' = (snd (munmap b n s2))\<lparr>v_error := ERROR_NOT_ENOUGH_MEMORY\<rparr> \<or> (\<exists>e. s' = (snd (munmap b n s3))\<lparr>v_error := e\<rparr>)"
    | (good) "ok" "r = b" "s' = s3\<lparr>v_reservations := insort_key fst (b, n) (v_reservations s3)\<rparr>"
    using run by (auto simp: enter_def 2 3 failed_def split: if_splits)
  then show ?thesis
  proof cases
    case bad
    then show ?thesis using undo by auto
  next
    case good
    then have "entered b n (if commit then prot else 0) s s'"
      using f f2 p2 p1 res1 um al free by (simp add: entered_def)
    then show ?thesis
      using good al by (simp add: aligned_def)
  qed
qed

lemma entered_ok:
  assumes "vm_ok s" and "entered b n prot s s'"
  shows "vm_ok s'"
proof -
  have al: "aligned (b, n)" and free: "range_free b n s"
    and res: "v_reservations s' = insort_key fst (b, n) (v_reservations s)"
    and page: "\<And>p. v_page s' p = (if p \<in> set (page_range b n) then Some prot else v_page s p)"
    using assms(2) by (simp_all add: entered_def)
  have "before x (b, n) \<or> before (b, n) x" if x: "x \<in> set (v_reservations s)" for x
    using vm_okD [OF assms(1) x] free al by (intro disjoint_pages) (force simp: range_free_iff)+
  then have "sorted_wrt before (v_reservations s')"
    unfolding res using assms(1) al by (intro sorted_before_insort) (simp_all add: vm_ok_def)
  then show ?thesis
    using assms(1) al by (auto simp: vm_ok_def res set_insort_key list_all_iff range_mapped_def page)
qed

lemma gave_up_ok: "vm_ok s \<Longrightarrow> gave_up s s' \<Longrightarrow> vm_ok s'"
  by (simp add: vm_ok_def gave_up_def list_all_iff range_mapped_def)

subsection \<open>Finding a reservation\<close>

lemma find_reservation_iff:
  assumes "vm_ok s" and "start < stop"
  shows "find_reservation start stop s = Some x \<longleftrightarrow>
    x \<in> set (v_reservations s) \<and> fst x \<le> start \<and> stop \<le> fst x + snd x"
proof -
  let ?rs = "v_reservations s"
  let ?below = "filter (\<lambda>x. fst x \<le> start) ?rs"
  have sorted: "sorted_wrt before ?rs" and al: "\<And>y. y \<in> set ?rs \<Longrightarrow> aligned y"
    using assms(1) by (simp_all add: vm_ok_def list_all_iff)
  have find: "find_reservation start stop s = Some x \<longleftrightarrow>
      ?below \<noteq> [] \<and> last ?below = x \<and> stop \<le> fst x + snd x"
  proof (cases "?below = []")
    case False
    then have "last ?below \<in> set ?rs" "fst (last ?below) \<le> start"
      using last_in_set [OF False] by auto
    moreover from this have "fst (last ?below) + snd (last ?below) < 2 ^ 64"
      using al unfolding aligned_def by blast
    then have "checked_add (fst (last ?below)) (snd (last ?below)) = Some (fst (last ?below) + snd (last ?below))"
      by (simp add: checked_add_Some size_max_def)
    then show ?thesis
      using False calculation
      by (cases "last ?below") (auto simp: find_reservation_def Let_def)
  qed (simp add: find_reservation_def)
  show ?thesis
  proof
    assume "find_reservation start stop s = Some x"
    then show "x \<in> set ?rs \<and> fst x \<le> start \<and> stop \<le> fst x + snd x"
      using find last_in_set [of ?below] by auto
  next
    assume x: "x \<in> set ?rs \<and> fst x \<le> start \<and> stop \<le> fst x + snd x"
    then obtain ys zs where split: "?rs = ys @ x # zs"
      by (meson split_list)
    have "start < fst z" if "z \<in> set zs" for z
      using sorted that x assms(2) by (auto simp: split sorted_wrt_append before_def)
    then have "filter (\<lambda>x. fst x \<le> start) zs = []"
      by (auto simp: filter_empty_conv not_le)
    then have "?below \<noteq> [] \<and> last ?below = x"
      using x by (simp add: split)
    then show "find_reservation start stop s = Some x"
      using find x by simp
  qed
qed

subsection \<open>The operations\<close>

text \<open>Changing pages of one reservation only.\<close>

definition repaged :: "nat \<Rightarrow> nat \<Rightarrow> nat \<Rightarrow> vm \<Rightarrow> vm \<Rightarrow> bool" where
  "repaged start stop prot s s' \<longleftrightarrow> v_reservations s' = v_reservations s \<and> v_unmaps s' = v_unmaps s \<and>
     (\<exists>x \<in> set (v_reservations s). fst x \<le> start \<and> stop \<le> fst x + snd x) \<and>
     page_size dvd start \<and> page_size dvd stop \<and> start < stop \<and>
     (\<forall>p. v_page s' p = (if p \<in> set (page_range start (stop - start)) then Some prot else v_page s p))"

lemma repaged_ok: "vm_ok s \<Longrightarrow> repaged start stop prot s s' \<Longrightarrow> vm_ok s'"
  by (auto simp: vm_ok_def repaged_def list_all_iff range_mapped_def)

lemma commit_reserved_spec:
  assumes run: "commit_reserved requested requested_end prot s = (r, s')" and ok: "vm_ok s"
    and "requested < requested_end" and "requested_end < 2 ^ 64"
  shows "r = 0 \<and> gave_up s s' \<or>
    r \<noteq> 0 \<and> r \<le> requested \<and> (\<exists>stop. requested_end \<le> stop \<and> repaged r stop prot s s')"
proof (cases "round_up requested_end page_size")
  case None
  then show ?thesis using run by (auto simp: commit_reserved_def failed_def gave_up_def)
next
  case (Some stop)
  let ?start = "round_down requested page_size"
  note start = round_down_bounds [OF sizes(2), of requested]
  note stop = round_up_bounds [OF Some sizes(2) assms(4)]
  have lt: "?start < stop"
    using start(1) stop(1) assms(3) by linarith
  show ?thesis
  proof (cases "find_reservation ?start stop s")
    case None
    then show ?thesis using run Some by (auto simp: commit_reserved_def failed_def gave_up_def)
  next
    case x: (Some x)
    then have mem: "x \<in> set (v_reservations s)" "fst x \<le> ?start" "stop \<le> fst x + snd x"
      using find_reservation_iff [OF ok lt] by simp_all
    then have "?start \<noteq> 0"
      using vm_okD(1) [OF ok mem(1)] by (auto simp: aligned_def)
    obtain b s1 where 1: "mprotect ?start (stop - ?start) prot s = (b, s1)"
      by (cases "mprotect ?start (stop - ?start) prot s")
    note f = mprotect_spec [OF 1]
    show ?thesis
    proof (cases b)
      case True
      then have "repaged ?start stop prot s s1"
        using f mem start(3) stop(3) lt by (auto simp: repaged_def)
      then show ?thesis
        using run Some x 1 True \<open>?start \<noteq> 0\<close> start(1) stop(1) by (auto simp: commit_reserved_def)
    next
      case False
      then show ?thesis
        using run Some x 1 f by (auto simp: commit_reserved_def failed_def gave_up_def)
    qed
  qed
qed

lemma failed_gave_up [simp]: "failed e s = (r, s') \<Longrightarrow> r = 0 \<and> gave_up s s'"
  by (auto simp: failed_def gave_up_def)

text \<open>What \<open>VirtualAlloc\<close> does when it returns an address.\<close>

definition committed :: "u32 \<Rightarrow> u32 \<Rightarrow> nat" where
  "committed kind protection = (if kind AND MEM_COMMIT \<noteq> 0 then the (windows_protection protection) else 0)"

definition in_place :: "nat \<Rightarrow> u32 \<Rightarrow> bool" where
  "in_place lpAddress allocation_type \<longleftrightarrow> allocation_type AND NOT MEM_TOP_DOWN = MEM_COMMIT \<and> lpAddress \<noteq> 0"

lemma VirtualAlloc_spec:
  assumes run: "VirtualAlloc lpAddress dwSize kind protection s = (r, s')" and ok: "vm_ok s"
    and "lpAddress < 2 ^ 64" and "dwSize < 2 ^ 64"
  shows "r = 0 \<and> gave_up s s' \<or> r \<noteq> 0 \<and>
    (if in_place lpAddress kind
     then r \<le> lpAddress \<and> (\<exists>stop. lpAddress + dwSize \<le> stop \<and> repaged r stop (the (windows_protection protection)) s s')
     else \<exists>n. entered r n (committed (kind AND NOT MEM_TOP_DOWN) protection) s s' \<and> dwSize \<le> n \<and>
       (lpAddress = 0 \<or> r \<le> lpAddress \<and> lpAddress + dwSize \<le> r + n))"
proof -
  let ?kind = "kind AND NOT MEM_TOP_DOWN"
  consider (bad) "r = 0" "gave_up s s'"
    | (go) prot where "dwSize \<noteq> 0" "?kind \<in> {MEM_RESERVE, MEM_COMMIT, MEM_RESERVE OR MEM_COMMIT}"
        "windows_protection protection = Some prot" "checked_add lpAddress dwSize = Some (lpAddress + dwSize)"
    using run by (auto simp: VirtualAlloc_def Let_def checked_add_Some split: option.splits if_splits)
  then show ?thesis
  proof cases
    case (go prot)
    then have lt: "lpAddress < lpAddress + dwSize" and top: "lpAddress + dwSize < 2 ^ 64"
      using assms(3,4) by (auto simp: checked_add_Some size_max_def)
    have run': "(if ?kind = MEM_COMMIT \<and> lpAddress \<noteq> 0 then commit_reserved lpAddress (lpAddress + dwSize) prot s
          else case (if lpAddress \<noteq> 0 then reserve_at lpAddress (lpAddress + dwSize) s else reserve_anywhere dwSize s) of
              (Inl e, s) \<Rightarrow> failed e s
            | (Inr (base, n), s) \<Rightarrow> enter (?kind AND MEM_COMMIT \<noteq> 0) prot base n s) = (r, s')"
      using run go(1,2) unfolding VirtualAlloc_def Let_def go(3,4) by (simp only: HOL.simp_thms if_False option.case)
    show ?thesis
    proof (cases "in_place lpAddress kind")
      case True
      then have "commit_reserved lpAddress (lpAddress + dwSize) prot s = (r, s')"
        using run' by (simp add: in_place_def)
      from commit_reserved_spec [OF this ok lt top] show ?thesis
        using True go(3) by auto
    next
      case False
      obtain q s1 where 1: "(if lpAddress \<noteq> 0 then reserve_at lpAddress (lpAddress + dwSize) s else reserve_anywhere dwSize s) = (q, s1)"
        by (metis prod.collapse)
      have spec: "case q of Inl e \<Rightarrow> gave_up s s1 | Inr (b, n) \<Rightarrow> new_range b n s s1 \<and> dwSize \<le> n \<and>
          (lpAddress = 0 \<or> b \<le> lpAddress \<and> lpAddress + dwSize \<le> b + n)"
        using 1 reserve_at_spec [OF _ lt top, of s q s1] reserve_anywhere_spec [OF _ go(1) assms(4), of s q s1]
        by (auto split: if_splits sum.splits)
      have run1: "(case (q, s1) of (Inl e, s) \<Rightarrow> failed e s
            | (Inr (base, n), s) \<Rightarrow> enter (?kind AND MEM_COMMIT \<noteq> 0) prot base n s) = (r, s')"
        using run' False unfolding 1 in_place_def by (simp only: if_False)
      show ?thesis
      proof (cases q)
        case (Inl e)
        then show ?thesis using run1 spec by (auto simp: failed_def)
      next
        case (Inr x)
        obtain b n where x: "x = (b, n)" by (cases x)
        have new: "new_range b n s s1" and fit: "dwSize \<le> n" "lpAddress = 0 \<or> b \<le> lpAddress \<and> lpAddress + dwSize \<le> b + n"
          using spec by (simp_all add: Inr x)
        have "enter (?kind AND MEM_COMMIT \<noteq> 0) prot b n s1 = (r, s')"
          using run1 by (simp add: Inr x)
        from enter_spec [OF this new] fit False go(3) show ?thesis
          by (auto simp: committed_def)
      qed
    qed
  qed simp
qed

lemma VirtualAlloc_ok:
  assumes "VirtualAlloc lpAddress dwSize kind protection s = (r, s')" and "vm_ok s"
    and "lpAddress < 2 ^ 64" and "dwSize < 2 ^ 64"
  shows "vm_ok s'"
proof -
  consider "gave_up s s'" | start stop prot where "repaged start stop prot s s'" | b n prot where "entered b n prot s s'"
    using VirtualAlloc_spec [OF assms] by (metis (full_types))
  then show ?thesis
    using assms(2) gave_up_ok entered_ok repaged_ok by cases blast+
qed

text \<open>Releasing takes out the reservation that starts at the address and unmaps exactly its pages.\<close>

definition released :: "nat \<Rightarrow> nat \<Rightarrow> vm \<Rightarrow> vm \<Rightarrow> bool" where
  "released b n s s' \<longleftrightarrow> (b, n) \<in> set (v_reservations s) \<and>
     v_reservations s' = filter (\<lambda>x. fst x \<noteq> b) (v_reservations s) \<and>
     (\<forall>p. v_page s' p = (if p \<in> set (page_range b n) then None else v_page s p)) \<and>
     (v_unmaps s = [] \<longrightarrow> v_unmaps s' = [])"

lemma distinct_bases: "vm_ok s \<Longrightarrow> distinct (map fst (v_reservations s))"
  by (rule sorted_before_distinct) (simp_all add: vm_ok_def)

lemma released_ok:
  assumes "vm_ok s" and "released b n s s'"
  shows "vm_ok s'"
proof -
  have mem: "(b, n) \<in> set (v_reservations s)" and res: "v_reservations s' = filter (\<lambda>x. fst x \<noteq> b) (v_reservations s)"
    and page: "\<And>p. v_page s' p = (if p \<in> set (page_range b n) then None else v_page s p)"
    using assms(2) by (simp_all add: released_def)
  have apart: "set (pages_of x) \<inter> set (page_range b n) = {}" if x: "x \<in> set (v_reservations s)" "fst x \<noteq> b" for x
  proof -
    have "before x (b, n) \<or> before (b, n) x"
      using assms(1) x mem by (auto simp: vm_ok_def sorted_wrt_iff_nth_less in_set_conv_nth)
        (metis fst_conv linorder_neqE_nat)
    then show ?thesis
      using vm_okD(1) [OF assms(1)] x mem before_disjoint [of x "(b, n)"] before_disjoint [of "(b, n)" x] by auto
  qed
  have "range_mapped (fst x) (snd x) s'" if x: "x \<in> set (v_reservations s)" "fst x \<noteq> b" for x
    using apart [OF x] vm_okD(2) [OF assms(1) x(1)] by (auto simp: range_mapped_def list_all_iff page)
  then show ?thesis
    using assms(1) by (auto simp: vm_ok_def res list_all_iff sorted_wrt_filter)
qed

lemma mmap_fixed_spec:
  assumes "mmap_fixed a n s = (ok, s')"
  shows "v_reservations s' = v_reservations s" and "v_unmaps s' = v_unmaps s"
    and "v_page s' p = (if ok \<and> p \<in> set (page_range a n) then Some 0 else v_page s p)"
proof -
  obtain q s1 where 1: "vm_ask s = (q, s1)" by (cases "vm_ask s")
  show "v_reservations s' = v_reservations s" and "v_unmaps s' = v_unmaps s"
    and "v_page s' p = (if ok \<and> p \<in> set (page_range a n) then Some 0 else v_page s p)"
    using assms vm_ask_frame [OF 1] by (auto simp: mmap_fixed_def 1 split: if_splits)
qed

lemma decommit_range_spec:
  assumes "decommit_range lpAddress dwSize s = Some (start, stop)" and ok: "vm_ok s" and "lpAddress < 2 ^ 64"
  shows "start \<le> lpAddress \<and> lpAddress + dwSize \<le> stop \<and> start < stop \<and> page_size dvd start \<and> page_size dvd stop \<and>
    (\<exists>x \<in> set (v_reservations s). fst x \<le> start \<and> stop \<le> fst x + snd x)"
proof (cases "dwSize = 0")
  case True
  then obtain n where n: "(lpAddress, n) \<in> set (v_reservations s)" "start = lpAddress" "stop = lpAddress + n"
    using assms(1) map_of_SomeD by (fastforce simp: decommit_range_def)
  then have al: "aligned (lpAddress, n)"
    using vm_okD(1) [OF ok] by blast
  then have "page_size dvd start \<and> page_size dvd stop" "start < stop"
    using n aligned_page [OF al] by (simp_all add: aligned_def)
  then show ?thesis
    using n True by (intro conjI bexI [of _ "(lpAddress, n)"]) simp_all
next
  case False
  let ?start = "round_down lpAddress page_size"
  obtain stop' where top: "checked_add lpAddress dwSize = Some (lpAddress + dwSize)"
    and up: "round_up (lpAddress + dwSize) page_size = Some stop'"
    and find: "find_reservation ?start stop' s \<noteq> None" and eq: "start = ?start" "stop = stop'"
  proof (cases "checked_add lpAddress dwSize")
    case (Some e)
    then have e: "e = lpAddress + dwSize"
      by (simp only: checked_add_Some)
    show ?thesis
    proof (cases "round_up e page_size")
      case up: (Some u)
      have "(if find_reservation ?start u s = None then None else Some (?start, u)) = Some (start, stop)"
        using assms(1) unfolding decommit_range_def Let_def Some option.case up if_not_P [OF False] .
      then have "find_reservation ?start u s \<noteq> None" "start = ?start" "stop = u"
        by (cases "find_reservation ?start u s = None"; simp)+
      then show ?thesis
        using that [of u] Some up e by blast
    qed (use assms(1) False Some in \<open>simp add: decommit_range_def\<close>)
  qed (use assms(1) False in \<open>simp add: decommit_range_def\<close>)
  have "dwSize \<le> 2 ^ 64 - 1 - lpAddress"
    using top by (simp add: checked_add_Some size_max_def)
  then have "lpAddress + dwSize < 2 ^ 64"
    using assms(3) by linarith
  note b = round_down_bounds [OF sizes(2), of lpAddress] round_up_bounds [OF up sizes(2) this]
  have lt: "?start < stop'"
    using b False by linarith
  obtain x where "find_reservation ?start stop' s = Some x"
    using find by blast
  then show ?thesis
    using find_reservation_iff [OF ok lt] b lt eq by auto
qed

lemma VirtualFree_spec:
  assumes run: "VirtualFree lpAddress dwSize kind s = (r, s')" and ok: "vm_ok s" and "lpAddress < 2 ^ 64"
  shows "\<not> r \<and> gave_up s s' \<or>
    r \<and> kind = MEM_RELEASE \<and> dwSize = 0 \<and> (\<exists>n. released lpAddress n s s') \<or>
    r \<and> kind = MEM_DECOMMIT \<and> (\<exists>start stop. start \<le> lpAddress \<and> lpAddress + dwSize \<le> stop \<and> repaged start stop 0 s s')"
proof (cases "lpAddress = 0 \<or> kind \<notin> {MEM_DECOMMIT, MEM_RELEASE}")
  case True
  then show ?thesis
    using run unfolding VirtualFree_def Let_def by (simp only: if_True) (auto simp: gave_up_def)
next
  case valid: False
  have differ: "MEM_RELEASE \<noteq> MEM_DECOMMIT"
    by (simp add: MEM_RELEASE_def MEM_DECOMMIT_def)
  show ?thesis
  proof (cases "kind = MEM_RELEASE")
    case True
    show ?thesis
    proof (cases "map_of (v_reservations s) lpAddress")
      case None
      then show ?thesis using run True valid by (auto simp: VirtualFree_def gave_up_def)
    next
      case (Some n)
      obtain b s1 where 1: "munmap lpAddress n s = (b, s1)" by (cases "munmap lpAddress n s")
      note f = munmap_frame [OF 1]
      have "released lpAddress n s (s1\<lparr>v_reservations := filter (\<lambda>x. fst x \<noteq> lpAddress) (v_reservations s1)\<rparr>)" if b
        using that f Some map_of_SomeD by (fastforce simp: released_def)
      moreover have "gave_up s (s1\<lparr>v_error := e\<rparr>)" if "\<not> b" for e
        using that f by (auto simp: gave_up_def)
      ultimately show ?thesis
        using run True valid Some 1 by (auto simp: VirtualFree_def gave_up_def split: if_splits)
    qed
  next
    case False
    then have kind: "kind = MEM_DECOMMIT"
      using valid by simp
    have run': "(case decommit_range lpAddress dwSize s of
          None \<Rightarrow> (False, s\<lparr>v_error := ERROR_INVALID_ADDRESS\<rparr>)
        | Some (start, stop) \<Rightarrow>
          case mmap_fixed start (stop - start) s of (ok, s) \<Rightarrow>
          if ok then (True, s) else (False, s\<lparr>v_error := ERROR_NOT_ENOUGH_MEMORY\<rparr>)) = (r, s')"
      using run valid False unfolding VirtualFree_def Let_def by (simp only: if_False)
    show ?thesis
    proof (cases "decommit_range lpAddress dwSize s")
      case None
      then show ?thesis using run' by (auto simp: gave_up_def)
    next
      case (Some x)
      obtain start stop where x: "x = (start, stop)" by (cases x)
      note range = decommit_range_spec [OF Some [unfolded x] ok assms(3)]
      obtain b s1 where 1: "mmap_fixed start (stop - start) s = (b, s1)" by (cases "mmap_fixed start (stop - start) s")
      note f = mmap_fixed_spec [OF 1]
      show ?thesis
      proof (cases b)
        case True
        then have "repaged start stop 0 s s1"
          using f range by (simp add: repaged_def)
        then show ?thesis
          using run' Some x 1 True kind range by auto
      next
        case False
        then show ?thesis
          using run' Some x 1 f by (auto simp: gave_up_def)
      qed
    qed
  qed
qed

lemma VirtualFree_ok:
  assumes "VirtualFree lpAddress dwSize kind s = (r, s')" and "vm_ok s" and "lpAddress < 2 ^ 64"
  shows "vm_ok s'"
proof -
  consider "gave_up s s'" | start stop prot where "repaged start stop prot s s'" | b n where "released b n s s'"
    using VirtualFree_spec [OF assms] by blast
  then show ?thesis
    using assms(2) gave_up_ok released_ok repaged_ok by cases blast+
qed

text \<open>A release undoes the allocation.\<close>

lemma filter_insort: "b \<notin> fst ` set xs \<Longrightarrow> filter (\<lambda>x. fst x \<noteq> b) (insort_key fst (b, n) xs) = xs"
  by (induction xs) (auto simp: filter_id_conv)

lemma entered_released:
  assumes "vm_ok s" and "entered b n prot s s1" and "released b m s1 s2"
  shows "v_reservations s2 = v_reservations s" and "v_page s2 = v_page s"
proof -
  have e: "aligned (b, n)" "range_free b n s" "v_reservations s1 = insort_key fst (b, n) (v_reservations s)"
    "\<And>p. v_page s1 p = (if p \<in> set (page_range b n) then Some prot else v_page s p)"
    using assms(2) by (simp_all add: entered_def)
  have r: "(b, m) \<in> set (v_reservations s1)" "v_reservations s2 = filter (\<lambda>x. fst x \<noteq> b) (v_reservations s1)"
    "\<And>p. v_page s2 p = (if p \<in> set (page_range b m) then None else v_page s1 p)"
    using assms(3) by (simp_all add: released_def)
  have "distinct (map fst (v_reservations s1))"
    by (rule distinct_bases) (rule entered_ok [OF assms(1,2)])
  moreover have "(b, n) \<in> set (v_reservations s1)"
    by (simp add: e(3) set_insort_key)
  ultimately have "m = n"
    using r(1) by (metis map_of_is_SomeI option.inject)
  then show "v_page s2 = v_page s"
    using r(3) e(2,4) by (auto simp: fun_eq_iff range_free_iff)
  have "b \<notin> fst ` set (v_reservations s)"
    using \<open>distinct (map fst (v_reservations s1))\<close> unfolding e(3) distinct_insort_key by simp
  then show "v_reservations s2 = v_reservations s"
    by (simp add: r(2) e(3) filter_insort)
qed

subsection \<open>Steps\<close>

inductive vm_step :: "vm \<Rightarrow> vm \<Rightarrow> bool" where
  step_alloc: "lpAddress < 2 ^ 64 \<Longrightarrow> dwSize < 2 ^ 64 \<Longrightarrow>
    vm_step s (snd (VirtualAlloc lpAddress dwSize kind protection s))"
| step_free: "lpAddress < 2 ^ 64 \<Longrightarrow> vm_step s (snd (VirtualFree lpAddress dwSize kind s))"

lemma vm_step_ok: "vm_step s s' \<Longrightarrow> vm_ok s \<Longrightarrow> vm_ok s'"
  by (induction rule: vm_step.induct)
    (erule (1) VirtualAlloc_ok [OF prod.collapse [symmetric]] VirtualFree_ok [OF prod.collapse [symmetric]]; assumption)+

definition initial_vm :: "(nat \<Rightarrow> nat option) \<Rightarrow> reply list \<Rightarrow> bool list \<Rightarrow> vm" where
  "initial_vm pages replies unmaps =
     \<lparr>v_page = pages, v_reservations = [], v_error = 0, v_replies = replies, v_unmaps = unmaps\<rparr>"

lemma vm_reachable_ok: "vm_step\<^sup>*\<^sup>* (initial_vm pages replies unmaps) s \<Longrightarrow> vm_ok s"
proof (induction rule: rtranclp_induct)
  case base
  show ?case
    by (simp add: initial_vm_def vm_ok_def)
qed (rule vm_step_ok)

end
