(* ===== verification/Win_Heap.thy ===== *)
theory Win_Heap
  imports Win_Memory Transition
begin

text \<open>
  The heap functions and the allocators of \<open>src/src/winlibs.cpp\<close>: \<open>HeapCreate\<close>, \<open>HeapAlloc\<close>, \<open>HeapFree\<close>,
  \<open>HeapDestroy\<close>, \<open>malloc\<close>, \<open>_calloc_crt\<close>, \<open>realloc\<close> and \<open>_aligned_malloc\<close> with their padding. The C
  library's allocator is a list of answers: an address and the stale bytes there, or failure. An
  address that is taken counts as failure. Blocks are identified by their address; \<open>w_bad\<close> records a
  \<open>free\<close> of something that is not a live block, which is undefined behaviour in C.
\<close>

section \<open>The C allocator\<close>

record heaps =
  w_blocks :: "nat \<Rightarrow> bytes option"
  w_heaps :: "nat \<Rightarrow> nat set option"
  w_error :: nat
  w_errno :: nat
  w_answers :: "(nat \<times> (nat \<Rightarrow> u8)) option list"
  w_bad :: bool

text \<open>The address of the static object \<open>g_process_heap\<close>, which no allocation returns.\<close>

definition process_heap :: nat where "process_heap = 1"

definition next_block :: "heaps \<Rightarrow> (nat \<times> (nat \<Rightarrow> u8)) option \<times> heaps" where
  "next_block s =
     (case w_answers s of
        [] \<Rightarrow> (None, s)
      | r # rs \<Rightarrow> (case r of
          None \<Rightarrow> (None, s\<lparr>w_answers := rs\<rparr>)
        | Some (a, stale) \<Rightarrow>
          (if a \<in> {0, process_heap} \<or> w_blocks s a \<noteq> None then (None, s\<lparr>w_answers := rs\<rparr>)
           else (Some (a, stale), s\<lparr>w_answers := rs\<rparr>))))"

definition put_block :: "nat \<Rightarrow> bytes option \<Rightarrow> heaps \<Rightarrow> heaps" where
  "put_block a bs s = s\<lparr>w_blocks := (w_blocks s)(a := bs)\<rparr>"

definition c_malloc :: "nat \<Rightarrow> heaps \<Rightarrow> nat \<times> heaps" where
  "c_malloc n s =
     (case next_block s of
        (None, s) \<Rightarrow> (0, s)
      | (Some (a, stale), s) \<Rightarrow> (a, put_block a (Some (map stale [0..<n])) s))"

definition c_calloc :: "nat \<Rightarrow> heaps \<Rightarrow> nat \<times> heaps" where
  "c_calloc n s =
     (case next_block s of
        (None, s) \<Rightarrow> (0, s)
      | (Some (a, stale), s) \<Rightarrow> (a, put_block a (Some (replicate n 0)) s))"

definition c_free :: "nat \<Rightarrow> heaps \<Rightarrow> heaps" where
  "c_free a s =
     (if a = 0 then s
      else if w_blocks s a = None then s\<lparr>w_bad := True\<rparr>
      else put_block a None s)"

text \<open>
  \<open>realloc\<close> of a live block fails and keeps it, or gives a block with the common prefix, at a new address
  or at the old one: the old address counts as free for the answer.
\<close>

definition c_realloc :: "nat \<Rightarrow> nat \<Rightarrow> heaps \<Rightarrow> nat \<times> heaps" where
  "c_realloc a n s =
     (case w_blocks s a of
        None \<Rightarrow> (0, s\<lparr>w_bad := True\<rparr>)
      | Some old \<Rightarrow>
        (case next_block (put_block a None s) of
           (None, s) \<Rightarrow> (0, put_block a (Some old) s)
         | (Some (b, stale), s) \<Rightarrow>
             (b, put_block b (Some (take n old @ map stale [length old..<n])) s)))"

definition posix_memalign :: "nat \<Rightarrow> nat \<Rightarrow> heaps \<Rightarrow> nat \<times> heaps" where
  "posix_memalign alignment n s =
     (case next_block s of
        (None, s) \<Rightarrow> (0, s)
      | (Some (a, stale), s) \<Rightarrow>
          if a mod alignment \<noteq> 0 then (0, s) else (a, put_block a (Some (map stale [0..<n])) s))"

section \<open>The CRT allocators\<close>

definition ALLOC_PADDING :: nat where "ALLOC_PADDING = 256"

definition padded_alloc_size :: "nat \<Rightarrow> nat" where
  "padded_alloc_size n = (case checked_add n ALLOC_PADDING of Some padded \<Rightarrow> padded | None \<Rightarrow> n)"

definition checked_mul :: "nat \<Rightarrow> nat \<Rightarrow> nat option" where
  "checked_mul left right = (if left \<noteq> 0 \<and> right > size_max div left then None else Some (left * right))"

text \<open>\<open>zeroed\<close> is \<open>zero_malloc_enabled()\<close>.\<close>

definition zero_fill :: "nat \<Rightarrow> nat \<Rightarrow> heaps \<Rightarrow> heaps" where
  "zero_fill a n s = put_block a (Some (replicate n 0)) s"

definition crt_malloc :: "bool \<Rightarrow> nat \<Rightarrow> heaps \<Rightarrow> nat \<times> heaps" where
  "crt_malloc zeroed n s =
     (let padded = padded_alloc_size n in
      case c_malloc padded s of (p, s) \<Rightarrow>
      (p, if p \<noteq> 0 \<and> zeroed then zero_fill p padded s else s))"

definition crt_free :: "nat \<Rightarrow> heaps \<Rightarrow> heaps" where
  "crt_free p s = c_free p s"

definition msvcr__calloc_crt :: "nat \<Rightarrow> nat \<Rightarrow> heaps \<Rightarrow> nat \<times> heaps" where
  "msvcr__calloc_crt count n s =
     (case checked_mul count n of
        None \<Rightarrow> (0, s\<lparr>w_errno := 12\<rparr>)
      | Some product \<Rightarrow> c_calloc (padded_alloc_size product) s)"

definition msvcr_realloc :: "bool \<Rightarrow> nat \<Rightarrow> nat \<Rightarrow> heaps \<Rightarrow> nat \<times> heaps" where
  "msvcr_realloc zeroed p n s =
     (if p = 0 then crt_malloc zeroed n s
      else if n = 0 then (0, crt_free p s)
      else c_realloc p (padded_alloc_size n) s)"

definition msvcr__aligned_malloc :: "bool \<Rightarrow> nat \<Rightarrow> u64 \<Rightarrow> heaps \<Rightarrow> nat \<times> heaps" where
  "msvcr__aligned_malloc zeroed n alignment s =
     (if alignment = 0 \<or> alignment AND (alignment - 1) \<noteq> 0 then (0, s\<lparr>w_errno := 22\<rparr>)
      else let alignment = max (unat alignment) 16; padded = padded_alloc_size n in
        case posix_memalign alignment padded s of (p, s) \<Rightarrow>
        if p = 0 then (0, s\<lparr>w_errno := 12\<rparr>)
        else (p, if zeroed then zero_fill p padded s else s))"

section \<open>Windows heaps\<close>

definition find_windows_heap :: "nat \<Rightarrow> heaps \<Rightarrow> nat set option" where
  "find_windows_heap handle s = w_heaps s handle"

definition heap_failed :: "nat \<Rightarrow> heaps \<Rightarrow> heaps" where
  "heap_failed e s = s\<lparr>w_error := e\<rparr>"

text \<open>An insertion into one of the sets can run out of memory; its answer is an allocation as well.\<close>

definition insert_fails :: "heaps \<Rightarrow> bool \<times> heaps" where
  "insert_fails s = (case w_answers s of None # rs \<Rightarrow> (True, s\<lparr>w_answers := rs\<rparr>) | _ \<Rightarrow> (False, s))"

definition HeapCreate :: "nat \<Rightarrow> heaps \<Rightarrow> nat \<times> heaps" where
  "HeapCreate object_size s =
     (case c_malloc object_size s of (h, s) \<Rightarrow>
      if h = 0 then (0, heap_failed ERROR_NOT_ENOUGH_MEMORY s)
      else case insert_fails s of (bad, s) \<Rightarrow>
        if bad then (0, heap_failed ERROR_NOT_ENOUGH_MEMORY (c_free h s))
        else (h, s\<lparr>w_heaps := (w_heaps s)(h \<mapsto> {})\<rparr>))"

definition free_all :: "nat set \<Rightarrow> heaps \<Rightarrow> heaps" where
  "free_all as s =
     s\<lparr>w_bad := (w_bad s \<or> (\<exists>a \<in> as. w_blocks s a = None)),
       w_blocks := (\<lambda>a. if a \<in> as then None else w_blocks s a)\<rparr>"

definition HeapDestroy :: "nat \<Rightarrow> heaps \<Rightarrow> bool \<times> heaps" where
  "HeapDestroy h s =
     (if h = 0 \<or> h = process_heap then (False, heap_failed ERROR_INVALID_PARAMETER s)
      else case w_heaps s h of
        None \<Rightarrow> (False, heap_failed ERROR_INVALID_PARAMETER s)
      | Some allocations \<Rightarrow> (True, c_free h (free_all allocations (s\<lparr>w_heaps := (w_heaps s)(h := None)\<rparr>))))"

definition HeapAlloc :: "nat \<Rightarrow> u32 \<Rightarrow> nat \<Rightarrow> heaps \<Rightarrow> nat \<times> heaps" where
  "HeapAlloc h flags n s =
     (case find_windows_heap h s of
        None \<Rightarrow> (0, heap_failed ERROR_INVALID_PARAMETER s)
      | Some allocations \<Rightarrow>
        (case (if flags AND 0x08 \<noteq> 0 then c_calloc (padded_alloc_size n) s else c_malloc (padded_alloc_size n) s) of (p, s) \<Rightarrow>
         if p = 0 then (0, heap_failed ERROR_NOT_ENOUGH_MEMORY s)
         else case insert_fails s of (bad, s) \<Rightarrow>
           if bad then (0, heap_failed ERROR_NOT_ENOUGH_MEMORY (c_free p s))
           else (p, s\<lparr>w_heaps := (w_heaps s)(h \<mapsto> insert p allocations)\<rparr>)))"

definition GetProcessHeap :: nat where "GetProcessHeap = process_heap"

definition HeapFree :: "nat \<Rightarrow> nat \<Rightarrow> heaps \<Rightarrow> bool \<times> heaps" where
  "HeapFree h p s =
     (case find_windows_heap h s of
        None \<Rightarrow> (False, heap_failed ERROR_INVALID_PARAMETER s)
      | Some allocations \<Rightarrow>
        if p = 0 \<or> p \<notin> allocations then (False, heap_failed ERROR_INVALID_PARAMETER s)
        else (True, c_free p (s\<lparr>w_heaps := (w_heaps s)(h \<mapsto> allocations - {p})\<rparr>)))"

section \<open>Correctness\<close>

text \<open>The invariant: every recorded block is live and in one heap only.\<close>

definition heaps_ok :: "heaps \<Rightarrow> bool" where
  "heaps_ok s \<longleftrightarrow> \<not> w_bad s \<and> w_heaps s process_heap \<noteq> None \<and> w_heaps s 0 = None \<and>
     (\<forall>h as. w_heaps s h = Some as \<longrightarrow> h \<noteq> process_heap \<longrightarrow> w_blocks s h \<noteq> None) \<and>
     (\<forall>h as a. w_heaps s h = Some as \<longrightarrow> a \<in> as \<longrightarrow> w_blocks s a \<noteq> None \<and> w_heaps s a = None) \<and>
     (\<forall>h k as bs a. w_heaps s h = Some as \<longrightarrow> w_heaps s k = Some bs \<longrightarrow> a \<in> as \<longrightarrow> a \<in> bs \<longrightarrow> h = k) \<and>
     w_blocks s 0 = None \<and> w_blocks s process_heap = None"

lemma heaps_okI:
  assumes "\<not> w_bad s" "w_heaps s process_heap \<noteq> None" "w_heaps s 0 = None" "w_blocks s 0 = None" "w_blocks s process_heap = None"
    and "\<And>h as. w_heaps s h = Some as \<Longrightarrow> h \<noteq> process_heap \<Longrightarrow> w_blocks s h \<noteq> None"
    and "\<And>h as a. w_heaps s h = Some as \<Longrightarrow> a \<in> as \<Longrightarrow> w_blocks s a \<noteq> None"
    and "\<And>h as a. w_heaps s h = Some as \<Longrightarrow> a \<in> as \<Longrightarrow> w_heaps s a = None"
    and "\<And>h k as bs a. w_heaps s h = Some as \<Longrightarrow> w_heaps s k = Some bs \<Longrightarrow> a \<in> as \<Longrightarrow> a \<in> bs \<Longrightarrow> h = k"
  shows "heaps_ok s"
  unfolding heaps_ok_def by (intro conjI allI impI) (rule assms; assumption)+

lemma heaps_okD:
  assumes "heaps_ok s"
  shows "\<not> w_bad s" "w_heaps s process_heap \<noteq> None" "w_heaps s 0 = None" "w_blocks s 0 = None" "w_blocks s process_heap = None"
    and "w_heaps s h = Some as \<Longrightarrow> h \<noteq> process_heap \<Longrightarrow> w_blocks s h \<noteq> None"
    and "w_heaps s h = Some as \<Longrightarrow> a \<in> as \<Longrightarrow> w_blocks s a \<noteq> None"
    and "w_heaps s h = Some as \<Longrightarrow> a \<in> as \<Longrightarrow> w_heaps s a = None"
    and "w_heaps s h = Some as \<Longrightarrow> w_heaps s k = Some bs \<Longrightarrow> a \<in> as \<Longrightarrow> a \<in> bs \<Longrightarrow> h = k"
    and "w_heaps s h = Some as \<Longrightarrow> a \<in> as \<Longrightarrow> a \<noteq> 0"
    and "w_heaps s h = Some as \<Longrightarrow> h \<noteq> 0 \<and> h \<notin> as"
proof -
  show "\<not> w_bad s" "w_heaps s process_heap \<noteq> None" "w_heaps s 0 = None" "w_blocks s 0 = None" "w_blocks s process_heap = None"
    using assms unfolding heaps_ok_def by simp_all
  show "w_heaps s h = Some as \<Longrightarrow> h \<noteq> process_heap \<Longrightarrow> w_blocks s h \<noteq> None"
    and live: "w_heaps s h = Some as \<Longrightarrow> a \<in> as \<Longrightarrow> w_blocks s a \<noteq> None"
    and none: "w_heaps s h = Some as \<Longrightarrow> a \<in> as \<Longrightarrow> w_heaps s a = None" for a
    using assms unfolding heaps_ok_def by simp_all
  show "w_heaps s h = Some as \<Longrightarrow> w_heaps s k = Some bs \<Longrightarrow> a \<in> as \<Longrightarrow> a \<in> bs \<Longrightarrow> h = k"
    using assms unfolding heaps_ok_def by metis
  show "w_heaps s h = Some as \<Longrightarrow> a \<in> as \<Longrightarrow> a \<noteq> 0"
    using live \<open>w_blocks s 0 = None\<close> by metis
  show "w_heaps s h = Some as \<Longrightarrow> h \<noteq> 0 \<and> h \<notin> as"
    using none [of h] \<open>w_heaps s 0 = None\<close> by (metis option.distinct(1))
qed

text \<open>A block that no heap records: what the CRT allocators hand out.\<close>

definition unowned :: "nat \<Rightarrow> heaps \<Rightarrow> bool" where
  "unowned p s \<longleftrightarrow> w_blocks s p \<noteq> None \<and> w_heaps s p = None \<and> (\<forall>h as. w_heaps s h = Some as \<longrightarrow> p \<notin> as)"

definition same_heaps :: "heaps \<Rightarrow> heaps \<Rightarrow> bool" where
  "same_heaps s s' \<longleftrightarrow> w_heaps s' = w_heaps s \<and> w_bad s' = w_bad s"

lemma next_block_spec:
  assumes "next_block s = (r, s')"
  shows "same_heaps s s' \<and> w_blocks s' = w_blocks s \<and>
    (case r of None \<Rightarrow> True | Some (a, stale) \<Rightarrow> a \<noteq> 0 \<and> a \<noteq> process_heap \<and> w_blocks s a = None)"
  using assms by (auto simp: next_block_def same_heaps_def split: list.splits option.splits if_splits)

text \<open>What every allocator does: fail and change no block, or make a new one.\<close>

definition allocated :: "nat \<Rightarrow> bytes \<Rightarrow> heaps \<Rightarrow> heaps \<Rightarrow> bool" where
  "allocated p bs s s' \<longleftrightarrow> same_heaps s s' \<and> p \<noteq> 0 \<and> p \<noteq> process_heap \<and> w_blocks s p = None \<and>
     w_blocks s' = (w_blocks s)(p \<mapsto> bs)"

definition alloc_failed :: "nat \<Rightarrow> heaps \<Rightarrow> heaps \<Rightarrow> bool" where
  "alloc_failed p s s' \<longleftrightarrow> p = 0 \<and> same_heaps s s' \<and> w_blocks s' = w_blocks s"

lemma c_malloc_spec: "c_malloc n s = (p, s') \<Longrightarrow> alloc_failed p s s' \<or> (\<exists>bs. length bs = n \<and> allocated p bs s s')"
  using next_block_spec [of s "fst (next_block s)" "snd (next_block s)"]
  by (cases "next_block s"; cases "fst (next_block s)")
    (auto simp: c_malloc_def alloc_failed_def allocated_def put_block_def same_heaps_def intro!: exI [of _ "map _ _"])

lemma c_calloc_spec: "c_calloc n s = (p, s') \<Longrightarrow> alloc_failed p s s' \<or> allocated p (replicate n 0) s s'"
  using next_block_spec [of s "fst (next_block s)" "snd (next_block s)"]
  by (cases "next_block s"; cases "fst (next_block s)")
    (auto simp: c_calloc_def alloc_failed_def allocated_def put_block_def same_heaps_def)

lemma crt_malloc_spec:
  assumes "crt_malloc zeroed n s = (p, s')"
  shows "alloc_failed p s s' \<or> (\<exists>bs. length bs = padded_alloc_size n \<and> (zeroed \<longrightarrow> bs = replicate (padded_alloc_size n) 0) \<and> allocated p bs s s')"
proof -
  obtain q s1 where 1: "c_malloc (padded_alloc_size n) s = (q, s1)"
    by (cases "c_malloc (padded_alloc_size n) s")
  show ?thesis
    using assms c_malloc_spec [OF 1]
    by (auto simp: crt_malloc_def 1 zero_fill_def put_block_def alloc_failed_def allocated_def same_heaps_def split: if_splits)
qed

lemma padded_bounds: "n \<le> size_max \<Longrightarrow> n \<le> padded_alloc_size n \<and> padded_alloc_size n \<le> size_max"
  by (auto simp: padded_alloc_size_def checked_add_def)

lemma insert_fails_same: "insert_fails s = (b, s') \<Longrightarrow> same_heaps s s' \<and> w_blocks s' = w_blocks s"
  by (auto simp: insert_fails_def same_heaps_def split: list.splits option.splits)

lemma heaps_ok_cong: "same_heaps s s' \<Longrightarrow> w_blocks s' = w_blocks s \<Longrightarrow> heaps_ok s' = heaps_ok s"
  by (simp add: heaps_ok_def same_heaps_def)

lemma heaps_ok_dead:
  assumes "heaps_ok s" and "w_blocks s p = None" and "p \<noteq> process_heap"
  shows "w_heaps s p = None" and "w_heaps s h = Some as \<Longrightarrow> p \<notin> as"
  using assms unfolding heaps_ok_def by (metis not_Some_eq)+

lemma allocated_ok:
  assumes "allocated p bs s s'" and "heaps_ok s"
  shows "heaps_ok s'" and "unowned p s'"
proof -
  have a: "w_heaps s' = w_heaps s" "w_bad s' = w_bad s" "p \<noteq> 0" "p \<noteq> process_heap" "w_blocks s p = None"
    "w_blocks s' = (w_blocks s)(p \<mapsto> bs)"
    using assms(1) by (simp_all add: allocated_def same_heaps_def)
  note dead = heaps_ok_dead [OF assms(2) a(5,4)]
  show "unowned p s'"
    using dead by (auto simp: unowned_def a)
  show "heaps_ok s'"
    using assms(2) unfolding heaps_ok_def a using a(3,4) by simp
qed

lemma free_unowned_ok: "unowned p s \<Longrightarrow> heaps_ok s \<Longrightarrow> heaps_ok (c_free p s)"
  unfolding heaps_ok_def unowned_def c_free_def put_block_def by auto

lemma heap_failed_simps [simp]:
  "heaps_ok (heap_failed e s) = heaps_ok s"
  "w_blocks (heap_failed e s) = w_blocks s"
  "w_heaps (heap_failed e s) = w_heaps s"
  by (simp_all add: heap_failed_def heaps_ok_def)

lemma c_free_simps [simp]:
  "w_heaps (c_free p s) = w_heaps s"
  "w_blocks (c_free p s) = (if p = 0 \<or> w_blocks s p = None then w_blocks s else (w_blocks s)(p := None))"
  by (auto simp: c_free_def put_block_def)

subsection \<open>The heap functions\<close>

lemma alloc_failed_ok: "alloc_failed p s s' \<Longrightarrow> heaps_ok s \<Longrightarrow> heaps_ok s'"
  using heaps_ok_cong [of s s'] by (simp add: alloc_failed_def)

lemma unowned_cong: "same_heaps s s' \<Longrightarrow> w_blocks s' = w_blocks s \<Longrightarrow> unowned p s' = unowned p s"
  by (simp add: unowned_def same_heaps_def)

text \<open>An unowned block becomes a heap or a block of a heap.\<close>

lemma new_heap_ok:
  assumes "heaps_ok s" and "unowned h s"
  shows "heaps_ok (s\<lparr>w_heaps := (w_heaps s)(h \<mapsto> {})\<rparr>)"
proof -
  have "h \<noteq> 0" "h \<noteq> process_heap" "w_blocks s h \<noteq> None" "\<And>k as. w_heaps s k = Some as \<Longrightarrow> h \<notin> as"
    using assms by (auto simp: heaps_ok_def unowned_def)
  then show ?thesis
    using assms(1) unfolding heaps_ok_def by simp
qed

lemma new_entry_ok:
  assumes "heaps_ok s" and "unowned p s" and "w_heaps s h = Some as"
  shows "heaps_ok (s\<lparr>w_heaps := (w_heaps s)(h \<mapsto> insert p as)\<rparr>)"
proof -
  have new: "p \<noteq> h" "w_blocks s p \<noteq> None" "w_heaps s p = None" "\<And>k bs. w_heaps s k = Some bs \<Longrightarrow> p \<notin> bs"
    using assms by (auto simp: unowned_def)
  note okD = heaps_okD [OF assms(1)]
  let ?t = "s\<lparr>w_heaps := (w_heaps s)(h \<mapsto> insert p as)\<rparr>"
  show ?thesis
  proof (rule heaps_okI)
    fix k bs a assume "w_heaps ?t k = Some bs" "a \<in> bs"
    then have "a = p \<or> (\<exists>cs. w_heaps s k = Some cs \<and> a \<in> cs)"
      using assms(3) by (auto split: if_splits)
    then have "w_blocks s a \<noteq> None" "w_heaps s a = None"
      using new(2,3) okD(7,8) by blast+
    moreover from this have "a \<noteq> h"
      using assms(3) by auto
    ultimately show "w_blocks ?t a \<noteq> None" and "w_heaps ?t a = None"
      by simp_all
  next
    fix k l bs cs a assume a: "w_heaps ?t k = Some bs" "w_heaps ?t l = Some cs" "a \<in> bs" "a \<in> cs"
    show "k = l"
    proof (cases "a = p")
      case True
      then show ?thesis
        using a new(4) by (auto split: if_splits)
    next
      case False
      then obtain bs' cs' where "w_heaps s k = Some bs'" "w_heaps s l = Some cs'" "a \<in> bs'" "a \<in> cs'"
        using a assms(3) by (auto split: if_splits)
      then show ?thesis
        by (rule okD(9))
    qed
  next
    fix k bs assume "w_heaps ?t k = Some bs" "k \<noteq> process_heap"
    then have "\<exists>cs. w_heaps s k = Some cs"
      using assms(3) by (auto split: if_splits)
    then show "w_blocks ?t k \<noteq> None"
      using okD(6) \<open>k \<noteq> process_heap\<close> by auto
  qed (use okD(1-5) okD(11) [OF assms(3)] in auto)
qed

lemma HeapCreate_ok:
  assumes run: "HeapCreate n s = (h, s')" and ok: "heaps_ok s"
  shows "heaps_ok s'" and "h \<noteq> 0 \<Longrightarrow> w_heaps s h = None \<and> w_heaps s' = (w_heaps s)(h \<mapsto> {})"
    and "h = 0 \<Longrightarrow> w_heaps s' = w_heaps s \<and> w_blocks s' = w_blocks s"
proof -
  obtain p s1 where 1: "c_malloc n s = (p, s1)" by (cases "c_malloc n s")
  obtain b s2 where 2: "insert_fails s1 = (b, s2)" by (cases "insert_fails s1")
  note f = insert_fails_same [OF 2]
  have "heaps_ok s' \<and> (h \<noteq> 0 \<longrightarrow> w_heaps s h = None \<and> w_heaps s' = (w_heaps s)(h \<mapsto> {})) \<and>
      (h = 0 \<longrightarrow> w_heaps s' = w_heaps s \<and> w_blocks s' = w_blocks s)"
  proof (cases "alloc_failed p s s1")
    case True
    then show ?thesis
      using run alloc_failed_ok [OF True ok]
      by (auto simp: HeapCreate_def 1 alloc_failed_def same_heaps_def)
  next
    case False
    then obtain bs where a: "allocated p bs s s1"
      using c_malloc_spec [OF 1] by blast
    note ok1 = allocated_ok [OF a ok]
    have ok2: "heaps_ok s2" "unowned p s2"
      using f heaps_ok_cong unowned_cong ok1 by blast+
    have p: "p \<noteq> 0" "w_blocks s2 = (w_blocks s)(p \<mapsto> bs)" "w_heaps s2 = w_heaps s" "w_blocks s p = None"
      using a f by (simp_all add: allocated_def same_heaps_def)
    show ?thesis
    proof (cases b)
      case True
      then have "h = 0" "s' = heap_failed ERROR_NOT_ENOUGH_MEMORY (c_free p s2)"
        using run p(1) by (simp_all add: HeapCreate_def 1 2)
      then show ?thesis
        using free_unowned_ok [OF ok2(2,1)] p by (auto simp: fun_upd_idem)
    next
      case False
      then have "h = p" "s' = s2\<lparr>w_heaps := (w_heaps s2)(p \<mapsto> {})\<rparr>"
        using run p(1) by (auto simp: HeapCreate_def 1 2)
      then show ?thesis
        using new_heap_ok [OF ok2] p ok2(2) by (simp add: unowned_def)
    qed
  qed
  then show "heaps_ok s'" and "h \<noteq> 0 \<Longrightarrow> w_heaps s h = None \<and> w_heaps s' = (w_heaps s)(h \<mapsto> {})"
    and "h = 0 \<Longrightarrow> w_heaps s' = w_heaps s \<and> w_blocks s' = w_blocks s"
    by blast+
qed

lemma HeapAlloc_spec:
  assumes run: "HeapAlloc h flags n s = (p, s')" and ok: "heaps_ok s"
  shows "heaps_ok s'"
    and "p \<noteq> 0 \<Longrightarrow> \<exists>as bs. w_heaps s h = Some as \<and> w_heaps s' = (w_heaps s)(h \<mapsto> insert p as) \<and>
      w_blocks s p = None \<and> w_blocks s' = (w_blocks s)(p \<mapsto> bs) \<and> length bs = padded_alloc_size n \<and>
      (flags AND 0x08 \<noteq> 0 \<longrightarrow> bs = replicate (padded_alloc_size n) 0)"
    and "p = 0 \<Longrightarrow> w_heaps s' = w_heaps s \<and> w_blocks s' = w_blocks s"
proof -
  let ?zeroed = "flags AND 0x08 \<noteq> 0"
  have "heaps_ok s' \<and> (if p = 0 then w_heaps s' = w_heaps s \<and> w_blocks s' = w_blocks s
      else \<exists>as bs. w_heaps s h = Some as \<and> w_heaps s' = (w_heaps s)(h \<mapsto> insert p as) \<and>
        w_blocks s p = None \<and> w_blocks s' = (w_blocks s)(p \<mapsto> bs) \<and> length bs = padded_alloc_size n \<and>
        (?zeroed \<longrightarrow> bs = replicate (padded_alloc_size n) 0))"
  proof (cases "w_heaps s h")
    case None
    then show ?thesis
      using run ok by (auto simp: HeapAlloc_def find_windows_heap_def)
  next
    case (Some as)
    obtain q s1 where 1: "(if ?zeroed then c_calloc (padded_alloc_size n) s else c_malloc (padded_alloc_size n) s) = (q, s1)"
      by (metis prod.collapse)
    obtain b s2 where 2: "insert_fails s1 = (b, s2)" by (cases "insert_fails s1")
    note f = insert_fails_same [OF 2]
    have got: "alloc_failed q s s1 \<or> (\<exists>bs. length bs = padded_alloc_size n \<and>
        (?zeroed \<longrightarrow> bs = replicate (padded_alloc_size n) 0) \<and> allocated q bs s s1)"
      using 1 c_calloc_spec [of "padded_alloc_size n" s q s1] c_malloc_spec [of "padded_alloc_size n" s q s1]
      by (cases ?zeroed) auto
    have run': "(if q = 0 then (0, heap_failed ERROR_NOT_ENOUGH_MEMORY s1)
         else if b then (0, heap_failed ERROR_NOT_ENOUGH_MEMORY (c_free q s2))
           else (q, s2\<lparr>w_heaps := (w_heaps s2)(h \<mapsto> insert q as)\<rparr>)) = (p, s')"
      using run unfolding HeapAlloc_def find_windows_heap_def Some option.case 1 prod.case 2 .
    show ?thesis
    proof (cases "alloc_failed q s s1")
      case True
      then show ?thesis
        using run' alloc_failed_ok [OF True ok]
        by (auto simp: alloc_failed_def same_heaps_def)
    next
      case False
      then obtain bs where bs: "length bs = padded_alloc_size n" "?zeroed \<longrightarrow> bs = replicate (padded_alloc_size n) 0"
        and a: "allocated q bs s s1"
        using got by blast
      note ok1 = allocated_ok [OF a ok]
      have ok2: "heaps_ok s2" "unowned q s2"
        using f heaps_ok_cong unowned_cong ok1 by blast+
      have q: "q \<noteq> 0" "w_blocks s2 = (w_blocks s)(q \<mapsto> bs)" "w_heaps s2 = w_heaps s" "w_blocks s q = None"
        using a f by (simp_all add: allocated_def same_heaps_def)
      show ?thesis
      proof (cases b)
        case True
        then have "p = 0" "s' = heap_failed ERROR_NOT_ENOUGH_MEMORY (c_free q s2)"
          using run' q(1) by simp_all
        then show ?thesis
          using free_unowned_ok [OF ok2(2,1)] q by (auto simp: fun_upd_idem)
      next
        case False
        then have s': "p = q" "s' = s2\<lparr>w_heaps := (w_heaps s2)(h \<mapsto> insert q as)\<rparr>"
          using run' q(1) False by auto
        then show ?thesis
          using new_entry_ok [OF ok2, of h as] q bs Some by auto
      qed
    qed
  qed
  then show "heaps_ok s'"
    and "p \<noteq> 0 \<Longrightarrow> \<exists>as bs. w_heaps s h = Some as \<and> w_heaps s' = (w_heaps s)(h \<mapsto> insert p as) \<and>
      w_blocks s p = None \<and> w_blocks s' = (w_blocks s)(p \<mapsto> bs) \<and> length bs = padded_alloc_size n \<and>
      (?zeroed \<longrightarrow> bs = replicate (padded_alloc_size n) 0)"
    and "p = 0 \<Longrightarrow> w_heaps s' = w_heaps s \<and> w_blocks s' = w_blocks s"
    by (auto split: if_splits)
qed

lemma HeapFree_spec:
  assumes run: "HeapFree h p s = (b, s')" and ok: "heaps_ok s"
  shows "heaps_ok s'" and "b = (\<exists>as. w_heaps s h = Some as \<and> p \<in> as)"
    and "w_blocks s' = (if b then (w_blocks s)(p := None) else w_blocks s)"
proof -
  have "heaps_ok s' \<and> b = (\<exists>as. w_heaps s h = Some as \<and> p \<in> as) \<and>
      w_blocks s' = (if b then (w_blocks s)(p := None) else w_blocks s)"
  proof (cases "\<exists>as. w_heaps s h = Some as \<and> p \<in> as")
    case True
    then obtain as where as: "w_heaps s h = Some as" "p \<in> as"
      by blast
    let ?t = "s\<lparr>w_heaps := (w_heaps s)(h \<mapsto> as - {p})\<rparr>"
    note okD = heaps_okD [OF ok]
    have p: "p \<noteq> 0" "w_blocks s p \<noteq> None" "w_heaps s p = None"
      using okD(10,7,8) [OF as] by blast+
    have "heaps_ok ?t"
    proof (rule heaps_okI)
      fix k bs a assume *: "w_heaps ?t k = Some bs" "a \<in> bs"
      then obtain cs where "w_heaps s k = Some cs" "a \<in> cs"
        using as by (auto split: if_splits)
      then have "w_blocks s a \<noteq> None" "w_heaps s a = None"
        using okD(7,8) by blast+
      moreover from this have "a \<noteq> h"
        using as by auto
      ultimately show "w_blocks ?t a \<noteq> None" and "w_heaps ?t a = None"
        by simp_all
    next
      fix k l bs cs a assume a: "w_heaps ?t k = Some bs" "w_heaps ?t l = Some cs" "a \<in> bs" "a \<in> cs"
      then obtain bs' cs' where "w_heaps s k = Some bs'" "w_heaps s l = Some cs'" "a \<in> bs'" "a \<in> cs'"
        using as by (auto split: if_splits)
      then show "k = l"
        by (rule okD(9))
    next
      fix k bs assume "w_heaps ?t k = Some bs" "k \<noteq> process_heap"
      then have "\<exists>cs. w_heaps s k = Some cs"
        using as by (auto split: if_splits)
      then show "w_blocks ?t k \<noteq> None"
        using okD(6) \<open>k \<noteq> process_heap\<close> by auto
    qed (use okD(1-5) okD(11) [OF as(1)] in auto)
    moreover have "p \<noteq> h"
      using p as by auto
    then have "unowned p ?t"
      using p okD(9) as by (auto simp: unowned_def)
    ultimately have "heaps_ok (c_free p ?t)"
      using free_unowned_ok by blast
    then show ?thesis
      using run as p by (auto simp: HeapFree_def find_windows_heap_def)
  next
    case False
    then show ?thesis
      using run ok by (auto simp: HeapFree_def find_windows_heap_def heaps_okD(10) split: option.splits if_splits)
  qed
  then show "heaps_ok s'" and "b = (\<exists>as. w_heaps s h = Some as \<and> p \<in> as)"
    and "w_blocks s' = (if b then (w_blocks s)(p := None) else w_blocks s)"
    by blast+
qed

text \<open>Destroying a heap frees its object and its blocks, each once, and nothing else.\<close>

lemma HeapDestroy_spec:
  assumes run: "HeapDestroy h s = (b, s')" and ok: "heaps_ok s"
  shows "heaps_ok s'" and "b = (h \<noteq> process_heap \<and> w_heaps s h \<noteq> None)"
    and "w_heaps s' = (if b then (w_heaps s)(h := None) else w_heaps s)"
    and "w_blocks s' a = (if b \<and> (a = h \<or> a \<in> the (w_heaps s h)) then None else w_blocks s a)"
proof -
  have "heaps_ok s' \<and> b = (h \<noteq> process_heap \<and> w_heaps s h \<noteq> None) \<and>
      w_heaps s' = (if b then (w_heaps s)(h := None) else w_heaps s) \<and>
      w_blocks s' = (\<lambda>a. if b \<and> (a = h \<or> a \<in> the (w_heaps s h)) then None else w_blocks s a)"
  proof (cases "h \<noteq> process_heap \<and> w_heaps s h \<noteq> None")
    case True
    then obtain as where as: "w_heaps s h = Some as" and h: "h \<noteq> process_heap"
      by blast
    note okD = heaps_okD [OF ok]
    have h0: "h \<noteq> 0" "w_blocks s h \<noteq> None" "h \<notin> as" "\<forall>a \<in> as. w_blocks s a \<noteq> None"
      using okD(3,6,7,8) as h by (metis option.distinct(1))+
    let ?t = "free_all as (s\<lparr>w_heaps := (w_heaps s)(h := None)\<rparr>)"
    have s': "b" "s' = c_free h ?t"
      using run as h h0(1) by (simp_all add: HeapDestroy_def)
    have blocks: "w_blocks s' = (\<lambda>a. if a = h \<or> a \<in> as then None else w_blocks s a)"
      using s'(2) h0 by (auto simp: c_free_def free_all_def put_block_def)
    moreover have bad: "w_bad s' = w_bad s" and heaps: "w_heaps s' = (w_heaps s)(h := None)"
      using s'(2) h0 by (auto simp: c_free_def free_all_def put_block_def)
    moreover have "heaps_ok s'"
    proof (rule heaps_okI)
      fix k bs a assume a: "w_heaps s' k = Some bs" "a \<in> bs"
      then have k: "w_heaps s k = Some bs" "k \<noteq> h"
        by (simp_all add: calculation split: if_splits)
      then have "w_heaps s a = None" "w_blocks s a \<noteq> None" "a \<notin> as"
        using okD(7,8) [OF k(1) a(2)] okD(9) [OF k(1) as a(2)] by blast+
      moreover from this have "a \<noteq> h"
        using as by auto
      ultimately show "w_blocks s' a \<noteq> None" and "w_heaps s' a = None"
        by (simp_all add: blocks heaps)
    next
      fix k l bs cs a assume "w_heaps s' k = Some bs" "w_heaps s' l = Some cs" "a \<in> bs" "a \<in> cs"
      then show "k = l"
        using okD(9) by (auto simp: heaps split: if_splits)
    next
      fix k bs assume "w_heaps s' k = Some bs" "k \<noteq> process_heap"
      then have "w_heaps s k = Some bs" "k \<noteq> h"
        by (simp_all add: heaps split: if_splits)
      then have "w_blocks s k \<noteq> None" "k \<notin> as"
        using okD(6) \<open>k \<noteq> process_heap\<close> okD(8) [OF as] by auto
      then show "w_blocks s' k \<noteq> None"
        using \<open>k \<noteq> h\<close> by (simp add: blocks)
    qed (use okD(1-5) h bad in \<open>simp_all add: blocks heaps\<close>)
    ultimately show ?thesis
      using s'(1) as h by simp
  next
    case False
    then show ?thesis
      using run ok heaps_okD(3) [OF ok] by (auto simp: HeapDestroy_def split: option.splits if_splits)
  qed
  then show "heaps_ok s'" and "b = (h \<noteq> process_heap \<and> w_heaps s h \<noteq> None)"
    and "w_heaps s' = (if b then (w_heaps s)(h := None) else w_heaps s)"
    and "w_blocks s' a = (if b \<and> (a = h \<or> a \<in> the (w_heaps s h)) then None else w_blocks s a)"
    by auto
qed

subsection \<open>The CRT allocators\<close>

text \<open>\<open>realloc\<close>: grow, shrink, allocate and free, keeping the common prefix; a failure keeps the block.\<close>

lemma msvcr_realloc_spec:
  assumes run: "msvcr_realloc zeroed p n s = (q, s')" and ok: "heaps_ok s" and "p = 0 \<or> unowned p s"
  shows "heaps_ok s'" and "q \<noteq> 0 \<Longrightarrow> unowned q s'"
    and "p \<noteq> 0 \<Longrightarrow> n \<noteq> 0 \<Longrightarrow> w_blocks s p = Some old \<Longrightarrow>
      q = 0 \<and> w_blocks s' = w_blocks s \<or>
      (\<exists>new. w_blocks s' = (w_blocks s)(p := None, q \<mapsto> new) \<and> length new = padded_alloc_size n \<and>
        take (length old) new = take (padded_alloc_size n) old)"
proof -
  consider (malloc) "p = 0" | (free) "p \<noteq> 0" "n = 0" | (move) "p \<noteq> 0" "n \<noteq> 0"
    by blast
  then have "heaps_ok s' \<and> (q \<noteq> 0 \<longrightarrow> unowned q s') \<and>
    (p \<noteq> 0 \<longrightarrow> n \<noteq> 0 \<longrightarrow> (\<forall>old. w_blocks s p = Some old \<longrightarrow>
      q = 0 \<and> w_blocks s' = w_blocks s \<or>
      (\<exists>new. w_blocks s' = (w_blocks s)(p := None, q \<mapsto> new) \<and> length new = padded_alloc_size n \<and>
        take (length old) new = take (padded_alloc_size n) old)))"
  proof cases
    case malloc
    then have "crt_malloc zeroed n s = (q, s')"
      using run by (simp add: msvcr_realloc_def)
    from crt_malloc_spec [OF this] show ?thesis
      using malloc ok alloc_failed_ok allocated_ok by (auto simp: alloc_failed_def)
  next
    case free
    then have "q = 0" "s' = c_free p s"
      using run by (simp_all add: msvcr_realloc_def crt_free_def)
    then show ?thesis
      using free free_unowned_ok ok assms(3) by simp
  next
    case move
    then have un: "unowned p s"
      using assms(3) by simp
    then obtain old where old: "w_blocks s p = Some old"
      by (auto simp: unowned_def)
    let ?t = "put_block p None s"
    have "c_free p s = ?t"
      using old move by (simp add: c_free_def)
    then have freed: "heaps_ok ?t"
      using free_unowned_ok [OF un ok] by simp
    obtain r s1 where 1: "next_block ?t = (r, s1)" by (cases "next_block ?t")
    note f = next_block_spec [OF 1]
    show ?thesis
    proof (cases r)
      case None
      then have s': "q = 0" "s' = put_block p (Some old) s1"
        using run move old 1 by (simp_all add: msvcr_realloc_def c_realloc_def)
      then have same: "same_heaps s s'" "w_blocks s' = w_blocks s"
        using f old by (auto simp: put_block_def same_heaps_def)
      then show ?thesis
        using s'(1) heaps_ok_cong [of s s'] ok by simp
    next
      case (Some x)
      obtain b stale where x: "x = (b, stale)" by (cases x)
      define new where "new = take (padded_alloc_size n) old @ map stale [length old..<padded_alloc_size n]"
      have res: "q = b" "s' = put_block b (Some new) s1"
        using run move old 1 Some x by (auto simp: msvcr_realloc_def c_realloc_def new_def)
      have b: "b \<noteq> 0" "b \<noteq> process_heap" "w_blocks ?t b = None"
        using f Some x by simp_all
      have "allocated b new ?t s'"
        using b f by (simp add: allocated_def same_heaps_def put_block_def res)
      from allocated_ok [OF this freed] have "heaps_ok s'" "unowned q s'"
        using res by simp_all
      moreover have "w_blocks s' = (w_blocks s)(p := None, q \<mapsto> new)"
        using f by (simp add: res put_block_def)
      moreover have "length new = padded_alloc_size n" "take (length old) new = take (padded_alloc_size n) old"
        by (auto simp: new_def min_def)
      ultimately show ?thesis
        using old by auto
    qed
  qed
  then show "heaps_ok s'" and "q \<noteq> 0 \<Longrightarrow> unowned q s'"
    and "p \<noteq> 0 \<Longrightarrow> n \<noteq> 0 \<Longrightarrow> w_blocks s p = Some old \<Longrightarrow>
      q = 0 \<and> w_blocks s' = w_blocks s \<or>
      (\<exists>new. w_blocks s' = (w_blocks s)(p := None, q \<mapsto> new) \<and> length new = padded_alloc_size n \<and>
        take (length old) new = take (padded_alloc_size n) old)"
    by blast+
qed

text \<open>\<open>checked_mul_size\<close> is exact: it refuses exactly the products that do not fit.\<close>

lemma checked_mul_iff: "a \<le> size_max \<Longrightarrow> b \<le> size_max \<Longrightarrow> checked_mul a b = (if a * b \<le> size_max then Some (a * b) else None)"
proof (cases "a = 0")
  case False
  then have "b \<le> size_max div a \<longleftrightarrow> a * b \<le> size_max"
    by (simp add: less_eq_div_iff_mult_less_eq mult.commute)
  then show ?thesis
    using False unfolding checked_mul_def by (auto simp: not_le)
qed (simp add: checked_mul_def)

lemma msvcr__calloc_crt_spec:
  assumes run: "msvcr__calloc_crt count n s = (p, s')" and ok: "heaps_ok s" and "count \<le> size_max" "n \<le> size_max"
  shows "heaps_ok s'" and "p \<noteq> 0 \<Longrightarrow> count * n \<le> size_max \<and> unowned p s' \<and>
    w_blocks s' = (w_blocks s)(p \<mapsto> replicate (padded_alloc_size (count * n)) 0)"
proof -
  have "heaps_ok s' \<and> (p \<noteq> 0 \<longrightarrow> count * n \<le> size_max \<and> unowned p s' \<and>
    w_blocks s' = (w_blocks s)(p \<mapsto> replicate (padded_alloc_size (count * n)) 0))"
  proof (cases "count * n \<le> size_max")
    case True
    then have "c_calloc (padded_alloc_size (count * n)) s = (p, s')"
      using run checked_mul_iff [OF assms(3,4)] by (simp add: msvcr__calloc_crt_def)
    from c_calloc_spec [OF this] show ?thesis
      using True ok alloc_failed_ok allocated_ok by (auto simp: alloc_failed_def allocated_def)
  next
    case False
    then have "p = 0" "s' = s\<lparr>w_errno := 12\<rparr>"
      using run checked_mul_iff [OF assms(3,4)] by (simp_all add: msvcr__calloc_crt_def)
    then show ?thesis
      using ok heaps_ok_cong [of s s'] by (simp add: same_heaps_def)
  qed
  then show "heaps_ok s'" and "p \<noteq> 0 \<Longrightarrow> count * n \<le> size_max \<and> unowned p s' \<and>
    w_blocks s' = (w_blocks s)(p \<mapsto> replicate (padded_alloc_size (count * n)) 0)"
    by blast+
qed

text \<open>\<open>_aligned_malloc\<close> takes powers of two only and aligns to at least 16.\<close>

lemma msvcr__aligned_malloc_spec:
  assumes run: "msvcr__aligned_malloc zeroed n alignment s = (p, s')" and ok: "heaps_ok s"
  shows "heaps_ok s'" and "p \<noteq> 0 \<Longrightarrow> p mod max (unat alignment) 16 = 0 \<and> alignment \<noteq> 0 \<and>
    alignment AND (alignment - 1) = 0 \<and> unowned p s'"
proof -
  let ?al = "max (unat alignment) 16"
  have "heaps_ok s' \<and> (p \<noteq> 0 \<longrightarrow> p mod ?al = 0 \<and> alignment \<noteq> 0 \<and> alignment AND (alignment - 1) = 0 \<and> unowned p s')"
  proof (cases "alignment = 0 \<or> alignment AND (alignment - 1) \<noteq> 0")
    case True
    then have "p = 0" "s' = s\<lparr>w_errno := 22\<rparr>"
      using run by (auto simp: msvcr__aligned_malloc_def)
    then show ?thesis
      using ok heaps_ok_cong [of s s'] by (simp add: same_heaps_def)
  next
    case valid: False
    obtain r s1 where 1: "next_block s = (r, s1)" by (cases "next_block s")
    note f = next_block_spec [OF 1]
    obtain q s2 where 2: "posix_memalign ?al (padded_alloc_size n) s = (q, s2)"
      by (cases "posix_memalign ?al (padded_alloc_size n) s")
    have q: "alloc_failed q s s2 \<or> q mod ?al = 0 \<and> (\<exists>bs. allocated q bs s s2)"
    proof (cases r)
      case None
      then show ?thesis
        using 2 f by (auto simp: posix_memalign_def 1 alloc_failed_def)
    next
      case (Some x)
      obtain a stale where x: "x = (a, stale)" by (cases x)
      let ?bs = "map stale [0..<padded_alloc_size n]"
      have "a mod ?al \<noteq> 0 \<and> q = 0 \<and> s2 = s1 \<or> a mod ?al = 0 \<and> q = a \<and> s2 = put_block a (Some ?bs) s1"
        using 2 unfolding posix_memalign_def 1 Some x by (auto split: if_splits)
      moreover have "allocated a ?bs s (put_block a (Some ?bs) s1)"
        using f Some x by (simp add: allocated_def put_block_def same_heaps_def)
      moreover have "alloc_failed 0 s s1"
        using f by (simp add: alloc_failed_def)
      ultimately show ?thesis
        by metis
    qed
    have "(if q = 0 then (0, s2\<lparr>w_errno := 12\<rparr>) else (q, if zeroed then zero_fill q (padded_alloc_size n) s2 else s2)) = (p, s')"
      using run valid unfolding msvcr__aligned_malloc_def Let_def 2 prod.case by (simp only: if_False)
    then have s': "p = q" "s' = s2\<lparr>w_errno := 12\<rparr> \<and> q = 0 \<or> s' = s2 \<and> q \<noteq> 0 \<or> s' = zero_fill q (padded_alloc_size n) s2 \<and> q \<noteq> 0"
      by (auto split: if_splits)
    show ?thesis
    proof (cases "alloc_failed q s s2")
      case True
      then have "q = 0" "same_heaps s s2" "w_blocks s2 = w_blocks s"
        by (simp_all add: alloc_failed_def)
      moreover have "s' = s2\<lparr>w_errno := 12\<rparr>"
        using s'(2) \<open>q = 0\<close> by blast
      ultimately have "p = 0" "same_heaps s s'" "w_blocks s' = w_blocks s"
        using s'(1) by (simp_all add: same_heaps_def)
      then show ?thesis
        using heaps_ok_cong ok by simp
    next
      case False
      with q have "q mod ?al = 0 \<and> (\<exists>bs. allocated q bs s s2)"
        by (simp only: simp_thms)
      then obtain bs where a: "allocated q bs s s2" and mod: "q mod ?al = 0"
        by (elim conjE exE)
      have "allocated q bs s (zero_fill q (padded_alloc_size n) s2) \<or>
          allocated q (replicate (padded_alloc_size n) 0) s (zero_fill q (padded_alloc_size n) s2)"
        using a by (simp add: allocated_def zero_fill_def put_block_def same_heaps_def)
      moreover have "q \<noteq> 0"
        using a by (simp add: allocated_def)
      ultimately have "\<exists>bs. allocated q bs s s'"
        using s'(2) a by metis
      then obtain bs' where "allocated q bs' s s'" ..
      from allocated_ok [OF this ok] show ?thesis
        using s'(1) mod valid by simp
    qed
  qed
  then show "heaps_ok s'" and "p \<noteq> 0 \<Longrightarrow> p mod ?al = 0 \<and> alignment \<noteq> 0 \<and>
    alignment AND (alignment - 1) = 0 \<and> unowned p s'"
    by blast+
qed

subsection \<open>Steps\<close>

text \<open>
  The heap functions with any arguments, and the CRT functions. The C library, and so the shims that only
  hand the pointer on, have a contract for \<open>free\<close> and \<open>realloc\<close> that the code does not check: the
  pointer is null or a live block, and none of a heap.
\<close>

inductive heap_call :: "heaps \<Rightarrow> heaps \<Rightarrow> bool" where
  heap_create: "heap_call s (snd (HeapCreate n s))"
| heap_destroy: "heap_call s (snd (HeapDestroy h s))"
| heap_alloc: "heap_call s (snd (HeapAlloc h flags n s))"
| heap_free: "heap_call s (snd (HeapFree h p s))"

definition crt_contract :: "nat \<Rightarrow> heaps \<Rightarrow> bool" where
  "crt_contract p s \<longleftrightarrow> p = 0 \<or> unowned p s"

inductive crt_call :: "heaps \<Rightarrow> heaps \<Rightarrow> bool" where
  malloc: "crt_call s (snd (crt_malloc zeroed n s))"
| calloc: "count \<le> size_max \<Longrightarrow> n \<le> size_max \<Longrightarrow> crt_call s (snd (msvcr__calloc_crt count n s))"
| aligned_malloc: "crt_call s (snd (msvcr__aligned_malloc zeroed n alignment s))"
| free: "crt_contract p s \<Longrightarrow> crt_call s (crt_free p s)"
| realloc: "crt_contract p s \<Longrightarrow> crt_call s (snd (msvcr_realloc zeroed p n s))"

lemma heap_call_ok: "heap_call s s' \<Longrightarrow> heaps_ok s \<Longrightarrow> heaps_ok s'"
  by (induction rule: heap_call.induct)
    (use HeapCreate_ok(1) HeapDestroy_spec(1) HeapAlloc_spec(1) HeapFree_spec(1) prod.collapse in metis)+

lemma crt_call_ok:
  assumes "crt_call s s'" and ok: "heaps_ok s"
  shows "heaps_ok s'"
  using assms(1)
proof cases
  case (malloc zeroed n)
  then show ?thesis
    using crt_malloc_spec [of zeroed n s, OF prod.collapse [symmetric]] alloc_failed_ok allocated_ok(1) ok by blast
next
  case (free p)
  then show ?thesis
    using free_unowned_ok [of p s] ok by (auto simp: crt_contract_def crt_free_def c_free_def [of 0])
next
  case (realloc p zeroed n)
  then show ?thesis
    using msvcr_realloc_spec(1) [OF prod.collapse [symmetric] ok] by (simp add: crt_contract_def)
qed (use msvcr__calloc_crt_spec(1) msvcr__aligned_malloc_spec(1) ok prod.collapse in metis)+

definition process_step :: "heaps \<Rightarrow> heaps \<Rightarrow> bool" where
  "process_step s s' \<longleftrightarrow> heap_call s s' \<or> crt_call s s'"

definition initial_heaps :: "(nat \<times> (nat \<Rightarrow> u8)) option list \<Rightarrow> heaps" where
  "initial_heaps answers = \<lparr>w_blocks = (\<lambda>_. None), w_heaps = [process_heap \<mapsto> {}], w_error = 0, w_errno = 0,
     w_answers = answers, w_bad = False\<rparr>"

lemma initial_heaps_ok: "heaps_ok (initial_heaps answers)"
  by (auto simp: initial_heaps_def heaps_ok_def process_heap_def split: if_splits)

interpretation heap_runs: invariant_system process_step "\<lambda>s. \<exists>answers. s = initial_heaps answers" heaps_ok
  by unfold_locales (auto simp: process_step_def initial_heaps_ok intro: heap_call_ok crt_call_ok)

lemma heap_reachable_ok: "process_step\<^sup>*\<^sup>* (initial_heaps answers) s \<Longrightarrow> heaps_ok s"
  using heap_runs.reachable_inv by blast

text \<open>A heap function never frees what is not a live block of a heap, with whatever arguments.\<close>

lemma HeapFree_free_once:
  assumes "heaps_ok s" and "HeapFree h p s = (True, s1)"
  shows "fst (HeapFree k p s1) = False"
proof -
  note f = HeapFree_spec [OF assms(2,1)]
  have "w_blocks s1 p = None"
    using f(3) by simp
  then have "\<not> (\<exists>as. w_heaps s1 k = Some as \<and> p \<in> as)"
    using heaps_okD(7) [OF f(1)] by blast
  then show ?thesis
    using HeapFree_spec(2) [OF prod.collapse [symmetric] f(1)] by blast
qed

end
