(* ===== verification/Win_Properties.thy ===== *)
theory Win_Properties
  imports Win_Slots Win_Heap
begin

text \<open>
  The properties of the Windows memory functions, heaps and thread slots (\<open>src/src/winlibs.cpp\<close>),
  with the inputs that show their hypotheses can hold.
\<close>

section \<open>Virtual memory\<close>

definition sample_vm :: vm where
  "sample_vm = initial_vm (\<lambda>_. None) [Elsewhere 0x10000] []"

definition sample_vm_reserved :: vm where
  "sample_vm_reserved = snd (VirtualAlloc 0 0x1000 (MEM_RESERVE OR MEM_COMMIT) 0x04 sample_vm)"

lemma sample_kind: "(MEM_RESERVE OR MEM_COMMIT) AND NOT MEM_TOP_DOWN = 0x3000" "(0x3000 :: u32) AND MEM_COMMIT = 0x1000"
  by (simp_all add: MEM_COMMIT_def MEM_RESERVE_def MEM_TOP_DOWN_def)

lemma sample_trim:
  "trim 0x10000 0x11000 0x10000 0x1000 s = munmap 0x11000 0x10000 s"
  by (simp add: trim_def)

lemma sample_alloc:
  "VirtualAlloc 0 0x1000 (MEM_RESERVE OR MEM_COMMIT) 0x04 sample_vm = (0x10000, sample_vm_reserved)"
  "v_reservations sample_vm_reserved = [(0x10000, 0x1000)]"
  "v_unmaps sample_vm_reserved = []"
  "v_page sample_vm_reserved 16 = Some 3"
proof -
  let ?free = "sample_vm\<lparr>v_replies := []\<rparr>"
  have 1: "mmap_anywhere 0x11000 sample_vm = (Mapped 0x10000, set_pages 0x10000 0x11000 (Some 0) ?free)"
    by (simp add: mmap_anywhere_def sample_vm_def initial_vm_def vm_ask_def mappable_def page_size_def range_free_iff)
  have 2: "reserve_anywhere 0x1000 sample_vm =
      (Inr (0x10000, 0x1000), set_pages 0x11000 0x10000 None (set_pages 0x10000 0x11000 (Some 0) ?free))"
    using 1 by (simp add: reserve_anywhere_def round_up_def checked_add_def size_max_def round_down_def page_size_def
        granularity_def sample_trim munmap_def sample_vm_def initial_vm_def)
  have p: "set (page_range 0x10000 0x1000) = {16}" "set (page_range 0x11000 0x10000) = {17..<33}"
    "set (page_range 0x10000 0x11000) = {16..<33}"
    by (auto simp: page_range_def page_size_def simp del: upt_rec_numeral)
  let ?s = "set_pages 0x11000 0x10000 None (set_pages 0x10000 0x11000 (Some 0) ?free)"
  have 3: "enter True 3 0x10000 0x1000 ?s =
      (0x10000, (set_pages 0x10000 0x1000 (Some 3) ?s)\<lparr>v_reservations := [(0x10000, 0x1000)]\<rparr>)"
    by (simp add: enter_def mprotect_def vm_ask_def range_mapped_def list_all_iff p set_pages_def sample_vm_def initial_vm_def)
  have "VirtualAlloc 0 0x1000 (MEM_RESERVE OR MEM_COMMIT) 0x04 sample_vm =
      (0x10000, (set_pages 0x10000 0x1000 (Some 3) ?s)\<lparr>v_reservations := [(0x10000, 0x1000)]\<rparr>)"
    unfolding VirtualAlloc_def sample_kind
    by (simp add: 2 3 windows_protection_def checked_add_def size_max_def MEM_RESERVE_def MEM_COMMIT_def)
  moreover have "v_unmaps ?s = []"
    by (simp add: sample_vm_def initial_vm_def)
  ultimately show "VirtualAlloc 0 0x1000 (MEM_RESERVE OR MEM_COMMIT) 0x04 sample_vm = (0x10000, sample_vm_reserved)"
    and "v_reservations sample_vm_reserved = [(0x10000, 0x1000)]" and "v_unmaps sample_vm_reserved = []"
    and "v_page sample_vm_reserved 16 = Some 3"
    by (simp_all add: sample_vm_reserved_def p)
qed

lemma sample_vm_ok: "vm_ok sample_vm" "v_unmaps sample_vm = []"
  by (simp_all add: sample_vm_def initial_vm_def vm_ok_def)

text \<open>
  C22: After any sequence of \<open>VirtualAlloc\<close> and \<open>VirtualFree\<close> calls, with any arguments and whatever
  \<open>mmap\<close>, \<open>mprotect\<close> and \<open>munmap\<close> answer, the reservations are aligned and ordered without overlap,
  and every page of a reservation is mapped: no later mapping of the process can take its place.
\<close>
theorem reservations_reachable:
  assumes "vm_step\<^sup>*\<^sup>* (initial_vm pages replies unmaps) s"
  shows "list_all (\<lambda>(b, n). granularity dvd b \<and> b \<noteq> 0 \<and> page_size dvd n \<and> n \<noteq> 0 \<and> b + n < 2 ^ 64) (v_reservations s) \<and>
    sorted_wrt (\<lambda>(b, n) (c, m). b + n \<le> c) (v_reservations s) \<and>
    list_all (\<lambda>(b, n). range_mapped b n s) (v_reservations s)"
  using vm_reachable_ok [OF assms] by (simp add: vm_ok_def aligned_def [abs_def] before_def [abs_def] case_prod_beta')

theorem reservations_reachable_witness:
  "sorted_wrt (\<lambda>(b, n) (c, m). b + n \<le> c) (v_reservations sample_vm_reserved) \<and> range_mapped 0x10000 0x1000 sample_vm_reserved"
proof -
  have "vm_step\<^sup>*\<^sup>* (initial_vm (\<lambda>_. None) [Elsewhere 0x10000] []) sample_vm_reserved"
    unfolding sample_vm_reserved_def sample_vm_def by (rule r_into_rtranclp, rule step_alloc) simp_all
  from reservations_reachable [OF this] show ?thesis
    by (simp add: sample_alloc(2))
qed

text \<open>
  \<open>find_reservation\<close>, which looks only at the entry that \<open>upper_bound\<close> leaves behind, is the search
  through all reservations for the one that contains the range.
\<close>
theorem find_reservation_exact:
  assumes "vm_ok s" and "start < stop"
  shows "find_reservation start stop s = find (\<lambda>(b, n). b \<le> start \<and> stop \<le> b + n) (v_reservations s)"
proof (cases "find_reservation start stop s")
  case None
  then have "\<not> (b \<le> start \<and> stop \<le> b + n)" if "(b, n) \<in> set (v_reservations s)" for b n
    using find_reservation_iff [OF assms, of "(b, n)"] that by auto
  then show ?thesis
    using None by (auto simp: find_None_iff2)
next
  case (Some x)
  then have x: "x \<in> set (v_reservations s)" "fst x \<le> start" "stop \<le> fst x + snd x"
    using find_reservation_iff [OF assms] by simp_all
  then have "find (\<lambda>(b, n). b \<le> start \<and> stop \<le> b + n) (v_reservations s) \<noteq> None"
    by (metis (no_types, lifting) find_None_iff case_prod_beta')
  then obtain y where y: "find (\<lambda>(b, n). b \<le> start \<and> stop \<le> b + n) (v_reservations s) = Some y"
    by blast
  then have "y \<in> set (v_reservations s)" "fst y \<le> start" "stop \<le> fst y + snd y"
    by (auto simp: find_Some_iff in_set_conv_nth)
  then have "find_reservation start stop s = Some y"
    using find_reservation_iff [OF assms] by simp
  with y show ?thesis
    by simp
qed

theorem find_reservation_exact_witness:
  "find_reservation 0x10000 0x10800 sample_vm_reserved =
     find (\<lambda>(b, n). b \<le> 0x10000 \<and> 0x10800 \<le> b + n) (v_reservations sample_vm_reserved) \<and>
   find (\<lambda>(b, n). b \<le> 0x10000 \<and> 0x10800 \<le> b + n) (v_reservations sample_vm_reserved) = Some (0x10000, 0x1000)"
proof -
  have "vm_ok sample_vm_reserved"
    using VirtualAlloc_ok [OF sample_alloc(1) sample_vm_ok(1)] by simp
  from find_reservation_exact [OF this, of "0x10000" "0x10800"] show ?thesis
    by (simp add: sample_alloc(2))
qed

text \<open>
  \<open>VirtualAlloc\<close> either returns null, and then no page that was mapped and no reservation has
  changed (and nothing stays mapped behind when \<open>munmap\<close> succeeds); or commits whole pages around the
  requested range inside one reservation; or enters a new reservation over pages that were free, which
  covers the requested range, with the requested protection when it was to be committed and no access
  otherwise. No other page changes.
\<close>
theorem virtual_alloc_outcome:
  assumes "VirtualAlloc lpAddress dwSize kind protection s = (r, s')" and "vm_ok s"
    and "lpAddress < 2 ^ 64" and "dwSize < 2 ^ 64"
  shows "r = 0 \<and> v_reservations s' = v_reservations s \<and> (\<forall>p. v_page s p = None \<or> v_page s' p = v_page s p) \<and>
      (v_unmaps s \<noteq> [] \<or> v_page s' = v_page s) \<or>
    r \<noteq> 0 \<and> in_place lpAddress kind \<and> r \<le> lpAddress \<and>
      (\<exists>stop. lpAddress + dwSize \<le> stop \<and> repaged r stop (the (windows_protection protection)) s s') \<or>
    r \<noteq> 0 \<and> \<not> in_place lpAddress kind \<and>
      (\<exists>n. entered r n (committed (kind AND NOT MEM_TOP_DOWN) protection) s s' \<and> dwSize \<le> n \<and>
        (lpAddress = 0 \<or> r \<le> lpAddress \<and> lpAddress + dwSize \<le> r + n))"
  using VirtualAlloc_spec [OF assms] unfolding gave_up_def by (auto split: if_splits)

theorem virtual_alloc_outcome_witness:
  "\<exists>n. entered 0x10000 n (committed ((MEM_RESERVE OR MEM_COMMIT) AND NOT MEM_TOP_DOWN) 0x04) sample_vm sample_vm_reserved \<and> 0x1000 \<le> n"
proof -
  have "\<not> in_place 0 (MEM_RESERVE OR MEM_COMMIT)"
    by (simp add: in_place_def)
  then show ?thesis
    using virtual_alloc_outcome [OF sample_alloc(1) sample_vm_ok(1)] by auto
qed

text \<open>
  C23: \<open>VirtualFree\<close> with \<open>MEM_RELEASE\<close> undoes a \<open>VirtualAlloc\<close> that made a reservation: when \<open>munmap\<close>
  works it succeeds, and the reservations and every page of the process are as before the allocation.
\<close>
theorem virtual_free_undoes_alloc:
  assumes "VirtualAlloc lpAddress dwSize kind protection s = (r, s1)" and "vm_ok s"
    and "lpAddress < 2 ^ 64" and "dwSize < 2 ^ 64" and "r \<noteq> 0" and "\<not> in_place lpAddress kind"
    and "v_unmaps s = []" and "VirtualFree r 0 MEM_RELEASE s1 = (b, s2)"
  shows "b \<and> v_reservations s2 = v_reservations s \<and> v_page s2 = v_page s"
proof -
  obtain n prot where e: "entered r n prot s s1"
    using VirtualAlloc_spec [OF assms(1-4)] assms(5,6) by auto
  then have ok: "vm_ok s1" and r: "r < 2 ^ 64" and mem: "(r, n) \<in> set (v_reservations s1)" and "v_unmaps s1 = []"
    using entered_ok [OF assms(2)] assms(7) by (simp_all add: entered_def aligned_def set_insort_key)
  moreover have "map_of (v_reservations s1) r = Some n"
    using mem distinct_bases [OF ok] by simp
  ultimately have "b"
    using assms(5,8) munmap_frame(2) [OF prod.collapse [symmetric], of s1 r n]
    by (auto simp: VirtualFree_def split: prod.splits if_splits)
  then obtain m where "released r m s1 s2"
    using VirtualFree_spec [OF assms(8) ok r] by (auto simp: MEM_RELEASE_def MEM_DECOMMIT_def)
  with entered_released [OF assms(2) e this] \<open>b\<close> show ?thesis
    by simp
qed

theorem virtual_free_undoes_alloc_witness:
  "case VirtualFree 0x10000 0 MEM_RELEASE sample_vm_reserved of (b, s2) \<Rightarrow> b \<and> v_reservations s2 = [] \<and> v_page s2 = (\<lambda>_. None)"
proof -
  have "\<not> in_place 0 (MEM_RESERVE OR MEM_COMMIT)"
    by (simp add: in_place_def)
  then show ?thesis
    using virtual_free_undoes_alloc [OF sample_alloc(1) sample_vm_ok(1) _ _ _ _ sample_vm_ok(2) prod.collapse [symmetric]]
    by (simp add: case_prod_beta') (simp add: sample_vm_def initial_vm_def)
qed

section \<open>Heaps\<close>

definition sample_heaps :: heaps where
  "sample_heaps = initial_heaps [Some (64, \<lambda>_. 7), Some (4096, \<lambda>_. 9)]"

text \<open>
  C24: The heap functions are safe for any handle and any pointer. In every state the process can reach
  by heap calls with any arguments and by CRT calls within their C contract (\<open>free\<close> and \<open>realloc\<close> of null
  or of a live block that is no heap's, which the code does not check): \<open>HeapFree\<close> succeeds exactly for the blocks the
  given heap has recorded, frees that block alone, and cannot free it again through any heap; neither it
  nor \<open>HeapDestroy\<close> ever calls the C library's \<open>free\<close> on anything but a live block; and every block a heap
  has recorded is live and recorded in that heap only.
\<close>
theorem heaps_reachable:
  assumes "process_step\<^sup>*\<^sup>* (initial_heaps answers) s"
  shows "\<not> w_bad s \<and> \<not> w_bad (snd (HeapFree h p s)) \<and> \<not> w_bad (snd (HeapDestroy h s)) \<and>
    fst (HeapFree h p s) = (\<exists>as. w_heaps s h = Some as \<and> p \<in> as) \<and>
    w_blocks (snd (HeapFree h p s)) = (if fst (HeapFree h p s) then (w_blocks s)(p := None) else w_blocks s) \<and>
    \<not> (fst (HeapFree h p s) \<and> fst (HeapFree k p (snd (HeapFree h p s)))) \<and>
    (w_heaps s h = None \<or> p \<notin> the (w_heaps s h) \<or>
      w_blocks s p \<noteq> None \<and> (k = h \<or> w_heaps s k = None \<or> p \<notin> the (w_heaps s k)))"
proof -
  have ok: "heaps_ok s"
    using assms by (rule heap_reachable_ok)
  note f = HeapFree_spec [OF prod.collapse [symmetric] ok, of h p]
  have "\<not> (fst (HeapFree h p s) \<and> fst (HeapFree k p (snd (HeapFree h p s))))"
    using HeapFree_free_once [OF ok, of h p "snd (HeapFree h p s)" k] by (metis prod.collapse)
  moreover have "w_heaps s h = None \<or> p \<notin> the (w_heaps s h) \<or>
      w_blocks s p \<noteq> None \<and> (k = h \<or> w_heaps s k = None \<or> p \<notin> the (w_heaps s k))"
    using heaps_okD(7,9) [OF ok] by (metis option.collapse)
  ultimately show ?thesis
    using f heaps_okD(1) [OF ok] heaps_okD(1) [OF f(1)]
      heaps_okD(1) [OF HeapDestroy_spec(1) [OF prod.collapse [symmetric] ok]] by blast
qed

theorem heaps_reachable_witness:
  "let s = snd (HeapAlloc process_heap 8 0 sample_heaps) in
   fst (HeapFree process_heap 64 s) \<and> \<not> fst (HeapFree process_heap 64 (snd (HeapFree process_heap 64 s))) \<and>
   \<not> w_bad (snd (HeapFree process_heap 64 s)) \<and> \<not> fst (HeapFree process_heap 4096 s)"
proof -
  let ?s = "snd (HeapAlloc process_heap 8 0 sample_heaps)"
  have "process_step\<^sup>*\<^sup>* sample_heaps ?s"
    by (rule r_into_rtranclp) (simp add: process_step_def heap_alloc)
  note r = heaps_reachable [OF this [unfolded sample_heaps_def], folded sample_heaps_def, of process_heap _ process_heap]
  have "w_heaps ?s process_heap = Some {64}"
    by (simp add: HeapAlloc_def find_windows_heap_def sample_heaps_def initial_heaps_def c_calloc_def next_block_def
      process_heap_def insert_fails_def put_block_def)
  then show ?thesis
    using r [of 64] r [of 4096] by (simp add: Let_def)
qed

lemma sample_heaps_ok: "heaps_ok sample_heaps"
  unfolding sample_heaps_def by (rule initial_heaps_ok)

lemma sample_heap_alloc:
  "HeapAlloc process_heap 8 0 sample_heaps = (64, snd (HeapAlloc process_heap 8 0 sample_heaps))"
  by (simp add: HeapAlloc_def find_windows_heap_def sample_heaps_def initial_heaps_def c_calloc_def next_block_def
      process_heap_def insert_fails_def put_block_def)

text \<open>
  A block \<open>HeapAlloc\<close> returns is a new one of at least the requested size, zero when
  \<open>HEAP_ZERO_MEMORY\<close> is set; the heap it was taken from, and no other, can free it, which frees this
  block alone and works once; destroying the heap frees the heap and exactly its blocks.
\<close>
theorem heap_block_life:
  assumes "heaps_ok s" and "HeapAlloc h flags n s = (p, s1)" and "p \<noteq> 0" and "n \<le> size_max"
    and "HeapFree k p s1 = (b, s2)" and "HeapFree k p s2 = (c, s3)" and "HeapDestroy h s1 = (d, s4)"
  shows "w_blocks s p = None \<and> (\<exists>bs. w_blocks s1 = (w_blocks s)(p \<mapsto> bs) \<and> n \<le> length bs \<and>
      (flags AND 0x08 = 0 \<or> list_all (\<lambda>x. x = 0) bs)) \<and>
    b = (k = h) \<and> w_blocks s2 = (if b then w_blocks s else w_blocks s1) \<and> \<not> c \<and>
    d = (h \<noteq> process_heap) \<and>
    w_blocks s4 a = (if d \<and> (a = h \<or> a = p \<or> a \<in> the (w_heaps s h)) then None else w_blocks s1 a)"
proof -
  obtain as bs where a: "w_heaps s h = Some as" "w_heaps s1 = (w_heaps s)(h \<mapsto> insert p as)"
      "w_blocks s p = None" "w_blocks s1 = (w_blocks s)(p \<mapsto> bs)" "length bs = padded_alloc_size n"
      "flags AND 0x08 \<noteq> 0 \<longrightarrow> bs = replicate (padded_alloc_size n) 0"
    using HeapAlloc_spec(2) [OF assms(2,1,3)] by blast
  have ok1: "heaps_ok s1"
    using HeapAlloc_spec(1) [OF assms(2,1)] .
  note f = HeapFree_spec [OF assms(5) ok1]
  note g = HeapFree_spec [OF assms(6) f(1)]
  note d = HeapDestroy_spec [OF assms(7) ok1]
  have "w_heaps s1 k = Some cs \<Longrightarrow> p \<in> cs \<Longrightarrow> k = h" for cs
    using heaps_okD(9) [OF ok1] a(2) by (metis fun_upd_same insertI1)
  then have b: "b = (k = h)"
    using f(2) a(2) fun_upd_same insertI1 by metis
  have "\<not> c"
  proof
    assume c
    then obtain cs where cs: "w_heaps s2 k = Some cs" "p \<in> cs"
      using g(2) by blast
    then have "w_blocks s2 p \<noteq> None"
      using heaps_okD(7) [OF f(1)] by blast
    moreover have "\<not> b \<Longrightarrow> s2 = s1 \<or> w_heaps s2 = w_heaps s1"
      using assms(5) by (auto simp: HeapFree_def heap_failed_def split: option.splits if_splits)
    ultimately show False
      using f(2,3) cs by (cases b) auto
  qed
  moreover have "w_blocks s2 = (if b then w_blocks s else w_blocks s1)"
    using f(3) a(3,4) by auto
  moreover have "n \<le> length bs \<and> (flags AND 0x08 = 0 \<or> list_all (\<lambda>x. x = 0) bs)"
    using padded_bounds [OF assms(4)] a(5,6) by (auto simp: list_all_iff)
  moreover have "d = (h \<noteq> process_heap)"
    using d(2) a(2) by simp
  moreover have "w_blocks s4 a = (if d \<and> (a = h \<or> a = p \<or> a \<in> the (w_heaps s h)) then None else w_blocks s1 a)"
    using d(4) [of a] a(1,2) by simp
  ultimately show ?thesis
    using a(3,4) b by blast
qed

theorem heap_block_life_witness:
  "case HeapAlloc process_heap 8 0 sample_heaps of (p, s1) \<Rightarrow> p = 64 \<and> w_blocks sample_heaps 64 = None \<and>
     fst (HeapFree process_heap p s1) \<and> w_blocks (snd (HeapFree process_heap p s1)) = w_blocks sample_heaps"
  using heap_block_life [OF sample_heaps_ok sample_heap_alloc _ _ prod.collapse [symmetric] prod.collapse [symmetric]
      prod.collapse [symmetric], of process_heap]
  by (simp add: case_prod_beta' sample_heap_alloc [THEN arg_cong [where f = fst], simplified])

text \<open>
  \<open>realloc\<close> of a live CRT block either fails and leaves every block as it was, or replaces it by a
  block, at another address or the same, of at least the new size that starts with the old contents up to
  the smaller of the sizes, and touches no other.
\<close>
theorem realloc_keeps_prefix:
  assumes "msvcr_realloc zeroed p n s = (q, s')" and "heaps_ok s" and "unowned p s" and "n \<noteq> 0" and "n \<le> size_max"
    and "w_blocks s p = Some old"
  shows "q = 0 \<and> w_blocks s' = w_blocks s \<or>
    unowned q s' \<and> (\<exists>new. w_blocks s' = (w_blocks s)(p := None, q \<mapsto> new) \<and> n \<le> length new \<and>
      take (min n (length old)) new = take n old)"
proof -
  have "p \<noteq> 0"
    using assms(2,3) heaps_okD(4) by (metis unowned_def)
  note r = msvcr_realloc_spec [OF assms(1,2)]
  have "q = 0 \<and> w_blocks s' = w_blocks s \<or> (\<exists>new. w_blocks s' = (w_blocks s)(p := None, q \<mapsto> new) \<and>
      length new = padded_alloc_size n \<and> take (length old) new = take (padded_alloc_size n) old)"
    using r(3) \<open>p \<noteq> 0\<close> assms by blast
  moreover have "n \<le> padded_alloc_size n"
    using padded_bounds [OF assms(5)] by simp
  moreover have "take (min n (length old)) new = take n old"
    if "take (length old) new = take (padded_alloc_size n) old" for new
  proof -
    have "take (min n (length old)) new = take n (take (length old) new)"
      by (simp add: min.commute)
    then show ?thesis
      using that \<open>n \<le> padded_alloc_size n\<close> by (simp add: min_absorb1)
  qed
  moreover have "q \<noteq> 0 \<Longrightarrow> unowned q s'" and "q = 0 \<Longrightarrow> w_blocks s' 0 = None"
    using r(1,2) assms(3) heaps_okD(4) by blast+
  ultimately show ?thesis
    by (metis fun_upd_same option.distinct(1))
qed

definition sample_block :: "nat \<times> heaps" where
  "sample_block = crt_malloc True 3 sample_heaps"

theorem realloc_keeps_prefix_witness:
  "let (p, s) = sample_block; (q, s') = msvcr_realloc True p 5 s in
   q = 4096 \<and> (\<exists>new. w_blocks s' = (w_blocks s)(64 := None, 4096 \<mapsto> new) \<and> 5 \<le> length new \<and> take 5 new = replicate 5 0)"
proof -
  let ?s = "snd sample_block"
  have run: "sample_block = (64, ?s)" and old: "w_blocks ?s 64 = Some (replicate 259 0)"
    by (simp_all add: sample_block_def crt_malloc_def c_malloc_def next_block_def sample_heaps_def initial_heaps_def process_heap_def
        put_block_def zero_fill_def padded_alloc_size_def checked_add_def size_max_def ALLOC_PADDING_def)
  have ok: "heaps_ok ?s" and "unowned 64 ?s"
    using crt_malloc_spec [of True 3 sample_heaps 64 ?s] run allocated_ok sample_heaps_ok
    by (auto simp: sample_block_def alloc_failed_def)
  moreover have q: "fst (msvcr_realloc True 64 5 ?s) = 4096"
    by (simp add: msvcr_realloc_def c_realloc_def old) (simp add: sample_block_def crt_malloc_def c_malloc_def next_block_def sample_heaps_def initial_heaps_def process_heap_def
        put_block_def zero_fill_def padded_alloc_size_def checked_add_def size_max_def ALLOC_PADDING_def)
  ultimately have "\<exists>new. w_blocks (snd (msvcr_realloc True 64 5 ?s)) = (w_blocks ?s)(64 := None, 4096 \<mapsto> new) \<and> 5 \<le> length new \<and>
      take (min 5 259) new = take 5 (replicate 259 0)"
    using realloc_keeps_prefix [OF prod.collapse [symmetric] ok _ _ _ old, of 5 True] by (auto simp: size_max_def)
  then show ?thesis
    using q by (subst run) (auto simp: case_prod_beta')
qed

section \<open>Fiber-local storage\<close>

text \<open>
  C25: A fiber-local slot that is handed out again reads as null in every thread until that thread stores
  in it, whatever was stored before the slot was freed and whatever the other threads do: allocate and
  free slots, with callbacks that use the functions themselves, get and set, end. Gets and sets are
  taken in their two unlocked halves. The contract is the one the code states: nobody frees a slot while
  a set of it is under way.
\<close>
theorem fls_reused_slot_null:
  assumes "fls_step\<^sup>*\<^sup>* (fls_start answers) w" and "FlsAlloc callback (r_fls w) = (Some j, s)"
    and "(\<lambda>w w'. fls_step w w' \<and> \<not> stores t j w w')\<^sup>*\<^sup>* (w\<lparr>r_fls := s\<rparr>) w'"
  shows "f_slot (r_fls w) j = None \<and> fst (FlsGetValue t j (r_fls w')) = 0 \<and>
    (r_flight w' t = Some (Loading j) \<longrightarrow> slot_value (r_fls w') t j = 0)"
proof -
  have ok: "fls_world_ok w"
    using fls_runs.reachable_inv [OF assms(1)] by blast
  have step: "fls_step w (w\<lparr>r_fls := s\<rparr>)"
    using fls_alloc [of w callback] assms(2) by simp
  note a = FlsAlloc_spec [OF assms(2) fls_world_okD(1) [OF ok]]
  have free: "f_slot (r_fls w) j = None"
    using a(3) by simp
  then have "slot_value (r_fls (w\<lparr>r_fls := s\<rparr>)) t j = 0"
    using a(2) fls_world_okD(1) [OF ok] by (simp add: fls_ok_def)
  from fls_steps_null [OF assms(3) fls_step_ok [OF step ok] this]
  have fin: "fls_world_ok w'" "slot_value (r_fls w') t j = 0"
    by simp_all
  then show ?thesis
    using free fst_FlsGetValue [OF fls_world_okD(1) [OF fin(1)]] by simp
qed

text \<open>Thread 3 stores 42 in slot 0, the slot is freed and handed out again.\<close>

definition fls_at :: "(nat \<Rightarrow> nat option option) \<Rightarrow> (nat \<Rightarrow> u64) \<Rightarrow> fls" where
  "fls_at slots vs = \<lparr>f_slot = slots, f_values = [3 \<mapsto> vs], f_threads = [3], f_answers = []\<rparr>"

lemma fls_first_slot:
  assumes "f_slot s 0 = None"
  shows "FlsAlloc None s = (Some 0, s\<lparr>f_slot := (f_slot s)(0 \<mapsto> None)\<rparr>)"
proof -
  have "find (\<lambda>i. f_slot s i = None) [0..<MAX_FLS_SLOTS] = Some 0"
    using assms unfolding MAX_FLS_SLOTS_def by (subst upt_conv_Cons) simp_all
  then show ?thesis
    by (simp add: FlsAlloc_def)
qed

lemma fls_sample:
  "FlsAlloc None (initial_fls []) = (Some 0, (initial_fls [])\<lparr>f_slot := [0 \<mapsto> None]\<rparr>)"
  "fls_check 3 0 ((initial_fls [])\<lparr>f_slot := [0 \<mapsto> None]\<rparr>) = (True, fls_at [0 \<mapsto> None] (\<lambda>_. 0))"
  "fls_store 3 0 42 (fls_at slots (\<lambda>_. 0)) = fls_at slots ((\<lambda>_. 0)(0 := 42))"
  "FlsFree_locked 0 (fls_at [0 \<mapsto> None] vs) = (Some [], fls_at (\<lambda>_. None) (vs(0 := 0)))"
  "FlsAlloc None (fls_at (\<lambda>_. None) vs) = (Some 0, fls_at [0 \<mapsto> None] vs)"
  "fst (FlsGetValue 3 0 (fls_at [0 \<mapsto> None] vs)) = vs 0"
  using fls_first_slot [of "initial_fls []"] fls_first_slot [of "fls_at (\<lambda>_. None) vs"]
  by (simp_all add: fls_at_def initial_fls_def fls_check_def get_fls_state_def fls_ask_def MAX_FLS_SLOTS_def
      fls_store_def FlsFree_locked_def fls_clear_def fls_free_calls_def FlsGetValue_def slot_value_def fun_eq_iff)

theorem fls_reused_slot_null_witness:
  "fst (FlsGetValue 3 0 (fls_at [0 \<mapsto> None] ((\<lambda>_. 0)(0 := 42)))) = 42 \<and>
   fst (FlsGetValue 3 0 (snd (FlsAlloc None (snd (FlsFree_locked 0 (fls_at [0 \<mapsto> None] ((\<lambda>_. 0)(0 := 42)))))))) = 0"
proof -
  let ?w0 = "fls_start []"
  let ?w1 = "?w0\<lparr>r_fls := (initial_fls [])\<lparr>f_slot := [0 \<mapsto> None]\<rparr>\<rparr>"
  let ?w2 = "?w1\<lparr>r_fls := fls_at [0 \<mapsto> None] (\<lambda>_. 0), r_flight := (r_flight ?w1)(3 := Some (Storing 0 42))\<rparr>"
  let ?w3 = "?w2\<lparr>r_fls := fls_at [0 \<mapsto> None] ((\<lambda>_. 0)(0 := 42)), r_flight := (r_flight ?w2)(3 := None)\<rparr>"
  let ?w4 = "?w3\<lparr>r_fls := fls_at (\<lambda>_. None) (\<lambda>_. 0), r_calls := r_calls ?w3 @ []\<rparr>"
  have "fls_step ?w0 ?w1"
    using fls_alloc [of ?w0 None] fls_sample(1) by (simp add: fls_start_def)
  moreover have "fls_step ?w1 ?w2"
    using fls_set_check [of ?w1 3 0 True "fls_at [0 \<mapsto> None] (\<lambda>_. 0)" 42] fls_sample(2) by (simp add: fls_start_def)
  moreover have "fls_step ?w2 ?w3"
    using fls_set_store [of ?w2 3 0 42] fls_sample(3) by simp
  moreover have "fls_step ?w3 ?w4"
    using fls_free [of 0 ?w3 "Some []" "fls_at (\<lambda>_. None) (\<lambda>_. 0)"] fls_sample(4)
    by (simp add: no_set_in_flight_def fls_start_def fun_eq_iff fun_upd_idem)
  ultimately have reach: "fls_step\<^sup>*\<^sup>* ?w0 ?w4"
    by (meson converse_rtranclp_into_rtranclp r_into_rtranclp)
  have alloc: "FlsAlloc None (r_fls ?w4) = (Some 0, fls_at [0 \<mapsto> None] (\<lambda>_. 0))"
    using fls_sample(5) by simp
  have "fst (FlsGetValue 3 0 (fls_at [0 \<mapsto> None] (\<lambda>_. 0))) = 0"
    using fls_reused_slot_null [OF reach alloc rtranclp.rtrancl_refl, of 3] by simp
  then show ?thesis
    by (simp add: fls_sample(4-6) fun_upd_idem)
qed

text \<open>
  The contract is needed: a free between the two halves of a set leaves the value in the free slot, and the
  next user of the slot reads it.
\<close>
lemma fls_free_race:
  "let s = snd (FlsAlloc None (initial_fls [])); (go, s) = fls_check 3 0 s; (calls, s) = FlsFree_locked 0 s;
       s = fls_store 3 0 42 s in
   go \<and> f_slot s 0 = None \<and> fst (FlsGetValue 3 0 (snd (FlsAlloc None s))) = 42"
  by (simp add: fls_sample fun_upd_idem) (simp add: fls_at_def)

text \<open>
  When the callbacks store no new value for the thread, the cleanup at its end calls the callback of
  every allocated slot with a value exactly when there is one, with that value, in slot order, each once
  and with the slot already cleared; whatever they do, the thread is unregistered at the end.
\<close>
theorem fls_cleanup_calls:
  assumes "fls_ok s" and "f_values s t \<noteq> None"
    and "\<And>c v s. fls_pending t s = [] \<Longrightarrow> fls_pending t (run c v s) = []" and "\<And>c v s. fls_ok s \<Longrightarrow> fls_ok (run c v s)"
  shows "winlibs_cleanup_fls_for_current_thread run t s =
      fls_unregister t (fold (\<lambda>(c, v). run c v) (fls_calls t s) (fls_take t s)) \<and>
    ((c, v) \<in> set (fls_calls t s)) = (\<exists>i. f_slot s i = Some (Some c) \<and> slot_value s t i = v \<and> v \<noteq> 0) \<and>
    slot_value (fls_take t s) t i = 0 \<and>
    t \<notin> set (f_threads (winlibs_cleanup_fls_for_current_thread run t s))"
proof -
  have "fls_drain run t PTHREAD_DESTRUCTOR_ITERATIONS s = fold (\<lambda>(c, v). run c v) (fls_calls t s) (fls_take t s)"
    unfolding PTHREAD_DESTRUCTOR_ITERATIONS_def using fls_drain_once [OF assms(3), of _ _ _ 3] by (simp add: numeral_eq_Suc)
  then have run: "winlibs_cleanup_fls_for_current_thread run t s =
      fls_unregister t (fold (\<lambda>(c, v). run c v) (fls_calls t s) (fls_take t s))"
    using assms(2) unfolding winlibs_cleanup_fls_for_current_thread_def by (simp only: if_False)
  have "slot_value (fls_take t s) t i = 0"
  proof (cases "slot_value s t i = 0")
    case False
    then obtain x where "f_slot s i = Some x"
      using assms(1) unfolding fls_ok_def by (metis not_None_eq)
    with fls_ok_bound [OF assms(1)] False have "i \<in> set (fls_pending t s)"
      by (simp add: fls_pending_def)
    then show ?thesis
      by (simp add: slot_value_take)
  qed (simp add: slot_value_take)
  then show ?thesis
    using fls_calls_iff [OF assms(1)] cleanup_unregisters(3) [OF assms(1,4)] by (intro conjI run)
qed

definition sample_callback_fls :: fls where
  "sample_callback_fls =
     \<lparr>f_slot = [2 \<mapsto> Some 5], f_values = [3 \<mapsto> (\<lambda>_. 0)(2 := 42)], f_threads = [3], f_answers = []\<rparr>"

theorem fls_cleanup_calls_witness:
  "(5, 42) \<in> set (fls_calls 3 sample_callback_fls) \<and>
   3 \<notin> set (f_threads (winlibs_cleanup_fls_for_current_thread no_call 3 sample_callback_fls))"
proof -
  have ok: "fls_ok sample_callback_fls" and "f_values sample_callback_fls 3 \<noteq> None"
    by (auto simp: sample_callback_fls_def fls_ok_def slot_value_def MAX_FLS_SLOTS_def)
  moreover have "f_slot sample_callback_fls 2 = Some (Some 5) \<and> slot_value sample_callback_fls 3 2 = 42"
    by (simp add: sample_callback_fls_def slot_value_def)
  ultimately show ?thesis
    using fls_cleanup_calls [of sample_callback_fls 3 no_call 5 42] by force
qed

end
