(* ===== verification/Win_Mutex.thy ===== *)
theory Win_Mutex
  imports Prelude
begin

text \<open>
  The MSVCP140 mutex and condition variable of \<open>src/src/winlibs.cpp\<close>: \<open>msvc_mutex_acquire\<close>,
  \<open>msvc_mutex_release\<close>, \<open>_Mtx_lock\<close>, \<open>_Mtx_trylock\<close>, \<open>_Mtx_unlock\<close>, \<open>_Cnd_wait\<close> and \<open>_Cnd_broadcast\<close>
  as a step relation of any number of threads over one mutex and one condition variable. Every atomic
  operation on a futex word and every futex call is a step of its own. \<open>thread_id\<close> and \<open>count\<close> are
  written by the holder only and compared by others with their own id only, so the accesses of one call
  between two atomic operations form one step. Sleepers can wake without a reason. Nested locks stay
  below \<open>2 ^ 31\<close>.
\<close>

section \<open>State\<close>

type_synonym thread = nat

text \<open>What a thread does with the lock word next; the code after an acquire and after a release.\<close>

datatype acquire_for = Locking | Rewaiting int
datatype release_for = Unlocking | Waiting u32 int

datatype pc =
    Out int                   \<comment> \<open>outside, with the last result\<close>
  | Cas acquire_for           \<comment> \<open>\<open>compare_exchange_strong\<close>\<close>
  | Exchange acquire_for      \<comment> \<open>\<open>exchange(2)\<close>\<close>
  | Wait acquire_for          \<comment> \<open>\<open>futex_wait(&lock, 2)\<close>\<close>
  | Asleep acquire_for
  | Locked acquire_for        \<comment> \<open>got the lock, about to write the owner\<close>
  | Try                       \<comment> \<open>\<open>compare_exchange_strong\<close> of \<open>_Mtx_trylock\<close>\<close>
  | Release release_for       \<comment> \<open>\<open>exchange(0)\<close>\<close>
  | Wake release_for          \<comment> \<open>\<open>futex_wake(&lock, 1)\<close>\<close>
  | Cnd u32 int               \<comment> \<open>\<open>futex_wait(&sequence, sequence)\<close>\<close>
  | CndAsleep u32 int
  | Broadcast                 \<comment> \<open>\<open>futex_wake(&sequence, INT_MAX)\<close>\<close>

record mtx =
  m_type :: u32
  m_lock :: u32
  m_thread :: "thread option"
  m_count :: int
  m_sequence :: u32
  m_pc :: "thread \<Rightarrow> pc"

definition MSVC_MTX_RECURSIVE :: u32 where "MSVC_MTX_RECURSIVE = 0x100"
definition MSVC_THRD_SUCCESS :: int where "MSVC_THRD_SUCCESS = 0"
definition MSVC_THRD_BUSY :: int where "MSVC_THRD_BUSY = 3"

definition recursive :: "mtx \<Rightarrow> bool" where
  "recursive s \<longleftrightarrow> m_type s AND MSVC_MTX_RECURSIVE \<noteq> 0"

definition goto :: "thread \<Rightarrow> pc \<Rightarrow> mtx \<Rightarrow> mtx" where
  "goto t p s = s\<lparr>m_pc := (m_pc s)(t := p)\<rparr>"

section \<open>The code\<close>

definition msvcp__Mtx_init_in_situ :: "u32 \<Rightarrow> mtx" where
  "msvcp__Mtx_init_in_situ type = \<lparr>m_type = type, m_lock = 0, m_thread = None, m_count = 0, m_sequence = 0, m_pc = (\<lambda>_. Out 0)\<rparr>"

text \<open>One step of \<open>msvc_mutex_acquire\<close>; \<open>exchange(2)\<close> is the same step before and inside the loop.\<close>

fun msvc_mutex_acquire :: "thread \<Rightarrow> pc \<Rightarrow> mtx \<Rightarrow> mtx" where
  "msvc_mutex_acquire t (Cas k) s =
     (if m_lock s = 0 then goto t (Locked k) (s\<lparr>m_lock := 1\<rparr>)
      else if m_lock s \<noteq> 2 then goto t (Exchange k) s
      else goto t (Wait k) s)"
| "msvc_mutex_acquire t (Exchange k) s = goto t (if m_lock s = 0 then Locked k else Wait k) (s\<lparr>m_lock := 2\<rparr>)"
| "msvc_mutex_acquire t (Wait k) s = goto t (if m_lock s = 2 then Asleep k else Exchange k) s"
| "msvc_mutex_acquire t p s = s"

fun released :: "release_for \<Rightarrow> pc" where
  "released Unlocking = Out MSVC_THRD_SUCCESS"
| "released (Waiting sequence n) = Cnd sequence n"

definition msvc_mutex_release :: "thread \<Rightarrow> release_for \<Rightarrow> mtx \<Rightarrow> mtx" where
  "msvc_mutex_release t r s = goto t (if m_lock s = 2 then Wake r else released r) (s\<lparr>m_lock := 0\<rparr>)"

text \<open>The owner is written after the acquire, in \<open>_Mtx_lock\<close> and at the end of \<open>_Cnd_wait\<close>.\<close>

fun own :: "thread \<Rightarrow> acquire_for \<Rightarrow> mtx \<Rightarrow> mtx" where
  "own t Locking s = goto t (Out MSVC_THRD_SUCCESS) (s\<lparr>m_thread := Some t, m_count := m_count s + 1\<rparr>)"
| "own t (Rewaiting n) s = goto t (Out MSVC_THRD_SUCCESS) (s\<lparr>m_thread := Some t, m_count := n\<rparr>)"

definition relock :: "thread \<Rightarrow> mtx \<Rightarrow> mtx" where
  "relock t s =
     (if recursive s then goto t (Out MSVC_THRD_SUCCESS) (s\<lparr>m_count := m_count s + 1\<rparr>)
      else goto t (Out MSVC_THRD_BUSY) s)"

definition msvcp__Mtx_lock :: "thread \<Rightarrow> mtx \<Rightarrow> mtx" where
  "msvcp__Mtx_lock t s = (if m_thread s = Some t then relock t s else goto t (Cas Locking) s)"

definition msvcp__Mtx_trylock :: "thread \<Rightarrow> mtx \<Rightarrow> mtx" where
  "msvcp__Mtx_trylock t s = (if m_thread s = Some t then relock t s else goto t Try s)"

definition try_acquire :: "thread \<Rightarrow> mtx \<Rightarrow> mtx" where
  "try_acquire t s =
     (if m_lock s = 0 then goto t (Locked Locking) (s\<lparr>m_lock := 1\<rparr>) else goto t (Out MSVC_THRD_BUSY) s)"

definition msvcp__Mtx_unlock :: "thread \<Rightarrow> mtx \<Rightarrow> mtx" where
  "msvcp__Mtx_unlock t s =
     (let s = s\<lparr>m_count := m_count s - 1\<rparr> in
      if m_count s = 0 then goto t (Release Unlocking) (s\<lparr>m_thread := None\<rparr>)
      else goto t (Out MSVC_THRD_SUCCESS) s)"

definition msvcp__Cnd_wait :: "thread \<Rightarrow> mtx \<Rightarrow> mtx" where
  "msvcp__Cnd_wait t s =
     goto t (Release (Waiting (m_sequence s) (m_count s))) (s\<lparr>m_count := 0, m_thread := None\<rparr>)"

definition cnd_futex_wait :: "thread \<Rightarrow> u32 \<Rightarrow> int \<Rightarrow> mtx \<Rightarrow> mtx" where
  "cnd_futex_wait t sequence n s = goto t (if m_sequence s = sequence then CndAsleep sequence n else Cas (Rewaiting n)) s"

definition msvcp__Cnd_broadcast :: "thread \<Rightarrow> mtx \<Rightarrow> mtx" where
  "msvcp__Cnd_broadcast t s = goto t Broadcast (s\<lparr>m_sequence := m_sequence s + 1\<rparr>)"

definition wake_all :: "thread \<Rightarrow> mtx \<Rightarrow> mtx" where
  "wake_all t s = goto t (Out MSVC_THRD_SUCCESS)
     (s\<lparr>m_pc := (\<lambda>u. case m_pc s u of CndAsleep sequence n \<Rightarrow> Cas (Rewaiting n) | p \<Rightarrow> p)\<rparr>)"

text \<open>
  Calls, which the program makes as the standard asks (unlock and wait by the owner), and the steps
  inside them.
\<close>

inductive call_step :: "thread \<Rightarrow> mtx \<Rightarrow> mtx \<Rightarrow> bool" where
  call_lock: "m_pc s t = Out r \<Longrightarrow> call_step t s (msvcp__Mtx_lock t s)"
| call_trylock: "m_pc s t = Out r \<Longrightarrow> call_step t s (msvcp__Mtx_trylock t s)"
| call_unlock: "m_pc s t = Out r \<Longrightarrow> m_thread s = Some t \<Longrightarrow> call_step t s (msvcp__Mtx_unlock t s)"
| call_wait: "m_pc s t = Out r \<Longrightarrow> m_thread s = Some t \<Longrightarrow> call_step t s (msvcp__Cnd_wait t s)"
| call_broadcast: "m_pc s t = Out r \<Longrightarrow> call_step t s (msvcp__Cnd_broadcast t s)"

inductive inner_step :: "thread \<Rightarrow> mtx \<Rightarrow> mtx \<Rightarrow> bool" where
  acquire: "m_pc s t = p \<Longrightarrow> p = Cas k \<or> p = Exchange k \<or> p = Wait k \<Longrightarrow> inner_step t s (msvc_mutex_acquire t p s)"
| trying: "m_pc s t = Try \<Longrightarrow> inner_step t s (try_acquire t s)"
| owned: "m_pc s t = Locked k \<Longrightarrow> inner_step t s (own t k s)"
| release: "m_pc s t = Release r \<Longrightarrow> inner_step t s (msvc_mutex_release t r s)"
| wake_one: "m_pc s t = Wake r \<Longrightarrow> m_pc s u = Asleep k \<Longrightarrow> inner_step t s (goto t (released r) (goto u (Exchange k) s))"
| wake_none: "m_pc s t = Wake r \<Longrightarrow> (\<And>u k. m_pc s u \<noteq> Asleep k) \<Longrightarrow> inner_step t s (goto t (released r) s)"
| cnd: "m_pc s t = Cnd sequence n \<Longrightarrow> inner_step t s (cnd_futex_wait t sequence n s)"
| broadcast: "m_pc s t = Broadcast \<Longrightarrow> inner_step t s (wake_all t s)"

inductive spurious_step :: "thread \<Rightarrow> mtx \<Rightarrow> mtx \<Rightarrow> bool" where
  lock_wakes: "m_pc s t = Asleep k \<Longrightarrow> spurious_step t s (goto t (Exchange k) s)"
| cnd_wakes: "m_pc s t = CndAsleep sequence n \<Longrightarrow> spurious_step t s (goto t (Cas (Rewaiting n)) s)"

definition mutex_step :: "mtx \<Rightarrow> mtx \<Rightarrow> bool" where
  "mutex_step s s' \<longleftrightarrow> (\<exists>t. call_step t s s' \<or> inner_step t s s' \<or> spurious_step t s s')"

lemmas mutex_steps = call_step.simps inner_step.simps spurious_step.simps

section \<open>Mutual exclusion\<close>

definition holding :: "pc \<Rightarrow> bool" where
  "holding p \<longleftrightarrow> (\<exists>k. p = Locked k) \<or> (\<exists>r. p = Release r)"

definition outside :: "pc \<Rightarrow> bool" where
  "outside p \<longleftrightarrow> (\<exists>r. p = Out r) \<or> p = Broadcast"

fun saved_ok :: "pc \<Rightarrow> bool" where
  "saved_ok (Cas k) = (\<forall>n. k = Rewaiting n \<longrightarrow> 0 < n)"
| "saved_ok (Exchange k) = (\<forall>n. k = Rewaiting n \<longrightarrow> 0 < n)"
| "saved_ok (Wait k) = (\<forall>n. k = Rewaiting n \<longrightarrow> 0 < n)"
| "saved_ok (Asleep k) = (\<forall>n. k = Rewaiting n \<longrightarrow> 0 < n)"
| "saved_ok (Locked k) = (\<forall>n. k = Rewaiting n \<longrightarrow> 0 < n)"
| "saved_ok (Release r) = (\<forall>q n. r = Waiting q n \<longrightarrow> 0 < n)"
| "saved_ok (Wake r) = (\<forall>q n. r = Waiting q n \<longrightarrow> 0 < n)"
| "saved_ok (Cnd q n) = (0 < n)"
| "saved_ok (CndAsleep q n) = (0 < n)"
| "saved_ok p = True"

text \<open>The threads that have the lock: the owner, one that just got it and one that is giving it up.\<close>

definition holders :: "mtx \<Rightarrow> thread set" where
  "holders s = {t. m_thread s = Some t \<or> holding (m_pc s t)}"

definition mutex_inv :: "mtx \<Rightarrow> bool" where
  "mutex_inv s \<longleftrightarrow>
     (if m_lock s = 0 then holders s = {} else m_lock s \<in> {1, 2} \<and> (\<exists>t. holders s = {t})) \<and>
     (case m_thread s of None \<Rightarrow> m_count s = 0 | Some t \<Rightarrow> 0 < m_count s \<and> outside (m_pc s t)) \<and>
     (\<forall>t. saved_ok (m_pc s t))"

lemma holding_simps [simp]:
  "\<not> holding (Out r)" "\<not> holding (Cas k)" "\<not> holding (Exchange k)" "\<not> holding (Wait k)" "\<not> holding (Asleep k)"
  "holding (Locked k)" "\<not> holding Try" "holding (Release q)" "\<not> holding (Wake q)" "\<not> holding (Cnd sq n)"
  "\<not> holding (CndAsleep sq n)" "\<not> holding Broadcast" "\<not> holding (released q)"
  by (simp_all add: holding_def) (cases q; simp)

lemma outside_simps [simp]:
  "outside (Out r)" "\<not> outside (Cas k)" "\<not> outside (Exchange k)" "\<not> outside (Wait k)" "\<not> outside (Asleep k)"
  "\<not> outside (Locked k)" "\<not> outside Try" "\<not> outside (Release q)" "\<not> outside (Wake q)" "\<not> outside (Cnd sq n)"
  "\<not> outside (CndAsleep sq n)" "outside Broadcast"
  by (simp_all add: outside_def)

lemma saved_ok_released [simp]: "saved_ok (released r) = saved_ok (Wake r)"
  by (cases r) simp_all

lemma goto_simps [simp]:
  "m_lock (goto t p s) = m_lock s" "m_thread (goto t p s) = m_thread s" "m_count (goto t p s) = m_count s"
  "m_sequence (goto t p s) = m_sequence s" "m_type (goto t p s) = m_type s" "m_pc (goto t p s) = (m_pc s)(t := p)"
  by (simp_all add: goto_def)

lemma holders_iff: "t \<in> holders s \<longleftrightarrow> m_thread s = Some t \<or> holding (m_pc s t)"
  by (simp add: holders_def)

lemma initial_mutex_inv: "mutex_inv (msvcp__Mtx_init_in_situ type)"
  by (simp add: mutex_inv_def msvcp__Mtx_init_in_situ_def holders_def)

lemma mutex_invD:
  assumes "mutex_inv s"
  shows "m_lock s = 0 \<longleftrightarrow> holders s = {}"
    and "m_lock s = 0 \<or> m_lock s = 1 \<or> m_lock s = 2"
    and "t \<in> holders s \<Longrightarrow> holders s = {t}"
    and "m_thread s = Some t \<Longrightarrow> 0 < m_count s \<and> outside (m_pc s t)"
    and "m_thread s = None \<Longrightarrow> m_count s = 0"
    and "saved_ok (m_pc s t)"
  using assms by (auto simp: mutex_inv_def split: if_splits option.splits)

text \<open>How a step can change who holds the lock.\<close>

lemma mutex_invI:
  assumes "m_lock s = 0 \<and> holders s = {} \<or> m_lock s \<in> {1, 2} \<and> holders s = {t}"
    and "m_thread s = None \<and> m_count s = 0 \<or> (\<exists>t. m_thread s = Some t \<and> 0 < m_count s \<and> outside (m_pc s t))"
    and "\<And>t. saved_ok (m_pc s t)"
  shows "mutex_inv s"
  using assms by (auto simp: mutex_inv_def)

lemma holding_thread:
  assumes "mutex_inv s" and "holding (m_pc s t)"
  shows "m_thread s = None" and "holders s = {t}" and "m_lock s \<noteq> 0" and "m_count s = 0"
proof -
  show h: "holders s = {t}"
    using mutex_invD(3) [OF assms(1), of t] assms(2) by (simp add: holders_iff)
  have "m_thread s \<noteq> Some u" for u
  proof
    assume u: "m_thread s = Some u"
    then have "u = t"
      using h holders_iff [of u s] by auto
    then show False
      using mutex_invD(4) [OF assms(1) u] assms(2) by (auto simp: outside_def)
  qed
  then show "m_thread s = None"
    by auto
  then show "m_count s = 0"
    using mutex_invD(5) [OF assms(1)] by simp
  show "m_lock s \<noteq> 0"
    using mutex_invD(1) [OF assms(1)] h by auto
qed

text \<open>A thread that neither has nor gets the lock moves.\<close>

lemma goto_free:
  assumes "mutex_inv s" and "\<not> holding (m_pc s t)" and "\<not> holding p" and "m_thread s = Some t \<Longrightarrow> outside p" and "saved_ok p"
  shows "mutex_inv (goto t p s)"
proof -
  have "holders (goto t p s) = holders s"
    using assms(2,3) by (auto simp: holders_def)
  then show ?thesis
    using assms(1,4,5) by (auto simp: mutex_inv_def split: option.splits)
qed

lemma take_lock:
  assumes "mutex_inv s" and "m_lock s = 0" and "l = 1 \<or> l = 2" and "saved_ok (Locked k)"
  shows "mutex_inv (goto t (Locked k) (s\<lparr>m_lock := l\<rparr>))"
proof -
  have "holders s = {}"
    using mutex_invD(1) [OF assms(1)] assms(2) by simp
  then have "u \<notin> holders s" for u
    by simp
  then have none: "m_thread s = None" "\<And>u. \<not> holding (m_pc s u)"
    unfolding holders_iff by (meson option.exhaust, simp)
  then have "holders (goto t (Locked k) (s\<lparr>m_lock := l\<rparr>)) = {t}"
    by (auto simp: holders_def)
  then show ?thesis
    using assms(3,4) none(1) mutex_invD(5,6) [OF assms(1)]
    by (intro mutex_invI [where t = t]) auto
qed

lemma set_contended: "mutex_inv s \<Longrightarrow> m_lock s \<noteq> 0 \<Longrightarrow> mutex_inv (s\<lparr>m_lock := 2\<rparr>)"
  by (auto simp: mutex_inv_def holders_def split: option.splits)

lemma mutex_inv_acquire:
  assumes inv: "mutex_inv s" and pc: "m_pc s t = p" "p = Cas k \<or> p = Exchange k \<or> p = Wait k"
  shows "mutex_inv (msvc_mutex_acquire t p s)"
proof -
  have p: "\<not> holding (m_pc s t)" "m_thread s \<noteq> Some t"
    using pc mutex_invD(4) [OF inv, of t] by auto
  have k: "saved_ok (Locked k)"
    using mutex_invD(6) [OF inv, of t] pc by auto
  have move: "mutex_inv (goto t q s)" if "q \<in> {Exchange k, Wait k, Asleep k}" for q
    using that p k by (intro goto_free [OF inv]) auto
  show ?thesis
    using pc(2)
  proof (elim disjE)
    assume "p = Exchange k"
    moreover have "mutex_inv (goto t (Wait k) (s\<lparr>m_lock := 2\<rparr>))" if "m_lock s \<noteq> 0"
      using set_contended [OF inv that] p k by (intro goto_free) auto
    moreover have "mutex_inv (goto t (Locked k) (s\<lparr>m_lock := 2\<rparr>))" if "m_lock s = 0"
      using take_lock [OF inv that _ k] by simp
    ultimately show ?thesis
      by simp
  qed (use move take_lock [OF inv _ _ k] in simp_all)
qed

lemma mutex_inv_own:
  assumes inv: "mutex_inv s" and "m_pc s t = Locked k"
  shows "mutex_inv (own t k s)"
proof -
  have h: "m_thread s = None" "holders s = {t}" "m_lock s \<noteq> 0" "m_count s = 0" "saved_ok (Locked k)"
    using holding_thread [OF inv, of t] mutex_invD(6) [OF inv, of t] assms(2) by simp_all
  have others: "\<not> holding (m_pc s u)" if "u \<noteq> t" for u
    using h(2) that by (auto simp: holders_def)
  have "holders (goto t (Out r) (s\<lparr>m_thread := Some t, m_count := n\<rparr>)) = {t}" for r n
    using others by (auto simp: holders_def)
  then show ?thesis
    using h mutex_invD(2,6) [OF inv] by (cases k) (auto intro!: mutex_invI [where t = t])
qed

text \<open>The holder gives the lock up, first the owner, then the word.\<close>

lemma mutex_inv_disown:
  assumes inv: "mutex_inv s" and "m_thread s = Some t" and "saved_ok (Release r)"
  shows "mutex_inv (goto t (Release r) (s\<lparr>m_count := 0, m_thread := None\<rparr>))"
proof -
  have h: "holders s = {t}"
    using mutex_invD(3) [OF inv, of t] assms(2) by (simp add: holders_iff)
  have "\<not> holding (m_pc s u)" if "u \<noteq> t" for u
    using h that by (auto simp: holders_def)
  then have "holders (goto t (Release r) (s\<lparr>m_count := 0, m_thread := None\<rparr>)) = {t}"
    by (auto simp: holders_def)
  then show ?thesis
    using assms(3) mutex_invD(1,2,6) [OF inv] h by (intro mutex_invI [where t = t]) auto
qed

lemma mutex_inv_release:
  assumes inv: "mutex_inv s" and pc: "m_pc s t = Release r"
  shows "mutex_inv (msvc_mutex_release t r s)"
proof -
  have h: "m_thread s = None" "holders s = {t}" "m_count s = 0" "saved_ok (Release r)"
    using holding_thread [OF inv, of t] mutex_invD(6) [OF inv, of t] pc by simp_all
  have others: "\<not> holding (m_pc s u)" if "u \<noteq> t" for u
    using h(2) that by (auto simp: holders_def)
  have "holders (goto t p (s\<lparr>m_lock := 0\<rparr>)) = {}" if "\<not> holding p" for p
    using others that h(1) by (auto simp: holders_def)
  then show ?thesis
    using h mutex_invD(6) [OF inv] unfolding msvc_mutex_release_def by (auto intro!: mutex_invI)
qed

lemma mutex_inv_call:
  assumes "call_step t s s'" and inv: "mutex_inv s"
  shows "mutex_inv s'"
  using assms(1)
proof cases
  case (call_lock r)
  have "mutex_inv (s\<lparr>m_count := m_count s + 1\<rparr>)" if "m_thread s = Some t"
    using inv that by (auto simp: mutex_inv_def holders_def)
  then show ?thesis
    using inv call_lock by (auto simp: msvcp__Mtx_lock_def relock_def intro!: goto_free)
next
  case (call_trylock r)
  have "mutex_inv (s\<lparr>m_count := m_count s + 1\<rparr>)" if "m_thread s = Some t"
    using inv that by (auto simp: mutex_inv_def holders_def)
  then show ?thesis
    using inv call_trylock by (auto simp: msvcp__Mtx_trylock_def relock_def intro!: goto_free)
next
  case (call_unlock r)
  show ?thesis
  proof (cases "m_count s = 1")
    case True
    then show ?thesis
      using mutex_inv_disown [OF inv call_unlock(3), of Unlocking] call_unlock by (simp add: msvcp__Mtx_unlock_def)
  next
    case False
    then have "mutex_inv (s\<lparr>m_count := m_count s - 1\<rparr>)"
      using inv call_unlock(3) by (auto simp: mutex_inv_def holders_def)
    then show ?thesis
      using False call_unlock by (auto simp: msvcp__Mtx_unlock_def intro!: goto_free)
  qed
next
  case (call_wait r)
  then show ?thesis
    using mutex_inv_disown [OF inv call_wait(3), of "Waiting (m_sequence s) (m_count s)"] mutex_invD(4) [OF inv call_wait(3)]
    by (simp add: msvcp__Cnd_wait_def)
next
  case (call_broadcast r)
  have "mutex_inv (s\<lparr>m_sequence := m_sequence s + 1\<rparr>)"
    using inv by (auto simp: mutex_inv_def holders_def split: option.splits)
  then show ?thesis
    using call_broadcast by (auto simp: msvcp__Cnd_broadcast_def intro!: goto_free)
qed

lemma mutex_inv_inner:
  assumes "inner_step t s s'" and inv: "mutex_inv s"
  shows "mutex_inv s'"
  using assms(1)
proof cases
  case (acquire p k)
  then show ?thesis
    using mutex_inv_acquire [OF inv] by blast
next
  case trying
  then have "m_thread s \<noteq> Some t"
    using mutex_invD(4) [OF inv, of t] by auto
  then show ?thesis
    using trying inv take_lock [OF inv] by (auto simp: try_acquire_def intro!: goto_free)
next
  case (owned k)
  then show ?thesis
    using mutex_inv_own [OF inv] by simp
next
  case (release r)
  then show ?thesis
    using mutex_inv_release [OF inv] by simp
next
  case (wake_one r u k)
  then have "m_thread s \<noteq> Some u" "m_thread s \<noteq> Some t" "u \<noteq> t"
    using mutex_invD(4) [OF inv, of u] mutex_invD(4) [OF inv, of t] by auto
  then show ?thesis
    using wake_one mutex_invD(6) [OF inv, of u] mutex_invD(6) [OF inv, of t] inv by (auto intro!: goto_free)
next
  case (wake_none r)
  then have "m_thread s \<noteq> Some t"
    using mutex_invD(4) [OF inv, of t] by auto
  then show ?thesis
    using wake_none mutex_invD(6) [OF inv, of t] inv by (auto intro!: goto_free)
next
  case (cnd sequence n)
  then have "m_thread s \<noteq> Some t"
    using mutex_invD(4) [OF inv, of t] by auto
  then show ?thesis
    using cnd mutex_invD(6) [OF inv, of t] inv by (auto simp: cnd_futex_wait_def intro!: goto_free)
next
  case broadcast
  let ?woken = "s\<lparr>m_pc := (\<lambda>u. case m_pc s u of CndAsleep sequence n \<Rightarrow> Cas (Rewaiting n) | p \<Rightarrow> p)\<rparr>"
  have pc: "holding (m_pc ?woken u) = holding (m_pc s u)" "outside (m_pc ?woken u) = outside (m_pc s u)"
    "saved_ok (m_pc ?woken u) = saved_ok (m_pc s u)" for u
    by (cases "m_pc s u"; simp)+
  then have "holders ?woken = holders s"
    by (simp add: holders_def)
  then have "mutex_inv ?woken"
    using inv pc by (auto simp: mutex_inv_def split: option.splits)
  then show ?thesis
    using broadcast by (auto simp: wake_all_def intro!: goto_free)
qed

lemma mutex_inv_spurious: "spurious_step t s s' \<Longrightarrow> mutex_inv s \<Longrightarrow> mutex_inv s'"
  by (erule spurious_step.cases) (use mutex_invD(4,6) [of s t] in \<open>auto intro!: goto_free\<close>)

section \<open>No lost wake-up\<close>

text \<open>
  While a thread sleeps on the lock word, the word says so, or a wake-up is on its way, or some thread
  is about to write 2 again. While one sleeps on the condition, no broadcast has happened since it read
  the sequence, or its wake-up is on its way.
\<close>

definition wakes :: "pc \<Rightarrow> bool" where
  "wakes p \<longleftrightarrow> (\<exists>r. p = Wake r) \<or> (\<exists>k. p = Exchange k)"

definition wake_inv :: "mtx \<Rightarrow> bool" where
  "wake_inv s \<longleftrightarrow>
     ((\<exists>t k. m_pc s t = Asleep k) \<longrightarrow> m_lock s = 2 \<or> (\<exists>u. wakes (m_pc s u))) \<and>
     (\<forall>t q n. m_pc s t = CndAsleep q n \<longrightarrow> m_sequence s = q \<or> (\<exists>u. m_pc s u = Broadcast))"

lemma initial_wake_inv: "wake_inv (msvcp__Mtx_init_in_situ type)"
  by (simp add: wake_inv_def msvcp__Mtx_init_in_situ_def)

lemma wakes_simps [simp]:
  "\<not> wakes (Out r)" "\<not> wakes (Cas k)" "wakes (Exchange k)" "\<not> wakes (Wait k)" "\<not> wakes (Asleep k)"
  "\<not> wakes (Locked k)" "\<not> wakes Try" "\<not> wakes (Release q)" "wakes (Wake q)" "\<not> wakes (Cnd sq n)"
  "\<not> wakes (CndAsleep sq n)" "\<not> wakes Broadcast"
  by (simp_all add: wakes_def)

lemma released_simps [simp]: "released r \<noteq> Asleep k" "released r \<noteq> CndAsleep q n" "released r \<noteq> Broadcast"
  by (cases r; simp)+

text \<open>One thread moves, with the condition word as it was.\<close>

lemma wake_inv_move:
  assumes inv: "wake_inv s" and pc: "\<And>u. u \<noteq> t \<Longrightarrow> m_pc s' u = m_pc s u" and "m_sequence s' = m_sequence s"
    and "m_pc s t \<noteq> Broadcast" and "\<And>sq n. m_pc s' t = CndAsleep sq n \<Longrightarrow> sq = m_sequence s"
    and lock: "m_lock s' = 2 \<or> wakes (m_pc s' t) \<or> (\<forall>k. m_pc s' t \<noteq> Asleep k) \<and>
      ((\<exists>u. u \<noteq> t \<and> wakes (m_pc s u)) \<or> \<not> wakes (m_pc s t) \<and> (m_lock s' = m_lock s \<or> m_lock s \<noteq> 2))"
  shows "wake_inv s'"
  unfolding wake_inv_def
proof (intro conjI impI allI)
  assume asleep: "\<exists>v k. m_pc s' v = Asleep k"
  show "m_lock s' = 2 \<or> (\<exists>u. wakes (m_pc s' u))"
  proof (cases "m_lock s' = 2 \<or> wakes (m_pc s' t)")
    case False
    then have "\<exists>v k. m_pc s v = Asleep k"
      using asleep lock pc by metis
    then have "m_lock s = 2 \<or> (\<exists>u. wakes (m_pc s u))"
      using inv unfolding wake_inv_def by blast
    then have "m_lock s = 2 \<and> m_lock s' = m_lock s \<or> (\<exists>u. u \<noteq> t \<and> wakes (m_pc s u))"
      using False lock by metis
    then show ?thesis
      using pc by metis
  qed blast
next
  fix v sq n
  assume "m_pc s' v = CndAsleep sq n"
  then have "m_sequence s = sq \<or> m_pc s v = CndAsleep sq n"
    using assms(5) pc by metis
  then have "m_sequence s = sq \<or> (\<exists>u. m_pc s u = Broadcast)"
    using inv unfolding wake_inv_def by blast
  then show "m_sequence s' = sq \<or> (\<exists>u. m_pc s' u = Broadcast)"
    using assms(3,4) pc by metis
qed

lemma wake_inv_call:
  assumes "call_step t s s'" and inv: "wake_inv s"
  shows "wake_inv s'"
  using assms(1)
proof cases
  case (call_broadcast r)
  have "m_pc s' t = Broadcast" "m_lock s' = m_lock s"
    using call_broadcast by (simp_all add: msvcp__Cnd_broadcast_def)
  moreover have "m_pc s u = Asleep k" if "m_pc s' u = Asleep k" for u k
    using that call_broadcast by (simp add: msvcp__Cnd_broadcast_def split: if_splits)
  moreover have "wakes (m_pc s' u)" if "wakes (m_pc s u)" for u
    using that call_broadcast by (auto simp: msvcp__Cnd_broadcast_def)
  ultimately show ?thesis
    using inv unfolding wake_inv_def by metis
qed (rule wake_inv_move [OF inv, where t = t];
    simp add: msvcp__Mtx_lock_def msvcp__Mtx_trylock_def relock_def msvcp__Mtx_unlock_def Let_def msvcp__Cnd_wait_def split: if_splits)+

lemma wake_inv_inner:
  assumes "inner_step t s s'" and inv: "wake_inv s"
  shows "wake_inv s'"
  using assms(1)
proof cases
  case (wake_one r u k)
  have "u \<noteq> t"
    using wake_one by auto
  have "wake_inv (goto u (Exchange k) s)"
    using wake_one by (intro wake_inv_move [OF inv, where t = u]) simp_all
  then show ?thesis
  proof (rule wake_inv_move [where t = t])
    have "u \<noteq> t \<and> wakes (m_pc (goto u (Exchange k) s) u)"
      using \<open>u \<noteq> t\<close> by simp
    moreover have "m_pc s' t \<noteq> Asleep k'" for k'
      using wake_one by simp
    ultimately show "m_lock s' = 2 \<or> wakes (m_pc s' t) \<or> (\<forall>k. m_pc s' t \<noteq> Asleep k) \<and>
        ((\<exists>v. v \<noteq> t \<and> wakes (m_pc (goto u (Exchange k) s) v)) \<or> \<not> wakes (m_pc (goto u (Exchange k) s) t) \<and>
          (m_lock s' = m_lock (goto u (Exchange k) s) \<or> m_lock (goto u (Exchange k) s) \<noteq> 2))"
      by blast
  qed (use wake_one \<open>u \<noteq> t\<close> in simp_all)
next
  case (wake_none r)
  have "m_pc s' u \<noteq> Asleep k" for u k
    using wake_none by simp
  moreover have "m_pc s u = CndAsleep q n" if "m_pc s' u = CndAsleep q n" for u q n
    using that wake_none by (simp split: if_splits)
  moreover have "m_pc s' u = Broadcast" if "m_pc s u = Broadcast" for u
    using that wake_none by auto
  moreover have "m_sequence s' = m_sequence s"
    using wake_none by simp
  ultimately show ?thesis
    using inv unfolding wake_inv_def by metis
next
  case broadcast
  have "m_pc s' u \<noteq> CndAsleep q n" for u q n
    using broadcast by (simp add: wake_all_def split: pc.splits)
  moreover have "m_pc s u = Asleep k" if "m_pc s' u = Asleep k" for u k
    using broadcast that by (simp add: wake_all_def split: pc.splits if_splits)
  moreover have "wakes (m_pc s' u)" if "wakes (m_pc s u)" for u
    using broadcast that by (auto simp: wake_all_def wakes_def)
  moreover have "m_lock s' = m_lock s"
    using broadcast by (simp add: wake_all_def)
  ultimately show ?thesis
    using inv unfolding wake_inv_def by metis
next
  case (owned k)
  then show ?thesis
    by (cases k) (rule wake_inv_move [OF inv, where t = t]; simp)+
next
  case (acquire p k)
  from acquire(3) show ?thesis
    using acquire(1,2) by (elim disjE) (rule wake_inv_move [OF inv, where t = t]; simp split: if_splits)+
next
  case trying
  then show ?thesis
    by (intro wake_inv_move [OF inv, where t = t]) (simp_all add: try_acquire_def split: if_splits)
next
  case (release r)
  then show ?thesis
    by (intro wake_inv_move [OF inv, where t = t]) (simp_all add: msvc_mutex_release_def split: if_splits)
next
  case (cnd q n)
  then show ?thesis
    by (intro wake_inv_move [OF inv, where t = t]) (simp_all add: cnd_futex_wait_def split: if_splits)
qed

lemma wake_inv_spurious: "spurious_step t s s' \<Longrightarrow> wake_inv s \<Longrightarrow> wake_inv s'"
  by (erule spurious_step.cases) (rule wake_inv_move [where s = s and t = t]; simp)+

lemma mutex_step_inv: "mutex_step s s' \<Longrightarrow> mutex_inv s \<and> wake_inv s \<Longrightarrow> mutex_inv s' \<and> wake_inv s'"
  unfolding mutex_step_def
  using mutex_inv_call mutex_inv_inner mutex_inv_spurious wake_inv_call wake_inv_inner wake_inv_spurious by blast

lemma mutex_reachable:
  assumes "mutex_step\<^sup>*\<^sup>* (msvcp__Mtx_init_in_situ type) s"
  shows "mutex_inv s" and "wake_inv s"
proof -
  have "mutex_inv s \<and> wake_inv s"
    using assms
  proof (induction rule: rtranclp_induct)
    case base
    show ?case
      using initial_mutex_inv initial_wake_inv by blast
  qed (rule mutex_step_inv)
  then show "mutex_inv s" and "wake_inv s"
    by simp_all
qed

section \<open>Refinement of a recursive lock\<close>

text \<open>The contract: an owner with a nesting count, and the counts of the threads that wait on the condition.\<close>

record lock_spec =
  a_owner :: "(thread \<times> int) option"
  a_saved :: "thread \<Rightarrow> int option"

inductive lock_spec_step :: "bool \<Rightarrow> thread \<Rightarrow> lock_spec \<Rightarrow> lock_spec \<Rightarrow> bool" where
  spec_lock: "a_owner a = None \<Longrightarrow> a_saved a t = None \<Longrightarrow> lock_spec_step nest t a (a\<lparr>a_owner := Some (t, 1)\<rparr>)"
| spec_nest: "a_owner a = Some (t, n) \<Longrightarrow> lock_spec_step True t a (a\<lparr>a_owner := Some (t, n + 1)\<rparr>)"
| spec_unnest: "a_owner a = Some (t, n) \<Longrightarrow> 1 < n \<Longrightarrow> lock_spec_step nest t a (a\<lparr>a_owner := Some (t, n - 1)\<rparr>)"
| spec_unlock: "a_owner a = Some (t, 1) \<Longrightarrow> lock_spec_step nest t a (a\<lparr>a_owner := None\<rparr>)"
| spec_wait: "a_owner a = Some (t, n) \<Longrightarrow> lock_spec_step nest t a (a\<lparr>a_owner := None, a_saved := (a_saved a)(t \<mapsto> n)\<rparr>)"
| spec_woken: "a_owner a = None \<Longrightarrow> a_saved a t = Some n \<Longrightarrow>
    lock_spec_step nest t a (a\<lparr>a_owner := Some (t, n), a_saved := (a_saved a)(t := None)\<rparr>)"

fun saved_for :: "acquire_for \<Rightarrow> int option" where
  "saved_for Locking = None"
| "saved_for (Rewaiting n) = Some n"

fun saved_after :: "release_for \<Rightarrow> int option" where
  "saved_after Unlocking = None"
| "saved_after (Waiting q n) = Some n"

fun saved_count :: "pc \<Rightarrow> int option" where
  "saved_count (Cas k) = saved_for k"
| "saved_count (Exchange k) = saved_for k"
| "saved_count (Wait k) = saved_for k"
| "saved_count (Asleep k) = saved_for k"
| "saved_count (Locked k) = saved_for k"
| "saved_count (Release r) = saved_after r"
| "saved_count (Wake r) = saved_after r"
| "saved_count (Cnd q n) = Some n"
| "saved_count (CndAsleep q n) = Some n"
| "saved_count p = None"

definition abs_mutex :: "mtx \<Rightarrow> lock_spec" where
  "abs_mutex s = \<lparr>a_owner = map_option (\<lambda>t. (t, m_count s)) (m_thread s), a_saved = (\<lambda>t. saved_count (m_pc s t))\<rparr>"

lemma abs_mutex_goto:
  "abs_mutex (goto t p s) = (abs_mutex s)\<lparr>a_saved := (a_saved (abs_mutex s))(t := saved_count p)\<rparr>"
  by (auto simp: abs_mutex_def)

lemma abs_mutex_simps [simp]:
  "abs_mutex (s\<lparr>m_lock := l\<rparr>) = abs_mutex s" "abs_mutex (s\<lparr>m_sequence := q\<rparr>) = abs_mutex s"
  "a_owner (abs_mutex s) = map_option (\<lambda>t. (t, m_count s)) (m_thread s)"
  "a_saved (abs_mutex s) t = saved_count (m_pc s t)"
  by (simp_all add: abs_mutex_def)

lemma saved_released [simp]: "saved_count (released r) = saved_after r"
  by (cases r) simp_all

text \<open>A move that keeps the saved count is invisible.\<close>

lemma abs_mutex_stutter: "saved_count p = saved_count (m_pc s t) \<Longrightarrow> abs_mutex (goto t p s) = abs_mutex s"
  by (auto simp: abs_mutex_def)

lemma inner_refines:
  assumes "inner_step t s s'" and inv: "mutex_inv s"
  shows "abs_mutex s' = abs_mutex s \<or> lock_spec_step nest t (abs_mutex s) (abs_mutex s')"
  using assms(1)
proof cases
  case (owned k)
  then have free: "m_thread s = None" "m_count s = 0"
    using holding_thread [OF inv, of t] by simp_all
  show ?thesis
  proof (cases k)
    case Locking
    then have "abs_mutex s' = (abs_mutex s)\<lparr>a_owner := Some (t, 1)\<rparr>"
      using owned free by (auto simp: abs_mutex_def)
    then show ?thesis
      using spec_lock [of "abs_mutex s" t nest] owned free Locking by simp
  next
    case (Rewaiting n)
    then have "abs_mutex s' = (abs_mutex s)\<lparr>a_owner := Some (t, n), a_saved := (a_saved (abs_mutex s))(t := None)\<rparr>"
      using owned free by (auto simp: abs_mutex_def)
    then show ?thesis
      using spec_woken [of "abs_mutex s" t n nest] owned free Rewaiting by simp
  qed
next
  case broadcast
  have "saved_count (case m_pc s u of CndAsleep sequence n \<Rightarrow> Cas (Rewaiting n) | p \<Rightarrow> p) = saved_count (m_pc s u)" for u
    by (cases "m_pc s u") simp_all
  then show ?thesis
    using broadcast by (auto simp: abs_mutex_def wake_all_def)
next
  case (wake_one r u k)
  then have "u \<noteq> t"
    by auto
  then show ?thesis
    using wake_one by (simp add: abs_mutex_stutter)
next
  case (acquire p k)
  from acquire(3) show ?thesis
    using acquire(1,2) by (elim disjE) (simp_all add: abs_mutex_stutter)
qed (simp_all add: abs_mutex_stutter try_acquire_def msvc_mutex_release_def cnd_futex_wait_def)

lemma call_refines:
  assumes "call_step t s s'" and inv: "mutex_inv s"
  shows "abs_mutex s' = abs_mutex s \<or> lock_spec_step (recursive s) t (abs_mutex s) (abs_mutex s')"
proof -
  have nest: "lock_spec_step (recursive s) t (abs_mutex s) (abs_mutex (goto t (Out 0) (s\<lparr>m_count := m_count s + 1\<rparr>)))"
    if "m_thread s = Some t" "recursive s" "m_pc s t = Out r" for r
  proof -
    have "abs_mutex (goto t (Out 0) (s\<lparr>m_count := m_count s + 1\<rparr>)) = (abs_mutex s)\<lparr>a_owner := Some (t, m_count s + 1)\<rparr>"
      using that by (auto simp: abs_mutex_def)
    then show ?thesis
      using spec_nest [of "abs_mutex s" t "m_count s"] that by simp
  qed
  show ?thesis
    using assms(1)
  proof cases
    case (call_unlock r)
    then have pos: "0 < m_count s"
      using mutex_invD(4) [OF inv] by simp
    show ?thesis
    proof (cases "m_count s = 1")
      case True
      then have "abs_mutex s' = (abs_mutex s)\<lparr>a_owner := None\<rparr>"
        using call_unlock by (auto simp: abs_mutex_def msvcp__Mtx_unlock_def)
      then show ?thesis
        using spec_unlock [of "abs_mutex s" t] call_unlock True by simp
    next
      case False
      then have "abs_mutex s' = (abs_mutex s)\<lparr>a_owner := Some (t, m_count s - 1)\<rparr>"
        using call_unlock by (auto simp: abs_mutex_def msvcp__Mtx_unlock_def)
      then show ?thesis
        using spec_unnest [of "abs_mutex s" t "m_count s"] call_unlock False pos by simp
    qed
  next
    case (call_wait r)
    then have "abs_mutex s' = (abs_mutex s)\<lparr>a_owner := None, a_saved := (a_saved (abs_mutex s))(t \<mapsto> m_count s)\<rparr>"
      by (auto simp: abs_mutex_def msvcp__Cnd_wait_def)
    then show ?thesis
      using spec_wait [of "abs_mutex s" t "m_count s"] call_wait by simp
  next
    case (call_lock r)
    then show ?thesis
      using nest by (auto simp: msvcp__Mtx_lock_def relock_def abs_mutex_stutter MSVC_THRD_SUCCESS_def)
  next
    case (call_trylock r)
    then show ?thesis
      using nest by (auto simp: msvcp__Mtx_trylock_def relock_def abs_mutex_stutter MSVC_THRD_SUCCESS_def)
  qed (simp add: abs_mutex_stutter msvcp__Cnd_broadcast_def)
qed

lemma spurious_refines: "spurious_step t s s' \<Longrightarrow> abs_mutex s' = abs_mutex s"
  by (erule spurious_step.cases) (simp_all add: abs_mutex_stutter)

section \<open>Progress\<close>

text \<open>Every thread inside a call that is not asleep can go on.\<close>

definition asleep :: "pc \<Rightarrow> bool" where
  "asleep p \<longleftrightarrow> (\<exists>k. p = Asleep k) \<or> (\<exists>q n. p = CndAsleep q n)"

lemma inner_enabled:
  assumes "\<And>s'. \<not> inner_step t s s'"
  shows "(\<exists>r. m_pc s t = Out r) \<or> asleep (m_pc s t)"
proof (rule ccontr)
  assume no: "\<not> ((\<exists>r. m_pc s t = Out r) \<or> asleep (m_pc s t))"
  have "\<exists>s'. inner_step t s s'"
  proof (cases "m_pc s t")
    case (Wake r)
    then show ?thesis
      using wake_one wake_none by metis
  next
    case (Cas k)
    then show ?thesis
      using acquire [of s t "Cas k" k] by blast
  next
    case (Exchange k)
    then show ?thesis
      using acquire [of s t "Exchange k" k] by blast
  next
    case (Wait k)
    then show ?thesis
      using acquire [of s t "Wait k" k] by blast
  qed (use no in \<open>auto simp: asleep_def intro: inner_step.intros\<close>)
  with assms show False
    by blast
qed

text \<open>When nothing moves inside the calls, whoever sleeps on the lock waits for an owner that is outside.\<close>

lemma stuck_has_owner:
  assumes inv: "mutex_inv s" "wake_inv s" and stuck: "\<And>t s'. \<not> inner_step t s s'" and "m_pc s t = Asleep k"
  shows "\<exists>u r. m_thread s = Some u \<and> m_pc s u = Out r"
proof -
  have pcs: "(\<exists>r. m_pc s u = Out r) \<or> asleep (m_pc s u)" for u
    using stuck by (rule inner_enabled)
  have "\<not> wakes (m_pc s u)" "\<not> holding (m_pc s u)" "m_pc s u \<noteq> Broadcast" for u
    using pcs [of u] by (auto simp: asleep_def)
  then have "m_lock s = 2"
    using inv(2) assms(4) unfolding wake_inv_def by blast
  then have "holders s \<noteq> {}"
    using mutex_invD(1) [OF inv(1)] by auto
  then obtain u where "m_thread s = Some u"
    using \<open>\<And>u. \<not> holding (m_pc s u)\<close> by (auto simp: holders_def)
  then show ?thesis
    using mutex_invD(4) [OF inv(1)] \<open>\<And>u. m_pc s u \<noteq> Broadcast\<close> unfolding outside_def by blast
qed

end
