(* ===== verification/Mutex_Properties.thy ===== *)
theory Mutex_Properties
  imports Win_Mutex
begin

text \<open>
  The properties of the MSVCP140 mutex and condition variable (\<open>src/src/winlibs.cpp\<close>), with a run that
  ends with a thread asleep.
\<close>

text \<open>Thread 0 owns the mutex and thread 1 sleeps on it.\<close>

definition sample_contended :: mtx where
  "sample_contended = \<lparr>m_type = 0x100, m_lock = 2, m_thread = Some 0, m_count = 1, m_sequence = 0,
     m_pc = (\<lambda>_. Out 0)(1 := Asleep Locking)\<rparr>"

lemma call_mutex: "call_step t s s' \<Longrightarrow> mutex_step s s'"
  by (auto simp: mutex_step_def)

lemma inner_mutex: "inner_step t s s' \<Longrightarrow> mutex_step s s'"
  by (auto simp: mutex_step_def)

lemmas next_step = converse_rtranclp_into_rtranclp [where r = mutex_step]

lemma sample_contended_reachable: "mutex_step\<^sup>*\<^sup>* (msvcp__Mtx_init_in_situ 0x100) sample_contended"
proof -
  let ?s0 = "msvcp__Mtx_init_in_situ 0x100"
  let ?s1 = "msvcp__Mtx_lock 0 ?s0"
  let ?s2 = "msvc_mutex_acquire 0 (Cas Locking) ?s1"
  let ?s3 = "own 0 Locking ?s2"
  let ?s4 = "msvcp__Mtx_lock 1 ?s3"
  let ?s5 = "msvc_mutex_acquire 1 (Cas Locking) ?s4"
  let ?s6 = "msvc_mutex_acquire 1 (Exchange Locking) ?s5"
  let ?s7 = "msvc_mutex_acquire 1 (Wait Locking) ?s6"
  note defs = msvcp__Mtx_init_in_situ_def msvcp__Mtx_lock_def
  have 1: "mutex_step ?s0 ?s1"
    by (rule call_mutex [of 0], rule call_lock [of _ _ 0]) (simp add: defs)
  have 2: "mutex_step ?s1 ?s2"
    by (rule inner_mutex [of 0], rule acquire [where k = Locking]) (simp_all add: defs)
  have 3: "mutex_step ?s2 ?s3"
    by (rule inner_mutex [of 0], rule owned) (simp add: defs)
  have 4: "mutex_step ?s3 ?s4"
    by (rule call_mutex [of 1], rule call_lock [of _ _ 0]) (simp add: defs)
  have 5: "mutex_step ?s4 ?s5"
    by (rule inner_mutex [of 1], rule acquire [where k = Locking]) (simp_all add: defs)
  have 6: "mutex_step ?s5 ?s6"
    by (rule inner_mutex [of 1], rule acquire [where k = Locking]) (simp_all add: defs)
  have 7: "mutex_step ?s6 ?s7"
    by (rule inner_mutex [of 1], rule acquire [where k = Locking]) (simp_all add: defs)
  have "mutex_step\<^sup>*\<^sup>* ?s0 ?s7"
    by (rule next_step, rule 1, rule next_step, rule 2,
        rule next_step, rule 3, rule next_step, rule 4,
        rule next_step, rule 5, rule next_step, rule 6,
        rule next_step, rule 7, rule rtranclp.rtrancl_refl)
  moreover have "?s7 = sample_contended"
    by (simp add: defs sample_contended_def goto_def MSVC_THRD_SUCCESS_def fun_eq_iff)
  ultimately show ?thesis
    by simp
qed

lemma sample_contended_stuck: "\<not> inner_step t sample_contended s'"
  by (auto simp: inner_step.simps sample_contended_def split: if_splits)

text \<open>
  C26: In every reachable state of the mutex at most one thread holds it (owns it, has just got the lock
  word or is about to give it up), the lock word is 0 exactly when nobody does, and the nesting count is
  positive exactly while there is an owner.
\<close>

theorem mutex_exclusive:
  assumes "mutex_step\<^sup>*\<^sup>* (msvcp__Mtx_init_in_situ type) s"
  shows "card (holders s) \<le> 1 \<and> (m_lock s = 0 \<longleftrightarrow> holders s = {}) \<and> (0 < m_count s \<longleftrightarrow> m_thread s \<noteq> None)"
proof -
  note inv = mutex_reachable(1) [OF assms]
  show ?thesis
  proof (intro conjI)
    show "card (holders s) \<le> 1"
      using mutex_invD(3) [OF inv] by (cases "holders s = {}") fastforce+
    show "m_lock s = 0 \<longleftrightarrow> holders s = {}"
      by (rule mutex_invD(1) [OF inv])
    show "0 < m_count s \<longleftrightarrow> m_thread s \<noteq> None"
      using mutex_invD(4,5) [OF inv] by (cases "m_thread s") simp_all
  qed
qed

theorem mutex_exclusive_witness: "card (holders sample_contended) \<le> 1 \<and> holders sample_contended \<noteq> {}"
  using mutex_exclusive [OF sample_contended_reachable] by (simp add: sample_contended_def)

text \<open>
  C27: No wake-up is lost. When no thread inside a call of a reachable state can take a step, a thread
  that sleeps on the lock word waits for an owner that is outside every call, and a thread that sleeps on
  the condition has seen no broadcast since it read the sequence.
\<close>

theorem no_lost_wakeup:
  assumes "mutex_step\<^sup>*\<^sup>* (msvcp__Mtx_init_in_situ type) s" and "\<And>u s'. \<not> inner_step u s s'"
  shows "(m_pc s t = Asleep k \<longrightarrow> (\<exists>u r. m_thread s = Some u \<and> m_pc s u = Out r)) \<and>
    (m_pc s t = CndAsleep q n \<longrightarrow> m_sequence s = q)"
proof -
  note inv = mutex_reachable [OF assms(1)]
  have "m_pc s u \<noteq> Broadcast" for u
    using inner_enabled [OF assms(2), of u] by (auto simp: asleep_def)
  then show ?thesis
    using stuck_has_owner [OF inv assms(2)] inv(2) unfolding wake_inv_def by blast
qed

theorem no_lost_wakeup_witness: "\<exists>u r. m_thread sample_contended = Some u \<and> m_pc sample_contended u = Out r"
  using no_lost_wakeup [OF sample_contended_reachable sample_contended_stuck, of 1 Locking]
  by (simp add: sample_contended_def)

text \<open>
  C28: The mutex and the condition variable implement a recursive lock with wait: from a reachable state
  every step either leaves the owner, its count and the saved counts of the waiting threads alone or is
  one step of the specification, in which only a recursive mutex nests.
\<close>

theorem mutex_refines_lock:
  assumes "mutex_step\<^sup>*\<^sup>* (msvcp__Mtx_init_in_situ type) s" and "mutex_step s s'"
  shows "abs_mutex s' = abs_mutex s \<or> (\<exists>t. lock_spec_step (recursive s) t (abs_mutex s) (abs_mutex s'))"
  using assms(2) call_refines inner_refines spurious_refines mutex_reachable(1) [OF assms(1)]
  unfolding mutex_step_def by blast

theorem mutex_refines_lock_witness:
  "\<exists>t. lock_spec_step True t (abs_mutex sample_contended) (abs_mutex (msvcp__Mtx_unlock 0 sample_contended))"
proof -
  have "mutex_step sample_contended (msvcp__Mtx_unlock 0 sample_contended)"
    unfolding mutex_step_def
    by (intro exI [of _ 0] disjI1 call_unlock [of _ _ 0]) (simp_all add: sample_contended_def)
  moreover have "a_owner (abs_mutex (msvcp__Mtx_unlock 0 sample_contended)) \<noteq> a_owner (abs_mutex sample_contended)"
    by (simp add: msvcp__Mtx_unlock_def sample_contended_def)
  moreover have "recursive sample_contended"
    by (simp add: recursive_def sample_contended_def MSVC_MTX_RECURSIVE_def)
  ultimately show ?thesis
    using mutex_refines_lock [OF sample_contended_reachable] by metis
qed

end
