(* ===== verification/Win_Registration.thy ===== *)
theory Win_Registration
  imports Loader_Exports
begin

text \<open>
  The table of Windows functions that PE code can import: \<open>register_windows_library_functions\<close> of
  \<open>src/src/winlibs.cpp\<close>, entry by entry in the order of the code. An entry is the module, the exported
  name and the C++ function whose address is registered; the addresses are a parameter.
\<close>

section \<open>The entries\<close>

type_synonym registration = "string \<times> string \<times> string"

definition KERNEL32_FUNC :: "string \<Rightarrow> registration" where
  "KERNEL32_FUNC name = (''KERNEL32.dll'', name, name)"

definition VCRUNTIME140_FUNC :: "string \<Rightarrow> registration" where
  "VCRUNTIME140_FUNC name = (''VCRUNTIME140.dll'', name, ''vcruntime_'' @ name)"

definition CRT_FUNC :: "string \<Rightarrow> string \<Rightarrow> registration" where
  "CRT_FUNC suffix name = (''api-ms-win-crt-'' @ suffix @ ''-l1-1-0.dll'', name, ''crt_'' @ name)"

text \<open>Entries for \<open>KERNEL32.dll\<close>.\<close>

definition kernel32_registrations :: "registration list" where
  "kernel32_registrations =
     [KERNEL32_FUNC ''QueryPerformanceCounter'', KERNEL32_FUNC ''QueryPerformanceFrequency'',
      KERNEL32_FUNC ''GetModuleHandleW'', KERNEL32_FUNC ''CreateEventW'',
      KERNEL32_FUNC ''WaitForSingleObjectEx'', KERNEL32_FUNC ''ResetEvent'', KERNEL32_FUNC ''SetEvent'',
      KERNEL32_FUNC ''InitializeCriticalSectionAndSpinCount'', KERNEL32_FUNC ''DeleteCriticalSection'',
      KERNEL32_FUNC ''EnterCriticalSection'', KERNEL32_FUNC ''LeaveCriticalSection'',
      KERNEL32_FUNC ''CloseHandle'', KERNEL32_FUNC ''RtlCaptureContext'',
      KERNEL32_FUNC ''RtlLookupFunctionEntry'', KERNEL32_FUNC ''RtlVirtualUnwind'',
      KERNEL32_FUNC ''IsDebuggerPresent'', KERNEL32_FUNC ''UnhandledExceptionFilter'',
      KERNEL32_FUNC ''SetUnhandledExceptionFilter'', KERNEL32_FUNC ''IsProcessorFeaturePresent'',
      KERNEL32_FUNC ''GetCurrentProcessId'', KERNEL32_FUNC ''GetCurrentThreadId'',
      KERNEL32_FUNC ''InitializeSListHead'', KERNEL32_FUNC ''DisableThreadLibraryCalls'',
      KERNEL32_FUNC ''RaiseException'', KERNEL32_FUNC ''GetSystemTimeAsFileTime'',
      KERNEL32_FUNC ''GetProcAddress'', KERNEL32_FUNC ''GetLogicalProcessorInformation'',
      KERNEL32_FUNC ''GetLogicalProcessorInformationEx'', KERNEL32_FUNC ''TlsGetValue'',
      KERNEL32_FUNC ''TlsAlloc'', KERNEL32_FUNC ''TlsFree'', KERNEL32_FUNC ''TlsSetValue'',
      KERNEL32_FUNC ''FlsAlloc'', KERNEL32_FUNC ''FlsFree'', KERNEL32_FUNC ''FlsSetValue'',
      KERNEL32_FUNC ''FlsGetValue'', KERNEL32_FUNC ''GetSystemInfo'', KERNEL32_FUNC ''FreeLibrary'',
      KERNEL32_FUNC ''LoadLibraryA'', KERNEL32_FUNC ''OutputDebugStringA'',
      KERNEL32_FUNC ''InitializeCriticalSection'', KERNEL32_FUNC ''GetCurrentProcess'',
      KERNEL32_FUNC ''GetModuleFileNameA'', KERNEL32_FUNC ''GetCurrentThread'',
      KERNEL32_FUNC ''SetThreadIdealProcessor'', KERNEL32_FUNC ''CreateDirectoryW'',
      KERNEL32_FUNC ''DeleteFileW'', KERNEL32_FUNC ''FindClose'', KERNEL32_FUNC ''FindFirstFileW'',
      KERNEL32_FUNC ''FindNextFileW'', KERNEL32_FUNC ''GetFileAttributesW'',
      KERNEL32_FUNC ''WaitForSingleObject'', KERNEL32_FUNC ''CreateThread'',
      KERNEL32_FUNC ''GetExitCodeThread'', KERNEL32_FUNC ''ReleaseSemaphore'',
      KERNEL32_FUNC ''CreateSemaphoreW'', KERNEL32_FUNC ''CreateFileW'', KERNEL32_FUNC ''FlushFileBuffers'',
      KERNEL32_FUNC ''SetFilePointer'', KERNEL32_FUNC ''WriteFile'', KERNEL32_FUNC ''VerSetConditionMask'',
      KERNEL32_FUNC ''SetHandleInformation'', KERNEL32_FUNC ''VerifyVersionInfoW'',
      KERNEL32_FUNC ''DecodePointer'', KERNEL32_FUNC ''EncodePointer'', VCRUNTIME140_FUNC ''memmove'',
      VCRUNTIME140_FUNC ''memcpy'', VCRUNTIME140_FUNC ''memchr'']"

text \<open>Entries for the Visual C++ runtime and the universal CRT.\<close>

definition crt_registrations :: "registration list" where
  "crt_registrations =
     [VCRUNTIME140_FUNC ''__CxxFrameHandler3'', VCRUNTIME140_FUNC ''__CxxFrameHandler4'',
      VCRUNTIME140_FUNC ''__std_terminate'', VCRUNTIME140_FUNC ''_purecall'',
      VCRUNTIME140_FUNC ''__C_specific_handler'', VCRUNTIME140_FUNC ''memset'',
      VCRUNTIME140_FUNC ''__std_exception_copy'', VCRUNTIME140_FUNC ''__std_exception_destroy'',
      VCRUNTIME140_FUNC ''__std_type_info_destroy_list'', VCRUNTIME140_FUNC ''_CxxThrowException'',
      VCRUNTIME140_FUNC ''__current_exception'', VCRUNTIME140_FUNC ''__current_exception_context'',
      (''VCRUNTIME140.dll'', ''terminate'', ''msvcr_terminate''), CRT_FUNC ''heap'' ''malloc'',
      CRT_FUNC ''heap'' ''_callnewh'', CRT_FUNC ''heap'' ''free'', CRT_FUNC ''utility'' ''qsort'',
      CRT_FUNC ''stdio'' ''__stdio_common_vsprintf'', CRT_FUNC ''stdio'' ''__stdio_common_vsnprintf_s'',
      CRT_FUNC ''runtime'' ''_seh_filter_dll'', CRT_FUNC ''runtime'' ''_cexit'',
      CRT_FUNC ''runtime'' ''_crt_atexit'', CRT_FUNC ''runtime'' ''_execute_onexit_table'',
      CRT_FUNC ''runtime'' ''_register_onexit_function'', CRT_FUNC ''runtime'' ''_initialize_onexit_table'',
      CRT_FUNC ''runtime'' ''_initialize_narrow_environment'', CRT_FUNC ''runtime'' ''_configure_narrow_argv'',
      CRT_FUNC ''runtime'' ''_initterm_e'', CRT_FUNC ''runtime'' ''_initterm'', CRT_FUNC ''math'' ''floorf'',
      CRT_FUNC ''math'' ''roundf'', CRT_FUNC ''math'' ''fmodf'', CRT_FUNC ''math'' ''cosf'',
      CRT_FUNC ''math'' ''ceilf'', CRT_FUNC ''math'' ''sqrtf'', CRT_FUNC ''math'' ''log2f'',
      CRT_FUNC ''math'' ''_fdtest'']"

text \<open>Entries for \<open>MSVCP140.dll\<close>, \<open>MSVCP120.dll\<close>, \<open>MSVCR120.dll\<close>.\<close>

definition msvcr_registrations :: "registration list" where
  "msvcr_registrations =
     [CRT_FUNC ''stdio'' ''__stdio_common_vfwprintf'', CRT_FUNC ''math'' ''acosf'',
      CRT_FUNC ''runtime'' ''_invalid_parameter_noinfo_noreturn'',
      (''MSVCP140.dll'', ''_Xtime_get_ticks'', ''msvcp__Xtime_get_ticks''),
      (''MSVCP120.dll'', ''?_Xbad_function_call@std@@YAXXZ'', ''msvcp__Xbad_function_call''),
      (''MSVCP120.dll'', ''?_Winerror_map@std@@YAPEBDH@Z'', ''msvcp__Winerror_map''),
      (''MSVCP120.dll'', ''?_Syserror_map@std@@YAPEBDH@Z'', ''msvcp__Syserror_map''),
      (''MSVCP120.dll'', ''?_Xout_of_range@std@@YAXPEBD@Z'', ''msvcp__Xout_of_range''),
      (''MSVCP120.dll'', ''?_Xlength_error@std@@YAXPEBD@Z'', ''msvcp__Xlength_error''),
      (''MSVCP120.dll'', ''_Thrd_yield'', ''msvcp__Thrd_yield''),
      (''MSVCP120.dll'', ''?_Xbad_alloc@std@@YAXXZ'', ''msvcp__Xbad_alloc''),
      (''MSVCR120.dll'', ''??_V@YAXPEAX@Z'', ''msvcr_operator_delete_array''),
      (''MSVCR120.dll'', ''sprintf_s'', ''msvcr_sprintf_s''), (''MSVCR120.dll'', ''printf'', ''msvcr_printf''),
      (''MSVCR120.dll'', ''??2@YAPEAX_K@Z'', ''msvcr_operator_new''),
      (''MSVCR120.dll'', ''?_Yield@_Context@details@Concurrency@@SAXXZ'', ''msvcr_context_yield''),
      (''MSVCR120.dll'', ''sprintf'', ''msvcr_sprintf''), (''MSVCR120.dll'', ''memcpy_s'', ''msvcr_memcpy_s''),
      (''MSVCR120.dll'', ''_snprintf'', ''msvcr__snprintf''), (''MSVCR120.dll'', ''strchr'', ''msvcr_strchr''),
      (''MSVCR120.dll'', ''strncat'', ''msvcr_strncat''), (''MSVCR120.dll'', ''strncmp'', ''msvcr_strncmp''),
      (''MSVCR120.dll'', ''strncpy'', ''msvcr_strncpy''), (''MSVCR120.dll'', ''strrchr'', ''msvcr_strrchr''),
      (''MSVCR120.dll'', ''strstr'', ''msvcr_strstr''), (''MSVCR120.dll'', ''tolower'', ''msvcr_tolower''),
      (''MSVCR120.dll'', ''_vsprintf_l'', ''msvcr__vsprintf_l''),
      (''MSVCR120.dll'', ''_vsnprintf_l'', ''msvcr__vsnprintf_l''),
      (''MSVCR120.dll'', ''_strtoi64_l'', ''msvcr__strtoi64_l''),
      (''MSVCR120.dll'', ''_strtoui64_l'', ''msvcr__strtoui64_l''),
      (''MSVCR120.dll'', ''_strtod_l'', ''msvcr__strtod_l''),
      (''MSVCR120.dll'', ''_purecall'', ''vcruntime__purecall''),
      (''MSVCR120.dll'', ''memmove'', ''vcruntime_memmove''),
      (''MSVCR120.dll'', ''memcpy'', ''vcruntime_memcpy''),
      (''MSVCR120.dll'', ''memset'', ''vcruntime_memset''), (''MSVCR120.dll'', ''strtoul'', ''msvcr_strtoul''),
      (''MSVCR120.dll'', ''_create_locale'', ''msvcr__create_locale''),
      (''MSVCR120.dll'', ''memcmp'', ''msvcr_memcmp''), (''MSVCR120.dll'', ''free'', ''crt_free''),
      (''MSVCR120.dll'', ''_time64'', ''msvcr__time64''), (''MSVCR120.dll'', ''isxdigit'', ''msvcr_isxdigit''),
      (''MSVCR120.dll'', ''isalpha'', ''msvcr_isalpha''), (''MSVCR120.dll'', ''fclose'', ''msvcr_fclose''),
      (''MSVCR120.dll'', ''fread'', ''msvcr_fread''), (''MSVCR120.dll'', ''fseek'', ''msvcr_fseek''),
      (''MSVCR120.dll'', ''ftell'', ''msvcr_ftell''), (''MSVCR120.dll'', ''_wfopen'', ''msvcr__wfopen''),
      (''MSVCR120.dll'', ''powf'', ''msvcr_powf''), (''MSVCR120.dll'', ''atan2f'', ''msvcr_atan2f''),
      (''MSVCR120.dll'', ''_lock'', ''msvcr__lock''), (''MSVCR120.dll'', ''_unlock'', ''msvcr__unlock''),
      (''MSVCR120.dll'', ''_calloc_crt'', ''msvcr__calloc_crt''),
      (''MSVCR120.dll'', ''__dllonexit'', ''msvcr___dllonexit''),
      (''MSVCR120.dll'', ''__C_specific_handler'', ''vcruntime___C_specific_handler''),
      (''MSVCR120.dll'', ''_onexit'', ''msvcr__onexit''),
      (''MSVCR120.dll'', ''__CppXcptFilter'', ''msvcr___CppXcptFilter''),
      (''MSVCR120.dll'', ''_amsg_exit'', ''msvcr__amsg_exit''),
      (''MSVCR120.dll'', ''_malloc_crt'', ''msvcr__malloc_crt''),
      (''MSVCR120.dll'', ''_initterm'', ''crt__initterm''),
      (''MSVCR120.dll'', ''_initterm_e'', ''crt__initterm_e''),
      (''MSVCR120.dll'', ''__crt_debugger_hook'', ''msvcr___crt_debugger_hook''),
      (''MSVCR120.dll'', ''__crtUnhandledException'', ''msvcr___crtUnhandledException''),
      (''MSVCR120.dll'', ''__crtTerminateProcess'', ''msvcr___crtTerminateProcess''),
      (''MSVCR120.dll'', ''__crtCapturePreviousContext'', ''msvcr___crtCapturePreviousContext''),
      (''MSVCR120.dll'', ''?terminate@@YAXXZ'', ''msvcr_terminate''),
      (''MSVCR120.dll'', ''?_type_info_dtor_internal_method@type_info@@QEAAXXZ'', ''msvcr_type_info_dtor_internal_method''),
      (''MSVCR120.dll'', ''__clean_type_info_names_internal'', ''msvcr___clean_type_info_names_internal''),
      (''MSVCR120.dll'', ''floorf'', ''crt_floorf''), (''MSVCR120.dll'', ''ceilf'', ''crt_ceilf''),
      (''MSVCR120.dll'', ''__RTDynamicCast'', ''msvcr___RTDynamicCast''),
      (''MSVCR120.dll'', ''__CxxFrameHandler3'', ''vcruntime___CxxFrameHandler3''),
      (''MSVCR120.dll'', ''_CxxThrowException'', ''vcruntime__CxxThrowException''),
      (''MSVCR120.dll'', ''malloc'', ''crt_malloc''), (''MSVCR120.dll'', ''realloc'', ''msvcr_realloc''),
      (''MSVCR120.dll'', ''_aligned_free'', ''msvcr__aligned_free''),
      (''MSVCR120.dll'', ''_aligned_malloc'', ''msvcr__aligned_malloc''),
      (''MSVCR120.dll'', ''??3@YAXPEAX@Z'', ''msvcr_operator_delete''),
      (''MSVCR120.dll'', ''clock'', ''msvcr_clock''),
      (''api-ms-win-crt-time-l1-1-0.dll'', ''clock'', ''msvcr_clock''),
      (''MSVCR120.dll'', ''?_Id@_CurrentScheduler@details@Concurrency@@SAIXZ'', ''msvcr_current_scheduler_id''),
      (''MSVCR120.dll'', ''sqrt'', ''msvcr_sqrt'')]"

text \<open>Entries for \<open>msvcrt.dll\<close>.\<close>

definition msvcrt_registrations :: "registration list" where
  "msvcrt_registrations =
     [(''msvcrt.dll'', ''??1type_info@@UEAA@XZ'', ''msvcrt_type_info_dtor''),
      (''msvcrt.dll'', ''_XcptFilter'', ''msvcrt__XcptFilter''),
      (''msvcrt.dll'', ''_strtoui64'', ''msvcrt__strtoui64''), (''msvcrt.dll'', ''sscanf'', ''msvcrt_sscanf''),
      (''msvcrt.dll'', ''_isnan'', ''msvcrt__isnan''), (''msvcrt.dll'', ''_vsnprintf'', ''msvcrt__vsnprintf''),
      (''msvcrt.dll'', ''atof'', ''msvcrt_atof''), (''msvcrt.dll'', ''setlocale'', ''msvcrt_setlocale''),
      (''msvcrt.dll'', ''_strdup'', ''msvcrt__strdup''), (''msvcrt.dll'', ''_mbstrlen'', ''msvcrt__mbstrlen''),
      (''msvcrt.dll'', ''_vsnwprintf'', ''msvcrt__vsnwprintf''),
      (''msvcrt.dll'', ''strnlen'', ''msvcrt_strnlen''), (''msvcrt.dll'', ''modf'', ''msvcrt_modf''),
      (''msvcrt.dll'', ''strncpy_s'', ''msvcrt_strncpy_s''), (''msvcrt.dll'', ''isalnum'', ''msvcrt_isalnum''),
      (''msvcrt.dll'', ''_finite'', ''msvcrt__finite''), (''msvcrt.dll'', ''_clearfp'', ''msvcrt__clearfp''),
      (''msvcrt.dll'', ''_controlfp'', ''msvcrt__controlfp''),
      (''msvcrt.dll'', ''strcpy_s'', ''msvcrt_strcpy_s''),
      (''msvcrt.dll'', ''_strnicmp'', ''msvcrt__strnicmp''),
      (''msvcrt.dll'', ''_fpclass'', ''msvcrt__fpclass''), (''msvcrt.dll'', ''isspace'', ''msvcrt_isspace''),
      (''msvcrt.dll'', ''_stricmp'', ''msvcrt__stricmp''), (''msvcrt.dll'', ''toupper'', ''msvcrt_toupper''),
      (''msvcrt.dll'', ''atoi'', ''msvcrt_atoi''), (''msvcrt.dll'', ''isdigit'', ''msvcrt_isdigit''),
      (''msvcrt.dll'', ''getenv'', ''msvcrt_getenv''), (''msvcrt.dll'', ''wcsncmp'', ''msvcrt_wcsncmp''),
      (''msvcrt.dll'', ''wcsncpy_s'', ''msvcrt_wcsncpy_s''),
      (''msvcrt.dll'', ''_wcsicmp'', ''msvcrt__wcsicmp''), (''msvcrt.dll'', ''strcat_s'', ''msvcrt_strcat_s''),
      (''msvcrt.dll'', ''bsearch'', ''msvcrt_bsearch''),
      (''msvcrt.dll'', ''_snwprintf_s'', ''msvcrt__snwprintf_s''),
      (''msvcrt.dll'', ''wcschr'', ''msvcrt_wcschr''), (''msvcrt.dll'', ''iswdigit'', ''msvcrt_iswdigit''),
      (''msvcrt.dll'', ''__unDName'', ''msvcrt___unDName''),
      (''msvcrt.dll'', ''_wfsopen'', ''msvcrt__wfsopen''),
      (''msvcrt.dll'', ''vsprintf_s'', ''msvcrt_vsprintf_s''), (''msvcrt.dll'', ''wcstol'', ''msvcrt_wcstol''),
      (''msvcrt.dll'', ''_wcsnicmp'', ''msvcrt__wcsnicmp''),
      (''msvcrt.dll'', ''_wsplitpath_s'', ''msvcrt__wsplitpath_s''),
      (''msvcrt.dll'', ''towlower'', ''msvcrt_towlower''), (''msvcrt.dll'', ''wcscpy_s'', ''msvcrt_wcscpy_s''),
      (''msvcrt.dll'', ''??_U@YAPEAX_K@Z'', ''msvcrt_operator_new_array''),
      (''msvcrt.dll'', ''swprintf_s'', ''msvcrt_swprintf_s''),
      (''msvcrt.dll'', ''wcsncat_s'', ''msvcrt_wcsncat_s''), (''msvcrt.dll'', ''wcsrchr'', ''msvcrt_wcsrchr''),
      (''msvcrt.dll'', ''_wfullpath'', ''msvcrt__wfullpath''),
      (''msvcrt.dll'', ''_wmakepath_s'', ''msvcrt__wmakepath_s''),
      (''msvcrt.dll'', ''_chsize'', ''msvcrt__chsize''), (''msvcrt.dll'', ''_close'', ''msvcrt__close''),
      (''msvcrt.dll'', ''_read'', ''msvcrt__read''), (''msvcrt.dll'', ''_write'', ''msvcrt__write''),
      (''msvcrt.dll'', ''_lseeki64'', ''msvcrt__lseeki64''),
      (''msvcrt.dll'', ''_get_osfhandle'', ''msvcrt__get_osfhandle''),
      (''msvcrt.dll'', ''_open_osfhandle'', ''msvcrt__open_osfhandle''),
      (''msvcrt.dll'', ''_wcsdup'', ''msvcrt__wcsdup''), (''msvcrt.dll'', ''wcscat_s'', ''msvcrt_wcscat_s''),
      (''msvcrt.dll'', ''_mbscmp'', ''msvcrt__mbscmp''), (''msvcrt.dll'', ''_memicmp'', ''msvcrt__memicmp''),
      (''msvcrt.dll'', ''_wgetenv'', ''msvcrt__wgetenv''), (''msvcrt.dll'', ''_wsopen'', ''msvcrt__wsopen''),
      (''msvcrt.dll'', ''acos'', ''msvcrt_acos''), (''msvcrt.dll'', ''asin'', ''msvcrt_asin''),
      (''msvcrt.dll'', ''atan'', ''msvcrt_atan''), (''msvcrt.dll'', ''atan2'', ''msvcrt_atan2''),
      (''msvcrt.dll'', ''ceil'', ''msvcrt_ceil''), (''msvcrt.dll'', ''cos'', ''msvcrt_cos''),
      (''msvcrt.dll'', ''cosh'', ''msvcrt_cosh''), (''msvcrt.dll'', ''exp'', ''msvcrt_exp''),
      (''msvcrt.dll'', ''floor'', ''msvcrt_floor''), (''msvcrt.dll'', ''fmod'', ''msvcrt_fmod''),
      (''msvcrt.dll'', ''log'', ''msvcrt_log''), (''msvcrt.dll'', ''pow'', ''msvcrt_pow''),
      (''msvcrt.dll'', ''sin'', ''msvcrt_sin''), (''msvcrt.dll'', ''sinh'', ''msvcrt_sinh''),
      (''msvcrt.dll'', ''strcmp'', ''msvcrt_strcmp''), (''msvcrt.dll'', ''tan'', ''msvcrt_tan''),
      (''msvcrt.dll'', ''tanh'', ''msvcrt_tanh''), (''msvcrt.dll'', ''malloc'', ''crt_malloc''),
      (''msvcrt.dll'', ''free'', ''crt_free''), (''msvcrt.dll'', ''calloc'', ''msvcr__calloc_crt''),
      (''msvcrt.dll'', ''realloc'', ''msvcr_realloc''), (''msvcrt.dll'', ''memcpy'', ''vcruntime_memcpy''),
      (''msvcrt.dll'', ''memset'', ''vcruntime_memset''), (''msvcrt.dll'', ''memmove'', ''vcruntime_memmove''),
      (''msvcrt.dll'', ''memcmp'', ''msvcr_memcmp''), (''msvcrt.dll'', ''strlen'', ''strlen''),
      (''msvcrt.dll'', ''strcpy'', ''strcpy''), (''msvcrt.dll'', ''strncpy'', ''msvcr_strncpy''),
      (''msvcrt.dll'', ''strncmp'', ''msvcr_strncmp''), (''msvcrt.dll'', ''strchr'', ''msvcr_strchr''),
      (''msvcrt.dll'', ''strrchr'', ''msvcr_strrchr''), (''msvcrt.dll'', ''strstr'', ''msvcr_strstr''),
      (''msvcrt.dll'', ''sprintf'', ''msvcr_sprintf''), (''msvcrt.dll'', ''_snprintf'', ''msvcr__snprintf''),
      (''msvcrt.dll'', ''tolower'', ''msvcr_tolower''),
      (''msvcrt.dll'', ''??2@YAPEAX_K@Z'', ''msvcr_operator_new''),
      (''msvcrt.dll'', ''??3@YAXPEAX@Z'', ''msvcr_operator_delete''), (''msvcrt.dll'', ''wcslen'', ''wcslen''),
      (''msvcrt.dll'', ''_initterm'', ''crt__initterm''),
      (''msvcrt.dll'', ''_initterm_e'', ''crt__initterm_e''), (''msvcrt.dll'', ''abort'', ''abort''),
      (''msvcrt.dll'', ''_beginthreadex'', ''CreateThread''),
      (''msvcrt.dll'', ''_endthreadex'', ''crt_endthreadex'')]"

text \<open>Entries for \<open>ADVAPI32.dll\<close> and more of \<open>KERNEL32.dll\<close>.\<close>

definition advapi32_registrations :: "registration list" where
  "advapi32_registrations =
     [(''ADVAPI32.dll'', ''CryptDestroyHash'', ''CryptDestroyHash''),
      (''ADVAPI32.dll'', ''CryptHashData'', ''CryptHashData''),
      (''ADVAPI32.dll'', ''CryptCreateHash'', ''CryptCreateHash''),
      (''ADVAPI32.dll'', ''CryptGetHashParam'', ''CryptGetHashParam''),
      (''ADVAPI32.dll'', ''CryptReleaseContext'', ''CryptReleaseContext''),
      (''ADVAPI32.dll'', ''CryptAcquireContextW'', ''CryptAcquireContextW''),
      (''ADVAPI32.dll'', ''RegOpenKeyExW'', ''RegOpenKeyExW''),
      (''ADVAPI32.dll'', ''RegQueryValueExA'', ''RegQueryValueExA''),
      (''ADVAPI32.dll'', ''RegEnumKeyExA'', ''RegEnumKeyExA''),
      (''ADVAPI32.dll'', ''RegOpenKeyExA'', ''RegOpenKeyExA''),
      (''ADVAPI32.dll'', ''RegCloseKey'', ''RegCloseKey''),
      (''ADVAPI32.dll'', ''RegQueryValueExW'', ''RegQueryValueExW''), KERNEL32_FUNC ''LocalFree'',
      KERNEL32_FUNC ''LocalAlloc'', KERNEL32_FUNC ''GetVersion'', KERNEL32_FUNC ''GetTickCount'',
      KERNEL32_FUNC ''TerminateProcess'', KERNEL32_FUNC ''SetLastError'', KERNEL32_FUNC ''CreateFileMappingW'',
      KERNEL32_FUNC ''UnmapViewOfFile'', KERNEL32_FUNC ''GetFileSize'', KERNEL32_FUNC ''CreateFileA'',
      KERNEL32_FUNC ''VirtualAlloc'', KERNEL32_FUNC ''VirtualFree'', KERNEL32_FUNC ''LoadLibraryExW'',
      KERNEL32_FUNC ''GetEnvironmentVariableA'', KERNEL32_FUNC ''GetFullPathNameA'',
      KERNEL32_FUNC ''GetFullPathNameW'', KERNEL32_FUNC ''Sleep'', KERNEL32_FUNC ''SleepEx'',
      KERNEL32_FUNC ''ResumeThread'', KERNEL32_FUNC ''SetThreadPriority'',
      KERNEL32_FUNC ''SetThreadAffinityMask'', KERNEL32_FUNC ''QueueUserAPC'', KERNEL32_FUNC ''GetErrorMode'',
      KERNEL32_FUNC ''SetErrorMode'', KERNEL32_FUNC ''LoadLibraryW'', KERNEL32_FUNC ''CancelIo'',
      KERNEL32_FUNC ''ReadDirectoryChangesW'', KERNEL32_FUNC ''FindFirstFileExW'',
      KERNEL32_FUNC ''GetComputerNameW'', KERNEL32_FUNC ''CopyFileW'', KERNEL32_FUNC ''MoveFileExW'',
      KERNEL32_FUNC ''RemoveDirectoryW'', KERNEL32_FUNC ''LCMapStringW'', KERNEL32_FUNC ''SetFileAttributesW'',
      KERNEL32_FUNC ''CopyFileExW'', KERNEL32_FUNC ''GetFileType'', KERNEL32_FUNC ''DeviceIoControl'',
      KERNEL32_FUNC ''ExpandEnvironmentStringsW'', KERNEL32_FUNC ''FlushViewOfFile'',
      KERNEL32_FUNC ''MapViewOfFileEx'', KERNEL32_FUNC ''MapViewOfFile'', KERNEL32_FUNC ''GetLastError'',
      KERNEL32_FUNC ''GetFileSizeEx'', KERNEL32_FUNC ''ReadFile'', KERNEL32_FUNC ''WideCharToMultiByte'',
      KERNEL32_FUNC ''lstrcmpiA'', KERNEL32_FUNC ''MultiByteToWideChar'', KERNEL32_FUNC ''HeapCreate'',
      KERNEL32_FUNC ''HeapDestroy'', KERNEL32_FUNC ''HeapAlloc'', KERNEL32_FUNC ''GetProcessHeap'',
      KERNEL32_FUNC ''HeapFree'']"

text \<open>Entries for \<open>RPCRT4.dll\<close> and \<open>WS2_32.dll\<close>.\<close>

definition socket_registrations :: "registration list" where
  "socket_registrations =
     [(''RPCRT4.dll'', ''UuidCreate'', ''UuidCreate''), (''WS2_32.dll'', ''WSAStartup'', ''ws2_32_WSAStartup''),
      (''WS2_32.dll'', ''WSACleanup'', ''ws2_32_WSACleanup''),
      (''WS2_32.dll'', ''WSAGetLastError'', ''ws2_32_WSAGetLastError''),
      (''WS2_32.dll'', ''WSASocketW'', ''ws2_32_WSASocketW''), (''WS2_32.dll'', ''accept'', ''ws2_32_accept''),
      (''WS2_32.dll'', ''bind'', ''ws2_32_bind''), (''WS2_32.dll'', ''closesocket'', ''ws2_32_closesocket''),
      (''WS2_32.dll'', ''connect'', ''ws2_32_connect''),
      (''WS2_32.dll'', ''getsockname'', ''ws2_32_getsockname''),
      (''WS2_32.dll'', ''getaddrinfo'', ''ws2_32_getaddrinfo''),
      (''WS2_32.dll'', ''freeaddrinfo'', ''ws2_32_freeaddrinfo''),
      (''WS2_32.dll'', ''htons'', ''ws2_32_htons''), (''WS2_32.dll'', ''ioctlsocket'', ''ws2_32_ioctlsocket''),
      (''WS2_32.dll'', ''inet_pton'', ''ws2_32_inet_pton''),
      (''WS2_32.dll'', ''inet_ntop'', ''ws2_32_inet_ntop''), (''WS2_32.dll'', ''listen'', ''ws2_32_listen''),
      (''WS2_32.dll'', ''ntohs'', ''ws2_32_ntohs''), (''WS2_32.dll'', ''recv'', ''ws2_32_recv''),
      (''WS2_32.dll'', ''select'', ''ws2_32_select''), (''WS2_32.dll'', ''send'', ''ws2_32_send''),
      (''WS2_32.dll'', ''WSASend'', ''ws2_32_WSASend''),
      (''WS2_32.dll'', ''setsockopt'', ''ws2_32_setsockopt''),
      (''WS2_32.dll'', ''gethostname'', ''ws2_32_gethostname''),
      (''WS2_32.dll'', ''__WSAFDIsSet'', ''ws2_32___WSAFDIsSet'')]"

text \<open>Entries for what Kythera needs.\<close>

definition kythera_registrations :: "registration list" where
  "kythera_registrations =
     [KERNEL32_FUNC ''AddVectoredExceptionHandler'', KERNEL32_FUNC ''RemoveVectoredExceptionHandler'',
      KERNEL32_FUNC ''GetLocalTime'', KERNEL32_FUNC ''RtlCaptureStackBackTrace'',
      KERNEL32_FUNC ''SetThreadDescription'', KERNEL32_FUNC ''SwitchToThread'',
      KERNEL32_FUNC ''GetModuleHandleExA'', KERNEL32_FUNC ''WaitForMultipleObjects'',
      (''ole32.dll'', ''CoTaskMemAlloc'', ''ole32_CoTaskMemAlloc''),
      (''ole32.dll'', ''CoTaskMemFree'', ''ole32_CoTaskMemFree''),
      (''dbghelp.dll'', ''SymSetOptions'', ''dbghelp_SymSetOptions''),
      (''dbghelp.dll'', ''SymInitialize'', ''dbghelp_SymInitialize''),
      (''dbghelp.dll'', ''SymCleanup'', ''dbghelp_SymCleanup''),
      (''dbghelp.dll'', ''SymFromAddr'', ''dbghelp_SymFromAddr''),
      (''dbghelp.dll'', ''SymGetLineFromAddr64'', ''dbghelp_SymGetLineFromAddr64''),
      (''MSVCP140.dll'', ''_Mtx_init_in_situ'', ''msvcp__Mtx_init_in_situ''),
      (''MSVCP140.dll'', ''_Mtx_destroy_in_situ'', ''msvcp__Mtx_destroy_in_situ''),
      (''MSVCP140.dll'', ''_Mtx_lock'', ''msvcp__Mtx_lock''),
      (''MSVCP140.dll'', ''_Mtx_trylock'', ''msvcp__Mtx_trylock''),
      (''MSVCP140.dll'', ''_Mtx_unlock'', ''msvcp__Mtx_unlock''),
      (''MSVCP140.dll'', ''_Cnd_init_in_situ'', ''msvcp__Cnd_init_in_situ''),
      (''MSVCP140.dll'', ''_Cnd_destroy_in_situ'', ''msvcp__Cnd_destroy_in_situ''),
      (''MSVCP140.dll'', ''_Cnd_wait'', ''msvcp__Cnd_wait''),
      (''MSVCP140.dll'', ''_Cnd_broadcast'', ''msvcp__Cnd_broadcast''),
      (''MSVCP140.dll'', ''_Thrd_id'', ''msvcp__Thrd_id''),
      (''MSVCP140.dll'', ''_Query_perf_counter'', ''msvcp__Query_perf_counter''),
      (''MSVCP140.dll'', ''_Query_perf_frequency'', ''msvcp__Query_perf_frequency''),
      (''MSVCP140.dll'', ''?_Throw_C_error@std@@YAXH@Z'', ''msvcp__Throw_C_error''),
      (''MSVCP140.dll'', ''?_Raise_handler@std@@3P6AXAEBVexception@stdext@@@ZEA'', ''msvcp_raise_handler''),
      VCRUNTIME140_FUNC ''__std_type_info_compare'', CRT_FUNC ''math'' ''_fdclass'',
      CRT_FUNC ''math'' ''copysignf'', CRT_FUNC ''math'' ''nextafterf'', CRT_FUNC ''math'' ''round'',
      CRT_FUNC ''math'' ''sinf'', CRT_FUNC ''runtime'' ''_invoke_watson'',
      CRT_FUNC ''runtime'' ''set_terminate'', CRT_FUNC ''runtime'' ''signal'',
      CRT_FUNC ''stdio'' ''__acrt_iob_func'', CRT_FUNC ''stdio'' ''fopen'', CRT_FUNC ''stdio'' ''fflush'',
      CRT_FUNC ''stdio'' ''fputc'', CRT_FUNC ''stdio'' ''fputs'', CRT_FUNC ''stdio'' ''fopen_s'',
      (''api-ms-win-crt-convert-l1-1-0.dll'', ''mbstowcs_s'', ''crt_mbstowcs_s''),
      CRT_FUNC ''stdio'' ''__stdio_common_vfprintf'', CRT_FUNC ''stdio'' ''__stdio_common_vswprintf_s'']"

definition registrations :: "registration list" where
  "registrations = kernel32_registrations @ crt_registrations @ msvcr_registrations @ msvcrt_registrations @
     advapi32_registrations @ socket_registrations @ kythera_registrations"

text \<open>\<open>registered\<close> is the static flag of the function.\<close>

definition register_windows_library_functions ::
    "(string \<Rightarrow> u64) \<Rightarrow> bool \<Rightarrow> export_table \<Rightarrow> bool \<times> export_table" where
  "register_windows_library_functions address registered table =
     (if registered then (True, table)
      else (True, fold (\<lambda>(dll, name, f). register_function (Some dll) name (address f) None) registrations table))"

lemmas registration_lists = kernel32_registrations_def crt_registrations_def msvcr_registrations_def
  msvcrt_registrations_def advapi32_registrations_def socket_registrations_def kythera_registrations_def
  KERNEL32_FUNC_def VCRUNTIME140_FUNC_def CRT_FUNC_def

section \<open>Correctness\<close>

definition export_of :: "(string \<Rightarrow> u64) \<Rightarrow> registration \<Rightarrow> export" where
  "export_of address r = (case r of (dll, name, f) \<Rightarrow>
     \<lparr>t_dll = Some dll, t_name = name, t_addr = address f, t_owner = None\<rparr>)"

lemma fold_register:
  "length table + length rs \<le> MAX_EXPORTS \<Longrightarrow>
   fold (\<lambda>(dll, name, f). register_function (Some dll) name (address f) None) rs table = table @ map (export_of address) rs"
  by (induction rs arbitrary: table) (auto simp: register_function_def export_of_def)

lemma length_registrations: "length registrations = 427"
  unfolding registrations_def registration_lists by simp

lemma find_append: "find P (xs @ ys) = (case find P xs of None \<Rightarrow> find P ys | Some x \<Rightarrow> Some x)"
  by (induction xs) auto

lemma find_map_comp: "find P (map f xs) = map_option f (find (\<lambda>x. P (f x)) xs)"
  by (induction xs) auto

text \<open>The registered entries shadow what was in the table before.\<close>

lemma get_export_registered:
  assumes "length table + length registrations \<le> MAX_EXPORTS"
    and "find (\<lambda>(d, n, f). n = name) (rev registrations) = Some (d, n, f)"
  shows "get_export name None (snd (register_windows_library_functions address False table)) = address f"
proof -
  have "find (\<lambda>x. t_name x = name) (map (export_of address) (rev registrations)) = Some (export_of address (d, n, f))"
    using assms(2) by (simp add: find_map_comp export_of_def case_prod_beta')
  then show ?thesis
    using fold_register [OF assms(1)]
    by (simp add: register_windows_library_functions_def get_export_def find_append rev_map) (simp add: export_of_def)
qed

text \<open>The latest entry with the name of an ordinal is a socket function.\<close>

lemma socket_names:
  "list_all (\<lambda>(ordinal, name). find (\<lambda>(d, n, f). n = name) (rev kythera_registrations) = None \<and>
     (case find (\<lambda>(d, n, f). n = name) (rev socket_registrations) of
        Some (d, n, f) \<Rightarrow> d = ''WS2_32.dll'' | None \<Rightarrow> False)) ws2_32_ordinals"
  by code_simp

lemma ordinal_registered:
  assumes "resolve_ws2_32_ordinal ordinal = Some name"
  shows "\<exists>f. find (\<lambda>(d, n, f). n = name) (rev registrations) = Some (''WS2_32.dll'', name, f) \<and>
    (''WS2_32.dll'', name, f) \<in> set registrations"
proof -
  have "(ordinal, name) \<in> set ws2_32_ordinals"
    using assms by (auto simp: resolve_ws2_32_ordinal_def dest: map_of_SomeD)
  with socket_names obtain d n f where none: "find (\<lambda>(d, n, f). n = name) (rev kythera_registrations) = None"
    and some: "find (\<lambda>(d, n, f). n = name) (rev socket_registrations) = Some (d, n, f)" "d = ''WS2_32.dll''"
    by (fastforce simp: list_all_iff split: option.splits)
  then have mem: "(d, n, f) \<in> set socket_registrations" "n = name"
    by (auto simp: find_Some_iff in_set_conv_nth rev_nth) (metis Suc_le_eq diff_Suc_less length_greater_0_conv less_nat_zero_code list.size(3) not_less_eq)+
  have "find (\<lambda>(d, n, f). n = name) (rev registrations) = Some (d, n, f)"
    using none some by (simp add: registrations_def find_append)
  with mem some show ?thesis
    by (auto simp: registrations_def)
qed

end
