(* ===== verification/Loader_Dll.thy ===== *)
theory Loader_Dll
  imports Loader_Image Loader_Sidecar Win_Slots Win_Registration
begin

text \<open>
  Loading a DLL with its imports: \<open>load_dll\<close> of \<open>src/src/dll_loader.cpp\<close> with \<open>link_pe_images\<close>,
  \<open>fixup_imports\<close> and \<open>pe_discard_image\<close> of \<open>src/src/pe_loader.cpp\<close>. It composes the models of the
  export table, the image, the sidecar, the threads and the TLS slots over one state. The code links one
  image at a time. An access outside an image sets \<open>d_fault\<close>: the behaviour of the code is undefined
  from there. \<open>load_dll\<close> recurses through the imports; the recursion takes fuel, and \<open>d_exhausted\<close>
  says that it ran out. \<open>d_expanded\<close> is a history: how often \<open>fix_pe_image\<close> gave an image a new mapping.
\<close>

section \<open>State\<close>

record linker_state =
  d_process :: process
  d_tls :: tls_state
  d_next :: image_id
  d_registered :: bool
  d_fault :: bool
  d_exhausted :: bool
  d_expanded :: "image_id \<Rightarrow> nat"

type_synonym linking = "linker_state loader"

text \<open>
  What the platform and the PE files decide: the dynamic linker, the thread, the name \<open>mkstemp\<close> makes,
  the addresses of the mappings, readable files, the addresses of the shims, and what each
  \<open>DllMain\<close> returns.
\<close>

record world =
  y_linker :: dynamic_linker
  y_platform :: platform
  y_thread :: thread_id
  y_suffix :: string
  y_base :: "image_id \<Rightarrow> u64"
  y_expanded :: "image_id \<Rightarrow> u64"
  y_readable :: "string \<Rightarrow> bool"
  y_cpu :: bool
  y_stubs :: stubs
  y_address :: "string \<Rightarrow> u64"
  y_dllmain :: "image_id \<Rightarrow> bool"
  y_handler :: nat

definition on_process :: "(process \<Rightarrow> process) \<Rightarrow> linking \<Rightarrow> linking" where
  "on_process f k = k\<lparr>k_more := (k_more k)\<lparr>d_process := f (d_process (k_more k))\<rparr>\<rparr>"

definition the_process :: "linking \<Rightarrow> process" where
  "the_process k = d_process (k_more k)"

definition faulted :: "linking \<Rightarrow> linking" where
  "faulted k = k\<lparr>k_more := (k_more k)\<lparr>d_fault := True\<rparr>\<rparr>"

definition image_memory :: "image_id \<Rightarrow> linking \<Rightarrow> bytes" where
  "image_memory img k = (case g_memory (s_file (the_process k) img) of Some m \<Rightarrow> m | None \<Rightarrow> [])"

definition set_file :: "image_id \<Rightarrow> (pe_file \<Rightarrow> pe_file) \<Rightarrow> linking \<Rightarrow> linking" where
  "set_file img f = on_process (\<lambda>s. s\<lparr>s_file := (s_file s)(img := f (s_file s img))\<rparr>)"

definition set_memory :: "image_id \<Rightarrow> bytes \<Rightarrow> linking \<Rightarrow> linking" where
  "set_memory img m = set_file img (\<lambda>g. g\<lparr>g_memory := Some m\<rparr>)"

definition update_image :: "image_id \<Rightarrow> (loaded_image \<Rightarrow> loaded_image) \<Rightarrow> linking \<Rightarrow> linking" where
  "update_image img f = on_process (\<lambda>s. s\<lparr>s_images := set_image img (f (m_image (s_images s) img)) (s_images s)\<rparr>)"

section \<open>Linking\<close>

text \<open>Pass 1: the offset of the NT headers, which the later steps use, or failure.\<close>

definition check_headers :: "bytes \<Rightarrow> fault + (nat \<times> nt_headers) option" where
  "check_headers raw =
     (if length raw < 64 then Inr None
      else bindE (peek 4 raw 60) (\<lambda>p.
        bindE (read_nt_headers raw p) (\<lambda>h.
        Inr (if check_nt_hdr h \<le> 0 then None else Some (p, h)))))"

text \<open>
  \<open>fix_pe_image\<close> with its mappings: the new one is a page longer than the image, the raw one is unmapped
  when the sections are copied. The headers are read again in the new one.
\<close>

definition replace_mapping :: "image_id \<Rightarrow> nat \<Rightarrow> u64 \<Rightarrow> bytes \<Rightarrow> linking \<Rightarrow> linking" where
  "replace_mapping img image_size base mem k =
     (let raw_size = g_size (s_file (the_process k) img);
          k = on_process (\<lambda>s. unmap_pages img raw_size (map_pages img (image_size + host_page) s)) k;
          k = k\<lparr>k_more := (k_more k)\<lparr>d_expanded := (d_expanded (k_more k))(img := Suc (d_expanded (k_more k) img))\<rparr>\<rparr> in
      set_file img (\<lambda>g. g\<lparr>g_memory := Some mem, g_size := image_size, g_base := base\<rparr>) k)"

definition expand_image :: "world \<Rightarrow> image_id \<Rightarrow> nat \<Rightarrow> nt_headers \<Rightarrow> linking \<Rightarrow> (nat \<times> nt_headers) option \<times> linking" where
  "expand_image w img p h k =
     (let raw = image_memory img k; from_sidecar = g_handle (s_file (the_process k) img) in
      if from_sidecar \<or> length raw = n_image_size h then (Some (p, h), k)
      else case ask_os (the_process k) of (a, s) \<Rightarrow>
        let k = on_process (\<lambda>_. s) k in
        case fix_pe_image False (succeeds a) raw p h of
          Inl e \<Rightarrow> (None, faulted k)
        | Inr (Inl e) \<Rightarrow> (None, k)
        | Inr (Inr mem) \<Rightarrow>
          let k = replace_mapping img (n_image_size h) (y_expanded w img) mem k in
          case bindE (peek 4 mem 60) (\<lambda>p. bindE (read_nt_headers mem p) (\<lambda>h. Inr (p, h))) of
            Inl e \<Rightarrow> (None, faulted k)
          | Inr r \<Rightarrow> (Some r, k))"

definition prepare_image :: "world \<Rightarrow> image_id \<Rightarrow> string \<Rightarrow> linking \<Rightarrow> (nat \<times> nt_headers) option \<times> linking" where
  "prepare_image w img name k =
     (case check_headers (image_memory img k) of
        Inl e \<Rightarrow> (None, faulted k)
      | Inr None \<Rightarrow> (None, k)
      | Inr (Some (p, h)) \<Rightarrow>
        case expand_image w img p h k of
          (None, k) \<Rightarrow> (None, k)
        | (Some (p, h), k) \<Rightarrow>
          case read_exports img name (g_base (s_file (the_process k) img)) p (image_memory img k) (k_table k) of
            Inl e \<Rightarrow> (None, faulted k)
          | Inr table \<Rightarrow> (Some (p, h), k\<lparr>k_table := table\<rparr>))"

text \<open>\<open>fixup_imports\<close> from the descriptor at \<open>pos\<close>; \<open>load\<close> is \<open>load_dll\<close> for a sibling.\<close>

function import_descriptors ::
    "world \<Rightarrow> (string \<Rightarrow> string option \<Rightarrow> linking \<Rightarrow> bool \<times> linking) \<Rightarrow> image_id \<Rightarrow> string \<Rightarrow> nat \<Rightarrow> nat \<Rightarrow>
     linking \<Rightarrow> bool \<times> linking" where
  "import_descriptors w load img name limit pos k =
     (if limit < pos + 20 then (False, faulted k)
      else case peek 4 (image_memory img k) (pos + 12) of
        Inl e \<Rightarrow> (False, faulted k)
      | Inr name_rva \<Rightarrow>
        if name_rva = 0 then (True, k)
        else case read_cstring (image_memory img k) name_rva of
          Inl e \<Rightarrow> (False, faulted k)
        | Inr dll \<Rightarrow>
          (case load_sibling_import (y_readable w) load name (g_sidecar_path (s_file (the_process k) img)) dll k of
             (loaded, k) \<Rightarrow>
             if \<not> loaded then (False, k)
             else case process_import_descriptor (y_stubs w) dll (k_table k) pos (image_memory img k) of
               Inl e \<Rightarrow> (False, faulted k)
             | Inr mem \<Rightarrow> import_descriptors w load img name limit (pos + 20) (set_memory img mem k)))"
  by pat_completeness auto
termination
  by (relation "measure (\<lambda>(w, load, img, name, limit, pos, k). limit - pos)") auto

declare import_descriptors.simps [simp del]

definition fixup_imports ::
    "world \<Rightarrow> (string \<Rightarrow> string option \<Rightarrow> linking \<Rightarrow> bool \<times> linking) \<Rightarrow> image_id \<Rightarrow> string \<Rightarrow> nat \<Rightarrow> linking \<Rightarrow>
     bool \<times> linking" where
  "fixup_imports w load img name p k =
     (case data_directory (image_memory img k) p 1 of
        Inl e \<Rightarrow> (False, faulted k)
      | Inr (rva, len) \<Rightarrow> import_descriptors w load img name (length (image_memory img k)) rva k)"

text \<open>
  The TLS directory holds absolute addresses. The template is copied and the callbacks are counted by
  the code later; the bytes are those of the linked image.
\<close>

function count_callbacks :: "bytes \<Rightarrow> nat \<Rightarrow> fault + nat" where
  "count_callbacks mem pos =
     (if length mem < pos + 8 then Inl OutOfBounds
      else bindE (peek 8 mem pos) (\<lambda>callback.
        if callback = 0 then Inr 0 else bindE (count_callbacks mem (pos + 8)) (\<lambda>n. Inr (Suc n))))"
  by pat_completeness auto
termination
  by (relation "measure (\<lambda>(mem, pos). length mem - pos)") auto

declare count_callbacks.simps [simp del]

definition read_tls_directory :: "u64 \<Rightarrow> bytes \<Rightarrow> nat \<Rightarrow> fault + (tls_directory \<times> nat) option" where
  "read_tls_directory actual mem p =
     (let offset = (\<lambda>va. unat (of_nat va - actual :: u64)) in
      bindE (peek 4 mem (p + 132)) (\<lambda>directories.
      bindE (if directories > 9 then data_directory mem p 9 else Inr (0, 0)) (\<lambda>(rva, len).
      if rva = 0 then Inr None
      else bindE (peek 8 mem rva) (\<lambda>start.
        bindE (peek 8 mem (rva + 8)) (\<lambda>stop.
        bindE (peek 8 mem (rva + 16)) (\<lambda>index.
        bindE (peek 8 mem (rva + 24)) (\<lambda>callbacks.
        bindE (peek 4 mem (rva + 32)) (\<lambda>zero_fill.
        let data_size = unat (of_nat stop - of_nat start :: u64) in
        bindE (if data_size \<noteq> 0 \<and> length mem < offset start + data_size then Inl OutOfBounds
               else Inr (take data_size (drop (offset start) mem))) (\<lambda>template.
        bindE (if callbacks = 0 then Inr 0 else count_callbacks mem (offset callbacks)) (\<lambda>n.
        Inr (Some (\<lparr>d_callbacks = n, d_template = template, d_zero_fill = zero_fill\<rparr>,
               if index = 0 then 0 else offset index + 1))))))))))))"

definition set_up_tls :: "image_id \<Rightarrow> nat \<Rightarrow> linking \<Rightarrow> bool \<times> linking" where
  "set_up_tls img p k =
     (let mem = image_memory img k in
      case read_tls_directory (g_base (s_file (the_process k) img)) mem p of
        Inl e \<Rightarrow> (False, faulted k)
      | Inr None \<Rightarrow> (True, k)
      | Inr (Some (d, index)) \<Rightarrow>
        (case TlsAlloc (d_tls (k_more k)) of
           (r, tls) \<Rightarrow>
           let k = update_image img (\<lambda>i. i\<lparr>i_tls := Some d, i_index := (case r of Some j \<Rightarrow> j | None \<Rightarrow> 2 ^ 32 - 1)\<rparr>)
                     (k\<lparr>k_more := (k_more k)\<lparr>d_tls := tls\<rparr>\<rparr>) in
           case r of
             None \<Rightarrow> (False, k)
           | Some j \<Rightarrow>
             if index = 0 then (True, k)
             else case poke 4 mem (index - 1) j of
               Inl e \<Rightarrow> (False, faulted k)
             | Inr mem \<Rightarrow> (True, set_memory img mem k)))"

text \<open>\<open>RVA2VA\<close> of \<open>AddressOfEntryPoint\<close> is never null, also when the field is 0.\<close>

definition link_pe_images ::
    "world \<Rightarrow> (string \<Rightarrow> string option \<Rightarrow> linking \<Rightarrow> bool \<times> linking) \<Rightarrow> image_id \<Rightarrow> string \<Rightarrow> linking \<Rightarrow> bool \<times> linking" where
  "link_pe_images w load img name k =
     (case prepare_image w img name k of
        (None, k) \<Rightarrow> (False, k)
      | (Some (p, h), k) \<Rightarrow>
        case fixup_reloc (g_base (s_file (the_process k) img)) p h (image_memory img k) of
          Inl e \<Rightarrow> (False, faulted k)
        | Inr (Inl e) \<Rightarrow> (False, k)
        | Inr (Inr mem) \<Rightarrow>
          (case fixup_imports w load img name p (set_memory img mem k) of
             (ok, k) \<Rightarrow>
             if \<not> ok then (False, k)
             else set_up_tls img p (update_image img (\<lambda>i. i\<lparr>i_entry := True\<rparr>) k)))"

section \<open>Loading\<close>

definition pe_discard_image :: "image_id \<Rightarrow> linking \<Rightarrow> linking" where
  "pe_discard_image img k =
     (let k = k\<lparr>k_table := pe_discard_image_exports img (k_table k)\<rparr>;
          im = m_image (s_images (the_process k)) img;
          k = (if i_tls im \<noteq> None then k\<lparr>k_more := (k_more k)\<lparr>d_tls := snd (TlsFree (i_index im) (d_tls (k_more k)))\<rparr>\<rparr> else k);
          g = s_file (the_process k) img;
          k = (if g_handle g then on_process (\<lambda>s. s\<lparr>s_handles := s_handles s - 1\<rparr>) k
               else if g_memory g \<noteq> None then on_process (unmap_pages img (g_size g)) k
               else k) in
      update_image img (\<lambda>_. \<lparr>i_tls = None, i_index = 0, i_entry = False, i_quiet = False, i_registered = False\<rparr>)
        (set_file img (\<lambda>_. \<lparr>g_memory = None, g_size = 0, g_base = 0, g_handle = False, g_sidecar_path = None\<rparr>) k))"

text \<open>One of the images operations of the thread; its result and the new state.\<close>

definition with_images :: "(images \<Rightarrow> bool \<times> images) \<Rightarrow> linking \<Rightarrow> bool \<times> linking" where
  "with_images f k =
     (case f (s_images (the_process k)) of (b, m) \<Rightarrow> (b, on_process (\<lambda>s. s\<lparr>s_images := m\<rparr>) k))"

text \<open>After linking: the thread, the process attach and the call of \<open>DllMain\<close>.\<close>

definition attach_process :: "world \<Rightarrow> image_id \<Rightarrow> linking \<Rightarrow> bool \<times> linking" where
  "attach_process w img k =
     (let t = y_thread w; give_up = (\<lambda>k. (False, pe_discard_image img k)) in
      case setup_nt_threadinfo (y_platform w) t (Some (y_handler w)) (the_process k) of (ok, s) \<Rightarrow>
      let k = on_process (\<lambda>_. s) k in
      if \<not> ok then give_up k
      else case with_images (pe_begin_process_attach t img) k of (ok, k) \<Rightarrow>
        if \<not> ok then give_up k
        else case with_images (pe_initialize_tls_for_current_thread t img PROCESS_ATTACH) k of (ok, k) \<Rightarrow>
          if \<not> ok then give_up (snd (with_images (pe_finish_process_attach t img False False) k))
          else let entry = i_entry (m_image (s_images (the_process k)) img);
                   (_, k) = with_images (\<lambda>m. (True, call_entry img PROCESS_ATTACH m)) k;
                   loaded = (\<not> entry \<or> y_dllmain w img) in
            case with_images (pe_finish_process_attach t img loaded True) k of (finished, k) \<Rightarrow>
            if \<not> loaded \<or> \<not> finished then give_up k else (True, k))"

fun load_dll :: "nat \<Rightarrow> world \<Rightarrow> image_id \<Rightarrow> string \<Rightarrow> string option \<Rightarrow> linking \<Rightarrow> bool \<times> linking" where
  "load_dll 0 w img name sidecar k = (False, k\<lparr>k_more := (k_more k)\<lparr>d_exhausted := True\<rparr>\<rparr>)"
| "load_dll (Suc n) w img name sidecar k =
     (if \<not> y_cpu w then (False, k)
      else let (registered, table) = register_windows_library_functions (y_address w) (d_registered (k_more k)) (k_table k);
               k = k\<lparr>k_table := table, k_more := (k_more k)\<lparr>d_registered := registered\<rparr>\<rparr> in
        case pe_load_library (y_linker w) (y_platform w) (y_base w img) (y_suffix w) (y_thread w) name sidecar img (the_process k) of
          (ok, s) \<Rightarrow>
          let k = on_process (\<lambda>_. s) k;
              load = (\<lambda>path sidecar k. load_dll n w (d_next (k_more k)) path sidecar
                        (k\<lparr>k_more := (k_more k)\<lparr>d_next := d_next (k_more k) + 1\<rparr>\<rparr>)) in
          if \<not> ok then (False, k)
          else case link_pe_images w load img name k of (linked, k) \<Rightarrow>
            if \<not> linked then (False, pe_discard_image img k)
            else attach_process w img k)"

section \<open>What the steps change\<close>

text \<open>
  \<open>held\<close> are the images that have memory. \<open>same_view\<close> says that a step leaves the export table, the
  loaded images and who holds what.
\<close>

abbreviation loaded_images :: "linking \<Rightarrow> image_id list" where
  "loaded_images k \<equiv> m_loaded (s_images (the_process k))"

abbreviation file_of :: "linking \<Rightarrow> image_id \<Rightarrow> pe_file" where
  "file_of k \<equiv> s_file (the_process k)"

definition held :: "linking \<Rightarrow> image_id set" where
  "held k = {i. g_memory (file_of k i) \<noteq> None}"

definition with_handle :: "linking \<Rightarrow> image_id set" where
  "with_handle k = {i. g_handle (file_of k i)}"

definition same_view :: "linking \<Rightarrow> linking \<Rightarrow> bool" where
  "same_view k k' \<longleftrightarrow> loaded_images k' = loaded_images k \<and> held k' = held k \<and> with_handle k' = with_handle k \<and>
     s_handles (the_process k') = s_handles (the_process k) \<and> s_mapped (the_process k') = s_mapped (the_process k) \<and>
     (\<forall>i. g_size (file_of k' i) = g_size (file_of k i)) \<and> d_expanded (k_more k') = d_expanded (k_more k) \<and>
     d_next (k_more k') = d_next (k_more k) \<and> k_table k' = k_table k \<and> k_attempted k' = k_attempted k \<and>
     d_exhausted (k_more k') = d_exhausted (k_more k)"

lemma the_process_simps [simp]:
  "the_process (on_process f k) = f (the_process k)"
  "the_process (faulted k) = the_process k"
  "the_process (k\<lparr>k_table := t\<rparr>) = the_process k"
  "the_process (k\<lparr>k_attempted := a\<rparr>) = the_process k"
  "the_process (k\<lparr>k_more := (k_more k)\<lparr>d_tls := x\<rparr>\<rparr>) = the_process k"
  "the_process (k\<lparr>k_more := (k_more k)\<lparr>d_next := i\<rparr>\<rparr>) = the_process k"
  "the_process (k\<lparr>k_more := (k_more k)\<lparr>d_exhausted := b\<rparr>\<rparr>) = the_process k"
  "the_process (k\<lparr>k_more := (k_more k)\<lparr>d_expanded := e\<rparr>\<rparr>) = the_process k"
  by (simp_all add: the_process_def on_process_def faulted_def)

lemma on_process_simps [simp]:
  "k_table (on_process f k) = k_table k" "k_attempted (on_process f k) = k_attempted k"
  "d_next (k_more (on_process f k)) = d_next (k_more k)" "d_exhausted (k_more (on_process f k)) = d_exhausted (k_more k)"
  "d_tls (k_more (on_process f k)) = d_tls (k_more k)"
  "d_expanded (k_more (on_process f k)) = d_expanded (k_more k)" "d_expanded (k_more (faulted k)) = d_expanded (k_more k)"
  "k_table (faulted k) = k_table k" "k_attempted (faulted k) = k_attempted k"
  "d_next (k_more (faulted k)) = d_next (k_more k)" "d_exhausted (k_more (faulted k)) = d_exhausted (k_more k)"
  by (simp_all add: on_process_def faulted_def)

lemma same_view_refl [simp]: "same_view k k"
  by (simp add: same_view_def)

lemma same_view_trans: "same_view k k' \<Longrightarrow> same_view k' k'' \<Longrightarrow> same_view k k''"
  by (simp add: same_view_def)

lemma same_view_faulted [simp]: "same_view k (faulted k') = same_view k k'"
  by (simp add: same_view_def held_def with_handle_def)

lemma same_view_process:
  assumes "s_file s = file_of k" "m_loaded (s_images s) = loaded_images k"
    "s_handles s = s_handles (the_process k)" "s_mapped s = s_mapped (the_process k)"
  shows "same_view k (on_process (\<lambda>_. s) k)"
  using assms by (simp add: same_view_def held_def with_handle_def)

lemma same_view_ask: "ask_os (the_process k) = (a, s) \<Longrightarrow> same_view k (on_process (\<lambda>_. s) k)"
  by (rule same_view_process) (simp_all add: ask_os_frame)

lemma same_view_update [simp]: "same_view k (update_image img f k)"
  by (simp add: same_view_def update_image_def set_image_def held_def with_handle_def)

lemma update_image_file [simp]: "file_of (update_image img f k) = file_of k"
  by (simp add: update_image_def)

lemma same_view_set_file:
  assumes "img \<in> held k" and "\<And>g. g_memory g \<noteq> None \<Longrightarrow> g_memory (f g) \<noteq> None" and "\<And>g. g_handle (f g) = g_handle g"
    and "\<And>g. g_size (f g) = g_size g"
  shows "same_view k (set_file img f k)"
  using assms by (auto simp: same_view_def set_file_def held_def with_handle_def)

lemma same_view_set_memory: "img \<in> held k \<Longrightarrow> same_view k (set_memory img m k)"
  unfolding set_memory_def by (rule same_view_set_file) simp_all

lemma set_file_other [simp]:
  "i \<noteq> img \<Longrightarrow> file_of (set_file img f k) i = file_of k i"
  "i \<noteq> img \<Longrightarrow> file_of (set_memory img m k) i = file_of k i"
  by (simp_all add: set_file_def set_memory_def)

section \<open>Bookkeeping\<close>

text \<open>
  The invariant while the images \<open>B\<close> are being loaded: exactly they and the loaded images have memory,
  every open handle belongs to one of them, and so does every export that has an owner. The mapped pages
  of an image are those of its memory, when that is not a sidecar's, and one for each time it was expanded:
  the page behind the image that \<open>pe_discard_image\<close> does not unmap.
\<close>

definition image_pages :: "linking \<Rightarrow> image_id \<Rightarrow> nat" where
  "image_pages k i = (if i \<in> held k - with_handle k then mapped_pages (g_size (file_of k i)) else 0)"

definition linking_ok :: "image_id set \<Rightarrow> linking \<Rightarrow> bool" where
  "linking_ok B k \<longleftrightarrow>
     finite B \<and> distinct (loaded_images k) \<and> held k = set (loaded_images k) \<union> B \<and> set (loaded_images k) \<inter> B = {} \<and>
     with_handle k \<subseteq> held k \<and> s_handles (the_process k) = card (with_handle k) \<and>
     (\<forall>i. s_mapped (the_process k) i = image_pages k i + d_expanded (k_more k) i) \<and> (\<forall>i \<in> held k. i < d_next (k_more k)) \<and>
     (\<forall>x \<in> set (k_table k). \<forall>i. t_owner x = Some i \<longrightarrow> i \<in> held k)"

lemma linking_okD:
  assumes "linking_ok B k"
  shows "finite B" "distinct (loaded_images k)" "held k = set (loaded_images k) \<union> B" "set (loaded_images k) \<inter> B = {}"
    "with_handle k \<subseteq> held k" "s_handles (the_process k) = card (with_handle k)"
    "\<forall>i. s_mapped (the_process k) i = image_pages k i + d_expanded (k_more k) i" "\<forall>i \<in> held k. i < d_next (k_more k)"
    "\<forall>x \<in> set (k_table k). \<forall>i. t_owner x = Some i \<longrightarrow> i \<in> held k"
  using assms unfolding linking_ok_def by - (elim conjE, assumption)+

lemma linking_ok_cong:
  assumes "loaded_images k' = loaded_images k" "held k' = held k" "with_handle k' = with_handle k"
    "s_handles (the_process k') = s_handles (the_process k)" "s_mapped (the_process k') = s_mapped (the_process k)"
    "\<And>i. g_size (file_of k' i) = g_size (file_of k i)" "d_expanded (k_more k') = d_expanded (k_more k)"
    "d_next (k_more k') = d_next (k_more k)" "k_table k' = k_table k"
  shows "linking_ok B k' = linking_ok B k"
  using assms by (simp add: linking_ok_def image_pages_def)

lemma linking_ok_view: "same_view k k' \<Longrightarrow> linking_ok B k' = linking_ok B k"
  by (simp add: linking_ok_def same_view_def image_pages_def)

text \<open>What linking \<open>img\<close> may do besides: load other images, and change \<open>img\<close> itself.\<close>

definition progress :: "image_id set \<Rightarrow> image_id set \<Rightarrow> linking \<Rightarrow> linking \<Rightarrow> bool" where
  "progress own B k k' \<longleftrightarrow> linking_ok B k' \<and> set (loaded_images k) \<subseteq> set (loaded_images k') \<and>
     (\<forall>i \<in> held k - own. file_of k' i = file_of k i) \<and> d_next (k_more k) \<le> d_next (k_more k') \<and>
     set (k_attempted k) \<subseteq> set (k_attempted k')"

lemma progress_refl: "linking_ok B k \<Longrightarrow> progress own B k k"
  by (simp add: progress_def)

lemma progress_trans:
  assumes "progress own B k k'" and "progress own B k' k''" and "linking_ok B k"
  shows "progress own B k k''"
proof -
  have "held k \<subseteq> held k'"
    using assms(1,3) by (auto simp: progress_def linking_ok_def)
  then show ?thesis
    using assms(1,2) unfolding progress_def by (metis (no_types, lifting) Diff_iff order_trans subsetD)
qed

lemma progress_mono: "progress own B k k' \<Longrightarrow> own \<subseteq> own' \<Longrightarrow> progress own' B k k'"
  unfolding progress_def by blast

lemma progress_view:
  "linking_ok B k \<Longrightarrow> same_view k k' \<Longrightarrow> (\<And>i. i \<in> held k \<Longrightarrow> i \<notin> own \<Longrightarrow> file_of k' i = file_of k i) \<Longrightarrow> progress own B k k'"
  by (simp add: progress_def linking_ok_view) (simp add: same_view_def)

lemma progress_faulted [simp]: "progress own B k (faulted k') = progress own B k k'"
  using linking_ok_view [of k' "faulted k'"] by (simp add: progress_def)

lemma progress_ok: "progress own B k k' \<Longrightarrow> linking_ok B k'"
  by (simp add: progress_def)

lemma progress_held: "linking_ok B k \<Longrightarrow> progress own B k k' \<Longrightarrow> i \<in> held k \<Longrightarrow> i \<in> held k'"
  by (auto simp: progress_def linking_ok_def)

lemma progress_table:
  assumes "linking_ok B k" and "\<And>x i. x \<in> set table \<Longrightarrow> t_owner x = Some i \<Longrightarrow> i \<in> held k"
  shows "progress own B k (k\<lparr>k_table := table\<rparr>)"
proof -
  have view: "held (k\<lparr>k_table := table\<rparr>) = held k" "with_handle (k\<lparr>k_table := table\<rparr>) = with_handle k"
    by (simp_all add: held_def with_handle_def)
  have pages: "image_pages (k\<lparr>k_table := table\<rparr>) = image_pages k"
    by (simp add: image_pages_def view fun_eq_iff)
  have "linking_ok B (k\<lparr>k_table := table\<rparr>)"
    using assms unfolding linking_ok_def view pages by auto
  then show ?thesis
    by (simp add: progress_def)
qed

lemma progress_own:
  assumes "linking_ok B k" and "img \<in> B"
  shows "progress {img} B k (set_memory img m k)"
proof -
  have "img \<in> held k"
    using assms by (simp add: linking_ok_def)
  then show ?thesis
    using assms(1) by (intro progress_view same_view_set_memory) auto
qed

subsection \<open>Linking\<close>

lemma read_export_names_owner:
  "read_export_names owner module actual img tables i n table = Inr table' \<Longrightarrow> x \<in> set table' \<Longrightarrow>
   x \<in> set table \<or> t_owner x = Some owner"
proof (induction n arbitrary: i table)
  case (Suc n)
  obtain fs ns os where tables: "tables = (fs, ns, os)"
    by (cases tables)
  show ?case
  proof (cases "length table \<ge> MAX_EXPORTS")
    case True
    then show ?thesis
      using Suc.prems by (auto simp: tables result_simps)
  next
    case False
    then obtain name addr where
      "read_export_names owner module actual img tables (i + 1) n (register_function (Some module) name addr (Some owner) table) = Inr table'"
      using Suc.prems(1) by (auto simp: tables result_simps)
    then have "x \<in> set (register_function (Some module) name addr (Some owner) table) \<or> t_owner x = Some owner"
      using Suc.IH Suc.prems(2) by blast
    then show ?thesis
      by (auto simp: register_function_def split: if_splits)
  qed
qed simp

lemma read_exports_owner:
  "read_exports owner name actual p img table = Inr table' \<Longrightarrow> x \<in> set table' \<Longrightarrow> x \<in> set table \<or> t_owner x = Some owner"
  by (auto simp: read_exports_def result_simps split: if_splits dest: read_export_names_owner)

lemma mapped_pages_more [simp]: "mapped_pages (n + host_page) = Suc (mapped_pages n)"
  by (simp add: mapped_pages_def host_page_def)

text \<open>The new mapping of an image takes the place of the old one, and leaves a page.\<close>

lemma replace_mapping_progress:
  assumes ok: "linking_ok B k" and "img \<in> B" and "img \<notin> with_handle k"
  shows "progress {img} B k (replace_mapping img n base mem k)"
proof -
  let ?k = "replace_mapping img n base mem k"
  have img: "img \<in> held k"
    using ok assms(2) by (simp add: linking_ok_def)
  have files: "file_of ?k = (file_of k)(img := (file_of k img)\<lparr>g_memory := Some mem, g_size := n, g_base := base\<rparr>)"
    by (simp add: replace_mapping_def Let_def set_file_def)
  have views: "held ?k = held k" "with_handle ?k = with_handle k"
    using img assms(3) unfolding held_def with_handle_def files by auto
  have same: "loaded_images ?k = loaded_images k" "s_handles (the_process ?k) = s_handles (the_process k)"
    "d_next (k_more ?k) = d_next (k_more k)" "k_table ?k = k_table k" "k_attempted ?k = k_attempted k"
    "d_expanded (k_more ?k) = (d_expanded (k_more k))(img := Suc (d_expanded (k_more k) img))"
    by (simp_all add: replace_mapping_def Let_def set_file_def)
  have mapped: "s_mapped (the_process ?k) = (s_mapped (the_process k))
      (img := s_mapped (the_process k) img + Suc (mapped_pages n) - mapped_pages (g_size (file_of k img)))"
    by (simp add: replace_mapping_def Let_def set_file_def)
  have pages: "image_pages ?k i = (if i = img then mapped_pages n else image_pages k i)" for i
    using img assms(3) by (simp add: image_pages_def views files)
  have "image_pages k img = mapped_pages (g_size (file_of k img))"
    using img assms(3) by (simp add: image_pages_def)
  then have "s_mapped (the_process ?k) i = image_pages ?k i + d_expanded (k_more ?k) i" for i
    using linking_okD(7) [OF ok] by (simp add: mapped pages same)
  then have "linking_ok B ?k"
    using linking_okD [OF ok] unfolding linking_ok_def views same by simp
  then show ?thesis
    using same files by (simp add: progress_def)
qed

lemma expand_image_progress:
  assumes run: "expand_image w img p h k = (r, k')" and ok: "linking_ok B k" and "img \<in> B"
  shows "progress {img} B k k'"
proof -
  obtain a s where as: "ask_os (the_process k) = (a, s)"
    by (cases "ask_os (the_process k)")
  define k1 where "k1 = on_process (\<lambda>_. s) k"
  have k1: "same_view k k1" "file_of k1 = file_of k"
    using same_view_ask [OF as] ask_os_frame(4) [OF as] by (simp_all add: k1_def)
  then have p1: "progress {img} B k k1"
    using ok by (intro progress_view) simp_all
  let ?new = "\<lambda>mem. replace_mapping img (n_image_size h) (y_expanded w img) mem k1"
  have new: "progress {img} B k (?new mem)" if "img \<notin> with_handle k" for mem
  proof -
    have "img \<notin> with_handle k1"
      using that k1(2) by (simp add: with_handle_def)
    then show ?thesis
      using replace_mapping_progress [OF progress_ok [OF p1] assms(3)] progress_trans p1 ok by blast
  qed
  have "k' = k \<or> k' = k1 \<or> k' = faulted k1 \<or>
      img \<notin> with_handle k \<and> (\<exists>mem. k' = ?new mem \<or> k' = faulted (?new mem))"
    using run by (auto simp: expand_image_def as k1_def Let_def with_handle_def split: sum.splits if_splits)
  then show ?thesis
    using new p1 progress_refl [OF ok] by (elim disjE exE conjE) simp_all
qed

lemma prepare_image_progress:
  assumes run: "prepare_image w img name k = (r, k')" and ok: "linking_ok B k" and "img \<in> B"
  shows "progress {img} B k k'"
proof (cases "check_headers (image_memory img k)")
  case (Inr o')
  show ?thesis
  proof (cases o')
    case (Some x)
    obtain p h where x: "x = (p, h)" by (cases x)
    obtain r1 k1 where 1: "expand_image w img p h k = (r1, k1)" by (cases "expand_image w img p h k")
    note p1 = expand_image_progress [OF 1 ok assms(3)]
    have ok1: "linking_ok B k1" and img: "img \<in> held k1"
      using progress_ok [OF p1] assms(3) by (auto simp: linking_ok_def)
    have "k' = k1 \<or> k' = faulted k1 \<or> (\<exists>actual q mem table. k' = k1\<lparr>k_table := table\<rparr> \<and>
        read_exports img name actual q mem (k_table k1) = Inr table)"
      using run Inr Some by (auto simp: prepare_image_def x 1 split: option.splits sum.splits)
    then show ?thesis
    proof (elim disjE exE conjE)
      fix actual q mem table
      assume k': "k' = k1\<lparr>k_table := table\<rparr>" and exports: "read_exports img name actual q mem (k_table k1) = Inr table"
      have "progress {img} B k1 k'"
        unfolding k'
      proof (rule progress_table [OF ok1])
        fix x i assume x: "x \<in> set table" "t_owner x = Some i"
        then have "x \<in> set (k_table k1) \<or> i = img"
          using read_exports_owner [OF exports x(1)] by simp
        then show "i \<in> held k1"
          using ok1 img x(2) unfolding linking_ok_def by blast
      qed
      then show ?thesis
        using p1 progress_trans ok by blast
    qed (use p1 in simp_all)
  next
    case None
    then show ?thesis
      using run Inr progress_refl [OF ok] by (simp add: prepare_image_def)
  qed
next
  case (Inl e)
  then show ?thesis
    using run progress_refl [OF ok] by (auto simp: prepare_image_def)
qed

text \<open>The contract of loading a sibling while the images \<open>B\<close> are being loaded.\<close>

definition loads_ok :: "(string \<Rightarrow> string option \<Rightarrow> linking \<Rightarrow> bool \<times> linking) \<Rightarrow> image_id set \<Rightarrow> bool" where
  "loads_ok load B \<longleftrightarrow> (\<forall>path sidecar k. linking_ok B k \<longrightarrow> progress {} B k (snd (load path sidecar k)))"

lemma load_sibling_progress:
  assumes run: "load_sibling_import readable load name sidecar dll k = (r, k')" and ok: "linking_ok B k" and "loads_ok load B"
  shows "progress {} B k k'"
proof -
  let ?k = "k\<lparr>k_attempted := k_attempted k @ [dll]\<rparr>"
  have ok1: "linking_ok B ?k"
    using ok linking_ok_cong [of ?k k] by (simp add: held_def with_handle_def)
  have attempt: "progress {} B k ?k"
    using ok1 by (auto simp: progress_def)
  have "progress {} B ?k (snd (load path sc ?k))" for path sc
    using assms(3) ok1 by (simp add: loads_ok_def)
  then have "progress {} B k (snd (load path sc ?k))" for path sc
    using attempt progress_trans ok by blast
  moreover have "(r, k') = (True, k) \<or> (r, k') = (True, ?k) \<or> (\<exists>path sc. (r, k') = load path sc ?k)"
    unfolding run [symmetric] load_sibling_import_def Let_def by auto
  then have "k' = k \<or> k' = ?k \<or> (\<exists>path sc. k' = snd (load path sc ?k))"
    by (metis snd_conv)
  ultimately show ?thesis
    using attempt progress_refl [OF ok] by (elim disjE exE) simp_all
qed

lemma import_descriptors_progress:
  assumes "import_descriptors w load img name limit pos k = (r, k')" and "linking_ok B k" and "img \<in> B" and "loads_ok load B"
  shows "progress {img} B k k'"
  using assms
proof (induction w load img name limit pos k arbitrary: r k' rule: import_descriptors.induct)
  case (1 w load img name limit pos k)
  note refl = progress_refl [OF "1.prems"(2), of "{img}"]
  show ?case
  proof (cases "pos + 20 \<le> limit \<and> (\<exists>name_rva dll. peek 4 (image_memory img k) (pos + 12) = Inr name_rva \<and> name_rva \<noteq> 0 \<and>
      read_cstring (image_memory img k) name_rva = Inr dll)")
    case False
    then have "k' = k \<or> k' = faulted k"
      using "1.prems"(1) by (auto simp: import_descriptors.simps [of w load img] split: sum.splits if_splits)
    then show ?thesis
      using refl by auto
  next
    case True
    then obtain name_rva dll where entry: "\<not> limit < pos + 20" "peek 4 (image_memory img k) (pos + 12) = Inr name_rva"
        "name_rva \<noteq> 0" "read_cstring (image_memory img k) name_rva = Inr dll"
      by (auto simp: not_less)
    obtain loaded k1 where 1: "load_sibling_import (y_readable w) load name (g_sidecar_path (file_of k img)) dll k = (loaded, k1)"
      by (cases "load_sibling_import (y_readable w) load name (g_sidecar_path (file_of k img)) dll k")
    have p1: "progress {img} B k k1"
      using load_sibling_progress [OF 1 "1.prems"(2,4)] progress_mono by blast
    have run: "(if \<not> loaded then (False, k1)
             else case process_import_descriptor (y_stubs w) dll (k_table k1) pos (image_memory img k1) of
               Inl e \<Rightarrow> (False, faulted k1)
             | Inr mem \<Rightarrow> import_descriptors w load img name limit (pos + 20) (set_memory img mem k1)) = (r, k')"
      using "1.prems"(1) entry 1 by (simp add: import_descriptors.simps [of w load img name limit pos k])
    show ?thesis
    proof (cases "loaded \<and> (\<exists>mem. process_import_descriptor (y_stubs w) dll (k_table k1) pos (image_memory img k1) = Inr mem)")
      case False
      then have "k' = k1 \<or> k' = faulted k1"
        using run by (auto split: sum.splits if_splits)
      then show ?thesis
        using p1 by auto
    next
      case True
      then obtain mem where mem: "loaded" "process_import_descriptor (y_stubs w) dll (k_table k1) pos (image_memory img k1) = Inr mem"
        by blast
      have own: "progress {img} B k1 (set_memory img mem k1)"
        using progress_own [OF progress_ok [OF p1] "1.prems"(3)] .
      have "import_descriptors w load img name limit (pos + 20) (set_memory img mem k1) = (r, k')"
        using run mem by simp
      from "1.IH" [OF entry 1 [symmetric] _ mem(2) this progress_ok [OF own] "1.prems"(3,4)] mem(1)
      have "progress {img} B (set_memory img mem k1) k'"
        by simp
      then show ?thesis
        using p1 own progress_trans "1.prems"(2) progress_ok by blast
    qed
  qed
qed

lemma set_up_tls_progress:
  assumes run: "set_up_tls img p k = (r, k')" and ok: "linking_ok B k" and "img \<in> B"
  shows "progress {img} B k k'"
proof -
  obtain j tls where 1: "TlsAlloc (d_tls (k_more k)) = (j, tls)"
    by (cases "TlsAlloc (d_tls (k_more k))")
  define k1 where "k1 f = update_image img f (k\<lparr>k_more := (k_more k)\<lparr>d_tls := tls\<rparr>\<rparr>)" for f
  have "same_view k (k1 f)" "file_of (k1 f) = file_of k" for f
    using same_view_update [of "k\<lparr>k_more := (k_more k)\<lparr>d_tls := tls\<rparr>\<rparr>" img f]
    by (simp_all add: k1_def same_view_def held_def with_handle_def update_image_def)
  then have p1: "progress {img} B k (k1 f)" for f
    using ok by (intro progress_view) simp_all
  then have p2: "progress {img} B k (set_memory img mem (k1 f))" for mem f
    using progress_own [OF progress_ok [OF p1] assms(3)] progress_trans ok by blast
  have "k' = k \<or> k' = faulted k \<or> (\<exists>f. k' = k1 f \<or> k' = faulted (k1 f) \<or> (\<exists>mem. k' = set_memory img mem (k1 f)))"
  proof (cases "read_tls_directory (g_base (file_of k img)) (image_memory img k) p")
    case (Inr x)
    show ?thesis
    proof (cases x)
      case (Some y)
      obtain d index where y: "y = (d, index)" by (cases y)
      define f where "f = (\<lambda>i :: loaded_image. i\<lparr>i_tls := Some d, i_index := (case j of Some j \<Rightarrow> j | None \<Rightarrow> 2 ^ 32 - 1)\<rparr>)"
      have "(case j of
             None \<Rightarrow> (False, k1 f)
           | Some j \<Rightarrow>
             if index = 0 then (True, k1 f)
             else case poke 4 (image_memory img k) (index - 1) j of
               Inl e \<Rightarrow> (False, faulted (k1 f))
             | Inr mem \<Rightarrow> (True, set_memory img mem (k1 f))) = (r, k')"
        using run unfolding set_up_tls_def Let_def Inr Some y 1 sum.case option.case prod.case k1_def f_def .
      then show ?thesis
        by (auto split: option.splits sum.splits if_splits)
    qed (use run Inr in \<open>simp add: set_up_tls_def\<close>)
  qed (use run in \<open>simp add: set_up_tls_def\<close>)
  then show ?thesis
    using p1 p2 progress_refl [OF ok] by (elim disjE exE) simp_all
qed

lemma link_progress:
  assumes run: "link_pe_images w load img name k = (r, k')" and ok: "linking_ok B k" and B: "img \<in> B" and "loads_ok load B"
  shows "progress {img} B k k'"
proof -
  obtain r1 k1 where 1: "prepare_image w img name k = (r1, k1)"
    by (cases "prepare_image w img name k")
  note p1 = prepare_image_progress [OF 1 ok B]
  consider "k' = k1 \<or> k' = faulted k1" | p mem where
      "(case fixup_imports w load img name p (set_memory img mem k1) of
             (ok, k) \<Rightarrow> if \<not> ok then (False, k)
             else set_up_tls img p (update_image img (\<lambda>i. i\<lparr>i_entry := True\<rparr>) k)) = (r, k')"
    using run by (auto simp: link_pe_images_def 1 split: option.splits sum.splits)
  then show ?thesis
  proof cases
    case 1
    then show ?thesis using p1 by auto
  next
    case (2 p mem)
    let ?k2 = "set_memory img mem k1"
    have p2: "progress {img} B k ?k2"
      using progress_own [OF progress_ok [OF p1] B] progress_trans p1 ok by blast
    obtain r3 k3 where 3: "fixup_imports w load img name p ?k2 = (r3, k3)"
      by (cases "fixup_imports w load img name p ?k2")
    have "k3 = faulted ?k2 \<or> (\<exists>limit pos. import_descriptors w load img name limit pos ?k2 = (r3, k3))"
      using 3 by (auto simp: fixup_imports_def split: sum.splits)
    then have "progress {img} B ?k2 k3"
      using import_descriptors_progress [OF _ progress_ok [OF p2] B assms(4)] progress_refl [OF progress_ok [OF p2]] by auto
    then have p3: "progress {img} B k k3"
      using p2 progress_trans ok by blast
    have "progress {img} B k3 (update_image img (\<lambda>i. i\<lparr>i_entry := True\<rparr>) k3)"
      using progress_ok [OF p3] by (intro progress_view) simp_all
    then have p4: "progress {img} B k (update_image img (\<lambda>i. i\<lparr>i_entry := True\<rparr>) k3)"
      using p3 progress_trans ok by blast
    have "k' = k3 \<or> set_up_tls img p (update_image img (\<lambda>i. i\<lparr>i_entry := True\<rparr>) k3) = (r, k')"
      using 2 3 by (auto split: if_splits)
    then show ?thesis
      using p3 p4 set_up_tls_progress [OF _ progress_ok [OF p4] B] progress_trans ok by blast
  qed
qed

subsection \<open>Attaching and giving up\<close>

lemma card_insert_remove: "finite A \<Longrightarrow> x \<in> A \<Longrightarrow> card A - 1 = card (A - {x})"
  by simp

text \<open>Giving up an image being loaded lets go of what it holds, and of nothing else.\<close>

lemma discard_ok:
  assumes ok: "linking_ok (insert img B) k" and new: "img \<notin> B"
  shows "linking_ok B (pe_discard_image img k)" and "loaded_images (pe_discard_image img k) = loaded_images k"
    and "i \<noteq> img \<Longrightarrow> file_of (pe_discard_image img k) i = file_of k i"
    and "d_next (k_more (pe_discard_image img k)) = d_next (k_more k)" and "k_attempted (pe_discard_image img k) = k_attempted k"
proof -
  let ?k = "pe_discard_image img k"
  have img: "img \<in> held k" "img \<notin> set (loaded_images k)" "finite (held k)"
    using ok by (auto simp: linking_ok_def)
  then have memory: "g_memory (file_of k img) \<noteq> None"
    by (simp add: held_def)
  show loaded: "loaded_images ?k = loaded_images k" and others: "\<And>i. i \<noteq> img \<Longrightarrow> file_of ?k i = file_of k i"
    and next': "d_next (k_more ?k) = d_next (k_more k)" and "k_attempted ?k = k_attempted k"
    by (simp_all add: pe_discard_image_def Let_def update_image_def set_file_def set_image_def the_process_def on_process_def)
  have own: "g_memory (file_of ?k img) = None" "\<not> g_handle (file_of ?k img)"
    by (simp_all add: pe_discard_image_def Let_def update_image_def set_file_def the_process_def on_process_def)
  have views: "held ?k = held k - {img}" "with_handle ?k = with_handle k - {img}"
    using others own by (auto simp: held_def with_handle_def) (metis option.distinct(1))+
  have counts: "s_handles (the_process ?k) = (if img \<in> with_handle k then s_handles (the_process k) - 1 else s_handles (the_process k))"
    "s_mapped (the_process ?k) = (s_mapped (the_process k))(img := s_mapped (the_process k) img - image_pages k img)"
    "d_expanded (k_more ?k) = d_expanded (k_more k)"
    using memory
    by (simp_all add: pe_discard_image_def Let_def update_image_def set_file_def with_handle_def held_def image_pages_def
        the_process_def on_process_def fun_eq_iff)
  have "with_handle k \<subseteq> held k"
    using ok by (auto simp: linking_ok_def)
  then have "finite (with_handle k)"
    using img(3) by (rule finite_subset)
  then have "s_handles (the_process ?k) = card (with_handle ?k)"
    using ok counts(1) by (simp add: views linking_ok_def)
  moreover have "image_pages ?k i = (if i = img then 0 else image_pages k i)" for i
    using others by (simp add: image_pages_def views)
  then have "\<forall>i. s_mapped (the_process ?k) i = image_pages ?k i + d_expanded (k_more ?k) i"
    using linking_okD(7) [OF ok] by (simp add: counts)
  moreover have table: "k_table ?k = pe_discard_image_exports img (k_table k)"
    by (simp add: pe_discard_image_def Let_def update_image_def set_file_def)
  moreover note D = linking_okD [OF ok]
  moreover have rest: "set (loaded_images k) \<union> B = held k - {img}" "finite B" "set (loaded_images k) \<inter> B = {}"
    using D(1,3,4) new img(2) by auto
  moreover have "\<forall>x \<in> set (k_table ?k). \<forall>i. t_owner x = Some i \<longrightarrow> i \<in> held ?k"
    using D(9) unfolding table views by (simp add: pe_discard_image_exports_def) blast
  moreover have "\<forall>i \<in> held ?k. i < d_next (k_more ?k)" and "with_handle ?k \<subseteq> held ?k"
    using D(5,8) unfolding views next' by blast+
  ultimately show "linking_ok B ?k"
    unfolding linking_ok_def loaded by (intro conjI) (simp_all only: views D simp_thms)
qed

text \<open>Discarding an image after its expansion leaves the page behind it.\<close>

lemma expanded_page_stays:
  assumes "\<not> g_handle (file_of k img)" and "mapped_pages (g_size (file_of k img)) = s_mapped (the_process k) img"
  shows "s_mapped (the_process (pe_discard_image img (replace_mapping img n base mem k))) img = 1"
  using assms
  by (simp add: pe_discard_image_def replace_mapping_def Let_def update_image_def set_file_def the_process_def on_process_def)

lemma get_nt_thread_context_loaded: "get_nt_thread_context t m = (c, m') \<Longrightarrow> m_loaded m' = m_loaded m"
  by (auto simp: get_nt_thread_context_def calloc_def set_context_def split: option.splits list.splits if_splits)

lemma setup_nt_threadinfo_frame:
  assumes "setup_nt_threadinfo q t handler s = (ok, s')"
  shows "s_file s' = s_file s" "s_handles s' = s_handles s" "s_mapped s' = s_mapped s"
    "m_loaded (s_images s') = m_loaded (s_images s)"
proof -
  let ?s0 = "s\<lparr>s_cpu := (s_cpu s)(t := apply_windows_fpu_state q (s_cpu s t))\<rparr>"
  obtain c x where x: "get_context t ?s0 = (c, x)" by (cases "get_context t ?s0")
  let ?y = "x\<lparr>s_teb := (s_teb x)(t := fill_teb q handler (s_teb x t))\<rparr>"
  obtain a y where y: "ask_os ?y = (a, y)" by (cases "ask_os ?y")
  note fx = get_context_frame [OF x] and fy = ask_os_frame [OF y]
  obtain co m where m: "get_nt_thread_context t (s_images s) = (co, m)"
    by (cases "get_nt_thread_context t (s_images s)")
  then have "s_images (snd (get_context t ?s0)) = m"
    by (simp add: get_context_def Let_def)
  then have "s_images x = m"
    using x by simp
  then have "m_loaded (s_images x) = m_loaded (s_images s)"
    using get_nt_thread_context_loaded [OF m] by simp
  moreover have "s' = x \<or> s' = ?y \<or> s' = y \<or> (\<exists>c. s' = y\<lparr>s_cpu := c\<rparr>)"
    using assms by (auto simp: setup_nt_threadinfo_def Let_def x y split: if_splits)
  ultimately have "s_file s' = s_file s \<and> s_handles s' = s_handles s \<and> s_mapped s' = s_mapped s \<and>
      m_loaded (s_images s') = m_loaded (s_images s)"
    using fx(3-5) fy(1,4-6) by (elim disjE exE) simp_all
  then show "s_file s' = s_file s" "s_handles s' = s_handles s" "s_mapped s' = s_mapped s"
    "m_loaded (s_images s') = m_loaded (s_images s)"
    by blast+
qed

lemma initialize_tls_loaded:
  "pe_initialize_tls_for_current_thread t img r m = (b, m') \<Longrightarrow> m_loaded m' = m_loaded m"
  using get_nt_thread_context_loaded [of t m]
  by (auto simp: pe_initialize_tls_for_current_thread_def Let_def calloc_def set_context_def run_tls_callbacks_def emit_def
      split: prod.splits option.splits if_splits list.splits)

lemma call_entry_loaded [simp]: "m_loaded (call_entry img r m) = m_loaded m"
  by (simp add: call_entry_def emit_def)

lemma begin_loaded: "pe_begin_process_attach t img m = (b, m') \<Longrightarrow> m_loaded m' = m_loaded m"
  by (auto simp: pe_begin_process_attach_def set_attaching_def split: if_splits)

lemma undo_attach_loaded: "m_loaded (undo_attach t img called m) = m_loaded m"
  by (auto simp: undo_attach_def Let_def set_context_def run_tls_callbacks_def emit_def split: option.splits)

lemma finish_loaded:
  "pe_finish_process_attach t img attached called m = (b, m') \<Longrightarrow> m_loaded m' = m_loaded m @ (if b \<and> attached then [img] else [])"
  by (auto simp: pe_finish_process_attach_def Let_def set_attaching_def set_image_def undo_attach_loaded split: if_splits)

text \<open>A step on the images that leaves the list of loaded ones.\<close>

lemma with_images_view:
  assumes "with_images f k = (b, k')" and "\<And>b m'. f (s_images (the_process k)) = (b, m') \<Longrightarrow> m_loaded m' = loaded_images k"
  shows "same_view k k'" and "file_of k' = file_of k"
  using assms by (auto simp: with_images_def same_view_def held_def with_handle_def split: prod.splits)

text \<open>Adding the image to the loaded ones ends its loading.\<close>

lemma finish_ok:
  assumes ok: "linking_ok (insert img B) k" and new: "img \<notin> B"
    and run: "with_images (pe_finish_process_attach t img True called) k = (True, k')"
  shows "progress {} B k k'" and "img \<in> set (loaded_images k')"
proof -
  obtain m where m: "pe_finish_process_attach t img True called (s_images (the_process k)) = (True, m)"
      and k': "k' = on_process (\<lambda>s. s\<lparr>s_images := m\<rparr>) k"
    using run by (auto simp: with_images_def split: prod.splits)
  have loaded: "loaded_images k' = loaded_images k @ [img]"
    using finish_loaded [OF m] by (simp add: k')
  have view: "held k' = held k" "with_handle k' = with_handle k" "file_of k' = file_of k"
    by (simp_all add: k' held_def with_handle_def)
  have pages: "image_pages k' = image_pages k"
    by (simp add: image_pages_def view fun_eq_iff)
  have "linking_ok B k'"
    using ok new unfolding linking_ok_def view loaded pages by (auto simp: k')
  then show "progress {} B k k'" and "img \<in> set (loaded_images k')"
    using loaded view by (auto simp: progress_def k')
qed

lemma attach_process_ok:
  assumes run: "attach_process w img k = (r, k')" and ok: "linking_ok (insert img B) k" and new: "img \<notin> B"
  shows "progress {img} B k k'" and "r \<longleftrightarrow> img \<in> set (loaded_images k')"
proof -
  let ?t = "y_thread w"
  have give_up: "progress {img} B k (pe_discard_image img k1) \<and> img \<notin> set (loaded_images (pe_discard_image img k1))"
    if "same_view k k1" "file_of k1 = file_of k" for k1
  proof -
    have ok1: "linking_ok (insert img B) k1"
      using ok linking_ok_view [OF that(1)] by simp
    then have "img \<notin> set (loaded_images k1)"
      by (simp add: linking_ok_def)
    then show ?thesis
      using discard_ok [OF ok1 new] that by (simp add: progress_def same_view_def)
  qed
  obtain a s where 1: "setup_nt_threadinfo (y_platform w) ?t (Some (y_handler w)) (the_process k) = (a, s)"
    by (metis prod.collapse)
  define k1 where "k1 = on_process (\<lambda>_. s) k"
  obtain b k2 where 2: "with_images (pe_begin_process_attach ?t img) k1 = (b, k2)" by (metis prod.collapse)
  obtain c k3 where 3: "with_images (pe_initialize_tls_for_current_thread ?t img PROCESS_ATTACH) k2 = (c, k3)" by (metis prod.collapse)
  obtain c' k4 where 4: "with_images (pe_finish_process_attach ?t img False False) k3 = (c', k4)" by (metis prod.collapse)
  obtain d k5 where 5: "with_images (\<lambda>m. (True, call_entry img PROCESS_ATTACH m)) k3 = (d, k5)" by (metis prod.collapse)
  define loaded where "loaded = (\<not> i_entry (m_image (s_images (the_process k3)) img) \<or> y_dllmain w img)"
  obtain e k6 where 6: "with_images (pe_finish_process_attach ?t img loaded True) k5 = (e, k6)" by (metis prod.collapse)
  have v1: "same_view k k1" "file_of k1 = file_of k"
    unfolding k1_def using same_view_process [of s k] setup_nt_threadinfo_frame [OF 1] by simp_all
  have v2: "same_view k1 k2" "file_of k2 = file_of k1"
    using with_images_view [OF 2] begin_loaded by blast+
  have v3: "same_view k2 k3" "file_of k3 = file_of k2"
    using with_images_view [OF 3] initialize_tls_loaded by blast+
  have v4: "same_view k3 k4" "file_of k4 = file_of k3"
    using with_images_view [OF 4] finish_loaded by fastforce+
  have v5: "same_view k3 k5" "file_of k5 = file_of k3"
    using with_images_view [OF 5] by auto
  have V: "same_view k k1" "same_view k k2" "same_view k k4" "same_view k k5"
    "file_of k1 = file_of k" "file_of k2 = file_of k" "file_of k4 = file_of k" "file_of k5 = file_of k"
    using v1 v2 v3 v4 v5 same_view_trans by metis+
  have run': "(if \<not> a then (False, pe_discard_image img k1)
      else if \<not> b then (False, pe_discard_image img k2)
      else if \<not> c then (False, pe_discard_image img k4)
      else if \<not> loaded \<or> \<not> e then (False, pe_discard_image img k6) else (True, k6)) = (r, k')"
    using run unfolding attach_process_def Let_def 1 prod.case k1_def [symmetric] 2 3 4 5 loaded_def [symmetric] 6 snd_conv .
  have "progress {img} B k k' \<and> (r \<longleftrightarrow> img \<in> set (loaded_images k'))"
  proof (cases "a \<and> b \<and> c")
    case False
    then have "\<not> r \<and> (k' = pe_discard_image img k1 \<or> k' = pe_discard_image img k2 \<or> k' = pe_discard_image img k4)"
      using run' by (auto split: if_splits)
    then show ?thesis
      using give_up V by (elim conjE disjE) simp_all
  next
    case True
    show ?thesis
    proof (cases "loaded \<and> e")
      case False
      have "same_view k5 k6" "file_of k6 = file_of k5"
        using with_images_view [OF 6] False 6 finish_loaded [of ?t img loaded True "s_images (the_process k5)"]
        by (auto simp: with_images_def split: prod.splits if_splits)
      then have "same_view k k6" "file_of k6 = file_of k"
        using V same_view_trans by metis+
      moreover have "\<not> r" "k' = pe_discard_image img k6"
        using run' True False by auto
      ultimately show ?thesis
        using give_up by simp
    next
      case fine: True
      have ok5: "linking_ok (insert img B) k5"
        using ok linking_ok_view [OF V(4)] by simp
      have "with_images (pe_finish_process_attach ?t img True True) k5 = (True, k6)"
        using 6 fine by simp
      note fin = finish_ok [OF ok5 new this]
      have "r" "k' = k6"
        using run' True fine by auto
      moreover have "progress {img} B k k6"
        using fin(1) V(4,8) by (auto simp: progress_def same_view_def)
      ultimately show ?thesis
        using fin(2) by simp
    qed
  qed
  then show "progress {img} B k k'" and "r \<longleftrightarrow> img \<in> set (loaded_images k')"
    by blast+
qed

subsection \<open>Loading the file\<close>

definition same_others :: "image_id \<Rightarrow> process \<Rightarrow> process \<Rightarrow> bool" where
  "same_others img s s' \<longleftrightarrow> (\<forall>i. i \<noteq> img \<longrightarrow> s_file s' i = s_file s i) \<and> m_loaded (s_images s') = m_loaded (s_images s)"

lemma same_others_trans: "same_others img s s' \<Longrightarrow> same_others img s' s'' \<Longrightarrow> same_others img s s''"
  by (simp add: same_others_def)

lemma same_others_simps [simp]:
  "same_others img s s"
  "same_others img s (s'\<lparr>s_os := os'\<rparr>) = same_others img s s'"
  "same_others img s (s'\<lparr>s_handles := n\<rparr>) = same_others img s s'"
  "same_others img s (map_pages img n s') = same_others img s s'"
  "same_others img s (unmap_pages img n s') = same_others img s s'"
  "same_others img s (s'\<lparr>s_file := (s_file s')(img := g)\<rparr>) = same_others img s s'"
  by (auto simp: same_others_def)

lemma ask_os_others: "ask_os s = (a, s') \<Longrightarrow> same_others img s s'"
  by (simp add: same_others_def ask_os_frame)

lemma setup_thread_others: "setup_thread q t s = (ok, s') \<Longrightarrow> same_others img s s'"
  using setup_nt_threadinfo_frame [of q t None s] ask_os_frame
  by (auto simp: setup_thread_def setup_kuser_shared_data_def same_others_def split: prod.splits if_splits)

lemma load_sidecar_others:
  assumes run: "load_sidecar dlopen q t path filename img s = (ok, s')"
  shows "same_others img s s'"
proof (cases "case os_name (s_os s) path of None \<Rightarrow> None | Some i \<Rightarrow> dlopen (os_data (s_os s) i)")
  case None
  then show ?thesis
    using run by (auto simp: load_sidecar_def)
next
  case (Some k)
  obtain r os1 where 1: "sidecar_matches_pe k filename (s_os s) = (r, os1)"
    by (cases "sidecar_matches_pe k filename (s_os s)")
  let ?s1 = "s\<lparr>s_handles := Suc (s_handles s), s_os := os1\<rparr>"
  obtain a s2 where 2: "ask_os ?s1 = (a, s2)"
    by (cases "ask_os ?s1")
  have o2: "same_others img s s2"
    using ask_os_others [OF 2, of img] by (simp add: same_others_def)
  show ?thesis
  proof (cases "\<exists>start stop. r \<and> k_base k = Some start \<and> k_end k = Some stop \<and> start < stop \<and> succeeds a")
    case False
    then have "s' = ?s1\<lparr>s_handles := s_handles s\<rparr> \<or> s' = s2\<lparr>s_handles := s_handles s2 - 1\<rparr>"
      using run by (auto simp: load_sidecar_def Some 1 2 Let_def not_less split: option.splits if_splits)
    then show ?thesis
      using o2 by auto
  next
    case True
    then obtain start stop where k: "r" "k_base k = Some start" "k_end k = Some stop" "start < stop" "succeeds a"
      by blast
    define pf where "pf = (s_file s2 img)\<lparr>g_memory := Some (take (unat (stop - start)) (k_memory k)),
                                  g_size := unat (stop - start), g_base := start, g_handle := True\<rparr>"
    let ?s3 = "s2\<lparr>s_file := (s_file s2)(img := pf)\<rparr>"
    obtain r4 s4 where 4: "setup_thread q t ?s3 = (r4, s4)"
      by (cases "setup_thread q t ?s3")
    have "same_others img s s4"
      using setup_thread_others [OF 4, of img] o2 same_others_trans by (simp add: same_others_def)
    moreover have "s' = (if r4 then s4 else
        s4\<lparr>s_handles := s_handles s4 - 1, s_file := (s_file s4)(img := pf\<lparr>g_memory := None, g_size := 0, g_handle := False\<rparr>)\<rparr>)"
      using run k 4 by (auto simp: load_sidecar_def Some 1 2 pf_def Let_def not_less split: if_splits)
    ultimately show ?thesis
      by (simp add: same_others_def)
  qed
qed

lemma load_raw_pe_others:
  assumes run: "load_raw_pe q base t filename img s = (ok, s')"
  shows "same_others img s s'"
proof -
  obtain a1 s1 where 1: "ask_os s = (a1, s1)" by (cases "ask_os s")
  obtain a2 s2 where 2: "ask_os s1 = (a2, s2)" by (cases "ask_os s1")
  obtain a3 s3 where 3: "ask_os s2 = (a3, s3)" by (cases "ask_os s2")
  have o: "same_others img s s1" "same_others img s s2" "same_others img s s3"
    using ask_os_others 1 2 3 same_others_trans by metis+
  show ?thesis
  proof (cases "os_name (s_os s1) filename = None \<or> \<not> succeeds a1 \<or> \<not> succeeds a2 \<or> \<not> succeeds a3")
    case True
    then have "s' = s1 \<or> s' = s2 \<or> (\<exists>n. s' = s3\<lparr>s_file := (s_file s3)(img := (s_file s3 img)\<lparr>g_memory := None, g_size := n\<rparr>)\<rparr>)"
      using run by (auto simp: load_raw_pe_def Let_def 1 2 3 split: option.splits if_splits)
    then show ?thesis
      using o by auto
  next
    case False
    then obtain fd where fd: "os_name (s_os s1) filename = Some fd" and ok: "succeeds a1" "succeeds a2" "succeeds a3"
      by auto
    let ?n = "length (os_data (s_os s3) fd)"
    define pf where "pf = (s_file s3 img)\<lparr>g_memory := Some (os_data (s_os s3) fd), g_size := ?n, g_base := base\<rparr>"
    let ?s4 = "map_pages img ?n (s3\<lparr>s_file := (s_file s3)(img := pf)\<rparr>)"
    obtain r5 s5 where 5: "setup_thread q t ?s4 = (r5, s5)"
      by (cases "setup_thread q t ?s4")
    have "same_others img s s5"
      using setup_thread_others [OF 5, of img] o(3) same_others_trans by (simp add: same_others_def)
    moreover have "s' = (if r5 then s5 else
        (unmap_pages img ?n s5)\<lparr>s_file := (s_file s5)(img := pf\<lparr>g_memory := None, g_size := 0\<rparr>)\<rparr>)"
      using run ok 5 fd ask_os_frame(7) [OF 1] ask_os_frame(7) [OF 2] ask_os_frame(7) [OF 3]
      by (auto simp: load_raw_pe_def Let_def 1 2 3 pf_def same_files_def split: if_splits)
    ultimately show ?thesis
      by (simp add: same_others_def)
  qed
qed

text \<open>One handle or the pages of one mapping for the image, or nothing.\<close>

definition holds :: "bool \<Rightarrow> image_id \<Rightarrow> process \<Rightarrow> process \<Rightarrow> bool" where
  "holds ok img s s' \<longleftrightarrow> same_others img s s' \<and>
     (if ok then g_memory (s_file s' img) \<noteq> None \<and>
        s_handles s' = (if g_handle (s_file s' img) then s_handles s + 1 else s_handles s) \<and>
        s_mapped s' = (if g_handle (s_file s' img) then s_mapped s
          else (s_mapped s)(img := s_mapped s img + mapped_pages (g_size (s_file s' img))))
      else unloaded img s s')"

lemma holds_False: "holds False img s s' \<longleftrightarrow> same_others img s s' \<and> unloaded img s s'"
  by (simp add: holds_def)

lemma load_sidecar_holds:
  assumes "load_sidecar dlopen q t path filename img s = (ok, s')" and "unloaded img s0 s" and "same_others img s0 s"
  shows "holds ok img s0 s'"
  using load_sidecar_spec [OF assms(1)] load_sidecar_others [OF assms(1)] assms(2,3) same_others_trans
  by (cases ok) (auto simp: holds_def unloaded_def loaded_from_sidecar_def)

lemma load_raw_pe_holds:
  assumes "load_raw_pe q base t filename img s = (ok, s')" and "unloaded img s0 s" and "same_others img s0 s"
  shows "holds ok img s0 s'"
  using load_raw_pe_spec [OF assms(1)] load_raw_pe_others [OF assms(1)] assms(2,3) same_others_trans
  by (cases ok) (auto simp: holds_def unloaded_def loaded_raw_def)

lemma pe_load_library_holds:
  assumes run: "pe_load_library dlopen q base suffix t filename sidecar_path img s = (ok, s')"
  shows "holds ok img s s'"
proof -
  define sidecar where "sidecar = (if sidecar_path = Some '''' then None else sidecar_path)"
  define s1 where "s1 = reset_image img sidecar s"
  have s1: "unloaded img s s1" "same_others img s s1"
    by (simp_all add: s1_def reset_image_def unloaded_def same_others_def set_image_def)
  show ?thesis
  proof (cases sidecar)
    case None
    then have "load_raw_pe q base t filename img s1 = (ok, s')"
      using run by (simp add: pe_load_library_def Let_def s1_def flip: sidecar_def)
    then show ?thesis
      using load_raw_pe_holds s1 by blast
  next
    case (Some path)
    obtain a s2 where 2: "ask_os s1 = (a, s2)" by (cases "ask_os s1")
    have s2: "unloaded img s s2" "same_others img s s2"
      using s1 ask_os_frame [OF 2] ask_os_others [OF 2, of img] same_others_trans by (auto simp: unloaded_def)
    obtain r3 s3 where 3: "(if succeeds a \<and> os_name (s_os s2) path \<noteq> None
               then load_sidecar dlopen q t path filename img s2 else (False, s2)) = (r3, s3)"
      by (metis prod.collapse)
    have h3: "holds r3 img s s3"
      using 3 load_sidecar_holds [OF _ s2] s2 by (auto simp: holds_False split: if_splits)
    obtain r4 os4 where 4: "generate_sidecar suffix filename path (s_os s3) = (r4, os4)" by (metis prod.collapse)
    define s4 where "s4 = s3\<lparr>s_os := os4\<rparr>"
    obtain r5 s5 where 5: "(if r4 then load_sidecar dlopen q t path filename img s4 else (False, s4)) = (r5, s5)"
      by (metis prod.collapse)
    have res: "(ok, s') = (if r3 then (True, s3) else if r5 then (True, s5) else load_raw_pe q base t filename img s5)"
      using run [unfolded pe_load_library_def Let_def, folded sidecar_def, folded s1_def, unfolded Some option.case 2 prod.case 3,
          unfolded prod.case 4, unfolded prod.case, folded s4_def, unfolded 5 prod.case]
      by (cases r3; cases r5) simp_all
    show ?thesis
    proof (cases r3)
      case True
      then show ?thesis
        using res h3 by simp
    next
      case False
      then have s4: "unloaded img s s4" "same_others img s s4"
        using h3 by (simp_all add: holds_def s4_def unloaded_def)
      then have h5: "holds r5 img s s5"
        using 5 load_sidecar_holds [OF _ s4] by (auto simp: holds_False split: if_splits)
      show ?thesis
      proof (cases r5)
        case True
        then show ?thesis
          using res h5 False by simp
      next
        case no: False
        then have "load_raw_pe q base t filename img s5 = (ok, s')"
          using res False by simp
        then show ?thesis
          using load_raw_pe_holds [of q base t filename img s5 ok s' s] h5 no by (simp add: holds_def)
      qed
    qed
  qed
qed

text \<open>The new image counts as being loaded from here on.\<close>

lemma load_library_ok:
  assumes hold: "holds ok img (the_process k) s" and inv: "linking_ok B k" and "img \<notin> held k" and "img < d_next (k_more k)"
  shows "linking_ok (if ok then insert img B else B) (on_process (\<lambda>_. s) k)"
    and "loaded_images (on_process (\<lambda>_. s) k) = loaded_images k"
proof -
  let ?k = "on_process (\<lambda>_. s) k"
  note D = linking_okD [OF inv]
  have others: "s_file s i = file_of k i" if "i \<noteq> img" for i
    using hold that by (simp add: holds_def same_others_def)
  show loaded: "loaded_images ?k = loaded_images k"
    using hold by (simp add: holds_def same_others_def)
  have finite: "finite (held k)" "finite (with_handle k)"
    using D(1,3,5) finite_subset by auto
  have fresh: "img \<notin> with_handle k" "img \<notin> B" "img \<notin> set (loaded_images k)"
    using D(3,5) assms(3) by auto
  show "linking_ok (if ok then insert img B else B) ?k"
  proof (cases ok)
    case False
    then have "g_memory (s_file s img) = None" "\<not> g_handle (s_file s img)"
      using hold by (simp_all add: holds_def unloaded_def)
    then have views: "held ?k = held k" "with_handle ?k = with_handle k"
      using others assms(3) fresh(1) by (auto simp: held_def with_handle_def) (metis option.distinct(1))+
    then have "image_pages ?k i = image_pages k i" for i
      using others assms(3) by (cases "i = img") (simp_all add: image_pages_def)
    then show ?thesis
      using False hold D loaded views unfolding linking_ok_def by (simp add: holds_def unloaded_def)
  next
    case True
    then have memory: "g_memory (s_file s img) \<noteq> None"
      using hold by (simp add: holds_def)
    have views: "held ?k = insert img (held k)" "with_handle ?k = (if g_handle (s_file s img) then insert img (with_handle k) else with_handle k)"
      using others memory fresh(1) by (auto simp: held_def with_handle_def) (metis option.distinct(1))+
    have "s_handles s = card (with_handle ?k)"
      using True hold D(6) finite(2) fresh(1) unfolding views by (simp add: holds_def)
    moreover have "image_pages ?k i = (if i = img \<and> \<not> g_handle (s_file s img) then mapped_pages (g_size (s_file s img)) else image_pages k i)" for i
      using assms(3) fresh(1) others by (auto simp: image_pages_def views)
    then have "\<forall>i. s_mapped s i = image_pages ?k i + d_expanded (k_more ?k) i"
      using True hold D(7) assms(3) by (auto simp: holds_def image_pages_def)
    moreover have "with_handle ?k \<subseteq> held ?k" "\<forall>i \<in> held ?k. i < d_next (k_more ?k)"
      using D(5,8) assms(4) by (auto simp: views)
    moreover have "\<forall>x \<in> set (k_table ?k). \<forall>i. t_owner x = Some i \<longrightarrow> i \<in> held ?k"
      using D(9) by (simp add: views)
    moreover have "held ?k = set (loaded_images k) \<union> insert img B" "set (loaded_images k) \<inter> insert img B = {}" "finite (insert img B)"
      using D(1,3,4) fresh by (auto simp: views)
    ultimately show ?thesis
      using True D(2) unfolding linking_ok_def loaded by simp
  qed
qed

subsection \<open>Loading with imports\<close>

lemma progress_comp:
  assumes "progress own B k k'" and "progress own B' k' k''" and "held k \<subseteq> held k'"
  shows "progress own B' k k''"
  using assms unfolding progress_def by (metis (no_types, lifting) Diff_iff order_trans subsetD)

lemma register_library_owner:
  "x \<in> set (snd (register_windows_library_functions address registered table)) \<Longrightarrow> x \<in> set table \<or> t_owner x = None"
proof -
  have "x \<in> set (fold (\<lambda>(dll, name, f). register_function (Some dll) name (address f) None) rs table) \<Longrightarrow>
    x \<in> set table \<or> t_owner x = None" for rs
    by (induction rs arbitrary: table) (fastforce simp: register_function_def split: if_splits)+
  then show "x \<in> set (snd (register_windows_library_functions address registered table)) \<Longrightarrow> x \<in> set table \<or> t_owner x = None"
    by (auto simp: register_windows_library_functions_def split: if_splits)
qed

text \<open>Another counter or flag, and a table without new owners.\<close>

lemma linking_ok_more:
  assumes "linking_ok B k" and "the_process k' = the_process k" and "d_next (k_more k) \<le> d_next (k_more k')"
    and "\<And>x i. x \<in> set (k_table k') \<Longrightarrow> t_owner x = Some i \<Longrightarrow> i \<in> held k" and "d_expanded (k_more k') = d_expanded (k_more k)"
  shows "linking_ok B k'"
proof -
  have "held k' = held k" "with_handle k' = with_handle k"
    using assms(2) by (simp_all add: held_def with_handle_def)
  moreover have "\<forall>i \<in> held k. i < d_next (k_more k')"
    using linking_okD(8) [OF assms(1)] assms(3) by fastforce
  ultimately show ?thesis
    using linking_okD [OF assms(1)] assms(2,4,5) unfolding linking_ok_def by (simp add: image_pages_def)
qed

lemma progress_more:
  assumes "linking_ok B k" and "the_process k' = the_process k" and "d_next (k_more k) \<le> d_next (k_more k')"
    and "\<And>x i. x \<in> set (k_table k') \<Longrightarrow> t_owner x = Some i \<Longrightarrow> i \<in> held k" and "d_expanded (k_more k') = d_expanded (k_more k)"
    and "k_attempted k' = k_attempted k"
  shows "progress own B k k'"
  using linking_ok_more [OF assms(1-5)] assms(2,3,6) by (simp add: progress_def)

text \<open>The load of a sibling, as \<open>load_dll\<close> passes it to the linker; the stages before linking.\<close>

definition nested_load :: "nat \<Rightarrow> world \<Rightarrow> string \<Rightarrow> string option \<Rightarrow> linking \<Rightarrow> bool \<times> linking" where
  "nested_load n w = (\<lambda>path sidecar k. load_dll n w (d_next (k_more k)) path sidecar
                        (k\<lparr>k_more := (k_more k)\<lparr>d_next := d_next (k_more k) + 1\<rparr>\<rparr>))"

lemma load_dll_stages:
  assumes run: "load_dll (Suc n) w img name sidecar k = (r, k')" and inv: "linking_ok B k" and fresh: "img \<notin> held k"
    and "img < d_next (k_more k)"
  obtains ok k1 where "progress {img} (if ok then insert img B else B) k k1" and "held k \<subseteq> held k1"
    and "k_attempted k1 = k_attempted k" and "d_exhausted (k_more k1) = d_exhausted (k_more k)" and "img \<notin> set (loaded_images k1)"
    and "(if \<not> ok then (False, k1) else case link_pe_images w (nested_load n w) img name k1 of
      (linked, k2) \<Rightarrow> if \<not> linked then (False, pe_discard_image img k2) else attach_process w img k2) = (r, k')"
proof (cases "y_cpu w")
  case False
  have "img \<notin> set (loaded_images k)"
    using fresh linking_okD(3) [OF inv] by simp
  then show ?thesis
    using False run progress_refl [OF inv] by (intro that [of False k]) simp_all
next
  case cpu: True
  note D = linking_okD [OF inv]
  obtain registered table where 0: "register_windows_library_functions (y_address w) (d_registered (k_more k)) (k_table k) = (registered, table)"
    by (metis prod.collapse)
  define k0 where "k0 = k\<lparr>k_table := table, k_more := (k_more k)\<lparr>d_registered := registered\<rparr>\<rparr>"
  have same0: "the_process k0 = the_process k" "d_next (k_more k0) = d_next (k_more k)" "k_attempted k0 = k_attempted k"
      "d_exhausted (k_more k0) = d_exhausted (k_more k)" "d_expanded (k_more k0) = d_expanded (k_more k)"
    by (simp_all add: k0_def the_process_def)
  have "i \<in> held k" if "x \<in> set (k_table k0)" "t_owner x = Some i" for x i
    using register_library_owner [of x "y_address w" "d_registered (k_more k)" "k_table k"] that 0 D(9) by (auto simp: k0_def)
  then have inv0: "linking_ok B k0"
    using same0 by (auto intro: linking_ok_more [OF inv])
  have held0: "held k0 = held k"
    using same0 by (simp add: held_def)
  obtain ok s where 1: "pe_load_library (y_linker w) (y_platform w) (y_base w img) (y_suffix w) (y_thread w) name sidecar img (the_process k0) = (ok, s)"
    by (metis prod.collapse)
  define k1 where "k1 = on_process (\<lambda>_. s) k0"
  have holds: "holds ok img (the_process k0) s"
    using 1 by (rule pe_load_library_holds)
  note lib = load_library_ok [OF holds inv0, folded k1_def, unfolded held0 same0, OF fresh assms(4)]
  have files1: "file_of k1 i = file_of k0 i" if "i \<noteq> img" for i
    using holds that by (simp add: k1_def holds_def same_others_def)
  show ?thesis
  proof (rule that [of ok k1])
    show "progress {img} (if ok then insert img B else B) k k1"
      using lib files1 same0 by (auto simp: progress_def k1_def)
    show "held k \<subseteq> held k1"
      using files1 same0(1) fresh by (auto simp: held_def) (metis option.distinct(1))
    show "k_attempted k1 = k_attempted k" "d_exhausted (k_more k1) = d_exhausted (k_more k)"
      using same0(3,4) by (simp_all add: k1_def)
    show "img \<notin> set (loaded_images k1)"
      using lib(2) same0 D(3) fresh by simp
    show "(if \<not> ok then (False, k1) else case link_pe_images w (nested_load n w) img name k1 of
      (linked, k2) \<Rightarrow> if \<not> linked then (False, pe_discard_image img k2) else attach_process w img k2) = (r, k')"
      using run [unfolded load_dll.simps Let_def 0 prod.case, folded k0_def, unfolded 1 prod.case,
          folded k1_def nested_load_def] cpu by simp
  qed
qed

lemma nested_load_ok:
  assumes load: "\<And>img name sidecar k r k'. load_dll n w img name sidecar k = (r, k') \<Longrightarrow> linking_ok B k \<Longrightarrow>
      img \<notin> held k \<Longrightarrow> img < d_next (k_more k) \<Longrightarrow> progress {} B k k'"
  shows "loads_ok (nested_load n w) B"
  unfolding loads_ok_def
proof (intro allI impI)
  fix path sc and k :: linking
  assume ok: "linking_ok B k"
  let ?k = "k\<lparr>k_more := (k_more k)\<lparr>d_next := d_next (k_more k) + 1\<rparr>\<rparr>"
  note E = linking_okD [OF ok]
  have step: "progress {} B k ?k"
    using E(9) by (intro progress_more [OF ok]) (auto simp: the_process_def)
  have "d_next (k_more k) \<notin> held ?k"
    using E(8) by (auto simp: held_def the_process_def)
  then have "progress {} B ?k (snd (nested_load n w path sc k))"
    using load [of "d_next (k_more k)" path sc ?k] progress_ok [OF step]
    by (auto simp: nested_load_def intro: prod.collapse [symmetric])
  then show "progress {} B k (snd (nested_load n w path sc k))"
    using step progress_trans ok by blast
qed

lemma load_dll_ok:
  assumes "load_dll n w img name sidecar k = (r, k')" and "linking_ok B k" and "img \<notin> held k" and "img < d_next (k_more k)"
  shows "progress {} B k k' \<and> (r \<longleftrightarrow> img \<in> set (loaded_images k'))"
  using assms
proof (induction n arbitrary: img name sidecar k r k' B)
  case 0
  note D = linking_okD [OF "0.prems"(2)]
  have "progress {} B k k'" "loaded_images k' = loaded_images k" "\<not> r"
    using "0.prems"(1) D(9) by (auto intro!: progress_more [OF "0.prems"(2)])
  then show ?case
    using "0.prems"(3) D(3) by auto
next
  case (Suc n)
  note fresh = Suc.prems(3)
  have new: "img \<notin> B"
    using linking_okD(3) [OF Suc.prems(2)] fresh by auto
  from load_dll_stages [OF Suc.prems] obtain ok k1 where
      p1: "progress {img} (if ok then insert img B else B) k k1" and held1: "held k \<subseteq> held k1" and new1: "img \<notin> set (loaded_images k1)"
    and run: "(if \<not> ok then (False, k1) else case link_pe_images w (nested_load n w) img name k1 of
      (linked, k2) \<Rightarrow> if \<not> linked then (False, pe_discard_image img k2) else attach_process w img k2) = (r, k')"
    by blast
  have "progress {img} B k k' \<and> (r \<longleftrightarrow> img \<in> set (loaded_images k'))"
  proof (cases ok)
    case False
    then show ?thesis
      using run p1 new1 by simp
  next
    case True
    have p1: "progress {img} (insert img B) k k1"
      using p1 True by simp
    obtain linked k2 where 2: "link_pe_images w (nested_load n w) img name k1 = (linked, k2)"
      by (metis prod.collapse)
    have loads: "loads_ok (nested_load n w) (insert img B)"
      using Suc.IH by (blast intro: nested_load_ok)
    have p2: "progress {img} (insert img B) k1 k2"
      using link_progress [OF 2 progress_ok [OF p1] _ loads] by simp
    note inv2 = progress_ok [OF p2]
    have "progress {img} B k2 k' \<and> (r \<longleftrightarrow> img \<in> set (loaded_images k'))"
    proof (cases linked)
      case False
      then have "k' = pe_discard_image img k2" "\<not> r"
        using run True 2 by auto
      moreover have "img \<notin> set (loaded_images k2)"
        using linking_okD(4) [OF inv2] by auto
      ultimately show ?thesis
        using discard_ok [OF inv2 new] by (auto simp: progress_def)
    next
      case linked: True
      then have "attach_process w img k2 = (r, k')"
        using run True 2 by simp
      from attach_process_ok [OF this inv2 new] show ?thesis
        by blast
    qed
    moreover have "held k \<subseteq> held k2"
      using held1 progress_held [OF progress_ok [OF p1] p2] by blast
    moreover have "progress {img} (insert img B) k k2"
      using p1 p2 held1 progress_comp by blast
    ultimately show ?thesis
      using progress_comp by blast
  qed
  then show ?case
    using fresh by (auto simp: progress_def)
qed

end
