(* ===== verification/Loader_Fuel.thy ===== *)
theory Loader_Fuel
  imports Loader_Dll
begin

text \<open>
  The recursion of \<open>load_dll\<close> (\<open>src/src/dll_loader.cpp\<close>) ends: \<open>load_sibling_import\<close> of
  \<open>src/src/pe_loader.cpp\<close> tries every module once, so the depth is bounded by the number of modules.
\<close>

section \<open>Enough fuel\<close>

text \<open>
  Every nested load appends a module that was not tried before. When the readable siblings are among
  the modules \<open>mods\<close>, the depth of the recursion is at most their number.
\<close>

definition unattempted :: "string list \<Rightarrow> linking \<Rightarrow> nat" where
  "unattempted mods k = length (filter (\<lambda>a. \<not> list_ex (\<lambda>b. same_name b a) (k_attempted k)) mods)"

abbreviation exhausted :: "linking \<Rightarrow> bool" where
  "exhausted k \<equiv> d_exhausted (k_more k)"

lemma length_filter_mono: "(\<And>x. x \<in> set xs \<Longrightarrow> P x \<Longrightarrow> Q x) \<Longrightarrow> length (filter P xs) \<le> length (filter Q xs)"
  by (induction xs) (auto intro: le_SucI)

lemma length_filter_strict:
  "(\<And>x. x \<in> set xs \<Longrightarrow> P x \<Longrightarrow> Q x) \<Longrightarrow> y \<in> set xs \<Longrightarrow> Q y \<Longrightarrow> \<not> P y \<Longrightarrow> length (filter P xs) < length (filter Q xs)"
proof (induction xs)
  case (Cons x xs)
  show ?case
  proof (cases "x = y")
    case True
    have "length (filter P xs) \<le> length (filter Q xs)"
      using Cons.prems(1) by (intro length_filter_mono) simp
    then show ?thesis
      using True Cons.prems(3,4) by simp
  next
    case False
    then show ?thesis
      using Cons.IH Cons.prems by (auto simp: less_SucI)
  qed
qed simp

lemma unattempted_mono: "set (k_attempted k) \<subseteq> set (k_attempted k') \<Longrightarrow> unattempted mods k' \<le> unattempted mods k"
  unfolding unattempted_def by (rule length_filter_mono) (auto simp: list_ex_iff)

lemma unattempted_append:
  assumes "list_ex (\<lambda>a. same_name dll a) mods" and "\<not> list_ex (\<lambda>b. same_name b dll) (k_attempted k)"
  shows "unattempted mods (k\<lparr>k_attempted := k_attempted k @ [dll]\<rparr>) < unattempted mods k"
proof -
  obtain a where a: "a \<in> set mods" "same_name dll a"
    using assms(1) by (auto simp: list_ex_iff)
  then have "\<not> list_ex (\<lambda>b. same_name b a) (k_attempted k)"
    using assms(2) same_name_trans same_name_sym by (auto simp: list_ex_iff)
  then show ?thesis
    unfolding unattempted_def using a by (intro length_filter_strict [where y = a]) auto
qed

definition loads_end :: "(string \<Rightarrow> string option \<Rightarrow> linking \<Rightarrow> bool \<times> linking) \<Rightarrow> image_id set \<Rightarrow> string list \<Rightarrow> nat \<Rightarrow> bool" where
  "loads_end load B mods m \<longleftrightarrow> (\<forall>path sidecar k. linking_ok B k \<longrightarrow> unattempted mods k < m \<longrightarrow>
     exhausted (snd (load path sidecar k)) = exhausted k)"

definition siblings_among :: "world \<Rightarrow> string list \<Rightarrow> bool" where
  "siblings_among w mods \<longleftrightarrow> (\<forall>name dll. y_readable w (sibling_path name dll) \<longrightarrow> list_ex (\<lambda>a. same_name dll a) mods)"

lemma load_sibling_ends:
  assumes run: "load_sibling_import (y_readable w) load name sidecar dll k = (r, k')" and ok: "linking_ok B k"
    and "loads_end load B mods m" and "siblings_among w mods" and "unattempted mods k \<le> m"
  shows "exhausted k' = exhausted k"
proof -
  let ?k = "k\<lparr>k_attempted := k_attempted k @ [dll]\<rparr>"
  have ok1: "linking_ok B ?k"
    using ok linking_ok_cong [of ?k k] by (simp add: held_def with_handle_def)
  have read: "exhausted (snd (load path sc ?k)) = exhausted k"
    if "y_readable w (sibling_path name dll)" "\<not> list_ex (\<lambda>b. same_name b dll) (k_attempted k)" for path sc
  proof -
    have "unattempted mods ?k < m"
      using unattempted_append [OF _ that(2), of mods] that(1) assms(4,5) unfolding siblings_among_def by fastforce
    then show ?thesis
      using assms(3) ok1 by (simp add: loads_end_def)
  qed
  consider "k' = k" | "k' = ?k" | path sc where "y_readable w (sibling_path name dll)"
      "\<not> list_ex (\<lambda>b. same_name b dll) (k_attempted k)" "load path sc ?k = (r, k')"
    using run by (auto simp: load_sibling_import_def Let_def split: if_splits)
  then show ?thesis
  proof cases
    case (3 path sc)
    then show ?thesis
      using read [OF 3(1,2), of path sc] by (simp only: snd_conv)
  qed simp_all
qed

lemma exhausted_simps [simp]:
  "exhausted (set_memory img m k) = exhausted k" "exhausted (set_file img f k) = exhausted k"
  "exhausted (update_image img g k) = exhausted k" "exhausted (k\<lparr>k_table := t\<rparr>) = exhausted k"
  "exhausted (k\<lparr>k_more := (k_more k)\<lparr>d_tls := x\<rparr>\<rparr>) = exhausted k"
  "exhausted (pe_discard_image img k) = exhausted k" "exhausted (replace_mapping img n base mem k) = exhausted k"
  by (simp_all add: replace_mapping_def set_memory_def set_file_def update_image_def pe_discard_image_def Let_def)

lemma attempted_simps [simp]:
  "k_attempted (set_memory img m k) = k_attempted k" "k_attempted (set_file img f k) = k_attempted k"
  "k_attempted (replace_mapping img n base mem k) = k_attempted k"
  by (simp_all add: replace_mapping_def Let_def set_memory_def set_file_def)

lemma import_descriptors_end:
  assumes "import_descriptors w load img name limit pos k = (r, k')" and "linking_ok B k" and "img \<in> B" and "loads_ok load B"
    and "loads_end load B mods m" and "siblings_among w mods" and "unattempted mods k \<le> m"
  shows "exhausted k' = exhausted k"
  using assms
proof (induction w load img name limit pos k arbitrary: r k' rule: import_descriptors.induct)
  case (1 w load img name limit pos k)
  show ?case
  proof (cases "pos + 20 \<le> limit \<and> (\<exists>name_rva dll. peek 4 (image_memory img k) (pos + 12) = Inr name_rva \<and> name_rva \<noteq> 0 \<and>
      read_cstring (image_memory img k) name_rva = Inr dll)")
    case False
    then have "k' = k \<or> k' = faulted k"
      using "1.prems"(1) by (auto simp: import_descriptors.simps [of w load img] split: sum.splits if_splits)
    then show ?thesis
      by auto
  next
    case True
    then obtain name_rva dll where entry: "\<not> limit < pos + 20" "peek 4 (image_memory img k) (pos + 12) = Inr name_rva"
        "name_rva \<noteq> 0" "read_cstring (image_memory img k) name_rva = Inr dll"
      by (auto simp: not_less)
    obtain loaded k1 where 1: "load_sibling_import (y_readable w) load name (g_sidecar_path (file_of k img)) dll k = (loaded, k1)"
      by (cases "load_sibling_import (y_readable w) load name (g_sidecar_path (file_of k img)) dll k")
    have p1: "progress {} B k k1"
      using load_sibling_progress [OF 1 "1.prems"(2,4)] .
    have e1: "exhausted k1 = exhausted k"
      using load_sibling_ends [OF 1 "1.prems"(2,5,6,7)] .
    have run: "(if \<not> loaded then (False, k1)
             else case process_import_descriptor (y_stubs w) dll (k_table k1) pos (image_memory img k1) of
               Inl e \<Rightarrow> (False, faulted k1)
             | Inr mem \<Rightarrow> import_descriptors w load img name limit (pos + 20) (set_memory img mem k1)) = (r, k')"
      using "1.prems"(1) entry 1 by (simp add: import_descriptors.simps [of w load img name limit pos k])
    show ?thesis
    proof (cases "loaded \<and> (\<exists>mem. process_import_descriptor (y_stubs w) dll (k_table k1) pos (image_memory img k1) = Inr mem)")
      case False
      then have "k' = k1 \<or> k' = faulted k1"
        using run by (auto split: sum.splits if_splits)
      then show ?thesis
        using e1 by auto
    next
      case True
      then obtain mem where mem: "loaded" "process_import_descriptor (y_stubs w) dll (k_table k1) pos (image_memory img k1) = Inr mem"
        by blast
      have own: "progress {img} B k1 (set_memory img mem k1)"
        using progress_own [OF progress_ok [OF p1] "1.prems"(3)] .
      have rest: "import_descriptors w load img name limit (pos + 20) (set_memory img mem k1) = (r, k')"
        using run mem by simp
      have "unattempted mods (set_memory img mem k1) \<le> m"
        using p1 unattempted_mono [of k "set_memory img mem k1" mods] "1.prems"(7) by (simp add: progress_def)
      from "1.IH" [OF entry 1 [symmetric] _ mem(2) rest progress_ok [OF own] "1.prems"(3-6) this] mem(1) e1
      show ?thesis
        by simp
    qed
  qed
qed

lemma with_images_exhausted: "with_images f k = (b, k') \<Longrightarrow> exhausted k' = exhausted k"
  by (auto simp: with_images_def split: prod.splits)

lemma attach_process_exhausted: "exhausted (snd (attach_process w img k)) = exhausted k"
  unfolding attach_process_def Let_def
  by (auto split: prod.splits dest!: with_images_exhausted) (auto simp: with_images_def split: prod.splits)

lemma prepare_image_exhausted:
  assumes "prepare_image w img name k = (r, k')"
  shows "exhausted k' = exhausted k" and "k_attempted k' = k_attempted k"
proof -
  have "exhausted k1 = exhausted k \<and> k_attempted k1 = k_attempted k" if "expand_image w img p h k = (r1, k1)" for p h r1 k1
    using that by (auto simp: expand_image_def Let_def split: sum.splits prod.splits if_splits)
  then have "exhausted k' = exhausted k \<and> k_attempted k' = k_attempted k"
    using assms unfolding prepare_image_def by (auto split: sum.splits option.splits prod.splits)
  then show "exhausted k' = exhausted k" and "k_attempted k' = k_attempted k"
    by simp_all
qed

lemma set_up_tls_exhausted: "exhausted (snd (set_up_tls img p k)) = exhausted k"
  by (auto simp: set_up_tls_def Let_def split: sum.splits option.splits prod.splits)

lemma link_end:
  assumes run: "link_pe_images w load img name k = (r, k')" and ok: "linking_ok B k" and B: "img \<in> B" and "loads_ok load B"
    and "loads_end load B mods m" and "siblings_among w mods" and "unattempted mods k \<le> m"
  shows "exhausted k' = exhausted k"
proof -
  obtain r1 k1 where 1: "prepare_image w img name k = (r1, k1)"
    by (cases "prepare_image w img name k")
  note p1 = prepare_image_progress [OF 1 ok B] and e1 = prepare_image_exhausted [OF 1]
  consider "k' = k1 \<or> k' = faulted k1" | p mem where
      "(case fixup_imports w load img name p (set_memory img mem k1) of
             (ok, k) \<Rightarrow> if \<not> ok then (False, k)
             else set_up_tls img p (update_image img (\<lambda>i. i\<lparr>i_entry := True\<rparr>) k)) = (r, k')"
    using run by (auto simp: link_pe_images_def 1 split: option.splits sum.splits)
  then show ?thesis
  proof cases
    case 1
    then show ?thesis using e1 by auto
  next
    case (2 p mem)
    let ?k2 = "set_memory img mem k1"
    have ok2: "linking_ok B ?k2"
      using progress_own [OF progress_ok [OF p1] B] progress_ok by blast
    obtain r3 k3 where 3: "fixup_imports w load img name p ?k2 = (r3, k3)"
      by (cases "fixup_imports w load img name p ?k2")
    have un: "unattempted mods ?k2 \<le> m"
      using e1(2) assms(7) by (simp add: unattempted_def)
    have "k3 = faulted ?k2 \<or> (\<exists>limit pos. import_descriptors w load img name limit pos ?k2 = (r3, k3))"
      using 3 by (auto simp: fixup_imports_def split: sum.splits)
    then have e3: "exhausted k3 = exhausted k"
      using import_descriptors_end [OF _ ok2 B assms(4-6) un] e1(1) by auto
    have "k' = k3 \<or> set_up_tls img p (update_image img (\<lambda>i. i\<lparr>i_entry := True\<rparr>) k3) = (r, k')"
      using 2 3 by (auto split: if_splits)
    then show ?thesis
      using e3 set_up_tls_exhausted [of img p "update_image img (\<lambda>i. i\<lparr>i_entry := True\<rparr>) k3"] by auto
  qed
qed

lemma nested_load_end:
  assumes load: "\<And>img name sidecar k r k'. load_dll n w img name sidecar k = (r, k') \<Longrightarrow> linking_ok B k \<Longrightarrow>
      img \<notin> held k \<Longrightarrow> img < d_next (k_more k) \<Longrightarrow> unattempted mods k < n \<Longrightarrow> exhausted k' = exhausted k"
  shows "loads_end (nested_load n w) B mods n"
  unfolding loads_end_def
proof (intro allI impI)
  fix path sc and k :: linking
  assume ok: "linking_ok B k" and few: "unattempted mods k < n"
  let ?k = "k\<lparr>k_more := (k_more k)\<lparr>d_next := d_next (k_more k) + 1\<rparr>\<rparr>"
  have "linking_ok B ?k"
    using linking_okD(9) [OF ok] by (intro linking_ok_more [OF ok]) (auto simp: the_process_def)
  moreover have "d_next (k_more k) \<notin> held ?k"
    using linking_okD(8) [OF ok] by (auto simp: held_def the_process_def)
  moreover have "unattempted mods ?k < n"
    using few by (simp add: unattempted_def)
  ultimately have "exhausted (snd (load_dll n w (d_next (k_more k)) path sc ?k)) = exhausted ?k"
    by (intro load [OF prod.collapse [symmetric]]) simp_all
  then show "exhausted (snd (nested_load n w path sc k)) = exhausted k"
    by (simp add: nested_load_def)
qed

lemma load_dll_end:
  assumes "load_dll n w img name sidecar k = (r, k')" and "linking_ok B k" and "img \<notin> held k" and "img < d_next (k_more k)"
    and "unattempted mods k < n" and "siblings_among w mods"
  shows "exhausted k' = exhausted k"
  using assms(1-5)
proof (induction n arbitrary: img name sidecar k r k' B)
  case (Suc n)
  from load_dll_stages [OF Suc.prems(1-4)] obtain ok k1 where
      p1: "progress {img} (if ok then insert img B else B) k k1" and same: "k_attempted k1 = k_attempted k" "exhausted k1 = exhausted k"
    and run: "(if \<not> ok then (False, k1) else case link_pe_images w (nested_load n w) img name k1 of
      (linked, k2) \<Rightarrow> if \<not> linked then (False, pe_discard_image img k2) else attach_process w img k2) = (r, k')"
    by blast
  show ?case
  proof (cases ok)
    case False
    then show ?thesis
      using run same by auto
  next
    case True
    obtain linked k2 where 2: "link_pe_images w (nested_load n w) img name k1 = (linked, k2)"
      by (metis prod.collapse)
    have "loads_ok (nested_load n w) (insert img B)"
      using load_dll_ok by (blast intro: nested_load_ok)
    moreover have "loads_end (nested_load n w) (insert img B) mods n"
      using Suc.IH by (blast intro: nested_load_end)
    moreover have "unattempted mods k1 \<le> n"
      using Suc.prems(5) same(1) by (simp add: unattempted_def)
    ultimately have "exhausted k2 = exhausted k1"
      using link_end [OF 2 progress_ok [OF p1] _ _ _ assms(6)] True by simp
    moreover have "k' = pe_discard_image img k2 \<or> k' = snd (attach_process w img k2)"
      using run True 2 by (auto split: if_splits)
    ultimately show ?thesis
      using same(2) attach_process_exhausted by auto
  qed
qed simp

section \<open>One expansion for a load\<close>

text \<open>
  \<open>fix_pe_image\<close> runs once in the load of an image, and a sibling is a new image: from one point of a load
  to a later one the images made in between have been expanded at most once more, and no others.
\<close>

abbreviation counters :: "linking \<Rightarrow> nat \<times> (image_id \<Rightarrow> nat)" where
  "counters k \<equiv> (d_next (k_more k), d_expanded (k_more k))"

definition grown :: "linking \<Rightarrow> linking \<Rightarrow> bool" where
  "grown k k' \<longleftrightarrow> d_next (k_more k) \<le> d_next (k_more k') \<and> (\<forall>i. d_expanded (k_more k') i \<le>
     d_expanded (k_more k) i + (if d_next (k_more k) \<le> i \<and> i < d_next (k_more k') then 1 else 0))"

lemma grown_refl: "counters k' = counters k \<Longrightarrow> grown k k'"
  by (simp add: grown_def)

lemma grown_trans:
  assumes "grown k k'" and "grown k' k''"
  shows "grown k k''"
proof -
  have "d_next (k_more k) \<le> d_next (k_more k')" "d_next (k_more k') \<le> d_next (k_more k'')"
    using assms by (simp_all add: grown_def)
  moreover have "d_expanded (k_more k') i \<le> d_expanded (k_more k) i + (if d_next (k_more k) \<le> i \<and> i < d_next (k_more k') then 1 else 0)"
    "d_expanded (k_more k'') i \<le> d_expanded (k_more k') i + (if d_next (k_more k') \<le> i \<and> i < d_next (k_more k'') then 1 else 0)" for i
    using assms by (simp_all only: grown_def)
  then have "d_expanded (k_more k'') i \<le> d_expanded (k_more k) i + (if d_next (k_more k) \<le> i \<and> i < d_next (k_more k'') then 1 else 0)" for i
    using calculation by (smt (verit) add_le_cancel_right le_trans linorder_not_le nat_less_le add.right_neutral)
  ultimately show ?thesis
    by (simp add: grown_def)
qed

lemma grown_cong: "counters k0 = counters k \<Longrightarrow> counters k1' = counters k' \<Longrightarrow> grown k0 k1' = grown k k'"
  by (simp add: grown_def)

lemma counters_simps [simp]:
  "d_next (k_more (set_memory img m k)) = d_next (k_more k)" "d_expanded (k_more (set_memory img m k)) = d_expanded (k_more k)"
  "d_next (k_more (set_file img f k)) = d_next (k_more k)" "d_expanded (k_more (set_file img f k)) = d_expanded (k_more k)"
  "d_next (k_more (update_image img g k)) = d_next (k_more k)" "d_expanded (k_more (update_image img g k)) = d_expanded (k_more k)"
  "d_next (k_more (pe_discard_image img k)) = d_next (k_more k)"
  "d_expanded (k_more (pe_discard_image img k)) = d_expanded (k_more k)"
  by (simp_all add: set_memory_def set_file_def update_image_def pe_discard_image_def Let_def)

lemma with_images_counters: "with_images f k = (b, k') \<Longrightarrow> counters k' = counters k"
  by (auto simp: with_images_def split: prod.splits)

lemma attach_process_counters: "counters (snd (attach_process w img k)) = counters k"
  unfolding attach_process_def Let_def
  by (auto split: prod.splits dest!: with_images_counters) (auto simp: with_images_def split: prod.splits)

lemma set_up_tls_counters: "counters (snd (set_up_tls img p k)) = counters k"
  by (auto simp: set_up_tls_def Let_def split: sum.splits option.splits prod.splits)

lemma prepare_image_expanded:
  assumes "prepare_image w img name k = (r, k')"
  shows "d_next (k_more k') = d_next (k_more k)"
    and "d_expanded (k_more k') i \<le> d_expanded (k_more k) i + (if i = img then 1 else 0)"
proof -
  have "d_next (k_more k1) = d_next (k_more k) \<and> d_expanded (k_more k1) i \<le> d_expanded (k_more k) i + (if i = img then 1 else 0)"
    if "expand_image w img p h k = (r1, k1)" for p h r1 k1
    using that by (auto simp: expand_image_def replace_mapping_def set_file_def Let_def split: sum.splits prod.splits if_splits)
  then have "d_next (k_more k') = d_next (k_more k) \<and> d_expanded (k_more k') i \<le> d_expanded (k_more k) i + (if i = img then 1 else 0)"
    using assms unfolding prepare_image_def by (auto split: sum.splits option.splits prod.splits)
  then show "d_next (k_more k') = d_next (k_more k)"
    and "d_expanded (k_more k') i \<le> d_expanded (k_more k) i + (if i = img then 1 else 0)"
    by simp_all
qed

definition loads_grow :: "(string \<Rightarrow> string option \<Rightarrow> linking \<Rightarrow> bool \<times> linking) \<Rightarrow> bool" where
  "loads_grow load \<longleftrightarrow> (\<forall>path sidecar k. grown k (snd (load path sidecar k)))"

lemma load_sibling_grown:
  assumes run: "load_sibling_import readable load name sidecar dll k = (r, k')" and "loads_grow load"
  shows "grown k k'"
proof -
  let ?k = "k\<lparr>k_attempted := k_attempted k @ [dll]\<rparr>"
  have "grown k (snd (load path sc ?k))" for path sc
    using assms(2) grown_cong [of ?k k "snd (load path sc ?k)" "snd (load path sc ?k)"] by (simp add: loads_grow_def)
  moreover have "(r, k') = (True, k) \<or> (r, k') = (True, ?k) \<or> (\<exists>path sc. (r, k') = load path sc ?k)"
    unfolding run [symmetric] load_sibling_import_def Let_def by auto
  then have "k' = k \<or> k' = ?k \<or> (\<exists>path sc. k' = snd (load path sc ?k))"
    by (metis snd_conv)
  ultimately show ?thesis
    by (auto intro: grown_refl)
qed

lemma import_descriptors_grown:
  assumes "import_descriptors w load img name limit pos k = (r, k')" and "loads_grow load"
  shows "grown k k'"
  using assms
proof (induction w load img name limit pos k arbitrary: r k' rule: import_descriptors.induct)
  case (1 w load img name limit pos k)
  show ?case
  proof (cases "pos + 20 \<le> limit \<and> (\<exists>name_rva dll. peek 4 (image_memory img k) (pos + 12) = Inr name_rva \<and> name_rva \<noteq> 0 \<and>
      read_cstring (image_memory img k) name_rva = Inr dll)")
    case False
    then have "k' = k \<or> k' = faulted k"
      using "1.prems"(1) by (auto simp: import_descriptors.simps [of w load img] split: sum.splits if_splits)
    then show ?thesis
      by (auto intro: grown_refl)
  next
    case True
    then obtain name_rva dll where entry: "\<not> limit < pos + 20" "peek 4 (image_memory img k) (pos + 12) = Inr name_rva"
        "name_rva \<noteq> 0" "read_cstring (image_memory img k) name_rva = Inr dll"
      by (auto simp: not_less)
    obtain loaded k1 where 1: "load_sibling_import (y_readable w) load name (g_sidecar_path (file_of k img)) dll k = (loaded, k1)"
      by (cases "load_sibling_import (y_readable w) load name (g_sidecar_path (file_of k img)) dll k")
    have g1: "grown k k1"
      using load_sibling_grown [OF 1 "1.prems"(2)] .
    have run: "(if \<not> loaded then (False, k1)
             else case process_import_descriptor (y_stubs w) dll (k_table k1) pos (image_memory img k1) of
               Inl e \<Rightarrow> (False, faulted k1)
             | Inr mem \<Rightarrow> import_descriptors w load img name limit (pos + 20) (set_memory img mem k1)) = (r, k')"
      using "1.prems"(1) entry 1 by (simp add: import_descriptors.simps [of w load img name limit pos k])
    show ?thesis
    proof (cases "loaded \<and> (\<exists>mem. process_import_descriptor (y_stubs w) dll (k_table k1) pos (image_memory img k1) = Inr mem)")
      case False
      then have "k' = k1 \<or> k' = faulted k1"
        using run by (auto split: sum.splits if_splits)
      then have "grown k1 k'"
        by (auto intro: grown_refl)
      with g1 show ?thesis
        by (rule grown_trans)
    next
      case True
      then obtain mem where mem: "loaded" "process_import_descriptor (y_stubs w) dll (k_table k1) pos (image_memory img k1) = Inr mem"
        by blast
      have rest: "import_descriptors w load img name limit (pos + 20) (set_memory img mem k1) = (r, k')"
        using run mem by simp
      have "grown k1 k'"
        using "1.IH" [OF entry 1 [symmetric] _ mem(2) rest "1.prems"(2)] mem(1)
          grown_cong [of "set_memory img mem k1" k1] by simp
      with g1 show ?thesis
        by (rule grown_trans)
    qed
  qed
qed

text \<open>Linking expands its own image at most once besides.\<close>

definition grown_with :: "image_id \<Rightarrow> linking \<Rightarrow> linking \<Rightarrow> bool" where
  "grown_with img k k' \<longleftrightarrow> d_next (k_more k) \<le> d_next (k_more k') \<and> (\<forall>i. d_expanded (k_more k') i \<le>
     d_expanded (k_more k) i + (if i = img \<or> d_next (k_more k) \<le> i \<and> i < d_next (k_more k') then 1 else 0))"

lemma grown_with_trans:
  assumes "d_next (k_more k1) = d_next (k_more k)" and "\<And>i. d_expanded (k_more k1) i \<le> d_expanded (k_more k) i + (if i = img then 1 else 0)"
    and "grown k1 k'" and "img < d_next (k_more k)"
  shows "grown_with img k k'"
  unfolding grown_with_def
proof (intro conjI allI)
  fix i
  show "d_expanded (k_more k') i \<le> d_expanded (k_more k) i + (if i = img \<or> d_next (k_more k) \<le> i \<and> i < d_next (k_more k') then 1 else 0)"
    using assms(3) [unfolded grown_def assms(1), THEN conjunct2, THEN spec [where x = i]] assms(4) assms(2) [of i]
    by (auto split: if_splits)
qed (use assms(1,3) in \<open>simp add: grown_def\<close>)

lemma link_grown:
  assumes run: "link_pe_images w load img name k = (r, k')" and "loads_grow load" and "img < d_next (k_more k)"
  shows "grown_with img k k'"
proof -
  obtain r1 k1 where 1: "prepare_image w img name k = (r1, k1)"
    by (cases "prepare_image w img name k")
  note e1 = prepare_image_expanded [OF 1]
  consider "k' = k1 \<or> k' = faulted k1" | p mem where
      "(case fixup_imports w load img name p (set_memory img mem k1) of
             (ok, k) \<Rightarrow> if \<not> ok then (False, k)
             else set_up_tls img p (update_image img (\<lambda>i. i\<lparr>i_entry := True\<rparr>) k)) = (r, k')"
    using run by (auto simp: link_pe_images_def 1 split: option.splits sum.splits)
  then have "grown k1 k'"
  proof cases
    case 1
    then show ?thesis by (auto intro: grown_refl)
  next
    case (2 p mem)
    let ?k2 = "set_memory img mem k1"
    obtain r3 k3 where 3: "fixup_imports w load img name p ?k2 = (r3, k3)"
      by (cases "fixup_imports w load img name p ?k2")
    have "k3 = faulted ?k2 \<or> (\<exists>limit pos. import_descriptors w load img name limit pos ?k2 = (r3, k3))"
      using 3 by (auto simp: fixup_imports_def split: sum.splits)
    then have "grown ?k2 k3"
      using import_descriptors_grown [OF _ assms(2)] by (auto intro: grown_refl)
    then have "grown k1 k3"
      using grown_cong [of ?k2 k1 k3 k3] by simp
    moreover have "k' = k3 \<or> set_up_tls img p (update_image img (\<lambda>i. i\<lparr>i_entry := True\<rparr>) k3) = (r, k')"
      using 2 3 by (auto split: if_splits)
    then have "counters k' = counters k3"
      using set_up_tls_counters [of img p "update_image img (\<lambda>i. i\<lparr>i_entry := True\<rparr>) k3"] by auto
    ultimately show ?thesis
      using grown_cong [of k1 k1 k' k3] by simp
  qed
  with e1 show ?thesis
    using assms(3) by (rule grown_with_trans)
qed

lemma grown_with_next:
  assumes "grown_with (d_next (k_more k)) (k\<lparr>k_more := (k_more k)\<lparr>d_next := d_next (k_more k) + 1\<rparr>\<rparr>) k'"
  shows "grown k k'"
  unfolding grown_def
proof (intro conjI allI)
  fix i
  show "d_expanded (k_more k') i \<le> d_expanded (k_more k) i + (if d_next (k_more k) \<le> i \<and> i < d_next (k_more k') then 1 else 0)"
    using assms [unfolded grown_with_def, THEN conjunct2, THEN spec [where x = i]] assms [unfolded grown_with_def, THEN conjunct1]
    by (auto split: if_splits)
qed (use assms in \<open>simp add: grown_with_def\<close>)

lemma nested_load_grown:
  assumes load: "\<And>img name sidecar k r k'. load_dll n w img name sidecar k = (r, k') \<Longrightarrow> img < d_next (k_more k) \<Longrightarrow> grown_with img k k'"
  shows "loads_grow (nested_load n w)"
  unfolding loads_grow_def
proof (intro allI)
  fix path sc and k :: linking
  let ?k = "k\<lparr>k_more := (k_more k)\<lparr>d_next := d_next (k_more k) + 1\<rparr>\<rparr>"
  have "grown_with (d_next (k_more k)) ?k (snd (nested_load n w path sc k))"
    unfolding nested_load_def by (rule load [OF prod.collapse [symmetric]]) simp
  then show "grown k (snd (nested_load n w path sc k))"
    by (rule grown_with_next)
qed

lemma load_dll_grown:
  assumes "load_dll n w img name sidecar k = (r, k')" and "img < d_next (k_more k)"
  shows "grown_with img k k'"
  using assms
proof (induction n arbitrary: img name sidecar k r k')
  case 0
  then show ?case
    by (auto simp: grown_with_def)
next
  case (Suc n)
  show ?case
  proof (cases "y_cpu w")
    case False
    then show ?thesis
      using Suc.prems by (auto simp: grown_with_def)
  next
    case cpu: True
    obtain registered table where 0: "register_windows_library_functions (y_address w) (d_registered (k_more k)) (k_table k) = (registered, table)"
      by (metis prod.collapse)
    define k0 where "k0 = k\<lparr>k_table := table, k_more := (k_more k)\<lparr>d_registered := registered\<rparr>\<rparr>"
    obtain ok s where 1: "pe_load_library (y_linker w) (y_platform w) (y_base w img) (y_suffix w) (y_thread w) name sidecar img (the_process k0) = (ok, s)"
      by (metis prod.collapse)
    define k1 where "k1 = on_process (\<lambda>_. s) k0"
    have same: "counters k1 = counters k"
      by (simp add: k1_def k0_def)
    have run: "(if \<not> ok then (False, k1) else case link_pe_images w (nested_load n w) img name k1 of
      (linked, k2) \<Rightarrow> if \<not> linked then (False, pe_discard_image img k2) else attach_process w img k2) = (r, k')"
      using Suc.prems(1) [unfolded load_dll.simps Let_def 0 prod.case, folded k0_def, unfolded 1 prod.case,
          folded k1_def nested_load_def] cpu by simp
    show ?thesis
    proof (cases ok)
      case False
      then show ?thesis
        using run same by (auto simp: grown_with_def)
    next
      case True
      obtain linked k2 where 2: "link_pe_images w (nested_load n w) img name k1 = (linked, k2)"
        by (metis prod.collapse)
      have "loads_grow (nested_load n w)"
        using Suc.IH by (rule nested_load_grown)
      then have "grown_with img k1 k2"
        using link_grown [OF 2] Suc.prems(2) same by simp
      moreover have "k' = pe_discard_image img k2 \<or> k' = snd (attach_process w img k2)"
        using run True 2 by (auto split: if_splits)
      then have "counters k' = counters k2"
        using attach_process_counters by auto
      ultimately show ?thesis
        using same by (simp add: grown_with_def)
    qed
  qed
qed

lemma load_dll_expands_once:
  assumes "load_dll n w img name sidecar k = (r, k')" and "img < d_next (k_more k)"
  shows "d_expanded (k_more k') img \<le> d_expanded (k_more k) img + 1"
  using load_dll_grown [OF assms, unfolded grown_with_def, THEN conjunct2, THEN spec [where x = img]] by simp

end
