(* ===== verification/Load_Properties.thy ===== *)
theory Load_Properties
  imports Loader_Properties Win_Registration Loader_Fuel
begin

text \<open>
  The properties of the library registrations (\<open>src/src/winlibs.cpp\<close>) and of \<open>load_dll\<close>
  (\<open>src/src/dll_loader.cpp\<close>), with a small DLL that shows their hypotheses can hold.
\<close>

section \<open>Registrations\<close>

text \<open>
  Every ordinal that \<open>resolve_ws2_32_ordinal\<close> names for \<open>WS2_32.dll\<close> is backed by a shim: after
  \<open>register_windows_library_functions\<close>, with room in the table, \<open>resolve_ordinal_import\<close> gives the
  address of a function that is registered for that name, and a second call registers nothing.
\<close>

theorem ordinals_backed:
  assumes "length table + length registrations \<le> MAX_EXPORTS"
    and "register_windows_library_functions address False table = (registered, table')"
    and "same_name dll ''WS2_32.dll''" and "resolve_ws2_32_ordinal ordinal = Some name"
  shows "(\<exists>f. (''WS2_32.dll'', name, f) \<in> set registrations \<and> resolve_ordinal_import dll ordinal table' = address f) \<and>
    register_windows_library_functions address registered table' = (registered, table')"
proof -
  obtain f where f: "find (\<lambda>(d, n, f). n = name) (rev registrations) = Some (''WS2_32.dll'', name, f)"
      "(''WS2_32.dll'', name, f) \<in> set registrations"
    using ordinal_registered [OF assms(4)] by blast
  have "get_export name None table' = address f"
    using get_export_registered [OF assms(1) f(1), of address] assms(2) by simp
  moreover have "registered"
    using assms(2) by (simp add: register_windows_library_functions_def)
  ultimately show ?thesis
    using f(2) assms(3,4) by (auto simp: resolve_ordinal_import_def register_windows_library_functions_def)
qed

theorem ordinals_backed_witness:
  "\<exists>f. (''WS2_32.dll'', ''send'', f) \<in> set registrations \<and>
     resolve_ordinal_import ''ws2_32.DLL'' 19 (snd (register_windows_library_functions (\<lambda>f. of_nat (length f)) False [])) = of_nat (length f)"
proof -
  obtain b t where r: "register_windows_library_functions (\<lambda>f. of_nat (length f)) False [] = (b, t)"
    by (metis prod.collapse)
  have "length ([] :: export_table) + length registrations \<le> MAX_EXPORTS"
    by (simp add: length_registrations MAX_EXPORTS_def)
  moreover have "same_name ''ws2_32.DLL'' ''WS2_32.dll''" "resolve_ws2_32_ordinal 19 = Some ''send''"
    by code_simp+
  ultimately show ?thesis
    using ordinals_backed [OF _ r] r by simp
qed

section \<open>Loading\<close>

text \<open>A DLL of 328 bytes without sections to copy, imports, relocations or TLS; what its \<open>DllMain\<close> returns.\<close>

definition sample_dll :: bytes where
  "sample_dll = [77, 90] @ replicate 58 0 @ [64, 0, 0, 0, 80, 69, 0, 0, 0x64, 0x86, 1] @ replicate 13 0 @
     [0xF0, 0, 2, 0x20, 0x0B, 2] @ replicate 54 0 @ [72, 1, 0, 0] @ replicate 180 0"

lemma sample_dll_length [simp]: "length sample_dll = 328"
  by (simp add: sample_dll_def)

lemma peek_sample_dll [simp]:
  "peek 4 sample_dll 60 = Inr 64" "peek 4 sample_dll 64 = Inr 0x4550" "peek 2 sample_dll 68 = Inr 0x8664"
  "peek 2 sample_dll 70 = Inr 1" "peek 2 sample_dll 84 = Inr 0xF0" "peek 2 sample_dll 86 = Inr 0x2002"
  "peek 2 sample_dll 88 = Inr 0x20B" "peek 4 sample_dll 104 = Inr 0" "peek 8 sample_dll 112 = Inr 0"
  "peek 4 sample_dll 120 = Inr 0" "peek 4 sample_dll 124 = Inr 0" "peek 4 sample_dll 144 = Inr 328"
  "peek 4 sample_dll 196 = Inr 0" "peek 4 sample_dll 200 = Inr 0" "peek 4 sample_dll 204 = Inr 0"
  "peek 4 sample_dll 208 = Inr 0" "peek 4 sample_dll 212 = Inr 0" "peek 4 sample_dll 240 = Inr 0"
  "peek 4 sample_dll 244 = Inr 0" "peek 4 sample_dll 12 = Inr 0"
  by (simp_all add: peek_def sample_dll_def)

definition sample_world :: "bool \<Rightarrow> world" where
  "sample_world returns = \<lparr>y_linker = (\<lambda>_. None),
     y_platform = \<lparr>q_ftz = False, q_fsgsbase = False, q_attr = True, q_stack = Some (0x7000, 0x1000), q_marker = 0\<rparr>,
     y_thread = 1, y_suffix = ''x1y2z3'', y_base = (\<lambda>_. 0x10000), y_expanded = (\<lambda>_. 0x20000), y_readable = (\<lambda>_. False),
     y_cpu = True, y_stubs = \<lparr>z_ordinal = 1, z_unknown = 2\<rparr>, y_address = (\<lambda>_. 3), y_dllmain = (\<lambda>_. returns), y_handler = 4\<rparr>"

definition sample_linking :: linking where
  "sample_linking = \<lparr>k_table = [], k_attempted = [],
     k_more = \<lparr>d_process = \<lparr>s_os = \<lparr>os_name = (\<lambda>_. Some 0), os_data = (\<lambda>_. sample_dll), os_next = 1, os_answers = []\<rparr>,
         s_images = initial_images (\<lambda>_. \<lparr>i_tls = None, i_index = 0, i_entry = False, i_quiet = False, i_registered = False\<rparr>) [],
         s_teb = (\<lambda>_. fresh_teb 0x5000), s_cpu = (\<lambda>_. \<lparr>u_mxcsr = 0x1F80, u_gs = 0\<rparr>),
         s_file = (\<lambda>_. \<lparr>g_memory = None, g_size = 0, g_base = 0, g_handle = False, g_sidecar_path = None\<rparr>), s_handles = 0, s_mapped = (\<lambda>_. 0)\<rparr>,
       d_tls = initial_tls [], d_next = 1, d_registered = True, d_fault = False, d_exhausted = False, d_expanded = (\<lambda>_. 0)\<rparr>\<rparr>"

lemma sample_linking_ok: "linking_ok {} sample_linking"
  by (simp add: linking_ok_def image_pages_def held_def with_handle_def the_process_def sample_linking_def initial_images_def)

lemma sample_headers_ok: "check_headers sample_dll = Inr (Some (64, \<lparr>n_signature = 0x4550, n_machine = 0x8664, n_sections = 1,
   n_optional_size = 0xF0, n_characteristics = 0x2002, n_magic = 0x20B, n_entry = 0, n_image_base = 0, n_section_alignment = 0,
   n_file_alignment = 0, n_image_size = 328, n_directories = 0\<rparr>))"
  by (simp add: check_headers_def read_nt_headers_def check_nt_hdr_def IMAGE_FILE_EXECUTABLE_IMAGE_def
     IMAGE_FILE_RELOCS_STRIPPED_def IMAGE_FILE_DLL_def)


lemma sample_library:
  "\<exists>s. pe_load_library (\<lambda>_. None) (y_platform (sample_world b)) 0x10000 suffix 1 name None 0 (the_process sample_linking) = (True, s) \<and>
    s_file s 0 = \<lparr>g_memory = Some sample_dll, g_size = 328, g_base = 0x10000, g_handle = False, g_sidecar_path = None\<rparr> \<and>
    h_attaching (m_thread (s_images s) 1) = None \<and> m_loaded (s_images s) = [] \<and> m_pending (s_images s) = 0 \<and>
    (\<exists>c. context_of 1 (s_images s) = Some c \<and> c_attached c = []) \<and> os_answers (s_os s) = [] \<and> i_tls (m_image (s_images s) 0) = None"
  by (simp add: pe_load_library_def load_raw_pe_def reset_image_def sample_linking_def the_process_def ask_os_def ask_def
      setup_thread_def setup_nt_threadinfo_def get_context_def get_nt_thread_context_def initial_images_def set_image_def
      setup_kuser_shared_data_def Let_def sample_world_def context_of_def calloc_def apply_windows_fpu_state_def
      set_context_def fresh_context_def)

lemma sample_directories [simp]:
  "data_directory sample_dll 64 0 = Inr (0, 0)" "data_directory sample_dll 64 1 = Inr (0, 0)"
  "data_directory sample_dll 64 (Suc 0) = Inr (0, 0)" "data_directory sample_dll 64 5 = Inr (0, 0)"
  by (simp_all add: data_directory_def)

lemma sample_links:
  assumes "file_of k 0 = \<lparr>g_memory = Some sample_dll, g_size = 328, g_base = 0x10000, g_handle = False, g_sidecar_path = None\<rparr>"
  shows "link_pe_images (sample_world b) load 0 name k = (True, update_image 0 (\<lambda>i. i\<lparr>i_entry := True\<rparr>) (set_memory 0 sample_dll k))"
proof -
  have mem: "image_memory 0 k = sample_dll" "image_memory 0 (set_memory 0 sample_dll k) = sample_dll"
      "image_memory 0 (update_image 0 f (set_memory 0 sample_dll k)) = sample_dll" for f
    using assms by (simp_all add: image_memory_def set_memory_def set_file_def)
  have "prepare_image (sample_world b) 0 name k = (Some (64, snd (the (projr (check_headers sample_dll)))), k)"
    using assms by (simp add: prepare_image_def mem sample_headers_ok expand_image_def read_exports_def)
  moreover have "import_descriptors (sample_world b) load 0 name 328 0 (set_memory 0 sample_dll k) = (True, set_memory 0 sample_dll k)"
    by (simp add: import_descriptors.simps [of _ _ 0 name 328 0] mem)
  ultimately show ?thesis
    by (simp add: link_pe_images_def fixup_reloc_def mem fixup_imports_def set_up_tls_def read_tls_directory_def)
qed

lemma sample_attaches:
  assumes "h_attaching (m_thread (s_images (the_process k)) 1) = None" and "m_loaded (s_images (the_process k)) = []"
    and "m_pending (s_images (the_process k)) = 0" and "context_of 1 (s_images (the_process k)) = Some c" and "c_attached c = []"
    and "os_answers (s_os (the_process k)) = []" and "i_tls (m_image (s_images (the_process k)) 0) = None"
    and "i_entry (m_image (s_images (the_process k)) 0)"
  shows "fst (attach_process (sample_world b) 0 k) = b"
  using assms
  by (simp add: attach_process_def sample_world_def setup_nt_threadinfo_def get_context_def get_nt_thread_context_def
      ask_os_def ask_def Let_def with_images_def pe_begin_process_attach_def pe_initialize_tls_for_current_thread_def
      pe_finish_process_attach_def call_entry_def set_attaching_def set_context_def context_of_def apply_windows_fpu_state_def
      MAX_LOADED_IMAGES_def needs_attachment_def attach_image_def thread_has_image_def emit_def)

lemma sample_world_simps:
  "y_cpu (sample_world b)" "y_linker (sample_world b) = (\<lambda>_. None)" "y_base (sample_world b) i = 0x10000"
  "y_suffix (sample_world b) = ''x1y2z3''" "y_thread (sample_world b) = 1" "d_registered (k_more sample_linking)"
  by (simp_all add: sample_world_def sample_linking_def)

lemma sample_load:
  "\<exists>k'. load_dll 1 (sample_world b) 0 ''/x/b.dll'' None sample_linking = (b, k')"
proof -
  obtain s c where s: "pe_load_library (\<lambda>_. None) (y_platform (sample_world b)) 0x10000 ''x1y2z3'' 1 ''/x/b.dll'' None 0 (the_process sample_linking) = (True, s)"
      "s_file s 0 = \<lparr>g_memory = Some sample_dll, g_size = 328, g_base = 0x10000, g_handle = False, g_sidecar_path = None\<rparr>"
      "h_attaching (m_thread (s_images s) 1) = None" "m_loaded (s_images s) = []" "m_pending (s_images s) = 0"
      "context_of 1 (s_images s) = Some c" "c_attached c = []" "os_answers (s_os s) = []" "i_tls (m_image (s_images s) 0) = None"
    using sample_library by blast
  let ?k = "update_image 0 (\<lambda>i. i\<lparr>i_entry := True\<rparr>) (set_memory 0 sample_dll (on_process (\<lambda>_. s) sample_linking))"
  have same: "sample_linking\<lparr>k_table := k_table sample_linking, k_more := (k_more sample_linking)\<lparr>d_registered := True\<rparr>\<rparr> = sample_linking"
      "sample_linking\<lparr>k_more := (k_more sample_linking)\<lparr>d_registered := True\<rparr>\<rparr> = sample_linking"
    by (simp_all add: sample_linking_def)
  have "load_dll 1 (sample_world b) 0 ''/x/b.dll'' None sample_linking = attach_process (sample_world b) 0 ?k"
    using s(1,2) unfolding One_nat_def load_dll.simps Let_def
    by (simp add: sample_world_simps register_windows_library_functions_def sample_links same)
  moreover have "fst (attach_process (sample_world b) 0 ?k) = b"
    using s(3-) by (intro sample_attaches) (simp_all add: update_image_def set_memory_def set_file_def set_image_def context_of_def)
  ultimately show ?thesis
    by (metis prod.collapse)
qed

text \<open>
  C29: Loading keeps the books. Whatever the file, its imports and the platform do, after \<open>load_dll\<close> again
  exactly the loaded images have memory, and every open handle and every owned export belongs to one of
  them; the call succeeds exactly when the image is in the list of loaded images; the images that were
  there before are still loaded and as they were. The pages mapped for an image are those of its memory,
  unless a sidecar provides it, and one page for each time \<open>fix_pe_image\<close> expanded it: the page that is
  mapped behind an expanded image and that \<open>pe_discard_image\<close> leaves. One load expands its image at most
  once.
\<close>

theorem load_keeps_books:
  assumes "load_dll n w img name sidecar k = (r, k')" and "linking_ok {} k" and "img \<notin> held k" and "img < d_next (k_more k)"
  shows "linking_ok {} k' \<and> (r \<longleftrightarrow> img \<in> set (loaded_images k')) \<and> set (loaded_images k) \<subseteq> set (loaded_images k') \<and>
    (\<forall>i \<in> held k. file_of k' i = file_of k i) \<and>
    s_mapped (the_process k') i = (if i \<in> set (loaded_images k') \<and> \<not> g_handle (file_of k' i)
        then mapped_pages (g_size (file_of k' i)) else 0) + d_expanded (k_more k') i \<and>
    d_expanded (k_more k') img \<le> d_expanded (k_more k) img + 1"
proof -
  have p: "progress {} {} k k' \<and> (r \<longleftrightarrow> img \<in> set (loaded_images k'))"
    using assms by (rule load_dll_ok)
  then have ok: "linking_ok {} k'"
    by (simp add: progress_def)
  have "held k' = set (loaded_images k')"
    using linking_okD(3) [OF ok] by simp
  then have "s_mapped (the_process k') i = (if i \<in> set (loaded_images k') \<and> \<not> g_handle (file_of k' i)
        then mapped_pages (g_size (file_of k' i)) else 0) + d_expanded (k_more k') i"
    using linking_okD(7) [OF ok] by (simp add: image_pages_def with_handle_def)
  moreover have "d_expanded (k_more k') img \<le> d_expanded (k_more k) img + 1"
    using load_dll_expands_once [OF assms(1,4)] .
  ultimately show ?thesis
    using p by (simp add: progress_def)
qed

lemma sample_fresh: "0 \<notin> held sample_linking" "0 < d_next (k_more sample_linking)"
  by (simp_all add: held_def the_process_def sample_linking_def)

theorem load_keeps_books_witness:
  "\<exists>k'. load_dll 1 (sample_world True) 0 ''/x/b.dll'' None sample_linking = (True, k') \<and> linking_ok {} k' \<and>
     0 \<in> set (loaded_images k') \<and> d_expanded (k_more k') 0 \<le> 1"
proof -
  obtain k' where "load_dll 1 (sample_world True) 0 ''/x/b.dll'' None sample_linking = (True, k')"
    using sample_load by blast
  moreover have "d_expanded (k_more sample_linking) 0 = 0"
    by (simp add: sample_linking_def)
  ultimately show ?thesis
    using load_keeps_books [OF _ sample_linking_ok sample_fresh] by fastforce
qed

text \<open>
  C30: A load that fails, at whatever stage (the file, the headers, an import, the TLS slot, the thread or
  \<open>DllMain\<close>), leaves no image: no memory of its own, no handle, no export, and no entry among the loaded
  images. Of the pages mapped for it exactly one stays for each time \<open>fix_pe_image\<close> gave it a new mapping,
  the page behind the image that \<open>pe_discard_image\<close> does not unmap; the load adds at most one, and none to
  an image that is not expanded.
\<close>

theorem failed_load_leaves_a_page:
  assumes "load_dll n w img name sidecar k = (False, k')" and "linking_ok {} k" and "img \<notin> held k" and "img < d_next (k_more k)"
  shows "g_memory (file_of k' img) = None \<and> \<not> g_handle (file_of k' img) \<and> img \<notin> set (loaded_images k') \<and>
    \<not> list_ex (\<lambda>x. t_owner x = Some img) (k_table k') \<and>
    s_mapped (the_process k') img = d_expanded (k_more k') img \<and>
    s_mapped (the_process k') img - s_mapped (the_process k) img = d_expanded (k_more k') img - d_expanded (k_more k) img \<and>
    d_expanded (k_more k') img \<le> d_expanded (k_more k) img + 1"
proof -
  have ok: "linking_ok {} k'" and new: "img \<notin> set (loaded_images k')"
    using load_dll_ok [OF assms] by (simp_all add: progress_def)
  note D = linking_okD [OF ok]
  have "img \<notin> held k'"
    using D(3) new by simp
  moreover from this have "s_mapped (the_process k') img = d_expanded (k_more k') img"
    using D(7) by (simp add: image_pages_def)
  moreover have "s_mapped (the_process k) img = d_expanded (k_more k) img"
    using linking_okD(7) [OF assms(2)] assms(3) by (simp add: image_pages_def)
  moreover have "d_expanded (k_more k') img \<le> d_expanded (k_more k) img + 1"
    using load_dll_expands_once [OF assms(1,4)] .
  ultimately show ?thesis
    using D(5,9) new by (auto simp: held_def with_handle_def list_ex_iff)
qed

theorem failed_load_leaves_a_page_witness:
  "\<exists>k'. load_dll 1 (sample_world False) 0 ''/x/b.dll'' None sample_linking = (False, k') \<and> g_memory (file_of k' 0) = None \<and>
     s_mapped (the_process k') 0 \<le> 1"
proof -
  obtain k' where "load_dll 1 (sample_world False) 0 ''/x/b.dll'' None sample_linking = (False, k')"
    using sample_load by blast
  moreover have "d_expanded (k_more sample_linking) 0 = 0"
    by (simp add: sample_linking_def)
  ultimately show ?thesis
    using failed_load_leaves_a_page [OF _ sample_linking_ok sample_fresh] by fastforce
qed

text \<open>
  C31: The recursion through the imports ends. When the names under which a readable sibling can be
  imported are among the modules \<open>mods\<close> (paths are shorter than \<open>PATH_MAX\<close>, so there are finitely many),
  a depth above the number of those not tried yet is never used up.
\<close>

theorem load_recursion_ends:
  assumes "load_dll n w img name sidecar k = (r, k')" and "linking_ok {} k" and "img \<notin> held k" and "img < d_next (k_more k)"
    and "siblings_among w mods" and "unattempted mods k < n" and "\<not> d_exhausted (k_more k)"
  shows "\<not> d_exhausted (k_more k')"
  using load_dll_end [OF assms(1-4,6,5)] assms(7) by simp

theorem load_recursion_ends_witness:
  "\<exists>k'. load_dll 1 (sample_world True) 0 ''/x/b.dll'' None sample_linking = (True, k') \<and> \<not> d_exhausted (k_more k')"
proof -
  obtain k' where run: "load_dll 1 (sample_world True) 0 ''/x/b.dll'' None sample_linking = (True, k')"
    using sample_load by blast
  have "siblings_among (sample_world True) []"
    by (simp add: siblings_among_def sample_world_def)
  moreover have "unattempted [] sample_linking < 1" "\<not> d_exhausted (k_more sample_linking)"
    by (simp_all add: unattempted_def sample_linking_def)
  ultimately show ?thesis
    using load_recursion_ends [OF run sample_linking_ok sample_fresh] run by blast
qed

end
