(* ===== verification/Shader_Include.thy ===== *)
theory Shader_Include
  imports Loader_Exports "HOL-Library.AList"
begin

text \<open>
  The include handler of \<open>src/src/D3DCompiler.cpp\<close>: \<open>parent_dir\<close>, the case-insensitive
  \<open>resolve_path_ci\<close>, \<open>read_file_contents\<close>, \<open>IncludeOpen\<close>, \<open>IncludeClose\<close> and the functions that create
  and destroy a handler. The file system is a record of what \<open>stat\<close>, \<open>readdir\<close> and \<open>fopen\<close> give; the
  other C library calls succeed or fail as a list of answers says. The handler's mutex makes each
  access of \<open>openDirs\<close> one step.
\<close>

section \<open>Files\<close>

datatype file_kind = Regular | Other_kind

record shader_files =
  f_kind :: "string \<Rightarrow> file_kind option"
  f_entries :: "string \<Rightarrow> string list option"
  f_bytes :: "string \<Rightarrow> bytes option"

abbreviation slash :: char where "slash \<equiv> CHR ''/''"

definition is_regular_file :: "shader_files \<Rightarrow> string \<Rightarrow> bool" where
  "is_regular_file fs path \<longleftrightarrow> f_kind fs path = Some Regular"

definition path_exists :: "shader_files \<Rightarrow> string \<Rightarrow> bool" where
  "path_exists fs path \<longleftrightarrow> f_kind fs path \<noteq> None"

definition parent_dir :: "string \<Rightarrow> string" where
  "parent_dir path =
     (if slash \<notin> set path then ''''
      else let before = rev (tl (dropWhile (\<lambda>c. c \<noteq> slash) (rev path))) in
        if before = '''' then ''/'' else before)"

function trim_slashes :: "string \<Rightarrow> string" where
  "trim_slashes p = (if p \<noteq> '''' \<and> last p = slash \<and> 1 < length p then trim_slashes (butlast p) else p)"
  by pat_completeness auto
termination
  by (relation "measure length") auto

declare trim_slashes.simps [simp del]

definition resolve_segment :: "shader_files \<Rightarrow> string \<Rightarrow> string \<Rightarrow> string option" where
  "resolve_segment fs current seg =
     (if seg = '''' \<or> seg = ''.'' then Some current
      else if seg = ''..'' then (if parent_dir current = '''' then None else Some (parent_dir current))
      else if path_exists fs (current @ ''/'' @ seg) then Some (current @ ''/'' @ seg)
      else case f_entries fs current of
        None \<Rightarrow> None
      | Some entries \<Rightarrow>
          map_option (\<lambda>entry. current @ ''/'' @ entry) (find (\<lambda>entry. same_name entry seg) entries))"

text \<open>The loop over the segments of what is left of the relative path.\<close>

function resolve_segments :: "shader_files \<Rightarrow> string \<Rightarrow> string \<Rightarrow> string option" where
  "resolve_segments fs current rest =
     (let seg = takeWhile (\<lambda>c. c \<noteq> slash) rest; next = dropWhile (\<lambda>c. c \<noteq> slash) rest in
      case resolve_segment fs current seg of
        None \<Rightarrow> None
      | Some current \<Rightarrow> if next = '''' then Some current else resolve_segments fs current (tl next))"
  by pat_completeness auto
termination
proof (relation "measure (\<lambda>(fs, current, rest). length rest)", goal_cases)
  case (2 fs current rest seg rest' current')
  have "length (dropWhile (\<lambda>c. c \<noteq> slash) rest) \<le> length rest"
    by (rule length_dropWhile_le)
  then show ?case
    using 2 by (cases "dropWhile (\<lambda>c. c \<noteq> slash) rest") auto
qed simp

declare resolve_segments.simps [simp del]

definition resolve_path_ci :: "shader_files \<Rightarrow> string \<Rightarrow> string \<Rightarrow> string option" where
  "resolve_path_ci fs base_dir rel_path =
     (if base_dir = '''' then None
      else let direct = (if last base_dir \<noteq> slash then base_dir @ ''/'' else base_dir) @ rel_path in
        if is_regular_file fs direct then Some direct
        else case resolve_segments fs (trim_slashes base_dir) rel_path of
          None \<Rightarrow> None
        | Some current \<Rightarrow> if is_regular_file fs current then Some current else None)"

section \<open>Buffers\<close>

type_synonym buffer = nat

record include_handler =
  h_forward :: "buffer option"
  h_base_path :: string
  h_include_dirs :: "string list"
  h_open_dirs :: "(buffer \<times> string) list"

text \<open>
  The heap holds the live buffers with the bytes read into them; \<open>n_fault\<close> is a free of anything else, or
  a use of the handler after its end.
\<close>

record include_state =
  n_heap :: "buffer \<Rightarrow> bytes option"
  n_next :: buffer
  n_streams :: nat
  n_answers :: "bool list"
  n_fault :: bool
  n_handler :: "include_handler option"

definition c_ask :: "include_state \<Rightarrow> bool \<times> include_state" where
  "c_ask s = (case n_answers s of [] \<Rightarrow> (True, s) | b # bs \<Rightarrow> (b, s\<lparr>n_answers := bs\<rparr>))"

definition c_malloc :: "include_state \<Rightarrow> buffer option \<times> include_state" where
  "c_malloc s =
     (case c_ask s of (ok, s) \<Rightarrow>
      if ok then (Some (n_next s), s\<lparr>n_heap := (n_heap s)(n_next s \<mapsto> []), n_next := n_next s + 1\<rparr>) else (None, s))"

definition c_free :: "buffer \<Rightarrow> include_state \<Rightarrow> include_state" where
  "c_free p s = (if n_heap s p = None then s\<lparr>n_fault := True\<rparr> else s\<lparr>n_heap := (n_heap s)(p := None)\<rparr>)"

definition c_fclose :: "include_state \<Rightarrow> include_state" where
  "c_fclose s = s\<lparr>n_streams := n_streams s - 1\<rparr>"

text \<open>\<open>fopen\<close>, \<open>fseek\<close>, \<open>ftell\<close>, \<open>malloc\<close> and \<open>fread\<close> answer in this order.\<close>

definition read_file_contents :: "shader_files \<Rightarrow> string \<Rightarrow> include_state \<Rightarrow> (buffer \<times> u32) option \<times> include_state" where
  "read_file_contents fs path s =
     (case c_ask s of (opened, s) \<Rightarrow>
      case (if opened then f_bytes fs path else None) of
        None \<Rightarrow> (None, s)
      | Some content \<Rightarrow>
        let s = s\<lparr>n_streams := n_streams s + 1\<rparr> in
        case c_ask s of (sought, s) \<Rightarrow>
        if \<not> sought then (None, c_fclose s)
        else case c_ask s of (told, s) \<Rightarrow>
        if \<not> told then (None, c_fclose s)
        else case c_malloc s of
          (None, s) \<Rightarrow> (None, c_fclose s)
        | (Some p, s) \<Rightarrow>
          case (if content = [] then (True, s) else c_ask s) of (complete, s) \<Rightarrow>
          if \<not> complete then (None, c_fclose (c_free p s))
          else (Some (p, of_nat (length content)), c_fclose (s\<lparr>n_heap := (n_heap s)(p \<mapsto> content)\<rparr>)))"

section \<open>The handler\<close>

definition SE_S_OK :: u32 where "SE_S_OK = 0"
definition SE_E_FAIL :: u32 where "SE_E_FAIL = 0x80004005"

text \<open>A forwarded include: what the other object's methods answer.\<close>

record sysv_include =
  v_open :: "buffer \<Rightarrow> u32 \<Rightarrow> string option \<Rightarrow> buffer option \<Rightarrow> u32 \<times> (buffer \<times> u32) option"
  v_close :: "buffer \<Rightarrow> buffer option \<Rightarrow> u32"

definition forward_slashes :: "string \<Rightarrow> string" where
  "forward_slashes = map (\<lambda>c. if c = CHR 0x5C then slash else c)"

fun search_dirs :: "shader_files \<Rightarrow> string \<Rightarrow> string list \<Rightarrow> string option" where
  "search_dirs fs name [] = None"
| "search_dirs fs name (d # ds) = (case resolve_path_ci fs d name of Some p \<Rightarrow> Some p | None \<Rightarrow> search_dirs fs name ds)"

definition including_dir :: "include_handler \<Rightarrow> buffer option \<Rightarrow> string" where
  "including_dir h parent =
     (case Option.bind parent (map_of (h_open_dirs h)) of Some d \<Rightarrow> d | None \<Rightarrow> h_base_path h)"

definition find_include :: "shader_files \<Rightarrow> include_handler \<Rightarrow> u32 \<Rightarrow> buffer option \<Rightarrow> string \<Rightarrow> string option" where
  "find_include fs h kind parent name =
     (let here = (if kind = 0 \<and> including_dir h parent \<noteq> '''' then resolve_path_ci fs (including_dir h parent) name else None) in
      if here \<noteq> None then here
      else if kind = 0 \<and> h_base_path h \<noteq> '''' then None
      else search_dirs fs name (rev (h_include_dirs h)))"

definition IncludeOpen ::
    "shader_files \<Rightarrow> sysv_include \<Rightarrow> u32 \<Rightarrow> string option \<Rightarrow> buffer option \<Rightarrow> bool \<Rightarrow> include_state \<Rightarrow>
     (u32 \<times> (buffer \<times> u32) option) \<times> include_state" where
  "IncludeOpen fs v kind file_name parent results s =
     (case n_handler s of
        None \<Rightarrow> ((SE_E_FAIL, None), s\<lparr>n_fault := True\<rparr>)
      | Some h \<Rightarrow>
        case h_forward h of
          Some other \<Rightarrow> (v_open v other kind file_name parent, s)
        | None \<Rightarrow>
          case file_name of
            None \<Rightarrow> ((SE_E_FAIL, None), s)
          | Some file \<Rightarrow>
            if \<not> results then ((SE_E_FAIL, None), s)
            else case find_include fs h kind parent (forward_slashes file) of
              None \<Rightarrow> ((SE_E_FAIL, None), s)
            | Some path \<Rightarrow>
              case read_file_contents fs path s of
                (None, s) \<Rightarrow> ((SE_E_FAIL, None), s)
              | (Some (p, len), s) \<Rightarrow>
                ((SE_S_OK, Some (p, len)),
                 s\<lparr>n_handler := Some (h\<lparr>h_open_dirs := AList.update p (parent_dir path) (h_open_dirs h)\<rparr>)\<rparr>))"

definition IncludeClose :: "sysv_include \<Rightarrow> buffer option \<Rightarrow> include_state \<Rightarrow> u32 \<times> include_state" where
  "IncludeClose v data s =
     (case n_handler s of
        None \<Rightarrow> (SE_E_FAIL, s\<lparr>n_fault := True\<rparr>)
      | Some h \<Rightarrow>
        case h_forward h of
          Some other \<Rightarrow> (v_close v other data, s)
        | None \<Rightarrow>
          case data of
            None \<Rightarrow> (SE_S_OK, s)
          | Some p \<Rightarrow>
            (SE_S_OK, c_free p (s\<lparr>n_handler := Some (h\<lparr>h_open_dirs := AList.delete p (h_open_dirs h)\<rparr>)\<rparr>)))"

definition SE_CreateIncludeHandler :: "string option \<Rightarrow> string option \<Rightarrow> include_state \<Rightarrow> include_state" where
  "SE_CreateIncludeHandler base_path include_dir s =
     s\<lparr>n_handler := Some \<lparr>h_forward = None,
         h_base_path = (case base_path of Some b \<Rightarrow> b | None \<Rightarrow> ''''),
         h_include_dirs = (case include_dir of Some d \<Rightarrow> [d] | None \<Rightarrow> []), h_open_dirs = []\<rparr>\<rparr>"

definition SE_CreateForwardingIncludeHandler :: "buffer option \<Rightarrow> include_state \<Rightarrow> include_state" where
  "SE_CreateForwardingIncludeHandler other s =
     s\<lparr>n_handler := Some \<lparr>h_forward = other, h_base_path = '''', h_include_dirs = [], h_open_dirs = []\<rparr>\<rparr>"

definition SE_DestroyIncludeHandler :: "include_state \<Rightarrow> include_state" where
  "SE_DestroyIncludeHandler s =
     (case n_handler s of
        None \<Rightarrow> s
      | Some h \<Rightarrow> (fold c_free (map fst (h_open_dirs h)) s)\<lparr>n_handler := None\<rparr>)"

section \<open>Case-insensitive lookup\<close>

text \<open>
  The specification: a path below \<open>dir\<close> whose components are directory entries that match the given
  names up to case.
\<close>

fun ci_path :: "shader_files \<Rightarrow> string \<Rightarrow> string list \<Rightarrow> string \<Rightarrow> bool" where
  "ci_path fs dir [] p \<longleftrightarrow> p = dir \<and> is_regular_file fs p"
| "ci_path fs dir (s # ss) p \<longleftrightarrow>
     (\<exists>es e. f_entries fs dir = Some es \<and> e \<in> set es \<and> same_name e s \<and> ci_path fs (dir @ ''/'' @ e) ss p)"

definition plain_segment :: "string \<Rightarrow> bool" where
  "plain_segment s \<longleftrightarrow> s \<noteq> '''' \<and> s \<noteq> ''.'' \<and> s \<noteq> ''..'' \<and> slash \<notin> set s"

fun join_path :: "string list \<Rightarrow> string" where
  "join_path [] = ''''"
| "join_path [s] = s"
| "join_path (s # ss) = s @ ''/'' @ join_path ss"

text \<open>What a directory tree promises: what exists is listed by its directory, which exists too.\<close>

definition tree_listed :: "shader_files \<Rightarrow> bool" where
  "tree_listed fs \<longleftrightarrow> (\<forall>d e. d \<noteq> '''' \<longrightarrow> plain_segment e \<longrightarrow> path_exists fs (d @ ''/'' @ e) \<longrightarrow>
     path_exists fs d \<and> (\<exists>es. f_entries fs d = Some es \<and> e \<in> set es))"

definition case_unique :: "shader_files \<Rightarrow> bool" where
  "case_unique fs \<longleftrightarrow> (\<forall>d es e e'. f_entries fs d = Some es \<longrightarrow> e \<in> set es \<longrightarrow> e' \<in> set es \<longrightarrow> same_name e e' \<longrightarrow> e = e')"

fun walk :: "shader_files \<Rightarrow> string \<Rightarrow> string list \<Rightarrow> string option" where
  "walk fs current [] = Some current"
| "walk fs current (s # ss) = Option.bind (resolve_segment fs current s) (\<lambda>current. walk fs current ss)"

lemma takeWhile_plain:
  "slash \<notin> set s \<Longrightarrow> takeWhile (\<lambda>c. c \<noteq> slash) s = s \<and> dropWhile (\<lambda>c. c \<noteq> slash) s = ''''"
  by (induction s) auto

lemma takeWhile_slash:
  "slash \<notin> set s \<Longrightarrow> takeWhile (\<lambda>c. c \<noteq> slash) (s @ slash # t) = s \<and> dropWhile (\<lambda>c. c \<noteq> slash) (s @ slash # t) = slash # t"
  by (induction s) auto

lemma resolve_segments_join:
  "ss \<noteq> [] \<Longrightarrow> list_all plain_segment ss \<Longrightarrow> resolve_segments fs current (join_path ss) = walk fs current ss"
proof (induction ss arbitrary: current rule: join_path.induct)
  case (2 s)
  then have "takeWhile (\<lambda>c. c \<noteq> slash) s = s" "dropWhile (\<lambda>c. c \<noteq> slash) s = ''''"
    using takeWhile_plain [of s] by (simp_all add: plain_segment_def)
  then show ?case
    by (subst resolve_segments.simps) (simp only: join_path.simps walk.simps Let_def, simp split: option.split)
next
  case (3 s t ss)
  then show ?case
    using takeWhile_slash [of s "join_path (t # ss)"]
    by (subst resolve_segments.simps) (simp add: plain_segment_def Let_def split: option.split)
qed simp

lemma find_distinct_fst:
  assumes "case_unique fs" and "f_entries fs d = Some es" and "e \<in> set es" and "same_name e s"
  shows "find (\<lambda>entry. same_name entry s) es = Some e"
proof -
  obtain e' where e': "find (\<lambda>entry. same_name entry s) es = Some e'"
    using assms(3,4) by (cases "find (\<lambda>entry. same_name entry s) es") (auto simp: find_None_iff)
  then have "e' \<in> set es" "same_name e' s"
    by (auto simp: find_Some_iff in_set_conv_nth)
  then have "same_name e' e"
    using assms(4) same_name_sym [of e s] same_name_trans by blast
  then have "e' = e"
    using assms(1-3) \<open>e' \<in> set es\<close> unfolding case_unique_def by blast
  with e' show ?thesis
    by simp
qed

text \<open>Under the promises a segment goes exactly to the entry that matches it.\<close>

lemma resolve_plain_segment:
  assumes "tree_listed fs" and "case_unique fs" and "plain_segment s" and "d \<noteq> ''''"
  shows "resolve_segment fs d s = Some p \<longleftrightarrow>
    (\<exists>es e. f_entries fs d = Some es \<and> e \<in> set es \<and> same_name e s \<and> p = d @ ''/'' @ e)"
proof (cases "path_exists fs (d @ ''/'' @ s)")
  case True
  then obtain es where es: "f_entries fs d = Some es" "s \<in> set es"
    using assms unfolding tree_listed_def by blast
  then have "e = s" if "e \<in> set es" "same_name e s" for e
    using assms(2) that unfolding case_unique_def by blast
  then show ?thesis
    using True es assms(3) by (auto simp: resolve_segment_def plain_segment_def)
next
  case False
  then have "resolve_segment fs d s = (case f_entries fs d of None \<Rightarrow> None
      | Some entries \<Rightarrow> map_option (\<lambda>entry. d @ ''/'' @ entry) (find (\<lambda>entry. same_name entry s) entries))"
    using assms(3) by (simp add: resolve_segment_def plain_segment_def)
  then show ?thesis
    using find_distinct_fst [OF assms(2)] by (auto split: option.splits simp: find_Some_iff in_set_conv_nth) blast+
qed

lemma walk_ci_path:
  assumes "tree_listed fs" and "case_unique fs" and "list_all plain_segment ss" and "d \<noteq> ''''"
  shows "walk fs d ss = Some p \<and> is_regular_file fs p \<longleftrightarrow> ci_path fs d ss p"
  using assms(3,4)
proof (induction ss arbitrary: d)
  case (Cons s ss)
  have "walk fs d (s # ss) = Some p \<and> is_regular_file fs p \<longleftrightarrow>
      (\<exists>q. resolve_segment fs d s = Some q \<and> walk fs q ss = Some p \<and> is_regular_file fs p)"
    by (auto simp: bind_eq_Some_conv)
  also have "\<dots> \<longleftrightarrow> (\<exists>es e. f_entries fs d = Some es \<and> e \<in> set es \<and> same_name e s \<and>
      walk fs (d @ ''/'' @ e) ss = Some p \<and> is_regular_file fs p)"
    using resolve_plain_segment [OF assms(1,2) _ Cons.prems(2), of s] Cons.prems(1) by auto
  also have "\<dots> \<longleftrightarrow> ci_path fs d (s # ss) p"
    using Cons by simp
  finally show ?case .
qed auto

lemma tree_listedD: "tree_listed fs \<Longrightarrow> d \<noteq> '''' \<Longrightarrow> plain_segment e \<Longrightarrow> path_exists fs (d @ ''/'' @ e) \<Longrightarrow> path_exists fs d"
  by (auto simp: tree_listed_def)

lemma exact_path_prefix:
  assumes "tree_listed fs" and "list_all plain_segment ss" and "d \<noteq> ''''" and "ss \<noteq> []"
    and "path_exists fs (d @ ''/'' @ join_path ss)"
  shows "path_exists fs (d @ ''/'' @ hd ss)"
  using assms(2-)
proof (induction ss arbitrary: d rule: join_path.induct)
  case (3 s t ss)
  have "path_exists fs ((d @ ''/'' @ s) @ ''/'' @ hd (t # ss))"
    using "3.IH" [of "d @ ''/'' @ s"] "3.prems" by simp
  then show ?case
    using "3.prems"(1,2) tree_listedD [OF assms(1), of "d @ ''/'' @ s" "hd (t # ss)"] by simp
qed auto

lemma exact_walk:
  assumes "tree_listed fs" and "list_all plain_segment ss" and "d \<noteq> ''''" and "ss \<noteq> []"
    and "path_exists fs (d @ ''/'' @ join_path ss)"
  shows "walk fs d ss = Some (d @ ''/'' @ join_path ss)"
  using assms(2-)
proof (induction ss arbitrary: d rule: join_path.induct)
  case (2 s)
  then show ?case
    by (simp add: resolve_segment_def plain_segment_def)
next
  case (3 s t ss)
  have "resolve_segment fs d s = Some (d @ ''/'' @ s)"
    using exact_path_prefix [OF assms(1) "3.prems"] "3.prems"(1) by (simp add: resolve_segment_def plain_segment_def)
  then show ?case
    using "3.IH" [of "d @ ''/'' @ s"] "3.prems" by simp
qed simp

lemma trim_plain: "d \<noteq> '''' \<Longrightarrow> last d \<noteq> slash \<Longrightarrow> trim_slashes d = d"
  by (subst trim_slashes.simps) simp

lemma resolve_path_ci_exact:
  assumes "tree_listed fs" and "case_unique fs" and "list_all plain_segment ss" and "ss \<noteq> []"
    and "d \<noteq> ''''" and "last d \<noteq> slash"
  shows "resolve_path_ci fs d (join_path ss) = Some p \<longleftrightarrow> ci_path fs d ss p"
proof -
  have walk: "resolve_segments fs (trim_slashes d) (join_path ss) = walk fs d ss"
    using assms(3-6) by (simp add: trim_plain resolve_segments_join)
  have direct: "walk fs d ss = Some (d @ ''/'' @ join_path ss)" if "is_regular_file fs (d @ ''/'' @ join_path ss)"
    using exact_walk [OF assms(1,3,5,4)] that by (simp add: is_regular_file_def path_exists_def)
  have "resolve_path_ci fs d (join_path ss) = Some p \<longleftrightarrow> walk fs d ss = Some p \<and> is_regular_file fs p"
    using assms(5,6) direct by (auto simp: resolve_path_ci_def walk Let_def split: option.splits)
  then show ?thesis
    using walk_ci_path [OF assms(1,2,3,5)] by simp
qed

lemma resolve_path_ci_regular: "resolve_path_ci fs d rel = Some p \<Longrightarrow> is_regular_file fs p"
  by (auto simp: resolve_path_ci_def Let_def split: if_splits option.splits)

section \<open>The life of the buffers\<close>

text \<open>
  The compiler opens includes and closes what it got. \<open>include_ok\<close> says that no stream is open, that the
  live buffers are exactly the keys of \<open>openDirs\<close>, and that each holds the bytes of a regular file in the
  recorded directory.
\<close>

definition buffer_ok :: "shader_files \<Rightarrow> include_state \<Rightarrow> buffer \<Rightarrow> string \<Rightarrow> bool" where
  "buffer_ok fs s p d \<longleftrightarrow> p < n_next s \<and> (\<exists>path content. is_regular_file fs path \<and> f_bytes fs path = Some content \<and>
     n_heap s p = Some content \<and> d = parent_dir path)"

definition include_ok :: "shader_files \<Rightarrow> include_state \<Rightarrow> bool" where
  "include_ok fs s \<longleftrightarrow> \<not> n_fault s \<and> n_streams s = 0 \<and> (\<exists>h. n_handler s = Some h \<and> distinct (map fst (h_open_dirs h)) \<and>
     dom (n_heap s) = fst ` set (h_open_dirs h) \<and> (\<forall>(p, d) \<in> set (h_open_dirs h). buffer_ok fs s p d))"

inductive include_step :: "shader_files \<Rightarrow> sysv_include \<Rightarrow> include_state \<Rightarrow> include_state \<Rightarrow> bool" for fs v where
  step_open: "include_step fs v s (snd (IncludeOpen fs v kind file parent results s))"
| step_close: "n_handler s = Some h \<Longrightarrow> p \<in> fst ` set (h_open_dirs h) \<Longrightarrow> include_step fs v s (snd (IncludeClose v (Some p) s))"
| step_close_null: "include_step fs v s (snd (IncludeClose v None s))"

lemma c_ask_frame:
  assumes "c_ask s = (b, s')"
  shows "n_heap s' = n_heap s" "n_next s' = n_next s" "n_streams s' = n_streams s" "n_fault s' = n_fault s"
    "n_handler s' = n_handler s"
  using assms by (auto simp: c_ask_def split: list.splits)

lemma c_malloc_frame:
  assumes "c_malloc s = (r, s')"
  shows "n_streams s' = n_streams s" "n_fault s' = n_fault s" "n_handler s' = n_handler s"
    and "r = None \<Longrightarrow> n_heap s' = n_heap s \<and> n_next s' = n_next s"
    and "r = Some p \<Longrightarrow> p = n_next s \<and> n_heap s' = (n_heap s)(p \<mapsto> []) \<and> n_next s' = n_next s + 1"
  using assms by (auto simp: c_malloc_def c_ask_def split: list.splits if_splits)

text \<open>Reading a file gives a new buffer with its bytes, or leaves the heap as it was; the stream is closed.\<close>

lemma read_file_contents_cases:
  assumes run: "read_file_contents fs path s = (r, s')" and fresh: "n_heap s (n_next s) = None"
  shows "n_streams s' = n_streams s \<and> n_fault s' = n_fault s \<and> n_handler s' = n_handler s \<and> n_next s \<le> n_next s' \<and>
    (case r of None \<Rightarrow> n_heap s' = n_heap s
     | Some (p, len) \<Rightarrow> \<exists>content. f_bytes fs path = Some content \<and> len = of_nat (length content) \<and> p = n_next s \<and>
         n_next s' = p + 1 \<and> n_heap s' = (n_heap s)(p \<mapsto> content))"
proof -
  obtain b1 s1 where 1: "c_ask s = (b1, s1)"
    by fastforce
  note f1 = c_ask_frame [OF 1]
  show ?thesis
  proof (cases "b1 \<and> f_bytes fs path \<noteq> None")
    case False
    then show ?thesis
      using run 1 f1 by (auto simp: read_file_contents_def split: option.splits if_splits)
  next
    case True
    then obtain content where c: "b1" "f_bytes fs path = Some content"
      by auto
    let ?t = "s1\<lparr>n_streams := n_streams s1 + 1\<rparr>"
    obtain b2 s2 where 2: "c_ask ?t = (b2, s2)"
      by fastforce
    obtain b3 s3 where 3: "c_ask s2 = (b3, s3)"
      by fastforce
    obtain m s4 where 4: "c_malloc s3 = (m, s4)"
      by fastforce
    obtain b5 s5 where 5: "(if content = [] then (True, s4) else c_ask s4) = (b5, s5)"
      by fastforce
    note f2 = c_ask_frame [OF 2] and f3 = c_ask_frame [OF 3] and f4 = c_malloc_frame [OF 4]
    have f5: "n_heap s5 = n_heap s4" "n_next s5 = n_next s4" "n_streams s5 = n_streams s4" "n_fault s5 = n_fault s4"
        "n_handler s5 = n_handler s4"
      using 5 c_ask_frame [of s4 b5 s5] by (auto split: if_splits)
    have eq: "(r, s') = (if \<not> b2 then (None, c_fclose s2) else if \<not> b3 then (None, c_fclose s3)
        else case m of None \<Rightarrow> (None, c_fclose s4)
        | Some p \<Rightarrow> if \<not> b5 then (None, c_fclose (c_free p s5))
            else (Some (p, of_nat (length content)), c_fclose (s5\<lparr>n_heap := (n_heap s5)(p \<mapsto> content)\<rparr>)))"
      unfolding run [symmetric] read_file_contents_def Let_def 1 prod.case
      by (simp only: c if_True option.case 2 3 4 5 prod.case)
    show ?thesis
    proof (cases m)
      case None
      then show ?thesis
        using eq f1 f2 f3 f4 by (auto simp: c_fclose_def split: if_splits)
    next
      case (Some p)
      note g = f4(5) [OF Some]
      have "(n_heap s)(n_next s := None) = n_heap s"
        using fresh by auto
      then show ?thesis
        using eq Some g f1 f2 f3 f4(1-3) f5 c by (auto simp: c_fclose_def c_free_def split: if_splits)
    qed
  qed
qed

lemma include_ok_fresh: "include_ok fs s \<Longrightarrow> n_heap s (n_next s) = None"
  by (fastforce simp: include_ok_def buffer_ok_def dom_def)

lemma find_include_regular: "find_include fs h kind parent name = Some p \<Longrightarrow> is_regular_file fs p"
proof -
  have "search_dirs fs name ds = Some p \<Longrightarrow> is_regular_file fs p" for ds
    by (induction ds) (auto split: option.splits dest: resolve_path_ci_regular)
  then show "find_include fs h kind parent name = Some p \<Longrightarrow> is_regular_file fs p"
    by (auto simp: find_include_def Let_def dest: resolve_path_ci_regular split: if_splits)
qed

lemma include_okD:
  assumes "include_ok fs s" and "n_handler s = Some h"
  shows "\<not> n_fault s" "n_streams s = 0" "distinct (map fst (h_open_dirs h))" "dom (n_heap s) = fst ` set (h_open_dirs h)"
    "(p, d) \<in> set (h_open_dirs h) \<Longrightarrow> buffer_ok fs s p d"
  using assms by (auto simp: include_ok_def)

lemma include_okI:
  assumes "\<not> n_fault s" "n_streams s = 0" "n_handler s = Some h" "distinct (map fst (h_open_dirs h))"
    "dom (n_heap s) = fst ` set (h_open_dirs h)" "\<And>p d. (p, d) \<in> set (h_open_dirs h) \<Longrightarrow> buffer_ok fs s p d"
  shows "include_ok fs s"
  using assms by (auto simp: include_ok_def)

lemma buffer_ok_mono: "buffer_ok fs s p d \<Longrightarrow> n_heap s' p = n_heap s p \<Longrightarrow> n_next s \<le> n_next s' \<Longrightarrow> buffer_ok fs s' p d"
  by (auto simp: buffer_ok_def)

lemma update_new: "p \<notin> fst ` set al \<Longrightarrow> AList.update p d al = al @ [(p, d)]"
  by (induction al) auto

lemma include_ok_open:
  assumes ok: "include_ok fs s" and run: "IncludeOpen fs v kind file parent results s = (r, s')"
  shows "include_ok fs s'"
proof -
  obtain h where h: "n_handler s = Some h"
    using ok by (auto simp: include_ok_def)
  note D = include_okD [OF ok h]
  show ?thesis
  proof (cases "h_forward h = None \<and> results \<and> (\<exists>f path. file = Some f \<and> find_include fs h kind parent (forward_slashes f) = Some path)")
    case False
    then have "s' = s"
      using run h by (auto simp: IncludeOpen_def split: option.splits if_splits)
    then show ?thesis
      using ok by simp
  next
    case True
    then obtain f path where p: "h_forward h = None" "results" "file = Some f" "find_include fs h kind parent (forward_slashes f) = Some path"
      by blast
    obtain x t where 1: "read_file_contents fs path s = (x, t)"
      by fastforce
    note R = read_file_contents_cases [OF 1 include_ok_fresh [OF ok]]
    show ?thesis
    proof (cases x)
      case None
      then have "s' = t"
        using run h p 1 by (simp add: IncludeOpen_def)
      moreover have "include_ok fs t"
        using R None D h by (intro include_okI [of t h]) (auto intro: buffer_ok_mono [OF D(5)])
      ultimately show ?thesis
        by simp
    next
      case (Some y)
      then obtain q len where y: "x = Some (q, len)"
        by (cases y) simp
      then obtain content where c: "f_bytes fs path = Some content" "q = n_next s" "n_next t = q + 1"
          "n_heap t = (n_heap s)(q \<mapsto> content)" and same: "n_streams t = n_streams s" "n_fault t = n_fault s"
        using R by auto
      have s': "s' = t\<lparr>n_handler := Some (h\<lparr>h_open_dirs := AList.update q (parent_dir path) (h_open_dirs h)\<rparr>)\<rparr>"
        using run h p 1 y by (simp add: IncludeOpen_def)
      have new: "q \<notin> fst ` set (h_open_dirs h)"
        using D(4) include_ok_fresh [OF ok] c(2) by auto
      have "buffer_ok fs s' a d" if "(a, d) \<in> set (h_open_dirs h)" for a d
      proof -
        have "a \<noteq> q"
          using new that by force
        then show ?thesis
          using c s' by (intro buffer_ok_mono [OF D(5) [OF that]]) simp_all
      qed
      moreover have "buffer_ok fs s' q (parent_dir path)"
        using c s' find_include_regular [OF p(4)] by (auto simp: buffer_ok_def)
      ultimately show ?thesis
        using D same c new s' by (intro include_okI [of s' "h\<lparr>h_open_dirs := h_open_dirs h @ [(q, parent_dir path)]\<rparr>"])
          (auto simp: update_new)
    qed
  qed
qed

lemma include_ok_close:
  assumes ok: "include_ok fs s" and h: "n_handler s = Some h" and p: "p \<in> fst ` set (h_open_dirs h)"
  shows "include_ok fs (snd (IncludeClose v (Some p) s))"
proof -
  note D = include_okD [OF ok h]
  let ?h = "h\<lparr>h_open_dirs := AList.delete p (h_open_dirs h)\<rparr>"
  show ?thesis
  proof (cases "h_forward h")
    case None
    have "p \<in> dom (n_heap s)"
      using D(4) p by simp
    then have s': "snd (IncludeClose v (Some p) s) = s\<lparr>n_handler := Some ?h, n_heap := (n_heap s)(p := None)\<rparr>"
      using h None by (auto simp: IncludeClose_def c_free_def)
    have "dom ((n_heap s)(p := None)) = fst ` set (AList.delete p (h_open_dirs h))"
      using D(4) by (auto simp: AList.delete_eq)
    moreover have "buffer_ok fs (s\<lparr>n_handler := Some ?h, n_heap := (n_heap s)(p := None)\<rparr>) q d"
      if "(q, d) \<in> set (AList.delete p (h_open_dirs h))" for q d
      using that by (intro buffer_ok_mono [OF D(5)]) (auto simp: AList.delete_eq)
    ultimately show ?thesis
      unfolding s' using D(1-3) by (intro include_okI [where h = ?h]) (simp_all add: AList.distinct_delete)
  next
    case (Some other)
    then show ?thesis
      using ok h by (simp add: IncludeClose_def)
  qed
qed

lemma include_ok_step: "include_step fs v s s' \<Longrightarrow> include_ok fs s \<Longrightarrow> include_ok fs s'"
proof (induction rule: include_step.induct)
  case (step_open s kind file_name parent results)
  then show ?case
    using include_ok_open by (metis prod.collapse)
next
  case (step_close s h p)
  then show ?case
    using include_ok_close by blast
next
  case (step_close_null s)
  then have "snd (IncludeClose v None s) = s"
    by (auto simp: IncludeClose_def include_ok_def split: option.split)
  then show ?case
    using step_close_null by simp
qed

text \<open>A process without buffers and streams, in which a handler is made.\<close>

definition include_start :: "bool list \<Rightarrow> include_state" where
  "include_start answers = \<lparr>n_heap = (\<lambda>_. None), n_next = 0, n_streams = 0, n_answers = answers, n_fault = False, n_handler = None\<rparr>"

lemma include_ok_create:
  "include_ok fs (SE_CreateIncludeHandler base dir (include_start answers))"
  "include_ok fs (SE_CreateForwardingIncludeHandler other (include_start answers))"
  by (simp_all add: include_ok_def SE_CreateIncludeHandler_def SE_CreateForwardingIncludeHandler_def include_start_def)

lemma include_ok_reachable:
  assumes "(include_step fs v)\<^sup>*\<^sup>* (SE_CreateIncludeHandler base dir (include_start answers)) s"
  shows "include_ok fs s"
  using assms by (induction rule: rtranclp_induct) (auto intro: include_ok_create include_ok_step)

lemma free_all_live:
  assumes "distinct ps" and "set ps \<subseteq> dom (n_heap s)"
  shows "fold c_free ps s = s\<lparr>n_heap := (\<lambda>p. if p \<in> set ps then None else n_heap s p)\<rparr>"
  using assms
proof (induction ps arbitrary: s)
  case (Cons p ps)
  have "c_free p s = s\<lparr>n_heap := (n_heap s)(p := None)\<rparr>"
    using Cons.prems(2) by (auto simp: c_free_def)
  moreover have "fold c_free ps (s\<lparr>n_heap := (n_heap s)(p := None)\<rparr>) =
      s\<lparr>n_heap := (\<lambda>q. if q \<in> set ps then None else ((n_heap s)(p := None)) q)\<rparr>"
    using Cons.prems by (subst Cons.IH) (auto cong: if_cong)
  moreover have "(\<lambda>q. if q \<in> set ps then None else ((n_heap s)(p := None)) q) = (\<lambda>q. if q \<in> set (p # ps) then None else n_heap s q)"
    by auto
  ultimately show ?case
    by simp
qed simp

lemma destroy_frees_all:
  assumes "include_ok fs s"
  shows "SE_DestroyIncludeHandler s = s\<lparr>n_heap := (\<lambda>_. None), n_handler := None\<rparr>"
proof -
  obtain h where h: "n_handler s = Some h"
    using assms by (auto simp: include_ok_def)
  note D = include_okD [OF assms h]
  have "(\<lambda>p. if p \<in> set (map fst (h_open_dirs h)) then None else n_heap s p) = (\<lambda>_. None)"
    using D(4) by (auto simp: fun_eq_iff dom_def)
  then show ?thesis
    using free_all_live [of "map fst (h_open_dirs h)" s] D(3,4) h by (simp add: SE_DestroyIncludeHandler_def)
qed

end
