(* ===== verification/Shader_Properties.thy ===== *)
theory Shader_Properties
  imports Shader_Include
begin

text \<open>
  The properties of the shader include handler (\<open>src/src/D3DCompiler.cpp\<close>), with a small tree that shows
  their hypotheses can hold.
\<close>

text \<open>\<open>/s/Inc/A.h\<close>.\<close>

definition sample_shaders :: shader_files where
  "sample_shaders = \<lparr>
     f_kind = (\<lambda>p. if p = ''/s/Inc/A.h'' then Some Regular else if p = ''/s'' \<or> p = ''/s/Inc'' then Some Other_kind else None),
     f_entries = (\<lambda>d. if d = ''/s'' then Some [''.'', ''..'', ''Inc''] else if d = ''/s/Inc'' then Some [''.'', ''..'', ''A.h''] else None),
     f_bytes = (\<lambda>p. if p = ''/s/Inc/A.h'' then Some [1, 2, 3] else None)\<rparr>"

lemma last_segment: "slash \<notin> set e \<Longrightarrow> parent_dir (d @ slash # e) = (if d = '''' then ''/'' else d) \<and> module_basename (d @ slash # e) = e"
proof -
  assume "slash \<notin> set e"
  then have "takeWhile (\<lambda>c. c \<noteq> slash) (rev e @ slash # rev d) = rev e \<and> dropWhile (\<lambda>c. c \<noteq> slash) (rev e @ slash # rev d) = slash # rev d"
    using takeWhile_slash [of "rev e" "rev d"] by simp
  then show ?thesis
    by (simp add: parent_dir_def module_basename_def Let_def)
qed

lemma sample_split:
  assumes "d @ ''/'' @ e = q" and "slash \<notin> set e" and "d \<noteq> ''''"
  shows "d = parent_dir q" and "e = module_basename q"
  using last_segment [OF assms(2), of d] assms by auto

lemma sample_parents:
  "parent_dir ''/s/Inc/A.h'' = ''/s/Inc''" "module_basename ''/s/Inc/A.h'' = ''A.h''"
  "parent_dir ''/s/Inc'' = ''/s''" "module_basename ''/s/Inc'' = ''Inc''"
  "parent_dir ''/s'' = ''/''" "module_basename ''/s'' = ''s''"
  by code_simp+

lemma sample_tree_listed: "tree_listed sample_shaders"
  unfolding tree_listed_def
proof (intro allI impI)
  fix d e
  assume d: "d \<noteq> ''''" and e: "plain_segment e" and p: "path_exists sample_shaders (d @ ''/'' @ e)"
  have no: "slash \<notin> set e"
    using e by (simp add: plain_segment_def)
  consider "d @ ''/'' @ e = ''/s/Inc/A.h''" | "d @ ''/'' @ e = ''/s''" | "d @ ''/'' @ e = ''/s/Inc''"
    using p by (auto simp: path_exists_def sample_shaders_def split: if_splits)
  then show "path_exists sample_shaders d \<and> (\<exists>es. f_entries sample_shaders d = Some es \<and> e \<in> set es)"
  proof cases
    case 1
    from sample_split [OF 1 no d] show ?thesis
      by (simp add: sample_parents) (simp add: path_exists_def sample_shaders_def)
  next
    case 2
    then have "length (d @ ''/'' @ e) = length ''/s''"
      by (rule arg_cong)
    then show ?thesis
      using d e by (cases d; cases e) (simp_all add: plain_segment_def)
  next
    case 3
    from sample_split [OF 3 no d] show ?thesis
      by (simp add: sample_parents) (simp add: path_exists_def sample_shaders_def)
  qed
qed

lemma sample_case_unique: "case_unique sample_shaders"
  by (auto simp: case_unique_def sample_shaders_def same_name_def split: if_splits)

text \<open>
  C32: Case-insensitive lookup is exact. In a tree whose directories list what exists below them and
  have no two entries that differ in case only, \<open>resolve_path_ci\<close> finds \<open>p\<close> for a relative path of plain
  names exactly when \<open>p\<close> is a regular file reached from the base through entries that match the names up
  to case.
\<close>

theorem include_lookup_exact:
  assumes "tree_listed fs" and "case_unique fs" and "segments \<noteq> []" and "list_all plain_segment segments"
    and "base \<noteq> ''''" and "last base \<noteq> slash"
  shows "resolve_path_ci fs base (join_path segments) = Some p \<longleftrightarrow> ci_path fs base segments p"
  using resolve_path_ci_exact [OF assms(1,2,4,3,5,6)] .

theorem include_lookup_exact_witness: "resolve_path_ci sample_shaders ''/s'' ''iNC/a.H'' = Some ''/s/Inc/A.h''"
proof -
  have "same_name ''Inc'' ''iNC''" "same_name ''A.h'' ''a.H''"
    by code_simp+
  then have "ci_path sample_shaders ''/s'' [''iNC'', ''a.H''] ''/s/Inc/A.h''"
    by (simp add: sample_shaders_def is_regular_file_def)
  moreover have "list_all plain_segment [''iNC'', ''a.H'']"
    by (simp add: plain_segment_def)
  ultimately show ?thesis
    using include_lookup_exact [OF sample_tree_listed sample_case_unique, of "[''iNC'', ''a.H'']" "''/s''" "''/s/Inc/A.h''"] by simp
qed

text \<open>
  C33: No include buffer leaks and none is freed twice. While the compiler opens includes and closes what
  it was given, whatever fails in between, the live buffers are exactly the keys of \<open>openDirs\<close>, every one
  holds the bytes of a regular file in the recorded directory and no stream stays open; destroying the
  handler frees all of them.
\<close>

theorem include_buffers_freed_once:
  assumes "(include_step fs v)\<^sup>*\<^sup>* (SE_CreateIncludeHandler base dir (include_start answers)) s"
  shows "\<not> n_fault s \<and> n_streams s = 0 \<and>
    (\<exists>h. n_handler s = Some h \<and> dom (n_heap s) = fst ` set (h_open_dirs h) \<and>
       (\<forall>(p, d) \<in> set (h_open_dirs h). \<exists>path. is_regular_file fs path \<and> n_heap s p = f_bytes fs path \<and> d = parent_dir path)) \<and>
    n_heap (SE_DestroyIncludeHandler s) = (\<lambda>_. None) \<and> \<not> n_fault (SE_DestroyIncludeHandler s)"
proof -
  have ok: "include_ok fs s"
    using assms by (rule include_ok_reachable)
  then obtain h where h: "n_handler s = Some h"
    by (auto simp: include_ok_def)
  note D = include_okD [OF ok h]
  have "\<forall>(p, d) \<in> set (h_open_dirs h). \<exists>path. is_regular_file fs path \<and> n_heap s p = f_bytes fs path \<and> d = parent_dir path"
    using D(5) unfolding buffer_ok_def by fastforce
  then show ?thesis
    using D h destroy_frees_all [OF ok] by simp
qed

definition sample_opened :: "(u32 \<times> (buffer \<times> u32) option) \<times> include_state" where
  "sample_opened = IncludeOpen sample_shaders \<lparr>v_open = (\<lambda>_ _ _ _. (0, None)), v_close = (\<lambda>_ _. 0)\<rparr> 0 (Some (''inc/a.h'')) None True
     (SE_CreateIncludeHandler (Some (''/s'')) None (include_start []))"

lemma sample_opened_result: "fst sample_opened = (SE_S_OK, Some (0, 3))" "n_heap (snd sample_opened) 0 = Some [1, 2, 3]"
  by code_simp+

theorem include_buffers_freed_once_witness:
  "n_heap (snd sample_opened) 0 = Some [1, 2, 3] \<and> n_streams (snd sample_opened) = 0 \<and>
   n_heap (SE_DestroyIncludeHandler (snd sample_opened)) 0 = None \<and> \<not> n_fault (SE_DestroyIncludeHandler (snd sample_opened))"
proof -
  have "(include_step sample_shaders \<lparr>v_open = (\<lambda>_ _ _ _. (0, None)), v_close = (\<lambda>_ _. 0)\<rparr>)\<^sup>*\<^sup>*
      (SE_CreateIncludeHandler (Some ''/s'') None (include_start [])) (snd sample_opened)"
    unfolding sample_opened_def by (rule r_into_rtranclp, rule step_open)
  from include_buffers_freed_once [OF this] sample_opened_result(2) show ?thesis
    by simp
qed

end
