(* ===== verification/Win_Strings.thy ===== *)
theory Win_Strings
  imports Loader_Image
begin

text \<open>
  The string functions that \<open>src/src/winlibs.cpp\<close> writes out itself: the bounded copies and
  concatenations of \<open>char\<close> and \<open>WCHAR\<close> strings, comparison, search, \<open>_wsplitpath_s\<close>, \<open>_wmakepath_s\<close>,
  \<open>_wfullpath\<close>, \<open>_wcsdup\<close>, \<open>mbstowcs_s\<close> and the conversion to UTF-8. A buffer is the list of its cells; a
  null pointer is \<open>None\<close>; an access outside a buffer is \<open>OutOfBounds\<close>. Sizes are \<open>size_t\<close>, so
  subtraction wraps.
\<close>

section \<open>Buffers\<close>

type_synonym 'a str = "'a word list"
type_synonym wide = "u16 list"

definition set_cell :: "'a list \<Rightarrow> nat \<Rightarrow> 'a \<Rightarrow> fault + 'a list" where
  "set_cell xs i v = (if i < length xs then Inr (xs[i := v]) else Inl OutOfBounds)"

text \<open>\<open>while (i < limit && src[i]) { dest[off + i] = src[i]; i++; }\<close>\<close>

function copy_chars :: "nat \<Rightarrow> nat \<Rightarrow> 'a::len str \<Rightarrow> nat \<Rightarrow> 'a str \<Rightarrow> fault + 'a str \<times> nat" where
  "copy_chars off limit src i dest =
     (if i < limit
      then bindE (at src i) (\<lambda>c.
        if c = 0 then Inr (dest, i)
        else bindE (set_cell dest (off + i) c) (\<lambda>dest. copy_chars off limit src (i + 1) dest))
      else Inr (dest, i))"
  by pat_completeness auto
termination
  by (relation "measure (\<lambda>(off, limit, src, i, dest). limit - i)") auto

declare copy_chars.simps [simp del]

text \<open>The copy and the terminator behind it.\<close>

definition copy_string :: "nat \<Rightarrow> nat \<Rightarrow> 'a::len str \<Rightarrow> 'a str \<Rightarrow> fault + 'a str" where
  "copy_string off limit src dest =
     bindE (copy_chars off limit src 0 dest) (\<lambda>(dest, i). set_cell dest (off + i) 0)"

text \<open>\<open>for (i < n) dest[i] = src[from + i]; dest[n] = 0;\<close>\<close>

fun copy_span :: "nat \<Rightarrow> nat \<Rightarrow> 'a::len str \<Rightarrow> nat \<Rightarrow> 'a str \<Rightarrow> fault + 'a str" where
  "copy_span from i src 0 dest = set_cell dest i 0"
| "copy_span from i src (Suc n) dest =
     bindE (at src (from + i)) (\<lambda>c. bindE (set_cell dest i c) (\<lambda>dest. copy_span from (i + 1) src n dest))"

text \<open>\<open>strlen\<close> and the loop \<open>while (n < limit && s[n]) n++\<close>.\<close>

function scan_string :: "nat \<Rightarrow> 'a::len str \<Rightarrow> nat \<Rightarrow> fault + nat" where
  "scan_string limit s n =
     (if n < limit then bindE (at s n) (\<lambda>c. if c = 0 then Inr n else scan_string limit s (n + 1)) else Inr n)"
  by pat_completeness auto
termination
  by (relation "measure (\<lambda>(limit, s, n). limit - n)") auto

declare scan_string.simps [simp del]

definition string_length :: "'a::len str \<Rightarrow> fault + nat" where
  "string_length s = scan_string (length s + 1) s 0"

section \<open>Bounded copies\<close>

text \<open>The common part: the null pointer and size checks.\<close>

definition checked_copy ::
    "'a::len str option \<Rightarrow> u64 \<Rightarrow> 'a str option \<Rightarrow> ('a str \<Rightarrow> 'a str \<Rightarrow> fault + 'a str) \<Rightarrow> fault + int \<times> 'a str option" where
  "checked_copy dest destsz src copy =
     (case dest of
        None \<Rightarrow> Inr (EINVAL, None)
      | Some d \<Rightarrow>
        if destsz = 0 then Inr (EINVAL, Some d)
        else case src of
          None \<Rightarrow> bindE (set_cell d 0 0) (\<lambda>d. Inr (EINVAL, Some d))
        | Some s \<Rightarrow> bindE (copy s d) (\<lambda>d. Inr (0, Some d)))"

definition msvcrt_strncpy_s :: "u8 list option \<Rightarrow> u64 \<Rightarrow> u8 list option \<Rightarrow> u64 \<Rightarrow> fault + int \<times> u8 list option" where
  "msvcrt_strncpy_s dest destsz src count =
     checked_copy dest destsz src (copy_string 0 (unat (if count < destsz - 1 then count else destsz - 1)))"

definition msvcrt_strcpy_s :: "u8 list option \<Rightarrow> u64 \<Rightarrow> u8 list option \<Rightarrow> fault + int \<times> u8 list option" where
  "msvcrt_strcpy_s dest destsz src = checked_copy dest destsz src (copy_string 0 (unat (destsz - 1)))"

definition msvcrt_wcsncpy_s :: "wide option \<Rightarrow> u64 \<Rightarrow> wide option \<Rightarrow> u64 \<Rightarrow> fault + int \<times> wide option" where
  "msvcrt_wcsncpy_s dest destsz src count =
     checked_copy dest destsz src (copy_string 0 (unat (if count < destsz - 1 then count else destsz - 1)))"

definition msvcrt_wcscpy_s :: "wide option \<Rightarrow> u64 \<Rightarrow> wide option \<Rightarrow> fault + int \<times> wide option" where
  "msvcrt_wcscpy_s dest destsz src = checked_copy dest destsz src (copy_string 0 (unat (destsz - 1)))"

text \<open>The concatenations leave the destination alone when the source is null.\<close>

definition checked_append ::
    "'a::len str option \<Rightarrow> u64 \<Rightarrow> 'a str option \<Rightarrow> ('a str \<Rightarrow> 'a str \<Rightarrow> fault + 'a str) \<Rightarrow> fault + int \<times> 'a str option" where
  "checked_append dest destsz src cat =
     (case (dest, src) of
        (Some d, Some s) \<Rightarrow> if destsz = 0 then Inr (EINVAL, Some d) else bindE (cat s d) (\<lambda>d. Inr (0, Some d))
      | _ \<Rightarrow> Inr (EINVAL, dest))"

text \<open>\<open>while (dlen + i < destsz - 1 && src[i])\<close> is the copy up to \<open>destsz - 1 - dlen\<close>, none below 0.\<close>

definition msvcrt_strcat_s :: "u8 list option \<Rightarrow> u64 \<Rightarrow> u8 list option \<Rightarrow> fault + int \<times> u8 list option" where
  "msvcrt_strcat_s dest destsz src = checked_append dest destsz src (\<lambda>s d.
     bindE (string_length d) (\<lambda>dlen. copy_string dlen (unat (destsz - 1) - dlen) s d))"

definition msvcrt_wcscat_s :: "wide option \<Rightarrow> u64 \<Rightarrow> wide option \<Rightarrow> fault + int \<times> wide option" where
  "msvcrt_wcscat_s dest destsz src = checked_append dest destsz src (\<lambda>s d.
     bindE (scan_string (unat destsz) d 0) (\<lambda>dlen. copy_string dlen (unat (destsz - 1) - dlen) s d))"

definition msvcrt_wcsncat_s :: "wide option \<Rightarrow> u64 \<Rightarrow> wide option \<Rightarrow> u64 \<Rightarrow> fault + int \<times> wide option" where
  "msvcrt_wcsncat_s dest destsz src count = checked_append dest destsz src (\<lambda>s d.
     bindE (scan_string (unat destsz) d 0) (\<lambda>dlen.
       let room = destsz - of_nat dlen - 1 in copy_string dlen (unat (if count < room then count else room)) s d))"

section \<open>Comparison and search\<close>

definition msvcrt_towlower :: "u16 \<Rightarrow> u16" where
  "msvcrt_towlower ch = (if 65 \<le> ch \<and> ch \<le> 90 then ch + 32 else ch)"

text \<open>The loop both \<open>wcsncmp\<close> and \<open>_wcsnicmp\<close> have, with the characters folded by \<open>f\<close>.\<close>

fun compare_chars :: "(u16 \<Rightarrow> u16) \<Rightarrow> wide \<Rightarrow> wide \<Rightarrow> nat \<Rightarrow> nat \<Rightarrow> fault + int" where
  "compare_chars f s1 s2 i 0 = Inr 0"
| "compare_chars f s1 s2 i (Suc n) =
     bindE (at s1 i) (\<lambda>x. bindE (at s2 i) (\<lambda>y.
       if f x \<noteq> f y then Inr (if f x < f y then - 1 else 1)
       else if f x = 0 then Inr 0
       else compare_chars f s1 s2 (i + 1) n))"

definition msvcrt_wcsncmp :: "wide \<Rightarrow> wide \<Rightarrow> u64 \<Rightarrow> fault + int" where
  "msvcrt_wcsncmp s1 s2 n = compare_chars (\<lambda>c. c) s1 s2 0 (unat n)"

definition msvcrt__wcsnicmp :: "wide \<Rightarrow> wide \<Rightarrow> u64 \<Rightarrow> fault + int" where
  "msvcrt__wcsnicmp s1 s2 n = compare_chars msvcrt_towlower s1 s2 0 (unat n)"

function wcsicmp_from :: "wide \<Rightarrow> wide \<Rightarrow> nat \<Rightarrow> fault + int" where
  "wcsicmp_from s1 s2 i =
     bindE (at s1 i) (\<lambda>x. bindE (at s2 i) (\<lambda>y.
       if x = 0 \<and> y = 0 then Inr 0
       else if msvcrt_towlower x \<noteq> msvcrt_towlower y then Inr (if msvcrt_towlower x < msvcrt_towlower y then - 1 else 1)
       else wcsicmp_from s1 s2 (i + 1)))"
  by pat_completeness auto
termination
  by (relation "measure (\<lambda>(s1, s2, i). length s1 - i)") (auto simp: result_simps)

declare wcsicmp_from.simps [simp del]

definition msvcrt__wcsicmp :: "wide \<Rightarrow> wide \<Rightarrow> fault + int" where
  "msvcrt__wcsicmp s1 s2 = wcsicmp_from s1 s2 0"

text \<open>\<open>tolower\<close> of the C locale.\<close>

definition lower_byte :: "u8 \<Rightarrow> u8" where
  "lower_byte c = (if 65 \<le> c \<and> c \<le> 90 then c + 32 else c)"

fun memicmp_from :: "u8 list \<Rightarrow> u8 list \<Rightarrow> nat \<Rightarrow> nat \<Rightarrow> fault + int" where
  "memicmp_from s1 s2 i 0 = Inr 0"
| "memicmp_from s1 s2 i (Suc n) =
     bindE (at s1 i) (\<lambda>x. bindE (at s2 i) (\<lambda>y.
       if lower_byte x \<noteq> lower_byte y then Inr (int (unat (lower_byte x)) - int (unat (lower_byte y)))
       else memicmp_from s1 s2 (i + 1) n))"

definition msvcrt__memicmp :: "u8 list \<Rightarrow> u8 list \<Rightarrow> u64 \<Rightarrow> fault + int" where
  "msvcrt__memicmp s1 s2 count = memicmp_from s1 s2 0 (unat count)"

text \<open>The results of the searches are positions in the string.\<close>

function find_char :: "wide \<Rightarrow> u16 \<Rightarrow> nat \<Rightarrow> fault + nat option" where
  "find_char s ch i =
     bindE (at s i) (\<lambda>c.
       if c = 0 then Inr (if ch = 0 then Some i else None)
       else if c = ch then Inr (Some i)
       else find_char s ch (i + 1))"
  by pat_completeness auto
termination
  by (relation "measure (\<lambda>(s, ch, i). length s - i)") (auto simp: result_simps)

declare find_char.simps [simp del]

definition msvcrt_wcschr :: "wide option \<Rightarrow> u16 \<Rightarrow> fault + nat option" where
  "msvcrt_wcschr s ch = (case s of None \<Rightarrow> Inr None | Some s \<Rightarrow> find_char s ch 0)"

function find_last :: "wide \<Rightarrow> (u16 \<Rightarrow> bool) \<Rightarrow> nat option \<Rightarrow> nat \<Rightarrow> fault + nat option" where
  "find_last s P found i =
     bindE (at s i) (\<lambda>c. if c = 0 then Inr found else find_last s P (if P c then Some i else found) (i + 1))"
  by pat_completeness auto
termination
  by (relation "measure (\<lambda>(s, P, found, i). length s - i)") (auto simp: result_simps)

declare find_last.simps [simp del]

definition msvcrt_wcsrchr :: "wide option \<Rightarrow> u16 \<Rightarrow> fault + nat option" where
  "msvcrt_wcsrchr s ch = (case s of None \<Rightarrow> Inr None | Some s \<Rightarrow> find_last s (\<lambda>c. c = ch) None 0)"

text \<open>The linear scan; \<open>equal i\<close> says that the comparator gives 0 for element \<open>i\<close>.\<close>

definition msvcrt_bsearch :: "u64 \<Rightarrow> (nat \<Rightarrow> bool) \<Rightarrow> nat option" where
  "msvcrt_bsearch num equal = find equal [0..<unat num]"

section \<open>Paths\<close>

text \<open>An output of \<open>_wsplitpath_s\<close> and its size; a null pointer is \<open>None\<close>.\<close>

type_synonym out_string = "(wide \<times> u64) option"

definition on_output :: "out_string \<Rightarrow> (u64 \<Rightarrow> wide \<Rightarrow> fault + wide) \<Rightarrow> fault + out_string" where
  "on_output b f =
     (case b of None \<Rightarrow> Inr None
      | Some (d, n) \<Rightarrow> if n = 0 then Inr b else bindE (f n d) (\<lambda>d. Inr (Some (d, n))))"

definition clear_output :: "out_string \<Rightarrow> fault + out_string" where
  "clear_output b = on_output b (\<lambda>n d. set_cell d 0 0)"

definition span_output :: "nat \<Rightarrow> nat \<Rightarrow> wide \<Rightarrow> out_string \<Rightarrow> fault + out_string" where
  "span_output from len path b =
     on_output b (\<lambda>n d. copy_span from 0 path (if len \<ge> unat n then unat n - 1 else len) d)"

definition tail_output :: "nat \<Rightarrow> wide \<Rightarrow> out_string \<Rightarrow> fault + out_string" where
  "tail_output from path b = on_output b (\<lambda>n d. copy_string 0 (unat n - 1) (drop from path) d)"

definition is_separator :: "u16 \<Rightarrow> bool" where
  "is_separator c \<longleftrightarrow> c = 0x2F \<or> c = 0x5C"

record split_path =
  sp_drive :: out_string
  sp_dir :: out_string
  sp_fname :: out_string
  sp_ext :: out_string

definition msvcrt__wsplitpath_s :: "wide option \<Rightarrow> split_path \<Rightarrow> fault + int \<times> split_path" where
  "msvcrt__wsplitpath_s path b =
     bindE (clear_output (sp_drive b)) (\<lambda>drive.
     bindE (clear_output (sp_dir b)) (\<lambda>dir.
     bindE (clear_output (sp_fname b)) (\<lambda>fname.
     bindE (clear_output (sp_ext b)) (\<lambda>ext.
     case path of
       None \<Rightarrow> Inr (EINVAL, \<lparr>sp_drive = drive, sp_dir = dir, sp_fname = fname, sp_ext = ext\<rparr>)
     | Some p \<Rightarrow>
       bindE (find_last p is_separator None 0) (\<lambda>last_sep.
       bindE (find_last p (\<lambda>c. c = 0x2E) None 0) (\<lambda>last_dot.
       let start = (case last_sep of Some i \<Rightarrow> i + 1 | None \<Rightarrow> 0) in
       bindE (case last_dot of
           Some dot \<Rightarrow>
             if start < dot
             then bindE (span_output start (dot - start) p fname) (\<lambda>fname.
                    bindE (tail_output dot p ext) (\<lambda>ext. Inr (fname, ext)))
             else bindE (tail_output start p fname) (\<lambda>fname. Inr (fname, ext))
         | None \<Rightarrow> bindE (tail_output start p fname) (\<lambda>fname. Inr (fname, ext))) (\<lambda>(fname, ext).
       bindE (case last_sep of Some i \<Rightarrow> span_output 0 (i + 1) p dir | None \<Rightarrow> Inr dir) (\<lambda>dir.
       Inr (0, \<lparr>sp_drive = drive, sp_dir = dir, sp_fname = fname, sp_ext = ext\<rparr>)))))))))"

text \<open>The local \<open>append\<close> of \<open>_wmakepath_s\<close>.\<close>

definition append_part :: "u64 \<Rightarrow> wide option \<Rightarrow> wide \<times> nat \<Rightarrow> fault + wide \<times> nat" where
  "append_part n src p =
     (case src of
        None \<Rightarrow> Inr p
      | Some s \<Rightarrow>
        bindE (copy_chars (snd p) (unat n - 1 - snd p) s 0 (fst p)) (\<lambda>(path, i).
        bindE (set_cell path (snd p + i) 0) (\<lambda>path. Inr (path, snd p + i))))"

definition msvcrt__wmakepath_s ::
    "wide option \<Rightarrow> u64 \<Rightarrow> wide option \<Rightarrow> wide option \<Rightarrow> wide option \<Rightarrow> wide option \<Rightarrow> fault + int \<times> wide option" where
  "msvcrt__wmakepath_s path n drive dir fname ext =
     (case path of
        None \<Rightarrow> Inr (EINVAL, None)
      | Some path \<Rightarrow>
        if n = 0 then Inr (EINVAL, Some path)
        else bindE (set_cell path 0 0) (\<lambda>path.
          bindE (append_part n drive (path, 0)) (\<lambda>p.
          bindE (append_part n dir p) (\<lambda>p.
          bindE (append_part n fname p) (\<lambda>p.
          bindE (append_part n ext p) (\<lambda>(path, pos). Inr (0, Some path)))))))"

text \<open>\<open>allocated\<close> is the result of \<open>malloc\<close>, when it does not fail.\<close>

definition msvcrt__wcsdup :: "bool \<Rightarrow> wide option \<Rightarrow> fault + wide option" where
  "msvcrt__wcsdup allocated str =
     (case str of
        None \<Rightarrow> Inr None
      | Some s \<Rightarrow> bindE (string_length s) (\<lambda>n. Inr (if allocated then Some (take (n + 1) s) else None)))"

definition msvcrt__wfullpath :: "bool \<Rightarrow> wide option \<Rightarrow> wide option \<Rightarrow> u64 \<Rightarrow> fault + wide option" where
  "msvcrt__wfullpath allocated abs_path rel_path max_length =
     (case rel_path of
        None \<Rightarrow> Inr None
      | Some s \<Rightarrow>
        case abs_path of
          None \<Rightarrow> bindE (string_length s) (\<lambda>n. Inr (if allocated then Some (take (n + 1) s) else None))
        | Some d \<Rightarrow> bindE (copy_string 0 (unat (max_length - 1)) s d) (\<lambda>d. Inr (Some d)))"

section \<open>Conversions\<close>

definition ERANGE :: int where "ERANGE = 34"
definition STRUNCATE :: int where "STRUNCATE = 80"

text \<open>\<open>for (i < n) buffer[i] = source[i]\<close>, widened; the terminator follows.\<close>

fun widen_span :: "nat \<Rightarrow> u8 list \<Rightarrow> nat \<Rightarrow> wide \<Rightarrow> fault + wide" where
  "widen_span i src 0 dest = set_cell dest i 0"
| "widen_span i src (Suc n) dest =
     bindE (at src i) (\<lambda>c. bindE (set_cell dest i (ucast c)) (\<lambda>dest. widen_span (i + 1) src n dest))"

text \<open>The status, the buffer and \<open>*converted\<close> when it is set.\<close>

definition crt_mbstowcs_s :: "wide option \<Rightarrow> u64 \<Rightarrow> u8 list option \<Rightarrow> u64 \<Rightarrow> fault + int \<times> wide option \<times> u64 option" where
  "crt_mbstowcs_s buffer buffer_count source count =
     (case source of
        None \<Rightarrow> Inr (EINVAL, buffer, None)
      | Some src \<Rightarrow>
        bindE (scan_string (unat count) src 0) (\<lambda>len.
        case buffer of
          None \<Rightarrow> Inr (0, None, Some (of_nat len + 1))
        | Some d \<Rightarrow>
          if buffer_count = 0 then Inr (EINVAL, Some d, None)
          else if len \<ge> unat buffer_count \<and> count \<noteq> - 1
          then bindE (set_cell d 0 0) (\<lambda>d. Inr (ERANGE, Some d, Some 0))
          else let (n, result) = (if len \<ge> unat buffer_count then (unat buffer_count - 1, STRUNCATE) else (len, 0)) in
            bindE (widen_span 0 src n d) (\<lambda>d. Inr (result, Some d, Some (of_nat n + 1)))))"

definition narrow_unit :: "u16 \<Rightarrow> u8 list" where
  "narrow_unit c =
     (if c \<le> 0x7f then [ucast c]
      else if c \<le> 0x7ff then [ucast (0xc0 OR drop_bit 6 c), ucast (0x80 OR (c AND 0x3f))]
      else [ucast (0xe0 OR drop_bit 12 c), ucast (0x80 OR (drop_bit 6 c AND 0x3f)), ucast (0x80 OR (c AND 0x3f))])"

function narrow_units :: "wide \<Rightarrow> nat \<Rightarrow> fault + u8 list" where
  "narrow_units s i =
     bindE (at s i) (\<lambda>c. if c = 0 then Inr [] else bindE (narrow_units s (i + 1)) (\<lambda>rest. Inr (narrow_unit c @ rest)))"
  by pat_completeness auto
termination
  by (relation "measure (\<lambda>(s, i). length s - i)") (auto simp: result_simps)

declare narrow_units.simps [simp del]

definition narrow_utf16_string :: "wide option \<Rightarrow> fault + u8 list" where
  "narrow_utf16_string value = (case value of None \<Rightarrow> Inr [] | Some s \<Rightarrow> narrow_units s 0)"

section \<open>Correctness\<close>

text \<open>The buffer \<open>xs\<close> holds the string \<open>s\<close> and its terminator.\<close>

definition c_string :: "'a::len str \<Rightarrow> 'a str \<Rightarrow> bool" where
  "c_string xs s \<longleftrightarrow> (\<exists>r. xs = s @ 0 # r) \<and> 0 \<notin> set s"

lemma c_string_at: "c_string xs s \<Longrightarrow> i < length s \<Longrightarrow> at xs i = Inr (s ! i) \<and> s ! i \<noteq> 0"
  by (auto simp: c_string_def at_def nth_append in_set_conv_nth)

lemma c_string_end: "c_string xs s \<Longrightarrow> at xs (length s) = Inr 0"
  by (auto simp: c_string_def at_def)

lemma copy_chars_spec:
  assumes "c_string src s" and "i \<le> m" and "m = min limit (length s)" and "off + m \<le> length dest"
  shows "copy_chars off limit src i dest = Inr (take (off + i) dest @ take (m - i) (drop i s) @ drop (off + m) dest, m)"
  using assms
proof (induction off limit src i dest rule: copy_chars.induct)
  case (1 off limit src i dest)
  show ?case
  proof (cases "i < m")
    case True
    then have i: "i < limit" "i < length s" "off + i < length dest"
      using "1.prems"(3,4) by auto
    have at: "at src i = Inr (s ! i)" "s ! i \<noteq> 0"
      using c_string_at [OF "1.prems"(1) i(2)] by simp_all
    have set: "set_cell dest (off + i) (s ! i) = Inr (dest[off + i := s ! i])"
      using i(3) by (simp add: set_cell_def)
    have "copy_chars off limit src i dest = copy_chars off limit src (i + 1) (dest[off + i := s ! i])"
      by (subst copy_chars.simps) (simp add: i(1) at set)
    also have "\<dots> = Inr (take (off + (i + 1)) (dest[off + i := s ! i]) @ take (m - (i + 1)) (drop (i + 1) s) @
        drop (off + m) (dest[off + i := s ! i]), m)"
      using "1.IH" [OF i(1) at(1,2) set "1.prems"(1) _ "1.prems"(3)] True "1.prems"(4) by simp
    also have "take (off + (i + 1)) (dest[off + i := s ! i]) = take (off + i) dest @ [s ! i]"
      using i(3) by (simp add: take_Suc_conv_app_nth)
    also have "drop (off + m) (dest[off + i := s ! i]) = drop (off + m) dest"
      using True by simp
    also have "(take (off + i) dest @ [s ! i]) @ take (m - (i + 1)) (drop (i + 1) s) @ drop (off + m) dest =
        take (off + i) dest @ take (m - i) (drop i s) @ drop (off + m) dest"
      using True i(2) by (simp add: Cons_nth_drop_Suc [symmetric] Suc_diff_Suc [symmetric])
    finally show ?thesis .
  next
    case False
    then have "i = m"
      using "1.prems"(2) by simp
    have "copy_chars off limit src i dest = Inr (dest, i)"
    proof (cases "i < limit")
      case True
      then have "i = length s"
        using \<open>i = m\<close> "1.prems"(3) by simp
      then show ?thesis
        using c_string_end [OF "1.prems"(1)] by (subst copy_chars.simps) simp
    next
      case False
      then show ?thesis
        by (subst copy_chars.simps) simp
    qed
    then show ?thesis
      using \<open>i = m\<close> by simp
  qed
qed

lemma copy_string_spec:
  assumes "c_string src s" and "off + min limit (length s) < length dest"
  shows "copy_string off limit src dest =
    Inr (take off dest @ take (min limit (length s)) s @ 0 # drop (off + min limit (length s) + 1) dest)"
proof -
  define m where "m = min limit (length s)"
  have off: "off + m < length dest"
    using assms(2) by (simp add: m_def)
  have "copy_chars off limit src 0 dest = Inr (take off dest @ take m s @ drop (off + m) dest, m)"
    using copy_chars_spec [OF assms(1) _ m_def, of 0 off dest] off by simp
  moreover have "(take off dest @ take m s @ drop (off + m) dest)[off + m := 0] = take off dest @ take m s @ 0 # drop (off + m + 1) dest"
    using off by (simp add: list_update_append m_def Cons_nth_drop_Suc [symmetric])
  ultimately show ?thesis
    using off by (simp add: copy_string_def set_cell_def m_def)
qed

lemma scan_string_spec:
  assumes "c_string xs s" and "n \<le> min limit (length s)"
  shows "scan_string limit xs n = Inr (min limit (length s))"
  using assms
proof (induction limit xs n rule: scan_string.induct)
  case (1 limit xs n)
  show ?case
  proof (cases "n < limit")
    case True
    show ?thesis
    proof (cases "n < length s")
      case less: True
      then show ?thesis
        using "1.IH" [OF True _ _ "1.prems"(1)] c_string_at [OF "1.prems"(1) less] True
        by (subst scan_string.simps) simp
    next
      case False
      then have "n = length s"
        using "1.prems"(2) by simp
      then show ?thesis
        using True c_string_end [OF "1.prems"(1)] by (subst scan_string.simps) simp
    qed
  next
    case False
    then show ?thesis
      using "1.prems"(2) by (subst scan_string.simps) simp
  qed
qed

lemma string_length_spec: "c_string xs s \<Longrightarrow> string_length xs = Inr (length s)"
  using scan_string_spec [of xs s 0 "length xs + 1"] by (auto simp: string_length_def c_string_def)

lemma size_minus_1: "(n :: u64) \<noteq> 0 \<Longrightarrow> unat (n - 1) = unat n - 1"
  by (rule unat_minus_one)

lemma bounded_copy:
  assumes "(n :: u64) \<noteq> 0" and "unat n \<le> length d" and "c_string src s" and "limit \<le> unat n - 1"
  shows "copy_string 0 limit src d = Inr (take (min limit (length s)) s @ 0 # drop (min limit (length s) + 1) d)"
proof -
  have "0 < unat n"
    using assms(1) by (simp add: unat_gt_0)
  then show ?thesis
    using copy_string_spec [OF assms(3), of 0 limit d] assms(2,4) by simp
qed

lemma bounded_append:
  assumes "(n :: u64) \<noteq> 0" and "unat n \<le> length d" and "c_string src s" and "c_string d t" and "length t < unat n"
    and "limit \<le> unat n - 1 - length t"
  shows "copy_string (length t) limit src d =
    Inr (t @ take (min limit (length s)) s @ 0 # drop (length t + min limit (length s) + 1) d)"
proof -
  have "take (length t) d = t"
    using assms(4) by (auto simp: c_string_def)
  then show ?thesis
    using copy_string_spec [OF assms(3), of "length t" limit d] assms(2,5,6) by simp
qed

text \<open>\<open>wcsncat_s\<close> does not check that the destination is terminated: its size then wraps.\<close>

lemma wcsncat_s_unterminated:
  assumes "0 \<notin> set d" and "length d = unat destsz" and "destsz \<noteq> 0" and "c_string src s" and "s \<noteq> []" and "count \<noteq> 0"
  shows "msvcrt_wcsncat_s (Some d) destsz (Some src) count = Inl OutOfBounds"
proof -
  have scan: "scan_string (unat destsz) d n = Inr (unat destsz)" if "n \<le> unat destsz" for n
    using that
  proof (induction "unat destsz - n" arbitrary: n)
    case 0
    then show ?case
      by (subst scan_string.simps) simp
  next
    case (Suc k)
    then have "n < unat destsz" "d ! n \<noteq> 0"
      using assms(1,2) by (auto simp: in_set_conv_nth)
    then show ?case
      using Suc by (subst scan_string.simps) (simp add: at_def assms(2))
  qed
  define limit where "limit = unat (if count < destsz - of_nat (unat destsz) - 1 then count else destsz - of_nat (unat destsz) - 1)"
  have "0 < limit"
    using assms(6) by (simp add: limit_def unat_gt_0)
  moreover have "at src 0 = Inr (s ! 0)" "s ! 0 \<noteq> 0"
    using c_string_at [OF assms(4), of 0] assms(5) by simp_all
  ultimately have "copy_chars (unat destsz) limit src 0 d = Inl OutOfBounds"
    using assms(2) by (subst copy_chars.simps) (simp add: set_cell_def)
  then show ?thesis
    using assms(3) scan [of 0] by (simp add: msvcrt_wcsncat_s_def checked_append_def Let_def limit_def copy_string_def)
qed

section \<open>Splitting and joining paths\<close>

lemma find_snoc: "find P (xs @ [x]) = (case find P xs of Some y \<Rightarrow> Some y | None \<Rightarrow> if P x then Some x else None)"
  by (induction xs) auto

lemma find_last_spec:
  assumes "c_string xs s" and "i \<le> length s"
  shows "find_last xs P found i =
    Inr (case find (\<lambda>j. P (s ! j)) (rev [i..<length s]) of Some j \<Rightarrow> Some j | None \<Rightarrow> found)"
  using assms
proof (induction xs P found i rule: find_last.induct)
  case (1 xs P found i)
  show ?case
  proof (cases "i = length s")
    case True
    then show ?thesis
      using c_string_end [OF "1.prems"(1)] by (subst find_last.simps) simp
  next
    case False
    then have i: "i < length s"
      using "1.prems"(2) by simp
    note at = c_string_at [OF "1.prems"(1) i]
    have "find_last xs P found i = find_last xs P (if P (s ! i) then Some i else found) (i + 1)"
      using at by (subst find_last.simps) simp
    moreover have "[i..<length s] = i # [i + 1..<length s]"
      using i by (simp add: upt_conv_Cons)
    ultimately show ?thesis
      using "1.IH" [of "s ! i"] at i "1.prems"(1) by (simp add: find_snoc split: option.split)
  qed
qed

definition last_index :: "(u16 \<Rightarrow> bool) \<Rightarrow> wide \<Rightarrow> nat option" where
  "last_index P s = find (\<lambda>j. P (s ! j)) (rev [0..<length s])"

lemma find_last_index: "c_string xs s \<Longrightarrow> find_last xs P None 0 = Inr (last_index P s)"
  using find_last_spec [of xs s 0 P None] by (simp add: last_index_def split: option.split)

lemma last_index_None: "last_index P s = None \<longleftrightarrow> (\<forall>c \<in> set s. \<not> P c)"
  by (auto simp: last_index_def find_None_iff all_set_conv_all_nth)

lemma last_index_Some:
  assumes "last_index P s = Some j"
  shows "j < length s" and "P (s ! j)" and "c \<in> set (drop (j + 1) s) \<Longrightarrow> \<not> P c"
proof -
  obtain i where i: "i < length s" "P (s ! (length s - 1 - i))" "j = length s - 1 - i"
      and first: "\<forall>k < i. \<not> P (s ! (length s - 1 - k))"
    using assms by (auto simp: last_index_def find_Some_iff rev_nth)
  show "j < length s" "P (s ! j)"
    using i by auto
  show "\<not> P c" if c: "c \<in> set (drop (j + 1) s)"
  proof -
    obtain k where k: "k < length s - (j + 1)" "c = s ! (j + 1 + k)"
      using c by (auto simp: in_set_conv_nth)
    then have "length s - 1 - (length s - 1 - (j + 1 + k)) = j + 1 + k" "length s - 1 - (j + 1 + k) < i"
      using i by auto
    then show ?thesis
      using first k(2) by metis
  qed
qed

lemma copy_span_spec:
  assumes "c_string src s" and "from + i + n \<le> length s" and "i + n < length d"
  shows "copy_span from i src n d = Inr (take i d @ take n (drop (from + i) s) @ 0 # drop (i + n + 1) d)"
  using assms(2,3)
proof (induction n arbitrary: i d)
  case 0
  then show ?case
    by (simp add: set_cell_def upd_conv_take_nth_drop)
next
  case (Suc n)
  have at: "at src (from + i) = Inr (s ! (from + i))"
    using c_string_at [OF assms(1)] Suc.prems(1) by simp
  have "copy_span from (i + 1) src n (d[i := s ! (from + i)]) =
      Inr (take (i + 1) (d[i := s ! (from + i)]) @ take n (drop (from + (i + 1)) s) @ 0 # drop (i + 1 + n + 1) (d[i := s ! (from + i)]))"
    using Suc.prems by (intro Suc.IH) simp_all
  moreover have "take (i + 1) (d[i := s ! (from + i)]) = take i d @ [s ! (from + i)]"
    using Suc.prems by (simp add: take_Suc_conv_app_nth)
  moreover have "s ! (from + i) # take n (drop (from + (i + 1)) s) = take (Suc n) (drop (from + i) s)"
    using Suc.prems(1) by (simp add: Cons_nth_drop_Suc [symmetric])
  moreover have "drop (i + 1 + n + 1) (d[i := s ! (from + i)]) = drop (i + Suc n + 1) d"
    by simp
  ultimately show ?case
    using Suc.prems(2) at by (simp add: set_cell_def)
qed

text \<open>An output with room for every part of \<open>s\<close>; what it holds after a write.\<close>

definition roomy :: "wide \<Rightarrow> out_string \<Rightarrow> bool" where
  "roomy s b \<longleftrightarrow> (\<exists>d n. b = Some (d, n) \<and> length s < unat n \<and> unat n \<le> length d)"

definition holds_string :: "out_string \<Rightarrow> wide \<Rightarrow> bool" where
  "holds_string b t \<longleftrightarrow> (\<exists>d n. b = Some (d, n) \<and> c_string d t)"

lemma c_string_take: "c_string xs s \<Longrightarrow> 0 \<notin> set (take n s)" "c_string xs s \<Longrightarrow> 0 \<notin> set (drop n s)"
  using set_take_subset [of n s] set_drop_subset [of n s] by (auto simp: c_string_def)

lemma c_string_dropI: "c_string xs s \<Longrightarrow> n \<le> length s \<Longrightarrow> c_string (drop n xs) (drop n s)"
  using set_drop_subset [of n s] by (auto simp: c_string_def)

lemma clear_output_spec: "roomy s b \<Longrightarrow> \<exists>b'. clear_output b = Inr b' \<and> roomy s b' \<and> holds_string b' []"
proof -
  assume "roomy s b"
  then obtain d k where b: "b = Some (d, k)" "length s < unat k" "unat k \<le> length d"
    by (auto simp: roomy_def)
  then have "k \<noteq> 0" "0 < length d"
    by auto
  then have "clear_output b = Inr (Some (0 # tl d, k))"
    using b(1) by (cases d) (simp_all add: clear_output_def on_output_def set_cell_def)
  moreover have "roomy s (Some (0 # tl d, k))" "holds_string (Some (0 # tl d, k)) []"
    using b by (auto simp: roomy_def holds_string_def c_string_def)
  ultimately show ?thesis
    by blast
qed

lemma span_output_spec:
  assumes "roomy s b" and "c_string p s" and "from + n \<le> length s"
  shows "\<exists>b'. span_output from n p b = Inr b' \<and> roomy s b' \<and> holds_string b' (take n (drop from s))"
proof -
  obtain d k where b: "b = Some (d, k)" "length s < unat k" "unat k \<le> length d"
    using assms(1) by (auto simp: roomy_def)
  then have "k \<noteq> 0" "\<not> n \<ge> unat k"
    using assms(3) by auto
  then have "span_output from n p b = Inr (Some (take n (drop from s) @ 0 # drop (n + 1) d, k))"
    using copy_span_spec [OF assms(2), of "from" 0 n d] assms(3) b by (simp add: span_output_def on_output_def)
  moreover have "0 \<notin> set (take n (drop from s))"
    using c_string_take(2) [OF assms(2), of "from"] set_take_subset [of n "drop from s"] by auto
  ultimately show ?thesis
    using b assms(3) by (auto simp: roomy_def holds_string_def c_string_def)
qed

lemma tail_output_spec:
  assumes "roomy s b" and "c_string p s" and "from \<le> length s"
  shows "\<exists>b'. tail_output from p b = Inr b' \<and> roomy s b' \<and> holds_string b' (drop from s)"
proof -
  obtain d k where b: "b = Some (d, k)" "length s < unat k" "unat k \<le> length d"
    using assms(1) by (auto simp: roomy_def)
  then have "k \<noteq> 0" "min (unat k - 1) (length (drop from s)) = length (drop from s)"
    by auto
  then have "tail_output from p b = Inr (Some (drop from s @ 0 # drop (length (drop from s) + 1) d, k))"
    using copy_string_spec [OF c_string_dropI [OF assms(2,3)], of 0 "unat k - 1" d] b
    by (simp add: tail_output_def on_output_def)
  then show ?thesis
    using b c_string_take(2) [OF assms(2), of "from"] by (auto simp: roomy_def holds_string_def c_string_def)
qed

lemma append_part_spec:
  assumes "c_string path t" and "unat (n :: u64) \<le> length path" and "c_string src x" and "length t + length x < unat n"
  shows "\<exists>path'. append_part n (Some src) (path, length t) = Inr (path', length (t @ x)) \<and> c_string path' (t @ x) \<and>
    length path' = length path"
proof -
  have m: "min (unat n - 1 - length t) (length x) = length x"
    using assms(4) by simp
  have t: "take (length t) path = t" "0 \<notin> set t" "0 \<notin> set x"
    using assms(1,3) by (auto simp: c_string_def)
  have "copy_chars (length t) (unat n - 1 - length t) src 0 path = Inr (t @ x @ drop (length t + length x) path, length x)"
    using copy_chars_spec [OF assms(3) _ m [symmetric], of 0 "length t" path] assms(2,4) t(1) by simp
  moreover have "(t @ x @ drop (length t + length x) path)[length t + length x := 0] = t @ x @ 0 # drop (length t + length x + 1) path"
    using assms(2,4) by (simp add: list_update_append Cons_nth_drop_Suc [symmetric])
  ultimately have "append_part n (Some src) (path, length t) = Inr (t @ x @ 0 # drop (length t + length x + 1) path, length t + length x)"
    using assms(2,4) by (simp add: append_part_def set_cell_def)
  then show ?thesis
    using assms(2,4) t by (auto simp: c_string_def)
qed

text \<open>The parts \<open>_wsplitpath_s\<close> cuts a path into.\<close>

definition path_parts :: "wide \<Rightarrow> wide \<Rightarrow> wide \<Rightarrow> wide \<Rightarrow> bool" where
  "path_parts s dir fname ext \<longleftrightarrow> s = dir @ fname @ ext \<and>
     (dir = [] \<or> is_separator (last dir)) \<and> (\<forall>c \<in> set (fname @ ext). \<not> is_separator c) \<and>
     (ext = [] \<or> fname \<noteq> [] \<and> hd ext = 0x2E \<and> 0x2E \<notin> set (tl ext))"

lemma split_parts:
  assumes "start = (case last_index is_separator s of Some i \<Rightarrow> i + 1 | None \<Rightarrow> 0)"
  shows "start \<le> length s" and "c \<in> set (drop start s) \<Longrightarrow> \<not> is_separator c"
    and "take start s = [] \<or> is_separator (last (take start s))"
proof -
  show "start \<le> length s"
    using assms last_index_Some(1) [of is_separator s] by (fastforce split: option.splits)
  show "\<not> is_separator c" if "c \<in> set (drop start s)"
    using assms that last_index_Some(3) [of is_separator s] last_index_None [of is_separator s]
    by (auto split: option.splits)
  show "take start s = [] \<or> is_separator (last (take start s))"
    using assms last_index_Some(1,2) [of is_separator s]
    by (auto simp: take_Suc_conv_app_nth split: option.splits)
qed

lemma wsplitpath_s_spec:
  assumes p: "c_string p s" and b: "roomy s (sp_drive b)" "roomy s (sp_dir b)" "roomy s (sp_fname b)" "roomy s (sp_ext b)"
  shows "\<exists>b' dir fname ext. msvcrt__wsplitpath_s (Some p) b = Inr (0, b') \<and> path_parts s dir fname ext \<and>
    holds_string (sp_drive b') [] \<and> holds_string (sp_dir b') dir \<and> holds_string (sp_fname b') fname \<and> holds_string (sp_ext b') ext"
proof -
  obtain drive where 1: "clear_output (sp_drive b) = Inr drive" "holds_string drive []"
    using clear_output_spec [OF b(1)] by blast
  obtain dir where 2: "clear_output (sp_dir b) = Inr dir" "roomy s dir" "holds_string dir []"
    using clear_output_spec [OF b(2)] by blast
  obtain fname where 3: "clear_output (sp_fname b) = Inr fname" "roomy s fname"
    using clear_output_spec [OF b(3)] by blast
  obtain ext where 4: "clear_output (sp_ext b) = Inr ext" "roomy s ext" "holds_string ext []"
    using clear_output_spec [OF b(4)] by blast
  define sep dot where "sep = last_index is_separator s" and "dot = last_index (\<lambda>c. c = 0x2E) s"
  define start where "start = (case sep of Some i \<Rightarrow> i + 1 | None \<Rightarrow> 0)"
  note parts = split_parts [OF start_def [unfolded sep_def]]
  obtain dir' where 5: "(case sep of Some i \<Rightarrow> span_output 0 (i + 1) p dir | None \<Rightarrow> Inr dir) = Inr dir'"
      "holds_string dir' (take start s)"
    using span_output_spec [OF 2(2) p, of 0 start] parts(1) 2(3) by (cases sep) (auto simp: start_def)
  have run: "msvcrt__wsplitpath_s (Some p) b = Inr (0, \<lparr>sp_drive = drive, sp_dir = dir', sp_fname = f, sp_ext = e\<rparr>)"
    if "(case dot of
           Some dot \<Rightarrow>
             if start < dot
             then bindE (span_output start (dot - start) p fname) (\<lambda>fname. bindE (tail_output dot p ext) (\<lambda>ext. Inr (fname, ext)))
             else bindE (tail_output start p fname) (\<lambda>fname. Inr (fname, ext))
         | None \<Rightarrow> bindE (tail_output start p fname) (\<lambda>fname. Inr (fname, ext))) = Inr (f, e)" for f e
    using that 1(1) 2(1) 3(1) 4(1) 5(1) find_last_index [OF p] unfolding start_def
    by (simp add: msvcrt__wsplitpath_s_def sep_def [symmetric] dot_def [symmetric] Let_def)
  show ?thesis
  proof (cases "\<exists>k. dot = Some k \<and> start < k")
    case True
    then obtain k where k: "dot = Some k" "start < k"
      by blast
    note K = last_index_Some [OF k(1) [unfolded dot_def]]
    obtain f where f: "span_output start (k - start) p fname = Inr f" "holds_string f (take (k - start) (drop start s))"
      using span_output_spec [OF 3(2) p, of start "k - start"] K(1) k(2) by auto
    obtain e where e: "tail_output k p ext = Inr e" "holds_string e (drop k s)"
      using tail_output_spec [OF 4(2) p, of k] K(1) by auto
    have "drop start s = take (k - start) (drop start s) @ drop k s"
      using k(2) by (metis append_take_drop_id drop_drop le_add_diff_inverse2 less_imp_le)
    moreover have "drop k s = (s ! k) # drop (k + 1) s" "take (k - start) (drop start s) \<noteq> []"
      using K(1) k(2) by (simp_all add: Cons_nth_drop_Suc)
    moreover have "0x2E \<notin> set (drop (k + 1) s)"
      using K(3) by blast
    ultimately have "path_parts s (take start s) (take (k - start) (drop start s)) (drop k s)"
      using parts K(2) unfolding path_parts_def by (metis append_take_drop_id list.sel(1,3))
    then show ?thesis
      using run [of f e] k f e 1(2) 5(2) by (intro exI conjI) auto
  next
    case False
    obtain f where f: "tail_output start p fname = Inr f" "holds_string f (drop start s)"
      using tail_output_spec [OF 3(2) p parts(1)] by blast
    have "path_parts s (take start s) (drop start s) []"
      using parts by (auto simp: path_parts_def)
    then show ?thesis
      using run [of f ext] False f 4(3) 1(2) 5(2) by (intro exI conjI) (auto split: option.splits)
  qed
qed

lemma wmakepath_s_spec:
  assumes "c_string drive t1" "c_string dir t2" "c_string fname t3" "c_string ext t4"
    and "unat n \<le> length q" and "length (t1 @ t2 @ t3 @ t4) < unat n"
  shows "\<exists>q'. msvcrt__wmakepath_s (Some q) n (Some drive) (Some dir) (Some fname) (Some ext) = Inr (0, Some q') \<and>
    c_string q' (t1 @ t2 @ t3 @ t4)"
proof -
  have n: "n \<noteq> 0" "0 < length q"
    using assms(5,6) by auto
  obtain q0 where 0: "set_cell q 0 0 = Inr q0" "c_string q0 []" "length q0 = length q"
    using n(2) by (cases q) (auto simp: set_cell_def c_string_def)
  obtain q1 where 1: "append_part n (Some drive) (q0, 0) = Inr (q1, length t1)" "c_string q1 t1" "length q1 = length q"
    using append_part_spec [OF 0(2) _ assms(1), of n] 0(3) assms(5,6) by auto
  obtain q2 where 2: "append_part n (Some dir) (q1, length t1) = Inr (q2, length (t1 @ t2))" "c_string q2 (t1 @ t2)" "length q2 = length q"
    using append_part_spec [OF 1(2) _ assms(2), of n] 1(3) assms(5,6) by auto
  obtain q3 where 3: "append_part n (Some fname) (q2, length (t1 @ t2)) = Inr (q3, length (t1 @ t2 @ t3))"
      "c_string q3 (t1 @ t2 @ t3)" "length q3 = length q"
    using append_part_spec [OF 2(2) _ assms(3), of n] 2(3) assms(5,6) by auto
  obtain q4 where 4: "append_part n (Some ext) (q3, length (t1 @ t2 @ t3)) = Inr (q4, length (t1 @ t2 @ t3 @ t4))"
      "c_string q4 (t1 @ t2 @ t3 @ t4)"
    using append_part_spec [OF 3(2) _ assms(4), of n] 3(3) assms(5,6) by auto
  show ?thesis
    using n(1) 0(1) 1(1) 2(1) 3(1) 4 unfolding msvcrt__wmakepath_s_def by (intro exI [of _ q4]) (simp only: option.case if_False bindE_simps prod.case simp_thms)
qed

end
