(* ===== verification/String_Properties.thy ===== *)
theory String_Properties
  imports Win_Strings
begin

text \<open>
  The properties of the string functions of \<open>src/src/winlibs.cpp\<close>, with inputs that show their hypotheses
  can hold.
\<close>

text \<open>
  C34: The bounded copies stay inside a destination of the promised size and leave it terminated: with a
  terminated source they write the longest prefix that fits (and that \<open>count\<close> allows) and the terminator,
  keep the cells behind it, and return 0.
\<close>

theorem bounded_copies:
  assumes "destsz \<noteq> 0" and "unat destsz \<le> length d" and "c_string src s" and "unat destsz \<le> length w" and "c_string wsrc t"
  shows
    "msvcrt_strcpy_s (Some d) destsz (Some src) =
       (let m = min (unat destsz - 1) (length s) in Inr (0, Some (take m s @ 0 # drop (m + 1) d))) \<and>
     msvcrt_strncpy_s (Some d) destsz (Some src) count =
       (let m = min (min (unat count) (unat destsz - 1)) (length s) in Inr (0, Some (take m s @ 0 # drop (m + 1) d))) \<and>
     msvcrt_wcscpy_s (Some w) destsz (Some wsrc) =
       (let m = min (unat destsz - 1) (length t) in Inr (0, Some (take m t @ 0 # drop (m + 1) w))) \<and>
     msvcrt_wcsncpy_s (Some w) destsz (Some wsrc) count =
       (let m = min (min (unat count) (unat destsz - 1)) (length t) in Inr (0, Some (take m t @ 0 # drop (m + 1) w)))"
proof -
  have limit: "unat (if count < destsz - 1 then count else destsz - 1) = min (unat count) (unat destsz - 1)"
    using size_minus_1 [OF assms(1)] by (simp add: word_less_nat_alt min_def)
  have narrow: "copy_string 0 k src d = Inr (take (min k (length s)) s @ 0 # drop (min k (length s) + 1) d)"
    if "k \<le> unat destsz - 1" for k
    using bounded_copy [OF assms(1-3) that] .
  have wide: "copy_string 0 k wsrc w = Inr (take (min k (length t)) t @ 0 # drop (min k (length t) + 1) w)"
    if "k \<le> unat destsz - 1" for k
    using bounded_copy [OF assms(1,4,5) that] .
  show ?thesis
    using assms(1) narrow wide
    by (simp add: msvcrt_strcpy_s_def msvcrt_strncpy_s_def msvcrt_wcscpy_s_def msvcrt_wcsncpy_s_def checked_copy_def
        limit size_minus_1 Let_def)
qed

theorem bounded_copies_witness:
  "msvcrt_strcpy_s (Some [9, 9, 9]) 3 (Some [65, 66, 67, 0]) = Inr (0, Some [65, 66, 0]) \<and>
   msvcrt_wcsncpy_s (Some [9, 9, 9]) 3 (Some [65, 66, 67, 0]) 1 = Inr (0, Some [65, 0, 9])"
proof -
  have "c_string ([65, 66, 67, 0] :: u8 list) [65, 66, 67]" "c_string ([65, 66, 67, 0] :: u16 list) [65, 66, 67]"
    by (simp_all add: c_string_def)
  from bounded_copies [OF _ _ this(1) _ this(2), of 3 "[9, 9, 9]" "[9, 9, 9]" 1] show ?thesis
    by simp
qed

text \<open>
  The concatenations keep a terminated destination of the promised size terminated: they append the
  longest prefix of the source that fits (and that \<open>count\<close> allows) and return 0.
\<close>

theorem bounded_concatenations:
  assumes "unat destsz \<le> length d" and "c_string d a" and "length a < unat destsz" and "c_string src s"
    and "unat destsz \<le> length w" and "c_string w b" and "length b < unat destsz" and "c_string wsrc t"
  shows
    "msvcrt_strcat_s (Some d) destsz (Some src) =
       (let m = min (unat destsz - 1 - length a) (length s) in Inr (0, Some (a @ take m s @ 0 # drop (length a + m + 1) d))) \<and>
     msvcrt_wcscat_s (Some w) destsz (Some wsrc) =
       (let m = min (unat destsz - 1 - length b) (length t) in Inr (0, Some (b @ take m t @ 0 # drop (length b + m + 1) w))) \<and>
     msvcrt_wcsncat_s (Some w) destsz (Some wsrc) count =
       (let m = min (min (unat count) (unat destsz - 1 - length b)) (length t) in
        Inr (0, Some (b @ take m t @ 0 # drop (length b + m + 1) w)))"
proof -
  have n: "destsz \<noteq> 0"
    using assms(3) by auto
  have "unat (destsz - of_nat (length b) - 1) = unat destsz - 1 - length b"
  proof -
    have b: "unat (of_nat (length b) :: u64) = length b"
      using assms(7) unsigned_less [of destsz, where ?'a = nat] by (simp add: unat_of_nat)
    have le: "of_nat (length b) \<le> destsz"
      using assms(7) b by (simp add: word_le_nat_alt)
    have diff: "unat (destsz - of_nat (length b)) = unat destsz - length b"
      using unat_sub [OF le] b by simp
    then have "destsz - of_nat (length b) \<noteq> 0"
      using assms(7) by (metis unat_0 less_numeral_extra(3) zero_less_diff)
    then show ?thesis
      using size_minus_1 [of "destsz - of_nat (length b)"] diff by simp
  qed
  then have limit: "unat (if count < destsz - of_nat (length b) - 1 then count else destsz - of_nat (length b) - 1) =
      min (unat count) (unat destsz - 1 - length b)"
    by (simp add: word_less_nat_alt min_def)
  have scan: "scan_string (unat destsz) w 0 = Inr (length b)"
    using scan_string_spec [OF assms(6), of 0 "unat destsz"] assms(7) by (simp add: min_def)
  note cats = bounded_append [OF n assms(1,4,2,3)] bounded_append [OF n assms(5,8,6,7)]
  show ?thesis
    using n cats string_length_spec [OF assms(2)]
    by (simp add: msvcrt_strcat_s_def msvcrt_wcscat_s_def msvcrt_wcsncat_s_def checked_append_def scan limit size_minus_1 Let_def)
qed

theorem bounded_concatenations_witness:
  "msvcrt_strcat_s (Some [65, 0, 9]) 3 (Some [66, 67, 0]) = Inr (0, Some [65, 66, 0]) \<and>
   msvcrt_wcsncat_s (Some [65, 0, 9, 9]) 4 (Some [66, 67, 0]) 1 = Inr (0, Some [65, 66, 0, 9])"
proof -
  have c: "c_string ([65, 0, 9] :: u8 list) [65]" "c_string ([66, 67, 0] :: u8 list) [66, 67]"
      "c_string ([65, 0, 9, 9] :: u16 list) [65]" "c_string ([66, 67, 0] :: u16 list) [66, 67]"
    by (auto simp: c_string_def)
  have "msvcrt_strcat_s (Some [65, 0, 9]) 3 (Some [66, 67, 0]) = Inr (0, Some [65, 66, 0])"
    using bounded_concatenations [OF _ c(1) _ c(2) _ c(3) _ c(4), of 3] by simp
  moreover have "c_string ([65, 0, 9, 9] :: u8 list) [65]"
    by (auto simp: c_string_def)
  then have "msvcrt_wcsncat_s (Some [65, 0, 9, 9]) 4 (Some [66, 67, 0]) 1 = Inr (0, Some [65, 66, 0, 9])"
    using bounded_concatenations [OF _ _ _ c(2) _ c(3) _ c(4), of 4 "[65, 0, 9, 9]" "[65]" 1] by simp
  ultimately show ?thesis
    by blast
qed

text \<open>
  \<open>_wmakepath_s\<close> undoes \<open>_wsplitpath_s\<close>. With room in every output, a path is cut into a directory that
  is empty or ends with a separator, a name and an extension without separators, the extension being
  empty or beginning with the last dot of a name that does not start with it; joining the outputs gives
  the path again.
\<close>

theorem split_then_make:
  assumes "c_string p s" and "roomy s (sp_drive b)" and "roomy s (sp_dir b)" and "roomy s (sp_fname b)" and "roomy s (sp_ext b)"
    and "unat n \<le> length q" and "length s < unat n"
  shows "\<exists>drive dir fname ext b' q'. msvcrt__wsplitpath_s (Some p) b = Inr (0, b') \<and>
    map_option fst (sp_drive b') = Some drive \<and> map_option fst (sp_dir b') = Some dir \<and>
    map_option fst (sp_fname b') = Some fname \<and> map_option fst (sp_ext b') = Some ext \<and>
    (\<exists>x y z. c_string dir x \<and> c_string fname y \<and> c_string ext z \<and> path_parts s x y z) \<and>
    msvcrt__wmakepath_s (Some q) n (Some drive) (Some dir) (Some fname) (Some ext) = Inr (0, Some q') \<and> c_string q' s"
proof -
  obtain b' x y z where split: "msvcrt__wsplitpath_s (Some p) b = Inr (0, b')" "path_parts s x y z"
    "holds_string (sp_drive b') []" "holds_string (sp_dir b') x" "holds_string (sp_fname b') y" "holds_string (sp_ext b') z"
    using wsplitpath_s_spec [OF assms(1-5)] by blast
  then obtain drive dir fname ext where parts: "map_option fst (sp_drive b') = Some drive" "c_string drive []"
    "map_option fst (sp_dir b') = Some dir" "c_string dir x" "map_option fst (sp_fname b') = Some fname" "c_string fname y"
    "map_option fst (sp_ext b') = Some ext" "c_string ext z"
    unfolding holds_string_def by auto
  have s: "[] @ x @ y @ z = s"
    using split(2) by (simp add: path_parts_def)
  obtain q' where "msvcrt__wmakepath_s (Some q) n (Some drive) (Some dir) (Some fname) (Some ext) = Inr (0, Some q')" "c_string q' s"
    using wmakepath_s_spec [OF parts(2,4,6,8) assms(6)] assms(7) unfolding s by blast
  with split parts show ?thesis
    by blast
qed

theorem split_then_make_witness:
  "\<exists>b' dir fname ext. msvcrt__wsplitpath_s (Some [0x61, 0x5C, 0x62, 0x2E, 0x63, 0])
      (let o8 = Some (replicate 8 0, 8) in \<lparr>sp_drive = o8, sp_dir = o8, sp_fname = o8, sp_ext = o8\<rparr>) = Inr (0, b') \<and>
    path_parts [0x61, 0x5C, 0x62, 0x2E, 0x63] dir fname ext"
proof -
  let ?b = "\<lparr>sp_drive = Some (replicate 8 0, 8), sp_dir = Some (replicate 8 0, 8), sp_fname = Some (replicate 8 0, 8),
      sp_ext = Some (replicate 8 0, 8)\<rparr>"
  have p: "c_string [0x61, 0x5C, 0x62, 0x2E, 0x63, 0] ([0x61, 0x5C, 0x62, 0x2E, 0x63] :: wide)"
    by (simp add: c_string_def)
  have b: "roomy [0x61, 0x5C, 0x62, 0x2E, 0x63] (Some (replicate 8 0, 8))"
    by (simp add: roomy_def)
  show ?thesis
    using split_then_make [OF p, of ?b 8 "replicate 8 0"] b unfolding Let_def by fastforce
qed

end
