(* ===== verification/Win_Onexit.thy ===== *)
theory Win_Onexit
  imports Prelude
begin

text \<open>
  The onexit tables of \<open>src/src/winlibs.cpp\<close>: \<open>_register_onexit_function\<close>, \<open>_execute_onexit_table\<close>,
  \<open>_initialize_onexit_table\<close>, \<open>__dllonexit\<close>, \<open>_initterm\<close> and \<open>_initterm_e\<close>. The execution of a table is a
  step relation of any number of threads: the mutex makes each access of a table one step, and the
  callbacks run in between, where they may register and execute. A frame of \<open>x_stack\<close> is a running
  \<open>_execute_onexit_table\<close>; the table of the innermost frame is the
  thread-local \<open>g_executing_onexit_table\<close>.
\<close>

section \<open>State\<close>

type_synonym callback = nat
type_synonym table_id = nat
type_synonym thread = nat

text \<open>\<open>_first\<close> is null exactly when there is no allocation; \<open>_last\<close> is behind the callbacks.\<close>

record onexit_table =
  o_first :: "callback list option"
  o_capacity :: nat

definition empty_table :: onexit_table where
  "empty_table = \<lparr>o_first = None, o_capacity = 0\<rparr>"

definition callbacks :: "onexit_table \<Rightarrow> callback list" where
  "callbacks table = (case o_first table of None \<Rightarrow> [] | Some fs \<Rightarrow> fs)"

text \<open>About to take a callback, inside one, or behind the loop.\<close>

datatype phase = Popping | Calling callback | Leaving

record onexit =
  x_table :: "table_id \<Rightarrow> onexit_table"
  x_executing :: "table_id set"
  x_stack :: "thread \<Rightarrow> (table_id \<times> phase) list"

definition initial_onexit :: onexit where
  "initial_onexit = \<lparr>x_table = (\<lambda>_. empty_table), x_executing = {}, x_stack = (\<lambda>_. [])\<rparr>"

section \<open>The operations\<close>

text \<open>\<open>allocated\<close> says that \<open>realloc\<close> succeeds.\<close>

definition crt__register_onexit_function :: "bool \<Rightarrow> table_id option \<Rightarrow> callback option \<Rightarrow> onexit \<Rightarrow> int \<times> onexit" where
  "crt__register_onexit_function allocated raw_table raw_func s =
     (case (raw_table, raw_func) of
        (Some b, Some func) \<Rightarrow>
          let table = x_table s b;
              count = (case o_first table of None \<Rightarrow> 0 | Some fs \<Rightarrow> length fs);
              capacity = (case o_first table of None \<Rightarrow> 0 | Some fs \<Rightarrow> o_capacity table) in
          if count = capacity \<and> \<not> allocated then (- 1, s)
          else let new_capacity = (if count = capacity then (if capacity \<noteq> 0 then capacity * 2 else 32) else capacity) in
            (0, s\<lparr>x_table := (x_table s)(b := \<lparr>o_first = Some (callbacks table @ [func]), o_capacity = new_capacity\<rparr>)\<rparr>)
      | _ \<Rightarrow> (- 1, s))"

definition crt__initialize_onexit_table :: "table_id option \<Rightarrow> onexit \<Rightarrow> int \<times> onexit" where
  "crt__initialize_onexit_table raw_table s =
     (case raw_table of
        None \<Rightarrow> (- 1, s)
      | Some b \<Rightarrow>
        if o_first (x_table s b) \<noteq> None then (0, s)
        else (0, s\<lparr>x_table := (x_table s)(b := empty_table)\<rparr>))"

text \<open>
  \<open>_execute_onexit_table\<close>: its entry (\<open>None\<close> while it waits for another execution of the table), one round of
  its loop, and its end.
\<close>

definition enter_execute :: "thread \<Rightarrow> table_id option \<Rightarrow> onexit \<Rightarrow> (int option \<times> onexit) option" where
  "enter_execute t raw_table s =
     (case raw_table of
        None \<Rightarrow> Some (Some (- 1), s)
      | Some b \<Rightarrow>
        if x_stack s t \<noteq> [] \<and> fst (hd (x_stack s t)) = b then Some (Some 0, s)
        else if b \<in> x_executing s then None
        else Some (None, s\<lparr>x_executing := insert b (x_executing s), x_stack := (x_stack s)(t := (b, Popping) # x_stack s t)\<rparr>))"

definition set_top :: "thread \<Rightarrow> phase \<Rightarrow> onexit \<Rightarrow> onexit" where
  "set_top t p s = s\<lparr>x_stack := (x_stack s)(t := (fst (hd (x_stack s t)), p) # tl (x_stack s t))\<rparr>"

definition pop_callback :: "thread \<Rightarrow> onexit \<Rightarrow> callback option \<times> onexit" where
  "pop_callback t s =
     (let b = fst (hd (x_stack s t)); fs = callbacks (x_table s b) in
      if fs \<noteq> []
      then (Some (last fs), set_top t (Calling (last fs)) (s\<lparr>x_table := (x_table s)(b := (x_table s b)\<lparr>o_first := Some (butlast fs)\<rparr>)\<rparr>))
      else (None, set_top t Leaving (s\<lparr>x_table := (x_table s)(b := empty_table)\<rparr>)))"

definition leave_execute :: "thread \<Rightarrow> onexit \<Rightarrow> onexit" where
  "leave_execute t s =
     s\<lparr>x_stack := (x_stack s)(t := tl (x_stack s t)), x_executing := x_executing s - {fst (hd (x_stack s t))}\<rparr>"

text \<open>\<open>_initterm\<close> and \<open>_initterm_e\<close> over the entries from \<open>table\<close> to \<open>end\<close>; the functions called, and the result.\<close>

fun crt__initterm :: "callback option list \<Rightarrow> callback list" where
  "crt__initterm [] = []"
| "crt__initterm (None # fs) = crt__initterm fs"
| "crt__initterm (Some f # fs) = f # crt__initterm fs"

fun crt__initterm_e :: "(callback \<Rightarrow> int) \<Rightarrow> callback option list \<Rightarrow> int \<times> callback list" where
  "crt__initterm_e result [] = (0, [])"
| "crt__initterm_e result (None # fs) = crt__initterm_e result fs"
| "crt__initterm_e result (Some f # fs) =
     (if result f \<noteq> 0 then (result f, [f])
      else case crt__initterm_e result fs of (r, called) \<Rightarrow> (r, f # called))"

text \<open>\<open>__dllonexit\<close> on a table the caller keeps as a start and an end pointer.\<close>

definition msvcr___dllonexit :: "bool \<Rightarrow> callback option \<Rightarrow> callback list option \<Rightarrow> callback option \<times> callback list option" where
  "msvcr___dllonexit allocated raw_func table =
     (case raw_func of
        None \<Rightarrow> (None, table)
      | Some f \<Rightarrow>
        if \<not> allocated then (None, table)
        else (Some f, Some ((case table of None \<Rightarrow> [] | Some fs \<Rightarrow> fs) @ [f])))"

section \<open>Runs\<close>

datatype onexit_event =
    Registered table_id callback
  | Called thread table_id callback
  | Finished thread table_id

text \<open>A thread registers and enters from outside or from a callback.\<close>

definition may_act :: "thread \<Rightarrow> onexit \<Rightarrow> bool" where
  "may_act t s \<longleftrightarrow> (case x_stack s t of [] \<Rightarrow> True | (b, p) # fs \<Rightarrow> (\<exists>f. p = Calling f))"

inductive onexit_run :: "onexit_event list \<Rightarrow> onexit \<Rightarrow> bool" where
  run_start: "onexit_run [] initial_onexit"
| run_register: "onexit_run es s \<Longrightarrow> may_act t s \<Longrightarrow>
    crt__register_onexit_function allocated (Some b) (Some f) s = (0, s') \<Longrightarrow> onexit_run (es @ [Registered b f]) s'"
| run_initialize: "onexit_run es s \<Longrightarrow> may_act t s \<Longrightarrow> crt__initialize_onexit_table raw s = (r, s') \<Longrightarrow> onexit_run es s'"
| run_enter: "onexit_run es s \<Longrightarrow> may_act t s \<Longrightarrow> enter_execute t raw s = Some (r, s') \<Longrightarrow> onexit_run es s'"
| run_call: "onexit_run es s \<Longrightarrow> x_stack s t = (b, Popping) # fs \<Longrightarrow> pop_callback t s = (Some f, s') \<Longrightarrow>
    onexit_run (es @ [Called t b f]) s'"
| run_return: "onexit_run es s \<Longrightarrow> x_stack s t = (b, Calling f) # fs \<Longrightarrow> onexit_run es (set_top t Popping s)"
| run_finish: "onexit_run es s \<Longrightarrow> x_stack s t = (b, Popping) # fs \<Longrightarrow> pop_callback t s = (None, s') \<Longrightarrow>
    onexit_run (es @ [Finished t b]) s'"
| run_leave: "onexit_run es s \<Longrightarrow> x_stack s t = (b, Leaving) # fs \<Longrightarrow> onexit_run es (leave_execute t s)"

section \<open>Correctness\<close>

text \<open>The events of one table as operations of a stack: \<open>None\<close> when they are not.\<close>

fun replay_event :: "table_id \<Rightarrow> onexit_event \<Rightarrow> callback list option \<Rightarrow> callback list option" where
  "replay_event b (Registered c f) st = (if c = b then map_option (\<lambda>fs. fs @ [f]) st else st)"
| "replay_event b (Called t c f) st =
     (if c = b then Option.bind st (\<lambda>fs. if fs \<noteq> [] \<and> last fs = f then Some (butlast fs) else None) else st)"
| "replay_event b (Finished t c) st = (if c = b then Option.bind st (\<lambda>fs. if fs = [] then Some [] else None) else st)"

definition replay :: "table_id \<Rightarrow> onexit_event list \<Rightarrow> callback list option" where
  "replay b es = fold (replay_event b) es (Some [])"

lemma replay_simps [simp]: "replay b [] = Some []" "replay b (es @ [e]) = replay_event b e (replay b es)"
  by (simp_all add: replay_def)

lemma callbacks_simps [simp]: "callbacks empty_table = []" "callbacks \<lparr>o_first = Some fs, o_capacity = n\<rparr> = fs"
  "callbacks (table\<lparr>o_first := Some fs\<rparr>) = fs"
  by (simp_all add: callbacks_def empty_table_def)

lemma set_top_simps [simp]:
  "x_table (set_top t p s) = x_table s" "x_executing (set_top t p s) = x_executing s"
  by (simp_all add: set_top_def)

lemma run_replay: "onexit_run es s \<Longrightarrow> replay b es = Some (callbacks (x_table s b))"
proof (induction rule: onexit_run.induct)
  case (run_register es s t allocated c f s')
  then show ?case
    by (auto simp: crt__register_onexit_function_def Let_def split: if_splits)
next
  case (run_initialize es s t raw r s')
  then show ?case
    by (auto simp: crt__initialize_onexit_table_def callbacks_def empty_table_def split: option.splits if_splits)
next
  case (run_enter es s t raw r s')
  then show ?case
    by (auto simp: enter_execute_def split: option.splits if_splits)
next
  case (run_call es s t c fs f s')
  then show ?case
    by (auto simp: pop_callback_def Let_def split: if_splits)
next
  case (run_finish es s t c fs s')
  then show ?case
    by (auto simp: pop_callback_def Let_def split: if_splits)
qed (simp_all add: initial_onexit_def leave_execute_def)

text \<open>A table is in one frame at most, and marked as executing while it is.\<close>

definition frames :: "thread \<Rightarrow> onexit \<Rightarrow> table_id list" where
  "frames t s = map fst (x_stack s t)"

definition frames_ok :: "onexit \<Rightarrow> bool" where
  "frames_ok s \<longleftrightarrow> x_executing s = (\<Union>t. set (frames t s)) \<and> (\<forall>t. distinct (frames t s)) \<and>
     (\<forall>t u. t \<noteq> u \<longrightarrow> set (frames t s) \<inter> set (frames u s) = {})"

lemma frames_set_top: "x_stack s t \<noteq> [] \<Longrightarrow> frames u (set_top t p s) = frames u s"
  by (cases "x_stack s t") (auto simp: frames_def set_top_def)

lemma frames_ok_cong: "x_executing s' = x_executing s \<Longrightarrow> (\<And>u. frames u s' = frames u s) \<Longrightarrow> frames_ok s \<Longrightarrow> frames_ok s'"
  by (simp add: frames_ok_def)

lemma frames_table [simp]: "frames u (s\<lparr>x_table := tb\<rparr>) = frames u s"
  by (simp add: frames_def)

lemma frames_ok_enter:
  assumes "frames_ok s" and "b \<notin> x_executing s"
  shows "frames_ok (s\<lparr>x_executing := insert b (x_executing s), x_stack := (x_stack s)(t := (b, p) # x_stack s t)\<rparr>)"
proof -
  have "frames u (s\<lparr>x_executing := insert b (x_executing s), x_stack := (x_stack s)(t := (b, p) # x_stack s t)\<rparr>) =
      (if u = t then b # frames t s else frames u s)" for u
    by (simp add: frames_def)
  moreover have "b \<notin> set (frames u s)" for u
    using assms by (auto simp: frames_ok_def)
  ultimately show ?thesis
    using assms(1) by (auto simp: frames_ok_def split: if_splits)
qed

lemma frames_ok_leave:
  assumes "frames_ok s" and "x_stack s t = (b, p) # fs"
  shows "frames_ok (leave_execute t s)"
proof -
  have eq: "frames u (leave_execute t s) = (if u = t then map fst fs else frames u s)" for u
    using assms(2) by (simp add: frames_def leave_execute_def)
  have t: "frames t s = b # map fst fs"
    using assms(2) by (simp add: frames_def)
  have ok: "x_executing s = (\<Union>t. set (frames t s))" "\<And>u. distinct (frames u s)"
      "\<And>u v. u \<noteq> v \<Longrightarrow> set (frames u s) \<inter> set (frames v s) = {}"
    using assms(1) unfolding frames_ok_def by blast+
  have other: "b \<notin> set (frames u s)" if "u \<noteq> t" for u
    using ok(3) [OF that] t by auto
  have own: "b \<notin> set (map fst fs)" "distinct (map fst fs)"
    using ok(2) [of t] t by simp_all
  have split: "(\<Union>u. set (frames u s)) = insert b (\<Union>u. set (frames u (leave_execute t s)))"
  proof -
    have "x \<in> set (frames u s) \<longleftrightarrow> u = t \<and> x = b \<or> x \<in> set (frames u (leave_execute t s))" for x u
      using t eq by (cases "u = t") auto
    then show ?thesis
      unfolding set_eq_iff UN_iff insert_iff by blast
  qed
  have new: "b \<notin> set (frames u (leave_execute t s))" for u
    using eq [of u] other own(1) by (auto split: if_splits)
  show ?thesis
    unfolding frames_ok_def
  proof (intro conjI allI impI)
    show "x_executing (leave_execute t s) = (\<Union>u. set (frames u (leave_execute t s)))"
      using ok(1) split new assms(2) by (auto simp: leave_execute_def)
    show "distinct (frames u (leave_execute t s))" for u
      using ok(2) [of u] own(2) eq [of u] by simp
    show "set (frames u (leave_execute t s)) \<inter> set (frames v (leave_execute t s)) = {}" if "u \<noteq> v" for u v
      using ok(3) [OF that] eq [of u] eq [of v] t by (auto split: if_splits)
  qed
qed

lemma run_frames: "onexit_run es s \<Longrightarrow> frames_ok s"
proof (induction rule: onexit_run.induct)
  case run_start
  show ?case
    by (simp add: frames_ok_def frames_def initial_onexit_def)
next
  case (run_register es s t allocated c f s')
  then show ?case
    by (auto simp: crt__register_onexit_function_def Let_def split: if_splits intro: frames_ok_cong)
next
  case (run_initialize es s t raw r s')
  then show ?case
    by (auto simp: crt__initialize_onexit_table_def split: option.splits if_splits intro: frames_ok_cong)
next
  case (run_enter es s t raw r s')
  then show ?case
    by (auto simp: enter_execute_def split: option.splits if_splits intro: frames_ok_enter)
next
  case (run_call es s t c fs f s')
  then show ?case
    by (auto simp: pop_callback_def Let_def frames_set_top split: if_splits intro!: frames_ok_cong [of _ s])
next
  case (run_return es s t c f fs)
  then show ?case
    by (auto simp: frames_set_top intro!: frames_ok_cong [of _ s])
next
  case (run_finish es s t c fs s')
  then show ?case
    by (auto simp: pop_callback_def Let_def frames_set_top split: if_splits intro!: frames_ok_cong [of _ s])
next
  case (run_leave es s t c fs)
  then show ?case
    using frames_ok_leave by blast
qed

text \<open>A callback that executes a table further out than the innermost waits for its own thread.\<close>

lemma reentry_waits:
  assumes "onexit_run es s" and "a \<in> set (tl (frames t s))"
  shows "enter_execute t (Some a) s = None"
proof -
  have ok: "frames_ok s"
    using assms(1) by (rule run_frames)
  have "frames t s = hd (frames t s) # tl (frames t s)"
    using assms(2) by (cases "frames t s") auto
  then have "a \<noteq> hd (frames t s)" "a \<in> x_executing s"
    using ok assms(2) unfolding frames_ok_def by (metis distinct.simps(2), metis UN_iff UNIV_I list.set_intros(2))
  moreover have "x_stack s t \<noteq> []" "fst (hd (x_stack s t)) = hd (frames t s)"
    using assms(2) by (cases "x_stack s t"; simp add: frames_def)+
  ultimately show ?thesis
    by (simp add: enter_execute_def)
qed

section \<open>The property\<close>

text \<open>
  C36: Each registered function is called exactly once, the newest first, and a table is executed by one
  thread at a time. Whatever threads and callbacks do, the registrations and calls of a table are the
  pushes and pops of a stack whose contents are the callbacks the table holds, an execution finishes only
  when the stack is empty, and a table is marked as executing exactly while it is in a frame, of one
  thread.
\<close>

theorem onexit_calls_lifo:
  assumes "onexit_run es s"
  shows "replay b es = Some (callbacks (x_table s b)) \<and> (b \<in> x_executing s \<longleftrightarrow> (\<exists>t. b \<in> set (frames t s))) \<and>
    (b \<in> set (frames t s) \<and> b \<in> set (frames u s) \<longrightarrow> t = u)"
  using run_replay [OF assms] run_frames [OF assms] unfolding frames_ok_def by blast

definition sample_onexit :: "onexit \<times> onexit" where
  "sample_onexit =
     (let s1 = snd (crt__register_onexit_function True (Some 0) (Some 7) initial_onexit);
          s2 = snd (crt__register_onexit_function True (Some 0) (Some 8) s1);
          s3 = snd (the (enter_execute 1 (Some 0) s2)) in
      (s3, snd (pop_callback 1 s3)))"

lemma sample_onexit_run: "onexit_run [Registered 0 7, Registered 0 8, Called 1 0 8] (snd sample_onexit)"
proof -
  let ?s1 = "snd (crt__register_onexit_function True (Some 0) (Some 7) initial_onexit)"
  let ?s2 = "snd (crt__register_onexit_function True (Some 0) (Some 8) ?s1)"
  let ?s3 = "snd (the (enter_execute 1 (Some 0) ?s2))"
  note defs = crt__register_onexit_function_def initial_onexit_def empty_table_def may_act_def enter_execute_def pop_callback_def
    callbacks_def set_top_def Let_def
  have 1: "onexit_run [Registered 0 7] ?s1"
    using run_register [OF run_start, of 0 True 0 7 ?s1] by (simp add: defs)
  have 2: "onexit_run [Registered 0 7, Registered 0 8] ?s2"
    using run_register [OF 1, of 0 True 0 8 ?s2] by (simp add: defs)
  have 3: "onexit_run [Registered 0 7, Registered 0 8] ?s3"
    using run_enter [OF 2, of 1 "Some 0" None ?s3] by (simp add: defs)
  have "onexit_run ([Registered 0 7, Registered 0 8] @ [Called 1 0 8]) (snd (pop_callback 1 ?s3))"
    using run_call [OF 3, of 1 0 "[]" 8 "snd (pop_callback 1 ?s3)"] by (simp add: defs)
  then show ?thesis
    by (simp add: sample_onexit_def Let_def)
qed

theorem onexit_calls_lifo_witness:
  "callbacks (x_table (snd sample_onexit) 0) = [7] \<and> 0 \<in> x_executing (snd sample_onexit)"
proof -
  have "callbacks (x_table (snd sample_onexit) 0) = [7]"
    using onexit_calls_lifo [OF sample_onexit_run, of 0] by (simp add: replay_def)
  moreover have "frames 1 (snd sample_onexit) = [0]"
    by (simp add: sample_onexit_def Let_def frames_def pop_callback_def set_top_def enter_execute_def crt__register_onexit_function_def
        initial_onexit_def empty_table_def callbacks_def)
  then have "0 \<in> x_executing (snd sample_onexit)"
    using onexit_calls_lifo [OF sample_onexit_run, of 0] by (metis list.set_intros(1))
  ultimately show ?thesis
    by blast
qed

end
