(* ===== verification/Win_Events.thy ===== *)
theory Win_Events
  imports Transition
begin

text \<open>
  Event objects of \<open>src/src/winlibs.cpp\<close>: \<open>CreateEventW\<close>, \<open>SetEvent\<close>, \<open>ResetEvent\<close> and the event branch of
  \<open>WaitForSingleObjectEx\<close> with \<open>ntsync_wait_single\<close>, for any number of threads that use one event. An
  event lives either in the kernel (\<open>/dev/ntsync\<close> answered) or in a flag under a mutex with a condition
  variable. A region under the mutex is one step, and so is an \<open>ioctl\<close>. Sleepers can wake without a
  reason, a bounded wait can time out at any moment, and the \<open>ioctl\<close> that waits can be interrupted or fail
  for another reason, which the code reports on the standard error stream and answers with a timeout,
  also for a wait without a limit. The code does not look at the results of the \<open>ioctl\<close>s that set and reset;
  on a descriptor of an event they take effect.
\<close>

section \<open>State\<close>

type_synonym thread = nat

datatype timeout = Immediate | Bounded | Forever

definition timeout_of :: "u32 \<Rightarrow> timeout" where
  "timeout_of ms = (if ms = 0 then Immediate else if ms = 0xffffffff then Forever else Bounded)"

definition STATUS_WAIT_0 :: u32 where "STATUS_WAIT_0 = 0"
definition STATUS_TIMEOUT :: u32 where "STATUS_TIMEOUT = 0x102"
definition TRUE :: u32 where "TRUE = 1"

datatype event_pc =
    Outside u32               \<comment> \<open>outside, with the last result\<close>
  | Entering timeout          \<comment> \<open>about to lock the mutex\<close>
  | Testing timeout bool      \<comment> \<open>back from the condition variable; whether with \<open>ETIMEDOUT\<close>\<close>
  | Sleeping timeout          \<comment> \<open>in \<open>pthread_cond_wait\<close> or \<open>pthread_cond_timedwait\<close>\<close>
  | Ioctl timeout             \<comment> \<open>in \<open>NTSYNC_IOC_WAIT_ANY\<close>\<close>
  | Setting                   \<comment> \<open>between \<open>NTSYNC_IOC_EVENT_SET\<close> and the mutex\<close>
  | Resetting

text \<open>
  \<open>e_object\<close> is the kernel object behind \<open>ntsync_fd\<close>, \<open>None\<close> for a descriptor of -1; \<open>e_errors\<close> counts the
  reports of failed waits.
\<close>

record event =
  e_manual :: bool
  e_signaled :: bool
  e_object :: "bool option"
  e_errors :: nat
  e_pc :: "thread \<Rightarrow> event_pc"

definition goto_event :: "thread \<Rightarrow> event_pc \<Rightarrow> event \<Rightarrow> event" where
  "goto_event t p s = s\<lparr>e_pc := (e_pc s)(t := p)\<rparr>"

section \<open>The code\<close>

text \<open>\<open>made\<close>: the device could be opened and \<open>NTSYNC_IOC_CREATE_EVENT\<close> gave a descriptor.\<close>

definition CreateEventW :: "bool \<Rightarrow> bool \<Rightarrow> bool \<Rightarrow> event" where
  "CreateEventW manual initial made =
     \<lparr>e_manual = manual, e_signaled = initial, e_object = (if made then Some initial else None), e_errors = 0,
       e_pc = (\<lambda>_. Outside 0)\<rparr>"

definition wait_for_event :: "thread \<Rightarrow> u32 \<Rightarrow> event \<Rightarrow> event" where
  "wait_for_event t ms s =
     goto_event t (if e_object s \<noteq> None then Ioctl (timeout_of ms) else Entering (timeout_of ms)) s"

text \<open>The loop test and what follows the loop; \<open>expired\<close> is \<open>ETIMEDOUT\<close>.\<close>

definition test_event :: "thread \<Rightarrow> timeout \<Rightarrow> bool \<Rightarrow> event \<Rightarrow> event" where
  "test_event t w expired s =
     (if e_signaled s
      then goto_event t (Outside STATUS_WAIT_0) (if e_manual s then s else s\<lparr>e_signaled := False\<rparr>)
      else if expired then goto_event t (Outside STATUS_TIMEOUT) s
      else goto_event t (Sleeping w) s)"

definition enter_event :: "thread \<Rightarrow> timeout \<Rightarrow> event \<Rightarrow> event" where
  "enter_event t w s =
     (if \<not> e_signaled s \<and> w = Immediate then goto_event t (Outside STATUS_TIMEOUT) s else test_event t w False s)"

fun woken_pc :: "bool \<Rightarrow> event_pc \<Rightarrow> event_pc" where
  "woken_pc True (Sleeping w) = Testing w False"
| "woken_pc b p = p"

definition wake_sleepers :: "thread set \<Rightarrow> event \<Rightarrow> event" where
  "wake_sleepers W s = s\<lparr>e_pc := (\<lambda>u. woken_pc (u \<in> W) (e_pc s u))\<rparr>"

definition sleepers :: "event \<Rightarrow> thread set" where
  "sleepers s = {u. \<exists>w. e_pc s u = Sleeping w}"

text \<open>A broadcast wakes every sleeper, a signal at least one when there is one.\<close>

definition woken :: "event \<Rightarrow> thread set \<Rightarrow> bool" where
  "woken s W \<longleftrightarrow> W \<subseteq> sleepers s \<and> (if e_manual s then W = sleepers s else sleepers s \<noteq> {} \<longrightarrow> W \<noteq> {})"

definition set_under_mutex :: "thread \<Rightarrow> thread set \<Rightarrow> event \<Rightarrow> event" where
  "set_under_mutex t W s = goto_event t (Outside TRUE) (wake_sleepers W (s\<lparr>e_signaled := True\<rparr>))"

definition reset_under_mutex :: "thread \<Rightarrow> event \<Rightarrow> event" where
  "reset_under_mutex t s = goto_event t (Outside TRUE) (s\<lparr>e_signaled := False\<rparr>)"

definition SetEvent :: "thread \<Rightarrow> thread set \<Rightarrow> event \<Rightarrow> event" where
  "SetEvent t W s =
     (if e_object s \<noteq> None then goto_event t Setting (s\<lparr>e_object := Some True\<rparr>) else set_under_mutex t W s)"

definition ResetEvent :: "thread \<Rightarrow> event \<Rightarrow> event" where
  "ResetEvent t s =
     (if e_object s \<noteq> None then goto_event t Resetting (s\<lparr>e_object := Some False\<rparr>) else reset_under_mutex t s)"

text \<open>\<open>NTSYNC_IOC_WAIT_ANY\<close> as documented: an automatic event is reset by the wait it satisfies.\<close>

definition ntsync_take :: "thread \<Rightarrow> event \<Rightarrow> event" where
  "ntsync_take t s = goto_event t (Outside STATUS_WAIT_0) (s\<lparr>e_object := Some (e_manual s)\<rparr>)"

text \<open>Any other answer than success and \<open>EINTR\<close> is \<open>false\<close> for the caller; all but \<open>ETIMEDOUT\<close> are reported.\<close>

definition ntsync_error :: "thread \<Rightarrow> event \<Rightarrow> event" where
  "ntsync_error t s = goto_event t (Outside STATUS_TIMEOUT) (s\<lparr>e_errors := e_errors s + 1\<rparr>)"

inductive event_step :: "event \<Rightarrow> event \<Rightarrow> bool" where
  call_wait: "e_pc s t = Outside r \<Longrightarrow> event_step s (wait_for_event t ms s)"
| call_set: "e_pc s t = Outside r \<Longrightarrow> woken s W \<Longrightarrow> event_step s (SetEvent t W s)"
| call_reset: "e_pc s t = Outside r \<Longrightarrow> event_step s (ResetEvent t s)"
| entering: "e_pc s t = Entering w \<Longrightarrow> event_step s (enter_event t w s)"
| testing: "e_pc s t = Testing w x \<Longrightarrow> event_step s (test_event t w x s)"
| setting: "e_pc s t = Setting \<Longrightarrow> woken s W \<Longrightarrow> event_step s (set_under_mutex t W s)"
| resetting: "e_pc s t = Resetting \<Longrightarrow> event_step s (reset_under_mutex t s)"
| spurious: "e_pc s t = Sleeping w \<Longrightarrow> event_step s (goto_event t (Testing w False) s)"
| expires: "e_pc s t = Sleeping Bounded \<Longrightarrow> event_step s (goto_event t (Testing Bounded True) s)"
| ntsync_taken: "e_pc s t = Ioctl w \<Longrightarrow> e_object s = Some True \<Longrightarrow> event_step s (ntsync_take t s)"
| ntsync_interrupted: "e_pc s t = Ioctl w \<Longrightarrow> event_step s s"
| ntsync_expires: "e_pc s t = Ioctl w \<Longrightarrow> w \<noteq> Forever \<Longrightarrow> e_object s = Some False \<Longrightarrow>
    event_step s (goto_event t (Outside STATUS_TIMEOUT) s)"
| ntsync_fails: "e_pc s t = Ioctl w \<Longrightarrow> event_step s (ntsync_error t s)"

section \<open>No wake-up is lost\<close>

definition in_kernel :: "event \<Rightarrow> bool" where
  "in_kernel s \<longleftrightarrow> e_object s \<noteq> None"

fun pc_ok :: "bool \<Rightarrow> event_pc \<Rightarrow> bool" where
  "pc_ok k (Outside r) = True"
| "pc_ok k (Entering w) = (\<not> k)"
| "pc_ok k (Testing w x) = (\<not> k \<and> w \<noteq> Immediate \<and> (x \<longrightarrow> w = Bounded))"
| "pc_ok k (Sleeping w) = (\<not> k \<and> w \<noteq> Immediate)"
| "pc_ok k (Ioctl w) = k"
| "pc_ok k Setting = k"
| "pc_ok k Resetting = k"

definition testers :: "event \<Rightarrow> thread set" where
  "testers s = {u. \<exists>w x. e_pc s u = Testing w x}"

definition event_inv :: "event \<Rightarrow> bool" where
  "event_inv s \<longleftrightarrow> (\<forall>t. pc_ok (in_kernel s) (e_pc s t)) \<and>
     (e_signaled s \<and> sleepers s \<noteq> {} \<longrightarrow> \<not> e_manual s \<and> testers s \<noteq> {})"

lemma goto_event_simps [simp]:
  "e_pc (goto_event t p s) u = (if u = t then p else e_pc s u)"
  "e_signaled (goto_event t p s) = e_signaled s" "e_object (goto_event t p s) = e_object s"
  "e_manual (goto_event t p s) = e_manual s" "in_kernel (goto_event t p s) = in_kernel s"
  "e_errors (goto_event t p s) = e_errors s"
  by (simp_all add: goto_event_def in_kernel_def)

lemma wake_sleepers_simps [simp]:
  "e_pc (wake_sleepers W s) u = woken_pc (u \<in> W) (e_pc s u)"
  "e_signaled (wake_sleepers W s) = e_signaled s" "e_object (wake_sleepers W s) = e_object s"
  "e_manual (wake_sleepers W s) = e_manual s" "in_kernel (wake_sleepers W s) = in_kernel s"
  "e_errors (wake_sleepers W s) = e_errors s"
  by (simp_all add: wake_sleepers_def in_kernel_def)

lemma in_kernel_simps [simp]:
  "in_kernel (s\<lparr>e_signaled := b\<rparr>) = in_kernel s" "in_kernel (s\<lparr>e_object := Some k\<rparr>)"
  "in_kernel (s\<lparr>e_errors := n\<rparr>) = in_kernel s"
  by (simp_all add: in_kernel_def)

lemma woken_pc_eq:
  "woken_pc b p = Sleeping w \<longleftrightarrow> \<not> b \<and> p = Sleeping w"
  "woken_pc b p = Testing w x \<longleftrightarrow> p = Testing w x \<or> b \<and> \<not> x \<and> p = Sleeping w"
  by (cases "(b, p)" rule: woken_pc.cases; auto)+

lemma pc_ok_woken [simp]: "pc_ok k p \<Longrightarrow> pc_ok k (woken_pc b p)"
  by (cases "(b, p)" rule: woken_pc.cases) auto

lemma crowd_simps [simp]:
  "sleepers (s\<lparr>e_signaled := b\<rparr>) = sleepers s" "sleepers (s\<lparr>e_object := k\<rparr>) = sleepers s"
  "testers (s\<lparr>e_signaled := b\<rparr>) = testers s" "testers (s\<lparr>e_object := k\<rparr>) = testers s"
  by (simp_all add: sleepers_def testers_def)

lemma crowd_mem [simp]:
  "u \<in> sleepers s \<longleftrightarrow> (\<exists>w. e_pc s u = Sleeping w)" "u \<in> testers s \<longleftrightarrow> (\<exists>w x. e_pc s u = Testing w x)"
  by (simp_all add: sleepers_def testers_def)

lemma event_invD:
  assumes "event_inv s"
  shows "pc_ok (in_kernel s) (e_pc s t)"
    and "e_signaled s \<Longrightarrow> e_pc s t = Sleeping w \<Longrightarrow> \<not> e_manual s"
    and "e_signaled s \<Longrightarrow> e_pc s t = Sleeping w \<Longrightarrow> \<exists>u w x. e_pc s u = Testing w x"
  using assms by (auto simp: event_inv_def sleepers_def testers_def)

text \<open>A thread that moves without going to sleep keeps the invariant, unless it was about to test a set flag.\<close>

lemma event_inv_move:
  assumes inv: "event_inv s" and ok: "pc_ok (in_kernel s) p" and wake: "\<And>w. p \<noteq> Sleeping w"
    and test: "e_signaled s \<Longrightarrow> t \<in> testers s \<Longrightarrow> \<exists>w x. p = Testing w x"
  shows "event_inv (goto_event t p s)" (is "event_inv ?s")
proof -
  have "pc_ok (in_kernel ?s) (e_pc ?s u)" for u
    using event_invD(1) [OF inv] ok by simp
  moreover have "\<not> e_manual ?s \<and> testers ?s \<noteq> {}" if up: "e_signaled ?s" and asleep: "sleepers ?s \<noteq> {}"
  proof -
    obtain v where "v \<in> sleepers s"
      using asleep wake by (auto simp: sleepers_def split: if_splits)
    then obtain u where "u \<in> testers s" "\<not> e_manual s"
      using inv up unfolding event_inv_def goto_event_simps by blast
    then have "u \<in> testers ?s"
      using test up by (cases "u = t") auto
    then show ?thesis
      using \<open>\<not> e_manual s\<close> unfolding goto_event_simps by blast
  qed
  ultimately show ?thesis
    unfolding event_inv_def by blast
qed

text \<open>With the flag down nothing but the place of the threads matters.\<close>

lemma event_inv_down:
  assumes "event_inv s" and "\<not> e_signaled s'" and "in_kernel s' = in_kernel s"
    and "\<And>u. pc_ok (in_kernel s) (e_pc s u) \<Longrightarrow> pc_ok (in_kernel s) (e_pc s' u)"
  shows "event_inv s'"
  using assms by (auto simp: event_inv_def)

lemma event_inv_set:
  assumes inv: "event_inv s" and W: "woken s W" and t: "t \<notin> sleepers s"
  shows "event_inv (set_under_mutex t W s)" (is "event_inv ?s")
proof -
  have pcs: "pc_ok (in_kernel ?s) (e_pc ?s u)" for u
    using event_invD(1) [OF inv, of u] by (simp add: set_under_mutex_def)
  have left: "sleepers ?s = sleepers s - W"
    using t by (auto simp: set_under_mutex_def sleepers_def woken_pc_eq)
  have "\<not> e_manual s \<and> testers ?s \<noteq> {}" if "sleepers ?s \<noteq> {}"
  proof -
    have "\<not> e_manual s" "W \<noteq> {}" "W \<subseteq> sleepers s"
      using that W unfolding left woken_def by (auto split: if_splits)
    then obtain u where "u \<in> W" "u \<in> sleepers s" "u \<noteq> t"
      using t by blast
    then have "u \<in> testers ?s"
      by (auto simp: set_under_mutex_def woken_pc_eq)
    then show ?thesis
      using \<open>\<not> e_manual s\<close> by blast
  qed
  then show ?thesis
    using pcs by (simp add: event_inv_def set_under_mutex_def)
qed

lemma event_inv_test:
  assumes inv: "event_inv s" and t: "e_pc s t = Entering w \<and> \<not> x \<and> (e_signaled s \<or> w \<noteq> Immediate) \<or> e_pc s t = Testing w x"
  shows "event_inv (test_event t w x s)"
proof -
  have k: "\<not> in_kernel s" and w: "e_signaled s \<or> w \<noteq> Immediate"
    using event_invD(1) [OF inv, of t] t by auto
  consider (taken) "e_signaled s" "\<not> e_manual s" | (seen) "e_signaled s" "e_manual s" | (down) "\<not> e_signaled s"
    by blast
  then show ?thesis
  proof cases
    case taken
    then show ?thesis
      by (intro event_inv_down [OF inv]) (simp_all add: test_event_def)
  next
    case seen
    then have "sleepers s = {}"
      using inv by (auto simp: event_inv_def)
    then have "sleepers (goto_event t (Outside STATUS_WAIT_0) s) = {}"
      by (auto simp: sleepers_def)
    then show ?thesis
      using seen event_invD(1) [OF inv] by (simp add: event_inv_def test_event_def)
  next
    case down
    then show ?thesis
      using k w by (intro event_inv_down [OF inv]) (simp_all add: test_event_def)
  qed
qed

lemma event_step_inv: "event_step s s' \<Longrightarrow> event_inv s \<Longrightarrow> event_inv s'"
proof (induction rule: event_step.induct)
  case (call_wait s t r ms)
  then show ?case
    unfolding wait_for_event_def
    by (intro event_inv_move) (auto simp: in_kernel_def testers_def)
next
  case (call_set s t r W)
  have "event_inv (s\<lparr>e_object := Some True\<rparr>)" if "in_kernel s"
    using call_set(3) that by (simp add: event_inv_def testers_def)
  then have "event_inv (goto_event t Setting (s\<lparr>e_object := Some True\<rparr>))" if "in_kernel s"
    using that call_set(1) by (intro event_inv_move) (simp_all add: testers_def)
  moreover have "event_inv (set_under_mutex t W s)"
    using call_set by (intro event_inv_set) (simp_all add: sleepers_def)
  ultimately show ?case
    by (simp add: SetEvent_def in_kernel_def)
next
  case (call_reset s t r)
  have "event_inv (s\<lparr>e_object := Some False\<rparr>)" if "in_kernel s"
    using call_reset(2) that by (simp add: event_inv_def testers_def)
  then have "event_inv (goto_event t Resetting (s\<lparr>e_object := Some False\<rparr>))" if "in_kernel s"
    using that call_reset(1) by (intro event_inv_move) (simp_all add: testers_def)
  moreover have "event_inv (reset_under_mutex t s)"
    using call_reset(2) by (rule event_inv_down) (simp_all add: reset_under_mutex_def)
  ultimately show ?case
    by (simp add: ResetEvent_def in_kernel_def)
next
  case (entering s t w)
  then show ?case
    unfolding enter_event_def using event_inv_test [of s t w False]
    by (auto intro!: event_inv_move simp: testers_def)
next
  case (testing s t w x)
  then show ?case
    by (simp add: event_inv_test)
next
  case (setting s t W)
  then show ?case
    by (intro event_inv_set) (simp_all add: sleepers_def)
next
  case (resetting s t)
  show ?case
    using resetting(2) by (rule event_inv_down) (simp_all add: reset_under_mutex_def)
next
  case (spurious s t w)
  then show ?case
    using event_invD(1) [of s t] by (intro event_inv_move) auto
next
  case (expires s t)
  then show ?case
    using event_invD(1) [of s t] by (intro event_inv_move) auto
next
  case (ntsync_taken s t w)
  have "event_inv (s\<lparr>e_object := Some (e_manual s)\<rparr>)"
    using ntsync_taken by (simp add: event_inv_def testers_def in_kernel_def)
  then show ?case
    unfolding ntsync_take_def using ntsync_taken(1) by (intro event_inv_move) (simp_all add: testers_def)
next
  case (ntsync_expires s t w)
  then show ?case
    by (intro event_inv_move) (simp_all add: testers_def)
next
  case (ntsync_fails s t w)
  have "event_inv (s\<lparr>e_errors := e_errors s + 1\<rparr>)"
    using ntsync_fails(2) by (simp add: event_inv_def testers_def sleepers_def)
  then show ?case
    unfolding ntsync_error_def using ntsync_fails(1) by (intro event_inv_move) (simp_all add: testers_def)
qed

section \<open>Refinement of a Windows event\<close>

text \<open>
  The contract: a state that a set raises and a reset lowers; a wait ends when it is up and, unless the
  event is manual, takes it down. Otherwise only a wait with a limit can end, and only while the event is
  down; or the wait of an event on the device fails, and an error is reported.
\<close>

datatype wait_state = Done u32 | Pending timeout

record event_spec =
  a_manual :: bool
  a_up :: bool
  a_device :: bool
  a_errors :: nat
  a_wait :: "thread \<Rightarrow> wait_state"

inductive event_spec_step :: "event_spec \<Rightarrow> event_spec \<Rightarrow> bool" where
  spec_wait: "a_wait a t = Done r \<Longrightarrow> event_spec_step a (a\<lparr>a_wait := (a_wait a)(t := Pending w)\<rparr>)"
| spec_set: "a_wait a t = Done r \<Longrightarrow> event_spec_step a (a\<lparr>a_up := True, a_wait := (a_wait a)(t := Done TRUE)\<rparr>)"
| spec_reset: "a_wait a t = Done r \<Longrightarrow> event_spec_step a (a\<lparr>a_up := False, a_wait := (a_wait a)(t := Done TRUE)\<rparr>)"
| spec_take: "a_wait a t = Pending w \<Longrightarrow> a_up a \<Longrightarrow>
    event_spec_step a (a\<lparr>a_up := a_manual a, a_wait := (a_wait a)(t := Done STATUS_WAIT_0)\<rparr>)"
| spec_expire: "a_wait a t = Pending w \<Longrightarrow> w \<noteq> Forever \<Longrightarrow> \<not> a_up a \<Longrightarrow>
    event_spec_step a (a\<lparr>a_wait := (a_wait a)(t := Done STATUS_TIMEOUT)\<rparr>)"
| spec_fail: "a_wait a t = Pending w \<Longrightarrow> a_device a \<Longrightarrow>
    event_spec_step a (a\<lparr>a_errors := a_errors a + 1, a_wait := (a_wait a)(t := Done STATUS_TIMEOUT)\<rparr>)"

fun abs_pc :: "event_pc \<Rightarrow> wait_state" where
  "abs_pc (Outside r) = Done r"
| "abs_pc (Entering w) = Pending w"
| "abs_pc (Testing w x) = Pending w"
| "abs_pc (Sleeping w) = Pending w"
| "abs_pc (Ioctl w) = Pending w"
| "abs_pc Setting = Done TRUE"
| "abs_pc Resetting = Done TRUE"

definition abs_event :: "event \<Rightarrow> event_spec" where
  "abs_event s = \<lparr>a_manual = e_manual s,
     a_up = (case e_object s of Some up \<Rightarrow> up | None \<Rightarrow> e_signaled s), a_device = in_kernel s, a_errors = e_errors s,
     a_wait = (\<lambda>t. abs_pc (e_pc s t))\<rparr>"

lemma abs_woken [simp]: "abs_pc (woken_pc b p) = abs_pc p"
  by (cases "(b, p)" rule: woken_pc.cases) simp_all

lemma abs_goto: "abs_event (goto_event t p s) = (abs_event s)\<lparr>a_wait := (a_wait (abs_event s))(t := abs_pc p)\<rparr>"
  by (auto simp: abs_event_def split: option.splits)

lemma abs_event_simps [simp]:
  "a_manual (abs_event s) = e_manual s" "a_device (abs_event s) = in_kernel s" "a_errors (abs_event s) = e_errors s"
  "a_wait (abs_event s) t = abs_pc (e_pc s t)"
  "abs_event (wake_sleepers W s) = abs_event s"
  by (simp_all add: abs_event_def split: option.splits)

text \<open>A move between two points of one call is invisible.\<close>

lemma abs_goto_same: "abs_pc p = abs_pc (e_pc s t) \<Longrightarrow> abs_event (goto_event t p s) = abs_event s"
  by (auto simp: abs_event_def fun_eq_iff split: option.splits)

text \<open>What the steps do to the abstract event; a flag of the mutex does not matter while the kernel has the object.\<close>

lemma abs_up:
  "\<not> in_kernel s \<Longrightarrow> a_up (abs_event s) = e_signaled s"
  "in_kernel s \<Longrightarrow> e_object s = Some (a_up (abs_event s))"
  by (auto simp: abs_event_def in_kernel_def)

lemma abs_signaled:
  "abs_event (s\<lparr>e_signaled := b\<rparr>) = (if in_kernel s then abs_event s else (abs_event s)\<lparr>a_up := b\<rparr>)"
  "in_kernel s \<Longrightarrow> abs_event (s\<lparr>e_object := Some b\<rparr>) = (abs_event s)\<lparr>a_up := b\<rparr>"
  "abs_event (s\<lparr>e_errors := n\<rparr>) = (abs_event s)\<lparr>a_errors := n\<rparr>"
  by (auto simp: abs_event_def in_kernel_def split: option.splits)

lemma abs_test:
  assumes "\<not> in_kernel s" and "abs_pc (e_pc s t) = Pending w" and "x \<Longrightarrow> w \<noteq> Forever"
  shows "abs_event (test_event t w x s) = abs_event s \<or> event_spec_step (abs_event s) (abs_event (test_event t w x s))"
proof (cases "e_signaled s")
  case True
  have "abs_event (test_event t w x s) =
      (abs_event s)\<lparr>a_up := a_manual (abs_event s), a_wait := (a_wait (abs_event s))(t := Done STATUS_WAIT_0)\<rparr>"
    using True assms(1) abs_up(1) [OF assms(1)] by (auto simp: test_event_def abs_goto abs_signaled)
  then show ?thesis
    using spec_take [of "abs_event s" t w] assms True abs_up(1) by simp
next
  case False
  then show ?thesis
    using spec_expire [of "abs_event s" t w] assms abs_up(1) [OF assms(1)] abs_goto_same [of "Sleeping w" s t]
    by (cases x) (simp_all add: test_event_def abs_goto)
qed

lemma event_step_refines:
  assumes "event_step s s'" and inv: "event_inv s"
  shows "abs_event s' = abs_event s \<or> event_spec_step (abs_event s) (abs_event s')"
  using assms(1)
proof cases
  case (call_wait t r ms)
  then show ?thesis
    using spec_wait [of "abs_event s" t r] by (auto simp: wait_for_event_def abs_goto)
next
  case (call_set t r W)
  then show ?thesis
    using spec_set [of "abs_event s" t r]
    by (auto simp: SetEvent_def set_under_mutex_def abs_goto abs_signaled in_kernel_def)
next
  case (call_reset t r)
  then show ?thesis
    using spec_reset [of "abs_event s" t r]
    by (auto simp: ResetEvent_def reset_under_mutex_def abs_goto abs_signaled in_kernel_def)
next
  case (entering t w)
  then have k: "\<not> in_kernel s"
    using event_invD(1) [OF inv, of t] by simp
  then show ?thesis
    using entering abs_test [of s t w False] spec_expire [of "abs_event s" t w] abs_up(1) [of s]
    by (auto simp: enter_event_def abs_goto)
next
  case (testing t w x)
  then show ?thesis
    using event_invD(1) [OF inv, of t] abs_test [of s t w x] by auto
next
  case (setting t W)
  then show ?thesis
    using event_invD(1) [OF inv, of t] abs_goto_same [of "Outside TRUE" s t]
    by (simp add: set_under_mutex_def abs_goto abs_signaled)
next
  case (resetting t)
  then show ?thesis
    using event_invD(1) [OF inv, of t] abs_goto_same [of "Outside TRUE" s t]
    by (simp add: reset_under_mutex_def abs_goto abs_signaled)
next
  case (ntsync_taken t w)
  then show ?thesis
    using spec_take [of "abs_event s" t w] abs_up(2) [of s] by (simp add: ntsync_take_def abs_goto abs_signaled in_kernel_def)
next
  case (ntsync_expires t w)
  then show ?thesis
    using spec_expire [of "abs_event s" t w] abs_up(2) [of s] by (simp add: abs_goto in_kernel_def)
next
  case (ntsync_fails t w)
  then show ?thesis
    using spec_fail [of "abs_event s" t w] event_invD(1) [OF inv, of t] by (simp add: ntsync_error_def abs_goto abs_signaled)
qed (simp_all add: abs_goto_same)

interpretation events: refinement event_step "\<lambda>s. \<exists>manual initial made. s = CreateEventW manual initial made"
  event_inv event_spec_step abs_event
proof unfold_locales
  show "event_inv s" if "\<exists>manual initial made. s = CreateEventW manual initial made" for s
    using that by (auto simp: CreateEventW_def event_inv_def sleepers_def)
qed (fact event_step_inv event_step_refines)+

end
