(* ===== verification/Win_Threads.thy ===== *)
theory Win_Threads
  imports Win_Events
begin

text \<open>
  Thread objects of \<open>src/src/winlibs.cpp\<close>: \<open>CreateThread\<close>, \<open>thread_entry\<close>, \<open>finish_thread\<close>, \<open>_endthreadex\<close>,
  \<open>GetExitCodeThread\<close> and the thread branches of \<open>WaitForSingleObjectEx\<close> and \<open>CloseHandle\<close>, for any number
  of threads. A \<open>thread_handle_data\<close> is shared by the thread that runs and by the holder of the handle;
  whoever is done last deletes it. A region under the mutex of the object is one step, the deletion behind
  it another. An access to an object that is not there sets the fault flag. The \<open>thread_start_info\<close> of a
  thread belongs to that thread alone and is kept with it. Handles are used as Windows asks: none after
  \<open>CloseHandle\<close> has begun, which itself does not run beside another call on the same handle.
\<close>

section \<open>State\<close>

type_synonym address = nat
type_synonym handle = nat

definition STILL_ACTIVE :: u32 where "STILL_ACTIVE = 259"

record thread_handle_data =
  h_id :: u32
  h_code :: u32
  h_finished :: bool
  h_closed :: bool

datatype call_result = Nothing | Made_handle "handle option" | Status u32 | Exit_code u32

datatype thread_pc =
    Unborn
  | Starting address                        \<comment> \<open>\<open>thread_entry\<close>\<close>
  | Running call_result                     \<comment> \<open>outside these calls, with the last result\<close>
  | Creating address                        \<comment> \<open>\<open>CreateThread\<close> looks at \<open>thread_id\<close>\<close>
  | Creating_asleep address
  | Making address                          \<comment> \<open>about to \<open>make_handle\<close>\<close>
  | Join_enter address handle timeout
  | Joining address handle timeout bool     \<comment> \<open>back from the condition variable; whether with \<open>ETIMEDOUT\<close>\<close>
  | Join_asleep address handle timeout
  | Finishing address u32                   \<comment> \<open>\<open>finish_thread\<close> behind \<open>pe_cleanup_current_thread\<close>\<close>
  | Deleting_own address                    \<comment> \<open>\<open>finish_thread\<close> deletes the object\<close>
  | Deleting_closed address handle          \<comment> \<open>\<open>CloseHandle\<close> deletes the object\<close>
  | Closing handle                          \<comment> \<open>about to delete the handle\<close>
  | Gone

text \<open>\<open>y_info\<close> is \<open>g_current_thread_info->thread_data\<close> of a thread.\<close>

record threads =
  y_data :: "address \<Rightarrow> thread_handle_data option"
  y_handle :: "handle \<Rightarrow> address option"
  y_info :: "thread \<Rightarrow> address option"
  y_pc :: "thread \<Rightarrow> thread_pc"
  y_fault :: bool

definition initial_threads :: "thread set \<Rightarrow> threads" where
  "initial_threads T = \<lparr>y_data = (\<lambda>_. None), y_handle = (\<lambda>_. None), y_info = (\<lambda>_. None),
     y_pc = (\<lambda>t. if t \<in> T then Running Nothing else Unborn), y_fault = False\<rparr>"

definition move :: "thread \<Rightarrow> thread_pc \<Rightarrow> threads \<Rightarrow> threads" where
  "move t p s = s\<lparr>y_pc := (y_pc s)(t := p)\<rparr>"

definition with_data :: "address \<Rightarrow> (thread_handle_data \<Rightarrow> threads) \<Rightarrow> threads \<Rightarrow> threads" where
  "with_data a f s = (case y_data s a of None \<Rightarrow> s\<lparr>y_fault := True\<rparr> | Some d \<Rightarrow> f d)"

definition put_data :: "address \<Rightarrow> thread_handle_data option \<Rightarrow> threads \<Rightarrow> threads" where
  "put_data a d s = s\<lparr>y_data := (y_data s)(a := d)\<rparr>"

fun woken_by :: "address \<Rightarrow> thread_pc \<Rightarrow> thread_pc" where
  "woken_by a (Creating_asleep b) = (if b = a then Creating b else Creating_asleep b)"
| "woken_by a (Join_asleep b h w) = (if b = a then Joining b h w False else Join_asleep b h w)"
| "woken_by a p = p"

definition broadcast_to :: "address \<Rightarrow> threads \<Rightarrow> threads" where
  "broadcast_to a s = s\<lparr>y_pc := (\<lambda>u. woken_by a (y_pc s u))\<rparr>"

section \<open>The code\<close>

text \<open>\<open>CreateThread\<close> up to the new thread \<open>u\<close>, with its object at \<open>a\<close>; or the failure of \<open>pthread_create\<close>.\<close>

definition CreateThread :: "thread \<Rightarrow> (address \<times> thread) option \<Rightarrow> bool \<Rightarrow> threads \<Rightarrow> threads" where
  "CreateThread t made wants_id s =
     (case made of
        None \<Rightarrow> move t (Running (Made_handle None)) s
      | Some (a, u) \<Rightarrow>
        move t (if wants_id then Creating a else Making a) (move u (Starting a)
          (put_data a (Some \<lparr>h_id = 0, h_code = STILL_ACTIVE, h_finished = False, h_closed = False\<rparr>) s)))"

definition await_id :: "thread \<Rightarrow> address \<Rightarrow> threads \<Rightarrow> threads" where
  "await_id t a s = with_data a (\<lambda>d. move t (if h_id d = 0 then Creating_asleep a else Making a) s) s"

definition make_handle :: "thread \<Rightarrow> address \<Rightarrow> handle \<Rightarrow> threads \<Rightarrow> threads" where
  "make_handle t a h s = move t (Running (Made_handle (Some h))) (s\<lparr>y_handle := (y_handle s)(h \<mapsto> a)\<rparr>)"

definition thread_entry :: "thread \<Rightarrow> address \<Rightarrow> u32 \<Rightarrow> threads \<Rightarrow> threads" where
  "thread_entry t a tid s =
     with_data a (\<lambda>d. move t (Running Nothing) (broadcast_to a (put_data a (Some (d\<lparr>h_id := tid\<rparr>))
       (s\<lparr>y_info := (y_info s)(t \<mapsto> a)\<rparr>)))) s"

text \<open>The return of the start routine and \<open>_endthreadex\<close>, which other threads can call too.\<close>

definition crt_endthreadex :: "thread \<Rightarrow> u32 \<Rightarrow> threads \<Rightarrow> threads" where
  "crt_endthreadex t result s =
     (case y_info s t of
        Some a \<Rightarrow> move t (Finishing a result) (s\<lparr>y_info := (y_info s)(t := None)\<rparr>)
      | None \<Rightarrow> move t Gone s)"

definition finish_thread :: "thread \<Rightarrow> address \<Rightarrow> u32 \<Rightarrow> threads \<Rightarrow> threads" where
  "finish_thread t a result s =
     with_data a (\<lambda>d. move t (if h_closed d then Deleting_own a else Gone)
       (broadcast_to a (put_data a (Some (d\<lparr>h_code := result, h_finished := True\<rparr>)) s))) s"

definition delete_data :: "thread \<Rightarrow> address \<Rightarrow> thread_pc \<Rightarrow> threads \<Rightarrow> threads" where
  "delete_data t a p s = with_data a (\<lambda>d. move t p (put_data a None s)) s"

definition wait_for_thread :: "thread \<Rightarrow> handle \<Rightarrow> u32 \<Rightarrow> threads \<Rightarrow> threads" where
  "wait_for_thread t h ms s =
     (case y_handle s h of None \<Rightarrow> s\<lparr>y_fault := True\<rparr> | Some a \<Rightarrow> move t (Join_enter a h (timeout_of ms)) s)"

definition test_thread :: "thread \<Rightarrow> address \<Rightarrow> handle \<Rightarrow> timeout \<Rightarrow> bool \<Rightarrow> threads \<Rightarrow> threads" where
  "test_thread t a h w expired s =
     with_data a (\<lambda>d. move t
       (if h_finished d then Running (Status STATUS_WAIT_0)
        else if expired then Running (Status STATUS_TIMEOUT) else Join_asleep a h w) s) s"

definition enter_thread :: "thread \<Rightarrow> address \<Rightarrow> handle \<Rightarrow> timeout \<Rightarrow> threads \<Rightarrow> threads" where
  "enter_thread t a h w s = test_thread t a h w (w = Immediate) s"

definition GetExitCodeThread :: "thread \<Rightarrow> handle \<Rightarrow> threads \<Rightarrow> threads" where
  "GetExitCodeThread t h s =
     (case y_handle s h of
        None \<Rightarrow> s\<lparr>y_fault := True\<rparr>
      | Some a \<Rightarrow> with_data a (\<lambda>d. move t (Running (Exit_code (if h_finished d then h_code d else STILL_ACTIVE))) s) s)"

definition CloseHandle :: "thread \<Rightarrow> handle \<Rightarrow> threads \<Rightarrow> threads" where
  "CloseHandle t h s =
     (case y_handle s h of
        None \<Rightarrow> s\<lparr>y_fault := True\<rparr>
      | Some a \<Rightarrow> with_data a (\<lambda>d. move t (if h_finished d then Deleting_closed a h else Closing h)
          (put_data a (Some (d\<lparr>h_closed := True\<rparr>)) s)) s)"

definition delete_handle :: "thread \<Rightarrow> handle \<Rightarrow> threads \<Rightarrow> threads" where
  "delete_handle t h s = move t (Running (Status TRUE)) (s\<lparr>y_handle := (y_handle s)(h := None)\<rparr>)"

section \<open>Runs\<close>

fun joins :: "handle \<Rightarrow> thread_pc \<Rightarrow> bool" where
  "joins h (Join_enter a g w) = (g = h)"
| "joins h (Joining a g w x) = (g = h)"
| "joins h (Join_asleep a g w) = (g = h)"
| "joins h p = False"

fun closes :: "handle \<Rightarrow> thread_pc \<Rightarrow> bool" where
  "closes h (Deleting_closed a g) = (g = h)"
| "closes h (Closing g) = (g = h)"
| "closes h p = False"

definition open_handle :: "handle \<Rightarrow> threads \<Rightarrow> bool" where
  "open_handle h s \<longleftrightarrow> y_handle s h \<noteq> None \<and> (\<forall>u. \<not> closes h (y_pc s u))"

definition idle_handle :: "handle \<Rightarrow> threads \<Rightarrow> bool" where
  "idle_handle h s \<longleftrightarrow> open_handle h s \<and> (\<forall>u. \<not> joins h (y_pc s u))"

inductive thread_step :: "threads \<Rightarrow> threads \<Rightarrow> bool" where
  create: "y_pc s t = Running r \<Longrightarrow> y_data s a = None \<Longrightarrow> y_pc s u = Unborn \<Longrightarrow>
    thread_step s (CreateThread t (Some (a, u)) wants_id s)"
| create_fails: "y_pc s t = Running r \<Longrightarrow> thread_step s (CreateThread t None wants_id s)"
| awaits_id: "y_pc s t = Creating a \<Longrightarrow> thread_step s (await_id t a s)"
| makes: "y_pc s t = Making a \<Longrightarrow> y_handle s h = None \<Longrightarrow> thread_step s (make_handle t a h s)"
| begins: "y_pc s t = Starting a \<Longrightarrow> tid \<noteq> 0 \<Longrightarrow> thread_step s (thread_entry t a tid s)"
| ends: "y_pc s t = Running r \<Longrightarrow> thread_step s (crt_endthreadex t result s)"
| finishes: "y_pc s t = Finishing a result \<Longrightarrow> thread_step s (finish_thread t a result s)"
| deletes_own: "y_pc s t = Deleting_own a \<Longrightarrow> thread_step s (delete_data t a Gone s)"
| waits: "y_pc s t = Running r \<Longrightarrow> open_handle h s \<Longrightarrow> thread_step s (wait_for_thread t h ms s)"
| enters: "y_pc s t = Join_enter a h w \<Longrightarrow> thread_step s (enter_thread t a h w s)"
| tests: "y_pc s t = Joining a h w x \<Longrightarrow> thread_step s (test_thread t a h w x s)"
| asks_code: "y_pc s t = Running r \<Longrightarrow> open_handle h s \<Longrightarrow> thread_step s (GetExitCodeThread t h s)"
| closes_handle: "y_pc s t = Running r \<Longrightarrow> idle_handle h s \<Longrightarrow> thread_step s (CloseHandle t h s)"
| deletes_closed: "y_pc s t = Deleting_closed a h \<Longrightarrow> thread_step s (delete_data t a (Closing h) s)"
| closed: "y_pc s t = Closing h \<Longrightarrow> thread_step s (delete_handle t h s)"
| join_spurious: "y_pc s t = Join_asleep a h w \<Longrightarrow> thread_step s (move t (Joining a h w False) s)"
| join_expires: "y_pc s t = Join_asleep a h Bounded \<Longrightarrow> thread_step s (move t (Joining a h Bounded True) s)"
| create_spurious: "y_pc s t = Creating_asleep a \<Longrightarrow> thread_step s (move t (Creating a) s)"

section \<open>Who answers for an object\<close>

text \<open>
  The thread that still has to finish it, the thread that makes its handle, the thread that deletes it,
  and the thread that closes a handle.
\<close>

fun runs_for :: "thread_pc \<Rightarrow> address option" where
  "runs_for (Starting a) = Some a"
| "runs_for (Finishing a r) = Some a"
| "runs_for p = None"

fun makes_for :: "thread_pc \<Rightarrow> address option" where
  "makes_for (Creating a) = Some a"
| "makes_for (Creating_asleep a) = Some a"
| "makes_for (Making a) = Some a"
| "makes_for p = None"

fun deletes_for :: "thread_pc \<Rightarrow> address option" where
  "deletes_for (Deleting_own a) = Some a"
| "deletes_for (Deleting_closed a h) = Some a"
| "deletes_for p = None"

fun closes_for :: "thread_pc \<Rightarrow> handle option" where
  "closes_for (Deleting_closed a h) = Some h"
| "closes_for (Closing h) = Some h"
| "closes_for p = None"

definition duty :: "threads \<Rightarrow> thread \<Rightarrow> address option" where
  "duty s u = (case y_info s u of Some a \<Rightarrow> Some a | None \<Rightarrow> runs_for (y_pc s u))"

definition making :: "threads \<Rightarrow> thread \<Rightarrow> address option" where
  "making s u = makes_for (y_pc s u)"

definition deleting :: "threads \<Rightarrow> thread \<Rightarrow> address option" where
  "deleting s u = deletes_for (y_pc s u)"

definition closing :: "threads \<Rightarrow> thread \<Rightarrow> handle option" where
  "closing s u = closes_for (y_pc s u)"

definition fiber :: "('u \<Rightarrow> 'v option) \<Rightarrow> 'v \<Rightarrow> 'u set" where
  "fiber f v = {u. f u = Some v}"

definition exactly :: "bool \<Rightarrow> 'x set \<Rightarrow> bool" where
  "exactly b X \<longleftrightarrow> (if b then \<exists>x. X = {x} else X = {})"

definition opens :: "threads \<Rightarrow> address \<Rightarrow> handle set" where
  "opens s a = {h. y_handle s h = Some a \<and> fiber (closing s) h = {}}"

definition keepers :: "threads \<Rightarrow> address \<Rightarrow> (thread + handle) set" where
  "keepers s a = fiber (making s) a <+> opens s a"

definition active :: "threads \<Rightarrow> address \<Rightarrow> bool" where
  "active s a \<longleftrightarrow> (\<exists>d. y_data s a = Some d \<and> \<not> h_finished d)"

definition held :: "threads \<Rightarrow> address \<Rightarrow> bool" where
  "held s a \<longleftrightarrow> (\<exists>d. y_data s a = Some d \<and> \<not> h_closed d)"

definition doomed :: "threads \<Rightarrow> address \<Rightarrow> bool" where
  "doomed s a \<longleftrightarrow> (\<exists>d. y_data s a = Some d \<and> h_finished d \<and> h_closed d)"

definition unnamed :: "threads \<Rightarrow> address \<Rightarrow> bool" where
  "unnamed s a \<longleftrightarrow> (\<forall>d. y_data s a = Some d \<longrightarrow> h_id d = 0)"

fun settled :: "thread_pc \<Rightarrow> bool" where
  "settled Unborn = True"
| "settled (Starting a) = True"
| "settled (Finishing a r) = True"
| "settled (Deleting_own a) = True"
| "settled Gone = True"
| "settled p = False"

text \<open>A thread inside a call on a handle finds the object of the handle; a sleeper has a reason to sleep.\<close>

fun place_ok :: "threads \<Rightarrow> thread_pc \<Rightarrow> bool" where
  "place_ok s (Join_enter a h w) = (h \<in> opens s a)"
| "place_ok s (Joining a h w x) = (h \<in> opens s a)"
| "place_ok s (Join_asleep a h w) = (h \<in> opens s a \<and> active s a)"
| "place_ok s (Creating_asleep a) = unnamed s a"
| "place_ok s p = True"

definition threads_inv :: "threads \<Rightarrow> bool" where
  "threads_inv s \<longleftrightarrow> \<not> y_fault s \<and>
     (\<forall>a. exactly (active s a) (fiber (duty s) a) \<and> exactly (held s a) (keepers s a) \<and>
          exactly (doomed s a) (fiber (deleting s) a)) \<and>
     (\<forall>h. fiber (closing s) h \<noteq> {} \<longrightarrow> exactly True (fiber (closing s) h) \<and> y_handle s h \<noteq> None) \<and>
     (\<forall>t. settled (y_pc s t) \<longrightarrow> y_info s t = None) \<and>
     (\<forall>t. place_ok s (y_pc s t))"

lemma threads_invD:
  assumes "threads_inv s"
  shows "\<not> y_fault s" and "exactly (active s a) (fiber (duty s) a)" and "exactly (held s a) (keepers s a)"
    and "exactly (doomed s a) (fiber (deleting s) a)"
    and "fiber (closing s) h \<noteq> {} \<Longrightarrow> exactly True (fiber (closing s) h)"
    and "fiber (closing s) h \<noteq> {} \<Longrightarrow> y_handle s h \<noteq> None"
    and "settled (y_pc s t) \<Longrightarrow> y_info s t = None" and "place_ok s (y_pc s t)"
  using assms by (simp_all add: threads_inv_def)

lemma threads_invI:
  assumes "\<not> y_fault s" and "\<And>a. exactly (active s a) (fiber (duty s) a)" and "\<And>a. exactly (held s a) (keepers s a)"
    and "\<And>a. exactly (doomed s a) (fiber (deleting s) a)"
    and "\<And>h. fiber (closing s) h \<noteq> {} \<Longrightarrow> exactly True (fiber (closing s) h)"
    and "\<And>h. fiber (closing s) h \<noteq> {} \<Longrightarrow> y_handle s h \<noteq> None"
    and "\<And>t. settled (y_pc s t) \<Longrightarrow> y_info s t = None" and "\<And>t. place_ok s (y_pc s t)"
  shows "threads_inv s"
  using assms by (simp add: threads_inv_def)

subsection \<open>Sets of one thread\<close>

lemma fiber_other: "f t \<noteq> Some v \<Longrightarrow> x \<noteq> Some v \<Longrightarrow> fiber (f(t := x)) v = fiber f v"
  by (auto simp: fiber_def)

lemma fiber_drop: "exactly b (fiber f v) \<Longrightarrow> f t = Some v \<Longrightarrow> x \<noteq> Some v \<Longrightarrow> fiber (f(t := x)) v = {}"
  by (auto simp: fiber_def exactly_def set_eq_iff split: if_splits)

lemma fiber_add: "fiber f v = {} \<Longrightarrow> fiber (f(t := Some v)) v = {t}"
  by (auto simp: fiber_def)

lemma fiber_keep: "x = f t \<Longrightarrow> fiber (f(t := x)) v = fiber f v"
  by simp

lemma fiber_mem: "u \<in> fiber f v \<longleftrightarrow> f u = Some v"
  by (simp add: fiber_def)

lemma exactly_simps [simp]: "exactly b {x} \<longleftrightarrow> b" "exactly b {} \<longleftrightarrow> \<not> b" "exactly False X \<longleftrightarrow> X = {}"
  by (auto simp: exactly_def)

lemma exactly_mem: "exactly b X \<Longrightarrow> x \<in> X \<Longrightarrow> b \<and> X = {x}"
  by (auto simp: exactly_def split: if_splits)

subsection \<open>What the pieces of a step change\<close>

lemma move_simps [simp]:
  "y_data (move t p s) = y_data s" "y_handle (move t p s) = y_handle s" "y_info (move t p s) = y_info s"
  "y_fault (move t p s) = y_fault s" "y_pc (move t p s) u = (if u = t then p else y_pc s u)"
  by (simp_all add: move_def)

lemma broadcast_simps [simp]:
  "y_data (broadcast_to a s) = y_data s" "y_handle (broadcast_to a s) = y_handle s" "y_info (broadcast_to a s) = y_info s"
  "y_fault (broadcast_to a s) = y_fault s" "y_pc (broadcast_to a s) u = woken_by a (y_pc s u)"
  by (simp_all add: broadcast_to_def)

lemma put_data_simps [simp]:
  "y_data (put_data a d s) = (y_data s)(a := d)" "y_handle (put_data a d s) = y_handle s" "y_info (put_data a d s) = y_info s"
  "y_fault (put_data a d s) = y_fault s" "y_pc (put_data a d s) = y_pc s"
  by (simp_all add: put_data_def)

lemma woken_roles [simp]:
  "runs_for (woken_by a p) = runs_for p" "makes_for (woken_by a p) = makes_for p"
  "deletes_for (woken_by a p) = deletes_for p" "closes_for (woken_by a p) = closes_for p"
  "settled (woken_by a p) = settled p"
  by (cases "(a, p)" rule: woken_by.cases; simp)+

lemma roles_broadcast [simp]:
  "duty (broadcast_to a s) = duty s" "making (broadcast_to a s) = making s" "deleting (broadcast_to a s) = deleting s"
  "closing (broadcast_to a s) = closing s"
  by (simp_all add: duty_def making_def deleting_def closing_def fun_eq_iff split: option.splits)

lemma roles_put [simp]:
  "duty (put_data a d s) = duty s" "making (put_data a d s) = making s" "deleting (put_data a d s) = deleting s"
  "closing (put_data a d s) = closing s"
  by (simp_all add: duty_def making_def deleting_def closing_def fun_eq_iff split: option.splits)

lemma roles_move [simp]:
  "duty (move t p s) = (duty s)(t := (case y_info s t of Some a \<Rightarrow> Some a | None \<Rightarrow> runs_for p))"
  "making (move t p s) = (making s)(t := makes_for p)" "deleting (move t p s) = (deleting s)(t := deletes_for p)"
  "closing (move t p s) = (closing s)(t := closes_for p)"
  by (auto simp: duty_def making_def deleting_def closing_def fun_eq_iff split: option.splits)

lemma data_bits [simp]:
  "active (move t p s) = active s" "held (move t p s) = held s" "doomed (move t p s) = doomed s"
  "active (broadcast_to a s) = active s" "held (broadcast_to a s) = held s" "doomed (broadcast_to a s) = doomed s"
  "unnamed (move t p s) = unnamed s" "unnamed (broadcast_to a s) = unnamed s"
  by (simp_all add: active_def held_def doomed_def unnamed_def fun_eq_iff)

lemma opens_eq: "y_handle s' = y_handle s \<Longrightarrow> closing s' = closing s \<Longrightarrow> opens s' a = opens s a"
  by (simp add: opens_def)

lemma place_ok_mono:
  assumes "place_ok s p" and "\<And>a. opens s a \<subseteq> opens s' a" and "\<And>a. active s a \<Longrightarrow> active s' a"
    and "\<And>a. unnamed s a \<Longrightarrow> unnamed s' a"
  shows "place_ok s' p"
  using assms by (cases p) auto

text \<open>A move within one role.\<close>

lemma threads_inv_move:
  assumes inv: "threads_inv s" and roles: "runs_for p = runs_for (y_pc s t)" "makes_for p = makes_for (y_pc s t)"
    "deletes_for p = deletes_for (y_pc s t)" "closes_for p = closes_for (y_pc s t)"
    and ok: "settled p \<Longrightarrow> settled (y_pc s t)" "place_ok s p"
  shows "threads_inv (move t p s)"
proof -
  have same: "duty (move t p s) = duty s" "making (move t p s) = making s" "deleting (move t p s) = deleting s"
    "closing (move t p s) = closing s"
    using roles by (auto simp: duty_def making_def deleting_def closing_def fun_eq_iff split: option.splits)
  have opens: "opens (move t p s) a = opens s a" for a
    by (intro opens_eq) (simp_all add: same del: roles_move)
  have "place_ok (move t p s) q" if "place_ok s q" for q
    using that by (rule place_ok_mono) (simp_all add: opens)
  then have place: "place_ok (move t p s) (y_pc (move t p s) u)" for u
    using threads_invD(8) [OF inv] ok(2) by simp
  have settled: "y_info (move t p s) u = None" if "settled (y_pc (move t p s) u)" for u
    using threads_invD(7) [OF inv, of u] that ok(1) by (simp split: if_splits)
  have keepers: "keepers (move t p s) a = keepers s a" for a
    by (simp only: keepers_def same opens)
  show ?thesis
    by (rule threads_invI, unfold same keepers data_bits move_simps(1-4))
      (use threads_invD(1-6) [OF inv] settled place in \<open>auto simp del: move_simps(5)\<close>)
qed

subsection \<open>Steps between roles\<close>

lemma exactly_upd:
  assumes "exactly b (fiber f v)" and "f t = Some v \<Longrightarrow> x \<noteq> Some v \<Longrightarrow> \<not> b'" and "f t \<noteq> Some v \<Longrightarrow> x = Some v \<Longrightarrow> b' \<and> \<not> b"
    and "f t = Some v \<longleftrightarrow> x = Some v \<Longrightarrow> b' = b"
  shows "exactly b' (fiber (f(t := x)) v)"
proof -
  consider "f t = Some v" "x \<noteq> Some v" | "f t \<noteq> Some v" "x = Some v" | "f t = Some v \<longleftrightarrow> x = Some v"
    by blast
  then show ?thesis
  proof cases
    case 3
    then have "fiber (f(t := x)) v = fiber f v"
      by (auto simp: fiber_def)
    then show ?thesis
      using assms(1) assms(4) [OF 3] by simp
  qed (use assms in \<open>simp_all add: fiber_drop fiber_add\<close>)
qed

lemma data_update_bits [simp]:
  "active (put_data a x s) b = (if b = a then (\<exists>d. x = Some d \<and> \<not> h_finished d) else active s b)"
  "held (put_data a x s) b = (if b = a then (\<exists>d. x = Some d \<and> \<not> h_closed d) else held s b)"
  "doomed (put_data a x s) b = (if b = a then (\<exists>d. x = Some d \<and> h_finished d \<and> h_closed d) else doomed s b)"
  "unnamed (put_data a x s) b = (if b = a then (\<forall>d. x = Some d \<longrightarrow> h_id d = 0) else unnamed s b)"
  by (auto simp: active_def held_def doomed_def unnamed_def)

lemma roles_other [simp]:
  "making (s\<lparr>y_handle := g\<rparr>) = making s" "deleting (s\<lparr>y_handle := g\<rparr>) = deleting s" "closing (s\<lparr>y_handle := g\<rparr>) = closing s"
  "duty (s\<lparr>y_handle := g\<rparr>) = duty s"
  "making (s\<lparr>y_info := i\<rparr>) = making s" "deleting (s\<lparr>y_info := i\<rparr>) = deleting s" "closing (s\<lparr>y_info := i\<rparr>) = closing s"
  "active (s\<lparr>y_handle := g\<rparr>) = active s" "held (s\<lparr>y_handle := g\<rparr>) = held s" "doomed (s\<lparr>y_handle := g\<rparr>) = doomed s"
  "active (s\<lparr>y_info := i\<rparr>) = active s" "held (s\<lparr>y_info := i\<rparr>) = held s" "doomed (s\<lparr>y_info := i\<rparr>) = doomed s"
  "unnamed (s\<lparr>y_handle := g\<rparr>) = unnamed s" "unnamed (s\<lparr>y_info := i\<rparr>) = unnamed s"
  by (simp_all add: making_def deleting_def closing_def duty_def active_def held_def doomed_def unnamed_def fun_eq_iff split: option.splits)

lemma mem_plus [simp]: "Inl x \<in> A <+> B \<longleftrightarrow> x \<in> A" "Inr y \<in> A <+> B \<longleftrightarrow> y \<in> B"
  by auto

lemma plus_singleton: "A <+> B = {Inl x} \<longleftrightarrow> A = {x} \<and> B = {}" "A <+> B = {Inr y} \<longleftrightarrow> A = {} \<and> B = {y}"
  unfolding set_eq_iff split_sum_all by (simp_all, blast?)

text \<open>While a thread has a role, the object of the role is there.\<close>

lemma role_data:
  assumes inv: "threads_inv s"
  shows "duty s t = Some a \<Longrightarrow> \<exists>d. y_data s a = Some d \<and> \<not> h_finished d"
    and "making s t = Some a \<Longrightarrow> \<exists>d. y_data s a = Some d \<and> \<not> h_closed d"
    and "h \<in> opens s a \<Longrightarrow> \<exists>d. y_data s a = Some d \<and> \<not> h_closed d"
    and "deleting s t = Some a \<Longrightarrow> \<exists>d. y_data s a = Some d \<and> h_finished d \<and> h_closed d"
proof -
  show "\<exists>d. y_data s a = Some d \<and> \<not> h_finished d" if "duty s t = Some a"
    using exactly_mem [OF threads_invD(2) [OF inv, of a], of t] that by (simp add: fiber_mem active_def)
  show "\<exists>d. y_data s a = Some d \<and> \<not> h_closed d" if "making s t = Some a"
    using exactly_mem [OF threads_invD(3) [OF inv, of a], of "Inl t"] that by (simp add: keepers_def fiber_mem held_def)
  show "\<exists>d. y_data s a = Some d \<and> \<not> h_closed d" if "h \<in> opens s a"
    using exactly_mem [OF threads_invD(3) [OF inv, of a], of "Inr h"] that by (simp add: keepers_def held_def)
  show "\<exists>d. y_data s a = Some d \<and> h_finished d \<and> h_closed d" if "deleting s t = Some a"
    using exactly_mem [OF threads_invD(4) [OF inv, of a], of t] that by (simp add: fiber_mem doomed_def)
qed

text \<open>An address without an object is in nobody's hands.\<close>

lemma no_data:
  assumes inv: "threads_inv s" and none: "y_data s a = None"
  shows "fiber (duty s) a = {}" and "fiber (making s) a = {}" and "opens s a = {}" and "fiber (deleting s) a = {}"
  using threads_invD(2-4) [OF inv, of a] none by (auto simp: active_def held_def doomed_def keepers_def)

lemma no_closer: "threads_inv s \<Longrightarrow> y_handle s h = None \<Longrightarrow> fiber (closing s) h = {}"
  using threads_invD(6) [of s h] by blast

text \<open>The keepers of an object: a thread that makes the handle, or the open handle.\<close>

lemma keepers_same: "fiber (making s') a = fiber (making s) a \<Longrightarrow> opens s' a = opens s a \<Longrightarrow> keepers s' a = keepers s a"
  by (simp add: keepers_def)

lemma keepers_making:
  assumes "threads_inv s" and "making s t = Some a"
  shows "fiber (making s) a = {t}" and "opens s a = {}"
  using exactly_mem [OF threads_invD(3) [OF assms(1), of a], of "Inl t"] assms(2)
  by (simp_all add: keepers_def fiber_mem plus_singleton)

lemma keepers_open:
  assumes "threads_inv s" and "h \<in> opens s a"
  shows "fiber (making s) a = {}" and "opens s a = {h}"
  using exactly_mem [OF threads_invD(3) [OF assms(1), of a], of "Inr h"] assms(2)
  by (simp_all add: keepers_def fiber_mem plus_singleton)

lemma plus_simps [simp]: "{x} <+> {} = {Inl x}" "{} <+> {y} = {Inr y}" "{} <+> {} = {}"
  by auto

lemma duty_info [simp]:
  "duty (s\<lparr>y_info := (y_info s)(t := x)\<rparr>) = (duty s)(t := (case x of Some a \<Rightarrow> Some a | None \<Rightarrow> runs_for (y_pc s t)))"
  by (auto simp: duty_def fun_eq_iff split: option.splits)

lemma place_ok_woken:
  assumes "place_ok s p" and "\<And>b. opens s b \<subseteq> opens s' b" and "\<And>b. b \<noteq> a \<Longrightarrow> active s b \<Longrightarrow> active s' b"
    and "\<And>b. b \<noteq> a \<Longrightarrow> unnamed s b \<Longrightarrow> unnamed s' b"
  shows "place_ok s' (woken_by a p)"
  using assms by (cases p) auto

text \<open>What an unsettled thread is, the others stay.\<close>

lemma settled_step:
  assumes "threads_inv s" and "settled (y_pc s' u)" and "u \<noteq> t \<Longrightarrow> settled (y_pc s' u) = settled (y_pc s u)"
    and "u \<noteq> t \<Longrightarrow> y_info s' u = y_info s u" and "settled (y_pc s' t) \<Longrightarrow> y_info s' t = None"
  shows "y_info s' u = None"
  using assms threads_invD(7) [OF assms(1), of u] by (cases "u = t") auto

lemma threads_inv_same:
  assumes inv: "threads_inv s"
    and same: "duty s' = duty s" "making s' = making s" "deleting s' = deleting s" "closing s' = closing s"
      "active s' = active s" "held s' = held s" "doomed s' = doomed s" "y_handle s' = y_handle s" "y_fault s' = y_fault s"
    and settled: "\<And>u. u \<noteq> t \<Longrightarrow> settled (y_pc s' u) = settled (y_pc s u) \<and> y_info s' u = y_info s u"
      "settled (y_pc s' t) \<Longrightarrow> y_info s' t = None"
    and place: "place_ok s' (y_pc s' t)" "\<And>u. u \<noteq> t \<Longrightarrow> place_ok s (y_pc s u) \<Longrightarrow> (\<And>b. opens s' b = opens s b) \<Longrightarrow> place_ok s' (y_pc s' u)"
  shows "threads_inv s'"
proof -
  have opens: "opens s' b = opens s b" for b
    by (intro opens_eq same)
  have "place_ok s' (y_pc s' u)" for u
    using place threads_invD(8) [OF inv, of u] opens by (cases "u = t") simp_all
  moreover have "y_info s' u = None" if "settled (y_pc s' u)" for u
    using inv that by (rule settled_step [where t = t]) (use settled in simp_all)
  ultimately show ?thesis
    using threads_invD(1-6) [OF inv] by (intro threads_invI) (simp_all add: same keepers_def opens)
qed

lemma begins_inv:
  assumes inv: "threads_inv s" and t: "y_pc s t = Starting a"
  shows "threads_inv (thread_entry t a tid s)" (is "threads_inv ?s")
proof -
  have duty: "duty s t = Some a"
    using t threads_invD(7) [OF inv, of t] by (simp add: duty_def)
  obtain d where d: "y_data s a = Some d" "\<not> h_finished d"
    using role_data(1) [OF inv duty] by blast
  have s: "?s = move t (Running Nothing) (broadcast_to a (put_data a (Some (d\<lparr>h_id := tid\<rparr>)) (s\<lparr>y_info := (y_info s)(t \<mapsto> a)\<rparr>)))"
    using d by (simp add: thread_entry_def with_data_def)
  show ?thesis
    using inv
  proof (rule threads_inv_same [where t = t])
    show "place_ok ?s (y_pc ?s u)" if "u \<noteq> t" "place_ok s (y_pc s u)" "\<And>b. opens ?s b = opens s b" for u
    proof -
      have "place_ok ?s (woken_by a (y_pc s u))"
        using that(2) by (rule place_ok_woken) (use that(3) in \<open>simp_all add: s\<close>)
      then show ?thesis
        using that(1) by (simp add: s)
    qed
  qed (use t d duty in \<open>auto simp: s fun_eq_iff making_def deleting_def closing_def active_def held_def doomed_def\<close>)
qed

lemma ends_inv:
  assumes inv: "threads_inv s" and t: "y_pc s t = Running r"
  shows "threads_inv (crt_endthreadex t result s)" (is "threads_inv ?s")
  using inv
proof (rule threads_inv_same [where t = t])
  show "place_ok ?s (y_pc ?s u)" if "u \<noteq> t" "place_ok s (y_pc s u)" "\<And>b. opens ?s b = opens s b" for u
  proof -
    have "place_ok ?s (y_pc s u)"
      using that(2) by (rule place_ok_mono) (use that(3) in \<open>simp_all add: crt_endthreadex_def split: option.splits\<close>)
    then show ?thesis
      using that(1) by (simp add: crt_endthreadex_def split: option.splits)
  qed
qed (use t in \<open>auto simp: crt_endthreadex_def fun_eq_iff making_def deleting_def closing_def duty_def split: option.splits\<close>)

lemma finishes_inv:
  assumes inv: "threads_inv s" and t: "y_pc s t = Finishing a result"
  shows "threads_inv (finish_thread t a result s)" (is "threads_inv ?s")
proof -
  have free: "y_info s t = None"
    using t threads_invD(7) [OF inv, of t] by simp
  then have duty: "duty s t = Some a"
    using t by (simp add: duty_def)
  obtain d where d: "y_data s a = Some d" "\<not> h_finished d"
    using role_data(1) [OF inv duty] by blast
  let ?p = "if h_closed d then Deleting_own a else Gone"
  have s: "?s = move t ?p (broadcast_to a (put_data a (Some (d\<lparr>h_code := result, h_finished := True\<rparr>)) s))"
    using d by (simp add: finish_thread_def with_data_def)
  have none: "making s t = None" "deleting s t = None" "closing s t = None"
    using t by (simp_all add: making_def deleting_def closing_def)
  have roles: "making ?s = making s" "closing ?s = closing s"
    using none by (auto simp: s fun_eq_iff)
  have opens: "opens ?s b = opens s b" for b
    by (intro opens_eq roles) (simp add: s)
  show ?thesis
  proof (rule threads_invI)
    have "runs_for ?p = None"
      by simp
    then show "exactly (active ?s b) (fiber (duty ?s) b)" for b
      using duty free unfolding s roles_move
      by (intro exactly_upd [where b = "active s b"]) (simp_all add: threads_invD(2) [OF inv])
    show "exactly (held ?s b) (keepers ?s b)" for b
      using threads_invD(3) [OF inv, of b] d by (simp add: keepers_def roles opens) (auto simp: s held_def)
    have "deletes_for ?p = (if h_closed d then Some a else None)" "\<not> doomed s a"
      using d by (simp_all add: doomed_def)
    then show "exactly (doomed ?s b) (fiber (deleting ?s) b)" for b
      using none(2) unfolding s roles_move
      by (intro exactly_upd [where b = "doomed s b"]) (auto simp: threads_invD(4) [OF inv] split: if_splits)
    show "y_info ?s u = None" if "settled (y_pc ?s u)" for u
      using inv that by (rule settled_step [where t = t]) (simp_all add: s free)
    show "place_ok ?s (y_pc ?s u)" for u
    proof (cases "u = t")
      case False
      have "place_ok ?s (woken_by a (y_pc s u))"
        using threads_invD(8) [OF inv, of u] by (rule place_ok_woken) (simp_all add: opens, simp_all add: s)
      then show ?thesis
        using False by (simp add: s)
    qed (simp add: s)
  qed (use threads_invD(1,5,6) [OF inv] in \<open>simp_all add: roles\<close>, simp_all add: s)
qed

lemma deletes_inv:
  assumes inv: "threads_inv s" and t: "deleting s t = Some a" and p: "deletes_for p = None" "runs_for p = None" "makes_for p = None"
    "closes_for p = closing s t" "settled p \<Longrightarrow> y_info s t = None" "\<And>s. place_ok s p"
  shows "threads_inv (delete_data t a p s)" (is "threads_inv ?s")
proof -
  obtain d where d: "y_data s a = Some d" "h_finished d" "h_closed d"
    using role_data(4) [OF inv t] by blast
  have s: "?s = move t p (put_data a None s)"
    using d by (simp add: delete_data_def with_data_def)
  have none: "making s t = None" "runs_for (y_pc s t) = None"
    using t by (cases "y_pc s t"; simp add: making_def deleting_def)+
  have roles: "duty ?s = duty s" "making ?s = making s" "closing ?s = closing s"
    using none p by (auto simp: s fun_eq_iff duty_def split: option.splits)
  have opens: "opens ?s b = opens s b" for b
    by (intro opens_eq roles) (simp add: s)
  have bits: "active ?s = active s" "held ?s = held s"
    using d by (auto simp: s fun_eq_iff active_def held_def)
  have empty: "fiber (deleting s) a = {t}"
    using exactly_mem [OF threads_invD(4) [OF inv, of a], of t] t by (simp add: fiber_mem)
  show ?thesis
  proof (rule threads_invI)
    show "exactly (doomed ?s b) (fiber (deleting ?s) b)" for b
      using t p(1) unfolding s roles_move roles_put
      by (intro exactly_upd [where b = "doomed s b"]) (auto simp: threads_invD(4) [OF inv])
    show "y_info ?s u = None" if "settled (y_pc ?s u)" for u
      using inv that by (rule settled_step [where t = t]) (simp_all add: s p)
    show "place_ok ?s (y_pc ?s u)" for u
    proof (cases "u = t")
      case False
      have "place_ok ?s (y_pc s u)"
        using threads_invD(8) [OF inv, of u] by (rule place_ok_mono) (simp_all add: opens bits, simp add: s)
      then show ?thesis
        using False by (simp add: s)
    qed (simp add: s p)
  qed (use threads_invD(1-3,5,6) [OF inv] in \<open>simp_all add: roles bits keepers_def opens\<close>, simp_all add: s)
qed

lemma open_handle_mem:
  assumes "open_handle h s" and "y_handle s h = Some a"
  shows "h \<in> opens s a"
proof -
  have "closes_for q \<noteq> Some h" if "\<not> closes h q" for q
    using that by (cases "(h, q)" rule: closes.cases) auto
  then show ?thesis
    using assms by (auto simp: open_handle_def opens_def fiber_def closing_def)
qed

lemma closes_inv:
  assumes inv: "threads_inv s" and t: "y_pc s t = Running r" and idle: "idle_handle h s"
  shows "threads_inv (CloseHandle t h s)" (is "threads_inv ?s")
proof -
  obtain a where a: "y_handle s h = Some a"
    using idle by (auto simp: idle_handle_def open_handle_def)
  then have mem: "h \<in> opens s a"
    using idle open_handle_mem by (simp add: idle_handle_def)
  then have quiet: "fiber (closing s) h = {}"
    by (simp add: opens_def)
  obtain d where d: "y_data s a = Some d" "\<not> h_closed d"
    using role_data(3) [OF inv mem] by blast
  let ?p = "if h_finished d then Deleting_closed a h else Closing h"
  have s: "?s = move t ?p (put_data a (Some (d\<lparr>h_closed := True\<rparr>)) s)"
    using a d by (simp add: CloseHandle_def with_data_def)
  have none: "making s t = None" "deleting s t = None" "closing s t = None"
    using t by (simp_all add: making_def deleting_def closing_def)
  have roles: "duty ?s = duty s" "making ?s = making s" "closing ?s = (closing s)(t \<mapsto> h)"
    using t none by (auto simp: s fun_eq_iff duty_def split: option.splits)
  have closers: "fiber (closing ?s) g = (if g = h then {t} else fiber (closing s) g)" for g
    using quiet none by (auto simp: roles fiber_def)
  have opens: "opens ?s b = opens s b - {h}" for b
    using closers by (auto simp: opens_def s)
  have "active ?s = active s"
    using d by (auto simp: s fun_eq_iff active_def)
  note mine = keepers_open [OF inv mem]
  show ?thesis
  proof (rule threads_invI)
    show "exactly (held ?s b) (keepers ?s b)" for b
    proof (cases "b = a")
      case False
      then have "h \<notin> opens s b"
        using a by (simp add: opens_def)
      then show ?thesis
        using False threads_invD(3) [OF inv, of b] by (simp add: keepers_def roles opens) (simp add: s)
    qed (simp add: keepers_def roles opens mine, simp add: s)
    have "deletes_for ?p = (if h_finished d then Some a else None)" "\<not> doomed s a"
      using d by (simp_all add: doomed_def)
    then show "exactly (doomed ?s b) (fiber (deleting ?s) b)" for b
      using none(2) unfolding s roles_move
      by (intro exactly_upd [where b = "doomed s b"]) (auto simp: threads_invD(4) [OF inv] split: if_splits)
    show "exactly True (fiber (closing ?s) g)" if "fiber (closing ?s) g \<noteq> {}" for g
      using that threads_invD(5) [OF inv, of g] by (cases "g = h") (simp_all add: closers)
    show "y_handle ?s g \<noteq> None" if "fiber (closing ?s) g \<noteq> {}" for g
      using that threads_invD(6) [OF inv, of g] a by (cases "g = h") (simp_all add: closers, simp_all add: s)
    show "y_info ?s u = None" if "settled (y_pc ?s u)" for u
      using inv that by (rule settled_step [where t = t]) (simp_all add: s split: if_splits)
    show "place_ok ?s (y_pc ?s u)" for u
    proof (cases "u = t")
      case False
      have "\<not> joins h (y_pc s u)"
        using idle by (simp add: idle_handle_def)
      then have "place_ok ?s (y_pc s u)"
        using threads_invD(8) [OF inv, of u] d \<open>active ?s = active s\<close>
        by (cases "y_pc s u") (simp_all add: opens, simp_all add: s unnamed_def)
      then show ?thesis
        using False by (simp add: s)
    qed (simp add: s)
  qed (use threads_invD(1,2) [OF inv] in \<open>simp_all add: roles \<open>active ?s = active s\<close>\<close>, simp_all add: s)
qed

lemma closed_inv:
  assumes inv: "threads_inv s" and t: "y_pc s t = Closing h"
  shows "threads_inv (delete_handle t h s)" (is "threads_inv ?s")
proof -
  have closer: "closing s t = Some h"
    using t by (simp add: closing_def)
  then have only: "fiber (closing s) h = {t}"
    using exactly_mem [OF threads_invD(5) [OF inv, of h], of t] by (auto simp: fiber_mem)
  have s: "?s = move t (Running (Status TRUE)) (s\<lparr>y_handle := (y_handle s)(h := None)\<rparr>)"
    by (simp add: delete_handle_def)
  have roles: "duty ?s = duty s" "making ?s = making s" "deleting ?s = deleting s" "closing ?s = (closing s)(t := None)"
    using t by (auto simp: s fun_eq_iff duty_def making_def deleting_def split: option.splits)
  have closers: "fiber (closing ?s) g = (if g = h then {} else fiber (closing s) g)" for g
    using only closer by (auto simp: roles fiber_def)
  have opens: "opens ?s b = opens s b" for b
    using only closers by (auto simp: opens_def s)
  have bits: "active ?s = active s" "held ?s = held s" "doomed ?s = doomed s" "unnamed ?s = unnamed s"
    by (simp_all add: s)
  show ?thesis
  proof (rule threads_invI)
    show "exactly True (fiber (closing ?s) g)" if "fiber (closing ?s) g \<noteq> {}" for g
      using that threads_invD(5) [OF inv, of g] by (simp add: closers split: if_splits)
    show "y_handle ?s g \<noteq> None" if "fiber (closing ?s) g \<noteq> {}" for g
      using that threads_invD(6) [OF inv, of g] by (cases "g = h") (simp_all add: closers, simp add: s)
    show "y_info ?s u = None" if "settled (y_pc ?s u)" for u
      using inv that by (rule settled_step [where t = t]) (simp_all add: s split: if_splits)
    show "place_ok ?s (y_pc ?s u)" for u
    proof (cases "u = t")
      case False
      have "place_ok ?s (y_pc s u)"
        using threads_invD(8) [OF inv, of u] by (rule place_ok_mono) (simp_all add: opens bits)
      then show ?thesis
        using False by (simp add: s)
    qed (simp add: s)
  qed (use threads_invD(1-4) [OF inv] in \<open>simp_all add: roles bits keepers_def opens\<close>, simp_all add: s)
qed

lemma makes_inv:
  assumes inv: "threads_inv s" and t: "y_pc s t = Making a" and fresh: "y_handle s h = None"
  shows "threads_inv (make_handle t a h s)" (is "threads_inv ?s")
proof -
  have maker: "making s t = Some a"
    using t by (simp add: making_def)
  obtain d where d: "y_data s a = Some d" "\<not> h_closed d"
    using role_data(2) [OF inv maker] by blast
  note mine = keepers_making [OF inv maker]
  have s: "?s = move t (Running (Made_handle (Some h))) (s\<lparr>y_handle := (y_handle s)(h \<mapsto> a)\<rparr>)"
    by (simp add: make_handle_def)
  have roles: "duty ?s = duty s" "making ?s = (making s)(t := None)" "deleting ?s = deleting s" "closing ?s = closing s"
    using t by (auto simp: s fun_eq_iff duty_def deleting_def closing_def split: option.splits)
  have opens: "opens ?s b = (if b = a then {h} else opens s b)" for b
    using no_closer [OF inv fresh] mine(2) fresh by (auto simp: opens_def roles) (auto simp: s split: if_splits)
  have bits: "active ?s = active s" "held ?s = held s" "doomed ?s = doomed s" "unnamed ?s = unnamed s"
    by (simp_all add: s)
  show ?thesis
  proof (rule threads_invI)
    show "exactly (held ?s b) (keepers ?s b)" for b
    proof (cases "b = a")
      case True
      then have "fiber (making ?s) a = {}"
        using mine(1) by (auto simp: roles fiber_def)
      then show ?thesis
        using True d by (simp add: keepers_def opens bits) (simp add: held_def)
    next
      case False
      then have "fiber (making ?s) b = fiber (making s) b"
        using maker by (auto simp: roles fiber_def)
      then show ?thesis
        using False threads_invD(3) [OF inv, of b] by (simp add: keepers_def opens bits)
    qed
    show "y_handle ?s g \<noteq> None" if "fiber (closing ?s) g \<noteq> {}" for g
      using that threads_invD(6) [OF inv, of g] by (simp add: roles) (simp add: s)
    show "y_info ?s u = None" if "settled (y_pc ?s u)" for u
      using inv that by (rule settled_step [where t = t]) (simp_all add: s split: if_splits)
    show "place_ok ?s (y_pc ?s u)" for u
    proof (cases "u = t")
      case False
      have "place_ok ?s (y_pc s u)"
        using threads_invD(8) [OF inv, of u] by (rule place_ok_mono) (use mine(2) in \<open>auto simp: opens bits\<close>)
      then show ?thesis
        using False by (simp add: s)
    qed (simp add: s)
  qed (use threads_invD(1,2,4,5) [OF inv] in \<open>simp_all add: roles bits\<close>, simp_all add: s)
qed

lemma create_inv:
  assumes inv: "threads_inv s" and t: "y_pc s t = Running r" and u: "y_pc s u = Unborn" and a: "y_data s a = None"
  shows "threads_inv (CreateThread t (Some (a, u)) wants_id s)" (is "threads_inv ?s")
proof -
  let ?p = "if wants_id then Creating a else Making a" and ?d = "\<lparr>h_id = 0, h_code = STILL_ACTIVE, h_finished = False, h_closed = False\<rparr>"
  have s: "?s = move t ?p (move u (Starting a) (put_data a (Some ?d) s))"
    by (simp add: CreateThread_def)
  have "u \<noteq> t"
    using t u by auto
  have idle: "y_info s u = None"
    using threads_invD(7) [OF inv, of u] u by simp
  have p: "makes_for ?p = Some a" "runs_for ?p = None" "deletes_for ?p = None" "closes_for ?p = None" "\<not> settled ?p"
    by simp_all
  have roles: "duty ?s = (duty s)(u \<mapsto> a)" "making ?s = (making s)(t \<mapsto> a)" "deleting ?s = deleting s" "closing ?s = closing s"
    using t u idle \<open>u \<noteq> t\<close> p
    by (auto simp: s fun_eq_iff duty_def making_def deleting_def closing_def split: option.splits)
  note none = no_data [OF inv a]
  have "making s t = None" "duty s u = None"
    using t u idle by (simp_all add: making_def duty_def)
  have opens: "opens ?s b = opens s b" for b
    by (intro opens_eq roles) (simp add: s)
  show ?thesis
  proof (rule threads_invI)
    have "active ?s b = (b = a \<or> active s b)" "\<not> active s a" for b
      using a by (simp_all add: s) (simp add: active_def)
    then show "exactly (active ?s b) (fiber (duty ?s) b)" for b
      unfolding roles using \<open>duty s u = None\<close> threads_invD(2) [OF inv, of b]
      by (intro exactly_upd [where b = "active s b"]) auto
    show "exactly (held ?s b) (keepers ?s b)" for b
    proof (cases "b = a")
      case True
      then show ?thesis
        using none by (simp add: keepers_def opens roles fiber_add) (simp add: s)
    next
      case False
      then have "fiber (making ?s) b = fiber (making s) b"
        using \<open>making s t = None\<close> by (simp add: roles fiber_other)
      then show ?thesis
        using False threads_invD(3) [OF inv, of b] by (simp add: keepers_def opens) (simp add: s)
    qed
    show "exactly (doomed ?s b) (fiber (deleting ?s) b)" for b
      using none(4) threads_invD(4) [OF inv, of b] by (cases "b = a") (simp_all add: roles, simp_all add: s)
    show "y_handle ?s g \<noteq> None" if "fiber (closing ?s) g \<noteq> {}" for g
      using that threads_invD(6) [OF inv, of g] by (simp add: roles) (simp add: s)
    show "y_info ?s v = None" if "settled (y_pc ?s v)" for v
      using that idle threads_invD(7) [OF inv, of v] by (cases "v = t"; cases "v = u") (simp_all add: s split: if_splits)
    show "place_ok ?s (y_pc ?s v)" for v
    proof -
      have "place_ok ?s (y_pc s v)"
        using threads_invD(8) [OF inv, of v] by (rule place_ok_mono) (simp_all add: opens, simp_all add: s)
      then show ?thesis
        by (simp add: s)
    qed
  qed (use threads_invD(1,5) [OF inv] in \<open>simp_all add: roles\<close>, simp_all add: s)
qed

lemma test_inv:
  assumes inv: "threads_inv s" and t: "y_pc s t = Join_enter a h w \<or> y_pc s t = Joining a h w y"
  shows "threads_inv (test_thread t a h w x s)"
proof -
  have mem: "h \<in> opens s a"
    using t threads_invD(8) [OF inv, of t] by auto
  then obtain d where "y_data s a = Some d"
    using role_data(3) [OF inv mem] by blast
  then show ?thesis
    using t mem unfolding test_thread_def with_data_def
    by (cases "h_finished d"; cases x) (auto simp: active_def intro!: threads_inv_move [OF inv])
qed

lemma thread_step_inv: "thread_step s s' \<Longrightarrow> threads_inv s \<Longrightarrow> threads_inv s'"
proof (induction rule: thread_step.induct)
  case (create s t r a u wants_id)
  then show ?case by (simp add: create_inv)
next
  case (create_fails s t r wants_id)
  then show ?case
    unfolding CreateThread_def option.case by (intro threads_inv_move) simp_all
next
  case (awaits_id s t a)
  then obtain d where "y_data s a = Some d"
    using role_data(2) [of s t a] by (auto simp: making_def)
  then show ?case
    using awaits_id by (auto simp: await_id_def with_data_def unnamed_def intro!: threads_inv_move)
next
  case (makes s t a h)
  then show ?case by (simp add: makes_inv)
next
  case (begins s t a tid)
  then show ?case by (simp add: begins_inv)
next
  case (ends s t r result)
  then show ?case by (simp add: ends_inv)
next
  case (finishes s t a result)
  then show ?case by (simp add: finishes_inv)
next
  case (deletes_own s t a)
  then show ?case
    using threads_invD(7) [of s t] by (intro deletes_inv) (simp_all add: deleting_def closing_def)
next
  case (waits s t r h ms)
  then show ?case
    by (auto simp: wait_for_thread_def open_handle_mem intro!: threads_inv_move split: option.splits)
      (simp add: open_handle_def)
next
  case (enters s t a h w)
  then show ?case by (simp add: enter_thread_def test_inv)
next
  case (tests s t a h w x)
  then show ?case by (simp add: test_inv)
next
  case (asks_code s t r h)
  then obtain a where a: "y_handle s h = Some a"
    by (auto simp: open_handle_def)
  then obtain d where "y_data s a = Some d"
    using role_data(3) [OF asks_code(3) open_handle_mem] asks_code(2) by blast
  then show ?case
    using asks_code(1,3) a by (auto simp: GetExitCodeThread_def with_data_def intro!: threads_inv_move)
next
  case (closes_handle s t r h)
  then show ?case by (simp add: closes_inv)
next
  case (deletes_closed s t a h)
  then show ?case
    by (intro deletes_inv) (simp_all add: deleting_def closing_def)
next
  case (closed s t h)
  then show ?case by (simp add: closed_inv)
next
  case (join_spurious s t a h w)
  then show ?case
    using threads_invD(8) [of s t] by (intro threads_inv_move) simp_all
next
  case (join_expires s t a h)
  then show ?case
    using threads_invD(8) [of s t] by (intro threads_inv_move) simp_all
next
  case (create_spurious s t a)
  then show ?case
    by (intro threads_inv_move) simp_all
qed

interpretation thread_objects: invariant_system thread_step "\<lambda>s. \<exists>T. s = initial_threads T" threads_inv
proof unfold_locales
  show "threads_inv s" if "\<exists>T. s = initial_threads T" for s
    using that
    by (auto simp: threads_inv_def initial_threads_def active_def held_def doomed_def keepers_def opens_def fiber_def
        duty_def making_def deleting_def closing_def split: if_splits)
qed (fact thread_step_inv)

end
