(* ===== verification/Win_Semaphores.thy ===== *)
theory Win_Semaphores
  imports Win_Events
begin

text \<open>
  Semaphore objects of \<open>src/src/winlibs.cpp\<close>: \<open>CreateSemaphoreW\<close>, \<open>ReleaseSemaphore\<close> and the semaphore
  branch of \<open>WaitForSingleObjectEx\<close>, for any number of threads that use one semaphore, which is a kernel
  object (\<open>/dev/ntsync\<close> answered) or a POSIX semaphore. Every \<open>ioctl\<close> and every call of the POSIX functions
  is a step; an \<open>ioctl\<close> can fail, which a wait answers with a timeout and a release with \<open>FALSE\<close>. At the end the values a handle can have: \<open>CreateFileA\<close>, \<open>CreateFileW\<close> and the first tests of
  \<open>CloseHandle\<close>.
\<close>

section \<open>State\<close>

text \<open>\<open>SEM_VALUE_MAX\<close> of the C library.\<close>

definition SEM_VALUE_MAX :: nat where "SEM_VALUE_MAX = 2147483647"

datatype semaphore_pc =
    Away u32                  \<comment> \<open>outside, with the last result\<close>
  | Sem_wait timeout          \<comment> \<open>in the loop over \<open>sem_trywait\<close>, \<open>sem_wait\<close> or \<open>sem_timedwait\<close>\<close>
  | Sem_ioctl timeout         \<comment> \<open>in \<open>NTSYNC_IOC_WAIT_ANY\<close>\<close>
  | Posting nat               \<comment> \<open>calls of \<open>sem_post\<close> left\<close>

text \<open>\<open>p_object\<close> is the count and the maximum of the kernel object behind \<open>ntsync_fd\<close>.\<close>

record semaphore =
  p_value :: nat
  p_object :: "(nat \<times> nat) option"
  p_pc :: "thread \<Rightarrow> semaphore_pc"

definition goto_sem :: "thread \<Rightarrow> semaphore_pc \<Rightarrow> semaphore \<Rightarrow> semaphore" where
  "goto_sem t p s = s\<lparr>p_pc := (p_pc s)(t := p)\<rparr>"

definition available :: "semaphore \<Rightarrow> nat" where
  "available s = (case p_object s of Some (c, m) \<Rightarrow> c | None \<Rightarrow> p_value s)"

section \<open>The code\<close>

definition FALSE :: u32 where "FALSE = 0"

text \<open>
  A \<open>LONG\<close> passed as \<open>unsigned int\<close>. \<open>made\<close>: the device could be opened and had no other reason to refuse
  \<open>NTSYNC_IOC_CREATE_SEM\<close> than a count above the maximum.
\<close>

definition as_unsigned :: "int \<Rightarrow> nat" where
  "as_unsigned n = unat (word_of_int n :: u32)"

definition CreateSemaphoreW :: "int \<Rightarrow> int \<Rightarrow> bool \<Rightarrow> semaphore option" where
  "CreateSemaphoreW initial maximum made =
     (let c = as_unsigned initial; m = as_unsigned maximum in
      if c > SEM_VALUE_MAX then None
      else Some \<lparr>p_value = c, p_object = (if made \<and> c \<le> m then Some (c, m) else None), p_pc = (\<lambda>_. Away 0)\<rparr>)"

definition wait_for_semaphore :: "thread \<Rightarrow> u32 \<Rightarrow> semaphore \<Rightarrow> semaphore" where
  "wait_for_semaphore t ms s = goto_sem t (if p_object s \<noteq> None then Sem_ioctl (timeout_of ms) else Sem_wait (timeout_of ms)) s"

text \<open>The previous count the call reports, and the state; the loop of the POSIX branch follows step by step.\<close>

definition ReleaseSemaphore :: "thread \<Rightarrow> int \<Rightarrow> semaphore \<Rightarrow> nat option \<times> semaphore" where
  "ReleaseSemaphore t n s =
     (case p_object s of
        Some (c, m) \<Rightarrow>
          if c + as_unsigned n > m then (None, goto_sem t (Away FALSE) s)
          else (Some c, goto_sem t (Away TRUE) (s\<lparr>p_object := Some (c + as_unsigned n, m)\<rparr>))
      | None \<Rightarrow> (Some (p_value s), goto_sem t (Posting (nat n)) s))"

definition post_one :: "thread \<Rightarrow> nat \<Rightarrow> semaphore \<Rightarrow> semaphore" where
  "post_one t n s = goto_sem t (Posting n) (if p_value s < SEM_VALUE_MAX then s\<lparr>p_value := p_value s + 1\<rparr> else s)"

definition take_posix :: "thread \<Rightarrow> semaphore \<Rightarrow> semaphore" where
  "take_posix t s = goto_sem t (Away STATUS_WAIT_0) (s\<lparr>p_value := p_value s - 1\<rparr>)"

definition take_ntsync :: "thread \<Rightarrow> nat \<Rightarrow> nat \<Rightarrow> semaphore \<Rightarrow> semaphore" where
  "take_ntsync t c m s = goto_sem t (Away STATUS_WAIT_0) (s\<lparr>p_object := Some (c - 1, m)\<rparr>)"

text \<open>Steps with what they do to the count: a permit taken, permits added.\<close>

datatype permit_event = Taken | Added nat

inductive semaphore_step :: "permit_event \<Rightarrow> semaphore \<Rightarrow> semaphore \<Rightarrow> bool" where
  sem_waits: "p_pc s t = Away r \<Longrightarrow> semaphore_step (Added 0) s (wait_for_semaphore t ms s)"
| sem_releases: "p_pc s t = Away r \<Longrightarrow> ReleaseSemaphore t n s = (x, s') \<Longrightarrow>
    semaphore_step (Added (if p_object s \<noteq> None \<and> x \<noteq> None then as_unsigned n else 0)) s s'"
| sem_posts: "p_pc s t = Posting (Suc n) \<Longrightarrow>
    semaphore_step (Added (if p_value s < SEM_VALUE_MAX then 1 else 0)) s (post_one t n s)"
| sem_posted: "p_pc s t = Posting 0 \<Longrightarrow> semaphore_step (Added 0) s (goto_sem t (Away TRUE) s)"
| sem_takes: "p_pc s t = Sem_wait w \<Longrightarrow> 0 < p_value s \<Longrightarrow> semaphore_step Taken s (take_posix t s)"
| sem_expires: "p_pc s t = Sem_wait w \<Longrightarrow> w \<noteq> Forever \<Longrightarrow> p_value s = 0 \<Longrightarrow>
    semaphore_step (Added 0) s (goto_sem t (Away STATUS_TIMEOUT) s)"
| sem_interrupted: "p_pc s t = Sem_wait w \<or> p_pc s t = Sem_ioctl w \<Longrightarrow> semaphore_step (Added 0) s s"
| sem_ntsync_takes: "p_pc s t = Sem_ioctl w \<Longrightarrow> p_object s = Some (c, m) \<Longrightarrow> 0 < c \<Longrightarrow> semaphore_step Taken s (take_ntsync t c m s)"
| sem_ntsync_expires: "p_pc s t = Sem_ioctl w \<Longrightarrow> w \<noteq> Forever \<Longrightarrow> p_object s = Some (0, m) \<Longrightarrow>
    semaphore_step (Added 0) s (goto_sem t (Away STATUS_TIMEOUT) s)"
| sem_ntsync_fails: "p_pc s t = Sem_ioctl w \<Longrightarrow> semaphore_step (Added 0) s (goto_sem t (Away STATUS_TIMEOUT) s)"
| sem_release_fails: "p_pc s t = Away r \<Longrightarrow> p_object s \<noteq> None \<Longrightarrow> semaphore_step (Added 0) s (goto_sem t (Away FALSE) s)"

inductive semaphore_run :: "semaphore \<Rightarrow> permit_event list \<Rightarrow> semaphore \<Rightarrow> bool" for s0 where
  run_start: "semaphore_run s0 [] s0"
| run_step: "semaphore_run s0 es s \<Longrightarrow> semaphore_step e s s' \<Longrightarrow> semaphore_run s0 (es @ [e]) s'"

fun permits :: "permit_event \<Rightarrow> int" where
  "permits Taken = -1"
| "permits (Added n) = int n"

section \<open>Permits are conserved\<close>

fun sem_place_ok :: "bool \<Rightarrow> semaphore_pc \<Rightarrow> bool" where
  "sem_place_ok k (Away r) = True"
| "sem_place_ok k (Sem_wait w) = (\<not> k)"
| "sem_place_ok k (Sem_ioctl w) = k"
| "sem_place_ok k (Posting n) = (\<not> k)"

definition semaphore_inv :: "nat \<Rightarrow> semaphore \<Rightarrow> bool" where
  "semaphore_inv m s \<longleftrightarrow> (\<forall>t. sem_place_ok (p_object s \<noteq> None) (p_pc s t)) \<and>
     (\<forall>c m'. p_object s = Some (c, m') \<longrightarrow> m' = m \<and> c \<le> m) \<and> (p_object s = None \<longrightarrow> p_value s \<le> SEM_VALUE_MAX)"

lemma goto_sem_simps [simp]:
  "p_value (goto_sem t p s) = p_value s" "p_object (goto_sem t p s) = p_object s"
  "p_pc (goto_sem t p s) u = (if u = t then p else p_pc s u)" "available (goto_sem t p s) = available s"
  by (simp_all add: goto_sem_def available_def split: option.splits)

lemmas semaphore_defs = wait_for_semaphore_def ReleaseSemaphore_def post_one_def take_posix_def take_ntsync_def

lemma semaphore_placeD: "semaphore_inv m s \<Longrightarrow> sem_place_ok (p_object s \<noteq> None) (p_pc s t)"
  by (simp add: semaphore_inv_def)

lemma semaphore_step_inv:
  assumes "semaphore_step e s s'" and "semaphore_inv m s"
  shows "semaphore_inv m s' \<and> int (available s') = int (available s) + permits e"
  using assms
proof (induction rule: semaphore_step.induct)
  case (sem_takes s t w)
  then show ?case
    using semaphore_placeD [of m s t] by (auto simp: take_posix_def semaphore_inv_def available_def split: option.splits)
next
  case (sem_posts s t n)
  then show ?case
    using semaphore_placeD [of m s t] by (auto simp: post_one_def semaphore_inv_def available_def split: option.splits)
qed (auto simp: semaphore_defs semaphore_inv_def available_def split: option.splits if_splits prod.splits)

lemma semaphore_run_inv:
  assumes "semaphore_run s0 es s" and "semaphore_inv m s0"
  shows "semaphore_inv m s \<and> int (available s) = int (available s0) + sum_list (map permits es)"
  using assms by (induction rule: semaphore_run.induct) (auto dest: semaphore_step_inv)

lemma created_inv:
  "CreateSemaphoreW initial maximum made = Some s \<Longrightarrow>
   semaphore_inv (as_unsigned maximum) s \<and> available s = as_unsigned initial"
  by (auto simp: CreateSemaphoreW_def semaphore_inv_def available_def Let_def split: if_splits)

text \<open>
  Without the kernel object a release past the maximum of the semaphore succeeds, and a negative count
  is no error either.
\<close>

lemma release_past_maximum:
  assumes "CreateSemaphoreW 1 1 False = Some s"
  shows "ReleaseSemaphore t 1 s = (Some 1, goto_sem t (Posting 1) s)" and "p_value (post_one t 0 s) = 2"
    and "ReleaseSemaphore t (-1) s = (Some 1, goto_sem t (Posting 0) s)"
  using assms
  by (auto simp: CreateSemaphoreW_def ReleaseSemaphore_def post_one_def as_unsigned_def SEM_VALUE_MAX_def Let_def)

section \<open>Values of handles\<close>

text \<open>What \<open>CloseHandle\<close> takes a value for, as \<open>(void *)-1\<close> is \<open>INVALID_HANDLE_VALUE\<close>.\<close>

datatype close_target = Refused | Descriptor int | Object

definition close_target_of :: "u64 \<Rightarrow> close_target" where
  "close_target_of h =
     (if h = 0 \<or> h = -1 then Refused
      else if h < 0x10000 then Descriptor (sint (ucast h :: u32) - 1)
      else Object)"

definition O_RDONLY :: u32 where "O_RDONLY = 0"
definition O_RDWR :: u32 where "O_RDWR = 2"
definition O_CREAT :: u32 where "O_CREAT = 0x40"

text \<open>\<open>system_open\<close> answers with the descriptor or fails; \<open>CreateFileW\<close> answers with a constant.\<close>

definition CreateFileA :: "(u32 \<Rightarrow> int option) \<Rightarrow> u32 \<Rightarrow> u32 \<Rightarrow> u64" where
  "CreateFileA system_open access disposition =
     (let flags = if access AND 0x40000000 \<noteq> 0 then O_RDWR else O_RDONLY;
          flags = if disposition = 2 then flags OR O_CREAT else flags;
          flags = if disposition = 4 then flags OR O_CREAT else flags in
      case system_open flags of Some n \<Rightarrow> word_of_int (n + 1) | None \<Rightarrow> -1)"

definition CreateFileW :: u64 where "CreateFileW = 1"

lemma small_words:
  assumes "0 \<le> x" and "x < 0x10000"
  shows "uint (word_of_int x :: u64) = x" and "sint (ucast (word_of_int x :: u64) :: u32) = x"
proof -
  have "x mod 18446744073709551616 = x" "take_bit 32 x = x" "signed_take_bit 31 x = x"
    using assms by (simp_all add: take_bit_int_eq_self signed_take_bit_int_eq_self)
  then show "uint (word_of_int x :: u64) = x" and "sint (ucast (word_of_int x :: u64) :: u32) = x"
    by (simp_all add: uint_word_of_int sint_uint unsigned_ucast_eq)
qed

text \<open>Descriptors below \<open>0xffff\<close> come back from \<open>CloseHandle\<close> as they went out.\<close>

lemma close_CreateFileA:
  assumes "\<And>flags. system_open flags = Some n" and "0 \<le> n" and "n < 0xffff"
  shows "close_target_of (CreateFileA system_open access disposition) = Descriptor n"
proof -
  define h where "h = (word_of_int (n + 1) :: u64)"
  have "uint h = n + 1" "sint (ucast h :: u32) = n + 1"
    unfolding h_def using assms(2,3) by (intro small_words; simp)+
  moreover have "h \<noteq> 0" "h \<noteq> -1" "h < 0x10000"
    using calculation(1) assms(2,3) by (auto simp: word_less_def unsigned_minus_1_eq_mask mask_eq_exp_minus_1)
  moreover have "CreateFileA system_open access disposition = h"
    by (simp only: CreateFileA_def Let_def assms(1) option.case h_def)
  ultimately show ?thesis
    by (simp add: close_target_of_def)
qed

text \<open>The answer of \<open>CreateFileW\<close> closes the standard input.\<close>

lemma close_CreateFileW: "close_target_of CreateFileW = Descriptor 0"
  by (simp add: close_target_of_def CreateFileW_def)

end
