(* ===== verification/Sync_Properties.thy ===== *)
theory Sync_Properties
  imports Win_Threads Win_Semaphores
begin

text \<open>
  The properties of events, semaphores and thread objects (\<open>src/src/winlibs.cpp\<close>), with runs that show
  their hypotheses hold.
\<close>

section \<open>Events\<close>

lemmas next_event = converse_rtranclp_into_rtranclp [where r = event_step]

text \<open>Thread 0 sleeps on an automatic event; thread 1 sets it.\<close>

definition sample_sleeping :: event where
  "sample_sleeping = \<lparr>e_manual = False, e_signaled = False, e_object = None, e_errors = 0, e_pc = (\<lambda>_. Outside 0)(0 := Sleeping Forever)\<rparr>"

definition sample_set :: event where
  "sample_set = \<lparr>e_manual = False, e_signaled = True, e_object = None, e_errors = 0,
     e_pc = (\<lambda>_. Outside 0)(0 := Testing Forever False, 1 := Outside TRUE, 2 := Sleeping Forever)\<rparr>"

lemma sample_sleeping_reachable: "event_step\<^sup>*\<^sup>* (CreateEventW False False False) sample_sleeping"
proof -
  let ?s0 = "CreateEventW False False False"
  let ?s1 = "wait_for_event 0 0xffffffff ?s0"
  let ?s2 = "enter_event 0 Forever ?s1"
  have 1: "event_step ?s0 ?s1"
    by (rule call_wait [of _ _ 0]) (simp add: CreateEventW_def)
  have 2: "event_step ?s1 ?s2"
    by (rule entering) (simp add: wait_for_event_def CreateEventW_def timeout_of_def)
  have "?s2 = sample_sleeping"
    by (simp add: enter_event_def test_event_def wait_for_event_def CreateEventW_def timeout_of_def sample_sleeping_def
        goto_event_def fun_eq_iff)
  then show ?thesis
    using 1 2 by (auto intro: next_event)
qed

lemma sample_set_reachable: "event_step\<^sup>*\<^sup>* sample_sleeping sample_set"
proof -
  let ?s1 = "wait_for_event 2 0xffffffff sample_sleeping"
  let ?s2 = "enter_event 2 Forever ?s1"
  let ?s3 = "SetEvent 1 {0} ?s2"
  note defs = sample_sleeping_def wait_for_event_def timeout_of_def enter_event_def test_event_def
  have 1: "event_step sample_sleeping ?s1"
    by (rule call_wait [of _ _ 0]) (simp add: sample_sleeping_def)
  have 2: "event_step ?s1 ?s2"
    by (rule entering) (simp add: defs)
  have 3: "event_step ?s2 ?s3"
    by (rule call_set [of _ _ 0]) (auto simp: defs woken_def)
  have "?s3 = sample_set"
    by (simp add: SetEvent_def set_under_mutex_def wake_sleepers_def goto_event_def defs sample_set_def fun_eq_iff)
  then show ?thesis
    using 1 2 3 by (auto intro: next_event)
qed

text \<open>Only the device makes errors.\<close>

lemma spec_errors:
  "event_spec_step\<^sup>*\<^sup>* a b \<Longrightarrow> a_device b = a_device a \<and> (a_device a \<or> a_errors b = a_errors a)"
proof (induction rule: rtranclp_induct)
  case (step b c)
  from step(2,3) show ?case
    by (induction rule: event_spec_step.induct) auto
qed simp

text \<open>
  C37: An event, in the kernel or under its mutex, implements this contract whatever the order of the calls
  and whatever the \<open>ioctl\<close>s answer: a set raises it and a reset lowers it; a wait succeeds only while it is
  up and takes an automatic event down; a wait times out with a limit while the event is down. There is
  one more way for a wait to end, and only for an event on the device: its \<open>ioctl\<close> fails, and the caller
  gets a timeout with a report on the standard error stream, whatever its limit and the event. An
  event under its mutex never ends a wait that way.
\<close>

theorem event_refines_windows:
  assumes "event_step\<^sup>*\<^sup>* (CreateEventW manual initial made) s"
  shows "event_spec_step\<^sup>*\<^sup>* \<lparr>a_manual = manual, a_up = initial, a_device = made, a_errors = 0, a_wait = (\<lambda>_. Done 0)\<rparr> (abs_event s) \<and>
    (e_errors s = 0 \<or> made)"
proof -
  let ?a = "\<lparr>a_manual = manual, a_up = initial, a_device = made, a_errors = 0, a_wait = (\<lambda>_. Done 0)\<rparr>"
  have "abs_event (CreateEventW manual initial made) = ?a"
    by (simp add: abs_event_def CreateEventW_def in_kernel_def)
  then have run: "event_spec_step\<^sup>*\<^sup>* ?a (abs_event s)"
    using events.runs_implement [OF assms] by auto
  then have "a_errors (abs_event s) = 0 \<or> made"
    using spec_errors by fastforce
  then show ?thesis
    using run by simp
qed

theorem event_refines_windows_witness:
  "event_spec_step\<^sup>*\<^sup>* \<lparr>a_manual = False, a_up = False, a_device = False, a_errors = 0, a_wait = (\<lambda>_. Done 0)\<rparr>
     \<lparr>a_manual = False, a_up = True, a_device = False, a_errors = 0, a_wait = (\<lambda>_. Done 0)(0 := Pending Forever, 1 := Done TRUE, 2 := Pending Forever)\<rparr>"
proof -
  have "abs_event sample_set = \<lparr>a_manual = False, a_up = True, a_device = False, a_errors = 0,
      a_wait = (\<lambda>_. Done 0)(0 := Pending Forever, 1 := Done TRUE, 2 := Pending Forever)\<rparr>"
    by (simp add: abs_event_def in_kernel_def sample_set_def fun_eq_iff)
  then show ?thesis
    using event_refines_windows [OF rtranclp_trans [OF sample_sleeping_reachable sample_set_reachable]] by simp
qed

text \<open>
  No wait sleeps through a set: in every reachable state with the flag up a thread asleep on the
  event means that the event is automatic and that a woken thread is about to look at the flag.
\<close>

theorem event_wakes_waiter:
  assumes "event_step\<^sup>*\<^sup>* (CreateEventW manual initial made) s" and "e_signaled s" and "e_pc s t = Sleeping w"
  shows "\<not> e_manual s \<and> (\<exists>u w x. e_pc s u = Testing w x)"
proof -
  have "event_inv s"
    using events.reachable_inv [OF assms(1)] by blast
  then show ?thesis
    using event_invD(2,3) assms(2,3) by blast
qed

theorem event_wakes_waiter_witness: "\<exists>u w x. e_pc sample_set u = Testing w x"
  using event_wakes_waiter [OF rtranclp_trans [OF sample_sleeping_reachable sample_set_reachable], of 2 Forever]
  by (simp add: sample_set_def)

section \<open>Semaphores\<close>

text \<open>
  Permits are conserved: at every moment the permits left and the waits that succeeded add up to the
  initial count and the permits added, on both backends; the kernel object never holds more than its maximum.
\<close>

theorem semaphore_permits:
  assumes "CreateSemaphoreW initial maximum made = Some s0" and "semaphore_run s0 es s"
  shows "int (available s) = int (as_unsigned initial) + sum_list (map permits es) \<and>
    (\<forall>c m. p_object s = Some (c, m) \<longrightarrow> m = as_unsigned maximum \<and> c \<le> m)"
proof -
  have "semaphore_inv (as_unsigned maximum) s \<and> int (available s) = int (available s0) + sum_list (map permits es)"
    using assms created_inv semaphore_run_inv by blast
  then show ?thesis
    using created_inv [OF assms(1)] by (auto simp: semaphore_inv_def)
qed

text \<open>A kernel semaphore with two of three permits: one wait, then a release of two.\<close>

definition sample_semaphore :: semaphore where
  "sample_semaphore = \<lparr>p_value = 2, p_object = Some (2, 3), p_pc = (\<lambda>_. Away 0)\<rparr>"

lemma sample_semaphore_run:
  "semaphore_run sample_semaphore [Added 0, Taken, Added 2]
     (sample_semaphore\<lparr>p_object := Some (3, 3), p_pc := (\<lambda>_. Away 0)(4 := Away STATUS_WAIT_0, 5 := Away TRUE)\<rparr>)"
proof -
  let ?s1 = "wait_for_semaphore 4 7 sample_semaphore"
  let ?s2 = "take_ntsync 4 2 3 ?s1"
  let ?s3 = "snd (ReleaseSemaphore 5 2 ?s2)"
  note defs = sample_semaphore_def wait_for_semaphore_def take_ntsync_def
  have unsigned: "as_unsigned 2 = 2"
    by (simp add: as_unsigned_def)
  have 1: "semaphore_step (Added 0) sample_semaphore ?s1"
    by (rule sem_waits [of _ _ 0]) (simp add: defs)
  have 2: "semaphore_step Taken ?s1 ?s2"
    by (rule sem_ntsync_takes [where w = Bounded]) (simp_all add: defs timeout_of_def)
  have "semaphore_step (Added (if p_object ?s2 \<noteq> None \<and> Some (1 :: nat) \<noteq> None then as_unsigned 2 else 0)) ?s2 ?s3"
    by (rule sem_releases [where t = 5 and r = 0 and n = 2]) (simp_all add: defs ReleaseSemaphore_def unsigned)
  then have 3: "semaphore_step (Added 2) ?s2 ?s3"
    by (simp add: unsigned defs)
  have "semaphore_run sample_semaphore ((([] @ [Added 0]) @ [Taken]) @ [Added 2]) ?s3"
    by (intro run_step [OF run_step [OF run_step [OF run_start 1] 2] 3])
  moreover have "?s3 = sample_semaphore\<lparr>p_object := Some (3, 3), p_pc := (\<lambda>_. Away 0)(4 := Away STATUS_WAIT_0, 5 := Away TRUE)\<rparr>"
    by (simp add: defs ReleaseSemaphore_def unsigned goto_sem_def fun_eq_iff)
  ultimately show ?thesis
    by simp
qed

theorem semaphore_permits_witness:
  "int (available (sample_semaphore\<lparr>p_object := Some (3, 3), p_pc := (\<lambda>_. Away 0)(4 := Away STATUS_WAIT_0, 5 := Away TRUE)\<rparr>)) =
   2 + sum_list (map permits [Added 0, Taken, Added 2])"
proof -
  have "CreateSemaphoreW 2 3 True = Some sample_semaphore"
    by (simp add: CreateSemaphoreW_def as_unsigned_def SEM_VALUE_MAX_def sample_semaphore_def)
  from semaphore_permits [OF this sample_semaphore_run] show ?thesis
    by (simp add: as_unsigned_def)
qed

section \<open>Threads\<close>

lemmas next_thread = converse_rtranclp_into_rtranclp [where r = thread_step]

text \<open>Thread 0 has created thread 1, whose object is at 16 and whose handle is 32; thread 1 runs.\<close>

definition sample_data :: thread_handle_data where
  "sample_data = \<lparr>h_id = 7, h_code = STILL_ACTIVE, h_finished = False, h_closed = False\<rparr>"

definition sample_threads :: threads where
  "sample_threads = \<lparr>y_data = [16 \<mapsto> sample_data], y_handle = [32 \<mapsto> 16], y_info = [1 \<mapsto> 16],
     y_pc = (\<lambda>_. Unborn)(0 := Running (Made_handle (Some 32)), 1 := Running Nothing), y_fault = False\<rparr>"

lemma sample_threads_reachable: "thread_step\<^sup>*\<^sup>* (initial_threads {0}) sample_threads"
proof -
  let ?s0 = "initial_threads {0}"
  let ?s1 = "CreateThread 0 (Some (16, 1)) False ?s0"
  let ?s2 = "make_handle 0 16 32 ?s1"
  let ?s3 = "thread_entry 1 16 7 ?s2"
  note defs = initial_threads_def CreateThread_def make_handle_def
  have 1: "thread_step ?s0 ?s1"
    by (rule create [where r = Nothing]) (simp_all add: initial_threads_def)
  have 2: "thread_step ?s1 ?s2"
    by (rule makes) (simp_all add: defs)
  have 3: "thread_step ?s2 ?s3"
    by (rule begins) (simp_all add: defs)
  have "?s3 = sample_threads"
    by (simp add: defs thread_entry_def with_data_def put_data_def move_def broadcast_to_def sample_threads_def
        sample_data_def fun_eq_iff)
  then show ?thesis
    using 1 2 3 by (auto intro: next_thread)
qed

text \<open>The handle is closed while the thread runs, then the thread ends: it deletes the object.\<close>

definition sample_ending :: threads where
  "sample_ending = \<lparr>y_data = [16 \<mapsto> sample_data\<lparr>h_code := 5, h_finished := True, h_closed := True\<rparr>],
     y_handle = [32 \<mapsto> 16], y_info = Map.empty,
     y_pc = (\<lambda>_. Unborn)(0 := Closing 32, 1 := Deleting_own 16), y_fault = False\<rparr>"

lemma sample_ending_reachable: "thread_step\<^sup>*\<^sup>* sample_threads sample_ending"
proof -
  let ?s1 = "CloseHandle 0 32 sample_threads"
  let ?s2 = "crt_endthreadex 1 5 ?s1"
  let ?s3 = "finish_thread 1 16 5 ?s2"
  note defs = sample_threads_def CloseHandle_def with_data_def put_data_def move_def sample_data_def crt_endthreadex_def
  have 1: "thread_step sample_threads ?s1"
    by (rule closes_handle [where r = "Made_handle (Some 32)"])
      (auto simp: sample_threads_def idle_handle_def open_handle_def)
  have 2: "thread_step ?s1 ?s2"
    by (rule ends [where r = Nothing]) (simp add: defs)
  have 3: "thread_step ?s2 ?s3"
    by (rule finishes) (simp add: defs)
  have "?s3 = sample_ending"
    by (simp add: defs finish_thread_def broadcast_to_def sample_ending_def fun_eq_iff)
  then show ?thesis
    using 1 2 3 by (auto intro: next_thread)
qed

text \<open>Thread 0 waits for thread 1.\<close>

definition sample_joining :: threads where
  "sample_joining = sample_threads\<lparr>y_pc := (\<lambda>_. Unborn)(0 := Join_asleep 16 32 Forever, 1 := Running Nothing)\<rparr>"

lemma sample_joining_reachable: "thread_step\<^sup>*\<^sup>* sample_threads sample_joining"
proof -
  let ?s1 = "wait_for_thread 0 32 0xffffffff sample_threads"
  let ?s2 = "enter_thread 0 16 32 Forever ?s1"
  note defs = sample_threads_def wait_for_thread_def timeout_of_def move_def
  have 1: "thread_step sample_threads ?s1"
    by (rule waits [where r = "Made_handle (Some 32)"]) (auto simp: sample_threads_def open_handle_def)
  have 2: "thread_step ?s1 ?s2"
    by (rule enters) (simp add: defs)
  have "?s2 = sample_joining"
    by (simp add: defs enter_thread_def test_thread_def with_data_def sample_data_def sample_joining_def fun_eq_iff)
  then show ?thesis
    using 1 2 by (auto intro: next_thread)
qed

text \<open>
  C38: The object a thread shares with its handle is deleted exactly once: no call ever touches a deleted
  object, an object is about to be deleted exactly when its thread has finished and its handle is closed,
  and then by one thread; an open handle, and a thread that has not finished, keep it alive.
\<close>

theorem thread_object_deleted_once:
  assumes "thread_step\<^sup>*\<^sup>* (initial_threads T) s"
  shows "\<not> y_fault s \<and>
    ((\<exists>d. y_data s a = Some d \<and> h_finished d \<and> h_closed d) \<longleftrightarrow> (\<exists>t. deleting s t = Some a)) \<and>
    (\<forall>t u. deleting s t = Some a \<and> deleting s u = Some a \<longrightarrow> t = u) \<and>
    (open_handle h s \<and> y_handle s h = Some a \<longrightarrow> (\<exists>d. y_data s a = Some d \<and> \<not> h_closed d)) \<and>
    (duty s t = Some a \<longrightarrow> (\<exists>d. y_data s a = Some d \<and> \<not> h_finished d))"
proof -
  have inv: "threads_inv s"
    using thread_objects.reachable_inv [OF assms] by blast
  have "exactly (doomed s a) (fiber (deleting s) a)"
    by (rule threads_invD(4) [OF inv])
  then have "(doomed s a \<longleftrightarrow> fiber (deleting s) a \<noteq> {}) \<and> (\<forall>t u. t \<in> fiber (deleting s) a \<and> u \<in> fiber (deleting s) a \<longrightarrow> t = u)"
    by (auto simp: exactly_def split: if_splits)
  then show ?thesis
    using threads_invD(1) [OF inv] role_data(1) [OF inv, of t a] role_data(3) [OF inv, of h a] open_handle_mem [of h s a]
    by (auto simp: doomed_def fiber_def)
qed

theorem thread_object_deleted_once_witness: "\<exists>t. deleting sample_ending t = Some 16"
  using thread_object_deleted_once [OF rtranclp_trans [OF sample_threads_reachable sample_ending_reachable], of 16]
  by (simp add: sample_ending_def)

text \<open>
  A thread that sleeps in \<open>WaitForSingleObjectEx\<close> on a thread object waits for one that still runs
  towards its end, so the broadcast of \<open>finish_thread\<close> is still to come; and \<open>CreateThread\<close> sleeps only
  until the new thread has written its id.
\<close>

theorem joins_are_woken:
  assumes "thread_step\<^sup>*\<^sup>* (initial_threads T) s"
  shows "(y_pc s t = Join_asleep a h w \<longrightarrow> (\<exists>u d. duty s u = Some a \<and> y_data s a = Some d \<and> \<not> h_finished d)) \<and>
    (y_pc s t = Creating_asleep a \<longrightarrow> (\<exists>d. y_data s a = Some d \<and> h_id d = 0))"
proof -
  have inv: "threads_inv s"
    using thread_objects.reachable_inv [OF assms] by blast
  have "\<exists>u. duty s u = Some a" if "active s a"
    using threads_invD(2) [OF inv, of a] that by (auto simp: exactly_def fiber_def)
  then show ?thesis
    using threads_invD(8) [OF inv, of t] role_data(2) [OF inv, of t a]
    by (auto simp: active_def unnamed_def making_def)
qed

theorem joins_are_woken_witness: "\<exists>u d. duty sample_joining u = Some 16 \<and> y_data sample_joining 16 = Some d \<and> \<not> h_finished d"
  using joins_are_woken [OF rtranclp_trans [OF sample_threads_reachable sample_joining_reachable], of 0 16 32 Forever]
  by (simp add: sample_joining_def)

end
