(* ===== verification/Win_Format.thy ===== *)
theory Win_Format
  imports Win_Strings
begin

text \<open>
  The formatted output of \<open>src/src/winlibs.cpp\<close>: \<open>format_from_ms_va_list\<close> with \<open>append_output_char\<close>,
  \<open>append_output_format\<close> and \<open>read_ms_va_arg\<close>. It takes a Windows argument list apart, directive by
  directive, and hands each value to the \<open>snprintf\<close> of the C library, which is a parameter: the text of
  one conversion, or a failure that leaves what it likes in the space it was given. The loop is written
  over the two operations that append, so that the same loop over an unbounded text says what the full
  output is.
\<close>

section \<open>Directives\<close>

definition byte :: "char \<Rightarrow> u8" where "byte c = of_char c"

definition flag_chars :: string where "flag_chars = ''-+ #0'' @ [CHR 0x27]"

definition is_digit :: "char \<Rightarrow> bool" where "is_digit c \<longleftrightarrow> c \<in> set ''0123456789''"

record directive =
  d_flags :: string
  d_width :: string
  d_width_from_args :: bool
  d_precision :: string
  d_precision_from_args :: bool
  d_length :: string

text \<open>A star or digits; whether it was a star, the text, and what follows.\<close>

definition scan_count :: "string \<Rightarrow> bool \<times> string \<times> string" where
  "scan_count s =
     (if take 1 s = ''*'' then (True, ''*'', tl s) else (False, takeWhile is_digit s, dropWhile is_digit s))"

definition scan_precision :: "string \<Rightarrow> bool \<times> string \<times> string" where
  "scan_precision s =
     (if take 1 s = ''.'' then (case scan_count (tl s) of (star, text, rest) \<Rightarrow> (star, ''.'' @ text, rest))
      else (False, '''', s))"

definition scan_length :: "string \<Rightarrow> string \<times> string" where
  "scan_length s =
     (if take 2 s = ''hh'' then (''hh'', drop 2 s)
      else if take 2 s = ''ll'' then (''ll'', drop 2 s)
      else if take 3 s = ''I64'' then (''I64'', drop 3 s)
      else if take 3 s = ''I32'' then (''I32'', drop 3 s)
      else case s of
          [] \<Rightarrow> ('''', s)
        | c # r \<Rightarrow> if c \<in> set ''hljztLIw'' then ([c], r) else ('''', s))"

text \<open>The directive behind the percent sign, and the rest from its conversion character on.\<close>

definition scan_directive :: "string \<Rightarrow> directive \<times> string" where
  "scan_directive s =
     (let flags = takeWhile (\<lambda>c. c \<in> set flag_chars) s; s = dropWhile (\<lambda>c. c \<in> set flag_chars) s in
      case scan_count s of (wstar, width, s) \<Rightarrow>
      case scan_precision s of (pstar, precision, s) \<Rightarrow>
      case scan_length s of (len, s) \<Rightarrow>
        (\<lparr>d_flags = flags, d_width = width, d_width_from_args = wstar, d_precision = precision,
          d_precision_from_args = pstar, d_length = len\<rparr>, s))"

section \<open>Values\<close>

definition integer_bits :: "string \<Rightarrow> nat" where
  "integer_bits len =
     (if len = ''hh'' then 8
      else if len = ''h'' then 16
      else if len \<in> {''ll'', ''I64'', ''I'', ''j'', ''z'', ''t'', ''L''} then 64
      else 32)"

text \<open>The slot cut down to the width of the argument.\<close>

definition narrow_slot :: "nat \<Rightarrow> bool \<Rightarrow> u64 \<Rightarrow> u64" where
  "narrow_slot bits is_signed slot =
     (if bits < 64 then
        let mask = push_bit bits 1 - 1; negative = is_signed \<and> slot AND push_bit (bits - 1) 1 \<noteq> 0 in
        if negative then slot OR NOT mask else slot AND mask
      else slot)"

datatype conversion =
    Signed "64 word"          \<comment> \<open>\<open>long long\<close>\<close>
  | Unsigned u64              \<comment> \<open>\<open>unsigned long long\<close>\<close>
  | Pointer u64
  | Character u32             \<comment> \<open>\<open>int\<close>\<close>
  | Text bytes                \<comment> \<open>\<open>const char *\<close>\<close>
  | Double u64

datatype printed = Printed bytes | Failed bytes

text \<open>What pointers among the arguments point at; stores of \<open>%n\<close> are address, size and value.\<close>

record argument_memory =
  a_chars :: "u64 \<Rightarrow> bytes"
  a_wide :: "u64 \<Rightarrow> wide option"

type_synonym stores = "(u64 \<times> nat \<times> nat) list"

definition null_text :: bytes where "null_text = map byte ''(null)''"

text \<open>\<open>static_cast<int>\<close> of a slot.\<close>

definition slot_int :: "u64 \<Rightarrow> int" where "slot_int slot = sint (ucast slot :: u32)"

definition dynamics :: "directive \<Rightarrow> (nat \<Rightarrow> u64) \<Rightarrow> nat \<Rightarrow> int list" where
  "dynamics d args i =
     (if d_width_from_args d then [slot_int (args i)] else []) @
     (if d_precision_from_args d then [slot_int (args (i + of_bool (d_width_from_args d)))] else [])"

definition stored_size :: "string \<Rightarrow> nat" where
  "stored_size len = (if len = ''hh'' then 1 else if len = ''h'' then 2 else if len \<in> {''ll'', ''I64'', ''z'', ''t''} then 8 else 4)"

section \<open>The loop\<close>

text \<open>\<open>put\<close> appends a character and \<open>conv\<close> a conversion to the output; \<open>len\<close> is the count \<open>written\<close>.\<close>

fun put_all :: "(u8 \<Rightarrow> 's \<Rightarrow> fault + 's) \<Rightarrow> bytes \<Rightarrow> 's \<Rightarrow> fault + 's" where
  "put_all put [] st = Inr st"
| "put_all put (c # cs) st = bindE (put c st) (put_all put cs)"

definition convert_directive ::
    "(u8 \<Rightarrow> 's \<Rightarrow> fault + 's) \<Rightarrow> (string \<Rightarrow> int list \<Rightarrow> conversion \<Rightarrow> 's \<Rightarrow> fault + 's) \<Rightarrow> ('s \<Rightarrow> nat) \<Rightarrow>
     argument_memory \<Rightarrow> (nat \<Rightarrow> u64) \<Rightarrow> directive \<Rightarrow> char \<Rightarrow> string \<Rightarrow> nat \<Rightarrow> 's \<Rightarrow> stores \<Rightarrow> fault + nat \<times> 's \<times> stores" where
  "convert_directive put conv len mem args d spec literal i st stores =
     (let dyn = dynamics d args i; i = i + length dyn; slot = args i;
          native = ''%'' @ d_flags d @ d_width d @ d_precision d;
          finish = (\<lambda>st. Inr (i + 1, st, stores)) in
      if spec \<in> set ''di'' then
        bindE (conv (native @ ''ll'' @ [spec]) dyn (Signed (narrow_slot (integer_bits (d_length d)) True slot)) st) finish
      else if spec \<in> set ''uoxX'' then
        bindE (conv (native @ ''ll'' @ [spec]) dyn (Unsigned (narrow_slot (integer_bits (d_length d)) False slot)) st) finish
      else if spec = CHR ''p'' then bindE (conv (native @ ''p'') dyn (Pointer slot) st) finish
      else if spec = CHR ''c'' then
        (if d_length d = ''l''
         then bindE (narrow_utf16_string (Some [ucast slot, ucast (drop_bit 16 slot)])) (\<lambda>text.
              bindE (conv (native @ ''s'') dyn (Text text) st) finish)
         else bindE (conv (native @ ''c'') dyn (Character (ucast slot)) st) finish)
      else if spec = CHR ''s'' then
        bindE (if d_length d \<in> {''l'', ''w''} then narrow_utf16_string (a_wide mem slot)
               else Inr (if slot = 0 then null_text else a_chars mem slot)) (\<lambda>text.
        bindE (conv (native @ ''s'') dyn (Text text) st) finish)
      else if spec \<in> set ''aAeEfFgG'' then bindE (conv (native @ [spec]) dyn (Double slot) st) finish
      else if spec = CHR ''n'' then
        Inr (i + 1, st, if slot = 0 then stores else stores @ [(slot, stored_size (d_length d), len st mod 256 ^ stored_size (d_length d))])
      else bindE (put_all put (map byte literal) st) (\<lambda>st. Inr (i, st, stores)))"

lemma length_scan_count: "scan_count s = (b, t, r) \<Longrightarrow> length r \<le> length s"
  by (auto simp: scan_count_def length_dropWhile_le split: if_splits)

lemma length_scan_directive: "length (snd (scan_directive s)) \<le> length s"
proof -
  let ?s = "dropWhile (\<lambda>c. c \<in> set flag_chars) s"
  obtain b w r where w: "scan_count ?s = (b, w, r)"
    by (cases "scan_count ?s")
  obtain b' p r' where p: "scan_precision r = (b', p, r')"
    by (cases "scan_precision r")
  have "length r \<le> length s"
    using length_scan_count [OF w] length_dropWhile_le [of "\<lambda>c. c \<in> set flag_chars" s] by linarith
  moreover have "length r' \<le> length r"
    using p length_scan_count [of "tl r"] by (fastforce simp: scan_precision_def split: if_splits prod.splits)
  moreover have "length (snd (scan_length r')) \<le> length r'"
    by (auto simp: scan_length_def split: list.splits)
  ultimately show ?thesis
    using w p by (auto simp: scan_directive_def Let_def split: prod.splits)
qed

function format_loop ::
    "(u8 \<Rightarrow> 's \<Rightarrow> fault + 's) \<Rightarrow> (string \<Rightarrow> int list \<Rightarrow> conversion \<Rightarrow> 's \<Rightarrow> fault + 's) \<Rightarrow> ('s \<Rightarrow> nat) \<Rightarrow>
     argument_memory \<Rightarrow> (nat \<Rightarrow> u64) \<Rightarrow> string \<Rightarrow> nat \<Rightarrow> 's \<Rightarrow> stores \<Rightarrow> fault + 's \<times> stores" where
  "format_loop put conv len mem args [] i st stores = Inr (st, stores)"
| "format_loop put conv len mem args (c # s) i st stores =
     (if c \<noteq> CHR ''%'' then bindE (put (byte c) st) (\<lambda>st. format_loop put conv len mem args s i st stores)
      else if take 1 s = ''%'' then bindE (put (byte c) st) (\<lambda>st. format_loop put conv len mem args (tl s) i st stores)
      else let d = fst (scan_directive s); r = snd (scan_directive s) in
        if r = [] then bindE (put_all put (map byte (c # s)) st) (\<lambda>st. Inr (st, stores))
        else bindE (convert_directive put conv len mem args d (hd r) (c # take (length s - length (tl r)) s) i st stores)
          (\<lambda>(i, st, stores). format_loop put conv len mem args (tl r) i st stores))"
  by pat_completeness auto
termination
proof (relation "measure (\<lambda>(put, conv, len, mem, args, s, i, st, stores). length s)", goal_cases)
  case (4 put conv len mem args c s i st stores d r i' st' stores')
  then show ?case
    using length_scan_directive [of s] by (simp add: le_imp_less_Suc)
qed simp_all

declare format_loop.simps [simp del]

section \<open>The two sinks\<close>

text \<open>
  The buffer of the caller with \<open>written\<close>. A buffer that is absent although its size is not zero, and an
  index outside the buffer, are out of bounds.
\<close>

record sink =
  k_buffer :: "bytes option"
  k_written :: nat

definition store_char :: "nat \<Rightarrow> u8 \<Rightarrow> bytes option \<Rightarrow> fault + bytes option" where
  "store_char i c buffer =
     (case buffer of None \<Rightarrow> Inl OutOfBounds | Some b \<Rightarrow> if i < length b then Inr (Some (b[i := c])) else Inl OutOfBounds)"

definition append_output_char :: "nat \<Rightarrow> u8 \<Rightarrow> sink \<Rightarrow> fault + sink" where
  "append_output_char n c k =
     bindE (if n \<noteq> 0 \<and> k_written k + 1 < n then store_char (k_written k) c (k_buffer k) else Inr (k_buffer k)) (\<lambda>b.
     let w = k_written k + 1 in
     bindE (if n \<noteq> 0 then store_char (if w < n then w else n - 1) 0 b else Inr b) (\<lambda>b.
     Inr \<lparr>k_buffer = b, k_written = w\<rparr>))"

text \<open>\<open>snprintf(dest, available, ...)\<close>: at most \<open>available\<close> bytes are written from \<open>w\<close> on, a text with its terminator.\<close>

definition print_into :: "nat \<Rightarrow> nat \<Rightarrow> bytes \<Rightarrow> bytes option \<Rightarrow> fault + bytes option" where
  "print_into w available text buffer =
     (if available = 0 then Inr buffer
      else case buffer of
        None \<Rightarrow> Inl OutOfBounds
      | Some b \<Rightarrow>
        if w + length text \<le> length b then Inr (Some (take w b @ text @ drop (w + length text) b)) else Inl OutOfBounds)"

definition append_output_format ::
    "(string \<Rightarrow> int list \<Rightarrow> conversion \<Rightarrow> printed) \<Rightarrow> nat \<Rightarrow> string \<Rightarrow> int list \<Rightarrow> conversion \<Rightarrow> sink \<Rightarrow> fault + sink" where
  "append_output_format snprintf n f dyn v k =
     (let w = k_written k; available = (if n \<noteq> 0 \<and> w < n then n - w else 0) in
      case snprintf f dyn v of
        Failed junk \<Rightarrow>
          bindE (print_into w available (take available junk) (k_buffer k)) (\<lambda>b. Inr (k\<lparr>k_buffer := b\<rparr>))
      | Printed text \<Rightarrow>
          bindE (print_into w available (take (available - 1) text @ [0]) (k_buffer k)) (\<lambda>b.
          let w = w + length text in
          bindE (if n \<noteq> 0 then store_char (if w < n then w else n - 1) 0 b else Inr b) (\<lambda>b.
          Inr \<lparr>k_buffer = b, k_written = w\<rparr>)))"

definition format_from_ms_va_list ::
    "(string \<Rightarrow> int list \<Rightarrow> conversion \<Rightarrow> printed) \<Rightarrow> argument_memory \<Rightarrow> bytes option \<Rightarrow> nat \<Rightarrow> string option \<Rightarrow>
     (nat \<Rightarrow> u64) \<Rightarrow> fault + int \<times> bytes option \<times> stores" where
  "format_from_ms_va_list snprintf mem buffer n format args =
     (case format of
        None \<Rightarrow> Inr (-1, buffer, [])
      | Some s \<Rightarrow>
        bindE (if n \<noteq> 0 \<and> buffer \<noteq> None then store_char 0 0 buffer else Inr buffer) (\<lambda>b.
        bindE (format_loop (append_output_char n) (append_output_format snprintf n) k_written mem args s 0
                 \<lparr>k_buffer = b, k_written = 0\<rparr> []) (\<lambda>(k, stores).
        Inr (sint (of_nat (k_written k) :: u32), k_buffer k, stores))))"

text \<open>The full output: the same loop over a text without an end.\<close>

definition full_char :: "u8 \<Rightarrow> bytes \<Rightarrow> fault + bytes" where
  "full_char c out = Inr (out @ [c])"

definition full_format :: "(string \<Rightarrow> int list \<Rightarrow> conversion \<Rightarrow> printed) \<Rightarrow> string \<Rightarrow> int list \<Rightarrow> conversion \<Rightarrow> bytes \<Rightarrow> fault + bytes" where
  "full_format snprintf f dyn v out = Inr (case snprintf f dyn v of Printed text \<Rightarrow> out @ text | Failed junk \<Rightarrow> out)"

definition full_output ::
    "(string \<Rightarrow> int list \<Rightarrow> conversion \<Rightarrow> printed) \<Rightarrow> argument_memory \<Rightarrow> string \<Rightarrow> (nat \<Rightarrow> u64) \<Rightarrow> fault + bytes \<times> stores" where
  "full_output snprintf mem s args = format_loop full_char (full_format snprintf) length mem args s 0 [] []"

section \<open>One loop, two sinks\<close>

text \<open>Two sinks whose operations keep them related, and that agree on the count, stay related through the loop.\<close>

definition same_result :: "('s \<Rightarrow> 't \<Rightarrow> bool) \<Rightarrow> fault + 's \<Rightarrow> fault + 't \<Rightarrow> bool" where
  "same_result R x y \<longleftrightarrow> rel_sum (=) R x y"

locale sink_pair =
  fixes put :: "u8 \<Rightarrow> 's \<Rightarrow> fault + 's" and conv :: "string \<Rightarrow> int list \<Rightarrow> conversion \<Rightarrow> 's \<Rightarrow> fault + 's" and len :: "'s \<Rightarrow> nat"
    and put' :: "u8 \<Rightarrow> 't \<Rightarrow> fault + 't" and conv' :: "string \<Rightarrow> int list \<Rightarrow> conversion \<Rightarrow> 't \<Rightarrow> fault + 't" and len' :: "'t \<Rightarrow> nat"
    and R :: "'s \<Rightarrow> 't \<Rightarrow> bool"
  assumes put_related: "R a b \<Longrightarrow> rel_sum (=) R (put c a) (put' c b)"
    and conv_related: "R a b \<Longrightarrow> rel_sum (=) R (conv f dyn v a) (conv' f dyn v b)"
    and len_related: "R a b \<Longrightarrow> len a = len' b"
begin

lemma bind_related:
  assumes "rel_sum (=) R x y" and "\<And>a b. R a b \<Longrightarrow> rel_sum (=) Q (f a) (g b)"
  shows "rel_sum (=) Q (bindE x f) (bindE y g)"
  using assms by (cases x; cases y) auto

lemma if_related: "(c \<Longrightarrow> rel_sum (=) Q x y) \<Longrightarrow> (\<not> c \<Longrightarrow> rel_sum (=) Q x' y') \<Longrightarrow>
    rel_sum (=) Q (if c then x else x') (if c then y else y')"
  by simp

lemma put_all_related: "R a b \<Longrightarrow> rel_sum (=) R (put_all put cs a) (put_all put' cs b)"
proof (induction cs arbitrary: a b)
  case (Cons c cs)
  then show ?case
    unfolding put_all.simps by (intro bind_related [OF put_related])
qed simp

lemma convert_directive_related:
  assumes R: "R a b"
  shows "rel_sum (=) (rel_prod (=) (rel_prod R (=)))
    (convert_directive put conv len mem args d spec literal i a stores) (convert_directive put' conv' len' mem args d spec literal i b stores)"
proof -
  have one: "rel_sum (=) (rel_prod (=) (rel_prod R (=))) (bindE (conv f dyn v a) (\<lambda>st. Inr (j, st, stores)))
      (bindE (conv' f dyn v b) (\<lambda>st. Inr (j, st, stores)))" for f dyn v and j :: nat
    using R by (intro bind_related [OF conv_related]) simp_all
  have wide: "rel_sum (=) (rel_prod (=) (rel_prod R (=))) (bindE (t :: fault + bytes) (\<lambda>x. bindE (conv f dyn (Text x) a) (\<lambda>st. Inr (j, st, stores))))
      (bindE t (\<lambda>x. bindE (conv' f dyn (Text x) b) (\<lambda>st. Inr (j, st, stores))))" for t f dyn and j :: nat
    using one by (cases t) auto
  have plain: "rel_sum (=) (rel_prod (=) (rel_prod R (=))) (bindE (put_all put cs a) (\<lambda>st. Inr (j, st, stores)))
      (bindE (put_all put' cs b) (\<lambda>st. Inr (j, st, stores)))" for cs and j :: nat
    using R by (intro bind_related [OF put_all_related]) simp_all
  show ?thesis
    unfolding convert_directive_def Let_def using one wide plain len_related [OF R] R by (simp split: if_splits)
qed

lemma loop_related:
  "R a b \<Longrightarrow> rel_sum (=) (rel_prod R (=)) (format_loop put conv len mem args s i a stores)
     (format_loop put' conv' len' mem args s i b stores)"
proof (induction "length s" arbitrary: s i a b stores rule: less_induct)
  case less
  show ?case
  proof (cases s)
    case Nil
    then show ?thesis
      using less.prems by (simp add: format_loop.simps)
  next
    case (Cons c r)
    let ?rest = "snd (scan_directive r)"
    have chars: "rel_sum (=) (rel_prod R (=)) (bindE (put (byte c) a) (\<lambda>st. format_loop put conv len mem args t i st stores))
        (bindE (put' (byte c) b) (\<lambda>st. format_loop put' conv' len' mem args t i st stores))" if "length t < length s" for t
      using less.prems less.hyps [OF that] by (intro bind_related [OF put_related])
    have cut: "rel_sum (=) (rel_prod R (=)) (bindE (put_all put cs a) (\<lambda>st. Inr (st, stores)))
        (bindE (put_all put' cs b) (\<lambda>st. Inr (st, stores)))" for cs
      using less.prems by (intro bind_related [OF put_all_related]) simp_all
    have short: "length (tl ?rest) < length s"
      using length_scan_directive [of r] Cons by simp
    have directive: "rel_sum (=) (rel_prod R (=))
        (bindE (convert_directive put conv len mem args d spec literal i a stores) (\<lambda>(i, st, stores). format_loop put conv len mem args (tl ?rest) i st stores))
        (bindE (convert_directive put' conv' len' mem args d spec literal i b stores) (\<lambda>(i, st, stores). format_loop put' conv' len' mem args (tl ?rest) i st stores))"
      for d spec literal
    proof -
      have "rel_sum (=) (rel_prod R (=)) (bindE x (\<lambda>(i, st, stores). format_loop put conv len mem args (tl ?rest) i st stores))
          (bindE y (\<lambda>(i, st, stores). format_loop put' conv' len' mem args (tl ?rest) i st stores))"
        if "rel_sum (=) (rel_prod (=) (rel_prod R (=))) x y" for x y
        using that less.hyps [OF short] by (cases x; cases y) (auto simp: rel_prod.simps)
      then show ?thesis
        using convert_directive_related [OF less.prems] by blast
    qed
    show ?thesis
      unfolding Cons format_loop.simps Let_def
      by (intro if_related chars cut directive) (simp_all add: Cons)
  qed
qed

end

section \<open>The buffer holds a prefix of the full output\<close>

text \<open>
  The relation of the two sinks: the count is the length of the full output; a buffer of size zero is left
  alone; any other holds as much of the output as fits before its last byte, with a terminator behind it
  unless a conversion failed, and keeps what lies behind its size.
\<close>

definition never_fails :: "(string \<Rightarrow> int list \<Rightarrow> conversion \<Rightarrow> printed) \<Rightarrow> bool" where
  "never_fails snprintf \<longleftrightarrow> (\<forall>f dyn v junk. snprintf f dyn v \<noteq> Failed junk)"

definition prefix_in :: "bool \<Rightarrow> nat \<Rightarrow> bytes \<Rightarrow> bytes \<Rightarrow> bytes \<Rightarrow> bool" where
  "prefix_in terminated n start out b \<longleftrightarrow> length b = length start \<and> n \<le> length b \<and> drop n b = drop n start \<and>
     take (min (n - 1) (length out)) b = take (n - 1) out \<and> (terminated \<longrightarrow> b ! min (n - 1) (length out) = 0)"

definition holds_prefix :: "bool \<Rightarrow> nat \<Rightarrow> bytes option \<Rightarrow> sink \<Rightarrow> bytes \<Rightarrow> bool" where
  "holds_prefix terminated n start k out \<longleftrightarrow> k_written k = length out \<and>
     (if n = 0 then k_buffer k = start
      else \<exists>b b0. start = Some b0 \<and> k_buffer k = Some b \<and> prefix_in terminated n b0 out b)"

lemma prefix_inD:
  assumes "prefix_in x n start out b" and "length out < n"
  shows "take (length out) b = out"
proof -
  have "min (n - 1) (length out) = length out" "take (n - 1) out = out"
    using assms(2) by simp_all
  then show ?thesis
    using assms(1) by (simp add: prefix_in_def)
qed

lemma drop_behind: "length xs \<le> n \<Longrightarrow> drop n (xs @ drop (length xs) b) = drop n b"
  by simp

lemma prefix_in_far:
  assumes "prefix_in x n start out b" and "n \<le> length out + 1" and "0 < n"
  shows "prefix_in y n start (out @ ts) (b[n - 1 := 0])"
proof -
  have "min (n - 1) (length out) = n - 1" "min (n - 1) (length (out @ ts)) = n - 1" "take (n - 1) (out @ ts) = take (n - 1) out"
    using assms(2) by simp_all
  moreover have "n - 1 < length b"
    using assms(1,3) by (auto simp: prefix_in_def)
  ultimately show ?thesis
    using assms(1,3) by (simp add: prefix_in_def)
qed

lemma prefix_in_char:
  assumes "prefix_in x n start out b" and "0 < n"
  shows "length out + 1 < n \<Longrightarrow> prefix_in True n start (out @ [c]) (b[length out := c, Suc (length out) := 0])"
    and "\<not> length out + 1 < n \<Longrightarrow> prefix_in True n start (out @ [c]) (b[n - 1 := 0])"
proof -
  show "prefix_in True n start (out @ [c]) (b[length out := c, Suc (length out) := 0])" if "length out + 1 < n"
  proof -
    have "take (Suc (length out)) (b[length out := c]) = out @ [c]"
      using assms that prefix_inD [OF assms(1)] by (simp add: prefix_in_def take_Suc_conv_app_nth)
    moreover have "min (n - 1) (length (out @ [c])) = Suc (length out)" "take (n - 1) (out @ [c]) = out @ [c]"
      using that by simp_all
    ultimately show ?thesis
      using assms that by (simp add: prefix_in_def)
  qed
  show "prefix_in True n start (out @ [c]) (b[n - 1 := 0])" if "\<not> length out + 1 < n"
    using assms that by (intro prefix_in_far) simp_all
qed

lemma prefix_in_weaken: "prefix_in True n start out b \<Longrightarrow> prefix_in x n start out b"
  by (simp add: prefix_in_def)

lemma prefix_in_text:
  fixes ts :: bytes
  assumes "prefix_in x n start out b" and "length out < n"
  defines "b' \<equiv> take (length out) b @ (take (n - length out - 1) ts @ [0]) @ drop (length out + length (take (n - length out - 1) ts @ [0])) b"
  shows "prefix_in True n start (out @ ts) (b'[min (length out + length ts) (n - 1) := 0])"
proof -
  have out: "take (length out) b = out"
    by (rule prefix_inD [OF assms(1,2)])
  have len: "length b' = length b"
    using assms(1,2) by (auto simp: b'_def prefix_in_def min_def)
  have "take (min (n - 1) (length out + length ts)) b' = take (n - 1) (out @ ts)"
    using assms(2) out by (auto simp: b'_def min_def)
  moreover have "drop n b' = drop n b"
  proof -
    let ?X = "take (length out) b @ take (n - length out - 1) ts @ [0]"
    have "length ?X \<le> n" "b' = ?X @ drop (length ?X) b"
      using assms(2) by (auto simp: b'_def out)
    then show ?thesis
      by (simp only: drop_behind)
  qed
  moreover have "min (n - 1) (length out + length ts) < length b'"
    using assms(1,2) len by (auto simp: prefix_in_def)
  ultimately show ?thesis
    using assms(1,2) len by (simp add: prefix_in_def min.commute)
qed

lemma prefix_in_junk:
  assumes "prefix_in x n start out b" and "length out < n"
  shows "prefix_in False n start out (take (length out) b @ take (n - length out) junk @ drop (length out + length (take (n - length out) junk)) b)"
proof -
  have out: "take (length out) b = out"
    by (rule prefix_inD [OF assms])
  let ?X = "out @ take (n - length out) junk"
  have "length ?X \<le> n"
    using assms(2) by auto
  then have "drop n (?X @ drop (length ?X) b) = drop n b"
    by (simp only: drop_behind)
  then show ?thesis
    using assms out by (auto simp: prefix_in_def min_def)
qed

interpretation buffered: sink_pair "append_output_char n" "append_output_format snprintf n" k_written
  full_char "full_format snprintf" length "holds_prefix (never_fails snprintf) n start" for n snprintf start
proof unfold_locales
  fix k out c
  assume R: "holds_prefix (never_fails snprintf) n start k out"
  show "rel_sum (=) (holds_prefix (never_fails snprintf) n start) (append_output_char n c k) (full_char c out)"
  proof (cases "n = 0")
    case True
    then show ?thesis
      using R by (simp add: append_output_char_def full_char_def holds_prefix_def Let_def)
  next
    case False
    then obtain b b0 where b: "start = Some b0" "k_buffer k = Some b" "prefix_in (never_fails snprintf) n b0 out b"
      and w: "k_written k = length out"
      using R by (auto simp: holds_prefix_def)
    then have "n \<le> length b"
      by (simp add: prefix_in_def)
    then show ?thesis
      using b w False prefix_in_char [OF b(3), of c]
      by (auto simp: append_output_char_def full_char_def holds_prefix_def store_char_def Let_def prefix_in_weaken)
  qed
next
  fix k out f dyn v
  assume R: "holds_prefix (never_fails snprintf) n start k out"
  have w: "k_written k = length out"
    using R by (simp add: holds_prefix_def)
  show "rel_sum (=) (holds_prefix (never_fails snprintf) n start) (append_output_format snprintf n f dyn v k) (full_format snprintf f dyn v out)"
  proof (cases "n = 0")
    case True
    then show ?thesis
      using R by (simp add: append_output_format_def full_format_def holds_prefix_def print_into_def Let_def split: printed.splits)
  next
    case False
    then obtain b b0 where b: "start = Some b0" "k_buffer k = Some b" "prefix_in (never_fails snprintf) n b0 out b"
      using R by (auto simp: holds_prefix_def)
    then have size: "n \<le> length b"
      by (simp add: prefix_in_def)
    show ?thesis
    proof (cases "snprintf f dyn v")
      case (Printed ts)
      show ?thesis
      proof (cases "length out < n")
        case True
        let ?piece = "take (n - length out - 1) ts @ [0]"
        let ?b = "take (length out) b @ ?piece @ drop (length out + length ?piece) b"
        have "length out + length ?piece \<le> length b" "length ?b = length b" "n - length out \<noteq> 0"
          using True size by auto
        then have "print_into (length out) (n - length out) ?piece (Some b) = Inr (Some ?b)"
          by (simp only: print_into_def if_False if_True option.case)
        moreover have "store_char (if length out + length ts < n then length out + length ts else n - 1) 0 (Some ?b)
            = Inr (Some (?b[min (length out + length ts) (n - 1) := 0]))"
          using \<open>length ?b = length b\<close> size True
          by (simp only: store_char_def option.case) (auto simp: min_def)
        ultimately have "append_output_format snprintf n f dyn v k =
            Inr \<lparr>k_buffer = Some (?b[min (length out + length ts) (n - 1) := 0]), k_written = length out + length ts\<rparr>"
          using True False by (simp only: append_output_format_def Printed b(2) w Let_def printed.case) simp
        then show ?thesis
          using Printed b(1) False prefix_in_weaken [OF prefix_in_text [OF b(3) True, of ts]]
          by (simp add: full_format_def holds_prefix_def)
      next
        case far: False
        then show ?thesis
          using Printed b(1,2) w size False prefix_in_far [OF b(3), of "never_fails snprintf" ts]
          by (simp add: append_output_format_def full_format_def holds_prefix_def print_into_def store_char_def Let_def)
      qed
    next
      case (Failed junk)
      then have "\<not> never_fails snprintf"
        by (auto simp: never_fails_def)
      then show ?thesis
        using Failed b w size False prefix_in_junk [OF b(3), of junk]
        by (cases "length out < n")
          (simp_all add: append_output_format_def full_format_def holds_prefix_def print_into_def Let_def)
    qed
  qed
qed (simp add: holds_prefix_def)

text \<open>What the function returns, from the full output alone.\<close>

lemma format_matches:
  assumes "n = 0 \<or> buffer = Some b0 \<and> n \<le> length b0"
  shows "rel_sum (=) (\<lambda>(result, b, stores) (out, stores'). result = sint (of_nat (length out) :: u32) \<and> stores = stores' \<and>
      (if n = 0 then b = buffer else \<exists>b'. b = Some b' \<and> prefix_in (never_fails snprintf) n b0 out b'))
    (format_from_ms_va_list snprintf mem buffer n (Some s) args) (full_output snprintf mem s args)"
proof -
  obtain b where start: "(if n \<noteq> 0 \<and> buffer \<noteq> None then store_char 0 0 buffer else Inr buffer) = Inr b"
    and held: "holds_prefix (never_fails snprintf) n buffer \<lparr>k_buffer = b, k_written = 0\<rparr> []"
  proof (cases "n = 0")
    case True
    show ?thesis
      by (rule that [of buffer]) (simp_all add: True holds_prefix_def)
  next
    case False
    then have "buffer = Some b0" "n \<le> length b0" "0 < length b0"
      using assms by auto
    then show ?thesis
      using False by (intro that [of "Some (b0[0 := 0])"]) (auto simp: store_char_def holds_prefix_def prefix_in_def)
  qed
  have "rel_sum (=) (rel_prod (holds_prefix (never_fails snprintf) n buffer) (=))
      (format_loop (append_output_char n) (append_output_format snprintf n) k_written mem args s 0 \<lparr>k_buffer = b, k_written = 0\<rparr> [])
      (full_output snprintf mem s args)"
    unfolding full_output_def using held by (rule buffered.loop_related)
  then show ?thesis
    unfolding format_from_ms_va_list_def option.case start bindE_simps using assms
    by (cases rule: rel_sum.cases) (auto simp: holds_prefix_def)
qed

section \<open>Integers\<close>

lemma narrow_slot_eq:
  "bits < 64 \<Longrightarrow> narrow_slot bits is_signed x =
     (if is_signed \<and> bit x (bits - 1) then x OR NOT (mask bits) else take_bit bits x)"
  by (simp add: narrow_slot_def Let_def take_bit_eq_mask mask_eq_exp_minus_1 push_bit_eq_mult
      bit_iff_and_push_bit_not_eq_0)

text \<open>The value of an argument is its low bits, extended with its sign or with zeros.\<close>

lemma narrow_slot_unsigned:
  "narrow_slot 8 False x = ucast (ucast x :: u8)" "narrow_slot 16 False x = ucast (ucast x :: u16)"
  "narrow_slot 32 False x = ucast (ucast x :: u32)"
  by (auto intro!: bit_word_eqI simp: narrow_slot_eq bit_simps)

lemma narrow_slot_signed:
  "narrow_slot 8 True x = scast (ucast x :: u8)" "narrow_slot 16 True x = scast (ucast x :: u16)"
  "narrow_slot 32 True x = scast (ucast x :: u32)"
proof -
  have top: "7 \<le> n \<Longrightarrow> n < 8 \<Longrightarrow> n = 7" "15 \<le> n \<Longrightarrow> n < 16 \<Longrightarrow> n = 15" "31 \<le> n \<Longrightarrow> n < 32 \<Longrightarrow> n = 31" for n :: nat
    by simp_all
  show "narrow_slot 8 True x = scast (ucast x :: u8)" "narrow_slot 16 True x = scast (ucast x :: u16)"
    "narrow_slot 32 True x = scast (ucast x :: u32)"
    by (auto intro!: bit_word_eqI simp: narrow_slot_eq bit_simps min_def split: if_splits dest: top)
qed

lemma narrow_slot_whole: "narrow_slot 64 is_signed x = x"
  by (simp add: narrow_slot_def)

section \<open>Properties\<close>

text \<open>A C library that prints a fixed text for every conversion, for the examples.\<close>

definition sample_snprintf :: "string \<Rightarrow> int list \<Rightarrow> conversion \<Rightarrow> printed" where
  "sample_snprintf f dyn v = Printed (case v of Text t \<Rightarrow> t | Signed x \<Rightarrow> [ucast x, 0x37] | _ \<Rightarrow> [0x3f])"

definition sample_memory :: argument_memory where
  "sample_memory = \<lparr>a_chars = (\<lambda>_. [0x78, 0x79]), a_wide = (\<lambda>_. None)\<rparr>"

lemma sample_full_output:
  "full_output sample_snprintf sample_memory ''a%-5hd%%%s'' (\<lambda>i. 0x41 + of_nat i) = Inr ([0x61, 0x41, 0x37, 0x25, 0x78, 0x79], [])"
  by (simp add: full_output_def format_loop.simps full_char_def full_format_def scan_directive_def flag_chars_def
      scan_count_def scan_precision_def scan_length_def is_digit_def Let_def convert_directive_def dynamics_def sample_snprintf_def
      sample_memory_def narrow_slot_def integer_bits_def byte_def)

text \<open>
  C39: Whatever the format and the arguments, the buffer of \<open>n\<close> bytes holds the longest prefix of the full
  output that leaves room for a terminator, terminated unless a conversion of the C library failed, with
  nothing behind the \<open>n\<close> bytes touched; the result is the length of the full output, so the stores of
  \<open>%n\<close> and the result do not depend on the buffer, and a size of zero touches nothing.
\<close>

theorem formatted_output_truncated:
  assumes "n = 0 \<or> buffer = Some b0 \<and> n \<le> length b0"
  shows "case full_output snprintf mem s args of
      Inl f \<Rightarrow> format_from_ms_va_list snprintf mem buffer n (Some s) args = Inl f
    | Inr (out, stores) \<Rightarrow> \<exists>b. format_from_ms_va_list snprintf mem buffer n (Some s) args =
        Inr (sint (of_nat (length out) :: u32), b, stores) \<and>
        (if n = 0 then b = buffer else \<exists>b'. b = Some b' \<and> prefix_in (never_fails snprintf) n b0 out b')"
  using format_matches [OF assms, of snprintf mem s args]
  by (cases rule: rel_sum.cases) auto

theorem formatted_output_truncated_witness:
  "\<exists>b. format_from_ms_va_list sample_snprintf sample_memory (Some [1, 2, 3, 4, 5]) 4 (Some ''a%-5hd%%%s'') (\<lambda>i. 0x41 + of_nat i) =
     Inr (6, Some b, []) \<and> take 4 b = [0x61, 0x41, 0x37, 0] \<and> drop 4 b = [5]"
proof -
  have never: "never_fails sample_snprintf"
    by (simp add: never_fails_def sample_snprintf_def)
  obtain b where b: "format_from_ms_va_list sample_snprintf sample_memory (Some [1, 2, 3, 4, 5]) 4 (Some ''a%-5hd%%%s'') (\<lambda>i. 0x41 + of_nat i) =
      Inr (6, Some b, [])" and ok: "prefix_in True 4 [1, 2, 3, 4, 5] [0x61, 0x41, 0x37, 0x25, 0x78, 0x79] b"
    using formatted_output_truncated [of 4 "Some [1, 2, 3, 4, 5]" "[1, 2, 3, 4, 5]" sample_snprintf sample_memory
        "''a%-5hd%%%s''" "\<lambda>i. 0x41 + of_nat i"] never
    by (auto simp: sample_full_output)
  have "take 3 b = [0x61, 0x41, 0x37]" "b ! 3 = 0" "drop 4 b = [5]" "3 < length b"
    using ok by (simp_all add: prefix_in_def eval_nat_numeral)
  then show ?thesis
    using b take_Suc_conv_app_nth [of 3 b] by auto
qed

text \<open>
  An integer argument reaches the C library as the value of the width its length modifier names,
  sign-extended or zero-extended: whatever the caller left in the rest of the slot does not matter.
\<close>

theorem integer_arguments:
  "narrow_slot (integer_bits len) True x =
     (if len = ''hh'' then scast (ucast x :: u8)
      else if len = ''h'' then scast (ucast x :: u16)
      else if len \<in> {''ll'', ''I64'', ''I'', ''j'', ''z'', ''t'', ''L''} then x
      else scast (ucast x :: u32)) \<and>
   narrow_slot (integer_bits len) False x =
     (if len = ''hh'' then ucast (ucast x :: u8)
      else if len = ''h'' then ucast (ucast x :: u16)
      else if len \<in> {''ll'', ''I64'', ''I'', ''j'', ''z'', ''t'', ''L''} then x
      else ucast (ucast x :: u32))"
  by (simp add: integer_bits_def narrow_slot_unsigned narrow_slot_signed narrow_slot_whole)

text \<open>A wide character whose slot holds more than 16 bits is read as a string that does not end.\<close>

lemma wide_char_reads_past:
  assumes "ucast (args 0) \<noteq> (0 :: u16)" and "ucast (drop_bit 16 (args 0)) \<noteq> (0 :: u16)"
  shows "full_output snprintf mem ''%lc'' args = Inl OutOfBounds"
  using assms
  by (simp add: full_output_def format_loop.simps scan_directive_def flag_chars_def scan_count_def scan_precision_def
      scan_length_def is_digit_def Let_def convert_directive_def dynamics_def narrow_utf16_string_def narrow_units.simps at_def)

end
