(* ===== verification/Win_Rtti.thy ===== *)
theory Win_Rtti
  imports Prelude
begin

text \<open>
  \<open>__RTDynamicCast\<close> of \<open>src/src/winlibs.cpp\<close>: a dynamic cast over the type information a Windows compiler
  lays down in the image. The memory it reads is a parameter: 32-bit and 64-bit little-endian values and
  terminated names by address. An unsupported hierarchy stops the process with a message, which is the
  left result.
\<close>

record rtti_memory =
  r_32 :: "u64 \<Rightarrow> u32"
  r_64 :: "u64 \<Rightarrow> u64"
  r_name :: "u64 \<Rightarrow> bytes"

record base_class =
  b_name :: bytes
  b_address :: u64
  b_vbtable :: u32
  b_attributes :: u32

definition base_class_at :: "rtti_memory \<Rightarrow> u64 \<Rightarrow> u64 \<Rightarrow> u32 \<Rightarrow> base_class" where
  "base_class_at m img complete rva =
     (let base = img + ucast rva in
      \<lparr>b_name = r_name m (img + ucast (r_32 m base) + 16), b_address = complete + scast (r_32 m (base + 8)),
        b_vbtable = r_32 m (base + 12), b_attributes = r_32 m (base + 20)\<rparr>)"

text \<open>The loop over the base classes; \<open>matches\<close> and \<open>result\<close> are its variables.\<close>

fun cast_loop :: "bytes \<Rightarrow> bytes \<Rightarrow> u64 \<Rightarrow> base_class list \<Rightarrow> bool \<Rightarrow> u64 \<Rightarrow> string + bool \<times> u64" where
  "cast_loop source_name target_name source [] matches result = Inr (matches, result)"
| "cast_loop source_name target_name source (b # bs) matches result =
     (if b_vbtable b \<noteq> -1 then Inl ''virtual base''
      else
        let matches = matches \<or> b_name b = source_name \<and> b_address b = source in
        if b_name b \<noteq> target_name \<or> b_attributes b AND 0x0f \<noteq> 0
        then cast_loop source_name target_name source bs matches result
        else if result \<noteq> 0 \<and> result \<noteq> b_address b then Inl ''ambiguous target''
        else cast_loop source_name target_name source bs matches (b_address b))"

definition base_class_list :: "rtti_memory \<Rightarrow> u64 \<Rightarrow> u64 \<Rightarrow> u64 \<Rightarrow> base_class list" where
  "base_class_list m img complete hierarchy =
     (let table = img + ucast (r_32 m (hierarchy + 12)) in
      map (\<lambda>i. base_class_at m img complete (r_32 m (table + 4 * of_nat i))) [0..<unat (r_32 m (hierarchy + 8))])"

definition finish_cast :: "bool \<Rightarrow> bool \<times> u64 \<Rightarrow> string + u64" where
  "finish_cast is_reference found =
     (if \<not> fst found then Inl ''source subobject mismatch''
      else if snd found \<noteq> 0 then Inr (snd found)
      else if is_reference then Inl ''failed reference cast''
      else Inr 0)"

definition msvcr___RTDynamicCast :: "rtti_memory \<Rightarrow> u64 \<Rightarrow> u32 \<Rightarrow> u64 \<Rightarrow> u64 \<Rightarrow> bool \<Rightarrow> string + u64" where
  "msvcr___RTDynamicCast m inptr vfdelta src target is_reference =
     (if inptr = 0 then Inr 0
      else
        let vtable = r_64 m (inptr + scast vfdelta); locator = r_64 m (vtable - 8) in
        if r_32 m locator \<noteq> 1 then Inl ''unsupported object locator''
        else
          let img = locator - ucast (r_32 m (locator + 20)); hierarchy = img + ucast (r_32 m (locator + 16)) in
          if r_32 m (hierarchy + 4) AND 0x6 \<noteq> 0 then Inl ''virtual or ambiguous hierarchy''
          else
            let complete = inptr + scast vfdelta - ucast (r_32 m (locator + 4)) in
            bindE (cast_loop (r_name m (src + 16)) (r_name m (target + 16)) inptr (base_class_list m img complete hierarchy) False 0)
              (finish_cast is_reference))"

section \<open>What a cast means\<close>

text \<open>The subobjects a cast may reach: accessible ones with the name of the target.\<close>

definition target_subobjects :: "bytes \<Rightarrow> base_class list \<Rightarrow> u64 set" where
  "target_subobjects target_name bs = {b_address b | b. b \<in> set bs \<and> b_name b = target_name \<and> b_attributes b AND 0x0f = 0}"

definition has_source :: "bytes \<Rightarrow> u64 \<Rightarrow> base_class list \<Rightarrow> bool" where
  "has_source source_name source bs \<longleftrightarrow> (\<exists>b \<in> set bs. b_name b = source_name \<and> b_address b = source)"

lemma target_subobjects_simps [simp]:
  "target_subobjects n [] = {}"
  "target_subobjects n (b # bs) =
     (if b_name b = n \<and> b_attributes b AND 0x0f = 0 then insert (b_address b) (target_subobjects n bs) else target_subobjects n bs)"
  by (auto simp: target_subobjects_def)

lemma has_source_simps [simp]:
  "\<not> has_source n s []" "has_source n s (b # bs) \<longleftrightarrow> b_name b = n \<and> b_address b = s \<or> has_source n s bs"
  by (auto simp: has_source_def)

text \<open>The loop, when no subobject lies at the null address.\<close>

lemma cast_loop_ok:
  assumes "0 \<notin> target_subobjects target_name bs"
  shows "cast_loop source_name target_name source bs matches result = Inr (matches', result') \<longleftrightarrow>
    (\<forall>b \<in> set bs. b_vbtable b = -1) \<and> matches' = (matches \<or> has_source source_name source bs) \<and>
    (if result = 0 then target_subobjects target_name bs \<subseteq> {result'} \<and> (result' = 0 \<longleftrightarrow> target_subobjects target_name bs = {})
     else result' = result \<and> target_subobjects target_name bs \<subseteq> {result})"
  using assms
proof (induction bs arbitrary: matches result)
  case (Cons b bs)
  then show ?case
    by (auto simp: Let_def)
qed auto

lemma if_not_Inl: "(if c then Inl e else x) = Inr r \<longleftrightarrow> \<not> c \<and> x = Inr r" "\<not> a \<noteq> b \<longleftrightarrow> a = b"
  by simp_all

lemma finish_cast_eq:
  "finish_cast is_reference found = Inr r \<longleftrightarrow>
   fst found \<and> (snd found \<noteq> 0 \<and> r = snd found \<or> snd found = 0 \<and> \<not> is_reference \<and> r = 0)"
  by (auto simp: finish_cast_def)

lemma one_target:
  fixes r :: u64
  assumes "0 \<notin> T"
  shows "(\<exists>matches result. (virtual_free \<and> matches = found \<and> T \<subseteq> {result} \<and> (result = 0 \<longleftrightarrow> T = {})) \<and>
      matches \<and> (result \<noteq> 0 \<and> r = result \<or> result = 0 \<and> \<not> is_reference \<and> r = 0)) \<longleftrightarrow>
    virtual_free \<and> found \<and> (T = {r} \<or> T = {} \<and> r = 0 \<and> \<not> is_reference)"
  using assms by auto

text \<open>A small image: a class \<open>D\<close> at 0x1000 with one base \<open>B\<close> at offset 16; the cast goes from \<open>B\<close> to \<open>D\<close>.\<close>

definition sample_rtti :: rtti_memory where
  "sample_rtti = \<lparr>
     r_32 = (\<lambda>a. case map_of
       [(0x2000, 1), (0x2004, 16), (0x2010, 0x100), (0x2014, 0x2000),
        (0x104, 0), (0x108, 2), (0x10c, 0x120), (0x120, 0x140), (0x124, 0x160),
        (0x140, 0x200), (0x148, 0), (0x14c, 0xffffffff), (0x154, 0),
        (0x160, 0x240), (0x168, 16), (0x16c, 0xffffffff), (0x174, 0)] a of Some v \<Rightarrow> v | None \<Rightarrow> 0),
     r_64 = (\<lambda>a. if a = 0x1010 then 0x3008 else if a = 0x3000 then 0x2000 else 0),
     r_name = (\<lambda>a. if a = 0x210 then [0x44] else if a = 0x250 then [0x42] else [])\<rparr>"

text \<open>
  C40: For an object whose target subobjects do not lie at the null address, \<open>__RTDynamicCast\<close> answers
  exactly when no base class of the hierarchy is virtual, the given subobject is one of the hierarchy and
  at most one accessible subobject has the target type; its answer is that subobject, or null, with a
  failed reference cast as an error instead.
\<close>

theorem dynamic_cast_exact:
  fixes m inptr vfdelta target
  defines "locator \<equiv> r_64 m (r_64 m (inptr + scast vfdelta) - 8)"
  defines "img \<equiv> locator - ucast (r_32 m (locator + 20))"
  defines "hierarchy \<equiv> img + ucast (r_32 m (locator + 16))"
  defines "bases \<equiv> base_class_list m img (inptr + scast vfdelta - ucast (r_32 m (locator + 4))) hierarchy"
  defines "targets \<equiv> target_subobjects (r_name m (target + 16)) bases"
  assumes "inptr \<noteq> 0" and "0 \<notin> targets"
  shows "msvcr___RTDynamicCast m inptr vfdelta src target is_reference = Inr r \<longleftrightarrow>
    r_32 m locator = 1 \<and> r_32 m (hierarchy + 4) AND 0x6 = 0 \<and> (\<forall>b \<in> set bases. b_vbtable b = -1) \<and>
    has_source (r_name m (src + 16)) inptr bases \<and>
    (targets = {r} \<or> targets = {} \<and> r = 0 \<and> \<not> is_reference)"
proof -
  have "msvcr___RTDynamicCast m inptr vfdelta src target is_reference = Inr r \<longleftrightarrow>
      r_32 m locator = 1 \<and> r_32 m (hierarchy + 4) AND 0x6 = 0 \<and>
      bindE (cast_loop (r_name m (src + 16)) (r_name m (target + 16)) inptr bases False 0) (finish_cast is_reference) = Inr r"
    unfolding msvcr___RTDynamicCast_def Let_def locator_def [symmetric] img_def [symmetric] hierarchy_def [symmetric]
      bases_def [symmetric] by (simp only: assms(6) if_False if_not_Inl)
  also have "bindE (cast_loop (r_name m (src + 16)) (r_name m (target + 16)) inptr bases False 0) (finish_cast is_reference) = Inr r
      \<longleftrightarrow> (\<forall>b \<in> set bases. b_vbtable b = -1) \<and> has_source (r_name m (src + 16)) inptr bases \<and>
        (targets = {r} \<or> targets = {} \<and> r = 0 \<and> \<not> is_reference)"
    using one_target [OF assms(7)] unfolding bindE_eq_Inr finish_cast_eq split_paired_Ex targets_def
      cast_loop_ok [OF assms(7) [unfolded targets_def]] by simp
  finally show ?thesis .
qed

theorem dynamic_cast_exact_witness: "msvcr___RTDynamicCast sample_rtti 0x1010 0 0x240 0x200 False = Inr 0x1000"
proof -
  have reads: "r_64 sample_rtti 0x1010 = 0x3008" "r_64 sample_rtti 0x3000 = 0x2000" "r_32 sample_rtti 0x2000 = 1"
    "r_32 sample_rtti 0x2004 = 16" "r_32 sample_rtti 0x2010 = 0x100" "r_32 sample_rtti 0x2014 = 0x2000" "r_32 sample_rtti 0x104 = 0"
    "r_name sample_rtti 0x250 = [0x42]" "r_name sample_rtti 0x210 = [0x44]"
    by (simp_all add: sample_rtti_def)
  have bases: "base_class_list sample_rtti 0 0x1000 0x100 =
      [\<lparr>b_name = [0x44], b_address = 0x1000, b_vbtable = -1, b_attributes = 0\<rparr>,
       \<lparr>b_name = [0x42], b_address = 0x1010, b_vbtable = -1, b_attributes = 0\<rparr>]"
    by code_simp
  show ?thesis
    using dynamic_cast_exact [where m = sample_rtti and inptr = "0x1010" and vfdelta = 0 and target = "0x200" and src = "0x240"
        and is_reference = False and r = "0x1000"] reads by (simp add: bases)
qed

end
