(* ===== verification/Win_Topology.thy ===== *)
theory Win_Topology
  imports Prelude "HOL-Library.Product_Lexorder"
begin

text \<open>
  The processors the shims of \<open>src/src/winlibs.cpp\<close> report: \<open>host_processor_topology\<close>, \<open>GetSystemInfo\<close>,
  \<open>GetLogicalProcessorInformation\<close> and \<open>GetLogicalProcessorInformationEx\<close>. What the kernel says (the
  affinity mask, the number of processors, the package and core of a processor) is a parameter. The
  \<open>std::map\<close> of the cores is a list in the order of its keys.
\<close>

section \<open>The code\<close>

record processor_topology =
  logical_count :: nat
  active_mask :: u64
  core_masks :: "u64 list"

definition CPU_SETSIZE :: nat where "CPU_SETSIZE = 1024"

text \<open>\<open>affinity\<close> is what \<open>sched_getaffinity\<close> gave, if it did not fail; \<open>online\<close> is \<open>sysconf\<close>'s answer.\<close>

definition usable_cpus :: "(nat \<Rightarrow> bool) option \<Rightarrow> int \<Rightarrow> nat list" where
  "usable_cpus affinity online =
     (let cpus = (case affinity of Some allowed \<Rightarrow> take 64 (filter allowed [0..<CPU_SETSIZE]) | None \<Rightarrow> []) in
      if cpus = [] then take 64 [0..<nat (max 1 online)] else cpus)"

text \<open>\<open>topology_value\<close>: the package and the core of a processor, negative where \<open>cpu_topology_value\<close> finds none.\<close>

definition core_key :: "(nat \<Rightarrow> int \<times> int) \<Rightarrow> nat \<Rightarrow> int \<times> int" where
  "core_key topology_value cpu =
     (case topology_value cpu of (package, core) \<Rightarrow>
        if package < 0 \<or> core < 0 then (0, int cpu) else (package, core))"

text \<open>\<open>cores[key] |= mask\<close>\<close>

fun or_into :: "int \<times> int \<Rightarrow> u64 \<Rightarrow> ((int \<times> int) \<times> u64) list \<Rightarrow> ((int \<times> int) \<times> u64) list" where
  "or_into k x [] = [(k, x)]"
| "or_into k x ((l, y) # m) =
     (if k = l then (l, y OR x) # m else if k < l then (k, x) # (l, y) # m else (l, y) # or_into k x m)"

definition group_cores :: "(int \<times> int) list \<Rightarrow> ((int \<times> int) \<times> u64) list" where
  "group_cores keys = fold (\<lambda>i. or_into (keys ! i) (push_bit i 1)) [0..<length keys] []"

definition host_processor_topology :: "(nat \<Rightarrow> bool) option \<Rightarrow> int \<Rightarrow> (nat \<Rightarrow> int \<times> int) \<Rightarrow> processor_topology" where
  "host_processor_topology affinity online topology_value =
     (let cpus = usable_cpus affinity online in
      \<lparr>logical_count = length cpus,
       active_mask = (if length cpus = 64 then -1 else push_bit (length cpus) 1 - 1),
       core_masks = map snd (group_cores (map (core_key topology_value) cpus))\<rparr>)"

record system_info =
  i_page_size :: nat
  i_processors :: nat
  i_granularity :: nat
  i_active_mask :: u64

definition GetSystemInfo :: "nat \<Rightarrow> processor_topology \<Rightarrow> system_info" where
  "GetSystemInfo page_size t =
     \<lparr>i_page_size = page_size, i_processors = logical_count t, i_granularity = 65536, i_active_mask = active_mask t\<rparr>"

text \<open>One record per core: its mask, and whether it holds more than one processor (\<open>LTP_PC_SMT\<close>).\<close>

definition core_record :: "u64 \<Rightarrow> u64 \<times> bool" where
  "core_record m = (m, 1 < card {i. bit m i})"

datatype query_error = Invalid_parameter | Insufficient_buffer

record query_answer =
  q_error :: "query_error option"
  q_length :: "nat option"
  q_records :: "(u64 \<times> bool) list"

text \<open>Both queries; \<open>entry\<close> is the size of a record, \<open>supplied\<close> the length the caller gave, if it gave one.\<close>

definition query_cores :: "nat \<Rightarrow> processor_topology \<Rightarrow> bool \<Rightarrow> nat option \<Rightarrow> query_answer" where
  "query_cores entry t has_buffer supplied =
     (case supplied of
        None \<Rightarrow> \<lparr>q_error = Some Invalid_parameter, q_length = None, q_records = []\<rparr>
      | Some n \<Rightarrow>
        let required = (length (core_masks t) * entry) mod 2 ^ 32 in
        if \<not> has_buffer \<or> n < required
        then \<lparr>q_error = Some Insufficient_buffer, q_length = Some required, q_records = []\<rparr>
        else \<lparr>q_error = None, q_length = Some required, q_records = map core_record (core_masks t)\<rparr>)"

definition GetLogicalProcessorInformation :: "processor_topology \<Rightarrow> bool \<Rightarrow> nat option \<Rightarrow> query_answer" where
  "GetLogicalProcessorInformation = query_cores 32"

definition RelationProcessorCore :: int where "RelationProcessorCore = 0"

definition GetLogicalProcessorInformationEx :: "processor_topology \<Rightarrow> int \<Rightarrow> bool \<Rightarrow> nat option \<Rightarrow> query_answer" where
  "GetLogicalProcessorInformationEx t relationship has_buffer supplied =
     (if supplied \<noteq> None \<and> relationship \<noteq> RelationProcessorCore
      then \<lparr>q_error = Some Invalid_parameter, q_length = supplied, q_records = []\<rparr>
      else query_cores 48 t has_buffer supplied)"

section \<open>The masks part the processors\<close>

text \<open>After the bits below \<open>n\<close>: the keys ascend, and the mask of a key holds exactly its bits.\<close>

definition grouped :: "(int \<times> int) list \<Rightarrow> nat \<Rightarrow> ((int \<times> int) \<times> u64) list \<Rightarrow> bool" where
  "grouped keys n m \<longleftrightarrow> sorted_wrt (<) (map fst m) \<and> dom (map_of m) = set (take n keys) \<and>
     (\<forall>k v i. map_of m k = Some v \<longrightarrow> (bit v i \<longleftrightarrow> i < n \<and> keys ! i = k))"

lemma groupedD:
  assumes "grouped keys n m"
  shows "sorted_wrt (<) (map fst m)" and "dom (map_of m) = set (take n keys)"
    and "map_of m k = Some v \<Longrightarrow> bit v i \<longleftrightarrow> i < n \<and> keys ! i = k"
  using assms unfolding grouped_def by blast+

lemma keys_or_into: "set (map fst (or_into k x m)) = insert k (set (map fst m))"
  by (induction k x m rule: or_into.induct) auto

lemma sorted_or_into: "sorted_wrt (<) (map fst m) \<Longrightarrow> sorted_wrt (<) (map fst (or_into k x m))"
proof (induction k x m rule: or_into.induct)
  case (2 k x l y m)
  have "fst z \<in> insert k (fst ` set m)" if "z \<in> set (or_into k x m)" for z
    using that keys_or_into [of k x m] by auto
  then have "l < fst z" if "z \<in> set (or_into k x m)" "l < k" for z
    using that 2(2) by fastforce
  then show ?case
    using 2 by (auto intro: less_trans simp: less_le_not_le)
qed simp

lemma map_of_or_into:
  "sorted_wrt (<) (map fst m) \<Longrightarrow>
   map_of (or_into k x m) = (map_of m)(k \<mapsto> (case map_of m k of None \<Rightarrow> x | Some y \<Rightarrow> y OR x))"
proof (induction k x m rule: or_into.induct)
  case (2 k x l y m)
  have "map_of m k = None" if "k < l"
    using that 2(2) by (auto simp: map_of_eq_None_iff)
  then show ?case
    using 2 by auto
qed simp

lemma grouped_step:
  assumes "grouped keys n m" and "n < length keys" and "length keys \<le> 64"
  shows "grouped keys (Suc n) (or_into (keys ! n) (push_bit n 1) m)"
proof -
  have bit: "bit (push_bit n 1 :: u64) i \<longleftrightarrow> i = n" for i
    using assms(2,3) by (auto simp: bit_simps)
  have dom: "dom (map_of (or_into (keys ! n) (push_bit n 1) m)) = set (take (Suc n) keys)"
    using assms by (simp add: map_of_or_into grouped_def take_Suc_conv_app_nth)
  have "bit v i \<longleftrightarrow> i < Suc n \<and> keys ! i = k" if v: "map_of (or_into (keys ! n) (push_bit n 1) m) k = Some v" for k v i
  proof (cases "k = keys ! n")
    case True
    show ?thesis
    proof (cases "map_of m k")
      case None
      then have "k \<notin> set (take n keys)"
        using assms(1) by (auto simp: grouped_def)
      then have "\<not> (i < n \<and> keys ! i = k)"
        using assms(2) by (auto simp: in_set_conv_nth)
      then show ?thesis
        using v True None groupedD(1) [OF assms(1)] bit by (auto simp: map_of_or_into less_Suc_eq)
    next
      case (Some y)
      then show ?thesis
        using v True groupedD(1) [OF assms(1)] groupedD(3) [OF assms(1) Some] bit
        by (auto simp: map_of_or_into bit_or_iff less_Suc_eq)
    qed
  next
    case False
    then have "map_of m k = Some v"
      using v groupedD(1) [OF assms(1)] by (simp add: map_of_or_into)
    then show ?thesis
      using groupedD(3) [OF assms(1)] False by (auto simp: less_Suc_eq)
  qed
  then show ?thesis
    using dom assms(1) sorted_or_into by (simp add: grouped_def)
qed

lemma group_cores_grouped:
  assumes "length keys \<le> 64"
  shows "grouped keys (length keys) (group_cores keys)"
proof -
  have "grouped keys n (fold (\<lambda>i. or_into (keys ! i) (push_bit i 1)) [0..<n] [])" if "n \<le> length keys" for n
    using that
  proof (induction n)
    case (Suc n)
    then show ?case
      using grouped_step [OF _ _ assms] by simp
  qed (simp add: grouped_def)
  then show ?thesis
    by (simp add: group_cores_def)
qed

lemma length_usable_cpus: "length (usable_cpus affinity online) \<le> 64"
  by (auto simp: usable_cpus_def Let_def split: option.splits)

lemma usable_cpus_nonempty: "usable_cpus affinity online \<noteq> []"
  by (simp add: usable_cpus_def Let_def)

lemma bit_active_mask:
  assumes "n \<le> 64"
  shows "bit (if n = 64 then -1 else push_bit n 1 - 1 :: u64) i \<longleftrightarrow> i < n"
proof (cases "n = 64")
  case False
  then have "push_bit n 1 - 1 = (mask n :: u64)"
    by (simp add: mask_eq_exp_minus_1 push_bit_eq_mult)
  then show ?thesis
    using assms False by (auto simp: bit_mask_iff)
qed simp

section \<open>Properties\<close>

text \<open>
  The core masks of \<open>host_processor_topology\<close> part the usable processors: every processor has its bit
  in exactly one mask, two processors share a mask exactly when they share package and core, no mask is
  empty, and the masks cover exactly the active mask, which holds one bit per reported processor.
\<close>

theorem core_masks_partition:
  fixes affinity online topology_value
  defines "t \<equiv> host_processor_topology affinity online topology_value"
  defines "key \<equiv> \<lambda>i. core_key topology_value (usable_cpus affinity online ! i)"
  shows "0 < logical_count t \<and> logical_count t \<le> 64 \<and> distinct (core_masks t) \<and>
    (\<forall>i. bit (active_mask t) i \<longleftrightarrow> i < logical_count t) \<and>
    (\<forall>i. i < logical_count t \<longleftrightarrow> (\<exists>m \<in> set (core_masks t). bit m i)) \<and>
    (\<forall>m \<in> set (core_masks t). m \<noteq> 0 \<and> (\<forall>i j. bit m i \<longrightarrow> (bit m j \<longleftrightarrow> j < logical_count t \<and> key j = key i)))"
proof -
  let ?cpus = "usable_cpus affinity online"
  let ?keys = "map (core_key topology_value) ?cpus"
  let ?m = "group_cores ?keys"
  have size: "length ?cpus \<le> 64"
    by (rule length_usable_cpus)
  have g: "grouped ?keys (length ?cpus) ?m"
    using group_cores_grouped [of ?keys] size by simp
  have dist: "distinct (map fst ?m)"
    using groupedD(1) [OF g] by (simp add: strict_sorted_iff)
  have entry: "(\<exists>k. map_of ?m k = Some v) \<longleftrightarrow> v \<in> set (core_masks t)" for v
    using dist by (force simp: t_def host_processor_topology_def Let_def map_of_eq_Some_iff)
  have bits: "bit v i \<longleftrightarrow> i < length ?cpus \<and> key i = k" if "map_of ?m k = Some v" for k v i
    using groupedD(3) [OF g that, of i] by (auto simp: key_def)
  have keys: "map_of ?m (key i) \<noteq> None" if "i < length ?cpus" for i
  proof -
    have "key i \<in> dom (map_of ?m)"
      using that by (simp add: groupedD(2) [OF g] key_def)
    then show ?thesis
      by blast
  qed
  have used: "\<exists>i. bit v i" if v: "map_of ?m k = Some v" for k v
  proof -
    have "k \<in> set (take (length ?cpus) ?keys)"
      using groupedD(2) [OF g] v by blast
    then obtain i where "i < length ?cpus" "key i = k"
      by (auto simp: in_set_conv_nth key_def)
    then show ?thesis
      using bits [OF v] by blast
  qed
  have t: "logical_count t = length ?cpus" "core_masks t = map snd ?m"
    "active_mask t = (if length ?cpus = 64 then -1 else push_bit (length ?cpus) 1 - 1)"
    by (simp_all add: t_def host_processor_topology_def Let_def)
  have "inj_on snd (set ?m)"
  proof (rule inj_onI)
    fix x y
    assume xy: "x \<in> set ?m" "y \<in> set ?m" "snd x = snd y"
    have "map_of ?m (fst z) = Some (snd z)" if "z \<in> set ?m" for z
      using that dist by (simp add: map_of_eq_Some_iff)
    then have "map_of ?m (fst x) = Some (snd x)" "map_of ?m (fst y) = Some (snd y)"
      using xy(1,2) by blast+
    then have v: "map_of ?m (fst x) = Some (snd x)" "map_of ?m (fst y) = Some (snd x)"
      by (simp_all add: xy(3))
    then obtain i where "bit (snd x) i"
      using used by blast
    then have "key i = fst x" "key i = fst y"
      using bits [OF v(1), of i] bits [OF v(2), of i] by blast+
    then show "x = y"
      using xy(3) by (simp add: prod_eq_iff)
  qed
  then have "distinct (core_masks t)"
    using dist by (simp add: t distinct_map)
  moreover have "i < length ?cpus \<longleftrightarrow> (\<exists>v \<in> set (core_masks t). bit v i)" for i
    using keys [of i] bits entry by blast
  moreover have "v \<noteq> 0 \<and> (\<forall>i j. bit v i \<longrightarrow> (bit v j \<longleftrightarrow> j < length ?cpus \<and> key j = key i))" if v: "v \<in> set (core_masks t)" for v
  proof -
    obtain k where k: "map_of ?m k = Some v"
      using v entry [of v] by blast
    have "v \<noteq> 0"
      using used [OF k] by auto
    then show ?thesis
      by (auto simp: bits [OF k])
  qed
  moreover have "0 < length ?cpus"
    using usable_cpus_nonempty [of affinity online] by simp
  ultimately show ?thesis
    unfolding t(1,3) using size bit_active_mask [OF size] by blast
qed

theorem core_masks_partition_witness:
  "\<exists>m \<in> set (core_masks (host_processor_topology None 3 (\<lambda>cpu. if cpu = 1 then (-1, -1) else (0, 5)))). bit m 2 \<and> bit m 0 \<and> \<not> bit m 1"
proof -
  let ?f = "\<lambda>cpu :: nat. if cpu = 1 then (-1, -1) else (0, 5) :: int \<times> int"
  let ?t = "host_processor_topology None 3 ?f"
  have cpus: "usable_cpus None 3 = [0, 1, 2]"
    by (simp add: usable_cpus_def eval_nat_numeral)
  have count: "logical_count ?t = 3"
    by (simp add: host_processor_topology_def cpus)
  note part = core_masks_partition [of None 3 ?f, unfolded cpus count]
  have "(2::nat) < 3"
    by simp
  then obtain m where m: "m \<in> set (core_masks ?t)" "bit m 2"
    using part by blast
  have same: "bit m j \<longleftrightarrow> j < 3 \<and> core_key ?f ([0, 1, 2] ! j) = core_key ?f ([0, 1, 2] ! 2)" for j
    using part m by blast
  have "bit m 0" "\<not> bit m 1"
    by (simp_all add: same core_key_def)
  then show ?thesis
    using m by blast
qed

text \<open>
  The two queries tell the length they need whenever the caller gives a length, fail without writing
  on a missing or short buffer, and otherwise write one record per core within the length supplied.
\<close>

theorem core_query_bounds:
  assumes "t = host_processor_topology affinity online topology_value"
  shows "let entry = (if extended then 48 else 32);
      a = (if extended then GetLogicalProcessorInformationEx t RelationProcessorCore has_buffer supplied
           else GetLogicalProcessorInformation t has_buffer supplied) in
    q_length a = map_option (\<lambda>_. length (core_masks t) * entry) supplied \<and>
    (q_error a = None \<longleftrightarrow> (\<exists>n. supplied = Some n \<and> has_buffer \<and> length (core_masks t) * entry \<le> n)) \<and>
    q_records a = (if q_error a = None then map core_record (core_masks t) else [])"
proof -
  let ?keys = "map (core_key topology_value) (usable_cpus affinity online)"
  have "length (core_masks t) = card (set (map fst (group_cores ?keys)))"
  proof -
    have "sorted_wrt (<) (map fst (group_cores ?keys))"
      using groupedD(1) [OF group_cores_grouped [of ?keys]] length_usable_cpus by simp
    then show ?thesis
      using assms distinct_card [of "map fst (group_cores ?keys)"]
      by (simp add: host_processor_topology_def Let_def strict_sorted_iff)
  qed
  also have "set (map fst (group_cores ?keys)) = set ?keys"
    using groupedD(2) [OF group_cores_grouped [of ?keys]] length_usable_cpus by (simp add: dom_map_of_conv_image_fst)
  also have "card (set ?keys) \<le> 64"
    using card_length [of ?keys] length_usable_cpus [of affinity online] by simp
  finally have "length (core_masks t) * 48 < 2 ^ 32" "length (core_masks t) * 32 < 2 ^ 32"
    by simp_all
  then show ?thesis
    by (auto simp: GetLogicalProcessorInformationEx_def GetLogicalProcessorInformation_def query_cores_def Let_def
        split: option.splits)
qed

theorem core_query_bounds_witness:
  "q_records (GetLogicalProcessorInformation (host_processor_topology None 2 (\<lambda>_. (0, 7))) True (Some 32)) = [(3, True)]"
proof -
  let ?t = "host_processor_topology None 2 (\<lambda>_. (0, 7))"
  have masks: "core_masks ?t = [3]"
    by (simp add: host_processor_topology_def usable_cpus_def core_key_def group_cores_def Let_def eval_nat_numeral)
  have "core_record 3 = (3, True)"
  proof -
    have "(3 :: u64) = mask 2"
      by (simp add: mask_eq_exp_minus_1)
    then have "{i. bit (3 :: u64) i} = {..<2}"
      by (simp only: bit_mask_iff) auto
    then show ?thesis
      by (simp only: core_record_def card_lessThan) simp
  qed
  then show ?thesis
    using core_query_bounds [OF refl, where extended = False and has_buffer = True and supplied = "Some 32"
        and affinity = None and online = 2 and topology_value = "\<lambda>_. (0, 7)"] by (simp add: masks Let_def)
qed

end
