(* ===== verification/Physics_Contacts.thy ===== *)
theory Physics_Contacts
  imports Transition
begin

text \<open>
  Contact callbacks of \<open>src/src/Physics.cpp\<close>. A session is constructed with a callback of the host; the
  library gets \<open>contact_impulse_bridge\<close> instead, which finds the callback by the world a contact happens in.
  \<open>contact_callbacks\<close> maps a session to its callback and \<open>contact_routes\<close> a world to its session and
  callback; both are guarded by \<open>contact_mutex\<close>, a region under which is one step. What the library itself
  does (construct, destroy, allocate, release) is a step of its own before or after, so other threads
  interleave, and it may reuse an address as soon as it has given it up.
\<close>

type_synonym thread = nat
type_synonym address = nat
type_synonym callback = nat

datatype contact_pc =
    Idle
  | Registering address callback   \<comment> \<open>\<open>HkSession_ctor\<close>, back from the library\<close>
  | Routing address address        \<comment> \<open>\<open>AllocateWorld\<close>, back from the library\<close>
  | Releasing address              \<comment> \<open>\<open>ReleaseWorld\<close>, about to call the library\<close>
  | Destroying address             \<comment> \<open>\<open>HkSession_dtor\<close>, about to call the library\<close>

text \<open>
  \<open>c_sessions\<close> and \<open>c_worlds\<close> are the library's: its live sessions with the callback of their
  \<open>HkSessionCinfo\<close>, and its live worlds with their session.
\<close>

record contacts =
  contact_callbacks :: "address \<rightharpoonup> callback"
  contact_routes :: "address \<rightharpoonup> address \<times> callback"
  c_sessions :: "address \<rightharpoonup> callback option"
  c_worlds :: "address \<rightharpoonup> address"
  c_pc :: "thread \<Rightarrow> contact_pc"

definition no_contacts :: contacts where
  "no_contacts = \<lparr>contact_callbacks = Map.empty, contact_routes = Map.empty, c_sessions = Map.empty,
     c_worlds = Map.empty, c_pc = (\<lambda>_. Idle)\<rparr>"

definition continue :: "thread \<Rightarrow> contact_pc \<Rightarrow> contacts \<Rightarrow> contacts" where
  "continue t p s = s\<lparr>c_pc := (c_pc s)(t := p)\<rparr>"

section \<open>The operations\<close>

text \<open>The callback a contact in \<open>world\<close> reaches.\<close>

definition contact_impulse_bridge :: "address \<Rightarrow> contacts \<Rightarrow> callback option" where
  "contact_impulse_bridge world s =
     (case contact_routes s world of Some route \<Rightarrow> Some (snd route) | None \<Rightarrow> None)"

text \<open>\<open>result\<close> is what the constructor of the library returns for a \<open>cinfo\<close> with this callback.\<close>

definition HkSession_ctor :: "thread \<Rightarrow> address option \<Rightarrow> callback option \<Rightarrow> contacts \<Rightarrow> contacts" where
  "HkSession_ctor t result callback s =
     (case result of
        None \<Rightarrow> s
      | Some session \<Rightarrow>
        continue t (case callback of Some c \<Rightarrow> Registering session c | None \<Rightarrow> Idle)
          (s\<lparr>c_sessions := (c_sessions s)(session \<mapsto> callback)\<rparr>))"

definition enter_callback :: "thread \<Rightarrow> address \<Rightarrow> callback \<Rightarrow> contacts \<Rightarrow> contacts" where
  "enter_callback t session c s =
     continue t Idle (s\<lparr>contact_callbacks := (contact_callbacks s)(session \<mapsto> c)\<rparr>)"

definition HkSession_dtor :: "thread \<Rightarrow> address \<Rightarrow> contacts \<Rightarrow> contacts" where
  "HkSession_dtor t session s =
     continue t (Destroying session)
       (s\<lparr>contact_routes := (\<lambda>w. case contact_routes s w of
            Some route \<Rightarrow> if fst route = session then None else Some route | None \<Rightarrow> None),
          contact_callbacks := (contact_callbacks s)(session := None)\<rparr>)"

definition AllocateWorld :: "thread \<Rightarrow> address \<Rightarrow> address option \<Rightarrow> contacts \<Rightarrow> contacts" where
  "AllocateWorld t session result s =
     (case result of
        None \<Rightarrow> s
      | Some world \<Rightarrow> continue t (Routing session world) (s\<lparr>c_worlds := (c_worlds s)(world \<mapsto> session)\<rparr>))"

definition enter_route :: "thread \<Rightarrow> address \<Rightarrow> address \<Rightarrow> contacts \<Rightarrow> contacts" where
  "enter_route t session world s =
     continue t Idle
       (case contact_callbacks s session of
          Some c \<Rightarrow> s\<lparr>contact_routes := (contact_routes s)(world \<mapsto> (session, c))\<rparr> | None \<Rightarrow> s)"

definition ReleaseWorld :: "thread \<Rightarrow> address \<Rightarrow> contacts \<Rightarrow> contacts" where
  "ReleaseWorld t world s =
     continue t (Releasing world) (s\<lparr>contact_routes := (contact_routes s)(world := None)\<rparr>)"

text \<open>The library's part: a world is given up, a session with all its worlds.\<close>

definition library_releases :: "thread \<Rightarrow> address \<Rightarrow> contacts \<Rightarrow> contacts" where
  "library_releases t world s = continue t Idle (s\<lparr>c_worlds := (c_worlds s)(world := None)\<rparr>)"

definition library_destroys :: "thread \<Rightarrow> address \<Rightarrow> contacts \<Rightarrow> contacts" where
  "library_destroys t session s =
     continue t Idle
       (s\<lparr>c_sessions := (c_sessions s)(session := None),
          c_worlds := (\<lambda>w. if c_worlds s w = Some session then None else c_worlds s w)\<rparr>)"

section \<open>Use of the library\<close>

text \<open>
  What the library asks of its caller: a session is used after its constructor returned and until its
  destructor is called, a world after its allocation returned and until its release is called, and a
  session is destroyed when no call on one of its worlds is under way.
\<close>

fun seizes :: "contact_pc \<Rightarrow> address option" where
  "seizes (Registering a c) = Some a"
| "seizes (Destroying a) = Some a"
| "seizes p = None"

fun handles :: "contact_pc \<Rightarrow> address option" where
  "handles (Routing a w) = Some w"
| "handles (Releasing w) = Some w"
| "handles p = None"

definition quiet_session :: "contacts \<Rightarrow> address \<Rightarrow> bool" where
  "quiet_session s a \<longleftrightarrow> (\<forall>u. seizes (c_pc s u) \<noteq> Some a)"

definition quiet_world :: "contacts \<Rightarrow> address \<Rightarrow> bool" where
  "quiet_world s w \<longleftrightarrow> (\<forall>u. handles (c_pc s u) \<noteq> Some w)"

inductive contact_step :: "contacts \<Rightarrow> contacts \<Rightarrow> bool" where
  construct: "c_pc s t = Idle \<Longrightarrow> (\<And>a. result = Some a \<Longrightarrow> c_sessions s a = None) \<Longrightarrow>
    contact_step s (HkSession_ctor t result callback s)"
| register: "c_pc s t = Registering a c \<Longrightarrow> contact_step s (enter_callback t a c s)"
| allocate: "c_pc s t = Idle \<Longrightarrow> c_sessions s a \<noteq> None \<Longrightarrow> quiet_session s a \<Longrightarrow>
    (\<And>w. result = Some w \<Longrightarrow> c_worlds s w = None) \<Longrightarrow> contact_step s (AllocateWorld t a result s)"
| route: "c_pc s t = Routing a w \<Longrightarrow> contact_step s (enter_route t a w s)"
| release: "c_pc s t = Idle \<Longrightarrow> c_worlds s w = Some a \<Longrightarrow> quiet_world s w \<Longrightarrow> quiet_session s a \<Longrightarrow>
    contact_step s (ReleaseWorld t w s)"
| released: "c_pc s t = Releasing w \<Longrightarrow> contact_step s (library_releases t w s)"
| destroy: "c_pc s t = Idle \<Longrightarrow> c_sessions s a \<noteq> None \<Longrightarrow> quiet_session s a \<Longrightarrow>
    (\<And>w. c_worlds s w = Some a \<Longrightarrow> quiet_world s w) \<Longrightarrow> contact_step s (HkSession_dtor t a s)"
| destroyed: "c_pc s t = Destroying a \<Longrightarrow> contact_step s (library_destroys t a s)"

section \<open>The routes are those of the live worlds\<close>

definition routes_live :: "contacts \<Rightarrow> bool" where
  "routes_live s \<longleftrightarrow> (\<forall>w a c. contact_routes s w = Some (a, c) \<longrightarrow> c_worlds s w = Some a \<and> c_sessions s a = Some (Some c))"

definition callbacks_live :: "contacts \<Rightarrow> bool" where
  "callbacks_live s \<longleftrightarrow> (\<forall>a c. contact_callbacks s a = Some c \<longrightarrow> c_sessions s a = Some (Some c))"

definition callbacks_known :: "contacts \<Rightarrow> bool" where
  "callbacks_known s \<longleftrightarrow>
     (\<forall>a c. c_sessions s a = Some (Some c) \<and> quiet_session s a \<longrightarrow> contact_callbacks s a = Some c)"

definition routes_known :: "contacts \<Rightarrow> bool" where
  "routes_known s \<longleftrightarrow>
     (\<forall>w a c. c_worlds s w = Some a \<and> c_sessions s a = Some (Some c) \<and> quiet_world s w \<and> quiet_session s a \<longrightarrow>
        contact_routes s w = Some (a, c))"

definition worlds_live :: "contacts \<Rightarrow> bool" where
  "worlds_live s \<longleftrightarrow> (\<forall>w a. c_worlds s w = Some a \<longrightarrow> c_sessions s a \<noteq> None)"

fun contact_place :: "contacts \<Rightarrow> contact_pc \<Rightarrow> bool" where
  "contact_place s Idle = True"
| "contact_place s (Registering a c) = (c_sessions s a = Some (Some c) \<and> (\<forall>w. c_worlds s w \<noteq> Some a))"
| "contact_place s (Routing a w) = (c_worlds s w = Some a)"
| "contact_place s (Releasing w) = (c_worlds s w \<noteq> None \<and> contact_routes s w = None)"
| "contact_place s (Destroying a) = (c_sessions s a \<noteq> None \<and> contact_callbacks s a = None \<and>
     (\<forall>w. c_worlds s w = Some a \<longrightarrow> contact_routes s w = None))"

definition places :: "contacts \<Rightarrow> bool" where
  "places s \<longleftrightarrow> (\<forall>u. contact_place s (c_pc s u))"

definition apart :: "contacts \<Rightarrow> bool" where
  "apart s \<longleftrightarrow>
     (\<forall>u v a. seizes (c_pc s u) = Some a \<and> seizes (c_pc s v) = Some a \<longrightarrow> u = v) \<and>
     (\<forall>u v w. handles (c_pc s u) = Some w \<and> handles (c_pc s v) = Some w \<longrightarrow> u = v) \<and>
     (\<forall>u v w a. handles (c_pc s u) = Some w \<and> c_worlds s w = Some a \<longrightarrow> seizes (c_pc s v) \<noteq> Some a)"

definition contacts_inv :: "contacts \<Rightarrow> bool" where
  "contacts_inv s \<longleftrightarrow> routes_live s \<and> callbacks_live s \<and> callbacks_known s \<and> routes_known s \<and> worlds_live s \<and>
     places s \<and> apart s"

lemma no_contacts_inv: "contacts_inv no_contacts"
  by (simp add: contacts_inv_def routes_live_def callbacks_live_def callbacks_known_def routes_known_def worlds_live_def
      places_def apart_def no_contacts_def)

lemmas contact_parts = routes_live_def callbacks_live_def callbacks_known_def routes_known_def worlds_live_def places_def

lemma continue_fields [simp]:
  "contact_callbacks (continue t p s) = contact_callbacks s" "contact_routes (continue t p s) = contact_routes s"
  "c_sessions (continue t p s) = c_sessions s" "c_worlds (continue t p s) = c_worlds s"
  "c_pc (continue t p s) = (c_pc s)(t := p)"
  by (simp_all add: continue_def)

lemma contacts_invD:
  assumes "contacts_inv s"
  shows "contact_routes s w = Some (a, c) \<Longrightarrow> c_worlds s w = Some a \<and> c_sessions s a = Some (Some c)"
    and "contact_callbacks s a = Some c \<Longrightarrow> c_sessions s a = Some (Some c)"
    and "c_sessions s a = Some (Some c) \<Longrightarrow> quiet_session s a \<Longrightarrow> contact_callbacks s a = Some c"
    and "c_worlds s w = Some a \<Longrightarrow> c_sessions s a = Some (Some c) \<Longrightarrow> quiet_world s w \<Longrightarrow> quiet_session s a \<Longrightarrow>
           contact_routes s w = Some (a, c)"
    and "c_worlds s w = Some a \<Longrightarrow> c_sessions s a \<noteq> None"
    and "contact_place s (c_pc s u)"
  using assms unfolding contacts_inv_def contact_parts by blast+

lemma apartD:
  assumes "contacts_inv s"
  shows "seizes (c_pc s u) = Some a \<Longrightarrow> seizes (c_pc s v) = Some a \<Longrightarrow> u = v"
    and "handles (c_pc s u) = Some w \<Longrightarrow> handles (c_pc s v) = Some w \<Longrightarrow> u = v"
    and "handles (c_pc s u) = Some w \<Longrightarrow> c_worlds s w = Some a \<Longrightarrow> seizes (c_pc s v) \<noteq> Some a"
  using assms unfolding contacts_inv_def apart_def by blast+

text \<open>Fewer calls and fewer worlds stay apart.\<close>

lemma apart_less:
  assumes "contacts_inv s"
    and "\<And>u a. seizes (c_pc s' u) = Some a \<Longrightarrow> seizes (c_pc s u) = Some a"
    and "\<And>u w. handles (c_pc s' u) = Some w \<Longrightarrow> handles (c_pc s u) = Some w"
    and "\<And>w a. c_worlds s' w = Some a \<Longrightarrow> c_worlds s w = Some a"
  shows "apart s'"
  unfolding apart_def by (meson assms apartD)

lemma contacts_invI:
  assumes "\<And>w a c. contact_routes s w = Some (a, c) \<Longrightarrow> c_worlds s w = Some a \<and> c_sessions s a = Some (Some c)"
    and "\<And>a c. contact_callbacks s a = Some c \<Longrightarrow> c_sessions s a = Some (Some c)"
    and "\<And>a c. c_sessions s a = Some (Some c) \<Longrightarrow> quiet_session s a \<Longrightarrow> contact_callbacks s a = Some c"
    and "\<And>w a c. c_worlds s w = Some a \<Longrightarrow> c_sessions s a = Some (Some c) \<Longrightarrow> quiet_world s w \<Longrightarrow>
           quiet_session s a \<Longrightarrow> contact_routes s w = Some (a, c)"
    and "\<And>w a. c_worlds s w = Some a \<Longrightarrow> c_sessions s a \<noteq> None"
    and "\<And>u. contact_place s (c_pc s u)"
    and "apart s"
  shows "contacts_inv s"
  using assms unfolding contacts_inv_def contact_parts by blast

lemma quiet_continue [simp]:
  "quiet_session (continue t p s) a \<longleftrightarrow> seizes p \<noteq> Some a \<and> (\<forall>u. u \<noteq> t \<longrightarrow> seizes (c_pc s u) \<noteq> Some a)"
  "quiet_world (continue t p s) w \<longleftrightarrow> handles p \<noteq> Some w \<and> (\<forall>u. u \<noteq> t \<longrightarrow> handles (c_pc s u) \<noteq> Some w)"
  by (auto simp: quiet_session_def quiet_world_def)

text \<open>A thread that is not at the session (or world) does not count.\<close>

lemma quiet_without:
  "seizes (c_pc s t) \<noteq> Some a \<Longrightarrow> (\<forall>u. u \<noteq> t \<longrightarrow> seizes (c_pc s u) \<noteq> Some a) = quiet_session s a"
  "handles (c_pc s t) \<noteq> Some w \<Longrightarrow> (\<forall>u. u \<noteq> t \<longrightarrow> handles (c_pc s u) \<noteq> Some w) = quiet_world s w"
  unfolding quiet_session_def quiet_world_def by metis+

lemma ctor_inv:
  assumes inv: "contacts_inv s" and idle: "c_pc s t = Idle" and fresh: "\<And>a. result = Some a \<Longrightarrow> c_sessions s a = None"
  shows "contacts_inv (HkSession_ctor t result callback s)"
proof (cases result)
  case (Some a)
  have none: "c_sessions s a = None"
    using fresh Some by blast
  have empty: "c_worlds s w \<noteq> Some a" for w
    using contacts_invD(5) [OF inv, of w a] none by blast
  have no_cb: "contact_callbacks s a = None"
    using contacts_invD(2) [OF inv, of a] none by (cases "contact_callbacks s a") auto
  have no_seize: "seizes (c_pc s u) \<noteq> Some a" for u
    using contacts_invD(6) [OF inv, of u] none by (cases "c_pc s u") auto
  show ?thesis
    unfolding HkSession_ctor_def Some option.case
  proof (rule contacts_invI, goal_cases)
    case (1 w b c)
    then show ?case
      using contacts_invD(1) [OF inv, of w b c] none by auto
  next
    case (2 b c)
    then show ?case
      using contacts_invD(2) [OF inv, of b c] none by auto
  next
    case (3 b c)
    then show ?case
      using contacts_invD(3) [OF inv, of b c] quiet_without(1) [of s t b] idle by (cases "b = a") auto
  next
    case (4 w b c)
    then show ?case
      using contacts_invD(4) [OF inv, of w b c] quiet_without(1) [of s t b] quiet_without(2) [of s t w] idle empty
      by (cases "b = a") auto
  next
    case (5 w b)
    then show ?case
      using contacts_invD(5) [OF inv, of w b] by auto
  next
    case (6 u)
    show ?case
      using contacts_invD(6) [OF inv, of u] none empty by (cases "c_pc s u") (auto split: option.splits)
  next
    case 7
    show ?case
      using apartD [OF inv] idle no_seize empty unfolding apart_def
      by (auto split: option.splits)
  qed
qed (use inv in \<open>simp add: HkSession_ctor_def\<close>)

lemma enter_callback_inv:
  assumes inv: "contacts_inv s" and at: "c_pc s t = Registering a c"
  shows "contacts_inv (enter_callback t a c s)"
proof -
  have sess: "c_sessions s a = Some (Some c)" and empty: "\<And>w. c_worlds s w \<noteq> Some a"
    using contacts_invD(6) [OF inv, of t] at by auto
  have mine: "seizes (c_pc s t) = Some a" "handles (c_pc s t) = None"
    using at by simp_all
  note without = quiet_without [of s t, unfolded mine]
  show ?thesis
    unfolding enter_callback_def
  proof (rule contacts_invI, goal_cases)
    case (1 w b d)
    then show ?case
      using contacts_invD(1) [OF inv, of w b d] by simp
  next
    case (2 b d)
    then show ?case
      using contacts_invD(2) [OF inv, of b d] sess by (auto split: if_splits)
  next
    case (3 b d)
    then show ?case
      using contacts_invD(3) [OF inv, of b d] without(1) [of b] sess by (cases "b = a") auto
  next
    case (4 w b d)
    then show ?case
      using contacts_invD(4) [OF inv, of w b d] without(1) [of b] without(2) [of w] empty [of w]
      by (cases "b = a") auto
  next
    case (5 w b)
    then show ?case
      using contacts_invD(5) [OF inv, of w b] by simp
  next
    case (6 u)
    show ?case
      using contacts_invD(6) [OF inv, of u] apartD(1) [OF inv mine(1), of u] by (cases "c_pc s u") (auto split: if_splits)
  next
    case 7
    show ?case
      by (rule apart_less [OF inv]) (auto split: if_splits)
  qed
qed

lemma dtor_inv:
  assumes inv: "contacts_inv s" and idle: "c_pc s t = Idle" and live: "c_sessions s a \<noteq> None"
    and quiet: "quiet_session s a" and worlds: "\<And>w. c_worlds s w = Some a \<Longrightarrow> quiet_world s w"
  shows "contacts_inv (HkSession_dtor t a s)"
proof -
  have mine: "seizes (c_pc s t) = None" "handles (c_pc s t) = None"
    using idle by simp_all
  note without = quiet_without [of s t, unfolded mine]
  show ?thesis
    unfolding HkSession_dtor_def
  proof (rule contacts_invI, goal_cases)
    case (1 w b d)
    then show ?case
      using contacts_invD(1) [OF inv, of w b d] by (auto split: option.splits if_splits)
  next
    case (2 b d)
    then show ?case
      using contacts_invD(2) [OF inv, of b d] by (auto split: if_splits)
  next
    case (3 b d)
    then show ?case
      using contacts_invD(3) [OF inv, of b d] without(1) [of b] by auto
  next
    case (4 w b d)
    then show ?case
      using contacts_invD(4) [OF inv, of w b d] without(1) [of b] without(2) [of w] by auto
  next
    case (5 w b)
    then show ?case
      using contacts_invD(5) [OF inv, of w b] by simp
  next
    case (6 u)
    have "seizes (c_pc s u) \<noteq> Some a"
      using quiet by (simp add: quiet_session_def)
    moreover have "b = a" if "c_worlds s w = Some a" "contact_routes s w = Some (b, d)" for w b d
      using contacts_invD(1) [OF inv that(2)] that(1) by simp
    ultimately show ?case
      using contacts_invD(6) [OF inv, of u] live
      by (cases "u = t"; cases "c_pc s u") (auto split: option.splits)
  next
    case 7
    have "handles (c_pc s u) \<noteq> Some w" if "c_worlds s w = Some a" for u w
      using worlds [OF that] by (simp add: quiet_world_def)
    then show ?case
      using apartD [OF inv] quiet unfolding apart_def quiet_session_def by auto
  qed
qed

lemma allocate_inv:
  assumes inv: "contacts_inv s" and idle: "c_pc s t = Idle" and live: "c_sessions s a \<noteq> None"
    and quiet: "quiet_session s a" and fresh: "\<And>w. result = Some w \<Longrightarrow> c_worlds s w = None"
  shows "contacts_inv (AllocateWorld t a result s)"
proof (cases result)
  case (Some v)
  have none: "c_worlds s v = None"
    using fresh Some by blast
  have mine: "seizes (c_pc s t) = None" "handles (c_pc s t) = None"
    using idle by simp_all
  note without = quiet_without [of s t, unfolded mine]
  have untouched: "handles (c_pc s u) \<noteq> Some v" for u
    using contacts_invD(6) [OF inv, of u] none by (cases "c_pc s u") auto
  have unrouted: "contact_routes s v = None"
    using contacts_invD(1) [OF inv, of v] none by (cases "contact_routes s v") auto
  have unseized: "seizes (c_pc s u) \<noteq> Some a" for u
    using quiet by (simp add: quiet_session_def)
  show ?thesis
    unfolding AllocateWorld_def Some option.case
  proof (rule contacts_invI, goal_cases)
    case (1 w b d)
    then show ?case
      using contacts_invD(1) [OF inv, of w b d] none by auto
  next
    case (2 b d)
    then show ?case
      using contacts_invD(2) [OF inv, of b d] by simp
  next
    case (3 b d)
    then show ?case
      using contacts_invD(3) [OF inv, of b d] without(1) [of b] by auto
  next
    case (4 w b d)
    then show ?case
      using contacts_invD(4) [OF inv, of w b d] without(1) [of b] without(2) [of w] by (auto split: if_splits)
  next
    case (5 w b)
    then show ?case
      using contacts_invD(5) [OF inv, of w b] live by (auto split: if_splits)
  next
    case (6 u)
    show ?case
      using contacts_invD(6) [OF inv, of u] unseized [of u] untouched [of u] unrouted
      by (cases "u = t"; cases "c_pc s u") auto
  next
    case 7
    show ?case
      using apartD [OF inv] idle unseized untouched unfolding apart_def
      by (auto split: if_splits)
  qed
qed (use inv in \<open>simp add: AllocateWorld_def\<close>)

lemma enter_route_inv:
  assumes inv: "contacts_inv s" and at: "c_pc s t = Routing a v"
  shows "contacts_inv (enter_route t a v s)"
proof -
  have world: "c_worlds s v = Some a"
    using contacts_invD(6) [OF inv, of t] at by simp
  have mine: "seizes (c_pc s t) = None" "handles (c_pc s t) = Some v"
    using at by simp_all
  note without = quiet_without [of s t, unfolded mine]
  have unseized: "seizes (c_pc s u) \<noteq> Some a" for u
    by (rule apartD(3) [OF inv mine(2) world])
  then have quiet: "quiet_session s a"
    by (simp add: quiet_session_def)
  have known: "contact_callbacks s a = Some c" if "c_sessions s a = Some (Some c)" for c
    using contacts_invD(3) [OF inv that quiet] .
  show ?thesis
    unfolding enter_route_def
  proof (rule contacts_invI, goal_cases)
    case (1 w b d)
    then show ?case
      using contacts_invD(1) [OF inv, of w b d] contacts_invD(2) [OF inv, of a d] world
      by (auto split: option.splits if_splits)
  next
    case (2 b d)
    then show ?case
      using contacts_invD(2) [OF inv, of b d] by (auto split: option.splits)
  next
    case (3 b d)
    then show ?case
      using contacts_invD(3) [OF inv, of b d] without(1) [of b] by (auto split: option.splits)
  next
    case (4 w b d)
    then show ?case
      using contacts_invD(4) [OF inv, of w b d] without(1) [of b] without(2) [of w] known [of d] world
      by (cases "w = v") (auto split: option.splits)
  next
    case (5 w b)
    then show ?case
      using contacts_invD(5) [OF inv, of w b] by (auto split: option.splits)
  next
    case (6 u)
    show ?case
    proof (cases "u = t")
      case False
      then have "handles (c_pc s u) \<noteq> Some v"
        using apartD(2) [OF inv _ mine(2)] by blast
      then show ?thesis
        using contacts_invD(6) [OF inv, of u] unseized [of u] world False
        by (cases "c_pc s u") (auto split: option.splits)
    qed simp
  next
    case 7
    show ?case
      by (rule apart_less [OF inv]) (auto split: if_splits option.splits)
  qed
qed

lemma release_inv:
  assumes inv: "contacts_inv s" and idle: "c_pc s t = Idle" and world: "c_worlds s v = Some a"
    and quiet: "quiet_world s v" "quiet_session s a"
  shows "contacts_inv (ReleaseWorld t v s)"
proof -
  have mine: "seizes (c_pc s t) = None" "handles (c_pc s t) = None"
    using idle by simp_all
  note without = quiet_without [of s t, unfolded mine]
  have untouched: "handles (c_pc s u) \<noteq> Some v" and unseized: "seizes (c_pc s u) \<noteq> Some a" for u
    using quiet by (simp_all add: quiet_world_def quiet_session_def)
  show ?thesis
    unfolding ReleaseWorld_def
  proof (rule contacts_invI, goal_cases)
    case (1 w b d)
    then show ?case
      using contacts_invD(1) [OF inv, of w b d] by (auto split: if_splits)
  next
    case (2 b d)
    then show ?case
      using contacts_invD(2) [OF inv, of b d] by simp
  next
    case (3 b d)
    then show ?case
      using contacts_invD(3) [OF inv, of b d] without(1) [of b] by auto
  next
    case (4 w b d)
    then show ?case
      using contacts_invD(4) [OF inv, of w b d] without(1) [of b] without(2) [of w] by auto
  next
    case (5 w b)
    then show ?case
      using contacts_invD(5) [OF inv, of w b] by simp
  next
    case (6 u)
    show ?case
      using contacts_invD(6) [OF inv, of u] world by (cases "u = t"; cases "c_pc s u") auto
  next
    case 7
    show ?case
      using apartD [OF inv] world untouched unseized unfolding apart_def by (auto split: if_splits)
  qed
qed

lemma library_releases_inv:
  assumes inv: "contacts_inv s" and at: "c_pc s t = Releasing v"
  shows "contacts_inv (library_releases t v s)"
proof -
  have unrouted: "contact_routes s v = None"
    using contacts_invD(6) [OF inv, of t] at by simp
  have mine: "seizes (c_pc s t) = None" "handles (c_pc s t) = Some v"
    using at by simp_all
  note without = quiet_without [of s t, unfolded mine]
  show ?thesis
    unfolding library_releases_def
  proof (rule contacts_invI, goal_cases)
    case (1 w b d)
    then show ?case
      using contacts_invD(1) [OF inv, of w b d] unrouted by auto
  next
    case (2 b d)
    then show ?case
      using contacts_invD(2) [OF inv, of b d] by simp
  next
    case (3 b d)
    then show ?case
      using contacts_invD(3) [OF inv, of b d] without(1) [of b] by auto
  next
    case (4 w b d)
    then show ?case
      using contacts_invD(4) [OF inv, of w b d] without(1) [of b] without(2) [of w] by (auto split: if_splits)
  next
    case (5 w b)
    then show ?case
      using contacts_invD(5) [OF inv, of w b] by (auto split: if_splits)
  next
    case (6 u)
    show ?case
    proof (cases "u = t")
      case False
      then have "handles (c_pc s u) \<noteq> Some v"
        using apartD(2) [OF inv _ mine(2)] by blast
      then show ?thesis
        using contacts_invD(6) [OF inv, of u] False by (cases "c_pc s u") auto
    qed simp
  next
    case 7
    show ?case
      by (rule apart_less [OF inv]) (auto split: if_splits)
  qed
qed

lemma library_destroys_inv:
  assumes inv: "contacts_inv s" and at: "c_pc s t = Destroying a"
  shows "contacts_inv (library_destroys t a s)"
proof -
  have gone: "contact_callbacks s a = None" "\<And>w. c_worlds s w = Some a \<Longrightarrow> contact_routes s w = None"
    using contacts_invD(6) [OF inv, of t] at by auto
  have mine: "seizes (c_pc s t) = Some a" "handles (c_pc s t) = None"
    using at by simp_all
  note without = quiet_without [of s t, unfolded mine]
  show ?thesis
    unfolding library_destroys_def
  proof (rule contacts_invI, goal_cases)
    case (1 w b d)
    then show ?case
      using contacts_invD(1) [OF inv, of w b d] gone(2) [of w] by auto
  next
    case (2 b d)
    then show ?case
      using contacts_invD(2) [OF inv, of b d] gone(1) by auto
  next
    case (3 b d)
    then show ?case
      using contacts_invD(3) [OF inv, of b d] without(1) [of b] by (auto split: if_splits)
  next
    case (4 w b d)
    then show ?case
      using contacts_invD(4) [OF inv, of w b d] without(1) [of b] without(2) [of w] by (auto split: if_splits)
  next
    case (5 w b)
    then show ?case
      using contacts_invD(5) [OF inv, of w b] by (auto split: if_splits)
  next
    case (6 u)
    show ?case
    proof (cases "u = t")
      case False
      then have "seizes (c_pc s u) \<noteq> Some a"
        using apartD(1) [OF inv _ mine(1)] by blast
      moreover have "c_worlds s w \<noteq> Some a" if "handles (c_pc s u) = Some w" for w
        using apartD(3) [OF inv that, of a t] mine(1) by blast
      ultimately show ?thesis
        using contacts_invD(6) [OF inv, of u] False by (cases "c_pc s u") auto
    qed simp
  next
    case 7
    show ?case
      by (rule apart_less [OF inv]) (auto split: if_splits)
  qed
qed

lemma contact_step_inv: "contact_step s s' \<Longrightarrow> contacts_inv s \<Longrightarrow> contacts_inv s'"
  by (induction rule: contact_step.induct)
    (blast intro: ctor_inv enter_callback_inv allocate_inv enter_route_inv release_inv library_releases_inv dtor_inv
      library_destroys_inv)+

interpretation contact_routing: invariant_system contact_step "\<lambda>s. s = no_contacts" contacts_inv
  by unfold_locales (simp_all add: no_contacts_inv contact_step_inv)

end
