(* ===== verification/Havok_Callbacks.thy ===== *)
theory Havok_Callbacks
  imports Transition
begin

text \<open>
  The callbacks of \<open>src/src/Havok.cpp\<close>. The library gets bridges; where a bridge finds the function of the
  host depends on the callback: most have one slot that is set once and for all
  (\<open>register_static_callback\<close>), those of a phantom shape are kept by shape, and a reader that is only called
  during one call of the library is kept in a slot under a mutex for that long.
\<close>

type_synonym thread = nat
type_synonym shape = nat

section \<open>Static callbacks\<close>

text \<open>Null is 0. A registration gives the library null, the bridge, or ends the process.\<close>

datatype registered = Null_pointer | Bridge_pointer | Aborted

definition register_static_callback :: "nat \<Rightarrow> nat \<Rightarrow> registered \<times> nat" where
  "register_static_callback target slot =
     (if target = 0 then (Null_pointer, slot)
      else if slot = 0 then (Bridge_pointer, target)
      else if slot \<noteq> target then (Aborted, slot)
      else (Bridge_pointer, slot))"

text \<open>What a bridge calls; without a target it ends the process.\<close>

definition static_bridge :: "nat \<Rightarrow> nat option" where
  "static_bridge slot = (if slot = 0 then None else Some slot)"

text \<open>Registrations of one name, in the order of their exchanges.\<close>

fun register_all :: "nat list \<Rightarrow> nat \<Rightarrow> registered list \<times> nat" where
  "register_all [] slot = ([], slot)"
| "register_all (target # targets) slot =
     (case register_static_callback target slot of (r, slot) \<Rightarrow>
        if r = Aborted then ([r], slot) else (case register_all targets slot of (rs, slot) \<Rightarrow> (r # rs, slot)))"

definition agreeing :: "nat list \<Rightarrow> nat \<Rightarrow> bool" where
  "agreeing targets slot \<longleftrightarrow> (\<exists>f. (slot = 0 \<or> slot = f) \<and> set targets \<subseteq> {0, f})"

lemma agreeing_Cons:
  "agreeing (target # targets) slot \<longleftrightarrow>
     fst (register_static_callback target slot) \<noteq> Aborted \<and> agreeing targets (snd (register_static_callback target slot))"
  by (auto simp: agreeing_def register_static_callback_def)

lemma register_all_agreeing: "Aborted \<notin> set (fst (register_all targets slot)) \<longleftrightarrow> agreeing targets slot"
proof (induction targets arbitrary: slot)
  case Nil
  show ?case
    by (auto simp: agreeing_def)
next
  case (Cons target targets)
  show ?case
  proof (cases "register_static_callback target slot")
    case (Pair r slot')
    then show ?thesis
      using Cons.IH [of slot'] by (cases "register_all targets slot'") (auto simp: agreeing_Cons)
  qed
qed

lemma register_all_keeps: "slot \<noteq> 0 \<Longrightarrow> snd (register_all targets slot) = slot"
proof (induction targets)
  case (Cons target targets)
  then have "snd (register_static_callback target slot) = slot" "snd (register_all targets slot) = slot"
    by (simp_all add: register_static_callback_def)
  then show ?case
    by (cases "register_static_callback target slot"; cases "register_all targets slot") simp
qed simp

text \<open>
  Whoever registers a target, at whatever time: either all targets of the name agree and every bridge that
  was given out calls the target, or the process ends at the first that differs.
\<close>

lemma static_callbacks_agree:
  "(Aborted \<notin> set (fst (register_all targets 0)) \<longleftrightarrow> agreeing targets 0) \<and>
   (agreeing targets 0 \<longrightarrow> f \<in> set targets \<longrightarrow> f \<noteq> 0 \<longrightarrow> static_bridge (snd (register_all targets 0)) = Some f)"
proof -
  have "snd (register_all targets slot) = f"
    if "agreeing targets slot" "f \<in> set targets" "f \<noteq> 0" for slot
    using that
  proof (induction targets arbitrary: slot)
    case (Cons target targets)
    obtain r slot' where reg: "register_static_callback target slot = (r, slot')"
      by (cases "register_static_callback target slot")
    have ok: "r \<noteq> Aborted" "agreeing targets slot'"
      using Cons.prems(1) reg by (simp_all add: agreeing_Cons)
    then have step: "snd (register_all (target # targets) slot) = snd (register_all targets slot')"
      using reg by (simp split: prod.splits)
    show ?case
    proof (cases "f \<in> set targets")
      case True
      then show ?thesis
        using Cons.IH [OF ok(2)] Cons.prems(3) step by simp
    next
      case False
      then have "slot' = f"
        using Cons.prems reg ok(1) by (auto simp: register_static_callback_def split: if_splits)
      then show ?thesis
        using step register_all_keeps [of slot' targets] Cons.prems(3) by simp
    qed
  qed simp
  then show ?thesis
    using register_all_agreeing [of targets 0] by (simp add: static_bridge_def)
qed

section \<open>Phantom shapes\<close>

text \<open>The functions of the host; \<open>None\<close> is null.\<close>

record phantom_callback_shape_binding =
  b_enter :: "nat option"
  b_leave :: "nat option"
  b_del :: "nat option"

datatype phantom_pc =
    Outside
  | Registering shape phantom_callback_shape_binding   \<comment> \<open>\<open>HkPhantomCallbackShape_Create\<close>, back from the library\<close>
  | Deleting shape                                     \<comment> \<open>the library, after the delete callback\<close>

text \<open>\<open>p_live\<close> is the library's: its live shapes with the callbacks they were created for.\<close>

record phantoms =
  g_phantom_shape_bindings :: "shape \<rightharpoonup> phantom_callback_shape_binding"
  p_live :: "shape \<rightharpoonup> phantom_callback_shape_binding"
  p_pc :: "thread \<Rightarrow> phantom_pc"

definition no_phantoms :: phantoms where
  "no_phantoms = \<lparr>g_phantom_shape_bindings = Map.empty, p_live = Map.empty, p_pc = (\<lambda>_. Outside)\<rparr>"

text \<open>The callbacks, or nothing where the process ends; the binding is erased when \<open>remove\<close>.\<close>

definition get_phantom_callbacks :: "shape \<Rightarrow> bool \<Rightarrow> phantoms \<Rightarrow> phantom_callback_shape_binding option \<times> phantoms" where
  "get_phantom_callbacks shape remove s =
     (case g_phantom_shape_bindings s shape of
        None \<Rightarrow> (None, s)
      | Some callbacks \<Rightarrow>
        (Some callbacks,
         if remove then s\<lparr>g_phantom_shape_bindings := (g_phantom_shape_bindings s)(shape := None)\<rparr> else s))"

definition register_phantom_callbacks :: "shape \<Rightarrow> phantom_callback_shape_binding \<Rightarrow> phantoms \<Rightarrow> phantoms" where
  "register_phantom_callbacks shape callbacks s =
     s\<lparr>g_phantom_shape_bindings := (g_phantom_shape_bindings s)(shape \<mapsto> callbacks)\<rparr>"

definition move_phantom :: "thread \<Rightarrow> phantom_pc \<Rightarrow> phantoms \<Rightarrow> phantoms" where
  "move_phantom t p s = s\<lparr>p_pc := (p_pc s)(t := p)\<rparr>"

text \<open>\<open>result\<close> is the shape the library creates, or null; null is not registered.\<close>

definition HkPhantomCallbackShape_Create ::
    "thread \<Rightarrow> shape option \<Rightarrow> phantom_callback_shape_binding \<Rightarrow> phantoms \<Rightarrow> phantoms" where
  "HkPhantomCallbackShape_Create t result callbacks s =
     (case result of
        None \<Rightarrow> s
      | Some shape \<Rightarrow> move_phantom t (Registering shape callbacks) (s\<lparr>p_live := (p_live s)(shape \<mapsto> callbacks)\<rparr>))"

text \<open>The function a bridge calls; the outer \<open>None\<close> is the end of the process.\<close>

definition phantom_enter_bridge :: "shape \<Rightarrow> phantoms \<Rightarrow> nat option option" where
  "phantom_enter_bridge shape s = map_option b_enter (fst (get_phantom_callbacks shape False s))"

definition phantom_leave_bridge :: "shape \<Rightarrow> phantoms \<Rightarrow> nat option option" where
  "phantom_leave_bridge shape s = map_option b_leave (fst (get_phantom_callbacks shape False s))"

definition phantom_delete_bridge :: "shape \<Rightarrow> phantoms \<Rightarrow> nat option option \<times> phantoms" where
  "phantom_delete_bridge shape s =
     (case get_phantom_callbacks shape True s of (callbacks, s) \<Rightarrow> (map_option b_del callbacks, s))"

text \<open>
  The library deletes a shape: it calls the bridge if it was given one, and then frees the memory, whose
  address may be the next shape's.
\<close>

definition library_deletes :: "thread \<Rightarrow> shape \<Rightarrow> phantom_callback_shape_binding \<Rightarrow> phantoms \<Rightarrow> phantoms" where
  "library_deletes t shape callbacks s =
     move_phantom t (Deleting shape) (if b_del callbacks = None then s else snd (phantom_delete_bridge shape s))"

definition library_frees :: "thread \<Rightarrow> shape \<Rightarrow> phantoms \<Rightarrow> phantoms" where
  "library_frees t shape s = move_phantom t Outside (s\<lparr>p_live := (p_live s)(shape := None)\<rparr>)"

fun subject :: "phantom_pc \<Rightarrow> shape option" where
  "subject Outside = None"
| "subject (Registering shape callbacks) = Some shape"
| "subject (Deleting shape) = Some shape"

text \<open>A shape in use: created for the caller and not being deleted.\<close>

definition usable :: "phantoms \<Rightarrow> shape \<Rightarrow> phantom_callback_shape_binding \<Rightarrow> bool" where
  "usable s shape callbacks \<longleftrightarrow> p_live s shape = Some callbacks \<and> (\<forall>u. subject (p_pc s u) \<noteq> Some shape)"

inductive phantom_step :: "phantoms \<Rightarrow> phantoms \<Rightarrow> bool" where
  creates: "p_pc s t = Outside \<Longrightarrow> (\<And>shape. result = Some shape \<Longrightarrow> p_live s shape = None) \<Longrightarrow>
    phantom_step s (HkPhantomCallbackShape_Create t result callbacks s)"
| registers: "p_pc s t = Registering shape callbacks \<Longrightarrow>
    phantom_step s (move_phantom t Outside (register_phantom_callbacks shape callbacks s))"
| deletes: "p_pc s t = Outside \<Longrightarrow> usable s shape callbacks \<Longrightarrow> phantom_step s (library_deletes t shape callbacks s)"
| frees: "p_pc s t = Deleting shape \<Longrightarrow> phantom_step s (library_frees t shape s)"

subsection \<open>The bindings are those of the live shapes\<close>

text \<open>A binding of a shape that is gone is one whose deletion the library did not report.\<close>

fun phantom_place :: "phantoms \<Rightarrow> phantom_pc \<Rightarrow> bool" where
  "phantom_place s Outside = True"
| "phantom_place s (Registering shape callbacks) = (p_live s shape = Some callbacks)"
| "phantom_place s (Deleting shape) =
     (p_live s shape \<noteq> None \<and> pred_option (\<lambda>b. b_del b = None) (g_phantom_shape_bindings s shape))"

definition phantoms_inv :: "phantoms \<Rightarrow> bool" where
  "phantoms_inv s \<longleftrightarrow>
     (\<forall>shape callbacks. usable s shape callbacks \<longrightarrow> g_phantom_shape_bindings s shape = Some callbacks) \<and>
     (\<forall>shape. p_live s shape = None \<longrightarrow> pred_option (\<lambda>b. b_del b = None) (g_phantom_shape_bindings s shape)) \<and>
     (\<forall>u. phantom_place s (p_pc s u)) \<and>
     (\<forall>u v shape. subject (p_pc s u) = Some shape \<longrightarrow> subject (p_pc s v) = Some shape \<longrightarrow> u = v)"

lemma phantoms_invD:
  assumes "phantoms_inv s"
  shows "usable s shape callbacks \<Longrightarrow> g_phantom_shape_bindings s shape = Some callbacks"
    and "p_live s shape = None \<Longrightarrow> pred_option (\<lambda>b. b_del b = None) (g_phantom_shape_bindings s shape)"
    and "phantom_place s (p_pc s u)"
    and "subject (p_pc s u) = Some shape \<Longrightarrow> subject (p_pc s v) = Some shape \<Longrightarrow> u = v"
  using assms unfolding phantoms_inv_def by blast+

lemma phantoms_invI:
  assumes "\<And>shape callbacks. usable s shape callbacks \<Longrightarrow> g_phantom_shape_bindings s shape = Some callbacks"
    and "\<And>shape. p_live s shape = None \<Longrightarrow> pred_option (\<lambda>b. b_del b = None) (g_phantom_shape_bindings s shape)"
    and "\<And>u. phantom_place s (p_pc s u)"
    and "\<And>u v shape. subject (p_pc s u) = Some shape \<Longrightarrow> subject (p_pc s v) = Some shape \<Longrightarrow> u = v"
  shows "phantoms_inv s"
  using assms unfolding phantoms_inv_def by blast

lemma move_phantom_fields [simp]:
  "g_phantom_shape_bindings (move_phantom t p s) = g_phantom_shape_bindings s" "p_live (move_phantom t p s) = p_live s"
  "p_pc (move_phantom t p s) = (p_pc s)(t := p)"
  by (simp_all add: move_phantom_def)

text \<open>A step of a thread at another shape changes nothing about the use of a shape.\<close>

lemma usable_moved:
  assumes "usable (move_phantom t p s') b c"
  shows "p_live s' b = Some c" and "subject p \<noteq> Some b"
    and "subject (p_pc s t) \<noteq> Some b \<Longrightarrow> p_pc s' = p_pc s \<Longrightarrow> p_live s' b = p_live s b \<Longrightarrow> usable s b c"
proof -
  have each: "subject (((p_pc s')(t := p)) u) \<noteq> Some b" for u
    using assms by (simp add: usable_def)
  show "p_live s' b = Some c"
    using assms by (simp add: usable_def)
  show "subject p \<noteq> Some b"
    using each [of t] by simp
  show "usable s b c" if "subject (p_pc s t) \<noteq> Some b" "p_pc s' = p_pc s" "p_live s' b = p_live s b"
  proof -
    have "subject (p_pc s u) \<noteq> Some b" for u
      using each [of u] that by (cases "u = t") auto
    then show ?thesis
      using assms that by (simp add: usable_def)
  qed
qed

lemma creates_inv:
  assumes inv: "phantoms_inv s" and out: "p_pc s t = Outside" and fresh: "\<And>a. result = Some a \<Longrightarrow> p_live s a = None"
  shows "phantoms_inv (HkPhantomCallbackShape_Create t result callbacks s)"
proof (cases result)
  case (Some a)
  have none: "p_live s a = None"
    using fresh Some by blast
  have absent: "subject (p_pc s u) \<noteq> Some a" for u
    using phantoms_invD(3) [OF inv, of u] none by (cases "p_pc s u") auto
  show ?thesis
    unfolding HkPhantomCallbackShape_Create_def Some option.case
  proof (rule phantoms_invI, goal_cases)
    case (1 b c)
    then have "b \<noteq> a"
      using usable_moved(2) [OF 1] by auto
    then show ?case
      using phantoms_invD(1) [OF inv usable_moved(3) [OF 1]] out by simp
  next
    case (2 b)
    then show ?case
      using phantoms_invD(2) [OF inv, of b] by (auto split: if_splits)
  next
    case (3 u)
    show ?case
      using phantoms_invD(3) [OF inv, of u] none by (cases "u = t"; cases "p_pc s u") auto
  next
    case (4 u v b)
    then show ?case
      using phantoms_invD(4) [OF inv, of u b v] absent by (auto split: if_splits)
  qed
qed (use inv in \<open>simp add: HkPhantomCallbackShape_Create_def\<close>)

lemma registers_inv:
  assumes inv: "phantoms_inv s" and at: "p_pc s t = Registering a callbacks"
  shows "phantoms_inv (move_phantom t Outside (register_phantom_callbacks a callbacks s))"
proof -
  have live: "p_live s a = Some callbacks"
    using phantoms_invD(3) [OF inv, of t] at by simp
  have mine: "subject (p_pc s t) = Some a"
    using at by simp
  show ?thesis
    unfolding register_phantom_callbacks_def
  proof (rule phantoms_invI, goal_cases)
    case (1 b c)
    show ?case
    proof (cases "b = a")
      case False
      then show ?thesis
        using phantoms_invD(1) [OF inv usable_moved(3) [OF 1]] mine by simp
    qed (use usable_moved(1) [OF 1] live in simp)
  next
    case (2 b)
    then show ?case
      using phantoms_invD(2) [OF inv, of b] live by auto
  next
    case (3 u)
    show ?case
    proof (cases "u = t")
      case False
      then have "subject (p_pc s u) \<noteq> Some a"
        using phantoms_invD(4) [OF inv _ mine] by blast
      then show ?thesis
        using phantoms_invD(3) [OF inv, of u] False by (cases "p_pc s u") auto
    qed simp
  next
    case (4 u v b)
    then show ?case
      using phantoms_invD(4) [OF inv, of u b v] by (auto split: if_splits)
  qed
qed

lemma phantom_deletes_inv:
  assumes inv: "phantoms_inv s" and out: "p_pc s t = Outside" and use: "usable s a callbacks"
  shows "phantoms_inv (library_deletes t a callbacks s)"
proof -
  have live: "p_live s a = Some callbacks" and absent: "subject (p_pc s u) \<noteq> Some a" for u
    using use by (simp_all add: usable_def)
  have bound: "g_phantom_shape_bindings s a = Some callbacks"
    by (rule phantoms_invD(1) [OF inv use])
  define s' where "s' = (if b_del callbacks = None then s else snd (phantom_delete_bridge a s))"
  have s': "p_live s' = p_live s" "p_pc s' = p_pc s" "b \<noteq> a \<Longrightarrow> g_phantom_shape_bindings s' b = g_phantom_shape_bindings s b"
    "pred_option (\<lambda>b. b_del b = None) (g_phantom_shape_bindings s' a)" for b
    using bound by (simp_all add: s'_def phantom_delete_bridge_def get_phantom_callbacks_def)
  have del: "library_deletes t a callbacks s = move_phantom t (Deleting a) s'"
    by (simp add: library_deletes_def s'_def)
  show ?thesis
    unfolding del
  proof (rule phantoms_invI, goal_cases)
    case (1 b c)
    then have "b \<noteq> a"
      using usable_moved(2) [OF 1] by auto
    then show ?case
      using phantoms_invD(1) [OF inv usable_moved(3) [OF 1]] out by (simp add: s')
  next
    case (2 b)
    then show ?case
      using phantoms_invD(2) [OF inv, of b] live by (cases "b = a") (auto simp: s')
  next
    case (3 u)
    show ?case
    proof (cases "u = t")
      case False
      then show ?thesis
        using phantoms_invD(3) [OF inv, of u] absent [of u] by (cases "p_pc s u") (auto simp: s')
    qed (use live s'(4) in \<open>simp add: s'\<close>)
  next
    case (4 u v b)
    then show ?case
      using phantoms_invD(4) [OF inv, of u b v] absent by (auto simp: s' split: if_splits)
  qed
qed

lemma frees_inv:
  assumes inv: "phantoms_inv s" and at: "p_pc s t = Deleting a"
  shows "phantoms_inv (library_frees t a s)"
proof -
  have place: "pred_option (\<lambda>b. b_del b = None) (g_phantom_shape_bindings s a)"
    using phantoms_invD(3) [OF inv, of t] at by simp
  have mine: "subject (p_pc s t) = Some a"
    using at by simp
  show ?thesis
    unfolding library_frees_def
  proof (rule phantoms_invI, goal_cases)
    case (1 b c)
    then have "b \<noteq> a"
      using usable_moved(1) [OF 1] by auto
    then show ?case
      using phantoms_invD(1) [OF inv usable_moved(3) [OF 1]] mine by simp
  next
    case (2 b)
    then show ?case
      using phantoms_invD(2) [OF inv, of b] place by (cases "b = a") auto
  next
    case (3 u)
    show ?case
    proof (cases "u = t")
      case False
      then have "subject (p_pc s u) \<noteq> Some a"
        using phantoms_invD(4) [OF inv _ mine] by blast
      then show ?thesis
        using phantoms_invD(3) [OF inv, of u] False by (cases "p_pc s u") auto
    qed simp
  next
    case (4 u v b)
    then show ?case
      using phantoms_invD(4) [OF inv, of u b v] by (auto split: if_splits)
  qed
qed

lemma no_phantoms_inv: "phantoms_inv no_phantoms"
  by (simp add: phantoms_inv_def usable_def no_phantoms_def)

lemma phantom_step_inv: "phantom_step s s' \<Longrightarrow> phantoms_inv s \<Longrightarrow> phantoms_inv s'"
  by (induction rule: phantom_step.induct) (blast intro: creates_inv registers_inv phantom_deletes_inv frees_inv)+

interpretation phantom_shapes: invariant_system phantom_step "\<lambda>s. s = no_phantoms" phantoms_inv
  by unfold_locales (simp_all add: no_phantoms_inv phantom_step_inv)

section \<open>A reader for the time of a call\<close>

text \<open>
  \<open>HkConstraint_FindConnectedConstraints\<close>: the reader is stored under a mutex, the library calls the bridge
  any number of times, and the slot is cleared before the mutex is released.
\<close>

datatype reader_pc =
    Ready
  | Locking nat
  | Locked nat
  | In_library nat
  | Leaving

record reader_slot =
  g_constraint_reader_target :: nat
  g_constraint_reader_mutex :: "thread option"
  q_pc :: "thread \<Rightarrow> reader_pc"

definition empty_slot :: reader_slot where
  "empty_slot = \<lparr>g_constraint_reader_target = 0, g_constraint_reader_mutex = None, q_pc = (\<lambda>_. Ready)\<rparr>"

definition go_on :: "thread \<Rightarrow> reader_pc \<Rightarrow> reader_slot \<Rightarrow> reader_slot" where
  "go_on t p s = s\<lparr>q_pc := (q_pc s)(t := p)\<rparr>"

definition HkConstraint_FindConnectedConstraints :: "thread \<Rightarrow> nat \<Rightarrow> reader_slot \<Rightarrow> reader_slot" where
  "HkConstraint_FindConnectedConstraints t reader s = go_on t (Locking reader) s"

definition lock_reader :: "thread \<Rightarrow> nat \<Rightarrow> reader_slot \<Rightarrow> reader_slot" where
  "lock_reader t reader s = go_on t (Locked reader) (s\<lparr>g_constraint_reader_mutex := Some t\<rparr>)"

definition store_reader :: "thread \<Rightarrow> nat \<Rightarrow> reader_slot \<Rightarrow> reader_slot" where
  "store_reader t reader s = go_on t (In_library reader) (s\<lparr>g_constraint_reader_target := reader\<rparr>)"

definition clear_reader :: "thread \<Rightarrow> reader_slot \<Rightarrow> reader_slot" where
  "clear_reader t s = go_on t Leaving (s\<lparr>g_constraint_reader_target := 0\<rparr>)"

definition unlock_reader :: "thread \<Rightarrow> reader_slot \<Rightarrow> reader_slot" where
  "unlock_reader t s = go_on t Ready (s\<lparr>g_constraint_reader_mutex := None\<rparr>)"

text \<open>The function the bridge calls; \<open>None\<close> is the end of the process.\<close>

definition constraint_reader_bridge :: "reader_slot \<Rightarrow> nat option" where
  "constraint_reader_bridge s = static_bridge (g_constraint_reader_target s)"

inductive reader_step :: "reader_slot \<Rightarrow> reader_slot \<Rightarrow> bool" where
  calls: "q_pc s t = Ready \<Longrightarrow> reader_step s (HkConstraint_FindConnectedConstraints t reader s)"
| locks: "q_pc s t = Locking reader \<Longrightarrow> g_constraint_reader_mutex s = None \<Longrightarrow> reader_step s (lock_reader t reader s)"
| stores: "q_pc s t = Locked reader \<Longrightarrow> reader_step s (store_reader t reader s)"
| clears: "q_pc s t = In_library reader \<Longrightarrow> reader_step s (clear_reader t s)"
| unlocks: "q_pc s t = Leaving \<Longrightarrow> reader_step s (unlock_reader t s)"

fun inside :: "reader_pc \<Rightarrow> bool" where
  "inside Ready = False"
| "inside (Locking r) = False"
| "inside p = True"

definition reader_inv :: "reader_slot \<Rightarrow> bool" where
  "reader_inv s \<longleftrightarrow>
     (\<forall>t. inside (q_pc s t) \<longleftrightarrow> g_constraint_reader_mutex s = Some t) \<and>
     (\<forall>t r. q_pc s t = In_library r \<longrightarrow> g_constraint_reader_target s = r) \<and>
     ((\<forall>t r. q_pc s t \<noteq> In_library r) \<longrightarrow> g_constraint_reader_target s = 0)"

lemma reader_invD:
  assumes "reader_inv s"
  shows "inside (q_pc s t) \<longleftrightarrow> g_constraint_reader_mutex s = Some t"
    and "q_pc s t = In_library r \<Longrightarrow> g_constraint_reader_target s = r"
    and "(\<And>t r. q_pc s t \<noteq> In_library r) \<Longrightarrow> g_constraint_reader_target s = 0"
  using assms unfolding reader_inv_def by blast+

lemma reader_invI:
  assumes "\<And>t. inside (q_pc s t) \<longleftrightarrow> g_constraint_reader_mutex s = Some t"
    and "\<And>t r. q_pc s t = In_library r \<Longrightarrow> g_constraint_reader_target s = r"
    and "(\<And>t r. q_pc s t \<noteq> In_library r) \<Longrightarrow> g_constraint_reader_target s = 0"
  shows "reader_inv s"
  using assms unfolding reader_inv_def by blast

lemma go_on_fields [simp]:
  "g_constraint_reader_target (go_on t p s) = g_constraint_reader_target s"
  "g_constraint_reader_mutex (go_on t p s) = g_constraint_reader_mutex s"
  "q_pc (go_on t p s) = (q_pc s)(t := p)"
  by (simp_all add: go_on_def)

lemma in_library_alone:
  assumes "reader_inv s" and "inside (q_pc s t)" and "q_pc s u = In_library r"
  shows "u = t"
  using reader_invD(1) [OF assms(1), of t] reader_invD(1) [OF assms(1), of u] assms(2,3) by simp

lemma reader_step_inv: "reader_step s s' \<Longrightarrow> reader_inv s \<Longrightarrow> reader_inv s'"
proof (induction rule: reader_step.induct)
  case (calls s t reader)
  note d = reader_invD [OF calls.prems]
  show ?case
    using calls.hyps d(1) [of t] d(1,2) d(3) unfolding reader_inv_def HkConstraint_FindConnectedConstraints_def
    by (auto split: if_splits) (metis reader_pc.distinct)
next
  case (locks s t reader)
  note d = reader_invD [OF locks.prems]
  show ?case
    using locks.hyps d(1,2) d(3) unfolding reader_inv_def lock_reader_def
    by (auto split: if_splits) (metis reader_pc.distinct)
next
  case (stores s t reader)
  note d = reader_invD [OF stores.prems]
  have alone: "u = t" if "q_pc s u = In_library r" for u r
    by (rule in_library_alone [OF stores.prems _ that]) (simp add: stores.hyps)
  show ?case
    unfolding store_reader_def
  proof (rule reader_invI, goal_cases)
    case (1 u)
    show ?case
      using d(1) [of u] d(1) [of t] stores.hyps by (cases "u = t") auto
  next
    case (2 u r)
    then show ?case
      using alone [of u r] by (cases "u = t") auto
  next
    case 3
    show ?case
      using 3 [of t reader] by simp
  qed
next
  case (clears s t reader)
  note d = reader_invD [OF clears.prems]
  have alone: "u = t" if "q_pc s u = In_library r" for u r
    by (rule in_library_alone [OF clears.prems _ that]) (simp add: clears.hyps)
  show ?case
    unfolding clear_reader_def
  proof (rule reader_invI, goal_cases)
    case (1 u)
    show ?case
      using d(1) [of u] d(1) [of t] clears.hyps by (cases "u = t") auto
  next
    case (2 u r)
    then show ?case
      using alone [of u r] by (cases "u = t") auto
  next
    case 3
    show ?case
      by simp
  qed
next
  case (unlocks s t)
  note d = reader_invD [OF unlocks.prems]
  have alone: "u = t" if "q_pc s u = In_library r" for u r
    by (rule in_library_alone [OF unlocks.prems _ that]) (simp add: unlocks.hyps)
  show ?case
    unfolding unlock_reader_def
  proof (rule reader_invI, goal_cases)
    case (1 u)
    show ?case
      using d(1) [of u] d(1) [of t] unlocks.hyps by (cases "u = t") auto
  next
    case (2 u r)
    then show ?case
      using alone [of u r] by (cases "u = t") auto
  next
    case 3
    show ?case
    proof -
      have "q_pc s u \<noteq> In_library r" for u r
        using alone [of u r] unlocks.hyps by auto
      then show ?thesis
        using d(3) by simp
    qed
  qed
qed

lemma empty_slot_inv: "reader_inv empty_slot"
  by (simp add: reader_inv_def empty_slot_def)

interpretation reader_slots: invariant_system reader_step "\<lambda>s. s = empty_slot" reader_inv
  by unfold_locales (simp_all add: empty_slot_inv reader_step_inv)

lemma nested_call_waits:
  assumes "reader_inv s" and "q_pc s t = In_library r"
  shows "g_constraint_reader_mutex s = Some t"
  using reader_invD(1) [OF assms(1), of t] assms(2) by simp

text \<open>\<open>HkShapeLoader_CleanupShapesBuffer\<close> takes the same steps on a slot and a mutex of its own.\<close>

definition HkShapeLoader_CleanupShapesBuffer :: "thread \<Rightarrow> nat \<Rightarrow> reader_slot \<Rightarrow> reader_slot" where
  "HkShapeLoader_CleanupShapesBuffer t returnByteArray s = go_on t (Locking returnByteArray) s"

end
