(* ===== verification/Native_Properties.thy ===== *)
theory Native_Properties
  imports Physics_Contacts Havok_Callbacks
begin

text \<open>What the callback bridges of \<open>Physics.cpp\<close> and \<open>Havok.cpp\<close> promise, whatever the threads interleave.\<close>

section \<open>Contacts\<close>

text \<open>
  C16: A contact of a world never reaches the callback of another session, although sessions and worlds may
  get the addresses of earlier ones at any time: a callback that is found is the one the session of that
  live world was constructed with. And as soon as the calls on a world and on its session have returned,
  contacts in it reach exactly the callback of its session, none if it has none.
\<close>

theorem contacts_reach_their_session:
  assumes "contact_step\<^sup>*\<^sup>* no_contacts s"
  shows "(contact_impulse_bridge w s = Some c \<longrightarrow>
      (\<exists>a. c_worlds s w = Some a \<and> c_sessions s a = Some (Some c))) \<and>
    (c_worlds s w = Some a \<and> c_sessions s a = Some callback \<and> quiet_world s w \<and> quiet_session s a \<longrightarrow>
      contact_impulse_bridge w s = callback)"
proof -
  have inv: "contacts_inv s"
    using contact_routing.reachable_inv [OF assms] by simp
  note route = contacts_invD(1) [OF inv]
  have found: "\<exists>a. c_worlds s w = Some a \<and> c_sessions s a = Some (Some c)" if "contact_impulse_bridge w s = Some c" for c
    using that route [of w] by (auto simp: contact_impulse_bridge_def split: option.splits)
  have "contact_impulse_bridge w s = callback"
    if w: "c_worlds s w = Some a" and a: "c_sessions s a = Some callback" and q: "quiet_world s w" "quiet_session s a"
  proof (cases callback)
    case None
    then show ?thesis
      using found w a by (cases "contact_impulse_bridge w s") auto
  next
    case (Some c)
    then show ?thesis
      using contacts_invD(4) [OF inv w _ q] a by (simp add: contact_impulse_bridge_def)
  qed
  with found show ?thesis
    by blast
qed

text \<open>
  A session at 16 with callback 7 and a world at 32 end; the next session at 16 has no callback, and its
  world is at 32 again.
\<close>

lemmas next_contact = converse_rtranclp_into_rtranclp [where r = contact_step]

definition sample_contacts :: contacts where
  "sample_contacts = \<lparr>contact_callbacks = [16 \<mapsto> 7], contact_routes = [32 \<mapsto> (16, 7)], c_sessions = [16 \<mapsto> Some 7],
     c_worlds = [32 \<mapsto> 16], c_pc = (\<lambda>_. Idle)\<rparr>"

lemma sample_contacts_reachable: "contact_step\<^sup>*\<^sup>* no_contacts sample_contacts"
proof -
  let ?s1 = "HkSession_ctor 0 (Some 16) (Some 7) no_contacts"
  let ?s2 = "enter_callback 0 16 7 ?s1"
  let ?s3 = "AllocateWorld 0 16 (Some 32) ?s2"
  let ?s4 = "enter_route 0 16 32 ?s3"
  note defs = no_contacts_def HkSession_ctor_def enter_callback_def AllocateWorld_def enter_route_def
  have 1: "contact_step no_contacts ?s1"
    by (rule construct) (simp_all add: no_contacts_def)
  have 2: "contact_step ?s1 ?s2"
    by (rule register) (simp add: defs)
  have 3: "contact_step ?s2 ?s3"
    by (rule allocate) (simp_all add: defs quiet_session_def)
  have 4: "contact_step ?s3 ?s4"
    by (rule route) (simp add: defs)
  have "?s4 = sample_contacts"
    by (simp add: defs continue_def sample_contacts_def fun_eq_iff)
  then show ?thesis
    using 1 2 3 4 by (auto intro: next_contact)
qed

definition sample_reused :: contacts where
  "sample_reused = \<lparr>contact_callbacks = Map.empty, contact_routes = Map.empty, c_sessions = [16 \<mapsto> None],
     c_worlds = [32 \<mapsto> 16], c_pc = (\<lambda>_. Idle)\<rparr>"

lemma sample_reused_reachable: "contact_step\<^sup>*\<^sup>* sample_contacts sample_reused"
proof -
  let ?s1 = "HkSession_dtor 0 16 sample_contacts"
  let ?s2 = "library_destroys 0 16 ?s1"
  let ?s3 = "HkSession_ctor 0 (Some 16) None ?s2"
  let ?s4 = "AllocateWorld 0 16 (Some 32) ?s3"
  let ?s5 = "enter_route 0 16 32 ?s4"
  note defs = sample_contacts_def HkSession_dtor_def library_destroys_def HkSession_ctor_def AllocateWorld_def
    enter_route_def
  have 1: "contact_step sample_contacts ?s1"
    by (rule destroy) (simp_all add: sample_contacts_def quiet_session_def quiet_world_def)
  have 2: "contact_step ?s1 ?s2"
    by (rule destroyed) (simp add: defs)
  have 3: "contact_step ?s2 ?s3"
    by (rule construct) (simp_all add: defs)
  have 4: "contact_step ?s3 ?s4"
    by (rule allocate) (simp_all add: defs quiet_session_def)
  have 5: "contact_step ?s4 ?s5"
    by (rule route) (simp add: defs)
  have "?s5 = sample_reused"
    by (simp add: defs continue_def sample_reused_def fun_eq_iff)
  then show ?thesis
    using 1 2 3 4 5 by (auto intro: next_contact)
qed

theorem contacts_reach_their_session_witness:
  "contact_impulse_bridge 32 sample_contacts = Some 7 \<and> contact_impulse_bridge 32 sample_reused = None"
proof -
  have "contact_impulse_bridge 32 sample_contacts = Some 7"
    using contacts_reach_their_session [OF sample_contacts_reachable, of 32 7 16 "Some 7"]
    by (simp add: sample_contacts_def quiet_session_def quiet_world_def)
  moreover have "contact_impulse_bridge 32 sample_reused = None"
    using contacts_reach_their_session [OF rtranclp_trans [OF sample_contacts_reachable sample_reused_reachable], of 32 7 16 None]
    by (simp add: sample_reused_def quiet_session_def quiet_world_def)
  ultimately show ?thesis
    by blast
qed

section \<open>Phantom shapes\<close>

text \<open>
  C20: From the return of \<open>HkPhantomCallbackShape_Create\<close> until its deletion is reported, the bridges of a
  phantom shape call the functions it was created with, and never end the process for an unknown shape;
  once the deletion of a shape has been reported nothing of it is left for a later shape at its address.
\<close>

theorem phantom_callbacks_own:
  assumes "phantom_step\<^sup>*\<^sup>* no_phantoms s"
  shows "(usable s shape callbacks \<longrightarrow>
      phantom_enter_bridge shape s = Some (b_enter callbacks) \<and>
      phantom_leave_bridge shape s = Some (b_leave callbacks) \<and>
      fst (phantom_delete_bridge shape s) = Some (b_del callbacks)) \<and>
    (p_live s shape = None \<and> g_phantom_shape_bindings s shape = Some callbacks \<longrightarrow> b_del callbacks = None)"
proof -
  have inv: "phantoms_inv s"
    using phantom_shapes.reachable_inv [OF assms] by simp
  show ?thesis
    using phantoms_invD(1) [OF inv, of shape callbacks] phantoms_invD(2) [OF inv, of shape]
    by (auto simp: phantom_enter_bridge_def phantom_leave_bridge_def phantom_delete_bridge_def get_phantom_callbacks_def)
qed

text \<open>A shape at 64 with all three functions.\<close>

definition sample_binding :: phantom_callback_shape_binding where
  "sample_binding = \<lparr>b_enter = Some 1, b_leave = Some 2, b_del = Some 3\<rparr>"

definition sample_phantoms :: phantoms where
  "sample_phantoms = \<lparr>g_phantom_shape_bindings = [64 \<mapsto> sample_binding], p_live = [64 \<mapsto> sample_binding], p_pc = (\<lambda>_. Outside)\<rparr>"

lemma sample_phantoms_reachable: "phantom_step\<^sup>*\<^sup>* no_phantoms sample_phantoms"
proof -
  let ?s1 = "HkPhantomCallbackShape_Create 0 (Some 64) sample_binding no_phantoms"
  let ?s2 = "move_phantom 0 Outside (register_phantom_callbacks 64 sample_binding ?s1)"
  note defs = no_phantoms_def HkPhantomCallbackShape_Create_def register_phantom_callbacks_def move_phantom_def
  have 1: "phantom_step no_phantoms ?s1"
    by (rule creates) (simp_all add: no_phantoms_def)
  have 2: "phantom_step ?s1 ?s2"
    by (rule registers) (simp add: defs)
  have "?s2 = sample_phantoms"
    by (simp add: defs sample_phantoms_def fun_eq_iff)
  then show ?thesis
    using 1 2 by (auto intro: converse_rtranclp_into_rtranclp [where r = phantom_step])
qed

theorem phantom_callbacks_own_witness: "phantom_leave_bridge 64 sample_phantoms = Some (Some 2)"
  using phantom_callbacks_own [OF sample_phantoms_reachable, of 64 sample_binding]
  by (simp add: usable_def sample_phantoms_def sample_binding_def)

section \<open>Readers\<close>

text \<open>
  Of several threads in \<open>HkConstraint_FindConnectedConstraints\<close> one at a time is in the library, and what
  the bridge calls then is the reader of that very call; between the calls the slot is empty.
\<close>

theorem readers_apart:
  assumes "reader_step\<^sup>*\<^sup>* empty_slot s"
  shows "(q_pc s t = In_library reader \<and> reader \<noteq> 0 \<longrightarrow> constraint_reader_bridge s = Some reader) \<and>
    (q_pc s t = In_library reader \<and> q_pc s u = In_library reader' \<longrightarrow> t = u) \<and>
    ((\<forall>u r. q_pc s u \<noteq> In_library r) \<longrightarrow> constraint_reader_bridge s = None)"
proof -
  have inv: "reader_inv s"
    using reader_slots.reachable_inv [OF assms] by simp
  have "t = u" if "q_pc s t = In_library reader" "q_pc s u = In_library reader'"
    using in_library_alone [OF inv _ that(2), of t] that(1) by simp
  then show ?thesis
    using reader_invD(2) [OF inv, of t reader] reader_invD(3) [OF inv]
    by (auto simp: constraint_reader_bridge_def static_bridge_def)
qed

definition sample_reading :: reader_slot where
  "sample_reading = \<lparr>g_constraint_reader_target = 9, g_constraint_reader_mutex = Some 0, q_pc = (\<lambda>_. Ready)(0 := In_library 9, 1 := Locking 5)\<rparr>"

lemma sample_reading_reachable: "reader_step\<^sup>*\<^sup>* empty_slot sample_reading"
proof -
  let ?s1 = "HkConstraint_FindConnectedConstraints 0 9 empty_slot"
  let ?s2 = "HkConstraint_FindConnectedConstraints 1 5 ?s1"
  let ?s3 = "lock_reader 0 9 ?s2"
  let ?s4 = "store_reader 0 9 ?s3"
  note defs = empty_slot_def HkConstraint_FindConnectedConstraints_def lock_reader_def store_reader_def
  have 1: "reader_step empty_slot ?s1" and 2: "reader_step ?s1 ?s2"
    by (rule calls, simp add: defs)+
  have 3: "reader_step ?s2 ?s3"
    by (rule locks) (simp_all add: defs)
  have 4: "reader_step ?s3 ?s4"
    by (rule stores) (simp add: defs)
  have "?s4 = sample_reading"
    by (simp add: defs go_on_def sample_reading_def fun_eq_iff)
  then show ?thesis
    using 1 2 3 4 by (auto intro: converse_rtranclp_into_rtranclp [where r = reader_step])
qed

theorem readers_apart_witness: "constraint_reader_bridge sample_reading = Some 9"
  using readers_apart [OF sample_reading_reachable, of 0 9] by (simp add: sample_reading_def)

end
