(* ===== verification/Physics_Bridges.thy ===== *)
theory Physics_Bridges
  imports Prelude
begin

text \<open>
  Character controllers and callbacks of \<open>src/src/Physics.cpp\<close>. The host calls the virtual functions of a
  character controller with the System V convention, the library with the Microsoft one.
  \<open>bridge_character_vtable\<close> gives an object a table of bridges that convert; \<open>SetBodyInfo\<close>, which calls
  virtual functions itself, gives it the original table back first. Callbacks of the host that the library
  calls are kept in one slot each, and the library gets a bridge that calls what the slot holds.
\<close>

section \<open>Character controllers\<close>

text \<open>
  A bridge is a function \<open>character_...\<close>: its parameters after the object, the entry whose code it calls
  (the template argument of \<open>character_call\<close>), and what it passes after the object.
\<close>

datatype bridge_argument = Parameter nat | Constant nat

record character_bridge =
  b_parameters :: "string list"
  b_index :: nat
  b_arguments :: "bridge_argument list"

definition character_bridges :: "(string \<times> character_bridge) list" where
  "character_bridges =
    [(''character_dtor'', \<lparr>b_parameters = [], b_index = 0, b_arguments = [Constant 0]\<rparr>),
     (''character_set_support_distance'', \<lparr>b_parameters = [''float''], b_index = 1, b_arguments = [Parameter 0]\<rparr>),
     (''character_get_support_distance'', \<lparr>b_parameters = [], b_index = 2, b_arguments = []\<rparr>),
     (''character_set_sticky_factor'', \<lparr>b_parameters = [''float''], b_index = 3, b_arguments = [Parameter 0]\<rparr>),
     (''character_get_sticky_factor'', \<lparr>b_parameters = [], b_index = 4, b_arguments = []\<rparr>),
     (''character_set_transform'', \<lparr>b_parameters = [''void *''], b_index = 5, b_arguments = [Parameter 0]\<rparr>),
     (''character_get_transform'', \<lparr>b_parameters = [], b_index = 6, b_arguments = []\<rparr>),
     (''character_set_velocities'', \<lparr>b_parameters = [''void *''], b_index = 7, b_arguments = [Parameter 0]\<rparr>),
     (''character_get_velocities'', \<lparr>b_parameters = [''void *''], b_index = 8, b_arguments = [Parameter 0]\<rparr>),
     (''character_add_to_world'', \<lparr>b_parameters = [''int32_t'', ''int32_t''], b_index = 9, b_arguments = [Parameter 0, Parameter 1]\<rparr>),
     (''character_remove_from_world'', \<lparr>b_parameters = [''int32_t''], b_index = 10, b_arguments = [Parameter 0]\<rparr>),
     (''character_set_floating'', \<lparr>b_parameters = [''uint8_t''], b_index = 11, b_arguments = [Parameter 0]\<rparr>),
     (''character_set_shape'', \<lparr>b_parameters = [''void *''], b_index = 12, b_arguments = [Parameter 0]\<rparr>),
     (''character_get_support_contacts'', \<lparr>b_parameters = [''void *''], b_index = 13, b_arguments = [Parameter 0]\<rparr>),
     (''character_get_body'', \<lparr>b_parameters = [''void *''], b_index = 14, b_arguments = [Parameter 0]\<rparr>),
     (''character_detach_from_body'', \<lparr>b_parameters = [], b_index = 15, b_arguments = []\<rparr>),
     (''character_migrate'', \<lparr>b_parameters = [''void *'', ''uint64_t''], b_index = 16, b_arguments = [Parameter 0, Parameter 1]\<rparr>),
     (''character_pre_migrate'', \<lparr>b_parameters = [], b_index = 17, b_arguments = []\<rparr>),
     (''character_post_migrate'', \<lparr>b_parameters = [''void *''], b_index = 18, b_arguments = [Parameter 0]\<rparr>)]"

text \<open>The array \<open>bridges\<close>, in its order.\<close>

definition bridges :: "string list" where
  "bridges =
    [''character_dtor'', ''character_set_support_distance'', ''character_get_support_distance'',
     ''character_set_sticky_factor'', ''character_get_sticky_factor'', ''character_set_transform'',
     ''character_get_transform'', ''character_set_velocities'', ''character_get_velocities'',
     ''character_add_to_world'', ''character_remove_from_world'', ''character_set_floating'',
     ''character_set_shape'', ''character_get_support_contacts'', ''character_get_body'',
     ''character_detach_from_body'', ''character_migrate'', ''character_pre_migrate'',
     ''character_post_migrate'']"

text \<open>An entry of a table is code of the library or one of the bridges.\<close>

datatype entry_point = Library_code nat | Character_bridge string

text \<open>The table of a class, \<open>character_vtable\<close> or \<open>character_original_vtable\<close>.\<close>

datatype vtable_pointer = Class_table nat | Bridged_table | Original_table

record characters =
  character_original_vtable :: "entry_point list"
  character_vtable :: "entry_point list"
  character_vtable_once :: bool
  v_pointer :: "nat \<Rightarrow> vtable_pointer"

definition vtable_length :: nat where "vtable_length = 20"

abbreviation bridged_length :: nat where "bridged_length \<equiv> length bridges"

definition table_entries :: "(nat \<Rightarrow> entry_point list) \<Rightarrow> characters \<Rightarrow> vtable_pointer \<Rightarrow> entry_point list" where
  "table_entries classes s v =
     (case v of
        Class_table k \<Rightarrow> classes k
      | Bridged_table \<Rightarrow> character_vtable s
      | Original_table \<Rightarrow> character_original_vtable s)"

text \<open>The tables are filled once, from the first object; every object gets the same ones.\<close>

definition bridge_character_vtable :: "(nat \<Rightarrow> entry_point list) \<Rightarrow> nat \<Rightarrow> characters \<Rightarrow> characters" where
  "bridge_character_vtable classes i s =
     (let s = (if character_vtable_once s then s
               else let original = take vtable_length (table_entries classes s (v_pointer s i)) in
                 s\<lparr>character_original_vtable := original,
                   character_vtable := map Character_bridge bridges @ drop bridged_length original,
                   character_vtable_once := True\<rparr>)
      in s\<lparr>v_pointer := (v_pointer s)(i := Bridged_table)\<rparr>)"

text \<open>The library returns an object \<open>i\<close>, to which its constructor gave the table of its class \<open>k\<close>, or null.\<close>

definition Create :: "(nat \<Rightarrow> entry_point list) \<Rightarrow> (nat \<times> nat) option \<Rightarrow> characters \<Rightarrow> characters" where
  "Create classes result s =
     (case result of
        None \<Rightarrow> s
      | Some (i, k) \<Rightarrow> bridge_character_vtable classes i (s\<lparr>v_pointer := (v_pointer s)(i := Class_table k)\<rparr>))"

definition HkCharacterController_SetBodyInfo :: "nat \<Rightarrow> characters \<Rightarrow> characters" where
  "HkCharacterController_SetBodyInfo i s = s\<lparr>v_pointer := (v_pointer s)(i := Original_table)\<rparr>"

text \<open>
  A virtual call: code that runs with its own convention and with which arguments, code that runs with the
  other convention, a bridge called with other parameters than it has, or no entry.
\<close>

datatype virtual_call = Runs nat "nat list" | Wrong_convention | Wrong_parameters | No_entry

definition library_code :: "entry_point list \<Rightarrow> nat \<Rightarrow> nat list \<Rightarrow> virtual_call" where
  "library_code entries j args =
     (if j < length entries then (case entries ! j of Library_code p \<Rightarrow> Runs p args | Character_bridge m \<Rightarrow> Wrong_convention)
      else No_entry)"

definition bridge_values :: "character_bridge \<Rightarrow> nat list \<Rightarrow> nat list" where
  "bridge_values b args = map (\<lambda>a. case a of Parameter n \<Rightarrow> args ! n | Constant c \<Rightarrow> c) (b_arguments b)"

definition character_call :: "characters \<Rightarrow> string \<Rightarrow> nat \<Rightarrow> nat list \<Rightarrow> virtual_call" where
  "character_call s m i args =
     (case map_of character_bridges m of
        None \<Rightarrow> No_entry
      | Some b \<Rightarrow>
        if length args = length (b_parameters b)
        then library_code (character_original_vtable s) (b_index b) (i # bridge_values b args)
        else Wrong_parameters)"

definition host_call :: "(nat \<Rightarrow> entry_point list) \<Rightarrow> characters \<Rightarrow> nat \<Rightarrow> nat \<Rightarrow> nat list \<Rightarrow> virtual_call" where
  "host_call classes s i j args =
     (let entries = table_entries classes s (v_pointer s i) in
      if j < length entries
      then (case entries ! j of Library_code p \<Rightarrow> Wrong_convention | Character_bridge m \<Rightarrow> character_call s m i args)
      else No_entry)"

definition library_call :: "(nat \<Rightarrow> entry_point list) \<Rightarrow> characters \<Rightarrow> nat \<Rightarrow> nat \<Rightarrow> nat list \<Rightarrow> virtual_call" where
  "library_call classes s i j args = library_code (table_entries classes s (v_pointer s i)) j (i # args)"

subsection \<open>Sequences of calls\<close>

text \<open>\<open>Created i k\<close>: \<open>Create\<close> returned the object \<open>i\<close>, of class \<open>k\<close>; objects may be of different classes.\<close>

datatype controller_event = Created nat nat | Body_info nat

definition no_characters :: "(nat \<Rightarrow> vtable_pointer) \<Rightarrow> characters" where
  "no_characters v = \<lparr>character_original_vtable = [], character_vtable = [], character_vtable_once = False, v_pointer = v\<rparr>"

fun character_event :: "(nat \<Rightarrow> entry_point list) \<Rightarrow> controller_event \<Rightarrow> characters \<Rightarrow> characters" where
  "character_event classes (Created i k) s = Create classes (Some (i, k)) s"
| "character_event classes (Body_info i) s = HkCharacterController_SetBodyInfo i s"

lemmas character_event_defs = character_event.simps Create_def bridge_character_vtable_def
  HkCharacterController_SetBodyInfo_def Let_def

declare character_event.simps [simp del]

definition after_events :: "(nat \<Rightarrow> entry_point list) \<Rightarrow> controller_event list \<Rightarrow> characters \<Rightarrow> characters" where
  "after_events classes events s = fold (character_event classes) events s"

text \<open>A class of controllers: twenty entries, all of them code of the library.\<close>

definition controller_class :: "entry_point list \<Rightarrow> nat list \<Rightarrow> bool" where
  "controller_class entries code \<longleftrightarrow> length code = vtable_length \<and> take vtable_length entries = map Library_code code"

text \<open>The class of the first object that was created.\<close>

fun first_class :: "controller_event list \<Rightarrow> nat option" where
  "first_class [] = None"
| "first_class (Created i k # events) = Some k"
| "first_class (Body_info i # events) = first_class events"

lemma first_class_append: "first_class (es @ fs) = (case first_class es of None \<Rightarrow> first_class fs | Some k \<Rightarrow> Some k)"
  by (induction es rule: first_class.induct) simp_all

text \<open>The tables hold the code of that class, and never change after the first object.\<close>

definition tables_made :: "(nat \<Rightarrow> entry_point list) \<Rightarrow> nat option \<Rightarrow> characters \<Rightarrow> bool" where
  "tables_made classes first s \<longleftrightarrow>
     (case first of
        None \<Rightarrow> \<not> character_vtable_once s
      | Some k \<Rightarrow> character_vtable_once s \<and> character_original_vtable s = take vtable_length (classes k) \<and>
          character_vtable s = map Character_bridge bridges @ drop bridged_length (take vtable_length (classes k)))"

lemma events_snoc: "after_events classes (es @ [e]) s = character_event classes e (after_events classes es s)"
  by (simp add: after_events_def)

lemma event_tables_made:
  assumes "tables_made classes (first_class es) s"
  shows "tables_made classes (first_class (es @ [e])) (character_event classes e s)"
  using assms
  by (cases e; cases "first_class es") (simp_all add: tables_made_def character_event_defs table_entries_def first_class_append)

lemma events_tables_made: "tables_made classes (first_class events) (after_events classes events (no_characters v))"
proof (induction events rule: rev_induct)
  case Nil
  then show ?case
    by (simp add: after_events_def tables_made_def no_characters_def)
next
  case (snoc e es)
  then show ?case
    unfolding events_snoc by (rule event_tables_made)
qed

fun about :: "controller_event \<Rightarrow> nat" where
  "about (Created i k) = i"
| "about (Body_info i) = i"

text \<open>The last event about an object decides which table it has.\<close>

lemma event_pointer:
  "v_pointer (character_event classes e s) i =
     (if about e = i then (case e of Created i k \<Rightarrow> Bridged_table | Body_info i \<Rightarrow> Original_table) else v_pointer s i)"
  by (cases e) (auto simp: character_event_defs)

lemma events_untouched: "i \<notin> about ` set es \<Longrightarrow> v_pointer (after_events classes es s) i = v_pointer s i"
  by (induction es rule: rev_induct) (auto simp: after_events_def event_pointer)

lemma last_event_pointer:
  assumes "i \<notin> about ` set later"
  shows "v_pointer (after_events classes (earlier @ e # later) s) i =
    (if about e = i then (case e of Created i k \<Rightarrow> Bridged_table | Body_info i \<Rightarrow> Original_table)
     else v_pointer (after_events classes earlier s) i)"
proof -
  have "after_events classes (earlier @ e # later) s = after_events classes later (after_events classes (earlier @ [e]) s)"
    by (simp add: after_events_def)
  then show ?thesis
    using assms by (simp add: events_untouched events_snoc event_pointer)
qed

subsection \<open>Calls\<close>

text \<open>Each bridge stands in the array where the entry is that it calls, and passes on what it gets.\<close>

lemma bridge_at:
  assumes "j < bridged_length"
  obtains b where "map_of character_bridges (bridges ! j) = Some b" and "b_index b = j"
    and "\<forall>args. length args = length (b_parameters b) \<longrightarrow> bridge_values b args = (if j = 0 then [0] else args)"
proof -
  have "list_all (\<lambda>j. case map_of character_bridges (bridges ! j) of
      None \<Rightarrow> False
    | Some b \<Rightarrow> b_index b = j \<and> b_arguments b = (if j = 0 then [Constant 0] else map Parameter [0..<length (b_parameters b)]))
    [0..<bridged_length]"
    by code_simp
  then obtain b where b: "map_of character_bridges (bridges ! j) = Some b" "b_index b = j"
    "b_arguments b = (if j = 0 then [Constant 0] else map Parameter [0..<length (b_parameters b)])"
    using assms by (auto simp: list_all_iff split: option.splits dest!: bspec [where x = j])
  show ?thesis
  proof (rule that [OF b(1,2)], intro allI impI)
    fix args :: "nat list"
    assume "length args = length (b_parameters b)"
    then show "bridge_values b args = (if j = 0 then [0] else args)"
      using b(3) map_nth [of args] by (auto simp: bridge_values_def comp_def)
  qed
qed

definition bridge_arity :: "nat \<Rightarrow> nat" where
  "bridge_arity j = (case map_of character_bridges (bridges ! j) of None \<Rightarrow> 0 | Some b \<Rightarrow> length (b_parameters b))"

lemma character_call_runs:
  assumes "j < bridged_length" and "length args = bridge_arity j"
  shows "character_call s (bridges ! j) i args =
    library_code (character_original_vtable s) j (i # (if j = 0 then [0] else args))"
proof -
  obtain b where b: "map_of character_bridges (bridges ! j) = Some b" "b_index b = j"
    "\<forall>args. length args = length (b_parameters b) \<longrightarrow> bridge_values b args = (if j = 0 then [0] else args)"
    using bridge_at [OF assms(1)] by blast
  then show ?thesis
    using assms(2) b(3) [THEN spec [of _ args]] by (simp add: character_call_def bridge_arity_def)
qed

text \<open>
  C19: The tables are those of the first character controller that was created, of a class with code
  \<open>code\<close>, and are shared by the objects of all classes. From the creation of an object of any class until
  \<open>SetBodyInfo\<close> a host call of an entry below 19, with the parameters of its bridge, runs the code of the
  \<^emph>\<open>first\<close> object's class at that entry with its own convention, on the object and the arguments of the call in
  their order (the destructor, entry 0, on the flag 0); entry 19 has no bridge and runs library code as it is.
  Calls the library makes after \<open>SetBodyInfo\<close> run the code of the first object's class at each of the 20
  entries. That is the own code of an object when its class has the same table; \<open>other_class_runs_first\<close> shows
  that it is not otherwise.
\<close>

theorem character_calls_converted:
  assumes "first_class (earlier @ e # later) = Some first" and "controller_class (classes first) code"
    and "i \<notin> about ` set later"
  shows "let s = after_events classes (earlier @ e # later) (no_characters v) in
    (\<forall>k. e = Created i k \<longrightarrow>
       (\<forall>j < 19. \<forall>args. length args = bridge_arity j \<longrightarrow>
          host_call classes s i j args = Runs (code ! j) (i # (if j = 0 then [0] else args))) \<and>
       (\<forall>args. host_call classes s i 19 args = Wrong_convention)) \<and>
    (e = Body_info i \<longrightarrow> (\<forall>j < 20. \<forall>args. library_call classes s i j args = Runs (code ! j) (i # args)))"
proof -
  let ?s = "after_events classes (earlier @ e # later) (no_characters v)"
  have len: "length code = 20" and code: "take vtable_length (classes first) = map Library_code code"
    using assms(2) by (simp_all add: controller_class_def vtable_length_def)
  have bridged: "bridged_length = 19"
    by (simp add: bridges_def)
  have tables: "character_original_vtable ?s = map Library_code code"
    "character_vtable ?s = map Character_bridge bridges @ drop 19 (map Library_code code)"
    using events_tables_made [of classes "earlier @ e # later" v] by (simp_all add: tables_made_def assms(1) code bridged)
  have made: "v_pointer ?s i = Bridged_table" if "e = Created i k" for k
    using last_event_pointer [OF assms(3), of classes earlier e] that by simp
  have restored: "v_pointer ?s i = Original_table" if "e = Body_info i"
    using last_event_pointer [OF assms(3), of classes earlier e] that by simp
  have host: "host_call classes ?s i j args = Runs (code ! j) (i # (if j = 0 then [0] else args))"
    if e: "e = Created i k" and j: "j < 19" and args: "length args = bridge_arity j" for k j args
  proof -
    have "host_call classes ?s i j args = character_call ?s (bridges ! j) i args"
      using j by (simp add: host_call_def table_entries_def made [OF e] tables nth_append bridged)
    then show ?thesis
      using j len args by (simp add: character_call_runs bridged tables library_code_def)
  qed
  have rest: "host_call classes ?s i 19 args = Wrong_convention" if "e = Created i k" for k args
    using len by (simp add: host_call_def table_entries_def made [OF that] tables nth_append bridged)
  have lib: "library_call classes ?s i j args = Runs (code ! j) (i # args)" if "e = Body_info i" and "j < 20" for j args
    using that(2) len by (simp add: library_call_def table_entries_def restored [OF that(1)] tables library_code_def)
  show ?thesis
    unfolding Let_def by (intro conjI allI impI) (rule host rest lib, assumption+)+
qed

text \<open>
  The destructor and the two-argument call of an object of class 1, whose class has another code, after an
  object of class 0: the code is that of class 0.
\<close>

definition two_classes :: "nat \<Rightarrow> entry_point list" where
  "two_classes k = map Library_code (if k = 0 then [100..<120] else [200..<220])"

theorem character_calls_converted_witness:
  "host_call two_classes (after_events two_classes ([Created 5 0] @ Created 7 1 # [Body_info 5]) (no_characters (\<lambda>_. Class_table 0))) 7 9 [3, 4] =
   Runs 109 [7, 3, 4]"
proof -
  have "controller_class (two_classes 0) [100..<120]"
    by (simp add: controller_class_def vtable_length_def two_classes_def)
  moreover have "first_class ([Created 5 0] @ Created 7 1 # [Body_info 5]) = Some 0"
    by simp
  moreover have "bridge_arity 9 = 2"
    by code_simp
  ultimately show ?thesis
    using character_calls_converted [of "[Created 5 0]" "Created 7 1" "[Body_info 5]" 0 two_classes "[100..<120]" 7 "\<lambda>_. Class_table 0"]
    by (simp add: Let_def)
qed

text \<open>An object of another class than the first gets the code of the first.\<close>

lemma other_class_runs_first:
  "library_call two_classes (no_characters (\<lambda>_. Class_table 1)) 7 9 [3, 4] = Runs 209 [7, 3, 4] \<and>
   library_call two_classes (after_events two_classes [Created 5 0, Created 7 1, Body_info 7] (no_characters (\<lambda>_. Class_table 0))) 7 9 [3, 4] =
     Runs 109 [7, 3, 4]"
  by (simp add: library_call_def library_code_def table_entries_def after_events_def character_event_defs no_characters_def
      two_classes_def vtable_length_def)

text \<open>\<open>SetBodyInfo\<close> does not put the bridges back: later calls of the host run library code as it is.\<close>

lemma host_call_after_body_info:
  assumes "first_class earlier = Some first" and "controller_class (classes first) code" and "j < vtable_length"
  shows "host_call classes (after_events classes (earlier @ [Body_info i]) (no_characters v)) i j args = Wrong_convention"
proof -
  let ?s = "after_events classes (earlier @ [Body_info i]) (no_characters v)"
  have "character_original_vtable ?s = take vtable_length (classes first)"
    using events_tables_made [of classes "earlier @ [Body_info i]" v] assms(1) by (simp add: tables_made_def first_class_append)
  moreover have "v_pointer ?s i = Original_table"
    using last_event_pointer [of i "[]" classes earlier "Body_info i" "no_characters v"] by simp
  ultimately show ?thesis
    using assms(2,3) by (simp add: host_call_def table_entries_def controller_class_def)
qed

section \<open>Callbacks in slots\<close>

text \<open>Null is 0. What the library gets is null or one of the bridges.\<close>

record hooks =
  sysv_expand_callback :: nat
  sysv_log_callback :: nat
  sysv_debug_callback :: nat
  sysv_deletion_callback :: nat
  sysv_mutation_callback :: nat

datatype callback_pointer = Null | Expand_bridge | Log_bridge | Debug_bridge | Deletion_bridge | Mutation_bridge

definition SetExpandStub :: "nat \<Rightarrow> hooks \<Rightarrow> callback_pointer \<times> hooks" where
  "SetExpandStub stub s = (Expand_bridge, s\<lparr>sysv_expand_callback := stub\<rparr>)"

definition SetColliderDeletionCallback :: "nat \<Rightarrow> hooks \<Rightarrow> callback_pointer \<times> hooks" where
  "SetColliderDeletionCallback callback s = (Deletion_bridge, s\<lparr>sysv_deletion_callback := callback\<rparr>)"

definition HkInit :: "nat \<times> nat \<Rightarrow> hooks \<Rightarrow> (callback_pointer \<times> callback_pointer) \<times> hooks" where
  "HkInit mainCInfo s =
     ((Log_bridge, Debug_bridge), s\<lparr>sysv_log_callback := fst mainCInfo, sysv_debug_callback := snd mainCInfo\<rparr>)"

definition SubscribeToMutation :: "nat \<Rightarrow> hooks \<Rightarrow> callback_pointer \<times> hooks" where
  "SubscribeToMutation handler s = (if handler = 0 then Null else Mutation_bridge, s\<lparr>sysv_mutation_callback := handler\<rparr>)"

definition UnsubscribeFromMutation :: "nat \<Rightarrow> hooks \<Rightarrow> callback_pointer \<times> hooks" where
  "UnsubscribeFromMutation handler s = (if handler = 0 then Null else Mutation_bridge, s\<lparr>sysv_mutation_callback := handler\<rparr>)"

text \<open>What a call of the pointer by the library calls; a call of null is a fault.\<close>

definition call_hook :: "nat \<Rightarrow> nat option" where
  "call_hook callback = (if callback = 0 then None else Some callback)"

fun call_pointer :: "callback_pointer \<Rightarrow> hooks \<Rightarrow> nat option" where
  "call_pointer Null s = None"
| "call_pointer Expand_bridge s = call_hook (sysv_expand_callback s)"
| "call_pointer Log_bridge s = call_hook (sysv_log_callback s)"
| "call_pointer Debug_bridge s = call_hook (sysv_debug_callback s)"
| "call_pointer Deletion_bridge s = call_hook (sysv_deletion_callback s)"
| "call_pointer Mutation_bridge s = call_hook (sysv_mutation_callback s)"

text \<open>A handler that is not null is called as long as nobody sets its slot again.\<close>

lemma hook_reaches:
  assumes "handler \<noteq> 0"
  shows "case SubscribeToMutation handler s of (p, s') \<Rightarrow> call_pointer p (snd (SetExpandStub f (snd (HkInit i s')))) = Some handler"
    and "case SetExpandStub handler s of (p, s') \<Rightarrow> call_pointer p (snd (SubscribeToMutation f (snd (HkInit i s')))) = Some handler"
    and "case SetColliderDeletionCallback handler s of (p, s') \<Rightarrow> call_pointer p (snd (SubscribeToMutation f s')) = Some handler"
  using assms
  by (simp_all add: SubscribeToMutation_def SetExpandStub_def HkInit_def SetColliderDeletionCallback_def call_hook_def)

text \<open>
  The slot of the mutation handler is shared by all shapes: unsubscribing one without a handler takes the
  handler from the others. A deletion callback of null still gives the library a bridge.
\<close>

lemma unsubscribe_takes_handler:
  "case SubscribeToMutation handler s of (p, s') \<Rightarrow>
     call_pointer Mutation_bridge (snd (UnsubscribeFromMutation 0 s')) = None"
  by (simp add: SubscribeToMutation_def UnsubscribeFromMutation_def call_hook_def)

lemma deletion_callback_null:
  "case SetColliderDeletionCallback 0 s of (p, s') \<Rightarrow> p \<noteq> Null \<and> call_pointer p s' = None"
  by (simp add: SetColliderDeletionCallback_def call_hook_def)

end
