(* ===== verification/Havok_Statics.thy ===== *)
theory Havok_Statics
  imports Havok_Callbacks
begin

text \<open>
  The functions of \<open>src/src/Havok.cpp\<close> that register callbacks, and the bridges they give to the library.
  The source keeps a variable and a bridge function for each callback; a call names both, and the two tables
  here have what is written at either place. What follows \<open>REQUIRE_FUNCTION_POINTER\<close> is modelled; that the
  pointer is there is a matter of \<open>Wrapper_Properties\<close>.
\<close>

section \<open>The bridges\<close>

text \<open>
  The types and names of the parameters of a bridge, the variable it loads, the type of the function it calls,
  and what it passes. All of them end the process when the variable is null.
\<close>

record callback_bridge =
  h_result :: string
  h_parameters :: "(string \<times> string) list"
  h_slot :: string
  h_target :: "string \<times> string list"
  h_passes :: "string list"

definition havok_bridges_1 :: "(string \<times> callback_bridge) list" where
  "havok_bridges_1 =
    [(''aabb_phantom_added_bridge'', \<lparr>h_result = ''void'', h_parameters = [(''void*'', ''arg0''), (''void*'', ''arg1'')], h_slot = ''g_aabb_phantom_added_target'',
         h_target = (''void'', [''void*'', ''void*'']), h_passes = [''arg0'', ''arg1'']\<rparr>),
     (''aabb_phantom_removed_bridge'', \<lparr>h_result = ''void'', h_parameters = [(''void*'', ''arg0''), (''void*'', ''arg1'')], h_slot = ''g_aabb_phantom_removed_target'',
         h_target = (''void'', [''void*'', ''void*'']), h_passes = [''arg0'', ''arg1'']\<rparr>),
     (''activation_activate_bridge'', \<lparr>h_result = ''void'', h_parameters = [(''void*'', ''arg0'')], h_slot = ''g_activation_activate_target'',
         h_target = (''void'', [''void*'']), h_passes = [''arg0'']\<rparr>),
     (''activation_deactivate_bridge'', \<lparr>h_result = ''void'', h_parameters = [(''void*'', ''arg0'')], h_slot = ''g_activation_deactivate_target'',
         h_target = (''void'', [''void*'']), h_passes = [''arg0'']\<rparr>),
     (''base_system_log_bridge'', \<lparr>h_result = ''void'', h_parameters = [(''char*'', ''arg0'')], h_slot = ''g_base_system_log_target'',
         h_target = (''void'', [''char*'']), h_passes = [''arg0'']\<rparr>),
     (''break_off_logic_bridge'', \<lparr>h_result = ''int32_t'', h_parameters = [(''void*'', ''arg0''), (''void*'', ''arg1''), (''uint32_t'', ''arg2''), (''void*'', ''arg3'')], h_slot = ''g_break_off_logic_target'',
         h_target = (''int32_t'', [''void*'', ''void*'', ''uint32_t'', ''void*'']), h_passes = [''arg0'', ''arg1'', ''arg2'', ''arg3'']\<rparr>),
     (''break_off_parts_bridge'', \<lparr>h_result = ''bool'', h_parameters = [(''void*'', ''arg0''), (''void*'', ''arg1'')], h_slot = ''g_break_off_parts_target'',
         h_target = (''bool'', [''void*'', ''void*'']), h_passes = [''arg0'', ''arg1'']\<rparr>),
     (''constraint_added_bridge'', \<lparr>h_result = ''void'', h_parameters = [(''void*'', ''arg0'')], h_slot = ''g_constraint_added_target'',
         h_target = (''void'', [''void*'']), h_passes = [''arg0'']\<rparr>),
     (''constraint_breaking_bridge'', \<lparr>h_result = ''void'', h_parameters = [(''void*'', ''arg0'')], h_slot = ''g_constraint_breaking_target'',
         h_target = (''void'', [''void*'']), h_passes = [''arg0'']\<rparr>),
     (''constraint_reader_bridge'', \<lparr>h_result = ''void'', h_parameters = [(''void*'', ''arg0''), (''int32_t'', ''arg1''), (''void*'', ''arg2'')], h_slot = ''g_constraint_reader_target'',
         h_target = (''void'', [''void*'', ''int32_t'', ''void*'']), h_passes = [''arg0'', ''arg1'', ''arg2'']\<rparr>),
     (''constraint_removed_bridge'', \<lparr>h_result = ''void'', h_parameters = [(''void*'', ''arg0'')], h_slot = ''g_constraint_removed_target'',
         h_target = (''void'', [''void*'']), h_passes = [''arg0'']\<rparr>)]"

definition havok_bridges_2 :: "(string \<times> callback_bridge) list" where
  "havok_bridges_2 =
    [(''contact_collision_added_bridge'', \<lparr>h_result = ''void'', h_parameters = [(''void*'', ''arg0''), (''void*'', ''arg1'')], h_slot = ''g_contact_collision_added_target'',
         h_target = (''void'', [''void*'', ''void*'']), h_passes = [''arg0'', ''arg1'']\<rparr>),
     (''contact_collision_removed_bridge'', \<lparr>h_result = ''void'', h_parameters = [(''void*'', ''arg0''), (''void*'', ''arg1'')], h_slot = ''g_contact_collision_removed_target'',
         h_target = (''void'', [''void*'', ''void*'']), h_passes = [''arg0'', ''arg1'']\<rparr>),
     (''contact_point_bridge'', \<lparr>h_result = ''void'', h_parameters = [(''void*'', ''arg0''), (''void*'', ''arg1'')], h_slot = ''g_contact_point_target'',
         h_target = (''void'', [''void*'', ''void*'']), h_passes = [''arg0'', ''arg1'']\<rparr>),
     (''contact_sound_bridge'', \<lparr>h_result = ''void'', h_parameters = [(''void*'', ''arg0''), (''void*'', ''arg1'')], h_slot = ''g_contact_sound_target'',
         h_target = (''void'', [''void*'', ''void*'']), h_passes = [''arg0'', ''arg1'']\<rparr>),
     (''entity_add_bridge'', \<lparr>h_result = ''void'', h_parameters = [(''void*'', ''arg0''), (''void*'', ''arg1'')], h_slot = ''g_entity_add_target'',
         h_target = (''void'', [''void*'', ''void*'']), h_passes = [''arg0'', ''arg1'']\<rparr>),
     (''entity_delete_bridge'', \<lparr>h_result = ''void'', h_parameters = [(''void*'', ''arg0''), (''void*'', ''arg1'')], h_slot = ''g_entity_delete_target'',
         h_target = (''void'', [''void*'', ''void*'']), h_passes = [''arg0'', ''arg1'']\<rparr>),
     (''entity_motion_type_change_bridge'', \<lparr>h_result = ''void'', h_parameters = [(''void*'', ''arg0''), (''void*'', ''arg1'')], h_slot = ''g_entity_motion_type_change_target'',
         h_target = (''void'', [''void*'', ''void*'']), h_passes = [''arg0'', ''arg1'']\<rparr>),
     (''entity_remove_bridge'', \<lparr>h_result = ''void'', h_parameters = [(''void*'', ''arg0''), (''void*'', ''arg1'')], h_slot = ''g_entity_remove_target'',
         h_target = (''void'', [''void*'', ''void*'']), h_passes = [''arg0'', ''arg1'']\<rparr>),
     (''entity_shape_change_bridge'', \<lparr>h_result = ''void'', h_parameters = [(''void*'', ''arg0''), (''void*'', ''arg1'')], h_slot = ''g_entity_shape_change_target'',
         h_target = (''void'', [''void*'', ''void*'']), h_passes = [''arg0'', ''arg1'']\<rparr>),
     (''job_thread_action_bridge'', \<lparr>h_result = ''void'', h_parameters = [(''void*'', ''arg0'')], h_slot = ''g_job_thread_action_target'',
         h_target = (''void'', [''void*'']), h_passes = [''arg0'']\<rparr>),
     (''shape_loader_return_bridge'', \<lparr>h_result = ''void'', h_parameters = [(''void*'', ''arg0''), (''int32_t'', ''arg1'')], h_slot = ''g_shape_loader_return_target'',
         h_target = (''void'', [''void*'', ''int32_t'']), h_passes = [''arg0'', ''arg1'']\<rparr>)]"

definition havok_bridges_3 :: "(string \<times> callback_bridge) list" where
  "havok_bridges_3 =
    [(''task_block_begin_bridge'', \<lparr>h_result = ''void'', h_parameters = [(''char*'', ''arg0'')], h_slot = ''g_task_block_begin_target'',
         h_target = (''void'', [''char*'']), h_passes = [''arg0'']\<rparr>),
     (''task_block_end_bridge'', \<lparr>h_result = ''void'', h_parameters = [(''int64_t'', ''arg0'')], h_slot = ''g_task_block_end_target'',
         h_target = (''void'', [''int64_t'']), h_passes = [''arg0'']\<rparr>),
     (''task_finished_bridge'', \<lparr>h_result = ''void'', h_parameters = [], h_slot = ''g_task_finished_target'',
         h_target = (''void'', []), h_passes = []\<rparr>),
     (''task_started_bridge'', \<lparr>h_result = ''void'', h_parameters = [(''char*'', ''arg0''), (''int32_t'', ''arg1'')], h_slot = ''g_task_started_target'',
         h_target = (''void'', [''char*'', ''int32_t'']), h_passes = [''arg0'', ''arg1'']\<rparr>),
     (''uniform_grid_delete_bridge'', \<lparr>h_result = ''void'', h_parameters = [(''void*'', ''arg0'')], h_slot = ''g_uniform_grid_delete_target'',
         h_target = (''void'', [''void*'']), h_passes = [''arg0'']\<rparr>),
     (''uniform_grid_request_bridge'', \<lparr>h_result = ''void'', h_parameters = [(''void*'', ''arg0''), (''int32_t'', ''arg1'')], h_slot = ''g_uniform_grid_request_target'',
         h_target = (''void'', [''void*'', ''int32_t'']), h_passes = [''arg0'', ''arg1'']\<rparr>),
     (''wheel_acceleration_bridge'', \<lparr>h_result = ''float'', h_parameters = [(''void*'', ''arg0'')], h_slot = ''g_wheel_acceleration_target'',
         h_target = (''float'', [''void*'']), h_passes = [''arg0'']\<rparr>),
     (''wheel_softness_bridge'', \<lparr>h_result = ''float'', h_parameters = [(''void*'', ''arg0'')], h_slot = ''g_wheel_softness_target'',
         h_target = (''float'', [''void*'']), h_passes = [''arg0'']\<rparr>),
     (''world_broad_phase_exit_bridge'', \<lparr>h_result = ''void'', h_parameters = [(''void*'', ''arg0''), (''void*'', ''arg1'')], h_slot = ''g_world_broad_phase_exit_target'',
         h_target = (''void'', [''void*'', ''void*'']), h_passes = [''arg0'', ''arg1'']\<rparr>)]"

definition havok_bridges :: "(string \<times> callback_bridge) list" where
  "havok_bridges = havok_bridges_1 @ havok_bridges_2 @ havok_bridges_3"

text \<open>The library calls a bridge: the function of the host that is called and with which arguments.\<close>

definition call_bridge :: "(string \<Rightarrow> nat) \<Rightarrow> string \<Rightarrow> nat list \<Rightarrow> (nat \<times> nat list) option" where
  "call_bridge slots bridge vs =
     (case map_of havok_bridges bridge of
        None \<Rightarrow> None
      | Some b \<Rightarrow>
        let parameters = map_of (zip (map snd (h_parameters b)) vs) in
        map_option (\<lambda>fn. (fn, map (\<lambda>n. the (parameters n)) (h_passes b))) (static_bridge (slots (h_slot b))))"

section \<open>The functions that pass callbacks\<close>

text \<open>
  An argument of the call of the library: a parameter as it is, or what \<open>register_static_callback\<close> returns
  for a parameter, a variable and a bridge.
\<close>

datatype callback_argument = Plain string | Register string string string

record callback_function =
  f_parameters :: "string list"
  f_arguments :: "callback_argument list"

definition HkActivationListener_Create :: callback_function where
  "HkActivationListener_Create =
    \<lparr>f_parameters = [''onActivate'', ''onDeactivate''],
     f_arguments =
       [Register ''onActivate'' ''g_activation_activate_target'' ''activation_activate_bridge'',
        Register ''onDeactivate'' ''g_activation_deactivate_target'' ''activation_deactivate_bridge'']\<rparr>"

definition HkBaseSystem_Init :: callback_function where
  "HkBaseSystem_Init =
    \<lparr>f_parameters = [''solverMemorySize'', ''log'', ''deepProfiling''],
     f_arguments =
       [Plain ''solverMemorySize'',
        Register ''log'' ''g_base_system_log_target'' ''base_system_log_bridge'',
        Plain ''deepProfiling'']\<rparr>"

definition HkBreakOffPartsUtil_Create :: callback_function where
  "HkBreakOffPartsUtil_Create =
    \<lparr>f_parameters = [''breakLogicHandler'', ''breakPartsHandler''],
     f_arguments =
       [Register ''breakLogicHandler'' ''g_break_off_logic_target'' ''break_off_logic_bridge'',
        Register ''breakPartsHandler'' ''g_break_off_parts_target'' ''break_off_parts_bridge'']\<rparr>"

definition HkConstraintListener_SetCallbacks :: callback_function where
  "HkConstraintListener_SetCallbacks =
    \<lparr>f_parameters = [''instance'', ''onAdded'', ''onRemoved'', ''onBreaking''],
     f_arguments =
       [Plain ''instance'',
        Register ''onAdded'' ''g_constraint_added_target'' ''constraint_added_bridge'',
        Register ''onRemoved'' ''g_constraint_removed_target'' ''constraint_removed_bridge'',
        Register ''onBreaking'' ''g_constraint_breaking_target'' ''constraint_breaking_bridge'']\<rparr>"

definition HkContactListener_Create :: callback_function where
  "HkContactListener_Create =
    \<lparr>f_parameters = [''onContact'', ''collisionAdded'', ''collisionRemoved'', ''callbackLimit''],
     f_arguments =
       [Register ''onContact'' ''g_contact_point_target'' ''contact_point_bridge'',
        Register ''collisionAdded'' ''g_contact_collision_added_target'' ''contact_collision_added_bridge'',
        Register ''collisionRemoved'' ''g_contact_collision_removed_target'' ''contact_collision_removed_bridge'',
        Plain ''callbackLimit'']\<rparr>"

definition HkContactSoundListener_Create :: callback_function where
  "HkContactSoundListener_Create =
    \<lparr>f_parameters = [''onContact''],
     f_arguments =
       [Register ''onContact'' ''g_contact_sound_target'' ''contact_sound_bridge'']\<rparr>"

definition HkEntityListener_Create :: callback_function where
  "HkEntityListener_Create =
    \<lparr>f_parameters = [''onAdd'', ''onRemove'', ''onDelete'', ''onShapeChange'', ''onMotionTypeChange''],
     f_arguments =
       [Register ''onAdd'' ''g_entity_add_target'' ''entity_add_bridge'',
        Register ''onRemove'' ''g_entity_remove_target'' ''entity_remove_bridge'',
        Register ''onDelete'' ''g_entity_delete_target'' ''entity_delete_bridge'',
        Register ''onShapeChange'' ''g_entity_shape_change_target'' ''entity_shape_change_bridge'',
        Register ''onMotionTypeChange'' ''g_entity_motion_type_change_target'' ''entity_motion_type_change_bridge'']\<rparr>"

definition HkJobThreadPool_RunOnEachWorker :: callback_function where
  "HkJobThreadPool_RunOnEachWorker =
    \<lparr>f_parameters = [''instance'', ''action'', ''data''],
     f_arguments =
       [Plain ''instance'',
        Register ''action'' ''g_job_thread_action_target'' ''job_thread_action_bridge'',
        Plain ''data'']\<rparr>"

definition HkTaskProfiler_Init :: callback_function where
  "HkTaskProfiler_Init =
    \<lparr>f_parameters = [''onTaskStarted'', ''onTaskFinished''],
     f_arguments =
       [Register ''onTaskStarted'' ''g_task_started_target'' ''task_started_bridge'',
        Register ''onTaskFinished'' ''g_task_finished_target'' ''task_finished_bridge'']\<rparr>"

definition HkTaskProfiler_ReplayTimers :: callback_function where
  "HkTaskProfiler_ReplayTimers =
    \<lparr>f_parameters = [''blockBegin'', ''blockEnd''],
     f_arguments =
       [Register ''blockBegin'' ''g_task_block_begin_target'' ''task_block_begin_bridge'',
        Register ''blockEnd'' ''g_task_block_end_target'' ''task_block_end_bridge'']\<rparr>"

definition HkUniformGridShape_SetDeleteHandler :: callback_function where
  "HkUniformGridShape_SetDeleteHandler =
    \<lparr>f_parameters = [''instance'', ''handler''],
     f_arguments =
       [Plain ''instance'',
        Register ''handler'' ''g_uniform_grid_delete_target'' ''uniform_grid_delete_bridge'']\<rparr>"

definition HkUniformGridShape_SetShapeRequestHandler :: callback_function where
  "HkUniformGridShape_SetShapeRequestHandler =
    \<lparr>f_parameters = [''instance'', ''blockingCallback''],
     f_arguments =
       [Plain ''instance'',
        Register ''blockingCallback'' ''g_uniform_grid_request_target'' ''uniform_grid_request_bridge'']\<rparr>"

definition HkWheelResponseModifierUtil_Create :: callback_function where
  "HkWheelResponseModifierUtil_Create =
    \<lparr>f_parameters = [''rigidBody'', ''softness'', ''acceleration''],
     f_arguments =
       [Plain ''rigidBody'',
        Register ''softness'' ''g_wheel_softness_target'' ''wheel_softness_bridge'',
        Register ''acceleration'' ''g_wheel_acceleration_target'' ''wheel_acceleration_bridge'']\<rparr>"

definition HkWorld_Create :: callback_function where
  "HkWorld_Create =
    \<lparr>f_parameters = [''enableGlobalGravity'', ''broadphaseCubeSideLength'', ''contactRestingVelocity'', ''enableMultithreading'', ''solverIterations'', ''broadPhaseCallback''],
     f_arguments =
       [Plain ''enableGlobalGravity'',
        Plain ''broadphaseCubeSideLength'',
        Plain ''contactRestingVelocity'',
        Plain ''enableMultithreading'',
        Plain ''solverIterations'',
        Register ''broadPhaseCallback'' ''g_world_broad_phase_exit_target'' ''world_broad_phase_exit_bridge'']\<rparr>"

definition HkWorld_CreateCInfo :: callback_function where
  "HkWorld_CreateCInfo =
    \<lparr>f_parameters = [''cInfo'', ''broadPhaseCallback''],
     f_arguments =
       [Plain ''cInfo'',
        Register ''broadPhaseCallback'' ''g_world_broad_phase_exit_target'' ''world_broad_phase_exit_bridge'']\<rparr>"

definition HkpAabbPhantom_Create :: callback_function where
  "HkpAabbPhantom_Create =
    \<lparr>f_parameters = [''min'', ''max'', ''collisionFilterInfo'', ''collidableAddedD'', ''collidableRemovedD''],
     f_arguments =
       [Plain ''min'',
        Plain ''max'',
        Plain ''collisionFilterInfo'',
        Register ''collidableAddedD'' ''g_aabb_phantom_added_target'' ''aabb_phantom_added_bridge'',
        Register ''collidableRemovedD'' ''g_aabb_phantom_removed_target'' ''aabb_phantom_removed_bridge'']\<rparr>"

definition havok_callback_functions :: "(string \<times> callback_function) list" where
  "havok_callback_functions =
    [(''HkActivationListener_Create'', HkActivationListener_Create),
     (''HkBaseSystem_Init'', HkBaseSystem_Init),
     (''HkBreakOffPartsUtil_Create'', HkBreakOffPartsUtil_Create),
     (''HkConstraintListener_SetCallbacks'', HkConstraintListener_SetCallbacks),
     (''HkContactListener_Create'', HkContactListener_Create),
     (''HkContactSoundListener_Create'', HkContactSoundListener_Create),
     (''HkEntityListener_Create'', HkEntityListener_Create),
     (''HkJobThreadPool_RunOnEachWorker'', HkJobThreadPool_RunOnEachWorker),
     (''HkTaskProfiler_Init'', HkTaskProfiler_Init),
     (''HkTaskProfiler_ReplayTimers'', HkTaskProfiler_ReplayTimers),
     (''HkUniformGridShape_SetDeleteHandler'', HkUniformGridShape_SetDeleteHandler),
     (''HkUniformGridShape_SetShapeRequestHandler'', HkUniformGridShape_SetShapeRequestHandler),
     (''HkWheelResponseModifierUtil_Create'', HkWheelResponseModifierUtil_Create),
     (''HkWorld_Create'', HkWorld_Create),
     (''HkWorld_CreateCInfo'', HkWorld_CreateCInfo),
     (''HkpAabbPhantom_Create'', HkpAabbPhantom_Create)]"

text \<open>
  The values the library gets, or nothing where the process ends; and the variables after it. The arguments
  are evaluated from the left; C++ does not fix the order, and no theorem depends on it as the variables
  of one call are different. Other threads do not run between the registrations of a call here;
  \<open>register_all\<close> of \<open>Havok_Callbacks\<close> has the exchanges of all threads on one variable in their order.
\<close>

datatype passed_argument = As_given nat | Null_callback | Bridge string

fun pass_arguments ::
    "(string \<Rightarrow> nat) \<Rightarrow> callback_argument list \<Rightarrow> (string \<Rightarrow> nat) \<Rightarrow> passed_argument list option \<times> (string \<Rightarrow> nat)" where
  "pass_arguments env [] slots = (Some [], slots)"
| "pass_arguments env (Plain n # as) slots =
     (case pass_arguments env as slots of (ps, slots) \<Rightarrow> (map_option ((#) (As_given (env n))) ps, slots))"
| "pass_arguments env (Register n slot bridge # as) slots =
     (case register_static_callback (env n) (slots slot) of (r, target) \<Rightarrow>
        if r = Aborted then (None, slots)
        else case pass_arguments env as (slots(slot := target)) of (ps, slots) \<Rightarrow>
          (map_option ((#) (if r = Bridge_pointer then Bridge bridge else Null_callback)) ps, slots))"

definition call_with_callbacks ::
    "callback_function \<Rightarrow> nat list \<Rightarrow> (string \<Rightarrow> nat) \<Rightarrow> passed_argument list option \<times> (string \<Rightarrow> nat)" where
  "call_with_callbacks f vs slots =
     pass_arguments (\<lambda>n. the (map_of (zip (f_parameters f) vs) n)) (f_arguments f) slots"

section \<open>What the tables must satisfy\<close>

fun argument_parameter :: "callback_argument \<Rightarrow> string" where
  "argument_parameter (Plain n) = n"
| "argument_parameter (Register n slot bridge) = n"

fun argument_slots :: "callback_argument \<Rightarrow> string list" where
  "argument_slots (Plain n) = []"
| "argument_slots (Register n slot bridge) = [slot]"

definition bridge_forwards :: "callback_bridge \<Rightarrow> bool" where
  "bridge_forwards b \<longleftrightarrow>
     h_target b = (h_result b, map fst (h_parameters b)) \<and> h_passes b = map snd (h_parameters b) \<and>
     distinct (map snd (h_parameters b))"

text \<open>The bridge of a registration loads the variable that is registered.\<close>

fun argument_bridged :: "callback_argument \<Rightarrow> bool" where
  "argument_bridged (Plain n) = True"
| "argument_bridged (Register n slot bridge) =
     (case map_of havok_bridges bridge of None \<Rightarrow> False | Some b \<Rightarrow> h_slot b = slot \<and> bridge_forwards b)"

definition well_registered :: "callback_function \<Rightarrow> bool" where
  "well_registered f \<longleftrightarrow>
     map argument_parameter (f_arguments f) = f_parameters f \<and> distinct (f_parameters f) \<and>
     distinct (concat (map argument_slots (f_arguments f))) \<and> list_all argument_bridged (f_arguments f)"

lemmas havok_tables = havok_bridges_def havok_bridges_1_def havok_bridges_2_def havok_bridges_3_def

lemma havok_well_registered: "list_all (\<lambda>f. well_registered (snd f)) havok_callback_functions"
  by code_simp

section \<open>Registrations\<close>

lemma pass_plain:
  "pass_arguments env (Plain n # as) slots = apfst (map_option ((#) (As_given (env n)))) (pass_arguments env as slots)"
  by (simp split: prod.split)

lemma pass_register:
  "env n = 0 \<Longrightarrow>
     pass_arguments env (Register n slot bridge # as) slots = apfst (map_option ((#) Null_callback)) (pass_arguments env as slots)"
  "env n \<noteq> 0 \<Longrightarrow> slots slot \<in> {0, env n} \<Longrightarrow>
     pass_arguments env (Register n slot bridge # as) slots =
       apfst (map_option ((#) (Bridge bridge))) (pass_arguments env as (slots(slot := env n)))"
  "env n \<noteq> 0 \<Longrightarrow> slots slot \<notin> {0, env n} \<Longrightarrow> pass_arguments env (Register n slot bridge # as) slots = (None, slots)"
  by (auto simp: register_static_callback_def split: prod.split)

declare pass_arguments.simps(2,3) [simp del]

text \<open>A variable that is set keeps its value.\<close>

lemma pass_arguments_keeps: "slots slot \<noteq> 0 \<Longrightarrow> snd (pass_arguments env as slots) slot = slots slot"
proof (induction as arbitrary: slots)
  case (Cons a as)
  show ?case
  proof (cases a)
    case (Plain n)
    then show ?thesis
      using Cons by (simp add: pass_plain)
  next
    case (Register n slot' bridge)
    consider (null) "env n = 0" | (set) "env n \<noteq> 0" "slots slot' \<in> {0, env n}" | (ends) "env n \<noteq> 0" "slots slot' \<notin> {0, env n}"
      by blast
    then show ?thesis
    proof cases
      case null
      then show ?thesis
        using Cons Register by (simp add: pass_register(1))
    next
      case set
      then have "(slots(slot' := env n)) slot = slots slot"
        using Cons.prems by auto
      then have "snd (pass_arguments env as (slots(slot' := env n))) slot = slots slot"
        using Cons.IH [of "slots(slot' := env n)"] Cons.prems by metis
      then show ?thesis
        using Register by (simp add: pass_register(2) [of env n slots slot', OF set])
    next
      case ends
      then show ?thesis
        using Register by (simp add: pass_register(3))
    qed
  qed
qed simp

text \<open>What the library gets for an argument, and when a call ends the process.\<close>

fun argument_passed :: "(string \<Rightarrow> nat) \<Rightarrow> (string \<Rightarrow> nat) \<Rightarrow> callback_argument \<Rightarrow> passed_argument \<Rightarrow> bool" where
  "argument_passed env slots (Plain n) p = (p = As_given (env n))"
| "argument_passed env slots (Register n slot bridge) p =
     (if env n = 0 then p = Null_callback else p = Bridge bridge \<and> slots slot = env n)"

fun argument_conflicts :: "(string \<Rightarrow> nat) \<Rightarrow> (string \<Rightarrow> nat) \<Rightarrow> callback_argument \<Rightarrow> bool" where
  "argument_conflicts env slots (Plain n) = False"
| "argument_conflicts env slots (Register n slot bridge) = (env n \<noteq> 0 \<and> slots slot \<notin> {0, env n})"

lemma pass_arguments_passed:
  "fst (pass_arguments env as slots) = Some ps \<Longrightarrow>
   list_all2 (argument_passed env (snd (pass_arguments env as slots))) as ps"
proof (induction as arbitrary: slots ps)
  case (Cons a as)
  show ?case
  proof (cases a)
    case (Plain n)
    then show ?thesis
      using Cons by (auto simp: pass_plain)
  next
    case (Register n slot bridge)
    consider (null) "env n = 0" | (set) "env n \<noteq> 0" "slots slot \<in> {0, env n}" | (ends) "env n \<noteq> 0" "slots slot \<notin> {0, env n}"
      by blast
    then show ?thesis
    proof cases
      case null
      then show ?thesis
        using Cons Register by (auto simp: pass_register(1))
    next
      case set
      have "snd (pass_arguments env as (slots(slot := env n))) slot = env n"
        using pass_arguments_keeps [of "slots(slot := env n)" slot env as] set(1) by simp
      then show ?thesis
        using Cons Register set(1) by (auto simp: pass_register(2) [of env n slots slot, OF set])
    next
      case ends
      then show ?thesis
        using Cons.prems Register by (simp add: pass_register(3))
    qed
  qed
qed simp

lemma conflicts_other:
  "slot \<notin> set (argument_slots a) \<Longrightarrow> argument_conflicts env (slots(slot := v)) a = argument_conflicts env slots a"
  by (cases a) auto

lemma pass_arguments_ends:
  "distinct (concat (map argument_slots as)) \<Longrightarrow>
   fst (pass_arguments env as slots) = None \<longleftrightarrow> (\<exists>a \<in> set as. argument_conflicts env slots a)"
proof (induction as arbitrary: slots)
  case (Cons a as)
  show ?case
  proof (cases a)
    case (Plain n)
    then show ?thesis
      using Cons by (simp add: pass_plain)
  next
    case (Register n slot bridge)
    consider (null) "env n = 0" | (set) "env n \<noteq> 0" "slots slot \<in> {0, env n}" | (ends) "env n \<noteq> 0" "slots slot \<notin> {0, env n}"
      by blast
    then show ?thesis
    proof cases
      case null
      then show ?thesis
        using Cons Register by (simp add: pass_register(1))
    next
      case set
      have "(\<exists>a \<in> set as. argument_conflicts env (slots(slot := env n)) a) \<longleftrightarrow> (\<exists>a \<in> set as. argument_conflicts env slots a)"
        using Cons.prems Register by (intro bex_cong refl conflicts_other) auto
      moreover have "\<not> argument_conflicts env slots a"
        using set(2) Register by simp
      ultimately show ?thesis
        using Cons Register by (simp add: pass_register(2) [of env n slots slot, OF set] del: argument_conflicts.simps)
    next
      case ends
      then show ?thesis
        using Register by (simp add: pass_register(3))
    qed
  qed
qed simp

text \<open>A pointer the library gets, by what a call of it does: the function \<open>target\<close> is called with the same arguments.\<close>

definition calls_target :: "(string \<Rightarrow> nat) \<Rightarrow> nat \<Rightarrow> string \<Rightarrow> bool" where
  "calls_target slots target bridge \<longleftrightarrow>
     (\<exists>b. map_of havok_bridges bridge = Some b \<and> h_target b = (h_result b, map fst (h_parameters b)) \<and>
        (\<forall>vs. length vs = length (h_parameters b) \<longrightarrow> call_bridge slots bridge vs = Some (target, vs)))"

lemma map_the_zip:
  assumes "distinct ns" and "length vs = length ns"
  shows "map (\<lambda>n. the (map_of (zip ns vs) n)) ns = vs"
  using assms by (intro nth_equalityI) (simp_all add: map_of_zip_nth)

lemma bridged_calls_target:
  assumes "argument_bridged (Register n slot bridge)" and "slots slot = target" and "target \<noteq> 0"
  shows "calls_target slots target bridge"
proof -
  obtain b where b: "map_of havok_bridges bridge = Some b" "h_slot b = slot" "bridge_forwards b"
    using assms(1) by (auto split: option.splits)
  have "call_bridge slots bridge vs = Some (target, vs)" if "length vs = length (h_parameters b)" for vs
    using b that map_the_zip [of "map snd (h_parameters b)" vs] assms(2,3)
    by (simp add: call_bridge_def static_bridge_def bridge_forwards_def)
  then show ?thesis
    using b by (auto simp: calls_target_def bridge_forwards_def)
qed

definition is_callback :: "callback_function \<Rightarrow> nat \<Rightarrow> bool" where
  "is_callback f i \<longleftrightarrow> argument_slots (f_arguments f ! i) \<noteq> []"

text \<open>The callback of parameter \<open>i\<close> differs from the one its variable holds.\<close>

definition callback_changes :: "callback_function \<Rightarrow> nat list \<Rightarrow> (string \<Rightarrow> nat) \<Rightarrow> nat \<Rightarrow> bool" where
  "callback_changes f vs slots i \<longleftrightarrow>
     is_callback f i \<and> vs ! i \<noteq> 0 \<and> slots (hd (argument_slots (f_arguments f ! i))) \<notin> {0, vs ! i}"

lemma well_registered_length: "well_registered f \<Longrightarrow> length (f_arguments f) = length (f_parameters f)"
  by (metis length_map well_registered_def)

text \<open>The arguments of a call stand where the parameters do.\<close>

lemma argument_value:
  assumes "well_registered f" and "length vs = length (f_parameters f)" and "i < length vs"
  shows "the (map_of (zip (f_parameters f) vs) (argument_parameter (f_arguments f ! i))) = vs ! i"
proof -
  have "argument_parameter (f_arguments f ! i) = f_parameters f ! i"
    using assms nth_map [of i "f_arguments f" argument_parameter] by (simp add: well_registered_length well_registered_def)
  moreover have "distinct (f_parameters f)"
    using assms(1) by (simp add: well_registered_def)
  ultimately show ?thesis
    using assms(2,3) by (simp add: map_of_zip_nth)
qed

text \<open>
  C21: A call of one of the functions of Havok that take callbacks, with the values \<open>vs\<close> of its parameters,
  whatever was registered before. Either the library gets one argument for each parameter, in order: the value
  itself, and for a callback null for null and otherwise a bridge which, when the library calls it, calls
  exactly the function the host passed as that parameter, with the same arguments in the same order and
  through the same types. No callback registered earlier changes. Or the process ends, which it does exactly
  when a callback of the call differs from the one an earlier call registered in its variable.
\<close>

theorem havok_callbacks_reach_host:
  assumes "(name, f) \<in> set havok_callback_functions" and "length vs = length (f_parameters f)"
  shows "case call_with_callbacks f vs slots of (result, slots') \<Rightarrow>
    (result = None \<longleftrightarrow> (\<exists>i < length vs. callback_changes f vs slots i)) \<and>
    (\<forall>ps. result = Some ps \<longrightarrow> length ps = length vs \<and>
       (\<forall>i < length vs.
          if \<not> is_callback f i then ps ! i = As_given (vs ! i)
          else if vs ! i = 0 then ps ! i = Null_callback
          else \<exists>bridge. ps ! i = Bridge bridge \<and> calls_target slots' (vs ! i) bridge)) \<and>
    (\<forall>slot. slots slot \<noteq> 0 \<longrightarrow> slots' slot = slots slot)"
proof -
  let ?env = "\<lambda>n. the (map_of (zip (f_parameters f) vs) n)"
  have ok: "well_registered f"
    using havok_well_registered assms(1) by (auto simp: list_all_iff)
  note count = well_registered_length [OF ok]
  note parameter = argument_value [OF ok assms(2)]
  obtain result slots' where run: "call_with_callbacks f vs slots = (result, slots')"
    by (cases "call_with_callbacks f vs slots")
  then have pass: "pass_arguments ?env (f_arguments f) slots = (result, slots')"
    by (simp add: call_with_callbacks_def)
  have conflict: "argument_conflicts ?env slots (f_arguments f ! i) \<longleftrightarrow> callback_changes f vs slots i" if "i < length vs" for i
    using parameter [OF that] by (cases "f_arguments f ! i") (auto simp: callback_changes_def is_callback_def)
  have "result = None \<longleftrightarrow> (\<exists>a \<in> set (f_arguments f). argument_conflicts ?env slots a)"
    using pass_arguments_ends [of "f_arguments f" ?env slots] ok pass by (simp add: well_registered_def)
  also have "\<dots> \<longleftrightarrow> (\<exists>i < length vs. argument_conflicts ?env slots (f_arguments f ! i))"
    using count assms(2) by (metis in_set_conv_nth)
  finally have ends: "result = None \<longleftrightarrow> (\<exists>i < length vs. callback_changes f vs slots i)"
    using conflict by blast
  have handed: "length ps = length vs \<and>
      (\<forall>i < length vs.
          if \<not> is_callback f i then ps ! i = As_given (vs ! i)
          else if vs ! i = 0 then ps ! i = Null_callback
          else \<exists>bridge. ps ! i = Bridge bridge \<and> calls_target slots' (vs ! i) bridge)" if "result = Some ps" for ps
  proof -
    have all: "list_all2 (argument_passed ?env slots') (f_arguments f) ps"
      using pass_arguments_passed [of ?env "f_arguments f" slots ps] pass that by simp
    have "if \<not> is_callback f i then ps ! i = As_given (vs ! i)
        else if vs ! i = 0 then ps ! i = Null_callback
        else \<exists>bridge. ps ! i = Bridge bridge \<and> calls_target slots' (vs ! i) bridge" if i: "i < length vs" for i
    proof -
      have passed: "argument_passed ?env slots' (f_arguments f ! i) (ps ! i)" and "argument_bridged (f_arguments f ! i)"
        using list_all2_nthD [OF all] ok i by (simp_all add: count assms(2) well_registered_def list_all_length)
      then show ?thesis
        using parameter [OF i] bridged_calls_target
        by (cases "f_arguments f ! i") (auto simp: is_callback_def simp del: argument_bridged.simps)
    qed
    then show ?thesis
      using list_all2_lengthD [OF all] by (simp add: count assms(2))
  qed
  have keeps: "slots' slot = slots slot" if "slots slot \<noteq> 0" for slot
    using pass_arguments_keeps [of slots slot ?env "f_arguments f"] pass that by simp
  show ?thesis
    unfolding run prod.case using ends handed keeps by blast
qed

text \<open>The wheel: the body 5, no softness, and an acceleration function 9, which the bridge calls.\<close>

theorem havok_callbacks_reach_host_witness:
  "\<exists>ps slots bridge. call_with_callbacks HkWheelResponseModifierUtil_Create [5, 0, 9] (\<lambda>_. 0) = (Some ps, slots) \<and>
     ps ! 0 = As_given 5 \<and> ps ! 1 = Null_callback \<and> ps ! 2 = Bridge bridge \<and> calls_target slots 9 bridge"
proof -
  let ?f = HkWheelResponseModifierUtil_Create
  have member: "(''HkWheelResponseModifierUtil_Create'', ?f) \<in> set havok_callback_functions"
    by (simp add: havok_callback_functions_def)
  have length: "length [5, 0, 9 :: nat] = length (f_parameters ?f)"
    by (simp add: HkWheelResponseModifierUtil_Create_def)
  have kind: "\<not> is_callback ?f 0" "is_callback ?f 1" "is_callback ?f 2" "\<not> callback_changes ?f vs (\<lambda>_. 0) i" for vs i
    by (simp_all add: is_callback_def callback_changes_def HkWheelResponseModifierUtil_Create_def)
  obtain result slots where run: "call_with_callbacks ?f [5, 0, 9] (\<lambda>_. 0) = (result, slots)"
    by (cases "call_with_callbacks ?f [5, 0, 9] (\<lambda>_. 0)")
  note reach = havok_callbacks_reach_host [OF member length, of "\<lambda>_. 0", unfolded run prod.case]
  then obtain ps where ps: "result = Some ps"
    using kind(4) by blast
  note args = reach [THEN conjunct2, THEN conjunct1, rule_format, OF ps, THEN conjunct2, rule_format]
  show ?thesis
    using run ps args [of 0] args [of 1] args [of 2] kind by auto
qed

text \<open>
  Two functions share a variable: a world created with one callback cannot be followed by a creation info with
  another one.
\<close>

lemma broad_phase_callback_shared:
  "fst (call_with_callbacks HkWorld_CreateCInfo [1, 8] (snd (call_with_callbacks HkWorld_Create [1, 2, 3, 4, 5, 7] (\<lambda>_. 0)))) = None"
  by (simp add: call_with_callbacks_def HkWorld_CreateCInfo_def HkWorld_Create_def register_static_callback_def pass_arguments.simps)

end
