(* ===== verification/Wrapper_Abi.thy ===== *)
theory Wrapper_Abi
  imports Prelude
begin

text \<open>
  What the wrapper libraries share. A wrapper is a C function with the System V convention that calls one
  function of the DLL, through a pointer \<open>Init\<close> has looked up, with the Microsoft convention. Where the two
  conventions differ in how a structure is passed or returned, the wrapper either leaves the conversion to
  the compiler, when the type of the pointer has the structure too, or writes it out: a pointer to a copy,
  the bits of a small structure, a pointer to the result. Here are the types, the calls as a Microsoft
  function sees them, and the three ways the libraries look up their pointers; the wrappers themselves are
  tables in the theories that follow. The attachment of the thread before each call is
  \<open>pe_ensure_tls_for_loaded_images\<close> of \<open>Loader_Threads\<close> and changes nothing here.
\<close>

section \<open>Types and values\<close>

text \<open>Sizes are in bytes.\<close>

datatype c_type = Void | Integer nat | Floating nat | Pointer | Struct nat

datatype c_value = Scalar u64 | Aggregate bytes

fun fits :: "c_type \<Rightarrow> c_value \<Rightarrow> bool" where
  "fits (Struct n) (Aggregate b) = (length b = n)"
| "fits (Integer n) (Scalar w) = True"
| "fits (Floating n) (Scalar w) = True"
| "fits Pointer (Scalar w) = True"
| "fits t v = False"

text \<open>\<open>aggregate_bits\<close>: the bytes from the lowest on.\<close>

fun aggregate_bits :: "bytes \<Rightarrow> u64" where
  "aggregate_bits [] = 0"
| "aggregate_bits (b # bs) = ucast b OR push_bit 8 (aggregate_bits bs)"

fun bytes_of :: "c_value \<Rightarrow> bytes" where
  "bytes_of (Aggregate b) = b"
| "bytes_of (Scalar w) = []"

section \<open>The Microsoft convention\<close>

text \<open>
  A structure of 1, 2, 4 or 8 bytes is passed as an integer, any other one by the address of a copy. A
  result that is no such structure is written to memory whose address is the first argument.
\<close>

datatype ms_argument = Value u64 | Copy_at bytes | Result_at nat

definition register_size :: "nat \<Rightarrow> bool" where
  "register_size n \<longleftrightarrow> n = 1 \<or> n = 2 \<or> n = 4 \<or> n = 8"

fun pass_ms :: "c_value \<Rightarrow> ms_argument" where
  "pass_ms (Scalar w) = Value w"
| "pass_ms (Aggregate b) = (if register_size (length b) then Value (aggregate_bits b) else Copy_at b)"

fun memory_type :: "c_type \<Rightarrow> bool" where
  "memory_type (Struct n) = (\<not> register_size n)"
| "memory_type t = False"

fun register_struct :: "c_type \<Rightarrow> bool" where
  "register_struct (Struct n) = register_size n"
| "register_struct t = False"

fun type_size :: "c_type \<Rightarrow> nat" where
  "type_size Void = 0"
| "type_size (Integer n) = n"
| "type_size (Floating n) = n"
| "type_size Pointer = 8"
| "type_size (Struct n) = n"

definition result_argument :: "c_type \<Rightarrow> ms_argument list" where
  "result_argument t = (if memory_type t then [Result_at (type_size t)] else [])"

definition ms_call :: "c_type \<Rightarrow> c_value list \<Rightarrow> ms_argument list" where
  "ms_call result vs = result_argument result @ map pass_ms vs"

section \<open>Wrappers\<close>

text \<open>
  An argument of the call: parameter \<open>i\<close> itself, the address of it or of a copy of it, its bits, or the
  address of the variable for the result.
\<close>

datatype argument = Param nat | Address_of nat | Bits_of nat | Address_of_result

record wrapper =
  w_name :: string
  w_result :: c_type
  w_params :: "c_type list"
  w_pointer_result :: c_type          \<comment> \<open>the type of the function pointer\<close>
  w_pointer_params :: "c_type list"
  w_arguments :: "argument list"

fun argument_type :: "c_type list \<Rightarrow> argument \<Rightarrow> c_type" where
  "argument_type ps (Param i) = ps ! i"
| "argument_type ps (Address_of i) = Pointer"
| "argument_type ps (Bits_of i) = Integer 8"
| "argument_type ps Address_of_result = Pointer"

text \<open>What the compiler makes of an argument for a Microsoft function.\<close>

fun passed :: "c_type \<Rightarrow> c_value list \<Rightarrow> argument \<Rightarrow> ms_argument" where
  "passed result vs (Param i) = pass_ms (vs ! i)"
| "passed result vs (Address_of i) = Copy_at (bytes_of (vs ! i))"
| "passed result vs (Bits_of i) = Value (aggregate_bits (bytes_of (vs ! i)))"
| "passed result vs Address_of_result = Result_at (type_size result)"

definition wrapper_call :: "wrapper \<Rightarrow> c_value list \<Rightarrow> ms_argument list" where
  "wrapper_call w vs = result_argument (w_pointer_result w) @ map (passed (w_result w) vs) (w_arguments w)"

definition compiles :: "wrapper \<Rightarrow> bool" where
  "compiles w \<longleftrightarrow> map (argument_type (w_params w)) (w_arguments w) = w_pointer_params w"

text \<open>A pointer of the same type as the wrapper, called with its parameters in their order.\<close>

definition forwards :: "string \<Rightarrow> c_type \<Rightarrow> c_type list \<Rightarrow> wrapper" where
  "forwards name result params =
     \<lparr>w_name = name, w_result = result, w_params = params, w_pointer_result = result, w_pointer_params = params,
      w_arguments = map Param [0..<length params]\<rparr>"

subsection \<open>When a wrapper is transparent\<close>

fun argument_ok :: "c_type list \<Rightarrow> nat \<Rightarrow> argument \<Rightarrow> bool" where
  "argument_ok ps i (Param j) = (j = i)"
| "argument_ok ps i (Address_of j) = (j = i \<and> memory_type (ps ! i))"
| "argument_ok ps i (Bits_of j) = (j = i \<and> register_struct (ps ! i))"
| "argument_ok ps i Address_of_result = False"

fun arguments_ok :: "c_type list \<Rightarrow> nat \<Rightarrow> argument list \<Rightarrow> bool" where
  "arguments_ok ps i [] = (i = length ps)"
| "arguments_ok ps i (a # as) = (i < length ps \<and> argument_ok ps i a \<and> arguments_ok ps (Suc i) as)"

definition lowered :: "wrapper \<Rightarrow> bool" where
  "lowered w \<longleftrightarrow> compiles w \<and>
     (if w_pointer_result w = w_result w then arguments_ok (w_params w) 0 (w_arguments w)
      else w_pointer_result w = Void \<and> memory_type (w_result w) \<and> take 1 (w_arguments w) = [Address_of_result] \<and>
        arguments_ok (w_params w) 0 (tl (w_arguments w)))"

lemma argument_ok_passed:
  assumes "argument_ok ps i a" and "fits (ps ! i) (vs ! i)"
  shows "passed result vs a = pass_ms (vs ! i)"
  using assms by (cases a; cases "ps ! i"; cases "vs ! i") auto

lemma arguments_ok_passed:
  assumes "list_all2 fits ps vs" and "arguments_ok ps i as"
  shows "map (passed result vs) as = map pass_ms (drop i vs)"
  using assms(2)
proof (induction as arbitrary: i)
  case Nil
  then show ?case
    using assms(1) by (simp add: list_all2_lengthD)
next
  case (Cons a as)
  have i: "i < length vs" "fits (ps ! i) (vs ! i)"
    using Cons.prems assms(1) by (auto simp: list_all2_conv_all_nth)
  show ?case
    using Cons i by (simp add: argument_ok_passed [OF _ i(2)] Cons_nth_drop_Suc [symmetric])
qed

text \<open>The Microsoft function sees the call its caller would have made with the parameters of the wrapper.\<close>

lemma lowered_call:
  assumes "lowered w" and "list_all2 fits (w_params w) vs"
  shows "wrapper_call w vs = ms_call (w_result w) vs"
proof (cases "w_pointer_result w = w_result w")
  case True
  then show ?thesis
    using arguments_ok_passed [OF assms(2), of 0 "w_arguments w" "w_result w"] assms(1)
    by (simp add: lowered_def wrapper_call_def ms_call_def)
next
  case False
  then obtain as where "w_arguments w = Address_of_result # as" "arguments_ok (w_params w) 0 as"
    "memory_type (w_result w)" "w_pointer_result w = Void"
    using assms(1) by (cases "w_arguments w") (auto simp: lowered_def)
  then show ?thesis
    using arguments_ok_passed [OF assms(2), of 0 as "w_result w"]
    by (simp add: wrapper_call_def ms_call_def result_argument_def)
qed

lemma arguments_ok_upt: "arguments_ok ps i (map Param [i..<length ps]) \<longleftrightarrow> i \<le> length ps"
  by (induction "length ps - i" arbitrary: i) (auto simp: upt_conv_Cons)

lemma lowered_forwards [simp]: "lowered (forwards name result params)"
  by (simp add: lowered_def compiles_def forwards_def arguments_ok_upt map_nth o_def)

section \<open>Looking up the pointers\<close>

text \<open>
  The state of a library: whether its image is loaded, whether the flag of \<open>call_once\<close> is set, and the
  pointers. \<open>get_export\<close> is the export table after the load; an exception is its text.
\<close>

record library =
  l_image :: bool
  l_once :: bool
  l_slots :: "string \<rightharpoonup> u64"

definition unloaded :: library where
  "unloaded = \<lparr>l_image = False, l_once = False, l_slots = Map.empty\<rparr>"

datatype native_call = Calls u64 "ms_argument list" | Calls_null

definition call_slot :: "library \<Rightarrow> wrapper \<Rightarrow> c_value list \<Rightarrow> native_call" where
  "call_slot lib w vs = (case l_slots lib (w_name w) of None \<Rightarrow> Calls_null | Some p \<Rightarrow> Calls p (wrapper_call w vs))"

subsection \<open>Havok, VRageNative, RecastDetour\<close>

text \<open>\<open>SET_FUNCTION_POINTER\<close>\<close>

definition set_pointer :: "(string \<Rightarrow> u64 option) \<Rightarrow> string \<Rightarrow> library \<Rightarrow> library" where
  "set_pointer get_export name lib = lib\<lparr>l_slots := (l_slots lib)(name := get_export name)\<rparr>"

definition lazy_Init ::
    "string \<Rightarrow> string list \<Rightarrow> bool \<Rightarrow> (string \<Rightarrow> u64 option) \<Rightarrow> library \<Rightarrow> string option \<times> library" where
  "lazy_Init dll pointers load_dll get_export lib =
     (if l_image lib then (None, lib)
      else if \<not> load_dll then (Some (''Failed to load '' @ dll), lib)
      else (None, fold (set_pointer get_export) pointers (lib\<lparr>l_image := True\<rparr>)))"

text \<open>\<open>REQUIRE_FUNCTION_POINTER\<close> and the call.\<close>

definition lazy_call ::
    "(string \<Rightarrow> u64 option) \<Rightarrow> wrapper \<Rightarrow> c_value list \<Rightarrow> library \<Rightarrow> (string + native_call) \<times> library" where
  "lazy_call get_export w vs lib =
     (let lib = (if l_slots lib (w_name w) = None then set_pointer get_export (w_name w) lib else lib) in
      if l_slots lib (w_name w) = None then (Inl (''Failed to load function: '' @ w_name w), lib)
      else (Inr (call_slot lib w vs), lib))"

subsection \<open>KytheraV2, Voxels\<close>

text \<open>Pairs of a pointer and the export it is looked up by; the first that is missing throws.\<close>

fun load_exports :: "string \<Rightarrow> (string \<Rightarrow> u64 option) \<Rightarrow> (string \<times> string) list \<Rightarrow> library \<Rightarrow> string option \<times> library" where
  "load_exports message get_export [] lib = (None, lib)"
| "load_exports message get_export ((slot, export) # rest) lib =
     (let lib = lib\<lparr>l_slots := (l_slots lib)(slot := get_export export)\<rparr> in
      if get_export export = None then (Some (message @ export), lib) else load_exports message get_export rest lib)"

text \<open>\<open>std::call_once\<close> sets its flag only when the body returns normally.\<close>

definition once_initialize ::
    "string \<Rightarrow> string \<Rightarrow> (string \<times> string) list \<Rightarrow> bool \<Rightarrow> bool \<Rightarrow> (string \<Rightarrow> u64 option) \<Rightarrow> library \<Rightarrow>
     string option \<times> library" where
  "once_initialize title dll pointers dll_path load_dll get_export lib =
     (if \<not> dll_path then (Some (title @ '' Init requires a DLL path''), lib)
      else if l_once lib then (None, lib)
      else if \<not> load_dll then (Some (''Failed to load '' @ dll), lib)
      else (case load_exports (''Missing '' @ title @ '' export: '') get_export pointers (lib\<lparr>l_image := True\<rparr>) of
              (None, lib) \<Rightarrow> (None, lib\<lparr>l_once := True\<rparr>)
            | (Some e, lib) \<Rightarrow> (Some e, lib)))"

text \<open>\<open>ensure_thread_info\<close> and the call.\<close>

definition checked_call :: "string \<Rightarrow> wrapper \<Rightarrow> c_value list \<Rightarrow> library \<Rightarrow> string + native_call" where
  "checked_call title w vs lib =
     (if \<not> l_image lib then Inl (title @ '' is not initialized; call Init first'') else Inr (call_slot lib w vs))"

subsection \<open>Slug\<close>

definition locked_initialize ::
    "string \<Rightarrow> string \<Rightarrow> (string \<times> string) list \<Rightarrow> bool \<Rightarrow> bool \<Rightarrow> (string \<Rightarrow> u64 option) \<Rightarrow> library \<Rightarrow>
     string option \<times> library" where
  "locked_initialize title dll pointers dll_path load_dll get_export lib =
     (if l_image lib then (None, lib)
      else if \<not> dll_path then (Some (title @ '' Init requires a DLL path''), lib)
      else if \<not> load_dll then (Some (''Failed to load '' @ dll), lib)
      else load_exports [] get_export pointers (lib\<lparr>l_image := True\<rparr>))"

subsection \<open>Physics\<close>

text \<open>A missing export leaves its pointer null, and the wrapper that needs it throws.\<close>

definition set_slot :: "(string \<Rightarrow> u64 option) \<Rightarrow> string \<times> string \<Rightarrow> library \<Rightarrow> library" where
  "set_slot get_export entry lib = lib\<lparr>l_slots := (l_slots lib)(fst entry := get_export (snd entry))\<rparr>"

definition optional_initialize ::
    "string \<Rightarrow> string \<Rightarrow> (string \<times> string) list \<Rightarrow> bool \<Rightarrow> bool \<Rightarrow> (string \<Rightarrow> u64 option) \<Rightarrow> library \<Rightarrow>
     string option \<times> library" where
  "optional_initialize title dll pointers dll_path load_dll get_export lib =
     (if l_image lib then (None, lib)
      else if \<not> dll_path then (Some (title @ '' Init requires a DLL path''), lib)
      else if \<not> load_dll then (Some (''Failed to load '' @ dll), lib)
      else (None, fold (set_slot get_export) pointers (lib\<lparr>l_image := True\<rparr>)))"

text \<open>\<open>export\<close> is the name in the text of the exception.\<close>

definition optional_call :: "string \<Rightarrow> string \<Rightarrow> wrapper \<Rightarrow> c_value list \<Rightarrow> library \<Rightarrow> string + native_call" where
  "optional_call title export w vs lib =
     (if \<not> l_image lib then Inl (title @ '' is not initialized; call Init first'')
      else if l_slots lib (w_name w) = None then Inl (''Missing '' @ title @ '' export: '' @ export)
      else Inr (call_slot lib w vs))"

subsection \<open>What an initialisation leaves\<close>

declare load_exports.simps(2) [simp del]

lemma load_exports_step:
  "load_exports message get_export ((slot, export) # rest) lib =
     (case get_export export of
        None \<Rightarrow> (Some (message @ export), lib\<lparr>l_slots := (l_slots lib)(slot := None)\<rparr>)
      | Some p \<Rightarrow> load_exports message get_export rest (lib\<lparr>l_slots := (l_slots lib)(slot \<mapsto> p)\<rparr>))"
  by (simp add: load_exports.simps(2) Let_def split: option.splits)

lemma load_exports_image [simp]: "l_image (snd (load_exports message get_export pointers lib)) = l_image lib"
proof (induction pointers arbitrary: lib)
  case (Cons x rest)
  then show ?case
    by (cases x) (simp add: load_exports_step split: option.splits)
qed simp

lemma load_exports_untouched:
  "slot \<notin> fst ` set pointers \<Longrightarrow> l_slots (snd (load_exports message get_export pointers lib)) slot = l_slots lib slot"
proof (induction pointers arbitrary: lib)
  case (Cons x rest)
  then show ?case
    by (cases x) (simp add: load_exports_step split: option.splits)
qed simp

lemma load_exports_slot:
  assumes "fst (load_exports message get_export pointers lib) = None" and "distinct (map fst pointers)"
    and "(slot, export) \<in> set pointers"
  shows "l_slots (snd (load_exports message get_export pointers lib)) slot = get_export export \<and> get_export export \<noteq> None"
  using assms
proof (induction pointers arbitrary: lib)
  case (Cons x rest)
  obtain s e where x: "x = (s, e)"
    by (cases x)
  obtain p where p: "get_export e = Some p"
    using Cons.prems(1) by (cases "get_export e") (simp_all add: x load_exports_step)
  let ?lib = "lib\<lparr>l_slots := (l_slots lib)(s \<mapsto> p)\<rparr>"
  have step: "load_exports message get_export (x # rest) lib = load_exports message get_export rest ?lib"
    by (simp add: x load_exports_step p)
  show ?case
  proof (cases "(slot, export) = x")
    case True
    have "s \<notin> fst ` set rest"
      using Cons.prems(2) by (simp add: x)
    then show ?thesis
      using True load_exports_untouched [of s rest message get_export ?lib] by (simp add: step [unfolded x] x p)
  next
    case False
    then have "(slot, export) \<in> set rest"
      using Cons.prems(3) by simp
    then show ?thesis
      using Cons.IH [of ?lib] Cons.prems(1,2) by (simp add: step)
  qed
qed simp

lemma set_pointers:
  "l_slots (fold (set_pointer get_export) names lib) name = (if name \<in> set names then get_export name else l_slots lib name)"
  by (induction names arbitrary: lib) (auto simp: set_pointer_def)

text \<open>Pointers that are all named like their exports need not be distinct.\<close>

definition own_names :: "(string \<times> string) list \<Rightarrow> bool" where
  "own_names pointers \<longleftrightarrow> list_all (\<lambda>p. fst p = snd p) pointers"

lemma load_exports_own:
  assumes "fst (load_exports message get_export pointers lib) = None" and "own_names pointers"
    and "name \<in> fst ` set pointers"
  shows "l_slots (snd (load_exports message get_export pointers lib)) name = get_export name \<and> get_export name \<noteq> None"
  using assms
proof (induction pointers arbitrary: lib)
  case (Cons x rest)
  obtain s where x: "x = (s, s)"
    using Cons.prems(2) by (cases x) (auto simp: own_names_def)
  obtain p where p: "get_export s = Some p"
    using Cons.prems(1) by (cases "get_export s") (simp_all add: x load_exports_step)
  let ?lib = "lib\<lparr>l_slots := (l_slots lib)(s \<mapsto> p)\<rparr>"
  have step: "load_exports message get_export (x # rest) lib = load_exports message get_export rest ?lib"
    by (simp add: x load_exports_step p)
  show ?case
  proof (cases "name \<in> fst ` set rest")
    case True
    then show ?thesis
      using Cons.IH [of ?lib] Cons.prems(1,2) by (simp add: step own_names_def)
  next
    case False
    then have "name = s"
      using Cons.prems(3) by (simp add: x)
    then show ?thesis
      using False load_exports_untouched [of s rest message get_export ?lib] by (simp add: step [unfolded x] x p)
  qed
qed simp

lemma set_slot_slots: "l_slots (set_slot get_export e lib) = (l_slots lib)(fst e := get_export (snd e))"
  by (simp add: set_slot_def)

lemma fold_set_slot_image [simp]: "l_image (fold (set_slot get_export) pointers lib) = l_image lib"
  by (induction pointers arbitrary: lib) (simp_all add: set_slot_def)

lemma fold_set_slot_other:
  "name \<notin> fst ` set pointers \<Longrightarrow> l_slots (fold (set_slot get_export) pointers lib) name = l_slots lib name"
  by (induction pointers arbitrary: lib) (simp_all add: set_slot_def)

lemma fold_set_slot:
  assumes "distinct (map fst pointers)" and "(name, export) \<in> set pointers"
  shows "l_slots (fold (set_slot get_export) pointers lib) name = get_export export"
  using assms
proof (induction pointers arbitrary: lib)
  case (Cons x rest)
  then show ?case
    by (cases "(name, export) = x") (auto simp: fold_set_slot_other set_slot_slots)
qed simp

lemma fold_set_pointer_image [simp]: "l_image (fold (set_pointer get_export) names lib) = l_image lib"
  by (induction names arbitrary: lib) (simp_all add: set_pointer_def)

text \<open>A single entry of a table, written out.\<close>

lemma lowered_record [simp]:
  "lowered \<lparr>w_name = n, w_result = r, w_params = ps, w_pointer_result = pr, w_pointer_params = pps, w_arguments = as\<rparr> \<longleftrightarrow>
     map (argument_type ps) as = pps \<and>
     (if pr = r then arguments_ok ps 0 as
      else pr = Void \<and> memory_type r \<and> take 1 as = [Address_of_result] \<and> arguments_ok ps 0 (tl as))"
  by (simp add: lowered_def compiles_def)

lemma w_name_forwards [simp]: "w_name (forwards name r ps) = name"
  by (simp add: forwards_def)

text \<open>Every wrapper of a table has an entry among the pointers.\<close>

definition linked :: "wrapper list \<Rightarrow> (string \<times> string) list \<Rightarrow> bool" where
  "linked ws pointers \<longleftrightarrow> list_all (\<lambda>w. w_name w \<in> set (map fst pointers)) ws"

lemma linked_append: "linked ws ps \<Longrightarrow> linked ws' ps' \<Longrightarrow> linked (ws @ ws') (ps @ ps')"
  by (auto simp: linked_def list_all_iff)

lemma linked_own: "map w_name ws = map fst (drop k ps) \<Longrightarrow> linked ws ps"
  unfolding linked_def list_all_iff by (metis drop_map image_eqI in_set_dropD list.set_map)

lemma fold_set_slot_some:
  assumes "name \<in> fst ` set pointers"
  shows "\<exists>export. (name, export) \<in> set pointers \<and> l_slots (fold (set_slot get_export) pointers lib) name = get_export export"
  using assms
proof (induction pointers arbitrary: lib)
  case (Cons x rest)
  show ?case
  proof (cases "name \<in> fst ` set rest")
    case True
    then show ?thesis
      using Cons.IH [of "set_slot get_export x lib"] by auto
  next
    case False
    then have "name = fst x"
      using Cons.prems by simp
    then show ?thesis
      using False by (intro exI [of _ "snd x"]) (simp add: fold_set_slot_other set_slot_slots)
  qed
qed simp

lemma named_member:
  assumes "map w_name ws = take i (map fst pointers) @ drop j (map fst pointers)" and "w \<in> set ws"
  shows "w_name w \<in> fst ` set pointers"
proof -
  have "w_name w \<in> set (take i (map fst pointers) @ drop j (map fst pointers))"
    using assms by (metis image_eqI list.set_map)
  then show ?thesis
    by (auto dest: in_set_takeD in_set_dropD)
qed

end
