(* ===== verification/Wrapper_Voxels.thy ===== *)
theory Wrapper_Voxels
  imports Wrapper_Abi
begin

text \<open>
  The wrappers of \<open>src/src/VRageNative.cpp\<close> and \<open>src/src/Voxels.cpp\<close> in the order of the sources, and the
  pointers their initialisation looks up. A \<open>forwards\<close> entry has a function pointer of its own type and
  passes its parameters in order; the others are written out. The two libraries export the same API from
  different builds, and treat structures differently.
\<close>

section \<open>\<open>VRageNative.cpp\<close>\<close>

definition vrage_wrappers_1 :: "wrapper list" where
  "vrage_wrappers_1 =
    [forwards ''IsoMesher_Calculate'' Void [Pointer, Integer 4, Pointer, Pointer],
     forwards ''IsoMesher_CalculateMaterials'' Void [Pointer, Integer 4, Pointer, Pointer, Integer 4],
     forwards ''VrDecimatePostprocessing_Create'' Pointer [],
     forwards ''VrDecimatePostprocessing_Release'' Void [Pointer],
     forwards ''VrDecimatePostprocessing_GetFeatureAngle'' (Floating 4) [Pointer],
     forwards ''VrDecimatePostprocessing_SetFeatureAngle'' Void [Pointer, Floating 4],
     forwards ''VrDecimatePostprocessing_GetEdgeThreshold'' (Floating 4) [Pointer],
     forwards ''VrDecimatePostprocessing_SetEdgeThreshold'' Void [Pointer, Floating 4],
     forwards ''VrDecimatePostprocessing_GetPlaneThreshold'' (Floating 4) [Pointer],
     forwards ''VrDecimatePostprocessing_SetPlaneThreshold'' Void [Pointer, Floating 4],
     forwards ''VrDecimatePostprocessing_GetIgnoreEdges'' (Integer 4) [Pointer],
     forwards ''VrDecimatePostprocessing_SetIgnoreEdges'' Void [Pointer, Integer 4],
     forwards ''VrDecimatePostprocessing_GetClassification'' Void [Pointer, Pointer, Pointer, Integer 4],
     forwards ''VrDecimatePostprocessing_GetClassificationDetails'' Void [Pointer, Integer 4, Pointer, Pointer,
       Pointer, Pointer, Pointer],
     forwards ''VrDecimatePostprocessing_TrySimplify'' (Integer 4) [Pointer, Integer 4, Pointer, Pointer, Pointer],
     forwards ''VrDecimatePostprocessing_Simplify'' (Integer 4) [Pointer, Integer 4],
     \<lparr>w_name = ''VrPlanetShape_Create'', w_result = Pointer, w_params = [Struct 12, Floating 4, Floating 4,
       Floating 4, Struct 56, Struct 56, Integer 4], w_pointer_result = Pointer, w_pointer_params = [Pointer,
       Floating 4, Floating 4, Floating 4, Pointer, Pointer, Integer 4], w_arguments = [Address_of 0, Param 1,
       Param 2, Param 3, Address_of 4, Address_of 5, Param 6]\<rparr>,
     forwards ''VrPlanetShape_Release'' Void [Pointer],
     \<lparr>w_name = ''VrPlanetShape_ReadContentRange'', w_result = Void, w_params = [Pointer, Pointer, Integer 4,
       Integer 4, Struct 12, Struct 12, Struct 12, Floating 4, Integer 4], w_pointer_result = Void,
       w_pointer_params = [Pointer, Pointer, Integer 4, Integer 4, Pointer, Pointer, Pointer, Floating 4, Integer 4],
       w_arguments = [Param 0, Param 1, Param 2, Param 3, Address_of 4, Address_of 5, Address_of 6, Param 7,
       Param 8]\<rparr>,
     \<lparr>w_name = ''VrPlanetShape_CheckContentRange'', w_result = Integer 4, w_params = [Pointer, Struct 12,
       Struct 12, Floating 4, Integer 4], w_pointer_result = Integer 4, w_pointer_params = [Pointer, Pointer, Pointer,
       Floating 4, Integer 4], w_arguments = [Param 0, Address_of 1, Address_of 2, Param 3, Param 4]\<rparr>,
     forwards ''VrPlanetShape_GetValue'' (Floating 4) [Pointer, Struct 8, Integer 4, Pointer]]"

definition vrage_wrappers_2 :: "wrapper list" where
  "vrage_wrappers_2 =
    [forwards ''VrPlanetShape_GetHeight'' (Floating 4) [Pointer, Struct 8, Integer 4, Pointer],
     forwards ''VrPostprocessing_Process'' Void [Pointer, Pointer],
     forwards ''VrRandomizePostprocessing_Create'' Pointer [Floating 4],
     forwards ''VrRandomizePostprocessing_Release'' Void [Pointer],
     \<lparr>w_name = ''VrSewGuide_Create1'', w_result = Pointer, w_params = [Integer 4, Struct 12, Struct 12,
       Pointer], w_pointer_result = Pointer, w_pointer_params = [Integer 4, Pointer, Pointer, Pointer],
       w_arguments = [Param 0, Address_of 1, Address_of 2, Param 3]\<rparr>,
     forwards ''VrSewGuide_Create2'' Pointer [Pointer, Pointer],
     forwards ''VrSewGuide_Release'' Void [Pointer],
     forwards ''VrSewGuide_GetInMemorySize'' (Integer 4) [Pointer],
     forwards ''VrSewGuide_GetLod'' (Integer 4) [Pointer],
     forwards ''VrSewGuide_GetScale'' (Floating 4) [Pointer],
     \<lparr>w_name = ''VrSewGuide_GetStart'', w_result = Struct 12, w_params = [Pointer], w_pointer_result = Void,
       w_pointer_params = [Pointer, Pointer], w_arguments = [Address_of_result, Param 0]\<rparr>,
     \<lparr>w_name = ''VrSewGuide_GetEnd'', w_result = Struct 12, w_params = [Pointer], w_pointer_result = Void,
       w_pointer_params = [Pointer, Pointer], w_arguments = [Address_of_result, Param 0]\<rparr>,
     \<lparr>w_name = ''VrSewGuide_GetSize'', w_result = Struct 12, w_params = [Pointer], w_pointer_result = Void,
       w_pointer_params = [Pointer, Pointer], w_arguments = [Address_of_result, Param 0]\<rparr>,
     forwards ''VrSewGuide_GetSewn'' (Integer 4) [Pointer],
     forwards ''VrSewGuide_Reset'' Void [Pointer],
     forwards ''VrSewGuide_SetMesh'' Void [Pointer, Pointer, Pointer],
     forwards ''VrSewGuide_GetMesh'' Pointer [Pointer],
     \<lparr>w_name = ''VrSewGuide_InvalidateGenerated'', w_result = Void, w_params = [Pointer, Struct 12],
       w_pointer_result = Void, w_pointer_params = [Pointer, Pointer], w_arguments = [Param 0, Address_of 1]\<rparr>,
     forwards ''VrSewGuide_GetVersion'' (Integer 4) [Pointer]]"

definition vrage_wrappers_3 :: "wrapper list" where
  "vrage_wrappers_3 =
    [\<lparr>w_name = ''VrShellDataCache_FromDataCube'', w_result = Pointer, w_params = [Struct 12, Pointer, Pointer],
       w_pointer_result = Pointer, w_pointer_params = [Pointer, Pointer, Pointer], w_arguments = [Address_of 0,
       Param 1, Param 2]\<rparr>,
     forwards ''VrShellDataCache_Empty'' Pointer [],
     forwards ''VrShellDataCache_Full'' Pointer [],
     forwards ''VrTailor_Create'' Pointer [],
     forwards ''VrTailor_Release'' Void [Pointer],
     \<lparr>w_name = ''VrTailor_Sew'', w_result = Void, w_params = [Pointer, Pointer, Integer 1, Struct 12,
       Struct 12], w_pointer_result = Void, w_pointer_params = [Pointer, Pointer, Integer 1, Pointer, Pointer],
       w_arguments = [Param 0, Param 1, Param 2, Address_of 3, Address_of 4]\<rparr>,
     forwards ''VrTailor_ClearBuffers'' Void [Pointer],
     forwards ''VrTailor_SetDebug'' Void [Pointer, Integer 4],
     forwards ''VrTailor_SetGenerate'' Void [Pointer, Integer 1],
     forwards ''VrTailor_DebugReadGenerated'' Void [Pointer, Pointer, Pointer],
     forwards ''VrTailor_DebugReadRemapped'' Void [Pointer, Pointer, Pointer],
     forwards ''VrTailor_DebugReadStudied'' Void [Pointer, Pointer, Pointer],
     \<lparr>w_name = ''VrVoxelMesh_Create'', w_result = Pointer, w_params = [Struct 12, Struct 12, Integer 4],
       w_pointer_result = Pointer, w_pointer_params = [Pointer, Pointer, Integer 4], w_arguments = [Address_of 0,
       Address_of 1, Param 2]\<rparr>,
     forwards ''VrVoxelMesh_Release'' Void [Pointer],
     forwards ''VrVoxelMesh_GetVertexCount'' (Integer 4) [Pointer],
     forwards ''VrVoxelMesh_GetVertices'' Pointer [Pointer],
     forwards ''VrVoxelMesh_GetTriangleCount'' (Integer 4) [Pointer],
     forwards ''VrVoxelMesh_GetTriangles'' Pointer [Pointer],
     forwards ''VrVoxelMesh_GetLod'' (Integer 4) [Pointer],
     forwards ''VrVoxelMesh_GetScale'' (Floating 4) [Pointer]]"

definition vrage_wrappers_4 :: "wrapper list" where
  "vrage_wrappers_4 =
    [\<lparr>w_name = ''VrVoxelMesh_GetStart'', w_result = Struct 12, w_params = [Pointer], w_pointer_result = Void,
       w_pointer_params = [Pointer, Pointer], w_arguments = [Address_of_result, Param 0]\<rparr>,
     \<lparr>w_name = ''VrVoxelMesh_GetEnd'', w_result = Struct 12, w_params = [Pointer], w_pointer_result = Void,
       w_pointer_params = [Pointer, Pointer], w_arguments = [Address_of_result, Param 0]\<rparr>,
     forwards ''VrVoxelMesh_GetMeshData'' Void [Pointer, Pointer, Pointer, Pointer, Pointer, Pointer, Pointer],
     forwards ''VrVoxelMesh_Clear'' Void [Pointer]]"

definition vrage_wrappers :: "wrapper list" where
  "vrage_wrappers =
    vrage_wrappers_1 @ vrage_wrappers_2 @ vrage_wrappers_3 @ vrage_wrappers_4"

definition vrage_pointers :: "string list" where
  "vrage_pointers =
    [''IsoMesher_Calculate'',
     ''IsoMesher_CalculateMaterials'',
     ''VrDecimatePostprocessing_Create'',
     ''VrDecimatePostprocessing_Release'',
     ''VrDecimatePostprocessing_GetFeatureAngle'',
     ''VrDecimatePostprocessing_SetFeatureAngle'',
     ''VrDecimatePostprocessing_GetEdgeThreshold'',
     ''VrDecimatePostprocessing_SetEdgeThreshold'',
     ''VrDecimatePostprocessing_GetPlaneThreshold'',
     ''VrDecimatePostprocessing_SetPlaneThreshold'',
     ''VrDecimatePostprocessing_GetIgnoreEdges'',
     ''VrDecimatePostprocessing_SetIgnoreEdges'',
     ''VrDecimatePostprocessing_GetClassification'',
     ''VrDecimatePostprocessing_GetClassificationDetails'',
     ''VrDecimatePostprocessing_TrySimplify'',
     ''VrDecimatePostprocessing_Simplify'',
     ''VrPlanetShape_Create'',
     ''VrPlanetShape_Release'',
     ''VrPlanetShape_ReadContentRange'',
     ''VrPlanetShape_CheckContentRange'',
     ''VrPlanetShape_GetValue'',
     ''VrPlanetShape_GetHeight'',
     ''VrPostprocessing_Process'',
     ''VrRandomizePostprocessing_Create'',
     ''VrRandomizePostprocessing_Release'',
     ''VrSewGuide_Create1'',
     ''VrSewGuide_Create2'',
     ''VrSewGuide_Release'',
     ''VrSewGuide_GetInMemorySize'',
     ''VrSewGuide_GetLod'',
     ''VrSewGuide_GetScale'',
     ''VrSewGuide_GetStart'',
     ''VrSewGuide_GetEnd'',
     ''VrSewGuide_GetSize'',
     ''VrSewGuide_GetSewn'',
     ''VrSewGuide_Reset'',
     ''VrSewGuide_SetMesh'',
     ''VrSewGuide_GetMesh'',
     ''VrSewGuide_InvalidateGenerated'',
     ''VrSewGuide_GetVersion'',
     ''VrShellDataCache_FromDataCube'',
     ''VrShellDataCache_Empty'',
     ''VrShellDataCache_Full'',
     ''VrTailor_Create'',
     ''VrTailor_Release'',
     ''VrTailor_Sew'',
     ''VrTailor_ClearBuffers'',
     ''VrTailor_SetDebug'',
     ''VrTailor_SetGenerate'',
     ''VrTailor_DebugReadGenerated'',
     ''VrTailor_DebugReadRemapped'',
     ''VrTailor_DebugReadStudied'',
     ''VrVoxelMesh_Create'',
     ''VrVoxelMesh_Release'',
     ''VrVoxelMesh_GetVertexCount'',
     ''VrVoxelMesh_GetVertices'',
     ''VrVoxelMesh_GetTriangleCount'',
     ''VrVoxelMesh_GetTriangles'',
     ''VrVoxelMesh_GetLod'',
     ''VrVoxelMesh_GetScale'',
     ''VrVoxelMesh_GetStart'',
     ''VrVoxelMesh_GetEnd'',
     ''VrVoxelMesh_GetMeshData'',
     ''VrVoxelMesh_Clear'']"

lemma vrage_lowered: "list_all lowered vrage_wrappers"
  by (simp add: vrage_wrappers_def vrage_wrappers_1_def vrage_wrappers_2_def vrage_wrappers_3_def vrage_wrappers_4_def
    register_size_def eval_nat_numeral)

section \<open>\<open>Voxels.cpp\<close>\<close>

definition voxels_wrappers_1 :: "wrapper list" where
  "voxels_wrappers_1 =
    [\<lparr>w_name = ''IsoMesher_Calculate'', w_result = Void, w_params = [Pointer, Struct 12, Pointer, Pointer,
       Struct 28], w_pointer_result = Void, w_pointer_params = [Pointer, Pointer, Pointer, Pointer, Pointer],
       w_arguments = [Param 0, Address_of 1, Param 2, Param 3, Address_of 4]\<rparr>,
     \<lparr>w_name = ''IsoMesher_CalculateMaterials'', w_result = Void, w_params = [Pointer, Struct 12, Pointer,
       Pointer], w_pointer_result = Void, w_pointer_params = [Pointer, Pointer, Pointer, Pointer],
       w_arguments = [Param 0, Address_of 1, Param 2, Param 3]\<rparr>,
     forwards ''IsoMesher_CalculateNormals'' Void [Pointer]]"

definition voxels_wrappers_2 :: "wrapper list" where
  "voxels_wrappers_2 =
    [forwards ''VrDecimatePostprocessing_Create'' Pointer [],
     forwards ''VrDecimatePostprocessing_GetClassification'' Void [Pointer, Pointer, Pointer, Integer 4],
     forwards ''VrDecimatePostprocessing_GetClassificationDetails'' Void [Pointer, Integer 4, Pointer, Pointer,
       Pointer, Pointer, Pointer],
     forwards ''VrDecimatePostprocessing_GetEdgeThreshold'' (Floating 4) [Pointer],
     forwards ''VrDecimatePostprocessing_GetFeatureAngle'' (Floating 4) [Pointer],
     forwards ''VrDecimatePostprocessing_GetIgnoreEdges'' (Integer 4) [Pointer],
     forwards ''VrDecimatePostprocessing_GetInMemorySize'' (Integer 8) [Pointer],
     forwards ''VrDecimatePostprocessing_GetPlaneThreshold'' (Floating 4) [Pointer],
     forwards ''VrDecimatePostprocessing_Release'' Void [Pointer],
     forwards ''VrDecimatePostprocessing_SetEdgeThreshold'' Void [Pointer, Floating 4],
     forwards ''VrDecimatePostprocessing_SetFeatureAngle'' Void [Pointer, Floating 4],
     forwards ''VrDecimatePostprocessing_SetIgnoreEdges'' Void [Pointer, Integer 4],
     forwards ''VrDecimatePostprocessing_SetPlaneThreshold'' Void [Pointer, Floating 4],
     forwards ''VrDecimatePostprocessing_Simplify'' (Integer 4) [Pointer, Integer 4],
     forwards ''VrDecimatePostprocessing_TrySimplify'' (Integer 4) [Pointer, Integer 4, Pointer, Pointer, Pointer],
     \<lparr>w_name = ''VrPlanetShape_CheckContentRange'', w_result = Integer 4, w_params = [Pointer, Struct 12,
       Struct 12, Floating 4, Integer 4], w_pointer_result = Integer 4, w_pointer_params = [Pointer, Pointer, Pointer,
       Floating 4, Integer 4], w_arguments = [Param 0, Address_of 1, Address_of 2, Param 3, Param 4]\<rparr>,
     \<lparr>w_name = ''VrPlanetShape_Create'', w_result = Pointer, w_params = [Struct 12, Floating 4, Floating 4,
       Floating 4, Struct 56, Struct 56, Integer 4], w_pointer_result = Pointer, w_pointer_params = [Pointer,
       Floating 4, Floating 4, Floating 4, Pointer, Pointer, Integer 4], w_arguments = [Address_of 0, Param 1,
       Param 2, Param 3, Address_of 4, Address_of 5, Param 6]\<rparr>,
     \<lparr>w_name = ''VrPlanetShape_GetHeight'', w_result = Floating 4, w_params = [Pointer, Struct 8, Integer 4,
       Pointer], w_pointer_result = Floating 4, w_pointer_params = [Pointer, Integer 8, Integer 4, Pointer],
       w_arguments = [Param 0, Bits_of 1, Param 2, Param 3]\<rparr>,
     forwards ''VrPlanetShape_GetInMemorySize'' (Integer 8) [Pointer],
     \<lparr>w_name = ''VrPlanetShape_GetValue'', w_result = Floating 4, w_params = [Pointer, Struct 8, Integer 4,
       Pointer], w_pointer_result = Floating 4, w_pointer_params = [Pointer, Integer 8, Integer 4, Pointer],
       w_arguments = [Param 0, Bits_of 1, Param 2, Param 3]\<rparr>,
     \<lparr>w_name = ''VrPlanetShape_ReadContentRange'', w_result = Void, w_params = [Pointer, Pointer, Integer 4,
       Integer 4, Struct 12, Struct 12, Struct 12, Floating 4, Integer 4], w_pointer_result = Void,
       w_pointer_params = [Pointer, Pointer, Integer 4, Integer 4, Pointer, Pointer, Pointer, Floating 4, Integer 4],
       w_arguments = [Param 0, Param 1, Param 2, Param 3, Address_of 4, Address_of 5, Address_of 6, Param 7,
       Param 8]\<rparr>,
     forwards ''VrPlanetShape_Release'' Void [Pointer],
     forwards ''VrPostprocessing_Process'' Void [Pointer, Pointer]]"

definition voxels_wrappers_3 :: "wrapper list" where
  "voxels_wrappers_3 =
    [forwards ''VrRandomizePostprocessing_Create'' Pointer [Floating 4],
     forwards ''VrRandomizePostprocessing_GetInMemorySize'' (Integer 8) [Pointer],
     forwards ''VrRandomizePostprocessing_Release'' Void [Pointer],
     \<lparr>w_name = ''VrSewGuide_Create1'', w_result = Pointer, w_params = [Integer 4, Struct 12, Struct 12,
       Pointer], w_pointer_result = Pointer, w_pointer_params = [Integer 4, Pointer, Pointer, Pointer],
       w_arguments = [Param 0, Address_of 1, Address_of 2, Param 3]\<rparr>,
     forwards ''VrSewGuide_Create2'' Pointer [Pointer, Pointer],
     \<lparr>w_name = ''VrSewGuide_GetEnd'', w_result = Struct 12, w_params = [Pointer], w_pointer_result = Void,
       w_pointer_params = [Pointer, Pointer], w_arguments = [Address_of_result, Param 0]\<rparr>,
     forwards ''VrSewGuide_GetInMemorySize'' (Integer 8) [Pointer],
     forwards ''VrSewGuide_GetLod'' (Integer 4) [Pointer],
     forwards ''VrSewGuide_GetMesh'' Pointer [Pointer],
     forwards ''VrSewGuide_GetScale'' (Floating 4) [Pointer],
     forwards ''VrSewGuide_GetSewn'' (Integer 4) [Pointer],
     \<lparr>w_name = ''VrSewGuide_GetSize'', w_result = Struct 12, w_params = [Pointer], w_pointer_result = Void,
       w_pointer_params = [Pointer, Pointer], w_arguments = [Address_of_result, Param 0]\<rparr>,
     \<lparr>w_name = ''VrSewGuide_GetStart'', w_result = Struct 12, w_params = [Pointer], w_pointer_result = Void,
       w_pointer_params = [Pointer, Pointer], w_arguments = [Address_of_result, Param 0]\<rparr>,
     forwards ''VrSewGuide_GetVersion'' (Integer 4) [Pointer],
     \<lparr>w_name = ''VrSewGuide_InvalidateGenerated'', w_result = Void, w_params = [Pointer, Struct 12],
       w_pointer_result = Void, w_pointer_params = [Pointer, Pointer], w_arguments = [Param 0, Address_of 1]\<rparr>,
     \<lparr>w_name = ''VrSewGuide_Recycle1'', w_result = Void, w_params = [Pointer, Integer 4, Struct 12, Struct 12,
       Pointer], w_pointer_result = Void, w_pointer_params = [Pointer, Integer 4, Pointer, Pointer, Pointer],
       w_arguments = [Param 0, Param 1, Address_of 2, Address_of 3, Param 4]\<rparr>,
     forwards ''VrSewGuide_Recycle2'' Void [Pointer, Pointer, Pointer],
     forwards ''VrSewGuide_Release'' Void [Pointer],
     forwards ''VrSewGuide_Reset'' Void [Pointer],
     forwards ''VrSewGuide_SetMesh'' Void [Pointer, Pointer, Pointer],
     forwards ''VrShellDataCache_Empty'' Pointer [],
     \<lparr>w_name = ''VrShellDataCache_FromDataCube'', w_result = Pointer, w_params = [Struct 12, Pointer, Pointer],
       w_pointer_result = Pointer, w_pointer_params = [Pointer, Pointer, Pointer], w_arguments = [Address_of 0,
       Param 1, Param 2]\<rparr>,
     forwards ''VrShellDataCache_Full'' Pointer []]"

definition voxels_wrappers_4 :: "wrapper list" where
  "voxels_wrappers_4 =
    [forwards ''VrShellDataCache_GetInMemorySize'' (Integer 8) [Pointer],
     forwards ''VrShellDataCache_Release'' Void [Pointer],
     forwards ''VrTailor_ClearBuffers'' Void [Pointer],
     forwards ''VrTailor_Create'' Pointer [],
     forwards ''VrTailor_DebugReadGenerated'' Void [Pointer, Pointer, Pointer],
     forwards ''VrTailor_DebugReadRemapped'' Void [Pointer, Pointer, Pointer],
     forwards ''VrTailor_DebugReadStudied'' Void [Pointer, Pointer, Pointer],
     forwards ''VrTailor_GetInMemorySize'' (Integer 8) [Pointer],
     forwards ''VrTailor_RecalculateEdgeNormal'' Void [Pointer, Pointer],
     forwards ''VrTailor_Release'' Void [Pointer],
     forwards ''VrTailor_SetDebug'' Void [Pointer, Integer 4],
     forwards ''VrTailor_SetGenerate'' Void [Pointer, Integer 1],
     \<lparr>w_name = ''VrTailor_Sew'', w_result = Void, w_params = [Pointer, Pointer, Integer 1, Struct 12,
       Struct 12], w_pointer_result = Void, w_pointer_params = [Pointer, Pointer, Integer 1, Pointer, Pointer],
       w_arguments = [Param 0, Param 1, Param 2, Address_of 3, Address_of 4]\<rparr>,
     forwards ''VrVoxelMesh_Clear'' Void [Pointer],
     \<lparr>w_name = ''VrVoxelMesh_Create'', w_result = Pointer, w_params = [Struct 12, Struct 12, Integer 4],
       w_pointer_result = Pointer, w_pointer_params = [Pointer, Pointer, Integer 4], w_arguments = [Address_of 0,
       Address_of 1, Param 2]\<rparr>,
     \<lparr>w_name = ''VrVoxelMesh_GetEnd'', w_result = Struct 12, w_params = [Pointer], w_pointer_result = Void,
       w_pointer_params = [Pointer, Pointer], w_arguments = [Address_of_result, Param 0]\<rparr>,
     forwards ''VrVoxelMesh_GetInMemorySize'' (Integer 8) [Pointer],
     forwards ''VrVoxelMesh_GetLod'' (Integer 4) [Pointer],
     forwards ''VrVoxelMesh_GetMeshData'' Void [Pointer, Pointer, Pointer, Pointer, Pointer, Pointer, Pointer],
     forwards ''VrVoxelMesh_GetScale'' (Floating 4) [Pointer],
     \<lparr>w_name = ''VrVoxelMesh_GetStart'', w_result = Struct 12, w_params = [Pointer], w_pointer_result = Void,
       w_pointer_params = [Pointer, Pointer], w_arguments = [Address_of_result, Param 0]\<rparr>,
     forwards ''VrVoxelMesh_GetTriangleCount'' (Integer 4) [Pointer],
     forwards ''VrVoxelMesh_GetTriangles'' Pointer [Pointer]]"

definition voxels_wrappers_5 :: "wrapper list" where
  "voxels_wrappers_5 =
    [forwards ''VrVoxelMesh_GetVertexCount'' (Integer 4) [Pointer],
     forwards ''VrVoxelMesh_GetVertices'' Pointer [Pointer],
     \<lparr>w_name = ''VrVoxelMesh_Recycle'', w_result = Void, w_params = [Pointer, Struct 12, Struct 12, Integer 4],
       w_pointer_result = Void, w_pointer_params = [Pointer, Pointer, Pointer, Integer 4], w_arguments = [Param 0,
       Address_of 1, Address_of 2, Param 3]\<rparr>,
     forwards ''VrVoxelMesh_Release'' Void [Pointer],
     forwards ''VrVoxels_GetTotalAllocatedBytes'' (Integer 8) []]"

definition voxels_wrappers :: "wrapper list" where
  "voxels_wrappers =
    voxels_wrappers_1 @ voxels_wrappers_2 @ voxels_wrappers_3 @ voxels_wrappers_4 @ voxels_wrappers_5"

definition voxels_pointers_1 :: "(string \<times> string) list" where
  "voxels_pointers_1 =
    [(''IsoMesher_Calculate'', ''IsoMesher_Calculate''),
     (''IsoMesher_CalculateMaterials'', ''IsoMesher_CalculateMaterials''),
     (''IsoMesher_CalculateNormals'', ''IsoMesher_CalculateNormals''),
     (''RegisterAssertionCallback'', ''RegisterAssertionCallback''),
     (''VrDecimatePostprocessing_Create'', ''VrDecimatePostprocessing_Create''),
     (''VrDecimatePostprocessing_GetClassification'', ''VrDecimatePostprocessing_GetClassification''),
     (''VrDecimatePostprocessing_GetClassificationDetails'', ''VrDecimatePostprocessing_GetClassificationDetails''),
     (''VrDecimatePostprocessing_GetEdgeThreshold'', ''VrDecimatePostprocessing_GetEdgeThreshold''),
     (''VrDecimatePostprocessing_GetFeatureAngle'', ''VrDecimatePostprocessing_GetFeatureAngle''),
     (''VrDecimatePostprocessing_GetIgnoreEdges'', ''VrDecimatePostprocessing_GetIgnoreEdges''),
     (''VrDecimatePostprocessing_GetInMemorySize'', ''VrDecimatePostprocessing_GetInMemorySize''),
     (''VrDecimatePostprocessing_GetPlaneThreshold'', ''VrDecimatePostprocessing_GetPlaneThreshold''),
     (''VrDecimatePostprocessing_Release'', ''VrDecimatePostprocessing_Release''),
     (''VrDecimatePostprocessing_SetEdgeThreshold'', ''VrDecimatePostprocessing_SetEdgeThreshold''),
     (''VrDecimatePostprocessing_SetFeatureAngle'', ''VrDecimatePostprocessing_SetFeatureAngle''),
     (''VrDecimatePostprocessing_SetIgnoreEdges'', ''VrDecimatePostprocessing_SetIgnoreEdges''),
     (''VrDecimatePostprocessing_SetPlaneThreshold'', ''VrDecimatePostprocessing_SetPlaneThreshold''),
     (''VrDecimatePostprocessing_Simplify'', ''VrDecimatePostprocessing_Simplify''),
     (''VrDecimatePostprocessing_TrySimplify'', ''VrDecimatePostprocessing_TrySimplify''),
     (''VrPlanetShape_CheckContentRange'', ''VrPlanetShape_CheckContentRange''),
     (''VrPlanetShape_Create'', ''VrPlanetShape_Create''),
     (''VrPlanetShape_GetHeight'', ''VrPlanetShape_GetHeight''),
     (''VrPlanetShape_GetInMemorySize'', ''VrPlanetShape_GetInMemorySize''),
     (''VrPlanetShape_GetValue'', ''VrPlanetShape_GetValue''),
     (''VrPlanetShape_ReadContentRange'', ''VrPlanetShape_ReadContentRange''),
     (''VrPlanetShape_Release'', ''VrPlanetShape_Release''),
     (''VrPostprocessing_Process'', ''VrPostprocessing_Process''),
     (''VrRandomizePostprocessing_Create'', ''VrRandomizePostprocessing_Create''),
     (''VrRandomizePostprocessing_GetInMemorySize'', ''VrRandomizePostprocessing_GetInMemorySize''),
     (''VrRandomizePostprocessing_Release'', ''VrRandomizePostprocessing_Release''),
     (''VrSewGuide_Create1'', ''VrSewGuide_Create1''),
     (''VrSewGuide_Create2'', ''VrSewGuide_Create2''),
     (''VrSewGuide_GetEnd'', ''VrSewGuide_GetEnd''),
     (''VrSewGuide_GetInMemorySize'', ''VrSewGuide_GetInMemorySize''),
     (''VrSewGuide_GetLod'', ''VrSewGuide_GetLod''),
     (''VrSewGuide_GetMesh'', ''VrSewGuide_GetMesh''),
     (''VrSewGuide_GetScale'', ''VrSewGuide_GetScale''),
     (''VrSewGuide_GetSewn'', ''VrSewGuide_GetSewn''),
     (''VrSewGuide_GetSize'', ''VrSewGuide_GetSize''),
     (''VrSewGuide_GetStart'', ''VrSewGuide_GetStart''),
     (''VrSewGuide_GetVersion'', ''VrSewGuide_GetVersion''),
     (''VrSewGuide_InvalidateGenerated'', ''VrSewGuide_InvalidateGenerated''),
     (''VrSewGuide_Recycle1'', ''VrSewGuide_Recycle1''),
     (''VrSewGuide_Recycle2'', ''VrSewGuide_Recycle2''),
     (''VrSewGuide_Release'', ''VrSewGuide_Release''),
     (''VrSewGuide_Reset'', ''VrSewGuide_Reset''),
     (''VrSewGuide_SetMesh'', ''VrSewGuide_SetMesh''),
     (''VrShellDataCache_Empty'', ''VrShellDataCache_Empty''),
     (''VrShellDataCache_FromDataCube'', ''VrShellDataCache_FromDataCube''),
     (''VrShellDataCache_Full'', ''VrShellDataCache_Full'')]"

definition voxels_pointers_2 :: "(string \<times> string) list" where
  "voxels_pointers_2 =
    [(''VrShellDataCache_GetInMemorySize'', ''VrShellDataCache_GetInMemorySize''),
     (''VrShellDataCache_Release'', ''VrShellDataCache_Release''),
     (''VrTailor_ClearBuffers'', ''VrTailor_ClearBuffers''),
     (''VrTailor_Create'', ''VrTailor_Create''),
     (''VrTailor_DebugReadGenerated'', ''VrTailor_DebugReadGenerated''),
     (''VrTailor_DebugReadRemapped'', ''VrTailor_DebugReadRemapped''),
     (''VrTailor_DebugReadStudied'', ''VrTailor_DebugReadStudied''),
     (''VrTailor_GetInMemorySize'', ''VrTailor_GetInMemorySize''),
     (''VrTailor_RecalculateEdgeNormal'', ''VrTailor_RecalculateEdgeNormal''),
     (''VrTailor_Release'', ''VrTailor_Release''),
     (''VrTailor_SetDebug'', ''VrTailor_SetDebug''),
     (''VrTailor_SetGenerate'', ''VrTailor_SetGenerate''),
     (''VrTailor_Sew'', ''VrTailor_Sew''),
     (''VrVoxelMesh_Clear'', ''VrVoxelMesh_Clear''),
     (''VrVoxelMesh_Create'', ''VrVoxelMesh_Create''),
     (''VrVoxelMesh_GetEnd'', ''VrVoxelMesh_GetEnd''),
     (''VrVoxelMesh_GetInMemorySize'', ''VrVoxelMesh_GetInMemorySize''),
     (''VrVoxelMesh_GetLod'', ''VrVoxelMesh_GetLod''),
     (''VrVoxelMesh_GetMeshData'', ''VrVoxelMesh_GetMeshData''),
     (''VrVoxelMesh_GetScale'', ''VrVoxelMesh_GetScale''),
     (''VrVoxelMesh_GetStart'', ''VrVoxelMesh_GetStart''),
     (''VrVoxelMesh_GetTriangleCount'', ''VrVoxelMesh_GetTriangleCount''),
     (''VrVoxelMesh_GetTriangles'', ''VrVoxelMesh_GetTriangles''),
     (''VrVoxelMesh_GetVertexCount'', ''VrVoxelMesh_GetVertexCount''),
     (''VrVoxelMesh_GetVertices'', ''VrVoxelMesh_GetVertices''),
     (''VrVoxelMesh_Recycle'', ''VrVoxelMesh_Recycle''),
     (''VrVoxelMesh_Release'', ''VrVoxelMesh_Release''),
     (''VrVoxels_GetTotalAllocatedBytes'', ''VrVoxels_GetTotalAllocatedBytes'')]"

definition voxels_pointers :: "(string \<times> string) list" where
  "voxels_pointers = voxels_pointers_1 @ voxels_pointers_2"

lemma voxels_lowered: "list_all lowered voxels_wrappers"
  by (simp add: voxels_wrappers_def voxels_wrappers_1_def voxels_wrappers_2_def voxels_wrappers_3_def voxels_wrappers_4_def voxels_wrappers_5_def
    register_size_def eval_nat_numeral)

lemma voxels_names: "map w_name voxels_wrappers = take 3 (map fst voxels_pointers) @ drop 4 (map fst voxels_pointers)"
  by (simp add: voxels_wrappers_def voxels_wrappers_1_def voxels_wrappers_2_def voxels_wrappers_3_def voxels_wrappers_4_def voxels_wrappers_5_def
    voxels_pointers_def voxels_pointers_1_def voxels_pointers_2_def)

lemma voxels_linked: "w \<in> set voxels_wrappers \<Longrightarrow> w_name w \<in> fst ` set voxels_pointers"
  by (rule named_member [OF voxels_names])

lemma voxels_own_names: "own_names voxels_pointers"
  by (simp add: own_names_def voxels_pointers_def voxels_pointers_1_def voxels_pointers_2_def)

section \<open>The assertion callback\<close>

text \<open>The slot holds null as 0; the bridge calls nothing then.\<close>

definition RegisterAssertionCallback :: "nat \<Rightarrow> nat \<Rightarrow> nat" where
  "RegisterAssertionCallback call sysv_assertion_callback = call"

definition UnregisterAssertionCallback :: "nat \<Rightarrow> nat" where
  "UnregisterAssertionCallback sysv_assertion_callback = 0"

definition assertion_bridge :: "nat \<Rightarrow> nat option" where
  "assertion_bridge sysv_assertion_callback =
     (if sysv_assertion_callback \<noteq> 0 then Some sysv_assertion_callback else None)"

lemma assertion_after:
  "assertion_bridge (RegisterAssertionCallback call s) = (if call = 0 then None else Some call)"
  "assertion_bridge (UnregisterAssertionCallback s) = None"
  by (simp_all add: assertion_bridge_def RegisterAssertionCallback_def UnregisterAssertionCallback_def)

end
