(* ===== verification/Wrapper_Kythera.thy ===== *)
theory Wrapper_Kythera
  imports Wrapper_Abi
begin

text \<open>
  The wrappers of \<open>src/src/KytheraV2.cpp\<close>, the pointers its initialisation looks up, and
  \<open>KytV2_CreateCore\<close>, which replaces the callbacks of the host.
\<close>

definition kythera_wrappers_1 :: "wrapper list" where
  "kythera_wrappers_1 =
    [forwards ''KytV2_Agent_CancelNextLeg'' Void [Integer 4],
     forwards ''KytV2_Agent_GetPath'' (Integer 4) [Integer 4, Pointer, Pointer, Pointer],
     forwards ''KytV2_Agent_HasNextLeg'' (Integer 4) [Integer 4],
     forwards ''KytV2_Agent_QueueNextLeg'' (Integer 4) [Integer 4, Pointer, Integer 4, Floating 4, Floating 4,
       Floating 4, Floating 4, Integer 4],
     forwards ''KytV2_Agent_RequestPath'' (Integer 4) [Integer 4, Pointer, Integer 4, Floating 4, Floating 4,
       Floating 4, Floating 4, Floating 4, Floating 4, Floating 4, Integer 4, Integer 4],
     forwards ''KytV2_Agent_SetArrivalDeceleration'' Void [Integer 4, Integer 4],
     forwards ''KytV2_Agent_SetSpeed'' Void [Integer 4, Floating 4],
     forwards ''KytV2_Agent_Stop'' Void [Integer 4],
     forwards ''KytV2_Agent_Tick'' (Integer 4) [Integer 4, Floating 4, Floating 4, Floating 4, Floating 4, Pointer],
     forwards ''KytV2_CanSurfacePathTo'' (Integer 4) [Integer 4, Floating 4, Floating 4, Floating 4, Floating 4,
       Floating 4, Floating 4],
     forwards ''KytV2_CreateAgent'' (Integer 4) [Floating 4, Floating 4, Floating 4]]"

definition kythera_wrappers_2 :: "wrapper list" where
  "kythera_wrappers_2 =
    [forwards ''KytV2_CreateFlightAgent'' (Integer 4) [Floating 4, Floating 4, Floating 4],
     forwards ''KytV2_CreateFlightNavMesh'' (Integer 4) [Floating 8, Integer 4, Integer 4, Integer 4],
     forwards ''KytV2_CreateFlightNavigation'' Pointer [],
     forwards ''KytV2_CreateGroundNavigation'' Pointer [],
     forwards ''KytV2_CreateNavMesh'' (Integer 4) [Pointer, Floating 4, Floating 4, Floating 4, Floating 4,
       Floating 4, Floating 4, Integer 4, Integer 4, Floating 4, Floating 4, Pointer],
     forwards ''KytV2_CreatePhysicalWorldModel'' Void [],
     forwards ''KytV2_CreateSurfaceAgent'' (Integer 4) [Floating 4, Floating 4, Floating 4],
     forwards ''KytV2_CreateSurfaceNavMesh'' (Integer 4) [Floating 4, Floating 4, Floating 4, Integer 4, Floating 4,
       Integer 4, Floating 4, Integer 4],
     forwards ''KytV2_CreateSurfaceNavigation'' Pointer [],
     forwards ''KytV2_Destroy'' Void [],
     forwards ''KytV2_DestroyAgent'' Void [Integer 4],
     forwards ''KytV2_DestroyCover'' Void [],
     forwards ''KytV2_DestroyFlightAgent'' Void [Integer 4],
     forwards ''KytV2_DestroyFlightNavMesh'' Void [Integer 4],
     forwards ''KytV2_DestroyGroundNavigation'' Void [],
     forwards ''KytV2_DestroyNavMesh'' Void [Pointer, Integer 4],
     forwards ''KytV2_DestroyPhysicalWorldModel'' Void [],
     forwards ''KytV2_DestroySurfaceAgent'' Void [Integer 4],
     forwards ''KytV2_DestroySurfaceNavMesh'' Void [Integer 4],
     forwards ''KytV2_DestroySurfaceNavigation'' Void [],
     forwards ''KytV2_DiagnoseCoverState'' (Integer 4) [Integer 4, Floating 4, Floating 4, Floating 4, Floating 4,
       Pointer, Integer 4],
     forwards ''KytV2_DoBackgroundWork'' (Integer 4) [Pointer],
     forwards ''KytV2_DumpSurfaceTriangleComparison'' Void [Integer 4, Pointer, Pointer],
     forwards ''KytV2_EndGeometryUploadBatch'' Void [],
     forwards ''KytV2_EndUpdate'' Void [Pointer]]"

definition kythera_wrappers_3 :: "wrapper list" where
  "kythera_wrappers_3 =
    [forwards ''KytV2_FillNavMeshTriangles'' (Integer 4) [Pointer, Integer 4, Pointer, Integer 4],
     forwards ''KytV2_FindAvoidanceVelocity'' (Integer 4) [Pointer, Integer 4, Floating 4, Floating 4, Floating 4,
       Floating 4, Floating 4, Floating 4, Floating 4, Floating 4, Floating 4, Floating 4, Pointer, Integer 4,
       Floating 4, Floating 4, Floating 4, Pointer, Pointer, Pointer],
     forwards ''KytV2_FindNearestPoint'' (Integer 4) [Pointer, Integer 4, Floating 4, Floating 4, Floating 4,
       Floating 4, Pointer, Pointer, Pointer],
     forwards ''KytV2_FindPath'' (Integer 4) [Pointer, Integer 4, Floating 4, Floating 4, Floating 4, Floating 4,
       Floating 4, Floating 4, Floating 4, Integer 4, Pointer, Pointer, Integer 4],
     forwards ''KytV2_FindSurfacePath'' (Integer 4) [Integer 4, Floating 4, Floating 4, Floating 4, Floating 4,
       Floating 4, Floating 4, Pointer, Pointer],
     forwards ''KytV2_FlightAgent_GetPath'' (Integer 4) [Integer 4, Pointer, Pointer, Pointer],
     forwards ''KytV2_FlightAgent_RequestPath'' (Integer 4) [Integer 4, Integer 4, Floating 4, Floating 4, Floating 4,
       Floating 4, Floating 4, Floating 4, Integer 4],
     forwards ''KytV2_FlightAgent_SetSpeed'' Void [Integer 4, Floating 4],
     forwards ''KytV2_FlightAgent_Stop'' Void [Integer 4],
     forwards ''KytV2_FlightAgent_Tick'' (Integer 4) [Integer 4, Floating 4, Floating 4, Floating 4, Floating 4,
       Pointer],
     forwards ''KytV2_FlightEvictOutside'' (Integer 4) [Integer 4, Pointer, Integer 4],
     forwards ''KytV2_FlightGetCellsLoaded'' (Integer 4) [Integer 4],
     forwards ''KytV2_FlightGetGenerationPercentage'' (Floating 4) [Integer 4],
     forwards ''KytV2_FlightHasChangesPending'' (Integer 4) [Integer 4],
     forwards ''KytV2_FlightIsGenerating'' (Integer 4) [Integer 4],
     forwards ''KytV2_FlightMarkDirty'' Void [Integer 4, Floating 4, Floating 4, Floating 4, Floating 4, Floating 4,
       Floating 4],
     forwards ''KytV2_FlightNavMesh_GetTrianglesAtomic'' (Integer 4) [Integer 4, Integer 4, Integer 4, Pointer],
     forwards ''KytV2_FlightQueueMarkedCells'' (Integer 4) [Integer 4],
     forwards ''KytV2_GetGenerationPercentage'' (Floating 4) [Pointer, Integer 4],
     forwards ''KytV2_GetNavMeshTriangleCount'' (Integer 4) [Pointer, Integer 4],
     forwards ''KytV2_GetNavMeshTrianglesAtomic'' (Integer 4) [Pointer, Integer 4, Pointer],
     forwards ''KytV2_GetSurfaceNavMeshTrianglesAtomic'' (Integer 4) [Integer 4, Pointer],
     forwards ''KytV2_HasChangesPending'' (Integer 4) [Pointer, Integer 4],
     forwards ''KytV2_InitAvoidance'' Void [],
     forwards ''KytV2_InitCover'' Void []]"

definition kythera_wrappers_4 :: "wrapper list" where
  "kythera_wrappers_4 =
    [forwards ''KytV2_InitPathPlanner'' Void [],
     forwards ''KytV2_InitSurfacePathPlanner'' Void [],
     forwards ''KytV2_IsGenerating'' (Integer 4) [Pointer, Integer 4],
     forwards ''KytV2_MarkDirty'' Void [Pointer, Integer 4, Floating 4, Floating 4, Floating 4, Floating 4,
       Floating 4, Floating 4],
     forwards ''KytV2_MemDumpOutstanding'' Pointer [Integer 4],
     forwards ''KytV2_MemGetAllocatedBytes'' (Integer 8) [],
     forwards ''KytV2_MemGetAllocationCount'' (Integer 8) [],
     forwards ''KytV2_MemHasAllocationStacks'' (Integer 4) [],
     forwards ''KytV2_MemNextEpoch'' (Integer 4) [],
     forwards ''KytV2_Octree_Create'' Void [Integer 4, Integer 4, Floating 8],
     forwards ''KytV2_Octree_Destroy'' Void [],
     forwards ''KytV2_Octree_GenerateFromGeometry'' (Integer 4) [Pointer, Integer 4, Pointer, Integer 4, Floating 8,
       Floating 8, Floating 8, Floating 8, Floating 8, Floating 8],
     forwards ''KytV2_Octree_GetStats'' Void [Pointer, Pointer, Pointer],
     forwards ''KytV2_Octree_GetTriangleCount'' (Integer 4) [Integer 4],
     forwards ''KytV2_Octree_GetTrianglesAtomic'' (Integer 4) [Pointer, Integer 4, Integer 4],
     forwards ''KytV2_ProfSetEnabled'' Void [Integer 4],
     forwards ''KytV2_PushGeometry'' Void [Pointer, Integer 4, Pointer, Integer 4, Floating 4, Floating 4, Floating 4,
       Floating 4, Floating 4, Floating 4],
     forwards ''KytV2_PushInvalidCovers'' Void [Pointer, Integer 4],
     forwards ''KytV2_QueryCoverPoints'' (Integer 4) [Integer 4, Floating 4, Floating 4, Floating 4, Floating 4,
       Integer 4, Pointer, Pointer],
     forwards ''KytV2_QueueMarkedTiles'' (Integer 4) [Pointer, Integer 4],
     forwards ''KytV2_Raycast'' (Integer 4) [Pointer, Integer 4, Floating 4, Floating 4, Floating 4, Floating 4,
       Floating 4, Floating 4, Pointer, Pointer, Pointer],
     forwards ''KytV2_ReleaseSessionState'' Void [],
     forwards ''KytV2_ReleaseWorkerThread'' Void [Pointer],
     forwards ''KytV2_RemoveTiles'' (Integer 4) [Pointer, Integer 4, Floating 4, Floating 4, Floating 4, Floating 4,
       Floating 4, Floating 4],
     forwards ''KytV2_SetMaxJobThreads'' Void [Integer 4]]"

definition kythera_wrappers_5 :: "wrapper list" where
  "kythera_wrappers_5 =
    [forwards ''KytV2_SetTestQuad'' Void [Floating 4, Floating 4, Floating 4, Floating 4],
     forwards ''KytV2_SetUpdateThread'' Void [Pointer],
     forwards ''KytV2_StartGeometryUploadBatch'' Void [],
     forwards ''KytV2_StartUpdate'' Void [Pointer, Floating 8],
     forwards ''KytV2_SurfaceAgent_RequestPath'' (Integer 4) [Integer 4, Integer 4, Floating 4, Floating 4,
       Floating 4, Floating 4, Floating 4, Floating 4],
     forwards ''KytV2_SurfaceAgent_SetSpeed'' Void [Integer 4, Floating 4],
     forwards ''KytV2_SurfaceAgent_Stop'' Void [Integer 4],
     forwards ''KytV2_SurfaceAgent_Tick'' (Integer 4) [Integer 4, Floating 4, Floating 4, Floating 4, Floating 4,
       Floating 4, Floating 4, Floating 4, Floating 4, Floating 4, Floating 4, Pointer],
     forwards ''KytV2_SurfaceGetGenerationPercentage'' (Floating 4) [Integer 4],
     forwards ''KytV2_SurfaceHasChangesPending'' (Integer 4) [Integer 4],
     forwards ''KytV2_SurfaceIsGenerating'' (Integer 4) [Integer 4],
     forwards ''KytV2_SurfaceMarkDirty'' Void [Integer 4, Floating 4, Floating 4, Floating 4, Floating 4, Floating 4,
       Floating 4],
     forwards ''KytV2_SurfaceQueueMarkedTiles'' (Integer 4) [Integer 4],
     forwards ''KytV2_TerminateJobSystem'' Void [],
     forwards ''KytV2_Update'' Void [Pointer],
     forwards ''KytV2_WorkerThreadCount'' (Integer 4) [Pointer]]"

definition kythera_wrappers :: "wrapper list" where
  "kythera_wrappers =
    kythera_wrappers_1 @ kythera_wrappers_2 @ kythera_wrappers_3 @ kythera_wrappers_4 @ kythera_wrappers_5"

definition kythera_pointers_1 :: "(string \<times> string) list" where
  "kythera_pointers_1 =
    [(''KytV2_Agent_CancelNextLeg'', ''KytV2_Agent_CancelNextLeg''),
     (''KytV2_Agent_GetPath'', ''KytV2_Agent_GetPath''),
     (''KytV2_Agent_HasNextLeg'', ''KytV2_Agent_HasNextLeg''),
     (''KytV2_Agent_QueueNextLeg'', ''KytV2_Agent_QueueNextLeg''),
     (''KytV2_Agent_RequestPath'', ''KytV2_Agent_RequestPath''),
     (''KytV2_Agent_SetArrivalDeceleration'', ''KytV2_Agent_SetArrivalDeceleration''),
     (''KytV2_Agent_SetSpeed'', ''KytV2_Agent_SetSpeed''),
     (''KytV2_Agent_Stop'', ''KytV2_Agent_Stop''),
     (''KytV2_Agent_Tick'', ''KytV2_Agent_Tick''),
     (''KytV2_CanSurfacePathTo'', ''KytV2_CanSurfacePathTo''),
     (''KytV2_CreateAgent'', ''KytV2_CreateAgent''),
     (''KytV2_CreateCore'', ''KytV2_CreateCore''),
     (''KytV2_CreateFlightAgent'', ''KytV2_CreateFlightAgent''),
     (''KytV2_CreateFlightNavMesh'', ''KytV2_CreateFlightNavMesh''),
     (''KytV2_CreateFlightNavigation'', ''KytV2_CreateFlightNavigation''),
     (''KytV2_CreateGroundNavigation'', ''KytV2_CreateGroundNavigation''),
     (''KytV2_CreateNavMesh'', ''KytV2_CreateNavMesh''),
     (''KytV2_CreatePhysicalWorldModel'', ''KytV2_CreatePhysicalWorldModel''),
     (''KytV2_CreateSurfaceAgent'', ''KytV2_CreateSurfaceAgent''),
     (''KytV2_CreateSurfaceNavMesh'', ''KytV2_CreateSurfaceNavMesh''),
     (''KytV2_CreateSurfaceNavigation'', ''KytV2_CreateSurfaceNavigation''),
     (''KytV2_Destroy'', ''KytV2_Destroy''),
     (''KytV2_DestroyAgent'', ''KytV2_DestroyAgent''),
     (''KytV2_DestroyCover'', ''KytV2_DestroyCover''),
     (''KytV2_DestroyFlightAgent'', ''KytV2_DestroyFlightAgent''),
     (''KytV2_DestroyFlightNavMesh'', ''KytV2_DestroyFlightNavMesh''),
     (''KytV2_DestroyGroundNavigation'', ''KytV2_DestroyGroundNavigation''),
     (''KytV2_DestroyNavMesh'', ''KytV2_DestroyNavMesh''),
     (''KytV2_DestroyPhysicalWorldModel'', ''KytV2_DestroyPhysicalWorldModel''),
     (''KytV2_DestroySurfaceAgent'', ''KytV2_DestroySurfaceAgent''),
     (''KytV2_DestroySurfaceNavMesh'', ''KytV2_DestroySurfaceNavMesh''),
     (''KytV2_DestroySurfaceNavigation'', ''KytV2_DestroySurfaceNavigation''),
     (''KytV2_DiagnoseCoverState'', ''KytV2_DiagnoseCoverState''),
     (''KytV2_DoBackgroundWork'', ''KytV2_DoBackgroundWork''),
     (''KytV2_DumpSurfaceTriangleComparison'', ''KytV2_DumpSurfaceTriangleComparison''),
     (''KytV2_EndGeometryUploadBatch'', ''KytV2_EndGeometryUploadBatch''),
     (''KytV2_EndUpdate'', ''KytV2_EndUpdate''),
     (''KytV2_FillNavMeshTriangles'', ''KytV2_FillNavMeshTriangles''),
     (''KytV2_FindAvoidanceVelocity'', ''KytV2_FindAvoidanceVelocity''),
     (''KytV2_FindNearestPoint'', ''KytV2_FindNearestPoint''),
     (''KytV2_FindPath'', ''KytV2_FindPath''),
     (''KytV2_FindSurfacePath'', ''KytV2_FindSurfacePath''),
     (''KytV2_FlightAgent_GetPath'', ''KytV2_FlightAgent_GetPath''),
     (''KytV2_FlightAgent_RequestPath'', ''KytV2_FlightAgent_RequestPath''),
     (''KytV2_FlightAgent_SetSpeed'', ''KytV2_FlightAgent_SetSpeed''),
     (''KytV2_FlightAgent_Stop'', ''KytV2_FlightAgent_Stop''),
     (''KytV2_FlightAgent_Tick'', ''KytV2_FlightAgent_Tick''),
     (''KytV2_FlightEvictOutside'', ''KytV2_FlightEvictOutside''),
     (''KytV2_FlightGetCellsLoaded'', ''KytV2_FlightGetCellsLoaded''),
     (''KytV2_FlightGetGenerationPercentage'', ''KytV2_FlightGetGenerationPercentage'')]"

definition kythera_pointers_2 :: "(string \<times> string) list" where
  "kythera_pointers_2 =
    [(''KytV2_FlightHasChangesPending'', ''KytV2_FlightHasChangesPending''),
     (''KytV2_FlightIsGenerating'', ''KytV2_FlightIsGenerating''),
     (''KytV2_FlightMarkDirty'', ''KytV2_FlightMarkDirty''),
     (''KytV2_FlightNavMesh_GetTrianglesAtomic'', ''KytV2_FlightNavMesh_GetTrianglesAtomic''),
     (''KytV2_FlightQueueMarkedCells'', ''KytV2_FlightQueueMarkedCells''),
     (''KytV2_GetGenerationPercentage'', ''KytV2_GetGenerationPercentage''),
     (''KytV2_GetNavMeshTriangleCount'', ''KytV2_GetNavMeshTriangleCount''),
     (''KytV2_GetNavMeshTrianglesAtomic'', ''KytV2_GetNavMeshTrianglesAtomic''),
     (''KytV2_GetSurfaceNavMeshTrianglesAtomic'', ''KytV2_GetSurfaceNavMeshTrianglesAtomic''),
     (''KytV2_HasChangesPending'', ''KytV2_HasChangesPending''),
     (''KytV2_InitAvoidance'', ''KytV2_InitAvoidance''),
     (''KytV2_InitCover'', ''KytV2_InitCover''),
     (''KytV2_InitPathPlanner'', ''KytV2_InitPathPlanner''),
     (''KytV2_InitSurfacePathPlanner'', ''KytV2_InitSurfacePathPlanner''),
     (''KytV2_IsGenerating'', ''KytV2_IsGenerating''),
     (''KytV2_MarkDirty'', ''KytV2_MarkDirty''),
     (''KytV2_MemDumpOutstanding'', ''KytV2_MemDumpOutstanding''),
     (''KytV2_MemGetAllocatedBytes'', ''KytV2_MemGetAllocatedBytes''),
     (''KytV2_MemGetAllocationCount'', ''KytV2_MemGetAllocationCount''),
     (''KytV2_MemHasAllocationStacks'', ''KytV2_MemHasAllocationStacks''),
     (''KytV2_MemNextEpoch'', ''KytV2_MemNextEpoch''),
     (''KytV2_Octree_Create'', ''KytV2_Octree_Create''),
     (''KytV2_Octree_Destroy'', ''KytV2_Octree_Destroy''),
     (''KytV2_Octree_GenerateFromGeometry'', ''KytV2_Octree_GenerateFromGeometry''),
     (''KytV2_Octree_GetStats'', ''KytV2_Octree_GetStats''),
     (''KytV2_Octree_GetTriangleCount'', ''KytV2_Octree_GetTriangleCount''),
     (''KytV2_Octree_GetTrianglesAtomic'', ''KytV2_Octree_GetTrianglesAtomic''),
     (''KytV2_ProfSetEnabled'', ''KytV2_ProfSetEnabled''),
     (''KytV2_PushGeometry'', ''KytV2_PushGeometry''),
     (''KytV2_PushInvalidCovers'', ''KytV2_PushInvalidCovers''),
     (''KytV2_QueryCoverPoints'', ''KytV2_QueryCoverPoints''),
     (''KytV2_QueueMarkedTiles'', ''KytV2_QueueMarkedTiles''),
     (''KytV2_Raycast'', ''KytV2_Raycast''),
     (''KytV2_ReleaseSessionState'', ''KytV2_ReleaseSessionState''),
     (''KytV2_ReleaseWorkerThread'', ''KytV2_ReleaseWorkerThread''),
     (''KytV2_RemoveTiles'', ''KytV2_RemoveTiles''),
     (''KytV2_SetMaxJobThreads'', ''KytV2_SetMaxJobThreads''),
     (''KytV2_SetTestQuad'', ''KytV2_SetTestQuad''),
     (''KytV2_SetUpdateThread'', ''KytV2_SetUpdateThread''),
     (''KytV2_StartGeometryUploadBatch'', ''KytV2_StartGeometryUploadBatch''),
     (''KytV2_StartUpdate'', ''KytV2_StartUpdate''),
     (''KytV2_SurfaceAgent_RequestPath'', ''KytV2_SurfaceAgent_RequestPath''),
     (''KytV2_SurfaceAgent_SetSpeed'', ''KytV2_SurfaceAgent_SetSpeed''),
     (''KytV2_SurfaceAgent_Stop'', ''KytV2_SurfaceAgent_Stop''),
     (''KytV2_SurfaceAgent_Tick'', ''KytV2_SurfaceAgent_Tick''),
     (''KytV2_SurfaceGetGenerationPercentage'', ''KytV2_SurfaceGetGenerationPercentage''),
     (''KytV2_SurfaceHasChangesPending'', ''KytV2_SurfaceHasChangesPending''),
     (''KytV2_SurfaceIsGenerating'', ''KytV2_SurfaceIsGenerating''),
     (''KytV2_SurfaceMarkDirty'', ''KytV2_SurfaceMarkDirty''),
     (''KytV2_SurfaceQueueMarkedTiles'', ''KytV2_SurfaceQueueMarkedTiles'')]"

definition kythera_pointers_3 :: "(string \<times> string) list" where
  "kythera_pointers_3 =
    [(''KytV2_TerminateJobSystem'', ''KytV2_TerminateJobSystem''),
     (''KytV2_Update'', ''KytV2_Update''),
     (''KytV2_WorkerThreadCount'', ''KytV2_WorkerThreadCount'')]"

definition kythera_pointers :: "(string \<times> string) list" where
  "kythera_pointers = kythera_pointers_1 @ kythera_pointers_2 @ kythera_pointers_3"

lemma kythera_lowered: "list_all lowered kythera_wrappers"
  by (simp add: kythera_wrappers_def kythera_wrappers_1_def kythera_wrappers_2_def kythera_wrappers_3_def kythera_wrappers_4_def kythera_wrappers_5_def
    register_size_def eval_nat_numeral)

lemma kythera_names: "map w_name kythera_wrappers = take 11 (map fst kythera_pointers) @ drop 12 (map fst kythera_pointers)"
  by (simp add: kythera_wrappers_def kythera_wrappers_1_def kythera_wrappers_2_def kythera_wrappers_3_def kythera_wrappers_4_def kythera_wrappers_5_def
    kythera_pointers_def kythera_pointers_1_def kythera_pointers_2_def kythera_pointers_3_def)

lemma kythera_linked: "w \<in> set kythera_wrappers \<Longrightarrow> w_name w \<in> fst ` set kythera_pointers"
  by (rule named_member [OF kythera_names])

lemma kythera_own_names: "own_names kythera_pointers"
  by (simp add: own_names_def kythera_pointers_def kythera_pointers_1_def kythera_pointers_2_def kythera_pointers_3_def)

section \<open>The callbacks of the core\<close>

text \<open>
  A pointer of the table is null, a function of the host, or one of the bridges. The library gets the
  address of \<open>pe_callbacks\<close>; the host's function is kept in \<open>sysv_request_background_work\<close>.
\<close>

datatype kythera_pointer = Null_pointer | Host_function nat | Request_background_work_bridge | Profiler_noop

record bridge_callbacks =
  request_background_work :: kythera_pointer
  request_background_work_arg :: u64
  profiler_begin :: kythera_pointer
  profiler_end :: kythera_pointer

record kythera_core =
  pe_callbacks :: bridge_callbacks
  sysv_request_background_work :: kythera_pointer

definition KytV2_CreateCore :: "bridge_callbacks \<Rightarrow> kythera_core" where
  "KytV2_CreateCore managed =
     \<lparr>pe_callbacks =
        \<lparr>request_background_work =
           (if request_background_work managed \<noteq> Null_pointer then Request_background_work_bridge else Null_pointer),
         request_background_work_arg = request_background_work_arg managed,
         profiler_begin = Profiler_noop, profiler_end = Profiler_noop\<rparr>,
      sysv_request_background_work = request_background_work managed\<rparr>"

text \<open>A call of a pointer of the table by the library: the function of the host it reaches, if any.\<close>

fun library_reaches :: "kythera_core \<Rightarrow> kythera_pointer \<Rightarrow> kythera_pointer option" where
  "library_reaches core Request_background_work_bridge = Some (sysv_request_background_work core)"
| "library_reaches core Profiler_noop = None"
| "library_reaches core p = Some p"

text \<open>No function of the host is in the table, and the background work reaches it with its own argument.\<close>

lemma core_callbacks:
  assumes "request_background_work managed = Host_function f"
  shows "library_reaches (KytV2_CreateCore managed) (request_background_work (pe_callbacks (KytV2_CreateCore managed))) =
      Some (Host_function f) \<and>
    request_background_work_arg (pe_callbacks (KytV2_CreateCore managed)) = request_background_work_arg managed \<and>
    request_background_work (pe_callbacks (KytV2_CreateCore managed)) = Request_background_work_bridge \<and>
    profiler_begin (pe_callbacks (KytV2_CreateCore managed)) = Profiler_noop"
  using assms by (simp add: KytV2_CreateCore_def)

end
