(* ===== verification/Wrapper_Small.thy ===== *)
theory Wrapper_Small
  imports Wrapper_Abi
begin

text \<open>
  The wrappers of \<open>src/src/RecastDetour.cpp\<close> and \<open>src/src/Slug.cpp\<close> and their pointers. The pointers of
  Slug are named here as its variables are.
\<close>

section \<open>\<open>RecastDetour.cpp\<close>\<close>

definition recast_wrappers :: "wrapper list" where
  "recast_wrappers =
    [forwards ''RecastDetour_Create'' Pointer [],
     forwards ''RecastDetour_Destroy'' Void [Pointer],
     forwards ''RecastDetour_Init'' Void [Pointer, Floating 4, Floating 4, Pointer, Pointer],
     forwards ''RecastDetour_Clear'' Void [Pointer],
     forwards ''RecastDetour_GetPath'' (Integer 4) [Pointer, Struct 12, Struct 12, Pointer, Integer 4],
     forwards ''RecastDetour_GetNextPathPoint'' (Integer 4) [Pointer, Struct 12, Struct 12, Pointer],
     forwards ''RecastDetour_CreateNavmeshTile'' (Integer 4) [Pointer, Struct 24, Pointer, Integer 4, Integer 4,
       Integer 4, Pointer, Integer 4, Pointer, Integer 4],
     forwards ''RecastDetour_GetTilePolygonCount'' (Integer 4) [Pointer, Struct 24, Integer 4],
     forwards ''RecastDetour_GetTilePolygonVertexCounts'' Void [Pointer, Struct 24, Integer 4, Pointer],
     forwards ''RecastDetour_GetTilePolygonVertices'' Void [Pointer, Struct 24, Integer 4, Integer 4, Pointer],
     forwards ''RecastDetour_TileAlreadyGenerated'' (Integer 4) [Pointer, Struct 24],
     forwards ''RecastDetour_GetTileDataSize'' (Integer 4) [Pointer, Struct 24, Integer 4],
     forwards ''RecastDetour_RemoveTile'' Void [Pointer, Struct 24, Integer 4],
     forwards ''RecastDetour_GetAllocatedMemory'' (Integer 8) []]"

definition recast_pointers :: "string list" where
  "recast_pointers =
    [''RecastDetour_Create'',
     ''RecastDetour_Destroy'',
     ''RecastDetour_Init'',
     ''RecastDetour_Clear'',
     ''RecastDetour_GetPath'',
     ''RecastDetour_GetNextPathPoint'',
     ''RecastDetour_CreateNavmeshTile'',
     ''RecastDetour_GetTilePolygonCount'',
     ''RecastDetour_GetTilePolygonVertexCounts'',
     ''RecastDetour_GetTilePolygonVertices'',
     ''RecastDetour_GetTileDataSize'',
     ''RecastDetour_TileAlreadyGenerated'',
     ''RecastDetour_RemoveTile'',
     ''RecastDetour_GetAllocatedMemory'']"

lemma recast_lowered: "list_all lowered recast_wrappers"
  by (simp add: recast_wrappers_def
    register_size_def eval_nat_numeral)

section \<open>\<open>Slug.cpp\<close>\<close>

definition slug_wrappers :: "wrapper list" where
  "slug_wrappers =
    [forwards ''set_default_layout_data'' Void [Pointer],
     forwards ''get_font_key_data'' Pointer [Pointer, Integer 4],
     forwards ''get_nontexture_data_size'' (Integer 4) [Pointer],
     forwards ''extract_curve_texture'' Void [Pointer, Pointer],
     forwards ''extract_band_texture'' Void [Pointer, Pointer],
     forwards ''measure_slug_ex'' (Floating 4) [Integer 4, Pointer, Pointer, Pointer, Pointer, Integer 4, Integer 4,
       Pointer, Pointer, Pointer, Pointer],
     forwards ''set_default_fill_data'' Void [Pointer],
     forwards ''count_fill'' Void [Pointer, Integer 4, Pointer, Pointer, Pointer, Pointer, Pointer, Pointer, Pointer,
       Pointer, Pointer],
     forwards ''create_fill'' Void [Pointer, Integer 4, Pointer, Pointer, Pointer, Pointer, Pointer, Pointer],
     forwards ''set_default_stroke_data'' Void [Pointer],
     forwards ''count_stroke'' Void [Pointer, Integer 4, Integer 4, Pointer, Pointer, Pointer, Pointer, Pointer,
       Pointer],
     forwards ''create_stroke'' Void [Pointer, Integer 4, Integer 4, Pointer, Pointer, Pointer, Pointer],
     forwards ''count_slug_ex'' (Integer 4) [Integer 4, Pointer, Pointer, Pointer, Pointer, Integer 4, Pointer,
       Pointer, Pointer, Pointer],
     forwards ''build_slug_ex'' Void [Integer 4, Pointer, Pointer, Pointer, Pointer, Integer 4, Pointer, Pointer,
       Pointer, Pointer, Pointer, Pointer]]"

definition slug_pointers :: "(string \<times> string) list" where
  "slug_pointers =
    [(''set_default_layout_data'', ''?SetDefaultLayoutData@Slug@Terathon@@YAXPEAULayoutData@12@@Z''),
     (''get_font_key_data'', ''?GetFontKeyData@Slug@Terathon@@YAPEBXPEBUFontHeader@12@I@Z''),
     (''get_nontexture_data_size'', ''?GetNontextureDataSize@Slug@Terathon@@YAIPEBUSlugFileHeader@12@@Z''),
     (''extract_curve_texture'', ''?ExtractCurveTexture@Slug@Terathon@@YAXPEBUSlugFileHeader@12@PEAX@Z''),
     (''extract_band_texture'', ''?ExtractBandTexture@Slug@Terathon@@YAXPEBUSlugFileHeader@12@PEAX@Z''),
     (''measure_slug_ex'',
       ''?MeasureSlugEx@Slug@Terathon@@YAMHPEBUFontDesc@12@PEBUFontMap@12@PEBULayoutData@12@PEBDHHPEBIPEAMPEAU512@PEAUCompiledStorage@12@@Z''),
     (''set_default_fill_data'', ''?SetDefaultFillData@Slug@Terathon@@YAXPEAUFillData@12@@Z''),
     (''count_fill'',
       ''?CountFill@Slug@Terathon@@YAXPEBUFillData@12@HPEBVQuadraticBezier2D@2@AEBVInteger2D@2@PEAV52@23PEAH4PEBUCreateData@12@PEAUFillWorkspace@12@@Z''),
     (''create_fill'',
       ''?CreateFill@Slug@Terathon@@YAXPEBUFillData@12@HPEBVQuadraticBezier2D@2@PEAUTextureBuffer@12@2PEAUGeometryBuffer@12@PEBUCreateData@12@PEAUFillWorkspace@12@@Z''),
     (''set_default_stroke_data'', ''?SetDefaultStrokeData@Slug@Terathon@@YAXPEAUStrokeData@12@@Z''),
     (''count_stroke'',
       ''?CountStroke@Slug@Terathon@@YAXPEBUStrokeData@12@IHPEBVQuadraticBezier2D@2@AEBVInteger2D@2@PEAV52@PEAH4PEAUStrokeWorkspace@12@@Z''),
     (''create_stroke'',
       ''?CreateStroke@Slug@Terathon@@YAXPEBUStrokeData@12@IHPEBVQuadraticBezier2D@2@PEAUTextureBuffer@12@PEAUGeometryBuffer@12@PEAUStrokeWorkspace@12@@Z''),
     (''count_slug_ex'',
       ''?CountSlugEx@Slug@Terathon@@YAHHPEBUFontDesc@12@PEBUFontMap@12@PEBULayoutData@12@PEBDHPEAH4PEAU512@PEAUCompiledStorage@12@@Z''),
     (''build_slug_ex'',
       ''?BuildSlugEx@Slug@Terathon@@YAXHPEBUFontDesc@12@PEBUFontMap@12@PEBULayoutData@12@PEBDHAEBVPoint2D@2@PEAUGeometryBuffer@12@PEAVBox2D@2@PEAV62@PEAU512@PEAUCompiledStorage@12@@Z'')]"

lemma slug_lowered: "list_all lowered slug_wrappers"
  by (simp add: slug_wrappers_def
    register_size_def eval_nat_numeral)

lemma slug_names: "map w_name slug_wrappers = map fst slug_pointers"
  by (simp add: slug_wrappers_def
    slug_pointers_def)

lemma slug_linked: "w \<in> set slug_wrappers \<Longrightarrow> w_name w \<in> fst ` set slug_pointers"
  using slug_names by (metis image_eqI list.set_map)

lemma slug_distinct: "distinct (map fst slug_pointers)"
  by (simp add: slug_pointers_def)

end
