(* ===== verification/Wrapper_Havok.thy ===== *)
theory Wrapper_Havok
  imports Wrapper_Abi
begin

text \<open>
  The wrappers of \<open>src/src/Havok.cpp\<close> in the order of the source, other than those that pass a callback
  (\<open>Havok_Callbacks\<close>, \<open>Havok_Statics\<close>), and the names of the pointers \<open>InitImpl\<close> sets. A structure by value
  has the same type in the wrapper and in its pointer, so the compiler converts it.
\<close>

definition havok_wrappers_1 :: "wrapper list" where
  "havok_wrappers_1 =
    [forwards ''HkBallAndSocketConstraintData_Create'' Pointer [],
     forwards ''HkBallAndSocketConstraintData_SetInBodySpaceInternal'' Void [Pointer, Struct 12, Struct 12]]"

definition havok_wrappers_2 :: "wrapper list" where
  "havok_wrappers_2 =
    [forwards ''HkBaseSystem_Quit'' Void [],
     forwards ''HkBaseSystem_InitThread'' Pointer [],
     forwards ''HkBaseSystem_QuitThread'' Void [Pointer],
     forwards ''HkBaseSystem_GetVersionInfo'' Void [Pointer],
     forwards ''HkBaseSystem_GetMemoryStatistics'' Void [Pointer],
     forwards ''HkBaseSystem_EnableAssert'' Void [Integer 4, Integer 1],
     forwards ''HkBaseSystem_IsEnabled'' (Integer 1) [Integer 4],
     forwards ''HkBaseSystem_IsDestructionEnabled'' (Integer 1) [],
     forwards ''HkBaseSystem_OnSimulationFrameStarted'' Void [Integer 8],
     forwards ''HkBaseSystem_OnSimulationFrameFinished'' Void [],
     forwards ''HkBaseSystem_GetKeyCodes'' (Integer 4) [Pointer],
     forwards ''HkBaseSystem_IsOutOfMemory'' (Integer 1) [],
     forwards ''HkBaseSystem_GetCurrentMemoryConsumption'' (Integer 8) [],
     forwards ''HkBoxShape_Create'' Pointer [Struct 12],
     forwards ''HkBoxShape_CreateWithConvexRadius'' Pointer [Struct 12, Floating 4],
     forwards ''HkBoxShape_GetShapeFromCompoundShape'' Pointer [Pointer, Integer 4],
     forwards ''HkBoxShape_GetHalfExtents'' (Struct 12) [Pointer],
     forwards ''HkBoxShape_SetHalfExtents'' Void [Pointer, Struct 12]]"

definition havok_wrappers_3 :: "wrapper list" where
  "havok_wrappers_3 =
    [forwards ''HkBreakOffPartsUtil_Release'' Void [Pointer],
     forwards ''HkBreakOffPartsUtil_RemoveKeysFromListShape'' Void [Pointer, Pointer, Integer 4],
     forwards ''HkBreakOffPartsUtil_MarkEntityBreakable'' Void [Pointer, Pointer, Floating 4],
     forwards ''HkBreakOffPartsUtil_MarkPieceBreakable'' Void [Pointer, Pointer, Integer 4, Floating 4],
     forwards ''HkBreakOffPartsUtil_SetMaxConstraintImpulse'' Void [Pointer, Pointer, Floating 4],
     forwards ''HkBreakOffPartsUtil_UnmarkEntityBreakable'' Void [Pointer, Pointer],
     forwards ''HkBreakOffPartsUtil_UnmarkPieceBreakable'' Void [Pointer, Pointer, Integer 4],
     forwards ''HkBreakOffPoints_Count'' (Integer 4) [Pointer],
     forwards ''HkBreakOffPoints_Get'' Void [Pointer, Integer 4, Pointer],
     forwards ''HkBreakableConstraintData_Create'' Pointer [Pointer],
     forwards ''HkBreakableConstraintData_GetThreshold'' (Floating 4) [Pointer],
     forwards ''HkBreakableConstraintData_SetThreshold'' Void [Pointer, Floating 4],
     forwards ''HkBreakableConstraintData_GetRemoveFromWorldOnBrake'' (Integer 1) [Pointer],
     forwards ''HkBreakableConstraintData_SetRemoveFromWorldOnBrake'' Void [Pointer, Integer 1],
     forwards ''HkBreakableConstraintData_GetReapplyVelocityOnBreak'' (Integer 1) [Pointer],
     forwards ''HkBreakableConstraintData_SetReapplyVelocityOnBreak'' Void [Pointer, Integer 1],
     forwards ''HkBreakableConstraintData_GetIsBroken'' (Integer 1) [Pointer, Pointer],
     forwards ''HkBvCompressedMeshShape_CreateWithSimpleMesh'' Pointer [Pointer],
     forwards ''HkBvCompressedMeshShape_CreateWithParams'' Pointer [Pointer, Integer 4, Pointer, Integer 4, Pointer,
       Integer 4, Integer 4, Integer 1, Floating 4],
     forwards ''HkBvCompressedMeshShape_CreateUnsafe'' Pointer [Pointer, Integer 4, Pointer, Integer 4, Pointer,
       Integer 4, Integer 4, Floating 4],
     forwards ''HkBvCompressedMeshShape_GetGeometry'' Void [Pointer, Pointer],
     forwards ''HkBvCompressedMeshShape_GetUserData'' (Integer 4) [Pointer, Integer 4],
     forwards ''HkBvShape_Create'' Pointer [Pointer, Pointer],
     forwards ''HkBvShape_GetChildShape'' Pointer [Pointer],
     forwards ''HkBvShape_GetBoundingVolumeShape'' Pointer [Pointer],
     forwards ''HkCapsuleShape_Create'' Pointer [Struct 12, Struct 12, Floating 4],
     forwards ''HkCapsuleShape_GetRadius'' (Floating 4) [Pointer],
     forwards ''HkCapsuleShape_GetVertexB'' (Struct 12) [Pointer],
     forwards ''HkCapsuleShape_GetVertexA'' (Struct 12) [Pointer],
     forwards ''HkCapsuleShape_GetCentre'' (Struct 12) [Pointer]]"

definition havok_wrappers_4 :: "wrapper list" where
  "havok_wrappers_4 =
    [forwards ''HkCharacterProxy_Create'' Pointer [Pointer],
     forwards ''HkCharacterProxy_GetPosition'' (Struct 12) [Pointer],
     forwards ''HkCharacterProxy_SetPosition'' Void [Pointer, Struct 12],
     forwards ''HkCharacterProxy_GetState'' (Integer 4) [Pointer],
     forwards ''HkCharacterProxy_SetState'' Void [Pointer, Integer 4],
     forwards ''HkCharacterProxy_StepSimulation'' Void [Pointer, Floating 4, Floating 4, Floating 4, Integer 1,
       Integer 1, Integer 1, Struct 12, Struct 12, Struct 12],
     forwards ''HkCharacterProxy_GetLinearVelocity'' (Struct 12) [Pointer],
     forwards ''HkCharacterProxy_SetLinearVelocity'' Void [Pointer, Struct 12],
     forwards ''HkCharacterProxy_SetUp'' Void [Pointer, Struct 12],
     forwards ''HkCharacterProxyCinfo_Create'' Pointer [],
     forwards ''HkCharacterProxyCinfo_GetPosition'' (Struct 12) [Pointer],
     forwards ''HkCharacterProxyCinfo_SetPosition'' Void [Pointer, Struct 12],
     forwards ''HkCharacterProxyCinfo_GetVelocity'' (Struct 12) [Pointer],
     forwards ''HkCharacterProxyCinfo_SetVelocity'' Void [Pointer, Struct 12],
     forwards ''HkCharacterProxyCinfo_GetDynamicFriction'' (Floating 4) [Pointer],
     forwards ''HkCharacterProxyCinfo_SetDynamicFriction'' Void [Pointer, Floating 4],
     forwards ''HkCharacterProxyCinfo_GetStaticFriction'' (Floating 4) [Pointer],
     forwards ''HkCharacterProxyCinfo_SetStaticFriction'' Void [Pointer, Floating 4],
     forwards ''HkCharacterProxyCinfo_GetKeepContactTolerance'' (Floating 4) [Pointer],
     forwards ''HkCharacterProxyCinfo_SetKeepContactTolerance'' Void [Pointer, Floating 4],
     forwards ''HkCharacterProxyCinfo_GetUp'' (Struct 12) [Pointer],
     forwards ''HkCharacterProxyCinfo_SetUp'' Void [Pointer, Struct 12],
     forwards ''HkCharacterProxyCinfo_GetExtraUpStaticFriction'' (Floating 4) [Pointer],
     forwards ''HkCharacterProxyCinfo_SetExtraUpStaticFriction'' Void [Pointer, Floating 4],
     forwards ''HkCharacterProxyCinfo_GetExtraDownStaticFriction'' (Floating 4) [Pointer],
     forwards ''HkCharacterProxyCinfo_SetExtraDownStaticFriction'' Void [Pointer, Floating 4],
     forwards ''HkCharacterProxyCinfo_SetShapePhantom'' Void [Pointer, Pointer],
     forwards ''HkCharacterProxyCinfo_GetShapePhantom'' Pointer [Pointer],
     forwards ''HkCharacterProxyCinfo_GetKeepDistance'' (Floating 4) [Pointer],
     forwards ''HkCharacterProxyCinfo_SetKeepDistance'' Void [Pointer, Floating 4]]"

definition havok_wrappers_5 :: "wrapper list" where
  "havok_wrappers_5 =
    [forwards ''HkCharacterProxyCinfo_GetContactAngleSensitivity'' (Floating 4) [Pointer],
     forwards ''HkCharacterProxyCinfo_SetContactAngleSensitivity'' Void [Pointer, Floating 4],
     forwards ''HkCharacterProxyCinfo_GetUserPlanes'' (Integer 4) [Pointer],
     forwards ''HkCharacterProxyCinfo_SetUserPlanes'' Void [Pointer, Integer 4],
     forwards ''HkCharacterProxyCinfo_GetMaxCharacterSpeedForSolver'' (Floating 4) [Pointer],
     forwards ''HkCharacterProxyCinfo_SetMaxCharacterSpeedForSolver'' Void [Pointer, Floating 4],
     forwards ''HkCharacterProxyCinfo_GetCharacterStrength'' (Floating 4) [Pointer],
     forwards ''HkCharacterProxyCinfo_SetCharacterStrength'' Void [Pointer, Floating 4],
     forwards ''HkCharacterProxyCinfo_GetCharacterMass'' (Floating 4) [Pointer],
     forwards ''HkCharacterProxyCinfo_SetCharacterMass'' Void [Pointer, Floating 4],
     forwards ''HkCharacterProxyCinfo_GetMaxSlope'' (Floating 4) [Pointer],
     forwards ''HkCharacterProxyCinfo_SetMaxSlope'' Void [Pointer, Floating 4],
     forwards ''HkCharacterProxyCinfo_GetPenetrationRecoverySpeed'' (Floating 4) [Pointer],
     forwards ''HkCharacterProxyCinfo_SetPenetrationRecoverySpeed'' Void [Pointer, Floating 4],
     forwards ''HkCharacterProxyCinfo_GetMaxCastIterations'' (Integer 4) [Pointer],
     forwards ''HkCharacterProxyCinfo_SetMaxCastIterations'' Void [Pointer, Integer 4],
     forwards ''HkCharacterProxyCinfo_GetRefreshManifoldInCheckSupport'' (Integer 1) [Pointer],
     forwards ''HkCharacterProxyCinfo_SetRefreshManifoldInCheckSupport'' Void [Pointer, Integer 1],
     forwards ''HkCharacterRigidBody_Create'' Pointer [Pointer, Floating 4],
     forwards ''HkCharacterRigidBody_GetCharacterRigidbody'' Pointer [Pointer],
     forwards ''HkCharacterRigidBody_SetWalkingState'' Void [Pointer, Pointer, Floating 4, Floating 4, Floating 4],
     forwards ''HkCharacterRigidBody_SetFlyingState'' Void [Pointer, Pointer, Floating 4, Floating 4],
     forwards ''HkCharacterRigidBody_SetLadderState'' Void [Pointer, Floating 4, Floating 4],
     forwards ''HkCharacterRigidBody_SetDefaultShape'' Void [Pointer, Pointer],
     forwards ''HkCharacterRigidBody_SetShapeForCrouch'' Void [Pointer, Pointer],
     forwards ''HkCharacterRigidBody_GetPosition'' (Struct 12) [Pointer],
     forwards ''HkCharacterRigidBody_SetPosition'' Void [Pointer, Struct 12],
     forwards ''HkCharacterRigidBody_GetState'' (Integer 4) [Pointer],
     forwards ''HkCharacterRigidBody_SetState'' Void [Pointer, Integer 4],
     forwards ''HkCharacterRigidBody_StepSimulation'' Void [Pointer, Floating 4, Integer 1, Integer 1, Integer 1,
       Floating 4, Floating 4, Floating 4, Floating 4, Struct 12, Struct 12, Struct 12, Struct 12, Struct 12,
       Floating 4, Pointer]]"

definition havok_wrappers_6 :: "wrapper list" where
  "havok_wrappers_6 =
    [forwards ''HkCharacterRigidBody_UpdateVelocity'' Void [Pointer, Floating 4, Integer 1, Struct 12, Struct 16],
     forwards ''HkCharacterRigidBody_UpdateSupport'' Void [Pointer, Floating 4],
     forwards ''HkCharacterRigidBody_SetRigidBodyTransform'' Void [Pointer, Struct 64],
     forwards ''HkCharacterRigidBody_GetRigidBodyTransform'' (Struct 64) [Pointer],
     forwards ''HkCharacterRigidBody_GetLinearVelocity'' (Struct 12) [Pointer],
     forwards ''HkCharacterRigidBody_SetLinearVelocity'' Void [Pointer, Struct 12],
     forwards ''HkCharacterRigidBody_ApplyLinearImpulse'' Void [Pointer, Struct 12],
     forwards ''HkCharacterRigidBody_ApplyAngularImpulse'' Void [Pointer, Struct 12],
     forwards ''HkCharacterRigidBody_SetSupportDistance'' Void [Pointer, Floating 4],
     forwards ''HkCharacterRigidBody_SetHardSupportDistance'' Void [Pointer, Floating 4],
     forwards ''HkCharacterRigidBody_GetAngularVelocity'' (Struct 12) [Pointer],
     forwards ''HkCharacterRigidBody_SetAngularVelocity'' Void [Pointer, Struct 12],
     forwards ''HkCharacterRigidBody_IsSupportedByFloatingObject'' (Integer 1) [Pointer],
     forwards ''HkCharacterRigidBody_IsSupported'' (Integer 1) [Pointer],
     forwards ''HkCharacterRigidBody_GetSupportNormal'' (Struct 12) [Pointer],
     forwards ''HkCharacterRigidBody_GetGroundVelocity'' (Struct 12) [Pointer],
     forwards ''HkCharacterRigidBody_GetUseSupportInfoQuery'' (Integer 1) [Pointer],
     forwards ''HkCharacterRigidBody_SetUseSupportInfoQuery'' Void [Pointer, Integer 1],
     forwards ''HkCharacterRigidBody_SetPreviousSupportedState'' Void [Pointer, Integer 1],
     forwards ''HkCharacterRigidBody_ResetSurfaceVelocity'' Void [Pointer],
     forwards ''HkCharacterRigidBody_SetMaxSlope'' Void [Pointer, Floating 4],
     forwards ''HkCharacterRigidBody_GetMaxSlope'' (Floating 4) [Pointer],
     forwards ''HkCharacterRigidBody_GetSupportBodies'' Void [Pointer, Pointer, Pointer, Pointer],
     forwards ''HkCharacterRigidBodyCinfo_Create'' Pointer [],
     forwards ''HkCharacterRigidBodyCinfo_GetCollisionFilterInfo'' (Integer 4) [Pointer],
     forwards ''HkCharacterRigidBodyCinfo_SetCollisionFilterInfo'' Void [Pointer, Integer 4],
     forwards ''HkCharacterRigidBodyCinfo_GetShape'' Pointer [Pointer],
     forwards ''HkCharacterRigidBodyCinfo_SetShape'' Void [Pointer, Pointer],
     forwards ''HkCharacterRigidBodyCinfo_GetPosition'' (Struct 12) [Pointer],
     forwards ''HkCharacterRigidBodyCinfo_SetPosition'' Void [Pointer, Struct 12]]"

definition havok_wrappers_7 :: "wrapper list" where
  "havok_wrappers_7 =
    [forwards ''HkCharacterRigidBodyCinfo_GetRotation'' (Struct 16) [Pointer],
     forwards ''HkCharacterRigidBodyCinfo_SetRotation'' Void [Pointer, Struct 16],
     forwards ''HkCharacterRigidBodyCinfo_GetMass'' (Floating 4) [Pointer],
     forwards ''HkCharacterRigidBodyCinfo_SetMass'' Void [Pointer, Floating 4],
     forwards ''HkCharacterRigidBodyCinfo_GetFriction'' (Floating 4) [Pointer],
     forwards ''HkCharacterRigidBodyCinfo_SetFriction'' Void [Pointer, Floating 4],
     forwards ''HkCharacterRigidBodyCinfo_GetMaxLinearVelocity'' (Floating 4) [Pointer],
     forwards ''HkCharacterRigidBodyCinfo_SetMaxLinearVelocity'' Void [Pointer, Floating 4],
     forwards ''HkCharacterRigidBodyCinfo_GetAllowedPenetrationDepth'' (Floating 4) [Pointer],
     forwards ''HkCharacterRigidBodyCinfo_SetAllowedPenetrationDepth'' Void [Pointer, Floating 4],
     forwards ''HkCharacterRigidBodyCinfo_GetUp'' (Struct 12) [Pointer],
     forwards ''HkCharacterRigidBodyCinfo_SetUp'' Void [Pointer, Struct 12],
     forwards ''HkCharacterRigidBodyCinfo_GetMaxSlope'' (Floating 4) [Pointer],
     forwards ''HkCharacterRigidBodyCinfo_SetMaxSlope'' Void [Pointer, Floating 4],
     forwards ''HkCharacterRigidBodyCinfo_GetMaxForce'' (Floating 4) [Pointer],
     forwards ''HkCharacterRigidBodyCinfo_SetMaxForce'' Void [Pointer, Floating 4],
     forwards ''HkCharacterRigidBodyCinfo_GetUnweldingHeightOffsetFactor'' (Floating 4) [Pointer],
     forwards ''HkCharacterRigidBodyCinfo_SetUnweldingHeightOffsetFactor'' Void [Pointer, Floating 4],
     forwards ''HkCharacterRigidBodyCinfo_GetMaxSpeedForSimplexSolver'' (Floating 4) [Pointer],
     forwards ''HkCharacterRigidBodyCinfo_SetMaxSpeedForSimplexSolver'' Void [Pointer, Floating 4],
     forwards ''HkCharacterRigidBodyCinfo_GetSupportDistance'' (Floating 4) [Pointer],
     forwards ''HkCharacterRigidBodyCinfo_SetSupportDistance'' Void [Pointer, Floating 4],
     forwards ''HkCharacterRigidBodyCinfo_GetHardSupportDistance'' (Floating 4) [Pointer],
     forwards ''HkCharacterRigidBodyCinfo_SetHardSupportDistance'' Void [Pointer, Floating 4],
     forwards ''HkCogWheelConstraintData_Create'' Pointer [],
     forwards ''HkCogWheelConstraintData_SetInWorldSpace'' Void [Pointer, Struct 64, Struct 64, Struct 12, Struct 12,
       Floating 4, Struct 12, Struct 12, Floating 4],
     forwards ''HkCogWheelConstraintData_SetInBodySpaceInternal'' Void [Pointer, Struct 12, Struct 12, Floating 4,
       Struct 12, Struct 12, Floating 4],
     forwards ''HkCollisionEvent_GetSource'' (Integer 4) [Pointer],
     forwards ''HkCollisionEvent_GetRigidBody'' Pointer [Pointer, Integer 4],
     forwards ''HkCollisionEvent_GetBodyA'' Pointer [Pointer]]"

definition havok_wrappers_8 :: "wrapper list" where
  "havok_wrappers_8 =
    [forwards ''HkCollisionEvent_GetBodyB'' Pointer [Pointer],
     forwards ''HkCollisionEvent_SetImpulse'' (Integer 1) [Pointer, Floating 4],
     forwards ''HkCollisionEvent_SetImpulseScaling'' Void [Pointer, Floating 4, Floating 4],
     forwards ''HkCollisionEvent_GetContactPointCount'' (Integer 4) [Pointer],
     forwards ''HkCollisionEvent_Disable'' Void [Pointer],
     forwards ''HkCollisionEvent_GetContactPointPropertiesAt'' Pointer [Pointer, Integer 4],
     forwards ''HkCollisionEvent_GetOffsets'' Void [Pointer],
     forwards ''HkConstraint_Create'' Pointer [Pointer, Pointer, Pointer, Integer 4],
     forwards ''HkConstraint_AddConstraintListener'' Void [Pointer, Pointer],
     forwards ''HkConstraint_RemoveConstraintListener'' Void [Pointer, Pointer],
     forwards ''HkConstraint_ReplaceEntity'' Void [Pointer, Pointer, Pointer],
     forwards ''HkConstraint_SetVirtualMassInverse'' Void [Pointer, Struct 16, Struct 16],
     forwards ''HkConstraint_GetPriority'' (Integer 4) [Pointer],
     forwards ''HkConstraint_SetPriority'' Void [Pointer, Integer 4],
     forwards ''HkConstraint_GetWantRuntime'' (Integer 1) [Pointer],
     forwards ''HkConstraint_SetWantRuntime'' Void [Pointer, Integer 1],
     forwards ''HkConstraint_IsInWorld'' (Integer 1) [Pointer],
     forwards ''HkConstraint_GetRigidBodyA'' Pointer [Pointer],
     forwards ''HkConstraint_GetRigidBodyB'' Pointer [Pointer],
     forwards ''HkConstraint_GetEnabled'' (Integer 1) [Pointer],
     forwards ''HkConstraint_SetEnabled'' Void [Pointer, Integer 1],
     forwards ''HkConstraint_GetPivotsInWorld'' Void [Pointer, Pointer, Pointer],
     forwards ''HkConstraint_GetUserData'' (Integer 8) [Pointer],
     forwards ''HkConstraint_SetUserData'' Void [Pointer, Integer 8],
     forwards ''HkConstraint_AddCenterOfMassModifierAtom'' Void [Pointer, Struct 12, Struct 12]]"

definition havok_wrappers_9 :: "wrapper list" where
  "havok_wrappers_9 =
    [forwards ''HkConstraintData_GetMaximumLinearImpulse'' (Floating 4) [Pointer],
     forwards ''HkConstraintData_SetMaximumLinearImpulse'' Void [Pointer, Floating 4],
     forwards ''HkConstraintData_GetMaximumAngularImpulse'' (Floating 4) [Pointer],
     forwards ''HkConstraintData_SetMaximumAngularImpulse'' Void [Pointer, Floating 4],
     forwards ''HkConstraintData_GetBreachImpulse'' (Floating 4) [Pointer],
     forwards ''HkConstraintData_SetBreachImpulse'' Void [Pointer, Floating 4],
     forwards ''HkConstraintData_GetInertiaStabilizationFactor'' (Floating 4) [Pointer],
     forwards ''HkConstraintData_SetInertiaStabilizationFactor'' Void [Pointer, Floating 4],
     forwards ''HkConstraintData_SetSolvingMethod'' Void [Pointer, Integer 4],
     forwards ''HkConstraintListener_Create'' Pointer [],
     forwards ''HkConstraintListener_Release'' Void [Pointer]]"

definition havok_wrappers_10 :: "wrapper list" where
  "havok_wrappers_10 =
    [forwards ''HkConstraintProjectorListener_Create'' Pointer [Pointer],
     forwards ''HkConstraintProjectorListener_Release'' Void [Pointer],
     forwards ''HkConstraintStabilizationUtil_StabilizeRagdollInertias'' (Integer 4) [Pointer, Floating 4, Floating 4]]"

definition havok_wrappers_11 :: "wrapper list" where
  "havok_wrappers_11 =
    [forwards ''HkContactListener_SetCallbackLimit'' Void [Pointer, Integer 4],
     forwards ''HkContactListener_ResetLimit'' Void [Pointer],
     forwards ''HkContactPoint_GetPosition'' (Struct 12) [Pointer],
     forwards ''HkContactPoint_SetPosition'' Void [Pointer, Struct 12],
     forwards ''HkContactPoint_GetNormalAndDistance'' (Struct 16) [Pointer],
     forwards ''HkContactPoint_SetNormalAndDistance'' Void [Pointer, Struct 16],
     forwards ''HkContactPoint_GetNormal'' (Struct 12) [Pointer],
     forwards ''HkContactPoint_SetNormal'' Void [Pointer, Struct 12],
     forwards ''HkContactPoint_GetDistance'' (Floating 4) [Pointer],
     forwards ''HkContactPoint_SetDistance'' Void [Pointer, Floating 4],
     forwards ''HkContactPoint_Flip'' Void [Pointer],
     forwards ''HkContactPointEvent_GetBase'' Pointer [Pointer],
     forwards ''HkContactPointEvent_IsToi'' (Integer 1) [Pointer],
     forwards ''HkContactPointEvent_GetSeparatingVelocity'' (Floating 4) [Pointer],
     forwards ''HkContactPointEvent_SetSeparatingVelocity'' Void [Pointer, Floating 4],
     forwards ''HkContactPointEvent_GetRotateNormal'' (Floating 4) [Pointer],
     forwards ''HkContactPointEvent_SetRotateNormal'' Void [Pointer, Floating 4],
     forwards ''HkContactPointEvent_GetEventType'' (Integer 4) [Pointer],
     forwards ''HkContactPointEvent_GetContactPoint'' Pointer [Pointer],
     forwards ''HkContactPointEvent_GetContactProperties'' Pointer [Pointer],
     forwards ''HkContactPointEvent_GetFiringCallbacksForFullManifold'' (Integer 1) [Pointer],
     forwards ''HkContactPointEvent_GetFirstCallbackForFullManifold'' (Integer 1) [Pointer],
     forwards ''HkContactPointEvent_GetLastCallbackForFullManifold'' (Integer 1) [Pointer],
     forwards ''HkContactPointEvent_GetContactPointId'' (Integer 2) [Pointer],
     forwards ''HkContactPointEvent_AccessVelocities'' Void [Pointer, Integer 4],
     forwards ''HkContactPointEvent_UpdateVelocities'' Void [Pointer, Integer 4],
     forwards ''HkContactPointEvent_GetShapeKey'' (Integer 4) [Pointer, Integer 4],
     forwards ''HkContactPointEvent_GetShapeKeyWithShapeID'' (Integer 4) [Pointer, Integer 4, Integer 4],
     forwards ''HkContactPointEvent_GetFieldOffsets'' Void [Pointer, Pointer, Pointer, Pointer, Pointer, Pointer,
       Pointer],
     forwards ''HkContactPointProperties_GetImpulseApplied'' (Floating 4) [Pointer]]"

definition havok_wrappers_12 :: "wrapper list" where
  "havok_wrappers_12 =
    [forwards ''HkContactPointProperties_GetInternalSolverData'' (Floating 4) [Pointer],
     forwards ''HkContactPointProperties_WasUsed'' (Integer 1) [Pointer],
     forwards ''HkContactPointProperties_GetFriction'' (Floating 4) [Pointer],
     forwards ''HkContactPointProperties_SetFriction'' Void [Pointer, Floating 4],
     forwards ''HkContactPointProperties_GetRestitution'' (Floating 4) [Pointer],
     forwards ''HkContactPointProperties_SetRestitution'' Void [Pointer, Floating 4],
     forwards ''HkContactPointProperties_IsPotential'' (Integer 1) [Pointer],
     forwards ''HkContactPointProperties_GetMaxImpulsePerStep'' (Floating 4) [Pointer],
     forwards ''HkContactPointProperties_SetMaxImpulsePerStep'' Void [Pointer, Floating 4],
     forwards ''HkContactPointProperties_GetMaxImpulse'' (Floating 4) [Pointer],
     forwards ''HkContactPointProperties_SetMaxImpulse'' Void [Pointer, Floating 4],
     forwards ''HkContactPointProperties_GetIsDisabled'' (Integer 1) [Pointer],
     forwards ''HkContactPointProperties_SetIsDisabled'' Void [Pointer, Integer 1],
     forwards ''HkContactPointProperties_GetIsNew'' (Integer 1) [Pointer],
     forwards ''HkContactPointProperties_SetIsNew'' Void [Pointer, Integer 1],
     forwards ''HkContactPointProperties_GetUserData'' (Integer 4) [Pointer],
     forwards ''HkContactPointProperties_SetUserData'' Void [Pointer, Integer 4],
     forwards ''HkContactPointProperties_GetFieldOffsets'' Void [Pointer]]"

definition havok_wrappers_13 :: "wrapper list" where
  "havok_wrappers_13 =
    [forwards ''HkConvexShape_GetConvexShapeFromCompoundShape'' Pointer [Pointer, Integer 4],
     forwards ''HkConvexShape_GetConvexRadius'' (Floating 4) [Pointer],
     forwards ''HkConvexShape_SetConvexRadius'' Void [Pointer, Floating 4],
     forwards ''HkConvexShape_GetDefaultConvexRadius'' (Floating 4) [],
     forwards ''HkConvexTransformShape_Create'' Pointer [Pointer, Struct 64, Integer 4],
     forwards ''HkConvexTransformShape_CreateTranslated'' Pointer [Pointer, Struct 12, Struct 16, Struct 12,
       Integer 4],
     forwards ''HkConvexTransformShape_GetChildShape'' Pointer [Pointer],
     forwards ''HkConvexTransformShape_GetTransform'' (Struct 64) [Pointer],
     forwards ''HkConvexTranslateShape_CreateWithChild'' Pointer [Pointer, Struct 12, Integer 4],
     forwards ''HkConvexTranslateShape_GetChildShape'' Pointer [Pointer],
     forwards ''HkConvexTranslateShape_GetTranslation'' (Struct 12) [Pointer],
     forwards ''HkConvexVerticesShape_Create'' Pointer [Pointer, Integer 4],
     forwards ''HkConvexVerticesShape_CreateWithRadius'' Pointer [Pointer, Integer 4, Integer 1, Floating 4],
     forwards ''HkConvexVerticesShape_GetCenter'' (Struct 12) [Pointer],
     forwards ''HkConvexVerticesShape_GetVertexCount'' (Integer 4) [Pointer],
     forwards ''HkConvexVerticesShape_GetFaceCount'' (Integer 4) [Pointer],
     forwards ''HkConvexVerticesShape_GetFaces'' Void [Pointer, Pointer, Pointer, Pointer, Pointer],
     forwards ''HkConvexVerticesShape_GetVertices'' Void [Pointer, Pointer],
     forwards ''HkConvexVerticesShape_GetGeometry'' Void [Pointer, Pointer, Pointer],
     forwards ''HkCustomWheelConstraintData_Create'' Pointer [],
     forwards ''HkCustomWheelConstraintData_GetLimitsEnabled'' (Integer 1) [Pointer],
     forwards ''HkCustomWheelConstraintData_SetLimitsEnabled'' Void [Pointer, Integer 1],
     forwards ''HkCustomWheelConstraintData_GetSuspensionMinLimit'' (Floating 4) [Pointer],
     forwards ''HkCustomWheelConstraintData_SetSuspensionMinLimit'' Void [Pointer, Floating 4],
     forwards ''HkCustomWheelConstraintData_GetSuspensionMaxLimit'' (Floating 4) [Pointer],
     forwards ''HkCustomWheelConstraintData_SetSuspensionMaxLimit'' Void [Pointer, Floating 4],
     forwards ''HkCustomWheelConstraintData_GetFrictionEnabled'' (Integer 1) [Pointer],
     forwards ''HkCustomWheelConstraintData_SetFrictionEnabled'' Void [Pointer, Integer 1],
     forwards ''HkCustomWheelConstraintData_GetMaxFrictionTorque'' (Floating 4) [Pointer],
     forwards ''HkCustomWheelConstraintData_SetMaxFrictionTorque'' Void [Pointer, Floating 4]]"

definition havok_wrappers_14 :: "wrapper list" where
  "havok_wrappers_14 =
    [forwards ''HkCustomWheelConstraintData_SetInBodySpaceInternal'' Void [Pointer, Struct 12, Struct 12, Struct 12,
       Struct 12, Struct 12, Struct 12],
     forwards ''HkCustomWheelConstraintData_SetSuspensionStrength'' Void [Pointer, Floating 4],
     forwards ''HkCustomWheelConstraintData_SetSuspensionDamping'' Void [Pointer, Floating 4],
     forwards ''HkCustomWheelConstraintData_SetSteeringAngle'' Void [Pointer, Floating 4],
     forwards ''HkCustomWheelConstraintData_SetAngleLimits'' Void [Pointer, Floating 4, Floating 4],
     forwards ''HkCustomWheelConstraintData_GetAngleLimitsMin'' (Floating 4) [Pointer],
     forwards ''HkCustomWheelConstraintData_GetAngleLimitsMax'' (Floating 4) [Pointer],
     forwards ''HkCustomWheelConstraintData_DisableLimits'' Void [Pointer],
     forwards ''HkCustomWheelConstraintData_GetCurrentAngle'' (Floating 4) [Pointer],
     forwards ''HkCustomWheelConstraintData_SetCurrentAngle'' Void [Pointer, Floating 4],
     forwards ''HkCylinderShape_Create'' Pointer [Struct 12, Struct 12, Floating 4],
     forwards ''HkCylinderShape_CreateWithConvexRadius'' Pointer [Struct 12, Struct 12, Floating 4, Floating 4],
     forwards ''HkCylinderShape_GetVertexB'' (Struct 12) [Pointer],
     forwards ''HkCylinderShape_GetVertexA'' (Struct 12) [Pointer],
     forwards ''HkCylinderShape_SetVertexB'' Void [Pointer, Struct 12],
     forwards ''HkCylinderShape_SetVertexA'' Void [Pointer, Struct 12],
     forwards ''HkCylinderShape_GetRadius'' (Floating 4) [Pointer],
     forwards ''HkCylinderShape_SetRadius'' Void [Pointer, Floating 4],
     forwards ''HkCylinderShape_SetNumberOfVirtualSideSegments'' Void [Integer 4],
     forwards ''HkEasePenetrationAction_Create'' Pointer [Pointer, Floating 4],
     forwards ''HkEasePenetrationAction_GetInitialAdditionalAllowedPenetrationDepth'' (Floating 4) [Pointer],
     forwards ''HkEasePenetrationAction_SetInitialAdditionalAllowedPenetrationDepth'' Void [Pointer, Floating 4],
     forwards ''HkEasePenetrationAction_GetInitialAllowedPenetrationDepthMultiplier'' (Floating 4) [Pointer],
     forwards ''HkEasePenetrationAction_SetInitialAllowedPenetrationDepthMultiplier'' Void [Pointer, Floating 4],
     forwards ''HkEntity_AddActivationListener'' Void [Pointer, Pointer],
     forwards ''HkEntity_RemoveActivationListener'' Void [Pointer, Pointer],
     forwards ''HKEntity_AddEntityListener'' Void [Pointer, Pointer],
     forwards ''HKEntity_RemoveEntityListener'' Void [Pointer, Pointer],
     forwards ''HkEntity_SetContactListener'' Void [Pointer, Pointer, Integer 1],
     forwards ''HkEntity_GetQuality'' (Integer 4) [Pointer]]"

definition havok_wrappers_15 :: "wrapper list" where
  "havok_wrappers_15 =
    [forwards ''HkEntity_SetQuality'' Void [Pointer, Integer 4],
     forwards ''HkEntity_IsFixed'' (Integer 1) [Pointer],
     forwards ''HkEntity_IsFixedOrKeyframed'' (Integer 1) [Pointer],
     forwards ''HkRigidBody_GetMotionType'' (Integer 4) [Pointer],
     forwards ''HkEntity_GetContactPointCallbackDelay'' (Integer 4) [Pointer],
     forwards ''HkEntity_SetContactPointCallbackDelay'' Void [Pointer, Integer 4],
     forwards ''HkEntity_SetProperty'' Void [Pointer, Integer 4, Floating 4],
     forwards ''HkEntity_HasProperty'' (Integer 1) [Pointer, Integer 4],
     forwards ''HkEntity_RemoveProperty'' Void [Pointer, Integer 4],
     forwards ''HkRigidBody_GetRotation'' (Struct 16) [Pointer],
     forwards ''HkRigidBody_SetRotation'' Void [Pointer, Struct 16],
     forwards ''HkRigidBody_GetPosition'' (Struct 12) [Pointer],
     forwards ''HkRigidBody_SetPosition'' Void [Pointer, Struct 12],
     forwards ''HkRigidBody_Activate'' Void [Pointer],
     forwards ''HkRigidBody_ActivateAsCriticalOperation'' Void [Pointer],
     forwards ''HkRigidBody_Deactivate'' Void [Pointer],
     forwards ''HkRigidBody_UpdateMotionType'' Void [Pointer, Integer 4],
     forwards ''HkRigidBody_GetIsActive'' (Integer 1) [Pointer],
     forwards ''HkRigidBody_RequestDeactivation'' Void [Pointer],
     forwards ''HkRigidBody_GetLinearVelocity'' (Struct 12) [Pointer],
     forwards ''HkRigidBody_SetLinearVelocity'' Void [Pointer, Struct 12],
     forwards ''HkRigidBody_GetAngularVelocity'' (Struct 12) [Pointer],
     forwards ''HkRigidBody_SetAngularVelocity'' Void [Pointer, Struct 12],
     forwards ''HkEntity_GetFieldOffsets'' Void [Pointer, Pointer, Pointer, Pointer, Pointer, Pointer, Pointer,
       Pointer]]"

definition havok_wrappers_16 :: "wrapper list" where
  "havok_wrappers_16 =
    [forwards ''HkEntityListener_Release'' Void [Pointer],
     forwards ''HkFixedConstraintData_Create'' Pointer [],
     forwards ''HkFixedConstraintData_SetInBodySpaceInternal'' Void [Pointer, Struct 64, Struct 64],
     forwards ''HkFixedConstraintData_SetInWorldSpace'' Void [Pointer, Struct 64, Struct 64, Struct 64],
     forwards ''HkFixedConstraintData_IsValid'' (Integer 1) [Pointer],
     forwards ''HkFixedConstraintData_SetInertiaStabilizationFactor'' (Integer 1) [Pointer, Floating 4],
     forwards ''HkFixedConstraintData_GetInertiaStabilizationFactor'' (Integer 1) [Pointer, Pointer],
     forwards ''HkFixedConstraintData_GetSolverImpulseInLastStep'' (Floating 4) [Pointer, Integer 1],
     forwards ''HkGeometry_Create'' Pointer [],
     forwards ''HkGeometry_CreateWithParams'' Pointer [Integer 4, Pointer, Integer 4, Pointer, Integer 4, Pointer],
     forwards ''HkGeometry_Destroy'' Void [Pointer],
     forwards ''HkGeometry_GetTriangleCount'' (Integer 4) [Pointer],
     forwards ''HkGeometry_GetVertexCount'' (Integer 4) [Pointer],
     forwards ''HkGeometry_Append'' Void [Pointer, Pointer, Struct 64],
     forwards ''HkGeometry_GetTriangle'' Void [Pointer, Integer 4, Pointer],
     forwards ''HkGeometry_GetVertex'' (Struct 12) [Pointer, Integer 4],
     forwards ''HkGeometry_SetGeometry'' Void [Pointer, Integer 4, Pointer, Integer 4, Pointer, Integer 4, Pointer],
     forwards ''HkGridShape_Create'' Pointer [Floating 4, Integer 4],
     forwards ''HkGridShape_GetCellSize'' (Floating 4) [Pointer],
     forwards ''HkGridShape_GetShapeCount'' (Integer 4) [Pointer],
     forwards ''HkGridShape_SetDebugRigidBody'' Void [Pointer, Pointer],
     forwards ''HkGridShape_GetDebugRigidBody'' Pointer [Pointer],
     forwards ''HkGridShape_SetDebugDraw'' Void [Pointer, Integer 1],
     forwards ''HkGridShape_GetDebugDraw'' (Integer 1) [Pointer],
     forwards ''HkGridShape_AddShapes'' Void [Pointer, Pointer, Integer 4, Struct 6, Struct 6],
     forwards ''HkGridShape_Contains'' (Integer 1) [Pointer, Integer 2, Integer 2, Integer 2],
     forwards ''HkGridShape_GetShape'' Void [Pointer, Struct 12, Pointer],
     forwards ''HkGridShape_GetShapeInfo'' Void [Pointer, Integer 4, Pointer, Pointer, Pointer],
     forwards ''HkGridShape_GetShapeInfoCount'' (Integer 4) [Pointer],
     forwards ''HkGridShape_GetShapeMin'' Void [Pointer, Integer 4, Pointer]]"

definition havok_wrappers_17 :: "wrapper list" where
  "havok_wrappers_17 =
    [forwards ''HkGridShape_GetShapesInInterval'' Void [Pointer, Struct 12, Struct 12, Pointer],
     forwards ''HkGridShape_GetChildBounds'' Void [Pointer, Integer 4, Pointer, Pointer],
     forwards ''HkGridShape_RemoveShapes'' Void [Pointer, Pointer, Integer 4, Pointer],
     forwards ''HkGridShape_GetCellRanges'' Void [Pointer, Pointer, Integer 4, Pointer],
     forwards ''HkGroupFilter_CalcFilterInfo'' (Integer 4) [Integer 4, Integer 4, Integer 4, Integer 4],
     forwards ''HkGroupFilter_GetLayerFromFilterInfo'' (Integer 4) [Integer 4],
     forwards ''HkGroupFilter_getSubSystemDontCollideWithFromFilterInfo'' (Integer 4) [Integer 4],
     forwards ''HkGroupFilter_GetSubSystemIdFromFilterInfo'' (Integer 4) [Integer 4],
     forwards ''HkGroupFilter_GetSystemGroupFromFilterInfo'' (Integer 4) [Integer 4],
     forwards ''HkGroupFilter_SetLayer'' (Integer 4) [Integer 4, Integer 4],
     forwards ''HkGroupFilter_DisableCollisionsBetween'' Void [Pointer, Integer 4, Integer 4],
     forwards ''HkGroupFilter_DisableCollisionsUsingBitfield'' Void [Pointer, Integer 4, Integer 4],
     forwards ''HkGroupFilter_EnableCollisionsBetween'' Void [Pointer, Integer 4, Integer 4],
     forwards ''HkGroupFilter_EnableCollisionsUsingBitfield'' Void [Pointer, Integer 4, Integer 4],
     forwards ''HkGroupFilter_GetNewSystemGroup'' (Integer 4) [Pointer],
     forwards ''HkGlobal_ReleasePtr'' Void [Pointer],
     forwards ''HkGlobal_ReleaseString'' Void [Pointer],
     forwards ''HkGlobal_ReleaseArrayPtr'' Void [Pointer],
     forwards ''HkHingeConstraintData_Create'' Pointer [],
     forwards ''HkHingeConstraintData_SetInBodySpaceInternal'' Void [Pointer, Struct 12, Struct 12, Struct 12,
       Struct 12],
     forwards ''HkHingeConstraintData_SetInWorldSpace'' Void [Pointer, Struct 64, Struct 64, Struct 12, Struct 12],
     forwards ''HkHingeConstraintData_SetInertiaStabilizationFactor'' (Integer 1) [Pointer, Floating 4],
     forwards ''HkHingeConstraintData_GetInertiaStabilizationFactor'' (Integer 1) [Pointer, Pointer],
     forwards ''HkInertiaTensorComputer_Create'' Pointer [],
     forwards ''HkInertiaTensorComputer_CombineMassPropertiesInstance'' Void [Pointer, Pointer, Integer 4, Pointer],
     forwards ''HkInertiaTensorComputer_Release'' Void [Pointer],
     forwards ''HkInertiaTensorComputer_ComputeBoxVolumeMassProperties'' Void [Struct 12, Floating 4, Pointer],
     forwards ''HkInertiaTensorComputer_ComputeCapsuleVolumeMassProperties'' Void [Struct 12, Struct 12, Floating 4,
       Floating 4, Pointer],
     forwards ''HkInertiaTensorComputer_ComputeCylinderVolumeMassProperties'' Void [Struct 12, Struct 12, Floating 4,
       Floating 4, Pointer],
     forwards ''HkInertiaTensorComputer_ComputeSphereVolumeMassProperties'' Void [Floating 4, Floating 4, Pointer]]"

definition havok_wrappers_18 :: "wrapper list" where
  "havok_wrappers_18 =
    [forwards ''HkJobQueue_Create'' Pointer [Pointer],
     forwards ''HkJobQueue_CreateWithNumThreads'' Pointer [Integer 4],
     forwards ''HkJobQueue_Release'' Void [Pointer],
     forwards ''HkJobQueue_GetWaitPolicy'' (Integer 4) [Pointer],
     forwards ''HkJobQueue_SetWaitPolicy'' Void [Pointer, Integer 4],
     forwards ''HkJobQueue_GetMasterThreadFinishingFlags'' (Integer 4) [Pointer],
     forwards ''HkJobQueue_SetMasterThreadFinishingFlags'' Void [Pointer, Integer 4],
     forwards ''HkJobQueue_ProcessAllJobs'' Void [Pointer],
     forwards ''HkJobThreadPool_Create'' Pointer [Pointer],
     forwards ''HkJobThreadPool_CreateWithNumThreads'' Pointer [Integer 4],
     forwards ''HkJobThreadPool_RemoveReference'' Void [Pointer]]"

definition havok_wrappers_19 :: "wrapper list" where
  "havok_wrappers_19 =
    [forwards ''HkJobThreadPool_ExecuteJobQueue'' Void [Pointer, Pointer],
     forwards ''HkJobThreadPool_GetThisThreadIndex'' (Integer 4) [Pointer],
     forwards ''HkJobThreadPool_WaitForCompletion'' Void [Pointer],
     forwards ''HkJobThreadPool_ClearTimerData'' Void [Pointer],
     forwards ''HkKeyFrameUtility_ApplyHardKeyFrame'' Void [Struct 16, Struct 16, Floating 4, Pointer],
     forwards ''HkLimitedForceConstraintMotor_GetMinForce'' (Floating 4) [Pointer],
     forwards ''HkLimitedForceConstraintMotor_SetMinForce'' Void [Pointer, Floating 4],
     forwards ''HkLimitedForceConstraintMotor_GetMaxForce'' (Floating 4) [Pointer],
     forwards ''HkLimitedForceConstraintMotor_SetMaxForce'' Void [Pointer, Floating 4],
     forwards ''HkLimitedHingeConstraintData_Create'' Pointer [],
     forwards ''HkLimitedHingeConstraintData_SetInBodySpaceInternal'' Void [Pointer, Struct 12, Struct 12, Struct 12,
       Struct 12, Struct 12, Struct 12],
     forwards ''HkLimitedHingeConstraintData_SetInWorldSpace'' Void [Pointer, Struct 64, Struct 64, Struct 12,
       Struct 12],
     forwards ''HkLimitedHingeConstraintData_SetMotor'' Void [Pointer, Pointer],
     forwards ''HkLimitedHingeConstraintData_IsMotorEnabled'' (Integer 1) [Pointer],
     forwards ''HkLimitedHingeConstraintData_SetMotorEnabled'' Void [Pointer, Pointer, Integer 1],
     forwards ''HkLimitedHingeConstraintData_GetTargetAngle'' (Floating 4) [Pointer],
     forwards ''HkLimitedHingeConstraintData_SetTargetAngle'' Void [Pointer, Floating 4],
     forwards ''HkLimitedHingeConstraintData_GetMaxFrictionTorque'' (Floating 4) [Pointer],
     forwards ''HkLimitedHingeConstraintData_SetMaxFrictionTorque'' Void [Pointer, Floating 4],
     forwards ''HkLimitedHingeConstraintData_GetMinAngularLimit'' (Floating 4) [Pointer],
     forwards ''HkLimitedHingeConstraintData_SetMinAngularLimit'' Void [Pointer, Floating 4],
     forwards ''HkLimitedHingeConstraintData_GetMaxAngularLimit'' (Floating 4) [Pointer],
     forwards ''HkLimitedHingeConstraintData_SetMaxAngularLimit'' Void [Pointer, Floating 4],
     forwards ''HkLimitedHingeConstraintData_DisableLimits'' Void [Pointer],
     forwards ''HkLimitedHingeConstraintData_SetInertiaStabilizationFactor'' (Integer 1) [Pointer, Floating 4],
     forwards ''HkLimitedHingeConstraintData_GetInertiaStabilizationFactor'' (Integer 1) [Pointer, Pointer],
     forwards ''HkLimitedHingeConstraintData_GetBodyAPos'' (Struct 12) [Pointer],
     forwards ''HkLimitedHingeConstraintData_GetBodyBPos'' (Struct 12) [Pointer],
     forwards ''HkLimitedHingeConstraintData_GetIsInitialized'' (Integer 1) [Pointer],
     forwards ''HkLimitedHingeConstraintData_SetIsInitialized'' Void [Pointer, Integer 1]]"

definition havok_wrappers_20 :: "wrapper list" where
  "havok_wrappers_20 =
    [forwards ''HkLimitedHingeConstraintData_GetPreviousTargetAngle'' (Floating 4) [Pointer],
     forwards ''HkLimitedHingeConstraintData_SetPreviousTargetAngle'' Void [Pointer, Floating 4],
     forwards ''HkLimitedHingeConstraintData_GetCurrentAngle'' (Floating 4) [Pointer],
     forwards ''HkLimitedHingeConstraintData_SetCurrentAngle'' Void [Pointer, Floating 4],
     forwards ''HkListShape_Create'' Pointer [Pointer, Integer 4, Integer 4],
     forwards ''HkListShape_GetDisabledChildrenCount'' (Integer 2) [Pointer],
     forwards ''HkListShape_GetTotalChildrenCount'' (Integer 4) [Pointer],
     forwards ''HkListShape_EnableShape'' Void [Pointer, Integer 4, Integer 1],
     forwards ''HkListShape_GetChildByIndex'' Pointer [Pointer, Integer 4],
     forwards ''HkListShape_IsChildEnabled'' (Integer 1) [Pointer, Integer 4],
     forwards ''HkMalleableConstraintData_Create'' Pointer [Pointer],
     forwards ''HkMalleableConstraintData_GetStrength'' (Floating 4) [Pointer],
     forwards ''HkMalleableConstraintData_SetStrength'' Void [Pointer, Floating 4],
     forwards ''HkMassChangerUtil_Create'' Pointer [Pointer, Integer 4, Floating 4, Floating 4],
     forwards ''HkMassChangerUtil_IsValid'' (Integer 1) [Pointer],
     forwards ''HkMassChangerUtil_Remove'' Void [Pointer],
     forwards ''HkMemorySnapshot_Diff'' Void [Pointer, Pointer, Pointer, Pointer],
     forwards ''HkMoppBvTreeShape_Create'' Pointer [Pointer],
     forwards ''HkMoppBvTreeShape_GetShapeCollection'' Pointer [Pointer],
     forwards ''HkMoppBvTreeShape_DisableKeys'' Void [Pointer, Pointer, Integer 4],
     forwards ''HkMoppBvTreeShape_QueryAABB'' Void [Pointer, Struct 12, Struct 12, Pointer],
     forwards ''HkMoppBvTreeShape_QueryPoint'' Void [Pointer, Struct 12, Pointer],
     forwards ''HkMotion_SetWorldMatrix'' Void [Pointer, Struct 64],
     forwards ''HkMotion_GetDeactivationClass'' (Integer 4) [Pointer],
     forwards ''HkMotion_SetDeactivationClass'' Void [Pointer, Integer 4]]"

definition havok_wrappers_21 :: "wrapper list" where
  "havok_wrappers_21 =
    [forwards ''HkPrismaticConstraintData_Create'' Pointer [],
     forwards ''HkPrismaticConstraintData_SetInWorldSpace'' Void [Pointer, Struct 64, Struct 64, Struct 12, Struct 12],
     forwards ''HkPrismaticConstraintData_SetInBodySpaceInternal'' Void [Pointer, Struct 12, Struct 12, Struct 12,
       Struct 12, Struct 12, Struct 12],
     forwards ''HkPrismaticConstraintData_GetMaximumLinearLimit'' (Floating 4) [Pointer],
     forwards ''HkPrismaticConstraintData_SetMaximumLinearLimit'' Void [Pointer, Floating 4],
     forwards ''HkPrismaticConstraintData_GetMinimumLinearLimit'' (Floating 4) [Pointer],
     forwards ''HkPrismaticConstraintData_SetMinimumLinearLimit'' Void [Pointer, Floating 4],
     forwards ''HkPrismaticConstraintData_GetMaxFrictionForce'' (Floating 4) [Pointer],
     forwards ''HkPrismaticConstraintData_SetMaxFrictionForce'' Void [Pointer, Floating 4],
     forwards ''HkPrismaticConstraintData_GetTargetPosition'' (Floating 4) [Pointer],
     forwards ''HkPrismaticConstraintData_SetTargetPosition'' Void [Pointer, Floating 4],
     forwards ''HkPrismaticConstraintData_SetMotor'' Void [Pointer, Pointer],
     forwards ''HkPrismaticConstraintData_IsMotorEnabled'' (Integer 1) [Pointer],
     forwards ''HkPrismaticConstraintData_SetMotorEnabled'' Void [Pointer, Pointer, Integer 1],
     forwards ''HkPrismaticConstraintData_GetCurrentPosition'' (Floating 4) [Pointer],
     forwards ''HkPhysicsSystem_IsActive'' (Integer 1) [Pointer],
     forwards ''HkPhysicsSystem_SetActive'' Void [Pointer, Integer 1],
     forwards ''HkPhysicsSystem_RecreateConstraints'' Void [Pointer],
     forwards ''HkPhysicsSystem_GetConstraintDataFromSystem'' Void [Pointer, Pointer],
     forwards ''HkPhysicsSystem_GetName'' Pointer [Pointer],
     forwards ''HkPhysicsSystem_LoadRagdollFromFile'' Pointer [Pointer],
     forwards ''HkPhysicsSystem_LoadRagdollFromBuffer'' Pointer [Pointer, Integer 4],
     forwards ''HkPhysicsSystem_InitFromData'' (Integer 1) [Pointer, Pointer, Pointer],
     forwards ''HkpGroupFilter_CalcFilterInfo'' (Integer 4) [Integer 4, Integer 4, Integer 4, Integer 4],
     forwards ''HkpGroupFilter_CalcFilterInfoFromCurrent'' (Integer 4) [Integer 4, Integer 4],
     forwards ''HkpInertiaTensorComputer_OptimizeInertiasOfConstraintTree'' Void [Pointer, Integer 4, Pointer],
     forwards ''HkPhysicsSystem_Release'' Void [Pointer],
     forwards ''HkRagdollConstraintData_GetPlaneMinAngularLimit'' (Floating 4) [Pointer],
     forwards ''HkRagdollConstraintData_SetPlaneMinAngularLimit'' Void [Pointer, Floating 4],
     forwards ''HkRagdollConstraintData_GetPlaneMaxAngularLimit'' (Floating 4) [Pointer]]"

definition havok_wrappers_22 :: "wrapper list" where
  "havok_wrappers_22 =
    [forwards ''HkRagdollConstraintData_SetPlaneMaxAngularLimit'' Void [Pointer, Floating 4],
     forwards ''HkRagdollConstraintData_GetTwistMinAngularLimit'' (Floating 4) [Pointer],
     forwards ''HkRagdollConstraintData_SetTwistMinAngularLimit'' Void [Pointer, Floating 4],
     forwards ''HkRagdollConstraintData_GetTwistMaxAngularLimit'' (Floating 4) [Pointer],
     forwards ''HkRagdollConstraintData_SetTwistMaxAngularLimit'' Void [Pointer, Floating 4],
     forwards ''HkRagdollConstraintData_GetMaxFrictionTorque'' (Floating 4) [Pointer],
     forwards ''HkRagdollConstraintData_SetMaxFrictionTorque'' Void [Pointer, Floating 4],
     forwards ''HkRagdollConstraintData_SetInBodySpaceInternal'' Void [Pointer, Struct 12, Struct 12, Struct 12,
       Struct 12, Struct 12, Struct 12],
     forwards ''HkRagdollConstraintData_SetAsymmetricConeAngle'' Void [Pointer, Floating 4, Floating 4],
     forwards ''HkRagdollConstraintData_SetConeLimitStabilization'' Void [Pointer, Integer 1],
     forwards ''HkReferenceObject_AddReference'' Void [Pointer],
     forwards ''HkReferenceObject_RemoveReference'' Void [Pointer],
     forwards ''HkReferenceObject_IsValid'' (Integer 1) [Pointer],
     forwards ''HkReferenceObject_DebugRemoveRef'' Void [Pointer],
     forwards ''HkReferenceObject_ReferenceCount'' (Integer 4) [Pointer],
     forwards ''HkRigidBody_Create'' Pointer [Pointer],
     forwards ''HkRigidBody_CreateWithCustomVelocity'' Pointer [Pointer],
     forwards ''HkRigidBody_SetNumShapeKeysInContactPointProperties'' Void [Pointer, Integer 4],
     forwards ''HkRigidBody_GetResponseModifiers'' (Integer 4) [Pointer],
     forwards ''HkRigidBody_SetResponseModifiers'' Void [Pointer, Integer 4],
     forwards ''HkRigidBody_GetShape'' Pointer [Pointer],
     forwards ''HkRigidBody_SetShape'' (Integer 4) [Pointer, Pointer],
     forwards ''HkRigidBody_UpdateShape'' (Integer 4) [Pointer],
     forwards ''HkRigidBody_PredictRigidBodyMatrix'' (Struct 64) [Pointer, Floating 4, Pointer],
     forwards ''HkRigidBody_SetMassProperties'' Void [Pointer, Struct 84],
     forwards ''HkRigidBody_SetWorldMatrix'' Void [Pointer, Struct 64],
     forwards ''HkRigidBody_SetTransform'' Void [Pointer, Struct 64],
     forwards ''HkRigidBody_GetEnableDeactivation'' (Integer 1) [Pointer],
     forwards ''HkRigidBody_SetEnableDeactivation'' Void [Pointer, Integer 1],
     forwards ''HkRigidBody_GetMarkedForVelocityRecompute'' (Integer 1) [Pointer]]"

definition havok_wrappers_23 :: "wrapper list" where
  "havok_wrappers_23 =
    [forwards ''HkRigidBody_SetMarkedForVelocityRecompute'' Void [Pointer, Integer 1],
     forwards ''HkRigidBody_GetMotion'' Pointer [Pointer],
     forwards ''HkRigidBody_GetMass'' (Floating 4) [Pointer],
     forwards ''HkRigidBody_SetMass'' Void [Pointer, Floating 4],
     forwards ''HkRigidBody_GetCenterOfMassLocal'' (Struct 12) [Pointer],
     forwards ''HkRigidBody_SetCenterOfMassLocal'' Void [Pointer, Struct 12],
     forwards ''HkRigidBody_GetInertiaTensor'' (Struct 64) [Pointer],
     forwards ''HkRigidBody_SetInertiaTensor'' Void [Pointer, Struct 64],
     forwards ''HkRigidBody_GetInverseInertiaTensor'' (Struct 64) [Pointer],
     forwards ''HkRigidBody_SetInverseInertiaTensor'' Void [Pointer, Struct 64],
     forwards ''HkRigidBody_GetCenterOfMassWorld'' (Struct 12) [Pointer],
     forwards ''HkRigidBody_GetCustomVelocity'' (Integer 1) [Pointer, Pointer],
     forwards ''HkRigidBody_SetCustomVelocity'' Void [Pointer, Struct 12, Integer 1],
     forwards ''HkRigidBody_GetDeltaAngle'' (Struct 16) [Pointer],
     forwards ''HkRigidBody_GetLinearDamping'' (Floating 4) [Pointer],
     forwards ''HkRigidBody_SetLinearDamping'' Void [Pointer, Floating 4],
     forwards ''HkRigidBody_GetAngularDamping'' (Floating 4) [Pointer],
     forwards ''HkRigidBody_SetAngularDamping'' Void [Pointer, Floating 4],
     forwards ''HkRigidBody_GetMaxLinearVelocity'' (Floating 4) [Pointer],
     forwards ''HkRigidBody_SetMaxLinearVelocity'' Void [Pointer, Floating 4],
     forwards ''HkRigidBody_GetMaxAngularVelocity'' (Floating 4) [Pointer],
     forwards ''HkRigidBody_SetMaxAngularVelocity'' Void [Pointer, Floating 4],
     forwards ''HkRigidBody_GetAllowedPenetrationDepth'' (Floating 4) [Pointer],
     forwards ''HkRigidBody_SetAllowedPenetrationDepth'' Void [Pointer, Floating 4],
     forwards ''HkRigidBody_GetFriction'' (Floating 4) [Pointer],
     forwards ''HkRigidBody_SetFriction'' Void [Pointer, Floating 4],
     forwards ''HkRigidBody_GetRestitution'' (Floating 4) [Pointer],
     forwards ''HkRigidBody_SetRestitution'' Void [Pointer, Floating 4],
     forwards ''HkRigidBody_ApplyLinearImpulse'' Void [Pointer, Struct 12],
     forwards ''HkRigidBody_ApplyPointImpulse'' Void [Pointer, Struct 12, Struct 12]]"

definition havok_wrappers_24 :: "wrapper list" where
  "havok_wrappers_24 =
    [forwards ''HkRigidBody_ApplyAngularImpulse'' Void [Pointer, Struct 12],
     forwards ''HkRigidBody_SetLayer'' Void [Pointer, Integer 4],
     forwards ''HkRigidBody_GetCollisionFilterInfo'' (Integer 4) [Pointer],
     forwards ''HkRigidBody_SetCollisionFilterInfo'' Void [Pointer, Integer 4],
     forwards ''HkRigidBody_ApplyForce'' Void [Pointer, Floating 4, Struct 12],
     forwards ''HkRigidBody_ApplyForceToPoint'' Void [Pointer, Floating 4, Struct 12, Struct 12],
     forwards ''HkRigidBody_ApplyTorque'' Void [Pointer, Floating 4, Struct 12],
     forwards ''HkRigidBody_GetNativeObjectName'' Pointer [Pointer],
     forwards ''HkRigidBody_RemoveFromWorld'' Void [Pointer],
     forwards ''HkRigidBody_HasGravity'' (Integer 1) [Pointer],
     forwards ''HkRigidBody_HasConstraints'' (Integer 1) [Pointer],
     forwards ''HkRigidBody_GetBreakableBody'' Pointer [Pointer],
     forwards ''HkRigidBody_GetGravity'' (Struct 12) [Pointer],
     forwards ''HkRigidBody_ReleaseGravity'' Void [Pointer],
     forwards ''HkRigidBody_SetGravity'' Void [Pointer, Struct 12],
     forwards ''HkRigidBody_Clone'' Pointer [Pointer],
     forwards ''HkRigidBody_FromShape'' Pointer [Pointer],
     forwards ''HkRigidBody_GetGcRoot'' (Integer 8) [Pointer],
     forwards ''HkRigidBody_GetGravityAction'' Pointer [Pointer, Pointer, Struct 12],
     forwards ''HkRigidBody_AddGravityAction'' Void [Pointer, Pointer],
     forwards ''HkRigidBody_GetDeactivationCounter0'' (Integer 4) [Pointer],
     forwards ''HkRigidBody_GetDeactivationCounter1'' (Integer 4) [Pointer],
     forwards ''HkRigidBody_HasActions'' (Integer 1) [Pointer, Integer 4],
     forwards ''HkRigidBodyCinfo_Create'' Pointer [],
     forwards ''HkRigidBodyCinfo_Release'' Void [Pointer],
     forwards ''HkRigidBodyCinfo_GetCollisionResponse'' (Integer 4) [Pointer],
     forwards ''HkRigidBodyCinfo_SetCollisionResponse'' Void [Pointer, Integer 4],
     forwards ''HkRigidBodyCinfo_GetResponseModifiers'' (Integer 4) [Pointer],
     forwards ''HkRigidBodyCinfo_SetResponseModifiers'' Void [Pointer, Integer 4],
     forwards ''HkRigidBodyCinfo_GetPosition'' (Struct 12) [Pointer]]"

definition havok_wrappers_25 :: "wrapper list" where
  "havok_wrappers_25 =
    [forwards ''HkRigidBodyCinfo_SetPosition'' Void [Pointer, Struct 12],
     forwards ''HkRigidBodyCinfo_GetRotation'' (Struct 16) [Pointer],
     forwards ''HkRigidBodyCinfo_SetRotation'' Void [Pointer, Struct 16],
     forwards ''HkRigidBodyCinfo_GetLinearVelocity'' (Struct 12) [Pointer],
     forwards ''HkRigidBodyCinfo_SetLinearVelocity'' Void [Pointer, Struct 12],
     forwards ''HkRigidBodyCinfo_GetAngularVelocity'' (Struct 12) [Pointer],
     forwards ''HkRigidBodyCinfo_SetAngularVelocity'' Void [Pointer, Struct 12],
     forwards ''HkRigidBodyCinfo_GetCenterOfMass'' (Struct 12) [Pointer],
     forwards ''HkRigidBodyCinfo_SetCenterOfMass'' Void [Pointer, Struct 12],
     forwards ''HkRigidBodyCinfo_GetMass'' (Floating 4) [Pointer],
     forwards ''HkRigidBodyCinfo_SetMass'' Void [Pointer, Floating 4],
     forwards ''HkRigidBodyCinfo_GetLinearDamping'' (Floating 4) [Pointer],
     forwards ''HkRigidBodyCinfo_SetLinearDamping'' Void [Pointer, Floating 4],
     forwards ''HkRigidBodyCinfo_GetAngularDamping'' (Floating 4) [Pointer],
     forwards ''HkRigidBodyCinfo_SetAngularDamping'' Void [Pointer, Floating 4],
     forwards ''HkRigidBodyCinfo_GetFriction'' (Floating 4) [Pointer],
     forwards ''HkRigidBodyCinfo_SetFriction'' Void [Pointer, Floating 4],
     forwards ''HkRigidBodyCinfo_GetRestitution'' (Floating 4) [Pointer],
     forwards ''HkRigidBodyCinfo_SetRestitution'' Void [Pointer, Floating 4],
     forwards ''HkRigidBodyCinfo_GetMaxLinearVelocity'' (Floating 4) [Pointer],
     forwards ''HkRigidBodyCinfo_SetMaxLinearVelocity'' Void [Pointer, Floating 4],
     forwards ''HkRigidBodyCinfo_GetMaxAngularVelocity'' (Floating 4) [Pointer],
     forwards ''HkRigidBodyCinfo_SetMaxAngularVelocity'' Void [Pointer, Floating 4],
     forwards ''HkRigidBodyCinfo_GetContactPointCallbackDelay'' (Integer 2) [Pointer],
     forwards ''HkRigidBodyCinfo_SetContactPointCallbackDelay'' Void [Pointer, Integer 2],
     forwards ''HkRigidBodyCinfo_GetAllowedPenetrationDepth'' (Floating 4) [Pointer],
     forwards ''HkRigidBodyCinfo_SetAllowedPenetrationDepth'' Void [Pointer, Floating 4],
     forwards ''HkRigidBodyCinfo_GetMotionType'' (Integer 4) [Pointer],
     forwards ''HkRigidBodyCinfo_SetMotionType'' Void [Pointer, Integer 4],
     forwards ''HkRigidBodyCinfo_GetSolverDeactivation'' (Integer 4) [Pointer]]"

definition havok_wrappers_26 :: "wrapper list" where
  "havok_wrappers_26 =
    [forwards ''HkRigidBodyCinfo_SetSolverDeactivation'' Void [Pointer, Integer 4],
     forwards ''HkRigidBodyCinfo_GetQualityType'' (Integer 4) [Pointer],
     forwards ''HkRigidBodyCinfo_SetQualityType'' Void [Pointer, Integer 4],
     forwards ''HkRigidBodyCinfo_GetAutoRemoveLevel'' (Integer 1) [Pointer],
     forwards ''HkRigidBodyCinfo_SetAutoRemoveLevel'' Void [Pointer, Integer 1],
     forwards ''HkRigidBodyCinfo_GetShape'' Pointer [Pointer],
     forwards ''HkRigidBodyCinfo_SetShape'' Void [Pointer, Pointer],
     forwards ''HkRigidBodyCinfo_CalculateBoxInertiaTensor'' Void [Pointer, Struct 12, Floating 4],
     forwards ''HkRigidBodyCinfo_CalculateSphereInertiaTensor'' Void [Pointer, Floating 4, Floating 4],
     forwards ''HkRigidBodyCinfo_SetMassProperties'' Void [Pointer, Struct 84],
     forwards ''HkRigidBodyCinfo_ComputeShapeMass'' Void [Pointer, Pointer, Floating 4],
     forwards ''HkRopeConstraintData_Create'' Pointer [],
     forwards ''HkRopeConstraintData_SetInBodySpaceInternal'' Void [Pointer, Struct 12, Struct 12],
     forwards ''HkRopeConstraintData_Update'' (Floating 4) [Pointer, Pointer],
     forwards ''HkRopeConstraintData_GetStrength'' (Floating 4) [Pointer],
     forwards ''HkRopeConstraintData_SetStrength'' Void [Pointer, Floating 4],
     forwards ''HkRopeConstraintData_GetLinearLimit'' (Floating 4) [Pointer],
     forwards ''HkRopeConstraintData_SetLinearLimit'' Void [Pointer, Floating 4],
     forwards ''HkRopeConstraintData_IsValid'' (Integer 1) [Pointer],
     forwards ''HkShape_GetReferenceCount'' (Integer 4) [Pointer],
     forwards ''HkShape_GetShapeType'' (Integer 4) [Pointer],
     forwards ''HkShape_IsConvex'' (Integer 1) [Pointer],
     forwards ''HkShape_GetConvexRadius'' (Floating 4) [Pointer],
     forwards ''HkShape_SetConvexRadius'' Void [Pointer, Floating 4],
     forwards ''HkShape_GetUserData'' (Integer 8) [Pointer],
     forwards ''HkShape_SetUserData'' Void [Pointer, Integer 8],
     forwards ''HkShape_SetRigidBody'' Void [Pointer, Pointer],
     forwards ''HkShape_IsContainer'' (Integer 1) [Pointer],
     forwards ''HkShape_AddReference'' Void [Pointer],
     forwards ''HkShape_RemoveReference'' Void [Pointer]]"

definition havok_wrappers_27 :: "wrapper list" where
  "havok_wrappers_27 =
    [forwards ''HkShape_DisableRefCount'' Void [Pointer],
     forwards ''HkShape_GetLocalAABB'' Void [Pointer, Floating 4, Pointer, Pointer],
     forwards ''HkShape_CastRayCollectSingleHit'' (Integer 4) [Pointer, Struct 12, Struct 12],
     forwards ''HkShape_LoadShapeFromFile'' Pointer [Pointer],
     forwards ''HkShape_GetContainer'' Pointer [Pointer],
     forwards ''HkShapeBatch_GetCount'' (Integer 4) [Integer 4],
     forwards ''HkShapeBatch_GetInfo'' Void [Integer 4, Integer 4, Pointer],
     forwards ''HkShapeBatch_SetResult'' Void [Integer 4, Integer 4, Pointer],
     forwards ''HkShapeBuffer_Create'' Pointer [],
     forwards ''HkShapeBuffer_Destroy'' Pointer [Pointer],
     forwards ''HkShapeCollection_GetShapeCount'' (Integer 4) [Pointer],
     forwards ''HkShapeCollection_GetShape'' Pointer [Pointer, Integer 4],
     forwards ''HkShapeCollection_GetShapeWithBuffer'' Pointer [Pointer, Integer 4, Pointer],
     forwards ''HkShapeContainer_GetFirstKey'' (Integer 4) [Pointer],
     forwards ''HkShapeContainer_GetNextKey'' (Integer 4) [Pointer, Integer 4],
     forwards ''HkShapeContainer_CurrentValue'' Pointer [Pointer, Integer 4, Pointer],
     forwards ''HkShapeContainer_GetShape'' Pointer [Pointer, Integer 4],
     forwards ''HkShapeContainer_IsShapeKeyValid'' (Integer 1) [Pointer, Integer 4],
     forwards ''HkShapeCutterUtil_Cut'' (Integer 1) [Pointer, Struct 16, Pointer, Pointer],
     forwards ''HkShapeLoader_LoadShapesListFromBuffer'' (Integer 1) [Integer 4, Pointer, Pointer, Pointer, Pointer],
     forwards ''HkShapeLoader_LoadShapesListFromFile'' (Integer 1) [Pointer, Pointer],
     forwards ''HkShapeLoader_SaveShapesListToFile'' (Integer 1) [Pointer, Pointer, Integer 1]]"

definition havok_wrappers_28 :: "wrapper list" where
  "havok_wrappers_28 =
    [forwards ''HkSimpleMeshShape_Create'' Pointer [Integer 4, Pointer, Integer 4, Pointer, Integer 4, Pointer],
     forwards ''HkSimpleShapePhantom_Create'' Pointer [Pointer],
     forwards ''HkSimpleShapePhantom_CreateWithLayer'' Pointer [Pointer, Integer 4],
     forwards ''HkSimpleShapePhantom_GetShape'' Pointer [Pointer],
     forwards ''HkSimpleValueProperty_CreateFloat'' Pointer [Floating 4],
     forwards ''HkSimpleValueProperty_CreateUInt'' Pointer [Integer 4],
     forwards ''HkSimpleValueProperty_CreateInt'' Pointer [Integer 4],
     forwards ''HkSimpleValueProperty_GetValueFloat'' (Floating 4) [Pointer],
     forwards ''HkSimpleValueProperty_SetValueFloat'' Void [Pointer, Floating 4],
     forwards ''HkSimpleValueProperty_GetValueUInt'' (Integer 4) [Pointer],
     forwards ''HkSimpleValueProperty_SetValueUInt'' Void [Pointer, Integer 4],
     forwards ''HkSimpleValueProperty_GetValueInt'' (Integer 4) [Pointer],
     forwards ''HkSimpleValueProperty_SetValueInt'' Void [Pointer, Integer 4],
     forwards ''HkSimulationIsland_GetEntityCount'' (Integer 4) [Pointer],
     forwards ''HkSimulationIsland_GetEntity'' Pointer [Pointer, Integer 4],
     forwards ''HkSimulationIsland_GetBounds'' Void [Pointer, Pointer],
     forwards ''HkSimulationIsland_GetOffsets'' Void [Pointer, Pointer],
     forwards ''HkSmartListShape_Create'' Pointer [Integer 4],
     forwards ''HkSmartListShape_GetShapeCount'' (Integer 4) [Pointer],
     forwards ''HkSmartListShape_AddShape'' Void [Pointer, Pointer],
     forwards ''HkSmartListShape_RemoveShape'' Void [Pointer, Pointer],
     forwards ''HkSmartListShape_Validate'' Void [Pointer],
     forwards ''HkSphereShape_Create'' Pointer [Floating 4],
     forwards ''HkSphereShape_GetRadius'' (Floating 4) [Pointer],
     forwards ''HkSphereShape_SetRadius'' Void [Pointer, Floating 4],
     forwards ''HkStaticCompoundShape_Create'' Pointer [Integer 4],
     forwards ''HkStaticCompoundShape_GetInstanceCount'' (Integer 4) [Pointer],
     forwards ''HkStaticCompoundShape_AddInstance'' (Integer 4) [Pointer, Pointer, Struct 64],
     forwards ''HkStaticCompoundShape_Bake'' Void [Pointer],
     forwards ''HkStaticCompoundShape_ComposeShapeKey'' (Integer 4) [Pointer, Integer 4, Integer 4]]"

definition havok_wrappers_29 :: "wrapper list" where
  "havok_wrappers_29 =
    [forwards ''HkStaticCompoundShape_DecomposeShapeKey'' (Struct 8) [Pointer, Integer 4],
     forwards ''HkStaticCompoundShape_EnableAllShapeKeys'' Void [Pointer],
     forwards ''HkStaticCompoundShape_EnableInstance'' Void [Pointer, Integer 4, Integer 1],
     forwards ''HkStaticCompoundShape_EnableShapeKey'' Void [Pointer, Integer 4, Integer 1],
     forwards ''HkStaticCompoundShape_GetFirstKey'' (Integer 4) [Pointer],
     forwards ''HkStaticCompoundShape_GetInstance'' Pointer [Pointer, Integer 4],
     forwards ''HkStaticCompoundShape_GetInstanceTransform'' (Struct 64) [Pointer, Integer 4],
     forwards ''HkStaticCompoundShape_IsInstanceEnabled'' (Integer 1) [Pointer, Integer 4],
     forwards ''HkStaticCompoundShape_IsShapeKeyEnabled'' (Integer 1) [Pointer, Integer 4]]"

definition havok_wrappers_30 :: "wrapper list" where
  "havok_wrappers_30 =
    [forwards ''HkTaskProfiler_ReleaseResources'' Void [],
     forwards ''HkTaskProfiler_HookJobQueue'' Void [Pointer]]"

definition havok_wrappers_31 :: "wrapper list" where
  "havok_wrappers_31 =
    [forwards ''HkTaskProfiler_Begin1'' Void [],
     forwards ''HkTaskProfiler_Begin2'' Void [],
     forwards ''HkTaskProfiler_Begin3'' Void [],
     forwards ''HkTaskProfiler_Begin4'' Void [],
     forwards ''HkTaskProfiler_Begin5'' Void [],
     forwards ''HkTaskProfiler_End'' Void [],
     forwards ''HkTransformShape_Create'' Pointer [Pointer, Struct 64],
     forwards ''HkTransformShape_CreateWithTranslation'' Pointer [Pointer, Struct 12, Struct 16],
     forwards ''HkTransformShape_GetTransform'' (Struct 64) [Pointer],
     forwards ''HkTransformShape_GetChildShape'' Pointer [Pointer],
     forwards ''HkTriangleShape_GetExtrusion'' (Struct 12) [Pointer],
     forwards ''HkTriangleShape_GetPt2'' (Struct 12) [Pointer],
     forwards ''HkTriangleShape_GetPt1'' (Struct 12) [Pointer],
     forwards ''HkTriangleShape_GetPt0'' (Struct 12) [Pointer],
     forwards ''HkUniformGridShape_Create'' Pointer [Struct 24],
     forwards ''HkUniformGridShape_GetShapeCount'' (Integer 4) [Pointer],
     forwards ''HkUniformGridShape_DiscardLargeData'' Void [Pointer],
     forwards ''HkUniformGridShape_GetHitsAndClear'' (Integer 4) [Pointer],
     forwards ''HkUniformGridShape_GetHitCellsInRange'' (Integer 4) [Pointer, Struct 12, Struct 12, Integer 4,
       Pointer],
     forwards ''HkUniformGridShape_GetMissingCellsInRange'' (Integer 4) [Pointer, Struct 12, Struct 12, Integer 4,
       Pointer],
     forwards ''HkUniformGridShape_InvalidateRange'' (Integer 4) [Pointer, Struct 12, Struct 12, Integer 4, Pointer],
     forwards ''HkUniformGridShape_InvalidateRangeImmediate'' Void [Pointer, Struct 12, Struct 12],
     forwards ''HkUniformGridShape_RemoveChild'' Void [Pointer, Integer 4, Integer 4, Integer 4],
     forwards ''HkUniformGridShape_SetChild'' Void [Pointer, Integer 4, Integer 4, Integer 4, Pointer, Integer 4],
     forwards ''HkUniformGridShape_GetChild'' Pointer [Pointer, Integer 4, Integer 4, Integer 4]]"

definition havok_wrappers_32 :: "wrapper list" where
  "havok_wrappers_32 =
    [forwards ''HkUniformGridShape_RemoveShapeRequestHandler'' Void [Pointer]]"

definition havok_wrappers_33 :: "wrapper list" where
  "havok_wrappers_33 =
    [forwards ''HkUniformGridShape_EnableExtendedCache'' Void [Pointer],
     forwards ''HkUtils_CalculateSeparatingVelocity'' (Floating 4) [Pointer, Pointer, Pointer],
     forwards ''HkUtils_SetSoftContact'' Void [Pointer, Pointer, Floating 4, Floating 4],
     forwards ''HkVDB_SyncTimers'' Void [Pointer],
     forwards ''HkVDB_StepVDB'' Void [Pointer, Floating 4],
     forwards ''HkVDB_Start'' Void [],
     forwards ''HkVDB_ReleaseResources'' Void [],
     forwards ''HkVDB_GetPort'' (Integer 4) [],
     forwards ''HkVDB_SetPort'' Void [Integer 4],
     forwards ''HkVDB_UpdateCamera'' Void [Pointer, Pointer, Pointer],
     forwards ''HkVDB_Capture'' Void [Pointer],
     forwards ''HkVDB_EndCapture'' Void [],
     forwards ''HkVec3IProperty_Create'' Pointer [Struct 12],
     forwards ''HkVec3IProperty_GetValue'' (Struct 12) [Pointer],
     forwards ''HkVec3IProperty_SetValue'' Void [Pointer, Struct 12],
     forwards ''HkVelocityConstraintMotor_Create'' Pointer [Floating 4, Floating 4],
     forwards ''HkVelocityConstraintMotor_GetTau'' (Floating 4) [Pointer],
     forwards ''HkVelocityConstraintMotor_SetTau'' Void [Pointer, Floating 4],
     forwards ''HkVelocityConstraintMotor_GetVelocityTarget'' (Floating 4) [Pointer],
     forwards ''HkVelocityConstraintMotor_SetVelocityTarget'' Void [Pointer, Floating 4],
     forwards ''HkVelocityConstraintMotor_GetConstantRecoveryVelocity'' (Integer 1) [Pointer],
     forwards ''HkVelocityConstraintMotor_SetConstantRecoveryVelocity'' Void [Pointer, Integer 1],
     forwards ''HkWheelConstraintData_Create'' Pointer [],
     forwards ''HkWheelConstraintData_SetInWorldSpace'' Void [Pointer, Struct 64, Struct 64, Struct 12, Struct 12,
       Struct 12, Struct 12],
     forwards ''HkWheelConstraintData_SetInBodySpaceInternal'' Void [Pointer, Struct 12, Struct 12, Struct 12,
       Struct 12, Struct 12, Struct 12],
     forwards ''HkWheelConstraintData_SetSuspensionMinLimit'' Void [Pointer, Floating 4],
     forwards ''HkWheelConstraintData_SetSuspensionMaxLimit'' Void [Pointer, Floating 4],
     forwards ''HkWheelConstraintData_SetSuspensionStrength'' Void [Pointer, Floating 4],
     forwards ''HkWheelConstraintData_SetSuspensionDamping'' Void [Pointer, Floating 4],
     forwards ''HkWheelConstraintData_SetSteeringAngle'' Void [Pointer, Floating 4]]"

definition havok_wrappers_34 :: "wrapper list" where
  "havok_wrappers_34 =
    [forwards ''HkWheelResponseModifierUtil_Release'' Void [Pointer]]"

definition havok_wrappers_35 :: "wrapper list" where
  "havok_wrappers_35 =
    [forwards ''HkWorld_CreateBodyPairCollection'' Pointer [],
     forwards ''HkWorld_RegisterWithJobQueue'' Void [Pointer, Pointer],
     forwards ''HkWorld_Lock'' Void [Pointer],
     forwards ''HkWorld_Unlock'' Void [Pointer],
     forwards ''HkWorld_LockCriticalOperations'' Void [Pointer],
     forwards ''HkWorld_UnlockCriticalOperations'' Void [Pointer],
     forwards ''HkWorld_ExecutePendingCriticalOperations'' Void [Pointer],
     forwards ''HkWorld_StepDeltaTime'' Void [Pointer, Floating 4],
     forwards ''HkWorld_StepMultiThreaded'' Void [Pointer, Pointer, Pointer, Floating 4],
     forwards ''HkWorld_InitMtStep'' (Integer 1) [Pointer, Pointer, Floating 4],
     forwards ''HkWorld_FinishMtStep'' (Integer 1) [Pointer, Pointer, Pointer],
     forwards ''HkWorld_ExecuteViolatedConstraintProjections'' Void [Pointer, Pointer, Integer 1],
     forwards ''HkWorld_ReportRuntimeDataConstraints'' Void [Pointer],
     forwards ''HkWorld_AddConstraint'' Void [Pointer, Pointer],
     forwards ''HkWorld_RemoveConstraint'' Void [Pointer, Pointer],
     forwards ''HkWorld_AddEntity'' Void [Pointer, Pointer],
     forwards ''HkWorld_RemoveEntity'' Void [Pointer, Pointer],
     forwards ''HkWorld_AddPhantom'' Void [Pointer, Pointer],
     forwards ''HkWorld_RemovePhantom'' Void [Pointer, Pointer],
     forwards ''HkWorld_AddPhysicsSystem'' Void [Pointer, Pointer],
     forwards ''HkWorld_RemovePhysicsSystem'' Void [Pointer, Pointer],
     forwards ''HkWorld_GetPenetrationsShape'' Void [Pointer, Pointer, Pointer, Struct 12, Struct 16, Integer 4,
       Pointer],
     forwards ''HkWorld_GetPenetrationsBox'' Void [Pointer, Pointer, Struct 12, Struct 12, Struct 16, Integer 4,
       Pointer],
     forwards ''HkWorld_GetPenetrationsShapeShape'' Void [Pointer, Pointer, Pointer, Struct 12, Struct 16, Pointer,
       Struct 12, Struct 16, Pointer],
     forwards ''HkWorld_IsPenetratingShapeShape'' (Integer 1) [Pointer, Pointer, Struct 12, Struct 16, Pointer,
       Struct 12, Struct 16],
     forwards ''HkWorld_IsPenetratingShapeShapeTransform'' (Integer 1) [Pointer, Pointer, Struct 64, Pointer,
       Struct 64],
     forwards ''HkWorld_CastShape'' (Integer 1) [Pointer, Struct 12, Pointer, Struct 64, Integer 4, Floating 4,
       Pointer],
     forwards ''HkWorld_CastShapeReturnPoint'' (Integer 1) [Pointer, Struct 12, Pointer, Struct 64, Integer 4,
       Floating 4, Pointer],
     forwards ''HkWorld_CastShapeReturnContact'' (Integer 1) [Pointer, Struct 12, Pointer, Struct 64, Integer 4,
       Floating 4, Pointer],
     forwards ''HkWorld_CastShapeReturnContactData'' (Integer 1) [Pointer, Struct 12, Pointer, Struct 64, Integer 4,
       Floating 4, Pointer, Pointer, Pointer]]"

definition havok_wrappers_36 :: "wrapper list" where
  "havok_wrappers_36 =
    [forwards ''HkWorld_CastShapeReturnContactBodyData'' (Integer 1) [Pointer, Struct 12, Pointer, Struct 64,
       Integer 4, Floating 4, Pointer],
     forwards ''HkWorld_CastShapeReturnContactBodyDatas'' (Integer 1) [Pointer, Struct 12, Pointer, Struct 64,
       Integer 4, Floating 4, Pointer],
     forwards ''HkWorld_CastRayAll'' Void [Pointer, Struct 12, Struct 12, Integer 4, Pointer],
     forwards ''HkWorld_CastRayCollisionFilter'' (Integer 1) [Pointer, Struct 12, Struct 12, Integer 4, Integer 1,
       Pointer, Pointer],
     forwards ''HkWorld_CastRayFilterLayer'' (Integer 1) [Pointer, Struct 12, Struct 12, Integer 4, Integer 1,
       Pointer],
     forwards ''HkWorld_MarkForWrite'' Void [Pointer],
     forwards ''HkWorld_UnmarkForWrite'' Void [Pointer],
     forwards ''HkWorld_RefreshCollisionFilterOnEntity'' Void [Pointer, Pointer],
     forwards ''HkWorld_RefreshCollisionFilterOnWorld'' Void [Pointer],
     forwards ''HkWorld_ReintegrateEntity'' Void [Pointer, Pointer],
     forwards ''HkWorld_AddAction'' Void [Pointer, Pointer],
     forwards ''HkWorld_RemoveAction'' Void [Pointer, Pointer],
     forwards ''HkWorld_EnsureBatchSizes'' Pointer [Pointer, Pointer, Integer 4, Integer 4],
     forwards ''HkWorld_SetBatchBody'' Void [Pointer, Integer 4, Pointer],
     forwards ''HkWorld_AddEntityBatch'' Void [Pointer, Pointer, Integer 4],
     forwards ''HkWorld_RemoveEntityBatch'' Void [Pointer, Pointer, Integer 4],
     forwards ''HkWorld_GetActiveSimulationIslandsCount'' (Integer 4) [Pointer],
     forwards ''HkWorld_GetActiveSimulationIslandEntities'' (Integer 4) [Pointer, Integer 4, Pointer],
     forwards ''HkWorld_DeactivateSimulationIslandRigidBodies'' Void [Pointer, Pointer],
     forwards ''HkWorld_IsActiveSimulationIsland'' (Integer 1) [Pointer, Pointer],
     forwards ''HkWorld_GetConstraintCount'' (Integer 4) [Pointer],
     forwards ''HkWorld_GetActionCount'' (Integer 4) [Pointer],
     forwards ''HkWorld_GetFixedBody'' Pointer [Pointer],
     forwards ''HkWorld_ReadSimulationIslandInfos'' Void [Pointer, Pointer],
     forwards ''HkWorld_GetGravity'' (Struct 12) [Pointer],
     forwards ''HkWorld_SetGravity'' Void [Pointer, Struct 12],
     forwards ''HkWorld_GetDeactivationRotationSqrdA'' (Floating 4) [Pointer],
     forwards ''HkWorld_SetDeactivationRotationSqrdA'' Void [Pointer, Floating 4],
     forwards ''HkWorld_GetDeactivationRotationSqrdB'' (Floating 4) [Pointer],
     forwards ''HkWorld_SetDeactivationRotationSqrdB'' Void [Pointer, Floating 4]]"

definition havok_wrappers_37 :: "wrapper list" where
  "havok_wrappers_37 =
    [forwards ''HkWorld_AddWorldExtension'' Void [Pointer, Pointer],
     forwards ''HkWorld_Release'' Void [Pointer, Pointer, Pointer, Pointer, Pointer],
     forwards ''HkPhysicsContext_Create'' Pointer [],
     forwards ''HkPhysicsContext_RegisterAllPhysicsProcesses'' Void [],
     forwards ''HkPhysicsContext_AddWorld'' Void [Pointer, Pointer],
     forwards ''HkPhysicsContext_RemoveWorld'' Void [Pointer, Pointer],
     forwards ''HkPhysicsContext_GetNumWorlds'' (Integer 4) [Pointer],
     forwards ''HkPhysicsContext_SyncTimers'' Void [Pointer, Pointer],
     forwards ''HkPhysicsContext_Release'' Void [Pointer],
     forwards ''HkGroupFilter_Create'' Pointer [Pointer],
     forwards ''HkGroupFilter_IsCollisionEnabled'' (Integer 1) [Pointer, Integer 4, Integer 4]]"

definition havok_wrappers_38 :: "wrapper list" where
  "havok_wrappers_38 =
    [forwards ''HkpAabbPhantom_GetAabb'' Void [Pointer, Pointer, Pointer],
     forwards ''HkpAabbPhantom_SetAabb'' Void [Pointer, Struct 12, Struct 12],
     forwards ''HkpAabbPhantom_Release'' Void [Pointer],
     forwards ''HkpCollidableAddedEvent_GetRigidBody'' Pointer [Pointer],
     forwards ''HkpCollidableRemovedEvent_GetRigidBody'' Pointer [Pointer],
     forwards ''HkSimpleShapePhantom_SetTransform'' Void [Pointer, Struct 64],
     forwards ''HkIntermediateBuffer_ReleaseUnmanaged'' Void [Pointer]]"

definition havok_wrappers :: "wrapper list" where
  "havok_wrappers =
    havok_wrappers_1 @ havok_wrappers_2 @ havok_wrappers_3 @ havok_wrappers_4 @ havok_wrappers_5 @
       havok_wrappers_6 @ havok_wrappers_7 @ havok_wrappers_8 @ havok_wrappers_9 @ havok_wrappers_10 @
       havok_wrappers_11 @ havok_wrappers_12 @ havok_wrappers_13 @ havok_wrappers_14 @ havok_wrappers_15 @
       havok_wrappers_16 @ havok_wrappers_17 @ havok_wrappers_18 @ havok_wrappers_19 @ havok_wrappers_20 @
       havok_wrappers_21 @ havok_wrappers_22 @ havok_wrappers_23 @ havok_wrappers_24 @ havok_wrappers_25 @
       havok_wrappers_26 @ havok_wrappers_27 @ havok_wrappers_28 @ havok_wrappers_29 @ havok_wrappers_30 @
       havok_wrappers_31 @ havok_wrappers_32 @ havok_wrappers_33 @ havok_wrappers_34 @ havok_wrappers_35 @
       havok_wrappers_36 @ havok_wrappers_37 @ havok_wrappers_38"


definition havok_pointers_1 :: "string list" where
  "havok_pointers_1 =
    [''HkActivationListener_Create'',
     ''HkBallAndSocketConstraintData_Create'',
     ''HkBallAndSocketConstraintData_SetInBodySpaceInternal'',
     ''HkBaseSystem_Init'',
     ''HkBaseSystem_Quit'',
     ''HkBaseSystem_InitThread'',
     ''HkBaseSystem_QuitThread'',
     ''HkBaseSystem_GetVersionInfo'',
     ''HkBaseSystem_GetMemoryStatistics'',
     ''HkBaseSystem_EnableAssert'',
     ''HkBaseSystem_IsEnabled'',
     ''HkBaseSystem_IsDestructionEnabled'',
     ''HkBaseSystem_OnSimulationFrameStarted'',
     ''HkBaseSystem_OnSimulationFrameFinished'',
     ''HkBaseSystem_GetKeyCodes'',
     ''HkBaseSystem_IsOutOfMemory'',
     ''HkBaseSystem_GetCurrentMemoryConsumption'',
     ''HkBoxShape_Create'',
     ''HkBoxShape_CreateWithConvexRadius'',
     ''HkBoxShape_GetShapeFromCompoundShape'',
     ''HkBoxShape_GetHalfExtents'',
     ''HkBoxShape_SetHalfExtents'',
     ''HkBreakOffPartsUtil_Create'',
     ''HkBreakOffPartsUtil_Release'',
     ''HkBreakOffPartsUtil_RemoveKeysFromListShape'',
     ''HkBreakOffPartsUtil_MarkEntityBreakable'',
     ''HkBreakOffPartsUtil_MarkPieceBreakable'',
     ''HkBreakOffPartsUtil_SetMaxConstraintImpulse'',
     ''HkBreakOffPartsUtil_UnmarkEntityBreakable'',
     ''HkBreakOffPartsUtil_UnmarkPieceBreakable'',
     ''HkBreakOffPoints_Count'',
     ''HkBreakOffPoints_Get'',
     ''HkBreakableConstraintData_Create'',
     ''HkBreakableConstraintData_GetThreshold'',
     ''HkBreakableConstraintData_SetThreshold'',
     ''HkBreakableConstraintData_GetRemoveFromWorldOnBrake'',
     ''HkBreakableConstraintData_SetRemoveFromWorldOnBrake'',
     ''HkBreakableConstraintData_GetReapplyVelocityOnBreak'',
     ''HkBreakableConstraintData_SetReapplyVelocityOnBreak'',
     ''HkBreakableConstraintData_GetIsBroken'',
     ''HkBvCompressedMeshShape_CreateWithSimpleMesh'',
     ''HkBvCompressedMeshShape_CreateWithParams'',
     ''HkBvCompressedMeshShape_CreateUnsafe'',
     ''HkBvCompressedMeshShape_GetGeometry'',
     ''HkBvCompressedMeshShape_GetUserData'',
     ''HkBvShape_Create'',
     ''HkBvShape_GetChildShape'',
     ''HkBvShape_GetBoundingVolumeShape'',
     ''HkCapsuleShape_Create'',
     ''HkCapsuleShape_GetRadius'',
     ''HkCapsuleShape_GetVertexB'',
     ''HkCapsuleShape_GetVertexA'',
     ''HkCapsuleShape_GetCentre'',
     ''HkCharacterProxy_Create'',
     ''HkCharacterProxy_GetPosition'',
     ''HkCharacterProxy_SetPosition'',
     ''HkCharacterProxy_GetState'',
     ''HkCharacterProxy_SetState'',
     ''HkCharacterProxy_StepSimulation'',
     ''HkCharacterProxy_GetLinearVelocity'',
     ''HkCharacterProxy_SetLinearVelocity'',
     ''HkCharacterProxy_SetUp'',
     ''HkCharacterProxyCinfo_Create'',
     ''HkCharacterProxyCinfo_GetPosition'',
     ''HkCharacterProxyCinfo_SetPosition'',
     ''HkCharacterProxyCinfo_GetVelocity'',
     ''HkCharacterProxyCinfo_SetVelocity'',
     ''HkCharacterProxyCinfo_GetDynamicFriction'',
     ''HkCharacterProxyCinfo_SetDynamicFriction'',
     ''HkCharacterProxyCinfo_GetStaticFriction'',
     ''HkCharacterProxyCinfo_SetStaticFriction'',
     ''HkCharacterProxyCinfo_GetKeepContactTolerance'',
     ''HkCharacterProxyCinfo_SetKeepContactTolerance'',
     ''HkCharacterProxyCinfo_GetUp'',
     ''HkCharacterProxyCinfo_SetUp'',
     ''HkCharacterProxyCinfo_GetExtraUpStaticFriction'',
     ''HkCharacterProxyCinfo_SetExtraUpStaticFriction'',
     ''HkCharacterProxyCinfo_GetExtraDownStaticFriction'',
     ''HkCharacterProxyCinfo_SetExtraDownStaticFriction'',
     ''HkCharacterProxyCinfo_SetShapePhantom'',
     ''HkCharacterProxyCinfo_GetShapePhantom'',
     ''HkCharacterProxyCinfo_GetKeepDistance'',
     ''HkCharacterProxyCinfo_SetKeepDistance'',
     ''HkCharacterProxyCinfo_GetContactAngleSensitivity'',
     ''HkCharacterProxyCinfo_SetContactAngleSensitivity'',
     ''HkCharacterProxyCinfo_GetUserPlanes'',
     ''HkCharacterProxyCinfo_SetUserPlanes'',
     ''HkCharacterProxyCinfo_GetMaxCharacterSpeedForSolver'',
     ''HkCharacterProxyCinfo_SetMaxCharacterSpeedForSolver'',
     ''HkCharacterProxyCinfo_GetCharacterStrength'',
     ''HkCharacterProxyCinfo_SetCharacterStrength'',
     ''HkCharacterProxyCinfo_GetCharacterMass'',
     ''HkCharacterProxyCinfo_SetCharacterMass'',
     ''HkCharacterProxyCinfo_GetMaxSlope'',
     ''HkCharacterProxyCinfo_SetMaxSlope'',
     ''HkCharacterProxyCinfo_GetPenetrationRecoverySpeed'',
     ''HkCharacterProxyCinfo_SetPenetrationRecoverySpeed'',
     ''HkCharacterProxyCinfo_GetMaxCastIterations'',
     ''HkCharacterProxyCinfo_SetMaxCastIterations'',
     ''HkCharacterProxyCinfo_GetRefreshManifoldInCheckSupport'',
     ''HkCharacterProxyCinfo_SetRefreshManifoldInCheckSupport'',
     ''HkCharacterRigidBody_Create'',
     ''HkCharacterRigidBody_GetCharacterRigidbody'',
     ''HkCharacterRigidBody_SetWalkingState'',
     ''HkCharacterRigidBody_SetFlyingState'',
     ''HkCharacterRigidBody_SetLadderState'',
     ''HkCharacterRigidBody_SetDefaultShape'',
     ''HkCharacterRigidBody_SetShapeForCrouch'',
     ''HkCharacterRigidBody_GetPosition'',
     ''HkCharacterRigidBody_SetPosition'',
     ''HkCharacterRigidBody_GetState'',
     ''HkCharacterRigidBody_SetState'',
     ''HkCharacterRigidBody_StepSimulation'',
     ''HkCharacterRigidBody_UpdateVelocity'',
     ''HkCharacterRigidBody_UpdateSupport'',
     ''HkCharacterRigidBody_SetRigidBodyTransform'',
     ''HkCharacterRigidBody_GetRigidBodyTransform'',
     ''HkCharacterRigidBody_GetLinearVelocity'',
     ''HkCharacterRigidBody_SetLinearVelocity'',
     ''HkCharacterRigidBody_ApplyLinearImpulse'',
     ''HkCharacterRigidBody_ApplyAngularImpulse'',
     ''HkCharacterRigidBody_SetSupportDistance'',
     ''HkCharacterRigidBody_SetHardSupportDistance'',
     ''HkCharacterRigidBody_GetAngularVelocity'',
     ''HkCharacterRigidBody_SetAngularVelocity'',
     ''HkCharacterRigidBody_IsSupportedByFloatingObject'',
     ''HkCharacterRigidBody_IsSupported'',
     ''HkCharacterRigidBody_GetSupportNormal'',
     ''HkCharacterRigidBody_GetGroundVelocity'',
     ''HkCharacterRigidBody_GetUseSupportInfoQuery'',
     ''HkCharacterRigidBody_SetUseSupportInfoQuery'',
     ''HkCharacterRigidBody_SetPreviousSupportedState'',
     ''HkCharacterRigidBody_ResetSurfaceVelocity'',
     ''HkCharacterRigidBody_SetMaxSlope'',
     ''HkCharacterRigidBody_GetMaxSlope'',
     ''HkCharacterRigidBody_GetSupportBodies'',
     ''HkCharacterRigidBodyCinfo_Create'',
     ''HkCharacterRigidBodyCinfo_GetCollisionFilterInfo'',
     ''HkCharacterRigidBodyCinfo_SetCollisionFilterInfo'',
     ''HkCharacterRigidBodyCinfo_GetShape'',
     ''HkCharacterRigidBodyCinfo_SetShape'',
     ''HkCharacterRigidBodyCinfo_GetPosition'',
     ''HkCharacterRigidBodyCinfo_SetPosition'',
     ''HkCharacterRigidBodyCinfo_GetRotation'',
     ''HkCharacterRigidBodyCinfo_SetRotation'',
     ''HkCharacterRigidBodyCinfo_GetMass'',
     ''HkCharacterRigidBodyCinfo_SetMass'',
     ''HkCharacterRigidBodyCinfo_GetFriction'']"

definition havok_pointers_2 :: "string list" where
  "havok_pointers_2 =
    [''HkCharacterRigidBodyCinfo_SetFriction'',
     ''HkCharacterRigidBodyCinfo_GetMaxLinearVelocity'',
     ''HkCharacterRigidBodyCinfo_SetMaxLinearVelocity'',
     ''HkCharacterRigidBodyCinfo_GetAllowedPenetrationDepth'',
     ''HkCharacterRigidBodyCinfo_SetAllowedPenetrationDepth'',
     ''HkCharacterRigidBodyCinfo_GetUp'',
     ''HkCharacterRigidBodyCinfo_SetUp'',
     ''HkCharacterRigidBodyCinfo_GetMaxSlope'',
     ''HkCharacterRigidBodyCinfo_SetMaxSlope'',
     ''HkCharacterRigidBodyCinfo_GetMaxForce'',
     ''HkCharacterRigidBodyCinfo_SetMaxForce'',
     ''HkCharacterRigidBodyCinfo_GetUnweldingHeightOffsetFactor'',
     ''HkCharacterRigidBodyCinfo_SetUnweldingHeightOffsetFactor'',
     ''HkCharacterRigidBodyCinfo_GetMaxSpeedForSimplexSolver'',
     ''HkCharacterRigidBodyCinfo_SetMaxSpeedForSimplexSolver'',
     ''HkCharacterRigidBodyCinfo_GetSupportDistance'',
     ''HkCharacterRigidBodyCinfo_SetSupportDistance'',
     ''HkCharacterRigidBodyCinfo_GetHardSupportDistance'',
     ''HkCharacterRigidBodyCinfo_SetHardSupportDistance'',
     ''HkCogWheelConstraintData_Create'',
     ''HkCogWheelConstraintData_SetInWorldSpace'',
     ''HkCogWheelConstraintData_SetInBodySpaceInternal'',
     ''HkCollisionEvent_GetSource'',
     ''HkCollisionEvent_GetRigidBody'',
     ''HkCollisionEvent_GetBodyA'',
     ''HkCollisionEvent_GetBodyB'',
     ''HkCollisionEvent_SetImpulse'',
     ''HkCollisionEvent_SetImpulseScaling'',
     ''HkCollisionEvent_GetContactPointCount'',
     ''HkCollisionEvent_Disable'',
     ''HkCollisionEvent_GetContactPointPropertiesAt'',
     ''HkCollisionEvent_GetOffsets'',
     ''HkConstraint_Create'',
     ''HkConstraint_AddConstraintListener'',
     ''HkConstraint_RemoveConstraintListener'',
     ''HkConstraint_ReplaceEntity'',
     ''HkConstraint_SetVirtualMassInverse'',
     ''HkConstraint_GetPriority'',
     ''HkConstraint_SetPriority'',
     ''HkConstraint_GetWantRuntime'',
     ''HkConstraint_SetWantRuntime'',
     ''HkConstraint_IsInWorld'',
     ''HkConstraint_GetRigidBodyA'',
     ''HkConstraint_GetRigidBodyB'',
     ''HkConstraint_GetEnabled'',
     ''HkConstraint_SetEnabled'',
     ''HkConstraint_GetPivotsInWorld'',
     ''HkConstraint_GetUserData'',
     ''HkConstraint_SetUserData'',
     ''HkConstraint_AddCenterOfMassModifierAtom'',
     ''HkConstraint_FindConnectedConstraints'',
     ''HkConstraintData_GetMaximumLinearImpulse'',
     ''HkConstraintData_SetMaximumLinearImpulse'',
     ''HkConstraintData_GetMaximumAngularImpulse'',
     ''HkConstraintData_SetMaximumAngularImpulse'',
     ''HkConstraintData_GetBreachImpulse'',
     ''HkConstraintData_SetBreachImpulse'',
     ''HkConstraintData_GetInertiaStabilizationFactor'',
     ''HkConstraintData_SetInertiaStabilizationFactor'',
     ''HkConstraintData_SetSolvingMethod'',
     ''HkConstraintListener_Create'',
     ''HkConstraintListener_Release'',
     ''HkConstraintListener_SetCallbacks'',
     ''HkConstraintProjectorListener_Create'',
     ''HkConstraintProjectorListener_Release'',
     ''HkConstraintStabilizationUtil_StabilizeRagdollInertias'',
     ''HkContactListener_Create'',
     ''HkContactListener_SetCallbackLimit'',
     ''HkContactListener_ResetLimit'',
     ''HkContactPoint_GetPosition'',
     ''HkContactPoint_SetPosition'',
     ''HkContactPoint_GetNormalAndDistance'',
     ''HkContactPoint_SetNormalAndDistance'',
     ''HkContactPoint_GetNormal'',
     ''HkContactPoint_SetNormal'',
     ''HkContactPoint_GetDistance'',
     ''HkContactPoint_SetDistance'',
     ''HkContactPoint_Flip'',
     ''HkContactPointEvent_GetBase'',
     ''HkContactPointEvent_IsToi'',
     ''HkContactPointEvent_GetSeparatingVelocity'',
     ''HkContactPointEvent_SetSeparatingVelocity'',
     ''HkContactPointEvent_GetRotateNormal'',
     ''HkContactPointEvent_SetRotateNormal'',
     ''HkContactPointEvent_GetEventType'',
     ''HkContactPointEvent_GetContactPoint'',
     ''HkContactPointEvent_GetContactProperties'',
     ''HkContactPointEvent_GetFiringCallbacksForFullManifold'',
     ''HkContactPointEvent_GetFirstCallbackForFullManifold'',
     ''HkContactPointEvent_GetLastCallbackForFullManifold'',
     ''HkContactPointEvent_GetContactPointId'',
     ''HkContactPointEvent_AccessVelocities'',
     ''HkContactPointEvent_UpdateVelocities'',
     ''HkContactPointEvent_GetShapeKey'',
     ''HkContactPointEvent_GetShapeKeyWithShapeID'',
     ''HkContactPointEvent_GetFieldOffsets'',
     ''HkContactPointProperties_GetImpulseApplied'',
     ''HkContactPointProperties_GetInternalSolverData'',
     ''HkContactPointProperties_WasUsed'',
     ''HkContactPointProperties_GetFriction'',
     ''HkContactPointProperties_SetFriction'',
     ''HkContactPointProperties_GetRestitution'',
     ''HkContactPointProperties_SetRestitution'',
     ''HkContactPointProperties_IsPotential'',
     ''HkContactPointProperties_GetMaxImpulsePerStep'',
     ''HkContactPointProperties_SetMaxImpulsePerStep'',
     ''HkContactPointProperties_GetMaxImpulse'',
     ''HkContactPointProperties_SetMaxImpulse'',
     ''HkContactPointProperties_GetIsDisabled'',
     ''HkContactPointProperties_SetIsDisabled'',
     ''HkContactPointProperties_GetIsNew'',
     ''HkContactPointProperties_SetIsNew'',
     ''HkContactPointProperties_GetUserData'',
     ''HkContactPointProperties_SetUserData'',
     ''HkContactPointProperties_GetFieldOffsets'',
     ''HkContactSoundListener_Create'',
     ''HkConvexShape_GetConvexShapeFromCompoundShape'',
     ''HkConvexShape_GetConvexRadius'',
     ''HkConvexShape_SetConvexRadius'',
     ''HkConvexShape_GetDefaultConvexRadius'',
     ''HkConvexTransformShape_Create'',
     ''HkConvexTransformShape_CreateTranslated'',
     ''HkConvexTransformShape_GetChildShape'',
     ''HkConvexTransformShape_GetTransform'',
     ''HkConvexTranslateShape_CreateWithChild'',
     ''HkConvexTranslateShape_GetChildShape'',
     ''HkConvexTranslateShape_GetTranslation'',
     ''HkConvexVerticesShape_Create'',
     ''HkConvexVerticesShape_CreateWithRadius'',
     ''HkConvexVerticesShape_GetCenter'',
     ''HkConvexVerticesShape_GetVertexCount'',
     ''HkConvexVerticesShape_GetFaceCount'',
     ''HkConvexVerticesShape_GetFaces'',
     ''HkConvexVerticesShape_GetVertices'',
     ''HkConvexVerticesShape_GetGeometry'',
     ''HkCustomWheelConstraintData_Create'',
     ''HkCustomWheelConstraintData_GetLimitsEnabled'',
     ''HkCustomWheelConstraintData_SetLimitsEnabled'',
     ''HkCustomWheelConstraintData_GetSuspensionMinLimit'',
     ''HkCustomWheelConstraintData_SetSuspensionMinLimit'',
     ''HkCustomWheelConstraintData_GetSuspensionMaxLimit'',
     ''HkCustomWheelConstraintData_SetSuspensionMaxLimit'',
     ''HkCustomWheelConstraintData_GetFrictionEnabled'',
     ''HkCustomWheelConstraintData_SetFrictionEnabled'',
     ''HkCustomWheelConstraintData_GetMaxFrictionTorque'',
     ''HkCustomWheelConstraintData_SetMaxFrictionTorque'',
     ''HkCustomWheelConstraintData_SetInBodySpaceInternal'',
     ''HkCustomWheelConstraintData_SetSuspensionStrength'']"

definition havok_pointers_3 :: "string list" where
  "havok_pointers_3 =
    [''HkCustomWheelConstraintData_SetSuspensionDamping'',
     ''HkCustomWheelConstraintData_SetSteeringAngle'',
     ''HkCustomWheelConstraintData_SetAngleLimits'',
     ''HkCustomWheelConstraintData_GetAngleLimitsMin'',
     ''HkCustomWheelConstraintData_GetAngleLimitsMax'',
     ''HkCustomWheelConstraintData_DisableLimits'',
     ''HkCustomWheelConstraintData_GetCurrentAngle'',
     ''HkCustomWheelConstraintData_SetCurrentAngle'',
     ''HkCylinderShape_Create'',
     ''HkCylinderShape_CreateWithConvexRadius'',
     ''HkCylinderShape_GetVertexB'',
     ''HkCylinderShape_GetVertexA'',
     ''HkCylinderShape_SetVertexB'',
     ''HkCylinderShape_SetVertexA'',
     ''HkCylinderShape_GetRadius'',
     ''HkCylinderShape_SetRadius'',
     ''HkCylinderShape_SetNumberOfVirtualSideSegments'',
     ''HkEasePenetrationAction_Create'',
     ''HkEasePenetrationAction_GetInitialAdditionalAllowedPenetrationDepth'',
     ''HkEasePenetrationAction_SetInitialAdditionalAllowedPenetrationDepth'',
     ''HkEasePenetrationAction_GetInitialAllowedPenetrationDepthMultiplier'',
     ''HkEasePenetrationAction_SetInitialAllowedPenetrationDepthMultiplier'',
     ''HkEntity_AddActivationListener'',
     ''HkEntity_RemoveActivationListener'',
     ''HKEntity_AddEntityListener'',
     ''HKEntity_RemoveEntityListener'',
     ''HkEntity_SetContactListener'',
     ''HkEntity_GetQuality'',
     ''HkEntity_SetQuality'',
     ''HkEntity_IsFixed'',
     ''HkEntity_IsFixedOrKeyframed'',
     ''HkRigidBody_GetMotionType'',
     ''HkEntity_GetContactPointCallbackDelay'',
     ''HkEntity_SetContactPointCallbackDelay'',
     ''HkEntity_SetProperty'',
     ''HkEntity_HasProperty'',
     ''HkEntity_RemoveProperty'',
     ''HkRigidBody_GetRotation'',
     ''HkRigidBody_SetRotation'',
     ''HkRigidBody_GetPosition'',
     ''HkRigidBody_SetPosition'',
     ''HkRigidBody_Activate'',
     ''HkRigidBody_ActivateAsCriticalOperation'',
     ''HkRigidBody_Deactivate'',
     ''HkRigidBody_UpdateMotionType'',
     ''HkRigidBody_GetIsActive'',
     ''HkRigidBody_RequestDeactivation'',
     ''HkRigidBody_GetLinearVelocity'',
     ''HkRigidBody_SetLinearVelocity'',
     ''HkRigidBody_GetAngularVelocity'',
     ''HkRigidBody_SetAngularVelocity'',
     ''HkEntity_GetFieldOffsets'',
     ''HkEntityListener_Create'',
     ''HkEntityListener_Release'',
     ''HkFixedConstraintData_Create'',
     ''HkFixedConstraintData_SetInBodySpaceInternal'',
     ''HkFixedConstraintData_SetInWorldSpace'',
     ''HkFixedConstraintData_IsValid'',
     ''HkFixedConstraintData_SetInertiaStabilizationFactor'',
     ''HkFixedConstraintData_GetInertiaStabilizationFactor'',
     ''HkFixedConstraintData_GetSolverImpulseInLastStep'',
     ''HkGeometry_Create'',
     ''HkGeometry_CreateWithParams'',
     ''HkGeometry_Destroy'',
     ''HkGeometry_GetTriangleCount'',
     ''HkGeometry_GetVertexCount'',
     ''HkGeometry_Append'',
     ''HkGeometry_GetTriangle'',
     ''HkGeometry_GetVertex'',
     ''HkGeometry_SetGeometry'',
     ''HkGridShape_Create'',
     ''HkGridShape_GetCellSize'',
     ''HkGridShape_GetShapeCount'',
     ''HkGridShape_SetDebugRigidBody'',
     ''HkGridShape_GetDebugRigidBody'',
     ''HkGridShape_SetDebugDraw'',
     ''HkGridShape_GetDebugDraw'',
     ''HkGridShape_AddShapes'',
     ''HkGridShape_Contains'',
     ''HkGridShape_GetShape'',
     ''HkGridShape_GetShapeInfo'',
     ''HkGridShape_GetShapeInfoCount'',
     ''HkGridShape_GetShapeMin'',
     ''HkGridShape_GetShapesInInterval'',
     ''HkGridShape_GetChildBounds'',
     ''HkGridShape_RemoveShapes'',
     ''HkGridShape_GetCellRanges'',
     ''HkGroupFilter_CalcFilterInfo'',
     ''HkGroupFilter_GetLayerFromFilterInfo'',
     ''HkGroupFilter_getSubSystemDontCollideWithFromFilterInfo'',
     ''HkGroupFilter_GetSubSystemIdFromFilterInfo'',
     ''HkGroupFilter_GetSystemGroupFromFilterInfo'',
     ''HkGroupFilter_SetLayer'',
     ''HkGroupFilter_DisableCollisionsBetween'',
     ''HkGroupFilter_DisableCollisionsUsingBitfield'',
     ''HkGroupFilter_EnableCollisionsBetween'',
     ''HkGroupFilter_EnableCollisionsUsingBitfield'',
     ''HkGroupFilter_GetNewSystemGroup'',
     ''HkGlobal_ReleasePtr'',
     ''HkGlobal_ReleaseString'',
     ''HkGlobal_ReleaseArrayPtr'',
     ''HkHingeConstraintData_Create'',
     ''HkHingeConstraintData_SetInBodySpaceInternal'',
     ''HkHingeConstraintData_SetInWorldSpace'',
     ''HkHingeConstraintData_SetInertiaStabilizationFactor'',
     ''HkHingeConstraintData_GetInertiaStabilizationFactor'',
     ''HkInertiaTensorComputer_Create'',
     ''HkInertiaTensorComputer_CombineMassPropertiesInstance'',
     ''HkInertiaTensorComputer_Release'',
     ''HkInertiaTensorComputer_ComputeBoxVolumeMassProperties'',
     ''HkInertiaTensorComputer_ComputeCapsuleVolumeMassProperties'',
     ''HkInertiaTensorComputer_ComputeCylinderVolumeMassProperties'',
     ''HkInertiaTensorComputer_ComputeSphereVolumeMassProperties'',
     ''HkJobQueue_Create'',
     ''HkJobQueue_CreateWithNumThreads'',
     ''HkJobQueue_Release'',
     ''HkJobQueue_GetWaitPolicy'',
     ''HkJobQueue_SetWaitPolicy'',
     ''HkJobQueue_GetMasterThreadFinishingFlags'',
     ''HkJobQueue_SetMasterThreadFinishingFlags'',
     ''HkJobQueue_ProcessAllJobs'',
     ''HkJobThreadPool_Create'',
     ''HkJobThreadPool_CreateWithNumThreads'',
     ''HkJobThreadPool_RemoveReference'',
     ''HkJobThreadPool_RunOnEachWorker'',
     ''HkJobThreadPool_ExecuteJobQueue'',
     ''HkJobThreadPool_GetThisThreadIndex'',
     ''HkJobThreadPool_WaitForCompletion'',
     ''HkJobThreadPool_ClearTimerData'',
     ''HkKeyFrameUtility_ApplyHardKeyFrame'',
     ''HkLimitedForceConstraintMotor_GetMinForce'',
     ''HkLimitedForceConstraintMotor_SetMinForce'',
     ''HkLimitedForceConstraintMotor_GetMaxForce'',
     ''HkLimitedForceConstraintMotor_SetMaxForce'',
     ''HkLimitedHingeConstraintData_Create'',
     ''HkLimitedHingeConstraintData_SetInBodySpaceInternal'',
     ''HkLimitedHingeConstraintData_SetInWorldSpace'',
     ''HkLimitedHingeConstraintData_SetMotor'',
     ''HkLimitedHingeConstraintData_IsMotorEnabled'',
     ''HkLimitedHingeConstraintData_SetMotorEnabled'',
     ''HkLimitedHingeConstraintData_GetTargetAngle'',
     ''HkLimitedHingeConstraintData_SetTargetAngle'',
     ''HkLimitedHingeConstraintData_GetMaxFrictionTorque'',
     ''HkLimitedHingeConstraintData_SetMaxFrictionTorque'',
     ''HkLimitedHingeConstraintData_GetMinAngularLimit'',
     ''HkLimitedHingeConstraintData_SetMinAngularLimit'',
     ''HkLimitedHingeConstraintData_GetMaxAngularLimit'',
     ''HkLimitedHingeConstraintData_SetMaxAngularLimit'']"

definition havok_pointers_4 :: "string list" where
  "havok_pointers_4 =
    [''HkLimitedHingeConstraintData_DisableLimits'',
     ''HkLimitedHingeConstraintData_SetInertiaStabilizationFactor'',
     ''HkLimitedHingeConstraintData_GetInertiaStabilizationFactor'',
     ''HkLimitedHingeConstraintData_GetBodyAPos'',
     ''HkLimitedHingeConstraintData_GetBodyBPos'',
     ''HkLimitedHingeConstraintData_GetIsInitialized'',
     ''HkLimitedHingeConstraintData_SetIsInitialized'',
     ''HkLimitedHingeConstraintData_GetPreviousTargetAngle'',
     ''HkLimitedHingeConstraintData_SetPreviousTargetAngle'',
     ''HkLimitedHingeConstraintData_GetCurrentAngle'',
     ''HkLimitedHingeConstraintData_SetCurrentAngle'',
     ''HkListShape_Create'',
     ''HkListShape_GetDisabledChildrenCount'',
     ''HkListShape_GetTotalChildrenCount'',
     ''HkListShape_EnableShape'',
     ''HkListShape_GetChildByIndex'',
     ''HkListShape_IsChildEnabled'',
     ''HkMalleableConstraintData_Create'',
     ''HkMalleableConstraintData_GetStrength'',
     ''HkMalleableConstraintData_SetStrength'',
     ''HkMassChangerUtil_Create'',
     ''HkMassChangerUtil_IsValid'',
     ''HkMassChangerUtil_Remove'',
     ''HkMemorySnapshot_Diff'',
     ''HkMoppBvTreeShape_Create'',
     ''HkMoppBvTreeShape_GetShapeCollection'',
     ''HkMoppBvTreeShape_DisableKeys'',
     ''HkMoppBvTreeShape_QueryAABB'',
     ''HkMoppBvTreeShape_QueryPoint'',
     ''HkMotion_SetWorldMatrix'',
     ''HkMotion_GetDeactivationClass'',
     ''HkMotion_SetDeactivationClass'',
     ''HkPhantomCallbackShape_Create'',
     ''HkPrismaticConstraintData_Create'',
     ''HkPrismaticConstraintData_SetInWorldSpace'',
     ''HkPrismaticConstraintData_SetInBodySpaceInternal'',
     ''HkPrismaticConstraintData_GetMaximumLinearLimit'',
     ''HkPrismaticConstraintData_SetMaximumLinearLimit'',
     ''HkPrismaticConstraintData_GetMinimumLinearLimit'',
     ''HkPrismaticConstraintData_SetMinimumLinearLimit'',
     ''HkPrismaticConstraintData_GetMaxFrictionForce'',
     ''HkPrismaticConstraintData_SetMaxFrictionForce'',
     ''HkPrismaticConstraintData_GetTargetPosition'',
     ''HkPrismaticConstraintData_SetTargetPosition'',
     ''HkPrismaticConstraintData_SetMotor'',
     ''HkPrismaticConstraintData_IsMotorEnabled'',
     ''HkPrismaticConstraintData_SetMotorEnabled'',
     ''HkPrismaticConstraintData_GetCurrentPosition'',
     ''HkPhysicsSystem_IsActive'',
     ''HkPhysicsSystem_SetActive'',
     ''HkPhysicsSystem_RecreateConstraints'',
     ''HkPhysicsSystem_GetConstraintDataFromSystem'',
     ''HkPhysicsSystem_GetName'',
     ''HkPhysicsSystem_LoadRagdollFromFile'',
     ''HkPhysicsSystem_LoadRagdollFromBuffer'',
     ''HkPhysicsSystem_InitFromData'',
     ''HkpGroupFilter_CalcFilterInfo'',
     ''HkpGroupFilter_CalcFilterInfoFromCurrent'',
     ''HkpInertiaTensorComputer_OptimizeInertiasOfConstraintTree'',
     ''HkPhysicsSystem_Release'',
     ''HkRagdollConstraintData_GetPlaneMinAngularLimit'',
     ''HkRagdollConstraintData_SetPlaneMinAngularLimit'',
     ''HkRagdollConstraintData_GetPlaneMaxAngularLimit'',
     ''HkRagdollConstraintData_SetPlaneMaxAngularLimit'',
     ''HkRagdollConstraintData_GetTwistMinAngularLimit'',
     ''HkRagdollConstraintData_SetTwistMinAngularLimit'',
     ''HkRagdollConstraintData_GetTwistMaxAngularLimit'',
     ''HkRagdollConstraintData_SetTwistMaxAngularLimit'',
     ''HkRagdollConstraintData_GetMaxFrictionTorque'',
     ''HkRagdollConstraintData_SetMaxFrictionTorque'',
     ''HkRagdollConstraintData_SetInBodySpaceInternal'',
     ''HkRagdollConstraintData_SetAsymmetricConeAngle'',
     ''HkRagdollConstraintData_SetConeLimitStabilization'',
     ''HkReferenceObject_AddReference'',
     ''HkReferenceObject_RemoveReference'',
     ''HkReferenceObject_IsValid'',
     ''HkReferenceObject_DebugRemoveRef'',
     ''HkReferenceObject_ReferenceCount'',
     ''HkRigidBody_Create'',
     ''HkRigidBody_CreateWithCustomVelocity'',
     ''HkRigidBody_SetNumShapeKeysInContactPointProperties'',
     ''HkRigidBody_GetResponseModifiers'',
     ''HkRigidBody_SetResponseModifiers'',
     ''HkRigidBody_GetShape'',
     ''HkRigidBody_SetShape'',
     ''HkRigidBody_UpdateShape'',
     ''HkRigidBody_PredictRigidBodyMatrix'',
     ''HkRigidBody_SetMassProperties'',
     ''HkRigidBody_SetWorldMatrix'',
     ''HkRigidBody_SetTransform'',
     ''HkRigidBody_GetEnableDeactivation'',
     ''HkRigidBody_SetEnableDeactivation'',
     ''HkRigidBody_GetMarkedForVelocityRecompute'',
     ''HkRigidBody_SetMarkedForVelocityRecompute'',
     ''HkRigidBody_GetMotion'',
     ''HkRigidBody_GetMass'',
     ''HkRigidBody_SetMass'',
     ''HkRigidBody_GetCenterOfMassLocal'',
     ''HkRigidBody_SetCenterOfMassLocal'',
     ''HkRigidBody_GetInertiaTensor'',
     ''HkRigidBody_SetInertiaTensor'',
     ''HkRigidBody_GetInverseInertiaTensor'',
     ''HkRigidBody_SetInverseInertiaTensor'',
     ''HkRigidBody_GetCenterOfMassWorld'',
     ''HkRigidBody_GetCustomVelocity'',
     ''HkRigidBody_SetCustomVelocity'',
     ''HkRigidBody_GetDeltaAngle'',
     ''HkRigidBody_GetLinearDamping'',
     ''HkRigidBody_SetLinearDamping'',
     ''HkRigidBody_GetAngularDamping'',
     ''HkRigidBody_SetAngularDamping'',
     ''HkRigidBody_GetMaxLinearVelocity'',
     ''HkRigidBody_SetMaxLinearVelocity'',
     ''HkRigidBody_GetMaxAngularVelocity'',
     ''HkRigidBody_SetMaxAngularVelocity'',
     ''HkRigidBody_GetAllowedPenetrationDepth'',
     ''HkRigidBody_SetAllowedPenetrationDepth'',
     ''HkRigidBody_GetFriction'',
     ''HkRigidBody_SetFriction'',
     ''HkRigidBody_GetRestitution'',
     ''HkRigidBody_SetRestitution'',
     ''HkRigidBody_ApplyLinearImpulse'',
     ''HkRigidBody_ApplyPointImpulse'',
     ''HkRigidBody_ApplyAngularImpulse'',
     ''HkRigidBody_SetLayer'',
     ''HkRigidBody_GetCollisionFilterInfo'',
     ''HkRigidBody_SetCollisionFilterInfo'',
     ''HkRigidBody_ApplyForce'',
     ''HkRigidBody_ApplyForceToPoint'',
     ''HkRigidBody_ApplyTorque'',
     ''HkRigidBody_GetNativeObjectName'',
     ''HkRigidBody_RemoveFromWorld'',
     ''HkRigidBody_HasGravity'',
     ''HkRigidBody_HasConstraints'',
     ''HkRigidBody_GetBreakableBody'',
     ''HkRigidBody_GetGravity'',
     ''HkRigidBody_ReleaseGravity'',
     ''HkRigidBody_SetGravity'',
     ''HkRigidBody_Clone'',
     ''HkRigidBody_FromShape'',
     ''HkRigidBody_GetGcRoot'',
     ''HkRigidBody_GetGravityAction'',
     ''HkRigidBody_AddGravityAction'',
     ''HkRigidBody_GetDeactivationCounter0'',
     ''HkRigidBody_GetDeactivationCounter1'',
     ''HkRigidBody_HasActions'',
     ''HkRigidBodyCinfo_Create'',
     ''HkRigidBodyCinfo_Release'']"

definition havok_pointers_5 :: "string list" where
  "havok_pointers_5 =
    [''HkRigidBodyCinfo_GetCollisionResponse'',
     ''HkRigidBodyCinfo_SetCollisionResponse'',
     ''HkRigidBodyCinfo_GetResponseModifiers'',
     ''HkRigidBodyCinfo_SetResponseModifiers'',
     ''HkRigidBodyCinfo_GetPosition'',
     ''HkRigidBodyCinfo_SetPosition'',
     ''HkRigidBodyCinfo_GetRotation'',
     ''HkRigidBodyCinfo_SetRotation'',
     ''HkRigidBodyCinfo_GetLinearVelocity'',
     ''HkRigidBodyCinfo_SetLinearVelocity'',
     ''HkRigidBodyCinfo_GetAngularVelocity'',
     ''HkRigidBodyCinfo_SetAngularVelocity'',
     ''HkRigidBodyCinfo_GetCenterOfMass'',
     ''HkRigidBodyCinfo_SetCenterOfMass'',
     ''HkRigidBodyCinfo_GetMass'',
     ''HkRigidBodyCinfo_SetMass'',
     ''HkRigidBodyCinfo_GetLinearDamping'',
     ''HkRigidBodyCinfo_SetLinearDamping'',
     ''HkRigidBodyCinfo_GetAngularDamping'',
     ''HkRigidBodyCinfo_SetAngularDamping'',
     ''HkRigidBodyCinfo_GetFriction'',
     ''HkRigidBodyCinfo_SetFriction'',
     ''HkRigidBodyCinfo_GetRestitution'',
     ''HkRigidBodyCinfo_SetRestitution'',
     ''HkRigidBodyCinfo_GetMaxLinearVelocity'',
     ''HkRigidBodyCinfo_SetMaxLinearVelocity'',
     ''HkRigidBodyCinfo_GetMaxAngularVelocity'',
     ''HkRigidBodyCinfo_SetMaxAngularVelocity'',
     ''HkRigidBodyCinfo_GetContactPointCallbackDelay'',
     ''HkRigidBodyCinfo_SetContactPointCallbackDelay'',
     ''HkRigidBodyCinfo_GetAllowedPenetrationDepth'',
     ''HkRigidBodyCinfo_SetAllowedPenetrationDepth'',
     ''HkRigidBodyCinfo_GetMotionType'',
     ''HkRigidBodyCinfo_SetMotionType'',
     ''HkRigidBodyCinfo_GetSolverDeactivation'',
     ''HkRigidBodyCinfo_SetSolverDeactivation'',
     ''HkRigidBodyCinfo_GetQualityType'',
     ''HkRigidBodyCinfo_SetQualityType'',
     ''HkRigidBodyCinfo_GetAutoRemoveLevel'',
     ''HkRigidBodyCinfo_SetAutoRemoveLevel'',
     ''HkRigidBodyCinfo_GetShape'',
     ''HkRigidBodyCinfo_SetShape'',
     ''HkRigidBodyCinfo_CalculateBoxInertiaTensor'',
     ''HkRigidBodyCinfo_CalculateSphereInertiaTensor'',
     ''HkRigidBodyCinfo_SetMassProperties'',
     ''HkRigidBodyCinfo_ComputeShapeMass'',
     ''HkRopeConstraintData_Create'',
     ''HkRopeConstraintData_SetInBodySpaceInternal'',
     ''HkRopeConstraintData_Update'',
     ''HkRopeConstraintData_GetStrength'',
     ''HkRopeConstraintData_SetStrength'',
     ''HkRopeConstraintData_GetLinearLimit'',
     ''HkRopeConstraintData_SetLinearLimit'',
     ''HkRopeConstraintData_IsValid'',
     ''HkShape_GetReferenceCount'',
     ''HkShape_GetShapeType'',
     ''HkShape_IsConvex'',
     ''HkShape_GetConvexRadius'',
     ''HkShape_SetConvexRadius'',
     ''HkShape_GetUserData'',
     ''HkShape_SetUserData'',
     ''HkShape_SetRigidBody'',
     ''HkShape_IsContainer'',
     ''HkShape_AddReference'',
     ''HkShape_RemoveReference'',
     ''HkShape_DisableRefCount'',
     ''HkShape_GetLocalAABB'',
     ''HkShape_CastRayCollectSingleHit'',
     ''HkShape_LoadShapeFromFile'',
     ''HkShape_GetContainer'',
     ''HkShapeBatch_GetCount'',
     ''HkShapeBatch_GetInfo'',
     ''HkShapeBatch_SetResult'',
     ''HkShapeBuffer_Create'',
     ''HkShapeBuffer_Destroy'',
     ''HkShapeCollection_GetShapeCount'',
     ''HkShapeCollection_GetShape'',
     ''HkShapeCollection_GetShapeWithBuffer'',
     ''HkShapeContainer_GetFirstKey'',
     ''HkShapeContainer_GetNextKey'',
     ''HkShapeContainer_CurrentValue'',
     ''HkShapeContainer_GetShape'',
     ''HkShapeContainer_IsShapeKeyValid'',
     ''HkShapeCutterUtil_Cut'',
     ''HkShapeLoader_LoadShapesListFromBuffer'',
     ''HkShapeLoader_LoadShapesListFromFile'',
     ''HkShapeLoader_SaveShapesListToFile'',
     ''HkShapeLoader_CleanupShapesBuffer'',
     ''HkSimpleMeshShape_Create'',
     ''HkSimpleShapePhantom_Create'',
     ''HkSimpleShapePhantom_CreateWithLayer'',
     ''HkSimpleShapePhantom_GetShape'',
     ''HkSimpleValueProperty_CreateFloat'',
     ''HkSimpleValueProperty_CreateUInt'',
     ''HkSimpleValueProperty_CreateInt'',
     ''HkSimpleValueProperty_GetValueFloat'',
     ''HkSimpleValueProperty_SetValueFloat'',
     ''HkSimpleValueProperty_GetValueUInt'',
     ''HkSimpleValueProperty_SetValueUInt'',
     ''HkSimpleValueProperty_GetValueInt'',
     ''HkSimpleValueProperty_SetValueInt'',
     ''HkSimulationIsland_GetEntityCount'',
     ''HkSimulationIsland_GetEntity'',
     ''HkSimulationIsland_GetBounds'',
     ''HkSimulationIsland_GetOffsets'',
     ''HkSmartListShape_Create'',
     ''HkSmartListShape_GetShapeCount'',
     ''HkSmartListShape_AddShape'',
     ''HkSmartListShape_RemoveShape'',
     ''HkSmartListShape_Validate'',
     ''HkSphereShape_Create'',
     ''HkSphereShape_GetRadius'',
     ''HkSphereShape_SetRadius'',
     ''HkStaticCompoundShape_Create'',
     ''HkStaticCompoundShape_GetInstanceCount'',
     ''HkStaticCompoundShape_AddInstance'',
     ''HkStaticCompoundShape_Bake'',
     ''HkStaticCompoundShape_ComposeShapeKey'',
     ''HkStaticCompoundShape_DecomposeShapeKey'',
     ''HkStaticCompoundShape_EnableAllShapeKeys'',
     ''HkStaticCompoundShape_EnableInstance'',
     ''HkStaticCompoundShape_EnableShapeKey'',
     ''HkStaticCompoundShape_GetFirstKey'',
     ''HkStaticCompoundShape_GetInstance'',
     ''HkStaticCompoundShape_GetInstanceTransform'',
     ''HkStaticCompoundShape_IsInstanceEnabled'',
     ''HkStaticCompoundShape_IsShapeKeyEnabled'',
     ''HkTaskProfiler_Init'',
     ''HkTaskProfiler_ReleaseResources'',
     ''HkTaskProfiler_HookJobQueue'',
     ''HkTaskProfiler_ReplayTimers'',
     ''HkTaskProfiler_Begin1'',
     ''HkTaskProfiler_Begin2'',
     ''HkTaskProfiler_Begin3'',
     ''HkTaskProfiler_Begin4'',
     ''HkTaskProfiler_Begin5'',
     ''HkTaskProfiler_End'',
     ''HkTransformShape_Create'',
     ''HkTransformShape_CreateWithTranslation'',
     ''HkTransformShape_GetTransform'',
     ''HkTransformShape_GetChildShape'',
     ''HkTriangleShape_GetExtrusion'',
     ''HkTriangleShape_GetPt2'',
     ''HkTriangleShape_GetPt1'',
     ''HkTriangleShape_GetPt0'',
     ''HkUniformGridShape_Create'',
     ''HkUniformGridShape_GetShapeCount'',
     ''HkUniformGridShape_DiscardLargeData'']"

definition havok_pointers_6 :: "string list" where
  "havok_pointers_6 =
    [''HkUniformGridShape_GetHitsAndClear'',
     ''HkUniformGridShape_GetHitCellsInRange'',
     ''HkUniformGridShape_GetMissingCellsInRange'',
     ''HkUniformGridShape_InvalidateRange'',
     ''HkUniformGridShape_InvalidateRangeImmediate'',
     ''HkUniformGridShape_RemoveChild'',
     ''HkUniformGridShape_SetChild'',
     ''HkUniformGridShape_GetChild'',
     ''HkUniformGridShape_SetDeleteHandler'',
     ''HkUniformGridShape_RemoveShapeRequestHandler'',
     ''HkUniformGridShape_SetShapeRequestHandler'',
     ''HkUniformGridShape_EnableExtendedCache'',
     ''HkUtils_CalculateSeparatingVelocity'',
     ''HkUtils_SetSoftContact'',
     ''HkVDB_SyncTimers'',
     ''HkVDB_StepVDB'',
     ''HkVDB_Start'',
     ''HkVDB_ReleaseResources'',
     ''HkVDB_GetPort'',
     ''HkVDB_SetPort'',
     ''HkVDB_UpdateCamera'',
     ''HkVDB_Capture'',
     ''HkVDB_EndCapture'',
     ''HkVec3IProperty_Create'',
     ''HkVec3IProperty_GetValue'',
     ''HkVec3IProperty_SetValue'',
     ''HkVelocityConstraintMotor_Create'',
     ''HkVelocityConstraintMotor_GetTau'',
     ''HkVelocityConstraintMotor_SetTau'',
     ''HkVelocityConstraintMotor_GetVelocityTarget'',
     ''HkVelocityConstraintMotor_SetVelocityTarget'',
     ''HkVelocityConstraintMotor_GetConstantRecoveryVelocity'',
     ''HkVelocityConstraintMotor_SetConstantRecoveryVelocity'',
     ''HkWheelConstraintData_Create'',
     ''HkWheelConstraintData_SetInWorldSpace'',
     ''HkWheelConstraintData_SetInBodySpaceInternal'',
     ''HkWheelConstraintData_SetSuspensionMinLimit'',
     ''HkWheelConstraintData_SetSuspensionMaxLimit'',
     ''HkWheelConstraintData_SetSuspensionStrength'',
     ''HkWheelConstraintData_SetSuspensionDamping'',
     ''HkWheelConstraintData_SetSteeringAngle'',
     ''HkWheelResponseModifierUtil_Create'',
     ''HkWheelResponseModifierUtil_Release'',
     ''HkWorld_Create'',
     ''HkWorld_CreateCInfo'',
     ''HkWorld_CreateBodyPairCollection'',
     ''HkWorld_RegisterWithJobQueue'',
     ''HkWorld_Lock'',
     ''HkWorld_Unlock'',
     ''HkWorld_LockCriticalOperations'',
     ''HkWorld_UnlockCriticalOperations'',
     ''HkWorld_ExecutePendingCriticalOperations'',
     ''HkWorld_StepDeltaTime'',
     ''HkWorld_StepMultiThreaded'',
     ''HkWorld_InitMtStep'',
     ''HkWorld_FinishMtStep'',
     ''HkWorld_ExecuteViolatedConstraintProjections'',
     ''HkWorld_ReportRuntimeDataConstraints'',
     ''HkWorld_AddConstraint'',
     ''HkWorld_RemoveConstraint'',
     ''HkWorld_AddEntity'',
     ''HkWorld_RemoveEntity'',
     ''HkWorld_AddPhantom'',
     ''HkWorld_RemovePhantom'',
     ''HkWorld_AddPhysicsSystem'',
     ''HkWorld_RemovePhysicsSystem'',
     ''HkWorld_GetPenetrationsShape'',
     ''HkWorld_GetPenetrationsBox'',
     ''HkWorld_GetPenetrationsShapeShape'',
     ''HkWorld_IsPenetratingShapeShape'',
     ''HkWorld_IsPenetratingShapeShapeTransform'',
     ''HkWorld_CastShape'',
     ''HkWorld_CastShapeReturnPoint'',
     ''HkWorld_CastShapeReturnContact'',
     ''HkWorld_CastShapeReturnContactData'',
     ''HkWorld_CastShapeReturnContactBodyData'',
     ''HkWorld_CastShapeReturnContactBodyDatas'',
     ''HkWorld_CastRayAll'',
     ''HkWorld_CastRayCollisionFilter'',
     ''HkWorld_CastRayFilterLayer'',
     ''HkWorld_MarkForWrite'',
     ''HkWorld_UnmarkForWrite'',
     ''HkWorld_RefreshCollisionFilterOnEntity'',
     ''HkWorld_RefreshCollisionFilterOnWorld'',
     ''HkWorld_ReintegrateEntity'',
     ''HkWorld_AddAction'',
     ''HkWorld_RemoveAction'',
     ''HkWorld_EnsureBatchSizes'',
     ''HkWorld_SetBatchBody'',
     ''HkWorld_AddEntityBatch'',
     ''HkWorld_RemoveEntityBatch'',
     ''HkWorld_GetActiveSimulationIslandsCount'',
     ''HkWorld_GetActiveSimulationIslandEntities'',
     ''HkWorld_DeactivateSimulationIslandRigidBodies'',
     ''HkWorld_IsActiveSimulationIsland'',
     ''HkWorld_GetConstraintCount'',
     ''HkWorld_GetActionCount'',
     ''HkWorld_GetFixedBody'',
     ''HkWorld_ReadSimulationIslandInfos'',
     ''HkWorld_GetGravity'',
     ''HkWorld_SetGravity'',
     ''HkWorld_GetDeactivationRotationSqrdA'',
     ''HkWorld_SetDeactivationRotationSqrdA'',
     ''HkWorld_GetDeactivationRotationSqrdB'',
     ''HkWorld_SetDeactivationRotationSqrdB'',
     ''HkWorld_AddWorldExtension'',
     ''HkWorld_Release'',
     ''HkPhysicsContext_Create'',
     ''HkPhysicsContext_RegisterAllPhysicsProcesses'',
     ''HkPhysicsContext_AddWorld'',
     ''HkPhysicsContext_RemoveWorld'',
     ''HkPhysicsContext_GetNumWorlds'',
     ''HkPhysicsContext_SyncTimers'',
     ''HkPhysicsContext_Release'',
     ''HkGroupFilter_Create'',
     ''HkGroupFilter_IsCollisionEnabled'',
     ''HkpAabbPhantom_Create'',
     ''HkpAabbPhantom_GetAabb'',
     ''HkpAabbPhantom_SetAabb'',
     ''HkpAabbPhantom_Release'',
     ''HkpCollidableAddedEvent_GetRigidBody'',
     ''HkpCollidableRemovedEvent_GetRigidBody'',
     ''HkSimpleShapePhantom_SetTransform'',
     ''HkIntermediateBuffer_ReleaseUnmanaged'']"

definition havok_pointers :: "string list" where
  "havok_pointers = havok_pointers_1 @ havok_pointers_2 @ havok_pointers_3 @ havok_pointers_4 @ havok_pointers_5 @ havok_pointers_6"


section \<open>The checks\<close>

lemma havok_ok_1: "list_all lowered havok_wrappers_1"
  by (simp add: havok_wrappers_1_def)

lemma havok_ok_2: "list_all lowered havok_wrappers_2"
  by (simp add: havok_wrappers_2_def)

lemma havok_ok_3: "list_all lowered havok_wrappers_3"
  by (simp add: havok_wrappers_3_def)

lemma havok_ok_4: "list_all lowered havok_wrappers_4"
  by (simp add: havok_wrappers_4_def)

lemma havok_ok_5: "list_all lowered havok_wrappers_5"
  by (simp add: havok_wrappers_5_def)

lemma havok_ok_6: "list_all lowered havok_wrappers_6"
  by (simp add: havok_wrappers_6_def)

lemma havok_ok_7: "list_all lowered havok_wrappers_7"
  by (simp add: havok_wrappers_7_def)

lemma havok_ok_8: "list_all lowered havok_wrappers_8"
  by (simp add: havok_wrappers_8_def)

lemma havok_ok_9: "list_all lowered havok_wrappers_9"
  by (simp add: havok_wrappers_9_def)

lemma havok_ok_10: "list_all lowered havok_wrappers_10"
  by (simp add: havok_wrappers_10_def)

lemma havok_ok_11: "list_all lowered havok_wrappers_11"
  by (simp add: havok_wrappers_11_def)

lemma havok_ok_12: "list_all lowered havok_wrappers_12"
  by (simp add: havok_wrappers_12_def)

lemma havok_ok_13: "list_all lowered havok_wrappers_13"
  by (simp add: havok_wrappers_13_def)

lemma havok_ok_14: "list_all lowered havok_wrappers_14"
  by (simp add: havok_wrappers_14_def)

lemma havok_ok_15: "list_all lowered havok_wrappers_15"
  by (simp add: havok_wrappers_15_def)

lemma havok_ok_16: "list_all lowered havok_wrappers_16"
  by (simp add: havok_wrappers_16_def)

lemma havok_ok_17: "list_all lowered havok_wrappers_17"
  by (simp add: havok_wrappers_17_def)

lemma havok_ok_18: "list_all lowered havok_wrappers_18"
  by (simp add: havok_wrappers_18_def)

lemma havok_ok_19: "list_all lowered havok_wrappers_19"
  by (simp add: havok_wrappers_19_def)

lemma havok_ok_20: "list_all lowered havok_wrappers_20"
  by (simp add: havok_wrappers_20_def)

lemma havok_ok_21: "list_all lowered havok_wrappers_21"
  by (simp add: havok_wrappers_21_def)

lemma havok_ok_22: "list_all lowered havok_wrappers_22"
  by (simp add: havok_wrappers_22_def)

lemma havok_ok_23: "list_all lowered havok_wrappers_23"
  by (simp add: havok_wrappers_23_def)

lemma havok_ok_24: "list_all lowered havok_wrappers_24"
  by (simp add: havok_wrappers_24_def)

lemma havok_ok_25: "list_all lowered havok_wrappers_25"
  by (simp add: havok_wrappers_25_def)

lemma havok_ok_26: "list_all lowered havok_wrappers_26"
  by (simp add: havok_wrappers_26_def)

lemma havok_ok_27: "list_all lowered havok_wrappers_27"
  by (simp add: havok_wrappers_27_def)

lemma havok_ok_28: "list_all lowered havok_wrappers_28"
  by (simp add: havok_wrappers_28_def)

lemma havok_ok_29: "list_all lowered havok_wrappers_29"
  by (simp add: havok_wrappers_29_def)

lemma havok_ok_30: "list_all lowered havok_wrappers_30"
  by (simp add: havok_wrappers_30_def)

lemma havok_ok_31: "list_all lowered havok_wrappers_31"
  by (simp add: havok_wrappers_31_def)

lemma havok_ok_32: "list_all lowered havok_wrappers_32"
  by (simp add: havok_wrappers_32_def)

lemma havok_ok_33: "list_all lowered havok_wrappers_33"
  by (simp add: havok_wrappers_33_def)

lemma havok_ok_34: "list_all lowered havok_wrappers_34"
  by (simp add: havok_wrappers_34_def)

lemma havok_ok_35: "list_all lowered havok_wrappers_35"
  by (simp add: havok_wrappers_35_def)

lemma havok_ok_36: "list_all lowered havok_wrappers_36"
  by (simp add: havok_wrappers_36_def)

lemma havok_ok_37: "list_all lowered havok_wrappers_37"
  by (simp add: havok_wrappers_37_def)

lemma havok_ok_38: "list_all lowered havok_wrappers_38"
  by (simp add: havok_wrappers_38_def)

lemmas havok_ok =
  havok_ok_1 havok_ok_2 havok_ok_3 havok_ok_4 havok_ok_5 havok_ok_6 havok_ok_7 havok_ok_8 havok_ok_9
    havok_ok_10 havok_ok_11 havok_ok_12 havok_ok_13 havok_ok_14 havok_ok_15 havok_ok_16 havok_ok_17
    havok_ok_18 havok_ok_19 havok_ok_20 havok_ok_21 havok_ok_22 havok_ok_23 havok_ok_24 havok_ok_25
    havok_ok_26 havok_ok_27 havok_ok_28 havok_ok_29 havok_ok_30 havok_ok_31 havok_ok_32 havok_ok_33
    havok_ok_34 havok_ok_35 havok_ok_36 havok_ok_37 havok_ok_38

lemma havok_lowered: "list_all lowered havok_wrappers"
  unfolding havok_wrappers_def by (simp only: list_all_append havok_ok simp_thms)

end
