(* ===== verification/Wrapper_Physics.thy ===== *)
theory Wrapper_Physics
  imports Wrapper_Abi
begin

text \<open>
  The wrappers of \<open>src/src/Physics.cpp\<close> in the order of the source, other than those of \<open>Physics_Contacts\<close>
  and \<open>Physics_Bridges\<close>, and the entries of \<open>initialize\<close>: a pointer and the decorated name it is looked up
  by, in tables that go along with those of the wrappers.
\<close>

definition physics_wrappers_1 :: "wrapper list" where
  "physics_wrappers_1 =
    [forwards ''hknpConstraintData_cctor_function_0'' Pointer [Pointer, Pointer],
     forwards ''ArrayRange_cctor'' Pointer [Pointer, Pointer],
     forwards ''HkConstraintHandler_cctor_function_0'' Pointer [Pointer, Pointer],
     forwards ''hknpConnectivityGraph_cctor_function_0'' Pointer [Pointer, Pointer],
     forwards ''hknpShape_cctor_function_0'' Pointer [Pointer, Pointer],
     forwards ''hknpConnectivityGraph_cctor_other'' Pointer [Pointer, Pointer],
     forwards ''hkConvexDecomposition_cctor'' Pointer [Pointer, Pointer],
     forwards ''hknpConstraintData_cctor_function_0_2'' Pointer [Pointer, Pointer],
     forwards ''ConvexShapeArgs_cctor'' Pointer [Pointer, Pointer],
     forwards ''DebugDrawImplementationTable_cctor'' Pointer [Pointer, Pointer],
     forwards ''hknpConnectivityGraph_cctor_function_0_2'' Pointer [Pointer, Pointer],
     forwards ''hknpConnectivityGraph_cctor_function_0_3'' Pointer [Pointer, Pointer],
     forwards ''hknpConvexHull_cctor_function_0'' Pointer [Pointer, Pointer],
     forwards ''HkSession_cctor_function_0'' Pointer [Pointer, Pointer],
     forwards ''hknpConvexHull_cctor_function_0_2'' Pointer [Pointer, Pointer],
     forwards ''hknpMaterial_cctor_function_0'' Pointer [Pointer, Pointer]]"

definition physics_wrappers_2 :: "wrapper list" where
  "physics_wrappers_2 =
    [forwards ''hknpMotion_cctor'' Pointer [Pointer, Pointer],
     forwards ''hknpShape_cctor_function_0_2'' Pointer [Pointer, Pointer],
     forwards ''hknpShape_cctor_function_0_3'' Pointer [Pointer, Pointer],
     forwards ''HkConstraintHandler_cctor_function_0_2'' Pointer [Pointer, Pointer],
     forwards ''HkBodyDrivingSettings_cctor'' Pointer [Pointer, Pointer],
     forwards ''HkBodyInfoCollection_cctor'' Pointer [Pointer, Pointer],
     forwards ''HkBodyInfoUpdate_cctor'' Pointer [Pointer, Pointer],
     forwards ''HkBodyMotionInfo_cctor'' Pointer [Pointer, Pointer],
     forwards ''HkBodyUserDataPair_cctor'' Pointer [Pointer, Pointer],
     forwards ''HkQueryDispatcher_cctor_function_0'' Pointer [Pointer, Pointer],
     forwards ''HkBreakHandlerModifier_ctor'' Pointer [Pointer, Pointer, Pointer],
     forwards ''HkBreakHandlerModifier_cctor'' Pointer [Pointer, Pointer],
     forwards ''HkBreakableCompoundShapeManipulator_cctor'' Pointer [Pointer, Pointer],
     forwards ''HkBuffer_cctor'' Pointer [Pointer, Pointer],
     forwards ''HkDebugProcessManager_cctor_function_0'' Pointer [Pointer, Pointer],
     forwards ''HkQueryDispatcher_cctor_function_0_2'' Pointer [Pointer, Pointer]]"

definition physics_wrappers_3 :: "wrapper list" where
  "physics_wrappers_3 =
    [forwards ''HkCharacterContact_cctor'' Pointer [Pointer, Pointer],
     forwards ''HkCharacterModifier_cctor_function_0'' Pointer [Pointer, Pointer],
     forwards ''HkCharacterController_ctor'' Pointer [Pointer, Pointer],
     forwards ''HkCharacterControllerOutput_cctor'' Pointer [Pointer, Pointer],
     forwards ''HkCharacterModifier_cctor_function_0_2'' Pointer [Pointer, Pointer],
     forwards ''HkCharacterModifier_ctor'' Pointer [Pointer, Pointer, Floating 4],
     forwards ''HkCharacterMovementUtil_cctor'' Pointer [Pointer, Pointer],
     forwards ''HkCharacterStateManager_ctor'' Pointer [Pointer, Pointer],
     forwards ''HkCharacterStateManagerCinfo_cctor'' Pointer [Pointer, Pointer],
     forwards ''HkColliderQueryDispatcher_cctor_function_0'' Pointer [Pointer, Pointer],
     forwards ''HkColliderQueryDispatcher_cctor_function_0_2'' Pointer [Pointer, Pointer],
     forwards ''HkColliderQueryDispatcher_cctor_function_0_3'' Pointer [Pointer, Pointer],
     forwards ''HkColliderQueryDispatcher_cctor_function_0_4'' Pointer [Pointer, Pointer],
     forwards ''HkColliderQueryDispatcher_cctor_function_0_5'' Pointer [Pointer, Pointer],
     forwards ''HkColliderQueryDispatcher_cctor_function_0_6'' Pointer [Pointer, Pointer],
     forwards ''HkCollisionQueryCollector_cctor'' Pointer [Pointer, Pointer]]"

definition physics_wrappers_4 :: "wrapper list" where
  "physics_wrappers_4 =
    [forwards ''HkConstraintHandler_ctor'' Pointer [Pointer, Pointer, Pointer],
     forwards ''HkConstraintHandler_cctor_function_0_3'' Pointer [Pointer, Pointer],
     forwards ''HkContactEventCollectorModifier_ctor_void'' Pointer [Pointer],
     forwards ''HkDataFilter_cctor'' Pointer [Pointer, Pointer],
     forwards ''HkDataFilterIterator_cctor_1'' Pointer [Pointer, Pointer],
     forwards ''HkDebugProcessManager_ctor'' Pointer [Pointer, Pointer, Pointer, Pointer],
     forwards ''HkFracture_cctor'' Pointer [Pointer, Pointer],
     forwards ''HkGeometryRef_cctor'' Pointer [Pointer, Pointer],
     forwards ''HkGravityModifier_ctor'' Pointer [Pointer, Pointer, Floating 4, Floating 4],
     forwards ''HkGravityUpdate_cctor'' Pointer [Pointer, Pointer],
     forwards ''HkLargeShapeKey_cctor'' Pointer [Pointer, Pointer],
     forwards ''HkLoadedShapeInfo_cctor'' Pointer [Pointer, Pointer],
     forwards ''HkLodLevel_cctor'' Pointer [Pointer, Pointer],
     forwards ''HkManagedMassElement_cctor'' Pointer [Pointer, Pointer],
     forwards ''HkManifoldCollisionCacheProperties_cctor'' Pointer [Pointer, Pointer],
     forwards ''HkContactEventCollectorModifier_cctor'' Pointer [Pointer, Pointer]]"

definition physics_wrappers_5 :: "wrapper list" where
  "physics_wrappers_5 =
    [forwards ''HkContactEventCollectorModifier_ctor_void_2'' Pointer [Pointer],
     forwards ''HkManifoldGroup_cctor_function_0'' Pointer [Pointer, Pointer],
     forwards ''HkManifoldGroup_ctor_ignoredManifoldIndex_staticB'' Pointer [Pointer, Integer 4, Integer 4],
     forwards ''HkManifoldGroup_ctor_groupConfig_info'' Pointer [Pointer, Pointer, Pointer],
     forwards ''HkManifoldGroup_cctor_function_0_2'' Pointer [Pointer, Pointer],
     forwards ''HkMassChangerModifier_ctor'' Pointer [Pointer, Pointer],
     forwards ''HkMaterialLibrary_cctor'' Pointer [Pointer, Pointer],
     forwards ''HkMaterialLibrary_ctor'' Pointer [Pointer],
     forwards ''HkModelSkeletonBone_cctor'' Pointer [Pointer, Pointer],
     forwards ''HkModifierUtils_cctor'' Pointer [Pointer, Pointer],
     forwards ''HkQueryDispatcher_cctor_function_0_3'' Pointer [Pointer, Pointer],
     forwards ''HkQueryDispatcher_cctor_function_0_4'' Pointer [Pointer, Pointer],
     forwards ''HkPackedBodyInfo_cctor'' Pointer [Pointer, Pointer],
     forwards ''HkPackedBodyInfoExtended_cctor'' Pointer [Pointer, Pointer],
     forwards ''HkPackedBodyProxy_cctor'' Pointer [Pointer, Pointer],
     forwards ''HkPackedRelativeTransform_cctor'' Pointer [Pointer, Pointer]]"

definition physics_wrappers_6 :: "wrapper list" where
  "physics_wrappers_6 =
    [forwards ''HkPackedRigidBodyData_cctor'' Pointer [Pointer, Pointer],
     forwards ''HkPackedWorldTransform_cctor_1'' Pointer [Pointer, Pointer],
     forwards ''HkPostProjectionUtilitySettings_cctor'' Pointer [Pointer, Pointer],
     forwards ''HkPoweredMotorsParams_cctor'' Pointer [Pointer, Pointer],
     forwards ''HkQueryDispatcher_cctor_function_0_5'' Pointer [Pointer, Pointer],
     forwards ''HkQueryDispatcher_cctor_function_0_6'' Pointer [Pointer, Pointer],
     forwards ''HkQueryDispatcher_cctor_function_0_7'' Pointer [Pointer, Pointer],
     forwards ''HkRestitutionIntegratorModifier_cctor_1'' Pointer [Pointer, Pointer],
     forwards ''HkRestitutionIntegratorModifier_ctor'' Pointer [Pointer, Pointer],
     forwards ''HkSerializableFracture_cctor'' Pointer [Pointer, Pointer],
     forwards ''HkSerialization_cctor'' Pointer [Pointer, Pointer],
     forwards ''HkSerializationShapeScalingUtil_ctor'' Pointer [Pointer, Pointer, Floating 4, Integer 4]]"

definition physics_wrappers_7 :: "wrapper list" where
  "physics_wrappers_7 =
    [forwards ''HkSession_cctor_function_0_2'' Pointer [Pointer, Pointer],
     forwards ''HkShapeProperties_cctor'' Pointer [Pointer, Pointer],
     forwards ''HkDebugProcessManager_cctor_function_0_2'' Pointer [Pointer, Pointer],
     forwards ''HkSimdTreeGridShape_ctor'' Pointer [Pointer, Pointer],
     forwards ''HkSimplificationParameters_cctor'' Pointer [Pointer, Pointer],
     forwards ''HkConstraintHandler_cctor_function_0_4'' Pointer [Pointer, Pointer],
     forwards ''HkConstraintHandler_cctor_function_0_5'' Pointer [Pointer, Pointer],
     forwards ''HkSparseGridShape_ctor'' Pointer [Pointer, Floating 4, Floating 4, Integer 4, Integer 4, Pointer,
       Floating 4],
     forwards ''HkStatistics_cctor_function_0'' Pointer [Pointer, Pointer],
     forwards ''HkQueryDispatcher_cctor_function_0_8'' Pointer [Pointer, Pointer],
     forwards ''HkTreeGridArgs_cctor'' Pointer [Pointer, Pointer],
     forwards ''HkTriangle_cctor'' Pointer [Pointer, Pointer],
     forwards ''HkTriangleOrQuad_cctor'' Pointer [Pointer, Pointer],
     forwards ''HkVoxelShape_ctor'' Pointer [Pointer, Integer 4, Floating 4, Integer 4],
     forwards ''HkConstraintHandler_cctor_function_0_6'' Pointer [Pointer, Pointer],
     forwards ''HkWorld_cctor'' Pointer [Pointer, Pointer]]"

definition physics_wrappers_8 :: "wrapper list" where
  "physics_wrappers_8 =
    [forwards ''HkWorldData_cctor'' Pointer [Pointer, Pointer],
     forwards ''Global_cctor_function_0'' Pointer [Pointer, Pointer],
     forwards ''IndexBufferArgs_cctor'' Pointer [Pointer, Pointer],
     forwards ''HkSimdTreeGridShape_cctor'' Pointer [Pointer, Pointer],
     forwards ''HkSparseGridShape_cctor'' Pointer [Pointer, Pointer],
     forwards ''hknpConnectivityGraph_cctor_function_0_4'' Pointer [Pointer, Pointer],
     forwards ''MassBuildConfig_cctor'' Pointer [Pointer, Pointer],
     forwards ''hknpShape_ctor'' Pointer [Pointer],
     forwards ''Mesh_cctor'' Pointer [Pointer, Pointer],
     forwards ''MeshShapeArgs_cctor'' Pointer [Pointer, Pointer],
     forwards ''MigrationData_cctor'' Pointer [Pointer, Pointer],
     forwards ''hknpConnectivityGraph_cctor_function_0_5'' Pointer [Pointer, Pointer],
     forwards ''HkConstraintHandler_cctor_function_0_7'' Pointer [Pointer, Pointer],
     forwards ''HkDebugProcessManager_cctor_function_0_3'' Pointer [Pointer, Pointer],
     forwards ''hknpConstraintData_cctor_function_0_3'' Pointer [Pointer, Pointer],
     forwards ''hknpShape_cctor_function_0_4'' Pointer [Pointer, Pointer]]"

definition physics_wrappers_9 :: "wrapper list" where
  "physics_wrappers_9 =
    [forwards ''hknpShape_cctor_function_0_5'' Pointer [Pointer, Pointer],
     forwards ''hknpShape_cctor_function_0_6'' Pointer [Pointer, Pointer],
     forwards ''HkStatistics_cctor_function_0_2'' Pointer [Pointer, Pointer],
     forwards ''HkStatistics_ctor'' Pointer [Pointer, Pointer, Integer 4, Integer 4, Floating 4],
     forwards ''TextureArgs_cctor'' Pointer [Pointer, Pointer],
     forwards ''hknpConstraintData_cctor_function_0_4'' Pointer [Pointer, Pointer],
     forwards ''VelocityPair_cctor'' Pointer [Pointer, Pointer],
     forwards ''Global_cctor_function_0_2'' Pointer [Pointer, Pointer],
     forwards ''VertexBufferArgs_cctor'' Pointer [Pointer, Pointer],
     forwards ''HkManifoldInfo_cctor'' Pointer [Pointer, Pointer],
     forwards ''hkStringPtr_cctor'' Pointer [Pointer, Pointer],
     forwards ''hkStringPtr_ctor'' Pointer [Pointer, Pointer, Integer 4],
     forwards ''hknp6DofConstraintData_ctor'' Pointer [Pointer, Integer 4],
     forwards ''hknpActivationControl_cctor'' Pointer [Pointer, Pointer],
     forwards ''hknpActivationState_cctor'' Pointer [Pointer, Pointer],
     forwards ''hknpBallAndSocketConstraintData_ctor'' Pointer [Pointer, Integer 4]]"

definition physics_wrappers_10 :: "wrapper list" where
  "physics_wrappers_10 =
    [forwards ''hknpBodyCinfo_ctor'' Pointer [Pointer],
     forwards ''hknpBodyIdAndIndex_cctor'' Pointer [Pointer, Pointer],
     forwards ''hknpBodyQualityId_cctor'' Pointer [Pointer, Pointer],
     forwards ''hknpCollisionDispatchType_cctor'' Pointer [Pointer, Pointer],
     forwards ''hknpCompressedAabbThresholds_cctor'' Pointer [Pointer, Pointer],
     forwards ''hknpConstraintGroupDirectSolverSettings_cctor'' Pointer [Pointer, Pointer],
     forwards ''hknpFixedConstraintData_ctor'' Pointer [Pointer, Integer 4],
     forwards ''hknpLimitedHingeConstraintData_ctor'' Pointer [Pointer, Integer 4],
     forwards ''hknpMaterial_cctor_other'' Pointer [Pointer, Pointer],
     forwards ''hknpMaterial_ctor'' Pointer [Pointer],
     forwards ''hknpPrismaticConstraintData_ctor'' Pointer [Pointer, Integer 4],
     forwards ''hknpShapeType_cctor'' Pointer [Pointer, Pointer],
     forwards ''hknpSolverInfo_ctor'' Pointer [Pointer],
     forwards ''hknpWheelConstraintData_ctor'' Pointer [Pointer, Integer 4],
     forwards ''vrBodyPartId_cctor'' Pointer [Pointer, Pointer],
     forwards ''vrBodyPropertyKeys_cctor'' Pointer [Pointer, Pointer]]"

definition physics_wrappers_11 :: "wrapper list" where
  "physics_wrappers_11 =
    [forwards ''vrBodyQualityId_cctor'' Pointer [Pointer, Pointer],
     forwards ''vrCallbackVelocityConstraintMotor_ctor'' Pointer [Pointer],
     forwards ''vrChildShapeCollisionMaskProperty_ctor'' Pointer [Pointer],
     forwards ''vrConstraintFlags_cctor'' Pointer [Pointer, Pointer],
     forwards ''vrShapeFlags_cctor'' Pointer [Pointer, Pointer],
     forwards ''vrShapeKey_cctor'' Pointer [Pointer, Pointer],
     forwards ''vrTriggerEventInfo_cctor'' Pointer [Pointer, Pointer],
     forwards ''vrWorldBufferSettings_cctor'' Pointer [Pointer, Pointer],
     forwards ''vrWorldSnapshotExporter_cctor'' Pointer [Pointer, Pointer],
     forwards ''HkConstraintHandler_dtor'' Void [Pointer],
     forwards ''HkDebugProcessManager_dtor'' Void [Pointer]]"

definition physics_wrappers_12 :: "wrapper list" where
  "physics_wrappers_12 =
    [forwards ''HkStatistics_dtor'' Void [Pointer],
     forwards ''hkStringPtr_dtor'' Void [Pointer],
     forwards ''hknpBodyCinfo_dtor'' Void [Pointer],
     forwards ''hknpMaterialDescriptor_dtor'' Void [Pointer],
     forwards ''hknpShapeInstance_dtor'' Void [Pointer],
     forwards ''hknpWorld_dtor'' Void [Pointer],
     forwards ''hknpConnectivityGraph_OperatorEqualEqual'' (Integer 1) [Pointer, Pointer],
     forwards ''Global_OperatorEqualEqual_other'' (Integer 1) [Pointer, Pointer],
     forwards ''Global_OperatorEqualEqual_other_2'' (Integer 1) [Pointer, Integer 1],
     forwards ''Global_OperatorEqualEqual_other_3'' (Integer 1) [Pointer, Pointer],
     forwards ''hknpConnectivityGraph_OperatorExclaimEqual'' (Integer 1) [Pointer, Pointer],
     forwards ''Global_OperatorExclaimEqual'' (Integer 1) [Pointer, Integer 1],
     forwards ''OperatorSubscript'' (Integer 1) [Pointer, Integer 4],
     forwards ''Global_OperatorConversion_void'' (Floating 4) [Pointer],
     forwards ''Global_OperatorConversion_void_2'' Pointer [Pointer],
     forwards ''Global_OperatorConversion_return_value'' Void [Pointer, Pointer]]"

definition physics_wrappers_13 :: "wrapper list" where
  "physics_wrappers_13 =
    [forwards ''OperatorLess'' (Integer 1) [Pointer, Pointer],
     forwards ''ActivateConstrainedBodies'' Void [Pointer, Pointer, Integer 8],
     forwards ''Add'' Void [Pointer, Pointer, Pointer],
     forwards ''Add_1'' Void [Pointer, Pointer, Pointer],
     forwards ''HkSimdTreeGridShape_AddBlocks'' Void [Pointer, Pointer, Integer 4, Pointer],
     forwards ''HkSparseGridShape_AddBlocks'' Void [Pointer, Pointer, Integer 4, Pointer],
     forwards ''AddConstraintHandler'' Pointer [Pointer, Pointer],
     forwards ''AddInstances'' Void [Pointer, Pointer, Pointer],
     forwards ''AddMassChangerModifier'' Pointer [Pointer],
     forwards ''AddOrRemoveReference'' Void [Integer 4, Pointer],
     forwards ''AddToWorld'' Void [Pointer, Integer 4, Integer 4],
     forwards ''HkGridShapeStorage_Allocate'' (Integer 4) [Pointer, Pointer, Integer 4, Pointer],
     forwards ''HkSimdTreeGridShapeStorage_Allocate'' (Integer 4) [Pointer, Pointer],
     forwards ''AllocateBallAndSocketConstraintData'' Pointer [Pointer, Pointer],
     forwards ''AllocateBody'' Void [Pointer, Pointer, Pointer, Integer 8],
     forwards ''AllocateBox'' Pointer [Pointer, Pointer]]"

definition physics_wrappers_14 :: "wrapper list" where
  "physics_wrappers_14 =
    [forwards ''AllocateBreakableCompound'' Pointer [Pointer, Floating 4, Pointer],
     forwards ''AllocateBreakableConstraintData'' Pointer [Floating 4, Pointer],
     forwards ''AllocateCallbackConstraintMotor'' Pointer [Floating 4, Floating 4, Floating 4, Floating 4, Floating 4],
     forwards ''AllocateCallbackVelocityConstraintMotor'' Pointer [Floating 4, Floating 4, Floating 4, Floating 4,
       Floating 4],
     forwards ''AllocateCapsule'' Pointer [Pointer, Pointer, Floating 4, Integer 4],
     forwards ''HkConstraintHandler_AllocateConstraint_return_value_constraintData_world_bodyA_bodyB'' Void [Pointer,
       Pointer, Pointer, Pointer, Integer 8, Integer 8],
     forwards ''HkConstraintHandler_AllocateConstraint_return_value_constraintData_world_bodyA_bodyB_flags'' Void [Pointer,
       Pointer, Pointer, Pointer, Integer 8, Integer 8, Integer 4],
     forwards ''AllocateConvex'' Pointer [Pointer, Pointer],
     forwards ''AllocateCylinder'' Pointer [Pointer, Pointer, Floating 4, Integer 4, Pointer],
     forwards ''AllocateFixedConstraintData'' Pointer [Pointer, Pointer],
     forwards ''AllocateFixedWorldConstraintData'' Pointer [],
     forwards ''AllocateLimitedHingeConstraintData'' Pointer [Pointer],
     forwards ''AllocateLodShape'' Pointer [Pointer, Integer 4],
     forwards ''AllocateMalleableConstraintData'' Pointer [Floating 4, Pointer],
     forwards ''AllocateMassDistributionRef'' Pointer [Pointer],
     forwards ''AllocateMesh'' Pointer [Pointer, Pointer, Pointer]]"

definition physics_wrappers_15 :: "wrapper list" where
  "physics_wrappers_15 =
    [forwards ''AllocateMotion'' Void [Pointer, Pointer, Pointer, Integer 4, Pointer],
     forwards ''AllocateMutableCompound'' Pointer [Integer 4],
     forwards ''AllocateNullCollider'' Pointer [Floating 4],
     forwards ''AllocatePalette'' Pointer [Pointer],
     forwards ''AllocatePositionConstraintMotor'' Pointer [Floating 4, Floating 4, Floating 4, Floating 4, Floating 4,
       Floating 4],
     forwards ''AllocatePrismaticConstraintData'' Pointer [Pointer],
     forwards ''AllocateRagdoll'' Pointer [Pointer],
     forwards ''AllocateSixDegreesOfFreedomConstraintData'' Pointer [Pointer],
     forwards ''AllocateSparseGrid'' Pointer [Floating 4, Floating 4, Integer 4, Integer 4, Floating 4, Pointer],
     forwards ''AllocateSparseGridStorage'' Pointer [],
     forwards ''AllocateSphere'' Pointer [Pointer, Floating 4, Integer 4],
     forwards ''AllocateStaticCompound'' Pointer [Pointer],
     forwards ''AllocateTreeGrid'' Pointer [Pointer],
     forwards ''AllocateTreeGridStorage'' Pointer [],
     forwards ''AllocateVelocityConstraintMotor'' Pointer [Floating 4, Floating 4, Floating 4, Floating 4, Floating 4],
     forwards ''AllocateVoxel'' Pointer [Integer 4, Floating 4, Integer 4]]"

definition physics_wrappers_16 :: "wrapper list" where
  "physics_wrappers_16 =
    [forwards ''AllocateWheel'' Pointer [Pointer, Pointer, Floating 4, Integer 4, Floating 4, Pointer, Pointer],
     forwards ''AllocateWheelConstraintData'' Pointer [Pointer]]"

definition physics_wrappers_17 :: "wrapper list" where
  "physics_wrappers_17 =
    [forwards ''ApplyRagdollBodyImpulse'' Void [Pointer, Integer 4, Pointer, Pointer],
     forwards ''AreBodiesConnected'' (Integer 1) [Pointer, Pointer, Integer 8, Integer 8],
     forwards ''AssignFrom'' Void [Pointer, Pointer],
     forwards ''AssignTo'' Void [Pointer, Pointer],
     forwards ''AttachBodiesToMotion'' Void [Pointer, Pointer, Pointer, Integer 4, Pointer, Integer 4],
     forwards ''BeginRecording'' Void [Pointer, Pointer],
     forwards ''BuildColliderMassProperties'' Void [Pointer, Pointer, Pointer],
     forwards ''Global_CalcAabb'' Void [Pointer, Pointer, Pointer],
     forwards ''CalculateLoddedInfo'' Void [Pointer, Pointer, Pointer, Pointer],
     forwards ''CalculateObb'' Void [Pointer, Pointer, Pointer],
     forwards ''CastAabb'' Void [Pointer, Pointer],
     forwards ''HkColliderQueryDispatcher_CastRay'' Void [Pointer, Pointer],
     forwards ''HkQueryDispatcher_CastRay'' Void [Pointer, Pointer],
     forwards ''HkColliderQueryDispatcher_CastShape'' Void [Pointer, Pointer],
     forwards ''HkQueryDispatcher_CastShape'' Void [Pointer, Pointer],
     forwards ''ClearConstraintsWithExceededForces'' Void [Pointer]]"

definition physics_wrappers_18 :: "wrapper list" where
  "physics_wrappers_18 =
    [forwards ''ClearMessageHandlers'' Void [],
     forwards ''ClearMotionGravity'' Void [Pointer, Integer 4],
     forwards ''ClearRange'' Void [Pointer, Pointer, Pointer],
     forwards ''ClosestPoint'' Void [Pointer, Pointer, Pointer],
     forwards ''CollectActivation'' Void [Pointer, Pointer],
     forwards ''CollectDeactivation'' Void [Pointer, Pointer],
     forwards ''CollectLeaves'' Void [Pointer, Pointer, Integer 4],
     forwards ''CollectMutatedBodies'' Void [Pointer, Pointer],
     forwards ''CollectStatistics'' Void [Pointer, Pointer, Integer 4],
     forwards ''ComputeMassProperties'' Void [Pointer, Integer 4, Pointer],
     forwards ''ConstraintHandler'' Pointer [Pointer],
     forwards ''ContainsChunk'' (Integer 1) [Pointer, Pointer],
     forwards ''CountChildren'' (Integer 4) [Pointer]]"

definition physics_wrappers_19 :: "wrapper list" where
  "physics_wrappers_19 =
    [forwards ''CreateStateManager'' Pointer [Pointer],
     forwards ''DecomposeIntoConvexHulls'' Void [Pointer, Pointer, Pointer, Pointer, Pointer],
     forwards ''DecomposeIntoConvexShapes'' Void [Pointer, Pointer, Pointer, Pointer, Pointer],
     forwards ''DestroyBodyConstraints'' Void [Pointer, Pointer, Integer 8],
     forwards ''DiscardAsyncUpdate'' Void [Pointer],
     forwards ''HkLoadedShapeInfo_Dispose'' Void [Pointer],
     forwards ''HkMaterialLibrary_Dispose'' Void [],
     forwards ''DrawAABB'' Void [Pointer, Integer 4, Integer 4],
     forwards ''DrawArrow'' Void [Pointer, Pointer, Integer 4],
     forwards ''DrawCapsule'' Void [Pointer, Pointer, Floating 4, Integer 4, Integer 4],
     forwards ''DrawLine'' Void [Pointer, Pointer, Integer 4],
     forwards ''DrawShape'' Void [Pointer, Pointer, Integer 4, Integer 4],
     forwards ''DrawSphere'' Void [Pointer, Integer 4, Integer 4],
     forwards ''DrawText'' Void [Pointer, Pointer, Integer 4],
     forwards ''DrawTransformedAABB'' Void [Pointer, Pointer, Integer 4, Integer 4],
     forwards ''Drive'' Void [Pointer, Integer 4, Pointer, Floating 4]]"

definition physics_wrappers_20 :: "wrapper list" where
  "physics_wrappers_20 =
    [forwards ''DriveBodyTo'' Void [Pointer, Integer 8, Pointer, Pointer],
     forwards ''EnableVisualDebugger'' Void [Pointer],
     forwards ''End'' Void [Pointer],
     forwards ''EndRecording'' Void [Pointer],
     forwards ''Error'' Void [Pointer, Integer 4, Pointer],
     forwards ''ExportWorldSnapshot'' (Integer 1) [Pointer, Pointer, Integer 4],
     forwards ''FilterManifolds'' Void [Pointer],
     forwards ''FindByName'' Void [Pointer, Pointer, Pointer],
     forwards ''FindLeaf'' (Integer 1) [Pointer, Integer 4, Pointer, Pointer, Pointer],
     forwards ''FireCollisionCacheRebuildSignal'' Void [Pointer],
     forwards ''FlushCollisionCaches'' Void [Pointer],
     forwards ''FlushLog'' Void [Pointer],
     forwards ''From'' Pointer [Pointer],
     forwards ''GenerateGroups'' Void [Pointer, Pointer],
     forwards ''HkMaterialLibrary_Get'' Void [Pointer, Pointer, Integer 2],
     forwards ''GetActiveBodiesCount'' (Integer 4) [Pointer]]"

definition physics_wrappers_21 :: "wrapper list" where
  "physics_wrappers_21 =
    [forwards ''GetAndAdvance'' (Integer 1) [Pointer],
     forwards ''GetAngle'' (Floating 4) [Pointer],
     forwards ''GetBodiesInfo'' Void [Pointer, Integer 4],
     forwards ''GetBodyConstraintIds'' Void [Pointer, Pointer, Integer 8, Pointer],
     forwards ''GetBodyConstraints'' Void [Pointer, Pointer, Integer 8, Pointer],
     forwards ''HkCharacterController_GetBodyInfo'' Void [Pointer, Pointer],
     forwards ''HkWorld_GetBodyInfo'' Void [Pointer, Integer 8, Pointer],
     forwards ''GetBodyMassProperties'' Void [Pointer, Integer 8, Pointer],
     forwards ''GetBodyMotion'' Void [Pointer, Pointer, Integer 8, Pointer],
     forwards ''GetBodyMotionId'' Void [Pointer, Pointer, Integer 8],
     forwards ''HkRagdoll_GetBodyTransform'' Void [Pointer, Pointer, Integer 4],
     forwards ''HkWorld_GetBodyTransform'' Void [Pointer, Integer 8, Pointer],
     forwards ''GetChild'' (Integer 1) [Pointer, Integer 4, Pointer],
     forwards ''HkSimdTreeGridShape_GetChildShape'' Pointer [Pointer, Integer 4],
     forwards ''HkSparseGridShape_GetChildShape'' Pointer [Pointer, Integer 4],
     forwards ''GetChunkCount'' (Integer 4) [Pointer]]"

definition physics_wrappers_22 :: "wrapper list" where
  "physics_wrappers_22 =
    [forwards ''GetChunkShapes'' Void [Pointer, Pointer, Pointer],
     forwards ''GetColliderMassProperties'' (Integer 1) [Pointer, Pointer],
     forwards ''GetCompoundInstancesCentersAndBounds'' Void [Pointer, Pointer, Pointer],
     forwards ''GetConnectedBodies'' Void [Pointer, Pointer, Integer 8, Pointer],
     forwards ''GetConstraintMotors'' Void [Pointer, Pointer],
     forwards ''GetConstraintsWithExceededForces'' (Integer 4) [Pointer, Pointer],
     forwards ''GetContactInfo'' Pointer [Pointer, Pointer],
     forwards ''GetConvexColliderCentersAndBounds'' Void [Pointer, Integer 4, Pointer, Pointer],
     forwards ''GetConvexGeometry'' Void [Pointer, Pointer, Pointer],
     forwards ''GetDebugGeometry'' Void [Pointer, Pointer, Pointer],
     forwards ''GetFirstManifold'' (Integer 4) [Pointer],
     forwards ''GetHighSkeletonBones'' Void [Pointer, Pointer],
     forwards ''GetInteractionType'' (Integer 1) [Pointer, Pointer, Pointer, Pointer],
     forwards ''HkSimdTreeGridShape_GetLeafTransform'' Void [Pointer, Pointer, Integer 4],
     forwards ''HkSparseGridShape_GetLeafTransform'' Void [Pointer, Pointer, Integer 4],
     forwards ''GetLibrary'' Pointer []]"

definition physics_wrappers_23 :: "wrapper list" where
  "physics_wrappers_23 =
    [forwards ''GetLowBoneToRagdollRigidBody'' Void [Pointer, Pointer],
     forwards ''GetLowSkeletonBones'' Void [Pointer, Pointer],
     forwards ''GetManifolds'' Pointer [Pointer, Pointer],
     forwards ''Global_GetMaterial'' Void [Pointer, Pointer, Integer 8, Integer 4],
     forwards ''HkMaterialLibrary_GetMaterial'' Void [Pointer, Pointer, Integer 2],
     forwards ''GetMotionSharedBodiesInfo'' Void [Pointer, Integer 4],
     forwards ''ConvexShapeArgs_GetMutable_void'' (Integer 4) [Pointer],
     forwards ''ConvexShapeArgs_GetMutable_isMutable'' (Integer 4) [Integer 4],
     forwards ''GetPaletteMaterials'' Pointer [Pointer, Pointer],
     forwards ''GetProcesses'' Void [Pointer, Pointer, Pointer],
     forwards ''GetQuadCount'' (Integer 4) [Pointer],
     forwards ''GetRagdollPose'' Void [Pointer, Pointer, Pointer, Integer 4, Pointer],
     forwards ''GetRagdollRigidBodiesCount'' (Integer 4) [Pointer],
     forwards ''GetRootBodyTransform'' Void [Pointer, Pointer],
     forwards ''HkSimdTreeGridShape_GetShapeChunk'' Void [Pointer, Pointer, Integer 4],
     forwards ''HkSparseGridShape_GetShapeChunk'' Void [Pointer, Pointer, Integer 4]]"

definition physics_wrappers_24 :: "wrapper list" where
  "physics_wrappers_24 =
    [forwards ''HkSimdTreeGridShape_GetShapeCount'' (Integer 4) [Pointer],
     forwards ''HkSparseGridShape_GetShapeCount'' (Integer 4) [Pointer],
     forwards ''Global_GetShapeTag'' (Integer 2) [Pointer, Integer 4],
     forwards ''GetState'' (Integer 1) [Pointer],
     forwards ''GetTotalAllocatedMemory'' (Integer 8) [],
     forwards ''Global_GetTypeName'' Pointer [Pointer],
     forwards ''GetVelocityAtPoint'' Void [Pointer, Integer 8, Pointer, Pointer],
     forwards ''GetVertexCount'' (Integer 4) [Pointer],
     forwards ''HkAddReference'' Void [Pointer],
     forwards ''HkGetFloatingPointControlWord'' (Integer 4) []]"

definition physics_wrappers_25 :: "wrapper list" where
  "physics_wrappers_25 =
    [forwards ''HkQuit'' Void [],
     forwards ''HkRefPtrGet'' Pointer [Pointer],
     forwards ''HkRefPtrSet'' Void [Pointer, Pointer],
     forwards ''HkRemoveReference'' Void [Pointer],
     forwards ''HkSetDenormalFlushing'' Void [Integer 4],
     forwards ''IncludePoint'' Void [Pointer, Pointer],
     forwards ''Initialize'' Void [],
     forwards ''IsBreached'' (Integer 4) [Pointer],
     forwards ''HkSimdTreeGridShape_IsChunkShape'' (Integer 1) [Pointer, Integer 4],
     forwards ''HkSparseGridShape_IsChunkShape'' (Integer 1) [Pointer, Integer 4],
     forwards ''IsDebuggerConnected'' (Integer 1) [Pointer],
     forwards ''IsDestructionRelated'' (Integer 1) [Pointer, Pointer, Pointer],
     forwards ''HkContactEventCollectorModifier_IsEnabled'' (Integer 1) [Pointer],
     forwards ''IsFlagSet'' (Integer 1) [Pointer, Integer 1],
     forwards ''IsFloating'' (Integer 1) [Pointer],
     forwards ''HkManifoldGroup_IsIgnored'' (Integer 1) [Pointer]]"

definition physics_wrappers_26 :: "wrapper list" where
  "physics_wrappers_26 =
    [forwards ''HkManifoldInfo_IsIgnored'' (Integer 1) [Pointer],
     forwards ''HkSimdTreeGridShape_IsShapeIndexValid'' (Integer 1) [Pointer, Integer 4],
     forwards ''HkSparseGridShape_IsShapeIndexValid'' (Integer 1) [Pointer, Integer 4],
     forwards ''IsSolved'' (Integer 1) [Pointer],
     forwards ''HkManifoldGroup_IsStaticB'' (Integer 1) [Pointer],
     forwards ''HkManifoldInfo_IsStaticB'' (Integer 1) [Pointer],
     forwards ''IsSubscribedToMutation'' (Integer 1) [Pointer, Pointer],
     forwards ''LoadFromHktScene'' Pointer [Pointer, Integer 4],
     forwards ''Log'' Void [Pointer, Integer 4, Integer 1, Pointer],
     forwards ''LogWorld'' Void [Pointer],
     forwards ''Migrate'' Void [Pointer, Pointer],
     forwards ''MutateBox'' Void [Pointer, Pointer],
     forwards ''NearestPointsToCollider'' Void [Pointer, Pointer],
     forwards ''HkColliderQueryDispatcher_NearestPointsToPoint'' Void [Pointer, Pointer],
     forwards ''HkQueryDispatcher_NearestPointsToPoint'' Void [Pointer, Pointer],
     forwards ''NearestPointsToShape'' Void [Pointer, Pointer]]"

definition physics_wrappers_27 :: "wrapper list" where
  "physics_wrappers_27 =
    [forwards ''NotifyShapeMutated'' Void [Pointer],
     forwards ''OptimizeLod'' Void [Pointer, Floating 4, Pointer, Integer 1],
     forwards ''PostProcessConstraintsMigrations'' Void [Pointer, Pointer, Pointer, Pointer, Integer 4],
     \<lparr>w_name = ''PredictPointVelocityUsingAngularVelocity'', w_result = Void, w_params = [Pointer, Pointer,
       Struct 16, Struct 16, Pointer], w_pointer_result = Void, w_pointer_params = [Pointer, Pointer, Pointer,
       Pointer, Pointer], w_arguments = [Param 0, Param 1, Address_of 2, Address_of 3, Param 4]\<rparr>,
     forwards ''PrepareAsyncRangeUpdate'' Pointer [Pointer, Pointer, Pointer, Pointer, Pointer],
     forwards ''ProcessConstraintsMigrations'' Void [Pointer, Pointer],
     forwards ''ProcessNativeAssertFail'' Void [Pointer],
     forwards ''HkColliderQueryDispatcher_QueryAabb'' Void [Pointer, Pointer],
     forwards ''HkQueryDispatcher_QueryAabb'' Void [Pointer, Pointer],
     forwards ''QueryGeometry'' Void [Pointer, Pointer, Pointer],
     forwards ''QueryLeaves'' Void [Pointer, Pointer, Pointer],
     forwards ''HkSimdTreeGridShape_RegisterFunctions'' Void [],
     forwards ''HkSparseGridShape_RegisterFunctions'' Void [],
     forwards ''RegisterShape'' Void [Pointer, Pointer, Pointer]]"

definition physics_wrappers_28 :: "wrapper list" where
  "physics_wrappers_28 =
    [forwards ''Remap'' Void [Pointer, Pointer, Pointer, Pointer],
     forwards ''Remove'' Void [Pointer, Integer 2],
     forwards ''RemoveFromWorld'' Void [Pointer, Integer 4],
     forwards ''RemoveInstances'' Void [Pointer, Pointer],
     forwards ''RemoveInternalReferences'' Void [Pointer],
     forwards ''HkSimdTreeGridShape_RemoveShapes'' Void [Pointer, Pointer, Integer 4],
     forwards ''HkSparseGridShape_RemoveShapes'' Void [Pointer, Pointer, Integer 4],
     forwards ''HkMaterialLibrary_Reset'' Void [Pointer],
     forwards ''RestoreBodiesMotionType'' Void [Pointer, Pointer, Pointer, Pointer, Integer 4, Pointer, Integer 4],
     forwards ''SetAngle'' Void [Pointer, Floating 4],
     forwards ''SetAngularMotorSettings'' Void [Pointer, Pointer],
     forwards ''SetAssociatedTransform'' Void [Pointer, Pointer],
     forwards ''SetBodiesEntityLayerIndex'' Void [Pointer, Pointer, Integer 4, Integer 4],
     forwards ''SetBodiesInfo'' Void [Pointer, Integer 4, Pointer],
     forwards ''SetBodiesMotion'' Void [Pointer, Pointer, Integer 4, Integer 4],
     forwards ''SetBodiesMotionType'' Void [Pointer, Pointer, Pointer, Pointer, Integer 4, Pointer, Integer 4]]"

definition physics_wrappers_29 :: "wrapper list" where
  "physics_wrappers_29 =
    [forwards ''SetBodyBreakingLayer'' Void [Pointer, Integer 8, Integer 1],
     forwards ''SetBodyEntityLayerIndex'' Void [Pointer, Integer 8, Integer 4]]"

definition physics_wrappers_30 :: "wrapper list" where
  "physics_wrappers_30 =
    [forwards ''HkWorld_SetBodyInfo'' Void [Pointer, Integer 8, Pointer, Integer 4],
     forwards ''SetBodyMinimumSpeedOverride'' Void [Pointer, Integer 8, Pointer],
     forwards ''SetBodyToMotionTransform'' Void [Pointer, Integer 8, Pointer, Integer 4],
     forwards ''SetBreached'' Void [Pointer],
     forwards ''SetBreakHandler'' Void [Pointer, Pointer],
     forwards ''HkSimdTreeGridShape_SetChunkShapes'' Void [Pointer, Pointer, Pointer, Integer 4, Pointer, Integer 4],
     forwards ''HkSparseGridShape_SetChunkShapes'' Void [Pointer, Pointer, Pointer, Integer 4, Pointer, Integer 4]]"

definition physics_wrappers_31 :: "wrapper list" where
  "physics_wrappers_31 =
    [forwards ''SetColliderMassProperties'' Void [Pointer, Pointer],
     forwards ''SetCollisionEventsEnabled'' Void [Pointer, Integer 4],
     forwards ''SetConstraintGroupCinfo'' Void [Pointer, Pointer],
     forwards ''HkDebugProcessManager_SetDebuggedWorld'' Void [Pointer, Pointer],
     forwards ''HkSession_SetDebuggedWorld'' Void [Pointer, Pointer],
     forwards ''SetEnableCollisionsBetweenLayers'' Void [Pointer, Pointer],
     forwards ''SetEntityLayerIndex'' Void [Pointer, Integer 4]]"

definition physics_wrappers_32 :: "wrapper list" where
  "physics_wrappers_32 =
    [forwards ''SetFlag'' Void [Pointer, Integer 1],
     forwards ''SetGravity'' Void [Pointer, Pointer],
     forwards ''SetGravityMultiplier'' Void [Pointer, Floating 4],
     forwards ''HkManifoldGroup_SetIgnored'' Void [Pointer],
     forwards ''HkManifoldInfo_SetIgnored'' Void [Pointer, Integer 1],
     forwards ''SetInfo'' Void [Pointer, Integer 8, Integer 8, Integer 4],
     forwards ''SetMassChangerModifier'' Void [Pointer, Pointer],
     forwards ''SetMessageState'' Void [Pointer, Pointer, Integer 4, Integer 4],
     forwards ''SetMotionGravity'' Void [Pointer, Integer 4, Pointer, Integer 4],
     forwards ''HkWorld_SetMotionMassProperties_motion_massProperties_worldTransform'' Void [Pointer, Pointer,
       Pointer],
     forwards ''HkWorld_SetMotionMassProperties_world_motion_massProperties_previousInertiaTransform'' Void [Pointer,
       Integer 4, Pointer, Pointer],
     forwards ''SetMotionsGravity'' Void [Pointer, Pointer, Integer 4],
     forwards ''SetMotorEnabled'' Void [Pointer, Integer 4],
     forwards ''SetMotorEnabled_1'' Void [Pointer, Integer 4],
     forwards ''SetMotorEnabled_2'' Void [Pointer, Integer 4],
     forwards ''SetNotifyDeletion'' Void [Pointer, Integer 4]]"

definition physics_wrappers_33 :: "wrapper list" where
  "physics_wrappers_33 =
    [forwards ''SetPostProjectionEnabled'' Void [Pointer, Integer 4],
     forwards ''SetProcessEnabled'' Void [Pointer, Integer 4, Integer 4],
     forwards ''SetShapesViewerOptions'' Void [Pointer, Integer 4, Pointer],
     forwards ''SetSolved'' Void [Pointer],
     forwards ''SetSolverParameters'' Void [Pointer, Integer 4, Integer 4, Floating 4, Floating 4],
     forwards ''SetStaticBodiesInfo'' Void [Pointer, Integer 4],
     forwards ''SetTargetPose'' Void [Pointer, Pointer, Integer 4],
     forwards ''SetUnbreached'' Void [Pointer],
     forwards ''SimplifyGeometry'' Void [Pointer, Integer 1],
     forwards ''StepCollide'' Void [Pointer, Floating 4],
     forwards ''StepDebugDraw'' Void [Pointer, Floating 4],
     forwards ''StepSolve'' Void [Pointer, Floating 4],
     forwards ''StepVDB'' Void [Pointer, Floating 4]]"

definition physics_wrappers_34 :: "wrapper list" where
  "physics_wrappers_34 =
    [forwards ''SubscribeToWorldEvents'' Void [Pointer, Pointer],
     forwards ''SwitchState'' Void [Pointer, Integer 1],
     forwards ''ToHavokSpace'' Void [Pointer, Pointer, Pointer],
     forwards ''ToHavokSpace_2'' Void [Pointer, Pointer, Pointer],
     forwards ''ToHavokSpace_1'' Void [Pointer, Pointer, Pointer],
     forwards ''ToHavokSpaceD_1'' Void [Pointer, Pointer, Pointer],
     forwards ''ToHavokSpaceD'' Void [Pointer, Pointer, Pointer],
     forwards ''ToVRageSpaceD'' Void [Pointer, Pointer, Pointer],
     forwards ''ToVRageSpaceD_1'' Void [Pointer, Pointer, Pointer],
     forwards ''ToggleGravity'' Void [Pointer, Integer 4],
     forwards ''TriggerTestMessage'' Void [Integer 1, Integer 4],
     forwards ''TriggerWarningTypes'' Void [],
     forwards ''TryGetBodyBreakingLayer'' (Integer 1) [Pointer, Integer 8, Pointer],
     forwards ''TryGetBodyEntityLayerIndex'' (Integer 1) [Pointer, Integer 8, Pointer],
     forwards ''TryGetMotionGravity'' (Integer 1) [Pointer, Integer 4, Pointer],
     forwards ''TryMoveBodies'' (Integer 1) [Pointer, Pointer, Pointer, Pointer, Integer 4, Integer 4, Pointer]]"

definition physics_wrappers_35 :: "wrapper list" where
  "physics_wrappers_35 =
    [forwards ''UnregisterShape'' Void [Pointer, Pointer]]"

definition physics_wrappers_36 :: "wrapper list" where
  "physics_wrappers_36 =
    [forwards ''HkManifoldInfo_Update'' Void [Pointer, Pointer, Pointer, Pointer, Pointer],
     forwards ''HkMaterialLibrary_Update'' Void [Pointer, Integer 2, Pointer],
     forwards ''UpdateAndDraw'' Void [Pointer, Floating 4],
     forwards ''UpdateBodyCOMCenteredBoundingRadius'' Void [Pointer, Integer 8],
     forwards ''UpdateCamera'' Void [Pointer, Pointer],
     forwards ''HkWorld_UpdateDataDerivedFromMotionAndShape'' Void [Pointer, Pointer, Integer 1],
     forwards ''UpdateInstances'' Void [Pointer, Pointer, Pointer],
     forwards ''UpdateMotionTransforms'' Void [Pointer, Pointer],
     forwards ''UpdateMotorsParameters'' Void [Pointer, Pointer],
     forwards ''UpdatePostProjectionSettings'' Void [Pointer, Pointer],
     forwards ''HkVoxelShape_UpdateRange_updateData'' Void [Pointer, Pointer],
     forwards ''HkVoxelShape_UpdateRange_min_max_content_materials'' Void [Pointer, Pointer, Pointer, Pointer,
       Pointer],
     forwards ''HkSimdTreeGridShape_UpdateShapes'' Void [Pointer, Pointer, Pointer, Integer 4],
     forwards ''HkSparseGridShape_UpdateShapes'' Void [Pointer, Pointer, Pointer, Integer 4],
     forwards ''WriteDebug'' Void [Pointer, Pointer],
     forwards ''applyAngularImpulse'' Void [Pointer, Pointer]]"

definition physics_wrappers_37 :: "wrapper list" where
  "physics_wrappers_37 =
    [forwards ''applyLinearImpulse'' Void [Pointer, Pointer],
     forwards ''applyPointImpulse'' Void [Pointer, Pointer, Pointer],
     forwards ''getAngularVelocity'' Void [Pointer, Pointer],
     forwards ''getPointVelocity'' Void [Pointer, Pointer, Pointer],
     forwards ''GetPointVelocityUsingVelocity'' Void [Pointer, Pointer, Pointer, Pointer, Pointer],
     forwards ''setAngularVelocity'' Void [Pointer, Pointer],
     forwards ''SetShapeNoReduceCurrentRefCount'' Void [Pointer, Pointer],
     forwards ''hknpBody_SetTranslation'' Void [Pointer, Pointer],
     forwards ''AccessAabb'' Pointer [Pointer],
     forwards ''accessConstraintData'' Pointer [Pointer, Integer 8],
     forwards ''AccessData'' Pointer [Pointer],
     forwards ''AccessDataUnchecked'' Pointer [Pointer],
     forwards ''AccessHull'' Pointer [Pointer],
     forwards ''activateBodiesInAabb'' Void [Pointer, Pointer, Integer 8],
     forwards ''addBodies'' Void [Pointer, Pointer, Integer 4, Integer 4, Integer 4],
     forwards ''addBody'' Void [Pointer, Integer 8, Integer 4, Integer 4]]"

definition physics_wrappers_38 :: "wrapper list" where
  "physics_wrappers_38 =
    [forwards ''addConstraint'' Void [Pointer, Integer 8, Integer 4],
     forwards ''hknpMaterialPalette_AddEntry_return_value_material'' Void [Pointer, Pointer, Pointer],
     forwards ''hknpMaterialPalette_AddEntry_return_value_name'' Void [Pointer, Pointer, Pointer],
     forwards ''AddEntry_1'' Void [Pointer, Pointer, Integer 2],
     forwards ''AddExtended'' Void [Pointer, Pointer, Integer 2],
     forwards ''hknp6DofConstraintData_AfterReflectNew'' Void [Pointer],
     forwards ''hknpMotion_AfterReflectNew'' Void [Pointer],
     forwards ''hknpShape_AfterReflectNew'' Void [Pointer],
     forwards ''hknpConvexShape_AfterReflectNewImpl'' Void [Pointer],
     forwards ''hknpLodShape_AfterReflectNewImpl'' Void [Pointer],
     forwards ''AllocateAttachedBody'' Void [Pointer, Pointer, Pointer, Integer 8, Integer 8],
     forwards ''allocateBodies'' Void [Pointer, Pointer, Pointer, Pointer],
     forwards ''allocateConstraints'' Void [Pointer, Pointer, Pointer, Pointer],
     forwards ''allocateMaterial_1'' Void [Pointer, Pointer, Pointer],
     forwards ''allocateMaterial'' Void [Pointer, Pointer, Pointer],
     forwards ''AllowRotationAroundAxis'' Void [Pointer, Integer 4]]"

definition physics_wrappers_39 :: "wrapper list" where
  "physics_wrappers_39 =
    [forwards ''AnchorInstances'' Void [Pointer, Pointer],
     forwards ''ApplyAngularImpulse'' Void [Pointer, Pointer],
     forwards ''applyBodyAngularImpulse'' Void [Pointer, Integer 8, Pointer, Integer 4],
     forwards ''applyBodyImpulseAt'' Void [Pointer, Integer 8, Pointer, Pointer, Integer 4],
     forwards ''applyBodyLinearImpulse'' Void [Pointer, Integer 8, Pointer, Integer 4],
     forwards ''ApplyLinearImpulse'' Void [Pointer, Pointer],
     forwards ''ApplyPointImpulse'' Void [Pointer, Pointer, Pointer],
     forwards ''ApplySpeedLimits'' Void [Pointer],
     forwards ''AreConsistencyChecksEnabled'' (Integer 4) [Pointer],
     forwards ''AsConvexPolytopeShape'' Pointer [Pointer],
     forwards ''AsConvexShape'' Pointer [Pointer],
     forwards ''AsPreciseTransform'' Void [Pointer, Pointer],
     forwards ''AsQTransform'' Void [Pointer, Pointer],
     forwards ''AsQsTransform'' Void [Pointer, Pointer],
     forwards ''attachBodies'' Void [Pointer, Integer 8, Pointer, Integer 4, Integer 4],
     forwards ''BreakIntoDisjointPieces'' (Integer 4) [Pointer, Pointer, Pointer]]"

definition physics_wrappers_40 :: "wrapper list" where
  "physics_wrappers_40 =
    [forwards ''BuildEffMassMatrixAt'' Void [Pointer, Pointer, Pointer],
     forwards ''BuildMassProperties'' Void [Pointer, Pointer, Pointer],
     forwards ''BuildSurfaceGeometry'' Void [Pointer, Pointer, Pointer, Pointer],
     forwards ''CString'' Pointer [Pointer],
     forwards ''hknpShape_CalcAabb'' Void [Pointer, Pointer, Pointer],
     forwards ''hknpConvexShape_CalcAabbNoRadius_aabbOut'' Void [Pointer, Pointer],
     forwards ''hknpConvexShape_CalcAabbNoRadius_transform_aabbOut'' Void [Pointer, Pointer, Pointer],
     forwards ''CalcKineticEnergy'' Void [Pointer, Pointer],
     forwards ''CalcMassFromVolume'' (Floating 4) [Pointer, Floating 4],
     forwards ''CalcMinAngleBetweenFaces'' Void [Pointer, Pointer, Pointer],
     forwards ''CalcProjectedInverseMass'' Void [Pointer, Pointer, Pointer, Pointer],
     forwards ''hknpBody_CalcShapeAabb_aabbOut'' Void [Pointer, Pointer],
     forwards ''hknpBody_CalcShapeAabb_transform_aabbOut'' Void [Pointer, Pointer, Pointer],
     forwards ''CalculateAabb'' Void [Pointer, Pointer],
     forwards ''CalculatePartIdValue'' (Integer 4) [Integer 1, Integer 4],
     forwards ''CanHaveChildShapes'' (Integer 1) [Pointer]]"

definition physics_wrappers_41 :: "wrapper list" where
  "physics_wrappers_41 =
    [forwards ''hknpMotion_CheckConsistency'' Void [Pointer],
     forwards ''hknpShape_CheckConsistency'' Void [Pointer],
     forwards ''hknpWorld_CheckConsistency'' Void [Pointer],
     forwards ''CheckNotInSimulation'' Void [Pointer, Integer 4],
     forwards ''Global_Clear_void'' Void [Pointer],
     forwards ''Global_Clear_void_2'' Void [Pointer],
     forwards ''Global_Clear_void_3'' Void [Pointer],
     forwards ''VrManifoldInertiaMultiplier_Clear'' Void [Pointer, Integer 8],
     forwards ''hkStringPtr_Clear'' Void [Pointer],
     forwards ''clearBodyProperty'' Void [Pointer, Integer 8, Integer 2],
     forwards ''clearConstraintProperty'' Void [Pointer, Integer 8, Integer 2],
     forwards ''CloneShapeShallow'' Pointer [Pointer],
     forwards ''CombineMaximumAllowedPenetration'' (Floating 4) [Pointer, Pointer],
     forwards ''CompareTo'' (Integer 4) [Pointer, Pointer],
     forwards ''Contains'' (Integer 4) [Pointer, Pointer],
     forwards ''CopyRuntime'' Void [Pointer, Pointer]]"

definition physics_wrappers_42 :: "wrapper list" where
  "physics_wrappers_42 =
    [forwards ''DecompressBodyAabb'' Void [Pointer, Pointer, Pointer],
     forwards ''DefragmentInactiveCacheStreams'' Void [Pointer],
     forwards ''DeleteAllCaches'' Void [Pointer],
     forwards ''destroyBodies'' Void [Pointer, Pointer, Integer 4, Integer 4],
     forwards ''destroyConstraints'' Void [Pointer, Pointer, Integer 4, Integer 4],
     forwards ''destroyMaterials'' Void [Pointer, Pointer, Integer 4],
     forwards ''destroyMotions'' Void [Pointer, Pointer, Integer 4],
     forwards ''detachBodies'' Void [Pointer, Pointer, Integer 4, Integer 4],
     forwards ''DisableAllEdges'' Void [Pointer],
     forwards ''disableBodyFlags'' Void [Pointer, Integer 8, Integer 8, Integer 4, Integer 4],
     forwards ''disableConstraintFlags'' Void [Pointer, Integer 8, Integer 2, Integer 4],
     forwards ''DisableEdge'' Void [Pointer, Integer 4],
     forwards ''DisableInstanceEdges'' Void [Pointer, Integer 4],
     forwards ''DisableLimits'' Void [Pointer],
     forwards ''DisjointEdge'' Void [Pointer, Integer 4],
     forwards ''DisjointNodeEdges'' Void [Pointer, Integer 4]]"

definition physics_wrappers_43 :: "wrapper list" where
  "physics_wrappers_43 =
    [forwards ''DisjointSets'' Pointer [Pointer],
     forwards ''DisposeSets'' Void [Pointer],
     forwards ''enableBodyFlags'' Void [Pointer, Integer 8, Integer 8, Integer 4, Integer 4],
     forwards ''enableConstraintFlags'' Void [Pointer, Integer 8, Integer 2, Integer 4],
     forwards ''EnableDirectSolver'' Void [Pointer, Pointer, Integer 4],
     forwards ''EnableDirectSolverImpl'' Void [Pointer, Pointer, Integer 4],
     forwards ''EndsWith'' (Integer 4) [Pointer, Pointer],
     forwards ''EnsureIsExportable'' Void [Pointer],
     forwards ''EstimateNumShapeKeys'' (Integer 4) [Pointer],
     forwards ''FinalizeMutation'' Void [Pointer, Integer 4],
     forwards ''FromDensity'' Void [Pointer, Floating 4, Floating 4, Integer 4],
     forwards ''FromMass'' Void [Pointer, Floating 4, Floating 4, Integer 4],
     forwards ''Global_Get'' (Integer 4) [Pointer, Integer 4],
     forwards ''VrManifoldInertiaMultiplier_Get'' Pointer [Pointer, Integer 8],
     forwards ''hknpBody_GetAabb'' Pointer [Pointer],
     forwards ''hknpCompoundShape_GetAabb'' Void [Pointer, Pointer]]"

definition physics_wrappers_44 :: "wrapper list" where
  "physics_wrappers_44 =
    [forwards ''GetActivationPriority'' (Integer 1) [Pointer],
     forwards ''getAirDensity'' (Floating 4) [Pointer],
     forwards ''GetAngularLimitsDampFactor'' (Floating 4) [Pointer],
     forwards ''GetAngularLimitsTauFactor'' (Floating 4) [Pointer],
     forwards ''GetAngularSLERPMotor'' Pointer [Pointer],
     forwards ''GetAngularSpeedLimit'' (Floating 4) [Pointer],
     forwards ''GetAngularTarget'' Void [Pointer, Pointer],
     forwards ''GetAngularVelocity'' Void [Pointer, Pointer],
     forwards ''GetAngularVelocityLocal'' Void [Pointer, Pointer],
     forwards ''GetAxisFriction'' (Floating 4) [Pointer, Integer 4],
     forwards ''GetAxisLimitDampFactor'' (Floating 4) [Pointer, Integer 4],
     forwards ''GetAxisLimitTauFactor'' (Floating 4) [Pointer, Integer 4],
     forwards ''GetAxisMaxLimit'' (Floating 4) [Pointer, Integer 4],
     forwards ''GetAxisMinLimit'' (Floating 4) [Pointer, Integer 4],
     forwards ''GetAxisMode'' (Integer 4) [Pointer, Integer 4],
     forwards ''GetAxisMotor'' Pointer [Pointer, Integer 4]]"

definition physics_wrappers_45 :: "wrapper list" where
  "physics_wrappers_45 =
    [forwards ''GetBitfieldSolverResultsForComputingAcceleration'' (Integer 4) [Pointer],
     forwards ''GetBody'' Pointer [Pointer, Pointer],
     forwards ''getBody'' Pointer [Pointer, Integer 8],
     forwards ''getBodyAabb'' Void [Pointer, Integer 8, Pointer],
     forwards ''getBodyActivationControl'' (Integer 4) [Pointer, Integer 8],
     forwards ''getBodyActivationState'' (Integer 4) [Pointer, Integer 8],
     forwards ''getBodyAngularVelocity'' Void [Pointer, Integer 8, Pointer],
     forwards ''getBodyCapacity'' (Integer 4) [Pointer],
     forwards ''GetBodyCinfo'' Void [Pointer, Integer 8, Pointer],
     forwards ''GetBodyFromMotionRotation'' Pointer [Pointer],
     forwards ''GetBodyFromMotionTransform'' Void [Pointer, Pointer],
     forwards ''GetBodyId'' Void [Pointer, Pointer, Integer 4],
     forwards ''GetBodyIdA'' Void [Pointer, Pointer],
     forwards ''GetBodyIdB'' Void [Pointer, Pointer],
     forwards ''getBodyLinearVelocity'' Void [Pointer, Pointer, Integer 8],
     forwards ''getBodyMass'' (Floating 4) [Pointer, Integer 8]]"

definition physics_wrappers_46 :: "wrapper list" where
  "physics_wrappers_46 =
    [forwards ''getBodyName'' Pointer [Pointer, Integer 8],
     forwards ''getBodyPropertyImpl'' Pointer [Pointer, Integer 8, Integer 2, Integer 8],
     forwards ''getBodyTransform'' Pointer [Pointer, Integer 8],
     forwards ''getBodyVelocity'' Void [Pointer, Integer 8, Pointer, Pointer],
     forwards ''GetBoundingRadius'' (Floating 4) [Pointer],
     forwards ''GetBoundsLod'' (Integer 1) [Pointer],
     forwards ''GetCachedBoundingRadius'' Void [Pointer, Pointer],
     forwards ''GetCachedMaxAabb'' Void [Pointer, Pointer],
     forwards ''GetCapacity'' (Integer 4) [Pointer],
     forwards ''GetCenterOfMassInBodySpace'' Void [Pointer, Pointer],
     forwards ''GetCenterOfMassInWorld'' Pointer [Pointer],
     forwards ''GetCollisionLookAheadDistance'' (Floating 4) [Pointer],
     forwards ''GetComCenteredAngularExpansionRadius'' (Floating 4) [Pointer],
     forwards ''GetComCenteredBoundingRadius'' (Floating 4) [Pointer],
     forwards ''GetCombinedDynamicFriction'' Void [Pointer, Pointer, Pointer],
     forwards ''GetCombinedRestitution'' Void [Pointer, Pointer, Pointer]]"

definition physics_wrappers_47 :: "wrapper list" where
  "physics_wrappers_47 =
    [forwards ''GetCombinedStaticFriction'' Void [Pointer, Pointer, Pointer],
     forwards ''GetCombinedWeldingTolerance'' Void [Pointer, Pointer, Pointer],
     \<lparr>w_name = ''GetCombinedWeldingToleranceAndMaxPenetration'', w_result = Void, w_params = [Pointer, Pointer,
       Pointer, Struct 16], w_pointer_result = Void, w_pointer_params = [Pointer, Pointer, Pointer, Pointer],
       w_arguments = [Param 0, Param 1, Param 2, Address_of 3]\<rparr>,
     forwards ''GetCompoundShape'' Pointer [Pointer],
     forwards ''GetConnectivity'' Pointer [Pointer],
     forwards ''GetConnectivityMemoryUsage'' (Integer 4) [Pointer],
     forwards ''getConstraint'' Pointer [Pointer, Integer 8],
     forwards ''getConstraintCapacity'' (Integer 4) [Pointer],
     forwards ''getConstraintGroupCapacity'' (Integer 4) [Pointer],
     forwards ''GetConstraintInfo'' Void [Pointer, Pointer],
     forwards ''getConstraintName'' Pointer [Pointer, Integer 8],
     forwards ''getConstraintPropertyImpl'' Pointer [Pointer, Integer 8, Integer 2, Integer 8],
     forwards ''GetConstraintRhsFactorInv'' Void [Pointer, Pointer],
     forwards ''GetConvexRadius'' (Floating 4) [Pointer],
     forwards ''GetConvexRadiusFactorForAabb'' (Floating 4) [Pointer],
     forwards ''GetConvexRadiusForAabb'' (Floating 4) [Pointer]]"

definition physics_wrappers_48 :: "wrapper list" where
  "physics_wrappers_48 =
    [forwards ''GetData'' Pointer [Pointer],
     forwards ''GetDispatchType'' (Integer 4) [Pointer],
     forwards ''GetDouble'' (Floating 8) [Pointer],
     forwards ''GetEndVertex'' (Integer 1) [Pointer, Pointer],
     forwards ''GetEstimatedNumShapeKeys'' (Integer 4) [Pointer],
     forwards ''GetFaceInfo'' Void [Pointer, Integer 4, Pointer, Pointer],
     forwards ''GetFinalGravity'' Void [Pointer, Pointer, Pointer],
     forwards ''GetFixedAngularDampFactor'' (Floating 4) [Pointer],
     forwards ''GetFixedAngularTauFactor'' (Floating 4) [Pointer],
     forwards ''GetFixedLinearDampFactor'' (Floating 4) [Pointer],
     forwards ''GetFixedLinearTauFactor'' (Floating 4) [Pointer],
     forwards ''hknpShape_GetFlags'' Void [Pointer, Pointer],
     forwards ''hknpShapeInstance_GetFlags'' Void [Pointer, Pointer],
     forwards ''GetFloat32'' (Floating 4) [Pointer],
     forwards ''GetFractures'' Pointer [Pointer, Pointer],
     forwards ''GetFullTransform'' Void [Pointer, Pointer]]"

definition physics_wrappers_49 :: "wrapper list" where
  "physics_wrappers_49 =
    [forwards ''GetFullTransformInverse'' Void [Pointer, Pointer],
     forwards ''getGravity'' Pointer [Pointer],
     forwards ''GetGravityFactor'' (Floating 4) [Pointer],
     forwards ''GetHighValue'' (Floating 4) [],
     forwards ''GetHingeConstraintParameters'' Void [Pointer, Pointer],
     forwards ''GetHull'' Pointer [Pointer],
     forwards ''GetIdAndIndex'' Void [Pointer, Pointer],
     forwards ''GetIdentity'' Pointer [],
     forwards ''GetInertiaLocal'' Void [Pointer, Pointer],
     forwards ''GetInertiaStabilizationFactor'' Void [Pointer, Pointer, Pointer],
     forwards ''GetInertiaWorld'' Void [Pointer, Pointer],
     forwards ''GetInfo'' Pointer [Pointer, Integer 8],
     forwards ''GetInstance'' Pointer [Pointer, Integer 4],
     forwards ''GetInstanceAabb'' Void [Pointer, Integer 4, Pointer],
     forwards ''GetInstanceVelocities'' Void [Pointer, Pointer],
     forwards ''GetInstances'' Pointer [Pointer]]"

definition physics_wrappers_50 :: "wrapper list" where
  "physics_wrappers_50 =
    [forwards ''GetIntSizeFromValue'' (Integer 1) [Integer 4],
     forwards ''GetInverseInertiaLocal_1'' Void [Pointer, Pointer],
     forwards ''GetInverseInertiaLocal'' Void [Pointer, Pointer],
     forwards ''GetInverseInertiaWorld'' Void [Pointer, Pointer],
     forwards ''GetInverseMass'' (Floating 4) [Pointer],
     forwards ''GetLeafId'' (Integer 4) [Pointer],
     forwards ''GetLength'' (Integer 4) [Pointer],
     forwards ''GetLinAndAngLocalVelocity'' Void [Pointer, Pointer, Pointer],
     forwards ''GetLinearDistanceProjectionAxis'' (Integer 4) [Pointer],
     forwards ''GetLinearMotorTargetPosition'' Void [Pointer, Pointer],
     forwards ''GetLinearSpeedLimit'' (Floating 4) [Pointer],
     forwards ''GetLinearVelocity'' Void [Pointer, Pointer],
     forwards ''GetLinkEdge'' Void [Pointer, Pointer, Pointer],
     forwards ''GetLookAheadDistance'' Void [Pointer, Pointer],
     forwards ''GetMainBody'' Pointer [Pointer, Integer 8],
     forwards ''GetMass'' (Floating 4) [Pointer]]"

definition physics_wrappers_51 :: "wrapper list" where
  "physics_wrappers_51 =
    [forwards ''GetMassOrNegativeDensity'' (Floating 4) [Pointer],
     forwards ''GetMassProperties'' Void [Pointer, Pointer, Pointer],
     forwards ''GetMassPropertiesLod'' (Integer 1) [Pointer],
     forwards ''GetMaxAllowedPenetration'' (Floating 4) [Pointer],
     forwards ''GetMaxAngularLimit'' (Floating 4) [Pointer],
     forwards ''GetMaxDepenetrationSpeed'' (Floating 4) [Pointer],
     forwards ''GetMaxDistanceForExtraStaticSolve'' (Floating 4) [Pointer],
     forwards ''GetMaxEstimatedNumShapeKeys'' (Integer 4) [Pointer],
     forwards ''GetMaxFrictionForce'' (Floating 4) [Pointer],
     forwards ''hknp6DofConstraintData_GetMaxFrictionTorque'' (Floating 4) [Pointer],
     forwards ''hknpLimitedHingeConstraintData_GetMaxFrictionTorque'' (Floating 4) [Pointer],
     forwards ''hknpWheelConstraintData_GetMaxFrictionTorque'' (Floating 4) [Pointer],
     forwards ''GetMaxLinearDistanceLimit'' (Floating 4) [Pointer],
     forwards ''GetMaxLinearLimit'' (Floating 4) [Pointer],
     forwards ''GetMaxRotationPerStep'' Void [Pointer, Pointer],
     forwards ''GetMaxTimDistance'' (Integer 2) [Pointer]]"

definition physics_wrappers_52 :: "wrapper list" where
  "physics_wrappers_52 =
    [forwards ''GetMaxTimDistanceFromRotation'' (Integer 2) [Pointer],
     forwards ''GetMaxValue'' (Floating 4) [],
     forwards ''GetMaximumAngularImpulse'' (Floating 4) [Pointer],
     forwards ''GetMaximumLinearImpulse'' (Floating 4) [Pointer],
     forwards ''GetMaximumPenetration'' (Floating 4) [Pointer],
     forwards ''GetMinAngularLimit'' (Floating 4) [Pointer],
     forwards ''GetMinLinearDistanceLimit'' (Floating 4) [Pointer],
     forwards ''GetMinLinearLimit'' (Floating 4) [Pointer],
     forwards ''GetMinValue'' (Floating 4) [],
     forwards ''getMotion'' Pointer [Pointer, Integer 4],
     forwards ''GetMotionType'' (Integer 4) [Pointer],
     forwards ''hknpLimitedHingeConstraintData_GetMotor'' Pointer [Pointer],
     forwards ''hknpPrismaticConstraintData_GetMotor'' Pointer [Pointer],
     forwards ''hknpWheelConstraintData_GetMotor'' Pointer [Pointer],
     forwards ''hknpLimitedHingeConstraintData_GetMotorTargetAngle'' (Floating 4) [Pointer],
     forwards ''hknpWheelConstraintData_GetMotorTargetAngle'' (Floating 4) [Pointer]]"

definition physics_wrappers_53 :: "wrapper list" where
  "physics_wrappers_53 =
    [forwards ''GetMotorTargetPosition'' (Floating 4) [Pointer],
     forwards ''getName'' Pointer [Pointer],
     forwards ''Global_GetNext_element'' (Integer 4) [Pointer],
     forwards ''Global_GetNext_element_2'' (Integer 4) [Pointer],
     forwards ''hknpShapeInstance_GetNext'' (Integer 4) [Pointer],
     forwards ''GetNextEdge'' Void [Pointer, Pointer, Pointer],
     forwards ''Global_GetNextIndex_material'' (Integer 4) [Pointer],
     forwards ''Global_GetNextIndex_motion'' (Integer 4) [Pointer],
     forwards ''getNumBodies'' (Integer 4) [Pointer],
     forwards ''getNumConstraintGroups'' (Integer 4) [Pointer],
     forwards ''getNumConstraints'' (Integer 4) [Pointer],
     forwards ''GetNumInstances'' (Integer 4) [Pointer],
     forwards ''GetNumLods'' (Integer 4) [Pointer],
     forwards ''GetNumNonDirectSolverAtoms'' (Integer 4) [Pointer],
     forwards ''GetNumNonDirectlySolvedAtoms'' (Integer 4) [Pointer],
     forwards ''getNumParticlesColliders'' (Integer 4) [Pointer]]"

definition physics_wrappers_54 :: "wrapper list" where
  "physics_wrappers_54 =
    [forwards ''GetNumShapeKeyBits'' (Integer 1) [Pointer],
     forwards ''GetNumSolverElemTemps'' (Integer 1) [Pointer],
     forwards ''GetNumVertices'' (Integer 1) [Pointer],
     forwards ''GetNumberOfConvexVertices'' (Integer 4) [Pointer],
     forwards ''GetNumberOfFaces'' (Integer 4) [Pointer],
     forwards ''GetNumberOfSupportSpheres'' (Integer 4) [Pointer],
     forwards ''GetOrientation'' Void [Pointer, Pointer, Pointer],
     forwards ''GetOtherBody'' Void [Pointer, Pointer, Integer 8],
     forwards ''getParticlesColliderCapacity'' (Integer 4) [Pointer],
     forwards ''GetPointVelocity'' Void [Pointer, Pointer, Pointer],
     forwards ''GetPreciseTransform'' Pointer [Pointer],
     forwards ''GetPrevEdge'' Void [Pointer, Pointer, Pointer],
     forwards ''GetPreviousStepAngularVelocityLocal'' Void [Pointer, Pointer],
     forwards ''GetPreviousStepLinearVelocity'' Void [Pointer, Pointer],
     forwards ''GetPreviousStepVelocity'' Void [Pointer, Pointer, Pointer],
     forwards ''GetPrismaticConstraintParameters'' Void [Pointer, Pointer]]"

definition physics_wrappers_55 :: "wrapper list" where
  "physics_wrappers_55 =
    [forwards ''GetProjectedPointVelocity'' Void [Pointer, Pointer, Pointer, Pointer],
     forwards ''GetReal'' (Floating 4) [Pointer],
     forwards ''GetRhsFactorInv'' Void [Pointer, Pointer],
     forwards ''GetRotation'' Pointer [Pointer],
     forwards ''GetRuntimeInfo'' Void [Pointer, Integer 4, Pointer],
     forwards ''GetScaleMode'' (Integer 4) [Pointer],
     forwards ''GetSdfTransform'' Void [Pointer, Pointer],
     forwards ''hknpBody_GetShape'' Pointer [Pointer],
     forwards ''hknpShapeInstance_GetShape'' Pointer [Pointer],
     forwards ''GetShapeAtLod'' Pointer [Pointer, Integer 1],
     forwards ''hknpShapeInstance_GetShapeTag'' (Integer 2) [Pointer],
     forwards ''GetShapeTagAt'' (Integer 2) [Pointer, Pointer],
     forwards ''GetShapeTagCodecInfo'' (Integer 4) [Pointer],
     forwards ''GetSignedDistanceContacts'' Void [Pointer, Pointer, Pointer],
     forwards ''GetSignedDistances'' Void [Pointer, Pointer, Pointer],
     forwards ''GetSize'' (Integer 4) [Pointer]]"

definition physics_wrappers_56 :: "wrapper list" where
  "physics_wrappers_56 =
    [forwards ''GetSolverInfo'' Pointer [Pointer],
     forwards ''getSolverInfoPtr'' Pointer [Pointer],
     forwards ''GetStartVertex'' (Integer 1) [Pointer, Pointer],
     forwards ''GetStepCount'' (Integer 4) [Pointer],
     forwards ''Global_GetStorage'' Pointer [Pointer],
     forwards ''hkHalf16_GetStorage'' (Integer 2) [Pointer],
     forwards ''GetSumAngular'' Void [Pointer, Pointer],
     forwards ''GetSumLinear'' Void [Pointer, Pointer],
     forwards ''GetSupportSpheres'' Pointer [Pointer, Pointer, Integer 4, Pointer],
     forwards ''GetSupportingFace'' (Integer 4) [Pointer, Pointer],
     forwards ''GetSuspensionDampingFactor'' (Floating 4) [Pointer],
     forwards ''GetSuspensionMaxLimit'' (Floating 4) [Pointer],
     forwards ''GetSuspensionMinLimit'' (Floating 4) [Pointer],
     forwards ''GetSuspensionStrengthFactor'' (Floating 4) [Pointer],
     forwards ''hknpBody_GetTransform'' Pointer [Pointer],
     forwards ''hknpShapeInstance_GetTransform'' Void [Pointer, Pointer]]"

definition physics_wrappers_57 :: "wrapper list" where
  "physics_wrappers_57 =
    [forwards ''hknpShape_GetTypeName'' Pointer [Pointer],
     forwards ''GetUserData'' (Integer 8) [Pointer],
     forwards ''GetViolationAccelerationThreshold'' (Floating 4) [Pointer],
     forwards ''GetWrappedType'' (Integer 4) [Pointer],
     forwards ''HackBreakableCompoundShapeFunctions'' Void [],
     forwards ''hasBodyProperty'' (Integer 1) [Pointer, Integer 8, Integer 2],
     forwards ''HasConnectivity'' (Integer 1) [Pointer],
     forwards ''hasConstraintProperty'' (Integer 1) [Pointer, Integer 8, Integer 2],
     forwards ''HasDoublePrecisionRayCast'' (Integer 1) [Pointer],
     forwards ''HasInfiniteMassAndInertia'' (Integer 1) [Pointer],
     forwards ''HasRuntime'' (Integer 4) [Pointer],
     forwards ''InitAsSphere'' Void [Pointer, Floating 4, Floating 4],
     \<lparr>w_name = ''Integrate'', w_result = Void, w_params = [Pointer, Struct 16, Integer 4],
       w_pointer_result = Void, w_pointer_params = [Pointer, Pointer, Integer 4], w_arguments = [Param 0,
       Address_of 1, Param 2]\<rparr>,
     forwards ''Invalid'' Void [Pointer],
     forwards ''IsActive'' (Integer 1) [Pointer],
     forwards ''IsAddedToBroadphase'' (Integer 4) [Pointer]]"

definition physics_wrappers_58 :: "wrapper list" where
  "physics_wrappers_58 =
    [forwards ''hknpBody_IsAddedToWorld'' (Integer 4) [Pointer],
     forwards ''hknpConstraint_IsAddedToWorld'' (Integer 4) [Pointer],
     forwards ''IsAngularMotorInSLERPMode'' (Integer 1) [Pointer],
     forwards ''IsAutoLodMesh'' (Integer 1) [Pointer],
     forwards ''IsAxisMotorEnabled'' (Integer 1) [Pointer, Integer 4],
     forwards ''isBodyAdded'' (Integer 1) [Pointer, Integer 8],
     forwards ''isBodyValid'' (Integer 1) [Pointer, Integer 8],
     forwards ''isConstraintAdded'' (Integer 1) [Pointer, Integer 8],
     forwards ''isConstraintValid'' (Integer 1) [Pointer, Integer 8],
     forwards ''IsDeactivationEnabled'' (Integer 1) [Pointer],
     forwards ''IsDirectSolverEnabled'' (Integer 1) [Pointer],
     forwards ''IsDynamic'' (Integer 1) [Pointer],
     forwards ''IsEdgeEnabled'' (Integer 1) [Pointer, Integer 4],
     forwards ''Global_IsEmpty_material'' (Integer 1) [Pointer],
     forwards ''Global_IsEmpty_motion'' (Integer 1) [Pointer],
     forwards ''Global_IsEmpty_void'' (Integer 1) [Pointer]]"

definition physics_wrappers_59 :: "wrapper list" where
  "physics_wrappers_59 =
    [forwards ''Global_IsEmpty_element'' (Integer 4) [Pointer],
     forwards ''Global_IsEmpty_element_2'' (Integer 4) [Pointer],
     forwards ''hknpShapeInstance_IsEmpty'' (Integer 4) [Pointer],
     forwards ''hknpShapeInstance_IsEnabled'' (Integer 1) [Pointer],
     forwards ''IsEqualTo'' (Integer 1) [Pointer, Pointer],
     forwards ''IsExportable'' (Integer 4) [Pointer],
     forwards ''IsExtraStaticSolveSpeedThresholdSet'' (Integer 1) [Pointer],
     forwards ''IsFrictionEnabled'' (Integer 1) [Pointer],
     forwards ''IsImmediate'' (Integer 4) [Pointer],
     forwards ''IsInactive'' (Integer 1) [Pointer],
     forwards ''IsInstanceAnchored'' (Integer 1) [Pointer, Integer 4],
     forwards ''IsInstanceIdValid'' (Integer 1) [Pointer, Integer 4],
     forwards ''IsKeyframed'' (Integer 1) [Pointer],
     forwards ''IsMax'' (Integer 1) [Pointer],
     forwards ''IsMin'' (Integer 1) [Pointer],
     forwards ''hknpLimitedHingeConstraintData_IsMotorEnabled'' (Integer 1) [Pointer]]"

definition physics_wrappers_60 :: "wrapper list" where
  "physics_wrappers_60 =
    [forwards ''hknpPrismaticConstraintData_IsMotorEnabled'' (Integer 1) [Pointer],
     forwards ''hknpWheelConstraintData_IsMotorEnabled'' (Integer 1) [Pointer],
     forwards ''hknpConstraintData_IsMutable'' (Integer 1) [Pointer],
     forwards ''hknpShape_IsMutable'' (Integer 1) [Pointer],
     forwards ''IsNegativeOne'' (Integer 1) [Pointer],
     forwards ''IsNullOrEmpty'' (Integer 1) [Pointer],
     forwards ''IsOk'' (Integer 1) [Pointer],
     forwards ''IsOne'' (Integer 1) [Pointer],
     forwards ''IsPermanent'' (Integer 4) [Pointer],
     forwards ''IsStatic'' (Integer 1) [Pointer],
     forwards ''IsStaticOrKeyframed'' (Integer 1) [Pointer],
     forwards ''hkDiagonalizedMassProperties_IsValid'' (Integer 1) [Pointer, Floating 4],
     forwards ''hknpBody_IsValid'' (Integer 1) [Pointer],
     forwards ''hknpBodyIdAndIndex_IsValid'' (Integer 1) [Pointer],
     forwards ''hknpConstraint_IsValid'' (Integer 1) [Pointer],
     forwards ''hknpConstraintData_IsValid'' (Integer 1) [Pointer]]"

definition physics_wrappers_61 :: "wrapper list" where
  "physics_wrappers_61 =
    [forwards ''hknpMotion_IsValid'' (Integer 1) [Pointer],
     forwards ''IsZero'' (Integer 1) [Pointer],
     forwards ''LoadSerializedShapes'' (Integer 1) [Pointer, Integer 4, Pointer, Integer 4],
     forwards ''LoadShapesFromGLTFScene'' (Integer 1) [Pointer, Integer 4, Pointer, Pointer],
     forwards ''LoadShapesFromHktScene'' (Integer 1) [Pointer, Integer 4, Pointer],
     forwards ''MakeBox'' Void [Pointer, Pointer, Floating 4, Pointer, Integer 4],
     forwards ''MakeBoxFromHalfExtents'' Void [Pointer, Pointer, Floating 4, Pointer, Integer 4],
     forwards ''HkBreakableCompoundShapeManipulator_MakeBreakableCompoundShapePiece'' Pointer [Pointer, Pointer],
     forwards ''hknpBreakableCompoundShape_MakeBreakableCompoundShapePiece'' Void [Pointer, Pointer, Pointer],
     forwards ''MakeCapsule'' Void [Pointer, Pointer, Pointer, Floating 4, Integer 4],
     forwards ''MakeCylinder'' Void [Pointer, Pointer, Pointer, Floating 4, Integer 4, Floating 4, Integer 4],
     forwards ''MakeDummy'' Void [Pointer, Integer 4],
     forwards ''MakeDummyFromAabb'' Void [Pointer, Pointer, Integer 4],
     forwards ''MakeDummyFromHalfExtents'' Void [Pointer, Pointer, Integer 4],
     forwards ''MakeDummyFromSphere'' Void [Pointer, Pointer, Floating 4, Integer 4],
     forwards ''MakeMasked'' Void [Pointer, Pointer]]"

definition physics_wrappers_62 :: "wrapper list" where
  "physics_wrappers_62 =
    [forwards ''hknpShape_MakeSphere_return_value_center_radius_mutability'' Void [Pointer, Pointer, Floating 4,
       Integer 4],
     forwards ''hknpShape_MakeSphere_return_value_radius_mutability'' Void [Pointer, Floating 4, Integer 4],
     forwards ''MakeTransformed'' Void [Pointer, Pointer, Pointer, Pointer, Integer 4, Integer 4],
     forwards ''MarkForRead'' Void [Pointer],
     forwards ''MarkForWrite'' Void [Pointer],
     forwards ''MergeWith'' Void [Pointer, Pointer],
     forwards ''optimizeBroadPhase'' Void [Pointer],
     forwards ''Global_Pack'' Void [Pointer, Pointer, Pointer],
     forwards ''hkDiagonalizedMassProperties_Pack'' Void [Pointer, Pointer],
     forwards ''predictBodyTransform'' Void [Pointer, Integer 8, Floating 4, Pointer],
     forwards ''Printf'' Void [Pointer, Pointer],
     forwards ''Rebuild'' Void [Pointer],
     forwards ''rebuildBodyCollisionCaches'' Void [Pointer, Integer 8, Integer 4],
     forwards ''RebuildMassPropertiesTree'' Void [Pointer],
     forwards ''rebuildMotionMassProperties'' Void [Pointer, Integer 4],
     \<lparr>w_name = ''ReduceKineticEnergy'', w_result = Void, w_params = [Pointer, Struct 16],
       w_pointer_result = Void, w_pointer_params = [Pointer, Pointer], w_arguments = [Param 0, Address_of 1]\<rparr>]"

definition physics_wrappers_63 :: "wrapper list" where
  "physics_wrappers_63 =
    [\<lparr>w_name = ''Reintegrate'', w_result = Void, w_params = [Pointer, Struct 16, Struct 16],
       w_pointer_result = Void, w_pointer_params = [Pointer, Pointer, Pointer], w_arguments = [Param 0, Address_of 1,
       Address_of 2]\<rparr>,
     forwards ''reintegrateMotion'' Void [Pointer, Integer 4, Floating 4],
     forwards ''ReleaseShapeInfo'' Void [Pointer],
     forwards ''removeBodies'' Void [Pointer, Pointer, Integer 4, Integer 4],
     forwards ''removeConstraint'' Void [Pointer, Integer 8, Integer 4],
     forwards ''hkDiagonalizedMassProperties_Reset'' Void [Pointer],
     forwards ''hknpMotion_Reset'' Void [Pointer],
     forwards ''ResetRuntime'' Void [Pointer],
     forwards ''SerializeShapes'' Void [Pointer, Integer 4, Pointer, Integer 4],
     forwards ''Global_Set'' Void [Pointer, Integer 4, Integer 4],
     forwards ''HkPackedWorldTransform_Set'' Void [Pointer, Pointer],
     forwards ''VrManifoldInertiaMultiplier_Set'' Void [Pointer, Integer 8, Pointer],
     forwards ''hkStringPtr_Set'' Void [Pointer, Pointer, Integer 4],
     forwards ''SetActivationPriority'' Void [Pointer, Integer 1],
     forwards ''setAirDensity'' Void [Pointer, Floating 4],
     forwards ''hknp6DofConstraintData_SetAngularLimitsDampFactor'' Void [Pointer, Floating 4]]"

definition physics_wrappers_64 :: "wrapper list" where
  "physics_wrappers_64 =
    [forwards ''hknpLimitedHingeConstraintData_SetAngularLimitsDampFactor'' Void [Pointer, Floating 4],
     forwards ''hknp6DofConstraintData_SetAngularLimitsTauFactor'' Void [Pointer, Floating 4],
     forwards ''hknpLimitedHingeConstraintData_SetAngularLimitsTauFactor'' Void [Pointer, Floating 4],
     forwards ''SetAngularMotorsSLERPMode'' Void [Pointer, Integer 4],
     forwards ''SetAngularSLERPMotor'' Void [Pointer, Pointer],
     forwards ''SetAngularSpeedLimit'' Void [Pointer, Floating 4],
     forwards ''SetAngularTarget'' Void [Pointer, Pointer],
     forwards ''SetAngularVelocity'' Void [Pointer, Pointer],
     forwards ''SetAngularVelocityLocal'' Void [Pointer, Pointer],
     forwards ''SetAsDebugInstance'' Void [Pointer],
     forwards ''SetAxisFriction'' Void [Pointer, Integer 4, Floating 4],
     forwards ''SetAxisLimitDampFactor'' Void [Pointer, Integer 4, Floating 4],
     forwards ''SetAxisLimitTauFactor'' Void [Pointer, Integer 4, Floating 4],
     forwards ''SetAxisLimits'' Void [Pointer, Integer 4, Floating 4, Floating 4],
     forwards ''SetAxisMode'' Void [Pointer, Integer 4, Integer 4],
     forwards ''SetAxisMotor'' Void [Pointer, Integer 4, Pointer]]"

definition physics_wrappers_65 :: "wrapper list" where
  "physics_wrappers_65 =
    [forwards ''SetBitsAndSize'' Void [Pointer, Integer 1, Integer 4],
     forwards ''setBodyActivationControl'' Void [Pointer, Integer 8, Integer 4],
     forwards ''setBodyActivationPriority'' Void [Pointer, Integer 8, Integer 1],
     forwards ''setBodyActivationState'' Void [Pointer, Integer 8, Integer 4],
     forwards ''setBodyAngularDamping'' Void [Pointer, Integer 8, Floating 4, Integer 4],
     forwards ''setBodyAngularVelocity'' Void [Pointer, Integer 8, Pointer, Integer 4],
     forwards ''setBodyCollisionFilterInfo'' Void [Pointer, Integer 8, Integer 4, Integer 4, Integer 4],
     forwards ''setBodyCollisionLookAheadDistance'' Void [Pointer, Integer 8, Floating 4, Integer 4],
     forwards ''setBodyDensity'' Void [Pointer, Integer 8, Floating 4, Integer 4],
     forwards ''SetBodyFromMotionTransform'' Void [Pointer, Pointer, Pointer],
     forwards ''setBodyGravityFactor'' Void [Pointer, Integer 8, Floating 4, Integer 4],
     forwards ''setBodyLinearDamping'' Void [Pointer, Integer 8, Floating 4, Integer 4],
     forwards ''setBodyLinearVelocity'' Void [Pointer, Integer 8, Pointer, Integer 4],
     forwards ''setBodyMass'' Void [Pointer, Integer 8, Floating 4, Integer 4],
     forwards ''setBodyMaterial'' Void [Pointer, Integer 8, Integer 2, Integer 4, Integer 4],
     forwards ''setBodyMaxAngularSpeed'' Void [Pointer, Integer 8, Floating 4, Integer 4]]"

definition physics_wrappers_66 :: "wrapper list" where
  "physics_wrappers_66 =
    [forwards ''setBodyMaxDepenetrationSpeed'' Void [Pointer, Integer 8, Floating 4, Integer 4],
     forwards ''setBodyMaxLinearSpeed'' Void [Pointer, Integer 8, Floating 4, Integer 4],
     forwards ''setBodyMotion'' Void [Pointer, Integer 8, Integer 4, Integer 4, Integer 4],
     forwards ''setBodyMotionProperties'' Void [Pointer, Integer 8, Pointer, Integer 4],
     forwards ''setBodyMotionType'' Void [Pointer, Integer 8, Integer 4, Integer 4, Integer 4],
     forwards ''SetBodyNotToCollideWith'' Void [Pointer, Integer 4, Integer 8],
     forwards ''setBodyOrientation'' Void [Pointer, Integer 8, Pointer, Integer 4, Integer 4],
     forwards ''setBodyPosition'' Void [Pointer, Integer 8, Pointer, Integer 4],
     forwards ''setBodyPropertyImpl'' Void [Pointer, Integer 8, Integer 2, Pointer, Integer 8],
     forwards ''setBodyQuality'' Void [Pointer, Integer 8, Integer 1, Integer 4, Integer 4],
     forwards ''setBodyShape'' Void [Pointer, Integer 8, Pointer, Integer 4],
     forwards ''setBodyVelocity'' Void [Pointer, Integer 8, Pointer, Pointer, Integer 4],
     forwards ''setBodyVelocityAt'' Void [Pointer, Integer 8, Pointer, Pointer, Integer 4],
     forwards ''SetBoundsLod'' Void [Pointer, Integer 1],
     forwards ''SetCenterOfMassInBodySpace'' Void [Pointer, Pointer, Pointer],
     forwards ''SetCenterOfMassInWorld'' Void [Pointer, Pointer]]"

definition physics_wrappers_67 :: "wrapper list" where
  "physics_wrappers_67 =
    [forwards ''SetCollisionLookAheadDistance'' Void [Pointer, Floating 4],
     forwards ''SetConesForSwingLimitsEnabled'' Void [Pointer, Integer 4],
     forwards ''SetConsistencyChecksEnabled'' Void [Pointer, Integer 4],
     forwards ''setConstraintPropertyImpl'' Void [Pointer, Integer 8, Integer 2, Pointer, Integer 8],
     forwards ''SetConvexRadius'' Void [Pointer, Floating 4],
     forwards ''SetDensity'' Void [Pointer, Floating 4],
     forwards ''Global_SetEmpty_material'' Void [Pointer],
     forwards ''Global_SetEmpty_motion'' Void [Pointer],
     forwards ''Global_SetEmpty_element_next'' Void [Pointer, Integer 4],
     forwards ''Global_SetEmpty_element_next_2'' Void [Pointer, Integer 4],
     forwards ''hknpShapeInstance_SetEmpty'' Void [Pointer, Integer 4],
     forwards ''SetEnabled'' Void [Pointer, Integer 4],
     forwards ''SetFixedAngularDampFactor'' Void [Pointer, Floating 4],
     forwards ''SetFixedAngularTauFactor'' Void [Pointer, Floating 4],
     forwards ''SetFixedLinearDampFactor'' Void [Pointer, Floating 4],
     forwards ''SetFixedLinearTauFactor'' Void [Pointer, Floating 4]]"

definition physics_wrappers_68 :: "wrapper list" where
  "physics_wrappers_68 =
    [forwards ''SetFlags'' Void [Pointer, Integer 2],
     forwards ''SetFrictionEnabled'' Void [Pointer, Integer 4],
     forwards ''setGravity'' Void [Pointer, Pointer],
     forwards ''SetHigh'' Void [Pointer],
     forwards ''SetHingeConstraintParameters'' Void [Pointer, Pointer],
     forwards ''hknp6DofConstraintData_SetInBodySpace'' Void [Pointer, Pointer, Pointer, Pointer, Pointer, Pointer,
       Pointer],
     forwards ''hknpBallAndSocketConstraintData_SetInBodySpace'' Void [Pointer, Pointer, Pointer],
     forwards ''hknpFixedConstraintData_SetInBodySpace'' Void [Pointer, Pointer, Pointer],
     forwards ''hknpLimitedHingeConstraintData_SetInBodySpace'' Void [Pointer, Pointer, Pointer, Pointer, Pointer,
       Pointer, Pointer],
     forwards ''SetInWorldSpace'' Void [Pointer, Pointer, Pointer, Pointer, Pointer],
     forwards ''SetInertiaStabilizationFactor'' Void [Pointer, Pointer, Floating 4],
     forwards ''SetInfiniteInertiaAndMass'' Void [Pointer],
     forwards ''SetInstanceShapeTag'' Void [Pointer, Integer 4, Integer 2],
     forwards ''SetInverseInertia'' Void [Pointer, Pointer],
     forwards ''SetInverseInertiaAndMass'' Void [Pointer, Pointer],
     forwards ''SetInverseMass'' Void [Pointer, Floating 4]]"

definition physics_wrappers_69 :: "wrapper list" where
  "physics_wrappers_69 =
    [forwards ''SetLeafId'' Void [Pointer, Integer 4],
     forwards ''SetLinAndAngLocalVelUnchecked'' Void [Pointer, Pointer, Pointer],
     forwards ''SetLinAndAngLocalVelocity'' Void [Pointer, Pointer, Pointer],
     forwards ''SetLinearDistanceDampFactor'' Void [Pointer, Floating 4],
     forwards ''SetLinearDistanceLimitEnabled'' Void [Pointer, Integer 4],
     forwards ''SetLinearDistanceLimits'' Void [Pointer, Floating 4, Floating 4],
     forwards ''SetLinearDistanceStrength'' Void [Pointer, Floating 4, Floating 4],
     forwards ''SetLinearDistanceTauFactor'' Void [Pointer, Floating 4],
     forwards ''SetLinearLimitsDampFactor'' Void [Pointer, Floating 4],
     forwards ''SetLinearLimitsTauFactor'' Void [Pointer, Floating 4],
     forwards ''SetLinearMotorEnabled'' Void [Pointer, Integer 4, Integer 4],
     forwards ''SetLinearMotorTargetPosition'' Void [Pointer, Pointer],
     forwards ''SetLinearSpeedLimit'' Void [Pointer, Floating 4],
     forwards ''SetLinearVelocity'' Void [Pointer, Pointer],
     forwards ''SetLocalConstraintFrameAOrientation'' Void [Pointer, Pointer, Pointer],
     forwards ''SetLocalConstraintFrameAPosition'' Void [Pointer, Pointer]]"

definition physics_wrappers_70 :: "wrapper list" where
  "physics_wrappers_70 =
    [forwards ''SetLocalConstraintFrameBOrientation'' Void [Pointer, Pointer, Pointer],
     forwards ''SetLocalConstraintFrameBPosition'' Void [Pointer, Pointer],
     forwards ''SetLookAheadDistance'' Void [Pointer, Floating 4],
     forwards ''SetMassAndScaleInertia'' Void [Pointer, Floating 4],
     forwards ''SetMassProperties'' Void [Pointer, Pointer],
     forwards ''SetMassProperties_1'' Void [Pointer, Pointer],
     forwards ''SetMassPropertiesLod'' Void [Pointer, Integer 1],
     forwards ''SetMassPropertiesWorldSpace'' Void [Pointer, Pointer],
     forwards ''SetMax'' Void [Pointer],
     forwards ''SetMaxAngularLimit'' Void [Pointer, Floating 4],
     forwards ''SetMaxDepenetrationSpeed'' Void [Pointer, Floating 4],
     forwards ''SetMaxDistanceForExtraStaticSolve'' Void [Pointer, Floating 4],
     forwards ''SetMaxFrictionForce'' Void [Pointer, Floating 4],
     forwards ''hknp6DofConstraintData_SetMaxFrictionTorque'' Void [Pointer, Floating 4],
     forwards ''hknpLimitedHingeConstraintData_SetMaxFrictionTorque'' Void [Pointer, Floating 4],
     forwards ''hknpWheelConstraintData_SetMaxFrictionTorque'' Void [Pointer, Floating 4]]"

definition physics_wrappers_71 :: "wrapper list" where
  "physics_wrappers_71 =
    [forwards ''SetMaxLinearLimit'' Void [Pointer, Floating 4],
     forwards ''SetMaxRotationPerStep'' Void [Pointer, Floating 4],
     forwards ''hknpBody_SetMaxTimDistance'' Void [Pointer, Integer 2],
     forwards ''hknpSolverInfo_SetMaxTimDistance'' Void [Pointer, Floating 4],
     forwards ''SetMaxTimDistanceFromRotation'' Void [Pointer, Integer 2],
     forwards ''SetMaximumAngularImpulse'' Void [Pointer, Floating 4],
     forwards ''SetMaximumLinearImpulse'' Void [Pointer, Floating 4],
     forwards ''SetMaximumPenetration'' Void [Pointer, Floating 4],
     forwards ''SetMin'' Void [Pointer],
     forwards ''SetMinAngularLimit'' Void [Pointer, Floating 4],
     forwards ''SetMinLinearLimit'' Void [Pointer, Floating 4],
     forwards ''setMotionCenterOfMass'' Void [Pointer, Integer 4, Pointer],
     forwards ''setMotionInertia'' Void [Pointer, Integer 4, Pointer],
     forwards ''hknpLimitedHingeConstraintData_SetMotor'' Void [Pointer, Pointer],
     forwards ''hknpPrismaticConstraintData_SetMotor'' Void [Pointer, Pointer],
     forwards ''hknpWheelConstraintData_SetMotor'' Void [Pointer, Pointer]]"

definition physics_wrappers_72 :: "wrapper list" where
  "physics_wrappers_72 =
    [forwards ''hknpLimitedHingeConstraintData_SetMotorTargetAngle'' Void [Pointer, Floating 4],
     forwards ''hknpWheelConstraintData_SetMotorTargetAngle'' Void [Pointer, Floating 4],
     forwards ''SetMotorTargetPosition'' Void [Pointer, Floating 4],
     forwards ''setName'' Void [Pointer, Pointer],
     forwards ''SetNegativeOne'' Void [Pointer],
     forwards ''Global_SetNextIndex_material_index'' Void [Pointer, Integer 4],
     forwards ''Global_SetNextIndex_motion_index'' Void [Pointer, Integer 4],
     forwards ''SetNumNonDirectSolverAtoms'' Void [Pointer, Integer 4],
     forwards ''SetNumSolverElemTemps'' Void [Pointer, Integer 4],
     forwards ''SetNumVertices'' Void [Pointer, Integer 1],
     forwards ''SetOne'' Void [Pointer],
     forwards ''SetPointVelocity'' Void [Pointer, Pointer, Pointer],
     forwards ''SetPointerAligned'' Void [Pointer, Pointer],
     forwards ''SetPreciseTransform'' Void [Pointer, Pointer],
     forwards ''SetPreviousStepAngularVelocityLocal'' Void [Pointer, Pointer],
     forwards ''SetPreviousStepLinearVelocity'' Void [Pointer, Pointer]]"

definition physics_wrappers_73 :: "wrapper list" where
  "physics_wrappers_73 =
    [forwards ''SetPreviousStepVelocity'' Void [Pointer, Pointer, Pointer],
     forwards ''SetPrismaticConstraintParameters'' Void [Pointer, Pointer],
     forwards ''SetRotation'' Void [Pointer, Pointer],
     forwards ''SetScale'' Void [Pointer, Pointer, Integer 4],
     forwards ''hknpBody_SetShape'' Void [Pointer, Pointer],
     forwards ''hknpShapeInstance_SetShape'' Void [Pointer, Pointer],
     forwards ''SetShapeAtLod'' Void [Pointer, Pointer, Integer 1, Pointer],
     forwards ''SetShapeTag'' Void [Pointer, Integer 2],
     forwards ''SetShapeTagCodecInfo'' Void [Pointer, Integer 4],
     forwards ''SetSpaceSplitterWeightMultiplier'' Void [Pointer, Integer 1],
     forwards ''SetSteeringAngle'' Void [Pointer, Floating 4],
     forwards ''SetStepInfo'' Void [Pointer, Pointer, Floating 4, Floating 4, Integer 4, Integer 4],
     forwards ''SetStorage'' Void [Pointer, Integer 2],
     forwards ''SetSuspensionDampingFactor'' Void [Pointer, Floating 4],
     forwards ''SetSuspensionMaxLimit'' Void [Pointer, Floating 4],
     forwards ''SetSuspensionMinLimit'' Void [Pointer, Floating 4]]"

definition physics_wrappers_74 :: "wrapper list" where
  "physics_wrappers_74 =
    [forwards ''SetSuspensionStrengthFactor'' Void [Pointer, Floating 4],
     forwards ''SetTauAndDamping'' Void [Pointer, Floating 4, Floating 4],
     forwards ''hknpBody_SetTransform'' Void [Pointer, Pointer],
     forwards ''hknpShapeInstance_SetTransform'' Void [Pointer, Pointer],
     forwards ''SetTransformComAndCollisionTolerance'' Void [Pointer, Pointer],
     forwards ''hknpShapeInstance_SetTranslation'' Void [Pointer, Pointer],
     forwards ''SetUserData'' Void [Pointer, Integer 8],
     forwards ''SetVelocityTarget'' Void [Pointer, Floating 4],
     forwards ''SetViolationAccelerationThreshold'' Void [Pointer, Floating 4],
     forwards ''Global_SetZero_void'' Void [Pointer],
     forwards ''Global_SetZero_void_2'' Void [Pointer],
     forwards ''hkHalf16_SetZero'' Void [Pointer],
     forwards ''shiftWorld'' Void [Pointer, Pointer],
     forwards ''StartsWith'' (Integer 4) [Pointer, Pointer],
     forwards ''StepTrace'' Void [Pointer],
     forwards ''Store_1'' Void [Pointer, Pointer]]"

definition physics_wrappers_75 :: "wrapper list" where
  "physics_wrappers_75 =
    [forwards ''Store'' Void [Pointer, Pointer],
     forwards ''Swap'' Void [Pointer, Pointer],
     forwards ''SyncStaticBodyFromMotionTransform'' Void [Pointer],
     forwards ''SynchronizeFlags'' Void [Pointer],
     forwards ''ToString'' Pointer [Integer 4],
     forwards ''hknpConstraint_Transform_transformation'' Void [Pointer, Pointer],
     forwards ''hknpConstraint_Transform_data_transformation_bodyA_bodyB'' Void [Pointer, Pointer, Integer 8,
       Integer 8],
     forwards ''TransformShape'' Pointer [Pointer, Pointer, Floating 4, Integer 4],
     forwards ''TryGetRootShape'' Pointer [Pointer],
     forwards ''TypeToString'' Pointer [Integer 4],
     forwards ''UnanchorAllInstances'' Void [Pointer],
     forwards ''UnanchorInstance'' Void [Pointer, Integer 4],
     forwards ''UnmarkForRead'' Void [Pointer],
     forwards ''UnmarkForWrite'' Void [Pointer],
     forwards ''Global_Unpack'' Void [Pointer, Pointer, Pointer],
     forwards ''hkDiagonalizedMassProperties_Unpack'' Void [Pointer, Pointer]]"

definition physics_wrappers_76 :: "wrapper list" where
  "physics_wrappers_76 =
    [forwards ''UpdateAtoms'' Void [Pointer],
     forwards ''updateBodyCollisionCaches'' Void [Pointer, Integer 8],
     forwards ''UpdateBodyFromMotionTransform'' Void [Pointer, Pointer, Pointer, Pointer],
     forwards ''updateBroadPhase'' Void [Pointer],
     forwards ''hknpBody_UpdateDataDerivedFromMotionAndShape'' Void [Pointer, Pointer],
     forwards ''UpdateDirtyAtoms'' (Integer 4) [Pointer],
     forwards ''ZeroAllInstanceVelocities'' Void [Pointer],
     forwards ''Global_cctor_function_0_3'' Pointer [Pointer, Pointer],
     forwards ''Global_cctor_function_0_4'' Pointer [Pointer, Pointer],
     forwards ''Global_ctor_void'' Pointer [Pointer],
     forwards ''Global_ctor_void_2'' Pointer [Pointer],
     forwards ''Global_cctor_function_0_5'' Pointer [Pointer, Pointer],
     forwards ''Global_ctor_motionId_motion'' Pointer [Pointer, Integer 4, Pointer],
     forwards ''Global_ctor_void_3'' Pointer [Pointer],
     forwards ''Global_ctor_bodyId_userData'' Pointer [Pointer, Integer 8, Integer 8],
     forwards ''Global_ctor_void_4'' Pointer [Pointer]]"

definition physics_wrappers_77 :: "wrapper list" where
  "physics_wrappers_77 =
    [forwards ''Global_ctor_void_5'' Pointer [Pointer],
     forwards ''Global_cctor_function_0_6'' Pointer [Pointer, Pointer],
     forwards ''Global_ctor_void_6'' Pointer [Pointer],
     forwards ''Global_cctor_1_function_0'' Pointer [Pointer, Pointer],
     forwards ''Global_cctor_1_function_0_2'' Pointer [Pointer, Pointer],
     forwards ''Global_cctor_function_0_7'' Pointer [Pointer, Pointer],
     forwards ''Global_cctor_function_0_8'' Pointer [Pointer, Pointer],
     forwards ''Global_cctor_function_0_9'' Pointer [Pointer, Pointer],
     forwards ''Global_cctor_function_0_10'' Pointer [Pointer, Pointer],
     forwards ''Global_ctor_void_7'' Pointer [Pointer],
     forwards ''Global_ctor_void_8'' Pointer [Pointer],
     forwards ''Global_cctor_function_0_11'' Pointer [Pointer, Pointer],
     forwards ''Global_ctor_void_9'' Pointer [Pointer],
     forwards ''Global_cctor_function_0_12'' Pointer [Pointer, Pointer],
     forwards ''Global_ctor_void_10'' Pointer [Pointer],
     forwards ''Global_cctor_other'' Pointer [Pointer, Pointer]]"

definition physics_wrappers_78 :: "wrapper list" where
  "physics_wrappers_78 =
    [forwards ''Global_ctor_filter'' Pointer [Pointer, Pointer],
     forwards ''Global_cctor_function_0_13'' Pointer [Pointer, Pointer],
     forwards ''Global_cctor_1_function_0_3'' Pointer [Pointer, Pointer],
     forwards ''Global_ctor_shape'' Pointer [Pointer, Pointer],
     forwards ''Global_dtor_void'' Void [Pointer],
     forwards ''Global_ctor_count'' Pointer [Pointer, Integer 4],
     forwards ''Global_cctor_function_0_14'' Pointer [Pointer, Pointer],
     forwards ''Global_ctor_void_11'' Pointer [Pointer],
     forwards ''Global_cctor_function_0_15'' Pointer [Pointer, Pointer],
     forwards ''Global_ctor_shape_name'' Pointer [Pointer, Pointer, Pointer],
     forwards ''Global_ctor_void_12'' Pointer [Pointer],
     forwards ''Global_ctor_void_13'' Pointer [Pointer],
     forwards ''Global_cctor_function_0_16'' Pointer [Pointer, Pointer],
     forwards ''Global_dtor_void_2'' Void [Pointer],
     forwards ''Global_ctor_void_14'' Pointer [Pointer],
     forwards ''Global_ctor_void_15'' Pointer [Pointer]]"

definition physics_wrappers_79 :: "wrapper list" where
  "physics_wrappers_79 =
    [forwards ''Global_cctor_function_0_17'' Pointer [Pointer, Pointer],
     forwards ''Global_dtor_void_3'' Void [Pointer],
     forwards ''Global_cctor_other_2'' Pointer [Pointer, Pointer],
     forwards ''Global_dtor_void_4'' Void [Pointer],
     forwards ''Global_ctor_void_16'' Pointer [Pointer],
     forwards ''Global_cctor_function_0_18'' Pointer [Pointer, Pointer],
     forwards ''Global_cctor_function_0_19'' Pointer [Pointer, Pointer],
     forwards ''Global_cctor_1_function_0_4'' Pointer [Pointer, Pointer],
     forwards ''Global_cctor_function_0_20'' Pointer [Pointer, Pointer],
     forwards ''Global_ctor_void_17'' Pointer [Pointer],
     forwards ''Global_cctor_function_0_21'' Pointer [Pointer, Pointer],
     forwards ''Global_dtor_void_5'' Void [Pointer],
     forwards ''Global_ctor_void_18'' Pointer [Pointer],
     forwards ''Global_ctor_void_19'' Pointer [Pointer],
     forwards ''Global_cctor_function_0_22'' Pointer [Pointer, Pointer],
     forwards ''Global_ctor_preciseTransform'' Pointer [Pointer, Pointer]]"

definition physics_wrappers_80 :: "wrapper list" where
  "physics_wrappers_80 =
    [forwards ''Global_ctor_void_20'' Pointer [Pointer],
     forwards ''Global_ctor_void_21'' Pointer [Pointer],
     forwards ''Global_ctor_void_22'' Pointer [Pointer],
     forwards ''Global_ctor_void_23'' Pointer [Pointer],
     forwards ''Global_ctor_void_24'' Pointer [Pointer],
     forwards ''Global_cctor_function_0_23'' Pointer [Pointer, Pointer],
     forwards ''Global_cctor_function_0_24'' Pointer [Pointer, Pointer],
     forwards ''Global_ctor_void_25'' Pointer [Pointer],
     forwards ''Global_ctor_void_26'' Pointer [Pointer],
     forwards ''Global_cctor_function_0_25'' Pointer [Pointer, Pointer],
     forwards ''Global_ctor_void_27'' Pointer [Pointer],
     forwards ''Global_ctor_void_28'' Pointer [Pointer],
     forwards ''Global_ctor_void_29'' Pointer [Pointer],
     forwards ''Global_ctor_void_30'' Pointer [Pointer],
     forwards ''Global_cctor_function_0_26'' Pointer [Pointer, Pointer],
     forwards ''Global_ctor_void_31'' Pointer [Pointer]]"

definition physics_wrappers_81 :: "wrapper list" where
  "physics_wrappers_81 =
    [forwards ''Global_cctor_function_0_27'' Pointer [Pointer, Pointer],
     forwards ''Global_dtor_void_6'' Void [Pointer],
     forwards ''Global_cctor_function_0_28'' Pointer [Pointer, Pointer],
     forwards ''Global_ctor_void_32'' Pointer [Pointer],
     forwards ''Global_cctor_function_0_29'' Pointer [Pointer, Pointer],
     forwards ''Global_ctor_void_33'' Pointer [Pointer],
     forwards ''Global_ctor_other'' Pointer [Pointer, Pointer],
     forwards ''Global_ctor_void_34'' Pointer [Pointer],
     forwards ''Global_cctor_function_0_30'' Pointer [Pointer, Pointer],
     forwards ''Global_ctor_void_35'' Pointer [Pointer],
     forwards ''Global_ctor_void_36'' Pointer [Pointer],
     forwards ''Global_ctor_void_37'' Pointer [Pointer],
     forwards ''Global_cctor_function_0_31'' Pointer [Pointer, Pointer],
     forwards ''Global_ctor_void_38'' Pointer [Pointer],
     forwards ''Global_ctor_void_39'' Pointer [Pointer],
     forwards ''Global_ctor_void_40'' Pointer [Pointer]]"

definition physics_wrappers_82 :: "wrapper list" where
  "physics_wrappers_82 =
    [forwards ''Global_ctor_void_41'' Pointer [Pointer],
     forwards ''Global_ctor_void_42'' Pointer [Pointer],
     forwards ''Global_ctor_void_43'' Pointer [Pointer],
     forwards ''Global_ctor_void_44'' Pointer [Pointer],
     forwards ''Global_cctor_function_0_32'' Pointer [Pointer, Pointer],
     forwards ''Global_ctor_void_45'' Pointer [Pointer],
     forwards ''Global_cctor_function_0_33'' Pointer [Pointer, Pointer],
     forwards ''Global_ctor_void_46'' Pointer [Pointer],
     forwards ''Global_cctor_function_0_34'' Pointer [Pointer, Pointer],
     forwards ''Global_dtor_void_7'' Void [Pointer],
     forwards ''Global_cctor_function_0_35'' Pointer [Pointer, Pointer],
     forwards ''Global_ctor_void_47'' Pointer [Pointer],
     forwards ''Global_ctor_void_48'' Pointer [Pointer],
     forwards ''Global_ctor_void_49'' Pointer [Pointer],
     forwards ''Global_ctor_void_50'' Pointer [Pointer],
     forwards ''Global_ctor_i'' Pointer [Pointer, Integer 4]]"

definition physics_wrappers_83 :: "wrapper list" where
  "physics_wrappers_83 =
    [forwards ''ctor_1'' Pointer [Pointer, Integer 4],
     forwards ''Global_dtor_void_8'' Void [Pointer],
     forwards ''Global_ctor_void_51'' Pointer [Pointer],
     forwards ''Global_ctor_void_52'' Pointer [Pointer],
     forwards ''Global_ctor_void_53'' Pointer [Pointer],
     forwards ''Global_ctor_void_54'' Pointer [Pointer],
     forwards ''Global_dtor_void_9'' Void [Pointer],
     forwards ''Global_ctor_void_55'' Pointer [Pointer],
     forwards ''Global_ctor_buffer'' Pointer [Pointer, Pointer],
     forwards ''Global_cctor_1_function_0_5'' Pointer [Pointer, Pointer],
     forwards ''Global_ctor_void_56'' Pointer [Pointer],
     forwards ''Global_cctor_function_0_36'' Pointer [Pointer, Pointer],
     forwards ''Global_dtor_void_10'' Void [Pointer],
     forwards ''Global_dtor_void_11'' Void [Pointer],
     forwards ''Global_ctor_void_57'' Pointer [Pointer],
     forwards ''Global_cctor_function_0_37'' Pointer [Pointer, Pointer]]"

definition physics_wrappers_84 :: "wrapper list" where
  "physics_wrappers_84 =
    [forwards ''Global_dtor_void_12'' Void [Pointer],
     forwards ''Global_ctor_void_58'' Pointer [Pointer],
     forwards ''Global_ctor_void_59'' Pointer [Pointer],
     forwards ''Global_ctor_type_mutability'' Pointer [Pointer, Integer 4, Integer 4],
     forwards ''Global_ctor_void_60'' Pointer [Pointer],
     forwards ''Global_dtor_void_13'' Void [Pointer],
     forwards ''Global_ctor_void_61'' Pointer [Pointer],
     forwards ''Global_ctor_void_62'' Pointer [Pointer],
     forwards ''Global_dtor_void_14'' Void [Pointer],
     forwards ''Global_ctor_void_63'' Pointer [Pointer],
     forwards ''Global_cctor_other_3'' Pointer [Pointer, Pointer],
     forwards ''Global_ctor_void_64'' Pointer [Pointer],
     forwards ''Global_cctor_function_0_38'' Pointer [Pointer, Pointer],
     forwards ''Global_ctor_void_65'' Pointer [Pointer],
     forwards ''Global_ctor_shape_transform'' Pointer [Pointer, Pointer, Pointer],
     forwards ''Global_cctor_other_4'' Pointer [Pointer, Pointer]]"

definition physics_wrappers_85 :: "wrapper list" where
  "physics_wrappers_85 =
    [forwards ''Global_ctor_void_66'' Pointer [Pointer],
     forwards ''Global_ctor_void_67'' Pointer [Pointer],
     forwards ''Global_ctor_level'' Pointer [Pointer, Integer 1],
     forwards ''Global_cctor_function_0_39'' Pointer [Pointer, Pointer],
     forwards ''Global_ctor_void_68'' Pointer [Pointer],
     forwards ''Global_dtor_void_15'' Void [Pointer],
     forwards ''Global_ctor_void_69'' Pointer [Pointer],
     forwards ''Global_ctor_void_70'' Pointer [Pointer],
     forwards ''Global_cctor_function_0_40'' Pointer [Pointer, Pointer],
     forwards ''Global_dtor_void_16'' Void [Pointer],
     forwards ''Global_ctor_provider_partIndex'' Pointer [Pointer, Integer 1, Integer 4],
     forwards ''Global_cctor_function_0_41'' Pointer [Pointer, Pointer],
     forwards ''Global_cctor_function_0_42'' Pointer [Pointer, Pointer],
     forwards ''Global_cctor_function_0_43'' Pointer [Pointer, Pointer],
     forwards ''Global_ctor_rootShape'' Pointer [Pointer, Pointer],
     forwards ''Global_cctor_1_function_0_6'' Pointer [Pointer, Pointer]]"

definition physics_wrappers_86 :: "wrapper list" where
  "physics_wrappers_86 =
    [forwards ''Global_ctor_void_71'' Pointer [Pointer],
     forwards ''Global_ctor_value'' Pointer [Pointer, Integer 8],
     forwards ''Global_ctor_void_72'' Pointer [Pointer],
     forwards ''Global_dtor_void_17'' Void [Pointer],
     forwards ''Global_ctor_void_73'' Pointer [Pointer],
     forwards ''Global_cctor_function_0_44'' Pointer [Pointer, Pointer]]"

definition physics_wrappers :: "wrapper list" where
  "physics_wrappers =
    physics_wrappers_1 @ physics_wrappers_2 @ physics_wrappers_3 @ physics_wrappers_4 @ physics_wrappers_5 @
       physics_wrappers_6 @ physics_wrappers_7 @ physics_wrappers_8 @ physics_wrappers_9 @ physics_wrappers_10 @
       physics_wrappers_11 @ physics_wrappers_12 @ physics_wrappers_13 @ physics_wrappers_14 @
       physics_wrappers_15 @ physics_wrappers_16 @ physics_wrappers_17 @ physics_wrappers_18 @
       physics_wrappers_19 @ physics_wrappers_20 @ physics_wrappers_21 @ physics_wrappers_22 @
       physics_wrappers_23 @ physics_wrappers_24 @ physics_wrappers_25 @ physics_wrappers_26 @
       physics_wrappers_27 @ physics_wrappers_28 @ physics_wrappers_29 @ physics_wrappers_30 @
       physics_wrappers_31 @ physics_wrappers_32 @ physics_wrappers_33 @ physics_wrappers_34 @
       physics_wrappers_35 @ physics_wrappers_36 @ physics_wrappers_37 @ physics_wrappers_38 @
       physics_wrappers_39 @ physics_wrappers_40 @ physics_wrappers_41 @ physics_wrappers_42 @
       physics_wrappers_43 @ physics_wrappers_44 @ physics_wrappers_45 @ physics_wrappers_46 @
       physics_wrappers_47 @ physics_wrappers_48 @ physics_wrappers_49 @ physics_wrappers_50 @
       physics_wrappers_51 @ physics_wrappers_52 @ physics_wrappers_53 @ physics_wrappers_54 @
       physics_wrappers_55 @ physics_wrappers_56 @ physics_wrappers_57 @ physics_wrappers_58 @
       physics_wrappers_59 @ physics_wrappers_60 @ physics_wrappers_61 @ physics_wrappers_62 @
       physics_wrappers_63 @ physics_wrappers_64 @ physics_wrappers_65 @ physics_wrappers_66 @
       physics_wrappers_67 @ physics_wrappers_68 @ physics_wrappers_69 @ physics_wrappers_70 @
       physics_wrappers_71 @ physics_wrappers_72 @ physics_wrappers_73 @ physics_wrappers_74 @
       physics_wrappers_75 @ physics_wrappers_76 @ physics_wrappers_77 @ physics_wrappers_78 @
       physics_wrappers_79 @ physics_wrappers_80 @ physics_wrappers_81 @ physics_wrappers_82 @
       physics_wrappers_83 @ physics_wrappers_84 @ physics_wrappers_85 @ physics_wrappers_86"


definition physics_pointers_1 :: "(string \<times> string) list" where
  "physics_pointers_1 =
    [(''hknpConstraintData_cctor_function_0'', ''??0AppliedImpulses@hknpConstraintData@@QEAA@AEBU01@@Z''),
     (''ArrayRange_cctor'', ''??0ArrayRange@@QEAA@AEBU0@@Z''),
     (''HkConstraintHandler_cctor_function_0'', ''??0AtomParameters@HkConstraintHandler@@QEAA@AEBU01@@Z''),
     (''hknpConnectivityGraph_cctor_function_0'', ''??0Buffer@hknpConnectivityGraph@@QEAA@AEBU01@@Z''),
     (''hknpShape_cctor_function_0'', ''??0BuildSurfaceGeometryConfig@hknpShape@@QEAA@AEBU01@@Z''),
     (''hknpConnectivityGraph_cctor_other'', ''??0CompressedIntArray@hknpConnectivityGraph@@QEAA@AEBU01@@Z''),
     (''hkConvexDecomposition_cctor'', ''??0Config@hkConvexDecomposition@@QEAA@AEBU01@@Z''),
     (''hknpConstraintData_cctor_function_0_2'', ''??0ConstraintInfo@hknpConstraintData@@QEAA@AEBU01@@Z''),
     (''ConvexShapeArgs_cctor'', ''??0ConvexShapeArgs@@QEAA@AEBU0@@Z''),
     (''DebugDrawImplementationTable_cctor'', ''??0DebugDrawImplementationTable@@QEAA@AEBU0@@Z''),
     (''hknpConnectivityGraph_cctor_function_0_2'', ''??0DisjointInput@hknpConnectivityGraph@@QEAA@AEBU01@@Z''),
     (''hknpConnectivityGraph_cctor_function_0_3'', ''??0Edge@hknpConnectivityGraph@@QEAA@AEBU01@@Z''),
     (''hknpConvexHull_cctor_function_0'', ''??0Edge@hknpConvexHull@@QEAA@AEBU01@@Z''),
     (''HkSession_cctor_function_0'', ''??0EntityLayerPairProperties@HkSession@@QEAA@AEBU01@@Z''),
     (''hknpConvexHull_cctor_function_0_2'', ''??0Face@hknpConvexHull@@QEAA@AEBU01@@Z''),
     (''hknpMaterial_cctor_function_0'', ''??0FreeListOperations@hknpMaterial@@QEAA@AEBU01@@Z'')]"

definition physics_pointers_2 :: "(string \<times> string) list" where
  "physics_pointers_2 =
    [(''hknpMotion_cctor'', ''??0FreeListOperations@hknpMotion@@QEAA@AEBU01@@Z''),
     (''hknpShape_cctor_function_0_2'', ''??0GetShapeKeysConfig@hknpShape@@QEAA@AEBU01@@Z''),
     (''hknpShape_cctor_function_0_3'', ''??0GetSignedDistanceInput@hknpShape@@QEAA@AEBU01@@Z''),
     (''HkConstraintHandler_cctor_function_0_2'',
       ''??0HingeConstraintAtomParameters@HkConstraintHandler@@QEAA@AEBU01@@Z''),
     (''HkBodyDrivingSettings_cctor'', ''??0HkBodyDrivingSettings@@QEAA@AEBU0@@Z''),
     (''HkBodyInfoCollection_cctor'', ''??0HkBodyInfoCollection@@QEAA@AEBU0@@Z''),
     (''HkBodyInfoUpdate_cctor'', ''??0HkBodyInfoUpdate@@QEAA@AEBU0@@Z''),
     (''HkBodyMotionInfo_cctor'', ''??0HkBodyMotionInfo@@QEAA@AEBU0@@Z''),
     (''HkBodyUserDataPair_cctor'', ''??0HkBodyUserDataPair@@QEAA@AEBU0@@Z''),
     (''HkQueryDispatcher_cctor_function_0'', ''??0HkBodyWithUserData@HkQueryDispatcher@@QEAA@AEBU01@@Z''),
     (''HkBreakHandlerModifier_ctor'',
       ''??0HkBreakHandlerModifier@@QEAA@AEBUHkBreakHandlerModifierCinfo@0@PEAVhknpWorld@@@Z''),
     (''HkBreakHandlerModifier_cctor'', ''??0HkBreakHandlerModifierCinfo@HkBreakHandlerModifier@@QEAA@AEBU01@@Z''),
     (''HkBreakableCompoundShapeManipulator_cctor'', ''??0HkBreakableCompoundShapeManipulator@@QEAA@AEBU0@@Z''),
     (''HkBuffer_cctor'', ''??0HkBuffer@@QEAA@AEBU0@@Z''),
     (''HkDebugProcessManager_cctor_function_0'', ''??0HkCameraInfo@HkDebugProcessManager@@QEAA@AEBU01@@Z''),
     (''HkQueryDispatcher_cctor_function_0_2'', ''??0HkCastAabbArgs@HkQueryDispatcher@@QEAA@AEBU01@@Z'')]"

definition physics_pointers_3 :: "(string \<times> string) list" where
  "physics_pointers_3 =
    [(''HkCharacterContact_cctor'', ''??0HkCharacterContact@@QEAA@AEBU0@@Z''),
     (''HkCharacterModifier_cctor_function_0'', ''??0HkCharacterContact@HkCharacterModifier@@QEAA@AEBU01@@Z''),
     (''HkCharacterController_ctor'', ''??0HkCharacterController@@QEAA@AEBUHkCharacterControllerCinfo@@@Z''),
     (''HkCharacterControllerOutput_cctor'', ''??0HkCharacterControllerOutput@@QEAA@AEBU0@@Z''),
     (''HkCharacterModifier_cctor_function_0_2'', ''??0HkCharacterJacobian@HkCharacterModifier@@QEAA@AEBU01@@Z''),
     (''HkCharacterModifier_ctor'', ''??0HkCharacterModifier@@QEAA@PEAVhknpWorld@@M@Z''),
     (''HkCharacterMovementUtil_cctor'', ''??0HkCharacterMovementUtil@@QEAA@AEBV0@@Z''),
     (''HkCharacterStateManager_ctor'', ''??0HkCharacterStateManager@@QEAA@AEBUHkCharacterStateManagerCinfo@@@Z''),
     (''HkCharacterStateManagerCinfo_cctor'', ''??0HkCharacterStateManagerCinfo@@QEAA@AEBU0@@Z''),
     (''HkColliderQueryDispatcher_cctor_function_0'',
       ''??0HkColliderLeafQueryColliderHit@HkColliderQueryDispatcher@@QEAA@AEBU01@@Z''),
     (''HkColliderQueryDispatcher_cctor_function_0_2'',
       ''??0HkColliderLeafQueryTriangleOrQuadHit@HkColliderQueryDispatcher@@QEAA@AEBU01@@Z''),
     (''HkColliderQueryDispatcher_cctor_function_0_3'',
       ''??0HkColliderNearestQueryHit@HkColliderQueryDispatcher@@QEAA@AEBU01@@Z''),
     (''HkColliderQueryDispatcher_cctor_function_0_4'',
       ''??0HkColliderQueryAABBArgs@HkColliderQueryDispatcher@@QEAA@AEBU01@@Z''),
     (''HkColliderQueryDispatcher_cctor_function_0_5'', ''??0HkColliderQueryDispatcher@@QEAA@AEBV0@@Z''),
     (''HkColliderQueryDispatcher_cctor_function_0_6'',
       ''??0HkColliderSweepQueryHit@HkColliderQueryDispatcher@@QEAA@AEBU01@@Z''),
     (''HkCollisionQueryCollector_cctor'', ''??0HkCollisionQueryCollector@@QEAA@AEBU0@@Z'')]"

definition physics_pointers_4 :: "(string \<times> string) list" where
  "physics_pointers_4 =
    [(''HkConstraintHandler_ctor'', ''??0HkConstraintHandler@@QEAA@PEBVhknpConstraintGroupCinfo@@PEAUHkSession@@@Z''),
     (''HkConstraintHandler_cctor_function_0_3'',
       ''??0HkConstraintWithExceededForces@HkConstraintHandler@@QEAA@AEBU01@@Z''),
     (''HkContactEventCollectorModifier_ctor_void'', ''??0HkContactEventCollectorModifier@@QEAA@XZ''),
     (''HkDataFilter_cctor'', ''??0HkDataFilter@@QEAA@AEBU0@@Z''),
     (''HkDataFilterIterator_cctor_1'', ''??0HkDataFilterIterator@@QEAA@AEBU0@@Z''),
     (''HkDebugProcessManager_ctor'',
       ''??0HkDebugProcessManager@@QEAA@V?$hkArray@PEAVhkProcessContext@@U?$hkBuiltinContainerAllocator@$0A@$0A@@@@@UDebugDrawImplementationTable@@PEAX@Z''),
     (''HkFracture_cctor'', ''??0HkFracture@@QEAA@AEBU0@@Z''),
     (''HkGeometryRef_cctor'', ''??0HkGeometryRef@@QEAA@AEBU0@@Z''),
     (''HkGravityModifier_ctor'', ''??0HkGravityModifier@@QEAA@PEAVhknpWorld@@MM@Z''),
     (''HkGravityUpdate_cctor'', ''??0HkGravityUpdate@@QEAA@AEBU0@@Z''),
     (''HkLargeShapeKey_cctor'', ''??0HkLargeShapeKey@@QEAA@AEBU0@@Z''),
     (''HkLoadedShapeInfo_cctor'', ''??0HkLoadedShapeInfo@@QEAA@AEBU0@@Z''),
     (''HkLodLevel_cctor'', ''??0HkLodLevel@@QEAA@AEBU0@@Z''),
     (''HkManagedMassElement_cctor'', ''??0HkManagedMassElement@@QEAA@AEBU0@@Z''),
     (''HkManifoldCollisionCacheProperties_cctor'', ''??0HkManifoldCollisionCacheProperties@@QEAA@AEBU0@@Z''),
     (''HkContactEventCollectorModifier_cctor'',
       ''??0HkManifoldContactInfo@HkContactEventCollectorModifier@@QEAA@AEBU01@@Z'')]"

definition physics_pointers_5 :: "(string \<times> string) list" where
  "physics_pointers_5 =
    [(''HkContactEventCollectorModifier_ctor_void_2'',
       ''??0HkManifoldContactInfo@HkContactEventCollectorModifier@@QEAA@XZ''),
     (''HkManifoldGroup_cctor_function_0'', ''??0HkManifoldGroup@@QEAA@AEBU0@@Z''),
     (''HkManifoldGroup_ctor_ignoredManifoldIndex_staticB'', ''??0HkManifoldGroup@@QEAA@H_N@Z''),
     (''HkManifoldGroup_ctor_groupConfig_info'',
       ''??0HkManifoldGroup@@QEAA@PEBUHkManifoldGroupConfig@0@AEBUHkManifoldInfo@@@Z''),
     (''HkManifoldGroup_cctor_function_0_2'', ''??0HkManifoldGroupConfig@HkManifoldGroup@@QEAA@AEBU01@@Z''),
     (''HkMassChangerModifier_ctor'',
       ''??0HkMassChangerModifier@@QEAA@PEBV?$hkArray@W4HkLayerInteraction_InteractType@@U?$hkBuiltinContainerAllocator@$0A@$0A@@@@@@Z''),
     (''HkMaterialLibrary_cctor'', ''??0HkMaterialConfiguration@HkMaterialLibrary@@QEAA@AEBU01@@Z''),
     (''HkMaterialLibrary_ctor'', ''??0HkMaterialLibrary@@QEAA@XZ''),
     (''HkModelSkeletonBone_cctor'', ''??0HkModelSkeletonBone@@QEAA@AEBU0@@Z''),
     (''HkModifierUtils_cctor'', ''??0HkModifierUtils@@QEAA@AEBV0@@Z''),
     (''HkQueryDispatcher_cctor_function_0_3'', ''??0HkNearestPointsToPointArgs@HkQueryDispatcher@@QEAA@AEBU01@@Z''),
     (''HkQueryDispatcher_cctor_function_0_4'', ''??0HkNearestQueryHit@HkQueryDispatcher@@QEAA@AEBU01@@Z''),
     (''HkPackedBodyInfo_cctor'', ''??0HkPackedBodyInfo@@QEAA@AEBU0@@Z''),
     (''HkPackedBodyInfoExtended_cctor'', ''??0HkPackedBodyInfoExtended@@QEAA@AEBU0@@Z''),
     (''HkPackedBodyProxy_cctor'', ''??0HkPackedBodyProxy@@QEAA@AEBU0@@Z''),
     (''HkPackedRelativeTransform_cctor'', ''??0HkPackedRelativeTransform@@QEAA@AEBU0@@Z'')]"

definition physics_pointers_6 :: "(string \<times> string) list" where
  "physics_pointers_6 =
    [(''HkPackedRigidBodyData_cctor'', ''??0HkPackedRigidBodyData@@QEAA@AEBU0@@Z''),
     (''HkPackedWorldTransform_cctor_1'', ''??0HkPackedWorldTransform@@QEAA@AEBU0@@Z''),
     (''HkPostProjectionUtilitySettings_cctor'', ''??0HkPostProjectionUtilitySettings@@QEAA@AEBU0@@Z''),
     (''HkPoweredMotorsParams_cctor'', ''??0HkPoweredMotorsParams@@QEAA@AEBU0@@Z''),
     (''HkQueryDispatcher_cctor_function_0_5'', ''??0HkQueryAabbArgs@HkQueryDispatcher@@QEAA@AEBU01@@Z''),
     (''HkQueryDispatcher_cctor_function_0_6'', ''??0HkQueryDispatcher@@QEAA@AEBV0@@Z''),
     (''HkQueryDispatcher_cctor_function_0_7'', ''??0HkRayCastArgs@HkQueryDispatcher@@QEAA@AEBU01@@Z''),
     (''HkRestitutionIntegratorModifier_cctor_1'', ''??0HkRestitutionIntegratorModifier@@QEAA@AEBV0@@Z''),
     (''HkRestitutionIntegratorModifier_ctor'', ''??0HkRestitutionIntegratorModifier@@QEAA@PEAVhknpWorld@@@Z''),
     (''HkSerializableFracture_cctor'', ''??0HkSerializableFracture@@QEAA@AEBU0@@Z''),
     (''HkSerialization_cctor'', ''??0HkSerialization@@QEAA@AEBU0@@Z''),
     (''HkSerializationShapeScalingUtil_ctor'', ''??0HkSerializationShapeScalingUtil@@QEAA@AEBVhkTransformf@@M_N@Z'')]"

definition physics_pointers_7 :: "(string \<times> string) list" where
  "physics_pointers_7 =
    [(''HkSession_ctor'', ''??0HkSession@@QEAA@AEBUHkSessionCinfo@0@@Z''),
     (''HkSession_cctor_function_0_2'', ''??0HkSessionCinfo@HkSession@@QEAA@AEBU01@@Z''),
     (''HkShapeProperties_cctor'', ''??0HkShapeProperties@@QEAA@AEBU0@@Z''),
     (''HkDebugProcessManager_cctor_function_0_2'', ''??0HkShapeViewerOptions@HkDebugProcessManager@@QEAA@AEBU01@@Z''),
     (''HkSimdTreeGridShape_ctor'', ''??0HkSimdTreeGridShape@@QEAA@PEBUHkTreeGridArgs@@@Z''),
     (''HkSimplificationParameters_cctor'', ''??0HkSimplificationParameters@@QEAA@AEBU0@@Z''),
     (''HkConstraintHandler_cctor_function_0_4'',
       ''??0HkSingleAxisConstraintArgs@HkConstraintHandler@@QEAA@AEBU01@@Z''),
     (''HkConstraintHandler_cctor_function_0_5'',
       ''??0HkSixDegreesOfFreedomConstraintArgs@HkConstraintHandler@@QEAA@AEBU01@@Z''),
     (''HkSparseGridShape_ctor'', ''??0HkSparseGridShape@@QEAA@MMHHPEBVHkGridShapeStorage@@M@Z''),
     (''HkStatistics_cctor_function_0'', ''??0HkStatistics@@QEAA@AEBU0@@Z''),
     (''HkQueryDispatcher_cctor_function_0_8'', ''??0HkSweepQueryHit@HkQueryDispatcher@@QEAA@AEBU01@@Z''),
     (''HkTreeGridArgs_cctor'', ''??0HkTreeGridArgs@@QEAA@AEBU0@@Z''),
     (''HkTriangle_cctor'', ''??0HkTriangle@@QEAA@AEBU0@@Z''),
     (''HkTriangleOrQuad_cctor'', ''??0HkTriangleOrQuad@@QEAA@AEBU0@@Z''),
     (''HkVoxelShape_ctor'', ''??0HkVoxelShape@@QEAA@HM_N@Z''),
     (''HkConstraintHandler_cctor_function_0_6'', ''??0HkWheelConstraintArgs@HkConstraintHandler@@QEAA@AEBU01@@Z''),
     (''HkWorld_cctor'', ''??0HkWorld@@QEAA@AEBU0@@Z'')]"

definition physics_pointers_8 :: "(string \<times> string) list" where
  "physics_pointers_8 =
    [(''HkWorldData_cctor'', ''??0HkWorldData@@QEAA@AEBU0@@Z''),
     (''Global_cctor_function_0'', ''??0Impulse@AppliedImpulses@hknpConstraintData@@QEAA@AEBU012@@Z''),
     (''IndexBufferArgs_cctor'', ''??0IndexBufferArgs@@QEAA@AEBU0@@Z''),
     (''HkSimdTreeGridShape_cctor'', ''??0Input@HkSimdTreeGridShape@@QEAA@AEBU01@@Z''),
     (''HkSparseGridShape_cctor'', ''??0Input@HkSparseGridShape@@QEAA@AEBU01@@Z''),
     (''hknpConnectivityGraph_cctor_function_0_4'', ''??0Manifold@hknpConnectivityGraph@@QEAA@AEBU01@@Z''),
     (''MassBuildConfig_cctor'', ''??0MassBuildConfig@@QEAA@AEBU0@@Z''),
     (''hknpShape_ctor'', ''??0MassConfig@hknpShape@@QEAA@XZ''),
     (''Mesh_cctor'', ''??0Mesh@@QEAA@AEBU0@@Z''),
     (''MeshShapeArgs_cctor'', ''??0MeshShapeArgs@@QEAA@AEBU0@@Z''),
     (''MigrationData_cctor'', ''??0MigrationData@@QEAA@AEBU0@@Z''),
     (''hknpConnectivityGraph_cctor_function_0_5'', ''??0PackedManifold@hknpConnectivityGraph@@QEAA@AEBU01@@Z''),
     (''HkConstraintHandler_cctor_function_0_7'',
       ''??0PrismaticConstraintAtomParameters@HkConstraintHandler@@QEAA@AEBU01@@Z''),
     (''HkDebugProcessManager_cctor_function_0_3'', ''??0ProcessInfo@HkDebugProcessManager@@QEAA@AEBU01@@Z''),
     (''hknpConstraintData_cctor_function_0_3'', ''??0RuntimeInfo@hknpConstraintData@@QEAA@AEBU01@@Z''),
     (''hknpShape_cctor_function_0_4'', ''??0SdfContactPoint@hknpShape@@QEAA@AEBU01@@Z'')]"

definition physics_pointers_9 :: "(string \<times> string) list" where
  "physics_pointers_9 =
    [(''hknpShape_cctor_function_0_5'', ''??0SdfContactPointOutput@hknpShape@@QEAA@AEBU01@@Z''),
     (''hknpShape_cctor_function_0_6'', ''??0SdfQuery@hknpShape@@QEAA@AEBU01@@Z''),
     (''HkStatistics_cctor_function_0_2'', ''??0StatisticsNode@HkStatistics@@QEAA@AEBU01@@Z''),
     (''HkStatistics_ctor'', ''??0StatisticsNode@HkStatistics@@QEAA@PEBDHHM@Z''),
     (''TextureArgs_cctor'', ''??0TextureArgs@@QEAA@AEBU0@@Z''),
     (''hknpConstraintData_cctor_function_0_4'', ''??0UpdateAtomsResult@hknpConstraintData@@QEAA@AEBU01@@Z''),
     (''VelocityPair_cctor'', ''??0VelocityPair@@QEAA@AEBU0@@Z''),
     (''Global_cctor_function_0_2'', ''??0Vertex@PackedManifold@hknpConnectivityGraph@@QEAA@AEBU012@@Z''),
     (''VertexBufferArgs_cctor'', ''??0VertexBufferArgs@@QEAA@AEBU0@@Z''),
     (''HkManifoldInfo_cctor'', ''??0hkDefaultFreeListArrayOperations@HkManifoldInfo@@QEAA@AEBU01@@Z''),
     (''hkStringPtr_cctor'', ''??0hkStringPtr@@QEAA@AEBV0@@Z''),
     (''hkStringPtr_ctor'', ''??0hkStringPtr@@QEAA@PEBDH@Z''),
     (''hknp6DofConstraintData_ctor'', ''??0hknp6DofConstraintData@@QEAA@W4Mutability@hknpConstraintData@@@Z''),
     (''hknpActivationControl_cctor'', ''??0hknpActivationControl@@QEAA@AEBU0@@Z''),
     (''hknpActivationState_cctor'', ''??0hknpActivationState@@QEAA@AEBU0@@Z''),
     (''hknpBallAndSocketConstraintData_ctor'',
       ''??0hknpBallAndSocketConstraintData@@QEAA@W4Mutability@hknpConstraintData@@@Z'')]"

definition physics_pointers_10 :: "(string \<times> string) list" where
  "physics_pointers_10 =
    [(''hknpBodyCinfo_ctor'', ''??0hknpBodyCinfo@@QEAA@XZ''),
     (''hknpBodyIdAndIndex_cctor'', ''??0hknpBodyIdAndIndex@@QEAA@AEBU0@@Z''),
     (''hknpBodyQualityId_cctor'', ''??0hknpBodyQualityId@@QEAA@AEBU0@@Z''),
     (''hknpCollisionDispatchType_cctor'', ''??0hknpCollisionDispatchType@@QEAA@AEBU0@@Z''),
     (''hknpCompressedAabbThresholds_cctor'', ''??0hknpCompressedAabbThresholds@@QEAA@AEBU0@@Z''),
     (''hknpConstraintGroupDirectSolverSettings_cctor'',
       ''??0hknpConstraintGroupDirectSolverSettings@@QEAA@AEBU0@@Z''),
     (''hknpFixedConstraintData_ctor'', ''??0hknpFixedConstraintData@@QEAA@W4Mutability@hknpConstraintData@@@Z''),
     (''hknpLimitedHingeConstraintData_ctor'',
       ''??0hknpLimitedHingeConstraintData@@QEAA@W4Mutability@hknpConstraintData@@@Z''),
     (''hknpMaterial_cctor_other'', ''??0hknpMaterial@@QEAA@AEBV0@@Z''),
     (''hknpMaterial_ctor'', ''??0hknpMaterial@@QEAA@XZ''),
     (''hknpPrismaticConstraintData_ctor'',
       ''??0hknpPrismaticConstraintData@@QEAA@W4Mutability@hknpConstraintData@@@Z''),
     (''hknpShapeType_cctor'', ''??0hknpShapeType@@QEAA@AEBU0@@Z''),
     (''hknpSolverInfo_ctor'', ''??0hknpSolverInfo@@QEAA@XZ''),
     (''hknpWheelConstraintData_ctor'', ''??0hknpWheelConstraintData@@QEAA@W4Mutability@hknpConstraintData@@@Z''),
     (''vrBodyPartId_cctor'', ''??0vrBodyPartId@@QEAA@AEBU0@@Z''),
     (''vrBodyPropertyKeys_cctor'', ''??0vrBodyPropertyKeys@@QEAA@AEBU0@@Z'')]"

definition physics_pointers_11 :: "(string \<times> string) list" where
  "physics_pointers_11 =
    [(''vrBodyQualityId_cctor'', ''??0vrBodyQualityId@@QEAA@AEBU0@@Z''),
     (''vrCallbackVelocityConstraintMotor_ctor'', ''??0vrCallbackVelocityConstraintMotor@@QEAA@XZ''),
     (''vrChildShapeCollisionMaskProperty_ctor'', ''??0vrChildShapeCollisionMaskProperty@@QEAA@XZ''),
     (''vrConstraintFlags_cctor'', ''??0vrConstraintFlags@@QEAA@AEBU0@@Z''),
     (''vrShapeFlags_cctor'', ''??0vrShapeFlags@@QEAA@AEBU0@@Z''),
     (''vrShapeKey_cctor'', ''??0vrShapeKey@@QEAA@AEBU0@@Z''),
     (''vrTriggerEventInfo_cctor'', ''??0vrTriggerEventInfo@@QEAA@AEBU0@@Z''),
     (''vrWorldBufferSettings_cctor'', ''??0vrWorldBufferSettings@@QEAA@AEBU0@@Z''),
     (''vrWorldSnapshotExporter_cctor'', ''??0vrWorldSnapshotExporter@@QEAA@AEBU0@@Z''),
     (''HkConstraintHandler_dtor'', ''??1HkConstraintHandler@@QEAA@XZ''),
     (''HkDebugProcessManager_dtor'', ''??1HkDebugProcessManager@@QEAA@XZ'')]"

definition physics_pointers_12 :: "(string \<times> string) list" where
  "physics_pointers_12 =
    [(''HkSession_dtor'', ''??1HkSession@@QEAA@XZ''),
     (''HkStatistics_dtor'', ''??1HkStatistics@@QEAA@XZ''),
     (''hkStringPtr_dtor'', ''??1hkStringPtr@@QEAA@XZ''),
     (''hknpBodyCinfo_dtor'', ''??1hknpBodyCinfo@@QEAA@XZ''),
     (''hknpMaterialDescriptor_dtor'', ''??1hknpMaterialDescriptor@@QEAA@XZ''),
     (''hknpShapeInstance_dtor'', ''??1hknpShapeInstance@@QEAA@XZ''),
     (''hknpWorld_dtor'', ''??1hknpWorld@@UEAA@XZ''),
     (''hknpConnectivityGraph_OperatorEqualEqual'', ''??8Edge@hknpConnectivityGraph@@QEBA_NAEBU01@@Z''),
     (''Global_OperatorEqualEqual_other'', ''??8hkHalf16@@QEBA_NAEBV0@@Z''),
     (''Global_OperatorEqualEqual_other_2'', ''??8hknpBodyQualityId@@QEBA_NU0@@Z''),
     (''Global_OperatorEqualEqual_other_3'', ''??8hknpMaterial@@QEBA_NAEBV0@@Z''),
     (''hknpConnectivityGraph_OperatorExclaimEqual'', ''??9Edge@hknpConnectivityGraph@@QEBA_NAEBU01@@Z''),
     (''Global_OperatorExclaimEqual'', ''??9hknpBodyQualityId@@QEBA_NU0@@Z''),
     (''OperatorSubscript'', ''??AhkStringPtr@@QEBADH@Z''),
     (''Global_OperatorConversion_void'', ''??BhkHalf16@@QEBAMXZ''),
     (''Global_OperatorConversion_void_2'', ''??BhkStringPtr@@QEBAPEBDXZ''),
     (''Global_OperatorConversion_return_value'', ''??BhknpBodyIdAndIndex@@QEBA?AUhknpBodyId@@XZ'')]"

definition physics_pointers_13 :: "(string \<times> string) list" where
  "physics_pointers_13 =
    [(''OperatorLess'', ''??MEdge@hknpConnectivityGraph@@QEBA_NAEBU01@@Z''),
     (''ActivateConstrainedBodies'',
       ''?ActivateConstrainedBodies@HkConstraintHandler@@QEAAXAEAVhknpWorld@@UhknpConstraintId@@@Z''),
     (''Add'', ''?Add@HkMaterialLibrary@@QEAA?AUhknpMaterialId@@AEBUHkMaterialConfiguration@1@@Z''),
     (''Add_1'',
       ''?Add@HkMaterialLibrary@@SA?AU?$hkHandle@G$0PPPP@UhknpMaterialPaletteEntryIdDiscriminant@@@@PEAVhknpMaterialPalette@@AEBUHkMaterialConfiguration@1@@Z''),
     (''HkSimdTreeGridShape_AddBlocks'', ''?AddBlocks@HkSimdTreeGridShape@@QEAAXPEBUInput@1@HPEAI@Z''),
     (''HkSparseGridShape_AddBlocks'', ''?AddBlocks@HkSparseGridShape@@QEAAXPEBUInput@1@HPEAI@Z''),
     (''AddConstraintHandler'',
       ''?AddConstraintHandler@HkSession@@QEAAPEAUHkConstraintHandler@@PEBVhknpConstraintGroupCinfo@@@Z''),
     (''AddInstances'',
       ''?AddInstances@@YAXPEAVhknpCompoundShape@@AEBV?$hkArrayView@$$CBUHkPackedCompoundShapeInstance@@@@AEBV?$hkArrayView@I@@@Z''),
     (''AddMassChangerModifier'', ''?AddMassChangerModifier@HkSession@@QEAAPEAVHkMassChangerModifier@@XZ''),
     (''AddOrRemoveReference'',
       ''?AddOrRemoveReference@HkColliderQueryDispatcher@@SAX_NAEAU?$HkBufferReference@UHkColliderLeafQueryColliderHit@HkColliderQueryDispatcher@@@@@Z''),
     (''AddToWorld'', ''?AddToWorld@HkRagdoll@@QEAAXW4AdditionMode@hknpWorldWriter@@W4ActivationMode@3@@Z''),
     (''HkGridShapeStorage_Allocate'', ''?Allocate@HkGridShapeStorage@@QEAAHPEAUBoundingBoxI@@HPEBVhknpShape@@@Z''),
     (''HkSimdTreeGridShapeStorage_Allocate'', ''?Allocate@HkSimdTreeGridShapeStorage@@QEAAHPEBVhknpShape@@@Z''),
     (''AllocateBallAndSocketConstraintData'',
       ''?AllocateBallAndSocketConstraintData@HkConstraintHandler@@SAPEAVhknpBallAndSocketConstraintData@@VhkVector4f@@0@Z''),
     (''AllocateBody'', ''?AllocateBody@HkWorld@@SA?AUhknpBodyId@@AEAVhknpWorld@@AEBUhknpBodyCinfo@@U2@@Z''),
     (''AllocateBox'', ''?AllocateBox@@YAPEBVhknpShape@@AEAVhkcdObb@@AEBUConvexShapeArgs@@@Z'')]"

definition physics_pointers_14 :: "(string \<times> string) list" where
  "physics_pointers_14 =
    [(''AllocateBreakableCompound'',
       ''?AllocateBreakableCompound@@YAPEBVhknpShape@@AEBV?$hkArrayView@$$CBUHkSerializableFracture@@@@MAEBV?$hkArrayView@UEdge@hknpConnectivityGraph@@@@@Z''),
     (''AllocateBreakableConstraintData'',
       ''?AllocateBreakableConstraintData@HkConstraintHandler@@SAPEAVhknpBreakableConstraintData@@MPEAVhknpConstraintData@@@Z''),
     (''AllocateCallbackConstraintMotor'',
       ''?AllocateCallbackConstraintMotor@HkConstraintHandler@@SAPEAVhknp1dCallbackConstraintMotor@@MMMMM@Z''),
     (''AllocateCallbackVelocityConstraintMotor'',
       ''?AllocateCallbackVelocityConstraintMotor@HkConstraintHandler@@SAPEAVvrCallbackVelocityConstraintMotor@@MMMMM@Z''),
     (''AllocateCapsule'', ''?AllocateCapsule@@YAPEBVhknpShape@@AEBVhkVector4f@@0M_N@Z''),
     (''HkConstraintHandler_AllocateConstraint_return_value_constraintData_world_bodyA_bodyB'',
       ''?AllocateConstraint@HkConstraintHandler@@QEAA?AUhknpConstraintId@@PEAVhknpConstraintData@@AEAVhknpWorld@@UhknpBodyId@@2@Z''),
     (''HkConstraintHandler_AllocateConstraint_return_value_constraintData_world_bodyA_bodyB_flags'',
       ''?AllocateConstraint@HkConstraintHandler@@QEAA?AUhknpConstraintId@@PEAVhknpConstraintData@@AEAVhknpWorld@@UhknpBodyId@@2W4FlagsEnum@hknpConstraint@@@Z''),
     (''AllocateConvex'',
       ''?AllocateConvex@@YAPEBVhknpShape@@AEBV?$hkArrayView@VhkVector4f@@@@AEBUConvexShapeArgs@@@Z''),
     (''AllocateCylinder'', ''?AllocateCylinder@@YAPEBVhknpShape@@AEBVhkVector4f@@0MHAEBUConvexShapeArgs@@@Z''),
     (''AllocateFixedConstraintData'',
       ''?AllocateFixedConstraintData@HkConstraintHandler@@SAPEAVhknpFixedConstraintData@@AEBVhkTransformf@@0@Z''),
     (''AllocateFixedWorldConstraintData'',
       ''?AllocateFixedWorldConstraintData@HkConstraintHandler@@SAPEAVhknpFixedConstraintData@@XZ''),
     (''AllocateLimitedHingeConstraintData'',
       ''?AllocateLimitedHingeConstraintData@HkConstraintHandler@@SAPEAVhknpLimitedHingeConstraintData@@AEBUHkSingleAxisConstraintArgs@1@@Z''),
     (''AllocateLodShape'', ''?AllocateLodShape@@YAPEBVhknpShape@@PEBV1@W4Mutability@1@@Z''),
     (''AllocateMalleableConstraintData'',
       ''?AllocateMalleableConstraintData@HkConstraintHandler@@SAPEAVhknpMalleableConstraintData@@MPEAVhknpConstraintData@@@Z''),
     (''AllocateMassDistributionRef'',
       ''?AllocateMassDistributionRef@@YAPEAUhknpRefMassDistribution@@AEBUhkDiagonalizedMassProperties@@@Z''),
     (''AllocateMesh'',
       ''?AllocateMesh@@YAPEBVhknpShape@@AEBV?$hkArrayView@$$CBVhkVector4f@@@@AEBV?$hkArrayView@$$CBUHkTriangle@@@@AEBUMeshShapeArgs@@@Z'')]"

definition physics_pointers_15 :: "(string \<times> string) list" where
  "physics_pointers_15 =
    [(''AllocateMotion'',
       ''?AllocateMotion@HkWorld@@SA?AUhknpMotionId@@AEAVhknpWorld@@PEBUhknpMotionProperties@@W4Enum@hknpMotionType@@AEBUVelocityPair@@@Z''),
     (''AllocateMutableCompound'', ''?AllocateMutableCompound@@YAPEBVhknpShape@@H@Z''),
     (''AllocateNullCollider'', ''?AllocateNullCollider@@YAPEBVhknpShape@@M@Z''),
     (''AllocatePalette'', ''?AllocatePalette@HkMaterialLibrary@@QEAAPEAVhknpMaterialPalette@@XZ''),
     (''AllocatePositionConstraintMotor'',
       ''?AllocatePositionConstraintMotor@HkConstraintHandler@@SAPEAVhknpPositionConstraintMotor@@MMMMMM@Z''),
     (''AllocatePrismaticConstraintData'',
       ''?AllocatePrismaticConstraintData@HkConstraintHandler@@SAPEAVhknpPrismaticConstraintData@@AEBUHkSingleAxisConstraintArgs@1@@Z''),
     (''AllocateRagdoll'', ''?AllocateRagdoll@HkRagdoll@@SAPEBV1@AEBUHkRagdollCinfo@@@Z''),
     (''AllocateSixDegreesOfFreedomConstraintData'',
       ''?AllocateSixDegreesOfFreedomConstraintData@HkConstraintHandler@@SAPEAVhknp6DofConstraintData@@AEBUHkSixDegreesOfFreedomConstraintArgs@1@@Z''),
     (''AllocateSparseGrid'', ''?AllocateSparseGrid@@YAPEBVhknpShape@@MMHHMPEBVHkGridShapeStorage@@@Z''),
     (''AllocateSparseGridStorage'', ''?AllocateSparseGridStorage@@YAPEAVHkGridShapeStorage@@XZ''),
     (''AllocateSphere'', ''?AllocateSphere@@YAPEBVhknpShape@@AEBVhkVector4f@@M_N@Z''),
     (''AllocateStaticCompound'',
       ''?AllocateStaticCompound@@YAPEBVhknpShape@@AEBV?$hkArrayView@$$CBUHkPackedCompoundShapeInstance@@@@@Z''),
     (''AllocateTreeGrid'', ''?AllocateTreeGrid@@YAPEBVhknpShape@@PEBUHkTreeGridArgs@@@Z''),
     (''AllocateTreeGridStorage'', ''?AllocateTreeGridStorage@@YAPEAVHkSimdTreeGridShapeStorage@@XZ''),
     (''AllocateVelocityConstraintMotor'',
       ''?AllocateVelocityConstraintMotor@HkConstraintHandler@@SAPEAVhknpVelocityConstraintMotor@@MMMMM@Z''),
     (''AllocateVoxel'', ''?AllocateVoxel@@YAPEBVhknpShape@@HM_N@Z'')]"

definition physics_pointers_16 :: "(string \<times> string) list" where
  "physics_pointers_16 =
    [(''AllocateWheel'', ''?AllocateWheel@@YAPEBVhknpShape@@AEBVhkVector4f@@0MHMPEAI1@Z''),
     (''AllocateWheelConstraintData'',
       ''?AllocateWheelConstraintData@HkConstraintHandler@@SAPEAVhknpWheelConstraintData@@AEBUHkWheelConstraintArgs@1@@Z'')]"

definition physics_pointers_17 :: "(string \<times> string) list" where
  "physics_pointers_17 =
    [(''AllocateWorld'', ''?AllocateWorld@HkSession@@QEAAAEAVhknpWorld@@_NAEBVhkVector4d@@1H@Z''),
     (''ApplyRagdollBodyImpulse'', ''?ApplyRagdollBodyImpulse@HkRagdoll@@QEBAXHAEBVhkVector4d@@AEBVhkVector4f@@@Z''),
     (''AreBodiesConnected'', ''?AreBodiesConnected@HkConstraintHandler@@QEBA_NAEAVhknpWorld@@UhknpBodyId@@1@Z''),
     (''AssignFrom'', ''?AssignFrom@HkMaterialConfiguration@HkMaterialLibrary@@SA?AU12@AEBVhknpMaterial@@@Z''),
     (''AssignTo'', ''?AssignTo@HkMaterialConfiguration@HkMaterialLibrary@@QEBAXAEAVhknpMaterial@@@Z''),
     (''AttachBodiesToMotion'',
       ''?AttachBodiesToMotion@HkSession@@QEAAXAEAVhknpWorld@@PEBUhknpBodyId@@HPEBUhknpMotionProperties@@UhknpMotionId@@@Z''),
     (''BeginRecording'', ''?BeginRecording@HkSession@@QEBAXPEBD@Z''),
     (''BuildColliderMassProperties'',
       ''?BuildColliderMassProperties@@YAXPEBVhknpShape@@UMassBuildConfig@@AEAUhkDiagonalizedMassProperties@@@Z''),
     (''Global_CalcAabb'', ''?CalcAabb@@YAXPEBVhknpShape@@AEBUHkPackedWorldTransform@@AEAVhkAabb@@@Z''),
     (''CalculateLoddedInfo'', ''?CalculateLoddedInfo@HkManifoldInfo@@QEAAXPEBVhknpBody@@0PEBVhknpWorld@@@Z''),
     (''CalculateObb'', ''?CalculateObb@HkManifoldInfo@@QEAAXPEBVhknpBody@@AEAVhkcdObb@@@Z''),
     (''CastAabb'',
       ''?CastAabb@HkQueryDispatcher@@SAXAEBUHkCastAabbArgs@1@AEAU?$HkBufferReference@UhknpBodyId@@@@@Z''),
     (''HkColliderQueryDispatcher_CastRay'',
       ''?CastRay@HkColliderQueryDispatcher@@SAXAEBUHkColliderCastRayArgs@1@AEAU?$HkBufferReference@UHkColliderSweepQueryHit@HkColliderQueryDispatcher@@@@@Z''),
     (''HkQueryDispatcher_CastRay'',
       ''?CastRay@HkQueryDispatcher@@SAXAEBUHkRayCastArgs@1@AEAU?$HkBufferReference@UHkSweepQueryHit@HkQueryDispatcher@@@@@Z''),
     (''HkColliderQueryDispatcher_CastShape'',
       ''?CastShape@HkColliderQueryDispatcher@@SAXAEBUHkColliderCastColliderArgs@1@AEAU?$HkBufferReference@UHkColliderSweepQueryHit@HkColliderQueryDispatcher@@@@@Z''),
     (''HkQueryDispatcher_CastShape'',
       ''?CastShape@HkQueryDispatcher@@SAXAEBUHkCastShapeArgs@1@AEAU?$HkBufferReference@UHkSweepQueryHit@HkQueryDispatcher@@@@@Z''),
     (''ClearConstraintsWithExceededForces'', ''?ClearConstraintsWithExceededForces@HkConstraintHandler@@QEAAXXZ'')]"

definition physics_pointers_18 :: "(string \<times> string) list" where
  "physics_pointers_18 =
    [(''ClearMessageHandlers'', ''?ClearMessageHandlers@HkMainSystem@@SAXXZ''),
     (''ClearMotionGravity'', ''?ClearMotionGravity@HkGravityModifier@@QEAAXUhknpMotionId@@@Z''),
     (''ClearRange'', ''?ClearRange@HkVoxelShape@@QEAAXUVector3I@@0@Z''),
     (''ClosestPoint'', ''?ClosestPoint@HkManifoldInfo@@SAXAEAVhkcdObb@@AEBVhkVector4f@@AEAV3@@Z''),
     (''CollectActivation'', ''?CollectActivation@HkSession@@QEAAXAEAU?$HkBufferReference@UhknpBodyId@@@@@Z''),
     (''CollectDeactivation'', ''?CollectDeactivation@HkSession@@QEAAXAEAU?$HkBufferReference@UhknpBodyId@@@@@Z''),
     (''CollectLeaves'', ''?CollectLeaves@@YAXPEBVhknpShape@@AEAU?$HkBufferReference@UHkLargeShapeKey@@@@I@Z''),
     (''CollectMutatedBodies'',
       ''?CollectMutatedBodies@HkSession@@QEAAXAEAU?$HkBufferReference@UHkBodyUserDataPair@@@@@Z''),
     (''CollectStatistics'',
       ''?CollectStatistics@HkStatistics@@QEAAXAEAU?$HkBufferReference@UStatisticsNode@HkStatistics@@@@H@Z''),
     (''ComputeMassProperties'',
       ''?ComputeMassProperties@@YAXPEBUHkManagedMassElement@@HAEAUhkDiagonalizedMassProperties@@@Z''),
     (''ConstraintHandler'', ''?ConstraintHandler@HkSession@@QEBAPEAUHkConstraintHandler@@XZ''),
     (''ContainsChunk'', ''?ContainsChunk@HkSimdTreeGridShape@@QEBA_NUVector3I@@@Z''),
     (''CountChildren'', ''?CountChildren@@YAHPEBVhknpShape@@@Z'')]"

definition physics_pointers_19 :: "(string \<times> string) list" where
  "physics_pointers_19 =
    [(''Create'', ''?Create@HkCharacterController@@SAPEAV1@AEBUHkCharacterControllerCinfo@@@Z''),
     (''CreateDebugDrawSystem'',
       ''?CreateDebugDrawSystem@HkSession@@QEAAPEAVHkDebugProcessManager@@AEBUDebugDrawImplementationTable@@PEAX@Z''),
     (''CreateStateManager'',
       ''?CreateStateManager@HkCharacterController@@SAPEAVHkCharacterStateManager@@AEBUHkCharacterStateManagerCinfo@@@Z''),
     (''DecomposeIntoConvexHulls'',
       ''?DecomposeIntoConvexHulls@@YAXAEBUConfig@hkConvexDecomposition@@AEBUHkGeometryRef@@AEAU?$HkBufferReference@VhkVector4f@@@@AEAU?$HkBufferReference@H@@PEAUOutputInfo@2@@Z''),
     (''DecomposeIntoConvexShapes'',
       ''?DecomposeIntoConvexShapes@@YAXAEBUConfig@hkConvexDecomposition@@AEBUHkGeometryRef@@AEBUConvexShapeArgs@@AEAU?$HkBufferReference@PEBVhknpShape@@@@PEAUOutputInfo@2@@Z''),
     (''DestroyBodyConstraints'',
       ''?DestroyBodyConstraints@HkConstraintHandler@@QEAAXAEAVhknpWorld@@UhknpBodyId@@@Z''),
     (''DiscardAsyncUpdate'', ''?DiscardAsyncUpdate@HkVoxelShape@@SAXPEAX@Z''),
     (''HkLoadedShapeInfo_Dispose'', ''?Dispose@HkLoadedShapeInfo@@QEAAXXZ''),
     (''HkMaterialLibrary_Dispose'', ''?Dispose@HkMaterialLibrary@@SAXXZ''),
     (''DrawAABB'', ''?DrawAABB@HkDebugDraw@@SAXAEBVhkAabb@@UhkColorArgb@@1@Z''),
     (''DrawArrow'', ''?DrawArrow@HkDebugDraw@@SAXAEBVhkVector4d@@AEBVhkVector4f@@UhkColorArgb@@@Z''),
     (''DrawCapsule'', ''?DrawCapsule@HkDebugDraw@@SAXAEBVhkVector4d@@0MUhkColorArgb@@1@Z''),
     (''DrawLine'', ''?DrawLine@HkDebugDraw@@SAXAEBVhkVector4d@@0UhkColorArgb@@@Z''),
     (''DrawShape'', ''?DrawShape@HkDebugDraw@@SAXPEBVhknpShape@@AEBUHkPackedWorldTransform@@UhkColorArgb@@2@Z''),
     (''DrawSphere'', ''?DrawSphere@HkDebugDraw@@SAXAEBVhkVector4d@@UhkColorArgb@@1@Z''),
     (''DrawText'', ''?DrawText@HkDebugDraw@@SAXPEBDAEBVhkVector4d@@UhkColorArgb@@@Z''),
     (''DrawTransformedAABB'',
       ''?DrawTransformedAABB@HkDebugDraw@@SAXAEBUHkPackedWorldTransform@@AEBVhkAabb@@UhkColorArgb@@2@Z''),
     (''Drive'', ''?Drive@HkRagdoll@@QEAAX_NUHkPackedWorldTransform@@M@Z'')]"

definition physics_pointers_20 :: "(string \<times> string) list" where
  "physics_pointers_20 =
    [(''DriveBodyTo'',
       ''?DriveBodyTo@HkWorld@@SAXAEAVhknpWorld@@UhknpBodyId@@AEBUHkPackedWorldTransform@@AEBUHkBodyDrivingSettings@@@Z''),
     (''EnableVisualDebugger'', ''?EnableVisualDebugger@HkSession@@QEAAXXZ''),
     (''End'', ''?End@HkAdaptedCallbacks@HkMainSystem@@SAXPEBX@Z''),
     (''EndRecording'', ''?EndRecording@HkSession@@QEBAXXZ''),
     (''Error'', ''?Error@UserCallbacks@HkMainSystem@@QEBAXIPEBD@Z''),
     (''ExportWorldSnapshot'', ''?ExportWorldSnapshot@vrWorldSnapshotExporter@@SA_NAEAVhknpWorld@@PEBD_N@Z''),
     (''FilterManifolds'', ''?FilterManifolds@HkBreakHandlerModifier@@QEAAXXZ''),
     (''FindByName'', ''?FindByName@HkMaterialLibrary@@QEBA?AUhknpMaterialId@@PEBD@Z''),
     (''FindLeaf'', ''?FindLeaf@@YA_NPEBVhknpShape@@IPEAPEBV1@PEAUHkTriangleOrQuad@@PEAG@Z''),
     (''FireCollisionCacheRebuildSignal'', ''?FireCollisionCacheRebuildSignal@@YAXPEBVhknpShape@@@Z''),
     (''FlushCollisionCaches'', ''?FlushCollisionCaches@HkWorld@@SAXAEAVhknpWorld@@@Z''),
     (''FlushLog'', ''?FlushLog@HkMainSystem@@SAXPEAX@Z''),
     (''From'', ''?From@HkWorldData@@SAAEAU1@AEBVhknpWorld@@@Z''),
     (''GenerateGroups'',
       ''?GenerateGroups@HkBreakHandlerModifier@@QEAAXAEAU?$HkBufferReference@UHkManifoldGroupConfig@HkManifoldGroup@@@@@Z''),
     (''HkMaterialLibrary_Get'', ''?Get@HkMaterialLibrary@@QEBA?BUHkMaterialConfiguration@1@UhknpMaterialId@@@Z''),
     (''GetActiveBodiesCount'', ''?GetActiveBodiesCount@HkRagdoll@@QEBAHXZ'')]"

definition physics_pointers_21 :: "(string \<times> string) list" where
  "physics_pointers_21 =
    [(''GetAndAdvance'', ''?GetAndAdvance@HkDataFilterIterator@@QEAA_NXZ''),
     (''GetAngle'', ''?GetAngle@HkConstraintHandler@@SAMPEBVhknpConstraint@@@Z''),
     (''GetBodiesInfo'', ''?GetBodiesInfo@HkWorld@@SAXAEBUHkBodyInfoUpdate@@H@Z''),
     (''GetBodyConstraintIds'',
       ''?GetBodyConstraintIds@HkConstraintHandler@@QEAAXAEAVhknpWorld@@UhknpBodyId@@AEAU?$HkBufferReference@UhknpConstraintId@@@@@Z''),
     (''GetBodyConstraints'',
       ''?GetBodyConstraints@HkConstraintHandler@@QEAAXAEAVhknpWorld@@UhknpBodyId@@AEAU?$HkBufferReference@PEBVhknpConstraint@@@@@Z''),
     (''HkCharacterController_GetBodyInfo'', ''?GetBodyInfo@HkCharacterController@@QEAA?AUBodyInfoPackf@@XZ''),
     (''HkWorld_GetBodyInfo'', ''?GetBodyInfo@HkWorld@@SAXAEAVhknpWorld@@UhknpBodyId@@AEAUHkPackedBodyInfo@@@Z''),
     (''GetBodyMassProperties'',
       ''?GetBodyMassProperties@HkWorld@@SAXAEAVhknpWorld@@UhknpBodyId@@AEAUhkDiagonalizedMassProperties@@@Z''),
     (''GetBodyMotion'',
       ''?GetBodyMotion@HkWorld@@SA?AUhknpMotionId@@AEAVhknpWorld@@UhknpBodyId@@PEAPEBVhknpMotion@@@Z''),
     (''GetBodyMotionId'', ''?GetBodyMotionId@HkWorld@@SA?AUhknpMotionId@@AEAVhknpWorld@@UhknpBodyId@@@Z''),
     (''HkRagdoll_GetBodyTransform'', ''?GetBodyTransform@HkRagdoll@@QEBA?AUHkPackedWorldTransform@@H@Z''),
     (''HkWorld_GetBodyTransform'',
       ''?GetBodyTransform@HkWorld@@SAXAEAVhknpWorld@@UhknpBodyId@@AEAUHkPackedWorldTransform@@@Z''),
     (''GetChild'', ''?GetChild@@YA_NPEBVhknpShape@@IPEAPEBV1@@Z''),
     (''HkSimdTreeGridShape_GetChildShape'', ''?GetChildShape@HkSimdTreeGridShape@@QEBAPEBVhknpShape@@I@Z''),
     (''HkSparseGridShape_GetChildShape'', ''?GetChildShape@HkSparseGridShape@@QEBAPEBVhknpShape@@I@Z''),
     (''GetChunkCount'', ''?GetChunkCount@HkSparseGridShape@@QEBAHXZ'')]"

definition physics_pointers_22 :: "(string \<times> string) list" where
  "physics_pointers_22 =
    [(''GetChunkShapes'',
       ''?GetChunkShapes@HkSparseGridShape@@QEBAXUVector3I@@AEAU?$HkBufferReference@PEBVhknpShape@@@@@Z''),
     (''GetColliderMassProperties'',
       ''?GetColliderMassProperties@@YA_NPEBVhknpShape@@AEAUhkDiagonalizedMassProperties@@@Z''),
     (''GetCompoundInstancesCentersAndBounds'',
       ''?GetCompoundInstancesCentersAndBounds@@YAXAEBV?$hkArrayView@$$CBUHkPackedCompoundShapeInstance@@@@PEAUhkFloat3@@PEAVhkAabb@@@Z''),
     (''GetConnectedBodies'',
       ''?GetConnectedBodies@HkConstraintHandler@@QEAAXAEAVhknpWorld@@UhknpBodyId@@AEAU?$HkBufferReference@UhknpBodyId@@@@@Z''),
     (''GetConstraintMotors'',
       ''?GetConstraintMotors@HkConstraintHandler@@SAXPEBVhknpConstraint@@AEAU?$HkBufferReference@PEBVhknpConstraintMotor@@@@@Z''),
     (''GetConstraintsWithExceededForces'',
       ''?GetConstraintsWithExceededForces@HkConstraintHandler@@QEAAHPEAPEAUHkConstraintWithExceededForces@1@@Z''),
     (''GetContactInfo'',
       ''?GetContactInfo@HkContactEventCollectorModifier@@QEBAPEBUHkManifoldContactInfo@1@PEBUhknpManifoldCollisionCache@@@Z''),
     (''GetConvexColliderCentersAndBounds'',
       ''?GetConvexColliderCentersAndBounds@@YAXPEAPEBVhknpShape@@HPEAUhkFloat3@@PEAVhkAabb@@@Z''),
     (''GetConvexGeometry'',
       ''?GetConvexGeometry@@YAXPEBVhknpShape@@AEAU?$HkBufferReference@VhkVector4f@@@@AEAU?$HkBufferReference@UHkTriangle@@@@@Z''),
     (''GetDebugGeometry'',
       ''?GetDebugGeometry@@YAXPEBVhknpShape@@AEAU?$HkBufferReference@VhkVector4f@@@@AEAU?$HkBufferReference@UHkTriangle@@@@@Z''),
     (''GetFirstManifold'', ''?GetFirstManifold@HkManifoldGroup@@QEBAHXZ''),
     (''GetHighSkeletonBones'',
       ''?GetHighSkeletonBones@HkRagdollAsset@@QEBAXAEAU?$HkBufferReference@UHkSkeletonBone@@@@@Z''),
     (''GetInteractionType'',
       ''?GetInteractionType@HkMassChangerModifier@@QEBA?AW4HkLayerInteraction_InteractType@@PEBVhknpWorld@@AEBUhknpBodyId@@1@Z''),
     (''HkSimdTreeGridShape_GetLeafTransform'', ''?GetLeafTransform@HkSimdTreeGridShape@@QEBA?AVhkTransformf@@I@Z''),
     (''HkSparseGridShape_GetLeafTransform'', ''?GetLeafTransform@HkSparseGridShape@@QEBA?AVhkTransformf@@I@Z''),
     (''GetLibrary'', ''?GetLibrary@HkMaterialLibrary@@SAPEAU1@XZ'')]"

definition physics_pointers_23 :: "(string \<times> string) list" where
  "physics_pointers_23 =
    [(''GetLowBoneToRagdollRigidBody'',
       ''?GetLowBoneToRagdollRigidBody@HkRagdollAsset@@QEBAXAEAU?$HkBufferReference@H@@@Z''),
     (''GetLowSkeletonBones'',
       ''?GetLowSkeletonBones@HkRagdollAsset@@QEBAXAEAU?$HkBufferReference@UHkSkeletonBone@@@@@Z''),
     (''GetManifolds'', ''?GetManifolds@HkBreakHandlerModifier@@QEBAPEBUHkManifoldInfo@@AEAH@Z''),
     (''Global_GetMaterial'', ''?GetMaterial@@YA?AUhknpMaterialId@@PEBVhknpWorld@@UhknpBodyId@@I@Z''),
     (''HkMaterialLibrary_GetMaterial'',
       ''?GetMaterial@HkMaterialLibrary@@SA?AUhknpMaterialId@@PEAVhknpMaterialPalette@@U?$hkHandle@G$0PPPP@UhknpMaterialPaletteEntryIdDiscriminant@@@@@Z''),
     (''GetMotionSharedBodiesInfo'', ''?GetMotionSharedBodiesInfo@HkWorld@@SAXPEAUHkPackedBodyInfoExtended@@H@Z''),
     (''ConvexShapeArgs_GetMutable_void'', ''?GetMutable@ConvexShapeArgs@@QEBA?AW4Mutability@hknpShape@@XZ''),
     (''ConvexShapeArgs_GetMutable_isMutable'', ''?GetMutable@ConvexShapeArgs@@SA?AW4Mutability@hknpShape@@_N@Z''),
     (''GetPaletteMaterials'',
       ''?GetPaletteMaterials@HkMaterialLibrary@@SAPEBUhknpMaterialId@@PEBVhknpMaterialPalette@@PEAH@Z''),
     (''GetProcesses'', ''?GetProcesses@HkDebugProcessManager@@QEAAXPEAPEAUProcessInfo@1@PEAH@Z''),
     (''GetQuadCount'', ''?GetQuadCount@HkVoxelShape@@QEBAHXZ''),
     (''GetRagdollPose'',
       ''?GetRagdollPose@HkRagdoll@@QEBAXPEBUHkPackedRelativeTransform@@PEAU2@HUHkPackedWorldTransform@@@Z''),
     (''GetRagdollRigidBodiesCount'', ''?GetRagdollRigidBodiesCount@HkRagdollAsset@@QEBAHXZ''),
     (''GetRootBodyTransform'', ''?GetRootBodyTransform@HkRagdoll@@QEBA?AUHkPackedWorldTransform@@XZ''),
     (''HkSimdTreeGridShape_GetShapeChunk'', ''?GetShapeChunk@HkSimdTreeGridShape@@QEBA?AUVector3I@@I@Z''),
     (''HkSparseGridShape_GetShapeChunk'', ''?GetShapeChunk@HkSparseGridShape@@QEBA?AUVector3I@@I@Z'')]"

definition physics_pointers_24 :: "(string \<times> string) list" where
  "physics_pointers_24 =
    [(''HkSimdTreeGridShape_GetShapeCount'', ''?GetShapeCount@HkSimdTreeGridShape@@QEBAHXZ''),
     (''HkSparseGridShape_GetShapeCount'', ''?GetShapeCount@HkSparseGridShape@@QEBAHXZ''),
     (''Global_GetShapeTag'', ''?GetShapeTag@@YAGPEBVhknpShape@@I@Z''),
     (''GetState'', ''?GetState@HkRagdoll@@QEBA?AW4State@1@XZ''),
     (''GetTotalAllocatedMemory'', ''?GetTotalAllocatedMemory@HkMainSystem@@SA_KXZ''),
     (''Global_GetTypeName'', ''?GetTypeName@@YAPEBDPEBVhknpShape@@@Z''),
     (''GetVelocityAtPoint'',
       ''?GetVelocityAtPoint@HkWorld@@SAXAEAVhknpWorld@@UhknpBodyId@@AEBVhkVector4f@@AEAV4@@Z''),
     (''GetVertexCount'', ''?GetVertexCount@HkVoxelShape@@QEBAHXZ''),
     (''HkAddReference'', ''?HkAddReference@HkMainSystem@@SAXPEAX@Z''),
     (''HkGetFloatingPointControlWord'', ''?HkGetFloatingPointControlWord@HkMainSystem@@SAHXZ'')]"

definition physics_pointers_25 :: "(string \<times> string) list" where
  "physics_pointers_25 =
    [(''HkInit'', ''?HkInit@HkMainSystem@@SAXAEBUHkMainCinfo@1@@Z''),
     (''HkQuit'', ''?HkQuit@HkMainSystem@@SAXXZ''),
     (''HkRefPtrGet'', ''?HkRefPtrGet@HkMainSystem@@SAPEAXPEAX@Z''),
     (''HkRefPtrSet'', ''?HkRefPtrSet@HkMainSystem@@SAXPEAX0@Z''),
     (''HkRemoveReference'', ''?HkRemoveReference@HkMainSystem@@SAXPEAX@Z''),
     (''HkSetDenormalFlushing'', ''?HkSetDenormalFlushing@HkMainSystem@@SAX_N@Z''),
     (''IncludePoint'', ''?IncludePoint@HkManifoldInfo@@SAXAEAVhkcdObb@@AEBVhkVector4f@@@Z''),
     (''Initialize'', ''?Initialize@HkMaterialLibrary@@SAXXZ''),
     (''IsBreached'', ''?IsBreached@HkManifoldGroup@@QEBAIXZ''),
     (''HkSimdTreeGridShape_IsChunkShape'', ''?IsChunkShape@HkSimdTreeGridShape@@QEBA_NI@Z''),
     (''HkSparseGridShape_IsChunkShape'', ''?IsChunkShape@HkSparseGridShape@@QEBA_NI@Z''),
     (''IsDebuggerConnected'', ''?IsDebuggerConnected@HkSession@@QEBA_NXZ''),
     (''IsDestructionRelated'',
       ''?IsDestructionRelated@HkBreakHandlerModifier@@QEBA_NAEBUhknpBodyIdPair@@PEBUhknpManifoldCollisionCache@@@Z''),
     (''HkContactEventCollectorModifier_IsEnabled'', ''?IsEnabled@HkContactEventCollectorModifier@@QEBA_NXZ''),
     (''IsFlagSet'', ''?IsFlagSet@HkManifoldInfo@@QEBA_NW4vrDestructionManifoldFlags@@@Z''),
     (''IsFloating'', ''?IsFloating@HkCharacterController@@QEBA_NXZ''),
     (''HkManifoldGroup_IsIgnored'', ''?IsIgnored@HkManifoldGroup@@QEBA_NXZ'')]"

definition physics_pointers_26 :: "(string \<times> string) list" where
  "physics_pointers_26 =
    [(''HkManifoldInfo_IsIgnored'', ''?IsIgnored@HkManifoldInfo@@QEBA_NXZ''),
     (''HkSimdTreeGridShape_IsShapeIndexValid'', ''?IsShapeIndexValid@HkSimdTreeGridShape@@QEBA_NI@Z''),
     (''HkSparseGridShape_IsShapeIndexValid'', ''?IsShapeIndexValid@HkSparseGridShape@@QEBA_NI@Z''),
     (''IsSolved'', ''?IsSolved@HkManifoldGroup@@QEBA_NXZ''),
     (''HkManifoldGroup_IsStaticB'', ''?IsStaticB@HkManifoldGroup@@QEBA_NXZ''),
     (''HkManifoldInfo_IsStaticB'', ''?IsStaticB@HkManifoldInfo@@QEBA_NXZ''),
     (''IsSubscribedToMutation'', ''?IsSubscribedToMutation@@YA_NPEBVhknpShape@@PEAX@Z''),
     (''LoadFromHktScene'', ''?LoadFromHktScene@HkRagdollAsset@@SAPEBV1@PEAXH@Z''),
     (''Log'', ''?Log@UserCallbacks@HkMainSystem@@QEBAXIW4Level@hkLog@@PEBD@Z''),
     (''LogWorld'', ''?LogWorld@HkWorld@@SAXAEAVhknpWorld@@@Z''),
     (''Migrate'', ''?Migrate@HkRagdoll@@QEAAXAEAVhknpWorld@@@Z''),
     (''MutateBox'', ''?MutateBox@@YAXPEAVhknpBoxShape@@AEBUvrBoxParameters@@@Z''),
     (''NearestPointsToCollider'',
       ''?NearestPointsToCollider@HkColliderQueryDispatcher@@SAXAEBUHkColliderNearestPointsToColliderArgs@1@AEAU?$HkBufferReference@UHkColliderNearestQueryHit@HkColliderQueryDispatcher@@@@@Z''),
     (''HkColliderQueryDispatcher_NearestPointsToPoint'',
       ''?NearestPointsToPoint@HkColliderQueryDispatcher@@SAXAEBUHkColliderNearestPointsArgs@1@AEAU?$HkBufferReference@UHkColliderNearestQueryHit@HkColliderQueryDispatcher@@@@@Z''),
     (''HkQueryDispatcher_NearestPointsToPoint'',
       ''?NearestPointsToPoint@HkQueryDispatcher@@SAXAEBUHkNearestPointsToPointArgs@1@AEAU?$HkBufferReference@UHkNearestQueryHit@HkQueryDispatcher@@@@@Z''),
     (''NearestPointsToShape'',
       ''?NearestPointsToShape@HkQueryDispatcher@@SAXAEBUHkNearestPointsToShapeArgs@1@AEAU?$HkBufferReference@UHkNearestQueryHit@HkQueryDispatcher@@@@@Z'')]"

definition physics_pointers_27 :: "(string \<times> string) list" where
  "physics_pointers_27 =
    [(''NotifyShapeMutated'', ''?NotifyShapeMutated@@YAXPEBVhknpShape@@@Z''),
     (''OptimizeLod'', ''?OptimizeLod@HkSimdTreeGridShape@@QEAAXMPEAVhknpLodShape@@W4hknpLevelOfDetail@@@Z''),
     (''PostProcessConstraintsMigrations'',
       ''?PostProcessConstraintsMigrations@HkSession@@QEAAXPEBVhknpWorld@@PEAV2@PEBUhknpBodyId@@H@Z''),
     (''PredictPointVelocityUsingAngularVelocity'',
       ''?PredictPointVelocityUsingAngularVelocity@HkWorld@@SAXAEBVhkVector4f@@0AEBVhkSimdFloat32@@1AEAV2@@Z''),
     (''PrepareAsyncRangeUpdate'', ''?PrepareAsyncRangeUpdate@HkVoxelShape@@QEAAPEAXUVector3I@@0PEAE1@Z''),
     (''ProcessConstraintsMigrations'',
       ''?ProcessConstraintsMigrations@HkSession@@QEAAXAEAU?$HkBufferReference@UHkConstraintIdMapping@@@@@Z''),
     (''ProcessNativeAssertFail'', ''?ProcessNativeAssertFail@HkMainSystem@@SAXPEBD@Z''),
     (''HkColliderQueryDispatcher_QueryAabb'',
       ''?QueryAabb@HkColliderQueryDispatcher@@SAXAEBUHkColliderQueryAABBArgs@1@AEAU?$HkBufferReference@UvrShapeKey@@@@@Z''),
     (''HkQueryDispatcher_QueryAabb'',
       ''?QueryAabb@HkQueryDispatcher@@SAXAEBUHkQueryAabbArgs@1@AEAU?$HkBufferReference@UhknpBodyId@@@@@Z''),
     (''QueryGeometry'',
       ''?QueryGeometry@HkColliderQueryDispatcher@@SAXAEBUHkColliderQueryAABBArgs@1@AEAU?$HkBufferReference@VhkVector4f@@@@AEAU?$HkBufferReference@UHkTriangle@@@@@Z''),
     (''QueryLeaves'',
       ''?QueryLeaves@HkColliderQueryDispatcher@@SAXAEBUHkColliderQueryAABBArgs@1@AEAU?$HkBufferReference@UHkColliderLeafQueryColliderHit@HkColliderQueryDispatcher@@@@AEAU?$HkBufferReference@UHkColliderLeafQueryTriangleOrQuadHit@HkColliderQueryDispatcher@@@@@Z''),
     (''HkSimdTreeGridShape_RegisterFunctions'', ''?RegisterFunctions@HkSimdTreeGridShape@@SAXXZ''),
     (''HkSparseGridShape_RegisterFunctions'', ''?RegisterFunctions@HkSparseGridShape@@SAXXZ''),
     (''RegisterShape'', ''?RegisterShape@HkMaterialLibrary@@QEAAXPEAVhknpShape@@PEBVhknpMaterialPalette@@@Z'')]"

definition physics_pointers_28 :: "(string \<times> string) list" where
  "physics_pointers_28 =
    [(''ReleaseWorld'', ''?ReleaseWorld@HkSession@@QEAAXAEAVhknpWorld@@@Z''),
     (''Remap'', ''?Remap@HkWorldData@@SA?AVhkVector4d@@AEBVhknpWorld@@0V2@@Z''),
     (''Remove'', ''?Remove@HkMaterialLibrary@@QEAAXUhknpMaterialId@@@Z''),
     (''RemoveFromWorld'', ''?RemoveFromWorld@HkRagdoll@@QEAAXW4ActivationMode@hknpWorldWriter@@@Z''),
     (''RemoveInstances'', ''?RemoveInstances@@YAXPEAVhknpCompoundShape@@AEBV?$hkArrayView@$$CBI@@@Z''),
     (''RemoveInternalReferences'', ''?RemoveInternalReferences@@YAXPEBVhknpShape@@@Z''),
     (''HkSimdTreeGridShape_RemoveShapes'', ''?RemoveShapes@HkSimdTreeGridShape@@QEAAXPEBIH@Z''),
     (''HkSparseGridShape_RemoveShapes'', ''?RemoveShapes@HkSparseGridShape@@QEAAXPEBIH@Z''),
     (''HkMaterialLibrary_Reset'', ''?Reset@HkMaterialLibrary@@QEAAXXZ''),
     (''RestoreBodiesMotionType'',
       ''?RestoreBodiesMotionType@HkSession@@QEAA?AUhknpMotionId@@AEAVhknpWorld@@PEBUhknpBodyId@@HPEAUhknpMotionProperties@@W4Enum@hknpMotionType@@@Z''),
     (''SetAngle'', ''?SetAngle@HkConstraintHandler@@SAXPEBVhknpConstraint@@M@Z''),
     (''SetAngularMotorSettings'',
       ''?SetAngularMotorSettings@HkConstraintHandler@@SAXPEAVhknp6DofConstraintData@@PEAVhknpConstraintMotor@@@Z''),
     (''SetAssociatedTransform'', ''?SetAssociatedTransform@HkVoxelShape@@QEAAXAEBUHkPackedWorldTransform@@@Z''),
     (''SetBodiesEntityLayerIndex'', ''?SetBodiesEntityLayerIndex@HkWorld@@SAXAEAVhknpWorld@@PEBUhknpBodyId@@HI@Z''),
     (''SetBodiesInfo'', ''?SetBodiesInfo@HkWorld@@SAXAEBUHkBodyInfoCollection@@HAEBUHkDataFilter@@@Z''),
     (''SetBodiesMotion'', ''?SetBodiesMotion@HkWorld@@SAXAEAVhknpWorld@@PEBUhknpBodyId@@HUhknpMotionId@@@Z''),
     (''SetBodiesMotionType'',
       ''?SetBodiesMotionType@HkSession@@QEAA?AUhknpMotionId@@AEAVhknpWorld@@PEAUhknpBodyId@@HPEAUhknpMotionProperties@@W4Enum@hknpMotionType@@@Z'')]"

definition physics_pointers_29 :: "(string \<times> string) list" where
  "physics_pointers_29 =
    [(''SetBodyBreakingLayer'', ''?SetBodyBreakingLayer@HkBreakHandlerModifier@@SAXAEAVhknpWorld@@UhknpBodyId@@E@Z''),
     (''SetBodyEntityLayerIndex'', ''?SetBodyEntityLayerIndex@HkWorld@@SAXAEAVhknpWorld@@UhknpBodyId@@I@Z'')]"

definition physics_pointers_30 :: "(string \<times> string) list" where
  "physics_pointers_30 =
    [(''HkCharacterController_SetBodyInfo'', ''?SetBodyInfo@HkCharacterController@@QEAAXAEBUBodyInfoPackf@@M_N@Z''),
     (''HkWorld_SetBodyInfo'', ''?SetBodyInfo@HkWorld@@SAXAEAVhknpWorld@@UhknpBodyId@@AEBUBodyInfoPack@@_N@Z''),
     (''SetBodyMinimumSpeedOverride'',
       ''?SetBodyMinimumSpeedOverride@HkBreakHandlerModifier@@QEBAXUhknpBodyId@@PEBM@Z''),
     (''SetBodyToMotionTransform'',
       ''?SetBodyToMotionTransform@HkWorld@@SAXAEAVhknpWorld@@UhknpBodyId@@AEAUhkQTransform@@W4ActivationMode@hknpWorldWriter@@@Z''),
     (''SetBreached'', ''?SetBreached@HkManifoldGroup@@QEAAXXZ''),
     (''SetBreakHandler'', ''?SetBreakHandler@HkRestitutionIntegratorModifier@@QEAAXPEBVHkBreakHandlerModifier@@@Z''),
     (''HkSimdTreeGridShape_SetChunkShapes'',
       ''?SetChunkShapes@HkSimdTreeGridShape@@QEAAXUVector3I@@PEAPEBVhknpShape@@HPEAI_N@Z''),
     (''HkSparseGridShape_SetChunkShapes'',
       ''?SetChunkShapes@HkSparseGridShape@@QEAAXUVector3I@@PEAPEBVhknpShape@@HPEAI_N@Z'')]"

definition physics_pointers_31 :: "(string \<times> string) list" where
  "physics_pointers_31 =
    [(''SetColliderDeletionCallback'', ''?SetColliderDeletionCallback@@YAXP6AXPEBVhknpShape@@@Z@Z''),
     (''SetColliderMassProperties'',
       ''?SetColliderMassProperties@@YAXPEAVhknpShape@@AEAUhkDiagonalizedMassProperties@@@Z''),
     (''SetCollisionEventsEnabled'', ''?SetCollisionEventsEnabled@HkRagdoll@@QEAAX_N@Z''),
     (''SetConstraintGroupCinfo'',
       ''?SetConstraintGroupCinfo@HkConstraintHandler@@QEBAXAEBVhknpConstraintGroupCinfo@@@Z''),
     (''HkDebugProcessManager_SetDebuggedWorld'', ''?SetDebuggedWorld@HkDebugProcessManager@@QEAAXQEAVhknpWorld@@@Z''),
     (''HkSession_SetDebuggedWorld'', ''?SetDebuggedWorld@HkSession@@QEAAXQEAVhknpWorld@@@Z''),
     (''SetEnableCollisionsBetweenLayers'',
       ''?SetEnableCollisionsBetweenLayers@HkSession@@QEAAXPEBW4HkLayerInteraction_InteractType@@@Z''),
     (''SetEntityLayerIndex'', ''?SetEntityLayerIndex@HkRagdoll@@QEAAXH@Z'')]"

definition physics_pointers_32 :: "(string \<times> string) list" where
  "physics_pointers_32 =
    [(''SetExpandStub'', ''?SetExpandStub@HkBuffer@@SAXP6APEAXP6APEAXPEAU1@PEAXH@Z01H@Z@Z''),
     (''SetFlag'', ''?SetFlag@HkManifoldInfo@@QEAAXW4vrDestructionManifoldFlags@@@Z''),
     (''SetGravity'', ''?SetGravity@HkRagdoll@@QEBAXAEBVhkVector4f@@@Z''),
     (''SetGravityMultiplier'', ''?SetGravityMultiplier@HkSession@@QEAAXM@Z''),
     (''HkManifoldGroup_SetIgnored'', ''?SetIgnored@HkManifoldGroup@@QEAAXXZ''),
     (''HkManifoldInfo_SetIgnored'', ''?SetIgnored@HkManifoldInfo@@QEAAXW4vrDestructionIgnoredReason@@@Z''),
     (''SetInfo'', ''?SetInfo@vrBodyPartInfo@@SAXPEAVhknpWorld@@UhknpBodyId@@1UvrBodyPartId@@@Z''),
     (''SetMassChangerModifier'', ''?SetMassChangerModifier@HkCharacterModifier@@QEAAXPEBVHkMassChangerModifier@@@Z''),
     (''SetMessageState'', ''?SetMessageState@HkMainSystem@@SAXPEAIPEAH_N2@Z''),
     (''SetMotionGravity'', ''?SetMotionGravity@HkGravityModifier@@QEAAXUhknpMotionId@@AEBVhkVector4f@@_N@Z''),
     (''HkWorld_SetMotionMassProperties_motion_massProperties_worldTransform'',
       ''?SetMotionMassProperties@HkWorld@@SAXAEAVhknpMotion@@AEBUhkDiagonalizedMassProperties@@AEBUHkPackedWorldTransform@@@Z''),
     (''HkWorld_SetMotionMassProperties_world_motion_massProperties_previousInertiaTransform'',
       ''?SetMotionMassProperties@HkWorld@@SAXAEAVhknpWorld@@UhknpMotionId@@AEBUhkDiagonalizedMassProperties@@AEBUhkQTransform@@@Z''),
     (''SetMotionsGravity'', ''?SetMotionsGravity@HkGravityModifier@@SAXAEBUHkGravityUpdate@@AEBUHkDataFilter@@H@Z''),
     (''SetMotorEnabled'', ''?SetMotorEnabled@HkConstraintHandler@@SAXAEAVhknpLimitedHingeConstraintData@@_N@Z''),
     (''SetMotorEnabled_1'', ''?SetMotorEnabled@HkConstraintHandler@@SAXAEAVhknpPrismaticConstraintData@@_N@Z''),
     (''SetMotorEnabled_2'', ''?SetMotorEnabled@HkConstraintHandler@@SAXAEAVhknpWheelConstraintData@@_N@Z''),
     (''SetNotifyDeletion'', ''?SetNotifyDeletion@@YAXPEBVhknpShape@@_N@Z'')]"

definition physics_pointers_33 :: "(string \<times> string) list" where
  "physics_pointers_33 =
    [(''SetPostProjectionEnabled'', ''?SetPostProjectionEnabled@HkRagdoll@@QEAAX_N@Z''),
     (''SetProcessEnabled'', ''?SetProcessEnabled@HkDebugProcessManager@@QEAAXH_N@Z''),
     (''SetShapesViewerOptions'',
       ''?SetShapesViewerOptions@HkDebugProcessManager@@QEAAXHAEBUHkShapeViewerOptions@1@@Z''),
     (''SetSolved'', ''?SetSolved@HkManifoldGroup@@QEAAXXZ''),
     (''SetSolverParameters'', ''?SetSolverParameters@HkSession@@QEAAXHHMM@Z''),
     (''SetStaticBodiesInfo'', ''?SetStaticBodiesInfo@HkWorld@@SAXPEBUHkStaticBodyInfoUpdate@@H@Z''),
     (''SetTargetPose'', ''?SetTargetPose@HkRagdoll@@QEAAXPEBUHkPackedRelativeTransform@@H@Z''),
     (''SetUnbreached'', ''?SetUnbreached@HkManifoldGroup@@QEAAXXZ''),
     (''SimplifyGeometry'', ''?SimplifyGeometry@@YAXAEAUHkGeometryRef@@UHkSimplificationParameters@@@Z''),
     (''StepCollide'', ''?StepCollide@HkSession@@QEAAXM@Z''),
     (''StepDebugDraw'', ''?StepDebugDraw@HkSession@@QEAAXM@Z''),
     (''StepSolve'', ''?StepSolve@HkSession@@QEAAXM@Z''),
     (''StepVDB'', ''?StepVDB@HkSession@@QEAAXM@Z'')]"

definition physics_pointers_34 :: "(string \<times> string) list" where
  "physics_pointers_34 =
    [(''SubscribeToMutation'', ''?SubscribeToMutation@@YAXPEBVhknpShape@@PEAX@Z''),
     (''SubscribeToWorldEvents'', ''?SubscribeToWorldEvents@HkConstraintHandler@@QEAAXPEAVhknpWorld@@@Z''),
     (''SwitchState'', ''?SwitchState@HkRagdoll@@QEBAXW4State@1@@Z''),
     (''ToHavokSpace'', ''?ToHavokSpace@HkWorldData@@QEBA?AVhkTransformf@@V2@@Z''),
     (''ToHavokSpace_2'', ''?ToHavokSpace@HkWorldData@@QEBA?AVhkVector4f@@V2@@Z''),
     (''ToHavokSpace_1'', ''?ToHavokSpace@HkWorldData@@QEBA?AVhkVector4f@@VhkVector4d@@@Z''),
     (''ToHavokSpaceD_1'', ''?ToHavokSpaceD@HkWorldData@@QEBA?AVhkVector4d@@UhkDouble3@@@Z''),
     (''ToHavokSpaceD'', ''?ToHavokSpaceD@HkWorldData@@QEBA?AVhkVector4d@@V2@@Z''),
     (''ToVRageSpaceD'', ''?ToVRageSpaceD@HkWorldData@@QEBA?AVhkVector4d@@V2@@Z''),
     (''ToVRageSpaceD_1'', ''?ToVRageSpaceD@HkWorldData@@QEBA?AVhkVector4d@@VhkVector4f@@@Z''),
     (''ToggleGravity'', ''?ToggleGravity@HkRagdoll@@QEBAX_N@Z''),
     (''TriggerTestMessage'', ''?TriggerTestMessage@HkMainSystem@@SAXW4Level@hkLog@@H@Z''),
     (''TriggerWarningTypes'', ''?TriggerWarningTypes@HkMainSystem@@SAXXZ''),
     (''TryGetBodyBreakingLayer'',
       ''?TryGetBodyBreakingLayer@HkBreakHandlerModifier@@SA_NAEAVhknpWorld@@UhknpBodyId@@AEAE@Z''),
     (''TryGetBodyEntityLayerIndex'', ''?TryGetBodyEntityLayerIndex@HkWorld@@SA_NPEBVhknpWorld@@UhknpBodyId@@AEAH@Z''),
     (''TryGetMotionGravity'', ''?TryGetMotionGravity@HkGravityModifier@@QEBA_NUhknpMotionId@@AEAVhkVector4f@@@Z''),
     (''TryMoveBodies'', ''?TryMoveBodies@HkSession@@QEAA_NAEAVhknpWorld@@0PEAUhknpBodyId@@HH1@Z'')]"

definition physics_pointers_35 :: "(string \<times> string) list" where
  "physics_pointers_35 =
    [(''UnregisterShape'', ''?UnregisterShape@HkMaterialLibrary@@QEAAXPEAVhknpShape@@@Z'')]"

definition physics_pointers_36 :: "(string \<times> string) list" where
  "physics_pointers_36 =
    [(''UnsubscribeFromMutation'', ''?UnsubscribeFromMutation@@YAXPEBVhknpShape@@PEAX@Z''),
     (''HkManifoldInfo_Update'', ''?Update@HkManifoldInfo@@QEAAXAEBUhkcdManifold4@@PEBVhknpBody@@1PEBVhknpWorld@@@Z''),
     (''HkMaterialLibrary_Update'',
       ''?Update@HkMaterialLibrary@@QEAAXUhknpMaterialId@@AEBUHkMaterialConfiguration@1@@Z''),
     (''UpdateAndDraw'', ''?UpdateAndDraw@HkDebugProcessManager@@QEAAXM@Z''),
     (''UpdateBodyCOMCenteredBoundingRadius'',
       ''?UpdateBodyCOMCenteredBoundingRadius@HkWorld@@SAXAEAVhknpWorld@@UhknpBodyId@@@Z''),
     (''UpdateCamera'', ''?UpdateCamera@HkDebugProcessManager@@QEAAXPEBUHkCameraInfo@1@@Z''),
     (''HkWorld_UpdateDataDerivedFromMotionAndShape'',
       ''?UpdateDataDerivedFromMotionAndShape@HkWorld@@SAXAEAVhknpWorld@@PEAVhknpBody@@UhknpBodyQualityId@@@Z''),
     (''UpdateInstances'',
       ''?UpdateInstances@@YAXPEAVhknpCompoundShape@@AEBV?$hkArrayView@$$CBI@@AEBV?$hkArrayView@$$CBUHkPackedCompoundShapeInstance@@@@@Z''),
     (''UpdateMotionTransforms'', ''?UpdateMotionTransforms@HkWorld@@SAXAEAVhknpWorld@@AEBVhknpMotion@@@Z''),
     (''UpdateMotorsParameters'', ''?UpdateMotorsParameters@HkRagdoll@@QEAAXAEBUHkPoweredMotorsParams@@@Z''),
     (''UpdatePostProjectionSettings'',
       ''?UpdatePostProjectionSettings@HkRagdoll@@QEAAXAEBUHkPostProjectionUtilitySettings@@@Z''),
     (''HkVoxelShape_UpdateRange_updateData'', ''?UpdateRange@HkVoxelShape@@QEAAXPEAX@Z''),
     (''HkVoxelShape_UpdateRange_min_max_content_materials'', ''?UpdateRange@HkVoxelShape@@QEAAXUVector3I@@0PEAE1@Z''),
     (''HkSimdTreeGridShape_UpdateShapes'', ''?UpdateShapes@HkSimdTreeGridShape@@QEAAXPEBIPEAPEBVhknpShape@@H@Z''),
     (''HkSparseGridShape_UpdateShapes'', ''?UpdateShapes@HkSparseGridShape@@QEAAXPEBIPEAPEBVhknpShape@@H@Z''),
     (''WriteDebug'', ''?WriteDebug@UserCallbacks@HkMainSystem@@QEBAXPEBD@Z''),
     (''applyAngularImpulse'', ''?_applyAngularImpulse@hknpMotion@@QEAAXAEBVhkVector4f@@@Z'')]"

definition physics_pointers_37 :: "(string \<times> string) list" where
  "physics_pointers_37 =
    [(''applyLinearImpulse'', ''?_applyLinearImpulse@hknpMotion@@QEAAXAEBVhkVector4f@@@Z''),
     (''applyPointImpulse'', ''?_applyPointImpulse@hknpMotion@@QEAAXAEBVhkVector4f@@AEBVhkVector4d@@@Z''),
     (''getAngularVelocity'', ''?_getAngularVelocity@hknpMotion@@QEBAXAEAVhkVector4f@@@Z''),
     (''getPointVelocity'', ''?_getPointVelocity@hknpMotion@@QEBAXAEBVhkVector4d@@AEAVhkVector4f@@@Z''),
     (''GetPointVelocityUsingVelocity'',
       ''?_getPointVelocityUsingVelocity@hknpMotion@@QEBAXAEBVhkVector4f@@0AEBVhkVector4d@@AEAV2@@Z''),
     (''setAngularVelocity'', ''?_setAngularVelocity@hknpMotion@@QEAAXAEBVhkVector4f@@@Z''),
     (''SetShapeNoReduceCurrentRefCount'',
       ''?_setShapeNoReduceCurrentRefCount@hknpShapeInstance@@QEAAXPEBVhknpShape@@@Z''),
     (''hknpBody_SetTranslation'', ''?_setTranslation@hknpBody@@QEAAXAEBVhkVector4d@@@Z''),
     (''AccessAabb'', ''?accessAabb@hknpBody@@QEAAAEAUhkAabbFloat3@@XZ''),
     (''accessConstraintData'',
       ''?accessConstraintData@hknpWorld@@UEBAPEAVhknpConstraintData@@UhknpConstraintId@@@Z''),
     (''AccessData'', ''?accessData@hknpConstraint@@QEAAPEAVhknpConstraintData@@XZ''),
     (''AccessDataUnchecked'', ''?accessDataUnchecked@hknpConstraint@@QEAAPEAVhknpConstraintData@@XZ''),
     (''AccessHull'', ''?accessHull@hknpConvexShape@@QEAAAEAUhknpConvexHull@@XZ''),
     (''activateBodiesInAabb'', ''?activateBodiesInAabb@hknpWorld@@UEAAXAEBVhkAabb@@UhknpBodyId@@@Z''),
     (''addBodies'',
       ''?addBodies@hknpWorld@@UEAAXPEBUhknpBodyId@@HW4AdditionMode@hknpWorldWriter@@W4ActivationMode@4@@Z''),
     (''addBody'', ''?addBody@hknpWorld@@UEAAXUhknpBodyId@@W4AdditionMode@hknpWorldWriter@@W4ActivationMode@4@@Z'')]"

definition physics_pointers_38 :: "(string \<times> string) list" where
  "physics_pointers_38 =
    [(''addConstraint'', ''?addConstraint@hknpWorld@@UEAAXUhknpConstraintId@@W4ActivationMode@hknpWorldWriter@@@Z''),
     (''hknpMaterialPalette_AddEntry_return_value_material'',
       ''?addEntry@hknpMaterialPalette@@QEAA?AU?$hkHandle@G$0PPPP@UhknpMaterialPaletteEntryIdDiscriminant@@@@PEAVhknpRefMaterial@@@Z''),
     (''hknpMaterialPalette_AddEntry_return_value_name'',
       ''?addEntry@hknpMaterialPalette@@QEAA?AU?$hkHandle@G$0PPPP@UhknpMaterialPaletteEntryIdDiscriminant@@@@PEBD@Z''),
     (''AddEntry_1'',
       ''?addEntry@hknpMaterialPalette@@QEAA?AU?$hkHandle@G$0PPPP@UhknpMaterialPaletteEntryIdDiscriminant@@@@UhknpMaterialId@@@Z''),
     (''AddExtended'',
       ''?addExtended@HkExtendedMaterialPalette@HkMaterialLibrary@@QEAA?AU?$hkHandle@G$0PPPP@UhknpMaterialPaletteEntryIdDiscriminant@@@@UhknpMaterialId@@@Z''),
     (''hknp6DofConstraintData_AfterReflectNew'', ''?afterReflectNew@hknp6DofConstraintData@@QEAAXXZ''),
     (''hknpMotion_AfterReflectNew'', ''?afterReflectNew@hknpMotion@@QEAAXXZ''),
     (''hknpShape_AfterReflectNew'', ''?afterReflectNew@hknpShape@@QEAAXXZ''),
     (''hknpConvexShape_AfterReflectNewImpl'', ''?afterReflectNewImpl@hknpConvexShape@@QEAAXXZ''),
     (''hknpLodShape_AfterReflectNewImpl'', ''?afterReflectNewImpl@hknpLodShape@@QEAAXXZ''),
     (''AllocateAttachedBody'', ''?allocateAttachedBody@hknpWorld@@QEAA?AUhknpBodyId@@AEBUhknpBodyCinfo@@U2@1@Z''),
     (''allocateBodies'',
       ''?allocateBodies@hknpWorld@@UEAAXV?$hkStridedArrayView@$$CBUhknpBodyCinfo@@@@PEAUhknpBodyId@@V?$hkArrayView@$$CBUhknpBodyId@@@@@Z''),
     (''allocateConstraints'',
       ''?allocateConstraints@hknpWorld@@UEAAXV?$hkStridedArrayView@$$CBVhknpConstraintCinfo@@@@PEAUhknpConstraintId@@V?$hkArrayView@UhknpConstraintId@@@@@Z''),
     (''allocateMaterial_1'', ''?allocateMaterial@hknpWorld@@UEAA?AUhknpMaterialId@@AEBUhknpMaterialDescriptor@@@Z''),
     (''allocateMaterial'', ''?allocateMaterial@hknpWorld@@UEAA?AUhknpMaterialId@@AEBVhknpMaterial@@@Z''),
     (''AllowRotationAroundAxis'', ''?allowRotationAroundAxis@hknpPrismaticConstraintData@@QEAAX_N@Z'')]"

definition physics_pointers_39 :: "(string \<times> string) list" where
  "physics_pointers_39 =
    [(''AnchorInstances'',
       ''?anchorInstances@hknpBreakableCompoundShape@@QEAAXV?$hkArrayView@$$CBU?$hkHandle@I$0PPPPPPPP@UhknpShapeInstanceIdDiscriminant@@@@@@@Z''),
     (''ApplyAngularImpulse'', ''?applyAngularImpulse@hknpMotion@@QEAAXAEBVhkVector4f@@@Z''),
     (''applyBodyAngularImpulse'',
       ''?applyBodyAngularImpulse@hknpWorld@@UEAAXUhknpBodyId@@AEBVhkVector4f@@W4ActivationMode@hknpWorldWriter@@@Z''),
     (''applyBodyImpulseAt'',
       ''?applyBodyImpulseAt@hknpWorld@@UEAAXUhknpBodyId@@AEBVhkVector4f@@AEBVhkVector4d@@W4ActivationMode@hknpWorldWriter@@@Z''),
     (''applyBodyLinearImpulse'',
       ''?applyBodyLinearImpulse@hknpWorld@@UEAAXUhknpBodyId@@AEBVhkVector4f@@W4ActivationMode@hknpWorldWriter@@@Z''),
     (''ApplyLinearImpulse'', ''?applyLinearImpulse@hknpMotion@@QEAAXAEBVhkVector4f@@@Z''),
     (''ApplyPointImpulse'', ''?applyPointImpulse@hknpMotion@@QEAAXAEBVhkVector4f@@AEBVhkVector4d@@@Z''),
     (''ApplySpeedLimits'', ''?applySpeedLimits@hknpMotion@@QEAAXXZ''),
     (''AreConsistencyChecksEnabled'', ''?areConsistencyChecksEnabled@hknpWorld@@QEBAIXZ''),
     (''AsConvexPolytopeShape'', ''?asConvexPolytopeShape@hknpShape@@QEBAPEBVhknpConvexShape@@XZ''),
     (''AsConvexShape'', ''?asConvexShape@hknpShape@@QEBAPEBVhknpConvexShape@@XZ''),
     (''AsPreciseTransform'', ''?asPreciseTransform@HkPackedWorldTransform@@QEBA?AVhkPreciseTransform@@XZ''),
     (''AsQTransform'', ''?asQTransform@HkPackedWorldTransform@@QEBA?AUhkQTransform@@XZ''),
     (''AsQsTransform'', ''?asQsTransform@HkPackedWorldTransform@@QEBA?AVhkQsTransformf@@XZ''),
     (''attachBodies'', ''?attachBodies@hknpWorld@@UEAAXUhknpBodyId@@PEBU2@HW4UpdateMotionMode@hknpWorldWriter@@@Z''),
     (''BreakIntoDisjointPieces'',
       ''?breakIntoDisjointPieces@hknpBreakableCompoundShape@@QEAA?AW4Status@1@AEAUDisjointResult@hknpConnectivityGraph@@PEAV?$hkArray@U?$hkHandle@I$0PPPPPPPP@UEdgeIdDiscriminant@hknpConnectivityGraph@@@@U?$hkBuiltinContainerAllocator@$0A@$0A@@@@@@Z'')]"

definition physics_pointers_40 :: "(string \<times> string) list" where
  "physics_pointers_40 =
    [(''BuildEffMassMatrixAt'', ''?buildEffMassMatrixAt@hknpMotion@@QEBAXAEBVhkVector4d@@AEAV?$hkMatrix3Impl@M@@@Z''),
     (''BuildMassProperties'',
       ''?buildMassProperties@hknpShape@@QEBAXAEBUMassConfig@1@AEAUhkDiagonalizedMassProperties@@@Z''),
     (''BuildSurfaceGeometry'',
       ''?buildSurfaceGeometry@hknpShape@@QEBA?AUhkResult@@AEBUBuildSurfaceGeometryConfig@1@AEAUSurfaceGeometry@1@@Z''),
     (''CString'', ''?cString@hkStringPtr@@QEBAPEBDXZ''),
     (''hknpShape_CalcAabb'', ''?calcAabb@hknpShape@@QEBAXAEBVhkPreciseTransform@@AEAVhkAabb@@@Z''),
     (''hknpConvexShape_CalcAabbNoRadius_aabbOut'', ''?calcAabbNoRadius@hknpConvexShape@@QEBAXAEAVhkAabb@@@Z''),
     (''hknpConvexShape_CalcAabbNoRadius_transform_aabbOut'',
       ''?calcAabbNoRadius@hknpConvexShape@@QEBAXAEBVhkTransformf@@AEAVhkAabb@@@Z''),
     (''CalcKineticEnergy'', ''?calcKineticEnergy@hknpMotion@@QEBA?AVhkSimdFloat32@@XZ''),
     (''CalcMassFromVolume'', ''?calcMassFromVolume@MassConfig@hknpShape@@QEBAMM@Z''),
     (''CalcMinAngleBetweenFaces'', ''?calcMinAngleBetweenFaces@hknpShape@@QEBA?AUhkResult@@AEAM@Z''),
     (''CalcProjectedInverseMass'',
       ''?calcProjectedInverseMass@hknpMotion@@QEBA?AVhkSimdFloat32@@AEBVhkVector4f@@0@Z''),
     (''hknpBody_CalcShapeAabb_aabbOut'', ''?calcShapeAabb@hknpBody@@QEBAXAEAVhkAabb@@@Z''),
     (''hknpBody_CalcShapeAabb_transform_aabbOut'',
       ''?calcShapeAabb@hknpBody@@QEBAXAEBVhkPreciseTransform@@AEAVhkAabb@@@Z''),
     (''CalculateAabb'', ''?calculateAabb@hknpShapeInstance@@QEBAXAEAVhkAabb@@@Z''),
     (''CalculatePartIdValue'', ''?calculatePartIdValue@vrBodyPartId@@SAIW4vrBodyPartProvider@@H@Z''),
     (''CanHaveChildShapes'', ''?canHaveChildShapes@hknpShape@@QEBA_NXZ'')]"

definition physics_pointers_41 :: "(string \<times> string) list" where
  "physics_pointers_41 =
    [(''hknpMotion_CheckConsistency'', ''?checkConsistency@hknpMotion@@QEBAXXZ''),
     (''hknpShape_CheckConsistency'', ''?checkConsistency@hknpShape@@QEBAXXZ''),
     (''hknpWorld_CheckConsistency'', ''?checkConsistency@hknpWorld@@QEBAXXZ''),
     (''CheckNotInSimulation'', ''?checkNotInSimulation@hknpWorld@@QEBAXH@Z''),
     (''Global_Clear_void'', ''?clear@CompressedIntArray@hknpConnectivityGraph@@QEAAXXZ''),
     (''Global_Clear_void_2'', ''?clear@DisjointResult@hknpConnectivityGraph@@QEAAXXZ''),
     (''Global_Clear_void_3'', ''?clear@Set@DisjointResult@hknpConnectivityGraph@@QEAAXXZ''),
     (''VrManifoldInertiaMultiplier_Clear'',
       ''?clear@VrManifoldInertiaMultiplier@@SAXPEAVhknpWorld@@UhknpBodyId@@@Z''),
     (''hkStringPtr_Clear'', ''?clear@hkStringPtr@@QEAAXXZ''),
     (''clearBodyProperty'', ''?clearBodyProperty@hknpWorld@@UEAAXUhknpBodyId@@G@Z''),
     (''clearConstraintProperty'', ''?clearConstraintProperty@hknpWorld@@UEAAXUhknpConstraintId@@G@Z''),
     (''CloneShapeShallow'', ''?cloneShapeShallow@HkBreakableCompoundShapeManipulator@@SAPEAXPEBX@Z''),
     (''CombineMaximumAllowedPenetration'',
       ''?combineMaximumAllowedPenetration@hknpConvexShape@@SAMPEBVhknpShape@@0@Z''),
     (''CompareTo'', ''?compareTo@hkStringPtr@@QEBAHPEBD@Z''),
     (''Contains'', ''?contains@hkStringPtr@@QEBAIPEBD@Z''),
     (''CopyRuntime'', ''?copyRuntime@hknpConstraint@@QEAAXAEBV1@@Z'')]"

definition physics_pointers_42 :: "(string \<times> string) list" where
  "physics_pointers_42 =
    [(''DecompressBodyAabb'', ''?decompressBodyAabb@hknpBody@@QEBAXAEBVhkPreciseTransform@@AEAVhkAabb@@@Z''),
     (''DefragmentInactiveCacheStreams'', ''?defragmentInactiveCacheStreams@hknpWorld@@QEAAXXZ''),
     (''DeleteAllCaches'', ''?deleteAllCaches@hknpWorld@@QEAAXXZ''),
     (''destroyBodies'', ''?destroyBodies@hknpWorld@@UEAAXPEBUhknpBodyId@@HW4ActivationMode@hknpWorldWriter@@@Z''),
     (''destroyConstraints'',
       ''?destroyConstraints@hknpWorld@@UEAAXPEBUhknpConstraintId@@HW4ActivationMode@hknpWorldWriter@@@Z''),
     (''destroyMaterials'', ''?destroyMaterials@hknpWorld@@UEAAXPEBUhknpMaterialId@@H@Z''),
     (''destroyMotions'', ''?destroyMotions@hknpWorld@@UEAAXPEBUhknpMotionId@@H@Z''),
     (''detachBodies'', ''?detachBodies@hknpWorld@@UEAAXPEBUhknpBodyId@@HW4UpdateMotionMode@hknpWorldWriter@@@Z''),
     (''DisableAllEdges'', ''?disableAllEdges@hknpBreakableCompoundShape@@QEAAXXZ''),
     (''disableBodyFlags'',
       ''?disableBodyFlags@hknpWorld@@UEAAXUhknpBodyId@@UhknpCollisionFlags@@W4ActivationMode@hknpWorldWriter@@W4UpdateCachesMode@5@@Z''),
     (''disableConstraintFlags'',
       ''?disableConstraintFlags@hknpWorld@@UEAAXUhknpConstraintId@@V?$hkFlags@W4FlagsEnum@hknpConstraint@@G@@W4ActivationMode@hknpWorldWriter@@@Z''),
     (''DisableEdge'',
       ''?disableEdge@hknpBreakableCompoundShape@@QEAAXU?$hkHandle@I$0PPPPPPPP@UEdgeIdDiscriminant@hknpConnectivityGraph@@@@@Z''),
     (''DisableInstanceEdges'',
       ''?disableInstanceEdges@hknpBreakableCompoundShape@@QEAAXU?$hkHandle@I$0PPPPPPPP@UhknpShapeInstanceIdDiscriminant@@@@@Z''),
     (''DisableLimits'', ''?disableLimits@hknpLimitedHingeConstraintData@@QEAAXXZ''),
     (''DisjointEdge'', ''?disjointEdge@HkBreakableCompoundShapeManipulator@@SAXPEAXH@Z''),
     (''DisjointNodeEdges'',
       ''?disjointNodeEdges@HkBreakableCompoundShapeManipulator@@SAXPEAXU?$hkHandle@I$0PPPPPPPP@UhknpShapeInstanceIdDiscriminant@@@@@Z'')]"

definition physics_pointers_43 :: "(string \<times> string) list" where
  "physics_pointers_43 =
    [(''DisjointSets'', ''?disjointSets@HkBreakableCompoundShapeManipulator@@SAPEAXPEAX@Z''),
     (''DisposeSets'', ''?disposeSets@HkBreakableCompoundShapeManipulator@@SAXPEAX@Z''),
     (''enableBodyFlags'',
       ''?enableBodyFlags@hknpWorld@@UEAAXUhknpBodyId@@UhknpCollisionFlags@@W4ActivationMode@hknpWorldWriter@@W4UpdateCachesMode@5@@Z''),
     (''enableConstraintFlags'',
       ''?enableConstraintFlags@hknpWorld@@UEAAXUhknpConstraintId@@V?$hkFlags@W4FlagsEnum@hknpConstraint@@G@@W4ActivationMode@hknpWorldWriter@@@Z''),
     (''EnableDirectSolver'', ''?enableDirectSolver@hknpConstraintData@@QEAA?AUhkResult@@_N@Z''),
     (''EnableDirectSolverImpl'', ''?enableDirectSolverImpl@hknpConstraintData@@QEAA?AUhkResult@@_N@Z''),
     (''EndsWith'', ''?endsWith@hkStringPtr@@QEBAIPEBD@Z''),
     (''EnsureIsExportable'', ''?ensureIsExportable@hknpConstraint@@QEAAXXZ''),
     (''EstimateNumShapeKeys'', ''?estimateNumShapeKeys@hknpShape@@QEBAHXZ''),
     (''FinalizeMutation'',
       ''?finalizeMutation@hknpConvexShape@@QEAAXV?$hkFlags@W4MutationFlagsEnum@hknpConvexShape@@H@@@Z''),
     (''FromDensity'', ''?fromDensity@MassConfig@hknpShape@@SA?AU12@MMW4Quality@12@@Z''),
     (''FromMass'', ''?fromMass@MassConfig@hknpShape@@SA?AU12@MMW4Quality@12@@Z''),
     (''Global_Get'', ''?get@CompressedIntArray@hknpConnectivityGraph@@QEBAIH@Z''),
     (''VrManifoldInertiaMultiplier_Get'',
       ''?get@VrManifoldInertiaMultiplier@@SAPEBU1@PEBVhknpWorld@@UhknpBodyId@@@Z''),
     (''hknpBody_GetAabb'', ''?getAabb@hknpBody@@QEBAAEBUhkAabbFloat3@@XZ''),
     (''hknpCompoundShape_GetAabb'', ''?getAabb@hknpCompoundShape@@QEBA?AVhkAabb@@XZ'')]"

definition physics_pointers_44 :: "(string \<times> string) list" where
  "physics_pointers_44 =
    [(''GetActivationPriority'', ''?getActivationPriority@hknpBody@@QEBACXZ''),
     (''getAirDensity'', ''?getAirDensity@hknpWorld@@UEBAMXZ''),
     (''GetAngularLimitsDampFactor'', ''?getAngularLimitsDampFactor@hknpLimitedHingeConstraintData@@QEBAMXZ''),
     (''GetAngularLimitsTauFactor'', ''?getAngularLimitsTauFactor@hknpLimitedHingeConstraintData@@QEBAMXZ''),
     (''GetAngularSLERPMotor'', ''?getAngularSLERPMotor@hknp6DofConstraintData@@QEBAPEAVhknpConstraintMotor@@XZ''),
     (''GetAngularSpeedLimit'', ''?getAngularSpeedLimit@hknpMotion@@QEBAMXZ''),
     (''GetAngularTarget'', ''?getAngularTarget@hknp6DofConstraintData@@QEBAXAEAV?$hkMatrix3Impl@M@@@Z''),
     (''GetAngularVelocity'', ''?getAngularVelocity@hknpMotion@@QEBAXAEAVhkVector4f@@@Z''),
     (''GetAngularVelocityLocal'', ''?getAngularVelocityLocal@hknpMotion@@QEBA?BVhkVector4f@@XZ''),
     (''GetAxisFriction'', ''?getAxisFriction@hknp6DofConstraintData@@QEBAMW4AxisIdentifier@1@@Z''),
     (''GetAxisLimitDampFactor'', ''?getAxisLimitDampFactor@hknp6DofConstraintData@@QEBAMW4AxisIdentifier@1@@Z''),
     (''GetAxisLimitTauFactor'', ''?getAxisLimitTauFactor@hknp6DofConstraintData@@QEBAMW4AxisIdentifier@1@@Z''),
     (''GetAxisMaxLimit'', ''?getAxisMaxLimit@hknp6DofConstraintData@@QEBAMW4AxisIdentifier@1@@Z''),
     (''GetAxisMinLimit'', ''?getAxisMinLimit@hknp6DofConstraintData@@QEBAMW4AxisIdentifier@1@@Z''),
     (''GetAxisMode'', ''?getAxisMode@hknp6DofConstraintData@@QEBA?AW4AxisMode@1@W4AxisIdentifier@1@@Z''),
     (''GetAxisMotor'', ''?getAxisMotor@hknp6DofConstraintData@@QEAAPEAVhknpConstraintMotor@@W4AxisIdentifier@1@@Z'')]"

definition physics_pointers_45 :: "(string \<times> string) list" where
  "physics_pointers_45 =
    [(''GetBitfieldSolverResultsForComputingAcceleration'',
       ''?getBitfieldSolverResultsForComputingAcceleration@hknpConstraintData@@QEBAIXZ''),
     (''GetBody'', ''?getBody@hknpWorld@@QEBAAEBVhknpBody@@UhknpBodyIdAndIndex@@@Z''),
     (''getBody'', ''?getBody@hknpWorld@@UEBAAEBVhknpBody@@UhknpBodyId@@@Z''),
     (''getBodyAabb'', ''?getBodyAabb@hknpWorld@@UEBAXUhknpBodyId@@AEAVhkAabb@@@Z''),
     (''getBodyActivationControl'',
       ''?getBodyActivationControl@hknpWorld@@UEBA?AW4Enum@hknpActivationControl@@UhknpBodyId@@@Z''),
     (''getBodyActivationState'',
       ''?getBodyActivationState@hknpWorld@@UEBA?AW4Enum@hknpActivationState@@UhknpBodyId@@@Z''),
     (''getBodyAngularVelocity'', ''?getBodyAngularVelocity@hknpWorld@@UEBAXUhknpBodyId@@AEAVhkVector4f@@@Z''),
     (''getBodyCapacity'', ''?getBodyCapacity@hknpWorld@@UEBAIXZ''),
     (''GetBodyCinfo'', ''?getBodyCinfo@hknpWorld@@QEBAXUhknpBodyId@@AEAUhknpBodyCinfo@@@Z''),
     (''GetBodyFromMotionRotation'', ''?getBodyFromMotionRotation@hknpBody@@QEBAAEBVhkQuaternionf@@XZ''),
     (''GetBodyFromMotionTransform'', ''?getBodyFromMotionTransform@hknpBody@@QEBA?AUhkQTransform@@XZ''),
     (''GetBodyId'', ''?getBodyId@hknpConstraint@@QEBA?AUhknpBodyIdAndIndex@@H@Z''),
     (''GetBodyIdA'', ''?getBodyIdA@hknpConstraint@@QEBA?AUhknpBodyIdAndIndex@@XZ''),
     (''GetBodyIdB'', ''?getBodyIdB@hknpConstraint@@QEBA?AUhknpBodyIdAndIndex@@XZ''),
     (''getBodyLinearVelocity'', ''?getBodyLinearVelocity@hknpWorld@@UEBA?AVhkVector4f@@UhknpBodyId@@@Z''),
     (''getBodyMass'', ''?getBodyMass@hknpWorld@@UEBAMUhknpBodyId@@@Z'')]"

definition physics_pointers_46 :: "(string \<times> string) list" where
  "physics_pointers_46 =
    [(''getBodyName'', ''?getBodyName@hknpWorld@@UEBAPEBDUhknpBodyId@@@Z''),
     (''getBodyPropertyImpl'', ''?getBodyPropertyImpl@hknpWorld@@UEBAPEBXUhknpBodyId@@G_K@Z''),
     (''getBodyTransform'', ''?getBodyTransform@hknpWorld@@UEBAAEBVhkPreciseTransform@@UhknpBodyId@@@Z''),
     (''getBodyVelocity'', ''?getBodyVelocity@hknpWorld@@UEBAXUhknpBodyId@@AEAVhkVector4f@@1@Z''),
     (''GetBoundingRadius'', ''?getBoundingRadius@hknpCompoundShape@@QEBAMXZ''),
     (''GetBoundsLod'', ''?getBoundsLod@hknpLodShape@@QEBA?AW4hknpLevelOfDetail@@XZ''),
     (''GetCachedBoundingRadius'', ''?getCachedBoundingRadius@hknpLodShape@@QEBA?AVhkHalf16@@XZ''),
     (''GetCachedMaxAabb'', ''?getCachedMaxAabb@hknpLodShape@@QEBA?AVhkAabb@@XZ''),
     (''GetCapacity'', ''?getCapacity@hknpCompoundShape@@QEBAHXZ''),
     (''GetCenterOfMassInBodySpace'', ''?getCenterOfMassInBodySpace@hknpBody@@QEBA?AVhkVector4f@@XZ''),
     (''GetCenterOfMassInWorld'', ''?getCenterOfMassInWorld@hknpMotion@@QEBAAEBUhkDouble3@@XZ''),
     (''GetCollisionLookAheadDistance'', ''?getCollisionLookAheadDistance@hknpBody@@QEBAMXZ''),
     (''GetComCenteredAngularExpansionRadius'', ''?getComCenteredAngularExpansionRadius@hknpBody@@QEBAMXZ''),
     (''GetComCenteredBoundingRadius'', ''?getComCenteredBoundingRadius@hknpBody@@QEBAMXZ''),
     (''GetCombinedDynamicFriction'', ''?getCombinedDynamicFriction@hknpMaterial@@SA?AVhkSimdFloat32@@AEBV1@0@Z''),
     (''GetCombinedRestitution'', ''?getCombinedRestitution@hknpMaterial@@SA?AVhkSimdFloat32@@AEBV1@0@Z'')]"

definition physics_pointers_47 :: "(string \<times> string) list" where
  "physics_pointers_47 =
    [(''GetCombinedStaticFriction'', ''?getCombinedStaticFriction@hknpMaterial@@SA?AVhkSimdFloat32@@AEBV1@0@Z''),
     (''GetCombinedWeldingTolerance'', ''?getCombinedWeldingTolerance@hknpMaterial@@SA?AVhkSimdFloat32@@AEBV1@0@Z''),
     (''GetCombinedWeldingToleranceAndMaxPenetration'',
       ''?getCombinedWeldingToleranceAndMaxPenetration@hknpMaterial@@SA?AVhkSimdFloat32@@AEBV1@0AEBV2@@Z''),
     (''GetCompoundShape'', ''?getCompoundShape@hknpBreakableCompoundShape@@QEBAPEBVhknpCompoundShape@@XZ''),
     (''GetConnectivity'', ''?getConnectivity@hknpBreakableCompoundShape@@QEBAPEBUhknpConnectivityGraph@@XZ''),
     (''GetConnectivityMemoryUsage'', ''?getConnectivityMemoryUsage@hknpBreakableCompoundShape@@QEBAHXZ''),
     (''getConstraint'', ''?getConstraint@hknpWorld@@UEBAAEBVhknpConstraint@@UhknpConstraintId@@@Z''),
     (''getConstraintCapacity'', ''?getConstraintCapacity@hknpWorld@@UEBAIXZ''),
     (''getConstraintGroupCapacity'', ''?getConstraintGroupCapacity@hknpWorld@@UEBAIXZ''),
     (''GetConstraintInfo'', ''?getConstraintInfo@hknpConstraintData@@QEBAXAEAUConstraintInfo@1@@Z''),
     (''getConstraintName'', ''?getConstraintName@hknpWorld@@UEBAPEBDUhknpConstraintId@@@Z''),
     (''getConstraintPropertyImpl'', ''?getConstraintPropertyImpl@hknpWorld@@UEBAPEBXUhknpConstraintId@@G_K@Z''),
     (''GetConstraintRhsFactorInv'', ''?getConstraintRhsFactorInv@hknpSolverInfo@@QEBA?AVhkSimdFloat32@@XZ''),
     (''GetConvexRadius'', ''?getConvexRadius@hknpShape@@QEBAMXZ''),
     (''GetConvexRadiusFactorForAabb'', ''?getConvexRadiusFactorForAabb@hknpConvexShape@@QEBAMXZ''),
     (''GetConvexRadiusForAabb'', ''?getConvexRadiusForAabb@hknpConvexShape@@QEBAMXZ'')]"

definition physics_pointers_48 :: "(string \<times> string) list" where
  "physics_pointers_48 =
    [(''GetData'', ''?getData@hknpConstraint@@QEBAPEBVhknpConstraintData@@XZ''),
     (''GetDispatchType'', ''?getDispatchType@hknpShape@@QEBA?AW4Enum@hknpCollisionDispatchType@@XZ''),
     (''GetDouble'', ''?getDouble@hkHalf16@@QEBANXZ''),
     (''GetEndVertex'', ''?getEndVertex@hknpConvexShape@@QEBAEAEBUEdge@hknpConvexHull@@@Z''),
     (''GetEstimatedNumShapeKeys'', ''?getEstimatedNumShapeKeys@hknpCompoundShape@@QEBAHXZ''),
     (''GetFaceInfo'', ''?getFaceInfo@hknpShape@@QEBAXHAEAVhkVector4f@@AEAUhknpAngularTimType@@@Z''),
     (''GetFinalGravity'',
       ''?getFinalGravity@HkCharacterMovementUtil@@SA?AVhkVector4f@@AEBVhknpCharacterContext@@AEBUhknpCharacterInput@@@Z''),
     (''GetFixedAngularDampFactor'', ''?getFixedAngularDampFactor@hknp6DofConstraintData@@QEBAMXZ''),
     (''GetFixedAngularTauFactor'', ''?getFixedAngularTauFactor@hknp6DofConstraintData@@QEBAMXZ''),
     (''GetFixedLinearDampFactor'', ''?getFixedLinearDampFactor@hknp6DofConstraintData@@QEBAMXZ''),
     (''GetFixedLinearTauFactor'', ''?getFixedLinearTauFactor@hknp6DofConstraintData@@QEBAMXZ''),
     (''hknpShape_GetFlags'', ''?getFlags@hknpShape@@QEBA?AV?$hkFlags@W4FlagsEnum@hknpShape@@G@@XZ''),
     (''hknpShapeInstance_GetFlags'',
       ''?getFlags@hknpShapeInstance@@QEBA?AV?$hkFlags@W4FlagsEnum@hknpShapeInstance@@E@@XZ''),
     (''GetFloat32'', ''?getFloat32@hkHalf16@@QEBAMXZ''),
     (''GetFractures'',
       ''?getFractures@HkBreakableCompoundShapeManipulator@@SAPEAXPEBVhknpShape@@AEAV?$hkStridedArrayView@UHkFracture@@@@@Z''),
     (''GetFullTransform'', ''?getFullTransform@hknpShapeInstance@@QEBAXAEAVhkTransformf@@@Z'')]"

definition physics_pointers_49 :: "(string \<times> string) list" where
  "physics_pointers_49 =
    [(''GetFullTransformInverse'', ''?getFullTransformInverse@hknpShapeInstance@@QEBAXAEAVhkTransformf@@@Z''),
     (''getGravity'', ''?getGravity@hknpWorld@@UEBAAEBVhkVector4f@@XZ''),
     (''GetGravityFactor'', ''?getGravityFactor@HkCharacterStateManager@@QEBAMXZ''),
     (''GetHighValue'', ''?getHighValue@hkHalf16@@SAMXZ''),
     (''GetHingeConstraintParameters'',
       ''?getHingeConstraintParameters@HkConstraintHandler@@SAXAEBVhknpLimitedHingeConstraintData@@AEAUHingeConstraintAtomParameters@1@@Z''),
     (''GetHull'', ''?getHull@hknpConvexShape@@QEBAAEBUhknpConvexHull@@XZ''),
     (''GetIdAndIndex'', ''?getIdAndIndex@hknpBody@@QEBA?AUhknpBodyIdAndIndex@@XZ''),
     (''GetIdentity'', ''?getIdentity@hkQTransform@@SAAEBU1@XZ''),
     (''GetInertiaLocal'', ''?getInertiaLocal@hknpMotion@@QEBAXAEAVhkVector4f@@@Z''),
     (''GetInertiaStabilizationFactor'',
       ''?getInertiaStabilizationFactor@hknpConstraintData@@QEBA?AUhkResult@@AEAM@Z''),
     (''GetInertiaWorld'', ''?getInertiaWorld@hknpMotion@@QEBAXAEAV?$hkMatrix3Impl@M@@@Z''),
     (''GetInfo'', ''?getInfo@vrBodyPartInfo@@SAPEBU1@PEBVhknpWorld@@UhknpBodyId@@@Z''),
     (''GetInstance'',
       ''?getInstance@hknpCompoundShape@@QEBAAEBUhknpShapeInstance@@U?$hkHandle@I$0PPPPPPPP@UhknpShapeInstanceIdDiscriminant@@@@@Z''),
     (''GetInstanceAabb'',
       ''?getInstanceAabb@hknpCompoundShape@@QEBAXU?$hkHandle@I$0PPPPPPPP@UhknpShapeInstanceIdDiscriminant@@@@AEAVhkAabb@@@Z''),
     (''GetInstanceVelocities'',
       ''?getInstanceVelocities@hknpCompoundShape@@QEBA?AV?$hkArrayView@$$CBUVelocityInfo@hknpCompoundShape@@@@XZ''),
     (''GetInstances'',
       ''?getInstances@hknpCompoundShape@@QEBAAEBU?$hkFreeListRelArray@UhknpShapeInstance@@U?$hkHandle@I$0PPPPPPPP@UhknpShapeInstanceIdDiscriminant@@@@$07U1@@@XZ'')]"

definition physics_pointers_50 :: "(string \<times> string) list" where
  "physics_pointers_50 =
    [(''GetIntSizeFromValue'',
       ''?getIntSizeFromValue@CompressedIntArray@hknpConnectivityGraph@@SA?AW4IntSize@12@I@Z''),
     (''GetInverseInertiaLocal_1'', ''?getInverseInertiaLocal@hknpMotion@@QEBA?AVhkVector4f@@XZ''),
     (''GetInverseInertiaLocal'', ''?getInverseInertiaLocal@hknpMotion@@QEBAXAEAVhkVector4f@@@Z''),
     (''GetInverseInertiaWorld'', ''?getInverseInertiaWorld@hknpMotion@@QEBAXAEAV?$hkMatrix3Impl@M@@@Z''),
     (''GetInverseMass'', ''?getInverseMass@hknpMotion@@QEBAMXZ''),
     (''GetLeafId'', ''?getLeafId@hknpShapeInstance@@QEBAIXZ''),
     (''GetLength'', ''?getLength@hkStringPtr@@QEBAHXZ''),
     (''GetLinAndAngLocalVelocity'', ''?getLinAndAngLocalVelocity@hknpMotion@@QEBAXAEAVhkVector4f@@0@Z''),
     (''GetLinearDistanceProjectionAxis'', ''?getLinearDistanceProjectionAxis@hknp6DofConstraintData@@QEBAHXZ''),
     (''GetLinearMotorTargetPosition'',
       ''?getLinearMotorTargetPosition@hknp6DofConstraintData@@QEBAXAEAVhkVector4f@@@Z''),
     (''GetLinearSpeedLimit'', ''?getLinearSpeedLimit@hknpMotion@@QEBAMXZ''),
     (''GetLinearVelocity'', ''?getLinearVelocity@hknpMotion@@QEBA?BVhkVector4f@@XZ''),
     (''GetLinkEdge'', ''?getLinkEdge@hknpConvexShape@@QEBA?AUEdge@hknpConvexHull@@AEBU23@@Z''),
     (''GetLookAheadDistance'', ''?getLookAheadDistance@hknpMotion@@QEBA?AVhkHalf16@@XZ''),
     (''GetMainBody'', ''?getMainBody@vrBodyPartInfo@@SAPEBUhknpBodyId@@PEBVhknpWorld@@U2@@Z''),
     (''GetMass'', ''?getMass@hknpMotion@@QEBAMXZ'')]"

definition physics_pointers_51 :: "(string \<times> string) list" where
  "physics_pointers_51 =
    [(''GetMassOrNegativeDensity'', ''?getMassOrNegativeDensity@MassConfig@hknpShape@@QEBAMXZ''),
     (''GetMassProperties'', ''?getMassProperties@hknpShape@@QEBA?AUhkResult@@AEAUhkDiagonalizedMassProperties@@@Z''),
     (''GetMassPropertiesLod'', ''?getMassPropertiesLod@hknpLodShape@@QEBA?AW4hknpLevelOfDetail@@XZ''),
     (''GetMaxAllowedPenetration'', ''?getMaxAllowedPenetration@hknpShape@@QEBAMXZ''),
     (''GetMaxAngularLimit'', ''?getMaxAngularLimit@hknpLimitedHingeConstraintData@@QEBAMXZ''),
     (''GetMaxDepenetrationSpeed'', ''?getMaxDepenetrationSpeed@hknpBody@@QEBAMXZ''),
     (''GetMaxDistanceForExtraStaticSolve'', ''?getMaxDistanceForExtraStaticSolve@hknpSolverInfo@@QEBAMXZ''),
     (''GetMaxEstimatedNumShapeKeys'', ''?getMaxEstimatedNumShapeKeys@hknpLodShape@@QEBAHXZ''),
     (''GetMaxFrictionForce'', ''?getMaxFrictionForce@hknpPrismaticConstraintData@@QEBAMXZ''),
     (''hknp6DofConstraintData_GetMaxFrictionTorque'', ''?getMaxFrictionTorque@hknp6DofConstraintData@@QEBAMXZ''),
     (''hknpLimitedHingeConstraintData_GetMaxFrictionTorque'',
       ''?getMaxFrictionTorque@hknpLimitedHingeConstraintData@@QEBAMXZ''),
     (''hknpWheelConstraintData_GetMaxFrictionTorque'', ''?getMaxFrictionTorque@hknpWheelConstraintData@@QEBAMXZ''),
     (''GetMaxLinearDistanceLimit'', ''?getMaxLinearDistanceLimit@hknp6DofConstraintData@@QEBAMXZ''),
     (''GetMaxLinearLimit'', ''?getMaxLinearLimit@hknpPrismaticConstraintData@@QEBAMXZ''),
     (''GetMaxRotationPerStep'', ''?getMaxRotationPerStep@hknpMotion@@QEBA?AVhkHalf16@@XZ''),
     (''GetMaxTimDistance'', ''?getMaxTimDistance@hknpBody@@QEBAGXZ'')]"

definition physics_pointers_52 :: "(string \<times> string) list" where
  "physics_pointers_52 =
    [(''GetMaxTimDistanceFromRotation'', ''?getMaxTimDistanceFromRotation@hknpBody@@QEBAGXZ''),
     (''GetMaxValue'', ''?getMaxValue@hkHalf16@@SAMXZ''),
     (''GetMaximumAngularImpulse'', ''?getMaximumAngularImpulse@hknpConstraintData@@QEBAMXZ''),
     (''GetMaximumLinearImpulse'', ''?getMaximumLinearImpulse@hknpConstraintData@@QEBAMXZ''),
     (''GetMaximumPenetration'', ''?getMaximumPenetration@hknpConvexShape@@QEBAMXZ''),
     (''GetMinAngularLimit'', ''?getMinAngularLimit@hknpLimitedHingeConstraintData@@QEBAMXZ''),
     (''GetMinLinearDistanceLimit'', ''?getMinLinearDistanceLimit@hknp6DofConstraintData@@QEBAMXZ''),
     (''GetMinLinearLimit'', ''?getMinLinearLimit@hknpPrismaticConstraintData@@QEBAMXZ''),
     (''GetMinValue'', ''?getMinValue@hkHalf16@@SAMXZ''),
     (''getMotion'', ''?getMotion@hknpWorld@@UEBAAEBVhknpMotion@@UhknpMotionId@@@Z''),
     (''GetMotionType'', ''?getMotionType@hknpBody@@QEBA?AW4Enum@hknpMotionType@@XZ''),
     (''hknpLimitedHingeConstraintData_GetMotor'',
       ''?getMotor@hknpLimitedHingeConstraintData@@QEBAPEAVhknpConstraintMotor@@XZ''),
     (''hknpPrismaticConstraintData_GetMotor'',
       ''?getMotor@hknpPrismaticConstraintData@@QEBAPEAVhknpConstraintMotor@@XZ''),
     (''hknpWheelConstraintData_GetMotor'', ''?getMotor@hknpWheelConstraintData@@QEBAPEAVhknpConstraintMotor@@XZ''),
     (''hknpLimitedHingeConstraintData_GetMotorTargetAngle'',
       ''?getMotorTargetAngle@hknpLimitedHingeConstraintData@@QEBAMXZ''),
     (''hknpWheelConstraintData_GetMotorTargetAngle'', ''?getMotorTargetAngle@hknpWheelConstraintData@@QEBAMXZ'')]"

definition physics_pointers_53 :: "(string \<times> string) list" where
  "physics_pointers_53 =
    [(''GetMotorTargetPosition'', ''?getMotorTargetPosition@hknpPrismaticConstraintData@@QEBAMXZ''),
     (''getName'', ''?getName@hknpWorld@@UEBAPEBDXZ''),
     (''Global_GetNext_element'',
       ''?getNext@hkDefaultFreeListArrayOperations@HkManifoldContactInfo@HkContactEventCollectorModifier@@SAIAEBU23@@Z''),
     (''Global_GetNext_element_2'', ''?getNext@hkDefaultFreeListArrayOperations@HkManifoldInfo@@SAIAEBU2@@Z''),
     (''hknpShapeInstance_GetNext'', ''?getNext@hknpShapeInstance@@SAIAEBU1@@Z''),
     (''GetNextEdge'', ''?getNextEdge@hknpConvexShape@@QEBA?AUEdge@hknpConvexHull@@AEBU23@@Z''),
     (''Global_GetNextIndex_material'', ''?getNextIndex@FreeListOperations@hknpMaterial@@SAHAEBV2@@Z''),
     (''Global_GetNextIndex_motion'', ''?getNextIndex@FreeListOperations@hknpMotion@@SAHAEBV2@@Z''),
     (''getNumBodies'', ''?getNumBodies@hknpWorld@@UEBAIXZ''),
     (''getNumConstraintGroups'', ''?getNumConstraintGroups@hknpWorld@@UEBAIXZ''),
     (''getNumConstraints'', ''?getNumConstraints@hknpWorld@@UEBAIXZ''),
     (''GetNumInstances'', ''?getNumInstances@hknpCompoundShape@@QEBAHXZ''),
     (''GetNumLods'', ''?getNumLods@hknpLodShape@@QEBAHXZ''),
     (''GetNumNonDirectSolverAtoms'', ''?getNumNonDirectSolverAtoms@hknpConstraint@@QEBAHXZ''),
     (''GetNumNonDirectlySolvedAtoms'', ''?getNumNonDirectlySolvedAtoms@hknpConstraintData@@QEBAHXZ''),
     (''getNumParticlesColliders'', ''?getNumParticlesColliders@hknpWorld@@UEBAIXZ'')]"

definition physics_pointers_54 :: "(string \<times> string) list" where
  "physics_pointers_54 =
    [(''GetNumShapeKeyBits'', ''?getNumShapeKeyBits@hknpShape@@QEBAEXZ''),
     (''GetNumSolverElemTemps'', ''?getNumSolverElemTemps@hknpConstraint@@QEBAEXZ''),
     (''GetNumVertices'', ''?getNumVertices@PackedManifold@hknpConnectivityGraph@@QEBAEXZ''),
     (''GetNumberOfConvexVertices'', ''?getNumberOfConvexVertices@hknpShape@@QEBAHXZ''),
     (''GetNumberOfFaces'', ''?getNumberOfFaces@hknpShape@@QEBAHXZ''),
     (''GetNumberOfSupportSpheres'', ''?getNumberOfSupportSpheres@hknpShape@@QEBAHXZ''),
     (''GetOrientation'', ''?getOrientation@hknpBody@@QEBAXPEBVhknpMotion@@PEIAVhkQuaternionf@@@Z''),
     (''GetOtherBody'', ''?getOtherBody@hknpConstraint@@QEBA?AUhknpBodyId@@U2@@Z''),
     (''getParticlesColliderCapacity'', ''?getParticlesColliderCapacity@hknpWorld@@UEBAIXZ''),
     (''GetPointVelocity'', ''?getPointVelocity@hknpMotion@@QEBAXAEBVhkVector4d@@AEAVhkVector4f@@@Z''),
     (''GetPreciseTransform'', ''?getPreciseTransform@hknpBody@@QEBAAEBVhkPreciseTransform@@XZ''),
     (''GetPrevEdge'', ''?getPrevEdge@hknpConvexShape@@QEBA?AUEdge@hknpConvexHull@@AEBU23@@Z''),
     (''GetPreviousStepAngularVelocityLocal'',
       ''?getPreviousStepAngularVelocityLocal@hknpMotion@@QEBA?AVhkVector4f@@XZ''),
     (''GetPreviousStepLinearVelocity'', ''?getPreviousStepLinearVelocity@hknpMotion@@QEBA?AVhkVector4f@@XZ''),
     (''GetPreviousStepVelocity'', ''?getPreviousStepVelocity@hknpMotion@@QEBAXAEAVhkVector4f@@0@Z''),
     (''GetPrismaticConstraintParameters'',
       ''?getPrismaticConstraintParameters@HkConstraintHandler@@SAXAEBVhknpPrismaticConstraintData@@AEAUPrismaticConstraintAtomParameters@1@@Z'')]"

definition physics_pointers_55 :: "(string \<times> string) list" where
  "physics_pointers_55 =
    [(''GetProjectedPointVelocity'',
       ''?getProjectedPointVelocity@hknpMotion@@QEBA?AVhkSimdFloat32@@AEBVhkVector4d@@AEBVhkVector4f@@@Z''),
     (''GetReal'', ''?getReal@hkHalf16@@QEBAMXZ''),
     (''GetRhsFactorInv'', ''?getRhsFactorInv@hknpSolverInfo@@QEBA?AVhkSimdFloat32@@XZ''),
     (''GetRotation'', ''?getRotation@hknpShapeInstance@@QEBAAEBVhkQuaternionf@@XZ''),
     (''GetRuntimeInfo'', ''?getRuntimeInfo@hknpConstraintData@@QEBAX_NAEAURuntimeInfo@1@@Z''),
     (''GetScaleMode'', ''?getScaleMode@hknpShapeInstance@@QEBA?AW4ScaleMode@hknpShape@@XZ''),
     (''GetSdfTransform'', ''?getSdfTransform@hknpShape@@QEBAXAEAVhkPreciseTransform@@@Z''),
     (''hknpBody_GetShape'', ''?getShape@hknpBody@@QEBAPEBVhknpShape@@XZ''),
     (''hknpShapeInstance_GetShape'', ''?getShape@hknpShapeInstance@@QEBAPEBVhknpShape@@XZ''),
     (''GetShapeAtLod'', ''?getShapeAtLod@hknpLodShape@@QEBAPEBVhknpShape@@W4hknpLevelOfDetail@@@Z''),
     (''hknpShapeInstance_GetShapeTag'', ''?getShapeTag@hknpShapeInstance@@QEBAGXZ''),
     (''GetShapeTagAt'', ''?getShapeTagAt@hknpShape@@QEBAGAEBVhkVector4f@@@Z''),
     (''GetShapeTagCodecInfo'', ''?getShapeTagCodecInfo@hknpShape@@QEBAIXZ''),
     (''GetSignedDistanceContacts'',
       ''?getSignedDistanceContacts@hknpShape@@QEBAXAEAUGetSignedDistanceInput@1@AEAUSdfContactPointOutput@1@@Z''),
     (''GetSignedDistances'', ''?getSignedDistances@hknpShape@@QEBAXAEBUSdfQuery@1@PEAUSdfContactPoint@1@@Z''),
     (''GetSize'', ''?getSize@CompressedIntArray@hknpConnectivityGraph@@QEBAHXZ'')]"

definition physics_pointers_56 :: "(string \<times> string) list" where
  "physics_pointers_56 =
    [(''GetSolverInfo'', ''?getSolverInfo@hknpWorld@@QEBAAEBUhknpSolverInfo@@XZ''),
     (''getSolverInfoPtr'', ''?getSolverInfoPtr@hknpWorld@@UEBAPEBUhknpSolverInfo@@XZ''),
     (''GetStartVertex'', ''?getStartVertex@hknpConvexShape@@QEBAEAEBUEdge@hknpConvexHull@@@Z''),
     (''GetStepCount'', ''?getStepCount@hknpWorld@@QEBAIXZ''),
     (''Global_GetStorage'', ''?getStorage@CompressedIntArray@hknpConnectivityGraph@@QEBAAEBU?$hkRelArray@I@@XZ''),
     (''hkHalf16_GetStorage'', ''?getStorage@hkHalf16@@QEBAFXZ''),
     (''GetSumAngular'', ''?getSumAngular@AppliedImpulses@hknpConstraintData@@QEBAXAEAVhkVector4f@@@Z''),
     (''GetSumLinear'', ''?getSumLinear@AppliedImpulses@hknpConstraintData@@QEBAXAEAVhkVector4f@@@Z''),
     (''GetSupportSpheres'', ''?getSupportSpheres@hknpShape@@QEBAPEBUhkFloat3@@PEAU2@HAEAM@Z''),
     (''GetSupportingFace'', ''?getSupportingFace@hknpShape@@QEBAHAEBVhkVector4f@@@Z''),
     (''GetSuspensionDampingFactor'', ''?getSuspensionDampingFactor@hknpWheelConstraintData@@QEBAMXZ''),
     (''GetSuspensionMaxLimit'', ''?getSuspensionMaxLimit@hknpWheelConstraintData@@QEBAMXZ''),
     (''GetSuspensionMinLimit'', ''?getSuspensionMinLimit@hknpWheelConstraintData@@QEBAMXZ''),
     (''GetSuspensionStrengthFactor'', ''?getSuspensionStrengthFactor@hknpWheelConstraintData@@QEBAMXZ''),
     (''hknpBody_GetTransform'', ''?getTransform@hknpBody@@QEBAAEBVhkTransformf@@XZ''),
     (''hknpShapeInstance_GetTransform'', ''?getTransform@hknpShapeInstance@@QEBA?AUhkQTransform@@XZ'')]"

definition physics_pointers_57 :: "(string \<times> string) list" where
  "physics_pointers_57 =
    [(''hknpShape_GetTypeName'', ''?getTypeName@hknpShape@@QEBAPEBDXZ''),
     (''GetUserData'', ''?getUserData@hknpShapeInstance@@QEBA_KXZ''),
     (''GetViolationAccelerationThreshold'', ''?getViolationAccelerationThreshold@hknpConstraintData@@QEBAMXZ''),
     (''GetWrappedType'', ''?getWrappedType@hknpConstraintData@@QEBA?AW4ConstraintType@1@XZ''),
     (''HackBreakableCompoundShapeFunctions'',
       ''?hackBreakableCompoundShapeFunctions@HkBreakableCompoundShapeManipulator@@SAXXZ''),
     (''hasBodyProperty'', ''?hasBodyProperty@hknpWorld@@UEBA_NUhknpBodyId@@G@Z''),
     (''HasConnectivity'', ''?hasConnectivity@hknpConvexShape@@QEBA_NXZ''),
     (''hasConstraintProperty'', ''?hasConstraintProperty@hknpWorld@@UEBA_NUhknpConstraintId@@G@Z''),
     (''HasDoublePrecisionRayCast'', ''?hasDoublePrecisionRayCast@hknpShape@@QEBA_NXZ''),
     (''HasInfiniteMassAndInertia'', ''?hasInfiniteMassAndInertia@hknpMotion@@QEBA_NXZ''),
     (''HasRuntime'', ''?hasRuntime@hknpConstraint@@QEBAIXZ''),
     (''InitAsSphere'', ''?initAsSphere@hkDiagonalizedMassProperties@@QEAAXMM@Z''),
     (''Integrate'',
       ''?integrate@hknpMotion@@QEAAXAEBVhkSimdFloat32@@V?$hkFlags@W4IntegrationFlags@hknpMotion@@I@@@Z''),
     (''Invalid'', ''?invalid@hknpBodyIdAndIndex@@SA?AU1@XZ''),
     (''IsActive'', ''?isActive@hknpBody@@QEBA_NXZ''),
     (''IsAddedToBroadphase'', ''?isAddedToBroadphase@hknpBody@@QEBAIXZ'')]"

definition physics_pointers_58 :: "(string \<times> string) list" where
  "physics_pointers_58 =
    [(''hknpBody_IsAddedToWorld'', ''?isAddedToWorld@hknpBody@@QEBAIXZ''),
     (''hknpConstraint_IsAddedToWorld'', ''?isAddedToWorld@hknpConstraint@@QEBAIXZ''),
     (''IsAngularMotorInSLERPMode'', ''?isAngularMotorInSLERPMode@hknp6DofConstraintData@@QEBA_NXZ''),
     (''IsAutoLodMesh'', ''?isAutoLodMesh@hknpLodShape@@QEBA_NXZ''),
     (''IsAxisMotorEnabled'', ''?isAxisMotorEnabled@hknp6DofConstraintData@@QEBA_NW4AxisIdentifier@1@@Z''),
     (''isBodyAdded'', ''?isBodyAdded@hknpWorld@@UEBA_NUhknpBodyId@@@Z''),
     (''isBodyValid'', ''?isBodyValid@hknpWorld@@UEBA_NUhknpBodyId@@@Z''),
     (''isConstraintAdded'', ''?isConstraintAdded@hknpWorld@@UEBA_NUhknpConstraintId@@@Z''),
     (''isConstraintValid'', ''?isConstraintValid@hknpWorld@@UEBA_NUhknpConstraintId@@@Z''),
     (''IsDeactivationEnabled'', ''?isDeactivationEnabled@hknpWorld@@QEBA_NXZ''),
     (''IsDirectSolverEnabled'', ''?isDirectSolverEnabled@hknpConstraintData@@QEBA_NXZ''),
     (''IsDynamic'', ''?isDynamic@hknpBody@@QEBA_NXZ''),
     (''IsEdgeEnabled'',
       ''?isEdgeEnabled@hknpBreakableCompoundShape@@QEBA_NU?$hkHandle@I$0PPPPPPPP@UEdgeIdDiscriminant@hknpConnectivityGraph@@@@@Z''),
     (''Global_IsEmpty_material'', ''?isEmpty@FreeListOperations@hknpMaterial@@SA_NAEBV2@@Z''),
     (''Global_IsEmpty_motion'', ''?isEmpty@FreeListOperations@hknpMotion@@SA_NAEBV2@@Z''),
     (''Global_IsEmpty_void'', ''?isEmpty@Set@DisjointResult@hknpConnectivityGraph@@QEBA_NXZ'')]"

definition physics_pointers_59 :: "(string \<times> string) list" where
  "physics_pointers_59 =
    [(''Global_IsEmpty_element'',
       ''?isEmpty@hkDefaultFreeListArrayOperations@HkManifoldContactInfo@HkContactEventCollectorModifier@@SAIAEBU23@@Z''),
     (''Global_IsEmpty_element_2'', ''?isEmpty@hkDefaultFreeListArrayOperations@HkManifoldInfo@@SAIAEBU2@@Z''),
     (''hknpShapeInstance_IsEmpty'', ''?isEmpty@hknpShapeInstance@@SAIAEBU1@@Z''),
     (''hknpShapeInstance_IsEnabled'', ''?isEnabled@hknpShapeInstance@@QEBA_NXZ''),
     (''IsEqualTo'', ''?isEqualTo@hknpConstraint@@QEBA_NAEBV1@@Z''),
     (''IsExportable'', ''?isExportable@hknpConstraint@@QEBAIXZ''),
     (''IsExtraStaticSolveSpeedThresholdSet'', ''?isExtraStaticSolveSpeedThresholdSet@hknpSolverInfo@@QEBA_NXZ''),
     (''IsFrictionEnabled'', ''?isFrictionEnabled@hknpWheelConstraintData@@QEBA_NXZ''),
     (''IsImmediate'', ''?isImmediate@hknpConstraint@@QEBAIXZ''),
     (''IsInactive'', ''?isInactive@hknpBody@@QEBA_NXZ''),
     (''IsInstanceAnchored'',
       ''?isInstanceAnchored@hknpBreakableCompoundShape@@QEBA_NU?$hkHandle@I$0PPPPPPPP@UhknpShapeInstanceIdDiscriminant@@@@@Z''),
     (''IsInstanceIdValid'',
       ''?isInstanceIdValid@hknpCompoundShape@@QEBA_NU?$hkHandle@I$0PPPPPPPP@UhknpShapeInstanceIdDiscriminant@@@@@Z''),
     (''IsKeyframed'', ''?isKeyframed@hknpBody@@QEBA_NXZ''),
     (''IsMax'', ''?isMax@hkHalf16@@QEBA_NXZ''),
     (''IsMin'', ''?isMin@hkHalf16@@QEBA_NXZ''),
     (''hknpLimitedHingeConstraintData_IsMotorEnabled'', ''?isMotorEnabled@hknpLimitedHingeConstraintData@@QEBA_NXZ'')]"

definition physics_pointers_60 :: "(string \<times> string) list" where
  "physics_pointers_60 =
    [(''hknpPrismaticConstraintData_IsMotorEnabled'', ''?isMotorEnabled@hknpPrismaticConstraintData@@QEBA_NXZ''),
     (''hknpWheelConstraintData_IsMotorEnabled'', ''?isMotorEnabled@hknpWheelConstraintData@@QEBA_NXZ''),
     (''hknpConstraintData_IsMutable'', ''?isMutable@hknpConstraintData@@QEBA_NXZ''),
     (''hknpShape_IsMutable'', ''?isMutable@hknpShape@@QEBA_NXZ''),
     (''IsNegativeOne'', ''?isNegativeOne@hkHalf16@@QEBA_NXZ''),
     (''IsNullOrEmpty'', ''?isNullOrEmpty@hkStringPtr@@QEBA_NXZ''),
     (''IsOk'', ''?isOk@PackedManifold@hknpConnectivityGraph@@QEBA_NXZ''),
     (''IsOne'', ''?isOne@hkHalf16@@QEBA_NXZ''),
     (''IsPermanent'', ''?isPermanent@hknpConstraint@@QEBAIXZ''),
     (''IsStatic'', ''?isStatic@hknpBody@@QEBA_NXZ''),
     (''IsStaticOrKeyframed'', ''?isStaticOrKeyframed@hknpBody@@QEBA_NXZ''),
     (''hkDiagonalizedMassProperties_IsValid'', ''?isValid@hkDiagonalizedMassProperties@@QEBA_NM@Z''),
     (''hknpBody_IsValid'', ''?isValid@hknpBody@@QEBA_NXZ''),
     (''hknpBodyIdAndIndex_IsValid'', ''?isValid@hknpBodyIdAndIndex@@QEBA_NXZ''),
     (''hknpConstraint_IsValid'', ''?isValid@hknpConstraint@@QEBA_NXZ''),
     (''hknpConstraintData_IsValid'', ''?isValid@hknpConstraintData@@QEBA_NXZ'')]"

definition physics_pointers_61 :: "(string \<times> string) list" where
  "physics_pointers_61 =
    [(''hknpMotion_IsValid'', ''?isValid@hknpMotion@@QEBA_NXZ''),
     (''IsZero'', ''?isZero@hkHalf16@@QEBA_NXZ''),
     (''LoadSerializedShapes'',
       ''?loadSerializedShapes@HkSerialization@@SA_NPEAXHAEAU?$HkBufferReference@PEBVhknpShape@@@@_N@Z''),
     (''LoadShapesFromGLTFScene'',
       ''?loadShapesFromGLTFScene@HkSerialization@@SA_NPEAXHAEAU?$HkBufferReference@UHkLoadedShapeInfo@@@@PEBD@Z''),
     (''LoadShapesFromHktScene'',
       ''?loadShapesFromHktScene@HkSerialization@@SA_NPEAXHAEAU?$HkBufferReference@UHkLoadedShapeInfo@@@@@Z''),
     (''MakeBox'',
       ''?makeBox@hknpShape@@SA?AV?$hkRefPtr@VhknpShape@@@@AEBVhkAabb@@MAEBVhkTransformf@@W4Mutability@1@@Z''),
     (''MakeBoxFromHalfExtents'',
       ''?makeBoxFromHalfExtents@hknpShape@@SA?AV?$hkRefPtr@VhknpShape@@@@AEBVhkVector4f@@MAEBVhkTransformf@@W4Mutability@1@@Z''),
     (''HkBreakableCompoundShapeManipulator_MakeBreakableCompoundShapePiece'',
       ''?makeBreakableCompoundShapePiece@HkBreakableCompoundShapeManipulator@@SAPEAXPEBX0@Z''),
     (''hknpBreakableCompoundShape_MakeBreakableCompoundShapePiece'',
       ''?makeBreakableCompoundShapePiece@hknpBreakableCompoundShape@@SA?AV?$hkRefPtr@VhknpBreakableCompoundShape@@@@AEBV1@AEBUSet@DisjointResult@hknpConnectivityGraph@@@Z''),
     (''MakeCapsule'', ''?makeCapsule@hknpShape@@SA?AV?$hkRefPtr@VhknpShape@@@@AEBVhkVector4f@@0MW4Mutability@1@@Z''),
     (''MakeCylinder'',
       ''?makeCylinder@hknpShape@@SA?AV?$hkRefPtr@VhknpShape@@@@AEBVhkVector4f@@0MHMW4Mutability@1@@Z''),
     (''MakeDummy'', ''?makeDummy@hknpShape@@SA?AV?$hkRefPtr@VhknpShape@@@@W4Mutability@1@@Z''),
     (''MakeDummyFromAabb'',
       ''?makeDummyFromAabb@hknpShape@@SA?AV?$hkRefPtr@VhknpShape@@@@AEBVhkAabb@@W4Mutability@1@@Z''),
     (''MakeDummyFromHalfExtents'',
       ''?makeDummyFromHalfExtents@hknpShape@@SA?AV?$hkRefPtr@VhknpShape@@@@AEBVhkVector4f@@W4Mutability@1@@Z''),
     (''MakeDummyFromSphere'',
       ''?makeDummyFromSphere@hknpShape@@SA?AV?$hkRefPtr@VhknpShape@@@@AEBVhkVector4f@@MW4Mutability@1@@Z''),
     (''MakeMasked'', ''?makeMasked@hknpShape@@SA?AV?$hkRefPtr@VhknpShape@@@@PEBV1@@Z'')]"

definition physics_pointers_62 :: "(string \<times> string) list" where
  "physics_pointers_62 =
    [(''hknpShape_MakeSphere_return_value_center_radius_mutability'',
       ''?makeSphere@hknpShape@@SA?AV?$hkRefPtr@VhknpShape@@@@AEBVhkVector4f@@MW4Mutability@1@@Z''),
     (''hknpShape_MakeSphere_return_value_radius_mutability'',
       ''?makeSphere@hknpShape@@SA?AV?$hkRefPtr@VhknpShape@@@@MW4Mutability@1@@Z''),
     (''MakeTransformed'',
       ''?makeTransformed@hknpShape@@SA?AV?$hkRefPtr@VhknpShape@@@@PEBV1@AEBVhkTransformf@@AEBVhkVector4f@@W4ScaleMode@1@W4Mutability@1@@Z''),
     (''MarkForRead'', ''?markForRead@hknpWorld@@QEBAXXZ''),
     (''MarkForWrite'', ''?markForWrite@hknpWorld@@QEBAXXZ''),
     (''MergeWith'', ''?mergeWith@hknpMaterial@@QEAAXAEBV1@@Z''),
     (''optimizeBroadPhase'', ''?optimizeBroadPhase@hknpWorld@@UEAAXXZ''),
     (''Global_Pack'',
       ''?pack@PackedManifold@hknpConnectivityGraph@@QEAAXAEBUManifold@2@V?$hkArrayView@$$CBVhkVector4f@@@@@Z''),
     (''hkDiagonalizedMassProperties_Pack'', ''?pack@hkDiagonalizedMassProperties@@QEAAXAEBUhkMassProperties@@@Z''),
     (''predictBodyTransform'', ''?predictBodyTransform@hknpWorld@@UEBAXUhknpBodyId@@MAEAVhkPreciseTransform@@@Z''),
     (''Printf'', ''?printf@hkStringPtr@@QEAAXPEBDZZ''),
     (''Rebuild'', ''?rebuild@hknpCompoundShape@@QEAAXXZ''),
     (''rebuildBodyCollisionCaches'',
       ''?rebuildBodyCollisionCaches@hknpWorld@@UEAAXUhknpBodyId@@W4ActivationMode@hknpWorldWriter@@@Z''),
     (''RebuildMassPropertiesTree'',
       ''?rebuildMassPropertiesTree@HkBreakableCompoundShapeManipulator@@SAXPEAVhknpCompoundShape@@@Z''),
     (''rebuildMotionMassProperties'', ''?rebuildMotionMassProperties@hknpWorld@@UEAAXUhknpMotionId@@@Z''),
     (''ReduceKineticEnergy'', ''?reduceKineticEnergy@hknpMotion@@QEAAXAEBVhkSimdFloat32@@@Z'')]"

definition physics_pointers_63 :: "(string \<times> string) list" where
  "physics_pointers_63 =
    [(''Reintegrate'', ''?reintegrate@hknpMotion@@QEAAXAEBVhkSimdFloat32@@0@Z''),
     (''reintegrateMotion'', ''?reintegrateMotion@hknpWorld@@UEAAXUhknpMotionId@@M@Z''),
     (''ReleaseShapeInfo'',
       ''?releaseShapeInfo@HkSerialization@@SAXAEAU?$HkBufferReference@UHkLoadedShapeInfo@@@@@Z''),
     (''removeBodies'', ''?removeBodies@hknpWorld@@UEAAXPEBUhknpBodyId@@HW4ActivationMode@hknpWorldWriter@@@Z''),
     (''removeConstraint'',
       ''?removeConstraint@hknpWorld@@UEAAXUhknpConstraintId@@W4ActivationMode@hknpWorldWriter@@@Z''),
     (''hkDiagonalizedMassProperties_Reset'', ''?reset@hkDiagonalizedMassProperties@@QEAAXXZ''),
     (''hknpMotion_Reset'', ''?reset@hknpMotion@@QEAAXXZ''),
     (''ResetRuntime'', ''?resetRuntime@hknpConstraint@@QEAAXXZ''),
     (''SerializeShapes'', ''?serializeShapes@HkSerialization@@SAXPEAXHAEAU?$HkBufferReference@E@@_N@Z''),
     (''Global_Set'', ''?set@CompressedIntArray@hknpConnectivityGraph@@QEAAXHI@Z''),
     (''HkPackedWorldTransform_Set'', ''?set@HkPackedWorldTransform@@QEAAXAEBVhkPreciseTransform@@@Z''),
     (''VrManifoldInertiaMultiplier_Set'',
       ''?set@VrManifoldInertiaMultiplier@@SAXPEAVhknpWorld@@UhknpBodyId@@AEBU1@@Z''),
     (''hkStringPtr_Set'', ''?set@hkStringPtr@@QEAAXPEBDH@Z''),
     (''SetActivationPriority'', ''?setActivationPriority@hknpBody@@QEAAXC@Z''),
     (''setAirDensity'', ''?setAirDensity@hknpWorld@@UEAAXM@Z''),
     (''hknp6DofConstraintData_SetAngularLimitsDampFactor'',
       ''?setAngularLimitsDampFactor@hknp6DofConstraintData@@QEAAXM@Z'')]"

definition physics_pointers_64 :: "(string \<times> string) list" where
  "physics_pointers_64 =
    [(''hknpLimitedHingeConstraintData_SetAngularLimitsDampFactor'',
       ''?setAngularLimitsDampFactor@hknpLimitedHingeConstraintData@@QEAAXM@Z''),
     (''hknp6DofConstraintData_SetAngularLimitsTauFactor'',
       ''?setAngularLimitsTauFactor@hknp6DofConstraintData@@QEAAXM@Z''),
     (''hknpLimitedHingeConstraintData_SetAngularLimitsTauFactor'',
       ''?setAngularLimitsTauFactor@hknpLimitedHingeConstraintData@@QEAAXM@Z''),
     (''SetAngularMotorsSLERPMode'', ''?setAngularMotorsSLERPMode@hknp6DofConstraintData@@QEAAX_N@Z''),
     (''SetAngularSLERPMotor'', ''?setAngularSLERPMotor@hknp6DofConstraintData@@QEAAXPEAVhknpConstraintMotor@@@Z''),
     (''SetAngularSpeedLimit'', ''?setAngularSpeedLimit@hknpMotion@@QEAAXM@Z''),
     (''SetAngularTarget'', ''?setAngularTarget@hknp6DofConstraintData@@QEAAXAEBV?$hkMatrix3Impl@M@@@Z''),
     (''SetAngularVelocity'', ''?setAngularVelocity@hknpMotion@@QEAAXAEBVhkVector4f@@@Z''),
     (''SetAngularVelocityLocal'', ''?setAngularVelocityLocal@hknpMotion@@QEAAXAEBVhkVector4f@@@Z''),
     (''SetAsDebugInstance'', ''?setAsDebugInstance@hknpWorld@@QEBAXXZ''),
     (''SetAxisFriction'', ''?setAxisFriction@hknp6DofConstraintData@@QEAAXW4AxisIdentifier@1@M@Z''),
     (''SetAxisLimitDampFactor'', ''?setAxisLimitDampFactor@hknp6DofConstraintData@@QEAAXW4AxisIdentifier@1@M@Z''),
     (''SetAxisLimitTauFactor'', ''?setAxisLimitTauFactor@hknp6DofConstraintData@@QEAAXW4AxisIdentifier@1@M@Z''),
     (''SetAxisLimits'', ''?setAxisLimits@hknp6DofConstraintData@@QEAAXW4AxisIdentifier@1@MM@Z''),
     (''SetAxisMode'', ''?setAxisMode@hknp6DofConstraintData@@QEAAXW4AxisIdentifier@1@W4AxisMode@1@@Z''),
     (''SetAxisMotor'', ''?setAxisMotor@hknp6DofConstraintData@@QEAAXW4AxisIdentifier@1@PEAVhknpConstraintMotor@@@Z'')]"

definition physics_pointers_65 :: "(string \<times> string) list" where
  "physics_pointers_65 =
    [(''SetBitsAndSize'', ''?setBitsAndSize@CompressedIntArray@hknpConnectivityGraph@@QEAAXW4IntSize@12@H@Z''),
     (''setBodyActivationControl'',
       ''?setBodyActivationControl@hknpWorld@@UEAAXUhknpBodyId@@W4Enum@hknpActivationControl@@@Z''),
     (''setBodyActivationPriority'', ''?setBodyActivationPriority@hknpWorld@@UEAAXUhknpBodyId@@C@Z''),
     (''setBodyActivationState'',
       ''?setBodyActivationState@hknpWorld@@UEAAXUhknpBodyId@@W4Enum@hknpActivationState@@@Z''),
     (''setBodyAngularDamping'',
       ''?setBodyAngularDamping@hknpWorld@@UEAAXUhknpBodyId@@MW4ActivationMode@hknpWorldWriter@@@Z''),
     (''setBodyAngularVelocity'',
       ''?setBodyAngularVelocity@hknpWorld@@UEAAXUhknpBodyId@@AEBVhkVector4f@@W4ActivationMode@hknpWorldWriter@@@Z''),
     (''setBodyCollisionFilterInfo'',
       ''?setBodyCollisionFilterInfo@hknpWorld@@UEAAXUhknpBodyId@@IW4ActivationMode@hknpWorldWriter@@W4UpdateCachesMode@4@@Z''),
     (''setBodyCollisionLookAheadDistance'',
       ''?setBodyCollisionLookAheadDistance@hknpWorld@@UEAAXUhknpBodyId@@MW4ActivationMode@hknpWorldWriter@@@Z''),
     (''setBodyDensity'', ''?setBodyDensity@hknpWorld@@UEAAXUhknpBodyId@@MW4UpdateMotionMode@hknpWorldWriter@@@Z''),
     (''SetBodyFromMotionTransform'',
       ''?setBodyFromMotionTransform@hknpBody@@QEAAXAEBUhkQTransform@@AEBUhknpCompressedAabbThresholds@@@Z''),
     (''setBodyGravityFactor'',
       ''?setBodyGravityFactor@hknpWorld@@UEAAXUhknpBodyId@@MW4ActivationMode@hknpWorldWriter@@@Z''),
     (''setBodyLinearDamping'',
       ''?setBodyLinearDamping@hknpWorld@@UEAAXUhknpBodyId@@MW4ActivationMode@hknpWorldWriter@@@Z''),
     (''setBodyLinearVelocity'',
       ''?setBodyLinearVelocity@hknpWorld@@UEAAXUhknpBodyId@@AEBVhkVector4f@@W4ActivationMode@hknpWorldWriter@@@Z''),
     (''setBodyMass'', ''?setBodyMass@hknpWorld@@UEAAXUhknpBodyId@@MW4UpdateMotionMode@hknpWorldWriter@@@Z''),
     (''setBodyMaterial'',
       ''?setBodyMaterial@hknpWorld@@UEAAXUhknpBodyId@@UhknpMaterialId@@W4ActivationMode@hknpWorldWriter@@W4UpdateCachesMode@5@@Z''),
     (''setBodyMaxAngularSpeed'',
       ''?setBodyMaxAngularSpeed@hknpWorld@@UEAAXUhknpBodyId@@MW4ActivationMode@hknpWorldWriter@@@Z'')]"

definition physics_pointers_66 :: "(string \<times> string) list" where
  "physics_pointers_66 =
    [(''setBodyMaxDepenetrationSpeed'',
       ''?setBodyMaxDepenetrationSpeed@hknpWorld@@UEAAXUhknpBodyId@@MW4ActivationMode@hknpWorldWriter@@@Z''),
     (''setBodyMaxLinearSpeed'',
       ''?setBodyMaxLinearSpeed@hknpWorld@@UEAAXUhknpBodyId@@MW4ActivationMode@hknpWorldWriter@@@Z''),
     (''setBodyMotion'',
       ''?setBodyMotion@hknpWorld@@UEAAXUhknpBodyId@@UhknpMotionId@@W4ActivationMode@hknpWorldWriter@@W4UpdateCachesMode@5@@Z''),
     (''setBodyMotionProperties'',
       ''?setBodyMotionProperties@hknpWorld@@UEAAXUhknpBodyId@@AEBUhknpMotionProperties@@W4ActivationMode@hknpWorldWriter@@@Z''),
     (''setBodyMotionType'',
       ''?setBodyMotionType@hknpWorld@@UEAAXUhknpBodyId@@W4Enum@hknpMotionType@@W4ActivationMode@hknpWorldWriter@@W4UpdateCachesMode@6@@Z''),
     (''SetBodyNotToCollideWith'', ''?setBodyNotToCollideWith@@YAXPEAVhknpCompoundShape@@IUhknpBodyId@@@Z''),
     (''setBodyOrientation'',
       ''?setBodyOrientation@hknpWorld@@UEAAXUhknpBodyId@@AEBVhkQuaternionf@@W4PivotLocation@hknpWorldWriter@@W4ActivationMode@5@@Z''),
     (''setBodyPosition'',
       ''?setBodyPosition@hknpWorld@@UEAAXUhknpBodyId@@AEBVhkVector4d@@W4ActivationMode@hknpWorldWriter@@@Z''),
     (''setBodyPropertyImpl'', ''?setBodyPropertyImpl@hknpWorld@@UEAAXUhknpBodyId@@GPEBX_K@Z''),
     (''setBodyQuality'',
       ''?setBodyQuality@hknpWorld@@UEAAXUhknpBodyId@@UhknpBodyQualityId@@W4ActivationMode@hknpWorldWriter@@W4UpdateCachesMode@5@@Z''),
     (''setBodyShape'',
       ''?setBodyShape@hknpWorld@@UEAAXUhknpBodyId@@PEBVhknpShape@@W4ActivationMode@hknpWorldWriter@@@Z''),
     (''setBodyVelocity'',
       ''?setBodyVelocity@hknpWorld@@UEAAXUhknpBodyId@@AEBVhkVector4f@@1W4ActivationMode@hknpWorldWriter@@@Z''),
     (''setBodyVelocityAt'',
       ''?setBodyVelocityAt@hknpWorld@@UEAAXUhknpBodyId@@AEBVhkVector4f@@AEBVhkVector4d@@W4ActivationMode@hknpWorldWriter@@@Z''),
     (''SetBoundsLod'', ''?setBoundsLod@hknpLodShape@@QEAAXW4hknpLevelOfDetail@@@Z''),
     (''SetCenterOfMassInBodySpace'',
       ''?setCenterOfMassInBodySpace@hknpBody@@QEAAXAEBVhkVector4f@@AEBUhknpCompressedAabbThresholds@@@Z''),
     (''SetCenterOfMassInWorld'', ''?setCenterOfMassInWorld@hknpMotion@@QEAAXAEBUhkDouble3@@@Z'')]"

definition physics_pointers_67 :: "(string \<times> string) list" where
  "physics_pointers_67 =
    [(''SetCollisionLookAheadDistance'', ''?setCollisionLookAheadDistance@hknpBody@@QEAAXM@Z''),
     (''SetConesForSwingLimitsEnabled'', ''?setConesForSwingLimitsEnabled@hknp6DofConstraintData@@QEAAX_N@Z''),
     (''SetConsistencyChecksEnabled'', ''?setConsistencyChecksEnabled@hknpWorld@@QEAAX_N@Z''),
     (''setConstraintPropertyImpl'', ''?setConstraintPropertyImpl@hknpWorld@@UEAAXUhknpConstraintId@@GPEBX_K@Z''),
     (''SetConvexRadius'', ''?setConvexRadius@hknpConvexShape@@QEAAXM@Z''),
     (''SetDensity'', ''?setDensity@hknpBodyCinfo@@QEAAXM@Z''),
     (''Global_SetEmpty_material'', ''?setEmpty@FreeListOperations@hknpMaterial@@SAXAEAV2@@Z''),
     (''Global_SetEmpty_motion'', ''?setEmpty@FreeListOperations@hknpMotion@@SAXAEAV2@@Z''),
     (''Global_SetEmpty_element_next'',
       ''?setEmpty@hkDefaultFreeListArrayOperations@HkManifoldContactInfo@HkContactEventCollectorModifier@@SAXAEAU23@I@Z''),
     (''Global_SetEmpty_element_next_2'', ''?setEmpty@hkDefaultFreeListArrayOperations@HkManifoldInfo@@SAXAEAU2@I@Z''),
     (''hknpShapeInstance_SetEmpty'', ''?setEmpty@hknpShapeInstance@@SAXAEAU1@I@Z''),
     (''SetEnabled'', ''?setEnabled@hknpShapeInstance@@QEAAX_N@Z''),
     (''SetFixedAngularDampFactor'', ''?setFixedAngularDampFactor@hknp6DofConstraintData@@QEAAXM@Z''),
     (''SetFixedAngularTauFactor'', ''?setFixedAngularTauFactor@hknp6DofConstraintData@@QEAAXM@Z''),
     (''SetFixedLinearDampFactor'', ''?setFixedLinearDampFactor@hknp6DofConstraintData@@QEAAXM@Z''),
     (''SetFixedLinearTauFactor'', ''?setFixedLinearTauFactor@hknp6DofConstraintData@@QEAAXM@Z'')]"

definition physics_pointers_68 :: "(string \<times> string) list" where
  "physics_pointers_68 =
    [(''SetFlags'', ''?setFlags@hknpShape@@QEAAXV?$hkFlags@W4FlagsEnum@hknpShape@@G@@@Z''),
     (''SetFrictionEnabled'', ''?setFrictionEnabled@hknpWheelConstraintData@@QEAAX_N@Z''),
     (''setGravity'', ''?setGravity@hknpWorld@@UEAAXAEBVhkVector4f@@@Z''),
     (''SetHigh'', ''?setHigh@hkHalf16@@QEAAXXZ''),
     (''SetHingeConstraintParameters'',
       ''?setHingeConstraintParameters@HkConstraintHandler@@SAXAEAVhknpLimitedHingeConstraintData@@AEBUHingeConstraintAtomParameters@1@@Z''),
     (''hknp6DofConstraintData_SetInBodySpace'',
       ''?setInBodySpace@hknp6DofConstraintData@@QEAAXAEBVhkVector4d@@0AEBVhkVector4f@@111@Z''),
     (''hknpBallAndSocketConstraintData_SetInBodySpace'',
       ''?setInBodySpace@hknpBallAndSocketConstraintData@@QEAAXAEBVhkVector4d@@0@Z''),
     (''hknpFixedConstraintData_SetInBodySpace'',
       ''?setInBodySpace@hknpFixedConstraintData@@QEAAXAEBVhkPreciseTransform@@0@Z''),
     (''hknpLimitedHingeConstraintData_SetInBodySpace'',
       ''?setInBodySpace@hknpLimitedHingeConstraintData@@QEAAXAEBVhkVector4d@@0AEBVhkVector4f@@111@Z''),
     (''SetInWorldSpace'',
       ''?setInWorldSpace@hknpPrismaticConstraintData@@QEAAXAEBVhkPreciseTransform@@0AEBVhkVector4d@@AEBVhkVector4f@@@Z''),
     (''SetInertiaStabilizationFactor'', ''?setInertiaStabilizationFactor@hknpConstraintData@@QEAA?AUhkResult@@M@Z''),
     (''SetInfiniteInertiaAndMass'', ''?setInfiniteInertiaAndMass@hknpMotion@@QEAAXXZ''),
     (''SetInstanceShapeTag'',
       ''?setInstanceShapeTag@hknpCompoundShape@@QEAAXU?$hkHandle@I$0PPPPPPPP@UhknpShapeInstanceIdDiscriminant@@@@G@Z''),
     (''SetInverseInertia'', ''?setInverseInertia@hknpMotion@@QEAAXAEBVhkVector4f@@@Z''),
     (''SetInverseInertiaAndMass'', ''?setInverseInertiaAndMass@hknpMotion@@QEAAXAEBVhkVector4f@@@Z''),
     (''SetInverseMass'', ''?setInverseMass@hknpMotion@@QEAAXM@Z'')]"

definition physics_pointers_69 :: "(string \<times> string) list" where
  "physics_pointers_69 =
    [(''SetLeafId'', ''?setLeafId@hknpShapeInstance@@QEAAXI@Z''),
     (''SetLinAndAngLocalVelUnchecked'', ''?setLinAndAngLocalVelUnchecked@hknpMotion@@QEAAXAEBVhkVector4f@@0@Z''),
     (''SetLinAndAngLocalVelocity'', ''?setLinAndAngLocalVelocity@hknpMotion@@QEAAXAEBVhkVector4f@@0@Z''),
     (''SetLinearDistanceDampFactor'', ''?setLinearDistanceDampFactor@hknp6DofConstraintData@@QEAAXM@Z''),
     (''SetLinearDistanceLimitEnabled'', ''?setLinearDistanceLimitEnabled@hknp6DofConstraintData@@QEAAX_N@Z''),
     (''SetLinearDistanceLimits'', ''?setLinearDistanceLimits@hknp6DofConstraintData@@QEAAXMM@Z''),
     (''SetLinearDistanceStrength'', ''?setLinearDistanceStrength@hknp6DofConstraintData@@QEAAXMM@Z''),
     (''SetLinearDistanceTauFactor'', ''?setLinearDistanceTauFactor@hknp6DofConstraintData@@QEAAXM@Z''),
     (''SetLinearLimitsDampFactor'', ''?setLinearLimitsDampFactor@hknp6DofConstraintData@@QEAAXM@Z''),
     (''SetLinearLimitsTauFactor'', ''?setLinearLimitsTauFactor@hknp6DofConstraintData@@QEAAXM@Z''),
     (''SetLinearMotorEnabled'', ''?setLinearMotorEnabled@hknp6DofConstraintData@@QEAAXH_N@Z''),
     (''SetLinearMotorTargetPosition'',
       ''?setLinearMotorTargetPosition@hknp6DofConstraintData@@QEAAXAEBVhkVector4f@@@Z''),
     (''SetLinearSpeedLimit'', ''?setLinearSpeedLimit@hknpMotion@@QEAAXM@Z''),
     (''SetLinearVelocity'', ''?setLinearVelocity@hknpMotion@@QEAAXAEBVhkVector4f@@@Z''),
     (''SetLocalConstraintFrameAOrientation'',
       ''?setLocalConstraintFrameAOrientation@hknp6DofConstraintData@@QEAAXAEBVhkVector4f@@0@Z''),
     (''SetLocalConstraintFrameAPosition'',
       ''?setLocalConstraintFrameAPosition@hknp6DofConstraintData@@QEAAXAEBVhkVector4d@@@Z'')]"

definition physics_pointers_70 :: "(string \<times> string) list" where
  "physics_pointers_70 =
    [(''SetLocalConstraintFrameBOrientation'',
       ''?setLocalConstraintFrameBOrientation@hknp6DofConstraintData@@QEAAXAEBVhkVector4f@@0@Z''),
     (''SetLocalConstraintFrameBPosition'',
       ''?setLocalConstraintFrameBPosition@hknp6DofConstraintData@@QEAAXAEBVhkVector4d@@@Z''),
     (''SetLookAheadDistance'', ''?setLookAheadDistance@hknpMotion@@QEAAXM@Z''),
     (''SetMassAndScaleInertia'', ''?setMassAndScaleInertia@hkDiagonalizedMassProperties@@QEAAXM@Z''),
     (''SetMassProperties'', ''?setMassProperties@hknpShape@@QEAAXAEBUMassConfig@1@@Z''),
     (''SetMassProperties_1'', ''?setMassProperties@hknpShape@@QEAAXAEBUhkDiagonalizedMassProperties@@@Z''),
     (''SetMassPropertiesLod'', ''?setMassPropertiesLod@hknpLodShape@@QEAAXW4hknpLevelOfDetail@@@Z''),
     (''SetMassPropertiesWorldSpace'',
       ''?setMassPropertiesWorldSpace@hknpMotion@@QEAAXAEBUhkDiagonalizedMassProperties@@@Z''),
     (''SetMax'', ''?setMax@hkHalf16@@QEAAXXZ''),
     (''SetMaxAngularLimit'', ''?setMaxAngularLimit@hknpLimitedHingeConstraintData@@QEAAXM@Z''),
     (''SetMaxDepenetrationSpeed'', ''?setMaxDepenetrationSpeed@hknpBody@@QEAAXM@Z''),
     (''SetMaxDistanceForExtraStaticSolve'', ''?setMaxDistanceForExtraStaticSolve@hknpSolverInfo@@QEAAXM@Z''),
     (''SetMaxFrictionForce'', ''?setMaxFrictionForce@hknpPrismaticConstraintData@@QEAAXM@Z''),
     (''hknp6DofConstraintData_SetMaxFrictionTorque'', ''?setMaxFrictionTorque@hknp6DofConstraintData@@QEAAXM@Z''),
     (''hknpLimitedHingeConstraintData_SetMaxFrictionTorque'',
       ''?setMaxFrictionTorque@hknpLimitedHingeConstraintData@@QEAAXM@Z''),
     (''hknpWheelConstraintData_SetMaxFrictionTorque'', ''?setMaxFrictionTorque@hknpWheelConstraintData@@QEAAXM@Z'')]"

definition physics_pointers_71 :: "(string \<times> string) list" where
  "physics_pointers_71 =
    [(''SetMaxLinearLimit'', ''?setMaxLinearLimit@hknpPrismaticConstraintData@@QEAAXM@Z''),
     (''SetMaxRotationPerStep'', ''?setMaxRotationPerStep@hknpMotion@@QEAAXM@Z''),
     (''hknpBody_SetMaxTimDistance'', ''?setMaxTimDistance@hknpBody@@QEAAXG@Z''),
     (''hknpSolverInfo_SetMaxTimDistance'', ''?setMaxTimDistance@hknpSolverInfo@@QEAAXM@Z''),
     (''SetMaxTimDistanceFromRotation'', ''?setMaxTimDistanceFromRotation@hknpBody@@QEAAXG@Z''),
     (''SetMaximumAngularImpulse'', ''?setMaximumAngularImpulse@hknpConstraintData@@QEAAXM@Z''),
     (''SetMaximumLinearImpulse'', ''?setMaximumLinearImpulse@hknpConstraintData@@QEAAXM@Z''),
     (''SetMaximumPenetration'', ''?setMaximumPenetration@hknpConvexShape@@QEAAXM@Z''),
     (''SetMin'', ''?setMin@hkHalf16@@QEAAXXZ''),
     (''SetMinAngularLimit'', ''?setMinAngularLimit@hknpLimitedHingeConstraintData@@QEAAXM@Z''),
     (''SetMinLinearLimit'', ''?setMinLinearLimit@hknpPrismaticConstraintData@@QEAAXM@Z''),
     (''setMotionCenterOfMass'', ''?setMotionCenterOfMass@hknpWorld@@UEAAXUhknpMotionId@@AEBVhkVector4d@@@Z''),
     (''setMotionInertia'', ''?setMotionInertia@hknpWorld@@UEAAXUhknpMotionId@@AEBVhkVector4f@@@Z''),
     (''hknpLimitedHingeConstraintData_SetMotor'',
       ''?setMotor@hknpLimitedHingeConstraintData@@QEAAXPEAVhknpConstraintMotor@@@Z''),
     (''hknpPrismaticConstraintData_SetMotor'',
       ''?setMotor@hknpPrismaticConstraintData@@QEAAXPEAVhknpConstraintMotor@@@Z''),
     (''hknpWheelConstraintData_SetMotor'', ''?setMotor@hknpWheelConstraintData@@QEAAXPEAVhknpConstraintMotor@@@Z'')]"

definition physics_pointers_72 :: "(string \<times> string) list" where
  "physics_pointers_72 =
    [(''hknpLimitedHingeConstraintData_SetMotorTargetAngle'',
       ''?setMotorTargetAngle@hknpLimitedHingeConstraintData@@QEAAXM@Z''),
     (''hknpWheelConstraintData_SetMotorTargetAngle'', ''?setMotorTargetAngle@hknpWheelConstraintData@@QEAAXM@Z''),
     (''SetMotorTargetPosition'', ''?setMotorTargetPosition@hknpPrismaticConstraintData@@QEAAXM@Z''),
     (''setName'', ''?setName@hknpWorld@@UEAAXPEBD@Z''),
     (''SetNegativeOne'', ''?setNegativeOne@hkHalf16@@QEAAXXZ''),
     (''Global_SetNextIndex_material_index'', ''?setNextIndex@FreeListOperations@hknpMaterial@@SAXAEAV2@H@Z''),
     (''Global_SetNextIndex_motion_index'', ''?setNextIndex@FreeListOperations@hknpMotion@@SAXAEAV2@H@Z''),
     (''SetNumNonDirectSolverAtoms'', ''?setNumNonDirectSolverAtoms@hknpConstraint@@QEAAXH@Z''),
     (''SetNumSolverElemTemps'', ''?setNumSolverElemTemps@hknpConstraint@@QEAAXH@Z''),
     (''SetNumVertices'', ''?setNumVertices@PackedManifold@hknpConnectivityGraph@@QEAAXE@Z''),
     (''SetOne'', ''?setOne@hkHalf16@@QEAAXXZ''),
     (''SetPointVelocity'', ''?setPointVelocity@hknpMotion@@QEAAXAEBVhkVector4f@@AEBVhkVector4d@@@Z''),
     (''SetPointerAligned'', ''?setPointerAligned@hkStringPtr@@QEAAXPEBD@Z''),
     (''SetPreciseTransform'', ''?setPreciseTransform@hknpBody@@QEAAXAEBVhkPreciseTransform@@@Z''),
     (''SetPreviousStepAngularVelocityLocal'',
       ''?setPreviousStepAngularVelocityLocal@hknpMotion@@QEAAXAEBVhkVector4f@@@Z''),
     (''SetPreviousStepLinearVelocity'', ''?setPreviousStepLinearVelocity@hknpMotion@@QEAAXAEBVhkVector4f@@@Z'')]"

definition physics_pointers_73 :: "(string \<times> string) list" where
  "physics_pointers_73 =
    [(''SetPreviousStepVelocity'', ''?setPreviousStepVelocity@hknpMotion@@QEAAXAEBVhkVector4f@@0@Z''),
     (''SetPrismaticConstraintParameters'',
       ''?setPrismaticConstraintParameters@HkConstraintHandler@@SAXAEAVhknpPrismaticConstraintData@@AEBUPrismaticConstraintAtomParameters@1@@Z''),
     (''SetRotation'', ''?setRotation@hknpShapeInstance@@QEAAXAEBVhkQuaternionf@@@Z''),
     (''SetScale'', ''?setScale@hknpShapeInstance@@QEAAXAEBVhkVector4f@@W4ScaleMode@hknpShape@@@Z''),
     (''hknpBody_SetShape'', ''?setShape@hknpBody@@QEAAXPEBVhknpShape@@@Z''),
     (''hknpShapeInstance_SetShape'', ''?setShape@hknpShapeInstance@@QEAAXPEBVhknpShape@@@Z''),
     (''SetShapeAtLod'', ''?setShapeAtLod@hknpLodShape@@QEAA?AUhkResult@@W4hknpLevelOfDetail@@PEBVhknpShape@@@Z''),
     (''SetShapeTag'', ''?setShapeTag@hknpShapeInstance@@QEAAXG@Z''),
     (''SetShapeTagCodecInfo'', ''?setShapeTagCodecInfo@hknpCompoundShape@@QEAAXI@Z''),
     (''SetSpaceSplitterWeightMultiplier'', ''?setSpaceSplitterWeightMultiplier@hknpMotion@@QEAAXE@Z''),
     (''SetSteeringAngle'', ''?setSteeringAngle@hknpWheelConstraintData@@QEAAXM@Z''),
     (''SetStepInfo'', ''?setStepInfo@hknpSolverInfo@@QEAAXAEBVhkVector4f@@MMHH@Z''),
     (''SetStorage'', ''?setStorage@hkHalf16@@QEAAXF@Z''),
     (''SetSuspensionDampingFactor'', ''?setSuspensionDampingFactor@hknpWheelConstraintData@@QEAAXM@Z''),
     (''SetSuspensionMaxLimit'', ''?setSuspensionMaxLimit@hknpWheelConstraintData@@QEAAXM@Z''),
     (''SetSuspensionMinLimit'', ''?setSuspensionMinLimit@hknpWheelConstraintData@@QEAAXM@Z'')]"

definition physics_pointers_74 :: "(string \<times> string) list" where
  "physics_pointers_74 =
    [(''SetSuspensionStrengthFactor'', ''?setSuspensionStrengthFactor@hknpWheelConstraintData@@QEAAXM@Z''),
     (''SetTauAndDamping'', ''?setTauAndDamping@hknpSolverInfo@@QEAAXMM@Z''),
     (''hknpBody_SetTransform'', ''?setTransform@hknpBody@@QEAAXAEBVhkTransformf@@@Z''),
     (''hknpShapeInstance_SetTransform'', ''?setTransform@hknpShapeInstance@@QEAAXAEBUhkQTransform@@@Z''),
     (''SetTransformComAndCollisionTolerance'',
       ''?setTransformComAndCollisionTolerance@hknpBody@@QEAAXAEBVhkPreciseTransform@@@Z''),
     (''hknpShapeInstance_SetTranslation'', ''?setTranslation@hknpShapeInstance@@QEAAXAEBVhkVector4f@@@Z''),
     (''SetUserData'', ''?setUserData@hknpShapeInstance@@QEAAX_K@Z''),
     (''SetVelocityTarget'', ''?setVelocityTarget@vrCallbackVelocityConstraintMotor@@QEAAXM@Z''),
     (''SetViolationAccelerationThreshold'', ''?setViolationAccelerationThreshold@hknpConstraintData@@QEAAXM@Z''),
     (''Global_SetZero_void'', ''?setZero@AppliedImpulses@hknpConstraintData@@QEAAXXZ''),
     (''Global_SetZero_void_2'', ''?setZero@Impulse@AppliedImpulses@hknpConstraintData@@QEAAXXZ''),
     (''hkHalf16_SetZero'', ''?setZero@hkHalf16@@QEAAXXZ''),
     (''shiftWorld'', ''?shiftWorld@hknpWorld@@UEAAXAEBVhkVector4f@@@Z''),
     (''StartsWith'', ''?startsWith@hkStringPtr@@QEBAIPEBD@Z''),
     (''StepTrace'', ''?stepTrace@hknpWorld@@QEAAXXZ''),
     (''Store_1'', ''?store@hkHalf16@@QEBAXPEAM@Z'')]"

definition physics_pointers_75 :: "(string \<times> string) list" where
  "physics_pointers_75 =
    [(''Store'', ''?store@hkHalf16@@QEBAXPEAN@Z''),
     (''Swap'', ''?swap@hkStringPtr@@QEAAXAEAV1@@Z''),
     (''SyncStaticBodyFromMotionTransform'', ''?syncStaticBodyFromMotionTransform@hknpBody@@QEAAXXZ''),
     (''SynchronizeFlags'', ''?synchronizeFlags@hknpMaterial@@QEAAXXZ''),
     (''ToString'', ''?toString@hknpShapeType@@SAPEBDW4Enum@1@@Z''),
     (''hknpConstraint_Transform_transformation'', ''?transform@hknpConstraint@@QEAAXAEBVhkPreciseTransform@@@Z''),
     (''hknpConstraint_Transform_data_transformation_bodyA_bodyB'',
       ''?transform@hknpConstraint@@SAXPEAVhknpConstraintData@@AEBVhkPreciseTransform@@UhknpBodyId@@2@Z''),
     (''TransformShape'', ''?transformShape@HkSerialization@@SAPEBVhknpShape@@PEBV2@AEBVhkTransformf@@M_N@Z''),
     (''TryGetRootShape'',
       ''?tryGetRootShape@HkBreakableCompoundShapeManipulator@@SAPEBVhknpBreakableCompoundShape@@PEBVhknpCompoundShape@@@Z''),
     (''TypeToString'', ''?typeToString@hknpConstraintData@@SAPEBDW4ConstraintType@1@@Z''),
     (''UnanchorAllInstances'', ''?unanchorAllInstances@hknpBreakableCompoundShape@@QEAAXXZ''),
     (''UnanchorInstance'',
       ''?unanchorInstance@hknpBreakableCompoundShape@@QEAAXU?$hkHandle@I$0PPPPPPPP@UhknpShapeInstanceIdDiscriminant@@@@@Z''),
     (''UnmarkForRead'', ''?unmarkForRead@hknpWorld@@QEBAXXZ''),
     (''UnmarkForWrite'', ''?unmarkForWrite@hknpWorld@@QEBAXXZ''),
     (''Global_Unpack'',
       ''?unpack@PackedManifold@hknpConnectivityGraph@@QEBAXAEAUManifold@2@AEAV?$hkArray@VhkVector4f@@U?$hkBuiltinContainerAllocator@$0A@$0A@@@@@@Z''),
     (''hkDiagonalizedMassProperties_Unpack'',
       ''?unpack@hkDiagonalizedMassProperties@@QEBAXPEAUhkMassProperties@@@Z'')]"

definition physics_pointers_76 :: "(string \<times> string) list" where
  "physics_pointers_76 =
    [(''UpdateAtoms'', ''?updateAtoms@hknpConstraint@@QEAAXXZ''),
     (''updateBodyCollisionCaches'', ''?updateBodyCollisionCaches@hknpWorld@@UEAAXUhknpBodyId@@@Z''),
     (''UpdateBodyFromMotionTransform'',
       ''?updateBodyFromMotionTransform@hknpBody@@QEAAXAEBVhknpMotion@@AEBUhknpCompressedAabbThresholds@@PEBVhkQuaternionf@@@Z''),
     (''updateBroadPhase'', ''?updateBroadPhase@hknpWorld@@UEAAXXZ''),
     (''hknpBody_UpdateDataDerivedFromMotionAndShape'',
       ''?updateDataDerivedFromMotionAndShape@hknpBody@@QEAAXAEBUhknpCompressedAabbThresholds@@@Z''),
     (''UpdateDirtyAtoms'', ''?updateDirtyAtoms@hknpConstraintData@@QEAA?AW4Enum@UpdateAtomsResult@1@XZ''),
     (''ZeroAllInstanceVelocities'', ''?zeroAllInstanceVelocities@hknpCompoundShape@@QEAAXXZ''),
     (''Global_cctor_function_0_3'', ''BodyInfoPack_BodyInfoPack___1__S_BodyInfoPack''),
     (''Global_cctor_function_0_4'', ''BodyInfoPackf_BodyInfoPackf___1__S_BodyInfoPackf''),
     (''Global_ctor_void'', ''ConvexShapeArgs_ConvexShapeArgs''),
     (''Global_ctor_void_2'', ''HkBakedVerticesProperty_HkBakedVerticesProperty''),
     (''Global_cctor_function_0_5'',
       ''HkBakedVerticesProperty_HkBakedVerticesProperty___1__S_HkBakedVerticesProperty''),
     (''Global_ctor_motionId_motion'', ''HkBodyMotionInfo_HkBodyMotionInfo___S_hknpMotionId__1__S_hknpMotion''),
     (''Global_ctor_void_3'', ''HkBodyUserDataPair_HkBodyUserDataPair''),
     (''Global_ctor_bodyId_userData'', ''HkBodyUserDataPair_HkBodyUserDataPair___S_hknpBodyId_k''),
     (''Global_ctor_void_4'', ''HkCharacterContact_HkCharacterContact'')]"

definition physics_pointers_77 :: "(string \<times> string) list" where
  "physics_pointers_77 =
    [(''Global_ctor_void_5'', ''HkCharacterControllerCinfo_HkCharacterControllerCinfo''),
     (''Global_cctor_function_0_6'',
       ''HkCharacterControllerCinfo_HkCharacterControllerCinfo___1__S_HkCharacterControllerCinfo''),
     (''Global_ctor_void_6'', ''HkCharacterControllerOutput_HkCharacterControllerOutput''),
     (''Global_cctor_1_function_0'', ''HkCharacterController_HkCharacterController___1__S_HkCharacterController''),
     (''Global_cctor_1_function_0_2'',
       ''HkCharacterStateManager_HkCharacterStateManager___1__S_HkCharacterStateManager''),
     (''Global_cctor_function_0_7'',
       ''HkColliderQueryDispatcher_S_HkColliderCastColliderArgs_HkColliderCastColliderArgs___1__S_HkColliderQueryDispatcher_S_HkColliderCastColliderArgs''),
     (''Global_cctor_function_0_8'',
       ''HkColliderQueryDispatcher_S_HkColliderCastRayArgs_HkColliderCastRayArgs___1__S_HkColliderQueryDispatcher_S_HkColliderCastRayArgs''),
     (''Global_cctor_function_0_9'',
       ''HkColliderQueryDispatcher_S_HkColliderNearestPointsArgs_HkColliderNearestPointsArgs___1__S_HkColliderQueryDispatcher_S_HkColliderNearestPointsArgs''),
     (''Global_cctor_function_0_10'',
       ''HkColliderQueryDispatcher_S_HkColliderNearestPointsToColliderArgs_HkColliderNearestPointsToColliderArgs___1__S_HkColliderQueryDispatcher_S_HkColliderNearestPointsToColliderArgs''),
     (''Global_ctor_void_7'', ''HkColliderQueryDispatcher_S_HkColliderNearestQueryHit_HkColliderNearestQueryHit''),
     (''Global_ctor_void_8'', ''HkColliderQueryDispatcher_S_HkColliderSweepQueryHit_HkColliderSweepQueryHit''),
     (''Global_cctor_function_0_11'', ''HkConstraintHandler_HkConstraintHandler___1__S_HkConstraintHandler''),
     (''Global_ctor_void_9'', ''HkConstraintHandler_S_HkConstraintWithExceededForces_HkConstraintWithExceededForces''),
     (''Global_cctor_function_0_12'',
       ''HkContactEventCollectorModifier_HkContactEventCollectorModifier___1__S_HkContactEventCollectorModifier''),
     (''Global_ctor_void_10'',
       ''HkContactEventCollectorModifier_S_HkManifoldContactInfo_S_hkDefaultFreeListArrayOperations_hkDefaultFreeListArrayOperations''),
     (''Global_cctor_other'',
       ''HkContactEventCollectorModifier_S_HkManifoldContactInfo_S_hkDefaultFreeListArrayOperations_hkDefaultFreeListArrayOperations___1__S_HkContactEventCollectorModifier_S_HkManifoldContactInfo_S_hkDefaultFreeListArrayOperations'')]"

definition physics_pointers_78 :: "(string \<times> string) list" where
  "physics_pointers_78 =
    [(''Global_ctor_filter'', ''HkDataFilterIterator_HkDataFilterIterator___1__S_HkDataFilter''),
     (''Global_cctor_function_0_13'', ''HkDebugProcessManager_HkDebugProcessManager___1__S_HkDebugProcessManager''),
     (''Global_cctor_1_function_0_3'',
       ''HkDisjointResultHolder_HkDisjointResultHolder___1__S_HkDisjointResultHolder''),
     (''Global_ctor_shape'', ''HkDisjointResultHolder_HkDisjointResultHolder____S_hknpBreakableCompoundShape''),
     (''Global_dtor_void'', ''HkDisjointResultHolder__HkDisjointResultHolder''),
     (''Global_ctor_count'', ''HkFractureProperties_HkFractureProperties_I''),
     (''Global_cctor_function_0_14'', ''HkFractureProperties_HkFractureProperties___1__S_HkFractureProperties''),
     (''Global_ctor_void_11'', ''HkGridShapeStorage_HkGridShapeStorage''),
     (''Global_cctor_function_0_15'', ''HkGridShapeStorage_HkGridShapeStorage___1__S_HkGridShapeStorage''),
     (''Global_ctor_shape_name'', ''HkLoadedShapeInfo_HkLoadedShapeInfo__1__S_hknpShape__1C''),
     (''Global_ctor_void_12'', ''HkMainSystem_HkMainSystem''),
     (''Global_ctor_void_13'', ''HkMainSystem_S_HkAdaptedCallbacks_HkAdaptedCallbacks''),
     (''Global_cctor_function_0_16'',
       ''HkMainSystem_S_HkAdaptedCallbacks_HkAdaptedCallbacks___1__S_HkMainSystem_S_HkAdaptedCallbacks''),
     (''Global_dtor_void_2'', ''HkMainSystem_S_HkAdaptedCallbacks__HkAdaptedCallbacks''),
     (''Global_ctor_void_14'', ''HkMainSystem_S_HkBetterError_HkBetterError''),
     (''Global_ctor_void_15'', ''HkMainSystem_S_HkMainCinfo_HkMainCinfo'')]"

definition physics_pointers_79 :: "(string \<times> string) list" where
  "physics_pointers_79 =
    [(''Global_cctor_function_0_17'', ''HkMainSystem_S_HkMainCinfo_HkMainCinfo___1__S_HkMainSystem_S_HkMainCinfo''),
     (''Global_dtor_void_3'', ''HkMainSystem_S_HkMainCinfo__HkMainCinfo''),
     (''Global_cctor_other_2'', ''HkMainSystem_S_UserCallbacks_UserCallbacks___1__S_HkMainSystem_S_UserCallbacks''),
     (''Global_dtor_void_4'', ''HkMainSystem__HkMainSystem''),
     (''Global_ctor_void_16'', ''HkManifoldInertiaModifier_HkManifoldInertiaModifier''),
     (''Global_cctor_function_0_18'',
       ''HkManifoldInertiaModifier_HkManifoldInertiaModifier___1__S_HkManifoldInertiaModifier''),
     (''Global_cctor_function_0_19'', ''HkManifoldInfo_HkManifoldInfo___1__S_HkManifoldInfo''),
     (''Global_cctor_1_function_0_4'', ''HkMassChangerModifier_HkMassChangerModifier___1__S_HkMassChangerModifier''),
     (''Global_cctor_function_0_20'', ''HkMaterialLibrary_HkMaterialLibrary___1__S_HkMaterialLibrary''),
     (''Global_ctor_void_17'', ''HkMaterialLibrary_S_HkExtendedMaterialPalette_HkExtendedMaterialPalette''),
     (''Global_cctor_function_0_21'',
       ''HkMaterialLibrary_S_HkExtendedMaterialPalette_HkExtendedMaterialPalette___1__S_HkMaterialLibrary_S_HkExtendedMaterialPalette''),
     (''Global_dtor_void_5'', ''HkMaterialLibrary__HkMaterialLibrary''),
     (''Global_ctor_void_18'', ''HkPackedBodyInfoExtended_HkPackedBodyInfoExtended''),
     (''Global_ctor_void_19'', ''HkPackedBodyProxy_HkPackedBodyProxy''),
     (''Global_cctor_function_0_22'',
       ''HkPackedCompoundShapeInstance_HkPackedCompoundShapeInstance___1__S_HkPackedCompoundShapeInstance''),
     (''Global_ctor_preciseTransform'', ''HkPackedWorldTransform_HkPackedWorldTransform___1__S_hkPreciseTransform'')]"

definition physics_pointers_80 :: "(string \<times> string) list" where
  "physics_pointers_80 =
    [(''Global_ctor_void_20'', ''HkPostProjectionUtilitySettings_HkPostProjectionUtilitySettings''),
     (''Global_ctor_void_21'', ''HkPoweredMotorsParams_HkPoweredMotorsParams''),
     (''Global_ctor_void_22'', ''HkQueryDispatcher_S_HkBodyWithUserData_HkBodyWithUserData''),
     (''Global_ctor_void_23'', ''HkQueryDispatcher_S_HkCastAabbArgs_HkCastAabbArgs''),
     (''Global_ctor_void_24'', ''HkQueryDispatcher_S_HkCastShapeArgs_HkCastShapeArgs''),
     (''Global_cctor_function_0_23'',
       ''HkQueryDispatcher_S_HkCastShapeArgs_HkCastShapeArgs___1__S_HkQueryDispatcher_S_HkCastShapeArgs''),
     (''Global_cctor_function_0_24'',
       ''HkQueryDispatcher_S_HkHighPrecisionTransform_HkHighPrecisionTransform___1__S_HkQueryDispatcher_S_HkHighPrecisionTransform''),
     (''Global_ctor_void_25'', ''HkQueryDispatcher_S_HkNearestPointsToPointArgs_HkNearestPointsToPointArgs''),
     (''Global_ctor_void_26'', ''HkQueryDispatcher_S_HkNearestPointsToShapeArgs_HkNearestPointsToShapeArgs''),
     (''Global_cctor_function_0_25'',
       ''HkQueryDispatcher_S_HkNearestPointsToShapeArgs_HkNearestPointsToShapeArgs___1__S_HkQueryDispatcher_S_HkNearestPointsToShapeArgs''),
     (''Global_ctor_void_27'', ''HkQueryDispatcher_S_HkNearestQueryHit_HkNearestQueryHit''),
     (''Global_ctor_void_28'', ''HkQueryDispatcher_S_HkQueryAabbArgs_HkQueryAabbArgs''),
     (''Global_ctor_void_29'', ''HkQueryDispatcher_S_HkRayCastArgs_HkRayCastArgs''),
     (''Global_ctor_void_30'', ''HkQueryDispatcher_S_HkSweepQueryHit_HkSweepQueryHit''),
     (''Global_cctor_function_0_26'', ''HkRagdollAsset_HkRagdollAsset___1__S_HkRagdollAsset''),
     (''Global_ctor_void_31'', ''HkRagdollCinfo_HkRagdollCinfo'')]"

definition physics_pointers_81 :: "(string \<times> string) list" where
  "physics_pointers_81 =
    [(''Global_cctor_function_0_27'', ''HkRagdollCinfo_HkRagdollCinfo___1__S_HkRagdollCinfo''),
     (''Global_dtor_void_6'', ''HkRagdollCinfo__HkRagdollCinfo''),
     (''Global_cctor_function_0_28'', ''HkRagdoll_HkRagdoll___1__S_HkRagdoll''),
     (''Global_ctor_void_32'', ''HkSerializableFracture_HkSerializableFracture''),
     (''Global_cctor_function_0_29'',
       ''HkSerializationShapeScalingUtil_HkSerializationShapeScalingUtil___1__S_HkSerializationShapeScalingUtil''),
     (''Global_ctor_void_33'', ''HkSession_U_HkLodSettings_HkLodSettings''),
     (''Global_ctor_other'', ''HkSession_U_HkLodSettings_HkLodSettings__1__S_HkSession_U_HkLodSettings''),
     (''Global_ctor_void_34'', ''HkSimdTreeGridShapeStorage_HkSimdTreeGridShapeStorage''),
     (''Global_cctor_function_0_30'',
       ''HkSimdTreeGridShapeStorage_HkSimdTreeGridShapeStorage___1__S_HkSimdTreeGridShapeStorage''),
     (''Global_ctor_void_35'', ''HkSimdTreeGridShape_S_Input_Input''),
     (''Global_ctor_void_36'', ''HkSparseGridShape_S_Input_Input''),
     (''Global_ctor_void_37'', ''HkStaticBodyInfoUpdate_HkStaticBodyInfoUpdate''),
     (''Global_cctor_function_0_31'', ''HkStaticBodyInfoUpdate_HkStaticBodyInfoUpdate___1__S_HkStaticBodyInfoUpdate''),
     (''Global_ctor_void_38'', ''HkStatistics_HkStatistics''),
     (''Global_ctor_void_39'', ''HkWorldData_HkWorldData''),
     (''Global_ctor_void_40'', ''MassBuildConfig_MassBuildConfig'')]"

definition physics_pointers_82 :: "(string \<times> string) list" where
  "physics_pointers_82 =
    [(''Global_ctor_void_41'', ''MeshShapeArgs_MeshShapeArgs''),
     (''Global_ctor_void_42'', ''MigrationData_MigrationData''),
     (''Global_ctor_void_43'', ''c__N_hkConvexDecomposition_S_Config_Config''),
     (''Global_ctor_void_44'', ''c__N_hkConvexDecomposition_S_ConvexPieceInfo_ConvexPieceInfo''),
     (''Global_cctor_function_0_32'',
       ''c__N_hkConvexDecomposition_S_ConvexPieceInfo_ConvexPieceInfo___1__N_hkConvexDecomposition_S_ConvexPieceInfo''),
     (''Global_ctor_void_45'', ''c__N_hkConvexDecomposition_S_IProgress_IProgress''),
     (''Global_cctor_function_0_33'',
       ''c__N_hkConvexDecomposition_S_IProgress_IProgress___1__N_hkConvexDecomposition_S_IProgress''),
     (''Global_ctor_void_46'', ''c__N_hkConvexDecomposition_S_OutputInfo_OutputInfo''),
     (''Global_cctor_function_0_34'',
       ''c__N_hkConvexDecomposition_S_OutputInfo_OutputInfo___1__N_hkConvexDecomposition_S_OutputInfo''),
     (''Global_dtor_void_7'', ''c__N_hkConvexDecomposition_S_OutputInfo__OutputInfo''),
     (''Global_cctor_function_0_35'',
       ''hkDiagonalizedMassProperties_hkDiagonalizedMassProperties___1__S_hkDiagonalizedMassProperties''),
     (''Global_ctor_void_47'', ''hkQTransform_hkQTransform''),
     (''Global_ctor_void_48'', ''hkStringPtr_hkStringPtr''),
     (''Global_ctor_void_49'', ''hknpBodyIdAndIndex_hknpBodyIdAndIndex''),
     (''Global_ctor_void_50'', ''hknpBodyQualityId_hknpBodyQualityId''),
     (''Global_ctor_i'', ''hknpBodyQualityId_hknpBodyQualityId_I'')]"

definition physics_pointers_83 :: "(string \<times> string) list" where
  "physics_pointers_83 =
    [(''ctor_1'', ''hknpBodyQualityId_hknpBodyQualityId___S_hknpBodyQualityId_E_Preset''),
     (''Global_dtor_void_8'', ''hknpBody__hknpBody''),
     (''Global_ctor_void_51'', ''hknpBody_hknpBody''),
     (''Global_ctor_void_52'', ''hknpCompressedAabbThresholds_hknpCompressedAabbThresholds''),
     (''Global_ctor_void_53'', ''hknpConnectivityGraph_S_Buffer_Buffer''),
     (''Global_ctor_void_54'', ''hknpConnectivityGraph_S_CompressedIntArray_CompressedIntArray''),
     (''Global_dtor_void_9'', ''hknpConnectivityGraph_S_CompressedIntArray__CompressedIntArray''),
     (''Global_ctor_void_55'', ''hknpConnectivityGraph_S_DisjointInput_DisjointInput''),
     (''Global_ctor_buffer'',
       ''hknpConnectivityGraph_S_DisjointResult_DisjointResult___1__S_hknpConnectivityGraph_S_Buffer''),
     (''Global_cctor_1_function_0_5'',
       ''hknpConnectivityGraph_S_DisjointResult_DisjointResult___1__S_hknpConnectivityGraph_S_DisjointResult''),
     (''Global_ctor_void_56'', ''hknpConnectivityGraph_S_DisjointResult_S_Set_Set''),
     (''Global_cctor_function_0_36'',
       ''hknpConnectivityGraph_S_DisjointResult_S_Set_Set___1__S_hknpConnectivityGraph_S_DisjointResult_S_Set''),
     (''Global_dtor_void_10'', ''hknpConnectivityGraph_S_DisjointResult_S_Set__Set''),
     (''Global_dtor_void_11'', ''hknpConnectivityGraph_S_DisjointResult__DisjointResult''),
     (''Global_ctor_void_57'', ''hknpConnectivityGraph_S_Edge_Edge''),
     (''Global_cctor_function_0_37'',
       ''hknpConnectivityGraph_S_LocalBuffer_LocalBuffer___1__S_hknpConnectivityGraph_S_LocalBuffer'')]"

definition physics_pointers_84 :: "(string \<times> string) list" where
  "physics_pointers_84 =
    [(''Global_dtor_void_12'', ''hknpConnectivityGraph_S_LocalBuffer__LocalBuffer''),
     (''Global_ctor_void_58'', ''hknpConstraintData_S_AppliedImpulses_AppliedImpulses''),
     (''Global_ctor_void_59'', ''hknpConstraintData_S_AppliedImpulses_S_Impulse_Impulse''),
     (''Global_ctor_type_mutability'',
       ''hknpConstraintData_hknpConstraintData___S_hknpConstraintData_E_ConstraintType___S_hknpConstraintData_E_Mutability''),
     (''Global_ctor_void_60'', ''hknpConstraintGroupDirectSolverSettings_hknpConstraintGroupDirectSolverSettings''),
     (''Global_dtor_void_13'', ''hknpConstraint__hknpConstraint''),
     (''Global_ctor_void_61'', ''hknpConstraint_hknpConstraint''),
     (''Global_ctor_void_62'', ''hknpMaterialPalette_hknpMaterialPalette''),
     (''Global_dtor_void_14'', ''hknpMaterial__hknpMaterial''),
     (''Global_ctor_void_63'', ''hknpMotion_hknpMotion''),
     (''Global_cctor_other_3'', ''hknpMotion_hknpMotion___1__S_hknpMotion''),
     (''Global_ctor_void_64'', ''hknpRefMaterial_hknpRefMaterial''),
     (''Global_cctor_function_0_38'', ''hknpRefMaterial_hknpRefMaterial___1__S_hknpRefMaterial''),
     (''Global_ctor_void_65'', ''hknpShapeInstance_hknpShapeInstance''),
     (''Global_ctor_shape_transform'', ''hknpShapeInstance_hknpShapeInstance__1__S_hknpShape___1__S_hkQTransform''),
     (''Global_cctor_other_4'', ''hknpShapeInstance_hknpShapeInstance___1__S_hknpShapeInstance'')]"

definition physics_pointers_85 :: "(string \<times> string) list" where
  "physics_pointers_85 =
    [(''Global_ctor_void_66'', ''hknpShape_S_BuildSurfaceGeometryConfig_BuildSurfaceGeometryConfig''),
     (''Global_ctor_void_67'', ''hknpShape_S_GetShapeKeysConfig_GetShapeKeysConfig''),
     (''Global_ctor_level'', ''hknpShape_S_GetShapeKeysConfig_GetShapeKeysConfig___E_hknpLevelOfDetail''),
     (''Global_cctor_function_0_39'', ''hknpShape_S_MassConfig_MassConfig___1__S_hknpShape_S_MassConfig''),
     (''Global_ctor_void_68'', ''hknpShape_S_SdfContactPointOutput_SdfContactPointOutput''),
     (''Global_dtor_void_15'', ''hknpShape_S_SdfContactPointOutput__SdfContactPointOutput''),
     (''Global_ctor_void_69'', ''hknpShape_S_SdfContactPoint_SdfContactPoint''),
     (''Global_ctor_void_70'', ''hknpShape_S_SurfaceGeometry_SurfaceGeometry''),
     (''Global_cctor_function_0_40'',
       ''hknpShape_S_SurfaceGeometry_SurfaceGeometry___1__S_hknpShape_S_SurfaceGeometry''),
     (''Global_dtor_void_16'', ''hknpShape_S_SurfaceGeometry__SurfaceGeometry''),
     (''Global_ctor_provider_partIndex'', ''vrBodyPartId_vrBodyPartId___E_vrBodyPartProvider_I''),
     (''Global_cctor_function_0_41'', ''vrBoxParameters_vrBoxParameters___1__S_vrBoxParameters''),
     (''Global_cctor_function_0_42'',
       ''vrCallbackVelocityConstraintMotor_vrCallbackVelocityConstraintMotor___1__S_vrCallbackVelocityConstraintMotor''),
     (''Global_cctor_function_0_43'',
       ''vrChildShapeCollisionMaskProperty_vrChildShapeCollisionMaskProperty___1__S_vrChildShapeCollisionMaskProperty''),
     (''Global_ctor_rootShape'',
       ''vrRootBreakableShapeProperty_vrRootBreakableShapeProperty__1__S_hknpBreakableCompoundShape''),
     (''Global_cctor_1_function_0_6'',
       ''vrRootBreakableShapeProperty_vrRootBreakableShapeProperty___1__S_vrRootBreakableShapeProperty'')]"

definition physics_pointers_86 :: "(string \<times> string) list" where
  "physics_pointers_86 =
    [(''Global_ctor_void_71'', ''vrShapeKey_vrShapeKey''),
     (''Global_ctor_value'', ''vrShapeKey_vrShapeKey_k''),
     (''Global_ctor_void_72'', ''vrTriggerEventInfo_vrTriggerEventInfo''),
     (''Global_dtor_void_17'', ''vrTriggerManager__vrTriggerManager''),
     (''Global_ctor_void_73'', ''vrTriggerManager_vrTriggerManager''),
     (''Global_cctor_function_0_44'', ''vrTriggerManager_vrTriggerManager___1__S_vrTriggerManager'')]"

definition physics_pointers :: "(string \<times> string) list" where
  "physics_pointers =
     physics_pointers_1 @ physics_pointers_2 @ physics_pointers_3 @ physics_pointers_4 @ physics_pointers_5 @
       physics_pointers_6 @ physics_pointers_7 @ physics_pointers_8 @ physics_pointers_9 @ physics_pointers_10 @
       physics_pointers_11 @ physics_pointers_12 @ physics_pointers_13 @ physics_pointers_14 @
       physics_pointers_15 @ physics_pointers_16 @ physics_pointers_17 @ physics_pointers_18 @
       physics_pointers_19 @ physics_pointers_20 @ physics_pointers_21 @ physics_pointers_22 @
       physics_pointers_23 @ physics_pointers_24 @ physics_pointers_25 @ physics_pointers_26 @
       physics_pointers_27 @ physics_pointers_28 @ physics_pointers_29 @ physics_pointers_30 @
       physics_pointers_31 @ physics_pointers_32 @ physics_pointers_33 @ physics_pointers_34 @
       physics_pointers_35 @ physics_pointers_36 @ physics_pointers_37 @ physics_pointers_38 @
       physics_pointers_39 @ physics_pointers_40 @ physics_pointers_41 @ physics_pointers_42 @
       physics_pointers_43 @ physics_pointers_44 @ physics_pointers_45 @ physics_pointers_46 @
       physics_pointers_47 @ physics_pointers_48 @ physics_pointers_49 @ physics_pointers_50 @
       physics_pointers_51 @ physics_pointers_52 @ physics_pointers_53 @ physics_pointers_54 @
       physics_pointers_55 @ physics_pointers_56 @ physics_pointers_57 @ physics_pointers_58 @
       physics_pointers_59 @ physics_pointers_60 @ physics_pointers_61 @ physics_pointers_62 @
       physics_pointers_63 @ physics_pointers_64 @ physics_pointers_65 @ physics_pointers_66 @
       physics_pointers_67 @ physics_pointers_68 @ physics_pointers_69 @ physics_pointers_70 @
       physics_pointers_71 @ physics_pointers_72 @ physics_pointers_73 @ physics_pointers_74 @
       physics_pointers_75 @ physics_pointers_76 @ physics_pointers_77 @ physics_pointers_78 @
       physics_pointers_79 @ physics_pointers_80 @ physics_pointers_81 @ physics_pointers_82 @
       physics_pointers_83 @ physics_pointers_84 @ physics_pointers_85 @ physics_pointers_86"


section \<open>The checks\<close>

lemma physics_ok_1: "list_all lowered physics_wrappers_1 \<and> linked physics_wrappers_1 physics_pointers_1"
  by (rule conjI, simp add: physics_wrappers_1_def,
    rule linked_own [of _ 0], simp add: physics_wrappers_1_def physics_pointers_1_def)

lemma physics_ok_2: "list_all lowered physics_wrappers_2 \<and> linked physics_wrappers_2 physics_pointers_2"
  by (rule conjI, simp add: physics_wrappers_2_def,
    rule linked_own [of _ 0], simp add: physics_wrappers_2_def physics_pointers_2_def)

lemma physics_ok_3: "list_all lowered physics_wrappers_3 \<and> linked physics_wrappers_3 physics_pointers_3"
  by (rule conjI, simp add: physics_wrappers_3_def,
    rule linked_own [of _ 0], simp add: physics_wrappers_3_def physics_pointers_3_def)

lemma physics_ok_4: "list_all lowered physics_wrappers_4 \<and> linked physics_wrappers_4 physics_pointers_4"
  by (rule conjI, simp add: physics_wrappers_4_def,
    rule linked_own [of _ 0], simp add: physics_wrappers_4_def physics_pointers_4_def)

lemma physics_ok_5: "list_all lowered physics_wrappers_5 \<and> linked physics_wrappers_5 physics_pointers_5"
  by (rule conjI, simp add: physics_wrappers_5_def,
    rule linked_own [of _ 0], simp add: physics_wrappers_5_def physics_pointers_5_def)

lemma physics_ok_6: "list_all lowered physics_wrappers_6 \<and> linked physics_wrappers_6 physics_pointers_6"
  by (rule conjI, simp add: physics_wrappers_6_def,
    rule linked_own [of _ 0], simp add: physics_wrappers_6_def physics_pointers_6_def)

lemma physics_ok_7: "list_all lowered physics_wrappers_7 \<and> linked physics_wrappers_7 physics_pointers_7"
  by (rule conjI, simp add: physics_wrappers_7_def,
    rule linked_own [of _ 1], simp add: physics_wrappers_7_def physics_pointers_7_def)

lemma physics_ok_8: "list_all lowered physics_wrappers_8 \<and> linked physics_wrappers_8 physics_pointers_8"
  by (rule conjI, simp add: physics_wrappers_8_def,
    rule linked_own [of _ 0], simp add: physics_wrappers_8_def physics_pointers_8_def)

lemma physics_ok_9: "list_all lowered physics_wrappers_9 \<and> linked physics_wrappers_9 physics_pointers_9"
  by (rule conjI, simp add: physics_wrappers_9_def,
    rule linked_own [of _ 0], simp add: physics_wrappers_9_def physics_pointers_9_def)

lemma physics_ok_10: "list_all lowered physics_wrappers_10 \<and> linked physics_wrappers_10 physics_pointers_10"
  by (rule conjI, simp add: physics_wrappers_10_def,
    rule linked_own [of _ 0], simp add: physics_wrappers_10_def physics_pointers_10_def)

lemma physics_ok_11: "list_all lowered physics_wrappers_11 \<and> linked physics_wrappers_11 physics_pointers_11"
  by (rule conjI, simp add: physics_wrappers_11_def,
    rule linked_own [of _ 0], simp add: physics_wrappers_11_def physics_pointers_11_def)

lemma physics_ok_12: "list_all lowered physics_wrappers_12 \<and> linked physics_wrappers_12 physics_pointers_12"
  by (rule conjI, simp add: physics_wrappers_12_def,
    rule linked_own [of _ 1], simp add: physics_wrappers_12_def physics_pointers_12_def)

lemma physics_ok_13: "list_all lowered physics_wrappers_13 \<and> linked physics_wrappers_13 physics_pointers_13"
  by (rule conjI, simp add: physics_wrappers_13_def,
    rule linked_own [of _ 0], simp add: physics_wrappers_13_def physics_pointers_13_def)

lemma physics_ok_14: "list_all lowered physics_wrappers_14 \<and> linked physics_wrappers_14 physics_pointers_14"
  by (rule conjI, simp add: physics_wrappers_14_def,
    rule linked_own [of _ 0], simp add: physics_wrappers_14_def physics_pointers_14_def)

lemma physics_ok_15: "list_all lowered physics_wrappers_15 \<and> linked physics_wrappers_15 physics_pointers_15"
  by (rule conjI, simp add: physics_wrappers_15_def,
    rule linked_own [of _ 0], simp add: physics_wrappers_15_def physics_pointers_15_def)

lemma physics_ok_16: "list_all lowered physics_wrappers_16 \<and> linked physics_wrappers_16 physics_pointers_16"
  by (rule conjI, simp add: physics_wrappers_16_def,
    rule linked_own [of _ 0], simp add: physics_wrappers_16_def physics_pointers_16_def)

lemma physics_ok_17: "list_all lowered physics_wrappers_17 \<and> linked physics_wrappers_17 physics_pointers_17"
  by (rule conjI, simp add: physics_wrappers_17_def,
    rule linked_own [of _ 1], simp add: physics_wrappers_17_def physics_pointers_17_def)

lemma physics_ok_18: "list_all lowered physics_wrappers_18 \<and> linked physics_wrappers_18 physics_pointers_18"
  by (rule conjI, simp add: physics_wrappers_18_def,
    rule linked_own [of _ 0], simp add: physics_wrappers_18_def physics_pointers_18_def)

lemma physics_ok_19: "list_all lowered physics_wrappers_19 \<and> linked physics_wrappers_19 physics_pointers_19"
  by (rule conjI, simp add: physics_wrappers_19_def,
    rule linked_own [of _ 2], simp add: physics_wrappers_19_def physics_pointers_19_def)

lemma physics_ok_20: "list_all lowered physics_wrappers_20 \<and> linked physics_wrappers_20 physics_pointers_20"
  by (rule conjI, simp add: physics_wrappers_20_def,
    rule linked_own [of _ 0], simp add: physics_wrappers_20_def physics_pointers_20_def)

lemma physics_ok_21: "list_all lowered physics_wrappers_21 \<and> linked physics_wrappers_21 physics_pointers_21"
  by (rule conjI, simp add: physics_wrappers_21_def,
    rule linked_own [of _ 0], simp add: physics_wrappers_21_def physics_pointers_21_def)

lemma physics_ok_22: "list_all lowered physics_wrappers_22 \<and> linked physics_wrappers_22 physics_pointers_22"
  by (rule conjI, simp add: physics_wrappers_22_def,
    rule linked_own [of _ 0], simp add: physics_wrappers_22_def physics_pointers_22_def)

lemma physics_ok_23: "list_all lowered physics_wrappers_23 \<and> linked physics_wrappers_23 physics_pointers_23"
  by (rule conjI, simp add: physics_wrappers_23_def,
    rule linked_own [of _ 0], simp add: physics_wrappers_23_def physics_pointers_23_def)

lemma physics_ok_24: "list_all lowered physics_wrappers_24 \<and> linked physics_wrappers_24 physics_pointers_24"
  by (rule conjI, simp add: physics_wrappers_24_def,
    rule linked_own [of _ 0], simp add: physics_wrappers_24_def physics_pointers_24_def)

lemma physics_ok_25: "list_all lowered physics_wrappers_25 \<and> linked physics_wrappers_25 physics_pointers_25"
  by (rule conjI, simp add: physics_wrappers_25_def,
    rule linked_own [of _ 1], simp add: physics_wrappers_25_def physics_pointers_25_def)

lemma physics_ok_26: "list_all lowered physics_wrappers_26 \<and> linked physics_wrappers_26 physics_pointers_26"
  by (rule conjI, simp add: physics_wrappers_26_def,
    rule linked_own [of _ 0], simp add: physics_wrappers_26_def physics_pointers_26_def)

lemma physics_ok_27: "list_all lowered physics_wrappers_27 \<and> linked physics_wrappers_27 physics_pointers_27"
  by (rule conjI, simp add: physics_wrappers_27_def register_size_def eval_nat_numeral,
    rule linked_own [of _ 0], simp add: physics_wrappers_27_def physics_pointers_27_def)

lemma physics_ok_28: "list_all lowered physics_wrappers_28 \<and> linked physics_wrappers_28 physics_pointers_28"
  by (rule conjI, simp add: physics_wrappers_28_def,
    rule linked_own [of _ 1], simp add: physics_wrappers_28_def physics_pointers_28_def)

lemma physics_ok_29: "list_all lowered physics_wrappers_29 \<and> linked physics_wrappers_29 physics_pointers_29"
  by (rule conjI, simp add: physics_wrappers_29_def,
    rule linked_own [of _ 0], simp add: physics_wrappers_29_def physics_pointers_29_def)

lemma physics_ok_30: "list_all lowered physics_wrappers_30 \<and> linked physics_wrappers_30 physics_pointers_30"
  by (rule conjI, simp add: physics_wrappers_30_def,
    rule linked_own [of _ 1], simp add: physics_wrappers_30_def physics_pointers_30_def)

lemma physics_ok_31: "list_all lowered physics_wrappers_31 \<and> linked physics_wrappers_31 physics_pointers_31"
  by (rule conjI, simp add: physics_wrappers_31_def,
    rule linked_own [of _ 1], simp add: physics_wrappers_31_def physics_pointers_31_def)

lemma physics_ok_32: "list_all lowered physics_wrappers_32 \<and> linked physics_wrappers_32 physics_pointers_32"
  by (rule conjI, simp add: physics_wrappers_32_def,
    rule linked_own [of _ 1], simp add: physics_wrappers_32_def physics_pointers_32_def)

lemma physics_ok_33: "list_all lowered physics_wrappers_33 \<and> linked physics_wrappers_33 physics_pointers_33"
  by (rule conjI, simp add: physics_wrappers_33_def,
    rule linked_own [of _ 0], simp add: physics_wrappers_33_def physics_pointers_33_def)

lemma physics_ok_34: "list_all lowered physics_wrappers_34 \<and> linked physics_wrappers_34 physics_pointers_34"
  by (rule conjI, simp add: physics_wrappers_34_def,
    rule linked_own [of _ 1], simp add: physics_wrappers_34_def physics_pointers_34_def)

lemma physics_ok_35: "list_all lowered physics_wrappers_35 \<and> linked physics_wrappers_35 physics_pointers_35"
  by (rule conjI, simp add: physics_wrappers_35_def,
    rule linked_own [of _ 0], simp add: physics_wrappers_35_def physics_pointers_35_def)

lemma physics_ok_36: "list_all lowered physics_wrappers_36 \<and> linked physics_wrappers_36 physics_pointers_36"
  by (rule conjI, simp add: physics_wrappers_36_def,
    rule linked_own [of _ 1], simp add: physics_wrappers_36_def physics_pointers_36_def)

lemma physics_ok_37: "list_all lowered physics_wrappers_37 \<and> linked physics_wrappers_37 physics_pointers_37"
  by (rule conjI, simp add: physics_wrappers_37_def,
    rule linked_own [of _ 0], simp add: physics_wrappers_37_def physics_pointers_37_def)

lemma physics_ok_38: "list_all lowered physics_wrappers_38 \<and> linked physics_wrappers_38 physics_pointers_38"
  by (rule conjI, simp add: physics_wrappers_38_def,
    rule linked_own [of _ 0], simp add: physics_wrappers_38_def physics_pointers_38_def)

lemma physics_ok_39: "list_all lowered physics_wrappers_39 \<and> linked physics_wrappers_39 physics_pointers_39"
  by (rule conjI, simp add: physics_wrappers_39_def,
    rule linked_own [of _ 0], simp add: physics_wrappers_39_def physics_pointers_39_def)

lemma physics_ok_40: "list_all lowered physics_wrappers_40 \<and> linked physics_wrappers_40 physics_pointers_40"
  by (rule conjI, simp add: physics_wrappers_40_def,
    rule linked_own [of _ 0], simp add: physics_wrappers_40_def physics_pointers_40_def)

lemma physics_ok_41: "list_all lowered physics_wrappers_41 \<and> linked physics_wrappers_41 physics_pointers_41"
  by (rule conjI, simp add: physics_wrappers_41_def,
    rule linked_own [of _ 0], simp add: physics_wrappers_41_def physics_pointers_41_def)

lemma physics_ok_42: "list_all lowered physics_wrappers_42 \<and> linked physics_wrappers_42 physics_pointers_42"
  by (rule conjI, simp add: physics_wrappers_42_def,
    rule linked_own [of _ 0], simp add: physics_wrappers_42_def physics_pointers_42_def)

lemma physics_ok_43: "list_all lowered physics_wrappers_43 \<and> linked physics_wrappers_43 physics_pointers_43"
  by (rule conjI, simp add: physics_wrappers_43_def,
    rule linked_own [of _ 0], simp add: physics_wrappers_43_def physics_pointers_43_def)

lemma physics_ok_44: "list_all lowered physics_wrappers_44 \<and> linked physics_wrappers_44 physics_pointers_44"
  by (rule conjI, simp add: physics_wrappers_44_def,
    rule linked_own [of _ 0], simp add: physics_wrappers_44_def physics_pointers_44_def)

lemma physics_ok_45: "list_all lowered physics_wrappers_45 \<and> linked physics_wrappers_45 physics_pointers_45"
  by (rule conjI, simp add: physics_wrappers_45_def,
    rule linked_own [of _ 0], simp add: physics_wrappers_45_def physics_pointers_45_def)

lemma physics_ok_46: "list_all lowered physics_wrappers_46 \<and> linked physics_wrappers_46 physics_pointers_46"
  by (rule conjI, simp add: physics_wrappers_46_def,
    rule linked_own [of _ 0], simp add: physics_wrappers_46_def physics_pointers_46_def)

lemma physics_ok_47: "list_all lowered physics_wrappers_47 \<and> linked physics_wrappers_47 physics_pointers_47"
  by (rule conjI, simp add: physics_wrappers_47_def register_size_def eval_nat_numeral,
    rule linked_own [of _ 0], simp add: physics_wrappers_47_def physics_pointers_47_def)

lemma physics_ok_48: "list_all lowered physics_wrappers_48 \<and> linked physics_wrappers_48 physics_pointers_48"
  by (rule conjI, simp add: physics_wrappers_48_def,
    rule linked_own [of _ 0], simp add: physics_wrappers_48_def physics_pointers_48_def)

lemma physics_ok_49: "list_all lowered physics_wrappers_49 \<and> linked physics_wrappers_49 physics_pointers_49"
  by (rule conjI, simp add: physics_wrappers_49_def,
    rule linked_own [of _ 0], simp add: physics_wrappers_49_def physics_pointers_49_def)

lemma physics_ok_50: "list_all lowered physics_wrappers_50 \<and> linked physics_wrappers_50 physics_pointers_50"
  by (rule conjI, simp add: physics_wrappers_50_def,
    rule linked_own [of _ 0], simp add: physics_wrappers_50_def physics_pointers_50_def)

lemma physics_ok_51: "list_all lowered physics_wrappers_51 \<and> linked physics_wrappers_51 physics_pointers_51"
  by (rule conjI, simp add: physics_wrappers_51_def,
    rule linked_own [of _ 0], simp add: physics_wrappers_51_def physics_pointers_51_def)

lemma physics_ok_52: "list_all lowered physics_wrappers_52 \<and> linked physics_wrappers_52 physics_pointers_52"
  by (rule conjI, simp add: physics_wrappers_52_def,
    rule linked_own [of _ 0], simp add: physics_wrappers_52_def physics_pointers_52_def)

lemma physics_ok_53: "list_all lowered physics_wrappers_53 \<and> linked physics_wrappers_53 physics_pointers_53"
  by (rule conjI, simp add: physics_wrappers_53_def,
    rule linked_own [of _ 0], simp add: physics_wrappers_53_def physics_pointers_53_def)

lemma physics_ok_54: "list_all lowered physics_wrappers_54 \<and> linked physics_wrappers_54 physics_pointers_54"
  by (rule conjI, simp add: physics_wrappers_54_def,
    rule linked_own [of _ 0], simp add: physics_wrappers_54_def physics_pointers_54_def)

lemma physics_ok_55: "list_all lowered physics_wrappers_55 \<and> linked physics_wrappers_55 physics_pointers_55"
  by (rule conjI, simp add: physics_wrappers_55_def,
    rule linked_own [of _ 0], simp add: physics_wrappers_55_def physics_pointers_55_def)

lemma physics_ok_56: "list_all lowered physics_wrappers_56 \<and> linked physics_wrappers_56 physics_pointers_56"
  by (rule conjI, simp add: physics_wrappers_56_def,
    rule linked_own [of _ 0], simp add: physics_wrappers_56_def physics_pointers_56_def)

lemma physics_ok_57: "list_all lowered physics_wrappers_57 \<and> linked physics_wrappers_57 physics_pointers_57"
  by (rule conjI, simp add: physics_wrappers_57_def register_size_def eval_nat_numeral,
    rule linked_own [of _ 0], simp add: physics_wrappers_57_def physics_pointers_57_def)

lemma physics_ok_58: "list_all lowered physics_wrappers_58 \<and> linked physics_wrappers_58 physics_pointers_58"
  by (rule conjI, simp add: physics_wrappers_58_def,
    rule linked_own [of _ 0], simp add: physics_wrappers_58_def physics_pointers_58_def)

lemma physics_ok_59: "list_all lowered physics_wrappers_59 \<and> linked physics_wrappers_59 physics_pointers_59"
  by (rule conjI, simp add: physics_wrappers_59_def,
    rule linked_own [of _ 0], simp add: physics_wrappers_59_def physics_pointers_59_def)

lemma physics_ok_60: "list_all lowered physics_wrappers_60 \<and> linked physics_wrappers_60 physics_pointers_60"
  by (rule conjI, simp add: physics_wrappers_60_def,
    rule linked_own [of _ 0], simp add: physics_wrappers_60_def physics_pointers_60_def)

lemma physics_ok_61: "list_all lowered physics_wrappers_61 \<and> linked physics_wrappers_61 physics_pointers_61"
  by (rule conjI, simp add: physics_wrappers_61_def,
    rule linked_own [of _ 0], simp add: physics_wrappers_61_def physics_pointers_61_def)

lemma physics_ok_62: "list_all lowered physics_wrappers_62 \<and> linked physics_wrappers_62 physics_pointers_62"
  by (rule conjI, simp add: physics_wrappers_62_def register_size_def eval_nat_numeral,
    rule linked_own [of _ 0], simp add: physics_wrappers_62_def physics_pointers_62_def)

lemma physics_ok_63: "list_all lowered physics_wrappers_63 \<and> linked physics_wrappers_63 physics_pointers_63"
  by (rule conjI, simp add: physics_wrappers_63_def register_size_def eval_nat_numeral,
    rule linked_own [of _ 0], simp add: physics_wrappers_63_def physics_pointers_63_def)

lemma physics_ok_64: "list_all lowered physics_wrappers_64 \<and> linked physics_wrappers_64 physics_pointers_64"
  by (rule conjI, simp add: physics_wrappers_64_def,
    rule linked_own [of _ 0], simp add: physics_wrappers_64_def physics_pointers_64_def)

lemma physics_ok_65: "list_all lowered physics_wrappers_65 \<and> linked physics_wrappers_65 physics_pointers_65"
  by (rule conjI, simp add: physics_wrappers_65_def,
    rule linked_own [of _ 0], simp add: physics_wrappers_65_def physics_pointers_65_def)

lemma physics_ok_66: "list_all lowered physics_wrappers_66 \<and> linked physics_wrappers_66 physics_pointers_66"
  by (rule conjI, simp add: physics_wrappers_66_def,
    rule linked_own [of _ 0], simp add: physics_wrappers_66_def physics_pointers_66_def)

lemma physics_ok_67: "list_all lowered physics_wrappers_67 \<and> linked physics_wrappers_67 physics_pointers_67"
  by (rule conjI, simp add: physics_wrappers_67_def,
    rule linked_own [of _ 0], simp add: physics_wrappers_67_def physics_pointers_67_def)

lemma physics_ok_68: "list_all lowered physics_wrappers_68 \<and> linked physics_wrappers_68 physics_pointers_68"
  by (rule conjI, simp add: physics_wrappers_68_def,
    rule linked_own [of _ 0], simp add: physics_wrappers_68_def physics_pointers_68_def)

lemma physics_ok_69: "list_all lowered physics_wrappers_69 \<and> linked physics_wrappers_69 physics_pointers_69"
  by (rule conjI, simp add: physics_wrappers_69_def,
    rule linked_own [of _ 0], simp add: physics_wrappers_69_def physics_pointers_69_def)

lemma physics_ok_70: "list_all lowered physics_wrappers_70 \<and> linked physics_wrappers_70 physics_pointers_70"
  by (rule conjI, simp add: physics_wrappers_70_def,
    rule linked_own [of _ 0], simp add: physics_wrappers_70_def physics_pointers_70_def)

lemma physics_ok_71: "list_all lowered physics_wrappers_71 \<and> linked physics_wrappers_71 physics_pointers_71"
  by (rule conjI, simp add: physics_wrappers_71_def,
    rule linked_own [of _ 0], simp add: physics_wrappers_71_def physics_pointers_71_def)

lemma physics_ok_72: "list_all lowered physics_wrappers_72 \<and> linked physics_wrappers_72 physics_pointers_72"
  by (rule conjI, simp add: physics_wrappers_72_def,
    rule linked_own [of _ 0], simp add: physics_wrappers_72_def physics_pointers_72_def)

lemma physics_ok_73: "list_all lowered physics_wrappers_73 \<and> linked physics_wrappers_73 physics_pointers_73"
  by (rule conjI, simp add: physics_wrappers_73_def,
    rule linked_own [of _ 0], simp add: physics_wrappers_73_def physics_pointers_73_def)

lemma physics_ok_74: "list_all lowered physics_wrappers_74 \<and> linked physics_wrappers_74 physics_pointers_74"
  by (rule conjI, simp add: physics_wrappers_74_def,
    rule linked_own [of _ 0], simp add: physics_wrappers_74_def physics_pointers_74_def)

lemma physics_ok_75: "list_all lowered physics_wrappers_75 \<and> linked physics_wrappers_75 physics_pointers_75"
  by (rule conjI, simp add: physics_wrappers_75_def,
    rule linked_own [of _ 0], simp add: physics_wrappers_75_def physics_pointers_75_def)

lemma physics_ok_76: "list_all lowered physics_wrappers_76 \<and> linked physics_wrappers_76 physics_pointers_76"
  by (rule conjI, simp add: physics_wrappers_76_def,
    rule linked_own [of _ 0], simp add: physics_wrappers_76_def physics_pointers_76_def)

lemma physics_ok_77: "list_all lowered physics_wrappers_77 \<and> linked physics_wrappers_77 physics_pointers_77"
  by (rule conjI, simp add: physics_wrappers_77_def,
    rule linked_own [of _ 0], simp add: physics_wrappers_77_def physics_pointers_77_def)

lemma physics_ok_78: "list_all lowered physics_wrappers_78 \<and> linked physics_wrappers_78 physics_pointers_78"
  by (rule conjI, simp add: physics_wrappers_78_def,
    rule linked_own [of _ 0], simp add: physics_wrappers_78_def physics_pointers_78_def)

lemma physics_ok_79: "list_all lowered physics_wrappers_79 \<and> linked physics_wrappers_79 physics_pointers_79"
  by (rule conjI, simp add: physics_wrappers_79_def,
    rule linked_own [of _ 0], simp add: physics_wrappers_79_def physics_pointers_79_def)

lemma physics_ok_80: "list_all lowered physics_wrappers_80 \<and> linked physics_wrappers_80 physics_pointers_80"
  by (rule conjI, simp add: physics_wrappers_80_def,
    rule linked_own [of _ 0], simp add: physics_wrappers_80_def physics_pointers_80_def)

lemma physics_ok_81: "list_all lowered physics_wrappers_81 \<and> linked physics_wrappers_81 physics_pointers_81"
  by (rule conjI, simp add: physics_wrappers_81_def,
    rule linked_own [of _ 0], simp add: physics_wrappers_81_def physics_pointers_81_def)

lemma physics_ok_82: "list_all lowered physics_wrappers_82 \<and> linked physics_wrappers_82 physics_pointers_82"
  by (rule conjI, simp add: physics_wrappers_82_def,
    rule linked_own [of _ 0], simp add: physics_wrappers_82_def physics_pointers_82_def)

lemma physics_ok_83: "list_all lowered physics_wrappers_83 \<and> linked physics_wrappers_83 physics_pointers_83"
  by (rule conjI, simp add: physics_wrappers_83_def,
    rule linked_own [of _ 0], simp add: physics_wrappers_83_def physics_pointers_83_def)

lemma physics_ok_84: "list_all lowered physics_wrappers_84 \<and> linked physics_wrappers_84 physics_pointers_84"
  by (rule conjI, simp add: physics_wrappers_84_def,
    rule linked_own [of _ 0], simp add: physics_wrappers_84_def physics_pointers_84_def)

lemma physics_ok_85: "list_all lowered physics_wrappers_85 \<and> linked physics_wrappers_85 physics_pointers_85"
  by (rule conjI, simp add: physics_wrappers_85_def,
    rule linked_own [of _ 0], simp add: physics_wrappers_85_def physics_pointers_85_def)

lemma physics_ok_86: "list_all lowered physics_wrappers_86 \<and> linked physics_wrappers_86 physics_pointers_86"
  by (rule conjI, simp add: physics_wrappers_86_def,
    rule linked_own [of _ 0], simp add: physics_wrappers_86_def physics_pointers_86_def)

lemmas physics_ok =
  physics_ok_1 physics_ok_2 physics_ok_3 physics_ok_4 physics_ok_5 physics_ok_6 physics_ok_7 physics_ok_8
    physics_ok_9 physics_ok_10 physics_ok_11 physics_ok_12 physics_ok_13 physics_ok_14 physics_ok_15
    physics_ok_16 physics_ok_17 physics_ok_18 physics_ok_19 physics_ok_20 physics_ok_21 physics_ok_22
    physics_ok_23 physics_ok_24 physics_ok_25 physics_ok_26 physics_ok_27 physics_ok_28 physics_ok_29
    physics_ok_30 physics_ok_31 physics_ok_32 physics_ok_33 physics_ok_34 physics_ok_35 physics_ok_36
    physics_ok_37 physics_ok_38 physics_ok_39 physics_ok_40 physics_ok_41 physics_ok_42 physics_ok_43
    physics_ok_44 physics_ok_45 physics_ok_46 physics_ok_47 physics_ok_48 physics_ok_49 physics_ok_50
    physics_ok_51 physics_ok_52 physics_ok_53 physics_ok_54 physics_ok_55 physics_ok_56 physics_ok_57
    physics_ok_58 physics_ok_59 physics_ok_60 physics_ok_61 physics_ok_62 physics_ok_63 physics_ok_64
    physics_ok_65 physics_ok_66 physics_ok_67 physics_ok_68 physics_ok_69 physics_ok_70 physics_ok_71
    physics_ok_72 physics_ok_73 physics_ok_74 physics_ok_75 physics_ok_76 physics_ok_77 physics_ok_78
    physics_ok_79 physics_ok_80 physics_ok_81 physics_ok_82 physics_ok_83 physics_ok_84 physics_ok_85
    physics_ok_86

lemma physics_lowered: "list_all lowered physics_wrappers"
  unfolding physics_wrappers_def by (simp only: list_all_append physics_ok simp_thms)

lemma physics_linked: "linked physics_wrappers physics_pointers"
  unfolding physics_wrappers_def physics_pointers_def
  by (intro linked_append physics_ok [THEN conjunct2])

end
