(* ===== verification/Wrapper_Properties.thy ===== *)
theory Wrapper_Properties
  imports Loader_Exports Wrapper_Voxels Wrapper_Kythera Wrapper_Small Wrapper_Havok Wrapper_Physics
begin

text \<open>What the wrapper libraries promise their callers, over the tables of all of them.\<close>

section \<open>The arguments\<close>

definition all_wrappers :: "wrapper list" where
  "all_wrappers = vrage_wrappers @ voxels_wrappers @ kythera_wrappers @ recast_wrappers @ slug_wrappers @
     havok_wrappers @ physics_wrappers"

lemma all_lowered: "list_all lowered all_wrappers"
  by (simp only: all_wrappers_def list_all_append vrage_lowered voxels_lowered kythera_lowered recast_lowered
      slug_lowered havok_lowered physics_lowered simp_thms)

lemma all_wrappers_call:
  assumes "w \<in> set all_wrappers" and "list_all2 fits (w_params w) vs"
  shows "wrapper_call w vs = ms_call (w_result w) vs"
  using lowered_call [OF _ assms(2)] all_lowered assms(1) by (auto simp: list_all_iff)

text \<open>
  C15: Every wrapper is transparent: whatever the values of its parameters, the Microsoft function behind its
  pointer receives exactly the call that the Microsoft convention prescribes for the signature of the
  wrapper - structures of 1, 2, 4 and 8 bytes as integers, others by the address of a copy, the address of
  a structure result first - and the arguments have the types of the pointer.
\<close>

theorem wrappers_transparent:
  assumes "w \<in> set all_wrappers" and "list_all2 fits (w_params w) vs"
  shows "wrapper_call w vs = ms_call (w_result w) vs \<and> compiles w"
  using all_wrappers_call [OF assms] all_lowered assms(1) by (auto simp: list_all_iff lowered_def)

text \<open>A two-dimensional point by its bits, and a result of twelve bytes.\<close>

definition sample_wrapper :: wrapper where
  "sample_wrapper = \<lparr>w_name = ''VrSewGuide_GetStart'', w_result = Struct 12, w_params = [Pointer],
     w_pointer_result = Void, w_pointer_params = [Pointer, Pointer], w_arguments = [Address_of_result, Param 0]\<rparr>"

lemma sample_wrapper_member: "sample_wrapper \<in> set vrage_wrappers"
  by (simp add: sample_wrapper_def vrage_wrappers_def vrage_wrappers_2_def)

theorem wrappers_transparent_witness:
  "wrapper_call sample_wrapper [Scalar 4096] = [Result_at 12, Value 4096]"
proof -
  have "sample_wrapper \<in> set all_wrappers"
    using sample_wrapper_member by (simp add: all_wrappers_def)
  moreover have "list_all2 fits (w_params sample_wrapper) [Scalar 4096]"
    by (simp add: sample_wrapper_def)
  ultimately have "wrapper_call sample_wrapper [Scalar 4096] = ms_call (w_result sample_wrapper) [Scalar 4096]"
    by (rule wrappers_transparent [THEN conjunct1])
  then show ?thesis
    by (simp add: ms_call_def sample_wrapper_def result_argument_def register_size_def)
qed

section \<open>The pointers\<close>

definition kythera_initialize :: "bool \<Rightarrow> bool \<Rightarrow> (string \<Rightarrow> u64 option) \<Rightarrow> library \<Rightarrow> string option \<times> library" where
  "kythera_initialize = once_initialize ''KytheraV2'' ''VRage.KytheraV2.Native.dll'' kythera_pointers"

definition voxels_initialize :: "bool \<Rightarrow> bool \<Rightarrow> (string \<Rightarrow> u64 option) \<Rightarrow> library \<Rightarrow> string option \<times> library" where
  "voxels_initialize = once_initialize ''Voxels'' ''VRage.Voxels.Native.dll'' voxels_pointers"

definition slug_initialize :: "bool \<Rightarrow> bool \<Rightarrow> (string \<Rightarrow> u64 option) \<Rightarrow> library \<Rightarrow> string option \<times> library" where
  "slug_initialize = locked_initialize ''Slug'' ''VRage.Slug.Native.dll'' slug_pointers"

definition physics_initialize :: "bool \<Rightarrow> bool \<Rightarrow> (string \<Rightarrow> u64 option) \<Rightarrow> library \<Rightarrow> string option \<times> library" where
  "physics_initialize = optional_initialize ''Physics'' ''VRage.Physics.Native.dll'' physics_pointers"

definition havok_Init :: "bool \<Rightarrow> (string \<Rightarrow> u64 option) \<Rightarrow> library \<Rightarrow> string option \<times> library" where
  "havok_Init = lazy_Init ''Havok.dll'' havok_pointers"

definition vrage_Init :: "bool \<Rightarrow> (string \<Rightarrow> u64 option) \<Rightarrow> library \<Rightarrow> string option \<times> library" where
  "vrage_Init = lazy_Init ''VRage.Native.dll'' vrage_pointers"

definition recast_Init :: "bool \<Rightarrow> (string \<Rightarrow> u64 option) \<Rightarrow> library \<Rightarrow> string option \<times> library" where
  "recast_Init = lazy_Init ''RecastDetour.dll'' recast_pointers"

text \<open>Further calls of an initialisation, each with its path, the result of the load and the export table.\<close>

fun initialize_again ::
    "(bool \<Rightarrow> bool \<Rightarrow> (string \<Rightarrow> u64 option) \<Rightarrow> library \<Rightarrow> string option \<times> library) \<Rightarrow>
     (bool \<times> bool \<times> (string \<Rightarrow> u64 option)) list \<Rightarrow> library \<Rightarrow> library" where
  "initialize_again init [] lib = lib"
| "initialize_again init ((path, loads, found) # rest) lib =
     initialize_again init rest (snd (init path loads found lib))"

subsection \<open>Libraries that initialise once\<close>

lemma once_again: "l_once lib \<Longrightarrow> initialize_again (once_initialize title dll pointers) again lib = lib"
  by (induction again arbitrary: lib) (auto simp: once_initialize_def)

lemma once_first:
  assumes "fst (once_initialize title dll pointers path loads found lib) = None" and "\<not> l_once lib"
    and "own_names pointers" and "name \<in> fst ` set pointers"
  shows "\<exists>p. found name = Some p \<and> l_slots (snd (once_initialize title dll pointers path loads found lib)) name = Some p"
    and "l_image (snd (once_initialize title dll pointers path loads found lib))"
    and "l_once (snd (once_initialize title dll pointers path loads found lib))"
proof -
  let ?message = "''Missing '' @ title @ '' export: ''"
  let ?lib = "lib\<lparr>l_image := True\<rparr>"
  have path: "path" "loads"
    using assms(1,2) by (auto simp: once_initialize_def split: if_splits)
  obtain lib' where loaded: "load_exports ?message found pointers ?lib = (None, lib')"
    using assms(1,2) path by (auto simp: once_initialize_def split: prod.splits option.splits)
  then have state: "snd (once_initialize title dll pointers path loads found lib) = lib'\<lparr>l_once := True\<rparr>"
    using path assms(2) by (simp add: once_initialize_def)
  have "l_slots lib' name = found name \<and> found name \<noteq> None"
    using load_exports_own [of ?message found pointers ?lib name] loaded assms(3,4) by simp
  then show "\<exists>p. found name = Some p \<and> l_slots (snd (once_initialize title dll pointers path loads found lib)) name = Some p"
    by (auto simp: state)
  have "l_image lib' = l_image ?lib"
    by (metis load_exports_image loaded snd_conv)
  then have "l_image lib'"
    by simp
  then show "l_image (snd (once_initialize title dll pointers path loads found lib))"
    by (simp add: state)
  show "l_once (snd (once_initialize title dll pointers path loads found lib))"
    by (simp add: state)
qed

lemma once_call:
  assumes "fst (once_initialize title dll pointers path loads found lib) = None" and "\<not> l_once lib"
    and "own_names pointers" and "w_name w \<in> fst ` set pointers"
    and "lib' = initialize_again (once_initialize title dll pointers) again
           (snd (once_initialize title dll pointers path loads found lib))"
  shows "\<exists>p. found (w_name w) = Some p \<and> checked_call title w vs lib' = Inr (Calls p (wrapper_call w vs))"
  using once_first [OF assms(1-4)] once_again assms(5) by (auto simp: checked_call_def call_slot_def)

text \<open>
  C18: Once an \<open>Init\<close> of KytheraV2 or Voxels has returned normally, every wrapper calls the export of its own
  name with the converted arguments, and goes on to do so whatever further calls of \<open>Init\<close> do; before any
  \<open>Init\<close> it throws.
\<close>

theorem initialized_wrappers_reach_exports:
  assumes "(title, initialize, ws) \<in>
      {(''KytheraV2'', kythera_initialize, kythera_wrappers), (''Voxels'', voxels_initialize, voxels_wrappers)}"
    and "w \<in> set ws" and "list_all2 fits (w_params w) vs"
    and "fst (initialize path loads found lib) = None" and "\<not> l_once lib"
  shows "(\<exists>p. found (w_name w) = Some p \<and>
      checked_call title w vs (initialize_again initialize again (snd (initialize path loads found lib))) =
        Inr (Calls p (ms_call (w_result w) vs))) \<and>
    checked_call title w vs unloaded = Inl (title @ '' is not initialized; call Init first'')"
proof -
  have "w \<in> set all_wrappers"
    using assms(1,2) by (auto simp: all_wrappers_def)
  then have call: "wrapper_call w vs = ms_call (w_result w) vs"
    using assms(3) by (rule all_wrappers_call)
  have "\<exists>p. found (w_name w) = Some p \<and>
      checked_call title w vs (initialize_again initialize again (snd (initialize path loads found lib))) =
        Inr (Calls p (wrapper_call w vs))"
  proof -
    from assms(1) consider "title = ''KytheraV2''" "initialize = kythera_initialize" "ws = kythera_wrappers"
      | "title = ''Voxels''" "initialize = voxels_initialize" "ws = voxels_wrappers"
      by auto
    then show ?thesis
    proof cases
      case 1
      show ?thesis
        unfolding 1 kythera_initialize_def
        by (rule once_call [OF _ assms(5) kythera_own_names kythera_linked refl])
          (use assms(2,4) 1 in \<open>simp_all only: kythera_initialize_def\<close>)
    next
      case 2
      show ?thesis
        unfolding 2 voxels_initialize_def
        by (rule once_call [OF _ assms(5) voxels_own_names voxels_linked refl])
          (use assms(2,4) 2 in \<open>simp_all only: voxels_initialize_def\<close>)
    qed
  qed
  then show ?thesis
    by (simp add: call checked_call_def unloaded_def)
qed


text \<open>An export table in which every name has the address 4096, and a wrapper of each library.\<close>

theorem initialized_wrappers_reach_exports_witness:
  "checked_call ''KytheraV2'' (hd kythera_wrappers) [Scalar 1]
     (snd (kythera_initialize True True (\<lambda>_. Some 4096) unloaded)) = Inr (Calls 4096 [Value 1])"
proof -
  have member: "hd kythera_wrappers \<in> set kythera_wrappers"
    by (rule hd_in_set) (simp add: kythera_wrappers_def kythera_wrappers_1_def)
  have hd: "w_params (hd kythera_wrappers) = [Integer 4]" "w_result (hd kythera_wrappers) = Void"
    by (simp_all add: kythera_wrappers_def kythera_wrappers_1_def forwards_def)
  have loads: "fst (load_exports message (\<lambda>_. Some 4096) pointers lib) = None" for message pointers lib
    by (induction pointers arbitrary: lib) (auto simp: load_exports_step)
  have ok: "fst (kythera_initialize True True (\<lambda>_. Some 4096) unloaded) = None"
    unfolding kythera_initialize_def once_initialize_def
    using loads by (auto simp: unloaded_def split: prod.splits option.splits) (metis fst_conv option.discI)+
  have "\<exists>p. (\<lambda>_. Some 4096) (w_name (hd kythera_wrappers)) = Some p \<and>
      checked_call ''KytheraV2'' (hd kythera_wrappers) [Scalar 1] (initialize_again kythera_initialize []
        (snd (kythera_initialize True True (\<lambda>_. Some 4096) unloaded))) =
        Inr (Calls p (ms_call (w_result (hd kythera_wrappers)) [Scalar 1]))"
    by (rule initialized_wrappers_reach_exports [where ws = kythera_wrappers, THEN conjunct1])
      (simp_all add: member ok hd, simp add: unloaded_def)
  then show ?thesis
    by (simp add: hd ms_call_def result_argument_def)
qed

subsection \<open>Libraries that look a pointer up when it is missing\<close>

text \<open>
  What may happen to such a library, with the exports there are at that time: an \<open>Init\<close>, whether its load
  succeeds, and the call of a wrapper.
\<close>

datatype lazy_event = Init_event bool | Call_event wrapper "c_value list"

fun lazy_after ::
    "string \<Rightarrow> string list \<Rightarrow> ((string \<Rightarrow> u64 option) \<times> lazy_event) list \<Rightarrow> library \<Rightarrow> library" where
  "lazy_after dll pointers [] lib = lib"
| "lazy_after dll pointers ((found, Init_event loads) # rest) lib =
     lazy_after dll pointers rest (snd (lazy_Init dll pointers loads found lib))"
| "lazy_after dll pointers ((found, Call_event w vs) # rest) lib =
     lazy_after dll pointers rest (snd (lazy_call found w vs lib))"

text \<open>The exports of the loader's table. Registering a name that is not there yet leaves the others.\<close>

definition exported :: "export_table \<Rightarrow> string \<Rightarrow> u64 option" where
  "exported table name = (let addr = get_export name None table in if addr = 0 then None else Some addr)"

lemma exported_register:
  "exported table name = None \<Longrightarrow> exported table \<subseteq>\<^sub>m exported (register_function dll name addr owner table)"
  by (auto simp: map_le_def exported_def register_function_def get_export_def Let_def split: if_splits)

lemma set_pointer_le: "l_slots lib \<subseteq>\<^sub>m found \<Longrightarrow> l_slots (set_pointer found name lib) \<subseteq>\<^sub>m found"
  by (auto simp: map_le_def set_pointer_def)

lemma set_pointers_le: "l_slots lib \<subseteq>\<^sub>m found \<Longrightarrow> l_slots (fold (set_pointer found) names lib) \<subseteq>\<^sub>m found"
  by (induction names arbitrary: lib) (simp_all add: set_pointer_le)

lemma lazy_Init_le: "l_slots lib \<subseteq>\<^sub>m found \<Longrightarrow> l_slots (snd (lazy_Init dll pointers loads found lib)) \<subseteq>\<^sub>m found"
  by (simp add: lazy_Init_def set_pointers_le)

lemma lazy_call_le: "l_slots lib \<subseteq>\<^sub>m found \<Longrightarrow> l_slots (snd (lazy_call found w vs lib)) \<subseteq>\<^sub>m found"
  by (simp add: lazy_call_def Let_def set_pointer_le)

lemma lazy_after_le:
  assumes "sorted_wrt (\<subseteq>\<^sub>m) (map fst history @ [found])" and "list_all (map_le (l_slots lib)) (map fst history @ [found])"
  shows "l_slots (lazy_after dll pointers history lib) \<subseteq>\<^sub>m found"
  using assms
proof (induction history arbitrary: lib)
  case (Cons x rest)
  obtain before event where x: "x = (before, event)"
    by (cases x)
  have later: "list_all (map_le before) (map fst rest @ [found])" and le: "l_slots lib \<subseteq>\<^sub>m before"
    using Cons.prems by (auto simp: x list_all_iff)
  have step: "l_slots lib' \<subseteq>\<^sub>m before \<Longrightarrow> l_slots (lazy_after dll pointers rest lib') \<subseteq>\<^sub>m found" for lib'
    using Cons.IH [of lib'] Cons.prems(1) later by (auto simp: list_all_iff intro: map_le_trans)
  show ?case
    using step [OF lazy_Init_le [OF le]] step [OF lazy_call_le [OF le]] by (cases event) (simp_all add: x)
qed simp

lemma lazy_call_result:
  assumes "l_slots lib \<subseteq>\<^sub>m found"
  shows "fst (lazy_call found w vs lib) =
    (case found (w_name w) of None \<Rightarrow> Inl (''Failed to load function: '' @ w_name w) | Some p \<Rightarrow> Inr (Calls p (wrapper_call w vs)))"
proof (cases "l_slots lib (w_name w)")
  case None
  then show ?thesis
    by (simp add: lazy_call_def set_pointer_def call_slot_def split: option.split)
next
  case (Some p)
  then have "found (w_name w) = Some p"
    using assms by (auto simp: map_le_def dom_def)
  with Some show ?thesis
    by (simp add: lazy_call_def call_slot_def)
qed

text \<open>
  C17: The wrappers of Havok, VRageNative and RecastDetour never call a null pointer. As long as an exported
  name keeps its address (registering further names has this effect), a wrapper that is called after any
  calls of \<open>Init\<close>, failed ones too, and of wrappers, throws when its name is not exported and otherwise
  calls that export with the converted arguments.
\<close>

theorem lazy_wrappers_call_their_export:
  assumes "(dll, pointers, ws) \<in> {(''Havok.dll'', havok_pointers, havok_wrappers),
      (''VRage.Native.dll'', vrage_pointers, vrage_wrappers), (''RecastDetour.dll'', recast_pointers, recast_wrappers)}"
    and "w \<in> set ws" and "list_all2 fits (w_params w) vs"
    and "sorted_wrt (\<subseteq>\<^sub>m) (map fst history @ [found])"
  shows "fst (lazy_call found w vs (lazy_after dll pointers history unloaded)) =
    (case found (w_name w) of
       None \<Rightarrow> Inl (''Failed to load function: '' @ w_name w)
     | Some p \<Rightarrow> Inr (Calls p (ms_call (w_result w) vs)))"
proof -
  have "w \<in> set all_wrappers"
    using assms(1,2) by (auto simp: all_wrappers_def)
  then have call: "wrapper_call w vs = ms_call (w_result w) vs"
    using assms(3) by (rule all_wrappers_call)
  have "l_slots (lazy_after dll pointers history unloaded) \<subseteq>\<^sub>m found"
    using assms(4) by (rule lazy_after_le) (simp add: unloaded_def list_all_iff)
  then show ?thesis
    unfolding call [symmetric] by (rule lazy_call_result)
qed

text \<open>
  A call before any load throws; after the load, an \<open>Init\<close> that looks the pointers up, and the export of a
  further library, the wrapper calls the function.
\<close>

theorem lazy_wrappers_call_their_export_witness:
  "let before = []; loaded = register_function (Some ''VRage.Native.dll'') ''VrSewGuide_GetStart'' 4096 (Some 1) before;
       further = register_function (Some ''Other.dll'') ''Other'' 8192 (Some 2) loaded;
       history = [(exported before, Call_event sample_wrapper [Scalar 1]), (exported loaded, Init_event True)] in
   fst (lazy_call (exported further) sample_wrapper [Scalar 1]
     (lazy_after ''VRage.Native.dll'' vrage_pointers history unloaded)) = Inr (Calls 4096 [Result_at 12, Value 1])"
proof -
  let ?loaded = "register_function (Some ''VRage.Native.dll'') ''VrSewGuide_GetStart'' 4096 (Some 1) []"
  let ?further = "register_function (Some ''Other.dll'') ''Other'' 8192 (Some 2) ?loaded"
  let ?history = "[(exported [], Call_event sample_wrapper [Scalar 1]), (exported ?loaded, Init_event True)]"
  have le: "exported [] \<subseteq>\<^sub>m exported ?loaded" "exported ?loaded \<subseteq>\<^sub>m exported ?further"
    by (rule exported_register, simp add: exported_def get_export_def register_function_def MAX_EXPORTS_def)+
  have "fst (lazy_call (exported ?further) sample_wrapper [Scalar 1]
      (lazy_after ''VRage.Native.dll'' vrage_pointers ?history unloaded)) =
    (case exported ?further (w_name sample_wrapper) of
       None \<Rightarrow> Inl (''Failed to load function: '' @ w_name sample_wrapper)
     | Some p \<Rightarrow> Inr (Calls p (ms_call (w_result sample_wrapper) [Scalar 1])))"
    by (rule lazy_wrappers_call_their_export [where ws = vrage_wrappers])
      (use sample_wrapper_member le map_le_trans [OF le] in \<open>simp_all add: sample_wrapper_def\<close>)
  then show ?thesis
    by (simp add: Let_def exported_def get_export_def register_function_def MAX_EXPORTS_def sample_wrapper_def
        ms_call_def result_argument_def register_size_def)
qed

subsection \<open>Physics\<close>

lemma physics_again: "l_image lib \<Longrightarrow> initialize_again physics_initialize again lib = lib"
  by (induction again arbitrary: lib) (auto simp: physics_initialize_def optional_initialize_def)

text \<open>
  A Physics wrapper never calls a null pointer: before \<open>Init\<close> it throws, and after one that found the
  DLL, whatever further calls of \<open>Init\<close> do, it calls the export \<open>Init\<close> has found for its pointer with the
  converted arguments, or throws the name of the export when there was none.
\<close>

theorem physics_wrappers_throw_or_reach:
  assumes "w \<in> set physics_wrappers" and "list_all2 fits (w_params w) vs" and "\<not> l_image lib"
  shows "\<exists>export. (w_name w, export) \<in> set physics_pointers \<and>
    optional_call ''Physics'' export w vs lib = Inl ''Physics is not initialized; call Init first'' \<and>
    optional_call ''Physics'' export w vs
        (initialize_again physics_initialize again (snd (physics_initialize True True found lib))) =
      (case found export of
         None \<Rightarrow> Inl (''Missing Physics export: '' @ export)
       | Some p \<Rightarrow> Inr (Calls p (ms_call (w_result w) vs)))"
proof -
  have "w \<in> set all_wrappers"
    using assms(1) by (auto simp: all_wrappers_def)
  then have call: "wrapper_call w vs = ms_call (w_result w) vs"
    using assms(2) by (rule all_wrappers_call)
  define after where "after = fold (set_slot found) physics_pointers (lib\<lparr>l_image := True\<rparr>)"
  have image: "l_image after"
    by (simp add: after_def)
  have state: "initialize_again physics_initialize again (snd (physics_initialize True True found lib)) = after"
    using assms(3) physics_again [OF image] by (simp add: physics_initialize_def optional_initialize_def after_def)
  have "w_name w \<in> fst ` set physics_pointers"
    using physics_linked assms(1) by (auto simp: linked_def list_all_iff)
  then obtain export where export: "(w_name w, export) \<in> set physics_pointers" "l_slots after (w_name w) = found export"
    using fold_set_slot_some unfolding after_def by blast
  have "optional_call ''Physics'' export w vs lib = Inl ''Physics is not initialized; call Init first''"
    using assms(3) by (simp add: optional_call_def)
  moreover have "optional_call ''Physics'' export w vs after =
      (case found export of None \<Rightarrow> Inl (''Missing Physics export: '' @ export) | Some p \<Rightarrow> Inr (Calls p (ms_call (w_result w) vs)))"
    using export(2) image by (simp add: optional_call_def call_slot_def call split: option.split)
  ultimately show ?thesis
    unfolding state using export(1) by blast
qed

theorem physics_wrappers_throw_or_reach_witness:
  "\<exists>export. optional_call ''Physics'' export (hd physics_wrappers) [Scalar 1, Scalar 2]
     (snd (physics_initialize True True (\<lambda>_. Some 4096) unloaded)) = Inr (Calls 4096 [Value 1, Value 2])"
proof -
  have member: "hd physics_wrappers \<in> set physics_wrappers"
    by (rule hd_in_set) (simp add: physics_wrappers_def physics_wrappers_1_def)
  have hd: "w_params (hd physics_wrappers) = [Pointer, Pointer]" "w_result (hd physics_wrappers) = Pointer"
    by (simp_all add: physics_wrappers_def physics_wrappers_1_def forwards_def)
  have fits: "list_all2 fits (w_params (hd physics_wrappers)) [Scalar 1, Scalar 2]" and "\<not> l_image unloaded"
    by (simp_all add: hd unloaded_def)
  from physics_wrappers_throw_or_reach [OF member this, of "[]" "\<lambda>_. Some 4096"] show ?thesis
    by (auto simp: hd ms_call_def result_argument_def)
qed

end
