(* ===== verification/Cpu_Features.thy ===== *)
theory Cpu_Features
  imports Prelude
begin

text \<open>
  \<open>src/src/cpu_features.cpp\<close>: the processor features that \<open>IsProcessorFeaturePresent\<close> reports, read once from
  the first line of \<open>/proc/cpuinfo\<close> that has \<open>flags\<close> in it.
\<close>

definition PROCESSOR_FEATURE_MAX :: nat where "PROCESSOR_FEATURE_MAX = 64"
definition PF_FASTFAIL_AVAILABLE :: nat where "PF_FASTFAIL_AVAILABLE = 23"

definition flagToFeatureMap :: "(string \<times> nat) list" where
  "flagToFeatureMap =
     [(''cx8'', 2), (''mmx'', 3), (''sse'', 6), (''3dnow'', 7), (''tsc'', 8), (''pae'', 9), (''sse2'', 10),
      (''sse3'', 13), (''ssse3'', 36), (''xsave'', 17), (''cx16'', 14), (''daz'', 11), (''nx'', 12), (''virt'', 21),
      (''rdfsgsbase'', 22), (''sse4_1'', 37), (''sse4_2'', 38), (''avx'', 39), (''avx2'', 40)]"

record processor_features =
  initialized :: bool
  ProcessorFeatures :: "bool list"

definition no_features :: processor_features where
  "no_features = \<lparr>initialized = False, ProcessorFeatures = replicate PROCESSOR_FEATURE_MAX False\<rparr>"

definition has_processor_feature :: "u32 \<Rightarrow> processor_features \<Rightarrow> bool" where
  "has_processor_feature feature s \<longleftrightarrow> unat feature < PROCESSOR_FEATURE_MAX \<and> ProcessorFeatures s ! unat feature"

section \<open>Strings\<close>

text \<open>\<open>std::string::find\<close>\<close>

fun find_sub :: "string \<Rightarrow> string \<Rightarrow> nat option" where
  "find_sub pat [] = (if pat = [] then Some 0 else None)"
| "find_sub pat (c # cs) = (if take (length pat) (c # cs) = pat then Some 0 else map_option Suc (find_sub pat cs))"

text \<open>The start of the flags; \<open>npos\<close> is the largest number of 64 bits, and the sum wraps.\<close>

definition flags_start :: "string \<Rightarrow> nat" where
  "flags_start line = ((case find_sub '':'' line of Some i \<Rightarrow> i | None \<Rightarrow> 2 ^ 64 - 1) + 2) mod 2 ^ 64"

definition is_space :: "char \<Rightarrow> bool" where
  "is_space c \<longleftrightarrow> c = CHR '' '' \<or> (9 \<le> (of_char c :: nat) \<and> (of_char c :: nat) \<le> 13)"

text \<open>The words \<open>operator>>\<close> reads one after the other; the first argument is the word so far, in reverse.\<close>

fun read_words :: "string \<Rightarrow> string \<Rightarrow> string list" where
  "read_words word [] = (if word = [] then [] else [rev word])"
| "read_words word (c # cs) =
     (if is_space c then (if word = [] then read_words [] cs else rev word # read_words [] cs)
      else read_words (c # word) cs)"

section \<open>Reading the file\<close>

definition set_feature :: "string \<Rightarrow> bool list \<Rightarrow> bool list" where
  "set_feature flag fs = (case map_of flagToFeatureMap flag of Some i \<Rightarrow> fs[i := True] | None \<Rightarrow> fs)"

definition finish_features :: "bool list \<Rightarrow> processor_features" where
  "finish_features fs = \<lparr>initialized = True, ProcessorFeatures = fs[PF_FASTFAIL_AVAILABLE := True]\<rparr>"

text \<open>The lines of the file, if it can be opened; the left side is the exception of \<open>substr\<close>.\<close>

definition parseCPUInfo :: "string list option \<Rightarrow> processor_features \<Rightarrow> (string + bool) \<times> processor_features" where
  "parseCPUInfo cpuinfo s =
     (if initialized s then (Inr True, s)
      else
        let fs = replicate PROCESSOR_FEATURE_MAX False; s = s\<lparr>ProcessorFeatures := fs\<rparr> in
        case cpuinfo of
          None \<Rightarrow> (Inr False, s)
        | Some ls \<Rightarrow>
          (case find (\<lambda>line. find_sub ''flags'' line \<noteq> None) ls of
             None \<Rightarrow> (Inr True, finish_features fs)
           | Some line \<Rightarrow>
             (if flags_start line > length line then (Inl ''basic_string::substr'', s)
              else (Inr True, finish_features (fold set_feature (read_words [] (drop (flags_start line) line)) fs)))))"

section \<open>What is reported\<close>

lemma read_words_word:
  "list_all (\<lambda>c. \<not> is_space c) w \<Longrightarrow> read_words word (w @ rest) = read_words (rev w @ word) rest"
  by (induction w arbitrary: word) simp_all

lemma read_words_space: "word \<noteq> [] \<Longrightarrow> is_space c \<Longrightarrow> read_words word (c # cs) = rev word # read_words [] cs"
  by simp

text \<open>Words without spaces, each with a space behind it.\<close>

definition a_word :: "string \<Rightarrow> bool" where
  "a_word w \<longleftrightarrow> w \<noteq> [] \<and> list_all (\<lambda>c. \<not> is_space c) w"

lemma read_words_concat:
  assumes "list_all a_word ws"
  shows "read_words [] (concat (map (\<lambda>w. w @ '' '') ws)) = ws"
  using assms
proof (induction ws)
  case (Cons w ws)
  then have "read_words [] (w @ '' '' @ concat (map (\<lambda>w. w @ '' '') ws)) = w # ws"
    by (subst read_words_word) (auto simp: a_word_def is_space_def)
  then show ?case
    by simp
qed simp

lemma fold_set_feature_length [simp]: "length (fold set_feature ws fs) = length fs"
  by (induction ws arbitrary: fs) (simp_all add: set_feature_def split: option.split)

lemma nth_set_true: "i < length fs \<Longrightarrow> fs[j := True] ! i \<longleftrightarrow> fs ! i \<or> j = i"
  by (cases "j = i") auto

lemma fold_set_feature:
  "i < length fs \<Longrightarrow> fold set_feature ws fs ! i \<longleftrightarrow> fs ! i \<or> (\<exists>w \<in> set ws. map_of flagToFeatureMap w = Some i)"
proof (induction ws arbitrary: fs)
  case (Cons w ws)
  have "length (set_feature w fs) = length fs"
    by (simp add: set_feature_def split: option.split)
  then have "fold set_feature (w # ws) fs ! i \<longleftrightarrow>
      set_feature w fs ! i \<or> (\<exists>w \<in> set ws. map_of flagToFeatureMap w = Some i)"
    using Cons by simp
  moreover have "set_feature w fs ! i \<longleftrightarrow> fs ! i \<or> map_of flagToFeatureMap w = Some i"
    using Cons.prems by (auto simp: set_feature_def nth_set_true split: option.split)
  ultimately show ?case
    by auto
qed simp

lemma find_sub_skip:
  "CHR '':'' \<notin> set name \<Longrightarrow> find_sub '':'' (name @ CHR '':'' # rest) = Some (length name)"
  by (induction name) auto

lemma find_sub_append: "find_sub pat (xs @ pat @ ys) \<noteq> None"
proof (induction xs)
  case Nil
  then show ?case
    by (cases pat; cases ys) auto
qed auto

text \<open>
  On a processor whose \<open>flags\<close> line lists these flags, each with a space behind it, the features that are
  reported are exactly the ones the table gives for them and the one that is always there, whatever other
  lines follow; further calls change nothing.
\<close>

theorem processor_features_exact:
  assumes "\<not> initialized s" and "list_all a_word flags" and "find_sub ''flags'' name \<noteq> None"
    and "CHR '':'' \<notin> set name" and "list_all (\<lambda>line. find_sub ''flags'' line = None) before"
    and "length name < 2 ^ 63"
    and "ls = before @ (name @ '': '' @ concat (map (\<lambda>w. w @ '' '') flags)) # after"
  shows "\<exists>s'. parseCPUInfo (Some ls) s = (Inr True, s') \<and> parseCPUInfo cpuinfo s' = (Inr True, s') \<and>
    (has_processor_feature feature s' \<longleftrightarrow>
       unat feature = PF_FASTFAIL_AVAILABLE \<or> (\<exists>flag \<in> set flags. map_of flagToFeatureMap flag = Some (unat feature)))"
proof -
  let ?line = "name @ '': '' @ concat (map (\<lambda>w. w @ '' '') flags)"
  let ?fs = "fold set_feature flags (replicate PROCESSOR_FEATURE_MAX False)"
  obtain i where i: "find_sub ''flags'' name = Some i"
    using assms(3) by blast
  have prefix: "find_sub pat xs = Some i \<Longrightarrow> pat \<noteq> [] \<Longrightarrow> find_sub pat (xs @ ys) \<noteq> None" for pat xs ys i
  proof (induction xs arbitrary: i)
    case (Cons c cs)
    show ?case
    proof (cases "take (length pat) (c # cs) = pat")
      case True
      then have "length pat \<le> length (c # cs)"
        by (metis length_take min.cobounded1)
      then have "take (length pat) (c # cs @ ys) = pat"
        using True by (metis append_Cons append_Nil2 append_take_drop_id diff_is_0_eq take0 take_append)
      then show ?thesis
        by simp
    next
      case False
      then show ?thesis
        using Cons by (auto split: if_splits)
    qed
  qed simp
  have found: "find (\<lambda>line. find_sub ''flags'' line \<noteq> None) ls = Some ?line"
    using assms(5) prefix [OF i] unfolding assms(7) by (induction before) auto
  have start: "flags_start ?line = length name + 2"
    using find_sub_skip [OF assms(4), of "'' '' @ concat (map (\<lambda>w. w @ '' '') flags)"] assms(6)
    by (simp add: flags_start_def)
  have words: "read_words [] (drop (flags_start ?line) ?line) = flags"
    unfolding start using read_words_concat [OF assms(2)] by simp
  have parse: "parseCPUInfo (Some ls) s = (Inr True, finish_features ?fs)"
    using assms(1) found words start by (simp add: parseCPUInfo_def Let_def)
  have low: "map_of flagToFeatureMap w = Some j \<Longrightarrow> j < PROCESSOR_FEATURE_MAX" for w j
    by (auto simp: flagToFeatureMap_def PROCESSOR_FEATURE_MAX_def split: if_splits)
  have "has_processor_feature feature (finish_features ?fs) \<longleftrightarrow>
      unat feature = PF_FASTFAIL_AVAILABLE \<or> (\<exists>flag \<in> set flags. map_of flagToFeatureMap flag = Some (unat feature))"
    using low by (auto simp: has_processor_feature_def finish_features_def nth_set_true fold_set_feature
        PF_FASTFAIL_AVAILABLE_def PROCESSOR_FEATURE_MAX_def)
  then show ?thesis
    using parse by (auto simp: parseCPUInfo_def finish_features_def)
qed

text \<open>A processor with SSE, SSE2 and SSE3, which Linux calls \<open>pni\<close>: it is not reported.\<close>

theorem processor_features_exact_witness:
  "\<exists>s'. parseCPUInfo (Some [''processor : 0'', ''flags : sse sse2 pni '', ''bugs :'']) no_features = (Inr True, s') \<and>
    has_processor_feature 10 s' \<and> \<not> has_processor_feature 13 s'"
proof -
  have table: "map_of flagToFeatureMap ''sse'' = Some 6" "map_of flagToFeatureMap ''sse2'' = Some 10"
    "map_of flagToFeatureMap ''pni'' = None"
    by (simp_all add: flagToFeatureMap_def)
  have words: "list_all a_word [''sse'', ''sse2'', ''pni'']"
    by (simp add: a_word_def is_space_def)
  have line: "[''processor : 0'', ''flags : sse sse2 pni '', ''bugs :''] =
      [''processor : 0''] @ (''flags '' @ '': '' @ concat (map (\<lambda>w. w @ '' '') [''sse'', ''sse2'', ''pni''])) # [''bugs :'']"
    by simp
  note exact = processor_features_exact [where s = no_features and name = "''flags ''" and before = "[''processor : 0'']",
      OF _ words _ _ _ _ line]
  have not: "\<not> initialized no_features" "find_sub ''flags'' ''flags '' \<noteq> None"
    "list_all (\<lambda>line. find_sub ''flags'' line = None) [''processor : 0'']"
    by (simp_all add: no_features_def)
  let ?parse = "parseCPUInfo (Some [''processor : 0'', ''flags : sse sse2 pni '', ''bugs :'']) no_features"
  obtain s1 where "?parse = (Inr True, s1)" "has_processor_feature 10 s1"
    using exact [where feature = 10 and cpuinfo = None] not by (auto simp: PF_FASTFAIL_AVAILABLE_def table)
  moreover obtain s2 where "?parse = (Inr True, s2)" "\<not> has_processor_feature 13 s2"
    using exact [where feature = 13 and cpuinfo = None] not by (auto simp: PF_FASTFAIL_AVAILABLE_def table)
  ultimately show ?thesis
    by auto
qed

text \<open>A line with a colon at its end has no flags to read, and the exception leaves the features cleared.\<close>

lemma flags_at_end: "parseCPUInfo (Some [''flags:'']) no_features = (Inl ''basic_string::substr'', no_features)"
  by (simp add: parseCPUInfo_def no_features_def flags_start_def)

end
