(* ===== verification/Shader_Compiler.thy ===== *)
theory Shader_Compiler
  imports Transition
begin

text \<open>
  \<open>Init\<close> and the entry points of \<open>src/src/D3DCompiler.cpp\<close>. The compiler in the DLL does not stand
  overlapping calls, so all three entry points take one mutex. A call can be made by any number of threads;
  the test of the pointer, the lock and the end of the call in the DLL are steps of their own.
\<close>

section \<open>Initialisation\<close>

datatype entry = D3DCompile | D3DPreprocess | D3DStripShader

record compiler =
  d_image :: bool
  d_pointers :: "entry \<Rightarrow> u64 option"   \<comment> \<open>\<open>s_D3DCompile\<close>, \<open>s_D3DPreprocess\<close>, \<open>s_D3DStripShader\<close>\<close>

definition no_compiler :: compiler where
  "no_compiler = \<lparr>d_image = False, d_pointers = (\<lambda>_. None)\<rparr>"

definition look_up :: "(entry \<Rightarrow> u64 option) \<Rightarrow> entry \<Rightarrow> compiler \<Rightarrow> compiler" where
  "look_up found e c = c\<lparr>d_pointers := (d_pointers c)(e := found e)\<rparr>"

text \<open>\<open>found\<close> is the export table after the load. The compiler without \<open>D3DStripShader\<close> is no error.\<close>

definition Init :: "bool \<Rightarrow> (entry \<Rightarrow> u64 option) \<Rightarrow> compiler \<Rightarrow> string option \<times> compiler" where
  "Init loads found c =
     (if d_image c then (None, c)
      else if \<not> loads then (Some ''Failed to load d3dcompiler_47.dll'', c)
      else
        let c = look_up found D3DCompile (c\<lparr>d_image := True\<rparr>) in
        if found D3DCompile = None then (Some ''D3DCompile export not found'', c)
        else
          let c = look_up found D3DPreprocess c in
          if found D3DPreprocess = None then (Some ''D3DPreprocess export not found'', c)
          else (None, look_up found D3DStripShader c))"

section \<open>Calls\<close>

datatype compiler_pc =
    Outside
  | Waiting entry           \<comment> \<open>at the mutex\<close>
  | Compiling entry u64     \<comment> \<open>in the function of the DLL at this address\<close>
  | Returned "32 word"

record compilers =
  s_compiler :: compiler
  s_compilerMutex :: "nat option"
  s_pc :: "nat \<Rightarrow> compiler_pc"

definition no_calls :: compilers where
  "no_calls = \<lparr>s_compiler = no_compiler, s_compilerMutex = None, s_pc = (\<lambda>_. Outside)\<rparr>"

definition proceed :: "nat \<Rightarrow> compiler_pc \<Rightarrow> compilers \<Rightarrow> compilers" where
  "proceed t p s = s\<lparr>s_pc := (s_pc s)(t := p)\<rparr>"

text \<open>\<open>SE_D3DCompile\<close>, \<open>SE_D3DPreprocess\<close> and \<open>SE_D3DStripShader\<close> up to the lock.\<close>

definition SE_call :: "nat \<Rightarrow> entry \<Rightarrow> compilers \<Rightarrow> compilers" where
  "SE_call t e s =
     (if d_pointers (s_compiler s) e = None then proceed t (Returned (- 1)) s else proceed t (Waiting e) s)"

definition lock_compiler :: "nat \<Rightarrow> entry \<Rightarrow> u64 \<Rightarrow> compilers \<Rightarrow> compilers" where
  "lock_compiler t e p s = proceed t (Compiling e p) (s\<lparr>s_compilerMutex := Some t\<rparr>)"

definition unlock_compiler :: "nat \<Rightarrow> 32 word \<Rightarrow> compilers \<Rightarrow> compilers" where
  "unlock_compiler t result s = proceed t (Returned result) (s\<lparr>s_compilerMutex := None\<rparr>)"

inductive compiler_step :: "compilers \<Rightarrow> compilers \<Rightarrow> bool" where
  inits: "compiler_step s (s\<lparr>s_compiler := snd (Init loads found (s_compiler s))\<rparr>)"
| calls: "s_pc s t = Outside \<Longrightarrow> compiler_step s (SE_call t e s)"
| locks: "s_pc s t = Waiting e \<Longrightarrow> s_compilerMutex s = None \<Longrightarrow> d_pointers (s_compiler s) e = Some p \<Longrightarrow>
    compiler_step s (lock_compiler t e p s)"
| returns: "s_pc s t = Compiling e p \<Longrightarrow> compiler_step s (unlock_compiler t result s)"
| leaves: "s_pc s t = Returned result \<Longrightarrow> compiler_step s (proceed t Outside s)"

section \<open>One call at a time\<close>

definition compilers_inv :: "compilers \<Rightarrow> bool" where
  "compilers_inv s \<longleftrightarrow>
     (\<forall>e. d_pointers (s_compiler s) e \<noteq> None \<longrightarrow> d_image (s_compiler s)) \<and>
     (\<forall>t e. s_pc s t = Waiting e \<longrightarrow> d_pointers (s_compiler s) e \<noteq> None) \<and>
     (\<forall>t e p. s_pc s t = Compiling e p \<longrightarrow> d_pointers (s_compiler s) e = Some p \<and> s_compilerMutex s = Some t) \<and>
     (\<forall>t. s_compilerMutex s = Some t \<longrightarrow> (\<exists>e p. s_pc s t = Compiling e p))"

lemma compilers_invD:
  assumes "compilers_inv s"
  shows "d_pointers (s_compiler s) e \<noteq> None \<Longrightarrow> d_image (s_compiler s)"
    and "s_pc s t = Waiting e \<Longrightarrow> d_pointers (s_compiler s) e \<noteq> None"
    and "s_pc s t = Compiling e p \<Longrightarrow> d_pointers (s_compiler s) e = Some p"
    and "s_pc s t = Compiling e p \<Longrightarrow> s_compilerMutex s = Some t"
    and "s_compilerMutex s = Some t \<Longrightarrow> \<exists>e p. s_pc s t = Compiling e p"
  using assms unfolding compilers_inv_def by blast+

lemma proceed_fields [simp]:
  "s_compiler (proceed t p s) = s_compiler s" "s_compilerMutex (proceed t p s) = s_compilerMutex s"
  "s_pc (proceed t p s) = (s_pc s)(t := p)"
  by (simp_all add: proceed_def)

text \<open>\<open>Init\<close> sets pointers only when there was no image, and then all were null.\<close>

lemma Init_image:
  assumes "d_pointers c e \<noteq> None \<Longrightarrow> d_image c" and "d_pointers (snd (Init loads found c)) e \<noteq> None"
  shows "d_image (snd (Init loads found c))"
  using assms by (cases "d_image c"; cases loads) (auto simp: Init_def look_up_def Let_def)

lemma inits_inv:
  assumes inv: "compilers_inv s"
  shows "compilers_inv (s\<lparr>s_compiler := snd (Init loads found (s_compiler s))\<rparr>)"
proof -
  have keep: "d_pointers (s_compiler s) e \<noteq> None \<Longrightarrow> snd (Init loads found (s_compiler s)) = s_compiler s" for e
    using compilers_invD(1) [OF inv, of e] by (simp add: Init_def)
  have "d_pointers (snd (Init loads found (s_compiler s))) e \<noteq> None" if "s_pc s t = Waiting e" for t e
    using keep [of e] compilers_invD(2) [OF inv that] by simp
  moreover have "d_pointers (snd (Init loads found (s_compiler s))) e = Some p" if "s_pc s t = Compiling e p" for t e p
    using keep [of e] compilers_invD(3) [OF inv that] by simp
  moreover have "d_image (snd (Init loads found (s_compiler s)))"
    if "d_pointers (snd (Init loads found (s_compiler s))) e \<noteq> None" for e
    using Init_image compilers_invD(1) [OF inv] that by blast
  ultimately show ?thesis
    using compilers_invD(4,5) [OF inv] unfolding compilers_inv_def by simp
qed

lemma calls_inv:
  assumes inv: "compilers_inv s" and out: "s_pc s t = Outside"
  shows "compilers_inv (SE_call t e s)"
  unfolding compilers_inv_def SE_call_def
  using compilers_invD [OF inv] out by (auto split: if_splits)

lemma locks_inv:
  assumes inv: "compilers_inv s" and at: "s_pc s t = Waiting e" "s_compilerMutex s = None" "d_pointers (s_compiler s) e = Some p"
  shows "compilers_inv (lock_compiler t e p s)"
  unfolding compilers_inv_def lock_compiler_def
  using compilers_invD [OF inv] at by (auto split: if_splits)

lemma returns_inv:
  assumes inv: "compilers_inv s" and at: "s_pc s t = Compiling e p"
  shows "compilers_inv (unlock_compiler t result s)"
proof -
  have "u = t" if "s_pc s u = Compiling e' p'" for u e' p'
    using compilers_invD(4) [OF inv that] compilers_invD(4) [OF inv at] by simp
  then show ?thesis
    unfolding compilers_inv_def unlock_compiler_def using compilers_invD(1-3) [OF inv] by (auto split: if_splits)
qed

lemma leaves_inv:
  assumes inv: "compilers_inv s" and at: "s_pc s t = Returned result"
  shows "compilers_inv (proceed t Outside s)"
  unfolding compilers_inv_def
  using compilers_invD [OF inv] at by (auto split: if_splits)

lemma compiler_step_inv: "compiler_step s s' \<Longrightarrow> compilers_inv s \<Longrightarrow> compilers_inv s'"
  by (induction rule: compiler_step.induct) (blast intro: inits_inv calls_inv locks_inv returns_inv leaves_inv)+

lemma no_calls_inv: "compilers_inv no_calls"
  by (simp add: compilers_inv_def no_calls_def no_compiler_def)

interpretation compiler_calls: invariant_system compiler_step "\<lambda>s. s = no_calls" compilers_inv
  by unfold_locales (simp_all add: no_calls_inv compiler_step_inv)


text \<open>
  At most one thread is in the compiler of the DLL, in the function the export table gave for the entry
  point it called; an entry point whose function was not found returns -1 without taking the mutex; and
  while the mutex is held somebody is in the compiler, so a call never waits for nobody.
\<close>

theorem compiler_calls_serialised:
  assumes "compiler_step\<^sup>*\<^sup>* no_calls s"
  shows "(s_pc s t = Compiling e p \<and> s_pc s u = Compiling e' p' \<longrightarrow> t = u) \<and>
    (s_pc s t = Compiling e p \<longrightarrow> d_pointers (s_compiler s) e = Some p) \<and>
    (d_pointers (s_compiler s) e = None \<longrightarrow> s_pc (SE_call t e s) t = Returned (- 1) \<and> s_compilerMutex (SE_call t e s) = s_compilerMutex s) \<and>
    (s_pc s t = Waiting e \<longrightarrow> (\<exists>p. compiler_step s (lock_compiler t e p s)) \<or> (\<exists>v e' p'. s_pc s v = Compiling e' p'))"
proof -
  have inv: "compilers_inv s"
    using compiler_calls.reachable_inv [OF assms] by simp
  have alone: "t = u" if "s_pc s t = Compiling e p" "s_pc s u = Compiling e' p'"
    using compilers_invD(4) [OF inv that(1)] compilers_invD(4) [OF inv that(2)] by simp
  have progress: "(\<exists>p. compiler_step s (lock_compiler t e p s)) \<or> (\<exists>v e' p'. s_pc s v = Compiling e' p')"
    if waiting: "s_pc s t = Waiting e"
  proof (cases "s_compilerMutex s")
    case None
    then show ?thesis
      using compilers_invD(2) [OF inv waiting] compiler_step.locks [OF waiting None] by blast
  next
    case (Some v)
    then show ?thesis
      using compilers_invD(5) [OF inv Some] by blast
  qed
  show ?thesis
    using alone progress compilers_invD(3) [OF inv, of t e p] by (auto simp: SE_call_def)
qed

text \<open>One thread compiles, a second one waits, and the strip function was not found.\<close>

definition sample_found :: "entry \<Rightarrow> u64 option" where
  "sample_found e = (case e of D3DCompile \<Rightarrow> Some 4096 | D3DPreprocess \<Rightarrow> Some 8192 | D3DStripShader \<Rightarrow> None)"

definition sample_calls :: compilers where
  "sample_calls =
     SE_call 1 D3DPreprocess (lock_compiler 0 D3DCompile 4096 (SE_call 0 D3DCompile
       (no_calls\<lparr>s_compiler := snd (Init True sample_found no_compiler)\<rparr>)))"

lemma sample_calls_reachable: "compiler_step\<^sup>*\<^sup>* no_calls sample_calls"
proof -
  let ?s1 = "no_calls\<lparr>s_compiler := snd (Init True sample_found no_compiler)\<rparr>"
  let ?s2 = "SE_call 0 D3DCompile ?s1"
  let ?s3 = "lock_compiler 0 D3DCompile 4096 ?s2"
  note defs = no_calls_def no_compiler_def Init_def look_up_def sample_found_def SE_call_def lock_compiler_def
  have "compiler_step no_calls ?s1"
    using compiler_step.inits [of no_calls True sample_found] by (simp add: no_calls_def)
  moreover have "compiler_step ?s1 ?s2"
    by (rule compiler_step.calls) (simp add: defs)
  moreover have "compiler_step ?s2 ?s3"
    by (rule compiler_step.locks) (simp_all add: defs)
  moreover have "compiler_step ?s3 sample_calls"
    unfolding sample_calls_def by (rule compiler_step.calls) (simp add: defs)
  ultimately show ?thesis
    by (meson converse_rtranclp_into_rtranclp rtranclp.rtrancl_refl)
qed

theorem compiler_calls_serialised_witness:
  "s_pc sample_calls 0 = Compiling D3DCompile 4096 \<and> s_pc (SE_call 2 D3DStripShader sample_calls) 2 = Returned (- 1)"
proof -
  note defs = sample_calls_def no_calls_def no_compiler_def Init_def look_up_def sample_found_def SE_call_def lock_compiler_def
  have "s_pc sample_calls 0 = Compiling D3DCompile 4096" "d_pointers (s_compiler sample_calls) D3DStripShader = None"
    by (simp_all add: defs)
  then show ?thesis
    using compiler_calls_serialised [OF sample_calls_reachable, of 2 D3DStripShader] by blast
qed

section \<open>Blobs\<close>

text \<open>The entry of its vtable that a function for a blob calls.\<close>

definition SE_BlobRelease :: "u64 list \<Rightarrow> u64" where "SE_BlobRelease vtable = vtable ! 2"
definition SE_BlobGetBufferPointer :: "u64 list \<Rightarrow> u64" where "SE_BlobGetBufferPointer vtable = vtable ! 3"
definition SE_BlobGetBufferSize :: "u64 list \<Rightarrow> u64" where "SE_BlobGetBufferSize vtable = vtable ! 4"

end
