(* ===== verification/Win_Text.thy ===== *)
theory Win_Text
  imports Win_Strings
begin

text \<open>
  The functions of \<open>src/src/winlibs.cpp\<close> that hand a string to the caller in a buffer of its own:
  environment variables, file names, the name of the computer, and the conversions between strings of bytes
  and of 16-bit units. Windows lets the caller ask for the size first, with no buffer, and then call again
  with a buffer of that size. What the C library answers (\<open>getenv\<close>, \<open>readlink\<close>, \<open>realpath\<close>, \<open>gethostname\<close>) is a
  parameter; null is \<open>None\<close>.
\<close>

section \<open>Strings in buffers\<close>

text \<open>\<open>memcpy\<close>, and the loops that copy a given number of cells.\<close>

definition copy_block :: "nat \<Rightarrow> 'a::len str \<Rightarrow> 'a str \<Rightarrow> fault + 'a str" where
  "copy_block n src dest =
     (if n \<le> length src \<and> n \<le> length dest then Inr (take n src @ drop n dest) else Inl OutOfBounds)"

text \<open>\<open>if (lpBuffer && nSize > len)\<close>: the string with its terminator.\<close>

definition give_string :: "'a::len str \<Rightarrow> nat \<Rightarrow> 'a str option \<Rightarrow> u32 \<Rightarrow> fault + 'a str option" where
  "give_string s len lpBuffer nSize =
     (case lpBuffer of
        None \<Rightarrow> Inr None
      | Some b \<Rightarrow> if len < unat nSize then bindE (copy_block (len + 1) s b) (\<lambda>b. Inr (Some b)) else Inr (Some b))"

definition GetEnvironmentVariableA :: "u8 list option \<Rightarrow> u8 list option \<Rightarrow> u32 \<Rightarrow> fault + u32 \<times> u8 list option" where
  "GetEnvironmentVariableA val lpBuffer nSize =
     (case val of
        None \<Rightarrow> Inr (0, lpBuffer)
      | Some v \<Rightarrow>
        bindE (string_length v) (\<lambda>len. bindE (give_string v len lpBuffer nSize) (\<lambda>b.
          Inr (of_nat (if lpBuffer \<noteq> None \<and> len < unat nSize then len else len + 1), b))))"

definition ExpandEnvironmentStringsW :: "wide option \<Rightarrow> wide option \<Rightarrow> u32 \<Rightarrow> fault + u32 \<times> wide option" where
  "ExpandEnvironmentStringsW lpSrc lpDst nSize =
     (case lpSrc of
        None \<Rightarrow> Inr (0, lpDst)
      | Some s \<Rightarrow>
        bindE (string_length s) (\<lambda>len. bindE (give_string s len lpDst nSize) (\<lambda>b. Inr (of_nat (len + 1), b))))"

text \<open>The file part is an index into the buffer; it is set when the string is.\<close>

definition file_part :: "u8 list \<Rightarrow> nat" where
  "file_part s = length s - length (takeWhile (\<lambda>c. c \<noteq> 47) (rev s))"

definition PATH_MAX :: nat where "PATH_MAX = 4096"

definition GetFullPathNameA ::
    "u8 list option \<Rightarrow> u8 list \<Rightarrow> u32 \<Rightarrow> u8 list option \<Rightarrow> fault + u32 \<times> u8 list option \<times> nat option" where
  "GetFullPathNameA realpath lpFileName nBufferLength lpBuffer =
     bindE (case realpath of
              Some r \<Rightarrow> Inr r
            | None \<Rightarrow> bindE (scan_string (PATH_MAX - 1) lpFileName 0) (\<lambda>n. Inr (take n lpFileName @ [0])))
       (\<lambda>resolved. bindE (string_length resolved) (\<lambda>len.
         bindE (give_string resolved len lpBuffer nBufferLength) (\<lambda>b.
           Inr (of_nat len, b,
                if lpBuffer \<noteq> None \<and> len < unat nBufferLength then Some (file_part (take len resolved)) else None))))"

definition GetFullPathNameW :: "wide option \<Rightarrow> u32 \<Rightarrow> wide option \<Rightarrow> fault + u32 \<times> wide option \<times> nat option" where
  "GetFullPathNameW lpFileName nBufferLength lpBuffer =
     (case lpFileName of
        None \<Rightarrow> Inr (0, lpBuffer, None)
      | Some s \<Rightarrow>
        bindE (string_length s) (\<lambda>len. bindE (give_string s len lpBuffer nBufferLength) (\<lambda>b.
          Inr (of_nat len, b, if lpBuffer \<noteq> None \<and> len < unat nBufferLength then Some 0 else None))))"

text \<open>\<open>link\<close> is what \<open>readlink\<close> stores of the path, at most 4095 bytes, without a terminator.\<close>

definition GetModuleFileNameA :: "u8 list option \<Rightarrow> u8 list option \<Rightarrow> u32 \<Rightarrow> fault + u32 \<times> u8 list option" where
  "GetModuleFileNameA link lpFilename nSize =
     (case lpFilename of
        None \<Rightarrow> Inr (0, None)
      | Some b \<Rightarrow>
        if nSize = 0 then Inr (0, Some b)
        else case link of
            None \<Rightarrow> Inr (0, Some b)
          | Some path \<Rightarrow>
            if path = [] then Inr (0, Some b)
            else
              let copy_len = min (length path) (unat (nSize - 1)) in
              bindE (copy_block copy_len path b) (\<lambda>b. bindE (set_cell b copy_len 0) (\<lambda>b. Inr (of_nat copy_len, Some b))))"

text \<open>\<open>nSize\<close> is passed by address; the name is terminated.\<close>

definition GetComputerNameW ::
    "u8 list option \<Rightarrow> wide option \<Rightarrow> u32 option \<Rightarrow> fault + bool \<times> wide option \<times> u32 option" where
  "GetComputerNameW hostname lpBuffer nSize =
     (case (lpBuffer, nSize, hostname) of
        (Some b, Some n, Some name) \<Rightarrow>
          bindE (string_length name) (\<lambda>len.
            if unat n \<le> len then Inr (False, Some b, Some (of_nat (len + 1)))
            else bindE (copy_block (len + 1) (map ucast name) b) (\<lambda>b. Inr (True, Some b, Some (of_nat len))))
      | _ \<Rightarrow> Inr (False, lpBuffer, nSize))"

section \<open>Conversions\<close>

text \<open>
  Counts and lengths are of type \<open>int\<close>, 32 bits: the cast from a size keeps the low 32 bits, and a signed addition
  that leaves the type is undefined behaviour, a fault of the model.
\<close>

definition to_c_int :: "nat \<Rightarrow> int" where
  "to_c_int n = sint (of_nat n :: u32)"

definition c_int_add :: "int \<Rightarrow> int \<Rightarrow> fault + int" where
  "c_int_add a b = (if - (2 ^ 31) \<le> a + b \<and> a + b < 2 ^ 31 then Inr (a + b) else Inl OutOfBounds)"

lemma to_c_int_small: "n < 2 ^ 31 \<Longrightarrow> to_c_int n = int n"
  unfolding to_c_int_def by (simp add: signed_of_nat signed_take_bit_int_eq_self)

lemma c_int_add_small: "0 \<le> a \<Longrightarrow> 0 \<le> b \<Longrightarrow> a + b < 2 ^ 31 \<Longrightarrow> c_int_add a b = Inr (a + b)"
  by (simp add: c_int_add_def)

text \<open>
  A negative count means a terminated string, whose terminator counts. \<open>LCMapStringW\<close> and \<open>WideCharToMultiByte\<close>
  count with \<open>len++\<close>, which overflows in a string of \<open>2 ^ 31 - 1\<close> units or more; \<open>MultiByteToWideChar\<close> casts
  what \<open>strlen\<close> answers and adds one.
\<close>

definition counted :: "'a::len str \<Rightarrow> int \<Rightarrow> fault + int" where
  "counted s n =
     (if n < 0 then bindE (string_length s) (\<lambda>len. if len + 1 < 2 ^ 31 then Inr (int (len + 1)) else Inl OutOfBounds) else Inr n)"

definition measured :: "'a::len str \<Rightarrow> int \<Rightarrow> fault + int" where
  "measured s n = (if n < 0 then bindE (string_length s) (\<lambda>len. c_int_add (to_c_int len) 1) else Inr n)"

text \<open>\<open>for (int i = 0; i < copy; i++)\<close> copies nothing when the count is negative.\<close>

definition LCMapStringW :: "wide option \<Rightarrow> int \<Rightarrow> wide option \<Rightarrow> int \<Rightarrow> fault + int \<times> wide option" where
  "LCMapStringW lpSrcStr cchSrc lpDestStr cchDest =
     (case lpSrcStr of
        None \<Rightarrow> Inr (0, lpDestStr)
      | Some s \<Rightarrow>
        bindE (counted s cchSrc) (\<lambda>len.
          case lpDestStr of
            None \<Rightarrow> Inr (len, None)
          | Some b \<Rightarrow>
            if cchDest = 0 then Inr (len, Some b)
            else bindE (copy_block (nat (min len cchDest)) s b) (\<lambda>b. Inr (min len cchDest, Some b))))"

definition MultiByteToWideChar :: "u8 list option \<Rightarrow> int \<Rightarrow> wide option \<Rightarrow> int \<Rightarrow> fault + int \<times> wide option" where
  "MultiByteToWideChar lpMultiByteStr cbMultiByte lpWideCharStr cchWideChar =
     (case lpMultiByteStr of
        None \<Rightarrow> Inr (0, lpWideCharStr)
      | Some s \<Rightarrow>
        bindE (measured s cbMultiByte) (\<lambda>len.
          case lpWideCharStr of
            None \<Rightarrow> Inr (len, None)
          | Some b \<Rightarrow>
            if cchWideChar = 0 then Inr (len, Some b)
            else bindE (copy_block (nat (min len cchWideChar)) (map ucast s) b) (\<lambda>b. Inr (min len cchWideChar, Some b))))"

text \<open>A negative size of the buffer is a huge one for \<open>memcpy\<close>. The string is converted up to its terminator, whatever the count.\<close>

definition WideCharToMultiByte :: "wide option \<Rightarrow> int \<Rightarrow> u8 list option \<Rightarrow> int \<Rightarrow> fault + int \<times> u8 list option" where
  "WideCharToMultiByte lpWideCharStr cchWideChar lpMultiByteStr cbMultiByte =
     (case lpWideCharStr of
        None \<Rightarrow> Inr (0, lpMultiByteStr)
      | Some s \<Rightarrow>
        bindE (counted s cchWideChar) (\<lambda>_.
          bindE (narrow_utf16_string (Some s)) (\<lambda>narrow.
            bindE (c_int_add (to_c_int (length narrow)) (if cchWideChar < 0 then 1 else 0)) (\<lambda>outLen.
              case lpMultiByteStr of
                None \<Rightarrow> Inr (outLen, None)
              | Some b \<Rightarrow>
                if cbMultiByte = 0 then Inr (outLen, Some b)
                else if min outLen cbMultiByte < 0 then Inl OutOfBounds
                else bindE (copy_block (nat (min outLen cbMultiByte)) (narrow @ [0]) b)
                       (\<lambda>b. Inr (min outLen cbMultiByte, Some b))))))"

definition msvcr_memcpy_s :: "u8 list \<Rightarrow> u64 \<Rightarrow> u8 list \<Rightarrow> u64 \<Rightarrow> fault + int \<times> u8 list" where
  "msvcr_memcpy_s dest destsz src count =
     (if destsz < count then Inr (ERANGE, dest) else bindE (copy_block (unat count) src dest) (\<lambda>d. Inr (0, d)))"

section \<open>Asking for the size first\<close>

lemma c_string_length: "c_string xs s \<Longrightarrow> length s < length xs"
  by (auto simp: c_string_def)

lemma c_string_take_all: "c_string xs s \<Longrightarrow> take (length s + 1) xs = s @ [0]"
  by (auto simp: c_string_def)

lemma c_string_with_end: "0 \<notin> set s \<Longrightarrow> c_string (s @ 0 # r) s"
  by (auto simp: c_string_def)

lemma copy_c_string:
  assumes "c_string xs s" and "length s < length b"
  shows "\<exists>b'. copy_block (Suc (length s)) xs b = Inr b' \<and> c_string b' s \<and> length b' = length b"
proof -
  have "copy_block (Suc (length s)) xs b = Inr (s @ 0 # drop (Suc (length s)) b)"
    using assms c_string_length [OF assms(1)] c_string_take_all [OF assms(1)] by (simp add: copy_block_def)
  then show ?thesis
    using assms by (auto simp: c_string_def)
qed

text \<open>
  \<open>f\<close> gives the string \<open>s\<close> to a caller who asks for the size first: with a buffer of the size it answers the
  second call stores the string and its terminator. \<open>cells\<close> reads a size as a number.
\<close>

definition sizes_suffice ::
    "('n::zero \<Rightarrow> nat) \<Rightarrow> ('a::len str option \<Rightarrow> 'n \<Rightarrow> fault + 'n \<times> 'a str option) \<Rightarrow> 'a str \<Rightarrow> bool" where
  "sizes_suffice cells f s \<longleftrightarrow>
     (\<exists>n. f None 0 = Inr (n, None) \<and>
        (\<forall>b. length b = cells n \<longrightarrow> (\<exists>m b'. f (Some b) n = Inr (m, Some b') \<and> c_string b' s \<and> length b' = cells n)))"

lemma sizes_sufficeI:
  assumes "c_string (xs :: 'a::len str) s" and "f None 0 = Inr (n, None)" and "cells n = Suc (length s)"
    and "\<And>b. f (Some b) n = bindE (copy_block (Suc (length s)) xs b) (\<lambda>b. Inr (m, Some b))"
  shows "sizes_suffice cells f s"
  unfolding sizes_suffice_def
proof (rule exI [of _ n], intro conjI allI impI)
  show "f None 0 = Inr (n, None)"
    by (rule assms(2))
  fix b :: "'a str"
  assume "length b = cells n"
  then obtain b' where "copy_block (Suc (length s)) xs b = Inr b'" "c_string b' s" "length b' = cells n"
    using copy_c_string [OF assms(1), of b] assms(3) by auto
  then show "\<exists>m b'. f (Some b) n = Inr (m, Some b') \<and> c_string b' s \<and> length b' = cells n"
    by (simp add: assms(4))
qed

lemma unat_u32: "n < 2 ^ 32 \<Longrightarrow> unat (of_nat n :: u32) = n"
  by (simp add: unat_of_nat take_bit_nat_eq_self)

lemma unat_size: "length s < 2 ^ 31 \<Longrightarrow> unat (1 + of_nat (length s) :: u32) = Suc (length s)"
  using unat_u32 [of "Suc (length s)"] by simp

lemma environment_suffices:
  assumes "c_string v s" and "length s < 2 ^ 31"
  shows "sizes_suffice unat (GetEnvironmentVariableA (Some v)) s"
  by (rule sizes_sufficeI [OF assms(1), where n = "1 + of_nat (length s)" and m = "of_nat (length s)"])
    (simp_all add: GetEnvironmentVariableA_def give_string_def string_length_spec [OF assms(1)] unat_size [OF assms(2)]
      bindE_def split: sum.split)

lemma expand_suffices:
  assumes "c_string v s" and "length s < 2 ^ 31"
  shows "sizes_suffice unat (ExpandEnvironmentStringsW (Some v)) s"
  by (rule sizes_sufficeI [OF assms(1), where n = "1 + of_nat (length s)" and m = "1 + of_nat (length s)"])
    (simp_all add: ExpandEnvironmentStringsW_def give_string_def string_length_spec [OF assms(1)] unat_size [OF assms(2)]
      bindE_def split: sum.split)

lemma map_string_suffices:
  assumes "c_string v s" and "length s + 1 < 2 ^ 31"
  shows "sizes_suffice nat (LCMapStringW (Some v) (- 1)) s"
  by (rule sizes_sufficeI [OF assms(1), where n = "int (length s) + 1"])
    (use assms(2) in \<open>simp_all add: LCMapStringW_def counted_def string_length_spec [OF assms(1)] nat_add_distrib\<close>)

lemma widen_zero: "(ucast (c :: u8) :: u16) = 0 \<longleftrightarrow> c = 0"
  by transfer (simp add: take_bit_take_bit)

lemma c_string_widen: "c_string v s \<Longrightarrow> c_string (map ucast v :: wide) (map ucast (s :: u8 list))"
  by (auto simp: c_string_def) (metis widen_zero)

lemma measured_string:
  assumes "c_string v s" and "length s + 1 < 2 ^ 31"
  shows "measured v (- 1) = Inr (int (length s) + 1)"
  using assms(2) by (simp add: measured_def string_length_spec [OF assms(1)] to_c_int_small c_int_add_small)

lemma widen_suffices:
  assumes "c_string v s" and "length s + 1 < 2 ^ 31"
  shows "sizes_suffice nat (MultiByteToWideChar (Some v) (- 1)) (map ucast s)"
  by (rule sizes_sufficeI [OF c_string_widen [OF assms(1)], where n = "int (length s) + 1"])
    (simp_all add: MultiByteToWideChar_def measured_string [OF assms] nat_add_distrib)

lemma bit7_nonzero: "bit (w :: u8) 7 \<Longrightarrow> w \<noteq> 0"
  by (auto simp: bit_0_eq)

lemma unat_ucast_mod: "unat (ucast (c :: u16) :: u8) = unat c mod 256"
  by (simp add: unsigned_ucast_eq take_bit_eq_mod)

lemma narrow_unit_nonzero:
  assumes "c \<noteq> 0"
  shows "0 \<notin> set (narrow_unit c)"
proof (cases "c \<le> 0x7f")
  case True
  then have small: "unat c < 256"
    using word_le_nat_alt [of c "0x7f"] by simp
  have "c = 0" if "(ucast c :: u8) = 0"
  proof -
    have "unat c mod 256 = 0"
      using unat_ucast_mod [of c] that by simp
    then show ?thesis
      using small by (simp add: unat_eq_0)
  qed
  then have "(ucast c :: u8) \<noteq> 0"
    using assms by blast
  then show ?thesis
    using True by (simp add: narrow_unit_def)
next
  case False
  have "bit (0x80 :: u16) 7" "bit (0xc0 :: u16) 7" "bit (0xe0 :: u16) 7"
    by (simp_all add: bit_iff_odd_drop_bit)
  then have lead: "bit (ucast (0x80 OR x :: u16) :: u8) 7" "bit (ucast (0xc0 OR x :: u16) :: u8) 7"
    "bit (ucast (0xe0 OR x :: u16) :: u8) 7" for x
    by (simp_all add: bit_ucast_iff bit_or_iff)
  then show ?thesis
    using False lead [THEN bit7_nonzero, THEN not_sym] by (simp add: narrow_unit_def)
qed

lemma narrow_units_spec:
  assumes "c_string xs s" and "i \<le> length s"
  shows "narrow_units xs i = Inr (concat (map narrow_unit (drop i s)))"
  using assms
proof (induction xs i rule: narrow_units.induct)
  case (1 xs i)
  show ?case
  proof (cases "i < length s")
    case True
    then show ?thesis
      using "1.IH" [OF _ _ "1.prems"(1)] c_string_at [OF "1.prems"(1) True]
      by (subst narrow_units.simps) (simp add: Cons_nth_drop_Suc [symmetric])
  next
    case False
    then have "i = length s"
      using "1.prems"(2) by simp
    then show ?thesis
      using c_string_end [OF "1.prems"(1)] by (subst narrow_units.simps) simp
  qed
qed

lemma narrow_string: "c_string xs s \<Longrightarrow> narrow_utf16_string (Some xs) = Inr (concat (map narrow_unit s))"
  by (simp add: narrow_utf16_string_def narrow_units_spec)

lemma narrow_suffices:
  assumes "c_string v s" and "length s + 1 < 2 ^ 31" and "length (concat (map narrow_unit s)) + 1 < 2 ^ 31"
  shows "sizes_suffice nat (WideCharToMultiByte (Some v) (- 1)) (concat (map narrow_unit s))"
proof -
  have "0 \<notin> set (concat (map narrow_unit s))"
  proof -
    have "0 \<notin> set (narrow_unit c)" if "c \<in> set s" for c
      using assms that by (intro narrow_unit_nonzero) (auto simp: c_string_def)
    then show ?thesis
      by auto
  qed
  then have "c_string (concat (map narrow_unit s) @ [0]) (concat (map narrow_unit s))"
    by (rule c_string_with_end)
  moreover have count: "counted v (- 1) = Inr (int (length s + 1))"
    using assms(2) by (simp add: counted_def string_length_spec [OF assms(1)])
  moreover have "c_int_add (to_c_int (length (concat (map narrow_unit s)))) 1 = Inr (int (length (concat (map narrow_unit s))) + 1)"
    using assms(3) by (subst to_c_int_small, simp) (rule c_int_add_small, simp_all)
  ultimately show ?thesis
    by (intro sizes_sufficeI [where n = "int (length (concat (map narrow_unit s))) + 1"])
      (simp_all add: WideCharToMultiByte_def narrow_string [OF assms(1)] nat_add_distrib)
qed

lemma computer_name_suffices:
  assumes "c_string name s" and "length s < 2 ^ 31"
  shows "\<exists>n. GetComputerNameW (Some name) (Some []) (Some 0) = Inr (False, Some [], Some n) \<and>
    (\<forall>b. length b = unat n \<longrightarrow>
       (\<exists>b'. GetComputerNameW (Some name) (Some b) (Some n) = Inr (True, Some b', Some (of_nat (length s))) \<and>
          c_string b' (map ucast s)))"
proof (rule exI [of _ "1 + of_nat (length s)"], intro conjI allI impI)
  show "GetComputerNameW (Some name) (Some []) (Some 0) = Inr (False, Some [], Some (1 + of_nat (length s)))"
    by (simp add: GetComputerNameW_def string_length_spec [OF assms(1)])
  fix b :: wide
  assume "length b = unat (1 + of_nat (length s) :: u32)"
  then obtain b' where "copy_block (Suc (length s)) (map ucast name) b = Inr b'" "c_string b' (map ucast s)"
    using copy_c_string [OF c_string_widen [OF assms(1)], of b] unat_size [OF assms(2)] by auto
  then show "\<exists>b'. GetComputerNameW (Some name) (Some b) (Some (1 + of_nat (length s))) = Inr (True, Some b', Some (of_nat (length s))) \<and>
      c_string b' (map ucast s)"
    by (simp add: GetComputerNameW_def string_length_spec [OF assms(1)] unat_size [OF assms(2)])
qed

text \<open>
  C35: For six functions, who asks for the size of a string and calls again with a buffer of that size gets the
  whole string and its terminator, and nothing is read or written outside the buffers: \<open>GetEnvironmentVariableA\<close>,
  \<open>ExpandEnvironmentStringsW\<close>, \<open>GetComputerNameW\<close>, and, with the count \<open>- 1\<close> of a terminated string,
  \<open>LCMapStringW\<close>, \<open>MultiByteToWideChar\<close> and \<open>WideCharToMultiByte\<close>. The sizes are 32-bit integers: each string
  and, for the last one, its narrowed form must have fewer than \<open>2 ^ 31 - 1\<close> cells (\<open>long_string_overflows\<close> shows
  the limit). The full path names are not among them: \<open>full_path_never_fits\<close> refutes it of them.
\<close>

theorem text_sizes_suffice:
  assumes "c_string v s" and "c_string w x" and "length s + 1 < 2 ^ 31" and "length x + 1 < 2 ^ 31"
    and "length (concat (map narrow_unit x)) + 1 < 2 ^ 31"
  shows "sizes_suffice unat (GetEnvironmentVariableA (Some v)) s \<and>
    sizes_suffice unat (ExpandEnvironmentStringsW (Some w)) x \<and>
    sizes_suffice nat (LCMapStringW (Some w) (- 1)) x \<and>
    sizes_suffice nat (MultiByteToWideChar (Some v) (- 1)) (map ucast s) \<and>
    sizes_suffice nat (WideCharToMultiByte (Some w) (- 1)) (concat (map narrow_unit x)) \<and>
    (\<exists>n. GetComputerNameW (Some v) (Some []) (Some 0) = Inr (False, Some [], Some n) \<and>
       (\<forall>b. length b = unat n \<longrightarrow>
          (\<exists>b'. GetComputerNameW (Some v) (Some b) (Some n) = Inr (True, Some b', Some (of_nat (length s))) \<and>
             c_string b' (map ucast s))))"
proof -
  have "length s < 2 ^ 31" and "length x < 2 ^ 31"
    using assms(3,4) by simp_all
  then show ?thesis
    using environment_suffices [OF assms(1)] expand_suffices [OF assms(2)] map_string_suffices [OF assms(2,4)]
      widen_suffices [OF assms(1,3)] narrow_suffices [OF assms(2,4,5)] computer_name_suffices [OF assms(1)]
    by blast
qed

text \<open>
  The variable \<open>ok\<close>: the first call answers 3, and a buffer of 3 bytes takes it; the unit \<open>0xe9\<close> becomes the two
  bytes \<open>c3 a9\<close>, for which \<open>WideCharToMultiByte\<close> asks 3.
\<close>

theorem text_sizes_suffice_witness:
  "GetEnvironmentVariableA (Some [111, 107, 0, 7]) None 0 = Inr (3, None) \<and>
   (\<exists>b. (\<exists>m. GetEnvironmentVariableA (Some [111, 107, 0, 7]) (Some [9, 9, 9]) 3 = Inr (m, Some b)) \<and> c_string b [111, 107]) \<and>
   (\<exists>m b. WideCharToMultiByte (Some [0xe9, 0]) (- 1) (Some [9, 9, 9]) 3 = Inr (m, Some b) \<and> c_string b [0xc3, 0xa9])"
proof -
  have v: "c_string [111, 107, 0, 7 :: u8] [111, 107]" and w: "c_string [0xe9, 0 :: u16] [0xe9]"
    by (simp_all add: c_string_def)
  have units: "narrow_unit (0xe9 :: u16) = [0xc3, 0xa9]"
    by (simp add: narrow_unit_def word_le_nat_alt)
  have narrow: "concat (map narrow_unit [0xe9 :: u16]) = [0xc3, 0xa9]"
    by (simp add: units)
  note suffices = text_sizes_suffice [OF v w, unfolded narrow]
  have size: "GetEnvironmentVariableA (Some [111, 107, 0, 7]) None 0 = Inr (3, None)"
    using string_length_spec [OF v] by (simp add: GetEnvironmentVariableA_def give_string_def)
  have "sizes_suffice unat (GetEnvironmentVariableA (Some [111, 107, 0, 7])) [111, 107]"
    by (rule suffices [THEN conjunct1]) simp_all
  then have env: "\<exists>m b'. GetEnvironmentVariableA (Some [111, 107, 0, 7]) (Some [9, 9, 9]) 3 = Inr (m, Some b') \<and> c_string b' [111, 107]"
    unfolding sizes_suffice_def size by (auto dest: spec [of _ "[9, 9, 9]"])
  have wide: "WideCharToMultiByte (Some [0xe9, 0]) (- 1) None 0 = Inr (3, None)"
    by (simp add: WideCharToMultiByte_def counted_def string_length_spec [OF w] narrow_string [OF w] units to_c_int_small c_int_add_small)
  have "sizes_suffice nat (WideCharToMultiByte (Some [0xe9, 0]) (- 1)) [0xc3, 0xa9]"
    by (rule suffices [THEN conjunct2, THEN conjunct2, THEN conjunct2, THEN conjunct2, THEN conjunct1]) simp_all
  then have "\<exists>m b'. WideCharToMultiByte (Some [0xe9, 0]) (- 1) (Some [9, 9, 9]) 3 = Inr (m, Some b') \<and> c_string b' [0xc3, 0xa9]"
    unfolding sizes_suffice_def wide by (auto dest: spec [of _ "[9, 9, 9]"])
  then show ?thesis
    using size env by blast
qed

text \<open>One cell more, and the count of the bytes and of the units leaves the type.\<close>

lemma long_string_overflows:
  assumes "c_string v s" and "c_string w x" and "length s = 2 ^ 31 - 1" and "length x = 2 ^ 31 - 1"
  shows "MultiByteToWideChar (Some v) (- 1) None 0 = Inl OutOfBounds \<and> LCMapStringW (Some w) (- 1) None 0 = Inl OutOfBounds"
proof -
  have "to_c_int (length s) = 2 ^ 31 - 1"
    using assms(3) to_c_int_small [of "length s"] by simp
  then have "MultiByteToWideChar (Some v) (- 1) None 0 = Inl OutOfBounds"
    by (simp add: MultiByteToWideChar_def measured_def string_length_spec [OF assms(1)] c_int_add_def)
  then show ?thesis
    using assms(4) by (simp add: LCMapStringW_def counted_def string_length_spec [OF assms(2)])
qed

text \<open>
  The full path names answer the length without the terminator in both calls, so a buffer of the size they
  ask for is one cell short, stays as it is, and the answer looks like success.
\<close>

lemma full_path_never_fits:
  assumes "c_string r s" and "length s < 2 ^ 31" and "length b = length s"
  shows "GetFullPathNameA (Some r) name 0 None = Inr (of_nat (length s), None, None) \<and>
    GetFullPathNameA (Some r) name (of_nat (length s)) (Some b) = Inr (of_nat (length s), Some b, None)"
  using unat_u32 [of "length s"] assms(2)
  by (simp add: GetFullPathNameA_def give_string_def string_length_spec [OF assms(1)])

text \<open>With a count, \<open>WideCharToMultiByte\<close> still reads up to a terminator.\<close>

lemma counted_reads_past: "WideCharToMultiByte (Some [65]) 1 None 0 = Inl OutOfBounds"
  by (simp add: WideCharToMultiByte_def counted_def narrow_utf16_string_def at_def)
    (subst narrow_units.simps, simp add: at_def, subst narrow_units.simps, simp add: at_def)

text \<open>\<open>GetModuleFileNameA\<close> cuts the path to the buffer and terminates it.\<close>

lemma module_file_name:
  assumes "nSize \<noteq> 0" and "unat nSize \<le> length b" and "path \<noteq> []"
  shows "\<exists>b'. GetModuleFileNameA (Some path) (Some b) nSize = Inr (of_nat (min (length path) (unat nSize - 1)), Some b') \<and>
    (0 \<notin> set path \<longrightarrow> c_string b' (take (unat nSize - 1) path)) \<and> drop (unat nSize) b' = drop (unat nSize) b"
proof -
  define k where "k = min (length path) (unat nSize - 1)"
  have "0 < unat nSize"
    using assms(1) by (simp add: unat_gt_0)
  then have k: "k < length b" "k \<le> length path" "k < unat nSize" "unat (nSize - 1) = unat nSize - 1"
    using assms(1,2) by (simp_all add: k_def unat_minus_one)
  have "(take k path @ drop k b)[k := 0] = take k path @ 0 # drop (k + 1) b"
    using k by (simp add: list_update_append Cons_nth_drop_Suc [symmetric])
  then have run: "GetModuleFileNameA (Some path) (Some b) nSize = Inr (of_nat k, Some (take k path @ 0 # drop (k + 1) b))"
    using assms(1,3) k by (simp add: GetModuleFileNameA_def copy_block_def set_cell_def k_def Let_def)
  have "take (unat nSize - 1) path = take k path"
    by (cases "length path \<le> unat nSize - 1") (simp_all add: k_def min_def)
  moreover have "0 \<notin> set path \<longrightarrow> c_string (take k path @ 0 # drop (k + 1) b) (take k path)"
    by (auto simp: c_string_def dest: in_set_takeD)
  moreover have "drop (unat nSize) (take k path @ 0 # drop (k + 1) b) = drop (unat nSize) b"
    using k by (simp add: drop_Cons' min_absorb2)
  ultimately show ?thesis
    using run by (simp add: k_def)
qed

end
