(* ===== verification/Win_Multiwait.thy ===== *)
theory Win_Multiwait
  imports Win_Events
begin

text \<open>
  \<open>WaitForMultipleObjects\<close> of \<open>src/src/winlibs.cpp\<close>: one thread that waits for several objects with repeated
  calls of \<open>WaitForSingleObjectEx\<close>, while other threads set, reset and take the same objects between any two
  of these calls. An object is what a wait of no time sees of it; the handles are valid ones of events,
  semaphores and threads. A wait on a kernel object can fail, which looks like a timeout to the caller and
  is reported on the standard error stream.
\<close>

datatype waitable =
    Event_object bool bool   \<comment> \<open>manual, signaled\<close>
  | Semaphore_object nat
  | Thread_object bool       \<comment> \<open>finished\<close>

fun signaled :: "waitable \<Rightarrow> bool" where
  "signaled (Event_object manual b) = b"
| "signaled (Semaphore_object n) = (0 < n)"
| "signaled (Thread_object b) = b"

fun taken_once :: "waitable \<Rightarrow> waitable" where
  "taken_once (Event_object manual b) = Event_object manual manual"
| "taken_once (Semaphore_object n) = Semaphore_object (n - 1)"
| "taken_once (Thread_object b) = Thread_object b"

text \<open>That is what \<open>WaitForSingleObjectEx\<close> does to an event, on either backend.\<close>

definition event_object :: "event \<Rightarrow> waitable" where
  "event_object s = Event_object (e_manual s) (case e_object s of Some b \<Rightarrow> b | None \<Rightarrow> e_signaled s)"

lemma event_object_taken:
  "e_object s = None \<Longrightarrow> signaled (event_object s) \<Longrightarrow>
     e_pc (enter_event t Immediate s) t = Outside STATUS_WAIT_0 \<and>
     event_object (enter_event t Immediate s) = taken_once (event_object s)"
  "e_object s = None \<Longrightarrow> \<not> signaled (event_object s) \<Longrightarrow>
     e_pc (enter_event t Immediate s) t = Outside STATUS_TIMEOUT \<and> event_object (enter_event t Immediate s) = event_object s"
  "e_object s \<noteq> None \<Longrightarrow> event_object (ntsync_take t s) = taken_once (event_object s)"
  by (auto simp: event_object_def enter_event_def test_event_def ntsync_take_def goto_event_def)

section \<open>The code\<close>

datatype multi_pc =
    Polling nat          \<comment> \<open>about to try object \<open>i\<close> without waiting\<close>
  | Pausing              \<comment> \<open>after a round, before the deadline is looked at\<close>
  | Waiting_for nat      \<comment> \<open>in the wait for object \<open>i\<close> of all\<close>
  | Answered u32

text \<open>\<open>w_taken\<close> lists the objects this call has taken a signal from, \<open>w_errors\<close> counts its failed waits.\<close>

record multi_wait =
  w_objects :: "nat \<Rightarrow> waitable"
  w_taken :: "nat list"
  w_errors :: nat
  w_pc :: multi_pc

definition WaitForMultipleObjects :: "bool \<Rightarrow> (nat \<Rightarrow> waitable) \<Rightarrow> multi_wait" where
  "WaitForMultipleObjects wait_all objects =
     \<lparr>w_objects = objects, w_taken = [], w_errors = 0, w_pc = (if wait_all then Waiting_for 0 else Polling 0)\<rparr>"

definition take_object :: "nat \<Rightarrow> multi_pc \<Rightarrow> multi_wait \<Rightarrow> multi_wait" where
  "take_object i p s =
     s\<lparr>w_objects := (w_objects s)(i := taken_once (w_objects s i)), w_taken := w_taken s @ [i], w_pc := p\<rparr>"

definition poll_object :: "nat \<Rightarrow> nat \<Rightarrow> multi_wait \<Rightarrow> multi_wait" where
  "poll_object count i s =
     (if i \<ge> count then s\<lparr>w_pc := Pausing\<rparr>
      else if signaled (w_objects s i) then take_object i (Answered (STATUS_WAIT_0 + of_nat i)) s
      else s\<lparr>w_pc := Polling (i + 1)\<rparr>)"

definition after_round :: "u32 \<Rightarrow> bool \<Rightarrow> multi_wait \<Rightarrow> multi_wait" where
  "after_round milliseconds expired s =
     s\<lparr>w_pc := (if milliseconds \<noteq> 0xffffffff \<and> expired then Answered STATUS_TIMEOUT else Polling 0)\<rparr>"

text \<open>The wait for object \<open>i\<close> ends with a signal or, after its own \<open>milliseconds\<close>, without.\<close>

definition wait_next :: "nat \<Rightarrow> nat \<Rightarrow> multi_wait \<Rightarrow> multi_wait" where
  "wait_next count i s =
     (if i \<ge> count then s\<lparr>w_pc := Answered STATUS_WAIT_0\<rparr> else take_object i (Waiting_for (i + 1)) s)"

inductive multi_step :: "nat \<Rightarrow> u32 \<Rightarrow> multi_wait \<Rightarrow> multi_wait \<Rightarrow> bool" for count milliseconds where
  others: "multi_step count milliseconds s (s\<lparr>w_objects := objects\<rparr>)"
| polls: "w_pc s = Polling i \<Longrightarrow> multi_step count milliseconds s (poll_object count i s)"
| rounds: "w_pc s = Pausing \<Longrightarrow> multi_step count milliseconds s (after_round milliseconds expired s)"
| gets: "w_pc s = Waiting_for i \<Longrightarrow> count \<le> i \<or> signaled (w_objects s i) \<Longrightarrow>
    multi_step count milliseconds s (wait_next count i s)"
| misses: "w_pc s = Waiting_for i \<Longrightarrow> i < count \<Longrightarrow> milliseconds \<noteq> 0xffffffff \<Longrightarrow>
    multi_step count milliseconds s (s\<lparr>w_pc := Answered STATUS_TIMEOUT\<rparr>)"
| poll_fails: "w_pc s = Polling i \<Longrightarrow> i < count \<Longrightarrow>
    multi_step count milliseconds s (s\<lparr>w_errors := w_errors s + 1, w_pc := Polling (i + 1)\<rparr>)"
| wait_fails: "w_pc s = Waiting_for i \<Longrightarrow> i < count \<Longrightarrow>
    multi_step count milliseconds s (s\<lparr>w_errors := w_errors s + 1, w_pc := Answered STATUS_TIMEOUT\<rparr>)"

section \<open>What has been taken\<close>

text \<open>\<open>limited\<close>: the caller gave a limit, or a wait has failed.\<close>

definition limited :: "u32 \<Rightarrow> multi_wait \<Rightarrow> bool" where
  "limited milliseconds s \<longleftrightarrow> milliseconds \<noteq> 0xffffffff \<or> 0 < w_errors s"

fun multi_place :: "bool \<Rightarrow> nat \<Rightarrow> u32 \<Rightarrow> bool \<Rightarrow> nat list \<Rightarrow> multi_pc \<Rightarrow> bool" where
  "multi_place wait_all count milliseconds l ts (Polling i) = (\<not> wait_all \<and> ts = [])"
| "multi_place wait_all count milliseconds l ts Pausing = (\<not> wait_all \<and> ts = [])"
| "multi_place wait_all count milliseconds l ts (Waiting_for i) = (wait_all \<and> i \<le> count \<and> ts = [0..<i])"
| "multi_place wait_all count milliseconds l ts (Answered r) =
     (if wait_all then r = STATUS_WAIT_0 \<and> ts = [0..<count] \<or> l \<and> r = STATUS_TIMEOUT \<and> (\<exists>k < count. ts = [0..<k])
      else (\<exists>i < count. r = STATUS_WAIT_0 + of_nat i \<and> ts = [i]) \<or>
        milliseconds \<noteq> 0xffffffff \<and> r = STATUS_TIMEOUT \<and> ts = [])"

lemma multi_step_place:
  assumes "multi_step count milliseconds s s'"
    and "multi_place wait_all count milliseconds (limited milliseconds s) (w_taken s) (w_pc s)"
  shows "multi_place wait_all count milliseconds (limited milliseconds s') (w_taken s') (w_pc s')"
  using assms
  by (induction rule: multi_step.induct)
    (auto simp: poll_object_def after_round_def wait_next_def take_object_def not_le limited_def)

text \<open>
  A wait for one of several objects takes a signal from exactly the object it reports, and from none when
  it times out; a wait for all reports success only when it has taken one from each, in their order, but when
  it times out it has kept the signals of those before the one that was missing. A wait for one never times
  out when the caller waits without a limit, a wait for all then only when one of its waits has failed.
\<close>

theorem multi_wait_takes:
  assumes "(multi_step count milliseconds)\<^sup>*\<^sup>* (WaitForMultipleObjects wait_all objects) s" and "w_pc s = Answered r"
  shows "if wait_all then r = STATUS_WAIT_0 \<and> w_taken s = [0..<count] \<or>
      (milliseconds \<noteq> 0xffffffff \<or> 0 < w_errors s) \<and> r = STATUS_TIMEOUT \<and> (\<exists>k < count. w_taken s = [0..<k])
    else (\<exists>i < count. r = STATUS_WAIT_0 + of_nat i \<and> w_taken s = [i]) \<or>
      milliseconds \<noteq> 0xffffffff \<and> r = STATUS_TIMEOUT \<and> w_taken s = []"
proof -
  have "multi_place wait_all count milliseconds (limited milliseconds s) (w_taken s) (w_pc s)"
    using assms(1)
    by (induction rule: rtranclp_induct) (auto intro: multi_step_place simp: WaitForMultipleObjects_def)
  then show ?thesis
    using assms(2) by (simp add: limited_def)
qed

text \<open>The second of two events is set after the first round.\<close>

theorem multi_wait_takes_witness:
  "\<exists>s. (multi_step 2 5)\<^sup>*\<^sup>* (WaitForMultipleObjects False (\<lambda>_. Event_object False False)) s \<and>
     w_pc s = Answered 1 \<and> w_taken s = [1]"
proof -
  let ?s0 = "WaitForMultipleObjects False (\<lambda>_. Event_object False False)"
  let ?s1 = "?s0\<lparr>w_objects := (\<lambda>i. Event_object False (i = 1))\<rparr>"
  let ?s2 = "poll_object 2 0 ?s1"
  let ?s3 = "poll_object 2 1 ?s2"
  note defs = WaitForMultipleObjects_def poll_object_def take_object_def
  have "multi_step 2 5 ?s0 ?s1"
    by (rule others)
  moreover have "multi_step 2 5 ?s1 ?s2"
    by (rule polls) (simp add: defs)
  moreover have "multi_step 2 5 ?s2 ?s3"
    by (rule polls) (simp add: defs)
  ultimately have run: "(multi_step 2 5)\<^sup>*\<^sup>* ?s0 ?s3"
    by (meson converse_rtranclp_into_rtranclp rtranclp.rtrancl_refl)
  have pc: "w_pc ?s3 = Answered 1"
    by (simp add: defs STATUS_WAIT_0_def)
  have "(\<exists>i < 2. (1 :: u32) = STATUS_WAIT_0 + of_nat i \<and> w_taken ?s3 = [i]) \<or>
      (5 :: u32) \<noteq> 0xffffffff \<and> 1 = STATUS_TIMEOUT \<and> w_taken ?s3 = []"
    using multi_wait_takes [OF run pc] by simp
  moreover have "w_taken ?s3 = [1]"
    by (simp add: defs)
  ultimately show ?thesis
    using run pc by blast
qed

text \<open>A wait for two automatic events of which only the first is set loses that signal.\<close>

lemma wait_all_loses_signal:
  "\<exists>s. (multi_step 2 5)\<^sup>*\<^sup>* (WaitForMultipleObjects True (\<lambda>i. Event_object False (i = 0))) s \<and>
     w_pc s = Answered STATUS_TIMEOUT \<and> \<not> signaled (w_objects s 0)"
proof -
  let ?s0 = "WaitForMultipleObjects True (\<lambda>i. Event_object False (i = 0))"
  let ?s1 = "wait_next 2 0 ?s0"
  have "multi_step 2 5 ?s0 ?s1"
    by (rule gets) (simp_all add: WaitForMultipleObjects_def)
  moreover have "multi_step 2 5 ?s1 (?s1\<lparr>w_pc := Answered STATUS_TIMEOUT\<rparr>)"
    by (rule misses [where i = 1]) (simp_all add: WaitForMultipleObjects_def wait_next_def take_object_def)
  ultimately have "(multi_step 2 5)\<^sup>*\<^sup>* ?s0 (?s1\<lparr>w_pc := Answered STATUS_TIMEOUT\<rparr>)"
    by (meson converse_rtranclp_into_rtranclp rtranclp.rtrancl_refl)
  then show ?thesis
    by (intro exI conjI) (assumption, simp_all add: WaitForMultipleObjects_def wait_next_def take_object_def)
qed

end
