(* ===== verification/Win_Crypto.thy ===== *)
theory Win_Crypto
  imports Prelude
begin

text \<open>
  The hash objects of ADVAPI32 in \<open>src/src/winlibs.cpp\<close> (\<open>CryptCreateHash\<close>, \<open>CryptHashData\<close>, \<open>CryptGetHashParam\<close>,
  \<open>CryptDestroyHash\<close>), a UUID, and the time since 1601. Every function on hashes holds \<open>g_crypt_mutex\<close> while it
  uses the table, so calls of several threads are a sequence. The hash is no MD5 or SHA-1 but a short one of
  the same size.
\<close>

section \<open>Hash objects\<close>

record crypt_hash_data =
  k_algorithm :: u32
  k_data :: bytes

record crypt =
  g_next_hash :: u64
  g_hashes :: "u64 \<rightharpoonup> crypt_hash_data"

definition no_hashes :: crypt where
  "no_hashes = \<lparr>g_next_hash = 1, g_hashes = Map.empty\<rparr>"

definition CryptCreateHash :: "u32 \<Rightarrow> crypt \<Rightarrow> u64 \<times> crypt" where
  "CryptCreateHash Algid s =
     (g_next_hash s,
      s\<lparr>g_next_hash := g_next_hash s + 1,
        g_hashes := (g_hashes s)(g_next_hash s \<mapsto> \<lparr>k_algorithm = Algid, k_data = []\<rparr>)\<rparr>)"

definition CryptHashData :: "u64 \<Rightarrow> bytes \<Rightarrow> crypt \<Rightarrow> bool \<times> crypt" where
  "CryptHashData hHash pbData s =
     (case g_hashes s hHash of
        None \<Rightarrow> (False, s)
      | Some h \<Rightarrow> (True, s\<lparr>g_hashes := (g_hashes s)(hHash \<mapsto> h\<lparr>k_data := k_data h @ pbData\<rparr>)\<rparr>))"

definition CryptDestroyHash :: "u64 \<Rightarrow> crypt \<Rightarrow> bool \<times> crypt" where
  "CryptDestroyHash hHash s = (True, s\<lparr>g_hashes := (g_hashes s)(hHash := None)\<rparr>)"

definition digest_size :: "u32 \<Rightarrow> nat" where
  "digest_size alg = (if alg = 0x8003 then 16 else 20)"

definition hash_step :: "u8 \<Rightarrow> u64 \<Rightarrow> u64" where
  "hash_step b h = (h XOR ucast b) * 0x01000193"

text \<open>The bytes of a number in memory, the lowest first.\<close>

definition memory_bytes :: "nat \<Rightarrow> u64 \<Rightarrow> bytes" where
  "memory_bytes n w = map (\<lambda>i. ucast (drop_bit (8 * i) w)) [0..<n]"

text \<open>\<open>memset\<close> and two \<open>memcpy\<close> of eight bytes; both sizes leave room for them.\<close>

definition hash_value :: "u32 \<Rightarrow> bytes \<Rightarrow> bytes" where
  "hash_value alg d =
     memory_bytes 8 (fold hash_step d 0xcbf29ce484222325) @ memory_bytes 8 (fold hash_step d 0x100000001b3) @
     replicate (digest_size alg - 16) 0"

text \<open>Bytes at the start of the caller's buffer; a buffer that is too short is overrun.\<close>

definition store_bytes :: "bytes \<Rightarrow> bytes option \<Rightarrow> fault + bytes option" where
  "store_bytes v pbData =
     (case pbData of
        None \<Rightarrow> Inr None
      | Some b \<Rightarrow> if length v \<le> length b then Inr (Some (v @ drop (length v) b)) else Inl OutOfBounds)"

text \<open>\<open>wants_length\<close>: the pointer for the length is not null.\<close>

definition CryptGetHashParam ::
    "u64 \<Rightarrow> u32 \<Rightarrow> bytes option \<Rightarrow> bool \<Rightarrow> crypt \<Rightarrow> fault + bool \<times> bytes option \<times> nat option" where
  "CryptGetHashParam hHash dwParam pbData wants_length s =
     (if dwParam = 4
      then
        if wants_length
        then
          let size = digest_size (case g_hashes s hHash of Some h \<Rightarrow> k_algorithm h | None \<Rightarrow> 0) in
          bindE (store_bytes (memory_bytes 4 (of_nat size)) pbData) (\<lambda>b. Inr (True, b, Some size))
        else Inr (True, pbData, None)
      else if dwParam = 2
      then
        (case g_hashes s hHash of
           None \<Rightarrow> Inr (False, pbData, None)
         | Some h \<Rightarrow>
           bindE (store_bytes (hash_value (k_algorithm h) (k_data h)) pbData) (\<lambda>b.
             Inr (True, b, if wants_length then Some (digest_size (k_algorithm h)) else None)))
      else Inr (False, pbData, None))"

subsection \<open>Sequences of calls\<close>

datatype crypt_event = New_hash u32 | Add_bytes u64 bytes | Drop_hash u64

fun crypt_call :: "crypt_event \<Rightarrow> crypt \<Rightarrow> crypt" where
  "crypt_call (New_hash alg) s = snd (CryptCreateHash alg s)"
| "crypt_call (Add_bytes h d) s = snd (CryptHashData h d s)"
| "crypt_call (Drop_hash h) s = snd (CryptDestroyHash h s)"

fun hashed :: "u64 \<Rightarrow> crypt_event \<Rightarrow> bytes" where
  "hashed h (Add_bytes h' d) = (if h' = h then d else [])"
| "hashed h c = []"

fun is_create :: "crypt_event \<Rightarrow> bool" where
  "is_create (New_hash alg) = True"
| "is_create c = False"

lemma length_hash_value: "length (hash_value alg d) = digest_size alg"
  by (simp add: hash_value_def memory_bytes_def digest_size_def)

text \<open>A handle keeps its data as long as it is not destroyed and the numbers do not come round to it.\<close>

lemma crypt_calls_data:
  assumes "g_hashes s h = Some \<lparr>k_algorithm = alg, k_data = d\<rparr>" and "Drop_hash h \<notin> set calls"
    and "g_next_hash s = h + 1 + of_nat m" and "m + length (filter is_create calls) < 2 ^ 64 - 1"
  shows "g_hashes (fold crypt_call calls s) h = Some \<lparr>k_algorithm = alg, k_data = d @ concat (map (hashed h) calls)\<rparr>"
  using assms
proof (induction calls arbitrary: s d m)
  case (Cons c calls)
  show ?case
  proof (cases c)
    case (New_hash alg')
    have "(1 :: u64) + of_nat m \<noteq> 0"
    proof -
      have "unat (of_nat (Suc m) :: u64) = Suc m"
        using Cons.prems(4) by (simp add: unat_of_nat take_bit_nat_eq_self del: of_nat_Suc)
      then show ?thesis
        by (metis Zero_not_Suc of_nat_Suc unat_0)
    qed
    then have "g_next_hash s \<noteq> h"
      by (simp add: Cons.prems(3) add.assoc)
    then have "g_hashes (crypt_call c s) h = Some \<lparr>k_algorithm = alg, k_data = d\<rparr>"
      using Cons.prems(1) by (simp add: New_hash CryptCreateHash_def)
    moreover have "g_next_hash (crypt_call c s) = h + 1 + of_nat (Suc m)"
      using Cons.prems(3) by (simp add: New_hash CryptCreateHash_def)
    ultimately show ?thesis
      using Cons.IH [of "crypt_call c s" d "Suc m"] Cons.prems(2,4) by (simp add: New_hash)
  next
    case (Add_bytes h' x)
    have "g_hashes (crypt_call c s) h = Some \<lparr>k_algorithm = alg, k_data = d @ hashed h c\<rparr>"
      "g_next_hash (crypt_call c s) = h + 1 + of_nat m"
      using Cons.prems(1,3) by (auto simp: Add_bytes CryptHashData_def split: option.split)
    then show ?thesis
      using Cons.IH [of "crypt_call c s" "d @ hashed h c" m] Cons.prems(2,4) by (simp add: Add_bytes)
  next
    case (Drop_hash h')
    then have "g_hashes (crypt_call c s) h = Some \<lparr>k_algorithm = alg, k_data = d\<rparr>"
      "g_next_hash (crypt_call c s) = h + 1 + of_nat m"
      using Cons.prems(1-3) by (auto simp: CryptDestroyHash_def)
    then show ?thesis
      using Cons.IH [of "crypt_call c s" d m] Cons.prems(2,4) by (simp add: Drop_hash)
  qed
qed simp

text \<open>
  The value of a hash object depends only on its algorithm and the bytes hashed with its handle, in their
  order, however they are cut into calls and whatever happens to other objects in between; it fills a buffer
  of the size that is asked for first and nothing behind it.
\<close>

theorem hash_of_all_data:
  assumes "CryptCreateHash alg s = (h, s0)" and "Drop_hash h \<notin> set calls"
    and "length (filter is_create calls) < 2 ^ 64 - 1" and "length b \<ge> digest_size alg"
  shows "CryptGetHashParam h 2 (Some b) True (fold crypt_call calls s0) =
      Inr (True, Some (hash_value alg (concat (map (hashed h) calls)) @ drop (digest_size alg) b), Some (digest_size alg)) \<and>
    CryptGetHashParam h 4 None True (fold crypt_call calls s0) = Inr (True, None, Some (digest_size alg))"
proof -
  have start: "g_hashes s0 h = Some \<lparr>k_algorithm = alg, k_data = []\<rparr>" "g_next_hash s0 = h + 1 + of_nat 0"
    using assms(1) by (auto simp: CryptCreateHash_def)
  have "g_hashes (fold crypt_call calls s0) h = Some \<lparr>k_algorithm = alg, k_data = concat (map (hashed h) calls)\<rparr>"
    using crypt_calls_data [OF start(1) assms(2) start(2)] assms(3) by simp
  then show ?thesis
    using assms(4) by (simp add: CryptGetHashParam_def store_bytes_def length_hash_value)
qed

text \<open>Two objects of one table; the data of the first comes in two parts.\<close>

theorem hash_of_all_data_witness:
  "CryptGetHashParam 1 2 (Some (replicate 20 7)) True
     (fold crypt_call [Add_bytes 1 [1], New_hash 0x8004, Add_bytes 2 [9], Add_bytes 1 [2, 3], Drop_hash 2] (snd (CryptCreateHash 0x8003 no_hashes))) =
   Inr (True, Some (hash_value 0x8003 [1, 2, 3] @ replicate 4 7), Some 16)"
proof -
  have "CryptCreateHash 0x8003 no_hashes = (1, snd (CryptCreateHash 0x8003 no_hashes))"
    by (simp add: CryptCreateHash_def no_hashes_def)
  from hash_of_all_data [OF this, of "[Add_bytes 1 [1], New_hash 0x8004, Add_bytes 2 [9], Add_bytes 1 [2, 3], Drop_hash 2]" "replicate 20 7"]
  show ?thesis
    by (simp add: digest_size_def)
qed

text \<open>The length of the buffer is not looked at.\<close>

lemma short_buffer_overrun:
  assumes "g_hashes s h = Some d" and "length b < digest_size (k_algorithm d)"
  shows "CryptGetHashParam h 2 (Some b) True s = Inl OutOfBounds"
  using assms by (simp add: CryptGetHashParam_def store_bytes_def length_hash_value)

section \<open>A UUID\<close>

text \<open>\<open>random\<close>: 16 bytes of \<open>/dev/urandom\<close>, if it gave them, and otherwise \<open>pseudo\<close> of \<open>rand\<close>.\<close>

definition UuidCreate :: "bool \<Rightarrow> bytes option \<Rightarrow> bytes \<Rightarrow> int \<times> bytes option" where
  "UuidCreate null random pseudo =
     (if null then (1, None)
      else
        let b = (case random of Some r \<Rightarrow> r | None \<Rightarrow> pseudo);
            b = b[6 := (b ! 6 AND 0x0f) OR 0x40];
            b = b[8 := (b ! 8 AND 0x3f) OR 0x80] in
        (if random \<noteq> None then 0 else 1824, Some b))"

section \<open>The time\<close>

definition WINDOWS_TICK :: u64 where "WINDOWS_TICK = 10000000"
definition SEC_TO_UNIX_EPOCH :: u64 where "SEC_TO_UNIX_EPOCH = 11644473600"

text \<open>The low and the high half of the time in units of 100 ns.\<close>

definition GetSystemTimeAsFileTime :: "u64 \<Rightarrow> u64 \<Rightarrow> u32 \<times> u32" where
  "GetSystemTimeAsFileTime sec usec =
     (let ticks = (sec + SEC_TO_UNIX_EPOCH) * WINDOWS_TICK + usec * 10 in
      (ucast (ticks AND 0xffffffff), ucast (drop_bit 32 ticks)))"

lemma file_time_halves:
  "case GetSystemTimeAsFileTime sec usec of (low, high) \<Rightarrow>
     push_bit 32 (ucast high) OR ucast low = (sec + SEC_TO_UNIX_EPOCH) * WINDOWS_TICK + usec * 10"
proof -
  have "push_bit 32 (ucast (ucast (drop_bit 32 w) :: u32)) OR ucast (ucast (w AND 0xffffffff) :: u32) = w" for w :: u64
  proof (rule bit_eqI)
    fix n
    assume "possible_bit TYPE(64 word) n"
    have mask: "(0xffffffff :: u64) = mask 32"
      by (simp add: mask_eq_exp_minus_1)
    have "bit w n \<Longrightarrow> n < 64"
      using bit_imp_le_length [of w n] by simp
    then show "bit (push_bit 32 (ucast (ucast (drop_bit 32 w) :: u32)) OR ucast (ucast (w AND 0xffffffff) :: u32) :: u64) n = bit w n"
      unfolding mask by (cases "n < 32") (auto simp: bit_simps)
  qed
  then show ?thesis
    by (simp add: GetSystemTimeAsFileTime_def Let_def)
qed

end
