(* ===== verification/Win_Sections.thy ===== *)
theory Win_Sections
  imports Transition Win_Mutex
begin

text \<open>
  Critical sections of \<open>src/src/winlibs.cpp\<close>: a block on the heap with a recursive POSIX mutex, behind the
  pointer \<open>impl\<close>. Any number of threads use one section. \<open>pthread_mutex_lock\<close> of a recursive mutex waits until
  it is free or the caller's own, \<open>pthread_mutex_unlock\<close> by another thread than the owner fails.
\<close>

section \<open>The code\<close>

datatype section_pc =
    Elsewhere
  | At_lock        \<comment> \<open>in \<open>pthread_mutex_lock\<close>\<close>

text \<open>\<open>x_owner\<close> is the owner of the mutex and how often it holds it.\<close>

record posix_section =
  x_spin_count :: u32
  x_owner :: "(thread \<times> nat) option"

record critical_section =
  x_impl :: "posix_section option"
  x_pc :: "thread \<Rightarrow> section_pc"

definition move :: "thread \<Rightarrow> section_pc \<Rightarrow> critical_section \<Rightarrow> critical_section" where
  "move t p s = s\<lparr>x_pc := (x_pc s)(t := p)\<rparr>"

text \<open>\<open>allocates\<close> and \<open>made\<close>: the answers of \<open>malloc\<close> and \<open>pthread_mutex_init\<close>.\<close>

definition initialize_critical_section ::
    "bool \<Rightarrow> bool \<Rightarrow> u32 \<Rightarrow> critical_section \<Rightarrow> bool \<times> critical_section" where
  "initialize_critical_section allocates made spin_count s =
     (if \<not> allocates then (False, s\<lparr>x_impl := None\<rparr>)
      else (made, s\<lparr>x_impl := Some \<lparr>x_spin_count = spin_count, x_owner = None\<rparr>\<rparr>))"

definition InitializeCriticalSectionAndSpinCount ::
    "bool \<Rightarrow> bool \<Rightarrow> u32 \<Rightarrow> critical_section \<Rightarrow> u32 \<times> critical_section" where
  "InitializeCriticalSectionAndSpinCount allocates made dwSpinCount s =
     (case initialize_critical_section allocates made dwSpinCount s of (ok, s) \<Rightarrow> (if ok then 1 else 0, s))"

definition InitializeCriticalSection :: "bool \<Rightarrow> bool \<Rightarrow> critical_section \<Rightarrow> critical_section" where
  "InitializeCriticalSection allocates made s = snd (initialize_critical_section allocates made 0 s)"

definition DeleteCriticalSection :: "critical_section \<Rightarrow> critical_section" where
  "DeleteCriticalSection s = s\<lparr>x_impl := None\<rparr>"

definition EnterCriticalSection :: "thread \<Rightarrow> critical_section \<Rightarrow> critical_section" where
  "EnterCriticalSection t s = (if x_impl s = None then s else move t At_lock s)"

text \<open>The lock is free or the caller's.\<close>

definition lockable :: "thread \<Rightarrow> critical_section \<Rightarrow> bool" where
  "lockable t s \<longleftrightarrow> (case x_impl s of None \<Rightarrow> False | Some m \<Rightarrow>
     (case x_owner m of None \<Rightarrow> True | Some (u, n) \<Rightarrow> u = t))"

definition mutex_locked :: "thread \<Rightarrow> posix_section \<Rightarrow> posix_section" where
  "mutex_locked t m = m\<lparr>x_owner := (case x_owner m of None \<Rightarrow> Some (t, 1) | Some (u, n) \<Rightarrow> Some (u, n + 1))\<rparr>"

definition enter_locked :: "thread \<Rightarrow> critical_section \<Rightarrow> critical_section" where
  "enter_locked t s = move t Elsewhere (s\<lparr>x_impl := map_option (mutex_locked t) (x_impl s)\<rparr>)"

definition mutex_unlocked :: "thread \<Rightarrow> posix_section \<Rightarrow> posix_section" where
  "mutex_unlocked t m =
     (case x_owner m of
        Some (u, n) \<Rightarrow> if u = t then m\<lparr>x_owner := (if n \<le> 1 then None else Some (u, n - 1))\<rparr> else m
      | None \<Rightarrow> m)"

definition LeaveCriticalSection :: "thread \<Rightarrow> critical_section \<Rightarrow> critical_section" where
  "LeaveCriticalSection t s = s\<lparr>x_impl := map_option (mutex_unlocked t) (x_impl s)\<rparr>"

text \<open>
  The caller initialises a section that is not initialised, and deletes it when nobody holds it or waits for
  it, as Windows asks.
\<close>

definition unused :: "critical_section \<Rightarrow> bool" where
  "unused s \<longleftrightarrow> (\<forall>t. x_pc s t = Elsewhere) \<and> (\<forall>m. x_impl s = Some m \<longrightarrow> x_owner m = None)"

inductive section_step :: "critical_section \<Rightarrow> critical_section \<Rightarrow> bool" where
  init_section: "x_impl s = None \<Longrightarrow> section_step s (snd (InitializeCriticalSectionAndSpinCount allocates made spin s))"
| delete_section: "unused s \<Longrightarrow> section_step s (DeleteCriticalSection s)"
| enter_section: "x_pc s t = Elsewhere \<Longrightarrow> section_step s (EnterCriticalSection t s)"
| lock_section: "x_pc s t = At_lock \<Longrightarrow> lockable t s \<Longrightarrow> section_step s (enter_locked t s)"
| leave_section: "x_pc s t = Elsewhere \<Longrightarrow> section_step s (LeaveCriticalSection t s)"

definition no_section :: critical_section where
  "no_section = \<lparr>x_impl = None, x_pc = (\<lambda>_. Elsewhere)\<rparr>"

section \<open>Refinement of a recursive lock\<close>

text \<open>The specification is that of the MSVCP140 mutex, without its condition variables.\<close>

definition owner_of :: "critical_section \<Rightarrow> (thread \<times> nat) option" where
  "owner_of s = Option.bind (x_impl s) x_owner"

definition abs_section :: "critical_section \<Rightarrow> lock_spec" where
  "abs_section s = \<lparr>a_owner = map_option (\<lambda>(t, n). (t, int n)) (owner_of s), a_saved = (\<lambda>_. None)\<rparr>"

definition section_inv :: "critical_section \<Rightarrow> bool" where
  "section_inv s \<longleftrightarrow> (\<forall>t n. owner_of s = Some (t, n) \<longrightarrow> 1 \<le> n) \<and> (\<forall>t. x_pc s t = At_lock \<longrightarrow> x_impl s \<noteq> None)"

lemma move_fields [simp]:
  "x_impl (move t p s) = x_impl s" "x_pc (move t p s) = (x_pc s)(t := p)" "owner_of (move t p s) = owner_of s"
  "abs_section (move t p s) = abs_section s"
  by (simp_all add: move_def owner_of_def abs_section_def)

lemma owner_locked:
  "lockable t s \<Longrightarrow> owner_of (enter_locked t s) = Some (t, case owner_of s of None \<Rightarrow> 1 | Some (u, n) \<Rightarrow> n + 1)"
  by (auto simp: lockable_def enter_locked_def mutex_locked_def owner_of_def split: option.splits)

lemma owner_unlocked:
  "owner_of (LeaveCriticalSection t s) =
     (case owner_of s of
        Some (u, n) \<Rightarrow> if u = t then (if n \<le> 1 then None else Some (u, n - 1)) else Some (u, n)
      | None \<Rightarrow> None)"
  by (cases "x_impl s") (auto simp: LeaveCriticalSection_def mutex_unlocked_def owner_of_def split: option.splits)

lemma owner_initialized: "x_impl s = None \<Longrightarrow> owner_of (snd (InitializeCriticalSectionAndSpinCount allocates made spin s)) = None"
  by (simp add: InitializeCriticalSectionAndSpinCount_def initialize_critical_section_def owner_of_def)

lemma owner_deleted: "unused s \<Longrightarrow> owner_of s = None \<and> owner_of (DeleteCriticalSection s) = None"
  by (cases "x_impl s") (simp_all add: unused_def owner_of_def DeleteCriticalSection_def)

lemma lockable_owner: "lockable t s \<Longrightarrow> owner_of s = None \<or> (\<exists>n. owner_of s = Some (t, n))"
  by (auto simp: lockable_def owner_of_def split: option.splits)

lemma section_step_inv:
  assumes "section_step s s'" and "section_inv s"
  shows "section_inv s'"
  using assms
proof (induction rule: section_step.induct)
  case (init_section s allocates made spin)
  then show ?case
    using owner_initialized [of s allocates made spin]
    by (simp add: section_inv_def InitializeCriticalSectionAndSpinCount_def initialize_critical_section_def)
next
  case (delete_section s)
  then show ?case
    using owner_deleted [of s] by (auto simp: section_inv_def unused_def DeleteCriticalSection_def)
next
  case (enter_section s t)
  then show ?case
    by (auto simp: section_inv_def EnterCriticalSection_def)
next
  case (lock_section s t)
  then show ?case
    using owner_locked [of t s] by (auto simp: section_inv_def enter_locked_def split: option.splits)
next
  case (leave_section s t)
  then show ?case
    using owner_unlocked [of t s] by (auto simp: section_inv_def LeaveCriticalSection_def split: option.splits if_splits)
qed

lemma section_step_refines:
  assumes "section_step s s'" and "section_inv s"
  shows "abs_section s' = abs_section s \<or> (\<exists>t. lock_spec_step True t (abs_section s) (abs_section s'))"
  using assms
proof (induction rule: section_step.induct)
  case (init_section s allocates made spin)
  then show ?case
    using owner_initialized [of s allocates made spin] by (simp add: abs_section_def owner_of_def)
next
  case (delete_section s)
  then show ?case
    using owner_deleted [of s] by (simp add: abs_section_def)
next
  case (enter_section s t)
  show ?case
    by (simp add: EnterCriticalSection_def)
next
  case (lock_section s t)
  from lockable_owner [OF lock_section.hyps(2)] show ?case
  proof
    assume "owner_of s = None"
    then have "lock_spec_step True t (abs_section s) (abs_section (enter_locked t s))"
      using spec_lock [of "abs_section s" t True] owner_locked [OF lock_section.hyps(2)] by (simp add: abs_section_def)
    then show ?thesis
      by blast
  next
    assume "\<exists>n. owner_of s = Some (t, n)"
    then obtain n where "owner_of s = Some (t, n)" ..
    then have "lock_spec_step True t (abs_section s) (abs_section (enter_locked t s))"
      using spec_nest [of "abs_section s" t "int n"] owner_locked [OF lock_section.hyps(2)] by (simp add: abs_section_def add.commute)
    then show ?thesis
      by blast
  qed
next
  case (leave_section s t)
  show ?case
  proof (cases "\<exists>n. owner_of s = Some (t, n)")
    case True
    then obtain n where n: "owner_of s = Some (t, n)" ..
    then have "1 \<le> n"
      using leave_section.prems by (simp add: section_inv_def)
    then have "lock_spec_step True t (abs_section s) (abs_section (LeaveCriticalSection t s))"
      using spec_unlock [of "abs_section s" t True] spec_unnest [of "abs_section s" t "int n" True] n owner_unlocked [of t s]
      by (cases "n = 1") (simp_all add: abs_section_def of_nat_diff)
    then show ?thesis
      by blast
  next
    case False
    then have "owner_of (LeaveCriticalSection t s) = owner_of s"
      using owner_unlocked [of t s] by (auto split: option.splits)
    then show ?thesis
      by (simp add: abs_section_def)
  qed
qed

interpretation sections: refinement section_step "\<lambda>s. s = no_section" section_inv
  "\<lambda>a b. \<exists>t. lock_spec_step True t a b" abs_section
proof unfold_locales
  show "section_inv s" if "s = no_section" for s
    using that by (simp add: section_inv_def no_section_def owner_of_def)
qed (fact section_step_inv section_step_refines)+

text \<open>
  Critical sections are recursive locks: every run of initialisations, entries, leaves and deletions by any
  threads is a run of the specification; a thread gets in exactly when the section is free or its own.
\<close>

theorem sections_refine_lock:
  assumes "section_step\<^sup>*\<^sup>* no_section s"
  shows "(\<lambda>a b. \<exists>t. lock_spec_step True t a b)\<^sup>*\<^sup>* \<lparr>a_owner = None, a_saved = (\<lambda>_. None)\<rparr> (abs_section s) \<and>
    (x_pc s t = At_lock \<longrightarrow> lockable t s = (owner_of s = None \<or> (\<exists>n. owner_of s = Some (t, n))))"
proof -
  have "abs_section no_section = \<lparr>a_owner = None, a_saved = (\<lambda>_. None)\<rparr>"
    by (simp add: abs_section_def no_section_def owner_of_def)
  moreover have "x_impl s \<noteq> None" if "x_pc s t = At_lock"
    using sections.reachable_inv [OF assms refl] that unfolding section_inv_def by blast
  ultimately show ?thesis
    using sections.runs_implement [OF assms] by (auto simp: lockable_def owner_of_def split: option.splits)
qed

text \<open>One thread enters twice, the other waits.\<close>

theorem sections_refine_lock_witness:
  "\<exists>s. section_step\<^sup>*\<^sup>* no_section s \<and> owner_of s = Some (0, 2) \<and> x_pc s 1 = At_lock \<and> \<not> lockable 1 s"
proof -
  let ?s1 = "snd (InitializeCriticalSectionAndSpinCount True True 4000 no_section)"
  let ?s2 = "enter_locked 0 (EnterCriticalSection 0 ?s1)"
  let ?s3 = "enter_locked 0 (EnterCriticalSection 0 ?s2)"
  let ?s4 = "EnterCriticalSection 1 ?s3"
  note defs = InitializeCriticalSectionAndSpinCount_def initialize_critical_section_def no_section_def enter_locked_def
    mutex_locked_def EnterCriticalSection_def lockable_def owner_of_def
  have "section_step no_section ?s1"
    by (rule section_step.init_section) (simp add: no_section_def)
  moreover have "section_step ?s1 (EnterCriticalSection 0 ?s1)" "section_step ?s2 (EnterCriticalSection 0 ?s2)" "section_step ?s3 ?s4"
    by (rule section_step.enter_section, simp add: defs)+
  moreover have "section_step (EnterCriticalSection 0 ?s1) ?s2" "section_step (EnterCriticalSection 0 ?s2) ?s3"
    by (rule section_step.lock_section; simp add: defs)+
  ultimately have run: "section_step\<^sup>*\<^sup>* no_section ?s4"
    by (meson converse_rtranclp_into_rtranclp rtranclp.rtrancl_refl)
  have at: "x_pc ?s4 1 = At_lock" "owner_of ?s4 = Some (0, 2)"
    by (simp_all add: defs)
  then have "\<not> lockable 1 ?s4"
    using sections_refine_lock [OF run, of 1] by simp
  with run at show ?thesis
    by blast
qed

text \<open>A section whose initialisation failed, which \<open>InitializeCriticalSection\<close> cannot report, lets everybody in.\<close>

lemma failed_section_excludes_nobody:
  "EnterCriticalSection t (InitializeCriticalSection False made s) = InitializeCriticalSection False made s"
  by (simp add: EnterCriticalSection_def InitializeCriticalSection_def initialize_critical_section_def)

end
