(* ===== verification/Spec2Isabelle.thy ===== *)
theory Spec2Isabelle
  imports Loader_Properties Win_Properties Mutex_Properties Load_Properties Shader_Properties String_Properties Win_Onexit
    Sync_Properties Win_Format Win_Rtti Win_Topology Native_Properties Physics_Bridges Havok_Statics Wrapper_Properties
    Cpu_Features Shader_Compiler Win_Text Win_Multiwait Win_Crypto Win_Sections
begin

text \<open>
  This development verifies the Linux wrapper libraries: the loader that lets an unmodified Windows DLL
  (PE32+) run inside a Linux process, the Windows functions such a DLL imports, and the wrappers. Every
  wrapper library (\<open>Havok.cpp\<close>, \<open>Physics.cpp\<close>, \<open>D3DCompiler.cpp\<close>, ...) links the same loader and exports one
  C function per function of its DLL.

  \<^bold>\<open>The parts and how they interact.\<close> \<open>Init\<close> of a wrapper calls \<open>load_dll\<close> (\<open>src/src/dll_loader.cpp\<close>),
  which registers the shims of \<open>winlibs.cpp\<close>, asks \<open>pe_load_library\<close> (\<open>pe_loader.cpp\<close>) for the bytes
  of the DLL and links them: headers, sections, relocations, imports, TLS, \<open>DllMain\<close>. The bytes come
  from a sidecar, an ELF file with the same image and with DWARF unwind tables, when
  \<open>generate_pe_sidecar\<close> (\<open>pe_sidecar.cpp\<close>) can make one; otherwise the raw file is mapped. Imports are
  served from the export table that \<open>register_function\<close> fills (shims, and the exports of images loaded
  before), from DLLs that lie beside the importer (\<open>load_sibling_import\<close>, a nested \<open>load_dll\<close>), or by a
  stub that traps. Every call into PE code first attaches the thread (\<open>pe_ensure_tls_for_loaded_images\<close>);
  the end of a thread detaches it (\<open>pe_cleanup_current_thread\<close>). A wrapper function calls its function of
  the DLL through a pointer that \<open>Init\<close> has looked up with \<open>get_export\<close>, converting structures from the System V
  to the Microsoft convention where the two differ; where the DLL calls back into the host, it gets a bridge
  that converts the other way and finds the function of the host in a slot, by shape or by world.

  \<^bold>\<open>Theories, in the order of their imports.\<close>
  \<^item> \<open>Prelude\<close>: machine words, results of code that throws (a fault on the left), checked access.
    \<open>Bytes\<close>: \<open>u16\<close>, \<open>u32\<close>, \<open>append_u32\<close>, \<open>append_uleb\<close>, \<open>append_sleb\<close> and the locale of codecs they
    instantiate.
  \<^item> \<open>Sidecar_Pe\<close>, \<open>Sidecar_Unwind\<close>: \<open>parse_pe\<close> and \<open>resolve_unwind\<close>. \<open>Sidecar_Cfi\<close>, \<open>Sidecar_Ranges\<close>,
    \<open>Sidecar_Prologue\<close>: \<open>make_cfi_ranges\<close>, \<open>.eh_frame\<close> and \<open>.eh_frame_hdr\<close>, a decoder of the call frame
    instructions and a machine that runs Windows prologues. \<open>Sidecar_Elf\<close>, \<open>Sidecar_Layout\<close>: \<open>build_elf\<close>.
    \<open>Sidecar_Io\<close>: \<open>read_file\<close>, \<open>write_output\<close>, \<open>generate_pe_sidecar\<close>. \<open>Sample\<close>: a PE file the witnesses
    use. Their properties are in this theory.
  \<^item> \<open>Loader_Exports\<close>: the export table, ordinals, \<open>read_exports\<close>, the import thunks. \<open>Loader_Threads\<close>:
    thread contexts, TLS of the images, attach and detach notifications. \<open>Loader_Sidecar\<close>:
    \<open>pe_load_library\<close> with the check and generation of the sidecar, and the thread information block.
    \<open>Loader_Image\<close>: \<open>check_nt_hdr\<close>, \<open>fix_pe_image\<close>, \<open>fixup_reloc\<close>. \<open>Sidecar_Meta\<close>: where generator and
    loader meet. \<open>Loader_Dll\<close>, \<open>Loader_Fuel\<close>: \<open>link_pe_images\<close> and \<open>load_dll\<close> with nested loads. Their
    properties are in \<open>Loader_Properties\<close> and \<open>Load_Properties\<close>.
  \<^item> \<open>Win_Slots\<close>: TLS and FLS. \<open>Win_Memory\<close>: \<open>VirtualAlloc\<close>, \<open>VirtualFree\<close>. \<open>Win_Heap\<close>: heaps and CRT
    allocators. \<open>Win_Mutex\<close>: the futex mutex and condition variable of MSVCP140. \<open>Win_Registration\<close>: the
    table of shims. \<open>Win_Strings\<close>: bounded string functions and paths. \<open>Win_Onexit\<close>: onexit tables. Their
    properties are in \<open>Win_Properties\<close>, \<open>Mutex_Properties\<close>, \<open>String_Properties\<close> and \<open>Win_Onexit\<close>.
  \<^item> \<open>Transition\<close>: the locales of step relations with an invariant and of refinements. \<open>Win_Events\<close>,
    \<open>Win_Threads\<close>, \<open>Win_Semaphores\<close>: the objects \<open>WaitForSingleObjectEx\<close> waits for and their handles; their
    properties are in \<open>Sync_Properties\<close>. \<open>Win_Format\<close>: \<open>format_from_ms_va_list\<close>. \<open>Win_Rtti\<close>:
    \<open>__RTDynamicCast\<close>. \<open>Win_Topology\<close>: processors and cores. Their properties are in the same theories.
  \<^item> \<open>Win_Sections\<close>: critical sections, against the same lock as the mutex of \<open>Win_Mutex\<close>.
  \<^item> \<open>Win_Text\<close>: strings in the caller's buffers and conversions. \<open>Win_Crypto\<close>: hash objects, UUIDs, the system
    time. \<open>Win_Multiwait\<close>: \<open>WaitForMultipleObjects\<close>. \<open>Cpu_Features\<close>: \<open>cpu_features.cpp\<close>.
  \<^item> \<open>Shader_Include\<close>, \<open>Shader_Properties\<close>: the include handler of \<open>D3DCompiler.cpp\<close>. \<open>Shader_Compiler\<close>: its
    \<open>Init\<close> and its entry points.
  \<^item> \<open>Wrapper_Abi\<close>: types, values and calls of the two conventions, what a wrapper passes, and the ways
    the libraries look their pointers up. \<open>Wrapper_Voxels\<close> (\<open>VRageNative.cpp\<close>, \<open>Voxels.cpp\<close>), \<open>Wrapper_Kythera\<close>
    (\<open>KytheraV2.cpp\<close>), \<open>Wrapper_Small\<close> (\<open>RecastDetour.cpp\<close>, \<open>Slug.cpp\<close>), \<open>Wrapper_Havok\<close>, \<open>Wrapper_Physics\<close>: the wrappers
    and pointers of each library as tables in the order of its file. Their properties are in
    \<open>Wrapper_Properties\<close>.
  \<^item> \<open>Physics_Contacts\<close>: sessions, worlds and the routing of contacts. \<open>Physics_Bridges\<close>: character
    controllers and callback slots. \<open>Havok_Callbacks\<close>, \<open>Havok_Statics\<close>: static callbacks, phantom shapes and
    readers. Their properties are in \<open>Native_Properties\<close> and the theories themselves.

  \<^bold>\<open>How state and effects are modelled.\<close> A structure is a record, a C array with a counter is a list, a
  pointer to an object is its address or number, a word of w bits is a \<open>w word\<close>. Sizes and offsets that
  the code has checked against the length of a vector are natural numbers; where wrap-around can happen
  they are words. An access outside a vector, a read of an unmapped byte and a free of a block that is
  not live are values of the model (\<open>OutOfBounds\<close>, a fault flag), so that their absence is a theorem.
  System calls take their results from lists of answers that the theorems quantify over: a short read, an
  interrupted call or a failing allocation can happen at every call. Threads are interleaved by step
  relations (\<open>loader_step\<close>, \<open>vm_step\<close>, \<open>process_step\<close>, \<open>fls_step\<close>, \<open>mutex_step\<close>, \<open>event_step\<close>, \<open>thread_step\<close>, \<open>semaphore_step\<close>, \<open>onexit_run\<close>, \<open>include_step\<close>,
  \<open>contact_step\<close>, \<open>phantom_step\<close>, \<open>reader_step\<close>, \<open>compiler_step\<close>, \<open>multi_step\<close>): a region
  under one lock is one step, an access without a lock is a step of its own: \<open>FlsSetValue\<close> and
  \<open>FlsGetValue\<close> check the index in one step and access the value in another. Calls into PE code
  are events of a trace or functions the theorems quantify over.

  \<^bold>\<open>What the groups of lemmas show.\<close> The sidecar: nothing is read or written out of bounds, the ELF file
  maps the image byte for byte, its hash table resolves every symbol, the frame tables cover exactly the
  executable addresses and decode to instructions that recover the frame of the caller at every point of
  the prologue. The loader: relocation moves exactly the sites of the table, the bookkeeping of exports,
  handles, mapped pages and attached threads is exact on every path, failures included; it shows the page that
  giving up an image expanded by \<open>fix_pe_image\<close> leaves mapped. The shims: slots, reservations, heaps, the
  mutex, events, threads, semaphores, onexit tables, bounded strings and formatted output keep their
  contracts, which say what they ask of the callers (\<open>crt_contract\<close>, \<open>no_set_in_flight\<close>) and of the device. The wrappers: each makes the call the Microsoft convention prescribes for its
  signature and reaches the export of its own name or throws; callbacks reach the function the host gave
  for that session, shape or call, whatever addresses are reused and however threads interleave.

  \<^bold>\<open>Bounds and fuel.\<close> Loops over data are structural or have a measure: the recursion of
  \<open>resolve_unwind\<close> ends by the limit \<open>kMaxChainDepth\<close> the code itself has, the loop over a format string by
  the length of the rest. The loop that follows a hash chain is a \<open>fun\<close> with fuel, as many steps as the chain array has
  entries, and \<open>build_elf_output\<close> shows that it returns. The other function with fuel is \<open>load_dll\<close>; it ends because every nested load appends a module to
  the list of attempted ones before it starts (\<open>load_recursion_ends\<close>: fuel above the number of modules not
  attempted yet never runs out). The page size is 4096 and the number of sections, directories and codes is
  what the headers say, at most their field width.

  \<^bold>\<open>Not modelled.\<close> What PE code does; log messages; \<open>fprintf\<close> texts in exceptions. The loader's variant
  for executables (\<open>link_pe_images\<close> asks for DLLs only). How the compiler passes a System V argument: the model starts from the
  values of the parameters. In \<open>winlibs.cpp\<close>, shims that hand their arguments
  to one function of the C library, answer with a constant or use floating point. Where a theorem needs
  documented behaviour of the dynamic linker or the kernel, it is a hypothesis or a parameter.
\<close>

section \<open>The PE reader\<close>

text \<open>
  C1: Whatever the bytes of the input file, \<open>parse_pe\<close> either returns or throws a
  \<open>std::runtime_error\<close>: no unchecked \<open>operator[]\<close>, pointer or \<open>std::copy_n\<close> goes outside its vector.
\<close>
theorem parse_pe_in_bounds: "parse_pe data \<noteq> Inl OutOfBounds"
  by (rule parse_pe_never_oob)

text \<open>
  C5: What an accepted PE satisfies: an image of at most \<open>kMaxImageSize\<close> bytes, executable ranges
  inside it and apart, \<open>RUNTIME_FUNCTION\<close>s that ascend without overlap inside executable ranges, one
  list of decoded unwind operations per function (ordered, within the function, registers and sizes
  as the format allows), and exports with a plain name whose target is executable.
\<close>
theorem parse_pe_wellformed: "parse_pe data = Inr pe \<Longrightarrow> parsed_ok data pe"
  by (rule parse_pe_parsed_ok)

theorem parse_pe_wellformed_witness: "parsed_ok sample_pe sample_parsed"
  by (rule parse_pe_wellformed [OF parse_sample])

text \<open>
  The image is the virtual layout of the file: the headers at 0 and the raw data of every section
  at its RVA, none overwriting another.
\<close>
theorem parse_pe_image:
  assumes "parse_pe data = Inr pe"
  shows "\<exists>h ss. parse_headers data = Inr h \<and> parse_sections data h = Inr ss \<and>
    length (p_image pe) = h_image_size h \<and>
    (\<forall>i < h_headers_size h. p_image pe ! i = data ! i) \<and>
    (\<forall>s \<in> set ss. \<forall>j < s_raw_size s. p_image pe ! (s_rva s + j) = data ! (s_raw_offset s + j))"
proof -
  obtain h ss where h: "parse_headers data = Inr h" and ss: "parse_sections data h = Inr ss"
    and img: "layout_image data h ss = Inr (p_image pe)"
    using assms by (auto simp: parse_pe_def result_simps Let_def)
  have ok: "header_ok data h" "sections_ok data h ss"
    using h ss by (auto intro: parse_headers_ok parse_sections_ok)
  then have each: "list_all (section_ok data h) ss"
    by (simp add: sections_ok_def)
  have "length (p_image pe) = h_image_size h"
    using layout_image_total [OF ok(1) each] img by simp
  then show ?thesis
    using h ss layout_image_headers [OF img ok(1) each] layout_image_sections [OF img ok(2)] by blast
qed

theorem parse_pe_image_witness:
  "length (p_image sample_parsed) = 360 \<and> p_image sample_parsed ! 60 = sample_pe ! 60 \<and>
   p_image sample_parsed ! (272 + 5) = sample_pe ! (272 + 5)"
proof -
  have "h_image_size sample_header = 360" "h_headers_size sample_header = 272"
    "s_rva sample_section = 272" "s_raw_offset sample_section = 272" "s_raw_size sample_section = 88"
    by (simp_all add: sample_header_def sample_section_def)
  then have "length (p_image sample_parsed) = 360 \<and> (\<forall>i < 272. p_image sample_parsed ! i = sample_pe ! i) \<and>
      (\<forall>j < 88. p_image sample_parsed ! (272 + j) = sample_pe ! (272 + j))"
    using parse_pe_image [OF parse_sample] by (simp add: sample_headers sample_sections)
  moreover have "(60 :: nat) < 272" "(5 :: nat) < 88"
    by simp_all
  ultimately show ?thesis
    by blast
qed

section \<open>Encoders\<close>

text \<open>
  What \<open>append_uleb\<close>, \<open>append_sleb\<close> and \<open>append_u32\<close> append, the standard readers read back,
  whatever was there before and whatever follows.
\<close>
theorem writers_read_back:
  "read_uleb (drop (length out) (append_uleb out v @ rest)) = Some (unat v, rest) \<and>
   read_sleb (drop (length out) (append_sleb out v @ rest)) = Some (sint v, rest) \<and>
   u32 (append_u32 out w @ rest) (length out) = Inr w"
  by (simp add: append_uleb_eq [of out] append_sleb_eq [of out] read_uleb_uleb read_sleb_sleb
      u32_append_u32)

text \<open>
  \<open>align_up\<close> on a power of two throws exactly when the result would not fit in 64 bits, and
  otherwise returns the least multiple that is not below its argument.
\<close>
theorem align_up_least:
  assumes "k < 64"
  shows "case align_up v (2 ^ k) of
      Inl e \<Rightarrow> unat v > 2 ^ 64 - 2 ^ k
    | Inr w \<Rightarrow> unat v \<le> unat w \<and> unat w < unat v + 2 ^ k \<and> 2 ^ k dvd unat w"
proof -
  have v: "unat v < 2 ^ 64" "of_nat (unat v) = v"
    using unsigned_less [of v, where ?'a = nat] by simp_all
  have pow: "1 \<le> (2 :: nat) ^ k" "(2 :: nat) ^ k \<le> 2 ^ 64"
    using assms by (simp, intro power_increasing) simp_all
  have eq: "align_up v (2 ^ k) = bindE (align_offset (unat v) (2 ^ k)) (\<lambda>w. Inr (of_nat w))"
    using align_offset_word [OF v(1) assms] v(2) by simp
  show ?thesis
  proof (cases "align_offset (unat v) (2 ^ k)")
    case (Inl e)
    then have "unat v > 2 ^ 64 - 1 - (2 ^ k - 1)"
      by (simp add: align_offset_def split: if_splits)
    then show ?thesis
      using Inl eq pow by simp
  next
    case (Inr w)
    note b = align_offset_bounds [OF Inr zero_less_power [OF zero_less_numeral]]
    have "unat v \<le> 2 ^ 64 - 1 - (2 ^ k - 1)"
      using Inr by (auto simp: align_offset_def split: if_splits)
    then have "w < 2 ^ 64"
      using b(2) pow(2) by linarith
    then have "unat (of_nat w :: u64) = w"
      by (simp add: unat_of_nat)
    with b show ?thesis
      by (simp add: eq Inr)
  qed
qed

theorem align_up_least_witness:
  "case align_up 4097 (2 ^ 12) of
      Inl e \<Rightarrow> unat (4097 :: u64) > 2 ^ 64 - 2 ^ 12
    | Inr w \<Rightarrow> unat (4097 :: u64) \<le> unat w \<and> unat w < unat (4097 :: u64) + 2 ^ 12 \<and> 2 ^ 12 dvd unat w"
  by (rule align_up_least) simp

section \<open>The frame section\<close>

text \<open>
  C4: The ranges that get a frame description entry ascend without overlap, none is empty, and they
  cover exactly the executable addresses of the image, whether or not a function covers them.
\<close>
theorem cfi_ranges_partition:
  assumes "parse_pe data = Inr pe"
  shows "sorted_wrt (\<lambda>r s. g_end r \<le> g_begin s) (make_cfi_ranges pe) \<and>
    (\<forall>r \<in> set (make_cfi_ranges pe). g_begin r < g_end r) \<and>
    (\<forall>x. (\<exists>r \<in> set (make_cfi_ranges pe). covers r x) \<longleftrightarrow> in_ranges (p_executable pe) x)"
proof -
  have ok: "parsed_ok data pe"
    using assms by (rule parse_pe_parsed_ok)
  show ?thesis
    using make_cfi_ranges_ascending [OF ok] make_cfi_ranges_nonempty [OF ok]
      make_cfi_ranges_cover [OF ok] by (simp add: range_nonempty_def)
qed

theorem cfi_ranges_partition_witness:
  "sorted_wrt (\<lambda>r s. g_end r \<le> g_begin s) (make_cfi_ranges sample_parsed) \<and>
    (\<exists>r \<in> set (make_cfi_ranges sample_parsed). covers r 300)"
proof -
  have "in_ranges (p_executable sample_parsed) 300"
    by (simp add: in_ranges_def sample_parsed_def)
  then show ?thesis
    using cfi_ranges_partition [OF parse_sample] by blast
qed

text \<open>
  C2: The unwind entries of a planned sidecar restore the caller. For every range of an accepted PE
  and every offset from its start, a DWARF consumer that reads the CIE and the range's FDE from the
  bytes of \<open>.eh_frame\<close> and executes their instructions up to that offset gets a row that gives, in the
  machine state the executed prologue operations lead to, the canonical frame address of the
  function's entry and the address of every save slot. The hypothesis on the operations is the
  format's: a hardware frame, if there is one, comes first. The section is below 4 GiB, as its pointers
  need.
\<close>
theorem unwinding_restores:
  assumes "parse_pe data = Inr pe" and "plan_elf pe path = Some (Inr p)"
    and "length (e_eh_frame p) < 2 ^ 32" and "i < length (make_cfi_ranges pe)"
    and "r = make_cfi_ranges pe ! i" and "machine_first (g_inherited r @ g_operations r)"
  shows "\<exists>w. section_row (e_eh_frame p) (of_nat (l_eh_frame (e_layout p))) (unat (e_offsets p ! i)) pc = Some w \<and>
    restores (entry_cfa (executed r pc) rsp) w (fold exec_op (executed r pc) (at_entry rsp regs))"
proof -
  note d = plan_okD [OF plan_elf_ok [OF assms(2)]]
  have "r \<in> set (make_cfi_ranges pe)"
    using assms(4,5) by simp
  note ops = make_cfi_ranges_operations [OF parse_pe_parsed_ok [OF assms(1)] this]
  show ?thesis
    using section_row_restores [OF d(5) assms(3), of i "g_end r - g_begin r"] ops assms(4-6) d(4) by simp
qed

lemma sample_range_first: "machine_first (g_inherited (sample_ranges2 ! 0) @ g_operations (sample_ranges2 ! 0))"
  by (simp add: sample_ranges2_def machine_first_def)

theorem unwinding_restores_witness:
  "\<exists>p w. plan_elf sample_parsed sample_path = Some (Inr p) \<and>
     section_row (e_eh_frame p) (of_nat (l_eh_frame (e_layout p))) (unat (e_offsets p ! 0)) 6 = Some w \<and>
     restores (entry_cfa (executed (sample_ranges2 ! 0) 6) 4096) w
       (fold exec_op (executed (sample_ranges2 ! 0) 6) (at_entry 4096 (\<lambda>_. 0)))"
proof -
  obtain p where p: "plan_elf sample_parsed sample_path = Some (Inr p)" "length (e_eh_frame p) < 2 ^ 32"
    using sample_plan by blast
  have "0 < length (make_cfi_ranges sample_parsed)" and "sample_ranges2 ! 0 = make_cfi_ranges sample_parsed ! 0"
    by (simp_all add: sample_cfi_ranges) (simp add: sample_ranges2_def)
  from unwinding_restores [OF parse_sample p this sample_range_first] p(1) show ?thesis
    by blast
qed

text \<open>
  C3: The unwind tables of a planned sidecar lead a consumer to the right entry: for every executable
  address the sorted table in \<open>.eh_frame_hdr\<close> has an entry whose range contains it, and the FDE it
  points to in \<open>.eh_frame\<close> decodes to that range's start, length and instructions.
\<close>
theorem unwind_tables_complete:
  assumes "parse_pe data = Inr pe" and "plan_elf pe path = Some (Inr p)"
    and "length (e_eh_frame p) < 2 ^ 32" and "in_ranges (p_executable pe) x"
  shows "\<exists>i < length (e_ranges p). covers (e_ranges p ! i) x \<and>
    read_hdr_entry (of_nat (l_eh_frame_hdr (e_layout p))) (e_eh_frame_hdr p) i =
      Some (of_nat (g_begin (e_ranges p ! i)),
            of_nat (l_eh_frame (e_layout p)) + ucast (e_offsets p ! i)) \<and>
    fde_of 0 (e_ranges p ! i)
      (read_fde (of_nat (l_eh_frame (e_layout p))) (e_eh_frame p) (unat (e_offsets p ! i)))"
proof -
  note d = plan_okD [OF plan_elf_ok [OF assms(2)]]
  obtain r where "r \<in> set (e_ranges p)" and cov: "covers r x"
    using make_cfi_ranges_cover [OF parse_pe_parsed_ok [OF assms(1)], of x] assms(4) d(4) by auto
  then obtain i where i: "i < length (e_ranges p)" "e_ranges p ! i = r"
    by (auto simp: in_set_conv_nth)
  have "length (e_offsets p) = length (e_ranges p)"
    using d(5) by (rule build_eh_frame_length)
  moreover from this have "read_hdr_entry (of_nat (l_eh_frame_hdr (e_layout p))) (e_eh_frame_hdr p) i =
      Some (0 + of_nat (g_begin (e_ranges p ! i)),
            of_nat (l_eh_frame (e_layout p)) + ucast (e_offsets p ! i))"
    using eh_frame_hdr_read [OF d(6)] i(1) by blast
  ultimately show ?thesis
    using eh_frame_read [OF d(5) assms(3)] i cov
    by (intro exI [of _ i]) (auto simp: list_all2_conv_all_nth)
qed

theorem unwind_tables_complete_witness:
  "\<exists>p. plan_elf sample_parsed sample_path = Some (Inr p) \<and> (\<exists>i < length (e_ranges p). covers (e_ranges p ! i) 275 \<and>
    read_hdr_entry (of_nat (l_eh_frame_hdr (e_layout p))) (e_eh_frame_hdr p) i =
      Some (of_nat (g_begin (e_ranges p ! i)),
            of_nat (l_eh_frame (e_layout p)) + ucast (e_offsets p ! i)) \<and>
    fde_of 0 (e_ranges p ! i)
      (read_fde (of_nat (l_eh_frame (e_layout p))) (e_eh_frame p) (unat (e_offsets p ! i))))"
proof -
  obtain p where p: "plan_elf sample_parsed sample_path = Some (Inr p)" "length (e_eh_frame p) < 2 ^ 32"
    using sample_plan by blast
  have "in_ranges (p_executable sample_parsed) 275"
    by (simp add: in_ranges_def sample_parsed_def)
  from unwind_tables_complete [OF parse_sample p this] p(1) show ?thesis
    by blast
qed

section \<open>The output file\<close>

text \<open>
  C6: The dynamic symbol table: its hash table is always built, it resolves every function symbol and
  marker to its own entry, and it never resolves a PE export name (other than a reserved marker
  name), so the raw Microsoft-ABI code cannot be bound by name.
\<close>
theorem dlsym_resolution:
  "\<exists>table. build_hash (build_symbols pe path) = Some (Inr table) \<and>
    (\<forall>i < length (build_symbols pe path). y_lookup (build_symbols pe path ! i) \<longrightarrow>
       elf_lookup (build_symbols pe path) table (y_name (build_symbols pe path ! i)) = Some (Some (i + 1))) \<and>
    (\<forall>x \<in> set (p_exports pe). x_name x \<notin> set reserved_names \<longrightarrow>
       elf_lookup (build_symbols pe path) table (x_name x) = Some None)"
proof -
  let ?ys = "build_symbols pe path"
  obtain table where table: "build_hash ?ys = Some (Inr table)"
    and ok: "table_ok ?ys (length ?ys + 1) table"
    using build_hash_ok by blast
  have "elf_lookup ?ys table (y_name (?ys ! i)) = Some (Some (i + 1))"
    if "i < length ?ys" "y_lookup (?ys ! i)" for i
    using elf_lookup_resolves [OF ok build_symbols_distinct that] .
  moreover have "elf_lookup ?ys table (x_name x) = Some None"
    if "x \<in> set (p_exports pe)" "x_name x \<notin> set reserved_names" for x
    using elf_lookup_unresolved [OF ok] export_not_resolved [OF that] by blast
  ultimately show ?thesis
    using table by blast
qed

theorem dlsym_resolution_witness:
  "\<exists>table. build_hash (build_symbols sample_parsed sample_path) = Some (Inr table) \<and>
     elf_lookup (build_symbols sample_parsed sample_path) table (ascii ''f'') = Some None"
proof -
  have "\<lparr>x_name = ascii ''f'', x_rva = 272\<rparr> \<in> set (p_exports sample_parsed)"
    by (simp add: sample_parsed_def)
  moreover have "ascii ''f'' \<notin> set reserved_names"
    by (simp add: reserved_names_def ascii_def)
  ultimately show ?thesis
    using dlsym_resolution [of sample_parsed sample_path] by fastforce
qed

text \<open>
  C7: \<open>build_elf\<close> always ends, never writes outside the output vector, and once its plan is made the
  writes cannot fail: the range checks of \<open>copy_object\<close> and \<open>copy_bytes\<close> never fire, and every table
  it wrote is in the output unchanged.
\<close>
theorem build_elf_output:
  "\<exists>r. build_elf pe path = Some r \<and> r \<noteq> Inl OutOfBounds \<and>
    (\<forall>p. plan_elf pe path = Some (Inr p) \<longrightarrow>
      (\<exists>out. r = Inr out \<and> length out = t_file_size (e_tail p) \<and>
        (\<forall>w \<in> set (e_writes p). slice_at out (w_offset w) (length (w_bytes w)) = w_bytes w)))"
  using build_elf_total [of pe path] build_elf_writes [of pe path] by fastforce

theorem build_elf_output_witness:
  "\<exists>p out. plan_elf sample_parsed sample_path = Some (Inr p) \<and>
     build_elf sample_parsed sample_path = Some (Inr out) \<and> length out = t_file_size (e_tail p)"
proof -
  obtain p where p: "plan_elf sample_parsed sample_path = Some (Inr p)"
    using sample_plan by blast
  with build_elf_output [of sample_parsed sample_path] show ?thesis
    by (intro exI [of _ p]) auto
qed

text \<open>
  C8: The segments are loadable (offsets and addresses congruent modulo the page, inside the file,
  on pages of their own in ascending order), and a loader maps the PE image byte for byte at address
  0, where the unwind tables and the symbols say it is.
\<close>
theorem sidecar_loads_image:
  assumes "plan_elf pe path = Some (Inr p)" and "build_elf pe path = Some (Inr out)"
  shows "loadable (e_phdrs p) (length out) \<and>
    (\<forall>i < length (p_image pe). mapped_byte (e_phdrs p) out i = Some (p_image pe ! i))"
proof -
  have ok: "plan_ok pe path p"
    using assms(1) by (rule plan_elf_ok)
  have len: "length out = t_file_size (e_tail p)"
    and slices: "\<forall>w \<in> set (e_writes p). slice_at out (w_offset w) (length (w_bytes w)) = w_bytes w"
    using build_elf_writes [OF assms(1)] assms(2) by auto
  have "Copy text_offset (p_image pe) \<in> set (e_writes p)"
    using ok by (auto simp: plan_ok_def Let_def)
  with slices have "slice_at out text_offset (length (p_image pe)) = p_image pe"
    by fastforce
  then show ?thesis
    using plan_loadable [OF ok] mapped_text [OF ok _ len] len by simp
qed

theorem sidecar_loads_image_witness:
  "\<exists>p out. plan_elf sample_parsed sample_path = Some (Inr p) \<and> loadable (e_phdrs p) (length out) \<and>
    mapped_byte (e_phdrs p) out 290 = Some (p_image sample_parsed ! 290)"
proof -
  obtain p where p: "plan_elf sample_parsed sample_path = Some (Inr p)"
    using sample_plan by blast
  then obtain out where out: "build_elf sample_parsed sample_path = Some (Inr out)"
    using build_elf_writes by blast
  have "290 < length (p_image sample_parsed)"
    by (simp add: sample_parsed_def)
  with p sidecar_loads_image [OF p out] show ?thesis
    by blast
qed

end
